(* ===== verification/Prelude.thy ===== *)
theory Prelude
  imports Main "HOL-Library.Word" "HOL-Library.Sublist"
begin

text \<open>
  The vocabulary shared by every component: JavaScript values as a datatype, truthiness,
  property access, the string methods the sources call, and the lemma collections the
  component proofs use.

  Strings.  A JavaScript string is a list of UTF-16 code units; here it is a
  \<^typ>\<open>string\<close>, that is a list of 8-bit code units, so the model is exact for
  strings whose code units are below 256 (Latin-1).  On that range \<open>toLowerCase\<close>,
  \<open>trim\<close> and the regular-expression class \<open>\s\<close> are the ones of the language
  standard.  Numbers are the integers: status codes, timestamps in milliseconds, counts.
\<close>

unbundle bit_operations_syntax

named_theorems js_simps \<open>equations of the JavaScript operators\<close>
named_theorems world_simps \<open>frame equations of the browser state\<close>

section \<open>Values\<close>

datatype jsv =
    JUndef
  | JNull
  | JBool bool
  | JNum int
  | JStr string
  | JArr "jsv list"
  | JObj "(string \<times> jsv) list"

text \<open>Truthiness: \<open>undefined\<close>, \<open>null\<close>, \<open>false\<close>, \<open>0\<close> and the empty string are
  falsy, everything else is truthy.\<close>

fun truthy :: "jsv \<Rightarrow> bool" where
  "truthy JUndef = False"
| "truthy JNull = False"
| "truthy (JBool b) = b"
| "truthy (JNum n) = (n \<noteq> 0)"
| "truthy (JStr s) = (s \<noteq> [])"
| "truthy (JArr _) = True"
| "truthy (JObj _) = True"

fun nullish :: "jsv \<Rightarrow> bool" where
  "nullish JUndef = True"
| "nullish JNull = True"
| "nullish _ = False"

text \<open>\<open>a || b\<close> and \<open>a ?? b\<close>.\<close>

definition js_or :: "jsv \<Rightarrow> jsv \<Rightarrow> jsv" where
  "js_or a b = (if truthy a then a else b)"

definition js_nullish :: "jsv \<Rightarrow> jsv \<Rightarrow> jsv" where
  "js_nullish a b = (if nullish a then b else a)"

text \<open>Own-property lookup in an object; the first entry of a key counts, since the
  constructors of the model never create two.\<close>

fun assoc :: "string \<Rightarrow> (string \<times> 'a) list \<Rightarrow> 'a option" where
  "assoc k [] = None"
| "assoc k ((k', v) # kvs) = (if k = k' then Some v else assoc k kvs)"

text \<open>\<open>v.k\<close>: reading a property of \<open>undefined\<close> or \<open>null\<close> throws a \<open>TypeError\<close>
  (\<^term>\<open>None\<close>); a missing property, or a property of a primitive or an array that is
  not one of the language's own, is \<open>undefined\<close>.\<close>

fun js_prop :: "jsv \<Rightarrow> string \<Rightarrow> jsv option" where
  "js_prop JUndef k = None"
| "js_prop JNull k = None"
| "js_prop (JObj kvs) k = Some (case assoc k kvs of None \<Rightarrow> JUndef | Some v \<Rightarrow> v)"
| "js_prop _ k = Some JUndef"

text \<open>\<open>v?.k\<close>: the same without the exception.\<close>

definition js_opt_prop :: "jsv \<Rightarrow> string \<Rightarrow> jsv" where
  "js_opt_prop v k = (case js_prop v k of None \<Rightarrow> JUndef | Some u \<Rightarrow> u)"

definition is_array :: "jsv \<Rightarrow> bool" where
  "is_array v = (case v of JArr _ \<Rightarrow> True | _ \<Rightarrow> False)"

fun arr_items :: "jsv \<Rightarrow> jsv list" where
  "arr_items (JArr vs) = vs"
| "arr_items _ = []"

lemma js_or_simps [simp, js_simps]:
  "truthy a \<Longrightarrow> js_or a b = a"
  "\<not> truthy a \<Longrightarrow> js_or a b = b"
  by (simp_all add: js_or_def)

lemma js_nullish_simps [simp, js_simps]:
  "js_nullish JUndef b = b"
  "js_nullish JNull b = b"
  "\<not> nullish a \<Longrightarrow> js_nullish a b = a"
  by (simp_all add: js_nullish_def)

lemma truthy_js_or [simp]: "truthy (js_or a b) \<longleftrightarrow> truthy a \<or> truthy b"
  by (simp add: js_or_def)

lemma js_opt_prop_simps [simp, js_simps]:
  "js_opt_prop JUndef k = JUndef"
  "js_opt_prop JNull k = JUndef"
  "js_opt_prop (JObj kvs) k = (case assoc k kvs of None \<Rightarrow> JUndef | Some v \<Rightarrow> v)"
  "js_opt_prop (JStr s) k = JUndef"
  "js_opt_prop (JArr vs) k = JUndef"
  "js_opt_prop (JNum n) k = JUndef"
  "js_opt_prop (JBool b) k = JUndef"
  by (simp_all add: js_opt_prop_def)

lemma js_prop_Some: "js_prop v k = Some u \<Longrightarrow> js_opt_prop v k = u"
  by (simp add: js_opt_prop_def)

lemma js_prop_None: "js_prop v k = None \<longleftrightarrow> nullish v"
  by (cases v) auto

section \<open>Strings\<close>

text \<open>\<open>String.prototype.toLowerCase\<close> on a code unit below 256.\<close>

definition lower_char :: "char \<Rightarrow> char" where
  "lower_char c = (let n = of_char c :: nat in
     if (65 \<le> n \<and> n \<le> 90) \<or> (192 \<le> n \<and> n \<le> 222 \<and> n \<noteq> 215) then char_of (n + 32) else c)"

definition to_lower :: "string \<Rightarrow> string" where
  "to_lower s = map lower_char s"

text \<open>White space of \<open>trim\<close> and of \<open>\s\<close>: tab, line feed, vertical tab, form feed,
  carriage return, space and no-break space.\<close>

definition is_space :: "char \<Rightarrow> bool" where
  "is_space c = ((of_char c :: nat) \<in> {9, 10, 11, 12, 13, 32, 160})"

definition trim_end :: "string \<Rightarrow> string" where
  "trim_end s = rev (dropWhile is_space (rev s))"

definition trim :: "string \<Rightarrow> string" where
  "trim s = trim_end (dropWhile is_space s)"

text \<open>\<open>s.split(d)\<close> for a one-character separator.\<close>

fun split_on :: "char \<Rightarrow> string \<Rightarrow> string list" where
  "split_on d [] = [[]]"
| "split_on d (c # cs) =
     (if c = d then [] # split_on d cs
      else (case split_on d cs of [] \<Rightarrow> [[c]] | w # ws \<Rightarrow> (c # w) # ws))"

text \<open>\<open>xs.join(d)\<close>.\<close>

fun join_on :: "char \<Rightarrow> string list \<Rightarrow> string" where
  "join_on d [] = []"
| "join_on d [w] = w"
| "join_on d (w # ws) = w @ d # join_on d ws"

text \<open>\<open>s.startsWith(p)\<close> and \<open>s.includes(p)\<close>.\<close>

definition starts_with :: "string \<Rightarrow> string \<Rightarrow> bool" where
  "starts_with s p = prefix p s"

fun str_includes :: "string \<Rightarrow> string \<Rightarrow> bool" where
  "str_includes [] p = (p = [])"
| "str_includes (c # cs) p = (prefix p (c # cs) \<or> str_includes cs p)"

text \<open>\<open>s.replace(/c/g, t)\<close> for a one-character pattern.\<close>

definition replace_all :: "char \<Rightarrow> string \<Rightarrow> string \<Rightarrow> string" where
  "replace_all c t s = concat (map (\<lambda>x. if x = c then t else [x]) s)"

text \<open>Decimal digits of a natural number, as \<open>String(n)\<close> prints them.\<close>

definition digit_char :: "nat \<Rightarrow> char" where
  "digit_char d = char_of (48 + d)"

fun show_nat :: "nat \<Rightarrow> string" where
  "show_nat n = (if n < 10 then [digit_char n] else show_nat (n div 10) @ [digit_char (n mod 10)])"

declare show_nat.simps [simp del]

definition show_int :: "int \<Rightarrow> string" where
  "show_int n = (if n < 0 then CHR ''-'' # show_nat (nat (- n)) else show_nat (nat n))"

lemma to_lower_append [simp]: "to_lower (s @ t) = to_lower s @ to_lower t"
  by (simp add: to_lower_def)

lemma to_lower_Nil [simp]: "to_lower s = [] \<longleftrightarrow> s = []"
  by (simp add: to_lower_def)

lemma lower_char_idem [simp]: "lower_char (lower_char c) = lower_char c"
proof (cases "(65 \<le> (of_char c :: nat) \<and> (of_char c :: nat) \<le> 90) \<or>
    (192 \<le> (of_char c :: nat) \<and> (of_char c :: nat) \<le> 222 \<and> (of_char c :: nat) \<noteq> 215)")
  case True
  then have lt: "(of_char c :: nat) + 32 < 256" by auto
  then have *: "(of_char (char_of ((of_char c :: nat) + 32) :: char) :: nat) = of_char c + 32"
    by (simp add: of_char_of take_bit_eq_mod)
  have "lower_char c = char_of ((of_char c :: nat) + 32)"
    using True by (simp add: lower_char_def Let_def)
  moreover have "lower_char (char_of ((of_char c :: nat) + 32)) = char_of ((of_char c :: nat) + 32)"
    using True by (auto simp: lower_char_def Let_def *)
  ultimately show ?thesis by simp
next
  case False
  then have "lower_char c = c" by (auto simp: lower_char_def Let_def)
  then show ?thesis by simp
qed

lemma to_lower_idem [simp]: "to_lower (to_lower s) = to_lower s"
  by (simp add: to_lower_def)

lemma split_on_nonempty [simp]: "split_on d s \<noteq> []"
  by (induction s) (auto split: list.splits)

lemma split_on_id: "d \<notin> set s \<Longrightarrow> split_on d s = [s]"
  by (induction s) auto

lemma split_on_sep: "d \<notin> set s \<Longrightarrow> split_on d (s @ d # t) = s # split_on d t"
  by (induction s) auto

lemma join_split: "join_on d (split_on d s) = s"
proof (induction s)
  case (Cons c s)
  obtain w ws where w: "split_on d s = w # ws" by (cases "split_on d s") auto
  then show ?case using Cons by (cases ws) auto
qed simp

lemma split_on_pieces: "w \<in> set (split_on d s) \<Longrightarrow> d \<notin> set w"
proof (induction s arbitrary: w)
  case (Cons c s)
  obtain v vs where "split_on d s = v # vs" by (cases "split_on d s") auto
  with Cons show ?case by (auto split: if_splits)
qed simp

lemma str_includes_iff: "str_includes s p \<longleftrightarrow> (\<exists>u v. s = u @ p @ v)"
proof (induction s)
  case (Cons c s)
  show ?case
  proof
    assume "str_includes (c # s) p"
    then consider "prefix p (c # s)" | "str_includes s p" by auto
    then show "\<exists>u v. c # s = u @ p @ v"
    proof cases
      case 1
      then obtain v where "c # s = p @ v" by (auto simp: prefix_def)
      then show ?thesis by (metis append_Nil)
    next
      case 2
      then obtain u v where "s = u @ p @ v" using Cons by blast
      then show ?thesis by (metis append_Cons)
    qed
  next
    assume "\<exists>u v. c # s = u @ p @ v"
    then obtain u v where uv: "c # s = u @ p @ v" by blast
    show "str_includes (c # s) p"
    proof (cases u)
      case Nil
      with uv have "prefix p (c # s)" by simp
      then show ?thesis by simp
    next
      case (Cons x u')
      with uv have "s = u' @ p @ v" by simp
      then show ?thesis using Cons.IH by auto
    qed
  qed
qed auto

end
