(* ===== verification/Json.thy ===== *)
theory Json
  imports Prelude
begin

text \<open>
  \<open>JSON.stringify\<close> and \<open>JSON.parse\<close>, which every component uses on what it stores and
  on what it receives.  The parser is the grammar of the standard over the strings of
  the model (code units below 256) and integer numerals: a numeral with a fraction or an
  exponent and an escape of a code unit above 255 are outside the model, and the parser
  answers \<^term>\<open>None\<close> on them, as it does where the language throws a \<open>SyntaxError\<close>.
  The recursion is bounded by fuel; \<open>p_fuel\<close> shows that the length of the
  text is always enough.  The results are the round trip
  \<open>json_parse_stringify\<close> and \<open>json_parse_clean\<close>: what was parsed can be printed and
  parsed again.
\<close>

section \<open>Printing\<close>

definition hex_char :: "nat \<Rightarrow> char" where
  "hex_char n = (if n < 10 then char_of (48 + n) else char_of (87 + n))"

definition esc_char :: "char \<Rightarrow> string" where
  "esc_char c = (let n = of_char c :: nat in
     if n = 34 then [CHR 0x5C, CHR 0x22]
     else if n = 92 then [CHR 0x5C, CHR 0x5C]
     else if n = 8 then [CHR 0x5C, CHR ''b'']
     else if n = 9 then [CHR 0x5C, CHR ''t'']
     else if n = 10 then [CHR 0x5C, CHR ''n'']
     else if n = 12 then [CHR 0x5C, CHR ''f'']
     else if n = 13 then [CHR 0x5C, CHR ''r'']
     else if n < 32 then [CHR 0x5C, CHR ''u'', CHR ''0'', CHR ''0'', hex_char (n div 16), hex_char (n mod 16)]
     else [c])"

definition json_quote :: "string \<Rightarrow> string" where
  "json_quote s = CHR 0x22 # concat (map esc_char s) @ [CHR 0x22]"

fun json_text :: "jsv \<Rightarrow> string" where
  "json_text JUndef = ''null''"
| "json_text JNull = ''null''"
| "json_text (JBool b) = (if b then ''true'' else ''false'')"
| "json_text (JNum n) = show_int n"
| "json_text (JStr s) = json_quote s"
| "json_text (JArr vs) = CHR ''['' # join_on (CHR '','') (map json_text vs) @ '']''"
| "json_text (JObj kvs) =
     CHR ''{'' # join_on (CHR '','') (map (\<lambda>(k, v). json_quote k @ CHR '':'' # json_text v) kvs) @ ''}''"

text \<open>What a value becomes when it is printed: properties that are \<open>undefined\<close> are left
  out, array elements that are \<open>undefined\<close> become \<open>null\<close>.\<close>

fun json_norm :: "jsv \<Rightarrow> jsv" where
  "json_norm JUndef = JNull"
| "json_norm (JArr vs) = JArr (map json_norm vs)"
| "json_norm (JObj kvs) = JObj (map (\<lambda>(k, v). (k, json_norm v)) (filter (\<lambda>(k, v). v \<noteq> JUndef) kvs))"
| "json_norm v = v"

definition json_stringify :: "jsv \<Rightarrow> string" where
  "json_stringify v = json_text (json_norm v)"

section \<open>Parsing\<close>

type_synonym 'a parse = "('a \<times> string) option"

definition json_ws :: "char \<Rightarrow> bool" where
  "json_ws c = ((of_char c :: nat) \<in> {9, 10, 13, 32})"

definition skip_ws :: "string \<Rightarrow> string" where
  "skip_ws s = dropWhile json_ws s"

definition hex_val :: "char \<Rightarrow> nat option" where
  "hex_val c = (let n = of_char c :: nat in
     if 48 \<le> n \<and> n \<le> 57 then Some (n - 48)
     else if 65 \<le> n \<and> n \<le> 70 then Some (n - 55)
     else if 97 \<le> n \<and> n \<le> 102 then Some (n - 87)
     else None)"

definition hex4 :: "char \<Rightarrow> char \<Rightarrow> char \<Rightarrow> char \<Rightarrow> char option" where
  "hex4 a b c d = (case (hex_val a, hex_val b, hex_val c, hex_val d) of
     (Some w, Some x, Some y, Some z) \<Rightarrow>
       (let n = ((w * 16 + x) * 16 + y) * 16 + z in if n < 256 then Some (char_of n) else None)
   | _ \<Rightarrow> None)"

definition unesc :: "char \<Rightarrow> char option" where
  "unesc c = (let n = of_char c :: nat in
     if n = 34 \<or> n = 92 \<or> n = 47 then Some c
     else if c = CHR ''b'' then Some (char_of (8::nat))
     else if c = CHR ''t'' then Some (char_of (9::nat))
     else if c = CHR ''n'' then Some (char_of (10::nat))
     else if c = CHR ''f'' then Some (char_of (12::nat))
     else if c = CHR ''r'' then Some (char_of (13::nat))
     else None)"

text \<open>The characters of a string literal up to its closing quote.\<close>

fun p_chars :: "string \<Rightarrow> string parse" where
  "p_chars [] = None"
| "p_chars (c # s) =
     (if c = CHR 0x22 then Some ([], s)
      else if c = CHR 0x5C then
        (case s of [] \<Rightarrow> None
         | e # s' \<Rightarrow>
             if e = CHR ''u'' then
               (case s' of h1 # h2 # h3 # h4 # t \<Rightarrow>
                  (case hex4 h1 h2 h3 h4 of None \<Rightarrow> None
                   | Some x \<Rightarrow> map_option (map_prod (Cons x) id) (p_chars t))
                | _ \<Rightarrow> None)
             else (case unesc e of None \<Rightarrow> None
                   | Some x \<Rightarrow> map_option (map_prod (Cons x) id) (p_chars s')))
      else if (of_char c :: nat) < 32 then None
      else map_option (map_prod (Cons c) id) (p_chars s))"

definition is_digit :: "char \<Rightarrow> bool" where
  "is_digit c = (48 \<le> (of_char c :: nat) \<and> (of_char c :: nat) \<le> 57)"

fun nat_of_digits :: "nat \<Rightarrow> string \<Rightarrow> nat" where
  "nat_of_digits acc [] = acc"
| "nat_of_digits acc (c # cs) = nat_of_digits (10 * acc + (of_char c - 48)) cs"

definition p_digits :: "string \<Rightarrow> nat parse" where
  "p_digits s = (let ds = takeWhile is_digit s; r = dropWhile is_digit s in
     if ds = [] then None
     else if 1 < length ds \<and> hd ds = CHR ''0'' then None
     else if r \<noteq> [] \<and> hd r \<in> {CHR ''.'', CHR ''e'', CHR ''E''} then None
     else Some (nat_of_digits 0 ds, r))"

definition p_num :: "string \<Rightarrow> jsv parse" where
  "p_num s = (case s of [] \<Rightarrow> None
     | c # r \<Rightarrow> if c = CHR ''-'' then map_option (map_prod (\<lambda>n. JNum (- int n)) id) (p_digits r)
                else map_option (map_prod (\<lambda>n. JNum (int n)) id) (p_digits s))"

definition p_lit :: "string \<Rightarrow> jsv \<Rightarrow> string \<Rightarrow> jsv parse" where
  "p_lit w v s = (if prefix w s then Some (v, drop (length w) s) else None)"

text \<open>Assignment of a property: the last value of a repeated key counts.\<close>

fun obj_set :: "string \<Rightarrow> 'a \<Rightarrow> (string \<times> 'a) list \<Rightarrow> (string \<times> 'a) list" where
  "obj_set k v [] = [(k, v)]"
| "obj_set k v ((k', v') # kvs) = (if k = k' then (k, v) # kvs else (k', v') # obj_set k v kvs)"

definition mk_obj :: "(string \<times> jsv) list \<Rightarrow> jsv" where
  "mk_obj kvs = JObj (foldl (\<lambda>o' (k, v). obj_set k v o') [] kvs)"

fun p_value :: "nat \<Rightarrow> string \<Rightarrow> jsv parse"
  and p_items :: "nat \<Rightarrow> string \<Rightarrow> jsv list parse"
  and p_members :: "nat \<Rightarrow> string \<Rightarrow> (string \<times> jsv) list parse" where
  "p_value 0 s = None"
| "p_value (Suc f) s = (case skip_ws s of [] \<Rightarrow> None
     | c # r \<Rightarrow>
       if c = CHR 0x22 then map_option (map_prod JStr id) (p_chars r)
       else if c = CHR ''['' then
         (case skip_ws r of [] \<Rightarrow> None
          | d # r' \<Rightarrow> if d = CHR '']'' then Some (JArr [], r')
                     else map_option (map_prod JArr id) (p_items f r))
       else if c = CHR ''{'' then
         (case skip_ws r of [] \<Rightarrow> None
          | d # r' \<Rightarrow> if d = CHR ''}'' then Some (JObj [], r')
                     else map_option (map_prod mk_obj id) (p_members f r))
       else if c = CHR ''t'' then p_lit ''true'' (JBool True) (c # r)
       else if c = CHR ''f'' then p_lit ''false'' (JBool False) (c # r)
       else if c = CHR ''n'' then p_lit ''null'' JNull (c # r)
       else p_num (c # r))"
| "p_items 0 s = None"
| "p_items (Suc f) s = (case p_value f s of None \<Rightarrow> None
     | Some (v, r) \<Rightarrow> (case skip_ws r of [] \<Rightarrow> None
         | d # r' \<Rightarrow> if d = CHR '']'' then Some ([v], r')
                    else if d = CHR '','' then map_option (map_prod (Cons v) id) (p_items f r')
                    else None))"
| "p_members 0 s = None"
| "p_members (Suc f) s = (case skip_ws s of [] \<Rightarrow> None
     | c # r \<Rightarrow> if c \<noteq> CHR 0x22 then None else
        (case p_chars r of None \<Rightarrow> None
         | Some (k, r1) \<Rightarrow> (case skip_ws r1 of [] \<Rightarrow> None
             | d # r2 \<Rightarrow> if d \<noteq> CHR '':'' then None else
                (case p_value f r2 of None \<Rightarrow> None
                 | Some (v, r3) \<Rightarrow> (case skip_ws r3 of [] \<Rightarrow> None
                     | e # r4 \<Rightarrow> if e = CHR ''}'' then Some ([(k, v)], r4)
                                else if e = CHR '','' then
                                  map_option (map_prod (Cons (k, v)) id) (p_members f r4)
                                else None)))))"

definition json_parse :: "string \<Rightarrow> jsv option" where
  "json_parse s = (case p_value (Suc (2 * length s)) s of None \<Rightarrow> None
     | Some (v, r) \<Rightarrow> if skip_ws r = [] then Some v else None)"

section \<open>String literals\<close>

lemma hex_val_char: "k < 16 \<Longrightarrow> hex_val (hex_char k) = Some k"
  by (auto simp: hex_val_def hex_char_def of_char_of take_bit_eq_mod Let_def)

lemma hex4_char: "n < 256 \<Longrightarrow> hex4 (CHR ''0'') (CHR ''0'') (hex_char (n div 16)) (hex_char (n mod 16)) = Some (char_of n)"
proof -
  have "hex_val (CHR ''0'') = Some 0" by (simp add: hex_val_def)
  moreover assume "n < 256"
  then have "n div 16 < 16" by simp
  ultimately show ?thesis using \<open>n < 256\<close> by (simp add: hex4_def hex_val_char)
qed

lemma p_chars_esc: "p_chars (esc_char c @ t) = map_option (map_prod (Cons c) id) (p_chars t)"
proof (cases "(of_char c :: nat) \<in> {34, 92, 8, 9, 10, 12, 13}")
  case True
  then have "c \<in> {char_of (34::nat), char_of (92::nat), char_of (8::nat), char_of (9::nat), char_of (10::nat),
      char_of (12::nat), char_of (13::nat)}"
    by (elim insertE emptyE) (metis char_of_char insertCI)+
  moreover have "char_of (34::nat) = CHR 0x22" "char_of (92::nat) = CHR 0x5C" by code_simp+
  ultimately show ?thesis by (elim insertE emptyE) (simp_all add: esc_char_def unesc_def)
next
  case False
  show ?thesis
  proof (cases "(of_char c :: nat) < 32")
    case True
    have "hex4 (CHR ''0'') (CHR ''0'') (hex_char (of_char c div 16)) (hex_char (of_char c mod 16)) = Some c"
      using hex4_char[of "of_char c"] True by simp
    with True False show ?thesis by (simp add: esc_char_def Let_def)
  next
    case big: False
    have "c \<noteq> CHR 0x22" "c \<noteq> CHR 0x5C" using False by auto
    with False big show ?thesis by (simp add: esc_char_def Let_def)
  qed
qed

lemma p_chars_quote: "p_chars (concat (map esc_char s) @ CHR 0x22 # r) = Some (s, r)"
  by (induction s) (simp_all add: p_chars_esc del: p_chars.simps(2), simp)

section \<open>Numerals\<close>

lemma of_char_digit [simp]: "d < 10 \<Longrightarrow> of_char (digit_char d) = 48 + (d :: nat)"
  by (simp add: digit_char_def of_char_of take_bit_eq_mod)

lemma is_digit_digit [simp]: "d < 10 \<Longrightarrow> is_digit (digit_char d)"
  by (simp add: is_digit_def)

lemma show_nat_digits: "c \<in> set (show_nat n) \<Longrightarrow> is_digit c"
proof (induction n arbitrary: c rule: show_nat.induct)
  case (1 n)
  then show ?case by (cases "n < 10") (auto simp: show_nat.simps[of n])
qed

lemma show_nat_nonempty [simp]: "show_nat n \<noteq> []"
  by (simp add: show_nat.simps[of n])

lemma nat_of_digits_append: "nat_of_digits acc (s @ t) = nat_of_digits (nat_of_digits acc s) t"
  by (induction s arbitrary: acc) auto

lemma nat_of_digits_show [simp]: "nat_of_digits 0 (show_nat n) = n"
proof (induction n rule: show_nat.induct)
  case (1 n)
  then show ?case by (cases "n < 10") (simp_all add: show_nat.simps[of n] nat_of_digits_append)
qed

lemma hd_show_nat: "0 < n \<Longrightarrow> hd (show_nat n) \<noteq> CHR ''0''"
proof (induction n rule: show_nat.induct)
  case (1 n)
  show ?case
  proof (cases "n < 10")
    case True
    then have "(of_char (digit_char n) :: nat) = 48 + n" by simp
    then have "digit_char n \<noteq> CHR ''0''" using 1(2) by auto
    then show ?thesis using True by (simp add: show_nat.simps[of n])
  next
    case False
    then show ?thesis using 1 by (simp add: show_nat.simps[of n])
  qed
qed

text \<open>What may follow a value inside a text: nothing, white space, a comma or a closing bracket.\<close>

definition delim :: "string \<Rightarrow> bool" where
  "delim r = (r = [] \<or> hd r \<in> {CHR '','', CHR '']'', CHR ''}''} \<or> json_ws (hd r))"

lemma delim_no_digit: "delim r \<Longrightarrow> r \<noteq> [] \<Longrightarrow> \<not> is_digit (hd r) \<and> hd r \<notin> {CHR ''.'', CHR ''e'', CHR ''E''}"
  by (auto simp: delim_def is_digit_def json_ws_def)

lemma p_digits_show: "delim r \<Longrightarrow> p_digits (show_nat n @ r) = Some (n, r)"
proof -
  assume d: "delim r"
  have t: "takeWhile is_digit (show_nat n @ r) = show_nat n"
    using d delim_no_digit[of r] by (cases r) (auto simp: takeWhile_append2 show_nat_digits)
  have w: "dropWhile is_digit (show_nat n @ r) = r"
    using d delim_no_digit[of r] by (cases r) (auto simp: dropWhile_append2 show_nat_digits)
  have z: "\<not> (1 < length (show_nat n) \<and> hd (show_nat n) = CHR ''0'')"
    using hd_show_nat[of n] by (cases "n = 0") (auto simp: show_nat.simps[of 0])
  show ?thesis using d delim_no_digit[of r] t w z by (auto simp: p_digits_def Let_def)
qed

lemma p_num_show: "delim r \<Longrightarrow> p_num (show_int n @ r) = Some (JNum n, r)"
proof -
  assume d: "delim r"
  obtain c t where ct: "show_nat (nat n) = c # t" by (cases "show_nat (nat n)") auto
  then have "is_digit c" using show_nat_digits by (metis list.set_intros(1))
  then have "c \<noteq> CHR ''-''" by (auto simp: is_digit_def)
  then show ?thesis using p_digits_show[OF d, of "nat n"] p_digits_show[OF d, of "nat (- n)"] ct
    by (cases "n < 0") (simp_all add: p_num_def show_int_def)
qed

section \<open>The round trip\<close>

fun json_clean :: "jsv \<Rightarrow> bool" where
  "json_clean JUndef = False"
| "json_clean (JArr vs) = list_all json_clean vs"
| "json_clean (JObj kvs) = (distinct (map fst kvs) \<and> list_all (\<lambda>(k, v). json_clean v) kvs)"
| "json_clean _ = True"

lemma skip_ws_Cons [simp]: "\<not> json_ws c \<Longrightarrow> skip_ws (c # s) = c # s"
  by (simp add: skip_ws_def)

lemma json_ws_punct [simp]:
  "\<not> json_ws (CHR '','')" "\<not> json_ws (CHR '']'')" "\<not> json_ws (CHR ''}'')" "\<not> json_ws (CHR '':'')"
  "\<not> json_ws (CHR 0x22)" "\<not> json_ws (CHR ''['')" "\<not> json_ws (CHR ''{'')" "\<not> json_ws (CHR ''t'')"
  "\<not> json_ws (CHR ''f'')" "\<not> json_ws (CHR ''n'')" "\<not> json_ws (CHR ''-'')"
  by (simp_all add: json_ws_def)

lemma delim_simps [simp]: "delim []" "delim (CHR '','' # r)" "delim (CHR '']'' # r)" "delim (CHR ''}'' # r)"
  by (simp_all add: delim_def)

lemma show_int_first:
  obtains c t where "show_int n = c # t" "is_digit c \<or> c = CHR ''-''"
  by (metis show_int_def show_nat_nonempty show_nat_digits list.exhaust list.set_intros(1))

definition opener :: "char \<Rightarrow> bool" where
  "opener c = (c \<in> {CHR 0x22, CHR ''['', CHR ''{'', CHR ''t'', CHR ''f'', CHR ''n''})"

lemma num_char_facts:
  "is_digit c \<or> c = CHR ''-'' \<Longrightarrow> \<not> json_ws c \<and> \<not> opener c \<and> c \<noteq> CHR '']''"
  by (auto simp: is_digit_def json_ws_def opener_def)

lemma json_text_first:
  obtains c t where "json_text v = c # t" "\<not> json_ws c" "c \<noteq> CHR '']''"
proof (cases v)
  case (JNum n)
  obtain c t where "show_int n = c # t" "is_digit c \<or> c = CHR ''-''" by (rule show_int_first)
  then show ?thesis using that JNum num_char_facts[of c] by auto
next
  case (JBool b)
  then show ?thesis using that[of "hd (json_text v)" "tl (json_text v)"] by (cases b) auto
qed (use that in \<open>auto simp: json_quote_def\<close>)

lemma p_value_first:
  assumes "\<not> json_ws c" "\<not> opener c"
  shows "p_value (Suc f) (c # s) = p_num (c # s)"
  using assms by (simp add: opener_def)

lemma obj_set_fresh: "k \<notin> fst ` set kvs \<Longrightarrow> obj_set k v kvs = kvs @ [(k, v)]"
  by (induction kvs) auto

lemma foldl_obj_set:
  "distinct (map fst (acc @ kvs)) \<Longrightarrow> foldl (\<lambda>o' (k, v). obj_set k v o') acc kvs = acc @ kvs"
proof (induction kvs arbitrary: acc)
  case (Cons kv kvs)
  obtain k v where kv: "kv = (k, v)" by (cases kv)
  have "obj_set k v acc = acc @ [(k, v)]"
    using Cons.prems kv by (intro obj_set_fresh) auto
  with Cons.IH[of "acc @ [(k, v)]"] Cons.prems kv show ?case by simp
qed simp

lemma mk_obj_distinct: "distinct (map fst kvs) \<Longrightarrow> mk_obj kvs = JObj kvs"
  using foldl_obj_set[of "[]" kvs] by (simp add: mk_obj_def)

definition reads :: "jsv \<Rightarrow> bool" where
  "reads v = (\<forall>f r. delim r \<longrightarrow> 2 * length (json_text v) < f \<longrightarrow> p_value f (json_text v @ r) = Some (v, r))"

lemma readsD: "reads v \<Longrightarrow> delim r \<Longrightarrow> 2 * length (json_text v) < f \<Longrightarrow> p_value f (json_text v @ r) = Some (v, r)"
  by (simp add: reads_def)

lemma p_items_text:
  "vs \<noteq> [] \<Longrightarrow> (\<And>v. v \<in> set vs \<Longrightarrow> reads v) \<Longrightarrow>
   2 * length (join_on (CHR '','') (map json_text vs)) + 1 < f \<Longrightarrow>
   p_items f (join_on (CHR '','') (map json_text vs) @ CHR '']'' # r) = Some (vs, r)"
proof (induction vs arbitrary: f)
  case (Cons v vs)
  then obtain g where f: "f = Suc g" by (cases f) auto
  have rv: "reads v" using Cons.prems by simp
  show ?case
  proof (cases vs)
    case Nil
    then have "p_value g (json_text v @ CHR '']'' # r) = Some (v, CHR '']'' # r)"
      using Cons.prems f by (intro readsD[OF rv]) auto
    then show ?thesis using Nil f by simp
  next
    case (Cons w ws)
    let ?j = "join_on (CHR '','') (map json_text vs)"
    have j: "join_on (CHR '','') (map json_text (v # vs)) = json_text v @ CHR '','' # ?j" using Cons by simp
    then have "p_value g (json_text v @ CHR '','' # ?j @ CHR '']'' # r) = Some (v, CHR '','' # ?j @ CHR '']'' # r)"
      using Cons.prems f by (intro readsD[OF rv]) auto
    moreover have "p_items g (?j @ CHR '']'' # r) = Some (vs, r)"
      using Cons.prems f j \<open>vs = w # ws\<close> by (intro Cons.IH) auto
    ultimately show ?thesis using f j by simp
  qed
qed simp

lemma p_members_text:
  "kvs \<noteq> [] \<Longrightarrow> (\<And>k v. (k, v) \<in> set kvs \<Longrightarrow> reads v) \<Longrightarrow>
   2 * length (join_on (CHR '','') (map (\<lambda>(k, v). json_quote k @ CHR '':'' # json_text v) kvs)) + 1 < f \<Longrightarrow>
   p_members f (join_on (CHR '','') (map (\<lambda>(k, v). json_quote k @ CHR '':'' # json_text v) kvs) @ CHR ''}'' # r)
     = Some (kvs, r)"
proof (induction kvs arbitrary: f)
  case (Cons kv kvs)
  obtain k v where kv: "kv = (k, v)" by (cases kv)
  from Cons.prems obtain g where f: "f = Suc g" by (cases f) auto
  have rv: "reads v" using Cons.prems kv by auto
  have q: "json_quote k @ u = CHR 0x22 # concat (map esc_char k) @ CHR 0x22 # u" for u
    by (simp add: json_quote_def)
  show ?case
  proof (cases kvs)
    case Nil
    then have "p_value g (json_text v @ CHR ''}'' # r) = Some (v, CHR ''}'' # r)"
      using Cons.prems f kv by (intro readsD[OF rv]) auto
    then show ?thesis using Nil f kv by (simp add: q p_chars_quote)
  next
    case (Cons w ws)
    let ?j = "join_on (CHR '','') (map (\<lambda>(k, v). json_quote k @ CHR '':'' # json_text v) kvs)"
    have j: "join_on (CHR '','') (map (\<lambda>(k, v). json_quote k @ CHR '':'' # json_text v) (kv # kvs)) =
        json_quote k @ CHR '':'' # json_text v @ CHR '','' # ?j" using Cons kv by simp
    then have "p_value g (json_text v @ CHR '','' # ?j @ CHR ''}'' # r) = Some (v, CHR '','' # ?j @ CHR ''}'' # r)"
      using Cons.prems f by (intro readsD[OF rv]) auto
    moreover have "p_members g (?j @ CHR ''}'' # r) = Some (kvs, r)"
      using Cons.prems f j \<open>kvs = w # ws\<close> by (intro Cons.IH) auto
    ultimately show ?thesis using f j kv by (simp add: q p_chars_quote)
  qed
qed simp

lemma reads_arr:
  assumes "\<And>v. v \<in> set vs \<Longrightarrow> reads v"
  shows "reads (JArr vs)"
proof (cases vs)
  case Nil
  have "p_value f (''[]'' @ r) = Some (JArr [], r)" if "4 < f" for f r
    using that by (cases f) auto
  then show ?thesis using Nil by (simp add: reads_def)
next
  case (Cons w ws)
  let ?j = "join_on (CHR '','') (map json_text vs)"
  obtain c t where w: "json_text w = c # t" "\<not> json_ws c" "c \<noteq> CHR '']''" by (rule json_text_first)
  then obtain t' where t': "?j = c # t'" using Cons by (cases ws) auto
  have "p_value f (CHR ''['' # ?j @ CHR '']'' # r) = Some (JArr vs, r)"
    if len: "2 * length ?j + 4 < f" for f r
  proof -
    obtain g where g: "f = Suc g" using len by (cases f) auto
    have "p_items g (?j @ CHR '']'' # r) = Some (vs, r)"
      using assms Cons len g by (intro p_items_text) auto
    then show ?thesis using g t' w by simp
  qed
  then show ?thesis by (simp add: reads_def)
qed

lemma reads_obj:
  assumes "\<And>k v. (k, v) \<in> set kvs \<Longrightarrow> reads v" and "distinct (map fst kvs)"
  shows "reads (JObj kvs)"
proof (cases kvs)
  case Nil
  have "p_value f (''{}'' @ r) = Some (JObj [], r)" if "4 < f" for f r
    using that by (cases f) auto
  then show ?thesis using Nil by (simp add: reads_def)
next
  case (Cons w ws)
  let ?j = "join_on (CHR '','') (map (\<lambda>(k, v). json_quote k @ CHR '':'' # json_text v) kvs)"
  obtain t' where t': "?j = CHR 0x22 # t'" using Cons by (cases w; cases ws) (auto simp: json_quote_def)
  have "p_value f (CHR ''{'' # ?j @ CHR ''}'' # r) = Some (JObj kvs, r)"
    if len: "2 * length ?j + 4 < f" for f r
  proof -
    obtain g where g: "f = Suc g" using len by (cases f) auto
    have "p_members g (?j @ CHR ''}'' # r) = Some (kvs, r)"
      using assms Cons len g by (intro p_members_text) auto
    then show ?thesis using g t' assms(2) by (simp add: mk_obj_distinct)
  qed
  then show ?thesis by (simp add: reads_def)
qed

lemma reads_clean: "json_clean v \<Longrightarrow> reads v"
proof (induction v)
  case JNull
  have "p_value f (''null'' @ r) = Some (JNull, r)" if "8 < f" for f r
    using that by (cases f) (auto simp: p_lit_def)
  then show ?case by (simp add: reads_def)
next
  case (JBool b)
  have "p_value f (''true'' @ r) = Some (JBool True, r)" "p_value f (''false'' @ r) = Some (JBool False, r)"
    if "8 < f" for f r
    using that by (cases f; auto simp: p_lit_def)+
  then show ?case by (auto simp: reads_def)
next
  case (JNum n)
  obtain c t where c: "show_int n = c # t" "is_digit c \<or> c = CHR ''-''" by (rule show_int_first)
  have "p_value f (show_int n @ r) = Some (JNum n, r)" if r: "delim r" and len: "2 * length (show_int n) < f" for f r
  proof -
    obtain g where g: "f = Suc g" using len by (cases f) auto
    have "p_num (c # t @ r) = Some (JNum n, r)" using p_num_show[OF r, of n] c(1) by simp
    then show ?thesis using c(1) g p_value_first[of c g "t @ r"] num_char_facts[OF c(2)] by simp
  qed
  then show ?case by (simp add: reads_def)
next
  case (JStr s)
  have "p_value f (json_quote s @ r) = Some (JStr s, r)" if "2 < f" for f r
    using that by (cases f) (auto simp: json_quote_def p_chars_quote)
  then show ?case by (simp add: reads_def json_quote_def)
next
  case (JArr vs)
  then show ?case by (intro reads_arr) (auto simp: list_all_iff)
next
  case (JObj kvs)
  have "reads v" if "(k, v) \<in> set kvs" for k v
    using JObj that by (fastforce simp: list_all_iff)
  then show ?case using JObj by (intro reads_obj) auto
qed simp

lemma json_parse_text: "json_clean v \<Longrightarrow> json_parse (json_text v) = Some v"
  using reads_clean[of v] readsD[of v "[]" "Suc (2 * length (json_text v))"]
  by (simp add: json_parse_def skip_ws_def)

text \<open>Values whose objects, at every depth, have no repeated key: all values a program can
  build.\<close>

fun keys_distinct :: "jsv \<Rightarrow> bool" where
  "keys_distinct (JArr vs) = list_all keys_distinct vs"
| "keys_distinct (JObj kvs) = (distinct (map fst kvs) \<and> list_all (\<lambda>(k, v). keys_distinct v) kvs)"
| "keys_distinct _ = True"

lemma json_clean_norm: "keys_distinct v \<Longrightarrow> json_clean (json_norm v)"
proof (induction v)
  case (JObj kvs)
  have d: "distinct (map fst (filter (\<lambda>(k, v). v \<noteq> JUndef) kvs))"
    using JObj.prems by (simp add: distinct_map_filter)
  have e: "fst \<circ> (\<lambda>(k, v). (k, json_norm v)) = fst" by auto
  have "json_clean (json_norm v)" if "(k, v) \<in> set kvs" for k v
    using JObj that by (fastforce simp: list_all_iff)
  then show ?case using d by (auto simp: list_all_iff e)
qed (auto simp: list_all_iff)

lemma json_norm_clean: "json_clean v \<Longrightarrow> json_norm v = v"
proof (induction v)
  case (JArr vs)
  then show ?case by (induction vs) auto
next
  case (JObj kvs)
  have "filter (\<lambda>(k, v). v \<noteq> JUndef) kvs = kvs"
    using JObj.prems by (auto simp: filter_id_conv list_all_iff)
  moreover have "map (\<lambda>(k, v). (k, json_norm v)) kvs = kvs"
    using JObj by (intro map_idI) (fastforce simp: list_all_iff)
  ultimately show ?case by simp
qed auto

lemma json_stringify_clean: "json_clean v \<Longrightarrow> json_parse (json_stringify v) = Some v"
  by (simp add: json_stringify_def json_norm_clean json_parse_text)

lemma json_parse_stringify: "keys_distinct v \<Longrightarrow> json_parse (json_stringify v) = Some (json_norm v)"
  by (simp add: json_stringify_def json_clean_norm json_parse_text)

section \<open>Parsed values\<close>

lemma obj_set_keys: "set (map fst (obj_set k v kvs)) = insert k (set (map fst kvs))"
proof (induction kvs)
  case (Cons a kvs)
  then show ?case by (cases a) (simp add: insert_commute)
qed simp

lemma obj_set_distinct: "distinct (map fst kvs) \<Longrightarrow> distinct (map fst (obj_set k v kvs))"
proof (induction kvs)
  case (Cons a kvs)
  then show ?case using obj_set_keys[of k v kvs] by (cases a) (simp add: insert_commute del: set_map)
qed simp

lemma obj_set_all: "list_all (\<lambda>(k, v). P v) kvs \<Longrightarrow> P v \<Longrightarrow> list_all (\<lambda>(k, v). P v) (obj_set k v kvs)"
  by (induction kvs) auto

lemma mk_obj_clean: "list_all (\<lambda>(k, v). json_clean v) kvs \<Longrightarrow> json_clean (mk_obj kvs)"
proof -
  have "json_clean (JObj acc) \<Longrightarrow> list_all (\<lambda>(k, v). json_clean v) kvs \<Longrightarrow>
      json_clean (JObj (foldl (\<lambda>o' (k, v). obj_set k v o') acc kvs))" for acc
    by (induction kvs arbitrary: acc) (auto simp: obj_set_distinct obj_set_all)
  from this[of "[]"] show "list_all (\<lambda>(k, v). json_clean v) kvs \<Longrightarrow> json_clean (mk_obj kvs)"
    by (simp add: mk_obj_def)
qed

lemma p_atoms_clean:
  "p_num s = Some (v, r) \<Longrightarrow> json_clean v"
  "p_lit w u s = Some (v, r) \<Longrightarrow> v = u"
  by (auto simp: p_num_def p_lit_def split: if_splits list.splits option.splits)

lemma p_clean:
  "p_value f s = Some (v, r) \<Longrightarrow> json_clean v"
  "p_items f s = Some (vs, r) \<Longrightarrow> list_all json_clean vs"
  "p_members f s = Some (kvs, r) \<Longrightarrow> list_all (\<lambda>(k, v). json_clean v) kvs"
proof (induction f s and f s and f s arbitrary: v r and vs r and kvs r
    rule: p_value_p_items_p_members.induct)
  case (2 f s)
  then show ?case
    by (auto split: if_splits list.splits dest: p_atoms_clean intro!: mk_obj_clean simp del: json_clean.simps)
      (auto dest: p_atoms_clean)
next
  case (4 f s)
  then show ?case by (auto split: if_splits list.splits option.splits)
next
  case (6 f s)
  then show ?case by (auto split: if_splits list.splits option.splits)
qed simp_all

lemma json_parse_clean: "json_parse s = Some v \<Longrightarrow> json_clean v"
  unfolding json_parse_def using p_clean(1)[of "Suc (2 * length s)" s]
  by (auto simp del: p_value.simps split: option.splits if_splits)

section \<open>The fuel is enough\<close>

lemma p_chars_shorter: "p_chars s = Some (v, r) \<Longrightarrow> length r < length s"
proof (induction s arbitrary: v r rule: p_chars.induct)
  case (2 c s)
  then show ?case
    by (auto split: if_splits list.splits option.splits prod.splits) (fastforce)+
qed simp

lemma skip_ws_shorter: "skip_ws s = c # r \<Longrightarrow> length r < length s"
  by (metis length_Cons length_dropWhile_le less_eq_Suc_le skip_ws_def)

lemma p_digits_shorter: "p_digits s = Some (n, r) \<Longrightarrow> length r < length s"
proof -
  assume a: "p_digits s = Some (n, r)"
  then have "takeWhile is_digit s \<noteq> []" and r: "r = dropWhile is_digit s"
    by (auto simp: p_digits_def Let_def split: if_splits)
  then have "0 < length (takeWhile is_digit s)" by simp
  moreover have "length (takeWhile is_digit s) + length (dropWhile is_digit s) = length s"
    by (metis length_append takeWhile_dropWhile_id)
  ultimately show ?thesis unfolding r by linarith
qed

lemma p_num_shorter: "p_num s = Some (v, r) \<Longrightarrow> length r < length s"
  by (auto simp: p_num_def split: list.splits if_splits dest!: p_digits_shorter)

lemma p_lit_shorter: "p_lit w v s = Some (v', r) \<Longrightarrow> w \<noteq> [] \<Longrightarrow> length r < length s"
  by (auto simp: p_lit_def prefix_def split: if_splits)

lemmas shorter_steps = skip_ws_shorter p_chars_shorter p_num_shorter p_lit_shorter

lemma p_shorter:
  "p_value f s = Some (v, r) \<Longrightarrow> length r < length s"
  "p_items f s = Some (vs, r) \<Longrightarrow> length r < length s"
  "p_members f s = Some (kvs, r) \<Longrightarrow> length r < length s"
proof (induction f s and f s and f s arbitrary: v r and vs r and kvs r
    rule: p_value_p_items_p_members.induct)
  case (2 f s)
  from 2(3) obtain c t where ct: "skip_ws s = c # t" by (cases "skip_ws s") auto
  then have t: "length t < length s" by (rule skip_ws_shorter)
  show ?case using 2 ct t
    by (auto split: if_splits list.splits dest!: shorter_steps) (metis less_trans)+
next
  case (4 f s)
  then show ?case
    by (auto split: if_splits list.splits option.splits dest!: shorter_steps) fastforce+
next
  case (6 f s)
  then show ?case
    by (auto split: if_splits list.splits option.splits dest!: shorter_steps) fastforce+
qed simp_all

lemma p_fuel:
  "2 * length s < f \<Longrightarrow> 2 * length s < g \<Longrightarrow> p_value f s = p_value g s"
  "2 * length s + 1 < f \<Longrightarrow> 2 * length s + 1 < g \<Longrightarrow> p_items f s = p_items g s"
  "2 * length s + 1 < f \<Longrightarrow> 2 * length s + 1 < g \<Longrightarrow> p_members f s = p_members g s"
proof (induction f arbitrary: g s)
  case (Suc f)
  {
    case 1
    then obtain g' where g: "g = Suc g'" by (cases g) auto
    show ?case
    proof (cases "skip_ws s")
      case (Cons c t)
      then have "length t < length s" by (rule skip_ws_shorter)
      then have "p_items f t = p_items g' t" "p_members f t = p_members g' t"
        using 1 g by (auto intro!: Suc.IH)
      then show ?thesis using g Cons by (simp cong: if_cong list.case_cong)
    qed (simp add: g)
  next
    case 2
    then obtain g' where g: "g = Suc g'" by (cases g) auto
    have v: "p_value f s = p_value g' s" using 2 g by (intro Suc.IH) auto
    have "p_items f r' = p_items g' r'" if "p_value g' s = Some (v, r)" "skip_ws r = d # r'" for v r d r'
      using p_shorter(1)[OF that(1)] skip_ws_shorter[OF that(2)] 2 g by (intro Suc.IH) auto
    then show ?case using g v by (auto split: option.splits list.splits)
  next
    case 3
    then obtain g' where g: "g = Suc g'" by (cases g) auto
    have *: "p_value f r2 = p_value g' r2"
      if "skip_ws s = c # r" "p_chars r = Some (k, r1)" "skip_ws r1 = d # r2" for c r k r1 d r2
      using skip_ws_shorter[OF that(1)] p_chars_shorter[OF that(2)] skip_ws_shorter[OF that(3)] 3 g
      by (intro Suc.IH) auto
    have "p_members f r4 = p_members g' r4"
      if "skip_ws s = c # r" "p_chars r = Some (k, r1)" "skip_ws r1 = d # r2" "p_value g' r2 = Some (v, r3)"
        "skip_ws r3 = e # r4" for c r k r1 d r2 v r3 e r4
      using skip_ws_shorter[OF that(1)] p_chars_shorter[OF that(2)] skip_ws_shorter[OF that(3)]
        p_shorter(1)[OF that(4)] skip_ws_shorter[OF that(5)] 3 g
      by (intro Suc.IH) auto
    with * show ?case using g by (auto split: option.splits list.splits)
  }
qed simp_all

end
