(* ===== verification/Browser.thy ===== *)
theory Browser
  imports Prelude Json
begin

text \<open>
  The environment the TypeScript code runs in.  A \<open>world\<close> holds what the code can
  read and write: whether there is a \<open>window\<close> at all (server-side rendering has none),
  \<open>localStorage\<close>, \<open>sessionStorage\<close>, the requests sent so far, the custom events
  dispatched, and the state of everything outside the page (\<open>'w\<close>: the server, the
  clock).  What is outside is a parameter, the record \<open>env\<close>: how the outside
  answers a request, what \<open>Date.now()\<close> reads, and the texts of the platform's own
  exceptions.  A handler is a function from worlds to a result and a world; the awaits of
  one handler are not interleaved with other handlers unless a theory says so.
\<close>

section \<open>Requests and responses\<close>

type_synonym headers = "(string \<times> string) list"

record request =
  url :: string
  meth :: string
  hdrs :: headers
  rbody :: "string option"

text \<open>A \<open>fetch\<close> rejects (no connection, blocked, aborted) or resolves to a response with a
  status and a body text.\<close>

datatype outcome = NetError | Resp int string

definition resp_ok :: "int \<Rightarrow> bool" where
  "resp_ok st = (200 \<le> st \<and> st \<le> 299)"

text \<open>Exceptions: \<open>new Error(m)\<close>, and those the platform throws.\<close>

datatype exn =
    ExnError string
  | ExnNet
  | ExnSyntax
  | ExnType

record 'w env =
  net :: "'w \<Rightarrow> request \<Rightarrow> outcome \<times> 'w"
  now :: "'w \<Rightarrow> int"
  net_message :: string
  syntax_message :: string
  type_message :: string

definition exn_message :: "'w env \<Rightarrow> exn \<Rightarrow> string" where
  "exn_message E e = (case e of ExnError m \<Rightarrow> m | ExnNet \<Rightarrow> net_message E
     | ExnSyntax \<Rightarrow> syntax_message E | ExnType \<Rightarrow> type_message E)"

section \<open>The world\<close>

type_synonym storage = "string \<Rightarrow> string option"

record 'w world =
  has_window :: bool
  local_store :: storage
  session_store :: storage
  outside :: 'w
  sent :: "request list"
  events :: "string list"

definition fetch :: "'w env \<Rightarrow> request \<Rightarrow> 'w world \<Rightarrow> outcome \<times> 'w world" where
  "fetch E rq w = (case net E (outside w) rq of (out, o') \<Rightarrow>
     (out, w\<lparr>outside := o', sent := sent w @ [rq]\<rparr>))"

definition date_now :: "'w env \<Rightarrow> 'w world \<Rightarrow> int" where
  "date_now E w = now E (outside w)"

definition set_item :: "string \<Rightarrow> string \<Rightarrow> 'w world \<Rightarrow> 'w world" where
  "set_item k v w = w\<lparr>local_store := (local_store w)(k \<mapsto> v)\<rparr>"

definition remove_item :: "string \<Rightarrow> 'w world \<Rightarrow> 'w world" where
  "remove_item k w = w\<lparr>local_store := (local_store w)(k := None)\<rparr>"

definition remove_items :: "string list \<Rightarrow> 'w world \<Rightarrow> 'w world" where
  "remove_items ks w = foldl (\<lambda>w k. remove_item k w) w ks"

definition set_session :: "string \<Rightarrow> string \<Rightarrow> 'w world \<Rightarrow> 'w world" where
  "set_session k v w = w\<lparr>session_store := (session_store w)(k \<mapsto> v)\<rparr>"

definition remove_session :: "string \<Rightarrow> 'w world \<Rightarrow> 'w world" where
  "remove_session k w = w\<lparr>session_store := (session_store w)(k := None)\<rparr>"

definition dispatch :: "string \<Rightarrow> 'w world \<Rightarrow> 'w world" where
  "dispatch e w = w\<lparr>events := events w @ [e]\<rparr>"

text \<open>\<open>localStorage.getItem(k) || d\<close>: an absent or empty item gives the default.\<close>

definition item_or :: "string option \<Rightarrow> string \<Rightarrow> string" where
  "item_or v d = (case v of None \<Rightarrow> d | Some s \<Rightarrow> if s = [] then d else s)"

text \<open>A stored item that counts as present in a condition.\<close>

definition present :: "string option \<Rightarrow> bool" where
  "present v = (case v of None \<Rightarrow> False | Some s \<Rightarrow> s \<noteq> [])"

text \<open>\<open>String(v)\<close>, as template literals and \<open>setItem\<close> apply it.\<close>

fun js_to_string :: "jsv \<Rightarrow> string" where
  "js_to_string JUndef = ''undefined''"
| "js_to_string JNull = ''null''"
| "js_to_string (JBool b) = (if b then ''true'' else ''false'')"
| "js_to_string (JNum n) = show_int n"
| "js_to_string (JStr s) = s"
| "js_to_string (JArr vs) = join_on (CHR '','') (map (\<lambda>v. if nullish v then [] else js_to_string v) vs)"
| "js_to_string (JObj _) = ''[object Object]''"

text \<open>A fresh page, and an outside that answers every request with the same outcome: the
  concrete inputs of the witnesses.\<close>

definition blank_world :: "unit world" where
  "blank_world = \<lparr>has_window = True, local_store = Map.empty, session_store = Map.empty,
     outside = (), sent = [], events = []\<rparr>"

definition always :: "outcome \<Rightarrow> unit env" where
  "always out = \<lparr>net = (\<lambda>_ _. (out, ())), now = (\<lambda>_. 0), net_message = ''net'',
     syntax_message = ''syntax'', type_message = ''type''\<rparr>"

text \<open>An outside that gives the outcomes of a list, one after the other, and a page in front of it.\<close>

definition scripted :: "outcome list env" where
  "scripted = \<lparr>net = (\<lambda>os _. case os of [] \<Rightarrow> (NetError, []) | x # xs \<Rightarrow> (x, xs)), now = (\<lambda>_. 0),
     net_message = ''net'', syntax_message = ''syntax'', type_message = ''type''\<rparr>"

definition page :: "storage \<Rightarrow> 'w \<Rightarrow> 'w world" where
  "page st o' = \<lparr>has_window = True, local_store = st, session_store = Map.empty, outside = o', sent = [], events = []\<rparr>"

section \<open>Frame equations\<close>

lemma page_simps [simp, world_simps]:
  "has_window (page st o')" "local_store (page st o') = st" "outside (page st o') = o'"
  "sent (page st o') = []" "events (page st o') = []" "session_store (page st o') = Map.empty"
  by (simp_all add: page_def)

lemma fetch_scripted:
  "outside w = x # xs \<Longrightarrow> fetch scripted rq w = (x, w\<lparr>outside := xs, sent := sent w @ [rq]\<rparr>)"
  by (simp add: fetch_def scripted_def)

lemma fetch_eq:
  "fetch E rq w = (fst (net E (outside w) rq), w\<lparr>outside := snd (net E (outside w) rq), sent := sent w @ [rq]\<rparr>)"
  by (simp add: fetch_def split: prod.splits)

lemma store_ops_frame [simp, world_simps]:
  "has_window (set_item k v w) = has_window w" "has_window (remove_item k w) = has_window w"
  "has_window (dispatch e w) = has_window w"
  "session_store (set_item k v w) = session_store w" "session_store (remove_item k w) = session_store w"
  "session_store (dispatch e w) = session_store w"
  "outside (set_item k v w) = outside w" "outside (remove_item k w) = outside w" "outside (dispatch e w) = outside w"
  "sent (set_item k v w) = sent w" "sent (remove_item k w) = sent w" "sent (dispatch e w) = sent w"
  "events (set_item k v w) = events w" "events (remove_item k w) = events w"
  "events (dispatch e w) = events w @ [e]"
  "local_store (set_item k v w) = (local_store w)(k \<mapsto> v)"
  "local_store (remove_item k w) = (local_store w)(k := None)"
  "local_store (dispatch e w) = local_store w"
  by (simp_all add: set_item_def remove_item_def dispatch_def)

lemma session_ops_frame [simp, world_simps]:
  "session_store (set_session k v w) = (session_store w)(k \<mapsto> v)"
  "session_store (remove_session k w) = (session_store w)(k := None)"
  "local_store (set_session k v w) = local_store w" "local_store (remove_session k w) = local_store w"
  "outside (set_session k v w) = outside w" "outside (remove_session k w) = outside w"
  "sent (set_session k v w) = sent w" "sent (remove_session k w) = sent w"
  "events (set_session k v w) = events w" "events (remove_session k w) = events w"
  by (simp_all add: set_session_def remove_session_def)

lemma fetch_frame:
  assumes "fetch E rq w = (out, w')"
  shows "has_window w' = has_window w" "local_store w' = local_store w"
    "session_store w' = session_store w" "events w' = events w" "sent w' = sent w @ [rq]"
  using assms by (auto simp: fetch_eq)

lemma remove_items_store: "local_store (remove_items ks w) k = (if k \<in> set ks then None else local_store w k)"
proof (induction ks arbitrary: w)
  case (Cons x ks)
  have "remove_items (x # ks) w = remove_items ks (remove_item x w)" by (simp add: remove_items_def)
  then show ?case by (simp add: Cons.IH)
qed (simp add: remove_items_def)

lemma remove_items_frame [simp, world_simps]:
  "has_window (remove_items ks w) = has_window w" "session_store (remove_items ks w) = session_store w"
  "outside (remove_items ks w) = outside w" "sent (remove_items ks w) = sent w"
  "events (remove_items ks w) = events w"
  by (induction ks arbitrary: w) (simp_all add: remove_items_def)

section \<open>A key-value store as an interface\<close>

text \<open>What the token-keeping code relies on from the platform's storage.\<close>

locale kv_store =
  fixes get :: "'s \<Rightarrow> string \<Rightarrow> string option"
    and put :: "string \<Rightarrow> string \<Rightarrow> 's \<Rightarrow> 's"
    and del :: "string \<Rightarrow> 's \<Rightarrow> 's"
  assumes get_put: "get (put k v s) k' = (if k' = k then Some v else get s k')"
    and get_del: "get (del k s) k' = (if k' = k then None else get s k')"
begin

text \<open>A value saved as JSON reads back as itself; deleting a key after writing it leaves no
  trace of the value.\<close>

lemma get_json: "json_clean v \<Longrightarrow> Option.bind (get (put k (json_stringify v) s) k) json_parse = Some v"
  by (simp add: get_put json_stringify_clean)

lemma get_put_del: "get (del k (put k v s)) k' = get (del k s) k'"
  by (simp add: get_put get_del)

lemma get_del_all: "get (foldl (\<lambda>s k. del k s) s ks) k' = (if k' \<in> set ks then None else get s k')"
  by (induction ks arbitrary: s) (auto simp: get_del)

end

interpretation local_kv: kv_store local_store set_item remove_item
  by unfold_locales simp_all

interpretation session_kv: kv_store session_store set_session remove_session
  by unfold_locales simp_all

section \<open>Authentication headers\<close>


text \<open>\<open>getAuthToken\<close> of \<open>auth-helpers.ts\<close> (and its copy in \<open>api.ts\<close>).\<close>

definition getAuthToken :: "'w world \<Rightarrow> string option" where
  "getAuthToken w = (if \<not> has_window w then None else local_store w ''ggid_access_token'')"

definition opt_header :: "string \<Rightarrow> string \<Rightarrow> string option \<Rightarrow> headers \<Rightarrow> headers" where
  "opt_header k pre v h = (if present v then obj_set k (pre @ the v) h else h)"

definition authHeader :: "'w world \<Rightarrow> headers" where
  "authHeader w =
     (let h0 = opt_header ''Authorization'' ''Bearer '' (getAuthToken w) [] in
      if has_window w then
        (let h1 = opt_header ''X-User-ID'' [] (local_store w ''ggid_user_id'') h0
         in opt_header ''X-Tenant-ID'' [] (local_store w ''ggid_tenant_id'') h1)
      else h0)"

definition isAuthenticated :: "'w world \<Rightarrow> bool" where
  "isAuthenticated w = (getAuthToken w \<noteq> None)"

text \<open>\<open>{ ...h, k: v, ... }\<close>.\<close>

definition spread :: "headers \<Rightarrow> headers \<Rightarrow> headers" where
  "spread h h' = foldl (\<lambda>acc (k, v). obj_set k v acc) h h'"

lemma assoc_obj_set [simp]: "assoc k (obj_set k' v kvs) = (if k = k' then Some v else assoc k kvs)"
  by (induction kvs) auto

lemma assoc_opt_header [simp]:
  "assoc k (opt_header k' pre v h) = (if k = k' \<and> present v then Some (pre @ the v) else assoc k h)"
  by (auto simp: opt_header_def)

lemma authHeader_assoc:
  "assoc ''Authorization'' (authHeader w) = (if present (getAuthToken w) then Some (''Bearer '' @ the (getAuthToken w)) else None)"
  "assoc ''X-Tenant-ID'' (authHeader w) =
     (if has_window w \<and> present (local_store w ''ggid_tenant_id'') then local_store w ''ggid_tenant_id'' else None)"
  "assoc ''X-User-ID'' (authHeader w) =
     (if has_window w \<and> present (local_store w ''ggid_user_id'') then local_store w ''ggid_user_id'' else None)"
  by (auto simp: authHeader_def Let_def present_def split: option.splits)

end
