(* ===== verification/Access.thy ===== *)
theory Access
  imports Browser
begin

text \<open>
  The console's client-side authorization (\<open>console/src/lib/api.ts\<close>): the role computed
  by \<open>getUserRole\<close> and the one computed by the hook \<open>useUserRole\<close>, the permission
  test of \<open>useUserPermissions\<close> with its scope hierarchy, the permission map of the
  navigation, the sidebar's filter (\<open>components/sidebar.tsx\<close>) and the
  \<open>PermissionGuard\<close>.  The hook's role test is characterised exactly; the characterisation
  shows that it answers \<open>platform_admin\<close> for a tenant administrator.
\<close>

section \<open>Roles\<close>

datatype user_role = User | TenantAdmin | PlatformAdmin

text \<open>A value that should be an array of strings; \<^term>\<open>None\<close> where a string method called
  on an element throws a \<open>TypeError\<close>.\<close>

fun strings_of :: "jsv list \<Rightarrow> string list option" where
  "strings_of [] = Some []"
| "strings_of (JStr s # vs) = map_option (Cons s) (strings_of vs)"
| "strings_of (_ # vs) = None"

text \<open>\<open>getUserScopes\<close>: no window or no stored scopes or a text that does not parse give
  \<open>["user"]\<close>.\<close>

definition getUserScopes :: "'w world \<Rightarrow> jsv" where
  "getUserScopes w =
     (if \<not> has_window w then JArr [JStr ''user'']
      else (let raw = local_store w ''ggid_user_scopes'' in
        if present raw then (case json_parse (the raw) of None \<Rightarrow> JArr [JStr ''user''] | Some v \<Rightarrow> v)
        else JArr [JStr ''user'']))"

definition platform_name :: "string \<Rightarrow> bool" where
  "platform_name s = (let ls = to_lower s in
     ls = ''platform:admin'' \<or> ls = ''platform administrator'' \<or> ls = ''platform_admin'')"

definition tenant_name :: "string \<Rightarrow> bool" where
  "tenant_name s = (let ls = to_lower s in
     ls = ''tenant:admin'' \<or> ls = ''manager'' \<or> ls = ''tenant administrator'' \<or> ls = ''tenant_admin''
     \<or> ls = ''administrator'')"

text \<open>\<open>xs.some(p)\<close> with a predicate that calls a string method: it stops at the first hit,
  and throws at a non-string element before that.\<close>

fun some_str :: "(string \<Rightarrow> bool) \<Rightarrow> jsv list \<Rightarrow> bool option" where
  "some_str p [] = Some False"
| "some_str p (JStr s # vs) = (if p s then Some True else some_str p vs)"
| "some_str p (_ # vs) = None"

definition getUserRole :: "'w world \<Rightarrow> user_role option" where
  "getUserRole w = (case getUserScopes w of
      JArr vs \<Rightarrow> (case some_str platform_name vs of None \<Rightarrow> None
        | Some True \<Rightarrow> Some PlatformAdmin
        | Some False \<Rightarrow> (case some_str tenant_name vs of None \<Rightarrow> None
            | Some True \<Rightarrow> Some TenantAdmin
            | Some False \<Rightarrow> Some User))
    | _ \<Rightarrow> None)"

text \<open>\<open>k.replace(/[:_]/g, " ")\<close>.\<close>

definition blank_sep :: "string \<Rightarrow> string" where
  "blank_sep s = map (\<lambda>c. if c = CHR '':'' \<or> c = CHR ''_'' then CHR '' '' else c) s"

text \<open>\<open>hasRole(...keys)\<close> inside \<open>useUserRole\<close>.\<close>

definition role_hit :: "string \<Rightarrow> string \<Rightarrow> bool" where
  "role_hit k ls = (let normalized = to_lower (blank_sep k) in
     ls = normalized \<or> ls = to_lower k \<or> ls = blank_sep normalized
     \<or> (str_includes k ''admin'' \<and> (ls = ''administrator'' \<or> ls = ''platform:admin'' \<or> ls = ''tenant:admin'')))"

definition hasRole :: "string list \<Rightarrow> string list \<Rightarrow> bool" where
  "hasRole scopes keys =
     list_ex (\<lambda>k. if k \<in> set scopes then True else list_ex (role_hit k) (map to_lower scopes)) keys"

record role_view =
  role :: user_role
  rscopes :: "string list"
  isPlatformAdmin :: bool
  isTenantAdmin :: bool
  isAdmin :: bool

definition hook_role :: "string list \<Rightarrow> user_role" where
  "hook_role scopes =
     (if hasRole scopes [''platform:admin'', ''platform administrator''] then PlatformAdmin
      else if hasRole scopes [''tenant:admin'', ''manager'', ''administrator''] then TenantAdmin
      else User)"

definition useUserRole :: "string list \<Rightarrow> role_view" where
  "useUserRole scopes = (let r = hook_role scopes in
     \<lparr>role = r, rscopes = scopes, isPlatformAdmin = (r = PlatformAdmin),
      isTenantAdmin = (r = TenantAdmin), isAdmin = (r = PlatformAdmin \<or> r = TenantAdmin)\<rparr>)"

section \<open>Permissions\<close>

text \<open>\<open>scopeOrder[s] || 0\<close>.  The names of \<open>Object.prototype\<close> look up a function or an
  object there, which compares as not-a-number (\<^term>\<open>None\<close>).\<close>

definition proto_names :: "string list" where
  "proto_names = [''constructor'', ''__defineGetter__'', ''__defineSetter__'', ''hasOwnProperty'',
     ''__lookupGetter__'', ''__lookupSetter__'', ''isPrototypeOf'', ''propertyIsEnumerable'',
     ''toString'', ''valueOf'', ''__proto__'', ''toLocaleString'']"

definition scope_rank :: "string \<Rightarrow> nat option" where
  "scope_rank s =
     (if s = ''own'' then Some 1 else if s = ''department'' then Some 2
      else if s = ''tenant'' then Some 3 else if s = ''all'' then Some 4
      else if s \<in> set proto_names then None else Some 0)"

definition rank_ge :: "nat option \<Rightarrow> nat option \<Rightarrow> bool" where
  "rank_ge a b = (case (a, b) of (Some x, Some y) \<Rightarrow> y \<le> x | _ \<Rightarrow> False)"

definition scope_grants :: "string list \<Rightarrow> string \<Rightarrow> bool" where
  "scope_grants parts p = (let pp = split_on (CHR '':'') p in
     3 \<le> length pp \<and> pp ! 0 = parts ! 0 \<and> pp ! 1 = parts ! 1 \<and>
     rank_ge (scope_rank (pp ! 2)) (scope_rank (parts ! 2)))"

text \<open>\<open>hasPermission\<close> of \<open>useUserPermissions\<close>.\<close>

definition hasPermission :: "role_view \<Rightarrow> string list \<Rightarrow> string \<Rightarrow> bool" where
  "hasPermission rv permissions key =
     (if isPlatformAdmin rv \<or> isTenantAdmin rv then True
      else if ''platform:admin'' \<in> set permissions \<or> ''system:admin'' \<in> set permissions then True
      else if key \<in> set permissions then True
      else (let parts = split_on (CHR '':'') key in
        if 3 \<le> length parts then list_ex (scope_grants parts) permissions else False))"

definition NAV_PERMISSION_MAP :: "(string \<times> string list) list" where
  "NAV_PERMISSION_MAP =
    [(''/dashboard'', []), (''/sessions'', []), (''/access-requests'', []),
     (''/users'', [''users:read:tenant'']), (''/roles'', [''roles:read:tenant'']),
     (''/organizations'', [''orgs:read:tenant'']), (''/organizations/analytics'', [''orgs:read:tenant'']),
     (''/settings/nhi'', [''identity:read:tenant'']), (''/settings/migration'', [''identity:read:tenant'']),
     (''/settings/attribute-mapping'', [''identity:read:tenant'']),
     (''/settings/import-wizard'', [''identity:write:tenant'']),
     (''/settings/import-monitor'', [''identity:read:tenant'']),
     (''/settings/review-schedules'', [''identity:read:tenant'']),
     (''/security/session-detail'', [''security:read:tenant'']),
     (''/security/cae-monitor'', [''security:read:tenant'']),
     (''/security/privileged-activity'', [''security:read:tenant'']),
     (''/security/risk-score'', [''security:read:tenant'']), (''/security/posture'', [''security:read:tenant'']),
     (''/settings/conditional-access'', [''policies:read:tenant'']),
     (''/settings/security-policy'', [''security:read:tenant'']),
     (''/settings/password-migration'', [''security:read:tenant'']),
     (''/settings/password-strength'', [''security:read:tenant'']),
     (''/settings/password-policy'', [''security:read:tenant'']),
     (''/settings/enrollment-campaign'', [''security:read:tenant'']),
     (''/settings/passkey-management'', [''security:read:tenant'']), (''/settings/mfa'', [''security:read:tenant'']),
     (''/settings/sod-matrix'', [''governance:read:tenant'']), (''/settings/delegations'', [''governance:read:tenant'']),
     (''/policies'', [''policies:read:tenant'']), (''/audit'', [''audit:read:tenant'']),
     (''/audit/explorer'', [''audit:read:tenant'']), (''/audit/ccm'', [''audit:read:tenant'']),
     (''/oauth-clients'', [''oauth_clients:read:tenant'']), (''/webhooks'', [''webhooks:read:tenant'']),
     (''/api-keys'', [''api_keys:read:tenant'']), (''/settings/scim'', [''identity:read:tenant'']),
     (''/settings/ldap-config'', [''identity:read:tenant'']),
     (''/settings/ldap-sync-config'', [''identity:read:tenant'']), (''/settings'', [''settings:read:tenant'']),
     (''/settings/branding'', [''settings:read:tenant'']),
     (''/settings/feature-flags'', [''settings:feature_flags:tenant'']),
     (''/admin/tenants'', [''tenants:read:all'', ''tenants:read:tenant'', ''tenants:read:own'']),
     (''/docs'', []), (''/monitoring'', [])]"

section \<open>The sidebar and the guard component\<close>

record nav_item =
  href :: string
  ilabel :: string
  iscope :: "string option"

record nav_group =
  glabel :: string
  gscope :: "string option"
  items :: "nav_item list"

definition nav_hasScope :: "role_view \<Rightarrow> string option \<Rightarrow> bool" where
  "nav_hasScope rv required = (case required of None \<Rightarrow> True
     | Some r \<Rightarrow> if r = [] then True
        else if r = ''platform'' then isPlatformAdmin rv
        else if r = ''manager'' then isTenantAdmin rv
        else if r = ''admin'' then isPlatformAdmin rv \<or> isTenantAdmin rv
        else r \<in> set (rscopes rv))"

definition hasRoutePermission :: "role_view \<Rightarrow> string list \<Rightarrow> string \<Rightarrow> bool" where
  "hasRoutePermission rv permissions h = (case assoc h NAV_PERMISSION_MAP of None \<Rightarrow> True
     | Some req \<Rightarrow> if req = [] then True
        else if isPlatformAdmin rv \<or> isTenantAdmin rv then True
        else list_ex (hasPermission rv permissions) req)"

definition roleFilteredGroups :: "role_view \<Rightarrow> string list \<Rightarrow> nav_group list \<Rightarrow> nav_group list" where
  "roleFilteredGroups rv permissions navGroups =
     filter (\<lambda>g. items g \<noteq> [])
       (map (\<lambda>g. g\<lparr>items := filter (\<lambda>i. nav_hasScope rv (iscope i) \<and> hasRoutePermission rv permissions (href i)) (items g)\<rparr>)
         (filter (\<lambda>g. nav_hasScope rv (gscope g)) navGroups))"

text \<open>The search box of the sidebar.\<close>

definition searchGroups :: "string \<Rightarrow> nav_group list \<Rightarrow> nav_group list" where
  "searchGroups search groups =
     (if trim search \<noteq> [] then
        filter (\<lambda>g. items g \<noteq> [])
          (map (\<lambda>g. g\<lparr>items := filter (\<lambda>i. str_includes (to_lower (ilabel i)) (to_lower search)) (items g)\<rparr>) groups)
      else groups)"

definition nav :: "string \<Rightarrow> string \<Rightarrow> nav_item" where
  "nav h l = \<lparr>href = h, ilabel = l, iscope = None\<rparr>"

definition navGroups :: "nav_group list" where
  "navGroups =
    [\<lparr>glabel = ''Overview'', gscope = None, items =
        [nav ''/dashboard'' ''Dashboard'', nav ''/sessions'' ''My Sessions'',
         nav ''/access-requests'' ''Access Requests'']\<rparr>,
     \<lparr>glabel = ''Identity'', gscope = Some ''manager'', items =
        [nav ''/users'' ''Users'', nav ''/roles'' ''Roles'', nav ''/organizations'' ''Organizations'',
         nav ''/settings/import-wizard'' ''Import'', nav ''/settings/review-schedules'' ''Access Reviews'']\<rparr>,
     \<lparr>glabel = ''Security'', gscope = Some ''manager'', items =
        [nav ''/security/itdr'' ''ITDR Dashboard'', nav ''/security/session-detail'' ''Sessions'',
         nav ''/security/cae-monitor'' ''CAE Monitor'', nav ''/security/risk-score'' ''Risk Score'',
         nav ''/security/posture'' ''Posture'', nav ''/settings/conditional-access'' ''Conditional Access'',
         nav ''/settings/password-policy'' ''Password Policy'', nav ''/settings/mfa'' ''MFA'',
         nav ''/settings/passkey-management'' ''Passkeys'']\<rparr>,
     \<lparr>glabel = ''Audit'', gscope = Some ''manager'', items =
        [nav ''/audit'' ''Audit Log'', nav ''/policies'' ''Policies'']\<rparr>,
     \<lparr>glabel = ''Applications'', gscope = Some ''manager'', items =
        [nav ''/oauth-clients'' ''OAuth Clients'', nav ''/webhooks'' ''Webhooks'', nav ''/api-keys'' ''API Keys'',
         nav ''/settings/scim'' ''SCIM'', nav ''/settings/ldap-config'' ''LDAP'',
         nav ''/settings/rate-limits'' ''Rate Limits'', nav ''/api-explorer'' ''API Explorer'',
         nav ''/settings/branding'' ''Branding'', nav ''/settings/feature-flags'' ''Feature Flags'']\<rparr>,
     \<lparr>glabel = ''Administration'', gscope = Some ''manager'', items =
        [nav ''/admin/impersonate'' ''Impersonation'', nav ''/admin/secrets'' ''Secrets'',
         nav ''/admin/key-rotation'' ''Key Rotation'', nav ''/admin/backup'' ''Backup & DR'',
         nav ''/admin/health'' ''System Health'']\<rparr>,
     \<lparr>glabel = ''Platform'', gscope = Some ''platform'', items =
        [nav ''/admin/tenants'' ''Tenants'', nav ''/admin/audit/global'' ''Global Audit'',
         nav ''/admin/threats'' ''Threat Dashboard'']\<rparr>]"

text \<open>\<open>PermissionGuard\<close> renders its children (\<^term>\<open>True\<close>) or the access-denied panel.\<close>

definition PermissionGuard :: "role_view \<Rightarrow> string \<Rightarrow> bool" where
  "PermissionGuard rv requiredScope =
     (if isPlatformAdmin rv then True
      else if requiredScope \<notin> set (rscopes rv) then False
      else True)"

section \<open>What the role tests decide\<close>

lemma to_lower_Cons: "to_lower (c # s) = lower_char c # to_lower s"
  by (simp add: to_lower_def)

lemma lower_ascii [simp]:
  "to_lower ''platform:admin'' = ''platform:admin''" "to_lower ''platform administrator'' = ''platform administrator''"
  "to_lower ''tenant:admin'' = ''tenant:admin''" "to_lower ''manager'' = ''manager''"
  "to_lower ''administrator'' = ''administrator''" "to_lower ''platform admin'' = ''platform admin''"
  "to_lower ''tenant admin'' = ''tenant admin''"
  by (simp_all add: to_lower_def lower_char_def)

lemma blank_sep_names [simp]:
  "blank_sep ''platform:admin'' = ''platform admin''" "blank_sep ''platform administrator'' = ''platform administrator''"
  "blank_sep ''tenant:admin'' = ''tenant admin''" "blank_sep ''manager'' = ''manager''"
  "blank_sep ''administrator'' = ''administrator''" "blank_sep ''platform admin'' = ''platform admin''"
  "blank_sep ''tenant admin'' = ''tenant admin''"
  by (simp_all add: blank_sep_def)

lemma admin_in_names [simp]:
  "str_includes ''platform:admin'' ''admin''" "str_includes ''platform administrator'' ''admin''"
  "str_includes ''tenant:admin'' ''admin''" "str_includes ''administrator'' ''admin''"
  "\<not> str_includes ''manager'' ''admin''"
  by simp_all

lemma hasRole_key: "hasRole scopes keys \<longleftrightarrow> (\<exists>k \<in> set keys. \<exists>s \<in> set scopes. role_hit k (to_lower s))"
proof -
  have "role_hit k (to_lower k)" for k by (simp add: role_hit_def Let_def)
  then have "(if k \<in> set scopes then True else list_ex (role_hit k) (map to_lower scopes))
      \<longleftrightarrow> (\<exists>s \<in> set scopes. role_hit k (to_lower s))" for k
    by (auto simp: list_ex_iff)
  then show ?thesis by (simp add: hasRole_def list_ex_iff)
qed

lemma hasRole_platform:
  "hasRole scopes [''platform:admin'', ''platform administrator''] \<longleftrightarrow> (\<exists>s \<in> set scopes. to_lower s \<in>
     {''platform:admin'', ''platform admin'', ''platform administrator'', ''administrator'', ''tenant:admin''})"
  by (auto simp: hasRole_key role_hit_def Let_def)

lemma hasRole_tenant:
  "hasRole scopes [''tenant:admin'', ''manager'', ''administrator''] \<longleftrightarrow> (\<exists>s \<in> set scopes. to_lower s \<in>
     {''tenant:admin'', ''tenant admin'', ''manager'', ''administrator'', ''platform:admin''})"
  by (auto simp: hasRole_key role_hit_def Let_def)

lemma some_str_strings:
  "some_str p (map JStr ss) = Some (\<exists>s \<in> set ss. p s)"
  by (induction ss) auto

text \<open>A world in which the scopes \<open>ss\<close> are stored.\<close>

definition stores_scopes :: "'w world \<Rightarrow> string list \<Rightarrow> bool" where
  "stores_scopes w ss = (has_window w \<and>
     local_store w ''ggid_user_scopes'' = Some (json_stringify (JArr (map JStr ss))))"

lemma json_clean_strings [simp]: "json_clean (JArr (map JStr ss))"
  by (auto simp: list_all_iff)

lemma json_stringify_arr_nonempty: "json_stringify (JArr vs) \<noteq> []"
  by (simp add: json_stringify_def)

lemma getUserScopes_stored: "stores_scopes w ss \<Longrightarrow> getUserScopes w = JArr (map JStr ss)"
  by (simp add: stores_scopes_def getUserScopes_def present_def json_stringify_arr_nonempty
      json_stringify_clean[OF json_clean_strings])

lemma getUserRole_stored:
  "stores_scopes w ss \<Longrightarrow> getUserRole w = Some
     (if \<exists>s \<in> set ss. platform_name s then PlatformAdmin
      else if \<exists>s \<in> set ss. tenant_name s then TenantAdmin else User)"
  by (auto simp: getUserRole_def getUserScopes_stored some_str_strings)

section \<open>Permission checkers\<close>

text \<open>The law every permission test of the sources has: more permissions never deny more.\<close>

locale monotone_checker =
  fixes has :: "string list \<Rightarrow> string \<Rightarrow> bool"
  assumes mono: "set ps \<subseteq> set qs \<Longrightarrow> has ps k \<Longrightarrow> has qs k"
begin

lemma any_mono: "set ps \<subseteq> set qs \<Longrightarrow> list_ex (has ps) ks \<Longrightarrow> list_ex (has qs) ks"
  by (auto simp: list_ex_iff dest: mono)

lemma all_mono: "set ps \<subseteq> set qs \<Longrightarrow> list_all (has ps) ks \<Longrightarrow> list_all (has qs) ks"
  by (auto simp: list_all_iff dest: mono)

lemma order_irrelevant: "set ps = set qs \<Longrightarrow> has ps = has qs"
  using mono[of ps qs] mono[of qs ps] by (intro ext) auto

end

text \<open>A checker that honours what was granted literally.\<close>

locale exact_checker = monotone_checker +
  assumes exact: "k \<in> set ps \<Longrightarrow> has ps k"
begin

lemma all_of_granted: "set ks \<subseteq> set ps \<Longrightarrow> list_all (has ps) ks"
  using exact by (auto simp: list_all_iff)

end

lemma hasPermission_iff:
  "hasPermission rv ps k \<longleftrightarrow> isPlatformAdmin rv \<or> isTenantAdmin rv \<or> ''platform:admin'' \<in> set ps
     \<or> ''system:admin'' \<in> set ps \<or> k \<in> set ps
     \<or> (3 \<le> length (split_on (CHR '':'') k) \<and> (\<exists>p \<in> set ps. scope_grants (split_on (CHR '':'') k) p))"
  by (auto simp: hasPermission_def Let_def list_ex_iff)

interpretation console_perms: exact_checker "hasPermission rv" for rv
  by unfold_locales (auto simp: hasPermission_iff)

text \<open>The key \<open>resource:action:scope\<close>.\<close>

definition perm_key :: "string \<Rightarrow> string \<Rightarrow> string \<Rightarrow> string" where
  "perm_key r a s = r @ CHR '':'' # a @ CHR '':'' # s"

lemma split_perm_key:
  "CHR '':'' \<notin> set r \<Longrightarrow> CHR '':'' \<notin> set a \<Longrightarrow> CHR '':'' \<notin> set s \<Longrightarrow>
   split_on (CHR '':'') (perm_key r a s) = [r, a, s]"
  by (simp add: perm_key_def split_on_sep split_on_id)

lemma scope_grants_key:
  "CHR '':'' \<notin> set r \<Longrightarrow> CHR '':'' \<notin> set a \<Longrightarrow> CHR '':'' \<notin> set s \<Longrightarrow>
   scope_grants [r', a', s'] (perm_key r a s) \<longleftrightarrow> r = r' \<and> a = a' \<and> rank_ge (scope_rank s) (scope_rank s')"
  by (simp add: scope_grants_def split_perm_key Let_def numeral_2_eq_2)

section \<open>The sidebar\<close>

lemma roleFilteredGroups_items:
  assumes "g \<in> set (roleFilteredGroups rv ps gs)" and "i \<in> set (items g)"
  shows "nav_hasScope rv (iscope i) \<and> hasRoutePermission rv ps (href i) \<and> nav_hasScope rv (gscope g)
    \<and> (\<exists>g' \<in> set gs. glabel g' = glabel g \<and> gscope g' = gscope g \<and> i \<in> set (items g'))"
  using assms by (auto simp: roleFilteredGroups_def)

section \<open>Properties\<close>

text \<open>The hook \<open>useUserRole\<close> answers \<open>platform_admin\<close> exactly for the users one of
  whose scopes is, up to case, one of five names, among them \<open>tenant:admin\<close> and
  \<open>administrator\<close>.\<close>

lemma useUserRole_platform_iff:
  "isPlatformAdmin (useUserRole scopes) \<longleftrightarrow>
     list_ex (\<lambda>s. to_lower s \<in> {''platform:admin'', ''platform admin'', ''platform administrator'',
        ''administrator'', ''tenant:admin''}) scopes"
  by (simp add: useUserRole_def hook_role_def hasRole_platform hasRole_tenant Let_def list_ex_iff)

text \<open>The two role computations disagree on a tenant administrator: with the single
  stored scope \<open>tenant:admin\<close> (in any case), \<open>getUserRole\<close> answers \<open>tenant_admin\<close>, the
  hook answers \<open>platform_admin\<close>, and the hook's permission test then grants every key.\<close>

lemma tenant_admin_escalates:
  assumes "stores_scopes w [s]" and "to_lower s = ''tenant:admin''"
  shows "getUserRole w = Some TenantAdmin \<and> role (useUserRole [s]) = PlatformAdmin
    \<and> hasPermission (useUserRole [s]) [] key"
  using assms
  by (simp add: getUserRole_stored platform_name_def tenant_name_def useUserRole_def hook_role_def
      hasRole_platform hasPermission_def Let_def)


text \<open>The scope hierarchy \<open>all > tenant > department > own\<close>: for a user without an
  administrator role, a permission \<open>r:a:s\<close> grants the key \<open>r:a:s'\<close> whenever \<open>s'\<close> ranks
  at most as high as \<open>s\<close>.\<close>

lemma hasPermission_hierarchy:
  assumes "perm_key r a s \<in> set ps"
    and "CHR '':'' \<notin> set r" "CHR '':'' \<notin> set a" "CHR '':'' \<notin> set s" "CHR '':'' \<notin> set s'"
    and "rank_ge (scope_rank s) (scope_rank s')"
  shows "hasPermission rv ps (perm_key r a s')"
proof -
  have "scope_grants [r, a, s'] (perm_key r a s)" using assms by (simp add: scope_grants_key)
  then have "\<exists>p \<in> set ps. scope_grants [r, a, s'] p" using assms(1) by blast
  then show ?thesis using assms by (simp add: hasPermission_iff split_perm_key)
qed

lemma hasPermission_hierarchy_example:
  "hasPermission (useUserRole [''user'']) [''users:read:all''] ''users:read:own''"
proof -
  have "hasPermission (useUserRole [''user'']) [''users:read:all''] (perm_key ''users'' ''read'' ''own'')"
    by (rule hasPermission_hierarchy[of _ _ "''all''"])
      (simp_all add: perm_key_def scope_rank_def rank_ge_def)
  then show ?thesis by (simp add: perm_key_def)
qed

text \<open>C15. No escalation: a user without an administrator role and without one of the two
  super-user permissions is denied a key \<open>r:a:s'\<close> if every permission held for
  the same resource and action has a strictly lower scope.\<close>

theorem hasPermission_no_escalation:
  assumes "\<not> isPlatformAdmin rv" "\<not> isTenantAdmin rv"
    and "''platform:admin'' \<notin> set ps" "''system:admin'' \<notin> set ps"
    and "CHR '':'' \<notin> set r" "CHR '':'' \<notin> set a" "CHR '':'' \<notin> set s'"
    and "scope_rank s' = Some n"
    and "\<And>p s rest. p \<in> set ps \<Longrightarrow> split_on (CHR '':'') p = r # a # s # rest \<Longrightarrow> \<not> rank_ge (scope_rank s) (Some n)"
  shows "\<not> hasPermission rv ps (perm_key r a s')"
proof
  assume "hasPermission rv ps (perm_key r a s')"
  then consider "perm_key r a s' \<in> set ps"
    | p where "p \<in> set ps" "scope_grants [r, a, s'] p"
    using assms by (auto simp: hasPermission_iff split_perm_key)
  then show False
  proof cases
    case 1
    then show False using assms(9)[of "perm_key r a s'" s' "[]"] assms(5-8)
      by (simp add: split_perm_key rank_ge_def)
  next
    case 2
    obtain x y z rest where sp: "split_on (CHR '':'') p = x # y # z # rest"
      using 2(2) by (auto simp: scope_grants_def Let_def Suc_le_length_iff numeral_3_eq_3)
    then show False using 2 assms(8) assms(9)[of p z rest]
      by (simp add: scope_grants_def Let_def numeral_2_eq_2)
  qed
qed

theorem hasPermission_no_escalation_witness:
  "\<not> hasPermission (useUserRole [''user'']) [''users:read:own''] ''users:read:tenant''"
proof -
  have role: "\<not> isPlatformAdmin (useUserRole [''user''])" "\<not> isTenantAdmin (useUserRole [''user''])"
    by (simp_all add: useUserRole_def hook_role_def hasRole_platform hasRole_tenant Let_def
        to_lower_def lower_char_def)
  have "\<not> hasPermission (useUserRole [''user'']) [''users:read:own''] (perm_key ''users'' ''read'' ''tenant'')"
    by (rule hasPermission_no_escalation[OF role, where n = 3])
      (auto simp: scope_rank_def rank_ge_def)
  then show ?thesis by (simp add: perm_key_def)
qed

end
