(* ===== verification/Base64.thy ===== *)
theory Base64
  imports Prelude
begin

text \<open>
  The three base64url codecs of the sources: the hand-written encoder of the PKCE utilities
  (\<open>console/src/lib/oauth-pkce.ts\<close>, \<open>base64UrlEncode\<close>), and the pair built on the
  platform's \<open>btoa\<close> and \<open>atob\<close> that the WebAuthn code of the console
  (\<open>console/src/lib/webauthn-conditional.ts\<close>) and of the React SDK
  (\<open>sdk/react/src/passkey.ts\<close>) each carry.  The main results: the pair round-trips,
  the hand-written encoder computes the same function, and a 32-byte input gives a
  43-character URL-safe string.

  The bit operations of the sources work on 32-bit integers whose operands are masked to a
  byte; the shifted values stay below 64, so 8-bit words compute the same numbers.
\<close>

type_synonym u8 = "8 word"

section \<open>The PKCE encoder\<close>

definition chars_url :: string where
  "chars_url = ''ABCDEFGHIJKLMNOPQRSTUVWXYZabcdefghijklmnopqrstuvwxyz0123456789-_''"

definition chars_std :: string where
  "chars_std = ''ABCDEFGHIJKLMNOPQRSTUVWXYZabcdefghijklmnopqrstuvwxyz0123456789+/''"

definition sx1 :: "u8 \<Rightarrow> nat" where
  "sx1 b1 = unat (drop_bit 2 b1)"

definition sx2 :: "u8 \<Rightarrow> u8 \<Rightarrow> nat" where
  "sx2 b1 b2 = unat (push_bit 4 (b1 AND 3) OR drop_bit 4 b2)"

definition sx3 :: "u8 \<Rightarrow> u8 \<Rightarrow> nat" where
  "sx3 b2 b3 = unat (push_bit 2 (b2 AND 15) OR drop_bit 6 b3)"

definition sx4 :: "u8 \<Rightarrow> nat" where
  "sx4 b3 = unat (b3 AND 63)"

text \<open>The loop \<open>for (i = 0; i < bytes.length; i += 3)\<close>: the argument is the part of the
  array from index \<open>i\<close> on, and a missing second or third byte counts as 0.\<close>

fun encode_loop :: "string \<Rightarrow> u8 list \<Rightarrow> string" where
  "encode_loop chars [] = []"
| "encode_loop chars [b1] = [chars ! sx1 b1, chars ! sx2 b1 0, CHR ''='', CHR ''='']"
| "encode_loop chars [b1, b2] =
     [chars ! sx1 b1, chars ! sx2 b1 b2, chars ! sx3 b2 0, CHR ''='']"
| "encode_loop chars (b1 # b2 # b3 # bs) =
     [chars ! sx1 b1, chars ! sx2 b1 b2, chars ! sx3 b2 b3, chars ! sx4 b3] @ encode_loop chars bs"

text \<open>\<open>replace(/=+$/g, "")\<close>.\<close>

definition strip_pad :: "string \<Rightarrow> string" where
  "strip_pad s = rev (dropWhile (\<lambda>c. c = CHR ''='') (rev s))"

definition base64UrlEncode :: "u8 list \<Rightarrow> string" where
  "base64UrlEncode bytes = strip_pad (encode_loop chars_url bytes)"

section \<open>The platform codec and the pair built on it\<close>

text \<open>\<open>btoa\<close> of the binary string whose code units are the bytes.\<close>

definition bin_of :: "u8 list \<Rightarrow> string" where
  "bin_of bs = map (\<lambda>b. char_of (unat b)) bs"

definition bytes_of :: "string \<Rightarrow> u8 list" where
  "bytes_of s = map (\<lambda>c. word_of_nat (of_char c)) s"

definition btoa :: "string \<Rightarrow> string" where
  "btoa s = encode_loop chars_std (bytes_of s)"

text \<open>\<open>atob\<close>: the forgiving base64 decoding of the platform.  ASCII white space is removed;
  one or two trailing \<open>=\<close> are removed when the length is a multiple of four; a length
  of 1 modulo 4 or a character outside the alphabet is an \<open>InvalidCharacterError\<close>
  (\<^term>\<open>None\<close>).\<close>

fun pos_of :: "char \<Rightarrow> string \<Rightarrow> nat option" where
  "pos_of c [] = None"
| "pos_of c (x # xs) = (if c = x then Some 0 else map_option Suc (pos_of c xs))"

fun sextets :: "string \<Rightarrow> u8 list option" where
  "sextets [] = Some []"
| "sextets (c # cs) = (case pos_of c chars_std of None \<Rightarrow> None
     | Some n \<Rightarrow> map_option (\<lambda>ns. word_of_nat n # ns) (sextets cs))"

fun decode_sextets :: "u8 list \<Rightarrow> u8 list option" where
  "decode_sextets [] = Some []"
| "decode_sextets [s1] = None"
| "decode_sextets [s1, s2] = Some [push_bit 2 s1 OR drop_bit 4 s2]"
| "decode_sextets [s1, s2, s3] =
     Some [push_bit 2 s1 OR drop_bit 4 s2, push_bit 4 (s2 AND 15) OR drop_bit 2 s3]"
| "decode_sextets (s1 # s2 # s3 # s4 # ss) =
     map_option (\<lambda>bs. [push_bit 2 s1 OR drop_bit 4 s2, push_bit 4 (s2 AND 15) OR drop_bit 2 s3,
        push_bit 6 (s3 AND 3) OR s4] @ bs) (decode_sextets ss)"

definition ascii_space :: "char \<Rightarrow> bool" where
  "ascii_space c = ((of_char c :: nat) \<in> {9, 10, 12, 13, 32})"

definition strip_pad_atob :: "string \<Rightarrow> string" where
  "strip_pad_atob s =
     (if length s mod 4 = 0 then
        (if 2 \<le> length s \<and> drop (length s - 2) s = ''=='' then take (length s - 2) s
         else if 1 \<le> length s \<and> drop (length s - 1) s = ''='' then take (length s - 1) s
         else s)
      else s)"

definition atob :: "string \<Rightarrow> string option" where
  "atob s = (let t = strip_pad_atob (filter (\<lambda>c. \<not> ascii_space c) s) in
     if length t mod 4 = 1 then None
     else (case sextets t of None \<Rightarrow> None
           | Some ns \<Rightarrow> map_option bin_of (decode_sextets ns)))"

text \<open>\<open>bufferToB64url\<close>: \<open>btoa\<close>, then \<open>+\<close> to \<open>-\<close>, \<open>/\<close> to \<open>_\<close>, every
  \<open>=\<close> dropped.\<close>

definition bufferToB64url :: "u8 list \<Rightarrow> string" where
  "bufferToB64url buffer =
     replace_all (CHR ''='') [] (replace_all (CHR ''/'') ''_'' (replace_all (CHR ''+'') ''-''
       (btoa (bin_of buffer))))"

definition b64urlToBuffer :: "string \<Rightarrow> u8 list option" where
  "b64urlToBuffer b64url =
     (let padding = replicate ((4 - length b64url mod 4) mod 4) (CHR ''='');
          base64 = replace_all (CHR ''_'') ''/'' (replace_all (CHR ''-'') ''+'' (b64url @ padding))
      in map_option bytes_of (atob base64))"

text \<open>The React SDK's copies of the two functions.\<close>

definition bufferToBase64url :: "u8 list \<Rightarrow> string" where
  "bufferToBase64url buffer =
     replace_all (CHR ''='') [] (replace_all (CHR ''/'') ''_'' (replace_all (CHR ''+'') ''-''
       (btoa (bin_of buffer))))"

definition base64urlToBuffer :: "string \<Rightarrow> u8 list option" where
  "base64urlToBuffer b64url =
     (let padding = replicate ((4 - length b64url mod 4) mod 4) (CHR ''='');
          base64 = replace_all (CHR ''_'') ''/'' (replace_all (CHR ''-'') ''+'' (b64url @ padding))
      in map_option bytes_of (atob base64))"

section \<open>Sextets\<close>

lemma byte_masks: "(3::u8) = mask 2" "(15::u8) = mask 4" "(63::u8) = mask 6"
  by (simp_all add: mask_eq_exp_minus_1)

lemma bit_byte: "bit (b :: u8) n \<Longrightarrow> n < 8"
  using bit_imp_le_length[of b n] by simp

lemmas byte_bits = byte_masks bit_push_bit_iff bit_drop_bit_eq bit_and_iff bit_or_iff bit_mask_iff

lemma sextet_bound: "(w :: u8) AND mask 6 = w \<Longrightarrow> unat w < 64"
proof -
  assume "w AND mask 6 = w"
  then have "w AND 63 = w" by (simp add: byte_masks)
  then have "w \<le> 63" using word_and_le1[of w 63] by metis
  then show "unat w < 64" by (simp add: word_le_nat_alt)
qed

lemma sx_bounds [simp]: "sx1 b1 < 64" "sx2 b1 b2 < 64" "sx3 b2 b3 < 64" "sx4 b3 < 64"
  unfolding sx1_def sx2_def sx3_def sx4_def byte_masks
  by (rule sextet_bound, rule bit_word_eqI,
      auto simp: bit_simps simp del: mask_numeral dest: bit_byte)+

lemma byte_eqI:
  assumes "\<And>n. n \<in> {0, 1, 2, 3, 4, 5, 6, 7} \<Longrightarrow> bit (a :: u8) n = bit b n"
  shows "a = b"
proof (rule bit_word_eqI)
  fix n :: nat
  assume "n < LENGTH(8)"
  then have "n \<in> {0, 1, 2, 3, 4, 5, 6, 7}" by auto
  then show "bit a n = bit b n" by (rule assms)
qed

lemma sextets_decode_last:
  "push_bit 2 (drop_bit 2 b1) OR drop_bit 4 (push_bit 4 (b1 AND 3)) = (b1 :: u8)"
  "push_bit 4 ((push_bit 4 (b1 AND 3) OR drop_bit 4 b2) AND 15) OR
     drop_bit 2 (push_bit 2 (b2 AND 15)) = (b2 :: u8)"
  unfolding byte_masks
  by (rule byte_eqI, elim insertE emptyE;
      simp add: bit_push_bit_iff bit_drop_bit_eq bit_and_iff bit_or_iff bit_mask_iff
        del: mask_numeral push_bit_and push_bit_or drop_bit_and drop_bit_or;
      auto dest: bit_byte)+

lemma sextets_decode:
  "push_bit 2 (drop_bit 2 b1) OR drop_bit 4 (push_bit 4 (b1 AND 3) OR drop_bit 4 b2) = (b1 :: u8)"
  "push_bit 4 ((push_bit 4 (b1 AND 3) OR drop_bit 4 b2) AND 15) OR
     drop_bit 2 (push_bit 2 (b2 AND 15) OR drop_bit 6 b3) = (b2 :: u8)"
  "push_bit 6 ((push_bit 2 (b2 AND 15) OR drop_bit 6 b3) AND 3) OR (b3 AND 63) = (b3 :: u8)"
  unfolding byte_masks
  by (rule byte_eqI, elim insertE emptyE;
      simp add: bit_push_bit_iff bit_drop_bit_eq bit_and_iff bit_or_iff bit_mask_iff
        del: mask_numeral push_bit_and push_bit_or drop_bit_and drop_bit_or;
      auto dest: bit_byte)+

section \<open>The index list of the encoders\<close>

text \<open>The alphabet positions an input is encoded to, without the padding.\<close>

fun enc_ix :: "u8 list \<Rightarrow> nat list" where
  "enc_ix [] = []"
| "enc_ix [b1] = [sx1 b1, sx2 b1 0]"
| "enc_ix [b1, b2] = [sx1 b1, sx2 b1 b2, sx3 b2 0]"
| "enc_ix (b1 # b2 # b3 # bs) = [sx1 b1, sx2 b1 b2, sx3 b2 b3, sx4 b3] @ enc_ix bs"

definition pad_of :: "u8 list \<Rightarrow> string" where
  "pad_of bs = replicate ((3 - length bs mod 3) mod 3) (CHR ''='')"

lemma enc_ix_bound: "i \<in> set (enc_ix bs) \<Longrightarrow> i < 64"
  by (induction bs rule: enc_ix.induct) auto

lemma pad_of_simps [simp]:
  "pad_of [] = []" "pad_of [b1] = ''==''" "pad_of [b1, b2] = ''=''"
  "pad_of (b1 # b2 # b3 # bs) = pad_of bs"
proof -
  have "Suc (Suc (Suc (length bs))) mod 3 = length bs mod 3" by presburger
  then show "pad_of (b1 # b2 # b3 # bs) = pad_of bs" by (simp add: pad_of_def)
  have "(3 - 1 mod 3) mod 3 = (2::nat)" "(3 - 2 mod 3) mod 3 = (1::nat)" by simp_all
  then show "pad_of [b1] = ''==''" "pad_of [b1, b2] = ''=''"
    by (simp_all add: pad_of_def numeral_2_eq_2)
qed (simp add: pad_of_def)

lemma encode_loop_ix: "encode_loop chars bs = map ((!) chars) (enc_ix bs) @ pad_of bs"
  by (induction chars bs rule: encode_loop.induct) simp_all

lemma length_enc_ix: "length (enc_ix bs) = 4 * (length bs div 3) + (if length bs mod 3 = 0 then 0 else length bs mod 3 + 1)"
proof (induction bs rule: enc_ix.induct)
  case (4 b1 b2 b3 bs)
  have "Suc (Suc (Suc (length bs))) div 3 = Suc (length bs div 3)"
    "Suc (Suc (Suc (length bs))) mod 3 = length bs mod 3" by presburger+
  with 4 show ?case by simp
qed simp_all

lemma decode_enc_ix: "decode_sextets (map word_of_nat (enc_ix bs)) = Some bs"
  by (induction bs rule: enc_ix.induct)
     (simp_all add: sx1_def sx2_def sx3_def sx4_def sextets_decode sextets_decode_last
        del: push_bit_and push_bit_or drop_bit_and drop_bit_or)

section \<open>The alphabets\<close>

lemma length_chars [simp]: "length chars_std = 64" "length chars_url = 64"
  by (simp_all add: chars_std_def chars_url_def)

lemma distinct_chars: "distinct chars_std" "distinct chars_url"
  by code_simp+

lemma chars_no_pad:
  "i < 64 \<Longrightarrow> chars_std ! i \<noteq> CHR ''=''" "i < 64 \<Longrightarrow> chars_url ! i \<noteq> CHR ''=''"
proof -
  have "CHR ''='' \<notin> set chars_std" "CHR ''='' \<notin> set chars_url" by code_simp+
  then show "i < 64 \<Longrightarrow> chars_std ! i \<noteq> CHR ''=''" "i < 64 \<Longrightarrow> chars_url ! i \<noteq> CHR ''=''"
    by (metis nth_mem length_chars)+
qed

lemma chars_no_space: "i < 64 \<Longrightarrow> \<not> ascii_space (chars_std ! i)"
proof -
  have "list_all (\<lambda>c. \<not> ascii_space c) chars_std" by code_simp
  then show "i < 64 \<Longrightarrow> \<not> ascii_space (chars_std ! i)" by (simp add: list_all_length)
qed

definition to_url :: "char \<Rightarrow> char" where
  "to_url c = (if c = CHR ''+'' then CHR ''-'' else if c = CHR ''/'' then CHR ''_'' else c)"

definition from_url :: "char \<Rightarrow> char" where
  "from_url c = (if c = CHR ''-'' then CHR ''+'' else if c = CHR ''_'' then CHR ''/'' else c)"

lemma chars_translate:
  "i < 64 \<Longrightarrow> to_url (chars_std ! i) = chars_url ! i"
  "i < 64 \<Longrightarrow> from_url (chars_url ! i) = chars_std ! i"
proof -
  have "map to_url chars_std = chars_url" "map from_url chars_url = chars_std" by code_simp+
  then show "i < 64 \<Longrightarrow> to_url (chars_std ! i) = chars_url ! i"
    "i < 64 \<Longrightarrow> from_url (chars_url ! i) = chars_std ! i"
    by (metis length_chars nth_map)+
qed

lemma replace_all_filter: "replace_all c [] s = filter (\<lambda>x. x \<noteq> c) s"
  by (induction s) (auto simp: replace_all_def)

lemma replace_all_map: "replace_all c [d] s = map (\<lambda>x. if x = c then d else x) s"
  by (induction s) (auto simp: replace_all_def)

lemma replace_to_url:
  "replace_all (CHR ''/'') ''_'' (replace_all (CHR ''+'') ''-'' s) = map to_url s"
  by (simp add: replace_all_map to_url_def)

lemma replace_from_url:
  "replace_all (CHR ''_'') ''/'' (replace_all (CHR ''-'') ''+'' s) = map from_url s"
  by (simp add: replace_all_map from_url_def)

lemma bytes_of_bin_of [simp]: "bytes_of (bin_of bs) = bs"
proof -
  have "word_of_nat (of_char (char_of (unat b) :: char)) = b" for b :: u8
  proof -
    have "unat b < 256" using unsigned_less[of b] by simp
    then have "(of_char (char_of (unat b) :: char) :: nat) = unat b"
      by (simp add: of_char_of take_bit_eq_mod)
    then show ?thesis by simp
  qed
  then show ?thesis by (induction bs) (auto simp: bytes_of_def bin_of_def)
qed

lemma btoa_bin_of: "btoa (bin_of bs) = map ((!) chars_std) (enc_ix bs) @ pad_of bs"
  by (simp add: btoa_def encode_loop_ix)

section \<open>The encoders agree\<close>

lemma pad_no_pad: "filter (\<lambda>x. x \<noteq> CHR ''='') (pad_of bs) = []"
  by (simp add: pad_of_def filter_replicate)

lemma bufferToB64url_ix: "bufferToB64url bs = map ((!) chars_url) (enc_ix bs)"
proof -
  have "map to_url (map ((!) chars_std) (enc_ix bs)) = map ((!) chars_url) (enc_ix bs)"
    using enc_ix_bound by (simp add: chars_translate)
  moreover have "map to_url (pad_of bs) = pad_of bs"
    by (simp add: pad_of_def to_url_def)
  moreover have "filter (\<lambda>x. x \<noteq> CHR ''='') (map ((!) chars_url) (enc_ix bs)) = map ((!) chars_url) (enc_ix bs)"
    using enc_ix_bound chars_no_pad by (auto simp: filter_id_conv)
  ultimately show ?thesis
    by (simp add: bufferToB64url_def replace_to_url replace_all_filter btoa_bin_of pad_no_pad del: map_map)
qed

lemma strip_pad_append:
  assumes "\<And>c. c \<in> set s \<Longrightarrow> c \<noteq> CHR ''=''"
  shows "strip_pad (s @ replicate n (CHR ''='')) = s"
proof -
  have "dropWhile (\<lambda>c. c = CHR ''='') (replicate n (CHR ''='') @ t) = dropWhile (\<lambda>c. c = CHR ''='') t" for t
    by (induction n) auto
  moreover have "dropWhile (\<lambda>c. c = CHR ''='') (rev s) = rev s"
    using assms by (cases s rule: rev_cases) auto
  ultimately show ?thesis by (simp add: strip_pad_def)
qed

lemma base64UrlEncode_ix: "base64UrlEncode bs = map ((!) chars_url) (enc_ix bs)"
  unfolding base64UrlEncode_def encode_loop_ix pad_of_def
  by (rule strip_pad_append) (use enc_ix_bound chars_no_pad in auto)

section \<open>Decoding\<close>

lemma pos_of_nth: "distinct xs \<Longrightarrow> i < length xs \<Longrightarrow> pos_of (xs ! i) xs = Some i"
proof (induction xs arbitrary: i)
  case (Cons x xs)
  then show ?case by (cases i) (auto simp: nth_mem)
qed simp

lemma sextets_ix: "(\<And>i. i \<in> set is \<Longrightarrow> i < 64) \<Longrightarrow> sextets (map ((!) chars_std) is) = Some (map word_of_nat is)"
  by (induction "is") (auto simp: pos_of_nth distinct_chars)

lemma strip_pad_atob_pad:
  assumes "(length s + k) mod 4 = 0" "k \<le> 2" "\<And>c. c \<in> set s \<Longrightarrow> c \<noteq> CHR ''=''"
  shows "strip_pad_atob (s @ replicate k (CHR ''='')) = s"
proof -
  have last: "s \<noteq> [] \<Longrightarrow> last s \<noteq> CHR ''=''" using assms(3) by simp
  have one: "drop (length s - 1) s \<noteq> ''=''"
    using last by (cases s rule: rev_cases) auto
  have two: "drop (length s - 2) s \<noteq> ''==''"
  proof (cases "length s < 2")
    case False
    then have "last (drop (length s - 2) s) = last s" "s \<noteq> []" by (auto simp: last_drop)
    moreover have "last ''=='' = CHR ''=''" by simp
    ultimately show ?thesis using last by metis
  next
    case True
    then have "drop (length s - 2) s = s" by simp
    then show ?thesis using last True by auto
  qed
  consider "k = 0" | "k = 1" | "k = 2" using assms(2) by linarith
  then show ?thesis
  proof cases
    case 1
    then show ?thesis using assms(1) one two by (auto simp: strip_pad_atob_def)
  next
    case 2
    have "drop (Suc (length s) - 2) (s @ [c]) \<noteq> ''==''" for c
    proof (cases s rule: rev_cases)
      case (snoc t x)
      then show ?thesis using last by auto
    qed simp
    with 2 show ?thesis using assms(1) one by (simp add: strip_pad_atob_def)
  next
    case 3
    have "Suc (Suc (length s)) - 2 = length s" by simp
    with 3 show ?thesis using assms(1) by (simp add: strip_pad_atob_def numeral_2_eq_2)
  qed
qed

lemma pad_to_four: "(n + (4 - n mod 4) mod 4) mod 4 = (0::nat)"
proof -
  have "n mod 4 \<in> {0, 1, 2, 3}" by auto
  then have "(n mod 4 + (4 - n mod 4) mod 4) mod 4 = 0" by (elim insertE emptyE) simp_all
  then show ?thesis by (simp add: mod_add_left_eq)
qed

lemma enc_ix_pad:
  "(4 - length (enc_ix bs) mod 4) mod 4 \<le> 2"
  "(length (enc_ix bs) + (4 - length (enc_ix bs) mod 4) mod 4) mod 4 = 0"
  "length (enc_ix bs) mod 4 \<noteq> 1"
proof -
  have "length bs mod 3 \<in> {0, 1, 2}" by auto
  then have "length (enc_ix bs) mod 4 \<in> {0, 2, 3}"
    unfolding length_enc_ix mod_mult_self4 by (elim insertE emptyE) simp_all
  then show "(4 - length (enc_ix bs) mod 4) mod 4 \<le> 2" "length (enc_ix bs) mod 4 \<noteq> 1"
    by auto
  show "(length (enc_ix bs) + (4 - length (enc_ix bs) mod 4) mod 4) mod 4 = 0"
    by (rule pad_to_four)
qed

lemma atob_padded:
  "atob (map ((!) chars_std) (enc_ix bs) @ replicate ((4 - length (enc_ix bs) mod 4) mod 4) (CHR ''=''))
     = Some (bin_of bs)" (is "atob (?s @ ?p) = _")
proof -
  have "\<not> ascii_space (CHR ''='')" by code_simp
  then have f: "filter (\<lambda>c. \<not> ascii_space c) (?s @ ?p) = ?s @ ?p"
    using enc_ix_bound chars_no_space by (auto simp: filter_id_conv filter_replicate)
  have "strip_pad_atob (?s @ ?p) = ?s"
    by (rule strip_pad_atob_pad) (use enc_ix_pad[of bs] enc_ix_bound chars_no_pad in auto)
  then show ?thesis
    by (simp add: atob_def f enc_ix_pad(3) sextets_ix enc_ix_bound decode_enc_ix
        enc_ix_pad(3)[simplified] del: filter_append)
qed

lemma b64urlToBuffer_url: "b64urlToBuffer (map ((!) chars_url) (enc_ix bs)) = Some bs"
proof -
  have "map from_url (map ((!) chars_url) (enc_ix bs)) = map ((!) chars_std) (enc_ix bs)"
    using enc_ix_bound by (simp add: chars_translate)
  moreover have "from_url (CHR ''='') = CHR ''=''" by (simp add: from_url_def)
  ultimately show ?thesis
    by (simp add: b64urlToBuffer_def Let_def replace_from_url atob_padded del: map_map)
qed

text \<open>\<open>atob\<close> applied directly to base64url, as the JWT readers of the sources do: it fails on the two
  characters in which the alphabets differ, and decodes everything else.\<close>

lemma strip_pad_atob_no_pad: "(\<And>c. c \<in> set s \<Longrightarrow> c \<noteq> CHR ''='') \<Longrightarrow> strip_pad_atob s = s"
  using strip_pad_atob_pad[of s 0] by (cases "length s mod 4 = 0") (auto simp: strip_pad_atob_def)

lemma atob_unpadded: "atob (map ((!) chars_std) (enc_ix bs)) = Some (bin_of bs)"
proof -
  let ?s = "map ((!) chars_std) (enc_ix bs)"
  have f: "filter (\<lambda>c. \<not> ascii_space c) ?s = ?s"
    using enc_ix_bound chars_no_space by (auto simp: filter_id_conv)
  have "strip_pad_atob ?s = ?s"
    by (rule strip_pad_atob_no_pad) (use enc_ix_bound chars_no_pad in auto)
  then show ?thesis
    by (simp add: atob_def f sextets_ix enc_ix_bound decode_enc_ix enc_ix_pad(3)[simplified] del: map_map)
qed

lemma sextets_foreign: "c \<in> set s \<Longrightarrow> pos_of c chars_std = None \<Longrightarrow> sextets s = None"
  by (induction s) (auto split: option.splits)

lemma url_chars_foreign: "pos_of (CHR ''-'') chars_std = None" "pos_of (CHR ''_'') chars_std = None"
  by code_simp+

lemma set_strip_pad_atob: "c \<in> set s \<Longrightarrow> c \<noteq> CHR ''='' \<Longrightarrow> c \<in> set (strip_pad_atob s)"
proof -
  assume a: "c \<in> set s" "c \<noteq> CHR ''=''"
  have t: "c \<in> set (take n s)" if "c \<notin> set (drop n s)" for n
    using a(1) that by (metis Un_iff append_take_drop_id set_append)
  have e: "c \<notin> set (drop (length s - 2) s)" if "drop (length s - 2) s = ''==''"
    using a(2) that by simp
  have e1: "c \<notin> set (drop (length s - 1) s)" if "drop (length s - 1) s = ''=''"
    using a(2) that by simp
  show ?thesis unfolding strip_pad_atob_def using t[OF e] t[OF e1] a(1) by presburger
qed

lemma atob_url_chars:
  assumes "CHR ''-'' \<in> set s \<or> CHR ''_'' \<in> set s"
  shows "atob s = None"
proof -
  obtain c where c: "c \<in> set s" "pos_of c chars_std = None" "\<not> ascii_space c" "c \<noteq> CHR ''=''"
    using assms url_chars_foreign by (auto simp: ascii_space_def)
  then have "c \<in> set (strip_pad_atob (filter (\<lambda>c. \<not> ascii_space c) s))"
    by (intro set_strip_pad_atob) auto
  then show ?thesis using sextets_foreign[OF _ c(2)] by (simp add: atob_def Let_def)
qed

lemma atob_b64url:
  "atob (bufferToB64url bs) =
     (if CHR ''-'' \<in> set (bufferToB64url bs) \<or> CHR ''_'' \<in> set (bufferToB64url bs) then None else Some (bin_of bs))"
proof (cases "CHR ''-'' \<in> set (bufferToB64url bs) \<or> CHR ''_'' \<in> set (bufferToB64url bs)")
  case False
  then have "map from_url (bufferToB64url bs) = bufferToB64url bs"
    by (auto simp: from_url_def intro!: map_idI)
  moreover have "map from_url (bufferToB64url bs) = map ((!) chars_std) (enc_ix bs)"
    using enc_ix_bound by (simp add: bufferToB64url_ix chars_translate)
  ultimately have "bufferToB64url bs = map ((!) chars_std) (enc_ix bs)" by simp
  then have "atob (bufferToB64url bs) = Some (bin_of bs)" using atob_unpadded by simp
  then show ?thesis using False by simp
qed (simp add: atob_url_chars)

section \<open>The interface of a byte codec\<close>

text \<open>What the WebAuthn code relies on: whatever the encoder produced, the decoder gives back.\<close>

locale byte_codec =
  fixes enc :: "u8 list \<Rightarrow> string"
    and dec :: "string \<Rightarrow> u8 list option"
  assumes dec_enc: "dec (enc bs) = Some bs"
begin

lemma enc_eq_iff: "enc bs = enc bs' \<longleftrightarrow> bs = bs'"
  by (metis dec_enc option.inject)

end

interpretation console_codec: byte_codec bufferToB64url b64urlToBuffer
  by unfold_locales (simp add: bufferToB64url_ix b64urlToBuffer_url)

lemma sdk_codec_eq:
  "bufferToBase64url = bufferToB64url" "base64urlToBuffer = b64urlToBuffer"
  by (simp_all add: fun_eq_iff bufferToBase64url_def bufferToB64url_def
      base64urlToBuffer_def b64urlToBuffer_def)

interpretation sdk_codec: byte_codec bufferToBase64url base64urlToBuffer
  by unfold_locales (simp add: sdk_codec_eq console_codec.dec_enc)

interpretation pkce_codec: byte_codec base64UrlEncode b64urlToBuffer
  by unfold_locales (simp add: base64UrlEncode_ix b64urlToBuffer_url)

section \<open>URL safety and length\<close>

lemma base64UrlEncode_chars: "set (base64UrlEncode bs) \<subseteq> set chars_url"
  using enc_ix_bound by (auto simp: base64UrlEncode_ix)

lemma bufferToB64url_no_dot: "CHR ''.'' \<notin> set (bufferToB64url bs)"
proof -
  have "CHR ''.'' \<notin> set chars_url" by code_simp
  moreover have "set (bufferToB64url bs) \<subseteq> set chars_url"
    using enc_ix_bound by (auto simp: bufferToB64url_ix)
  ultimately show ?thesis by blast
qed

lemma length_base64UrlEncode:
  "length (base64UrlEncode bs) = (4 * length bs + 2) div 3"
proof -
  have *: "4 * q + (if r = 0 then 0 else r + 1) = (4 * (3 * q + r) + 2) div 3"
    if "r \<in> {0, 1, 2}" for q r :: nat
    using that by (elim insertE emptyE) simp_all
  have r: "length bs mod 3 \<in> {0, 1, 2}" by auto
  have "3 * (length bs div 3) + length bs mod 3 = length bs" by presburger
  with *[OF r, of "length bs div 3"] show ?thesis
    by (simp only: base64UrlEncode_ix length_map length_enc_ix)
qed

end
