(* ===== verification/OAuth_Pkce.thy ===== *)
theory OAuth_Pkce
  imports Base64 Browser
begin

text \<open>
  The authorization-code flow with PKCE of the console (\<open>console/src/lib/oauth-pkce.ts\<close>):
  generation of the verifier, the challenge and the state, the flow record kept in
  \<open>sessionStorage\<close>, the validation of the callback and the token exchange.
  \<open>crypto.getRandomValues\<close> and \<open>crypto.subtle.digest\<close> are outside the program: the
  random bytes and the SHA-256 function are arguments.
\<close>

section \<open>Texts on the wire\<close>

text \<open>\<open>TextEncoder.encode\<close>: UTF-8.\<close>

definition utf8_char :: "char \<Rightarrow> u8 list" where
  "utf8_char c = (let n = of_char c :: nat in
     if n < 128 then [word_of_nat n] else [word_of_nat (192 + n div 64), word_of_nat (128 + n mod 64)])"

definition utf8_encode :: "string \<Rightarrow> u8 list" where
  "utf8_encode s = concat (map utf8_char s)"

text \<open>\<open>URLSearchParams.toString\<close>: the form-urlencoded serializer.\<close>

definition form_safe :: "nat \<Rightarrow> bool" where
  "form_safe n = ((48 \<le> n \<and> n \<le> 57) \<or> (65 \<le> n \<and> n \<le> 90) \<or> (97 \<le> n \<and> n \<le> 122) \<or> n \<in> {42, 45, 46, 95})"

definition upper_hex :: "nat \<Rightarrow> char" where
  "upper_hex n = (if n < 10 then char_of (48 + n) else char_of (55 + n))"

definition form_byte :: "u8 \<Rightarrow> string" where
  "form_byte b = (let n = unat b in
     if form_safe n then [char_of n] else if n = 32 then ''+''
     else [CHR ''%'', upper_hex (n div 16), upper_hex (n mod 16)])"

definition form_encode :: "string \<Rightarrow> string" where
  "form_encode s = concat (map form_byte (utf8_encode s))"

fun search_params :: "(string \<times> string) list \<Rightarrow> string" where
  "search_params [] = []"
| "search_params [(k, v)] = form_encode k @ CHR ''='' # form_encode v"
| "search_params ((k, v) # kvs) = form_encode k @ CHR ''='' # form_encode v @ CHR ''&'' # search_params kvs"

section \<open>The flow\<close>

definition generateCodeVerifier :: "u8 list \<Rightarrow> string" where
  "generateCodeVerifier array = base64UrlEncode array"

definition generateCodeChallenge :: "(u8 list \<Rightarrow> u8 list) \<Rightarrow> string \<Rightarrow> string" where
  "generateCodeChallenge sha256 verifier = base64UrlEncode (sha256 (utf8_encode verifier))"

definition generateState :: "u8 list \<Rightarrow> string" where
  "generateState array = base64UrlEncode array"

record OAuthFlowState =
  code_verifier :: string
  code_challenge :: string
  state :: string
  redirect_uri :: string
  client_id :: string
  scope :: string

definition flow_json :: "OAuthFlowState \<Rightarrow> jsv" where
  "flow_json f = JObj [(''code_verifier'', JStr (code_verifier f)), (''code_challenge'', JStr (code_challenge f)),
     (''state'', JStr (state f)), (''redirect_uri'', JStr (redirect_uri f)),
     (''client_id'', JStr (client_id f)), (''scope'', JStr (scope f))]"

definition mk_flow :: "(u8 list \<Rightarrow> u8 list) \<Rightarrow> u8 list \<Rightarrow> u8 list \<Rightarrow> string \<Rightarrow> string \<Rightarrow> string \<Rightarrow> OAuthFlowState" where
  "mk_flow sha256 rv rs clientId redirectUri scope' =
     (let verifier = generateCodeVerifier rv in
      \<lparr>code_verifier = verifier, code_challenge = generateCodeChallenge sha256 verifier,
       state = generateState rs, redirect_uri = redirectUri, client_id = clientId, scope = scope'\<rparr>)"

definition authorize_params :: "OAuthFlowState \<Rightarrow> string \<Rightarrow> (string \<times> string) list" where
  "authorize_params f tenantId =
     [(''response_type'', ''code''), (''client_id'', client_id f), (''redirect_uri'', redirect_uri f),
      (''scope'', scope f), (''state'', state f), (''code_challenge'', code_challenge f),
      (''code_challenge_method'', ''S256''), (''tenant_id'', tenantId)]"

definition default_scope :: string where
  "default_scope = ''openid profile email offline_access''"

text \<open>\<open>initOAuthFlow\<close>: the URL to redirect to, and the world with the flow stored.\<close>

definition initOAuthFlow ::
  "(u8 list \<Rightarrow> u8 list) \<Rightarrow> u8 list \<Rightarrow> u8 list \<Rightarrow> string \<Rightarrow> string \<Rightarrow> string \<Rightarrow> string \<Rightarrow> string \<Rightarrow> 'w world \<Rightarrow> string \<times> 'w world" where
  "initOAuthFlow sha256 rv rs authorizeUrl clientId redirectUri tenantId scope' w =
     (let f = mk_flow sha256 rv rs clientId redirectUri scope';
          w' = set_session ''ggid_oauth_flow'' (json_stringify (flow_json f)) w
      in (authorizeUrl @ CHR ''?'' # search_params (authorize_params f tenantId), w'))"

text \<open>The messages of the three errors (the dash of the second is an em dash in the source,
  which is outside the model's strings).\<close>

definition msg_no_flow :: string where "msg_no_flow = ''No OAuth flow in progress''"
definition msg_mismatch :: string where "msg_mismatch = ''State mismatch - possible CSRF attack''"
definition msg_no_code :: string where "msg_no_code = ''No authorization code received''"

definition validateCallback :: "string \<Rightarrow> string \<Rightarrow> 'w world \<Rightarrow> exn + jsv" where
  "validateCallback st code w =
     (let stored = session_store w ''ggid_oauth_flow'' in
      if \<not> present stored then Inl (ExnError msg_no_flow)
      else (case json_parse (the stored) of None \<Rightarrow> Inl ExnSyntax
        | Some flow \<Rightarrow> (case js_prop flow ''state'' of None \<Rightarrow> Inl ExnType
            | Some fs \<Rightarrow>
                if fs \<noteq> JStr st then Inl (ExnError msg_mismatch)
                else if code = [] then Inl (ExnError msg_no_code)
                else Inr flow)))"

text \<open>\<open>exchangeCodeForTokens\<close>.  The values put into \<open>URLSearchParams\<close> are converted with
  \<open>String\<close>.\<close>

definition exchange_request :: "string \<Rightarrow> string \<Rightarrow> jsv \<Rightarrow> request" where
  "exchange_request tokenUrl code flow =
     \<lparr>url = tokenUrl, meth = ''POST'', hdrs = [(''Content-Type'', ''application/x-www-form-urlencoded'')],
      rbody = Some (search_params [(''grant_type'', ''authorization_code''), (''code'', code),
        (''redirect_uri'', js_to_string (js_opt_prop flow ''redirect_uri'')),
        (''client_id'', js_to_string (js_opt_prop flow ''client_id'')),
        (''code_verifier'', js_to_string (js_opt_prop flow ''code_verifier''))])\<rparr>"

definition exchangeCodeForTokens :: "'w env \<Rightarrow> string \<Rightarrow> string \<Rightarrow> jsv \<Rightarrow> 'w world \<Rightarrow> (exn + jsv) \<times> 'w world" where
  "exchangeCodeForTokens E tokenUrl code flow w =
     (if nullish flow then (Inl ExnType, w)
      else (case fetch E (exchange_request tokenUrl code flow) w of
        (NetError, w1) \<Rightarrow> (Inl ExnNet, w1)
      | (Resp st body, w1) \<Rightarrow>
          if \<not> resp_ok st then (Inl (ExnError (''Token exchange failed: '' @ body)), w1)
          else (let w2 = remove_session ''ggid_oauth_flow'' w1 in
            (case json_parse body of None \<Rightarrow> (Inl ExnSyntax, w2) | Some v \<Rightarrow> (Inr v, w2)))))"

section \<open>Lemmas\<close>

lemma flow_json_clean [simp]: "json_clean (flow_json f)"
  by (simp add: flow_json_def)

lemma flow_json_stored:
  "session_store w ''ggid_oauth_flow'' = Some (json_stringify (flow_json f)) \<Longrightarrow>
   validateCallback st code w =
     (if st \<noteq> state f then Inl (ExnError msg_mismatch)
      else if code = [] then Inl (ExnError msg_no_code) else Inr (flow_json f))"
proof -
  assume a: "session_store w ''ggid_oauth_flow'' = Some (json_stringify (flow_json f))"
  have p: "json_parse (json_stringify (flow_json f)) = Some (flow_json f)"
    by (rule json_stringify_clean) simp
  have "json_stringify (flow_json f) \<noteq> []" by (simp add: json_stringify_def flow_json_def)
  moreover have "js_prop (flow_json f) ''state'' = Some (JStr (state f))" by (simp add: flow_json_def)
  ultimately show ?thesis using a p by (auto simp: validateCallback_def present_def)
qed

lemma init_stores:
  "initOAuthFlow sha256 rv rs au cid ru tid sc w = (url', w') \<Longrightarrow>
   session_store w' ''ggid_oauth_flow'' = Some (json_stringify (flow_json (mk_flow sha256 rv rs cid ru sc)))"
  by (auto simp: initOAuthFlow_def Let_def)

lemma callback_accepted_iff':
  "initOAuthFlow sha256 rv rs au cid ru tid sc w = (u, w') \<Longrightarrow> validateCallback st code w' =
    (if st \<noteq> generateState rs then Inl (ExnError msg_mismatch)
     else if code = [] then Inl (ExnError msg_no_code)
     else Inr (flow_json (mk_flow sha256 rv rs cid ru sc)))"
  using flow_json_stored[OF init_stores, of sha256 rv rs au cid ru tid sc w u w' st code]
  by (simp add: mk_flow_def Let_def)

lemma form_encode_safe:
  assumes "\<And>c. c \<in> set s \<Longrightarrow> form_safe (of_char c)"
  shows "form_encode s = s"
proof -
  have "concat (map form_byte (utf8_char c)) = [c]" if "form_safe (of_char c)" for c
  proof -
    have n: "(of_char c :: nat) < 128" using that by (auto simp: form_safe_def)
    then have "unat (word_of_nat (of_char c) :: u8) = of_char c"
      by (simp add: unat_of_nat take_bit_eq_mod)
    then show ?thesis using that n by (simp add: utf8_char_def form_byte_def Let_def)
  qed
  with assms show ?thesis
    by (induction s) (auto simp: form_encode_def utf8_encode_def)
qed

lemma chars_url_safe: "c \<in> set chars_url \<Longrightarrow> form_safe (of_char c)"
proof -
  have "\<forall>c \<in> set chars_url. form_safe (of_char c)"
    by (simp add: chars_url_def form_safe_def)
  then show "c \<in> set chars_url \<Longrightarrow> form_safe (of_char c)" by blast
qed

lemma form_encode_b64 [simp]: "form_encode (base64UrlEncode bs) = base64UrlEncode bs"
  using base64UrlEncode_chars[of bs] chars_url_safe by (intro form_encode_safe) auto

section \<open>Properties\<close>

text \<open>The hand-written PKCE encoder computes the same function as the encoder the WebAuthn
  code builds on \<open>btoa\<close>, the decoder inverts both, and different inputs have different
  encodings.\<close>

lemma base64url_encoders_agree:
  "base64UrlEncode bs = bufferToB64url bs \<and> b64urlToBuffer (base64UrlEncode bs) = Some bs
   \<and> base64urlToBuffer (bufferToBase64url bs) = Some bs
   \<and> (base64UrlEncode bs = base64UrlEncode bs' \<longleftrightarrow> bs = bs')"
  by (simp add: base64UrlEncode_ix bufferToB64url_ix pkce_codec.dec_enc[unfolded base64UrlEncode_ix]
      sdk_codec.dec_enc pkce_codec.enc_eq_iff[unfolded base64UrlEncode_ix])

text \<open>A code verifier made from 32 random bytes has 43 characters, all of the URL-safe
  alphabet, so it needs no escaping in a query and meets the 43 to 128 characters the
  protocol asks for.\<close>

lemma code_verifier_wellformed:
  assumes "length array = 32"
  shows "length (generateCodeVerifier array) = 43 \<and> set (generateCodeVerifier array) \<subseteq> set chars_url
    \<and> form_encode (generateCodeVerifier array) = generateCodeVerifier array"
  using assms base64UrlEncode_chars by (simp add: generateCodeVerifier_def length_base64UrlEncode)


text \<open>The callback of a started flow is accepted exactly when it carries the state the
  flow generated and a code; a wrong state is reported as a mismatch before the code is
  looked at, and an accepted callback hands back the stored flow unchanged.\<close>

lemma callback_accepted_iff:
  assumes "initOAuthFlow sha256 rv rs au cid ru tid sc w = (u, w')"
  shows "validateCallback st code w' =
    (if st \<noteq> generateState rs then Inl (ExnError msg_mismatch)
     else if code = [] then Inl (ExnError msg_no_code)
     else Inr (flow_json (mk_flow sha256 rv rs cid ru sc)))"
  using assms by (rule callback_accepted_iff')

lemma callback_accepted_iff_example:
  "validateCallback ''forged'' ''c0de'' (snd (initOAuthFlow id (replicate 32 1) (replicate 16 2) ''a'' ''cid'' ''r'' ''t'' default_scope blank_world))
   = (if ''forged'' \<noteq> generateState (replicate 16 2) then Inl (ExnError msg_mismatch)
     else if ''c0de'' = [] then Inl (ExnError msg_no_code)
     else Inr (flow_json (mk_flow id (replicate 32 1) (replicate 16 2) ''cid'' ''r'' default_scope)))"
  by (rule callback_accepted_iff[of _ _ _ "''a''" _ _ "''t''" _ _ "fst _"]) (rule prod.collapse[symmetric])

text \<open>C7. PKCE end to end: when a callback of a started flow is accepted and the code is
  exchanged, the request to the token endpoint carries the verifier whose S256 challenge is
  the one that was in the authorization URL, and a successful exchange ends the flow, so the
  same callback is not accepted a second time; a refused exchange keeps it.\<close>

theorem pkce_end_to_end:
  assumes init: "initOAuthFlow sha256 rv rs au cid ru tid sc w = (u, w1)"
    and cb: "validateCallback st code w1 = Inr flow"
    and ex: "exchangeCodeForTokens E tokenUrl code flow w1 = (res, w2)"
  defines "f \<equiv> mk_flow sha256 rv rs cid ru sc"
  shows "u = au @ CHR ''?'' # search_params (authorize_params f tid)
    \<and> (''code_challenge'', base64UrlEncode (sha256 (utf8_encode (code_verifier f)))) \<in> set (authorize_params f tid)
    \<and> sent w2 = sent w1 @ [exchange_request tokenUrl code (flow_json f)]
    \<and> rbody (exchange_request tokenUrl code (flow_json f)) = Some (search_params
        [(''grant_type'', ''authorization_code''), (''code'', code), (''redirect_uri'', ru),
         (''client_id'', cid), (''code_verifier'', code_verifier f)])
    \<and> (case res of Inr _ \<Rightarrow> validateCallback st code w2 = Inl (ExnError msg_no_flow)
        | Inl (ExnError _) \<Rightarrow> validateCallback st code w2 = Inr flow
        | Inl _ \<Rightarrow> True)"
proof -
  have u: "u = au @ CHR ''?'' # search_params (authorize_params f tid)"
    using init by (auto simp: initOAuthFlow_def f_def Let_def)
  have flow: "flow = flow_json f"
    using cb callback_accepted_iff'[OF init] by (auto simp: f_def split: if_splits)
  have body: "rbody (exchange_request tokenUrl code (flow_json f)) = Some (search_params
        [(''grant_type'', ''authorization_code''), (''code'', code), (''redirect_uri'', ru),
         (''client_id'', cid), (''code_verifier'', code_verifier f)])"
    by (simp add: exchange_request_def flow_json_def f_def mk_flow_def Let_def)
  have nn: "\<not> nullish flow" by (simp add: flow flow_json_def)
  have chal: "(''code_challenge'', base64UrlEncode (sha256 (utf8_encode (code_verifier f)))) \<in> set (authorize_params f tid)"
    by (simp add: authorize_params_def f_def mk_flow_def generateCodeChallenge_def Let_def)
  obtain out w' where fe: "fetch E (exchange_request tokenUrl code flow) w1 = (out, w')"
    by (cases "fetch E (exchange_request tokenUrl code flow) w1")
  note fr = fetch_frame[OF fe]
  have keep: "validateCallback st code w' = Inr flow"
    using cb by (simp add: validateCallback_def fr(3))
  have sent: "sent w2 = sent w1 @ [exchange_request tokenUrl code flow]"
    using ex fe nn fr(5) by (auto simp: exchangeCodeForTokens_def Let_def split: outcome.splits if_splits option.splits)
  have fin: "case res of Inr _ \<Rightarrow> validateCallback st code w2 = Inl (ExnError msg_no_flow)
        | Inl (ExnError _) \<Rightarrow> validateCallback st code w2 = Inr flow | Inl _ \<Rightarrow> True"
    using ex fe nn keep by (auto simp: exchangeCodeForTokens_def Let_def validateCallback_def present_def
        split: outcome.splits if_splits option.splits)
  show ?thesis using u chal sent body fin flow by simp
qed

theorem pkce_end_to_end_witness:
  "\<exists>u w1 w2. initOAuthFlow id (replicate 32 1) (replicate 16 2) ''a'' ''cid'' ''r'' ''t'' default_scope blank_world = (u, w1)
    \<and> exchangeCodeForTokens (always (Resp 200 ''{}'')) ''tok'' ''c0de''
        (flow_json (mk_flow id (replicate 32 1) (replicate 16 2) ''cid'' ''r'' default_scope)) w1 = (Inr (JObj []), w2)
    \<and> validateCallback (generateState (replicate 16 2)) ''c0de'' w2 = Inl (ExnError msg_no_flow)"
proof -
  let ?f = "mk_flow id (replicate 32 1) (replicate 16 2) ''cid'' ''r'' default_scope"
  obtain u w1 where i: "initOAuthFlow id (replicate 32 1) (replicate 16 2) ''a'' ''cid'' ''r'' ''t'' default_scope blank_world = (u, w1)"
    by (rule prod.exhaust)
  have cb: "validateCallback (generateState (replicate 16 2)) ''c0de'' w1 = Inr (flow_json ?f)"
    by (simp add: callback_accepted_iff'[OF i])
  obtain res w2 where e: "exchangeCodeForTokens (always (Resp 200 ''{}'')) ''tok'' ''c0de'' (flow_json ?f) w1 = (res, w2)"
    by (rule prod.exhaust)
  have "json_parse ''{}'' = Some (JObj [])" by code_simp
  then have r: "res = Inr (JObj [])"
    using e by (auto simp: exchangeCodeForTokens_def flow_json_def fetch_def always_def resp_ok_def Let_def)
  from pkce_end_to_end[OF i cb e] r i e show ?thesis by auto
qed

end
