(* ===== verification/Tenant.thy ===== *)
theory Tenant
  imports OAuth_Pkce
begin

text \<open>
  Tenant resolution: the client side (\<open>console/src/lib/api-config.ts\<close>) reads the tenant slug
  from the host name or the query and resolves it to an identifier through the API with a
  one-entry cache of five minutes; the server side (\<open>console/src/middleware.ts\<close>) checks the
  slug of the \<open>Host\<close> header of every request with a per-slug cache of one minute and
  answers 404 for an unknown tenant.
\<close>

section \<open>The slug of a host name\<close>

definition digits :: "string \<Rightarrow> bool" where
  "digits s = (s \<noteq> [] \<and> list_all is_digit s)"

text \<open>\<open>/^\d+\.\d+\.\d+\.\d+$/.test(s)\<close> and \<open>/^\d+\.\d+\.\d+\.\d+/.test(s)\<close>.\<close>

definition is_ipv4 :: "string \<Rightarrow> bool" where
  "is_ipv4 s = (let ps = split_on (CHR ''.'') s in length ps = 4 \<and> list_all digits ps)"

definition ipv4_prefix :: "string \<Rightarrow> bool" where
  "ipv4_prefix s = (case split_on (CHR ''.'') s of
     a # b # c # d # _ \<Rightarrow> digits a \<and> digits b \<and> digits c \<and> d \<noteq> [] \<and> is_digit (hd d)
   | _ \<Rightarrow> False)"

definition getTenantSlugFromSubdomain :: "bool \<Rightarrow> string \<Rightarrow> string" where
  "getTenantSlugFromSubdomain window hostname =
     (if \<not> window then []
      else if hostname = ''localhost'' \<or> is_ipv4 hostname then []
      else (let parts = split_on (CHR ''.'') hostname in
        if 4 \<le> length parts \<and> parts ! 1 = ''ggid-console'' then
          (let slug = parts ! 0 in if slug = ''www'' \<or> slug = ''ggid-console'' then [] else slug)
        else []))"

text \<open>\<open>params.get("tenant")\<close> is an argument.\<close>

definition getEffectiveTenantSlug :: "bool \<Rightarrow> string option \<Rightarrow> string \<Rightarrow> string" where
  "getEffectiveTenantSlug window urlTenant hostname =
     (if \<not> window then ''default''
      else if present urlTenant then the urlTenant
      else (let subdomain = getTenantSlugFromSubdomain window hostname in
        if subdomain \<noteq> [] then subdomain else ''default''))"

definition getTenantSlugFromHost :: "string \<Rightarrow> string option" where
  "getTenantSlugFromHost host =
     (if host = [] \<or> str_includes host ''localhost'' \<or> ipv4_prefix host then None
      else (let parts = split_on (CHR ''.'') host in
        if 4 \<le> length parts \<and> parts ! 1 = ''ggid-console'' then
          (if parts ! 0 = ''ggid-console'' then None else Some (parts ! 0))
        else None))"

text \<open>\<open>encodeURIComponent\<close>.\<close>

definition uri_safe :: "nat \<Rightarrow> bool" where
  "uri_safe n = ((48 \<le> n \<and> n \<le> 57) \<or> (65 \<le> n \<and> n \<le> 90) \<or> (97 \<le> n \<and> n \<le> 122)
     \<or> n \<in> {45, 95, 46, 33, 126, 42, 39, 40, 41})"

definition uri_byte :: "u8 \<Rightarrow> string" where
  "uri_byte b = (let n = unat b in
     if uri_safe n then [char_of n] else [CHR ''%'', upper_hex (n div 16), upper_hex (n mod 16)])"

definition encodeURIComponent :: "string \<Rightarrow> string" where
  "encodeURIComponent s = concat (map uri_byte (utf8_encode s))"

definition buildUrl :: "string \<Rightarrow> string \<Rightarrow> string" where
  "buildUrl base path = (if starts_with path ''http'' then path else base @ path)"

section \<open>The client's resolver\<close>

type_synonym resolve_cache = "(string \<times> jsv \<times> int) option"

definition cache_lookup :: "resolve_cache \<Rightarrow> string \<Rightarrow> int \<Rightarrow> jsv option" where
  "cache_lookup c slug t = (case c of None \<Rightarrow> None
     | Some (s, i, ts) \<Rightarrow> if s = slug \<and> t - ts < 300000 then Some i else None)"

definition cache_store :: "string \<Rightarrow> jsv \<Rightarrow> int \<Rightarrow> resolve_cache \<Rightarrow> resolve_cache" where
  "cache_store slug i t c = Some (slug, i, t)"

definition resolve_request :: "string \<Rightarrow> string \<Rightarrow> request" where
  "resolve_request base slug =
     \<lparr>url = base @ ''/api/v1/tenants/resolve?slug='' @ encodeURIComponent slug, meth = ''GET'',
      hdrs = [(''Content-Type'', ''application/json'')], rbody = None\<rparr>"

definition resolved_id :: "jsv \<Rightarrow> jsv" where
  "resolved_id data = js_or (js_opt_prop data ''id'') (js_or (js_opt_prop data ''tenant_id'') (js_opt_prop data ''tenantId''))"

text \<open>\<open>resolveTenantSlug\<close>; \<^term>\<open>None\<close> is \<open>null\<close>.  A body that is JSON \<open>null\<close> makes the
  property access throw, which the \<open>catch\<close> turns into \<open>null\<close> as well.\<close>

definition resolveTenantSlug ::
  "'w env \<Rightarrow> string \<Rightarrow> string \<Rightarrow> resolve_cache \<times> 'w world \<Rightarrow> jsv option \<times> (resolve_cache \<times> 'w world)" where
  "resolveTenantSlug E base slug cw = (case cw of (c, w) \<Rightarrow>
     if slug = [] then (None, (c, w))
     else (case cache_lookup c slug (date_now E w) of
        Some i \<Rightarrow> (Some i, (c, w))
      | None \<Rightarrow> (case fetch E (resolve_request base slug) w of
           (NetError, w1) \<Rightarrow> (None, (c, w1))
         | (Resp st body, w1) \<Rightarrow>
             if \<not> resp_ok st then (None, (c, w1))
             else (case json_parse body of None \<Rightarrow> (None, (c, w1))
                | Some data \<Rightarrow>
                    if nullish data then (None, (c, w1))
                    else (let i = resolved_id data in
                      if truthy i then (Some i, (cache_store slug i (date_now E w1) c, w1))
                      else (None, (c, w1)))))))"

section \<open>The middleware\<close>

definition SKIP_PATHS :: "string list" where
  "SKIP_PATHS = [''/_next/'', ''/favicon.ico'', ''/manifest.json'', ''/icon.svg'', ''/apple-icon.png'',
     ''/sw.js'', ''/workbox-'']"

definition CACHE_TTL :: int where "CACHE_TTL = 60000"

type_synonym tenant_cache = "string \<rightharpoonup> (bool \<times> int)"

datatype mw_result = Next | TenantNotFound

definition mw_lookup :: "tenant_cache \<Rightarrow> string \<Rightarrow> int \<Rightarrow> bool option" where
  "mw_lookup c slug t = (case c slug of None \<Rightarrow> None
     | Some (valid, ts) \<Rightarrow> if t - ts < CACHE_TTL then Some valid else None)"

definition mw_store :: "string \<Rightarrow> bool \<Rightarrow> int \<Rightarrow> tenant_cache \<Rightarrow> tenant_cache" where
  "mw_store slug valid t c = c(slug \<mapsto> (valid, t))"

definition mw_request :: "string \<Rightarrow> string \<Rightarrow> request" where
  "mw_request gateway slug = \<lparr>url = gateway @ ''/api/v1/tenants/resolve?slug='' @ encodeURIComponent slug,
     meth = ''GET'', hdrs = [], rbody = None\<rparr>"

text \<open>\<open>middleware\<close>: the timeout of the lookup is one of the ways \<open>fetch\<close> rejects.\<close>

definition middleware ::
  "'w env \<Rightarrow> string \<Rightarrow> string \<Rightarrow> string option \<Rightarrow> tenant_cache \<times> 'w world \<Rightarrow> mw_result \<times> (tenant_cache \<times> 'w world)" where
  "middleware E gateway pathname host cw = (case cw of (c, w) \<Rightarrow>
     if list_ex (starts_with pathname) SKIP_PATHS then (Next, (c, w))
     else (let slug = getTenantSlugFromHost (item_or host []) in
       if \<not> present slug then (Next, (c, w))
       else (case mw_lookup c (the slug) (date_now E w) of
          Some valid \<Rightarrow> (if \<not> valid then TenantNotFound else Next, (c, w))
        | None \<Rightarrow> (case fetch E (mw_request gateway (the slug)) w of
            (NetError, w1) \<Rightarrow> (Next, (c, w1))
          | (Resp st body, w1) \<Rightarrow>
              (let valid = resp_ok st; c1 = mw_store (the slug) valid (date_now E w1) c in
               (if \<not> valid then TenantNotFound else Next, (c1, w1)))))))"

section \<open>A cache with a time to live\<close>

text \<open>The contract both caches promise to their resolvers.\<close>

locale ttl_cache =
  fixes lookup :: "'c \<Rightarrow> string \<Rightarrow> int \<Rightarrow> 'v option"
    and store :: "string \<Rightarrow> 'v \<Rightarrow> int \<Rightarrow> 'c \<Rightarrow> 'c"
    and ttl :: int
  assumes hit: "t' - t < ttl \<Longrightarrow> lookup (store k v t c) k t' = Some v"
    and expired: "ttl \<le> t' - t \<Longrightarrow> lookup (store k v t c) k t' = None"
begin

lemma lookup_store: "lookup (store k v t c) k t' = (if t' - t < ttl then Some v else None)"
  by (simp add: hit expired)

lemma overwrite: "lookup (store k v' t (store k v t0 c)) k t' = lookup (store k v' t c) k t'"
  by (simp add: lookup_store)

end

text \<open>A cache that keeps one entry per key.\<close>

locale keyed_ttl_cache = ttl_cache +
  assumes other: "k' \<noteq> k \<Longrightarrow> lookup (store k v t c) k' t' = lookup c k' t'"
begin

lemma store_commute:
  "k' \<noteq> k \<Longrightarrow> lookup (store k v t (store k' v' t1 c)) k' t' = lookup (store k' v' t1 c) k' t'"
  by (simp add: other)

end

interpretation client_cache: ttl_cache cache_lookup cache_store 300000
  by unfold_locales (simp_all add: cache_lookup_def cache_store_def)

interpretation mw_cache: keyed_ttl_cache mw_lookup mw_store CACHE_TTL
  by unfold_locales (simp_all add: mw_lookup_def mw_store_def)

section \<open>Lemmas\<close>

lemma is_ipv4_prefix: "is_ipv4 s \<Longrightarrow> ipv4_prefix s"
proof -
  assume a: "is_ipv4 s"
  then obtain p q r t where "split_on (CHR ''.'') s = [p, q, r, t]"
    by (auto simp: is_ipv4_def Let_def numeral_eq_Suc length_Suc_conv)
  with a show ?thesis by (cases t) (auto simp: is_ipv4_def ipv4_prefix_def digits_def)
qed

lemma str_includes_refl: "str_includes s s"
  by (auto simp: str_includes_iff intro: exI[of _ "[]"])

lemma resolve_fresh:
  assumes "slug \<noteq> []" "cache_lookup c slug (date_now E w) = None"
    and "fetch E (resolve_request base slug) w = (Resp st body, w1)" "resp_ok st"
    and "json_parse body = Some data" "\<not> nullish data" "truthy (resolved_id data)"
  shows "resolveTenantSlug E base slug (c, w) =
    (Some (resolved_id data), (cache_store slug (resolved_id data) (date_now E w1) c, w1))"
  using assms by (simp add: resolveTenantSlug_def Let_def)

lemma middleware_fresh:
  assumes "\<not> list_ex (starts_with pathname) SKIP_PATHS"
    and "getTenantSlugFromHost (item_or host []) = Some slug" "slug \<noteq> []"
    and "mw_lookup c slug (date_now E w) = None"
    and "fetch E (mw_request gateway slug) w = (Resp st body, w1)"
  shows "middleware E gateway pathname host (c, w) =
    (if resp_ok st then Next else TenantNotFound, (mw_store slug (resp_ok st) (date_now E w1) c, w1))"
  using assms by (simp add: middleware_def present_def Let_def)

section \<open>Properties\<close>

text \<open>What the middleware did before: for every request the host, and the world before and after it, newest first.  Between two requests
  anything may happen outside.\<close>

inductive mw_run :: "'w env \<Rightarrow> string \<Rightarrow> tenant_cache \<Rightarrow> (string option \<times> 'w world \<times> 'w world) list \<Rightarrow> bool" for E gateway where
  start: "mw_run E gateway Map.empty []"
| handled: "mw_run E gateway c evs \<Longrightarrow> middleware E gateway path host (c, w) = (r, (c1, w1)) \<Longrightarrow> mw_run E gateway c1 ((host, w, w1) # evs)"

text \<open>Read off the history alone: the last answer of the API to a question for a tenant, with the time it came.  A question that failed
  is no answer.\<close>

fun last_answer :: "'w env \<Rightarrow> string \<Rightarrow> string \<Rightarrow> (string option \<times> 'w world \<times> 'w world) list \<Rightarrow> (bool \<times> int) option" where
  "last_answer E gateway s [] = None"
| "last_answer E gateway s ((host, w, w1) # evs) =
     (if getTenantSlugFromHost (item_or host []) = Some s \<and> sent w1 = sent w @ [mw_request gateway s]
      then (case fst (fetch E (mw_request gateway s) w) of NetError \<Rightarrow> last_answer E gateway s evs | Resp st _ \<Rightarrow> Some (resp_ok st, date_now E w1))
      else last_answer E gateway s evs)"

lemma cache_is_last_answer:
  assumes "mw_run E gateway c evs" "s \<noteq> []"
  shows "c s = last_answer E gateway s evs"
  using assms(1)
proof induction
  case (handled c evs path host w r c1 w1)
  show ?case
  proof (cases "sent w1 = sent w")
    case True
    then have "c1 = c" using handled.hyps(2)
      by (auto simp: middleware_def Let_def dest!: fetch_frame(5) split: if_splits option.splits prod.splits outcome.splits)
    then show ?thesis using True handled.IH by simp
  next
    case False
    then obtain s0 where s0: "getTenantSlugFromHost (item_or host []) = Some s0" "s0 \<noteq> []" "mw_lookup c s0 (date_now E w) = None"
      "\<not> list_ex (starts_with path) SKIP_PATHS"
      using handled.hyps(2) by (auto simp: middleware_def Let_def present_def split: if_splits option.splits)
    obtain out w2 where f: "fetch E (mw_request gateway s0) w = (out, w2)" by fastforce
    show ?thesis
    proof (cases out)
      case NetError
      then show ?thesis using handled s0 f by (auto simp: middleware_def present_def Let_def)
    next
      case (Resp st body)
      then have "c1 = mw_store s0 (resp_ok st) (date_now E w2) c" "w1 = w2"
        using handled.hyps(2) middleware_fresh[OF s0(4,1-3), of gateway st body w2] f by auto
      then show ?thesis using handled.IH s0 f Resp fetch_frame(5)[OF f] by (auto simp: mw_store_def)
    qed
  qed
qed simp

text \<open>C17. The verdict of the middleware on the tenant of a host, after any number of requests handled one after the other.  If the last
  answer of the API for this tenant is less than a minute old, the verdict is that answer and nothing is sent; otherwise the API
  is asked, once, and the page is refused exactly if an answer came that is not a success.  An unreachable API lets the request
  through and is asked again the next time, but any answer outside 200 to 299, an error of the server too, refuses the tenant's pages
  for the next minute.  Static assets and hosts without a tenant pass without a question.\<close>

theorem middleware_last_answer:
  assumes "mw_run E gateway c evs" "middleware E gateway path host (c, w) = (r, (c1, w1))"
  shows "if list_ex (starts_with path) SKIP_PATHS \<or> getTenantSlugFromHost (item_or host []) \<in> {None, Some []} then r = Next \<and> w1 = w
    else let s = the (getTenantSlugFromHost (item_or host [])); last = last_answer E gateway s evs;
             asks = sent w1 = sent w @ [mw_request gateway s] \<and>
               (r = TenantNotFound \<longleftrightarrow> (\<exists>st body. fst (fetch E (mw_request gateway s) w) = Resp st body \<and> (st < 200 \<or> 299 < st))) in
      case last of None \<Rightarrow> asks
      | Some (ok, t) \<Rightarrow> if date_now E w - t < 60000 then r = (if ok then Next else TenantNotFound) \<and> w1 = w else asks"
proof (cases "list_ex (starts_with path) SKIP_PATHS \<or> getTenantSlugFromHost (item_or host []) \<in> {None, Some []}")
  case True
  then show ?thesis using assms(2) by (auto simp: middleware_def present_def Let_def split: if_splits option.splits)
next
  case False
  then obtain s where s: "getTenantSlugFromHost (item_or host []) = Some s" "s \<noteq> []" "\<not> list_ex (starts_with path) SKIP_PATHS" by auto
  have lookup: "mw_lookup c s (date_now E w) = (case last_answer E gateway s evs of None \<Rightarrow> None
      | Some (ok, t) \<Rightarrow> if date_now E w - t < 60000 then Some ok else None)"
    unfolding mw_lookup_def CACHE_TTL_def using cache_is_last_answer[OF assms(1) s(2)] by simp
  have asks: "sent w1 = sent w @ [mw_request gateway s] \<and>
      (r = TenantNotFound \<longleftrightarrow> (\<exists>st body. fst (fetch E (mw_request gateway s) w) = Resp st body \<and> (st < 200 \<or> 299 < st)))"
    if "mw_lookup c s (date_now E w) = None"
  proof -
    obtain out w2 where f: "fetch E (mw_request gateway s) w = (out, w2)" by fastforce
    have "w1 = w2" "r = TenantNotFound \<longleftrightarrow> (\<exists>st body. out = Resp st body \<and> \<not> resp_ok st)"
      using assms(2) s that f by (auto simp: middleware_def present_def Let_def split: outcome.splits)
    then show ?thesis using f fetch_frame(5)[OF f] by (simp add: resp_ok_def not_le)
  qed
  have hit: "r = (if ok then Next else TenantNotFound) \<and> w1 = w" if "mw_lookup c s (date_now E w) = Some ok" for ok
    using assms(2) s that by (auto simp: middleware_def present_def Let_def)
  show ?thesis using s asks hit lookup by (auto simp: Let_def split: option.splits)
qed

text \<open>A gateway that answers 503 before the first second and finds every tenant afterwards: a minute later its tenant is still refused, and then asked for again.\<close>

definition flaky :: "int env" where
  "flaky = \<lparr>net = (\<lambda>t _. (if t < 1000 then Resp 503 [] else Resp 200 ''{}'', t)), now = id, net_message = ''net'',
     syntax_message = ''syntax'', type_message = ''type''\<rparr>"

theorem middleware_last_answer_witness:
  "\<exists>c. fst (middleware flaky [] ''/'' (Some ''acme.ggid-console.iot2.win'') (Map.empty, page Map.empty 0)) = TenantNotFound \<and>
     fst (snd (middleware flaky [] ''/'' (Some ''acme.ggid-console.iot2.win'') (Map.empty, page Map.empty 0))) = c \<and>
     middleware flaky [] ''/'' (Some ''acme.ggid-console.iot2.win'') (c, page Map.empty 59999) = (TenantNotFound, (c, page Map.empty 59999)) \<and>
     fst (middleware flaky [] ''/'' (Some ''acme.ggid-console.iot2.win'') (c, page Map.empty 60000)) = Next"
proof -
  let ?h = "Some ''acme.ggid-console.iot2.win''" and ?rq = "mw_request [] ''acme''"
  obtain r0 c w1 where 0: "middleware flaky [] ''/'' ?h (Map.empty, page Map.empty 0) = (r0, (c, w1))" using prod_cases3 by blast
  obtain r1 c2 w2 where 1: "middleware flaky [] ''/'' ?h (c, page Map.empty 59999) = (r1, (c2, w2))" using prod_cases3 by blast
  obtain r2 c3 w3 where 2: "middleware flaky [] ''/'' ?h (c, page Map.empty 60000) = (r2, (c3, w3))" using prod_cases3 by blast
  have s: "getTenantSlugFromHost (item_or ?h []) = Some ''acme''" "\<not> list_ex (starts_with ''/'') SKIP_PATHS" by code_simp+
  have f: "fst (fetch flaky ?rq (page Map.empty 0)) = Resp 503 []" "fst (fetch flaky ?rq (page Map.empty 60000)) = Resp 200 ''{}''"
    by (simp_all add: fetch_def flaky_def)
  have a: "sent w1 = [?rq]" "r0 = TenantNotFound"
    using middleware_last_answer[OF mw_run.start 0] s f(1) by (simp_all add: Let_def)
  have "date_now flaky w1 = 0" "w1 = snd (fetch flaky ?rq (page Map.empty 0))"
    using 0 s by (auto simp: middleware_def Let_def present_def mw_lookup_def fetch_def flaky_def date_now_def)
  then have l: "last_answer flaky [] ''acme'' [(?h, page Map.empty 0, w1)] = Some (False, 0)"
    using a(1) s(1) f(1) by (simp add: resp_ok_def)
  have run: "mw_run flaky [] c [(?h, page Map.empty 0, w1)]" by (rule mw_run.handled[OF mw_run.start 0])
  have "r1 = TenantNotFound \<and> w2 = page Map.empty 59999"
    using middleware_last_answer[OF run 1] s l by (simp add: Let_def date_now_def flaky_def)
  moreover have "c2 = c" using 1 calculation by (auto simp: middleware_def Let_def dest!: fetch_frame(5) split: if_splits option.splits prod.splits outcome.splits)
  moreover have "r2 \<noteq> TenantNotFound"
    using middleware_last_answer[OF run 2] s l f(2) by (simp add: Let_def date_now_def flaky_def)
  then have "r2 = Next" by (cases r2) auto
  ultimately show ?thesis using 0 1 2 a(2) by auto
qed

text \<open>The verdict on a tenant is stable for the time to live: after the API answered a lookup,
  every further request for the same host within a minute gets the same verdict, sends
  nothing and leaves the cache as it is.\<close>

lemma middleware_verdict_cached:
  assumes "\<not> list_ex (starts_with p1) SKIP_PATHS" "\<not> list_ex (starts_with p2) SKIP_PATHS"
    and "getTenantSlugFromHost (item_or host []) = Some slug" "slug \<noteq> []"
    and "mw_lookup c slug (date_now E w) = None"
    and "fetch E (mw_request gateway slug) w = (Resp st body, w1)"
    and "date_now E w2 - date_now E w1 < CACHE_TTL"
  shows "\<exists>c1. middleware E gateway p1 host (c, w) = (if resp_ok st then Next else TenantNotFound, (c1, w1))
    \<and> middleware E gateway p2 host (c1, w2) = (if resp_ok st then Next else TenantNotFound, (c1, w2))"
  using middleware_fresh[OF assms(1,3-6)] assms mw_cache.hit
  by (auto simp: middleware_def present_def Let_def)


text \<open>The server-side and the client-side reading of a host name agree, except for the
  host \<open>www\<close>: whenever the middleware takes a slug from a host name, the client takes the
  same one, but the client treats \<open>www\<close> as the default tenant while the middleware looks
  it up as a tenant (and answers 404 if there is none).\<close>

lemma slug_client_server:
  assumes "getTenantSlugFromHost h = Some s"
  shows "getTenantSlugFromSubdomain True h = (if s = ''www'' then [] else s)"
proof -
  from assms have nl: "h \<noteq> ''localhost''" "\<not> is_ipv4 h"
    using str_includes_refl[of "''localhost''"] is_ipv4_prefix[of h]
    by (auto simp: getTenantSlugFromHost_def split: if_splits)
  from assms have "4 \<le> length (split_on (CHR ''.'') h)" "split_on (CHR ''.'') h ! 1 = ''ggid-console''"
    "s = split_on (CHR ''.'') h ! 0" "s \<noteq> ''ggid-console''"
    by (auto simp: getTenantSlugFromHost_def Let_def split: if_splits)
  then show ?thesis using nl by (simp add: getTenantSlugFromSubdomain_def Let_def)
qed

lemma slug_client_server_example:
  "getTenantSlugFromSubdomain True ''www.ggid-console.iot2.win'' = (if ''www'' = ''www'' then [] else ''www'')"
  by (rule slug_client_server)
    (simp add: getTenantSlugFromHost_def ipv4_prefix_def digits_def is_digit_def)

text \<open>A tenant identifier obtained from the API is reused for five minutes: the second
  resolution of the same slug returns the same identifier without a request, and the first
  one after the time is over asks again.\<close>

lemma resolveTenantSlug_cached:
  assumes "slug \<noteq> []" "cache_lookup c slug (date_now E w) = None"
    and "fetch E (resolve_request base slug) w = (Resp st body, w1)" "resp_ok st"
    and "json_parse body = Some data" "\<not> nullish data" "truthy (resolved_id data)"
  shows "\<exists>c1. resolveTenantSlug E base slug (c, w) = (Some (resolved_id data), (c1, w1))
    \<and> (if date_now E w2 - date_now E w1 < 300000
       then resolveTenantSlug E base slug (c1, w2) = (Some (resolved_id data), (c1, w2))
       else sent (snd (snd (resolveTenantSlug E base slug (c1, w2)))) = sent w2 @ [resolve_request base slug])"
proof -
  let ?c1 = "cache_store slug (resolved_id data) (date_now E w1) c"
  have "sent (snd (snd (resolveTenantSlug E base slug (?c1, w2)))) = sent w2 @ [resolve_request base slug]"
    if late: "\<not> date_now E w2 - date_now E w1 < 300000"
  proof -
    have "cache_lookup ?c1 slug (date_now E w2) = None" using late by (intro client_cache.expired) simp
    then show ?thesis using assms(1)
      by (auto simp: resolveTenantSlug_def Let_def dest!: fetch_frame(5) split: prod.splits outcome.splits option.splits)
  qed
  then show ?thesis using resolve_fresh[OF assms] assms(1) client_cache.hit[of "date_now E w2" "date_now E w1"]
    by (auto simp: resolveTenantSlug_def)
qed


end
