(* ===== verification/Api_Client.thy ===== *)
theory Api_Client
  imports Access Tenant
begin

text \<open>
  The console's HTTP client (\<open>console/src/lib/api.ts\<close>): the structured error of a failed
  request, \<open>apiFetch\<close> with its one attempt to refresh the access token on a 401, the
  permission loader with its failure cache, and the hooks \<open>useUsers\<close>,
  \<open>useUserPermissions\<close> and \<open>useAuth\<close>.  The base address \<open>API_BASE_URL\<close>, the default
  tenant and the tenant read when the module is loaded are arguments.  A write to
  \<open>localStorage\<close> is taken not to exceed its quota.
\<close>

section \<open>Errors\<close>

record api_error =
  ae_status :: int
  ae_title :: jsv
  ae_detail :: jsv
  ae_requestId :: jsv
  ae_code :: jsv

definition statusMap :: "int \<Rightarrow> string option" where
  "statusMap = map_of [(400, ''Bad Request''), (401, ''Unauthorized''), (403, ''Forbidden''),
     (404, ''Not Found''), (409, ''Conflict''), (422, ''Validation Error''),
     (429, ''Too Many Requests''), (500, ''Internal Server Error''), (502, ''Bad Gateway''),
     (503, ''Service Unavailable'')]"

text \<open>The four fields read from a structured body; a body that is not JSON, or is JSON
  \<open>null\<close> (whose property access throws), leaves the defaults.\<close>

definition error_fields :: "string \<Rightarrow> jsv \<times> jsv \<times> jsv \<times> jsv" where
  "error_fields body =
     (let raw = (JStr ''Request Failed'',
                 JStr (if 200 < length body then ''Internal server error'' else body), JNull, JNull) in
      case json_parse body of None \<Rightarrow> raw
      | Some p \<Rightarrow> if nullish p then raw
          else (let e = js_opt_prop p ''error'' in
            (js_or (js_opt_prop e ''title'') (js_or (js_opt_prop p ''title'')
               (js_or (js_opt_prop e ''code'') (JStr ''Request Failed''))),
             js_or (js_opt_prop e ''detail'') (js_or (js_opt_prop p ''detail'')
               (js_or (js_opt_prop e ''message'') (js_or (js_opt_prop p ''message'') (JStr body)))),
             js_or (js_opt_prop p ''request_id'') (js_or (js_opt_prop e ''request_id'') JNull),
             js_or (js_opt_prop e ''code'') (js_or (js_opt_prop p ''code'') JNull))))"

definition parseApiError :: "int \<Rightarrow> string \<Rightarrow> api_error" where
  "parseApiError st body = (case error_fields body of (title, detail, rid, code) \<Rightarrow>
     \<lparr>ae_status = st,
      ae_title = (if title = JStr ''Request Failed'' \<and> statusMap st \<noteq> None
                  then JStr (the (statusMap st)) else title),
      ae_detail = detail, ae_requestId = rid, ae_code = code\<rparr>)"

text \<open>The text given to \<open>new Error\<close>.\<close>

definition api_message :: "api_error \<Rightarrow> string" where
  "api_message e = js_to_string (ae_title e) @ '': '' @ js_to_string (ae_detail e)"

datatype api_exn = ApiExn api_error | PlatformExn exn

definition api_exn_message :: "'w env \<Rightarrow> api_exn \<Rightarrow> string" where
  "api_exn_message E x = (case x of ApiExn e \<Rightarrow> api_message e | PlatformExn y \<Rightarrow> exn_message E y)"

definition session_expired :: api_error where
  "session_expired = parseApiError 401 (json_stringify (JObj [(''detail'', JStr ''Session expired'')]))"

section \<open>Requests\<close>

definition getTenantId :: "string \<Rightarrow> 'w world \<Rightarrow> string" where
  "getTenantId default_tenant w =
     (if has_window w then item_or (local_store w ''ggid_tenant_id'') default_tenant else default_tenant)"

record req_options =
  o_method :: "string option"
  o_headers :: headers
  o_body :: "string option"

definition no_options :: req_options where
  "no_options = \<lparr>o_method = None, o_headers = [], o_body = None\<rparr>"

definition api_headers :: "string \<Rightarrow> req_options \<Rightarrow> 'w world \<Rightarrow> headers" where
  "api_headers tenant opts w =
     (let h = [(''Content-Type'', ''application/json''), (''X-Tenant-ID'', tenant)] in
      spread (opt_header ''Authorization'' ''Bearer '' (getAuthToken w) h) (o_headers opts))"

definition api_request :: "string \<Rightarrow> string \<Rightarrow> req_options \<Rightarrow> headers \<Rightarrow> request" where
  "api_request base path opts h =
     \<lparr>url = base @ path, meth = (case o_method opts of None \<Rightarrow> ''GET'' | Some m \<Rightarrow> m), hdrs = h,
      rbody = o_body opts\<rparr>"

definition refresh_request :: "string \<Rightarrow> string \<Rightarrow> request" where
  "refresh_request base refreshToken =
     \<lparr>url = base @ ''/oauth/token'', meth = ''POST'',
      hdrs = [(''Content-Type'', ''application/x-www-form-urlencoded'')],
      rbody = Some (search_params [(''grant_type'', ''refresh_token''), (''refresh_token'', refreshToken),
        (''client_id'', ''gcid-console'')])\<rparr>"

text \<open>\<open>JSON.parse(atob(t.split(".")[1]))\<close>: a token without a dot passes \<open>undefined\<close> to
  \<open>atob\<close>, a token that is not a string has no \<open>split\<close>.\<close>

definition jwt_payload :: "jsv \<Rightarrow> jsv option" where
  "jwt_payload tok = (case tok of
      JStr t \<Rightarrow> Option.bind (atob (case split_on (CHR ''.'') t of _ # p # _ \<Rightarrow> p | _ \<Rightarrow> ''undefined'')) json_parse
    | _ \<Rightarrow> None)"

definition store_scopes :: "jsv \<Rightarrow> 'w world \<Rightarrow> 'w world" where
  "store_scopes tok w = (case jwt_payload tok of None \<Rightarrow> w
     | Some p \<Rightarrow> if nullish p then w
         else (let s = js_or (js_opt_prop p ''scopes'') (js_or (js_opt_prop p ''roles'') (JArr [JStr ''user''])) in
           set_item ''ggid_user_scopes'' (json_stringify (if is_array s then s else JArr [s])) w))"

definition store_tokens :: "jsv \<Rightarrow> 'w world \<Rightarrow> 'w world" where
  "store_tokens tokens w =
     (let at = js_opt_prop tokens ''access_token''; rt = js_opt_prop tokens ''refresh_token'';
          w1 = set_item ''ggid_access_token'' (js_to_string at) w;
          w2 = (if truthy rt then set_item ''ggid_refresh_token'' (js_to_string rt) w1 else w1)
      in store_scopes at w2)"

definition unauthorized :: string where "unauthorized = ''ggid:unauthorized''"

text \<open>The retry with the refreshed token.  \<^term>\<open>None\<close> stands for an exception, which the
  surrounding \<open>catch\<close> swallows.\<close>

definition retry_request :: "string \<Rightarrow> string \<Rightarrow> req_options \<Rightarrow> headers \<Rightarrow> jsv \<Rightarrow> request" where
  "retry_request base path opts h at =
     api_request base path opts (obj_set ''Authorization'' (''Bearer '' @ js_to_string at) h)"

definition retry :: "'w env \<Rightarrow> request \<Rightarrow> 'w world \<Rightarrow> jsv option \<times> 'w world" where
  "retry E rq w = (case fetch E rq w of
      (NetError, w1) \<Rightarrow> (None, w1)
    | (Resp st body, w1) \<Rightarrow>
        if st = 401 then (None, dispatch unauthorized w1)
        else if \<not> resp_ok st then (None, w1)
        else if st = 204 then (Some (JObj []), w1)
        else (json_parse body, w1))"

text \<open>The body of the \<open>try\<close>: \<^term>\<open>None\<close> when control falls through to the logout.\<close>

definition try_refresh ::
  "'w env \<Rightarrow> string \<Rightarrow> string \<Rightarrow> req_options \<Rightarrow> headers \<Rightarrow> string \<Rightarrow> 'w world \<Rightarrow> jsv option \<times> 'w world" where
  "try_refresh E base path opts h refreshToken w =
     (case fetch E (refresh_request base refreshToken) w of
        (NetError, w1) \<Rightarrow> (None, w1)
      | (Resp st body, w1) \<Rightarrow>
          if \<not> resp_ok st then (None, w1)
          else (case json_parse body of None \<Rightarrow> (None, w1)
             | Some tokens \<Rightarrow>
                 if nullish tokens \<or> \<not> truthy (js_opt_prop tokens ''access_token'') then (None, w1)
                 else retry E (retry_request base path opts h (js_opt_prop tokens ''access_token''))
                        (store_tokens tokens w1)))"

definition give_up :: "'w world \<Rightarrow> (api_exn + jsv) \<times> 'w world" where
  "give_up w = (Inl (ApiExn session_expired), dispatch unauthorized w)"

definition apiFetch ::
  "'w env \<Rightarrow> string \<Rightarrow> string \<Rightarrow> string \<Rightarrow> req_options \<Rightarrow> 'w world \<Rightarrow> (api_exn + jsv) \<times> 'w world" where
  "apiFetch E base tenant path opts w =
     (let h = api_headers tenant opts w in
      case fetch E (api_request base path opts h) w of
        (NetError, w1) \<Rightarrow> (Inl (PlatformExn ExnNet), w1)
      | (Resp st body, w1) \<Rightarrow>
          if st = 401 \<and> has_window w1 \<and> \<not> str_includes path ''/auth/'' then
            (let rt = local_store w1 ''ggid_refresh_token'' in
             if present rt then
               (case try_refresh E base path opts h (the rt) w1 of
                  (Some v, w2) \<Rightarrow> (Inr v, w2)
                | (None, w2) \<Rightarrow> give_up w2)
             else give_up w1)
          else if \<not> resp_ok st then (Inl (ApiExn (parseApiError st body)), w1)
          else if st = 204 then (Inr (JObj []), w1)
          else (case json_parse body of None \<Rightarrow> (Inl (PlatformExn ExnSyntax), w1)
             | Some v \<Rightarrow> (Inr v, w1)))"

section \<open>Hooks\<close>

record users_hook =
  uh_users :: jsv
  uh_loading :: bool
  uh_error :: "string option"

text \<open>\<open>refresh\<close> of \<open>useUsers\<close>; a response that is JSON \<open>null\<close> makes \<open>data.users\<close>
  throw, which the \<open>catch\<close> reports.\<close>

definition useUsers_refresh ::
  "'w env \<Rightarrow> string \<Rightarrow> string \<Rightarrow> users_hook \<times> 'w world \<Rightarrow> users_hook \<times> 'w world" where
  "useUsers_refresh E base tenant sw = (case sw of (s, w) \<Rightarrow>
     (case apiFetch E base tenant ''/api/v1/users'' no_options w of
        (Inl x, w1) \<Rightarrow> (s\<lparr>uh_error := Some (api_exn_message E x), uh_loading := False\<rparr>, w1)
      | (Inr data, w1) \<Rightarrow>
          if nullish data then (s\<lparr>uh_error := Some (type_message E), uh_loading := False\<rparr>, w1)
          else (s\<lparr>uh_users := js_or (js_opt_prop data ''users'') (js_or (js_opt_prop data ''items'') (JArr [])),
                  uh_error := None, uh_loading := False\<rparr>, w1)))"

text \<open>\<open>window.__permissionsFailTs\<close> is kept beside the world.\<close>

definition permissions_request :: "string \<Rightarrow> string \<Rightarrow> string \<Rightarrow> request" where
  "permissions_request base default_tenant token =
     \<lparr>url = base @ ''/api/v1/me/permissions'', meth = ''GET'',
      hdrs = [(''Authorization'', ''Bearer '' @ token), (''X-Tenant-ID'', default_tenant)], rbody = None\<rparr>"

definition fail_lookup :: "int \<Rightarrow> string \<Rightarrow> int \<Rightarrow> unit option" where
  "fail_lookup failTs k t = (if t - failTs < 60000 then Some () else None)"

definition fail_store :: "string \<Rightarrow> unit \<Rightarrow> int \<Rightarrow> int \<Rightarrow> int" where
  "fail_store k u t failTs = t"

definition permissions_of :: "jsv \<Rightarrow> jsv list option" where
  "permissions_of data =
     (let perms = js_or (js_opt_prop data ''permissions'') (js_or (js_opt_prop data ''items'') data) in
      case perms of JArr vs \<Rightarrow> Some vs | _ \<Rightarrow> None)"

definition fail_now :: "'w env \<Rightarrow> int \<times> 'w world \<Rightarrow> int \<times> 'w world" where
  "fail_now E fw = (case fw of (f, w) \<Rightarrow>
     (if has_window w then fail_store [] () (date_now E w) f else f, w))"

definition fetchUserPermissions ::
  "'w env \<Rightarrow> string \<Rightarrow> string \<Rightarrow> int \<times> 'w world \<Rightarrow> jsv list option \<times> (int \<times> 'w world)" where
  "fetchUserPermissions E base default_tenant fw = (case fw of (f, w) \<Rightarrow>
     if has_window w \<and> fail_lookup f [] (date_now E w) \<noteq> None then (None, (f, w))
     else if \<not> present (getAuthToken w) then (None, (f, w))
     else (case fetch E (permissions_request base default_tenant (the (getAuthToken w))) w of
        (NetError, w1) \<Rightarrow> (None, fail_now E (f, w1))
      | (Resp st body, w1) \<Rightarrow>
          if \<not> resp_ok st then (None, fail_now E (f, w1))
          else (case json_parse body of None \<Rightarrow> (None, fail_now E (f, w1))
             | Some data \<Rightarrow>
                 if nullish data then (None, fail_now E (f, w1))
                 else (permissions_of data, (f, w1)))))"

definition getUserPermissions :: "'w world \<Rightarrow> jsv" where
  "getUserPermissions w =
     (if \<not> has_window w then JArr []
      else (let raw = local_store w ''ggid_user_permissions'' in
        if present raw then (case json_parse (the raw) of None \<Rightarrow> JArr [] | Some v \<Rightarrow> v) else JArr []))"

text \<open>\<open>v.length > 0\<close>; \<^term>\<open>None\<close> is the \<open>TypeError\<close> of \<open>null.length\<close>.\<close>

fun js_nonempty :: "jsv \<Rightarrow> bool option" where
  "js_nonempty (JArr vs) = Some (vs \<noteq> [])"
| "js_nonempty (JStr s) = Some (s \<noteq> [])"
| "js_nonempty JNull = None"
| "js_nonempty JUndef = None"
| "js_nonempty _ = Some False"

record perms_hook =
  ph_permissions :: jsv
  ph_loading :: bool

text \<open>The effect of \<open>useUserPermissions\<close>, up to the point where the fetch is settled.\<close>

definition useUserPermissions_effect ::
  "'w env \<Rightarrow> string \<Rightarrow> string \<Rightarrow> perms_hook \<times> int \<times> 'w world \<Rightarrow> (perms_hook \<times> int \<times> 'w world) option" where
  "useUserPermissions_effect E base default_tenant s = (case s of (h, f, w) \<Rightarrow>
     (case js_nonempty (getUserPermissions w) of None \<Rightarrow> None
      | Some cached \<Rightarrow>
         (let h1 = (if cached then h\<lparr>ph_permissions := getUserPermissions w, ph_loading := False\<rparr> else h) in
          (case fetchUserPermissions E base default_tenant (f, w) of
             (Some (p # ps), (f1, w1)) \<Rightarrow>
               Some (h1\<lparr>ph_permissions := JArr (p # ps), ph_loading := False\<rparr>, f1,
                     set_item ''ggid_user_permissions'' (json_stringify (JArr (p # ps))) w1)
           | (_, (f1, w1)) \<Rightarrow> Some (h1\<lparr>ph_loading := False\<rparr>, f1, w1)))))"

record auth_hook =
  ah_authenticated :: bool
  ah_loading :: bool

definition useAuth_effect :: "'w world \<Rightarrow> auth_hook" where
  "useAuth_effect w = \<lparr>ah_authenticated = present (getAuthToken w), ah_loading = False\<rparr>"

definition logout_request :: "string \<Rightarrow> string \<Rightarrow> request" where
  "logout_request base token =
     \<lparr>url = base @ ''/api/v1/auth/logout'', meth = ''POST'',
      hdrs = [(''Content-Type'', ''application/json''), (''Authorization'', ''Bearer '' @ token)], rbody = None\<rparr>"

definition session_keys :: "string list" where
  "session_keys = [''ggid_access_token'', ''ggid_refresh_token'', ''ggid_session_id'', ''ggid_tenant_id'',
     ''ggid_user_id'', ''ggid_user_name'', ''ggid_user_email'', ''ggid_user_scopes'', ''ggid_user_permissions'']"

definition logout :: "'w env \<Rightarrow> string \<Rightarrow> auth_hook \<times> 'w world \<Rightarrow> auth_hook \<times> 'w world" where
  "logout E base hw = (case hw of (h, w) \<Rightarrow>
     (let w1 = (if present (getAuthToken w)
                then snd (fetch E (logout_request base (the (getAuthToken w))) w) else w);
          w2 = (if has_window w1 then remove_items session_keys w1 else w1)
      in (h\<lparr>ah_authenticated := False\<rparr>, w2)))"

section \<open>Lemmas\<close>

text \<open>The failure mark is a cache with a time to live of one minute.\<close>

interpretation perm_fail: ttl_cache fail_lookup fail_store 60000
  by unfold_locales (simp_all add: fail_lookup_def fail_store_def)

lemma error_fields_obj:
  assumes "json_clean (JObj kvs)"
  shows "error_fields (json_stringify (JObj kvs)) =
    (let p = JObj kvs; e = js_opt_prop p ''error'' in
     (js_or (js_opt_prop e ''title'') (js_or (js_opt_prop p ''title'')
        (js_or (js_opt_prop e ''code'') (JStr ''Request Failed''))),
      js_or (js_opt_prop e ''detail'') (js_or (js_opt_prop p ''detail'')
        (js_or (js_opt_prop e ''message'') (js_or (js_opt_prop p ''message'') (JStr (json_stringify (JObj kvs)))))),
      js_or (js_opt_prop p ''request_id'') (js_or (js_opt_prop e ''request_id'') JNull),
      js_or (js_opt_prop e ''code'') (js_or (js_opt_prop p ''code'') JNull)))"
  using json_stringify_clean[OF assms] by (simp add: error_fields_def Let_def)

lemma session_expired_eq:
  "session_expired = \<lparr>ae_status = 401, ae_title = JStr ''Unauthorized'', ae_detail = JStr ''Session expired'',
     ae_requestId = JNull, ae_code = JNull\<rparr>"
  by (simp add: session_expired_def parseApiError_def error_fields_obj statusMap_def js_or_def)

lemma store_scopes_frame [simp, world_simps]:
  "sent (store_scopes at w) = sent w" "events (store_scopes at w) = events w"
  "has_window (store_scopes at w) = has_window w" "outside (store_scopes at w) = outside w"
  "k \<noteq> ''ggid_user_scopes'' \<Longrightarrow> local_store (store_scopes at w) k = local_store w k"
  by (auto simp: store_scopes_def Let_def split: option.splits)

lemma store_tokens_frame [simp, world_simps]:
  "sent (store_tokens ts w) = sent w" "events (store_tokens ts w) = events w"
  "has_window (store_tokens ts w) = has_window w" "outside (store_tokens ts w) = outside w"
  by (simp_all add: store_tokens_def Let_def)

lemma store_tokens_access:
  "local_store (store_tokens ts w) ''ggid_access_token'' = Some (js_to_string (js_opt_prop ts ''access_token''))"
  by (simp add: store_tokens_def Let_def)

lemma store_tokens_refresh:
  "local_store (store_tokens ts w) ''ggid_refresh_token'' =
     (if truthy (js_opt_prop ts ''refresh_token'') then Some (js_to_string (js_opt_prop ts ''refresh_token''))
      else local_store w ''ggid_refresh_token'')"
  by (simp add: store_tokens_def Let_def)

lemma retry_sent: "sent (snd (retry E rq w)) = sent w @ [rq]"
  by (auto simp: retry_def dest!: fetch_frame(5) split: prod.splits outcome.splits)

lemma retry_events:
  "events (snd (retry E rq w)) = events w \<or>
   fst (retry E rq w) = None \<and> events (snd (retry E rq w)) = events w @ [unauthorized]"
  by (auto simp: retry_def dest!: fetch_frame(4) split: prod.splits outcome.splits)

lemma try_refresh_sent:
  "sent (snd (try_refresh E base path opts h rt w)) = sent w @ [refresh_request base rt] \<or>
   (\<exists>at. sent (snd (try_refresh E base path opts h rt w)) =
       sent w @ [refresh_request base rt, retry_request base path opts h at])"
  by (auto simp: try_refresh_def retry_sent dest!: fetch_frame(5) split: prod.splits outcome.splits option.splits)

lemma try_refresh_events:
  "events (snd (try_refresh E base path opts h rt w)) = events w \<or>
   fst (try_refresh E base path opts h rt w) = None \<and>
     events (snd (try_refresh E base path opts h rt w)) = events w @ [unauthorized]"
proof -
  obtain out w1 where f: "fetch E (refresh_request base rt) w = (out, w1)" by fastforce
  have r: "events (snd r) = events w \<or> fst r = None \<and> events (snd r) = events w @ [unauthorized]"
    if "r = (None, w1) \<or> (\<exists>rq ts. r = retry E rq (store_tokens ts w1))" for r
    using that retry_events[of E _ "store_tokens _ w1"] fetch_frame(4)[OF f] by auto
  show ?thesis
    by (rule r) (use f in \<open>auto simp: try_refresh_def split: outcome.splits option.splits\<close>)
qed

text \<open>The branches of \<open>apiFetch\<close> after a first response of 401.\<close>

lemma apiFetch_401:
  assumes "fetch E (api_request base path opts (api_headers tenant opts w)) w = (Resp 401 body, w1)"
    and "has_window w" "\<not> str_includes path ''/auth/''" "local_store w ''ggid_refresh_token'' = Some rt" "rt \<noteq> []"
  shows "apiFetch E base tenant path opts w =
    (case try_refresh E base path opts (api_headers tenant opts w) rt w1 of
       (Some v, w2) \<Rightarrow> (Inr v, w2) | (None, w2) \<Rightarrow> give_up w2)"
  using assms fetch_frame(1,2)[OF assms(1)] by (simp add: apiFetch_def Let_def present_def)

lemma try_refresh_ok:
  assumes "fetch E (refresh_request base rt) w1 = (Resp st tbody, w2)" "resp_ok st"
    and "json_parse tbody = Some tokens" "truthy (js_opt_prop tokens ''access_token'')"
  shows "try_refresh E base path opts h rt w1 =
    retry E (retry_request base path opts h (js_opt_prop tokens ''access_token'')) (store_tokens tokens w2)"
  using assms by (cases tokens) (auto simp: try_refresh_def)

text \<open>The requests a call sends.\<close>

lemma apiFetch_sent:
  "\<exists>rs. sent (snd (apiFetch E base tenant path opts w)) =
      sent w @ api_request base path opts (api_headers tenant opts w) # rs \<and>
    (rs = [] \<or> (\<exists>rt body. local_store w ''ggid_refresh_token'' = Some rt \<and> rt \<noteq> [] \<and>
       fst (fetch E (api_request base path opts (api_headers tenant opts w)) w) = Resp 401 body \<and>
       (rs = [refresh_request base rt] \<or>
        (\<exists>at. rs = [refresh_request base rt, retry_request base path opts (api_headers tenant opts w) at]))))"
proof -
  let ?h = "api_headers tenant opts w"
  obtain out w1 where f: "fetch E (api_request base path opts ?h) w = (out, w1)" by fastforce
  note fr = fetch_frame[OF f]
  show ?thesis
  proof (cases "\<exists>body rt. out = Resp 401 body \<and> has_window w \<and> \<not> str_includes path ''/auth/''
      \<and> local_store w ''ggid_refresh_token'' = Some rt \<and> rt \<noteq> []")
    case True
    then obtain body rt where c: "out = Resp 401 body" "has_window w" "\<not> str_includes path ''/auth/''"
      "local_store w ''ggid_refresh_token'' = Some rt" "rt \<noteq> []" by blast
    have "sent (snd (apiFetch E base tenant path opts w)) = sent (snd (try_refresh E base path opts ?h rt w1))"
      using apiFetch_401[OF f[unfolded c(1)] c(2-5)] by (auto simp: give_up_def split: prod.splits option.splits)
    then show ?thesis using try_refresh_sent[of E base path opts ?h rt w1] fr(5) c(1,4,5) f by auto
  next
    case False
    then have "sent (snd (apiFetch E base tenant path opts w)) = sent w1"
      using f fr by (auto simp: apiFetch_def Let_def give_up_def present_def
          split: outcome.splits option.splits if_splits)
    then show ?thesis using fr(5) by auto
  qed
qed

text \<open>The event that makes the console log out is dispatched only by a call that fails with the error
  ``Session expired'', and at most twice by one call.\<close>

lemma apiFetch_events:
  "\<exists>n \<le> 2. events (snd (apiFetch E base tenant path opts w)) = events w @ replicate n unauthorized \<and>
     (n = 0 \<or> fst (apiFetch E base tenant path opts w) = Inl (ApiExn session_expired))"
proof -
  let ?h = "api_headers tenant opts w"
  obtain out w1 where f: "fetch E (api_request base path opts ?h) w = (out, w1)" by fastforce
  have g: "\<exists>n \<le> 2. events (snd (give_up w')) = events w @ replicate n unauthorized \<and>
      (n = 0 \<or> fst (give_up w') = Inl (ApiExn session_expired))"
    if "events w' = events w \<or> events w' = events w @ [unauthorized]" for w' :: "'a world"
  proof (cases "events w' = events w")
    case True
    then show ?thesis by (intro exI[of _ 1]) (simp add: give_up_def)
  next
    case False
    with that show ?thesis by (intro exI[of _ 2]) (simp add: give_up_def numeral_2_eq_2)
  qed
  have t: "\<exists>n \<le> 2. events (snd r) = events w @ replicate n unauthorized \<and>
      (n = 0 \<or> fst r = Inl (ApiExn session_expired))"
    if "r = (case try_refresh E base path opts ?h rt w1 of (Some v, w2) \<Rightarrow> (Inr v, w2) | (None, w2) \<Rightarrow> give_up w2)"
    for r rt
    using that try_refresh_events[of E base path opts ?h rt w1] fetch_frame(4)[OF f] g
    by (fastforce split: prod.splits option.splits)
  show ?thesis
    using f fetch_frame[OF f] g[of w1] t
    by (auto simp: apiFetch_def Let_def split: outcome.splits option.splits)
qed

text \<open>Bodies of the witnesses' servers.\<close>

lemma json_parse_access_token: "json_parse ''{\"access_token\":\"a\"}'' = Some (JObj [(''access_token'', JStr ''a'')])"
  by code_simp

lemma json_parse_empty: "json_parse ''{}'' = Some (JObj [])"
  by code_simp

section \<open>Properties\<close>

text \<open>C2. A call of \<open>apiFetch\<close> sends its own request first and at most two more, in this order: one
  refresh with the stored refresh token, and one repetition of the request with the new
  token.  It refreshes only after a first response of 401, with a refresh token that is not empty, and
  never loops between refresh and retry.\<close>

theorem apiFetch_requests:
  "\<exists>rs. sent (snd (apiFetch E base tenant path opts w)) =
      sent w @ api_request base path opts (api_headers tenant opts w) # rs \<and>
    (rs = [] \<or> (\<exists>rt body. local_store w ''ggid_refresh_token'' = Some rt \<and> rt \<noteq> [] \<and>
       fst (fetch E (api_request base path opts (api_headers tenant opts w)) w) = Resp 401 body \<and>
       (rs = [refresh_request base rt] \<or>
        (\<exists>at. rs = [refresh_request base rt, retry_request base path opts (api_headers tenant opts w) at]))))"
  by (rule apiFetch_sent)

text \<open>C3. A refresh rotates the stored tokens: when the first response is a 401, the refresh
  endpoint issues an access token and the repeated request succeeds, the call returns the
  repeated request's JSON, the new access token is stored, and the refresh token is replaced
  exactly when the endpoint issued one.\<close>

theorem apiFetch_rotates_tokens:
  assumes "fetch E (api_request base path opts (api_headers tenant opts w)) w = (Resp 401 b1, w1)"
    and "has_window w" "\<not> str_includes path ''/auth/''" "local_store w ''ggid_refresh_token'' = Some rt" "rt \<noteq> []"
    and "fetch E (refresh_request base rt) w1 = (Resp st tbody, w2)" "resp_ok st"
    and "json_parse tbody = Some tokens" "truthy (js_opt_prop tokens ''access_token'')"
    and "fetch E (retry_request base path opts (api_headers tenant opts w) (js_opt_prop tokens ''access_token''))
           (store_tokens tokens w2) = (Resp 200 b3, w3)"
    and "json_parse b3 = Some v"
  shows "apiFetch E base tenant path opts w = (Inr v, w3) \<and>
    getAuthToken w3 = Some (js_to_string (js_opt_prop tokens ''access_token'')) \<and>
    local_store w3 ''ggid_refresh_token'' =
      (if truthy (js_opt_prop tokens ''refresh_token'') then Some (js_to_string (js_opt_prop tokens ''refresh_token''))
       else Some rt)"
proof -
  have r: "retry E (retry_request base path opts (api_headers tenant opts w) (js_opt_prop tokens ''access_token''))
      (store_tokens tokens w2) = (Some v, w3)"
    using assms(10,11) by (simp add: retry_def resp_ok_def)
  then have a: "apiFetch E base tenant path opts w = (Inr v, w3)"
    using apiFetch_401[OF assms(1-5)] try_refresh_ok[OF assms(6-9)] by simp
  have fr: "local_store w3 = local_store (store_tokens tokens w2)" "has_window w3"
    using fetch_frame(1,2)[OF assms(10)] fetch_frame(1)[OF assms(6)] fetch_frame(1)[OF assms(1)] assms(2) by simp_all
  then show ?thesis
    using a fetch_frame(2)[OF assms(6)] fetch_frame(2)[OF assms(1)] assms(4)
    by (simp add: getAuthToken_def store_tokens_access store_tokens_refresh)
qed

theorem apiFetch_rotates_tokens_witness:
  "\<exists>w3. apiFetch scripted ''b'' ''t'' ''/x'' no_options (page [''ggid_refresh_token'' \<mapsto> ''r'']
        [Resp 401 [], Resp 200 ''{\"access_token\":\"a\"}'', Resp 200 ''{}'']) = (Inr (JObj []), w3) \<and>
    getAuthToken w3 = Some (js_to_string (js_opt_prop (JObj [(''access_token'', JStr ''a'')]) ''access_token'')) \<and>
    local_store w3 ''ggid_refresh_token'' =
      (if truthy (js_opt_prop (JObj [(''access_token'', JStr ''a'')]) ''refresh_token'')
       then Some (js_to_string (js_opt_prop (JObj [(''access_token'', JStr ''a'')]) ''refresh_token'')) else Some ''r'')"
  by (rule exI, rule apiFetch_rotates_tokens[OF fetch_scripted _ _ _ _ fetch_scripted _
        json_parse_access_token _ fetch_scripted])
    (simp_all add: resp_ok_def json_parse_empty, simp_all add: resp_ok_def json_parse_empty)

text \<open>An error of the repeated request is not reported as itself: after a successful refresh,
  any status outside 200 to 299 (a 403, a 500) of the repetition ends in the 401 error
  ``Session expired'' and in the logout event, because the \<open>catch\<close> around the refresh
  also catches the error thrown for the repetition.\<close>

lemma apiFetch_retry_error_masked:
  assumes "fetch E (api_request base path opts (api_headers tenant opts w)) w = (Resp 401 b1, w1)"
    and "has_window w" "\<not> str_includes path ''/auth/''" "local_store w ''ggid_refresh_token'' = Some rt" "rt \<noteq> []"
    and "fetch E (refresh_request base rt) w1 = (Resp st tbody, w2)" "resp_ok st"
    and "json_parse tbody = Some tokens" "truthy (js_opt_prop tokens ''access_token'')"
    and "fetch E (retry_request base path opts (api_headers tenant opts w) (js_opt_prop tokens ''access_token''))
           (store_tokens tokens w2) = (Resp st3 b3, w3)"
    and "\<not> resp_ok st3"
  shows "fst (apiFetch E base tenant path opts w) = Inl (ApiExn session_expired) \<and> ae_status session_expired = 401
    \<and> unauthorized \<in> set (events (snd (apiFetch E base tenant path opts w)))"
proof -
  let ?r = "retry E (retry_request base path opts (api_headers tenant opts w) (js_opt_prop tokens ''access_token''))
      (store_tokens tokens w2)"
  have "fst ?r = None" using assms(10,11) by (simp add: retry_def)
  then obtain w4 where "?r = (None, w4)" by (cases ?r) auto
  then show ?thesis
    using apiFetch_401[OF assms(1-5)] try_refresh_ok[OF assms(6-9)]
    by (simp add: give_up_def session_expired_eq)
qed

lemma apiFetch_retry_error_masked_example:
  "fst (apiFetch scripted ''b'' ''t'' ''/x'' no_options (page [''ggid_refresh_token'' \<mapsto> ''r'']
        [Resp 401 [], Resp 200 ''{\"access_token\":\"a\"}'', Resp 500 ''err''])) = Inl (ApiExn session_expired)
    \<and> ae_status session_expired = 401
    \<and> unauthorized \<in> set (events (snd (apiFetch scripted ''b'' ''t'' ''/x'' no_options (page [''ggid_refresh_token'' \<mapsto> ''r'']
        [Resp 401 [], Resp 200 ''{\"access_token\":\"a\"}'', Resp 500 ''err'']))))"
  by (rule apiFetch_retry_error_masked[OF fetch_scripted _ _ _ _ fetch_scripted _
        json_parse_access_token _ fetch_scripted])
    (simp_all add: resp_ok_def, simp_all add: resp_ok_def)

text \<open>After a failed load of the permissions no further load is attempted for a minute:
  \<open>fetchUserPermissions\<close> answers \<open>null\<close> without sending a request.\<close>

lemma permissions_failure_cached:
  assumes "has_window w" "present (getAuthToken w)" "fail_lookup f [] (date_now E w) = None"
    and "fetch E (permissions_request base dt (the (getAuthToken w))) w = (out, w1)"
    and "case out of NetError \<Rightarrow> True | Resp st body \<Rightarrow> \<not> resp_ok st"
    and "has_window w2" "date_now E w2 - date_now E w1 < 60000"
  shows "\<exists>f1. fetchUserPermissions E base dt (f, w) = (None, (f1, w1)) \<and>
    fetchUserPermissions E base dt (f1, w2) = (None, (f1, w2))"
  using assms fetch_frame(1)[OF assms(4)] perm_fail.hit[of "date_now E w2" "date_now E w1" "[]" "()" f]
  by (auto simp: fetchUserPermissions_def fail_now_def split: outcome.splits)


text \<open>Logging out leaves no session data behind, whatever the server answers: in a browser
  every session key of \<open>localStorage\<close> is gone, all other keys are kept, the page is no longer
  authenticated, and at most the revocation request was sent.\<close>

lemma logout_clears_session:
  assumes "has_window w" "logout E base (h, w) = (h', w')"
  shows "local_store w' = (\<lambda>k. if k \<in> set session_keys then None else local_store w k)
    \<and> \<not> ah_authenticated h' \<and> \<not> isAuthenticated w' \<and> authHeader w' = []
    \<and> sent w' = sent w @ (if present (getAuthToken w) then [logout_request base (the (getAuthToken w))] else [])"
proof -
  have w': "has_window w'" "local_store w' = (\<lambda>k. if k \<in> set session_keys then None else local_store w k)"
    using assms by (auto simp: logout_def Let_def fetch_eq remove_items_store fun_eq_iff)
  then have "\<not> isAuthenticated w'" "authHeader w' = []"
    by (auto simp: isAuthenticated_def getAuthToken_def authHeader_def opt_header_def present_def session_keys_def)
  moreover have "\<not> ah_authenticated h'" using assms(2) by (auto simp: logout_def Let_def)
  moreover have "sent w' = sent w @ (if present (getAuthToken w) then [logout_request base (the (getAuthToken w))] else [])"
    using assms by (auto simp: logout_def Let_def fetch_eq)
  ultimately show ?thesis using w' by simp
qed

lemma logout_clears_session_example:
  "\<exists>(h' :: auth_hook) (w' :: unit world). local_store w' = (\<lambda>k. if k \<in> set session_keys then None
          else local_store (page [''ggid_access_token'' \<mapsto> ''a'', ''theme'' \<mapsto> ''dark''] ()) k)
    \<and> \<not> ah_authenticated h' \<and> \<not> isAuthenticated w' \<and> authHeader w' = []
    \<and> sent w' = sent (page [''ggid_access_token'' \<mapsto> ''a'', ''theme'' \<mapsto> ''dark''] ()) @
        (if present (getAuthToken (page [''ggid_access_token'' \<mapsto> ''a'', ''theme'' \<mapsto> ''dark''] ()))
         then [logout_request ''b'' (the (getAuthToken (page [''ggid_access_token'' \<mapsto> ''a'', ''theme'' \<mapsto> ''dark''] ())))] else [])"
proof (intro exI)
  let ?w = "page [''ggid_access_token'' \<mapsto> ''a'', ''theme'' \<mapsto> ''dark''] ()"
  let ?r = "logout (always NetError) ''b'' (\<lparr>ah_authenticated = True, ah_loading = False\<rparr>, ?w)"
  show "local_store (snd ?r) = (\<lambda>k. if k \<in> set session_keys then None else local_store ?w k)
    \<and> \<not> ah_authenticated (fst ?r) \<and> \<not> isAuthenticated (snd ?r) \<and> authHeader (snd ?r) = []
    \<and> sent (snd ?r) = sent ?w @ (if present (getAuthToken ?w) then [logout_request ''b'' (the (getAuthToken ?w))] else [])"
    by (rule logout_clears_session[where E = "always NetError" and h = "\<lparr>ah_authenticated = True, ah_loading = False\<rparr>"])
      simp_all
qed

end
