(* ===== verification/Auth_Guard.thy ===== *)
theory Auth_Guard
  imports Api_Client
begin

text \<open>
  The route guard of the console (\<open>console/src/components/auth-guard.tsx\<close>): the effect that
  runs when the path changes, the handler of the \<open>ggid:unauthorized\<close> event, and what the
  component renders.  Navigation is recorded as a list of router actions.  The lemmas compare
  the guard with the sidebar of \<open>Access\<close>, which decides by \<open>useUserRole\<close> which links a
  user sees.
\<close>

section \<open>The guard\<close>

datatype nav_action = RouterReplace string | RouterPush string | LocationReplace string

record guard =
  g_authenticated :: bool
  g_checked :: bool

definition guard_init :: guard where
  "guard_init = \<lparr>g_authenticated = False, g_checked = False\<rparr>"

definition PUBLIC_PATHS :: "string list" where
  "PUBLIC_PATHS = [''/login'', ''/register'', ''/forgot-password'', ''/reset-password'', ''/setup'']"

definition is_public :: "string \<Rightarrow> bool" where
  "is_public pathname = list_ex (\<lambda>p. pathname = p \<or> starts_with pathname p) PUBLIC_PATHS"

definition ADMIN_PREFIXES :: "(string \<times> string) list" where
  "ADMIN_PREFIXES =
    [(''/users'', ''tenant''), (''/roles'', ''tenant''), (''/audit'', ''tenant''),
     (''/organizations'', ''tenant''), (''/sessions'', ''user''),
     (''/settings'', ''tenant''), (''/api-keys'', ''tenant''), (''/oauth-clients'', ''tenant''),
     (''/webhooks'', ''tenant''), (''/policies'', ''tenant''), (''/security/'', ''tenant''),
     (''/access-requests'', ''user''), (''/analytics/'', ''tenant''), (''/monitoring/'', ''tenant''),
     (''/admin/tenants'', ''platform''), (''/admin/audit'', ''platform''), (''/admin/threats'', ''platform''),
     (''/admin/impersonate'', ''tenant''), (''/admin/secrets'', ''tenant''), (''/admin/key-rotation'', ''tenant''),
     (''/admin/backup'', ''tenant''), (''/admin/settings'', ''tenant''), (''/admin/feature-flags'', ''tenant''),
     (''/admin/health'', ''tenant''), (''/devices'', ''tenant''), (''/access-reviews'', ''tenant''),
     (''/activity'', ''user''), (''/exports'', ''tenant''), (''/providers/config'', ''tenant'')]"

definition guard_tenant_name :: "string \<Rightarrow> bool" where
  "guard_tenant_name s = (let ls = to_lower s in
     ls = ''tenant:admin'' \<or> ls = ''manager'' \<or> ls = ''tenant administrator'' \<or> ls = ''tenant_admin'')"

text \<open>The scope the first matching prefix asks for, and the verdict of the loop.\<close>

definition route_scope :: "string \<Rightarrow> string option" where
  "route_scope pathname = map_option snd (find (\<lambda>(p, _). starts_with pathname p) ADMIN_PREFIXES)"

definition route_allowed :: "string \<Rightarrow> bool \<Rightarrow> bool \<Rightarrow> bool" where
  "route_allowed pathname isPlatform isTenant = (case route_scope pathname of None \<Rightarrow> True
     | Some sc \<Rightarrow> \<not> (sc = ''tenant'' \<and> \<not> isTenant) \<and> \<not> (sc = ''platform'' \<and> \<not> isPlatform))"

definition guard_scopes :: "'w world \<Rightarrow> jsv option" where
  "guard_scopes w = json_parse (item_or (local_store w ''ggid_user_scopes'') (json_stringify (JArr [JStr ''user:self''])))"

text \<open>The permission check; \<^term>\<open>None\<close> where it throws (scopes that do not parse, are not an
  array, or hold something else than strings).\<close>

definition route_check :: "string \<Rightarrow> 'w world \<Rightarrow> bool option" where
  "route_check pathname w = (case guard_scopes w of
      Some (JArr vs) \<Rightarrow>
        (case some_str platform_name vs of None \<Rightarrow> None
         | Some isPlatform \<Rightarrow>
             (case some_str guard_tenant_name vs of None \<Rightarrow> None
              | Some isTenant \<Rightarrow> Some (route_allowed pathname isPlatform isTenant)))
    | _ \<Rightarrow> None)"

definition login_url :: "string \<Rightarrow> string" where
  "login_url path = ''/login?redirect_to='' @ encodeURIComponent path"

definition status_request :: request where
  "status_request = \<lparr>url = ''/api/v1/system/status'', meth = ''GET'', hdrs = [], rbody = None\<rparr>"

definition verify_request :: "string \<Rightarrow> request" where
  "verify_request token = \<lparr>url = ''/api/v1/users/me'', meth = ''GET'',
     hdrs = [(''Authorization'', ''Bearer '' @ token)], rbody = None\<rparr>"

definition setup_keys :: "string list" where
  "setup_keys = [''ggid_access_token'', ''ggid_refresh_token'', ''ggid_user_scopes'', ''ggid_user_id'', ''ggid_tenant_id'']"

definition stale_keys :: "string list" where
  "stale_keys = [''ggid_access_token'', ''ggid_refresh_token'', ''ggid_session_id'', ''ggid_user_scopes'', ''ggid_user_id'']"

text \<open>No token on a protected path: ask whether the system is initialised.  A response that is
  not JSON, or is JSON \<open>null\<close>, rejects and goes to the login page.\<close>

definition anonymous_redirect ::
  "'w env \<Rightarrow> string \<Rightarrow> string \<Rightarrow> guard \<times> 'w world \<Rightarrow> guard \<times> nav_action list \<times> 'w world" where
  "anonymous_redirect E pathname location gw = (case gw of (g, w) \<Rightarrow>
     (case fetch E status_request w of (out, w1) \<Rightarrow>
        (g\<lparr>g_checked := True\<rparr>,
         [case out of NetError \<Rightarrow> RouterPush (login_url location)
          | Resp st body \<Rightarrow> (case json_parse body of None \<Rightarrow> RouterPush (login_url location)
              | Some data \<Rightarrow> if nullish data then RouterPush (login_url location)
                  else if js_opt_prop data ''initialized'' = JBool False then RouterReplace ''/setup''
                  else RouterPush (login_url pathname))],
         w1)))"

text \<open>The part after the token was accepted: an exception leaves \<open>checked\<close> as it was.\<close>

definition permission_step ::
  "string \<Rightarrow> guard \<times> 'w world \<Rightarrow> guard \<times> nav_action list \<times> 'w world" where
  "permission_step pathname gw = (case gw of (g, w) \<Rightarrow>
     (let g1 = g\<lparr>g_authenticated := True\<rparr> in
      case route_check pathname w of
        None \<Rightarrow> (g1, [], w)
      | Some False \<Rightarrow> (g1\<lparr>g_checked := True\<rparr>, [RouterReplace ''/dashboard''], w)
      | Some True \<Rightarrow> (g1\<lparr>g_checked := True\<rparr>, [], w)))"

text \<open>The effect.  \<open>location\<close> is \<open>window.location.pathname\<close> when the status request fails.  The
  branch of the source for \<open>/setup\<close> with a token is unreachable, since the first branch
  returns.\<close>

definition guard_effect ::
  "'w env \<Rightarrow> string \<Rightarrow> string \<Rightarrow> guard \<times> 'w world \<Rightarrow> guard \<times> nav_action list \<times> 'w world" where
  "guard_effect E pathname location gw = (case gw of (g, w) \<Rightarrow>
     (let token = getAuthToken w; isPublic = is_public pathname in
      if pathname = ''/setup'' then (g\<lparr>g_checked := True\<rparr>, [], remove_items setup_keys w)
      else if \<not> present token \<and> \<not> isPublic then anonymous_redirect E pathname location (g, w)
      else if pathname = ''/setup'' \<and> present token then (g\<lparr>g_checked := True\<rparr>, [RouterReplace ''/dashboard''], w)
      else if present token then
        (case fetch E (verify_request (the token)) w of
           (NetError, w1) \<Rightarrow> permission_step pathname (g, w1)
         | (Resp st body, w1) \<Rightarrow>
             if st = 401 then
               (g\<lparr>g_authenticated := False, g_checked := True\<rparr>,
                (if \<not> isPublic then [RouterPush (login_url pathname)] else []),
                remove_items stale_keys w1)
             else permission_step pathname (g, w1))
      else (g\<lparr>g_authenticated := False, g_checked := True\<rparr>, [], w)))"

definition handleUnauthorized ::
  "string \<Rightarrow> guard \<times> 'w world \<Rightarrow> guard \<times> nav_action list \<times> 'w world" where
  "handleUnauthorized location gw = (case gw of (g, w) \<Rightarrow>
     (let currentPath = (if has_window w then location else []) in
      if is_public currentPath then (g, [], w)
      else (g\<lparr>g_authenticated := False\<rparr>, [LocationReplace (login_url currentPath)],
            remove_items session_keys w)))"

datatype view = Spinner | PublicPage | AppPage

definition guard_render :: "string \<Rightarrow> guard \<Rightarrow> view" where
  "guard_render pathname g =
     (if \<not> g_checked g then Spinner
      else if is_public pathname then PublicPage
      else if \<not> g_authenticated g then Spinner
      else AppPage)"

section \<open>Lemmas\<close>

lemma json_clean_user_self [simp]: "json_clean (JArr [JStr s])"
  by simp

lemma guard_scopes_stored: "stores_scopes w ss \<Longrightarrow> guard_scopes w = Some (JArr (map JStr ss))"
  by (simp add: guard_scopes_def stores_scopes_def item_or_def json_stringify_arr_nonempty
      json_stringify_clean[OF json_clean_strings])

lemma route_check_stored:
  "stores_scopes w ss \<Longrightarrow> route_check p w =
     Some (route_allowed p (list_ex platform_name ss) (list_ex guard_tenant_name ss))"
  by (simp add: route_check_def guard_scopes_stored some_str_strings list_ex_iff)

lemma permission_step_facts:
  assumes "permission_step p (g, w) = (g', navs, w')"
  shows "w' = w" "g_authenticated g'"
    "navs = (if route_check p w = Some False then [RouterReplace ''/dashboard''] else [])"
    "g_checked g' \<longleftrightarrow> g_checked g \<or> route_check p w \<noteq> None"
  using assms by (auto simp: permission_step_def Let_def split: option.splits bool.splits)

lemma setup_public: "is_public ''/setup''"
  by (simp add: is_public_def PUBLIC_PATHS_def)


text \<open>The guard's scope of every link of the sidebar: a group for managers holds only links that
  the guard opens to tenant administrators, the platform group only links it opens to
  platform administrators.\<close>

definition group_matches :: "nav_group \<Rightarrow> nav_item \<Rightarrow> bool" where
  "group_matches g i = (case route_scope (href i) of None \<Rightarrow> True
     | Some sc \<Rightarrow> sc = ''user'' \<or> sc = ''tenant'' \<and> gscope g = Some ''manager''
         \<or> sc = ''platform'' \<and> gscope g = Some ''platform'')"

lemma navGroups_match: "list_all (\<lambda>g. list_all (group_matches g) (items g)) navGroups"
  by code_simp

lemma roleFilteredGroups_group:
  assumes "g \<in> set (roleFilteredGroups rv ps gs)"
  shows "\<exists>g0 \<in> set gs. gscope g = gscope g0 \<and> set (items g) \<subseteq> set (items g0) \<and> nav_hasScope rv (gscope g0)"
  using assms by (auto simp: roleFilteredGroups_def)

lemma visible_link_matches:
  assumes "g \<in> set (roleFilteredGroups rv ps navGroups)" "i \<in> set (items g)"
  shows "group_matches g i \<and> nav_hasScope rv (gscope g)"
proof -
  obtain g0 where g0: "g0 \<in> set navGroups" "gscope g = gscope g0" "i \<in> set (items g0)" "nav_hasScope rv (gscope g0)"
    using roleFilteredGroups_group[OF assms(1)] assms(2) by auto
  then have "group_matches g0 i" using navGroups_match by (auto simp: list_all_iff)
  then show ?thesis using g0 by (auto simp: group_matches_def split: option.splits)
qed

lemma guard_effect_app:
  assumes "guard_effect E p loc (g, w) = (g', navs, w')" "guard_render p g' = AppPage" "\<not> g_authenticated g"
  obtains token out w1 where "getAuthToken w = Some token" "token \<noteq> []" "\<not> is_public p"
    "fetch E (verify_request token) w = (out, w1)" "\<And>b. out \<noteq> Resp 401 b"
    "permission_step p (g, w1) = (g', navs, w')"
proof -
  have np: "\<not> is_public p" "g_authenticated g'" "g_checked g'"
    using assms(2) by (auto simp: guard_render_def split: if_splits)
  then have ns: "p \<noteq> ''/setup''" using setup_public by auto
  then have tok: "present (getAuthToken w)"
    using assms(1,3) np by (auto simp: guard_effect_def anonymous_redirect_def Let_def split: prod.splits if_splits)
  then obtain token where t: "getAuthToken w = Some token" "token \<noteq> []" by (auto simp: present_def split: option.splits)
  obtain out w1 where f: "fetch E (verify_request token) w = (out, w1)" by fastforce
  have "(\<forall>b. out \<noteq> Resp 401 b) \<and> permission_step p (g, w1) = (g', navs, w')"
    using assms(1) np ns tok t f by (auto simp: guard_effect_def Let_def split: outcome.splits if_splits)
  then show ?thesis using that[OF t np(1) f] by blast
qed

lemma fetch_route_check: "fetch E rq w = (out, w1) \<Longrightarrow> route_check p w1 = route_check p w"
  using fetch_frame(2)[of E rq w out w1] by (simp add: route_check_def guard_scopes_def)

lemma guard_accepts:
  assumes "\<not> is_public p" "getAuthToken w = Some token" "token \<noteq> []" "\<And>b. fst (fetch E (verify_request token) w) \<noteq> Resp 401 b"
    and "guard_effect E p loc (g, w) = (g', navs, w')"
  shows "g_authenticated g' \<and> (g_checked g' \<longleftrightarrow> g_checked g \<or> route_check p w \<noteq> None)"
proof -
  obtain out w1 where f: "fetch E (verify_request token) w = (out, w1)" by fastforce
  have "p \<noteq> ''/setup''" using assms(1) setup_public by auto
  then have "permission_step p (g, w1) = (g', navs, w')" using assms f
    by (auto simp: guard_effect_def Let_def present_def split: outcome.splits if_splits)
  then show ?thesis using permission_step_facts(2,4)[of p g w1 g' navs w'] fetch_route_check[OF f] by simp
qed

section \<open>Properties\<close>

text \<open>C1. What the guard shows: started from a state that is not authenticated, the effect ends in rendering the application page
  exactly if the path is protected, a token is stored whose verification is not answered with 401 (a failed request counts as
  accepted), and the route check gave a verdict or the guard had already finished a check before.  Then exactly the verification was
  sent; a page the check refuses is being left for the dashboard, one it allows stays.  The third case is a gap: if the stored scopes
  cannot be read the check gives no verdict, and a guard that had finished a check before shows the page unchecked; a guard that has
  just been mounted does not.\<close>

theorem guard_protects:
  assumes "guard_effect E p loc (g, w) = (g', navs, w')" "\<not> g_authenticated g"
  shows "(guard_render p g' = AppPage \<longleftrightarrow> \<not> is_public p \<and>
      (\<exists>token. getAuthToken w = Some token \<and> token \<noteq> [] \<and> (\<forall>b. fst (fetch E (verify_request token) w) \<noteq> Resp 401 b)) \<and>
      (route_check p w \<noteq> None \<or> g_checked g)) \<and>
    (guard_render p g' = AppPage \<longrightarrow>
      sent w' = sent w @ [verify_request (the (getAuthToken w))] \<and> local_store w' = local_store w \<and>
      navs = (if route_check p w = Some False then [RouterReplace ''/dashboard''] else []) \<and>
      (route_check p w = Some True \<or> navs = [RouterReplace ''/dashboard''] \<or> route_check p w = None \<and> g_checked g))"
proof -
  have "\<not> is_public p \<and> (\<exists>token. getAuthToken w = Some token \<and> token \<noteq> [] \<and> (\<forall>b. fst (fetch E (verify_request token) w) \<noteq> Resp 401 b)) \<and>
      (route_check p w \<noteq> None \<or> g_checked g) \<and> sent w' = sent w @ [verify_request (the (getAuthToken w))] \<and> local_store w' = local_store w \<and>
      navs = (if route_check p w = Some False then [RouterReplace ''/dashboard''] else [])" if app: "guard_render p g' = AppPage"
  proof -
    obtain token out w1 where t: "getAuthToken w = Some token" "token \<noteq> []" "\<not> is_public p"
      "fetch E (verify_request token) w = (out, w1)" "\<And>b. out \<noteq> Resp 401 b"
      "permission_step p (g, w1) = (g', navs, w')"
      using guard_effect_app[OF assms(1) app assms(2)] by blast
    note ps = permission_step_facts[OF t(6)]
    have "route_check p w1 = route_check p w" using fetch_route_check[OF t(4)] .
    moreover have "g_checked g'" using app by (auto simp: guard_render_def split: if_splits)
    ultimately show ?thesis using t ps fetch_frame(2,5)[OF t(4)] by auto
  qed
  moreover have "guard_render p g' = AppPage"
    if "\<not> is_public p" "getAuthToken w = Some token" "token \<noteq> []" "\<And>b. fst (fetch E (verify_request token) w) \<noteq> Resp 401 b"
      "route_check p w \<noteq> None \<or> g_checked g" for token
    using guard_accepts[OF that(1-4) assms(1)] that(1,5) by (auto simp: guard_render_def)
  ultimately show ?thesis by (cases "route_check p w") (auto split: if_splits)
qed

text \<open>An ordinary user on the users page is sent to the dashboard; with scopes that cannot be read a guard that had checked before shows
  that page, and one that has just been mounted does not.\<close>

theorem guard_protects_witness:
  "\<exists>w'. guard_effect (always NetError) ''/users'' [] (guard_init, page [''ggid_access_token'' \<mapsto> ''a''] ()) =
      (\<lparr>g_authenticated = True, g_checked = True\<rparr>, [RouterReplace ''/dashboard''], w') \<and> sent w' = [verify_request ''a''] \<and>
   (\<exists>g' w'. guard_effect (always NetError) ''/users'' [] (\<lparr>g_authenticated = False, g_checked = True\<rparr>,
       page [''ggid_access_token'' \<mapsto> ''a'', ''ggid_user_scopes'' \<mapsto> ''x''] ()) = (g', [], w') \<and> guard_render ''/users'' g' = AppPage) \<and>
   guard_render ''/users'' (fst (guard_effect (always NetError) ''/users'' [] (guard_init,
       page [''ggid_access_token'' \<mapsto> ''a'', ''ggid_user_scopes'' \<mapsto> ''x''] ()))) \<noteq> AppPage"
proof -
  let ?E = "always NetError :: unit env"
  let ?w = "page [''ggid_access_token'' \<mapsto> ''a''] ()" and ?v = "page [''ggid_access_token'' \<mapsto> ''a'', ''ggid_user_scopes'' \<mapsto> ''x''] ()"
  let ?c = "\<lparr>g_authenticated = False, g_checked = True\<rparr>"
  have r: "route_check ''/users'' ?w = Some False"
    using json_stringify_clean[of "JArr [JStr ''user:self'']"]
    by (simp add: route_check_def guard_scopes_def item_or_def platform_name_def guard_tenant_name_def to_lower_Cons page_def
        route_allowed_def route_scope_def ADMIN_PREFIXES_def starts_with_def)
  have "json_parse ''x'' = None" by code_simp
  then have n: "route_check ''/users'' ?v = None" by (simp add: route_check_def guard_scopes_def item_or_def page_def)
  have pub: "\<not> is_public ''/users''" by code_simp
  have tok: "getAuthToken ?w = Some ''a''" "getAuthToken ?v = Some ''a''" by (simp_all add: getAuthToken_def page_def)
  have f: "fst (fetch ?E rq u) \<noteq> Resp 401 b" for rq u b by (simp add: fetch_def always_def)
  obtain g1 n1 w1 where e1: "guard_effect ?E ''/users'' [] (guard_init, ?w) = (g1, n1, w1)" using prod_cases3 by blast
  obtain g2 n2 w2 where e2: "guard_effect ?E ''/users'' [] (?c, ?v) = (g2, n2, w2)" using prod_cases3 by blast
  obtain g3 n3 w3 where e3: "guard_effect ?E ''/users'' [] (guard_init, ?v) = (g3, n3, w3)" using prod_cases3 by blast
  have i: "\<not> g_authenticated guard_init" "\<not> g_checked guard_init" "\<not> g_authenticated ?c" "g_checked ?c" by (simp_all add: guard_init_def)
  have "g1 = \<lparr>g_authenticated = True, g_checked = True\<rparr>"
    using guard_protects[OF e1 i(1)] r pub tok f by (auto simp: guard_render_def split: if_splits)
  moreover have "n1 = [RouterReplace ''/dashboard'']" "sent w1 = [verify_request ''a'']"
    using guard_protects[OF e1 i(1)] r pub tok f by (auto simp: page_def)
  moreover have "n2 = []" "guard_render ''/users'' g2 = AppPage" using guard_protects[OF e2 i(3)] n pub tok f i(4) by auto
  moreover have "guard_render ''/users'' g3 \<noteq> AppPage" using guard_protects[OF e3 i(1)] n i(2) by auto
  ultimately show ?thesis using e1 e2 e3 by auto
qed

text \<open>C16. The sidebar and the guard agree for every user whose role the two compute alike: if the
  sidebar's platform (tenant) administrator is a platform (tenant) administrator for the guard as
  well, then every link the sidebar shows leads to a page the guard lets the user stay on.\<close>

theorem sidebar_links_pass_guard:
  assumes "stores_scopes w ss"
    and "isPlatformAdmin (useUserRole ss) \<Longrightarrow> \<exists>s \<in> set ss. platform_name s"
    and "isTenantAdmin (useUserRole ss) \<Longrightarrow> \<exists>s \<in> set ss. guard_tenant_name s"
    and "g \<in> set (roleFilteredGroups (useUserRole ss) ps navGroups)" "i \<in> set (items g)"
  shows "route_check (href i) w = Some True"
  using visible_link_matches[OF assms(4,5)] assms(2,3)
  by (auto simp: route_check_stored[OF assms(1)] route_allowed_def group_matches_def nav_hasScope_def list_ex_iff
      split: option.splits)

theorem sidebar_links_pass_guard_witness:
  "route_check (href (nav ''/users'' ''Users''))
     (page [''ggid_user_scopes'' \<mapsto> json_stringify (JArr (map JStr [''manager'']))] ()) = Some True"
proof (rule sidebar_links_pass_guard[where ss = "[''manager'']" and ps = "[]" and g = "navGroups ! 1"])
  have r: "useUserRole [''manager''] = \<lparr>role = TenantAdmin, rscopes = [''manager''], isPlatformAdmin = False,
      isTenantAdmin = True, isAdmin = True\<rparr>" by code_simp
  show "navGroups ! 1 \<in> set (roleFilteredGroups (useUserRole [''manager'']) [] navGroups)"
    unfolding r by code_simp
  show "\<exists>s \<in> set [''manager'']. platform_name s" if "isPlatformAdmin (useUserRole [''manager''])"
    using that r by simp
  show "\<exists>s \<in> set [''manager'']. guard_tenant_name s" by code_simp
  show "nav ''/users'' ''Users'' \<in> set (items (navGroups ! 1))" by code_simp
qed (simp add: stores_scopes_def)

text \<open>They disagree for a tenant administrator: a user whose only scope is \<open>tenant:admin\<close> is shown
  the link to the tenant administration, which the guard sends back to the dashboard, and is
  not shown the link to the users, which the guard would open.\<close>

lemma tenant_admin_sidebar_mismatch:
  assumes "stores_scopes w [''tenant:admin'']"
  shows "(\<exists>g \<in> set (roleFilteredGroups (useUserRole [''tenant:admin'']) ps navGroups).
            nav ''/admin/tenants'' ''Tenants'' \<in> set (items g))
      \<and> route_check ''/admin/tenants'' w = Some False
      \<and> \<not> (\<exists>g \<in> set (roleFilteredGroups (useUserRole [''tenant:admin'']) ps navGroups).
            nav ''/users'' ''Users'' \<in> set (items g))
      \<and> route_check ''/users'' w = Some True"
proof -
  have r: "useUserRole [''tenant:admin''] = \<lparr>role = PlatformAdmin, rscopes = [''tenant:admin''], isPlatformAdmin = True,
      isTenantAdmin = False, isAdmin = True\<rparr>" by code_simp
  have f: "roleFilteredGroups (useUserRole [''tenant:admin'']) ps navGroups = [navGroups ! 0, navGroups ! 6]"
    unfolding r by (simp add: roleFilteredGroups_def navGroups_def nav_hasScope_def nav_def hasRoutePermission_def
        split: option.splits)
  have "list_ex platform_name [''tenant:admin''] = False" "list_ex guard_tenant_name [''tenant:admin''] = True"
    by code_simp+
  moreover have "route_allowed ''/admin/tenants'' False True = False" "route_allowed ''/users'' False True = True"
    by code_simp+
  ultimately have "route_check ''/admin/tenants'' w = Some False" "route_check ''/users'' w = Some True"
    by (simp_all add: route_check_stored[OF assms])
  moreover have "nav ''/admin/tenants'' ''Tenants'' \<in> set (items (navGroups ! 6))"
    "nav ''/users'' ''Users'' \<notin> set (items (navGroups ! 0)) \<union> set (items (navGroups ! 6))" by code_simp+
  ultimately show ?thesis unfolding f by simp
qed

lemma tenant_admin_sidebar_mismatch_example:
  "(\<exists>g \<in> set (roleFilteredGroups (useUserRole [''tenant:admin'']) [] navGroups).
            nav ''/admin/tenants'' ''Tenants'' \<in> set (items g))
      \<and> route_check ''/admin/tenants''
          (page [''ggid_user_scopes'' \<mapsto> json_stringify (JArr (map JStr [''tenant:admin'']))] ()) = Some False
      \<and> \<not> (\<exists>g \<in> set (roleFilteredGroups (useUserRole [''tenant:admin'']) [] navGroups).
            nav ''/users'' ''Users'' \<in> set (items g))
      \<and> route_check ''/users''
          (page [''ggid_user_scopes'' \<mapsto> json_stringify (JArr (map JStr [''tenant:admin'']))] ()) = Some True"
  by (rule tenant_admin_sidebar_mismatch) (simp add: stores_scopes_def)

text \<open>An expired session ends at the login page: when a call of \<open>apiFetch\<close> dispatches the
  event on a protected page, the handler leaves no session key in \<open>localStorage\<close>, no
  authentication header can be built any more, the page is replaced by the login page with
  the way back, and the guard renders nothing of the application.\<close>

lemma unauthorized_ends_session:
  assumes "apiFetch E base tenant path opts w = (res, w1)" "events w1 \<noteq> events w" "has_window w1"
    and "\<not> is_public loc" "handleUnauthorized loc (g, w1) = (g', navs, w2)"
  shows "res = Inl (ApiExn session_expired) \<and> navs = [LocationReplace (login_url loc)] \<and> authHeader w2 = []
    \<and> guard_render loc g' = Spinner \<and> sent w2 = sent w1"
proof -
  have "res = Inl (ApiExn session_expired)" using apiFetch_events[of E base tenant path opts w] assms(1,2) by auto
  moreover have "authHeader (remove_items session_keys w1) = []"
    using assms(3) by (simp add: authHeader_def getAuthToken_def remove_items_store opt_header_def present_def session_keys_def)
  ultimately show ?thesis using assms(3-5) by (auto simp: handleUnauthorized_def Let_def guard_render_def)
qed

lemma unauthorized_ends_session_example:
  "let r = apiFetch (always (Resp 401 [])) ''b'' ''t'' ''/x'' no_options (page Map.empty ());
       h = handleUnauthorized ''/users'' (guard_init, snd r) in
   fst r = Inl (ApiExn session_expired) \<and> fst (snd h) = [LocationReplace (login_url ''/users'')]
   \<and> authHeader (snd (snd h)) = [] \<and> guard_render ''/users'' (fst h) = Spinner \<and> sent (snd (snd h)) = sent (snd r)"
proof -
  let ?r = "apiFetch (always (Resp 401 [])) ''b'' ''t'' ''/x'' no_options (page Map.empty ())"
  have r: "has_window (snd ?r)" "events (snd ?r) = [unauthorized]"
    by (simp_all add: apiFetch_def fetch_def always_def Let_def present_def give_up_def)
  show ?thesis unfolding Let_def
    by (rule unauthorized_ends_session[where E = "always (Resp 401 [])" and base = "''b''" and tenant = "''t''"
          and path = "''/x''" and opts = no_options and w = "page Map.empty ()" and g = guard_init and ?w1.0 = "snd ?r"])
      (simp_all add: r is_public_def PUBLIC_PATHS_def starts_with_def)
qed

end
