(* ===== verification/Webauthn.thy ===== *)
theory Webauthn
  imports OAuth_Pkce
begin

text \<open>
  Passkeys: the console's upgrade offer and signal calls
  (\<open>console/src/lib/webauthn-conditional.ts\<close>) and the React SDK's hook
  (\<open>sdk/react/src/passkey.ts\<close>).  The browser's authenticator is a parameter, the record
  \<open>authn\<close>: what feature detection finds, and how the outside reacts to
  \<open>navigator.credentials.create\<close> and \<open>get\<close> and to the signal calls.  \<open>console.debug\<close>
  is not modelled.
\<close>

section \<open>The authenticator\<close>

record creation_options =
  co_challenge :: "u8 list"
  co_rp :: jsv
  co_user :: "(string \<times> jsv) list"
  co_user_id :: "u8 list"
  co_params :: jsv
  co_timeout :: jsv
  co_exclude :: "((string \<times> jsv) list \<times> u8 list) list option"
  co_selection :: jsv
  co_attestation :: jsv
  co_mediation :: "string option"

record credential =
  cr_id :: string
  cr_rawId :: "u8 list"
  cr_type :: string
  cr_attestationObject :: "u8 list"
  cr_clientDataJSON :: "u8 list"
  cr_attachment :: jsv

record request_options =
  ro_challenge :: "u8 list"
  ro_rpId :: jsv
  ro_timeout :: jsv
  ro_verification :: jsv

record assertion =
  as_id :: string
  as_rawId :: "u8 list"
  as_type :: string
  as_authenticatorData :: "u8 list"
  as_clientDataJSON :: "u8 list"
  as_signature :: "u8 list"
  as_userHandle :: "u8 list option"

text \<open>A prompt is answered, dismissed (\<open>null\<close>) or rejects with an error.\<close>

datatype 'a prompt = Answered 'a | Dismissed | Rejected string

datatype signal =
    SignalAll string "u8 list" "u8 list list"
  | SignalUser "u8 list" jsv jsv
  | SignalUnknown string "u8 list"

record 'w authn =
  pkc_defined :: bool
  has_conditional :: bool
  conditional_available :: "'w \<Rightarrow> bool option"
  create :: "'w \<Rightarrow> creation_options \<Rightarrow> credential prompt \<times> 'w"
  get_assertion :: "'w \<Rightarrow> request_options \<Rightarrow> assertion prompt \<times> 'w"
  signal_all_defined :: bool
  signal_user_defined :: bool
  signal_unknown_defined :: bool
  signal_accepts :: "'w \<Rightarrow> signal \<Rightarrow> bool"

definition prompt_create :: "'w authn \<Rightarrow> creation_options \<Rightarrow> 'w world \<Rightarrow> credential prompt \<times> 'w world" where
  "prompt_create A opts w = (case create A (outside w) opts of (p, o') \<Rightarrow> (p, w\<lparr>outside := o'\<rparr>))"

definition prompt_get :: "'w authn \<Rightarrow> request_options \<Rightarrow> 'w world \<Rightarrow> assertion prompt \<times> 'w world" where
  "prompt_get A opts w = (case get_assertion A (outside w) opts of (p, o') \<Rightarrow> (p, w\<lparr>outside := o'\<rparr>))"

section \<open>Decoding and encoding\<close>

text \<open>\<open>b64urlToBuffer\<close> applied to a value of the server's JSON: \<open>undefined\<close> and \<open>null\<close> have no
  \<open>length\<close>; a number or a boolean has an undefined one, so no padding is added; an array is
  padded by its own length and then joined to a string; an object becomes a text that is not
  base64.\<close>

fun buffer_of :: "jsv \<Rightarrow> u8 list option" where
  "buffer_of (JStr s) = b64urlToBuffer s"
| "buffer_of (JNum n) = map_option bytes_of (atob (replace_all (CHR ''-'') ''+'' (show_int n)))"
| "buffer_of (JBool b) = map_option bytes_of (atob (if b then ''true'' else ''false''))"
| "buffer_of (JArr vs) = map_option bytes_of (atob (replace_all (CHR ''_'') ''/'' (replace_all (CHR ''-'') ''+''
     (js_to_string (JArr vs) @ replicate ((4 - length vs mod 4) mod 4) (CHR ''='')))))"
| "buffer_of _ = None"

text \<open>One element of \<open>excludeCredentials\<close>: \<open>{ type: "public-key", ...c, id: ... }\<close>.\<close>

definition exclude_entry :: "jsv \<Rightarrow> ((string \<times> jsv) list \<times> u8 list) option" where
  "exclude_entry c = (if nullish c then None
     else (case buffer_of (js_opt_prop c ''id'') of None \<Rightarrow> None
       | Some b \<Rightarrow> Some (foldl (\<lambda>acc (k, v). obj_set k v acc) [(''type'', JStr ''public-key'')]
           (case c of JObj kvs \<Rightarrow> kvs | _ \<Rightarrow> []), b)))"

fun exclude_entries :: "jsv list \<Rightarrow> ((string \<times> jsv) list \<times> u8 list) list option" where
  "exclude_entries [] = Some []"
| "exclude_entries (c # cs) = (case exclude_entry c of None \<Rightarrow> None
     | Some e \<Rightarrow> map_option (Cons e) (exclude_entries cs))"

text \<open>\<open>decodeCreationOptions\<close>; \<^term>\<open>None\<close> where it throws.\<close>

definition decodeCreationOptions :: "jsv \<Rightarrow> creation_options option" where
  "decodeCreationOptions options =
     (if nullish options then None
      else (let user = js_opt_prop options ''user''; excl = js_opt_prop options ''excludeCredentials'' in
        case buffer_of (js_opt_prop options ''challenge'') of None \<Rightarrow> None
        | Some ch \<Rightarrow>
        (case buffer_of (js_opt_prop user ''id'') of None \<Rightarrow> None
        | Some uid \<Rightarrow>
        (case (if nullish excl then Some None
               else (case excl of JArr cs \<Rightarrow> map_option Some (exclude_entries cs) | _ \<Rightarrow> None)) of None \<Rightarrow> None
        | Some ex \<Rightarrow> Some
           \<lparr>co_challenge = ch, co_rp = js_opt_prop options ''rp'',
            co_user = (case user of JObj kvs \<Rightarrow> kvs | _ \<Rightarrow> []), co_user_id = uid,
            co_params = js_opt_prop options ''pubKeyCredParams'', co_timeout = js_opt_prop options ''timeout'',
            co_exclude = ex, co_selection = js_opt_prop options ''authenticatorSelection'',
            co_attestation = js_opt_prop options ''attestation'', co_mediation = None\<rparr>))))"

definition encodeAttestation :: "credential \<Rightarrow> jsv" where
  "encodeAttestation c = JObj
     [(''id'', JStr (cr_id c)), (''rawId'', JStr (bufferToB64url (cr_rawId c))), (''type'', JStr (cr_type c)),
      (''response'', JObj [(''attestationObject'', JStr (bufferToB64url (cr_attestationObject c))),
                         (''clientDataJSON'', JStr (bufferToB64url (cr_clientDataJSON c)))]),
      (''authenticatorAttachment'', cr_attachment c)]"

section \<open>The console's upgrade offer\<close>

text \<open>\<open>const TENANT_ID = ""\<close> of the module.\<close>

definition WEBAUTHN_TENANT_ID :: string where "WEBAUTHN_TENANT_ID = []"

definition isConditionalCreateSupported :: "'w authn \<Rightarrow> 'w world \<Rightarrow> bool" where
  "isConditionalCreateSupported A w =
     (if \<not> pkc_defined A then False
      else if \<not> has_conditional A then False
      else (case conditional_available A (outside w) of None \<Rightarrow> False | Some b \<Rightarrow> b))"

definition get_headers :: "'w world \<Rightarrow> headers" where
  "get_headers w = spread (authHeader w) [(''X-Tenant-ID'', WEBAUTHN_TENANT_ID)]"

definition post_headers :: "'w world \<Rightarrow> headers" where
  "post_headers w = spread (authHeader w) [(''Content-Type'', ''application/json''), (''X-Tenant-ID'', WEBAUTHN_TENANT_ID)]"

definition credentials_request :: "string \<Rightarrow> string \<Rightarrow> 'w world \<Rightarrow> request" where
  "credentials_request base userId w =
     \<lparr>url = base @ ''/api/v1/auth/webauthn/credentials?user_id='' @ userId, meth = ''GET'',
      hdrs = get_headers w, rbody = None\<rparr>"

definition userHasPasskey :: "'w env \<Rightarrow> string \<Rightarrow> string \<Rightarrow> 'w world \<Rightarrow> bool \<times> 'w world" where
  "userHasPasskey E base userId w = (case fetch E (credentials_request base userId w) w of
      (NetError, w1) \<Rightarrow> (False, w1)
    | (Resp st body, w1) \<Rightarrow>
        if \<not> resp_ok st then (False, w1)
        else (case json_parse body of None \<Rightarrow> (False, w1)
           | Some data \<Rightarrow> (case js_opt_prop data ''credentials'' of JArr cs \<Rightarrow> (cs \<noteq> [], w1) | _ \<Rightarrow> (False, w1))))"

definition begin_request :: "string \<Rightarrow> string \<Rightarrow> 'w world \<Rightarrow> request" where
  "begin_request base userId w =
     \<lparr>url = base @ ''/api/v1/webauthn/register/begin'', meth = ''POST'', hdrs = post_headers w,
      rbody = Some (json_stringify (JObj [(''user_id'', JStr userId)]))\<rparr>"

definition finish_request :: "string \<Rightarrow> credential \<Rightarrow> 'w world \<Rightarrow> request" where
  "finish_request base c w =
     \<lparr>url = base @ ''/api/v1/webauthn/register/finish'', meth = ''POST'', hdrs = post_headers w,
      rbody = Some (json_stringify (encodeAttestation c))\<rparr>"

text \<open>\<open>beginData.publicKey || beginData\<close>.\<close>

definition public_key :: "jsv \<Rightarrow> jsv" where
  "public_key beginData = js_or (js_opt_prop beginData ''publicKey'') beginData"

definition finish_registration :: "'w env \<Rightarrow> string \<Rightarrow> credential \<Rightarrow> 'w world \<Rightarrow> bool \<times> 'w world" where
  "finish_registration E base c w = (case fetch E (finish_request base c w) w of
      (NetError, w1) \<Rightarrow> (False, w1) | (Resp st _, w1) \<Rightarrow> (resp_ok st, w1))"

text \<open>\<open>offerPasskeyUpgrade\<close>; its \<open>accessToken\<close> argument is not used by the code.\<close>

definition offerPasskeyUpgrade ::
  "'w env \<Rightarrow> 'w authn \<Rightarrow> string \<Rightarrow> string \<Rightarrow> string \<Rightarrow> 'w world \<Rightarrow> bool \<times> 'w world" where
  "offerPasskeyUpgrade E A base accessToken userId w =
     (if \<not> isConditionalCreateSupported A w then (False, w)
      else (case userHasPasskey E base userId w of (has, w1) \<Rightarrow>
        if has then (False, w1)
        else (case fetch E (begin_request base userId w1) w1 of
          (NetError, w2) \<Rightarrow> (False, w2)
        | (Resp st body, w2) \<Rightarrow>
            if \<not> resp_ok st then (False, w2)
            else (case json_parse body of None \<Rightarrow> (False, w2)
               | Some beginData \<Rightarrow> (case decodeCreationOptions (public_key beginData) of None \<Rightarrow> (False, w2)
                 | Some opts \<Rightarrow> (case prompt_create A (opts\<lparr>co_mediation := Some ''optional''\<rparr>) w2 of
                     (Answered c, w3) \<Rightarrow> finish_registration E base c w3
                   | (_, w3) \<Rightarrow> (False, w3)))))))"

section \<open>Signals\<close>

definition isSignalApiSupported :: "'w authn \<Rightarrow> bool" where
  "isSignalApiSupported A = (pkc_defined A \<and> signal_all_defined A)"

definition valid_ids_request :: "string \<Rightarrow> 'w world \<Rightarrow> request" where
  "valid_ids_request base w =
     \<lparr>url = base @ ''/api/v1/auth/webauthn/credentials/valid-ids'', meth = ''GET'', hdrs = get_headers w, rbody = None\<rparr>"

text \<open>\<^term>\<open>JNull\<close> is the \<open>null\<close> of every failure.\<close>

definition fetchValidCredentialIds :: "'w env \<Rightarrow> string \<Rightarrow> 'w world \<Rightarrow> jsv \<times> 'w world" where
  "fetchValidCredentialIds E base w = (case fetch E (valid_ids_request base w) w of
      (NetError, w1) \<Rightarrow> (JNull, w1)
    | (Resp st body, w1) \<Rightarrow>
        if \<not> resp_ok st then (JNull, w1)
        else (case json_parse body of None \<Rightarrow> (JNull, w1) | Some v \<Rightarrow> (v, w1)))"

fun buffers_of :: "jsv list \<Rightarrow> u8 list list option" where
  "buffers_of [] = Some []"
| "buffers_of (v # vs) = (case buffer_of v of None \<Rightarrow> None | Some b \<Rightarrow> map_option (Cons b) (buffers_of vs))"

text \<open>\<open>data.user_name || undefined\<close>.\<close>

definition or_undefined :: "jsv \<Rightarrow> jsv" where
  "or_undefined v = (if truthy v then v else JUndef)"

text \<open>\<open>syncSignalAfterLogin\<close> returns the signals given to the browser.  An id list that is not an
  array has no \<open>map\<close> and throws.\<close>

definition syncSignalAfterLogin ::
  "'w env \<Rightarrow> 'w authn \<Rightarrow> string \<Rightarrow> string \<Rightarrow> 'w world \<Rightarrow> signal list \<times> 'w world" where
  "syncSignalAfterLogin E A base hostname w =
     (if \<not> isSignalApiSupported A then ([], w)
      else (case fetchValidCredentialIds E base w of (data, w1) \<Rightarrow>
        (case js_opt_prop data ''credential_ids'' of
           JArr (i # is) \<Rightarrow>
             (case (buffer_of (js_opt_prop data ''user_id''), buffers_of (i # is)) of
                (Some uid, Some bs) \<Rightarrow>
                  (let s = SignalAll hostname uid bs;
                       u = SignalUser uid (or_undefined (js_opt_prop data ''user_name''))
                             (or_undefined (js_opt_prop data ''display_name'')) in
                   (if signal_accepts A (outside w1) s \<and> signal_user_defined A then [s, u] else [s], w1))
              | _ \<Rightarrow> ([], w1))
         | _ \<Rightarrow> ([], w1))))"

definition signalCredentialRemoved :: "'w authn \<Rightarrow> string \<Rightarrow> string \<Rightarrow> signal list" where
  "signalCredentialRemoved A hostname credentialId =
     (if \<not> isSignalApiSupported A then []
      else if signal_unknown_defined A then
        (case b64urlToBuffer credentialId of None \<Rightarrow> [] | Some b \<Rightarrow> [SignalUnknown hostname b])
      else [])"

section \<open>The SDK's hook\<close>

record passkey_opts =
  pk_base :: string
  pk_authToken :: "string option"
  pk_tenantId :: "string option"

record passkey_hook =
  pk_loading :: bool
  pk_error :: "string option"
  pk_success :: bool

definition isWebAuthnSupported :: "'w authn \<Rightarrow> 'w world \<Rightarrow> bool" where
  "isWebAuthnSupported A w = (has_window w \<and> pkc_defined A)"

definition sdk_register_headers :: "passkey_opts \<Rightarrow> headers" where
  "sdk_register_headers o' = opt_header ''X-Tenant-ID'' [] (pk_tenantId o')
     (opt_header ''Authorization'' ''Bearer '' (pk_authToken o') [(''Content-Type'', ''application/json'')])"

definition sdk_attestation :: "credential \<Rightarrow> jsv" where
  "sdk_attestation c = JObj
     [(''id'', JStr (cr_id c)), (''rawId'', JStr (bufferToBase64url (cr_rawId c))), (''type'', JStr (cr_type c)),
      (''response'', JObj [(''attestationObject'', JStr (bufferToBase64url (cr_attestationObject c))),
                         (''clientDataJSON'', JStr (bufferToBase64url (cr_clientDataJSON c)))])]"

text \<open>The decoded options of \<open>register\<close>: \<open>user\<close> itself must not be \<open>null\<close> here.\<close>

definition sdk_creation_options :: "jsv \<Rightarrow> creation_options option" where
  "sdk_creation_options options =
     (if nullish options then None
      else (case buffer_of (js_opt_prop options ''challenge'') of None \<Rightarrow> None
        | Some ch \<Rightarrow> (case Option.bind (js_prop (js_opt_prop options ''user'') ''id'') buffer_of of None \<Rightarrow> None
          | Some uid \<Rightarrow> Some
             \<lparr>co_challenge = ch, co_rp = js_opt_prop options ''rp'',
              co_user = (case js_opt_prop options ''user'' of JObj kvs \<Rightarrow> kvs | _ \<Rightarrow> []), co_user_id = uid,
              co_params = js_opt_prop options ''pubKeyCredParams'', co_timeout = js_opt_prop options ''timeout'',
              co_exclude = None, co_selection = js_opt_prop options ''authenticatorSelection'',
              co_attestation = js_opt_prop options ''attestation'', co_mediation = None\<rparr>)))"

text \<open>The \<open>try\<close> block of \<open>register\<close>: an error message, or whether a credential was created.
  The exceptions of decoding are a \<open>TypeError\<close> or the \<open>DOMException\<close> of \<open>atob\<close>; their
  text is \<open>type_message\<close> of the environment.\<close>

definition sdk_post :: "string \<Rightarrow> string \<Rightarrow> headers \<Rightarrow> string option \<Rightarrow> request" where
  "sdk_post base path h b = \<lparr>url = base @ path, meth = ''POST'', hdrs = h, rbody = b\<rparr>"

definition register_body ::
  "'w env \<Rightarrow> 'w authn \<Rightarrow> passkey_opts \<Rightarrow> string \<Rightarrow> 'w world \<Rightarrow> (exn + unit) \<times> 'w world" where
  "register_body E A o' userId w =
     (case fetch E (sdk_post (pk_base o') ''/api/v1/webauthn/register/begin'' (sdk_register_headers o')
        (Some (json_stringify (JObj [(''user_id'', JStr userId)])))) w of
        (NetError, w1) \<Rightarrow> (Inl ExnNet, w1)
      | (Resp st body, w1) \<Rightarrow>
          if \<not> resp_ok st then (Inl (ExnError ''Failed to start registration''), w1)
          else (case json_parse body of None \<Rightarrow> (Inl ExnSyntax, w1)
             | Some beginData \<Rightarrow> (case sdk_creation_options (public_key beginData) of None \<Rightarrow> (Inl ExnType, w1)
               | Some opts \<Rightarrow> (case prompt_create A opts w1 of
                   (Rejected m, w2) \<Rightarrow> (Inl (ExnError m), w2)
                 | (Dismissed, w2) \<Rightarrow> (Inl (ExnError ''Registration cancelled''), w2)
                 | (Answered c, w2) \<Rightarrow>
                     (case fetch E (sdk_post (pk_base o') ''/api/v1/webauthn/register/finish'' (sdk_register_headers o')
                        (Some (json_stringify (sdk_attestation c)))) w2 of
                        (NetError, w3) \<Rightarrow> (Inl ExnNet, w3)
                      | (Resp st2 _, w3) \<Rightarrow>
                          if resp_ok st2 then (Inr (), w3)
                          else (Inl (ExnError ''Failed to verify passkey''), w3))))))"

definition register ::
  "'w env \<Rightarrow> 'w authn \<Rightarrow> passkey_opts \<Rightarrow> string \<Rightarrow> passkey_hook \<times> 'w world \<Rightarrow> bool \<times> (passkey_hook \<times> 'w world)" where
  "register E A o' userId hw = (case hw of (h, w) \<Rightarrow>
     if \<not> isWebAuthnSupported A w
     then (False, (h\<lparr>pk_error := Some ''WebAuthn is not supported in this browser''\<rparr>, w))
     else (case register_body E A o' userId w of
        (Inl x, w1) \<Rightarrow> (False, (\<lparr>pk_loading = False, pk_error = Some (exn_message E x), pk_success = False\<rparr>, w1))
      | (Inr _, w1) \<Rightarrow> (True, (\<lparr>pk_loading = False, pk_error = None, pk_success = True\<rparr>, w1))))"

definition assertion_json :: "assertion \<Rightarrow> jsv" where
  "assertion_json a = JObj
     [(''id'', JStr (as_id a)), (''rawId'', JStr (bufferToBase64url (as_rawId a))), (''type'', JStr (as_type a)),
      (''response'', JObj
        [(''authenticatorData'', JStr (bufferToBase64url (as_authenticatorData a))),
         (''clientDataJSON'', JStr (bufferToBase64url (as_clientDataJSON a))),
         (''signature'', JStr (bufferToBase64url (as_signature a))),
         (''userHandle'', case as_userHandle a of None \<Rightarrow> JNull | Some u \<Rightarrow> JStr (bufferToBase64url u))])]"

definition sdk_request_options :: "jsv \<Rightarrow> request_options option" where
  "sdk_request_options options =
     (if nullish options then None
      else map_option (\<lambda>ch. \<lparr>ro_challenge = ch, ro_rpId = js_opt_prop options ''rpId'',
             ro_timeout = js_opt_prop options ''timeout'', ro_verification = js_opt_prop options ''userVerification''\<rparr>)
           (buffer_of (js_opt_prop options ''challenge'')))"

definition authenticate_body ::
  "'w env \<Rightarrow> 'w authn \<Rightarrow> passkey_opts \<Rightarrow> 'w world \<Rightarrow> (exn + jsv) \<times> 'w world" where
  "authenticate_body E A o' w =
     (case fetch E (sdk_post (pk_base o') ''/api/v1/auth/webauthn/auth/begin''
        (opt_header ''X-Tenant-ID'' [] (pk_tenantId o') [(''Content-Type'', ''application/json'')]) None) w of
        (NetError, w1) \<Rightarrow> (Inl ExnNet, w1)
      | (Resp st body, w1) \<Rightarrow>
          if \<not> resp_ok st then (Inl (ExnError ''Failed to start authentication''), w1)
          else (case json_parse body of None \<Rightarrow> (Inl ExnSyntax, w1)
             | Some beginData \<Rightarrow> (case sdk_request_options (public_key beginData) of None \<Rightarrow> (Inl ExnType, w1)
               | Some opts \<Rightarrow> (case prompt_get A opts w1 of
                   (Rejected m, w2) \<Rightarrow> (Inl (ExnError m), w2)
                 | (Dismissed, w2) \<Rightarrow> (Inr JNull, w2)
                 | (Answered a, w2) \<Rightarrow> (Inr (assertion_json a), w2)))))"

definition authenticate ::
  "'w env \<Rightarrow> 'w authn \<Rightarrow> passkey_opts \<Rightarrow> passkey_hook \<times> 'w world \<Rightarrow> jsv \<times> (passkey_hook \<times> 'w world)" where
  "authenticate E A o' hw = (case hw of (h, w) \<Rightarrow>
     if \<not> isWebAuthnSupported A w then (JNull, (h\<lparr>pk_error := Some ''WebAuthn is not supported''\<rparr>, w))
     else (case authenticate_body E A o' w of
        (Inl x, w1) \<Rightarrow> (JNull, (h\<lparr>pk_error := Some (exn_message E x), pk_loading := False\<rparr>, w1))
      | (Inr v, w1) \<Rightarrow> (v, (h\<lparr>pk_error := None, pk_loading := False\<rparr>, w1))))"

definition passkey_reset :: "passkey_hook \<Rightarrow> passkey_hook" where
  "passkey_reset h = h\<lparr>pk_error := None, pk_success := False\<rparr>"

section \<open>Lemmas\<close>

lemma authHeader_store:
  "has_window w' = has_window w \<Longrightarrow> local_store w' = local_store w \<Longrightarrow> authHeader w' = authHeader w"
  by (simp add: authHeader_def getAuthToken_def)

lemma headers_store:
  assumes "has_window w' = has_window w" "local_store w' = local_store w"
  shows "get_headers w' = get_headers w" "post_headers w' = post_headers w"
  using authHeader_store[OF assms] by (simp_all add: get_headers_def post_headers_def)

lemma requests_store:
  assumes "has_window w' = has_window w" "local_store w' = local_store w"
  shows "begin_request b u w' = begin_request b u w" "finish_request b c w' = finish_request b c w"
  using headers_store[OF assms] by (simp_all add: begin_request_def finish_request_def)

lemma prompt_create_frame:
  assumes "prompt_create A opts w = (p, w')"
  shows "has_window w' = has_window w" "local_store w' = local_store w" "sent w' = sent w"
  using assms by (auto simp: prompt_create_def split: prod.splits)

lemma userHasPasskey_frame:
  assumes "userHasPasskey E base uid w = (b, w')"
  shows "has_window w' = has_window w" "local_store w' = local_store w"
    "sent w' = sent w @ [credentials_request base uid w]"
proof -
  obtain out w1 where f: "fetch E (credentials_request base uid w) w = (out, w1)" by fastforce
  then have "w' = w1" using assms
    by (auto simp: userHasPasskey_def split: outcome.splits option.splits jsv.splits if_splits)
  then show "has_window w' = has_window w" "local_store w' = local_store w"
    "sent w' = sent w @ [credentials_request base uid w]" using fetch_frame[OF f] by simp_all
qed

lemma finish_registration_true:
  assumes "finish_registration E base c w = (True, w')"
  obtains st b where "fst (fetch E (finish_request base c w) w) = Resp st b" "resp_ok st"
    "sent w' = sent w @ [finish_request base c w]" "local_store w' = local_store w"
  using assms fetch_frame[of E "finish_request base c w" w]
  by (auto simp: finish_registration_def split: prod.splits outcome.splits)

lemma buffer_of_encoded [simp]:
  "buffer_of (JStr (bufferToB64url bs)) = Some bs" "buffer_of (JStr (bufferToBase64url bs)) = Some bs"
  using console_codec.dec_enc[of bs] sdk_codec.dec_enc[of bs] by (simp_all add: sdk_codec_eq)

section \<open>Properties\<close>

text \<open>The upgrade offer reports success only after the whole ceremony: the browser supports
  conditional mediation, the account had no passkey, and exactly three requests went out, the
  last of them carrying the encoding of the credential the authenticator created for the
  options the server began with (with mediation ``optional''), which the server accepted.  The
  stored session is not touched.\<close>

lemma offerPasskeyUpgrade_success:
  assumes "offerPasskeyUpgrade E A base tok uid w = (True, w')"
  shows "isConditionalCreateSupported A w \<and> \<not> fst (userHasPasskey E base uid w) \<and>
    (\<exists>w1 w2 w3 st body beginData opts c o2 st' b.
       fetch E (begin_request base uid w) w1 = (Resp st body, w2) \<and> json_parse body = Some beginData \<and>
       decodeCreationOptions (public_key beginData) = Some opts \<and>
       create A (outside w2) (opts\<lparr>co_mediation := Some ''optional''\<rparr>) = (Answered c, o2) \<and>
       fst (fetch E (finish_request base c w) w3) = Resp st' b \<and> resp_ok st' \<and>
       sent w' = sent w @ [credentials_request base uid w, begin_request base uid w, finish_request base c w]) \<and>
    local_store w' = local_store w"
proof -
  have sup: "isConditionalCreateSupported A w"
    using assms by (auto simp: offerPasskeyUpgrade_def split: if_splits)
  obtain has w1 where u: "userHasPasskey E base uid w = (has, w1)" by fastforce
  have has: "\<not> has" using assms sup u by (auto simp: offerPasskeyUpgrade_def)
  obtain out w2 where f: "fetch E (begin_request base uid w1) w1 = (out, w2)" by fastforce
  obtain st body bd opts where o: "out = Resp st body" "json_parse body = Some bd"
    "decodeCreationOptions (public_key bd) = Some opts"
    using assms sup u has f
    by (auto simp: offerPasskeyUpgrade_def split: outcome.splits option.splits if_splits)
  obtain p w3 where c: "prompt_create A (opts\<lparr>co_mediation := Some ''optional''\<rparr>) w2 = (p, w3)" by fastforce
  obtain cr where cr: "p = Answered cr" "finish_registration E base cr w3 = (True, w')"
    using assms sup u has f o c by (auto simp: offerPasskeyUpgrade_def split: prompt.splits if_splits)
  obtain o2 where o2: "create A (outside w2) (opts\<lparr>co_mediation := Some ''optional''\<rparr>) = (Answered cr, o2)"
    using c cr(1) by (auto simp: prompt_create_def split: prod.splits)
  have st: "has_window w3 = has_window w" "local_store w3 = local_store w"
    and w1: "has_window w1 = has_window w" "local_store w1 = local_store w"
    using prompt_create_frame[OF c] fetch_frame[OF f] userHasPasskey_frame[OF u] by simp_all
  obtain st' b where fin: "fst (fetch E (finish_request base cr w) w3) = Resp st' b" "resp_ok st'"
    "sent w' = sent w3 @ [finish_request base cr w]" "local_store w' = local_store w"
    by (rule finish_registration_true[OF cr(2)]) (simp add: st requests_store(2)[OF st])
  have "sent w3 = sent w @ [credentials_request base uid w, begin_request base uid w]"
    using prompt_create_frame(3)[OF c] fetch_frame(5)[OF f] userHasPasskey_frame(3)[OF u]
    by (simp add: requests_store(1)[OF w1])
  moreover have "fetch E (begin_request base uid w) w1 = (Resp st body, w2)"
    using f o(1) by (simp add: requests_store(1)[OF w1])
  ultimately show ?thesis using o(2,3) o2 fin sup u has by (simp only: fst_conv append.simps append_assoc) blast
qed

text \<open>An authenticator that answers, and a server that accepts.\<close>

definition demo_credential :: credential where
  "demo_credential = \<lparr>cr_id = ''x'', cr_rawId = [0, 255], cr_type = ''public-key'',
     cr_attestationObject = [1, 2, 3], cr_clientDataJSON = [], cr_attachment = JNull\<rparr>"

definition demo_authn :: "outcome list authn" where
  "demo_authn = \<lparr>pkc_defined = True, has_conditional = True, conditional_available = (\<lambda>_. Some True),
     create = (\<lambda>o' _. (Answered demo_credential, o')), get_assertion = (\<lambda>o' _. (Dismissed, o')),
     signal_all_defined = False, signal_user_defined = False, signal_unknown_defined = False,
     signal_accepts = (\<lambda>_ _. False)\<rparr>"

definition demo_server :: "outcome list" where
  "demo_server = [Resp 404 [], Resp 200 ''{\"challenge\":\"\",\"user\":{\"id\":\"\"}}'', Resp 200 []]"

lemma offerPasskeyUpgrade_success_example:
  "isConditionalCreateSupported demo_authn (page Map.empty demo_server) \<and>
   \<not> fst (userHasPasskey scripted ''b'' ''u'' (page Map.empty demo_server)) \<and>
    (\<exists>w1 w2 w3 st body beginData opts c o2 st' b.
       fetch scripted (begin_request ''b'' ''u'' (page Map.empty demo_server)) w1 = (Resp st body, w2) \<and>
       json_parse body = Some beginData \<and> decodeCreationOptions (public_key beginData) = Some opts \<and>
       create demo_authn (outside w2) (opts\<lparr>co_mediation := Some ''optional''\<rparr>) = (Answered c, o2) \<and>
       fst (fetch scripted (finish_request ''b'' c (page Map.empty demo_server)) w3) = Resp st' b \<and> resp_ok st' \<and>
       sent (snd (offerPasskeyUpgrade scripted demo_authn ''b'' ''t'' ''u'' (page Map.empty demo_server))) =
         sent (page Map.empty demo_server) @ [credentials_request ''b'' ''u'' (page Map.empty demo_server),
           begin_request ''b'' ''u'' (page Map.empty demo_server), finish_request ''b'' c (page Map.empty demo_server)]) \<and>
    local_store (snd (offerPasskeyUpgrade scripted demo_authn ''b'' ''t'' ''u'' (page Map.empty demo_server))) =
      local_store (page Map.empty demo_server)"
proof (rule offerPasskeyUpgrade_success)
  have "json_parse ''{\"challenge\":\"\",\"user\":{\"id\":\"\"}}'' =
      Some (JObj [(''challenge'', JStr []), (''user'', JObj [(''id'', JStr [])])])" by code_simp
  moreover have "b64urlToBuffer [] = Some []" by code_simp
  ultimately show "offerPasskeyUpgrade scripted demo_authn ''b'' ''t'' ''u'' (page Map.empty demo_server) =
      (True, snd (offerPasskeyUpgrade scripted demo_authn ''b'' ''t'' ''u'' (page Map.empty demo_server)))"
    by (simp add: offerPasskeyUpgrade_def isConditionalCreateSupported_def demo_authn_def userHasPasskey_def
        fetch_scripted demo_server_def resp_ok_def public_key_def decodeCreationOptions_def prompt_create_def
        finish_registration_def)
qed

text \<open>What the authenticator produced reaches the server intact: a server that parses the body of
  the finish request and decodes its fields gets the raw identifier, the attestation object
  and the client data back, byte for byte.\<close>

lemma attestation_roundtrip:
  assumes "json_clean (cr_attachment c)"
  shows "\<exists>b v r. rbody (finish_request base c w) = Some b \<and> json_parse b = Some v \<and>
    buffer_of (js_opt_prop v ''rawId'') = Some (cr_rawId c) \<and>
    js_prop v ''response'' = Some r \<and>
    buffer_of (js_opt_prop r ''attestationObject'') = Some (cr_attestationObject c) \<and>
    buffer_of (js_opt_prop r ''clientDataJSON'') = Some (cr_clientDataJSON c)"
proof -
  have "json_clean (encodeAttestation c)" using assms by (simp add: encodeAttestation_def)
  then have "json_parse (json_stringify (encodeAttestation c)) = Some (encodeAttestation c)"
    by (rule json_stringify_clean)
  then show ?thesis
    by (simp add: finish_request_def) (simp add: encodeAttestation_def del: buffer_of.simps)
qed

lemma attestation_roundtrip_example:
  "\<exists>b v r. rbody (finish_request ''b'' demo_credential blank_world) = Some b \<and> json_parse b = Some v \<and>
    buffer_of (js_opt_prop v ''rawId'') = Some (cr_rawId demo_credential) \<and>
    js_prop v ''response'' = Some r \<and>
    buffer_of (js_opt_prop r ''attestationObject'') = Some (cr_attestationObject demo_credential) \<and>
    buffer_of (js_opt_prop r ''clientDataJSON'') = Some (cr_clientDataJSON demo_credential)"
  by (rule attestation_roundtrip) (simp add: demo_credential_def)

text \<open>The passkey requests lose the tenant: although \<open>authHeader\<close> provides the stored tenant,
  every request of the module carries an empty \<open>X-Tenant-ID\<close>, because the module's own
  \<open>TENANT_ID\<close>, the empty string, is spread over it.  The authorization header survives.\<close>

lemma passkey_requests_lose_tenant:
  assumes "has_window w" "local_store w ''ggid_tenant_id'' = Some t" "t \<noteq> []"
    and "rq \<in> {credentials_request base uid w, begin_request base uid w, finish_request base c w,
                 valid_ids_request base w}"
  shows "assoc ''X-Tenant-ID'' (authHeader w) = Some t \<and> assoc ''X-Tenant-ID'' (hdrs rq) = Some [] \<and>
    assoc ''Authorization'' (hdrs rq) = assoc ''Authorization'' (authHeader w)"
  using assms by (auto simp: authHeader_assoc present_def credentials_request_def begin_request_def finish_request_def
      valid_ids_request_def get_headers_def post_headers_def spread_def WEBAUTHN_TENANT_ID_def)


text \<open>The SDK's \<open>register\<close>, in a browser with WebAuthn, ends in a consistent hook state:
  it is no longer loading, it returns true exactly when it sets \<open>success\<close>, and it reports an
  error exactly when it returns false.\<close>

lemma register_consistent:
  assumes "isWebAuthnSupported A w" "register E A opts uid (h, w) = (r, (h', w'))"
  shows "\<not> pk_loading h' \<and> (r \<longleftrightarrow> pk_success h') \<and> (r \<longleftrightarrow> pk_error h' = None)"
proof -
  obtain x w1 where "register_body E A opts uid w = (x, w1)" by (cases "register_body E A opts uid w")
  then show ?thesis using assms by (cases x) (auto simp: register_def)
qed


end
