(* ===== verification/Sdk_Provider.thy ===== *)
theory Sdk_Provider
  imports Api_Client
begin

text \<open>
  The React SDK's core (\<open>sdk/react/src\<close>): \<open>GGIDProvider.tsx\<close> with its token storage,
  profile loading, de-duplicated refresh, login and logout; the refresh timer of the provider
  and of \<open>useTokenRefresh.ts\<close>; and the permission tests of \<open>useRoles.ts\<close>,
  \<open>usePermissions.ts\<close>, \<open>RequireScope.tsx\<close> and \<open>ProtectedRoute.tsx\<close>.

  The provider's asynchronous handlers overlap, so each is split where it waits for the network:
  the part before the \<open>await\<close> sends the request, the part after it consumes the outcome.
  \<open>provider_step\<close> interleaves these parts freely, and the invariants hold in every
  reachable state.
\<close>

section \<open>State\<close>

record sdk_config =
  apiBaseUrl :: string
  tenantId :: string
  storageKey :: string

record prov =
  pv_user :: jsv
  pv_tokenSet :: jsv
  pv_loading :: bool
  pv_auth :: bool
  pv_error :: "string option"
  pv_store :: storage
  pv_profile :: bool
  pv_refresh :: "string option"
  pv_logins :: nat
  pv_sent :: "request list"

text \<open>\<open>pv_profile\<close>: the profile request of the mount effect is in flight; \<open>pv_refresh\<close>: the
  refresh token of the refresh in flight (\<open>refreshPromiseRef.current\<close>); \<open>pv_logins\<close>: the
  number of logins in flight.\<close>

definition loadTokenSet :: "string \<Rightarrow> storage \<Rightarrow> jsv" where
  "loadTokenSet key st = (if present (st key) then
     (case json_parse (the (st key)) of None \<Rightarrow> JNull | Some v \<Rightarrow> v) else JNull)"

definition saveTokenSet :: "string \<Rightarrow> jsv \<Rightarrow> storage \<Rightarrow> storage" where
  "saveTokenSet key ts st = (if truthy ts then st(key \<mapsto> json_stringify ts) else st(key := None))"

definition storage_key :: "string option \<Rightarrow> string" where
  "storage_key k = item_or k ''ggid_token''"

section \<open>Handlers\<close>

definition profile_request :: "sdk_config \<Rightarrow> jsv \<Rightarrow> request" where
  "profile_request c token = \<lparr>url = apiBaseUrl c @ ''/api/v1/users/me'', meth = ''GET'',
     hdrs = [(''Authorization'', ''Bearer '' @ js_to_string token), (''X-Tenant-ID'', tenantId c)], rbody = None\<rparr>"

text \<open>The initial state and the mount effect, which starts the profile request.\<close>

definition provider_mount :: "sdk_config \<Rightarrow> bool \<Rightarrow> storage \<Rightarrow> prov" where
  "provider_mount c window st =
     (let ts = (if window then loadTokenSet (storageKey c) st else JNull) in
      \<lparr>pv_user = JNull, pv_tokenSet = ts, pv_loading = truthy ts, pv_auth = truthy ts, pv_error = None,
       pv_store = st, pv_profile = truthy ts, pv_refresh = None, pv_logins = 0,
       pv_sent = (if truthy ts then [profile_request c (js_opt_prop ts ''access_token'')] else [])\<rparr>)"

definition clear_session :: "sdk_config \<Rightarrow> string option \<Rightarrow> prov \<Rightarrow> prov" where
  "clear_session c err p = p\<lparr>pv_store := saveTokenSet (storageKey c) JNull (pv_store p), pv_user := JNull,
     pv_tokenSet := JNull, pv_loading := False, pv_auth := False, pv_error := err\<rparr>"

definition profile_finish :: "sdk_config \<Rightarrow> outcome \<Rightarrow> prov \<Rightarrow> prov" where
  "profile_finish c out p = (let p1 = p\<lparr>pv_profile := False\<rparr> in
     case out of NetError \<Rightarrow> clear_session c None p1
     | Resp st body \<Rightarrow>
         if \<not> resp_ok st then clear_session c None p1
         else (case json_parse body of None \<Rightarrow> clear_session c None p1
            | Some user \<Rightarrow> p1\<lparr>pv_user := user, pv_loading := False\<rparr>))"

definition sdk_refresh_request :: "sdk_config \<Rightarrow> string \<Rightarrow> request" where
  "sdk_refresh_request c rt = \<lparr>url = apiBaseUrl c @ ''/api/v1/oauth/token'', meth = ''POST'',
     hdrs = [(''Content-Type'', ''application/x-www-form-urlencoded''), (''X-Tenant-ID'', tenantId c)],
     rbody = Some (search_params [(''grant_type'', ''refresh_token''), (''refresh_token'', rt)])\<rparr>"

text \<open>\<open>refreshToken\<close>: a call while a refresh is in flight joins it.\<close>

definition refresh_call :: "sdk_config \<Rightarrow> prov \<Rightarrow> prov" where
  "refresh_call c p =
     (if pv_refresh p \<noteq> None then p
      else (let rt = js_opt_prop (loadTokenSet (storageKey c) (pv_store p)) ''refresh_token'' in
        if \<not> truthy rt then p
        else p\<lparr>pv_refresh := Some (js_to_string rt),
               pv_sent := pv_sent p @ [sdk_refresh_request c (js_to_string rt)]\<rparr>))"

definition refresh_finish :: "sdk_config \<Rightarrow> outcome \<Rightarrow> prov \<Rightarrow> prov" where
  "refresh_finish c out p = (let p1 = p\<lparr>pv_refresh := None\<rparr> in
     case out of NetError \<Rightarrow> clear_session c (Some ''Session expired'') p1
     | Resp st body \<Rightarrow>
         if \<not> resp_ok st then clear_session c (Some ''Session expired'') p1
         else (case json_parse body of None \<Rightarrow> clear_session c (Some ''Session expired'') p1
            | Some ts \<Rightarrow> p1\<lparr>pv_store := saveTokenSet (storageKey c) ts (pv_store p1), pv_tokenSet := ts\<rparr>))"

definition login_request :: "sdk_config \<Rightarrow> string \<Rightarrow> string \<Rightarrow> request" where
  "login_request c username password = \<lparr>url = apiBaseUrl c @ ''/api/v1/auth/login'', meth = ''POST'',
     hdrs = [(''Content-Type'', ''application/json''), (''X-Tenant-ID'', tenantId c)],
     rbody = Some (json_stringify (JObj [(''username'', JStr username), (''password'', JStr password)]))\<rparr>"

definition login_start :: "sdk_config \<Rightarrow> string \<Rightarrow> string \<Rightarrow> prov \<Rightarrow> prov" where
  "login_start c username password p =
     p\<lparr>pv_loading := True, pv_error := None, pv_logins := Suc (pv_logins p),
       pv_sent := pv_sent p @ [login_request c username password]\<rparr>"

text \<open>The error of a refused login: \<open>data.error || data.message || 'Login failed'\<close> of the body, or of
  \<open>{}\<close> when the body is not JSON; a body of \<open>null\<close> throws a \<open>TypeError\<close> instead.\<close>

definition login_error :: "string \<Rightarrow> string \<Rightarrow> string" where
  "login_error type_msg body = (case json_parse body of None \<Rightarrow> ''Login failed''
     | Some data \<Rightarrow> if nullish data then type_msg
         else js_to_string (js_or (js_opt_prop data ''error'')
                (js_or (js_opt_prop data ''message'') (JStr ''Login failed''))))"

definition login_fail :: "string \<Rightarrow> prov \<Rightarrow> prov" where
  "login_fail msg p = p\<lparr>pv_loading := False, pv_error := Some msg\<rparr>"

definition login_finish :: "'w env \<Rightarrow> sdk_config \<Rightarrow> outcome \<Rightarrow> prov \<Rightarrow> prov" where
  "login_finish E c out p = (let p1 = p\<lparr>pv_logins := pv_logins p - 1\<rparr> in
     case out of NetError \<Rightarrow> login_fail (net_message E) p1
     | Resp st body \<Rightarrow>
         if \<not> resp_ok st then login_fail (login_error (type_message E) body) p1
         else (case json_parse body of None \<Rightarrow> login_fail (syntax_message E) p1
            | Some ts \<Rightarrow> p1\<lparr>pv_store := saveTokenSet (storageKey c) ts (pv_store p1), pv_user := JNull,
                pv_tokenSet := ts, pv_loading := False, pv_auth := True, pv_error := None\<rparr>))"

definition sdk_logout :: "sdk_config \<Rightarrow> prov \<Rightarrow> prov" where
  "sdk_logout c p = clear_session c None p"

text \<open>\<open>getAccessToken\<close>: \<^term>\<open>JNull\<close> when there is none.\<close>

definition getAccessToken :: "prov \<Rightarrow> jsv" where
  "getAccessToken p = js_or (js_opt_prop (pv_tokenSet p) ''access_token'') JNull"

section \<open>Interleaving\<close>

inductive provider_step :: "'w env \<Rightarrow> sdk_config \<Rightarrow> prov \<Rightarrow> prov \<Rightarrow> bool" for E c where
  profile: "pv_profile p \<Longrightarrow> provider_step E c p (profile_finish c out p)"
| refresh: "provider_step E c p (refresh_call c p)"
| refreshed: "pv_refresh p \<noteq> None \<Longrightarrow> provider_step E c p (refresh_finish c out p)"
| login: "provider_step E c p (login_start c username password p)"
| logged_in: "0 < pv_logins p \<Longrightarrow> provider_step E c p (login_finish E c out p)"
| logout: "provider_step E c p (sdk_logout c p)"

inductive_cases provider_stepE: "provider_step E c p q"

definition provider_run :: "'w env \<Rightarrow> sdk_config \<Rightarrow> prov \<Rightarrow> prov \<Rightarrow> bool" where
  "provider_run E c = (provider_step E c)\<^sup>*\<^sup>*"

section \<open>The refresh timer\<close>

text \<open>\<open>expires_at\<close> and the \<open>exp\<close> claim are numbers, as their types declare; \<^term>\<open>None\<close> where
  no expiry is known and no timer is set.\<close>

definition num_of :: "jsv \<Rightarrow> int option" where
  "num_of v = (case v of JNum n \<Rightarrow> Some n | _ \<Rightarrow> None)"

definition expires_at_ms :: "jsv \<Rightarrow> int option" where
  "expires_at_ms ts =
     (let e = js_opt_prop ts ''expires_at'' in
      if truthy e then map_option (\<lambda>n. if n > 1000000000000 then n else n * 1000) (num_of e)
      else (case jwt_payload (js_opt_prop ts ''access_token'') of None \<Rightarrow> None
        | Some p \<Rightarrow> let x = js_opt_prop p ''exp'' in
            if truthy x then map_option (\<lambda>n. n * 1000) (num_of x) else None))"

definition refresh_delay :: "int \<Rightarrow> jsv \<Rightarrow> int option" where
  "refresh_delay t ts =
     (if \<not> truthy (js_opt_prop ts ''access_token'') then None
      else (case expires_at_ms ts of None \<Rightarrow> None
        | Some e \<Rightarrow> if e = 0 then None
            else (let delay = max (e - t - 60000) 5000 in if delay \<le> 0 then None else Some delay)))"

section \<open>Permission tests\<close>

text \<open>\<open>roles\<close>, \<open>scopes\<close> and \<open>permissions\<close> of the user: \<^term>\<open>None\<close> when the user or the field is
  absent.\<close>

definition provider_hasRole :: "string list option \<Rightarrow> string \<Rightarrow> bool" where
  "provider_hasRole rs r = (case rs of None \<Rightarrow> False | Some xs \<Rightarrow> r \<in> set xs)"

definition provider_hasScope :: "string list option \<Rightarrow> string \<Rightarrow> bool" where
  "provider_hasScope ss s = (case ss of None \<Rightarrow> False | Some xs \<Rightarrow> s \<in> set xs)"

definition provider_hasPermission :: "string list option \<Rightarrow> string \<Rightarrow> bool" where
  "provider_hasPermission ps p = (case ps of None \<Rightarrow> False
     | Some xs \<Rightarrow> if ''admin'' \<in> set xs then True else p \<in> set xs)"

record roles_view =
  rv_hasRole :: "string \<Rightarrow> bool"
  rv_hasScope :: "string \<Rightarrow> bool"
  rv_hasAnyRole :: "string list \<Rightarrow> bool"
  rv_hasAllRoles :: "string list \<Rightarrow> bool"
  rv_hasAnyScope :: "string list \<Rightarrow> bool"
  rv_isAdmin :: bool

definition useRoles :: "string list option \<Rightarrow> string list option \<Rightarrow> roles_view" where
  "useRoles rs ss =
     (let roles = (case rs of None \<Rightarrow> [] | Some xs \<Rightarrow> xs); scopes = (case ss of None \<Rightarrow> [] | Some xs \<Rightarrow> xs) in
      \<lparr>rv_hasRole = (\<lambda>r. r \<in> set roles), rv_hasScope = (\<lambda>s. s \<in> set scopes),
       rv_hasAnyRole = list_ex (\<lambda>r. r \<in> set roles), rv_hasAllRoles = list_all (\<lambda>r. r \<in> set roles),
       rv_hasAnyScope = list_ex (\<lambda>s. s \<in> set scopes),
       rv_isAdmin = (''admin'' \<in> set roles \<or> ''admin'' \<in> set scopes)\<rparr>)"

definition normalizePermission :: "string \<Rightarrow> string" where
  "normalizePermission perm = to_lower (trim perm)"

text \<open>The second component of the destructuring is \<open>undefined\<close> when there is no colon.\<close>

definition perm_action :: "string \<Rightarrow> string option" where
  "perm_action p = (case split_on (CHR '':'') p of _ # a # _ \<Rightarrow> Some a | _ \<Rightarrow> None)"

definition perm_resource :: "string \<Rightarrow> string" where
  "perm_resource p = hd (split_on (CHR '':'') p)"

definition permissionMatches :: "string \<Rightarrow> string \<Rightarrow> bool" where
  "permissionMatches userPerm requiredPerm =
     (if userPerm = requiredPerm then True
      else if perm_resource userPerm = perm_resource requiredPerm \<and>
              (perm_action userPerm = Some ''*'' \<or> perm_action userPerm = Some ''admin'') then True
      else userPerm = ''*'' \<or> userPerm = ''admin'' \<or> userPerm = ''admin:*'')"

definition sdk_hasPermission :: "string list \<Rightarrow> string \<Rightarrow> bool" where
  "sdk_hasPermission permissions permission =
     list_ex (\<lambda>p. permissionMatches p (normalizePermission permission)) permissions"

definition hasAnyPermission :: "string list \<Rightarrow> string list \<Rightarrow> bool" where
  "hasAnyPermission permissions checkPerms = list_ex (sdk_hasPermission permissions) checkPerms"

definition hasAllPermissions :: "string list \<Rightarrow> string list \<Rightarrow> bool" where
  "hasAllPermissions permissions checkPerms = list_all (sdk_hasPermission permissions) checkPerms"

datatype rendered = LoadingFallback | Fallback | Children | Redirect string | Nothing

definition RequireScope ::
  "string list option \<Rightarrow> bool \<Rightarrow> string option \<Rightarrow> string list option \<Rightarrow> string list option \<Rightarrow> rendered" where
  "RequireScope userScopes isLoading sc anyOf allOf =
     (if isLoading then LoadingFallback
      else if (present sc \<longrightarrow> provider_hasScope userScopes (the sc)) \<and>
              (case anyOf of None \<Rightarrow> True | Some ss \<Rightarrow> ss \<noteq> [] \<longrightarrow> list_ex (provider_hasScope userScopes) ss) \<and>
              (case allOf of None \<Rightarrow> True | Some ss \<Rightarrow> ss \<noteq> [] \<longrightarrow> list_all (provider_hasScope userScopes) ss)
      then Children else Fallback)"

definition ProtectedRoute :: "bool \<Rightarrow> prov \<Rightarrow> string \<Rightarrow> string \<Rightarrow> rendered" where
  "ProtectedRoute window p loginPath currentPath =
     (if pv_loading p then LoadingFallback
      else if \<not> pv_auth p then
        (if window then Redirect (loginPath @ ''?redirect='' @ encodeURIComponent currentPath) else Nothing)
      else Children)"

section \<open>Checkers\<close>

interpretation sdk_perms: monotone_checker sdk_hasPermission
  by unfold_locales (auto simp: sdk_hasPermission_def list_ex_iff)

interpretation provider_perms: exact_checker "\<lambda>ps. provider_hasPermission (Some ps)"
  by unfold_locales (auto simp: provider_hasPermission_def split: if_splits)

interpretation role_checker: exact_checker "\<lambda>rs. rv_hasRole (useRoles (Some rs) ss)" for ss
  by unfold_locales (auto simp: useRoles_def Let_def)

section \<open>Lemmas\<close>

lemma saveTokenSet_simps [simp]:
  "saveTokenSet key JNull st key = None"
  "k \<noteq> key \<Longrightarrow> saveTokenSet key ts st k = st k"
  by (simp_all add: saveTokenSet_def)

lemma load_save: "json_clean ts \<Longrightarrow> truthy ts \<Longrightarrow> loadTokenSet key (saveTokenSet key ts st) = ts"
proof -
  assume a: "json_clean ts" "truthy ts"
  then have p: "json_parse (json_stringify ts) = Some ts" by (simp add: json_stringify_clean)
  moreover have "json_stringify ts \<noteq> []"
  proof
    assume "json_stringify ts = []"
    with p have "json_parse [] = Some ts" by simp
    moreover have "json_parse [] = None" by code_simp
    ultimately show False by simp
  qed
  ultimately show ?thesis using a(2) by (simp add: loadTokenSet_def saveTokenSet_def present_def)
qed

lemma clear_session_simps [simp]:
  "pv_user (clear_session c e p) = JNull" "pv_tokenSet (clear_session c e p) = JNull"
  "pv_auth (clear_session c e p) = False" "pv_loading (clear_session c e p) = False"
  "pv_store (clear_session c e p) = saveTokenSet (storageKey c) JNull (pv_store p)"
  "pv_refresh (clear_session c e p) = pv_refresh p" "pv_logins (clear_session c e p) = pv_logins p"
  "pv_profile (clear_session c e p) = pv_profile p" "pv_sent (clear_session c e p) = pv_sent p"
  by (simp_all add: clear_session_def)

lemma refresh_finish_inflight [simp]: "pv_refresh (refresh_finish c out p) = None"
  by (auto simp: refresh_finish_def Let_def split: outcome.splits option.splits)

text \<open>The refresh requests among the requests sent.\<close>

definition refreshes :: "sdk_config \<Rightarrow> prov \<Rightarrow> request list" where
  "refreshes c p = filter (\<lambda>rq. url rq = apiBaseUrl c @ ''/api/v1/oauth/token'') (pv_sent p)"

lemma step_refreshes:
  assumes "provider_step E c p q" "pv_refresh p \<noteq> None" "pv_refresh q \<noteq> None"
  shows "refreshes c q = refreshes c p"
  using assms
  by (elim provider_stepE)
    (auto simp: refreshes_def profile_finish_def refresh_call_def login_start_def login_request_def login_finish_def
      login_fail_def sdk_logout_def Let_def split: outcome.splits option.splits)

text \<open>A session that has ended: nothing stored, nothing in flight that could revive it.\<close>

definition ended :: "sdk_config \<Rightarrow> prov \<Rightarrow> bool" where
  "ended c p = (pv_store p (storageKey c) = None \<and> \<not> pv_auth p \<and> pv_tokenSet p = JNull \<and> pv_refresh p = None)"

lemma ended_step:
  assumes "provider_step E c p q" "pv_logins p = 0" "ended c p"
  shows "ended c q"
  using assms
  by (elim provider_stepE)
    (auto simp: ended_def profile_finish_def refresh_call_def login_start_def sdk_logout_def loadTokenSet_def present_def
      Let_def split: outcome.splits option.splits)

text \<open>Without a profile request in flight the user stays unknown.\<close>

definition no_profile :: "prov \<Rightarrow> bool" where
  "no_profile p = (\<not> pv_profile p \<and> pv_user p = JNull)"

lemma no_profile_step: "provider_step E c p q \<Longrightarrow> no_profile p \<Longrightarrow> no_profile q"
  by (elim provider_stepE)
    (auto simp: no_profile_def refresh_call_def refresh_finish_def login_start_def login_finish_def login_fail_def
      sdk_logout_def Let_def split: outcome.splits option.splits)

section \<open>Properties\<close>

text \<open>C6. Refreshes are de-duplicated: whatever the application does while a refresh is in flight
  (further refresh calls, logins, logouts, profile responses, in any order), no second refresh
  request is sent before the first one is answered, so a rotating refresh token is used once.\<close>

theorem refresh_single_flight:
  assumes "(\<lambda>a b. provider_step E c a b \<and> pv_refresh b \<noteq> None)\<^sup>*\<^sup>* p q" "pv_refresh p \<noteq> None"
  shows "refreshes c q = refreshes c p"
proof -
  have "refreshes c q = refreshes c p \<and> pv_refresh q \<noteq> None"
    using assms by (induction rule: rtranclp_induct) (auto dest: step_refreshes)
  then show ?thesis ..
qed

text \<open>A session with both tokens in the store, for the witnesses.\<close>

definition demo_config :: sdk_config where
  "demo_config = \<lparr>apiBaseUrl = ''b'', tenantId = ''t'', storageKey = ''k''\<rparr>"

definition demo_tokens :: jsv where
  "demo_tokens = JObj [(''access_token'', JStr ''a''), (''refresh_token'', JStr ''r'')]"

definition demo_prov :: prov where
  "demo_prov = provider_mount demo_config True [''k'' \<mapsto> json_stringify demo_tokens]"

lemma demo_clean: "json_clean demo_tokens"
  by (simp add: demo_tokens_def)

lemma demo_prov_load: "loadTokenSet ''k'' (pv_store demo_prov) = demo_tokens"
  using load_save[OF demo_clean, of "''k''" Map.empty]
  by (simp add: demo_prov_def provider_mount_def Let_def saveTokenSet_def demo_tokens_def)

lemma demo_refresh: "pv_refresh (refresh_call demo_config demo_prov) = Some ''r''"
proof -
  have "pv_refresh demo_prov = None" by (simp add: demo_prov_def provider_mount_def Let_def)
  moreover have "storageKey demo_config = ''k''" by (simp add: demo_config_def)
  ultimately show ?thesis by (simp add: refresh_call_def demo_prov_load demo_tokens_def)
qed

theorem refresh_single_flight_witness:
  "refreshes demo_config (sdk_logout demo_config (refresh_call demo_config demo_prov)) =
   refreshes demo_config (refresh_call demo_config demo_prov)"
proof (rule refresh_single_flight)
  show "(\<lambda>a b. provider_step (always NetError) demo_config a b \<and> pv_refresh b \<noteq> None)\<^sup>*\<^sup>*
      (refresh_call demo_config demo_prov) (sdk_logout demo_config (refresh_call demo_config demo_prov))"
    using demo_refresh by (intro r_into_rtranclp conjI logout) (simp add: sdk_logout_def)
qed (simp add: demo_refresh)

text \<open>C14. A logout with nothing in flight is final: from then on, as long as no new login is started,
  nothing is stored under the session's key, the provider is not authenticated and holds no
  token, whatever responses still arrive.\<close>

theorem logout_is_final:
  assumes "pv_refresh p = None" "pv_logins p = 0"
    and "(\<lambda>a b. provider_step E c a b \<and> pv_logins b = 0)\<^sup>*\<^sup>* (sdk_logout c p) q"
  shows "pv_store q (storageKey c) = None \<and> \<not> pv_auth q \<and> getAccessToken q = JNull"
proof -
  have "ended c q \<and> pv_logins q = 0" using assms(3)
  proof (induction rule: rtranclp_induct)
    case base
    then show ?case using assms(1,2) by (simp add: ended_def sdk_logout_def)
  next
    case (step y z)
    then show ?case using ended_step by blast
  qed
  then show ?thesis by (simp add: ended_def getAccessToken_def)
qed

theorem logout_is_final_witness:
  "pv_store (sdk_logout demo_config demo_prov) (storageKey demo_config) = None \<and>
   \<not> pv_auth (sdk_logout demo_config demo_prov) \<and> getAccessToken (sdk_logout demo_config demo_prov) = JNull"
  by (rule logout_is_final[where p = demo_prov and E = "always NetError"])
    (simp_all add: demo_prov_def provider_mount_def Let_def)

text \<open>A logout during a refresh is undone by the refresh: when the response of the refresh
  arrives after the logout, its tokens are stored again, the provider holds an access token
  while it says it is not authenticated, and the next mount of the provider is logged in.\<close>

lemma logout_undone_by_refresh:
  assumes "pv_refresh p \<noteq> None" "resp_ok st" "json_parse body = Some ts"
    and "truthy (js_opt_prop ts ''access_token'')"
  shows "\<exists>q. provider_run E c (sdk_logout c p) q \<and> \<not> pv_auth q \<and> getAccessToken q = js_opt_prop ts ''access_token'' \<and>
    pv_auth (provider_mount c True (pv_store q))"
proof -
  let ?q = "refresh_finish c (Resp st body) (sdk_logout c p)"
  have t: "truthy ts" using assms(4) by (cases ts) auto
  have "provider_run E c (sdk_logout c p) ?q"
    unfolding provider_run_def using assms(1) by (intro r_into_rtranclp refreshed) (simp add: sdk_logout_def)
  moreover have "\<not> pv_auth ?q" "getAccessToken ?q = js_opt_prop ts ''access_token''"
    "pv_store ?q = saveTokenSet (storageKey c) ts (pv_store (sdk_logout c p))"
    using assms by (simp_all add: refresh_finish_def Let_def sdk_logout_def getAccessToken_def)
  moreover have "pv_auth (provider_mount c True (saveTokenSet (storageKey c) ts s))" for s
    using load_save[OF json_parse_clean[OF assms(3)] t] t by (simp add: provider_mount_def Let_def)
  ultimately show ?thesis by metis
qed

lemma logout_undone_by_refresh_example:
  "\<exists>q. provider_run (always NetError) demo_config (sdk_logout demo_config (refresh_call demo_config demo_prov)) q \<and>
    \<not> pv_auth q \<and> getAccessToken q = js_opt_prop demo_tokens ''access_token'' \<and>
    pv_auth (provider_mount demo_config True (pv_store q))"
  by (rule logout_undone_by_refresh[where st = 200 and body = "json_stringify demo_tokens"])
    (simp_all add: demo_refresh resp_ok_def json_stringify_clean[OF demo_clean] demo_clean,
      simp add: demo_tokens_def)

text \<open>The profile is loaded only by the mount: when the provider is mounted without a stored
  token, the user is unknown in every reachable state, also after a successful login, so
  every role and permission test of the provider stays negative until the next mount.\<close>

lemma login_never_loads_profile:
  assumes "\<not> truthy (loadTokenSet (storageKey c) st)" "provider_run E c (provider_mount c window st) q"
  shows "pv_user q = JNull"
proof -
  have "no_profile (provider_mount c window st)"
    using assms(1) by (simp add: no_profile_def provider_mount_def Let_def)
  with assms(2) have "no_profile q" unfolding provider_run_def
    by (induction rule: rtranclp_induct) (auto intro: no_profile_step)
  then show ?thesis by (simp add: no_profile_def)
qed

lemma login_never_loads_profile_example:
  "pv_user (login_finish (always NetError) demo_config (Resp 200 ''{}'')
     (login_start demo_config ''u'' ''p'' (provider_mount demo_config True Map.empty))) = JNull"
proof (rule login_never_loads_profile[where st = Map.empty])
  let ?m = "provider_mount demo_config True Map.empty"
  have "provider_step (always NetError) demo_config ?m (login_start demo_config ''u'' ''p'' ?m)" by (rule login)
  moreover have "provider_step (always NetError) demo_config (login_start demo_config ''u'' ''p'' ?m)
      (login_finish (always NetError) demo_config (Resp 200 ''{}'') (login_start demo_config ''u'' ''p'' ?m))"
    by (rule logged_in) (simp add: login_start_def)
  ultimately show "provider_run (always NetError) demo_config ?m
      (login_finish (always NetError) demo_config (Resp 200 ''{}'') (login_start demo_config ''u'' ''p'' ?m))"
    unfolding provider_run_def by (meson converse_rtranclp_into_rtranclp r_into_rtranclp)
qed (simp add: loadTokenSet_def present_def)

text \<open>The refresh timer never fires sooner than five seconds from now, and it is set for a
  token that has already expired too: the test of the source that should skip such a token
  compares a delay that is at least five seconds with zero.\<close>

lemma refresh_delay_bounds:
  assumes "truthy (js_opt_prop ts ''access_token'')" "expires_at_ms ts = Some e" "e \<noteq> 0"
  shows "refresh_delay t ts = Some (max (e - t - 60000) 5000) \<and> 5000 \<le> the (refresh_delay t ts) \<and>
    (refresh_delay t ts = Some 5000 \<longleftrightarrow> e \<le> t + 65000)"
  using assms by (auto simp: refresh_delay_def Let_def max_def)


text \<open>\<open>usePermissions\<close> normalises the permission asked for but not the permissions of the user:
  a user whose only permission is written with an upper-case letter (or outer white space), and
  is not a wildcard, is refused that very permission.  The provider's own test grants it.\<close>

lemma mixed_case_grant_refused:
  assumes "normalizePermission p \<noteq> p" "perm_action p \<notin> {Some ''*'', Some ''admin''}"
    and "p \<notin> {''*'', ''admin'', ''admin:*''}"
  shows "\<not> sdk_hasPermission [p] p \<and> provider_hasPermission (Some [p]) p"
  using assms by (auto simp: sdk_hasPermission_def permissionMatches_def provider_hasPermission_def)


text \<open>A permission asked for in normal form is decided by resource and action:
  \<open>usePermissions\<close> grants \<open>r:a\<close> exactly when the user has \<open>r:a\<close> itself, \<open>r:*\<close>, \<open>r:admin\<close> (possibly with further parts), or a global permission.\<close>

lemma sdk_hasPermission_iff:
  assumes "normalizePermission req = req"
  shows "sdk_hasPermission ps req \<longleftrightarrow>
    req \<in> set ps \<or> ''*'' \<in> set ps \<or> ''admin'' \<in> set ps \<or> ''admin:*'' \<in> set ps \<or>
    (\<exists>p \<in> set ps. perm_resource p = perm_resource req \<and> perm_action p \<in> {Some ''*'', Some ''admin''})"
  using assms by (auto simp: sdk_hasPermission_def permissionMatches_def list_ex_iff split: if_splits)


end
