(* ===== verification/Rn_Client.thy ===== *)
theory Rn_Client
  imports Sdk_Provider
begin

text \<open>
  The React Native client (\<open>sdk/react-native/src/client.ts\<close>).  Two packages it uses are
  parameters: the secure store (\<open>expo-secure-store\<close>), whose documented behaviour is the
  interface \<open>kv_store\<close>, and the browser prompt and code exchange of \<open>expo-auth-session\<close>.
  \<open>getSession\<close> and \<open>logout\<close> call each other, so they are written with fuel; the
  properties say for which stored sessions some fuel suffices and for which none does.  The
  cached discovery document is a constant of the configuration.
\<close>

section \<open>Configuration and parameters\<close>

record rn_config =
  rn_baseUrl :: string
  rn_tenantId :: string
  rn_clientId :: string
  rn_redirectUri :: string
  rn_scopes :: "string option"

record 's secure_store =
  getItemAsync :: "'s \<Rightarrow> string \<Rightarrow> string option"
  setItemAsync :: "string \<Rightarrow> string \<Rightarrow> 's \<Rightarrow> 's"
  deleteItemAsync :: "string \<Rightarrow> 's \<Rightarrow> 's"

definition secure :: "'s secure_store \<Rightarrow> bool" where
  "secure S = kv_store (getItemAsync S) (setItemAsync S) (deleteItemAsync S)"

record discovery_doc =
  authorizationEndpoint :: string
  tokenEndpoint :: string
  revocationEndpoint :: string
  userInfoEndpoint :: string

record auth_request =
  ar_clientId :: string
  ar_redirectUri :: string
  ar_scopes :: "string list"
  ar_tenant :: string
  ar_usePKCE :: bool

text \<open>The result of \<open>promptAsync\<close>: success with the parameter \<open>code\<close> (and the verifier of the
  request), anything else, or an exception; and the tokens of \<open>exchangeCodeAsync\<close>.\<close>

datatype prompt_result = PromptSuccess "string option" string | PromptOther | PromptThrows exn

record token_result =
  tr_accessToken :: jsv
  tr_refreshToken :: jsv
  tr_expiresIn :: jsv

record 'w auth_session =
  promptAsync :: "'w \<Rightarrow> auth_request \<Rightarrow> discovery_doc \<Rightarrow> prompt_result \<times> 'w"
  exchangeCodeAsync :: "'w \<Rightarrow> auth_request \<Rightarrow> string \<Rightarrow> string \<Rightarrow> (exn + token_result) \<times> 'w"

definition SESSION_KEY :: string where "SESSION_KEY = ''ggid_session''"

section \<open>Operations\<close>

definition getDiscovery :: "rn_config \<Rightarrow> discovery_doc" where
  "getDiscovery c =
     \<lparr>authorizationEndpoint = rn_baseUrl c @ ''/api/v1/oauth/authorize'',
      tokenEndpoint = rn_baseUrl c @ ''/api/v1/oauth/token'',
      revocationEndpoint = rn_baseUrl c @ ''/api/v1/oauth/revoke'',
      userInfoEndpoint = rn_baseUrl c @ ''/api/v1/oauth/userinfo''\<rparr>"

definition makeAuthRequest :: "rn_config \<Rightarrow> auth_request" where
  "makeAuthRequest c =
     \<lparr>ar_clientId = rn_clientId c, ar_redirectUri = rn_redirectUri c,
      ar_scopes = split_on (CHR '' '') (item_or (rn_scopes c) ''openid profile email''),
      ar_tenant = rn_tenantId c, ar_usePKCE = True\<rparr>"

definition userinfo_request :: "rn_config \<Rightarrow> jsv \<Rightarrow> request" where
  "userinfo_request c accessToken = \<lparr>url = rn_baseUrl c @ ''/api/v1/oauth/userinfo'', meth = ''GET'',
     hdrs = [(''Authorization'', ''Bearer '' @ js_to_string accessToken), (''X-Tenant-ID'', rn_tenantId c)],
     rbody = None\<rparr>"

definition user_of :: "jsv \<Rightarrow> jsv" where
  "user_of data = JObj [(''sub'', js_opt_prop data ''sub''), (''name'', js_opt_prop data ''name''),
     (''email'', js_opt_prop data ''email''), (''roles'', js_or (js_opt_prop data ''roles'') (JArr [])),
     (''picture'', js_opt_prop data ''picture'')]"

definition getUserInfo :: "'w env \<Rightarrow> rn_config \<Rightarrow> jsv \<Rightarrow> 'w world \<Rightarrow> jsv \<times> 'w world" where
  "getUserInfo E c accessToken w = (case fetch E (userinfo_request c accessToken) w of
      (NetError, w1) \<Rightarrow> (JNull, w1)
    | (Resp st body, w1) \<Rightarrow>
        if \<not> resp_ok st then (JNull, w1)
        else (case json_parse body of None \<Rightarrow> (JNull, w1)
           | Some data \<Rightarrow> if nullish data then (JNull, w1) else (user_of data, w1)))"

text \<open>\<open>decodeClaims\<close>; \<^term>\<open>None\<close> is \<open>null\<close>.\<close>

definition claim :: "jsv \<Rightarrow> string \<Rightarrow> jsv \<Rightarrow> string \<times> jsv" where
  "claim payload k d = (k, js_or (js_opt_prop payload k) d)"

definition decodeClaims :: "jsv \<Rightarrow> jsv option" where
  "decodeClaims token = (case token of
      JStr t \<Rightarrow> (case split_on (CHR ''.'') t of
          [a, b, s] \<Rightarrow> (case Option.bind (atob b) json_parse of None \<Rightarrow> None
            | Some p \<Rightarrow> if nullish p then None
                else Some (JObj [claim p ''sub'' (JStr []), claim p ''tenant_id'' (JStr []), claim p ''roles'' (JArr []),
                     claim p ''scope'' (JStr []), claim p ''exp'' (JNum 0), claim p ''iat'' (JNum 0),
                     claim p ''iss'' (JStr [])]))
        | _ \<Rightarrow> None)
    | _ \<Rightarrow> None)"

definition saveSession :: "'s secure_store \<Rightarrow> jsv \<Rightarrow> 's \<Rightarrow> 's" where
  "saveSession S session s = setItemAsync S SESSION_KEY (json_stringify session) s"

text \<open>\<open>Date.now() + (n || 3600) * 1000\<close>; a lifetime that is not a number gives not-a-number, which
  JSON prints as \<open>null\<close>.\<close>

definition expiry :: "int \<Rightarrow> jsv \<Rightarrow> jsv" where
  "expiry t n = (case js_or n (JNum 3600) of JNum k \<Rightarrow> JNum (t + k * 1000) | _ \<Rightarrow> JNull)"

definition mk_session :: "jsv \<Rightarrow> jsv \<Rightarrow> jsv \<Rightarrow> jsv \<Rightarrow> jsv" where
  "mk_session at rt ex user =
     JObj [(''accessToken'', at), (''refreshToken'', rt), (''expiresAt'', ex), (''user'', user)]"

definition rn_refresh_request :: "rn_config \<Rightarrow> jsv \<Rightarrow> request" where
  "rn_refresh_request c rt = \<lparr>url = tokenEndpoint (getDiscovery c), meth = ''POST'',
     hdrs = [(''Content-Type'', ''application/x-www-form-urlencoded'')],
     rbody = Some (search_params [(''grant_type'', ''refresh_token''), (''refresh_token'', js_to_string rt),
       (''client_id'', rn_clientId c), (''tenant_id'', rn_tenantId c)])\<rparr>"

definition refreshToken ::
  "'w env \<Rightarrow> 's secure_store \<Rightarrow> rn_config \<Rightarrow> jsv \<Rightarrow> 's \<times> 'w world \<Rightarrow> jsv \<times> ('s \<times> 'w world)" where
  "refreshToken E S c rt sw = (case sw of (s, w) \<Rightarrow>
     (case fetch E (rn_refresh_request c rt) w of
        (NetError, w1) \<Rightarrow> (JNull, (s, w1))
      | (Resp st body, w1) \<Rightarrow>
          if \<not> resp_ok st then (JNull, (s, w1))
          else (case json_parse body of None \<Rightarrow> (JNull, (s, w1))
             | Some data \<Rightarrow>
                 if nullish data then (JNull, (s, w1))
                 else (case getUserInfo E c (js_opt_prop data ''access_token'') w1 of (user, w2) \<Rightarrow>
                   (let session = mk_session (js_opt_prop data ''access_token'')
                          (js_or (js_opt_prop data ''refresh_token'') rt)
                          (expiry (date_now E w2) (js_opt_prop data ''expires_in'')) user
                    in (session, (saveSession S session s, w2)))))))"

text \<open>\<open>Date.now() > session.expiresAt\<close>: \<open>undefined\<close> compares false, \<open>null\<close> as zero.  Other types than
  the declared number do not occur in a session the client saved.\<close>

definition past :: "int \<Rightarrow> jsv \<Rightarrow> bool" where
  "past t ex = (case ex of JNum n \<Rightarrow> t > n | JNull \<Rightarrow> t > 0 | _ \<Rightarrow> False)"

definition revoke_request :: "rn_config \<Rightarrow> jsv \<Rightarrow> request" where
  "revoke_request c at = \<lparr>url = revocationEndpoint (getDiscovery c), meth = ''POST'',
     hdrs = [(''Content-Type'', ''application/x-www-form-urlencoded'')],
     rbody = Some (''token='' @ js_to_string at @ ''&client_id='' @ rn_clientId c)\<rparr>"

text \<open>\<open>getSession\<close> and \<open>logout\<close>.  The result \<^term>\<open>None\<close> means that the fuel ran out.\<close>

fun getSession :: "'w env \<Rightarrow> 's secure_store \<Rightarrow> rn_config \<Rightarrow> nat \<Rightarrow> 's \<times> 'w world \<Rightarrow> (jsv \<times> ('s \<times> 'w world)) option"
  and rn_logout :: "'w env \<Rightarrow> 's secure_store \<Rightarrow> rn_config \<Rightarrow> nat \<Rightarrow> 's \<times> 'w world \<Rightarrow> ('s \<times> 'w world) option" where
  "getSession E S c 0 sw = None"
| "getSession E S c (Suc n) (s, w) =
     (let raw = getItemAsync S s SESSION_KEY in
      if \<not> present raw then Some (JNull, (s, w))
      else (case json_parse (the raw) of None \<Rightarrow> Some (JNull, (s, w))
        | Some session \<Rightarrow>
            if nullish session then Some (JNull, (s, w))
            else if past (date_now E w) (js_opt_prop session ''expiresAt'') then
              (let rt = js_opt_prop session ''refreshToken'';
                   (refreshed, sw1) = (if truthy rt then refreshToken E S c rt (s, w) else (JNull, (s, w))) in
               if truthy refreshed then Some (refreshed, sw1)
               else map_option (\<lambda>sw2. (JNull, sw2)) (rn_logout E S c n sw1))
            else Some (session, (s, w))))"
| "rn_logout E S c 0 sw = None"
| "rn_logout E S c (Suc n) sw =
     map_option (\<lambda>(session, (s, w)).
       (let at = js_opt_prop session ''accessToken'';
            w1 = (if truthy at then snd (fetch E (revoke_request c at) w) else w)
        in (deleteItemAsync S SESSION_KEY s, w1)))
     (getSession E S c n sw)"

text \<open>The operations built on \<open>getSession\<close>.\<close>

definition check_request :: "rn_config \<Rightarrow> jsv \<Rightarrow> jsv \<Rightarrow> string \<Rightarrow> string \<Rightarrow> request" where
  "check_request c at userId resource action =
     \<lparr>url = rn_baseUrl c @ ''/api/v1/policies/check'', meth = ''POST'',
      hdrs = [(''Authorization'', ''Bearer '' @ js_to_string at), (''Content-Type'', ''application/json''),
              (''X-Tenant-ID'', rn_tenantId c)],
      rbody = Some (json_stringify (JObj [(''user_id'', userId), (''resource'', JStr resource), (''action'', JStr action)]))\<rparr>"

definition claims_sub :: "jsv \<Rightarrow> jsv" where
  "claims_sub at = (case decodeClaims at of None \<Rightarrow> JStr [] | Some cl \<Rightarrow> js_or (js_opt_prop cl ''sub'') (JStr []))"

definition checkPermission ::
  "'w env \<Rightarrow> 's secure_store \<Rightarrow> rn_config \<Rightarrow> nat \<Rightarrow> string \<Rightarrow> string \<Rightarrow> 's \<times> 'w world \<Rightarrow> (bool \<times> ('s \<times> 'w world)) option" where
  "checkPermission E S c n resource action sw = (case getSession E S c n sw of None \<Rightarrow> None
     | Some (session, (s, w)) \<Rightarrow>
         if \<not> truthy session then Some (False, (s, w))
         else (let at = js_opt_prop session ''accessToken'' in
           Some (case fetch E (check_request c at (claims_sub at) resource action) w of
              (NetError, w1) \<Rightarrow> (False, (s, w1))
            | (Resp st body, w1) \<Rightarrow>
                (resp_ok st \<and> (case json_parse body of None \<Rightarrow> False
                    | Some data \<Rightarrow> js_prop data ''allowed'' = Some (JBool True)), (s, w1)))))"

text \<open>\<open>hasRole\<close>: \<open>roles\<close> of a user the client saved is the server's value; a value without
  \<open>includes\<close> throws.\<close>

fun js_includes :: "jsv \<Rightarrow> string \<Rightarrow> bool option" where
  "js_includes (JArr vs) x = Some (JStr x \<in> set vs)"
| "js_includes (JStr s) x = Some (str_includes s x)"
| "js_includes _ x = None"

definition rn_hasRole ::
  "'w env \<Rightarrow> 's secure_store \<Rightarrow> rn_config \<Rightarrow> nat \<Rightarrow> string \<Rightarrow> 's \<times> 'w world \<Rightarrow> ((exn + bool) \<times> ('s \<times> 'w world)) option" where
  "rn_hasRole E S c n r sw = (case getSession E S c n sw of None \<Rightarrow> None
     | Some (session, sw1) \<Rightarrow>
         let user = js_opt_prop session ''user'' in
         if \<not> truthy user then Some (Inr False, sw1)
         else (case js_includes (js_opt_prop user ''roles'') r of
            None \<Rightarrow> Some (Inl ExnType, sw1) | Some b \<Rightarrow> Some (Inr b, sw1)))"

definition getAuthHeader ::
  "'w env \<Rightarrow> 's secure_store \<Rightarrow> rn_config \<Rightarrow> nat \<Rightarrow> 's \<times> 'w world \<Rightarrow> (string option \<times> ('s \<times> 'w world)) option" where
  "getAuthHeader E S c n sw = map_option (\<lambda>(session, sw1).
     (if truthy session then Some (''Bearer '' @ js_to_string (js_opt_prop session ''accessToken'')) else None, sw1))
     (getSession E S c n sw)"

text \<open>\<open>login\<close>.\<close>

definition rn_login ::
  "'w env \<Rightarrow> 's secure_store \<Rightarrow> 'w auth_session \<Rightarrow> rn_config \<Rightarrow> 's \<times> 'w world \<Rightarrow> (exn + jsv) \<times> ('s \<times> 'w world)" where
  "rn_login E S A c sw = (case sw of (s, w) \<Rightarrow>
     (case promptAsync A (outside w) (makeAuthRequest c) (getDiscovery c) of
        (PromptThrows x, o1) \<Rightarrow> (Inl x, (s, w\<lparr>outside := o1\<rparr>))
      | (PromptOther, o1) \<Rightarrow> (Inr JNull, (s, w\<lparr>outside := o1\<rparr>))
      | (PromptSuccess code verifier, o1) \<Rightarrow>
          if \<not> present code then (Inr JNull, (s, w\<lparr>outside := o1\<rparr>))
          else (case exchangeCodeAsync A o1 (makeAuthRequest c) (the code) verifier of
             (Inl x, o2) \<Rightarrow> (Inl x, (s, w\<lparr>outside := o2\<rparr>))
           | (Inr tr, o2) \<Rightarrow>
               if \<not> truthy (tr_accessToken tr) then (Inr JNull, (s, w\<lparr>outside := o2\<rparr>))
               else (case getUserInfo E c (tr_accessToken tr) (w\<lparr>outside := o2\<rparr>) of (user, w2) \<Rightarrow>
                 (let session = mk_session (tr_accessToken tr) (tr_refreshToken tr)
                        (expiry (date_now E w2) (tr_expiresIn tr)) user
                  in (Inr session, (saveSession S session s, w2)))))))"

section \<open>Lemmas\<close>

lemma json_clean_keys: "json_clean v \<Longrightarrow> keys_distinct v"
proof (induction v)
  case (JObj kvs)
  have "keys_distinct v" if "(k, v) \<in> set kvs" for k v
    using JObj that by (fastforce simp: list_all_iff)
  then show ?case using JObj.prems by (auto simp: list_all_iff)
qed (auto simp: list_all_iff)

lemma keys_distinct_prop: "json_clean v \<Longrightarrow> keys_distinct (js_opt_prop v k)"
proof (cases v)
  case (JObj kvs)
  assume "json_clean v"
  moreover have "assoc k kvs = Some u \<Longrightarrow> (k, u) \<in> set kvs" for u by (induction kvs) (auto split: if_splits)
  ultimately show ?thesis using JObj json_clean_keys by (fastforce simp: list_all_iff split: option.splits)
qed simp_all

lemma keys_distinct_or: "keys_distinct a \<Longrightarrow> keys_distinct b \<Longrightarrow> keys_distinct (js_or a b)"
  by (simp add: js_or_def)

lemma getUserInfo_keys: "getUserInfo E c at w = (u, w') \<Longrightarrow> keys_distinct u"
  by (auto simp: getUserInfo_def user_of_def keys_distinct_prop keys_distinct_or json_parse_clean
      split: prod.splits outcome.splits option.splits if_splits)

lemma expiry_keys [simp]: "keys_distinct (expiry t n)"
  by (auto simp: expiry_def split: jsv.splits)

lemma mk_session_keys:
  "keys_distinct at \<Longrightarrow> keys_distinct rt \<Longrightarrow> keys_distinct ex \<Longrightarrow> keys_distinct u \<Longrightarrow> keys_distinct (mk_session at rt ex u)"
  by (simp add: mk_session_def)

text \<open>A successful refresh, taken apart.\<close>

lemma refreshToken_ok:
  assumes "refreshToken E S c rt (s, w) = (session, (s', w'))" "truthy session"
  obtains at rt' ex user where "session = mk_session at rt' ex user" "s' = saveSession S session s"
    "keys_distinct rt \<Longrightarrow> keys_distinct session"
proof -
  obtain out w1 where f: "fetch E (rn_refresh_request c rt) w = (out, w1)" by fastforce
  obtain st body data where d: "out = Resp st body" "resp_ok st" "json_parse body = Some data" "\<not> nullish data"
    using assms f by (auto simp: refreshToken_def split: outcome.splits option.splits if_splits)
  obtain user w2 where u: "getUserInfo E c (js_opt_prop data ''access_token'') w1 = (user, w2)" by fastforce
  have cl: "json_clean data" by (rule json_parse_clean[OF d(3)])
  have s: "session = mk_session (js_opt_prop data ''access_token'') (js_or (js_opt_prop data ''refresh_token'') rt)
      (expiry (date_now E w2) (js_opt_prop data ''expires_in'')) user" "s' = saveSession S session s"
    using assms(1) f d u by (auto simp: refreshToken_def Let_def)
  show ?thesis
  proof (rule that[OF s])
    assume "keys_distinct rt"
    then show "keys_distinct session" unfolding s(1)
      by (intro mk_session_keys keys_distinct_or keys_distinct_prop cl getUserInfo_keys[OF u] expiry_keys)
  qed
qed

lemma getSession_stored:
  assumes "getItemAsync S s SESSION_KEY = Some raw" "raw \<noteq> []" "json_parse raw = Some session" "\<not> nullish session"
    and "\<not> past (date_now E w) (js_opt_prop session ''expiresAt'')"
  shows "getSession E S c (Suc n) (s, w) = Some (session, (s, w))"
  using assms by (simp add: present_def Let_def)

lemma json_stringify_obj_nonempty: "json_stringify (JObj kvs) \<noteq> []"
  by (simp add: json_stringify_def)

lemma getSession_saved:
  assumes "secure S" "keys_distinct (mk_session at rt ex user)"
    and "\<not> past (date_now E w) (js_opt_prop (json_norm (mk_session at rt ex user)) ''expiresAt'')"
  shows "getSession E S c (Suc n) (saveSession S (mk_session at rt ex user) s, w) =
    Some (json_norm (mk_session at rt ex user), (saveSession S (mk_session at rt ex user) s, w))"
proof (rule getSession_stored)
  show "getItemAsync S (saveSession S (mk_session at rt ex user) s) SESSION_KEY = Some (json_stringify (mk_session at rt ex user))"
    using assms(1) kv_store.get_put unfolding secure_def saveSession_def by fastforce
  show "json_stringify (mk_session at rt ex user) \<noteq> []"
    by (simp add: mk_session_def json_stringify_obj_nonempty)
  show "json_parse (json_stringify (mk_session at rt ex user)) = Some (json_norm (mk_session at rt ex user))"
    by (rule json_parse_stringify[OF assms(2)])
  show "\<not> nullish (json_norm (mk_session at rt ex user))" by (simp add: mk_session_def)
qed (rule assms(3))

text \<open>A refresh the server refuses changes nothing but the outside.\<close>

definition refuses :: "'w env \<Rightarrow> request \<Rightarrow> bool" where
  "refuses E rq = (\<forall>o'. case fst (net E o' rq) of NetError \<Rightarrow> True | Resp st _ \<Rightarrow> \<not> resp_ok st)"

lemma refreshToken_refused:
  assumes "refuses E (rn_refresh_request c rt)"
  shows "\<exists>w'. refreshToken E S c rt (s, w) = (JNull, (s, w'))"
proof -
  have "case fst (net E (outside w) (rn_refresh_request c rt)) of NetError \<Rightarrow> True | Resp st _ \<Rightarrow> \<not> resp_ok st"
    using assms by (simp add: refuses_def)
  then show ?thesis by (auto simp: refreshToken_def fetch_eq split: outcome.splits)
qed

lemma getSession_loops:
  assumes st: "getItemAsync S s SESSION_KEY = Some raw" "raw \<noteq> []" "json_parse raw = Some session" "\<not> nullish session"
    and ex: "\<And>o'. past (now E o') (js_opt_prop session ''expiresAt'')"
    and rf: "\<not> truthy (js_opt_prop session ''refreshToken'') \<or>
      refuses E (rn_refresh_request c (js_opt_prop session ''refreshToken''))"
  shows "getSession E S c n (s, w) = None \<and> rn_logout E S c n (s, w) = None"
proof (induction n arbitrary: w)
  case (Suc n)
  let ?rt = "js_opt_prop session ''refreshToken''"
  obtain w' where "(if truthy ?rt then refreshToken E S c ?rt (s, w) else (JNull, (s, w))) = (JNull, (s, w'))"
    using rf refreshToken_refused by (cases "truthy ?rt") fastforce+
  then have "getSession E S c (Suc n) (s, w) = None"
    using st ex Suc by (simp add: present_def Let_def date_now_def)
  then show ?case using Suc by simp
qed simp

section \<open>Properties\<close>

text \<open>A refreshed session is the session the client uses from then on: after a successful refresh,
  \<open>getSession\<close> returns the very session the refresh returned, as JSON keeps it, for as long as
  it has not expired, without a request.  The secure store is only assumed to be a key-value
  store.\<close>

lemma refresh_then_getSession:
  assumes "secure S" "refreshToken E S c rt (s, w) = (session, (s', w'))" "truthy session" "keys_distinct rt"
    and "\<not> past (date_now E w2) (js_opt_prop (json_norm session) ''expiresAt'')"
  shows "getSession E S c (Suc n) (s', w2) = Some (json_norm session, (s', w2))"
proof -
  obtain at rt' ex user where s: "session = mk_session at rt' ex user" "s' = saveSession S session s"
    "keys_distinct session"
    using refreshToken_ok[OF assms(2,3)] assms(4) by metis
  then show ?thesis using getSession_saved[OF assms(1)] assms(5) by metis
qed

text \<open>The store of the witnesses: a map.\<close>

definition map_store :: "(string \<rightharpoonup> string) secure_store" where
  "map_store = \<lparr>getItemAsync = (\<lambda>m. m), setItemAsync = (\<lambda>k v m. m(k \<mapsto> v)), deleteItemAsync = (\<lambda>k m. m(k := None))\<rparr>"

interpretation map_kv: kv_store "\<lambda>m. m" "\<lambda>k v m. m(k \<mapsto> v)" "\<lambda>k m. m(k := None)"
  by unfold_locales simp_all

lemma secure_map_store: "secure map_store"
  using map_kv.kv_store_axioms by (simp add: secure_def map_store_def)

definition demo_rn :: rn_config where
  "demo_rn = \<lparr>rn_baseUrl = ''b'', rn_tenantId = ''t'', rn_clientId = ''c'', rn_redirectUri = ''r'', rn_scopes = None\<rparr>"

definition demo_session :: jsv where
  "demo_session = mk_session (JStr ''a'') (JStr ''r'') (JNum 3600000) JNull"

lemma demo_refresh_rn:
  "refreshToken scripted map_store demo_rn (JStr ''r'')
     (Map.empty, page Map.empty [Resp 200 ''{\"access_token\":\"a\"}'', NetError]) =
   (demo_session, (saveSession map_store demo_session Map.empty,
     snd (snd (refreshToken scripted map_store demo_rn (JStr ''r'')
       (Map.empty, page Map.empty [Resp 200 ''{\"access_token\":\"a\"}'', NetError])))))"
  by (simp add: refreshToken_def fetch_scripted resp_ok_def json_parse_access_token getUserInfo_def expiry_def
      date_now_def demo_session_def Let_def) (simp add: scripted_def)

lemma refresh_then_getSession_example:
  "getSession scripted map_store demo_rn (Suc 0) (saveSession map_store demo_session Map.empty, page Map.empty []) =
   Some (json_norm demo_session, (saveSession map_store demo_session Map.empty, page Map.empty []))"
  by (rule refresh_then_getSession[OF secure_map_store demo_refresh_rn])
    (simp_all add: demo_session_def mk_session_def past_def date_now_def scripted_def)

text \<open>C13. \<open>getSession\<close> and \<open>logout\<close> never return for an expired session that cannot be refreshed: if
  the session has no refresh token, or the server refuses every refresh, no amount of
  recursion ends the call, because \<open>getSession\<close> logs out, \<open>logout\<close> asks \<open>getSession\<close>, and
  the stored session is still there.\<close>

theorem getSession_never_returns:
  assumes "getItemAsync S s SESSION_KEY = Some raw" "raw \<noteq> []" "json_parse raw = Some session" "\<not> nullish session"
    and "\<And>o'. past (now E o') (js_opt_prop session ''expiresAt'')"
    and "\<not> truthy (js_opt_prop session ''refreshToken'') \<or>
      refuses E (rn_refresh_request c (js_opt_prop session ''refreshToken''))"
  shows "getSession E S c n (s, w) = None \<and> rn_logout E S c n (s, w) = None"
  using getSession_loops[OF assms] .

theorem getSession_never_returns_witness:
  "getSession (always (Resp 400 [])) map_store demo_rn 1000
     ([SESSION_KEY \<mapsto> json_stringify (mk_session (JStr ''a'') (JStr ''r'') (JNum (-1)) JNull)], blank_world) = None
   \<and> rn_logout (always (Resp 400 [])) map_store demo_rn 1000
     ([SESSION_KEY \<mapsto> json_stringify (mk_session (JStr ''a'') (JStr ''r'') (JNum (-1)) JNull)], blank_world) = None"
proof (rule getSession_never_returns)
  let ?s = "mk_session (JStr ''a'') (JStr ''r'') (JNum (-1)) JNull"
  show "getItemAsync map_store [SESSION_KEY \<mapsto> json_stringify ?s] SESSION_KEY = Some (json_stringify ?s)"
    by (simp add: map_store_def)
  show "json_stringify ?s \<noteq> []" by (simp add: mk_session_def json_stringify_obj_nonempty)
  show "json_parse (json_stringify ?s) = Some ?s" by (rule json_stringify_clean) (simp add: mk_session_def)
qed (simp_all add: mk_session_def past_def always_def refuses_def resp_ok_def)

text \<open>A live session is logged out completely: \<open>logout\<close> returns, the session is gone from the
  store, other entries are kept, and the access token is sent to the revocation endpoint,
  whatever that endpoint answers.\<close>

lemma logout_live_session:
  assumes "secure S" "getItemAsync S s SESSION_KEY = Some raw" "raw \<noteq> []" "json_parse raw = Some session"
    and "\<not> past (date_now E w) (js_opt_prop session ''expiresAt'')" "truthy (js_opt_prop session ''accessToken'')"
  shows "\<exists>s' w'. rn_logout E S c (Suc (Suc n)) (s, w) = Some (s', w') \<and>
    getItemAsync S s' = (getItemAsync S s)(SESSION_KEY := None) \<and>
    sent w' = sent w @ [revoke_request c (js_opt_prop session ''accessToken'')]"
proof -
  have n: "\<not> nullish session" using assms(6) by (cases session) auto
  have "getItemAsync S (deleteItemAsync S SESSION_KEY s) = (getItemAsync S s)(SESSION_KEY := None)"
    using assms(1) kv_store.get_del unfolding secure_def by fastforce
  then show ?thesis using getSession_stored[OF assms(2-4) n assms(5), of c n] assms(6)
    by (simp add: fetch_eq Let_def del: getSession.simps)
qed


text \<open>The claims of a token are read from its base64url payload with \<open>atob\<close>, which knows only
  plain base64: a payload whose encoding contains one of the two characters in which the alphabets
  differ is not decoded at all, so the client has no claims and asks for permissions with an
  empty user; every other payload is decoded to its JSON.\<close>

lemma decodeClaims_base64url:
  assumes "CHR ''.'' \<notin> set h" "CHR ''.'' \<notin> set sig"
  shows "decodeClaims (JStr (h @ CHR ''.'' # bufferToB64url bs @ CHR ''.'' # sig)) =
    (if CHR ''-'' \<in> set (bufferToB64url bs) \<or> CHR ''_'' \<in> set (bufferToB64url bs) then None
     else (case json_parse (bin_of bs) of None \<Rightarrow> None
       | Some p \<Rightarrow> if nullish p then None
           else Some (JObj [claim p ''sub'' (JStr []), claim p ''tenant_id'' (JStr []), claim p ''roles'' (JArr []),
                claim p ''scope'' (JStr []), claim p ''exp'' (JNum 0), claim p ''iat'' (JNum 0), claim p ''iss'' (JStr [])])))"
proof -
  have "CHR ''.'' \<notin> set (bufferToB64url bs)" by (rule bufferToB64url_no_dot)
  then have "split_on (CHR ''.'') (h @ CHR ''.'' # bufferToB64url bs @ CHR ''.'' # sig) = [h, bufferToB64url bs, sig]"
    using assms by (simp add: split_on_sep split_on_id)
  then show ?thesis by (auto simp: decodeClaims_def atob_b64url)
qed

lemma decodeClaims_base64url_example:
  "decodeClaims (JStr (''h'' @ CHR ''.'' # bufferToB64url (bytes_of ''{\"sub\":\"?\"}'') @ CHR ''.'' # ''s'')) = None
   \<and> json_parse ''{\"sub\":\"?\"}'' = Some (JObj [(''sub'', JStr ''?'')])"
proof
  have "CHR ''_'' \<in> set (bufferToB64url (bytes_of ''{\"sub\":\"?\"}''))" by code_simp
  then show "decodeClaims (JStr (''h'' @ CHR ''.'' # bufferToB64url (bytes_of ''{\"sub\":\"?\"}'') @ CHR ''.'' # ''s'')) = None"
    using decodeClaims_base64url[of "''h''" "''s''" "bytes_of ''{\"sub\":\"?\"}''"] by simp
  show "json_parse ''{\"sub\":\"?\"}'' = Some (JObj [(''sub'', JStr ''?'')])" by code_simp
qed

text \<open>\<open>checkPermission\<close> grants only what the server granted: it answers true only if there is a
  session and the policy endpoint, asked with that session's token for this resource and
  action, answered a success with \<open>allowed\<close> equal to true.\<close>

lemma checkPermission_true:
  assumes "checkPermission E S c n resource action sw = Some (True, sw')"
  shows "\<exists>session s w at st body data. getSession E S c n sw = Some (session, (s, w)) \<and> truthy session \<and>
    at = js_opt_prop session ''accessToken'' \<and>
    fst (fetch E (check_request c at (claims_sub at) resource action) w) = Resp st body \<and> resp_ok st \<and>
    json_parse body = Some data \<and> js_prop data ''allowed'' = Some (JBool True)"
  using assms by (fastforce simp: checkPermission_def Let_def split: option.splits if_splits prod.splits outcome.splits)

lemma checkPermission_true_example:
  "\<exists>session s w at st body data. getSession scripted map_store demo_rn (Suc 0)
      (saveSession map_store demo_session Map.empty, page Map.empty [Resp 200 ''{\"allowed\":true}'']) =
        Some (session, (s, w)) \<and> truthy session \<and>
    at = js_opt_prop session ''accessToken'' \<and>
    fst (fetch scripted (check_request demo_rn at (claims_sub at) ''doc'' ''read'') w) = Resp st body \<and> resp_ok st \<and>
    json_parse body = Some data \<and> js_prop data ''allowed'' = Some (JBool True)"
proof (rule checkPermission_true)
  let ?w = "page Map.empty [Resp 200 ''{\"allowed\":true}'']"
  have g: "getSession scripted map_store demo_rn (Suc 0) (saveSession map_store demo_session Map.empty, ?w) =
      Some (json_norm demo_session, (saveSession map_store demo_session Map.empty, ?w))"
    using getSession_saved[OF secure_map_store, of "JStr ''a''" "JStr ''r''" "JNum 3600000" JNull scripted ?w demo_rn 0 Map.empty]
    by (simp add: demo_session_def mk_session_def past_def date_now_def del: getSession.simps) (simp add: scripted_def)
  have n: "truthy (json_norm demo_session)" "js_opt_prop (json_norm demo_session) ''accessToken'' = JStr ''a''"
    by (simp_all add: demo_session_def mk_session_def)
  have "json_parse ''{\"allowed\":true}'' = Some (JObj [(''allowed'', JBool True)])" by code_simp
  then show "checkPermission scripted map_store demo_rn (Suc 0) ''doc'' ''read'' (saveSession map_store demo_session Map.empty, ?w) =
      Some (True, snd (the (checkPermission scripted map_store demo_rn (Suc 0) ''doc'' ''read''
        (saveSession map_store demo_session Map.empty, ?w))))"
    by (simp add: checkPermission_def g n Let_def fetch_scripted resp_ok_def del: getSession.simps)
qed

end
