(* ===== verification/Sdk_Hooks.thy ===== *)
theory Sdk_Hooks
  imports Sdk_Provider
begin

text \<open>
  The resource hooks of the React SDK that reload their list after every change
  (\<open>sdk/react/src/use*.ts\<close>: users, groups, alerts, policies, tenants, organizations, OAuth
  clients, scopes, feature flags, access requests).  They are written to one
  pattern, which the first section models once: the headers, a call that fails with
  ``what (status)'', the list loader, a change followed by a reload, a query that leaves the
  list alone.  Each hook then is the group of its operations.  The locale \<open>refetching\<close> states
  what a change with reload promises; every change of every hook interprets it.
\<close>

section \<open>The pattern\<close>

text \<open>What a hook reads from the provider and from \<open>localStorage\<close>.\<close>

record hctx =
  hc_token :: jsv
  hc_base :: string
  hc_tenant :: string

definition hook_context :: "prov \<Rightarrow> 'w world \<Rightarrow> hctx" where
  "hook_context p w = \<lparr>hc_token = getAccessToken p,
     hc_base = (if has_window w then item_or (local_store w ''ggid_api_base'') [] else []),
     hc_tenant = (if has_window w then item_or (local_store w ''ggid_tenant_id'') [] else [])\<rparr>"

definition makeHeaders :: "hctx \<Rightarrow> headers" where
  "makeHeaders x = [(''Content-Type'', ''application/json''), (''Authorization'', ''Bearer '' @ js_to_string (hc_token x)),
     (''X-Tenant-ID'', hc_tenant x)]"

definition hook_request :: "string \<Rightarrow> string \<Rightarrow> jsv option \<Rightarrow> hctx \<Rightarrow> request" where
  "hook_request m path body x = \<lparr>url = hc_base x @ path, meth = m, hdrs = makeHeaders x,
     rbody = map_option json_stringify body\<rparr>"

definition status_error :: "string \<Rightarrow> int \<Rightarrow> exn" where
  "status_error what st = ExnError (what @ '' ('' @ show_int st @ '')'')"

text \<open>\<open>fetch\<close>, then \<open>throw\<close> unless \<open>resp.ok\<close>; and the same followed by \<open>resp.json()\<close>.\<close>

definition hook_call :: "'w env \<Rightarrow> request \<Rightarrow> string \<Rightarrow> 'w world \<Rightarrow> (exn + string) \<times> 'w world" where
  "hook_call E rq what w = (case fetch E rq w of
      (NetError, w1) \<Rightarrow> (Inl ExnNet, w1)
    | (Resp st body, w1) \<Rightarrow> (if \<not> resp_ok st then Inl (status_error what st) else Inr body, w1))"

definition hook_json :: "'w env \<Rightarrow> request \<Rightarrow> string \<Rightarrow> 'w world \<Rightarrow> (exn + jsv) \<times> 'w world" where
  "hook_json E rq what w = (case hook_call E rq what w of
      (Inl x, w1) \<Rightarrow> (Inl x, w1)
    | (Inr body, w1) \<Rightarrow> (case json_parse body of None \<Rightarrow> Inl ExnSyntax | Some v \<Rightarrow> Inr v, w1))"

text \<open>\<open>data.k1 ?? data.k2 ?? []\<close>; reading a property of \<open>null\<close> throws.\<close>

definition pick :: "string list \<Rightarrow> jsv \<Rightarrow> exn + jsv" where
  "pick ks data = (if nullish data then Inl ExnType
     else Inr (foldr (\<lambda>k acc. js_nullish (js_opt_prop data k) acc) ks (JArr [])))"

record list_hook =
  lh_items :: jsv
  lh_loading :: bool
  lh_error :: "string option"

definition fetch_list ::
  "string \<Rightarrow> string \<Rightarrow> string list \<Rightarrow> 'w env \<Rightarrow> hctx \<Rightarrow> list_hook \<times> 'w world \<Rightarrow> list_hook \<times> 'w world" where
  "fetch_list path what ks E x sw = (case sw of (s, w) \<Rightarrow>
     if \<not> truthy (hc_token x) then (s, w)
     else (case hook_json E (hook_request ''GET'' path None x) what w of (r, w1) \<Rightarrow>
       (case (case r of Inl e \<Rightarrow> Inl e | Inr data \<Rightarrow> pick ks data) of
          Inl e \<Rightarrow> (\<lparr>lh_items = JArr [], lh_loading = False, lh_error = Some (exn_message E e)\<rparr>, w1)
        | Inr v \<Rightarrow> (\<lparr>lh_items = v, lh_loading = False, lh_error = None\<rparr>, w1))))"

definition hook_error :: "'w env \<Rightarrow> exn \<Rightarrow> list_hook \<Rightarrow> list_hook" where
  "hook_error E e s = s\<lparr>lh_error := Some (exn_message E e)\<rparr>"

text \<open>A change that is reloaded: the result is whether it succeeded.\<close>

type_synonym 'w hook_op = "'w env \<Rightarrow> hctx \<Rightarrow> list_hook \<times> 'w world \<Rightarrow> list_hook \<times> 'w world"

definition mutate ::
  "(hctx \<Rightarrow> request) \<Rightarrow> string \<Rightarrow> 'w hook_op \<Rightarrow> 'w env \<Rightarrow> hctx \<Rightarrow> list_hook \<times> 'w world \<Rightarrow> bool \<times> (list_hook \<times> 'w world)" where
  "mutate rq what reload E x sw = (case sw of (s, w) \<Rightarrow>
     (case hook_call E (rq x) what w of
        (Inl e, w1) \<Rightarrow> (False, (hook_error E e s, w1))
      | (Inr _, w1) \<Rightarrow> (True, reload E x (s, w1))))"

text \<open>A creation: the result is what the server created, passed through \<open>post\<close> after the reload.\<close>

definition create_with ::
  "(jsv \<Rightarrow> exn + jsv) \<Rightarrow> (hctx \<Rightarrow> request) \<Rightarrow> string \<Rightarrow> 'w hook_op \<Rightarrow> 'w env \<Rightarrow> hctx \<Rightarrow> list_hook \<times> 'w world \<Rightarrow>
     jsv \<times> (list_hook \<times> 'w world)" where
  "create_with post rq what reload E x sw = (case sw of (s, w) \<Rightarrow>
     (case hook_json E (rq x) what w of
        (Inl e, w1) \<Rightarrow> (JNull, (hook_error E e s, w1))
      | (Inr v, w1) \<Rightarrow> (case reload E x (s, w1) of (s2, w2) \<Rightarrow>
          (case post v of Inl e \<Rightarrow> (JNull, (hook_error E e s2, w2)) | Inr r \<Rightarrow> (r, (s2, w2))))))"

text \<open>A change without a reload, and a query.\<close>

definition act ::
  "(hctx \<Rightarrow> request) \<Rightarrow> string \<Rightarrow> 'w env \<Rightarrow> hctx \<Rightarrow> list_hook \<times> 'w world \<Rightarrow> bool \<times> (list_hook \<times> 'w world)" where
  "act rq what = mutate rq what (\<lambda>E x sw. sw)"

definition query ::
  "(jsv \<Rightarrow> exn + jsv) \<Rightarrow> jsv \<Rightarrow> (hctx \<Rightarrow> request) \<Rightarrow> string \<Rightarrow> 'w env \<Rightarrow> hctx \<Rightarrow> list_hook \<times> 'w world \<Rightarrow>
     jsv \<times> (list_hook \<times> 'w world)" where
  "query post dflt rq what E x sw = (case sw of (s, w) \<Rightarrow>
     (case hook_json E (rq x) what w of (r, w1) \<Rightarrow>
       (case (case r of Inl e \<Rightarrow> Inl e | Inr data \<Rightarrow> post data) of
          Inl e \<Rightarrow> (dflt, (hook_error E e s, w1)) | Inr v \<Rightarrow> (v, (s, w1)))))"

text \<open>The effect that loads the list once the provider is authenticated.\<close>

definition on_authenticated :: "bool \<Rightarrow> 'w hook_op \<Rightarrow> 'w hook_op" where
  "on_authenticated authenticated reload E x sw = (if authenticated then reload E x sw else sw)"

text \<open>\<open>xs.find(r => r.id === id)\<close> on the items: the first element whose property is this string;
  items that are not an array, or an element that is \<open>null\<close> before the hit, end the operation
  with a \<open>TypeError\<close> (\<^term>\<open>None\<close>).\<close>

definition items_of :: "list_hook \<Rightarrow> jsv list option" where
  "items_of s = (case lh_items s of JArr vs \<Rightarrow> Some vs | _ \<Rightarrow> None)"

fun find_by :: "string \<Rightarrow> string \<Rightarrow> jsv list \<Rightarrow> jsv option option" where
  "find_by k i [] = Some None"
| "find_by k i (v # vs) = (case js_prop v k of None \<Rightarrow> None
     | Some u \<Rightarrow> if u = JStr i then Some (Some v) else find_by k i vs)"

section \<open>Users\<close>

definition fetchUsers :: "'w hook_op" where
  "fetchUsers = fetch_list ''/api/v1/users'' ''Failed to fetch users'' [''users'', ''items'']"

definition createUser :: "jsv \<Rightarrow> 'w env \<Rightarrow> hctx \<Rightarrow> list_hook \<times> 'w world \<Rightarrow> jsv \<times> (list_hook \<times> 'w world)" where
  "createUser input = create_with Inr (hook_request ''POST'' ''/api/v1/users'' (Some input)) ''Failed to create user'' fetchUsers"

definition updateUser :: "string \<Rightarrow> jsv \<Rightarrow> 'w env \<Rightarrow> hctx \<Rightarrow> list_hook \<times> 'w world \<Rightarrow> bool \<times> (list_hook \<times> 'w world)" where
  "updateUser i input = mutate (hook_request ''PATCH'' (''/api/v1/users/'' @ i) (Some input)) ''Failed to update user'' fetchUsers"

definition deleteUser :: "string \<Rightarrow> 'w env \<Rightarrow> hctx \<Rightarrow> list_hook \<times> 'w world \<Rightarrow> bool \<times> (list_hook \<times> 'w world)" where
  "deleteUser i = mutate (hook_request ''DELETE'' (''/api/v1/users/'' @ i) None) ''Failed to delete user'' fetchUsers"

definition assignRole :: "string \<Rightarrow> string \<Rightarrow> 'w env \<Rightarrow> hctx \<Rightarrow> list_hook \<times> 'w world \<Rightarrow> bool \<times> (list_hook \<times> 'w world)" where
  "assignRole userId roleId = mutate (hook_request ''POST'' (''/api/v1/users/'' @ userId @ ''/roles'')
     (Some (JObj [(''role_id'', JStr roleId)]))) ''Failed to assign role'' fetchUsers"

definition removeRole :: "string \<Rightarrow> string \<Rightarrow> 'w env \<Rightarrow> hctx \<Rightarrow> list_hook \<times> 'w world \<Rightarrow> bool \<times> (list_hook \<times> 'w world)" where
  "removeRole userId roleId = mutate (hook_request ''DELETE'' (''/api/v1/users/'' @ userId @ ''/roles/'' @ roleId) None)
     ''Failed to remove role'' fetchUsers"

section \<open>Groups\<close>

definition fetchGroups :: "'w hook_op" where
  "fetchGroups = fetch_list ''/api/v1/groups'' ''Failed to fetch groups'' [''groups'', ''items'']"

definition createGroup :: "jsv \<Rightarrow> 'w env \<Rightarrow> hctx \<Rightarrow> list_hook \<times> 'w world \<Rightarrow> jsv \<times> (list_hook \<times> 'w world)" where
  "createGroup input = create_with Inr (hook_request ''POST'' ''/api/v1/groups'' (Some input)) ''Failed to create group'' fetchGroups"

definition updateGroup :: "string \<Rightarrow> jsv \<Rightarrow> 'w env \<Rightarrow> hctx \<Rightarrow> list_hook \<times> 'w world \<Rightarrow> bool \<times> (list_hook \<times> 'w world)" where
  "updateGroup i input = mutate (hook_request ''PATCH'' (''/api/v1/groups/'' @ i) (Some input)) ''Failed to update group'' fetchGroups"

definition deleteGroup :: "string \<Rightarrow> 'w env \<Rightarrow> hctx \<Rightarrow> list_hook \<times> 'w world \<Rightarrow> bool \<times> (list_hook \<times> 'w world)" where
  "deleteGroup i = mutate (hook_request ''DELETE'' (''/api/v1/groups/'' @ i) None) ''Failed to delete group'' fetchGroups"

definition getMembers :: "string \<Rightarrow> 'w env \<Rightarrow> hctx \<Rightarrow> list_hook \<times> 'w world \<Rightarrow> jsv \<times> (list_hook \<times> 'w world)" where
  "getMembers groupId = query (pick [''members'', ''items'']) (JArr [])
     (hook_request ''GET'' (''/api/v1/groups/'' @ groupId @ ''/members'') None) ''Failed to fetch members''"

definition addMember ::
  "string \<Rightarrow> string \<Rightarrow> string option \<Rightarrow> 'w env \<Rightarrow> hctx \<Rightarrow> list_hook \<times> 'w world \<Rightarrow> bool \<times> (list_hook \<times> 'w world)" where
  "addMember groupId userId r = act (hook_request ''POST'' (''/api/v1/groups/'' @ groupId @ ''/members'')
     (Some (JObj [(''user_id'', JStr userId), (''role'', JStr (case r of None \<Rightarrow> ''member'' | Some v \<Rightarrow> v))])))
     ''Failed to add member''"

definition removeMember :: "string \<Rightarrow> string \<Rightarrow> 'w env \<Rightarrow> hctx \<Rightarrow> list_hook \<times> 'w world \<Rightarrow> bool \<times> (list_hook \<times> 'w world)" where
  "removeMember groupId userId = act (hook_request ''DELETE'' (''/api/v1/groups/'' @ groupId @ ''/members/'' @ userId) None)
     ''Failed to remove member''"

section \<open>Alert rules\<close>

definition fetchRules :: "'w hook_op" where
  "fetchRules = fetch_list ''/api/v1/settings/alerting/rules'' ''Failed to fetch alert rules'' [''rules'']"

definition createRule :: "jsv \<Rightarrow> 'w env \<Rightarrow> hctx \<Rightarrow> list_hook \<times> 'w world \<Rightarrow> jsv \<times> (list_hook \<times> 'w world)" where
  "createRule input = create_with Inr (hook_request ''POST'' ''/api/v1/settings/alerting/rules'' (Some input))
     ''Failed to create alert rule'' fetchRules"

definition updateRule :: "string \<Rightarrow> jsv \<Rightarrow> 'w env \<Rightarrow> hctx \<Rightarrow> list_hook \<times> 'w world \<Rightarrow> bool \<times> (list_hook \<times> 'w world)" where
  "updateRule i input = mutate (hook_request ''PATCH'' (''/api/v1/settings/alerting/rules/'' @ i) (Some input))
     ''Failed to update alert rule'' fetchRules"

definition deleteRule :: "string \<Rightarrow> 'w env \<Rightarrow> hctx \<Rightarrow> list_hook \<times> 'w world \<Rightarrow> bool \<times> (list_hook \<times> 'w world)" where
  "deleteRule i = mutate (hook_request ''DELETE'' (''/api/v1/settings/alerting/rules/'' @ i) None)
     ''Failed to delete alert rule'' fetchRules"

text \<open>\<open>toggleRule\<close>: an unknown rule is not toggled; \<^term>\<open>None\<close> is the exception of an item that is
  \<open>null\<close>.\<close>

definition toggleRule ::
  "string \<Rightarrow> 'w env \<Rightarrow> hctx \<Rightarrow> list_hook \<times> 'w world \<Rightarrow> (bool \<times> (list_hook \<times> 'w world)) option" where
  "toggleRule i E x sw = (case Option.bind (items_of (fst sw)) (find_by ''id'' i) of None \<Rightarrow> None
     | Some None \<Rightarrow> Some (False, sw)
     | Some (Some rule) \<Rightarrow>
         Some (updateRule i (JObj [(''enabled'', JBool (\<not> truthy (js_opt_prop rule ''enabled'')))]) E x sw))"

definition testRule :: "string \<Rightarrow> 'w env \<Rightarrow> hctx \<Rightarrow> list_hook \<times> 'w world \<Rightarrow> jsv \<times> (list_hook \<times> 'w world)" where
  "testRule i = query Inr JNull (hook_request ''POST'' (''/api/v1/settings/alerting/rules/'' @ i @ ''/test'') None)
     ''Failed to test alert rule''"

definition alertHistory ::
  "string option \<Rightarrow> int option \<Rightarrow> 'w env \<Rightarrow> hctx \<Rightarrow> list_hook \<times> 'w world \<Rightarrow> jsv \<times> (list_hook \<times> 'w world)" where
  "alertHistory ruleId limit =
     (let params = (if present ruleId then [(''rule_id'', the ruleId)] else []) @
                   [(''limit'', show_int (case limit of None \<Rightarrow> 50 | Some l \<Rightarrow> l))]
      in query (pick [''items'', ''history'']) (JArr [])
           (hook_request ''GET'' (''/api/v1/settings/alerting/history?'' @ search_params params) None)
           ''Failed to fetch alert history'')"

section \<open>Policies\<close>

definition fetchPolicies :: "'w hook_op" where
  "fetchPolicies = fetch_list ''/api/v1/policies'' ''Failed to fetch policies'' [''policies'', ''items'']"

definition createPolicy :: "jsv \<Rightarrow> 'w env \<Rightarrow> hctx \<Rightarrow> list_hook \<times> 'w world \<Rightarrow> jsv \<times> (list_hook \<times> 'w world)" where
  "createPolicy input = create_with Inr (hook_request ''POST'' ''/api/v1/policies'' (Some input)) ''Failed to create policy'' fetchPolicies"

definition updatePolicy :: "string \<Rightarrow> jsv \<Rightarrow> 'w env \<Rightarrow> hctx \<Rightarrow> list_hook \<times> 'w world \<Rightarrow> bool \<times> (list_hook \<times> 'w world)" where
  "updatePolicy i input = mutate (hook_request ''PATCH'' (''/api/v1/policies/'' @ i) (Some input)) ''Failed to update policy'' fetchPolicies"

definition deletePolicy :: "string \<Rightarrow> 'w env \<Rightarrow> hctx \<Rightarrow> list_hook \<times> 'w world \<Rightarrow> bool \<times> (list_hook \<times> 'w world)" where
  "deletePolicy i = mutate (hook_request ''DELETE'' (''/api/v1/policies/'' @ i) None) ''Failed to delete policy'' fetchPolicies"

definition getPolicyVersions :: "string \<Rightarrow> 'w env \<Rightarrow> hctx \<Rightarrow> list_hook \<times> 'w world \<Rightarrow> jsv \<times> (list_hook \<times> 'w world)" where
  "getPolicyVersions i = query (pick [''versions'', ''policies'']) (JArr [])
     (hook_request ''GET'' (''/api/v1/policies/'' @ i @ ''/versions'') None) ''Failed to fetch policy versions''"

section \<open>Tenants\<close>

definition fetchTenants :: "'w hook_op" where
  "fetchTenants = fetch_list ''/api/v1/tenants'' ''Failed to fetch tenants'' [''tenants'', ''items'']"

definition createTenant :: "jsv \<Rightarrow> 'w env \<Rightarrow> hctx \<Rightarrow> list_hook \<times> 'w world \<Rightarrow> jsv \<times> (list_hook \<times> 'w world)" where
  "createTenant input = create_with Inr (hook_request ''POST'' ''/api/v1/tenants'' (Some input)) ''Failed to create tenant'' fetchTenants"

definition updateTenant :: "string \<Rightarrow> jsv \<Rightarrow> 'w env \<Rightarrow> hctx \<Rightarrow> list_hook \<times> 'w world \<Rightarrow> bool \<times> (list_hook \<times> 'w world)" where
  "updateTenant i input = mutate (hook_request ''PATCH'' (''/api/v1/tenants/'' @ i) (Some input)) ''Failed to update tenant'' fetchTenants"

definition deleteTenant :: "string \<Rightarrow> 'w env \<Rightarrow> hctx \<Rightarrow> list_hook \<times> 'w world \<Rightarrow> bool \<times> (list_hook \<times> 'w world)" where
  "deleteTenant i = mutate (hook_request ''DELETE'' (''/api/v1/tenants/'' @ i) None) ''Failed to delete tenant'' fetchTenants"

definition updateBranding :: "string \<Rightarrow> jsv \<Rightarrow> 'w env \<Rightarrow> hctx \<Rightarrow> list_hook \<times> 'w world \<Rightarrow> bool \<times> (list_hook \<times> 'w world)" where
  "updateBranding i branding = mutate (hook_request ''PUT'' (''/api/v1/tenants/'' @ i @ ''/branding'') (Some branding))
     ''Failed to update branding'' fetchTenants"

section \<open>Organizations\<close>

definition fetchOrgs :: "'w hook_op" where
  "fetchOrgs = fetch_list ''/api/v1/orgs'' ''Failed to fetch organizations'' [''orgs'', ''items'']"

definition createOrg :: "jsv \<Rightarrow> 'w env \<Rightarrow> hctx \<Rightarrow> list_hook \<times> 'w world \<Rightarrow> jsv \<times> (list_hook \<times> 'w world)" where
  "createOrg input = create_with Inr (hook_request ''POST'' ''/api/v1/orgs'' (Some input)) ''Failed to create organization'' fetchOrgs"

definition updateOrg :: "string \<Rightarrow> jsv \<Rightarrow> 'w env \<Rightarrow> hctx \<Rightarrow> list_hook \<times> 'w world \<Rightarrow> bool \<times> (list_hook \<times> 'w world)" where
  "updateOrg i input = mutate (hook_request ''PATCH'' (''/api/v1/orgs/'' @ i) (Some input)) ''Failed to update organization'' fetchOrgs"

definition deleteOrg :: "string \<Rightarrow> 'w env \<Rightarrow> hctx \<Rightarrow> list_hook \<times> 'w world \<Rightarrow> bool \<times> (list_hook \<times> 'w world)" where
  "deleteOrg i = mutate (hook_request ''DELETE'' (''/api/v1/orgs/'' @ i) None) ''Failed to delete organization'' fetchOrgs"

definition getOrgTree :: "'w env \<Rightarrow> hctx \<Rightarrow> list_hook \<times> 'w world \<Rightarrow> jsv \<times> (list_hook \<times> 'w world)" where
  "getOrgTree = query (pick [''orgs'', ''tree'']) (JArr []) (hook_request ''GET'' ''/api/v1/orgs/tree'' None)
     ''Failed to fetch org tree''"

section \<open>OAuth clients\<close>

definition fetchClients :: "'w hook_op" where
  "fetchClients = fetch_list ''/api/v1/oauth/clients'' ''Failed to fetch OAuth clients'' [''clients'', ''items'']"

text \<open>\<open>{ client: data.client ?? data, client_secret: data.client_secret ?? '' }\<close>.\<close>

definition created_client :: "jsv \<Rightarrow> exn + jsv" where
  "created_client data = (if nullish data then Inl ExnType
     else Inr (JObj [(''client'', js_nullish (js_opt_prop data ''client'') data),
                     (''client_secret'', js_nullish (js_opt_prop data ''client_secret'') (JStr []))]))"

definition createClient :: "jsv \<Rightarrow> 'w env \<Rightarrow> hctx \<Rightarrow> list_hook \<times> 'w world \<Rightarrow> jsv \<times> (list_hook \<times> 'w world)" where
  "createClient input = create_with created_client (hook_request ''POST'' ''/api/v1/oauth/clients'' (Some input))
     ''Failed to create OAuth client'' fetchClients"

definition updateClient :: "string \<Rightarrow> jsv \<Rightarrow> 'w env \<Rightarrow> hctx \<Rightarrow> list_hook \<times> 'w world \<Rightarrow> bool \<times> (list_hook \<times> 'w world)" where
  "updateClient i input = mutate (hook_request ''PATCH'' (''/api/v1/oauth/clients/'' @ i) (Some input))
     ''Failed to update OAuth client'' fetchClients"

definition deleteClient :: "string \<Rightarrow> 'w env \<Rightarrow> hctx \<Rightarrow> list_hook \<times> 'w world \<Rightarrow> bool \<times> (list_hook \<times> 'w world)" where
  "deleteClient i = mutate (hook_request ''DELETE'' (''/api/v1/oauth/clients/'' @ i) None) ''Failed to delete OAuth client'' fetchClients"

definition new_secret :: "jsv \<Rightarrow> exn + jsv" where
  "new_secret data = (if nullish data then Inl ExnType else Inr (js_nullish (js_opt_prop data ''client_secret'') JNull))"

definition regenerateSecret :: "string \<Rightarrow> 'w env \<Rightarrow> hctx \<Rightarrow> list_hook \<times> 'w world \<Rightarrow> jsv \<times> (list_hook \<times> 'w world)" where
  "regenerateSecret i = query new_secret JNull
     (hook_request ''POST'' (''/api/v1/oauth/clients/'' @ i @ ''/regenerate-secret'') None) ''Failed to regenerate secret''"

section \<open>Scopes\<close>

definition fetchScopes :: "'w hook_op" where
  "fetchScopes = fetch_list ''/api/v1/scopes'' ''Failed to fetch scopes'' [''scopes'', ''items'']"

definition createScope :: "jsv \<Rightarrow> 'w env \<Rightarrow> hctx \<Rightarrow> list_hook \<times> 'w world \<Rightarrow> jsv \<times> (list_hook \<times> 'w world)" where
  "createScope input = create_with Inr (hook_request ''POST'' ''/api/v1/scopes'' (Some input)) ''Failed to create scope'' fetchScopes"

definition updateScope :: "string \<Rightarrow> jsv \<Rightarrow> 'w env \<Rightarrow> hctx \<Rightarrow> list_hook \<times> 'w world \<Rightarrow> bool \<times> (list_hook \<times> 'w world)" where
  "updateScope i input = mutate (hook_request ''PATCH'' (''/api/v1/scopes/'' @ i) (Some input)) ''Failed to update scope'' fetchScopes"

definition deleteScope :: "string \<Rightarrow> 'w env \<Rightarrow> hctx \<Rightarrow> list_hook \<times> 'w world \<Rightarrow> bool \<times> (list_hook \<times> 'w world)" where
  "deleteScope i = mutate (hook_request ''DELETE'' (''/api/v1/scopes/'' @ i) None) ''Failed to delete scope'' fetchScopes"

text \<open>\<open>expandWildcard\<close>: the names of the scopes that start with what precedes the first star.\<close>

definition expandWildcard :: "string list \<Rightarrow> string \<Rightarrow> string list" where
  "expandWildcard names wildcard =
     (if \<not> str_includes wildcard ''*'' then []
      else filter (\<lambda>n. starts_with n (takeWhile (\<lambda>c. c \<noteq> CHR ''*'') wildcard)) names)"

section \<open>Feature flags\<close>

definition fetchFlags :: "'w hook_op" where
  "fetchFlags = fetch_list ''/api/v1/feature-flags'' ''Failed to fetch feature flags'' [''flags'', ''items'']"

definition createFlag :: "jsv \<Rightarrow> 'w env \<Rightarrow> hctx \<Rightarrow> list_hook \<times> 'w world \<Rightarrow> jsv \<times> (list_hook \<times> 'w world)" where
  "createFlag input = create_with Inr (hook_request ''POST'' ''/api/v1/feature-flags'' (Some input)) ''Failed to create flag'' fetchFlags"

definition updateFlag :: "string \<Rightarrow> jsv \<Rightarrow> 'w env \<Rightarrow> hctx \<Rightarrow> list_hook \<times> 'w world \<Rightarrow> bool \<times> (list_hook \<times> 'w world)" where
  "updateFlag i input = mutate (hook_request ''PATCH'' (''/api/v1/feature-flags/'' @ i) (Some input)) ''Failed to update flag'' fetchFlags"

definition deleteFlag :: "string \<Rightarrow> 'w env \<Rightarrow> hctx \<Rightarrow> list_hook \<times> 'w world \<Rightarrow> bool \<times> (list_hook \<times> 'w world)" where
  "deleteFlag i = mutate (hook_request ''DELETE'' (''/api/v1/feature-flags/'' @ i) None) ''Failed to delete flag'' fetchFlags"

definition toggleFlag ::
  "string \<Rightarrow> 'w env \<Rightarrow> hctx \<Rightarrow> list_hook \<times> 'w world \<Rightarrow> (bool \<times> (list_hook \<times> 'w world)) option" where
  "toggleFlag i E x sw = (case Option.bind (items_of (fst sw)) (find_by ''id'' i) of None \<Rightarrow> None
     | Some None \<Rightarrow> Some (False, sw)
     | Some (Some flag) \<Rightarrow>
         Some (updateFlag i (JObj [(''enabled'', JBool (\<not> truthy (js_opt_prop flag ''enabled'')))]) E x sw))"

definition setTenantOverride ::
  "string \<Rightarrow> string \<Rightarrow> jsv \<Rightarrow> 'w env \<Rightarrow> hctx \<Rightarrow> list_hook \<times> 'w world \<Rightarrow> bool \<times> (list_hook \<times> 'w world)" where
  "setTenantOverride flagId tenant v = mutate (hook_request ''PUT''
     (''/api/v1/feature-flags/'' @ flagId @ ''/tenants/'' @ tenant) (Some (JObj [(''value'', v)]))) ''Failed to set override'' fetchFlags"

text \<open>\<open>isEnabled\<close>: \<open>Boolean(override)\<close> of an override that is there, otherwise the flag's own value.\<close>

definition isEnabled :: "hctx \<Rightarrow> list_hook \<Rightarrow> string \<Rightarrow> jsv option" where
  "isEnabled x s key = (case Option.bind (items_of s) (find_by ''key'' key) of None \<Rightarrow> None
     | Some None \<Rightarrow> Some (JBool False)
     | Some (Some flag) \<Rightarrow>
         (let ov = js_opt_prop (js_opt_prop flag ''per_tenant'') (hc_tenant x) in
          Some (if ov \<noteq> JUndef then JBool (truthy ov) else js_opt_prop flag ''enabled'')))"

section \<open>Access requests\<close>

text \<open>This hook reads the token before every call and does nothing without one.\<close>

definition requests_request :: "string option \<Rightarrow> hctx \<Rightarrow> request" where
  "requests_request statusFilter x = \<lparr>url = hc_base x @ ''/api/v1/access-requests?'' @
       search_params (if present statusFilter then [(''status'', the statusFilter)] else []), meth = ''GET'',
     hdrs = [(''Authorization'', ''Bearer '' @ js_to_string (hc_token x)), (''X-Tenant-ID'', hc_tenant x)], rbody = None\<rparr>"

definition fetchRequests :: "string option \<Rightarrow> 'w hook_op" where
  "fetchRequests statusFilter E x sw = (case sw of (s, w) \<Rightarrow>
     if \<not> truthy (hc_token x) then (s, w)
     else (case hook_json E (requests_request statusFilter x) ''Failed to fetch access requests'' w of (r, w1) \<Rightarrow>
       (case (case r of Inl e \<Rightarrow> Inl e | Inr data \<Rightarrow> pick [''requests'', ''items''] data) of
          Inl e \<Rightarrow> (\<lparr>lh_items = JArr [], lh_loading = False, lh_error = Some (exn_message E e)\<rparr>, w1)
        | Inr v \<Rightarrow> (\<lparr>lh_items = v, lh_loading = False, lh_error = None\<rparr>, w1))))"

definition createRequest ::
  "string option \<Rightarrow> jsv \<Rightarrow> 'w env \<Rightarrow> hctx \<Rightarrow> list_hook \<times> 'w world \<Rightarrow> jsv \<times> (list_hook \<times> 'w world)" where
  "createRequest sf input E x sw = (if \<not> truthy (hc_token x) then (JNull, sw)
     else create_with Inr (hook_request ''POST'' ''/api/v1/access-requests'' (Some input))
            ''Failed to create access request'' (fetchRequests sf) E x sw)"

definition decide_request ::
  "string \<Rightarrow> string \<Rightarrow> string option \<Rightarrow> string \<Rightarrow> jsv \<Rightarrow> 'w env \<Rightarrow> hctx \<Rightarrow> list_hook \<times> 'w world \<Rightarrow>
     bool \<times> (list_hook \<times> 'w world)" where
  "decide_request verb what sf i comment E x sw = (if \<not> truthy (hc_token x) then (False, sw)
     else mutate (hook_request ''POST'' (''/api/v1/access-requests/'' @ i @ verb) (Some (JObj [(''comment'', comment)])))
            what (fetchRequests sf) E x sw)"

definition approveRequest ::
  "string option \<Rightarrow> string \<Rightarrow> jsv \<Rightarrow> 'w env \<Rightarrow> hctx \<Rightarrow> list_hook \<times> 'w world \<Rightarrow> bool \<times> (list_hook \<times> 'w world)" where
  "approveRequest = decide_request ''/approve'' ''Failed to approve''"

definition rejectRequest ::
  "string option \<Rightarrow> string \<Rightarrow> jsv \<Rightarrow> 'w env \<Rightarrow> hctx \<Rightarrow> list_hook \<times> 'w world \<Rightarrow> bool \<times> (list_hook \<times> 'w world)" where
  "rejectRequest = decide_request ''/reject'' ''Failed to reject''"

section \<open>What a change with reload promises\<close>

locale refetching =
  fixes op :: "'w env \<Rightarrow> hctx \<Rightarrow> list_hook \<times> 'w world \<Rightarrow> bool \<times> (list_hook \<times> 'w world)"
    and reload :: "'w hook_op"
    and rq :: "hctx \<Rightarrow> request"
    and what :: string
  assumes accepted: "fetch E (rq x) w = (Resp st b, w1) \<Longrightarrow> resp_ok st \<Longrightarrow> op E x (s, w) = (True, reload E x (s, w1))"
    and refused: "fetch E (rq x) w = (Resp st b, w1) \<Longrightarrow> \<not> resp_ok st \<Longrightarrow>
      op E x (s, w) = (False, (hook_error E (status_error what st) s, w1))"
    and unreachable: "fetch E (rq x) w = (NetError, w1) \<Longrightarrow> op E x (s, w) = (False, (hook_error E ExnNet s, w1))"
begin

lemma outcome_cases:
  obtains (ok) st b w1 where "fetch E (rq x) w = (Resp st b, w1)" "resp_ok st" "op E x (s, w) = (True, reload E x (s, w1))"
  | (no) out w1 e where "fetch E (rq x) w = (out, w1)" "\<And>st b. out = Resp st b \<Longrightarrow> \<not> resp_ok st"
      "op E x (s, w) = (False, (hook_error E e s, w1))"
proof -
  obtain out w1 where f: "fetch E (rq x) w = (out, w1)" by (cases "fetch E (rq x) w")
  show thesis
  proof (cases out)
    case NetError
    then show ?thesis using f unreachable[of E x w w1 s] no by blast
  next
    case (Resp st b)
    then show ?thesis using f accepted[of E x w st b w1 s] refused[of E x w st b w1 s] ok no by (cases "resp_ok st") blast+
  qed
qed

lemma result_iff: "fst (op E x (s, w)) \<longleftrightarrow> (\<exists>st b. fst (fetch E (rq x) w) = Resp st b \<and> resp_ok st)"
  by (rule outcome_cases[of E x w s]) auto

lemma failure_keeps_list:
  assumes "op E x (s, w) = (False, (s', w'))"
  shows "lh_items s' = lh_items s \<and> lh_error s' \<noteq> None \<and> sent w' = sent w @ [rq x]"
  by (rule outcome_cases[of E x w s]) (use assms in \<open>auto simp: hook_error_def dest: fetch_frame(5)\<close>)

end

text \<open>The reload of a list hook asks for the list of the same context.\<close>

locale refetching_list = refetching +
  assumes reload: "\<exists>path what' ks. reload = fetch_list path what' ks"
begin

lemma success_reloads:
  assumes "fetch E (rq x) w = (Resp st b, w1)" "resp_ok st" "truthy (hc_token x)"
  shows "\<exists>path. sent (snd (snd (op E x (s, w)))) = sent w @ [rq x, hook_request ''GET'' path None x] \<and>
    \<not> lh_loading (fst (snd (op E x (s, w))))"
proof -
  obtain path what' ks where r: "reload = fetch_list path what' ks" using reload by blast
  obtain out w2 where f2: "fetch E (hook_request ''GET'' path None x) w1 = (out, w2)" by fastforce
  have "op E x (s, w) = (True, fetch_list path what' ks E x (s, w1))" using accepted[OF assms(1,2)] r by simp
  moreover have "sent w2 = sent w @ [rq x, hook_request ''GET'' path None x]"
    using fetch_frame(5)[OF f2] fetch_frame(5)[OF assms(1)] by simp
  ultimately show ?thesis using assms(3) f2
    by (auto simp: fetch_list_def hook_json_def hook_call_def split: outcome.splits sum.splits option.splits)
qed

end

lemma refetching_mutate: "refetching_list (mutate rq what (fetch_list path what' ks)) (fetch_list path what' ks) rq what"
  by unfold_locales (auto simp: mutate_def hook_call_def)

interpretation update_user: refetching_list "updateUser i input" fetchUsers "hook_request ''PATCH'' (''/api/v1/users/'' @ i) (Some input)" "''Failed to update user''" for i input
  unfolding updateUser_def fetchUsers_def by (rule refetching_mutate)

interpretation delete_user: refetching_list "deleteUser i" fetchUsers "hook_request ''DELETE'' (''/api/v1/users/'' @ i) None" "''Failed to delete user''" for i
  unfolding deleteUser_def fetchUsers_def by (rule refetching_mutate)

interpretation assign_role: refetching_list "assignRole u r" fetchUsers "hook_request ''POST'' (''/api/v1/users/'' @ u @ ''/roles'') (Some (JObj [(''role_id'', JStr r)]))" "''Failed to assign role''" for u r
  unfolding assignRole_def fetchUsers_def by (rule refetching_mutate)

interpretation remove_role: refetching_list "removeRole u r" fetchUsers "hook_request ''DELETE'' (''/api/v1/users/'' @ u @ ''/roles/'' @ r) None" "''Failed to remove role''" for u r
  unfolding removeRole_def fetchUsers_def by (rule refetching_mutate)

interpretation update_group: refetching_list "updateGroup i input" fetchGroups "hook_request ''PATCH'' (''/api/v1/groups/'' @ i) (Some input)" "''Failed to update group''" for i input
  unfolding updateGroup_def fetchGroups_def by (rule refetching_mutate)

interpretation delete_group: refetching_list "deleteGroup i" fetchGroups "hook_request ''DELETE'' (''/api/v1/groups/'' @ i) None" "''Failed to delete group''" for i
  unfolding deleteGroup_def fetchGroups_def by (rule refetching_mutate)

interpretation update_rule: refetching_list "updateRule i input" fetchRules "hook_request ''PATCH'' (''/api/v1/settings/alerting/rules/'' @ i) (Some input)" "''Failed to update alert rule''" for i input
  unfolding updateRule_def fetchRules_def by (rule refetching_mutate)

interpretation delete_rule: refetching_list "deleteRule i" fetchRules "hook_request ''DELETE'' (''/api/v1/settings/alerting/rules/'' @ i) None" "''Failed to delete alert rule''" for i
  unfolding deleteRule_def fetchRules_def by (rule refetching_mutate)

interpretation update_policy: refetching_list "updatePolicy i input" fetchPolicies "hook_request ''PATCH'' (''/api/v1/policies/'' @ i) (Some input)" "''Failed to update policy''" for i input
  unfolding updatePolicy_def fetchPolicies_def by (rule refetching_mutate)

interpretation delete_policy: refetching_list "deletePolicy i" fetchPolicies "hook_request ''DELETE'' (''/api/v1/policies/'' @ i) None" "''Failed to delete policy''" for i
  unfolding deletePolicy_def fetchPolicies_def by (rule refetching_mutate)

interpretation update_tenant: refetching_list "updateTenant i input" fetchTenants "hook_request ''PATCH'' (''/api/v1/tenants/'' @ i) (Some input)" "''Failed to update tenant''" for i input
  unfolding updateTenant_def fetchTenants_def by (rule refetching_mutate)

interpretation delete_tenant: refetching_list "deleteTenant i" fetchTenants "hook_request ''DELETE'' (''/api/v1/tenants/'' @ i) None" "''Failed to delete tenant''" for i
  unfolding deleteTenant_def fetchTenants_def by (rule refetching_mutate)

interpretation update_branding: refetching_list "updateBranding i b" fetchTenants "hook_request ''PUT'' (''/api/v1/tenants/'' @ i @ ''/branding'') (Some b)" "''Failed to update branding''" for i b
  unfolding updateBranding_def fetchTenants_def by (rule refetching_mutate)

interpretation update_org: refetching_list "updateOrg i input" fetchOrgs "hook_request ''PATCH'' (''/api/v1/orgs/'' @ i) (Some input)" "''Failed to update organization''" for i input
  unfolding updateOrg_def fetchOrgs_def by (rule refetching_mutate)

interpretation delete_org: refetching_list "deleteOrg i" fetchOrgs "hook_request ''DELETE'' (''/api/v1/orgs/'' @ i) None" "''Failed to delete organization''" for i
  unfolding deleteOrg_def fetchOrgs_def by (rule refetching_mutate)

interpretation update_client: refetching_list "updateClient i input" fetchClients "hook_request ''PATCH'' (''/api/v1/oauth/clients/'' @ i) (Some input)" "''Failed to update OAuth client''" for i input
  unfolding updateClient_def fetchClients_def by (rule refetching_mutate)

interpretation delete_client: refetching_list "deleteClient i" fetchClients "hook_request ''DELETE'' (''/api/v1/oauth/clients/'' @ i) None" "''Failed to delete OAuth client''" for i
  unfolding deleteClient_def fetchClients_def by (rule refetching_mutate)

interpretation update_scope: refetching_list "updateScope i input" fetchScopes "hook_request ''PATCH'' (''/api/v1/scopes/'' @ i) (Some input)" "''Failed to update scope''" for i input
  unfolding updateScope_def fetchScopes_def by (rule refetching_mutate)

interpretation delete_scope: refetching_list "deleteScope i" fetchScopes "hook_request ''DELETE'' (''/api/v1/scopes/'' @ i) None" "''Failed to delete scope''" for i
  unfolding deleteScope_def fetchScopes_def by (rule refetching_mutate)

interpretation update_flag: refetching_list "updateFlag i input" fetchFlags "hook_request ''PATCH'' (''/api/v1/feature-flags/'' @ i) (Some input)" "''Failed to update flag''" for i input
  unfolding updateFlag_def fetchFlags_def by (rule refetching_mutate)

interpretation delete_flag: refetching_list "deleteFlag i" fetchFlags "hook_request ''DELETE'' (''/api/v1/feature-flags/'' @ i) None" "''Failed to delete flag''" for i
  unfolding deleteFlag_def fetchFlags_def by (rule refetching_mutate)

interpretation set_override: refetching_list "setTenantOverride f t v" fetchFlags "hook_request ''PUT'' (''/api/v1/feature-flags/'' @ f @ ''/tenants/'' @ t) (Some (JObj [(''value'', v)]))" "''Failed to set override''" for f t v
  unfolding setTenantOverride_def fetchFlags_def by (rule refetching_mutate)

section \<open>Lemmas\<close>

lemma hook_json_ok:
  "fetch E rq w = (Resp st b, w1) \<Longrightarrow> resp_ok st \<Longrightarrow> json_parse b = Some v \<Longrightarrow> hook_json E rq what w = (Inr v, w1)"
  by (simp add: hook_json_def hook_call_def)

lemma fetch_list_ok:
  assumes "truthy (hc_token x)" "fetch E (hook_request ''GET'' path None x) w = (Resp st b, w1)" "resp_ok st"
    and "json_parse b = Some data" "pick ks data = Inr v"
  shows "fetch_list path what ks E x (s, w) = (\<lparr>lh_items = v, lh_loading = False, lh_error = None\<rparr>, w1)"
  using assms hook_json_ok[OF assms(2-4)] by (simp add: fetch_list_def)

section \<open>Properties\<close>

text \<open>Deleting a user keeps the hook's list and the server in step: \<open>deleteUser\<close> answers true exactly
  when the server accepted the request; if it did not, the list is unchanged, an error is
  shown and nothing else was sent.  (The same holds for every change of the hooks of this
  theory, by the interpretations of \<open>refetching_list\<close>.)\<close>

lemma deleteUser_in_step:
  assumes "deleteUser i E x (s, w) = (r, (s', w'))"
  shows "(r \<longleftrightarrow> (\<exists>st b. fst (fetch E (hook_request ''DELETE'' (''/api/v1/users/'' @ i) None x) w) = Resp st b \<and> resp_ok st)) \<and>
    (\<not> r \<longrightarrow> lh_items s' = lh_items s \<and> lh_error s' \<noteq> None \<and>
       sent w' = sent w @ [hook_request ''DELETE'' (''/api/v1/users/'' @ i) None x])"
  using delete_user.result_iff[of i E x s w] delete_user.failure_keeps_list[of i E x s w] assms by (cases r) auto

text \<open>The context and the state of the witnesses.\<close>

definition demo_ctx :: hctx where "demo_ctx = \<lparr>hc_token = JStr ''a'', hc_base = [], hc_tenant = []\<rparr>"

definition demo_list :: list_hook where "demo_list = \<lparr>lh_items = JArr [JNum 7], lh_loading = False, lh_error = None\<rparr>"

lemma deleteUser_in_step_example:
  "let q = deleteUser ''u'' (always (Resp 403 [])) demo_ctx (demo_list, blank_world) in
   (fst q \<longleftrightarrow> (\<exists>st b. fst (fetch (always (Resp 403 [])) (hook_request ''DELETE'' (''/api/v1/users/'' @ ''u'') None demo_ctx)
       blank_world) = Resp st b \<and> resp_ok st)) \<and>
   (\<not> fst q \<longrightarrow> lh_items (fst (snd q)) = lh_items demo_list \<and> lh_error (fst (snd q)) \<noteq> None \<and>
       sent (snd (snd q)) = sent blank_world @ [hook_request ''DELETE'' (''/api/v1/users/'' @ ''u'') None demo_ctx])"
  unfolding Let_def by (rule deleteUser_in_step) simp

text \<open>After a role was assigned the hook shows the server's list: when the server accepts the
  assignment and answers the following list request with JSON that has a \<open>users\<close> array, the
  hook's users are that array, no error is shown, and exactly the two requests were sent.\<close>

lemma assignRole_shows_server_list:
  assumes "truthy (hc_token x)"
    and "fetch E (hook_request ''POST'' (''/api/v1/users/'' @ u @ ''/roles'') (Some (JObj [(''role_id'', JStr r)])) x) w
           = (Resp st1 b1, w1)" "resp_ok st1"
    and "fetch E (hook_request ''GET'' ''/api/v1/users'' None x) w1 = (Resp st2 b2, w2)" "resp_ok st2"
    and "json_parse b2 = Some data" "js_opt_prop data ''users'' = JArr us"
  shows "assignRole u r E x (s, w) = (True, (\<lparr>lh_items = JArr us, lh_loading = False, lh_error = None\<rparr>, w2)) \<and>
    length (sent w2) = length (sent w) + 2"
proof -
  have "pick [''users'', ''items''] data = Inr (JArr us)" using assms(7) by (cases data) (simp_all add: pick_def)
  then have "fetchUsers E x (s, w1) = (\<lparr>lh_items = JArr us, lh_loading = False, lh_error = None\<rparr>, w2)"
    unfolding fetchUsers_def by (rule fetch_list_ok[OF assms(1,4-6)])
  then show ?thesis using assign_role.accepted[OF assms(2,3)] fetch_frame(5)[OF assms(2)] fetch_frame(5)[OF assms(4)] by simp
qed


end
