(* ===== verification/Audit_Stream.thy ===== *)
theory Audit_Stream
  imports Sdk_Hooks
begin

text \<open>
  The live audit stream of the React SDK (\<open>sdk/react/src/useAuditStream.ts\<close>): a server-sent event
  source with automatic reconnection.  The state keeps the event sources that were created
  (numbered in order), those not yet closed, the one the hook refers to, and the delay of the
  pending reconnection timer.  An event source that was closed delivers nothing any more.  The
  relation \<open>stream_step\<close> interleaves the browser's events, the timer and the calls of the
  application in any order.  Messages are JSON objects, as their type says; a body that is not
  JSON, or a primitive value, raises an exception that the handler ignores.
\<close>

section \<open>State and handlers\<close>

datatype severity_filter = FilterAll | FilterWarningPlus | FilterSeverity string

record audit_stream =
  au_events :: "jsv list"
  au_connected :: bool
  au_attempts :: nat
  au_error :: "string option"
  au_filter :: severity_filter
  au_source :: "nat option"
  au_open :: "nat set"
  au_urls :: "string list"
  au_timer :: "nat option"

definition stream_init :: audit_stream where
  "stream_init = \<lparr>au_events = [], au_connected = False, au_attempts = 0, au_error = None, au_filter = FilterAll,
     au_source = None, au_open = {}, au_urls = [], au_timer = None\<rparr>"

definition maxReconnectDelay :: nat where "maxReconnectDelay = 30000"

definition stream_url :: "hctx \<Rightarrow> string" where
  "stream_url x = hc_base x @ ''/api/v1/audit/stream?token='' @ encodeURIComponent (js_to_string (hc_token x))
     @ ''&tenant_id='' @ encodeURIComponent (hc_tenant x)"

text \<open>\<open>connect\<close>; \<open>supported\<close> is \<open>typeof window !== 'undefined' && window.EventSource\<close>.\<close>

definition close_source :: "nat option \<Rightarrow> nat set \<Rightarrow> nat set" where
  "close_source src live = (case src of None \<Rightarrow> live | Some i \<Rightarrow> live - {i})"

definition stream_connect :: "bool \<Rightarrow> hctx \<Rightarrow> audit_stream \<Rightarrow> audit_stream" where
  "stream_connect supported x s =
     (if \<not> truthy (hc_token x) \<or> \<not> supported then s
      else (let es = length (au_urls s) in
        s\<lparr>au_open := insert es (close_source (au_source s) (au_open s)),
          au_urls := au_urls s @ [stream_url x], au_source := Some es\<rparr>))"

definition stream_onopen :: "audit_stream \<Rightarrow> audit_stream" where
  "stream_onopen s = s\<lparr>au_connected := True, au_error := None\<rparr>"

definition with_severity :: "(string \<times> jsv) list \<Rightarrow> jsv" where
  "with_severity kvs =
     (if truthy (js_opt_prop (JObj kvs) ''severity'') then JObj kvs
      else JObj (obj_set ''severity''
        (JStr (if js_opt_prop (JObj kvs) ''result'' \<in> {JStr ''failure'', JStr ''denied''} then ''warning'' else ''info'')) kvs))"

definition stream_onmessage :: "nat \<Rightarrow> string \<Rightarrow> audit_stream \<Rightarrow> audit_stream" where
  "stream_onmessage maxEvents data s = (case json_parse data of
      Some (JObj kvs) \<Rightarrow> s\<lparr>au_events := take maxEvents (with_severity kvs # au_events s)\<rparr>
    | _ \<Rightarrow> s)"

definition backoff :: "nat \<Rightarrow> nat" where
  "backoff attempts = min (5000 * 2 ^ (attempts - 1)) maxReconnectDelay"

definition stream_onerror :: "nat \<Rightarrow> audit_stream \<Rightarrow> audit_stream" where
  "stream_onerror es s =
     (let n = au_attempts s + 1 in
      s\<lparr>au_connected := False, au_attempts := n,
        au_error := Some (''Connection lost (attempt '' @ show_nat n @ ''). Reconnecting...''),
        au_open := au_open s - {es}, au_timer := Some (backoff n)\<rparr>)"

text \<open>The effect and its clean-up.\<close>

definition stream_mount :: "bool \<Rightarrow> bool \<Rightarrow> hctx \<Rightarrow> audit_stream \<Rightarrow> audit_stream" where
  "stream_mount authenticated supported x s =
     (if authenticated then stream_connect supported x (s\<lparr>au_attempts := 0\<rparr>) else s)"

definition stream_unmount :: "audit_stream \<Rightarrow> audit_stream" where
  "stream_unmount s = s\<lparr>au_open := close_source (au_source s) (au_open s), au_timer := None\<rparr>"

definition stream_clear :: "audit_stream \<Rightarrow> audit_stream" where
  "stream_clear s = s\<lparr>au_events := []\<rparr>"

definition filteredEvents :: "audit_stream \<Rightarrow> jsv list" where
  "filteredEvents s = filter (\<lambda>e. case au_filter s of
      FilterAll \<Rightarrow> True
    | FilterWarningPlus \<Rightarrow> js_opt_prop e ''severity'' = JStr ''warning'' \<or> js_opt_prop e ''severity'' = JStr ''critical''
    | FilterSeverity f \<Rightarrow> js_opt_prop e ''severity'' = JStr f) (au_events s)"

text \<open>One step: an event of a source that is not closed, the timer, or a call of the application.\<close>

inductive stream_step :: "nat \<Rightarrow> bool \<Rightarrow> hctx \<Rightarrow> audit_stream \<Rightarrow> audit_stream \<Rightarrow> bool" for maxEvents supported x where
  opened: "es \<in> au_open s \<Longrightarrow> stream_step maxEvents supported x s (stream_onopen s)"
| message: "es \<in> au_open s \<Longrightarrow> stream_step maxEvents supported x s (stream_onmessage maxEvents data s)"
| failed: "es \<in> au_open s \<Longrightarrow> stream_step maxEvents supported x s (stream_onerror es s)"
| timer: "au_timer s = Some d \<Longrightarrow> stream_step maxEvents supported x s (stream_connect supported x (s\<lparr>au_timer := None\<rparr>))"
| reconnect: "stream_step maxEvents supported x s (stream_connect supported x s)"
| clear: "stream_step maxEvents supported x s (stream_clear s)"
| set_filter: "stream_step maxEvents supported x s (s\<lparr>au_filter := f\<rparr>)"

inductive_cases stream_stepE: "stream_step maxEvents supported x s t"

section \<open>Lemmas\<close>

lemma backoff_bounds: "5000 \<le> backoff n" "backoff n \<le> 30000"
  by (simp_all add: backoff_def maxReconnectDelay_def)

lemma backoff_cap: "4 \<le> n \<Longrightarrow> backoff n = 30000"
proof -
  assume "4 \<le> n"
  then have "(2::nat) ^ 3 \<le> 2 ^ (n - 1)" by (intro power_increasing) auto
  then show ?thesis by (simp add: backoff_def maxReconnectDelay_def)
qed

text \<open>The invariant: at most the current source is open, the sources are numbered as they were
  created, the buffer is bounded, and a pending timer has an admissible delay.\<close>

definition stream_inv :: "nat \<Rightarrow> audit_stream \<Rightarrow> bool" where
  "stream_inv maxEvents s = (au_open s \<subseteq> set_option (au_source s) \<and> (\<forall>i \<in> set_option (au_source s). i < length (au_urls s)) \<and>
     length (au_events s) \<le> maxEvents \<and> (\<forall>d \<in> set_option (au_timer s). 5000 \<le> d \<and> d \<le> 30000))"

lemma connect_inv: "stream_inv n s \<Longrightarrow> stream_inv n (stream_connect b x s)"
  by (auto simp: stream_inv_def stream_connect_def close_source_def Let_def split: option.splits)

lemma unmount_inv: "stream_inv n s \<Longrightarrow> stream_inv n (stream_unmount s)"
  by (auto simp: stream_inv_def stream_unmount_def close_source_def split: option.splits)

lemma mount_inv: "stream_inv n s \<Longrightarrow> stream_inv n (stream_mount a b x s)"
proof -
  assume "stream_inv n s"
  then have "stream_inv n (s\<lparr>au_attempts := 0\<rparr>)" by (simp add: stream_inv_def)
  then show ?thesis using \<open>stream_inv n s\<close> by (simp add: stream_mount_def connect_inv)
qed

lemma handlers_inv:
  assumes "stream_inv n s"
  shows "stream_inv n (stream_onopen s)" "stream_inv n (stream_onmessage n data s)" "stream_inv n (stream_onerror es s)"
    "stream_inv n (stream_clear s)" "stream_inv n (s\<lparr>au_filter := f\<rparr>)" "stream_inv n (s\<lparr>au_timer := None\<rparr>)"
  using assms backoff_bounds
  by (auto simp: stream_inv_def stream_onopen_def stream_onmessage_def stream_onerror_def stream_clear_def Let_def
      split: option.splits jsv.splits)

lemma step_inv: "stream_step n b x s t \<Longrightarrow> stream_inv n s \<Longrightarrow> stream_inv n t"
  by (erule stream_stepE) (auto intro: handlers_inv connect_inv)

lemma init_inv: "stream_inv n stream_init"
  by (simp add: stream_inv_def stream_init_def)

lemma step_attempts: "stream_step n b x s t \<Longrightarrow> au_attempts s \<le> au_attempts t"
  by (erule stream_stepE) (auto simp: stream_onopen_def stream_onmessage_def stream_onerror_def stream_connect_def
      stream_clear_def Let_def split: option.splits jsv.splits)

section \<open>Properties\<close>

text \<open>C37. The stream keeps at most one connection and a bounded buffer: however messages, failures,
  timers, manual reconnects and remounts interleave, at most one event source is open (so no event
  is received twice), at most \<open>maxEvents\<close> events are kept, and a reconnection is scheduled no
  sooner than 5 and no later than 30 seconds after a failure.\<close>

theorem stream_bounded:
  assumes "(\<lambda>s t. stream_step n b x s t \<or> (\<exists>a. t = stream_mount a b x (stream_unmount s)))\<^sup>*\<^sup>* stream_init s"
  shows "(\<forall>i j. i \<in> au_open s \<longrightarrow> j \<in> au_open s \<longrightarrow> i = j) \<and> length (au_events s) \<le> n \<and>
    (\<forall>d. au_timer s = Some d \<longrightarrow> 5000 \<le> d \<and> d \<le> 30000)"
proof -
  have "stream_inv n s"
    using assms by (induction rule: rtranclp_induct) (auto intro: init_inv step_inv mount_inv unmount_inv)
  then show ?thesis by (cases "au_source s") (auto simp: stream_inv_def)
qed

text \<open>A connected stream of the witnesses.\<close>

definition demo_stream_ctx :: hctx where
  "demo_stream_ctx = \<lparr>hc_token = JStr ''t'', hc_base = ''b'', hc_tenant = ''n''\<rparr>"

theorem stream_bounded_witness:
  "let s = stream_onerror 0 (stream_connect True demo_stream_ctx stream_init) in
   (\<forall>i j. i \<in> au_open s \<longrightarrow> j \<in> au_open s \<longrightarrow> i = j) \<and> length (au_events s) \<le> 100 \<and>
    (\<forall>d. au_timer s = Some d \<longrightarrow> 5000 \<le> d \<and> d \<le> 30000)"
proof -
  let ?c = "stream_connect True demo_stream_ctx stream_init"
  let ?R = "\<lambda>s t. stream_step 100 True demo_stream_ctx s t \<or> (\<exists>a. t = stream_mount a True demo_stream_ctx (stream_unmount s))"
  have "stream_step 100 True demo_stream_ctx ?c (stream_onerror 0 ?c)"
    by (rule failed) (simp add: stream_connect_def demo_stream_ctx_def stream_init_def Let_def)
  then have step: "?R ?c (stream_onerror 0 ?c)" by (rule disjI1)
  have "?R\<^sup>*\<^sup>* stream_init ?c" by (rule r_into_rtranclp, rule disjI1, rule reconnect)
  from rtranclp.rtrancl_into_rtrancl[OF this step] have "?R\<^sup>*\<^sup>* stream_init (stream_onerror 0 ?c)" .
  from stream_bounded[OF this] show ?thesis unfolding Let_def .
qed

text \<open>The back-off never recovers: the counter of failures is reset only by a remount, not by a
  connection that opens, so once four failures have occurred, every later failure waits the
  full 30 seconds, however many connections have succeeded in between.\<close>

lemma backoff_never_recovers:
  assumes "(stream_step n b x)\<^sup>*\<^sup>* s t" "3 \<le> au_attempts s"
  shows "au_timer (stream_onerror es t) = Some 30000"
proof -
  have "au_attempts s \<le> au_attempts t"
    using assms(1) by (induction rule: rtranclp_induct) (auto dest: step_attempts)
  then show ?thesis using assms(2) backoff_cap[of "au_attempts t + 1"] by (simp add: stream_onerror_def Let_def)
qed

lemma backoff_never_recovers_example:
  "au_timer (stream_onerror 0 (stream_onopen (stream_init\<lparr>au_attempts := 3, au_open := {0}\<rparr>))) = Some 30000"
proof (rule backoff_never_recovers[where s = "stream_init\<lparr>au_attempts := 3, au_open := {0}\<rparr>"])
  show "(stream_step 100 True demo_stream_ctx)\<^sup>*\<^sup>* (stream_init\<lparr>au_attempts := 3, au_open := {0}\<rparr>)
      (stream_onopen (stream_init\<lparr>au_attempts := 3, au_open := {0}\<rparr>))"
    by (rule r_into_rtranclp, rule opened[where es = 0]) simp
qed simp

text \<open>A manual reconnect is torn down by the pending timer: \<open>reconnect\<close> does not cancel the timer of
  an earlier failure, so when that timer fires it closes the connection the user asked for and
  opens another one.\<close>

lemma reconnect_torn_down:
  assumes "truthy (hc_token x)" "au_timer s = Some d" "au_open s \<subseteq> set_option (au_source s)"
    and "\<And>i. i \<in> au_open s \<Longrightarrow> i < length (au_urls s)"
    and "t = stream_connect True x s"
  shows "au_open t = {length (au_urls s)} \<and> au_timer t = Some d \<and>
    au_open (stream_connect True x (t\<lparr>au_timer := None\<rparr>)) = {Suc (length (au_urls s))}"
  using assms by (auto simp: stream_connect_def close_source_def Let_def split: option.splits)


end
