(* ===== verification/Sdk_Local_Hooks.thy ===== *)
theory Sdk_Local_Hooks
  imports Sdk_Hooks
begin

text \<open>
  The hooks of the React SDK that update their own copy of the server's data instead of
  reloading it: sessions, separation-of-duties rules, retention, notifications and multi-factor authentication (\<open>sdk/react/src/use*.ts\<close>).  The lists are
  arrays of objects, as their types declare.  The locale \<open>keyed_list\<close> states the laws of the
  three local updates; the model's updates interpret it.
\<close>

section \<open>Local updates\<close>

definition has_id :: "string \<Rightarrow> jsv \<Rightarrow> bool" where
  "has_id i r = (js_opt_prop r ''id'' = JStr i)"

text \<open>\<open>[...prev, created]\<close>, \<open>prev.map(r => r.id === id ? updated : r)\<close>,
  \<open>prev.filter(r => r.id !== id)\<close>.\<close>

definition append_item :: "jsv \<Rightarrow> jsv list \<Rightarrow> jsv list" where
  "append_item created prev = prev @ [created]"

definition replace_item :: "string \<Rightarrow> jsv \<Rightarrow> jsv list \<Rightarrow> jsv list" where
  "replace_item i updated prev = map (\<lambda>r. if has_id i r then updated else r) prev"

definition remove_item_id :: "string \<Rightarrow> jsv list \<Rightarrow> jsv list" where
  "remove_item_id i prev = filter (\<lambda>r. \<not> has_id i r) prev"

definition lookup_item :: "string \<Rightarrow> jsv list \<Rightarrow> jsv option" where
  "lookup_item i prev = find (has_id i) prev"

section \<open>Sessions\<close>

record sessions_hook =
  sh_sessions :: "jsv list"
  sh_loading :: bool
  sh_error :: "string option"

definition fetchSessions :: "'w env \<Rightarrow> hctx \<Rightarrow> sessions_hook \<times> 'w world \<Rightarrow> sessions_hook \<times> 'w world" where
  "fetchSessions E x sw = (case sw of (s, w) \<Rightarrow>
     if \<not> truthy (hc_token x) then (s, w)
     else (case hook_json E (hook_request ''GET'' ''/api/v1/security/sessions'' None x) ''Failed to fetch sessions'' w of
        (r, w1) \<Rightarrow> (case (case r of Inl e \<Rightarrow> Inl e | Inr data \<Rightarrow> pick [''sessions'', ''items''] data) of
            Inl e \<Rightarrow> (\<lparr>sh_sessions = [], sh_loading = False, sh_error = Some (exn_message E e)\<rparr>, w1)
          | Inr v \<Rightarrow> (\<lparr>sh_sessions = arr_items v, sh_loading = False, sh_error = None\<rparr>, w1))))"

definition revoke_session_request :: "string \<Rightarrow> hctx \<Rightarrow> request" where
  "revoke_session_request i = hook_request ''DELETE'' (''/api/v1/security/sessions/'' @ i) None"

definition revokeSession ::
  "string \<Rightarrow> 'w env \<Rightarrow> hctx \<Rightarrow> sessions_hook \<times> 'w world \<Rightarrow> bool \<times> (sessions_hook \<times> 'w world)" where
  "revokeSession i E x sw = (case sw of (s, w) \<Rightarrow>
     (case hook_call E (revoke_session_request i x) ''Failed to revoke session'' w of
        (Inl e, w1) \<Rightarrow> (False, (s\<lparr>sh_error := Some (exn_message E e)\<rparr>, w1))
      | (Inr _, w1) \<Rightarrow> (True, (s\<lparr>sh_sessions := remove_item_id i (sh_sessions s)\<rparr>, w1))))"

text \<open>The loop of \<open>revokeAllOthers\<close> over the sessions seen when it was called.\<close>

fun revoke_each ::
  "string list \<Rightarrow> 'w env \<Rightarrow> hctx \<Rightarrow> nat \<Rightarrow> sessions_hook \<times> 'w world \<Rightarrow> nat \<times> (sessions_hook \<times> 'w world)" where
  "revoke_each [] E x revoked sw = (revoked, sw)"
| "revoke_each (i # is) E x revoked sw = (case revokeSession i E x sw of (ok, sw1) \<Rightarrow>
     revoke_each is E x (if ok then Suc revoked else revoked) sw1)"

definition other_ids :: "jsv list \<Rightarrow> string list" where
  "other_ids ss = map (\<lambda>s. js_to_string (js_opt_prop s ''id'')) (filter (\<lambda>s. \<not> truthy (js_opt_prop s ''current'')) ss)"

definition revokeAllOthers ::
  "'w env \<Rightarrow> hctx \<Rightarrow> sessions_hook \<times> 'w world \<Rightarrow> nat \<times> (sessions_hook \<times> 'w world)" where
  "revokeAllOthers E x sw = revoke_each (other_ids (sh_sessions (fst sw))) E x 0 sw"

section \<open>Separation of duties\<close>

record sod_hook =
  sod_rules :: "jsv list"
  sod_violations :: "jsv list"
  sod_loading :: bool
  sod_error :: "string option"

text \<open>A response of \<open>Promise.all\<close>: an HTTP error leaves the empty object \<open>{}\<close>.\<close>

definition body_or_empty :: "outcome \<Rightarrow> exn + jsv" where
  "body_or_empty out = (case out of NetError \<Rightarrow> Inl ExnNet
     | Resp st body \<Rightarrow> if \<not> resp_ok st then Inr (JObj [])
         else (case json_parse body of None \<Rightarrow> Inl ExnSyntax | Some v \<Rightarrow> Inr v))"

definition sod_rules_request :: "hctx \<Rightarrow> request" where
  "sod_rules_request = hook_request ''GET'' ''/api/v1/policy/sod/rules'' None"

definition sod_violations_request :: "hctx \<Rightarrow> request" where
  "sod_violations_request = hook_request ''GET'' ''/api/v1/policy/sod/violations'' None"

text \<open>\<open>fetchAll\<close>: both requests are sent before either answer is read; if one of them rejects, or a
  body is not JSON, the lists are kept and the error is shown.\<close>

definition fetchAll :: "'w env \<Rightarrow> hctx \<Rightarrow> sod_hook \<times> 'w world \<Rightarrow> sod_hook \<times> 'w world" where
  "fetchAll E x sw = (case sw of (s, w) \<Rightarrow>
     if \<not> truthy (hc_token x) then (s, w)
     else (case fetch E (sod_rules_request x) w of (o1, w1) \<Rightarrow>
       (case fetch E (sod_violations_request x) w1 of (o2, w2) \<Rightarrow>
         (let fail = (\<lambda>e. (s\<lparr>sod_error := Some (exn_message E e), sod_loading := False\<rparr>, w2)) in
          if o1 = NetError \<or> o2 = NetError then fail ExnNet
          else (case body_or_empty o1 of Inl e \<Rightarrow> fail e
             | Inr rData \<Rightarrow> (case body_or_empty o2 of Inl e \<Rightarrow> fail e
               | Inr vData \<Rightarrow> (case pick [''rules'', ''items''] rData of Inl e \<Rightarrow> fail e
                 | Inr rs \<Rightarrow> (case pick [''violations'', ''items''] vData of
                     Inl e \<Rightarrow> (s\<lparr>sod_rules := arr_items rs, sod_error := Some (exn_message E e), sod_loading := False\<rparr>, w2)
                   | Inr vs \<Rightarrow> (\<lparr>sod_rules = arr_items rs, sod_violations = arr_items vs, sod_loading = False,
                        sod_error = None\<rparr>, w2)))))))))"

definition sod_fail :: "'w env \<Rightarrow> exn \<Rightarrow> sod_hook \<Rightarrow> sod_hook" where
  "sod_fail E e s = s\<lparr>sod_error := Some (exn_message E e)\<rparr>"

definition sod_addRule :: "jsv \<Rightarrow> 'w env \<Rightarrow> hctx \<Rightarrow> sod_hook \<times> 'w world \<Rightarrow> jsv \<times> (sod_hook \<times> 'w world)" where
  "sod_addRule input E x sw = (case sw of (s, w) \<Rightarrow>
     (case hook_json E (hook_request ''POST'' ''/api/v1/policy/sod/rules'' (Some input) x) ''Failed to create SoD rule'' w of
        (Inl e, w1) \<Rightarrow> (JNull, (sod_fail E e s, w1))
      | (Inr v, w1) \<Rightarrow> (v, (s\<lparr>sod_rules := append_item v (sod_rules s)\<rparr>, w1))))"

definition sod_updateRule :: "string \<Rightarrow> jsv \<Rightarrow> 'w env \<Rightarrow> hctx \<Rightarrow> sod_hook \<times> 'w world \<Rightarrow> bool \<times> (sod_hook \<times> 'w world)" where
  "sod_updateRule i input E x sw = (case sw of (s, w) \<Rightarrow>
     (case hook_json E (hook_request ''PATCH'' (''/api/v1/policy/sod/rules/'' @ i) (Some input) x) ''Failed to update SoD rule'' w of
        (Inl e, w1) \<Rightarrow> (False, (sod_fail E e s, w1))
      | (Inr v, w1) \<Rightarrow> (True, (s\<lparr>sod_rules := replace_item i v (sod_rules s)\<rparr>, w1))))"

definition sod_deleteRule :: "string \<Rightarrow> 'w env \<Rightarrow> hctx \<Rightarrow> sod_hook \<times> 'w world \<Rightarrow> bool \<times> (sod_hook \<times> 'w world)" where
  "sod_deleteRule i E x sw = (case sw of (s, w) \<Rightarrow>
     (case hook_call E (hook_request ''DELETE'' (''/api/v1/policy/sod/rules/'' @ i) None x) ''Failed to delete SoD rule'' w of
        (Inl e, w1) \<Rightarrow> (False, (sod_fail E e s, w1))
      | (Inr _, w1) \<Rightarrow> (True, (s\<lparr>sod_rules := remove_item_id i (sod_rules s)\<rparr>, w1))))"

definition checkViolation :: "string \<Rightarrow> string list \<Rightarrow> 'w env \<Rightarrow> hctx \<Rightarrow> sod_hook \<times> 'w world \<Rightarrow> jsv \<times> (sod_hook \<times> 'w world)" where
  "checkViolation userId roles E x sw = (case sw of (s, w) \<Rightarrow>
     (case hook_json E (hook_request ''POST'' ''/api/v1/policy/sod/check''
        (Some (JObj [(''user_id'', JStr userId), (''roles'', JArr (map JStr roles))])) x) ''Failed to check SoD violation'' w of
        (Inl e, w1) \<Rightarrow> (JNull, (sod_fail E e s, w1))
      | (Inr v, w1) \<Rightarrow> (v, (s, w1))))"

section \<open>Retention\<close>

record ret_hook =
  rt_policy :: jsv
  rt_schedules :: "jsv list"
  rt_loading :: bool
  rt_error :: "string option"

definition ret_fail :: "'w env \<Rightarrow> exn \<Rightarrow> ret_hook \<Rightarrow> ret_hook" where
  "ret_fail E e s = s\<lparr>rt_error := Some (exn_message E e)\<rparr>"

text \<open>\<open>fetchPolicy\<close>: a body of \<open>null\<close> is set as the policy before \<open>data.schedules\<close> throws, and the
  \<open>catch\<close> sets the policy to \<open>null\<close> again.\<close>

definition fetchPolicy :: "'w env \<Rightarrow> hctx \<Rightarrow> ret_hook \<times> 'w world \<Rightarrow> ret_hook \<times> 'w world" where
  "fetchPolicy E x sw = (case sw of (s, w) \<Rightarrow>
     if \<not> truthy (hc_token x) then (s, w)
     else (case hook_json E (hook_request ''GET'' ''/api/v1/settings/retention'' None x) ''Failed to fetch retention policy'' w of
        (r, w1) \<Rightarrow> (case (case r of Inl e \<Rightarrow> Inl e | Inr data \<Rightarrow> map_sum id (Pair data) (pick [''schedules''] data)) of
            Inl e \<Rightarrow> (s\<lparr>rt_policy := JNull, rt_loading := False, rt_error := Some (exn_message E e)\<rparr>, w1)
          | Inr (data, sch) \<Rightarrow> (\<lparr>rt_policy = data, rt_schedules = arr_items sch, rt_loading = False, rt_error = None\<rparr>, w1))))"

definition ret_updatePolicy :: "jsv \<Rightarrow> 'w env \<Rightarrow> hctx \<Rightarrow> ret_hook \<times> 'w world \<Rightarrow> bool \<times> (ret_hook \<times> 'w world)" where
  "ret_updatePolicy newPolicy E x sw = (case sw of (s, w) \<Rightarrow>
     (case hook_json E (hook_request ''PUT'' ''/api/v1/settings/retention'' (Some newPolicy) x) ''Failed to update retention policy'' w of
        (Inl e, w1) \<Rightarrow> (False, (ret_fail E e s, w1))
      | (Inr v, w1) \<Rightarrow> (True, (s\<lparr>rt_policy := v\<rparr>, w1))))"

definition purgeOldEvents :: "'w env \<Rightarrow> hctx \<Rightarrow> ret_hook \<times> 'w world \<Rightarrow> jsv \<times> (ret_hook \<times> 'w world)" where
  "purgeOldEvents E x sw = (case sw of (s, w) \<Rightarrow>
     (case hook_json E (hook_request ''POST'' ''/api/v1/settings/retention/purge'' None x) ''Failed to purge old events'' w of
        (Inl e, w1) \<Rightarrow> (JNull, (ret_fail E e s, w1))
      | (Inr v, w1) \<Rightarrow> (v, (s, w1))))"

definition createSchedule :: "jsv \<Rightarrow> 'w env \<Rightarrow> hctx \<Rightarrow> ret_hook \<times> 'w world \<Rightarrow> jsv \<times> (ret_hook \<times> 'w world)" where
  "createSchedule input E x sw = (case sw of (s, w) \<Rightarrow>
     (case hook_json E (hook_request ''POST'' ''/api/v1/settings/retention/schedules'' (Some input) x) ''Failed to create schedule'' w of
        (Inl e, w1) \<Rightarrow> (JNull, (ret_fail E e s, w1))
      | (Inr v, w1) \<Rightarrow> (v, (s\<lparr>rt_schedules := append_item v (rt_schedules s)\<rparr>, w1))))"

definition updateSchedule :: "string \<Rightarrow> jsv \<Rightarrow> 'w env \<Rightarrow> hctx \<Rightarrow> ret_hook \<times> 'w world \<Rightarrow> bool \<times> (ret_hook \<times> 'w world)" where
  "updateSchedule i input E x sw = (case sw of (s, w) \<Rightarrow>
     (case hook_json E (hook_request ''PATCH'' (''/api/v1/settings/retention/schedules/'' @ i) (Some input) x)
        ''Failed to update schedule'' w of
        (Inl e, w1) \<Rightarrow> (False, (ret_fail E e s, w1))
      | (Inr v, w1) \<Rightarrow> (True, (s\<lparr>rt_schedules := replace_item i v (rt_schedules s)\<rparr>, w1))))"

definition deleteSchedule :: "string \<Rightarrow> 'w env \<Rightarrow> hctx \<Rightarrow> ret_hook \<times> 'w world \<Rightarrow> bool \<times> (ret_hook \<times> 'w world)" where
  "deleteSchedule i E x sw = (case sw of (s, w) \<Rightarrow>
     (case hook_call E (hook_request ''DELETE'' (''/api/v1/settings/retention/schedules/'' @ i) None x)
        ''Failed to delete schedule'' w of
        (Inl e, w1) \<Rightarrow> (False, (ret_fail E e s, w1))
      | (Inr _, w1) \<Rightarrow> (True, (s\<lparr>rt_schedules := remove_item_id i (rt_schedules s)\<rparr>, w1))))"

section \<open>Notifications\<close>

record notif_hook =
  nh_list :: "jsv list"
  nh_preferences :: jsv
  nh_loading :: bool
  nh_error :: "string option"

definition fetchNotifications :: "'w env \<Rightarrow> hctx \<Rightarrow> notif_hook \<times> 'w world \<Rightarrow> notif_hook \<times> 'w world" where
  "fetchNotifications E x sw = (case sw of (s, w) \<Rightarrow>
     if \<not> truthy (hc_token x) then (s, w)
     else (case hook_json E (hook_request ''GET'' ''/api/v1/notifications'' None x) ''Failed to fetch notifications'' w of
        (r, w1) \<Rightarrow> (case (case r of Inl e \<Rightarrow> Inl e | Inr data \<Rightarrow> pick [''notifications'', ''items''] data) of
            Inl e \<Rightarrow> (s\<lparr>nh_list := [], nh_loading := False, nh_error := Some (exn_message E e)\<rparr>, w1)
          | Inr v \<Rightarrow> (s\<lparr>nh_list := arr_items v, nh_loading := False, nh_error := None\<rparr>, w1))))"

text \<open>\<open>{ ...n, read: true }\<close>.\<close>

definition mark :: "jsv \<Rightarrow> jsv" where
  "mark n = (case n of JObj kvs \<Rightarrow> JObj (obj_set ''read'' (JBool True) kvs) | _ \<Rightarrow> JObj [(''read'', JBool True)])"

definition resp_accepted :: "outcome \<Rightarrow> bool" where
  "resp_accepted out = (case out of NetError \<Rightarrow> False | Resp st _ \<Rightarrow> resp_ok st)"

text \<open>The local change comes first and is kept whatever the server answers.\<close>

definition optimistic ::
  "(jsv list \<Rightarrow> jsv list) \<Rightarrow> (hctx \<Rightarrow> request) \<Rightarrow> 'w env \<Rightarrow> hctx \<Rightarrow> notif_hook \<times> 'w world \<Rightarrow> bool \<times> (notif_hook \<times> 'w world)" where
  "optimistic f rq E x sw = (case sw of (s, w) \<Rightarrow>
     (case fetch E (rq x) w of (out, w1) \<Rightarrow> (resp_accepted out, (s\<lparr>nh_list := f (nh_list s)\<rparr>, w1))))"

definition markRead :: "string \<Rightarrow> 'w env \<Rightarrow> hctx \<Rightarrow> notif_hook \<times> 'w world \<Rightarrow> bool \<times> (notif_hook \<times> 'w world)" where
  "markRead i = optimistic (map (\<lambda>n. if has_id i n then mark n else n))
     (hook_request ''POST'' (''/api/v1/notifications/'' @ i @ ''/read'') None)"

definition markAllRead :: "'w env \<Rightarrow> hctx \<Rightarrow> notif_hook \<times> 'w world \<Rightarrow> bool \<times> (notif_hook \<times> 'w world)" where
  "markAllRead = optimistic (map mark) (hook_request ''POST'' ''/api/v1/notifications/read-all'' None)"

definition deleteNotification :: "string \<Rightarrow> 'w env \<Rightarrow> hctx \<Rightarrow> notif_hook \<times> 'w world \<Rightarrow> bool \<times> (notif_hook \<times> 'w world)" where
  "deleteNotification i = optimistic (remove_item_id i) (hook_request ''DELETE'' (''/api/v1/notifications/'' @ i) None)"

definition fetchPreferences :: "'w env \<Rightarrow> hctx \<Rightarrow> notif_hook \<times> 'w world \<Rightarrow> notif_hook \<times> 'w world" where
  "fetchPreferences E x sw = (case sw of (s, w) \<Rightarrow>
     (case fetch E (hook_request ''GET'' ''/api/v1/notifications/preferences'' None x) w of
        (NetError, w1) \<Rightarrow> (s\<lparr>nh_error := Some (net_message E)\<rparr>, w1)
      | (Resp st body, w1) \<Rightarrow>
          if \<not> resp_ok st then (s, w1)
          else (case json_parse body of None \<Rightarrow> (s\<lparr>nh_error := Some (syntax_message E)\<rparr>, w1)
             | Some v \<Rightarrow> (s\<lparr>nh_preferences := v\<rparr>, w1))))"

definition updatePreferences :: "jsv \<Rightarrow> 'w env \<Rightarrow> hctx \<Rightarrow> notif_hook \<times> 'w world \<Rightarrow> bool \<times> (notif_hook \<times> 'w world)" where
  "updatePreferences prefs E x sw = (case sw of (s, w) \<Rightarrow>
     (case fetch E (hook_request ''PUT'' ''/api/v1/notifications/preferences'' (Some prefs) x) w of
        (NetError, w1) \<Rightarrow> (False, (s, w1))
      | (Resp st body, w1) \<Rightarrow>
          if \<not> resp_ok st then (False, (s, w1))
          else (case json_parse body of None \<Rightarrow> (False, (s, w1))
             | Some v \<Rightarrow> (True, (s\<lparr>nh_preferences := v\<rparr>, w1)))))"

definition unreadCount :: "notif_hook \<Rightarrow> nat" where
  "unreadCount s = length (filter (\<lambda>n. \<not> truthy (js_opt_prop n ''read'')) (nh_list s))"

section \<open>Multi-factor authentication\<close>

record mfa_hook =
  mf_status :: jsv
  mf_credentials :: "jsv list"
  mf_loading :: bool
  mf_error :: "string option"
  mf_platform :: bool

text \<open>\<open>fetchStatus\<close>: an HTTP error of either request is skipped; the first exception ends the block.\<close>

definition fetchStatus :: "'w env \<Rightarrow> hctx \<Rightarrow> mfa_hook \<times> 'w world \<Rightarrow> mfa_hook \<times> 'w world" where
  "fetchStatus E x sw = (case sw of (s, w) \<Rightarrow>
     if \<not> truthy (hc_token x) then (s, w)
     else (case fetch E (hook_request ''GET'' ''/api/v1/mfa/status'' None x) w of (o1, w1) \<Rightarrow>
       (case fetch E (hook_request ''GET'' ''/api/v1/webauthn/credentials'' None x) w1 of (o2, w2) \<Rightarrow>
         (let fail = (\<lambda>s' e. (s'\<lparr>mf_error := Some (exn_message E e), mf_loading := False\<rparr>, w2)) in
          (case (o1, o2) of
             (Resp st1 b1, Resp st2 b2) \<Rightarrow>
               (let creds = (\<lambda>s'. if \<not> resp_ok st2 then (s'\<lparr>mf_loading := False\<rparr>, w2)
                      else (case json_parse b2 of None \<Rightarrow> fail s' ExnSyntax
                         | Some data \<Rightarrow> (case pick [''credentials'', ''items''] data of Inl e \<Rightarrow> fail s' e
                             | Inr v \<Rightarrow> (s'\<lparr>mf_credentials := arr_items v, mf_loading := False\<rparr>, w2))))
                in if \<not> resp_ok st1 then creds s
                   else (case json_parse b1 of None \<Rightarrow> fail s ExnSyntax | Some v \<Rightarrow> creds (s\<lparr>mf_status := v\<rparr>)))
           | _ \<Rightarrow> fail s ExnNet)))))"

text \<open>The operations that answer false on every failure and reload the status otherwise.\<close>

definition mfa_act :: "(hctx \<Rightarrow> request) \<Rightarrow> 'w env \<Rightarrow> hctx \<Rightarrow> mfa_hook \<times> 'w world \<Rightarrow> bool \<times> (mfa_hook \<times> 'w world)" where
  "mfa_act rq E x sw = (case sw of (s, w) \<Rightarrow> (case fetch E (rq x) w of (out, w1) \<Rightarrow>
     if resp_accepted out then (True, fetchStatus E x (s, w1)) else (False, (s, w1))))"

definition verifyTOTP :: "string \<Rightarrow> 'w env \<Rightarrow> hctx \<Rightarrow> mfa_hook \<times> 'w world \<Rightarrow> bool \<times> (mfa_hook \<times> 'w world)" where
  "verifyTOTP code = mfa_act (hook_request ''POST'' ''/api/v1/mfa/totp/verify'' (Some (JObj [(''code'', JStr code)])))"

definition disableTOTP :: "'w env \<Rightarrow> hctx \<Rightarrow> mfa_hook \<times> 'w world \<Rightarrow> bool \<times> (mfa_hook \<times> 'w world)" where
  "disableTOTP = mfa_act (hook_request ''DELETE'' ''/api/v1/mfa/totp'' None)"

definition registerWebAuthn :: "string \<Rightarrow> 'w env \<Rightarrow> hctx \<Rightarrow> mfa_hook \<times> 'w world \<Rightarrow> bool \<times> (mfa_hook \<times> 'w world)" where
  "registerWebAuthn name = mfa_act (hook_request ''POST'' ''/api/v1/webauthn/register'' (Some (JObj [(''name'', JStr name)])))"

definition unregisterWebAuthn :: "string \<Rightarrow> 'w env \<Rightarrow> hctx \<Rightarrow> mfa_hook \<times> 'w world \<Rightarrow> bool \<times> (mfa_hook \<times> 'w world)" where
  "unregisterWebAuthn i = mfa_act (hook_request ''DELETE'' (''/api/v1/webauthn/credentials/'' @ i) None)"

definition registerPlatformAuthenticator ::
  "string \<Rightarrow> 'w env \<Rightarrow> hctx \<Rightarrow> mfa_hook \<times> 'w world \<Rightarrow> bool \<times> (mfa_hook \<times> 'w world)" where
  "registerPlatformAuthenticator name E x sw = (case sw of (s, w) \<Rightarrow>
     if \<not> mf_platform s then (False, (s\<lparr>mf_error := Some ''Platform authenticator not available on this device''\<rparr>, w))
     else mfa_act (hook_request ''POST'' ''/api/v1/webauthn/register''
       (Some (JObj [(''name'', JStr name), (''attachment'', JStr ''platform''), (''user_verification'', JStr ''required'')]))) E x (s, w))"

definition enrollTOTP :: "'w env \<Rightarrow> hctx \<Rightarrow> mfa_hook \<times> 'w world \<Rightarrow> jsv \<times> (mfa_hook \<times> 'w world)" where
  "enrollTOTP E x sw = (case sw of (s, w) \<Rightarrow>
     (case hook_json E (hook_request ''POST'' ''/api/v1/mfa/totp/enroll'' None x) ''Enroll failed'' w of
        (Inl e, w1) \<Rightarrow> (JNull, (s\<lparr>mf_error := Some (exn_message E e)\<rparr>, w1))
      | (Inr v, w1) \<Rightarrow> (v, (s, w1))))"

text \<open>\<open>generateBackupCodes\<close>; \<open>stamp\<close> is \<open>new Date().toISOString()\<close>.\<close>

definition generateBackupCodes :: "string \<Rightarrow> 'w env \<Rightarrow> hctx \<Rightarrow> mfa_hook \<times> 'w world \<Rightarrow> jsv \<times> (mfa_hook \<times> 'w world)" where
  "generateBackupCodes stamp E x sw = (case sw of (s, w) \<Rightarrow>
     (case hook_json E (hook_request ''POST'' ''/api/v1/mfa/backup-codes'' None x) ''Generate failed'' w of
        (Inl e, w1) \<Rightarrow> (JNull, (s\<lparr>mf_error := Some (exn_message E e)\<rparr>, w1))
      | (Inr data, w1) \<Rightarrow> (case fetchStatus E x (s, w1) of (s2, w2) \<Rightarrow>
          if nullish data then (JNull, (s2\<lparr>mf_error := Some (type_message E)\<rparr>, w2))
          else (JObj [(''codes'', js_nullish (js_opt_prop data ''codes'') (JArr [])),
                      (''generated_at'', js_nullish (js_opt_prop data ''generated_at'') (JStr stamp))], (s2, w2)))))"

definition is_platform :: "jsv \<Rightarrow> bool" where
  "is_platform c = (js_opt_prop c ''platform'' = JStr ''platform'' \<or> js_opt_prop c ''device_type'' = JStr ''platform'')"

definition platformCredentials :: "mfa_hook \<Rightarrow> jsv list" where
  "platformCredentials s = filter is_platform (mf_credentials s)"

definition crossPlatformCredentials :: "mfa_hook \<Rightarrow> jsv list" where
  "crossPlatformCredentials s = filter (\<lambda>c. js_opt_prop c ''platform'' \<noteq> JStr ''platform'' \<and>
     js_opt_prop c ''device_type'' \<noteq> JStr ''platform'') (mf_credentials s)"

section \<open>The laws of the local updates\<close>

locale keyed_list =
  fixes look :: "string \<Rightarrow> 'l \<Rightarrow> jsv option"
    and add :: "jsv \<Rightarrow> 'l \<Rightarrow> 'l"
    and rep :: "string \<Rightarrow> jsv \<Rightarrow> 'l \<Rightarrow> 'l"
    and del :: "string \<Rightarrow> 'l \<Rightarrow> 'l"
  assumes look_add: "has_id i u \<Longrightarrow> look j (add u l) = (if look j l = None \<and> j = i then Some u else look j l)"
    and look_rep: "has_id i u \<Longrightarrow> look j (rep i u l) = (if j = i \<and> look i l \<noteq> None then Some u else look j l)"
    and look_del: "look j (del i l) = (if j = i then None else look j l)"
begin

lemma del_add: "has_id i u \<Longrightarrow> look j (del i (add u l)) = look j (del i l)"
  by (simp add: look_add look_del)

lemma del_rep: "has_id i u \<Longrightarrow> look j (del i (rep i u l)) = look j (del i l)"
  by (simp add: look_rep look_del)

lemma add_after_del: "has_id i u \<Longrightarrow> look i (add u (del i l)) = Some u"
  by (simp add: look_add look_del)

lemma rep_rep: "has_id i u \<Longrightarrow> has_id i v \<Longrightarrow> look j (rep i v (rep i u l)) = look j (rep i v l)"
  by (simp add: look_rep)

end

lemma has_id_unique: "has_id i r \<Longrightarrow> has_id j r \<longleftrightarrow> j = i"
  by (auto simp: has_id_def)

interpretation hook_items: keyed_list lookup_item append_item replace_item remove_item_id
proof
  show "lookup_item j (append_item u l) = (if lookup_item j l = None \<and> j = i then Some u else lookup_item j l)"
    if "has_id i u" for i u j l
    using that by (induction l) (auto simp: lookup_item_def append_item_def has_id_unique)
  show "lookup_item j (replace_item i u l) = (if j = i \<and> lookup_item i l \<noteq> None then Some u else lookup_item j l)"
    if "has_id i u" for i u j l
    using that by (induction l) (auto simp: lookup_item_def replace_item_def has_id_unique)
  show "lookup_item j (remove_item_id i l) = (if j = i then None else lookup_item j l)" for i j l
    by (induction l) (auto simp: lookup_item_def remove_item_id_def has_id_def)
qed

section \<open>Lemmas\<close>

lemma revokeSession_cases:
  assumes "revokeSession i E x (s, w) = (ok, (s', w'))"
  shows "sent w' = sent w @ [revoke_session_request i x]"
    and "sh_sessions s' = (if ok then remove_item_id i (sh_sessions s) else sh_sessions s)"
proof -
  obtain out w1 where f: "fetch E (revoke_session_request i x) w = (out, w1)" by fastforce
  show "sent w' = sent w @ [revoke_session_request i x]"
    "sh_sessions s' = (if ok then remove_item_id i (sh_sessions s) else sh_sessions s)"
    using assms f fetch_frame(5)[OF f] by (auto simp: revokeSession_def hook_call_def split: outcome.splits if_splits)
qed

lemma remove_sub: "set (remove_item_id i ss) \<subseteq> set ss"
  by (auto simp: remove_item_id_def)

lemma revoke_each_facts:
  assumes "revoke_each is E x n (s, w) = (m, (s', w'))"
  shows "n \<le> m \<and> m \<le> n + length is \<and>
    sent w' = sent w @ map (\<lambda>i. revoke_session_request i x) is \<and>
    (\<forall>r. r \<in> set (sh_sessions s) \<and> (\<forall>i \<in> set is. \<not> has_id i r) \<longrightarrow> r \<in> set (sh_sessions s')) \<and>
    set (sh_sessions s') \<subseteq> set (sh_sessions s) \<and>
    (m = n + length is \<longrightarrow> (\<forall>r \<in> set (sh_sessions s'). \<forall>i \<in> set is. \<not> has_id i r))"
  using assms
proof (induction "is" arbitrary: n s w)
  case (Cons i "is")
  obtain ok s1 w1 where r: "revokeSession i E x (s, w) = (ok, (s1, w1))" by (metis prod.exhaust)
  note f = revokeSession_cases[OF r]
  have e: "revoke_each is E x (if ok then Suc n else n) (s1, w1) = (m, (s', w'))" using Cons.prems r by simp
  note IH = Cons.IH[OF e]
  have keep: "r' \<in> set (sh_sessions s1)" if "r' \<in> set (sh_sessions s)" "\<not> has_id i r'" for r'
    using f(2) that by (auto simp: remove_item_id_def)
  have sub: "set (sh_sessions s1) \<subseteq> set (sh_sessions s)" using f(2) remove_sub[of i] by auto
  have gone: "\<not> has_id i r'" if "ok" "r' \<in> set (sh_sessions s')" for r'
  proof -
    have "r' \<in> set (sh_sessions s1)" using IH that(2) by blast
    then show ?thesis using f(2) that(1) by (auto simp: remove_item_id_def)
  qed
  have "ok" if "m = n + length (i # is)" using IH that by (cases ok) auto
  then show ?case using IH f(1) keep sub gone by (cases ok) auto
qed simp

lemma surj3: "p = (fst p, (fst (snd p), snd (snd p)))"
  by simp

section \<open>Properties\<close>

text \<open>Revoking all other sessions spares the current one: exactly one revocation request goes out
  for every listed session that is not current, in order, and no other; no session is added; a
  session whose identifier none of them has stays listed; and if the returned count is the
  number of requests, none of the revoked sessions is listed any more.\<close>

lemma revokeAllOthers_spec:
  assumes "revokeAllOthers E x (s, w) = (m, (s', w'))"
  shows "m \<le> length (other_ids (sh_sessions s)) \<and>
    sent w' = sent w @ map (\<lambda>i. revoke_session_request i x) (other_ids (sh_sessions s)) \<and>
    set (sh_sessions s') \<subseteq> set (sh_sessions s) \<and>
    (\<forall>r \<in> set (sh_sessions s). (\<forall>i \<in> set (other_ids (sh_sessions s)). \<not> has_id i r) \<longrightarrow> r \<in> set (sh_sessions s')) \<and>
    (m = length (other_ids (sh_sessions s)) \<longrightarrow>
      (\<forall>r \<in> set (sh_sessions s'). \<forall>i \<in> set (other_ids (sh_sessions s)). \<not> has_id i r))"
  using revoke_each_facts[of "other_ids (sh_sessions s)" E x 0 s w m s' w'] assms
  by (simp add: revokeAllOthers_def)

definition demo_sessions :: sessions_hook where
  "demo_sessions = \<lparr>sh_sessions = [JObj [(''id'', JStr ''a''), (''current'', JBool True)], JObj [(''id'', JStr ''b'')]],
     sh_loading = False, sh_error = None\<rparr>"

lemma revokeAllOthers_spec_example:
  "let q = revokeAllOthers (always (Resp 200 [])) demo_ctx (demo_sessions, blank_world); o' = other_ids (sh_sessions demo_sessions) in
    fst q \<le> length o' \<and>
    sent (snd (snd q)) = sent blank_world @ map (\<lambda>i. revoke_session_request i demo_ctx) o' \<and>
    set (sh_sessions (fst (snd q))) \<subseteq> set (sh_sessions demo_sessions) \<and>
    (\<forall>r \<in> set (sh_sessions demo_sessions). (\<forall>i \<in> set o'. \<not> has_id i r) \<longrightarrow> r \<in> set (sh_sessions (fst (snd q)))) \<and>
    (fst q = length o' \<longrightarrow> (\<forall>r \<in> set (sh_sessions (fst (snd q))). \<forall>i \<in> set o'. \<not> has_id i r))"
  unfolding Let_def by (rule revokeAllOthers_spec) simp

text \<open>The separation-of-duties hook takes a server error for an empty answer: when the violations
  request is answered with a status outside 200 to 299, the hook shows no violations and no
  error, also when it showed some before.\<close>

lemma sod_error_shows_no_violations:
  assumes "truthy (hc_token x)" "fetch E (sod_rules_request x) w = (Resp st1 b1, w1)"
    and "\<not> resp_ok st1 \<or> (\<exists>kvs. json_parse b1 = Some (JObj kvs))"
    and "fetch E (sod_violations_request x) w1 = (Resp st2 b2, w2)" "\<not> resp_ok st2"
  shows "sod_violations (fst (fetchAll E x (s, w))) = [] \<and> sod_error (fst (fetchAll E x (s, w))) = None"
  using assms by (auto simp: fetchAll_def body_or_empty_def pick_def Let_def)


text \<open>A rule change of the separation-of-duties hook is visible exactly as the server made it: after
  an accepted update the rule's entry is the server's version (if it was listed), after an
  accepted deletion it is gone, and every other rule is looked up as before; a change that
  failed leaves the rules as they were.\<close>

lemma sod_changes_visible:
  assumes "sod_updateRule i input E x (s, w) = (ok1, (s1, w1))" "sod_deleteRule i E x (s, w) = (ok2, (s2, w2))"
    and "\<And>v. hook_json E (hook_request ''PATCH'' (''/api/v1/policy/sod/rules/'' @ i) (Some input) x)
           ''Failed to update SoD rule'' w = (Inr v, w1) \<Longrightarrow> has_id i v"
  shows "(if ok1 then (\<exists>v. has_id i v \<and> (\<forall>j. lookup_item j (sod_rules s1) =
             (if j = i \<and> lookup_item i (sod_rules s) \<noteq> None then Some v else lookup_item j (sod_rules s))))
          else sod_rules s1 = sod_rules s) \<and>
    (if ok2 then (\<forall>j. lookup_item j (sod_rules s2) = (if j = i then None else lookup_item j (sod_rules s)))
     else sod_rules s2 = sod_rules s)"
proof
  obtain r wr where h: "hook_json E (hook_request ''PATCH'' (''/api/v1/policy/sod/rules/'' @ i) (Some input) x)
      ''Failed to update SoD rule'' w = (r, wr)" by (metis prod.exhaust)
  show "if ok1 then (\<exists>v. has_id i v \<and> (\<forall>j. lookup_item j (sod_rules s1) =
             (if j = i \<and> lookup_item i (sod_rules s) \<noteq> None then Some v else lookup_item j (sod_rules s))))
          else sod_rules s1 = sod_rules s"
  proof (cases r)
    case (Inl e)
    then show ?thesis using assms(1) h by (auto simp: sod_updateRule_def sod_fail_def)
  next
    case (Inr v)
    then have "ok1" "sod_rules s1 = replace_item i v (sod_rules s)" "wr = w1"
      using assms(1) h by (auto simp: sod_updateRule_def)
    then show ?thesis using assms(3)[of v] h Inr hook_items.look_rep by auto
  qed
  obtain r2 wr2 where h2: "hook_call E (hook_request ''DELETE'' (''/api/v1/policy/sod/rules/'' @ i) None x)
      ''Failed to delete SoD rule'' w = (r2, wr2)" by (metis prod.exhaust)
  then show "if ok2 then (\<forall>j. lookup_item j (sod_rules s2) = (if j = i then None else lookup_item j (sod_rules s)))
     else sod_rules s2 = sod_rules s"
    using assms(2) by (cases r2) (auto simp: sod_deleteRule_def sod_fail_def hook_items.look_del)
qed

lemma sod_changes_visible_example:
  "let E = always (Resp 200 (json_stringify (JObj [(''id'', JStr ''r'')])));
       s = \<lparr>sod_rules = [JObj [(''id'', JStr ''r''), (''x'', JNum 1)]], sod_violations = [], sod_loading = False, sod_error = None\<rparr>;
       p = sod_updateRule ''r'' JNull E demo_ctx (s, blank_world); q = sod_deleteRule ''r'' E demo_ctx (s, blank_world) in
   (if fst p then (\<exists>v. has_id ''r'' v \<and> (\<forall>j. lookup_item j (sod_rules (fst (snd p))) =
             (if j = ''r'' \<and> lookup_item ''r'' (sod_rules s) \<noteq> None then Some v else lookup_item j (sod_rules s))))
          else sod_rules (fst (snd p)) = sod_rules s) \<and>
    (if fst q then (\<forall>j. lookup_item j (sod_rules (fst (snd q))) = (if j = ''r'' then None else lookup_item j (sod_rules s)))
     else sod_rules (fst (snd q)) = sod_rules s)"
  unfolding Let_def
proof (rule sod_changes_visible)
  show "has_id ''r'' v" if "hook_json (always (Resp 200 (json_stringify (JObj [(''id'', JStr ''r'')]))))
      (hook_request ''PATCH'' (''/api/v1/policy/sod/rules/'' @ ''r'') (Some JNull) demo_ctx)
      ''Failed to update SoD rule'' blank_world = (Inr v, w1)" for v w1
    using that json_stringify_clean[of "JObj [(''id'', JStr ''r'')]"]
    by (simp add: hook_json_def hook_call_def fetch_def always_def resp_ok_def has_id_def) auto
qed (rule surj3)+

text \<open>Marking all notifications as read is not undone when the server refuses it: the hook shows no
  unread notification afterwards whatever the server answered, and only the result tells
  whether it did.\<close>

lemma markAllRead_optimistic:
  "unreadCount (fst (snd (markAllRead E x (s, w)))) = 0 \<and>
   (fst (markAllRead E x (s, w)) \<longleftrightarrow>
      resp_accepted (fst (fetch E (hook_request ''POST'' ''/api/v1/notifications/read-all'' None x) w)))"
proof -
  have "js_opt_prop (mark n) ''read'' = JBool True" for n by (cases n) (simp_all add: mark_def)
  then show ?thesis
    by (auto simp: markAllRead_def optimistic_def unreadCount_def filter_empty_conv split: prod.splits)
qed

text \<open>Every credential is shown in exactly one of the two groups.\<close>

lemma credentials_partition:
  "set (platformCredentials s) \<union> set (crossPlatformCredentials s) = set (mf_credentials s) \<and>
   set (platformCredentials s) \<inter> set (crossPlatformCredentials s) = {} \<and>
   length (platformCredentials s) + length (crossPlatformCredentials s) = length (mf_credentials s)"
proof -
  have "crossPlatformCredentials s = filter (\<lambda>c. \<not> is_platform c) (mf_credentials s)"
    by (auto simp: crossPlatformCredentials_def is_platform_def intro: filter_cong)
  then show ?thesis by (auto simp: platformCredentials_def sum_length_filter_compl)
qed

end
