(* ===== verification/Sdk_Admin_Hooks.thy ===== *)
theory Sdk_Admin_Hooks
  imports Sdk_Local_Hooks
begin

text \<open>
  Further hooks of the React SDK (\<open>sdk/react/src/use*.ts\<close>): webhooks and identity-provider
  configurations (changes with reload), rate limits, correlation rules and login attempts (local
  updates), the organization tree and the permission tree.  They follow the patterns of
  \<open>Sdk_Hooks\<close> and \<open>Sdk_Local_Hooks\<close>, whose interfaces their operations interpret; what differs
  (a connection test that never fails, a body that is XML, three requests at once) is written
  out.
\<close>

section \<open>Webhooks\<close>

definition fetchWebhooks :: "'w hook_op" where
  "fetchWebhooks = fetch_list ''/api/v1/webhooks'' ''Failed to fetch webhooks'' [''webhooks'', ''items'']"

definition createWebhook :: "jsv \<Rightarrow> 'w env \<Rightarrow> hctx \<Rightarrow> list_hook \<times> 'w world \<Rightarrow> jsv \<times> (list_hook \<times> 'w world)" where
  "createWebhook input = create_with Inr (hook_request ''POST'' ''/api/v1/webhooks'' (Some input)) ''Failed to create webhook'' fetchWebhooks"

definition updateWebhook :: "string \<Rightarrow> jsv \<Rightarrow> 'w env \<Rightarrow> hctx \<Rightarrow> list_hook \<times> 'w world \<Rightarrow> bool \<times> (list_hook \<times> 'w world)" where
  "updateWebhook i input = mutate (hook_request ''PATCH'' (''/api/v1/webhooks/'' @ i) (Some input)) ''Failed to update webhook'' fetchWebhooks"

definition deleteWebhook :: "string \<Rightarrow> 'w env \<Rightarrow> hctx \<Rightarrow> list_hook \<times> 'w world \<Rightarrow> bool \<times> (list_hook \<times> 'w world)" where
  "deleteWebhook i = mutate (hook_request ''DELETE'' (''/api/v1/webhooks/'' @ i) None) ''Failed to delete webhook'' fetchWebhooks"

text \<open>The result of a test: an exception is a result too.\<close>

record test_result =
  te_success :: bool
  te_status :: jsv
  te_message :: jsv

definition testWebhook :: "string \<Rightarrow> 'w env \<Rightarrow> hctx \<Rightarrow> 'w world \<Rightarrow> test_result \<times> 'w world" where
  "testWebhook i E x w =
     (let fail = (\<lambda>e. \<lparr>te_success = False, te_status = JNum 0, te_message = JStr (exn_message E e)\<rparr>) in
      (case fetch E (hook_request ''POST'' (''/api/v1/webhooks/'' @ i @ ''/test'') None x) w of
         (NetError, w1) \<Rightarrow> (fail ExnNet, w1)
       | (Resp st body, w1) \<Rightarrow>
           (let data = (case json_parse body of None \<Rightarrow> JObj [] | Some v \<Rightarrow> v) in
            if nullish data then (fail ExnType, w1)
            else (\<lparr>te_success = resp_ok st, te_status = js_nullish (js_opt_prop data ''status_code'') (JNum st),
                   te_message = js_nullish (js_opt_prop data ''message'')
                     (JStr (if resp_ok st then ''Delivery successful'' else ''Delivery failed''))\<rparr>, w1))))"

section \<open>Identity providers\<close>

definition fetchConfigs :: "'w hook_op" where
  "fetchConfigs = fetch_list ''/api/v1/settings/idp'' ''Failed to fetch IdP configs'' [''configs'', ''items'']"

definition createConfig :: "jsv \<Rightarrow> 'w env \<Rightarrow> hctx \<Rightarrow> list_hook \<times> 'w world \<Rightarrow> jsv \<times> (list_hook \<times> 'w world)" where
  "createConfig input = create_with Inr (hook_request ''POST'' ''/api/v1/settings/idp'' (Some input)) ''Failed to create IdP config'' fetchConfigs"

definition updateConfig :: "string \<Rightarrow> jsv \<Rightarrow> 'w env \<Rightarrow> hctx \<Rightarrow> list_hook \<times> 'w world \<Rightarrow> bool \<times> (list_hook \<times> 'w world)" where
  "updateConfig i input = mutate (hook_request ''PATCH'' (''/api/v1/settings/idp/'' @ i) (Some input)) ''Failed to update IdP config'' fetchConfigs"

definition deleteConfig :: "string \<Rightarrow> 'w env \<Rightarrow> hctx \<Rightarrow> list_hook \<times> 'w world \<Rightarrow> bool \<times> (list_hook \<times> 'w world)" where
  "deleteConfig i = mutate (hook_request ''DELETE'' (''/api/v1/settings/idp/'' @ i) None) ''Failed to delete IdP config'' fetchConfigs"

definition testConnection :: "string \<Rightarrow> 'w env \<Rightarrow> hctx \<Rightarrow> 'w world \<Rightarrow> (bool \<times> jsv) \<times> 'w world" where
  "testConnection i E x w =
     (case fetch E (hook_request ''POST'' (''/api/v1/settings/idp/'' @ i @ ''/test'') None x) w of
        (NetError, w1) \<Rightarrow> ((False, JStr (exn_message E ExnNet)), w1)
      | (Resp st body, w1) \<Rightarrow> (case json_parse body of
            None \<Rightarrow> ((False, JStr (exn_message E ExnSyntax)), w1)
          | Some data \<Rightarrow>
              if nullish data then ((False, JStr (exn_message E ExnType)), w1)
              else ((resp_ok st, js_nullish (js_opt_prop data ''message'')
                 (JStr (if resp_ok st then ''Connection successful'' else ''Connection failed''))), w1)))"

definition metadata_upload :: "string \<Rightarrow> string \<Rightarrow> hctx \<Rightarrow> request" where
  "metadata_upload i xml x = \<lparr>url = hc_base x @ ''/api/v1/settings/idp/'' @ i @ ''/saml-metadata'', meth = ''POST'',
     hdrs = spread (makeHeaders x) [(''Content-Type'', ''application/xml'')], rbody = Some xml\<rparr>"

definition uploadSAMLMetadata :: "string \<Rightarrow> string \<Rightarrow> 'w env \<Rightarrow> hctx \<Rightarrow> list_hook \<times> 'w world \<Rightarrow> bool \<times> (list_hook \<times> 'w world)" where
  "uploadSAMLMetadata i xml = mutate (metadata_upload i xml) ''Metadata upload failed'' fetchConfigs"

definition metadata_download :: "string \<Rightarrow> hctx \<Rightarrow> request" where
  "metadata_download i x = \<lparr>url = hc_base x @ ''/api/v1/settings/idp/'' @ i @ ''/sp-metadata'', meth = ''GET'',
     hdrs = spread (makeHeaders x) [(''Accept'', ''application/xml'')], rbody = None\<rparr>"

definition downloadSPMetadata :: "string \<Rightarrow> 'w env \<Rightarrow> hctx \<Rightarrow> list_hook \<times> 'w world \<Rightarrow> string option \<times> (list_hook \<times> 'w world)" where
  "downloadSPMetadata i E x sw = (case sw of (s, w) \<Rightarrow>
     (case hook_call E (metadata_download i x) ''Metadata download failed'' w of
        (Inl e, w1) \<Rightarrow> (None, (hook_error E e s, w1))
      | (Inr body, w1) \<Rightarrow> (Some body, (s, w1))))"

section \<open>The organization tree\<close>

text \<open>\<open>fetchTree\<close> returns what it shows; without a token it does nothing and returns the empty list.\<close>

definition org_fetchTree :: "'w env \<Rightarrow> hctx \<Rightarrow> list_hook \<times> 'w world \<Rightarrow> jsv \<times> (list_hook \<times> 'w world)" where
  "org_fetchTree E x sw =
     (if \<not> truthy (hc_token x) then (JArr [], sw)
      else (case fetch_list ''/api/v1/orgs/tree?depth=1'' ''Failed to fetch org tree'' [''tree'', ''nodes'', ''orgs''] E x sw of
         (s, w) \<Rightarrow> (lh_items s, (s, w))))"

definition fetchChildren :: "string \<Rightarrow> 'w env \<Rightarrow> hctx \<Rightarrow> list_hook \<times> 'w world \<Rightarrow> jsv \<times> (list_hook \<times> 'w world)" where
  "fetchChildren parentId = query (pick [''children'', ''nodes'']) (JArr [])
     (hook_request ''GET'' (''/api/v1/orgs/'' @ parentId @ ''/children'') None) ''Failed to fetch children''"

definition searchNodes :: "string \<Rightarrow> 'w env \<Rightarrow> hctx \<Rightarrow> list_hook \<times> 'w world \<Rightarrow> jsv \<times> (list_hook \<times> 'w world)" where
  "searchNodes q = query (pick [''results'', ''nodes'']) (JArr [])
     (hook_request ''GET'' (''/api/v1/orgs/search?q='' @ encodeURIComponent q) None) ''Search failed''"

definition getPath :: "string \<Rightarrow> 'w env \<Rightarrow> hctx \<Rightarrow> list_hook \<times> 'w world \<Rightarrow> jsv \<times> (list_hook \<times> 'w world)" where
  "getPath nodeId = query (pick [''path'', ''nodes'']) (JArr [])
     (hook_request ''GET'' (''/api/v1/orgs/'' @ nodeId @ ''/path'') None) ''Failed to fetch path''"

section \<open>The permission tree\<close>

record tree_hook =
  tr_tree :: jsv
  tr_loading :: bool
  tr_error :: "string option"
  tr_expanded :: "jsv list"

definition pick_tree :: "jsv \<Rightarrow> exn + jsv" where
  "pick_tree data = (if nullish data then Inl ExnType
     else Inr (js_nullish (js_opt_prop data ''tree'') (js_nullish (js_opt_prop data ''nodes'') data)))"

definition perm_fetchTree :: "'w env \<Rightarrow> hctx \<Rightarrow> tree_hook \<times> 'w world \<Rightarrow> tree_hook \<times> 'w world" where
  "perm_fetchTree E x sw = (case sw of (s, w) \<Rightarrow>
     if \<not> truthy (hc_token x) then (s, w)
     else (case hook_json E (hook_request ''GET'' ''/api/v1/policy/permissions/tree'' None x) ''Failed to fetch permission tree'' w of
        (r, w1) \<Rightarrow> (case (case r of Inl e \<Rightarrow> Inl e | Inr data \<Rightarrow> pick_tree data) of
            Inl e \<Rightarrow> (s\<lparr>tr_tree := JArr [], tr_loading := False, tr_error := Some (exn_message E e)\<rparr>, w1)
          | Inr v \<Rightarrow> (s\<lparr>tr_tree := v, tr_loading := False, tr_error := None\<rparr>, w1))))"

definition toggleExpand :: "jsv \<Rightarrow> tree_hook \<Rightarrow> tree_hook" where
  "toggleExpand i s = s\<lparr>tr_expanded := (if i \<in> set (tr_expanded s) then filter (\<lambda>j. j \<noteq> i) (tr_expanded s)
     else tr_expanded s @ [i])\<rparr>"

lemma assoc_size: "assoc k kvs = Some v \<Longrightarrow> size v < Suc (size_list (size_prod (\<lambda>_. 0) size) kvs)"
  by (induction kvs) (auto split: if_splits)

text \<open>\<open>collectIds\<close>: a node that is \<open>null\<close>, or children that are not an array, raise (\<^term>\<open>None\<close>).\<close>

function collectIds :: "jsv list \<Rightarrow> jsv list option" where
  "collectIds [] = Some []"
| "collectIds (n # ns) = (case js_prop n ''id'' of None \<Rightarrow> None
     | Some i \<Rightarrow> (case js_opt_prop n ''children'' of
         JArr cs \<Rightarrow> (case collectIds cs of None \<Rightarrow> None
           | Some is \<Rightarrow> map_option (\<lambda>js. i # is @ js) (collectIds ns))
       | _ \<Rightarrow> None))"
  by pat_completeness auto

termination
proof (relation "measure (size_list size)")
  fix n :: jsv and ns cs :: "jsv list"
  assume "js_opt_prop n ''children'' = JArr cs"
  then have "size_list size cs < size n"
    by (cases n) (auto simp: js_opt_prop_def dest!: assoc_size split: option.splits if_splits)
  then show "(cs, n # ns) \<in> measure (size_list size)" by simp
qed simp_all

text \<open>\<open>new Set(ids)\<close>; an exception leaves the state as it was.\<close>

definition expandAll :: "tree_hook \<Rightarrow> tree_hook" where
  "expandAll s = (case Option.bind (case tr_tree s of JArr ns \<Rightarrow> Some ns | _ \<Rightarrow> None) collectIds of
      None \<Rightarrow> s | Some ids \<Rightarrow> s\<lparr>tr_expanded := rev (remdups (rev ids))\<rparr>)"

definition collapseAll :: "tree_hook \<Rightarrow> tree_hook" where
  "collapseAll s = s\<lparr>tr_expanded := []\<rparr>"

section \<open>Rate limits\<close>

record limits_hook =
  li_limits :: "jsv list"
  li_loading :: bool
  li_error :: "string option"

definition limits_path :: "string option \<Rightarrow> string" where
  "limits_path tenantIdFilter = ''/api/v1/policy/rate-limits?'' @
     (if present tenantIdFilter then search_params [(''tenant_id'', the tenantIdFilter)] else [])"

definition fetchLimits :: "string option \<Rightarrow> 'w env \<Rightarrow> hctx \<Rightarrow> limits_hook \<times> 'w world \<Rightarrow> limits_hook \<times> 'w world" where
  "fetchLimits tenantIdFilter E x sw = (case sw of (s, w) \<Rightarrow>
     if \<not> truthy (hc_token x) then (s, w)
     else (case hook_json E (hook_request ''GET'' (limits_path tenantIdFilter) None x) ''Failed to fetch rate limits'' w of
        (r, w1) \<Rightarrow> (case (case r of Inl e \<Rightarrow> Inl e | Inr data \<Rightarrow> pick [''limits'', ''items''] data) of
            Inl e \<Rightarrow> (\<lparr>li_limits = [], li_loading = False, li_error = Some (exn_message E e)\<rparr>, w1)
          | Inr v \<Rightarrow> (\<lparr>li_limits = arr_items v, li_loading = False, li_error = None\<rparr>, w1))))"

definition createLimit :: "jsv \<Rightarrow> 'w env \<Rightarrow> hctx \<Rightarrow> limits_hook \<times> 'w world \<Rightarrow> jsv \<times> (limits_hook \<times> 'w world)" where
  "createLimit input E x sw = (case sw of (s, w) \<Rightarrow>
     (case hook_json E (hook_request ''POST'' ''/api/v1/policy/rate-limits'' (Some input) x) ''Failed to create rate limit'' w of
        (Inl e, w1) \<Rightarrow> (JNull, (s\<lparr>li_error := Some (exn_message E e)\<rparr>, w1))
      | (Inr v, w1) \<Rightarrow> (v, (s\<lparr>li_limits := append_item v (li_limits s)\<rparr>, w1))))"

definition updateLimit :: "string \<Rightarrow> jsv \<Rightarrow> 'w env \<Rightarrow> hctx \<Rightarrow> limits_hook \<times> 'w world \<Rightarrow> bool \<times> (limits_hook \<times> 'w world)" where
  "updateLimit i input E x sw = (case sw of (s, w) \<Rightarrow>
     (case hook_json E (hook_request ''PATCH'' (''/api/v1/policy/rate-limits/'' @ i) (Some input) x) ''Failed to update rate limit'' w of
        (Inl e, w1) \<Rightarrow> (False, (s\<lparr>li_error := Some (exn_message E e)\<rparr>, w1))
      | (Inr v, w1) \<Rightarrow> (True, (s\<lparr>li_limits := replace_item i v (li_limits s)\<rparr>, w1))))"

definition deleteLimit :: "string \<Rightarrow> 'w env \<Rightarrow> hctx \<Rightarrow> limits_hook \<times> 'w world \<Rightarrow> bool \<times> (limits_hook \<times> 'w world)" where
  "deleteLimit i E x sw = (case sw of (s, w) \<Rightarrow>
     (case hook_call E (hook_request ''DELETE'' (''/api/v1/policy/rate-limits/'' @ i) None x) ''Failed to delete rate limit'' w of
        (Inl e, w1) \<Rightarrow> (False, (s\<lparr>li_error := Some (exn_message E e)\<rparr>, w1))
      | (Inr _, w1) \<Rightarrow> (True, (s\<lparr>li_limits := remove_item_id i (li_limits s)\<rparr>, w1))))"

section \<open>Event correlation\<close>

record corr_hook =
  co_rules :: "jsv list"
  co_results :: "jsv list"
  co_loading :: bool
  co_error :: "string option"

text \<open>A failed load keeps the rules that were there.\<close>

definition corr_fetchRules :: "'w env \<Rightarrow> hctx \<Rightarrow> corr_hook \<times> 'w world \<Rightarrow> corr_hook \<times> 'w world" where
  "corr_fetchRules E x sw = (case sw of (s, w) \<Rightarrow>
     if \<not> truthy (hc_token x) then (s, w)
     else (case hook_json E (hook_request ''GET'' ''/api/v1/audit/correlation/rules'' None x) ''Failed to fetch rules'' w of
        (r, w1) \<Rightarrow> (case (case r of Inl e \<Rightarrow> Inl e | Inr data \<Rightarrow> pick [''rules'', ''items''] data) of
            Inl e \<Rightarrow> (s\<lparr>co_loading := False, co_error := Some (exn_message E e)\<rparr>, w1)
          | Inr v \<Rightarrow> (s\<lparr>co_rules := arr_items v, co_loading := False, co_error := None\<rparr>, w1))))"

definition corr_createRule :: "jsv \<Rightarrow> 'w env \<Rightarrow> hctx \<Rightarrow> corr_hook \<times> 'w world \<Rightarrow> jsv \<times> (corr_hook \<times> 'w world)" where
  "corr_createRule input E x sw = (case sw of (s, w) \<Rightarrow>
     (case hook_json E (hook_request ''POST'' ''/api/v1/audit/correlation/rules'' (Some input) x) ''Failed to create rule'' w of
        (Inl e, w1) \<Rightarrow> (JNull, (s\<lparr>co_error := Some (exn_message E e)\<rparr>, w1))
      | (Inr v, w1) \<Rightarrow> (v, (s\<lparr>co_rules := append_item v (co_rules s)\<rparr>, w1))))"

definition corr_updateRule :: "string \<Rightarrow> jsv \<Rightarrow> 'w env \<Rightarrow> hctx \<Rightarrow> corr_hook \<times> 'w world \<Rightarrow> bool \<times> (corr_hook \<times> 'w world)" where
  "corr_updateRule i input E x sw = (case sw of (s, w) \<Rightarrow>
     (case hook_json E (hook_request ''PATCH'' (''/api/v1/audit/correlation/rules/'' @ i) (Some input) x) ''Failed to update rule'' w of
        (Inl e, w1) \<Rightarrow> (False, (s\<lparr>co_error := Some (exn_message E e)\<rparr>, w1))
      | (Inr v, w1) \<Rightarrow> (True, (s\<lparr>co_rules := replace_item i v (co_rules s)\<rparr>, w1))))"

definition corr_deleteRule :: "string \<Rightarrow> 'w env \<Rightarrow> hctx \<Rightarrow> corr_hook \<times> 'w world \<Rightarrow> bool \<times> (corr_hook \<times> 'w world)" where
  "corr_deleteRule i E x sw = (case sw of (s, w) \<Rightarrow>
     (case hook_call E (hook_request ''DELETE'' (''/api/v1/audit/correlation/rules/'' @ i) None x) ''Failed to delete rule'' w of
        (Inl e, w1) \<Rightarrow> (False, (s\<lparr>co_error := Some (exn_message E e)\<rparr>, w1))
      | (Inr _, w1) \<Rightarrow> (True, (s\<lparr>co_rules := remove_item_id i (co_rules s)\<rparr>, w1))))"

text \<open>\<open>correlate\<close>: a window of zero hours is left out of the request, like no window.\<close>

definition correlate :: "int option \<Rightarrow> 'w env \<Rightarrow> hctx \<Rightarrow> corr_hook \<times> 'w world \<Rightarrow> jsv \<times> (corr_hook \<times> 'w world)" where
  "correlate hours E x sw = (case sw of (s, w) \<Rightarrow>
     (case hook_json E (hook_request ''POST'' (''/api/v1/audit/correlation/analyze'' @
        (case hours of None \<Rightarrow> [] | Some h \<Rightarrow> if h = 0 then [] else ''?hours='' @ show_int h)) None x)
        ''Failed to correlate events'' w of
        (r, w1) \<Rightarrow> (case (case r of Inl e \<Rightarrow> Inl e | Inr data \<Rightarrow> map_sum id (Pair data) (pick [''groups''] data)) of
            Inl e \<Rightarrow> (JNull, (s\<lparr>co_error := Some (exn_message E e)\<rparr>, w1))
          | Inr (data, v) \<Rightarrow> (data, (s\<lparr>co_results := arr_items v\<rparr>, w1)))))"

section \<open>Login attempts\<close>

record login_hook =
  lo_attempts :: "jsv list"
  lo_lockouts :: "jsv list"
  lo_policy :: jsv
  lo_loading :: bool
  lo_error :: "string option"

text \<open>One answer of the three: skipped if it is an HTTP error, otherwise parsed and stored; the first
  exception ends the block.\<close>

definition login_part :: "outcome \<Rightarrow> (jsv \<Rightarrow> login_hook \<Rightarrow> exn + login_hook) \<Rightarrow> exn \<times> login_hook + login_hook \<Rightarrow> exn \<times> login_hook + login_hook" where
  "login_part out f acc = (case acc of Inl z \<Rightarrow> Inl z
     | Inr s \<Rightarrow> (case out of NetError \<Rightarrow> Inl (ExnNet, s)
         | Resp st body \<Rightarrow> if \<not> resp_ok st then Inr s
             else (case json_parse body of None \<Rightarrow> Inl (ExnSyntax, s)
                | Some d \<Rightarrow> (case f d s of Inl e \<Rightarrow> Inl (e, s) | Inr s' \<Rightarrow> Inr s'))))"

definition login_fetchAll :: "'w env \<Rightarrow> hctx \<Rightarrow> login_hook \<times> 'w world \<Rightarrow> login_hook \<times> 'w world" where
  "login_fetchAll E x sw = (case sw of (s, w) \<Rightarrow>
     if \<not> truthy (hc_token x) then (s, w)
     else (case fetch E (hook_request ''GET'' ''/api/v1/auth/login-attempts?limit=50'' None x) w of (o1, w1) \<Rightarrow>
       (case fetch E (hook_request ''GET'' ''/api/v1/auth/lockouts'' None x) w1 of (o2, w2) \<Rightarrow>
       (case fetch E (hook_request ''GET'' ''/api/v1/auth/login-policy'' None x) w2 of (o3, w3) \<Rightarrow>
         (let s0 = s\<lparr>lo_error := None\<rparr>;
              fail = (\<lambda>e t. (t\<lparr>lo_error := Some (exn_message E e), lo_loading := False\<rparr>, w3)) in
          if o1 = NetError \<or> o2 = NetError \<or> o3 = NetError then fail ExnNet s0
          else (case login_part o3 (\<lambda>d t. Inr (t\<lparr>lo_policy := d\<rparr>))
                (login_part o2 (\<lambda>d t. map_sum id (\<lambda>v. t\<lparr>lo_lockouts := arr_items v\<rparr>) (pick [''lockouts'', ''items''] d))
                (login_part o1 (\<lambda>d t. map_sum id (\<lambda>v. t\<lparr>lo_attempts := arr_items v\<rparr>) (pick [''attempts'', ''items''] d))
                  (Inr s0))) of
              Inl (e, t) \<Rightarrow> fail e t | Inr t \<Rightarrow> (t\<lparr>lo_loading := False\<rparr>, w3)))))))"

definition resetAttempts :: "string \<Rightarrow> 'w env \<Rightarrow> hctx \<Rightarrow> login_hook \<times> 'w world \<Rightarrow> bool \<times> (login_hook \<times> 'w world)" where
  "resetAttempts userId E x sw = (case sw of (s, w) \<Rightarrow>
     (case hook_call E (hook_request ''POST'' ''/api/v1/auth/login-attempts/reset'' (Some (JObj [(''user_id'', JStr userId)])) x)
        ''Failed to reset attempts'' w of
        (Inl e, w1) \<Rightarrow> (False, (s\<lparr>lo_error := Some (exn_message E e)\<rparr>, w1))
      | (Inr _, w1) \<Rightarrow> (True, login_fetchAll E x (s, w1))))"

definition unlock_request :: "string \<Rightarrow> hctx \<Rightarrow> request" where
  "unlock_request userId = hook_request ''POST'' (''/api/v1/auth/lockouts/'' @ userId @ ''/unlock'') None"

definition unlock :: "string \<Rightarrow> 'w env \<Rightarrow> hctx \<Rightarrow> login_hook \<times> 'w world \<Rightarrow> bool \<times> (login_hook \<times> 'w world)" where
  "unlock userId E x sw = (case sw of (s, w) \<Rightarrow>
     (case hook_call E (unlock_request userId x) ''Failed to unlock'' w of
        (Inl e, w1) \<Rightarrow> (False, (s\<lparr>lo_error := Some (exn_message E e)\<rparr>, w1))
      | (Inr _, w1) \<Rightarrow>
          (True, (s\<lparr>lo_lockouts := filter (\<lambda>l. js_opt_prop l ''user_id'' \<noteq> JStr userId) (lo_lockouts s)\<rparr>, w1))))"

definition login_updatePolicy :: "jsv \<Rightarrow> 'w env \<Rightarrow> hctx \<Rightarrow> login_hook \<times> 'w world \<Rightarrow> bool \<times> (login_hook \<times> 'w world)" where
  "login_updatePolicy p E x sw = (case sw of (s, w) \<Rightarrow>
     (case hook_json E (hook_request ''PUT'' ''/api/v1/auth/login-policy'' (Some p) x) ''Failed to update policy'' w of
        (Inl e, w1) \<Rightarrow> (False, (s\<lparr>lo_error := Some (exn_message E e)\<rparr>, w1))
      | (Inr v, w1) \<Rightarrow> (True, (s\<lparr>lo_policy := v\<rparr>, w1))))"

section \<open>Interpretations\<close>

interpretation update_webhook: refetching_list "updateWebhook i input" fetchWebhooks "hook_request ''PATCH'' (''/api/v1/webhooks/'' @ i) (Some input)" "''Failed to update webhook''" for i input
  unfolding updateWebhook_def fetchWebhooks_def by (rule refetching_mutate)

interpretation delete_webhook: refetching_list "deleteWebhook i" fetchWebhooks "hook_request ''DELETE'' (''/api/v1/webhooks/'' @ i) None" "''Failed to delete webhook''" for i
  unfolding deleteWebhook_def fetchWebhooks_def by (rule refetching_mutate)

interpretation update_config: refetching_list "updateConfig i input" fetchConfigs "hook_request ''PATCH'' (''/api/v1/settings/idp/'' @ i) (Some input)" "''Failed to update IdP config''" for i input
  unfolding updateConfig_def fetchConfigs_def by (rule refetching_mutate)

interpretation delete_config: refetching_list "deleteConfig i" fetchConfigs "hook_request ''DELETE'' (''/api/v1/settings/idp/'' @ i) None" "''Failed to delete IdP config''" for i
  unfolding deleteConfig_def fetchConfigs_def by (rule refetching_mutate)

interpretation upload_metadata: refetching_list "uploadSAMLMetadata i xml" fetchConfigs "metadata_upload i xml" "''Metadata upload failed''" for i xml
  unfolding uploadSAMLMetadata_def fetchConfigs_def by (rule refetching_mutate)

section \<open>Lemmas\<close>

text \<open>The nodes of a tree: its roots and, with a node, the nodes of its children.\<close>

inductive tree_node :: "jsv list \<Rightarrow> jsv \<Rightarrow> bool" where
  root: "n \<in> set ns \<Longrightarrow> tree_node ns n"
| below: "m \<in> set ns \<Longrightarrow> js_opt_prop m ''children'' = JArr cs \<Longrightarrow> tree_node cs n \<Longrightarrow> tree_node ns n"

lemma tree_node_Cons:
  "tree_node (m # ns) n \<longleftrightarrow> n = m \<or> (\<exists>cs. js_opt_prop m ''children'' = JArr cs \<and> tree_node cs n) \<or> tree_node ns n"
  by (subst (1 2) tree_node.simps) auto

lemma tree_node_Nil [simp]: "\<not> tree_node [] n"
  by (subst tree_node.simps) simp

lemma collectIds_nodes:
  assumes "collectIds ns = Some ids"
  shows "set ids = {js_opt_prop n ''id'' | n. tree_node ns n}"
  using assms
proof (induction ns arbitrary: ids rule: collectIds.induct)
  case (2 n ns)
  obtain i cs is1 is2 where e: "js_prop n ''id'' = Some i" "js_opt_prop n ''children'' = JArr cs" "collectIds cs = Some is1"
    "collectIds ns = Some is2" "ids = i # is1 @ is2"
    using 2(3) by (auto split: option.splits jsv.splits)
  have "set is1 = {js_opt_prop n ''id'' | n. tree_node cs n}" "set is2 = {js_opt_prop n ''id'' | n. tree_node ns n}"
    using 2(1)[OF e(1,2,3)] 2(2)[OF e(1,2,3,4)] by simp_all
  moreover have "i = js_opt_prop n ''id''" using js_prop_Some[OF e(1)] by simp
  ultimately show ?case using e by (auto simp: tree_node_Cons)
qed simp

text \<open>\<open>expandAll\<close> expands exactly the nodes of the tree, and toggling a node twice changes no
  membership.\<close>

lemma expandAll_all:
  assumes "tr_tree s = JArr ns" "collectIds ns \<noteq> None"
  shows "set (tr_expanded (expandAll s)) = {js_opt_prop n ''id'' | n. tree_node ns n}"
  using assms collectIds_nodes[of ns] by (auto simp: expandAll_def)

lemma toggleExpand_twice: "set (tr_expanded (toggleExpand i (toggleExpand i s))) = set (tr_expanded s)"
  by (auto simp: toggleExpand_def)

text \<open>Unlocking a user removes that user's lockouts and no others, exactly if the server accepted it.\<close>

lemma unlock_exact:
  assumes "unlock u E x (s, w) = (ok, (s', w'))"
  shows "(ok \<longleftrightarrow> (\<exists>st b. fst (fetch E (unlock_request u x) w) = Resp st b \<and> resp_ok st)) \<and>
    set (lo_lockouts s') = {l \<in> set (lo_lockouts s). ok \<longrightarrow> js_opt_prop l ''user_id'' \<noteq> JStr u}"
  using assms by (auto simp: unlock_def hook_call_def split: prod.splits outcome.splits if_splits)

text \<open>Loading the login attempts takes the three answers independently: an answer that is an HTTP error
  leaves its part as it was and shows no error, while the other parts are updated.\<close>

lemma login_parts_independent:
  assumes "truthy (hc_token x)"
    and "fetch E (hook_request ''GET'' ''/api/v1/auth/login-attempts?limit=50'' None x) w = (Resp st1 b1, w1)" "resp_ok st1"
    and "json_parse b1 = Some d1" "js_opt_prop d1 ''attempts'' = JArr as"
    and "fetch E (hook_request ''GET'' ''/api/v1/auth/lockouts'' None x) w1 = (Resp st2 b2, w2)" "\<not> resp_ok st2"
    and "fetch E (hook_request ''GET'' ''/api/v1/auth/login-policy'' None x) w2 = (Resp st3 b3, w3)" "resp_ok st3"
    and "json_parse b3 = Some d3"
  shows "login_fetchAll E x (s, w) =
    (s\<lparr>lo_attempts := as, lo_policy := d3, lo_loading := False, lo_error := None\<rparr>, w3)"
proof -
  have "pick [''attempts'', ''items''] d1 = Inr (JArr as)" using assms(5) by (cases d1) (simp_all add: pick_def)
  then show ?thesis using assms by (simp add: login_fetchAll_def login_part_def)
qed

end
