(* ===== verification/User_Import.thy ===== *)
theory User_Import
  imports Api_Client
begin

text \<open>
  The user import wizard (\<open>console/src/app/users/import/page.tsx\<close>): the CSV parser, the
  detection and editing of the column mapping, the validation of rows with its set of seen
  addresses, the dry run, and the import loop.  The page's rendering and the reading of the
  file are not modelled; column headers are taken not to be names of \<open>Object.prototype\<close>.
\<close>

section \<open>CSV\<close>

text \<open>The loop of \<open>parseCsvLine\<close>: \<open>q\<close> is \<open>inQuotes\<close>, \<open>cur\<close> is \<open>current\<close>.\<close>

function csv_go :: "bool \<Rightarrow> string \<Rightarrow> string \<Rightarrow> string list" where
  "csv_go q cur [] = [trim cur]"
| "csv_go q cur (c # r) =
     (if c = CHR 0x22 \<and> r \<noteq> [] \<and> hd r = CHR 0x22 then csv_go q (cur @ [CHR 0x22]) (tl r)
      else if c = CHR 0x22 then csv_go (\<not> q) cur r
      else if c = CHR '','' \<and> \<not> q then trim cur # csv_go q [] r
      else csv_go q (cur @ [c]) r)"
  by pat_completeness auto
termination by (relation "measure (\<lambda>(q, cur, s). length s)") auto

definition parseCsvLine :: "string \<Rightarrow> string list" where
  "parseCsvLine line = csv_go False [] line"

text \<open>\<open>s.split(/\r?\n/)\<close>.\<close>

definition drop_cr :: "string \<Rightarrow> string" where
  "drop_cr l = (if l \<noteq> [] \<and> last l = CHR 0x0D then butlast l else l)"

definition split_lines :: "string \<Rightarrow> string list" where
  "split_lines s = (let ls = split_on (CHR 0x0A) s in map drop_cr (butlast ls) @ [last ls])"

definition parseCsvText :: "string \<Rightarrow> string list \<times> string list list" where
  "parseCsvText text' = (case filter (\<lambda>l. trim l \<noteq> []) (split_lines (trim text')) of
     [] \<Rightarrow> ([], []) | l # ls \<Rightarrow> (parseCsvLine l, map parseCsvLine ls))"

section \<open>Mapping\<close>

type_synonym column_map = "(string \<times> string) list"

definition aliases :: "(string \<times> string list) list" where
  "aliases =
    [(''email'', [''email'', ''e-mail'', ''mail'', ''email_address'']),
     (''display_name'', [''display_name'', ''displayname'', ''name'', ''full_name'', ''fullname'']),
     (''first_name'', [''first_name'', ''firstname'', ''given_name'', ''fname'']),
     (''last_name'', [''last_name'', ''lastname'', ''family_name'', ''lname'']),
     (''phone'', [''phone'', ''phone_number'', ''tel'', ''telephone'', ''mobile'']),
     (''department'', [''department'', ''dept'', ''division'']),
     (''title'', [''title'', ''job_title'', ''position'']),
     (''role'', [''role'', ''role_name'', ''group'']),
     (''external_id'', [''external_id'', ''ext_id'', ''employee_id'', ''emp_id''])]"

definition autoDetectMapping :: "string list \<Rightarrow> column_map" where
  "autoDetectMapping headers = foldl (\<lambda>m header.
     case find (\<lambda>(field, names). trim (to_lower header) \<in> set names) aliases of
       None \<Rightarrow> m | Some (field, _) \<Rightarrow> obj_set header field m) [] headers"

definition handleMappingChange :: "string \<Rightarrow> string \<Rightarrow> column_map \<Rightarrow> column_map" where
  "handleMappingChange csvHeader fieldKey prev =
     (if fieldKey = [] then filter (\<lambda>(k, v). k \<noteq> csvHeader) prev
      else obj_set csvHeader fieldKey (filter (\<lambda>(k, v). v \<noteq> fieldKey) prev))"

section \<open>Validation\<close>

record ggid_field =
  gf_key :: string
  gf_label :: string
  gf_required :: bool

definition GGID_FIELDS :: "ggid_field list" where
  "GGID_FIELDS = map (\<lambda>(k, l, r). \<lparr>gf_key = k, gf_label = l, gf_required = r\<rparr>)
    [(''email'', ''Email'', True), (''display_name'', ''Display Name'', True), (''first_name'', ''First Name'', False),
     (''last_name'', ''Last Name'', False), (''phone'', ''Phone'', False), (''department'', ''Department'', False),
     (''title'', ''Title'', False), (''role'', ''Role'', False), (''external_id'', ''External ID'', False)]"

definition requiredFieldsMapped :: "column_map \<Rightarrow> bool" where
  "requiredFieldsMapped m = list_all (\<lambda>f. gf_key f \<in> snd ` set m) (filter gf_required GGID_FIELDS)"

text \<open>\<open>/^[^\s@]+@[^\s@]+\.[^\s@]+$/\<close>.\<close>

definition isValidEmail :: "string \<Rightarrow> bool" where
  "isValidEmail s = (list_all (\<lambda>c. \<not> is_space c) s \<and> (case split_on (CHR ''@'') s of
     [a, d] \<Rightarrow> a \<noteq> [] \<and> d \<noteq> [] \<and> CHR ''.'' \<in> set (butlast (tl d)) | _ \<Rightarrow> False))"

record row_error =
  re_row :: nat
  re_field :: string
  re_message :: string

text \<open>The object \<open>mapped\<close> (and \<open>payload\<close> of the import): the cell of every mapped column, the last
  column of a field counts.\<close>

definition mapped_fields :: "string list \<Rightarrow> string list \<Rightarrow> column_map \<Rightarrow> (string \<times> string) list" where
  "mapped_fields row headers m = foldl (\<lambda>acc (i, h).
     case assoc h m of None \<Rightarrow> acc
     | Some field \<Rightarrow> if field = [] then acc else obj_set field (if i < length row then row ! i else []) acc)
     [] (zip [0..<length headers] headers)"

definition missing_errors :: "nat \<Rightarrow> (string \<times> string) list \<Rightarrow> row_error list" where
  "missing_errors rowIndex mp =
     concat (map (\<lambda>f. if gf_required f \<and> (case assoc (gf_key f) mp of None \<Rightarrow> True | Some v \<Rightarrow> v = [] \<or> trim v = [])
       then [\<lparr>re_row = rowIndex, re_field = gf_key f, re_message = ''Missing required field: '' @ gf_label f\<rparr>] else [])
       GGID_FIELDS)"

definition validateRow ::
  "string list \<Rightarrow> string list \<Rightarrow> column_map \<Rightarrow> nat \<Rightarrow> string list \<Rightarrow> row_error list \<times> string list" where
  "validateRow row headers m rowIndex seen =
     (let mp = mapped_fields row headers m; email = item_or (assoc ''email'' mp) [];
          missing = missing_errors rowIndex mp;
          invalid = (if email \<noteq> [] \<and> \<not> isValidEmail email
                     then [\<lparr>re_row = rowIndex, re_field = ''email'', re_message = ''Invalid email: '' @ email\<rparr>] else [])
      in if email \<noteq> [] \<and> isValidEmail email then
           (if to_lower email \<in> set seen
            then (missing @ invalid @ [\<lparr>re_row = rowIndex, re_field = ''email'', re_message = ''Duplicate email: '' @ email\<rparr>], seen)
            else (missing @ invalid, to_lower email # seen))
         else (missing @ invalid, seen))"

text \<open>The rows in order, each with the set of addresses seen before it.\<close>

fun validate_rows :: "string list list \<Rightarrow> string list \<Rightarrow> column_map \<Rightarrow> nat \<Rightarrow> string list \<Rightarrow> row_error list list" where
  "validate_rows [] headers m i seen = []"
| "validate_rows (row # rows) headers m i seen = (case validateRow row headers m i seen of
     (errs, seen1) \<Rightarrow> errs # validate_rows rows headers m (Suc i) seen1)"

definition allRowErrors :: "string list \<Rightarrow> string list list \<Rightarrow> column_map \<Rightarrow> row_error list" where
  "allRowErrors headers rows m = (if headers = [] \<or> rows = [] then [] else concat (validate_rows rows headers m 2 []))"

definition getRowFieldErrors :: "string \<Rightarrow> column_map \<Rightarrow> nat \<Rightarrow> row_error list \<Rightarrow> bool" where
  "getRowFieldErrors header m rowIndex allErrors = (case assoc header m of None \<Rightarrow> False
     | Some field \<Rightarrow> field \<noteq> [] \<and> list_ex (\<lambda>e. re_row e = rowIndex \<and> re_field e = field) allErrors)"

record validation_result =
  vr_valid :: nat
  vr_errors :: nat
  vr_duplicates :: nat
  vr_errorList :: "row_error list"

definition runFullValidation :: "string list list \<Rightarrow> string list \<Rightarrow> column_map \<Rightarrow> validation_result" where
  "runFullValidation rows headers m = (let es = validate_rows rows headers m 2 [] in
     \<lparr>vr_valid = length (filter (\<lambda>e. e = []) es), vr_errors = length (concat es),
      vr_duplicates = length (filter (list_ex (\<lambda>e. str_includes (re_message e) ''Duplicate'')) es),
      vr_errorList = concat es\<rparr>)"

section \<open>Import\<close>

record import_stats =
  is_created :: nat
  is_skipped :: nat
  is_failed :: nat

definition or_undef :: "string option \<Rightarrow> jsv" where
  "or_undef v = (if present v then JStr (the v) else JUndef)"

definition import_body :: "(string \<times> string) list \<Rightarrow> jsv" where
  "import_body payload =
     (let f = (\<lambda>k. assoc k payload);
          full = trim (item_or (f ''first_name'') [] @ '' '' @ item_or (f ''last_name'') [])
      in JObj [(''username'', if present (f ''email'') then JStr (the (f ''email''))
                            else (case f ''display_name'' of None \<Rightarrow> JUndef | Some v \<Rightarrow> JStr v)),
               (''email'', case f ''email'' of None \<Rightarrow> JUndef | Some v \<Rightarrow> JStr v),
               (''display_name'', if present (f ''display_name'') then JStr (the (f ''display_name''))
                                else if full \<noteq> [] then JStr full else JUndef),
               (''phone'', or_undef (f ''phone''))])"

definition import_options :: "string list \<Rightarrow> string list \<Rightarrow> column_map \<Rightarrow> req_options" where
  "import_options row headers m = \<lparr>o_method = Some ''POST'', o_headers = [],
     o_body = Some (json_stringify (import_body (mapped_fields row headers m)))\<rparr>"

text \<open>The loop of \<open>startImport\<close> from row number \<open>i\<close>.\<close>

fun import_rows ::
  "'w env \<Rightarrow> string \<Rightarrow> string \<Rightarrow> string list list \<Rightarrow> string list \<Rightarrow> column_map \<Rightarrow> row_error list \<Rightarrow> nat \<Rightarrow>
     import_stats \<times> 'w world \<Rightarrow> import_stats \<times> 'w world" where
  "import_rows E base tenant [] headers m errs i sw = sw"
| "import_rows E base tenant (row # rows) headers m errs i (st, w) =
     (if list_ex (\<lambda>e. re_row e = i + 2) errs
      then import_rows E base tenant rows headers m errs (Suc i) (st\<lparr>is_skipped := Suc (is_skipped st)\<rparr>, w)
      else (case apiFetch E base tenant ''/api/v1/users'' (import_options row headers m) w of
         (Inl _, w1) \<Rightarrow> import_rows E base tenant rows headers m errs (Suc i) (st\<lparr>is_failed := Suc (is_failed st)\<rparr>, w1)
       | (Inr _, w1) \<Rightarrow> import_rows E base tenant rows headers m errs (Suc i) (st\<lparr>is_created := Suc (is_created st)\<rparr>, w1)))"

definition startImport ::
  "'w env \<Rightarrow> string \<Rightarrow> string \<Rightarrow> string list list \<Rightarrow> string list \<Rightarrow> column_map \<Rightarrow> 'w world \<Rightarrow> import_stats \<times> 'w world" where
  "startImport E base tenant rows headers m w =
     import_rows E base tenant rows headers m (allRowErrors headers rows m) 0
       (\<lparr>is_created = 0, is_skipped = 0, is_failed = 0\<rparr>, w)"

definition canProceed :: "string list \<Rightarrow> string list list \<Rightarrow> column_map \<Rightarrow> nat \<Rightarrow> bool" where
  "canProceed headers rows m s =
     (if s = 0 then headers \<noteq> [] \<and> rows \<noteq> [] else if s = 1 then requiredFieldsMapped m else True)"

section \<open>Lemmas\<close>

lemma length_validate_rows [simp]: "length (validate_rows rows headers m i seen) = length rows"
  by (induction rows arbitrary: i seen) (auto split: prod.splits)

lemma validateRow_rows: "e \<in> set (fst (validateRow row headers m i seen)) \<Longrightarrow> re_row e = i"
  by (auto simp: validateRow_def missing_errors_def Let_def split: if_splits)

lemma validate_rows_nth_row:
  "k < length rows \<Longrightarrow> e \<in> set (validate_rows rows headers m i seen ! k) \<Longrightarrow> re_row e = i + k"
proof (induction rows arbitrary: i seen k)
  case (Cons row rows)
  obtain errs seen1 where v: "validateRow row headers m i seen = (errs, seen1)" by fastforce
  show ?case
  proof (cases k)
    case 0
    then show ?thesis using Cons.prems v validateRow_rows[of e row headers m i seen] by simp
  next
    case (Suc k')
    then show ?thesis using Cons.IH[of k' "Suc i" seen1] Cons.prems v by simp
  qed
qed simp

lemma row_has_error_iff:
  assumes "k < length rows" "headers \<noteq> []"
  shows "list_ex (\<lambda>e. re_row e = k + 2) (allRowErrors headers rows m) \<longleftrightarrow> validate_rows rows headers m 2 [] ! k \<noteq> []"
proof
  assume "list_ex (\<lambda>e. re_row e = k + 2) (allRowErrors headers rows m)"
  then obtain e es where "re_row e = k + 2" "e \<in> set es" "es \<in> set (validate_rows rows headers m 2 [])"
    by (auto simp: allRowErrors_def list_ex_iff split: if_splits)
  then obtain j where e: "re_row e = k + 2" "j < length rows" "e \<in> set (validate_rows rows headers m 2 [] ! j)"
    by (metis in_set_conv_nth length_validate_rows)
  then have "j = k" using validate_rows_nth_row[OF e(2,3)] by simp
  then show "validate_rows rows headers m 2 [] ! k \<noteq> []" using e(3) by auto
next
  assume "validate_rows rows headers m 2 [] ! k \<noteq> []"
  then obtain e where e: "e \<in> set (validate_rows rows headers m 2 [] ! k)" by (meson list.set_sel(1))
  then have "re_row e = k + 2" using validate_rows_nth_row[OF assms(1)] by fastforce
  moreover have "e \<in> set (allRowErrors headers rows m)"
    using e assms nth_mem[of k "validate_rows rows headers m 2 []"] by (auto simp: allRowErrors_def)
  ultimately show "list_ex (\<lambda>e. re_row e = k + 2) (allRowErrors headers rows m)" by (auto simp: list_ex_iff)
qed

text \<open>The counters of the loop.\<close>

definition clean_rows :: "row_error list \<Rightarrow> nat \<Rightarrow> nat \<Rightarrow> nat" where
  "clean_rows errs i n = length (filter (\<lambda>k. \<not> list_ex (\<lambda>e. re_row e = k + 2) errs) [i..<i + n])"

lemma clean_rows_Suc:
  "clean_rows errs i (Suc n) = (if list_ex (\<lambda>e. re_row e = i + 2) errs then 0 else 1) + clean_rows errs (Suc i) n"
  by (simp add: clean_rows_def upt_conv_Cons del: upt_Suc)

lemma import_rows_counts:
  assumes "import_rows E base tenant rows headers m errs i (st, w) = (st', w')"
  shows "is_created st' + is_failed st' = is_created st + is_failed st + clean_rows errs i (length rows) \<and>
    is_skipped st' + clean_rows errs i (length rows) = is_skipped st + length rows"
  using assms
proof (induction rows arbitrary: i st w)
  case (Cons row rows)
  obtain r w1 where f: "apiFetch E base tenant ''/api/v1/users'' (import_options row headers m) w = (r, w1)" by fastforce
  show ?case
  proof (cases "list_ex (\<lambda>e. re_row e = i + 2) errs")
    case True
    then show ?thesis using Cons.IH[of "Suc i" "st\<lparr>is_skipped := Suc (is_skipped st)\<rparr>" w] Cons.prems
      by (simp add: clean_rows_Suc)
  next
    case False
    then show ?thesis
      using Cons.IH[of "Suc i" "st\<lparr>is_failed := Suc (is_failed st)\<rparr>" w1]
        Cons.IH[of "Suc i" "st\<lparr>is_created := Suc (is_created st)\<rparr>" w1] Cons.prems f
      by (cases r) (simp_all add: clean_rows_Suc)
  qed
qed (simp add: clean_rows_def)

text \<open>Addresses seen so far are never accepted again.\<close>

definition row_email :: "string list \<Rightarrow> string list \<Rightarrow> column_map \<Rightarrow> string" where
  "row_email row headers m = item_or (assoc ''email'' (mapped_fields row headers m)) []"

lemma missing_email:
  assumes "missing_errors i mp = []"
  shows "item_or (assoc ''email'' mp) [] \<noteq> []"
  using assms by (auto simp: missing_errors_def GGID_FIELDS_def item_or_def split: option.splits if_splits)

lemma validateRow_ok:
  assumes "validateRow row headers m i seen = ([], seen')"
  shows "isValidEmail (row_email row headers m)" "to_lower (row_email row headers m) \<notin> set seen"
    "set seen' = insert (to_lower (row_email row headers m)) (set seen)"
proof -
  have "missing_errors i (mapped_fields row headers m) = []"
    using assms by (auto simp: validateRow_def Let_def split: if_splits)
  then have "row_email row headers m \<noteq> []" unfolding row_email_def by (rule missing_email)
  then show "isValidEmail (row_email row headers m)" "to_lower (row_email row headers m) \<notin> set seen"
    "set seen' = insert (to_lower (row_email row headers m)) (set seen)"
    using assms by (auto simp: validateRow_def Let_def row_email_def[symmetric] split: if_splits)
qed

lemma validateRow_seen: "set seen \<subseteq> set (snd (validateRow row headers m i seen))"
  by (auto simp: validateRow_def Let_def)

lemma accepted_fresh:
  "k < length rows \<Longrightarrow> validate_rows rows headers m i seen ! k = [] \<Longrightarrow>
     isValidEmail (row_email (rows ! k) headers m) \<and> to_lower (row_email (rows ! k) headers m) \<notin> set seen"
proof (induction rows arbitrary: i seen k)
  case (Cons row rows)
  obtain errs seen1 where v: "validateRow row headers m i seen = (errs, seen1)" by fastforce
  show ?case
  proof (cases k)
    case 0
    then show ?thesis using Cons.prems v validateRow_ok[of row headers m i seen seen1] by simp
  next
    case (Suc k')
    then have "to_lower (row_email (rows ! k') headers m) \<notin> set seen1 \<and> isValidEmail (row_email (rows ! k') headers m)"
      using Cons.IH[of k' "Suc i" seen1] Cons.prems v by simp
    then show ?thesis using Suc validateRow_seen[of seen row headers m i] v by auto
  qed
qed simp

lemma accepted_distinct:
  "j < k \<Longrightarrow> k < length rows \<Longrightarrow> validate_rows rows headers m i seen ! j = [] \<Longrightarrow>
     validate_rows rows headers m i seen ! k = [] \<Longrightarrow>
     to_lower (row_email (rows ! j) headers m) \<noteq> to_lower (row_email (rows ! k) headers m)"
proof (induction rows arbitrary: i seen j k)
  case (Cons row rows)
  obtain errs seen1 where v: "validateRow row headers m i seen = (errs, seen1)" by fastforce
  obtain k' where k: "k = Suc k'" using Cons.prems(1) by (cases k) auto
  show ?case
  proof (cases j)
    case 0
    then have "to_lower (row_email row headers m) \<in> set seen1"
      using Cons.prems v validateRow_ok(3)[of row headers m i seen seen1] by simp
    moreover have "to_lower (row_email (rows ! k') headers m) \<notin> set seen1"
      using accepted_fresh[of k' rows headers m "Suc i" seen1] Cons.prems k v by simp
    ultimately show ?thesis using 0 k by auto
  next
    case (Suc j')
    then show ?thesis using Cons.IH[of j' k' "Suc i" seen1] Cons.prems k v by simp
  qed
qed simp

text \<open>Quoted fields: a field without quotes, not empty, between quotes.\<close>

definition quoted :: "string \<Rightarrow> string" where
  "quoted f = CHR 0x22 # f @ [CHR 0x22]"

lemma csv_go_inside:
  assumes "CHR 0x22 \<notin> set f" "r = [] \<or> hd r \<noteq> CHR 0x22"
  shows "csv_go True cur (f @ CHR 0x22 # r) = csv_go False (cur @ f) r"
  using assms
proof (induction f arbitrary: cur)
  case (Cons c f)
  then have "c \<noteq> CHR 0x22" by auto
  with Cons show ?case by simp
qed auto

lemma csv_go_quoted:
  assumes "CHR 0x22 \<notin> set f" "f \<noteq> []" "r = [] \<or> hd r = CHR '',''"
  shows "csv_go False [] (quoted f @ r) = csv_go False f r"
proof -
  have "hd (f @ CHR 0x22 # r) \<noteq> CHR 0x22" using assms(1,2) by (cases f) auto
  moreover have "r = [] \<or> hd r \<noteq> CHR 0x22" using assms(3) by auto
  ultimately show ?thesis using csv_go_inside[OF assms(1), of r "[]"] by (simp add: quoted_def)
qed

text \<open>A line of such fields with a rest that is empty or starts with a comma.\<close>

lemma parse_quoted_fields:
  assumes "fs \<noteq> []" "\<And>f. f \<in> set fs \<Longrightarrow> f \<noteq> [] \<and> CHR 0x22 \<notin> set f" "r = [] \<or> hd r = CHR '',''"
  shows "csv_go False [] (join_on (CHR '','') (map quoted fs) @ r) =
    map trim (butlast fs) @ csv_go False (last fs) r"
  using assms
proof (induction fs)
  case (Cons f fs)
  show ?case
  proof (cases fs)
    case Nil
    then show ?thesis using Cons.prems csv_go_quoted[of f r] by simp
  next
    case (Cons g gs)
    have "csv_go False [] (quoted f @ CHR '','' # join_on (CHR '','') (map quoted fs) @ r) =
        csv_go False f (CHR '','' # join_on (CHR '','') (map quoted fs) @ r)"
      using Cons.prems(2) by (intro csv_go_quoted) auto
    then show ?thesis using Cons.IH Cons.prems Cons by simp
  qed
qed simp

lemma assoc_filter_value: "assoc k (filter (\<lambda>(k, v). v \<noteq> f) m) \<noteq> Some f"
  by (induction m) (auto split: if_splits)

lemma assoc_filter_keep: "assoc k m \<noteq> Some f \<Longrightarrow> assoc k (filter (\<lambda>(k, v). v \<noteq> f) m) = assoc k m"
  by (induction m) (auto split: if_splits)

lemma length_filter_nth: "length (filter P xs) = length (filter (\<lambda>k. P (xs ! k)) [0..<length xs])"
proof -
  have "filter P xs = map ((!) xs) (filter (P \<circ> (!) xs) [0..<length xs])"
    by (metis filter_map map_nth)
  then show ?thesis by (simp add: comp_def)
qed

section \<open>Properties\<close>

text \<open>The import accounts for every row, and the dry run predicts it: the rows created, skipped and
  failed add up to all rows, and exactly as many rows are sent to the server (created or
  failed) as the dry run counted as valid.\<close>

lemma import_matches_dry_run:
  assumes "startImport E base tenant rows headers m w = (st, w')" "headers \<noteq> []"
  shows "is_created st + is_skipped st + is_failed st = length rows \<and>
    is_created st + is_failed st = vr_valid (runFullValidation rows headers m)"
proof -
  let ?errs = "allRowErrors headers rows m" and ?v = "validate_rows rows headers m 2 []"
  have c: "is_created st + is_failed st = clean_rows ?errs 0 (length rows) \<and>
      is_skipped st + clean_rows ?errs 0 (length rows) = length rows"
    using import_rows_counts assms(1) unfolding startImport_def by fastforce
  have "filter (\<lambda>k. \<not> list_ex (\<lambda>e. re_row e = k + 2) ?errs) [0..<length rows] = filter (\<lambda>k. ?v ! k = []) [0..<length rows]"
    using row_has_error_iff[OF _ assms(2)] by (intro filter_cong) auto
  then have "clean_rows ?errs 0 (length rows) = length (filter (\<lambda>e. e = []) ?v)"
    using length_filter_nth[of "\<lambda>e. e = []" ?v] by (simp add: clean_rows_def)
  then show ?thesis using c by (simp add: runFullValidation_def Let_def)
qed

definition demo_rows :: "string list list" where
  "demo_rows = [[''a@b.c'', ''A''], [''x'', []], [''d@b.c'', ''D'']]"

definition demo_headers :: "string list" where
  "demo_headers = [''email'', ''name'']"

lemma import_matches_dry_run_example:
  "let q = startImport (always NetError) ''b'' ''t'' demo_rows demo_headers (autoDetectMapping demo_headers) blank_world in
   is_created (fst q) + is_skipped (fst q) + is_failed (fst q) = length demo_rows \<and>
   is_created (fst q) + is_failed (fst q) = vr_valid (runFullValidation demo_rows demo_headers (autoDetectMapping demo_headers))"
  unfolding Let_def
proof (rule import_matches_dry_run)
  let ?q = "startImport (always NetError) ''b'' ''t'' demo_rows demo_headers (autoDetectMapping demo_headers) blank_world"
  show "?q = (fst ?q, snd ?q)" by simp
qed (simp add: demo_headers_def)

text \<open>Validation lets no address through twice: two different rows without errors have valid
  addresses that differ also when upper and lower case are ignored.\<close>

lemma valid_rows_distinct:
  assumes "j < k" "k < length rows"
    and "validate_rows rows headers m 2 [] ! j = []" "validate_rows rows headers m 2 [] ! k = []"
  shows "isValidEmail (row_email (rows ! j) headers m) \<and> isValidEmail (row_email (rows ! k) headers m) \<and>
    to_lower (row_email (rows ! j) headers m) \<noteq> to_lower (row_email (rows ! k) headers m)"
  using accepted_fresh[of j rows headers m 2 "[]"] accepted_fresh[of k rows headers m 2 "[]"]
    accepted_distinct[OF assms] assms by simp

lemma valid_rows_distinct_example:
  "isValidEmail (row_email (demo_rows ! 0) demo_headers (autoDetectMapping demo_headers)) \<and>
   isValidEmail (row_email (demo_rows ! 2) demo_headers (autoDetectMapping demo_headers)) \<and>
   to_lower (row_email (demo_rows ! 0) demo_headers (autoDetectMapping demo_headers)) \<noteq>
   to_lower (row_email (demo_rows ! 2) demo_headers (autoDetectMapping demo_headers))"
  by (rule valid_rows_distinct) code_simp+

text \<open>Quoted fields are read back: a line of quoted, comma-separated fields, each not empty and
  without a quote of its own (commas allowed), parses to the trimmed fields.  A quoted empty
  field after them does not: it is read as a single quote character.\<close>

lemma parseCsvLine_quoted:
  assumes "fs \<noteq> []" "\<And>f. f \<in> set fs \<Longrightarrow> f \<noteq> [] \<and> CHR 0x22 \<notin> set f"
  shows "parseCsvLine (join_on (CHR '','') (map quoted fs)) = map trim fs \<and>
    parseCsvLine (join_on (CHR '','') (map quoted fs) @ CHR '','' # quoted []) = map trim fs @ [[CHR 0x22]]"
proof -
  have m: "map trim (butlast fs) @ [trim (last fs)] = map trim fs"
    using assms(1) by (metis append_butlast_last_id list.simps(8,9) map_append)
  have "trim [CHR 0x22] = [CHR 0x22]" by code_simp
  then show ?thesis
    using parse_quoted_fields[OF assms, of "[]"] parse_quoted_fields[OF assms, of "CHR '','' # quoted []"] m
    by (simp add: parseCsvLine_def quoted_def)
qed

lemma parseCsvLine_quoted_example:
  "parseCsvLine (join_on (CHR '','') (map quoted [''Doe, J'', ''x''])) = map trim [''Doe, J'', ''x''] \<and>
   parseCsvLine (join_on (CHR '','') (map quoted [''Doe, J'', ''x'']) @ CHR '','' # quoted []) =
     map trim [''Doe, J'', ''x''] @ [[CHR 0x22]]"
  by (rule parseCsvLine_quoted) auto

text \<open>Editing the mapping keeps it one-to-one: after a column is assigned to a field, that column and
  no other is mapped to the field, and a column of another field keeps it.\<close>

lemma handleMappingChange_exclusive:
  assumes "f \<noteq> []"
  shows "(assoc k (handleMappingChange h f m) = Some f \<longleftrightarrow> k = h) \<and>
    (k \<noteq> h \<and> assoc k m \<noteq> Some f \<longrightarrow> assoc k (handleMappingChange h f m) = assoc k m)"
  using assms assoc_filter_value[of k f m] assoc_filter_keep[of k m f] by (auto simp: handleMappingChange_def)


end
