(* ===== verification/Role_Matrix.thy ===== *)
theory Role_Matrix
  imports Api_Client
begin

text \<open>
  The role-permission matrix page (\<open>console/src/app/roles/matrix/page.tsx\<close>): loading the roles
  and their permissions, the order of the rows by inheritance, the inherited permissions, cell
  toggling, the dirty check, saving and the bulk assignment.  A \<open>Set\<close> is the list of its
  elements in insertion order.  The loop that follows the parents of a role is a partial
  function: \<^term>\<open>None\<close> means that it does not end.  The parallel requests of one handler are
  run one after the other, in the order they are started.  The flag \<open>saving\<close>, which is false before and
  after a save, is left out.
\<close>

section \<open>Data\<close>

record mrole =
  mr_id :: string
  mr_parent :: "string option"
  mr_name :: string

type_synonym matrix = "(string \<times> jsv list) list"

definition perms_of :: "matrix \<Rightarrow> string \<Rightarrow> jsv list" where
  "perms_of m r = (case assoc r m of None \<Rightarrow> [] | Some ps \<Rightarrow> ps)"

definition set_add :: "jsv \<Rightarrow> jsv list \<Rightarrow> jsv list" where
  "set_add p s = (if p \<in> set s then s else s @ [p])"

text \<open>\<open>new Map(roles.map(r => [r.id, r])).get(id)\<close>: the last role of an identifier.\<close>

definition role_get :: "mrole list \<Rightarrow> string \<Rightarrow> mrole option" where
  "role_get roles i = find (\<lambda>r. mr_id r = i) (rev roles)"

definition parent_of :: "mrole list \<Rightarrow> string \<Rightarrow> string option" where
  "parent_of roles i = (case role_get roles i of None \<Rightarrow> None | Some r \<Rightarrow> mr_parent r)"

record matrix_page =
  mp_roles :: "mrole list"
  mp_permissions :: "jsv list"
  mp_matrix :: matrix
  mp_original :: matrix
  mp_loading :: bool
  mp_error :: "string option"
  mp_msg :: "string option"

section \<open>Loading\<close>

definition role_of :: "jsv \<Rightarrow> mrole" where
  "role_of v = \<lparr>mr_id = js_to_string (js_opt_prop v ''id''),
     mr_parent = (case js_opt_prop v ''parent_role_id'' of JStr s \<Rightarrow> Some s | _ \<Rightarrow> None),
     mr_name = (case js_opt_prop v ''name'' of JStr s \<Rightarrow> s | _ \<Rightarrow> [])\<rparr>"

text \<open>\<open>apiFetch(path).catch(() => ({ key: [] }))\<close>, then \<open>resp.key || resp.items || []\<close>: \<^term>\<open>None\<close> is the
  \<open>TypeError\<close> of a body that is \<open>null\<close> or whose list is not an array.\<close>

definition load_list ::
  "'w env \<Rightarrow> string \<Rightarrow> string \<Rightarrow> string \<Rightarrow> string \<Rightarrow> 'w world \<Rightarrow> jsv list option \<times> 'w world" where
  "load_list E base tenant path key w = (case apiFetch E base tenant path no_options w of
      (Inl _, w1) \<Rightarrow> (Some [], w1)
    | (Inr data, w1) \<Rightarrow>
        (if nullish data then None
         else (case js_or (js_or (js_opt_prop data key) (js_opt_prop data ''items'')) (JArr []) of
            JArr vs \<Rightarrow> Some vs | _ \<Rightarrow> None), w1))"

text \<open>The permissions of one role; a failed request, or a body that is not as expected, gives the
  empty set.\<close>

definition permission_set :: "jsv \<Rightarrow> jsv list" where
  "permission_set data =
     (if nullish data then []
      else (case js_or (js_opt_prop data ''permissions'') (JArr []) of
         JArr ps \<Rightarrow> (if list_ex nullish ps then [] else foldl (\<lambda>s p. set_add (js_opt_prop p ''id'') s) [] ps)
       | _ \<Rightarrow> []))"

definition role_path :: "string \<Rightarrow> string" where
  "role_path i = ''/api/v1/roles/'' @ i @ ''/permissions''"

definition load_role :: "'w env \<Rightarrow> string \<Rightarrow> string \<Rightarrow> string \<Rightarrow> 'w world \<Rightarrow> jsv list \<times> 'w world" where
  "load_role E base tenant i w = (case apiFetch E base tenant (role_path i) no_options w of
      (Inl _, w1) \<Rightarrow> ([], w1) | (Inr data, w1) \<Rightarrow> (permission_set data, w1))"

fun load_matrix :: "'w env \<Rightarrow> string \<Rightarrow> string \<Rightarrow> mrole list \<Rightarrow> matrix \<Rightarrow> 'w world \<Rightarrow> matrix \<times> 'w world" where
  "load_matrix E base tenant [] m w = (m, w)"
| "load_matrix E base tenant (r # rs) m w = (case load_role E base tenant (mr_id r) w of
     (ps, w1) \<Rightarrow> load_matrix E base tenant rs (obj_set (mr_id r) ps m) w1)"

definition loadData :: "'w env \<Rightarrow> string \<Rightarrow> string \<Rightarrow> matrix_page \<times> 'w world \<Rightarrow> matrix_page \<times> 'w world" where
  "loadData E base tenant pw = (case pw of (p, w) \<Rightarrow>
     (case load_list E base tenant ''/api/v1/roles'' ''roles'' w of (rl, w1) \<Rightarrow>
     (case load_list E base tenant ''/api/v1/permissions'' ''permissions'' w1 of (pl, w2) \<Rightarrow>
       (case (rl, pl) of
          (Some rs, Some ps) \<Rightarrow>
            (let roles = map role_of rs in
             (case load_matrix E base tenant roles [] w2 of (m, w3) \<Rightarrow>
                (p\<lparr>mp_roles := roles, mp_permissions := ps, mp_matrix := m, mp_original := m,
                   mp_loading := False, mp_error := None\<rparr>, w3)))
        | _ \<Rightarrow> (p\<lparr>mp_loading := False, mp_error := Some (type_message E)\<rparr>, w2)))))"

section \<open>Inheritance\<close>

lemma role_get_id: "role_get roles i = Some r \<Longrightarrow> r \<in> set roles \<and> mr_id r = i"
  by (auto simp: role_get_def find_Some_iff in_set_conv_nth) (metis length_rev nth_mem set_rev in_set_conv_nth)

text \<open>\<open>visit\<close> of \<open>inheritanceChain\<close>: the visited set and the chain are threaded through.\<close>

function visit :: "mrole list \<Rightarrow> string \<Rightarrow> string list \<times> string list \<Rightarrow> string list \<times> string list" where
  "visit roles i (visited, chain) =
     (if i \<in> set visited then (visited, chain)
      else (case (if present (parent_of roles i) then visit roles (the (parent_of roles i)) (i # visited, chain)
                  else (i # visited, chain)) of
         (v2, c2) \<Rightarrow> (v2, c2 @ [i])))"
  by pat_completeness auto

termination
proof (relation "measure (\<lambda>(roles, i, visited, chain). card (mr_id ` set roles - set visited))")
  fix roles :: "mrole list" and i :: string and visited chain :: "string list"
  assume a: "i \<notin> set visited" "present (parent_of roles i)"
  then obtain r where "role_get roles i = Some r"
    by (auto simp: parent_of_def present_def split: option.splits)
  then have "i \<in> mr_id ` set roles" using role_get_id by fastforce
  then have "mr_id ` set roles - set (i # visited) \<subset> mr_id ` set roles - set visited" using a(1) by auto
  then show "((roles, the (parent_of roles i), i # visited, chain), roles, i, visited, chain) \<in>
      measure (\<lambda>(roles, i, visited, chain). card (mr_id ` set roles - set visited))"
    by (simp add: psubset_card_mono)
qed simp

definition inheritanceChain :: "mrole list \<Rightarrow> string list" where
  "inheritanceChain roles = snd (foldl (\<lambda>vc r. visit roles (mr_id r) vc) ([], []) roles)"

definition orderedRoles :: "mrole list \<Rightarrow> mrole list" where
  "orderedRoles roles = List.map_filter (role_get roles) (inheritanceChain roles)"

text \<open>The body of the loop of \<open>inheritedPerms\<close> for one parent, and the loop.\<close>

definition add_inherited :: "matrix \<Rightarrow> string \<Rightarrow> string \<Rightarrow> jsv list \<Rightarrow> jsv list" where
  "add_inherited m rid pid acc = foldl (\<lambda>s p. if p \<notin> set (perms_of m rid) then set_add p s else s) acc (perms_of m pid)"

partial_function (option) inherit_from ::
  "mrole list \<Rightarrow> matrix \<Rightarrow> string \<Rightarrow> string option \<Rightarrow> jsv list \<Rightarrow> jsv list option" where
  "inherit_from roles m rid pid acc =
     (if \<not> present pid then Some acc
      else inherit_from roles m rid (parent_of roles (the pid)) (add_inherited m rid (the pid) acc))"

definition inherited_of :: "mrole list \<Rightarrow> matrix \<Rightarrow> mrole \<Rightarrow> jsv list option" where
  "inherited_of roles m r = inherit_from roles m (mr_id r) (mr_parent r) []"

fun inherited_each :: "mrole list \<Rightarrow> matrix \<Rightarrow> mrole list \<Rightarrow> matrix \<Rightarrow> matrix option" where
  "inherited_each roles m [] result = Some result"
| "inherited_each roles m (r # rs) result = (case inherited_of roles m r of None \<Rightarrow> None
     | Some inh \<Rightarrow> inherited_each roles m rs (obj_set (mr_id r) inh result))"

definition inheritedPerms :: "mrole list \<Rightarrow> matrix \<Rightarrow> matrix option" where
  "inheritedPerms roles m = inherited_each roles m roles []"

section \<open>Editing and saving\<close>

definition toggleCell :: "string \<Rightarrow> jsv \<Rightarrow> bool \<Rightarrow> matrix_page \<Rightarrow> matrix_page" where
  "toggleCell roleId permId isInherited p =
     (if isInherited then p
      else (let cur = perms_of (mp_matrix p) roleId in
        p\<lparr>mp_matrix := obj_set roleId
            (if permId \<in> set cur then filter (\<lambda>q. q \<noteq> permId) cur else set_add permId cur) (mp_matrix p)\<rparr>))"

definition differs :: "jsv list \<Rightarrow> jsv list \<Rightarrow> bool" where
  "differs orig cur =
     (length orig \<noteq> length cur \<or> list_ex (\<lambda>p. p \<notin> set orig) cur \<or> list_ex (\<lambda>p. p \<notin> set cur) orig)"

definition isDirty :: "matrix_page \<Rightarrow> bool" where
  "isDirty p = list_ex (\<lambda>(r, _). differs (perms_of (mp_original p) r) (perms_of (mp_matrix p) r)) (mp_matrix p)"

definition changedRoles :: "matrix_page \<Rightarrow> mrole list" where
  "changedRoles p = filter (\<lambda>r. differs (perms_of (mp_original p) (mr_id r)) (perms_of (mp_matrix p) (mr_id r)))
     (orderedRoles (mp_roles p))"

definition put_options :: "jsv list \<Rightarrow> req_options" where
  "put_options ps = \<lparr>o_method = Some ''PUT'', o_headers = [],
     o_body = Some (json_stringify (JObj [(''permission_ids'', JArr ps)]))\<rparr>"

text \<open>The requests of one save; the first of the errors, in the order of the roles, is reported.\<close>

fun put_roles :: "'w env \<Rightarrow> string \<Rightarrow> string \<Rightarrow> matrix \<Rightarrow> mrole list \<Rightarrow> 'w world \<Rightarrow> api_exn option \<times> 'w world" where
  "put_roles E base tenant m [] w = (None, w)"
| "put_roles E base tenant m (r # rs) w =
     (case apiFetch E base tenant (role_path (mr_id r)) (put_options (perms_of m (mr_id r))) w of
        (res, w1) \<Rightarrow> (case put_roles E base tenant m rs w1 of (err, w2) \<Rightarrow>
          (case res of Inl e \<Rightarrow> (Some e, w2) | Inr _ \<Rightarrow> (err, w2))))"

definition handleSave :: "'w env \<Rightarrow> string \<Rightarrow> string \<Rightarrow> matrix_page \<times> 'w world \<Rightarrow> matrix_page \<times> 'w world" where
  "handleSave E base tenant pw = (case pw of (p, w) \<Rightarrow>
     (let ch = changedRoles p in
      (case put_roles E base tenant (mp_matrix p) ch w of
         (Some e, w1) \<Rightarrow> (p\<lparr>mp_error := Some (api_exn_message E e)\<rparr>, w1)
       | (None, w1) \<Rightarrow> (p\<lparr>mp_original := mp_matrix p, mp_error := None,
            mp_msg := Some (''Saved permissions for '' @ show_nat (length ch) @ '' role(s)'')\<rparr>, w1))))"

definition PERMISSION_GROUPS :: "(string \<times> string list) list" where
  "PERMISSION_GROUPS =
    [(''Identity'', [''users.create'', ''users.read'', ''users.update'', ''users.delete'', ''roles.create'', ''roles.read'']),
     (''Policy'', [''policies.create'', ''policies.read'', ''policies.update'']),
     (''OAuth'', [''clients.create'', ''clients.read'', ''tokens.revoke'']),
     (''Audit'', [''audit.read'', ''audit.export''])]"

text \<open>\<open>permByKey.get(key)?.id\<close>: the last permission of a key.\<close>

definition permByKey :: "jsv list \<Rightarrow> string \<Rightarrow> jsv" where
  "permByKey permissions key = (case find (\<lambda>p. js_opt_prop p ''key'' = JStr key) (rev permissions) of
      None \<Rightarrow> JUndef | Some p \<Rightarrow> js_opt_prop p ''id'')"

text \<open>\<open>roles.find(r => r.id === bulkRole)?.name || bulkRole\<close>.\<close>

definition shown_name :: "mrole list \<Rightarrow> string \<Rightarrow> string" where
  "shown_name roles i = (case find (\<lambda>r. mr_id r = i) roles of
      None \<Rightarrow> i | Some r \<Rightarrow> if mr_name r = [] then i else mr_name r)"

definition handleBulkApply :: "string \<Rightarrow> string \<Rightarrow> matrix_page \<Rightarrow> matrix_page" where
  "handleBulkApply bulkRole bulkGroup p =
     (if bulkRole = [] \<or> bulkGroup = [] then p
      else (case assoc bulkGroup PERMISSION_GROUPS of None \<Rightarrow> p
        | Some keys \<Rightarrow>
            (let permIds = filter truthy (map (permByKey (mp_permissions p)) keys) in
             p\<lparr>mp_matrix := obj_set bulkRole (foldl (\<lambda>s i. set_add i s) (perms_of (mp_matrix p) bulkRole) permIds) (mp_matrix p),
               mp_msg := Some (''Applied all '' @ bulkGroup @ '' permissions to '' @ shown_name (mp_roles p) bulkRole)\<rparr>)))"

section \<open>Lemmas\<close>

lemma perms_of_set [simp]: "perms_of (obj_set r ps m) r' = (if r' = r then ps else perms_of m r')"
  by (simp add: perms_of_def)

lemma set_set_add [simp]: "set (set_add p s) = insert p (set s)"
  by (auto simp: set_add_def)

lemma differs_refl [simp]: "\<not> differs s s"
  by (simp add: differs_def list_ex_iff)

lemma set_add_inherited: "set (add_inherited m rid pid acc) = set acc \<union> (set (perms_of m pid) - set (perms_of m rid))"
proof -
  have "set (foldl (\<lambda>s p. if p \<notin> set (perms_of m rid) then set_add p s else s) acc ps) =
      set acc \<union> (set ps - set (perms_of m rid))" for ps
    by (induction ps arbitrary: acc) auto
  then show ?thesis by (simp add: add_inherited_def)
qed

subsection \<open>Ancestors\<close>

inductive ancestor :: "mrole list \<Rightarrow> string option \<Rightarrow> string \<Rightarrow> bool" for roles where
  here: "p \<noteq> [] \<Longrightarrow> ancestor roles (Some p) p"
| up: "p \<noteq> [] \<Longrightarrow> ancestor roles (parent_of roles p) a \<Longrightarrow> ancestor roles (Some p) a"

inductive_cases ancestorE: "ancestor roles pid a"

lemma ancestor_iff: "ancestor roles pid a \<longleftrightarrow>
    present pid \<and> (a = the pid \<or> ancestor roles (parent_of roles (the pid)) a)"
  by (cases pid) (auto simp: present_def intro: ancestor.intros elim: ancestorE)

text \<open>A closed cycle of parents: every member has a parent among the members.\<close>

definition cyclic :: "mrole list \<Rightarrow> string set \<Rightarrow> bool" where
  "cyclic roles C = (\<forall>i \<in> C. present (parent_of roles i) \<and> the (parent_of roles i) \<in> C)"

text \<open>A rank that decreases from every role to its parent: the parents form no cycle.\<close>

definition ranked :: "mrole list \<Rightarrow> (string \<Rightarrow> nat) \<Rightarrow> bool" where
  "ranked roles rk = (\<forall>i. present (parent_of roles i) \<longrightarrow> rk (the (parent_of roles i)) < rk i)"

lemma inherit_from_cycle:
  assumes "inherit_from roles m rid pid acc = Some res"
  shows "cyclic roles C \<longrightarrow> present pid \<longrightarrow> the pid \<notin> C"
proof (rule inherit_from.raw_induct
    [where P = "\<lambda>roles m rid pid acc res. cyclic roles C \<longrightarrow> present pid \<longrightarrow> the pid \<notin> C", OF _ assms])
  fix f :: "mrole list \<Rightarrow> matrix \<Rightarrow> string \<Rightarrow> string option \<Rightarrow> jsv list \<Rightarrow> jsv list option"
    and roles m rid pid acc res
  assume IH: "\<And>roles m rid pid acc res. f roles m rid pid acc = Some res \<Longrightarrow>
      cyclic roles C \<longrightarrow> present pid \<longrightarrow> the pid \<notin> C"
    and body: "(if \<not> present pid then Some acc
      else f roles m rid (parent_of roles (the pid)) (add_inherited m rid (the pid) acc)) = Some res"
  show "cyclic roles C \<longrightarrow> present pid \<longrightarrow> the pid \<notin> C"
    using IH[of roles m rid "parent_of roles (the pid)"] body by (auto simp: cyclic_def split: if_splits)
qed

lemma inherit_from_ranked:
  assumes "ranked roles rk"
  shows "\<exists>res. inherit_from roles m rid pid acc = Some res \<and>
    set res = set acc \<union> ({p. \<exists>a. ancestor roles pid a \<and> p \<in> set (perms_of m a)} - set (perms_of m rid))"
proof (induction "rk (the pid)" arbitrary: pid acc rule: less_induct)
  case less
  show ?case
  proof (cases "present pid")
    case False
    then have "\<not> ancestor roles pid a" for a by (subst ancestor_iff) simp
    then show ?thesis using False by (simp add: inherit_from.simps[of roles m rid pid])
  next
    case True
    let ?q = "parent_of roles (the pid)" and ?acc = "add_inherited m rid (the pid) acc"
    have anc: "ancestor roles pid a \<longleftrightarrow> a = the pid \<or> ancestor roles ?q a" for a
      using True by (subst ancestor_iff) simp
    have "\<exists>res. inherit_from roles m rid ?q ?acc = Some res \<and>
        set res = set ?acc \<union> ({p. \<exists>a. ancestor roles ?q a \<and> p \<in> set (perms_of m a)} - set (perms_of m rid))"
    proof (cases "present ?q")
      case True
      then show ?thesis using less assms by (simp add: ranked_def)
    next
      case False
      then have "\<not> ancestor roles ?q a" for a by (subst ancestor_iff) simp
      then show ?thesis using False by (simp add: inherit_from.simps[of roles m rid ?q])
    qed
    then show ?thesis using True
      by (simp add: inherit_from.simps[of roles m rid pid] set_add_inherited anc) blast
  qed
qed

lemma inherited_each_None:
  assumes "r \<in> set rs" "inherited_of roles m r = None"
  shows "inherited_each roles m rs result = None"
  using assms by (induction rs arbitrary: result) (auto split: option.splits)

lemma inherited_each_Some:
  assumes "\<And>r. r \<in> set rs \<Longrightarrow> inherited_of roles m r \<noteq> None"
  shows "\<exists>res. inherited_each roles m rs result = Some res \<and>
    (\<forall>i. perms_of res i = (case find (\<lambda>r. mr_id r = i) (rev rs) of
       None \<Rightarrow> perms_of result i | Some r \<Rightarrow> the (inherited_of roles m r)))"
  using assms
proof (induction rs arbitrary: result)
  case (Cons r rs)
  then obtain inh where inh: "inherited_of roles m r = Some inh" by (meson list.set_intros(1) not_None_eq)
  have find_app: "find P (xs @ [r]) = (case find P xs of None \<Rightarrow> if P r then Some r else None | Some y \<Rightarrow> Some y)"
    for P xs by (induction xs) auto
  obtain res where "inherited_each roles m rs (obj_set (mr_id r) inh result) = Some res"
    and res: "\<And>i. perms_of res i = (case find (\<lambda>r. mr_id r = i) (rev rs) of
       None \<Rightarrow> perms_of (obj_set (mr_id r) inh result) i | Some r \<Rightarrow> the (inherited_of roles m r))"
    using Cons.IH[of "obj_set (mr_id r) inh result"] Cons.prems by auto
  then have "inherited_each roles m (r # rs) result = Some res" by (simp add: inh)
  moreover have "perms_of res i = (case find (\<lambda>r. mr_id r = i) (rev (r # rs)) of
      None \<Rightarrow> perms_of result i | Some r \<Rightarrow> the (inherited_of roles m r))" for i
    by (simp add: res find_app inh split: option.splits)
  ultimately show ?case by blast
qed simp

subsection \<open>The order of the rows\<close>

text \<open>Every element of the chain comes after its parent.\<close>

definition parents_first :: "mrole list \<Rightarrow> string list \<Rightarrow> bool" where
  "parents_first roles chain = (\<forall>k < length chain. present (parent_of roles (chain ! k)) \<longrightarrow>
     the (parent_of roles (chain ! k)) \<in> set (take k chain))"

lemma parents_first_snoc:
  assumes "parents_first roles c" "present (parent_of roles i) \<Longrightarrow> the (parent_of roles i) \<in> set c"
  shows "parents_first roles (c @ [i])"
  unfolding parents_first_def
proof (intro allI impI)
  fix k assume k: "k < length (c @ [i])" "present (parent_of roles ((c @ [i]) ! k))"
  show "the (parent_of roles ((c @ [i]) ! k)) \<in> set (take k (c @ [i]))"
  proof (cases "k < length c")
    case True
    then show ?thesis using k assms(1) by (simp add: parents_first_def nth_append)
  next
    case False
    then have "k = length c" using k by simp
    then show ?thesis using k assms(2) by simp
  qed
qed

text \<open>What one call of \<open>visit\<close> does, whatever the parents are.\<close>

lemma visit_chain:
  assumes "visit roles i (v, c) = (v', c')" "distinct c" "set c \<subseteq> set v"
  shows "distinct c' \<and> set v' - set c' = set v - set c \<and> set v \<subseteq> set v' \<and> set c \<subseteq> set c' \<and> set c' \<subseteq> set v' \<and> i \<in> set v'"
  using assms
proof (induction roles i "(v, c)" arbitrary: v c v' c' rule: visit.induct)
  case (1 roles i v c)
  show ?case
  proof (cases "i \<in> set v \<or> \<not> present (parent_of roles i)")
    case True
    then show ?thesis using 1(2-4) by (auto split: if_splits)
  next
    case False
    obtain v2 c2 where v2: "visit roles (the (parent_of roles i)) (i # v, c) = (v2, c2)" by fastforce
    then have "v' = v2" "c' = c2 @ [i]" using False 1(2) by auto
    moreover have "distinct c2 \<and> set v2 - set c2 = set (i # v) - set c \<and> set (i # v) \<subseteq> set v2 \<and>
        set c \<subseteq> set c2 \<and> set c2 \<subseteq> set v2 \<and> the (parent_of roles i) \<in> set v2"
      using False 1(3,4) v2 by (intro 1(1)) auto
    moreover have "i \<notin> set c" using False 1(4) by auto
    ultimately show ?thesis using False by auto
  qed
qed

lemma visit_parents_first:
  assumes "ranked roles rk" "visit roles i (v, c) = (v', c')" "set c \<subseteq> set v" "parents_first roles c"
    and "\<And>x. x \<in> set v - set c \<Longrightarrow> rk i < rk x"
  shows "parents_first roles c' \<and> i \<in> set c'"
  using assms
proof (induction roles i "(v, c)" arbitrary: v c v' c' rule: visit.induct)
  case (1 roles i v c)
  show ?case
  proof (cases "i \<in> set v \<or> \<not> present (parent_of roles i)")
    case True
    then show ?thesis using 1(3-6) by (auto intro: parents_first_snoc split: if_splits)
  next
    case False
    obtain v2 c2 where v2: "visit roles (the (parent_of roles i)) (i # v, c) = (v2, c2)" by fastforce
    then have c': "c' = c2 @ [i]" using False 1(3) by auto
    have lt: "rk (the (parent_of roles i)) < rk i" using False 1(2) by (simp add: ranked_def)
    have "parents_first roles c2 \<and> the (parent_of roles i) \<in> set c2"
    proof (rule 1(1)[OF _ _ 1(2) v2])
      show "rk (the (parent_of roles i)) < rk x" if "x \<in> set (i # v) - set c" for x
        using that lt 1(6)[of x] by (cases "x = i") auto
    qed (use False 1(4,5) in auto)
    then show ?thesis by (auto simp: c' intro: parents_first_snoc)
  qed
qed

lemma chain_fold:
  assumes "foldl (\<lambda>vc r. visit roles (mr_id r) vc) (v, c) rs = (v', c')" "distinct c" "set v = set c"
  shows "distinct c' \<and> set v' = set c' \<and> set c \<union> mr_id ` set rs \<subseteq> set c'"
  using assms
proof (induction rs arbitrary: v c)
  case (Cons r rs)
  obtain v1 c1 where v1: "visit roles (mr_id r) (v, c) = (v1, c1)" by fastforce
  have "distinct c1 \<and> set v1 = set c1 \<and> insert (mr_id r) (set c) \<subseteq> set c1"
    using visit_chain[OF v1] Cons.prems(2,3) by auto
  then show ?case using Cons.IH[of v1 c1] Cons.prems(1) v1 by auto
qed simp

lemma chain_fold_parents_first:
  assumes "ranked roles rk" "foldl (\<lambda>vc r. visit roles (mr_id r) vc) (v, c) rs = (v', c')" "distinct c" "set v = set c"
    and "parents_first roles c"
  shows "parents_first roles c'"
  using assms(2-5)
proof (induction rs arbitrary: v c)
  case (Cons r rs)
  obtain v1 c1 where v1: "visit roles (mr_id r) (v, c) = (v1, c1)" by fastforce
  have "distinct c1 \<and> set v1 = set c1" using visit_chain[OF v1] Cons.prems(2,3) by auto
  moreover have "parents_first roles c1" using visit_parents_first[OF assms(1) v1] Cons.prems(3,4) by auto
  ultimately show ?case using Cons.IH[of v1 c1] Cons.prems(1) v1 by auto
qed simp

lemma inheritanceChain_all: "distinct (inheritanceChain roles) \<and> mr_id ` set roles \<subseteq> set (inheritanceChain roles)"
proof -
  obtain v' c' where "foldl (\<lambda>vc r. visit roles (mr_id r) vc) ([], []) roles = (v', c')" by fastforce
  then show ?thesis using chain_fold[of roles "[]" "[]" roles v' c'] by (simp add: inheritanceChain_def)
qed

lemma role_get_Some: "mr_id r \<in> mr_id ` set roles \<Longrightarrow> \<exists>r'. role_get roles (mr_id r) = Some r' \<and> mr_id r' = mr_id r"
  by (cases "role_get roles (mr_id r)") (auto simp: role_get_def find_None_iff find_Some_iff dest: role_get_id)

lemma orderedRoles_ids:
  "map mr_id (orderedRoles roles) = filter (\<lambda>i. i \<in> mr_id ` set roles) (inheritanceChain roles)"
proof -
  have "map mr_id (List.map_filter (role_get roles) c) = filter (\<lambda>i. i \<in> mr_id ` set roles) c" for c
  proof (induction c)
    case (Cons i c)
    show ?case
    proof (cases "role_get roles i")
      case None
      then have "i \<notin> mr_id ` set roles" by (auto simp: role_get_def find_None_iff)
      then show ?thesis using Cons None by (simp add: List.map_filter_def)
    next
      case (Some r)
      then show ?thesis using Cons role_get_id[OF Some] by (auto simp: List.map_filter_def)
    qed
  qed (simp add: List.map_filter_def)
  then show ?thesis by (simp add: orderedRoles_def)
qed

lemma filter_single: "distinct c \<Longrightarrow> x \<in> set c \<Longrightarrow> filter (\<lambda>i. i = x) c = [x]"
  by (induction c) (auto simp: filter_empty_conv)

lemma set_orderedRoles: "set (orderedRoles roles) \<subseteq> set roles"
  using role_get_id by (fastforce simp: orderedRoles_def List.map_filter_def)

lemma orderedRoles_single: "orderedRoles [r] = [r]"
proof -
  have "map mr_id (orderedRoles [r]) = [mr_id r]"
    using inheritanceChain_all[of "[r]"] by (simp add: orderedRoles_ids filter_single)
  then show ?thesis using set_orderedRoles[of "[r]"] by (cases "orderedRoles [r]") auto
qed

lemma parents_first_filter:
  assumes "parents_first roles c" "k < length (filter P c)" "parent_of roles (filter P c ! k) = Some p" "P p" "p \<noteq> []"
  shows "p \<in> set (take k (filter P c))"
  using assms
proof (induction c rule: rev_induct)
  case (snoc i c)
  have pf: "parents_first roles c"
    unfolding parents_first_def
  proof (intro allI impI)
    fix j assume "j < length c" "present (parent_of roles (c ! j))"
    then show "the (parent_of roles (c ! j)) \<in> set (take j c)"
      using snoc.prems(1)[unfolded parents_first_def, rule_format, of j] by (simp add: nth_append)
  qed
  show ?case
  proof (cases "k < length (filter P c)")
    case True
    then show ?thesis using snoc.IH[OF pf] snoc.prems(3-5) by (simp add: nth_append split: if_splits)
  next
    case False
    then have k: "P i" "k = length (filter P c)" using snoc.prems(2) by (auto split: if_splits)
    then have "parent_of roles i = Some p" using snoc.prems(3) by simp
    then have "p \<in> set c"
      using snoc.prems(1)[unfolded parents_first_def, rule_format, of "length c"] snoc.prems(5) by (simp add: present_def)
    then show ?thesis using k snoc.prems(4) by simp
  qed
qed simp

section \<open>Properties\<close>

text \<open>C33. The rows of the matrix: for every list of roles, also with cycles of parents, unknown parents or none at all, each identifier of the list has exactly one
  row and there are no others; and whenever the parents form no cycle, the row of a role whose parent is a listed role comes after the row of
  that parent.\<close>

theorem orderedRoles_topological:
  "distinct (map mr_id (orderedRoles roles)) \<and> mr_id ` set (orderedRoles roles) = mr_id ` set roles \<and>
   (\<forall>rk k p. ranked roles rk \<and> k < length (orderedRoles roles) \<and> parent_of roles (mr_id (orderedRoles roles ! k)) = Some p \<and>
      p \<in> mr_id ` set roles \<and> p \<noteq> [] \<longrightarrow> p \<in> mr_id ` set (take k (orderedRoles roles)))"
proof (intro conjI allI impI)
  show "distinct (map mr_id (orderedRoles roles))" using inheritanceChain_all[of roles] by (simp add: orderedRoles_ids)
  show "mr_id ` set (orderedRoles roles) = mr_id ` set roles"
    using arg_cong[OF orderedRoles_ids, of set roles] inheritanceChain_all[of roles] by auto
  let ?P = "\<lambda>i. i \<in> mr_id ` set roles" and ?c = "inheritanceChain roles"
  fix rk k p
  assume a: "ranked roles rk \<and> k < length (orderedRoles roles) \<and> parent_of roles (mr_id (orderedRoles roles ! k)) = Some p \<and>
      p \<in> mr_id ` set roles \<and> p \<noteq> []"
  obtain v' c' where "foldl (\<lambda>vc r. visit roles (mr_id r) vc) ([], []) roles = (v', c')" by fastforce
  then have "parents_first roles ?c"
    using chain_fold_parents_first[of roles rk "[]" "[]" roles v' c'] a by (simp add: inheritanceChain_def parents_first_def)
  moreover have "filter ?P ?c ! k = mr_id (orderedRoles roles ! k)" "k < length (filter ?P ?c)"
    using a orderedRoles_ids[of roles] by (metis nth_map, metis length_map)
  ultimately have "p \<in> set (take k (filter ?P ?c))" using a parents_first_filter[of roles ?c k ?P p] by simp
  then show "p \<in> mr_id ` set (take k (orderedRoles roles))"
    by (simp add: orderedRoles_ids[symmetric] take_map)
qed

text \<open>A child listed before its parent; and two roles that are each other's parent.\<close>

theorem orderedRoles_topological_witness:
  "let roles = [\<lparr>mr_id = ''b'', mr_parent = Some ''a'', mr_name = []\<rparr>, \<lparr>mr_id = ''a'', mr_parent = None, mr_name = []\<rparr>];
       cycle = [\<lparr>mr_id = ''b'', mr_parent = Some ''a'', mr_name = []\<rparr>, \<lparr>mr_id = ''a'', mr_parent = Some ''b'', mr_name = []\<rparr>] in
   ''a'' \<in> mr_id ` set (take 1 (orderedRoles roles)) \<and>
   distinct (map mr_id (orderedRoles cycle)) \<and> mr_id ` set (orderedRoles cycle) = {''a'', ''b''}"
proof -
  let ?roles = "[\<lparr>mr_id = ''b'', mr_parent = Some ''a'', mr_name = []\<rparr>, \<lparr>mr_id = ''a'', mr_parent = None, mr_name = []\<rparr>]"
  let ?cycle = "[\<lparr>mr_id = ''b'', mr_parent = Some ''a'', mr_name = []\<rparr>, \<lparr>mr_id = ''a'', mr_parent = Some ''b'', mr_name = []\<rparr>]"
  have "ranked ?roles (\<lambda>i. if i = ''b'' then 1 else 0) \<and> 1 < length (orderedRoles ?roles) \<and>
      parent_of ?roles (mr_id (orderedRoles ?roles ! 1)) = Some ''a'' \<and> ''a'' \<in> mr_id ` set ?roles \<and> ''a'' \<noteq> ([] :: string)"
    by (simp add: ranked_def parent_of_def role_get_def orderedRoles_def inheritanceChain_def List.map_filter_def present_def)
  then have "''a'' \<in> mr_id ` set (take 1 (orderedRoles ?roles))" using orderedRoles_topological[of ?roles] by blast
  moreover have "distinct (map mr_id (orderedRoles ?cycle)) \<and> mr_id ` set (orderedRoles ?cycle) = {''a'', ''b''}"
    using orderedRoles_topological[of ?cycle] by auto
  ultimately show ?thesis unfolding Let_def by blast
qed

text \<open>The inherited permissions of a role are those of all its ancestors that the role does not have
  itself: if the parents form no cycle, the computation ends, for every role with a row of its own.\<close>

lemma inheritedPerms_ancestors:
  assumes "ranked roles rk" "role_get roles i = Some r"
  shows "\<exists>res. inheritedPerms roles m = Some res \<and>
    set (perms_of res i) = {p. \<exists>a. ancestor roles (mr_parent r) a \<and> p \<in> set (perms_of m a)} - set (perms_of m i)"
proof -
  have each: "\<exists>acc. inherited_of roles m r = Some acc \<and> set acc =
      {p. \<exists>a. ancestor roles (mr_parent r) a \<and> p \<in> set (perms_of m a)} - set (perms_of m (mr_id r))" for r
    using inherit_from_ranked[OF assms(1), of m "mr_id r" "mr_parent r" "[]"] by (simp add: inherited_of_def)
  then have "inherited_of roles m r \<noteq> None" for r by (metis option.distinct(1))
  then obtain res where "inherited_each roles m roles [] = Some res"
    "perms_of res i = the (inherited_of roles m r)"
    using inherited_each_Some[of roles roles m "[]"] assms(2) by (auto simp: role_get_def)
  then show ?thesis using each[of r] role_get_id[OF assms(2)] by (auto simp: inheritedPerms_def)
qed

lemma inheritedPerms_ancestors_example:
  "let roles = [\<lparr>mr_id = ''b'', mr_parent = Some ''a'', mr_name = []\<rparr>, \<lparr>mr_id = ''a'', mr_parent = None, mr_name = []\<rparr>];
       m = [(''a'', [JStr ''p'', JStr ''q'']), (''b'', [JStr ''q''])] in
   \<exists>res. inheritedPerms roles m = Some res \<and>
    set (perms_of res ''b'') = {p. \<exists>a. ancestor roles (mr_parent \<lparr>mr_id = ''b'', mr_parent = Some ''a'', mr_name = []\<rparr>) a \<and> p \<in> set (perms_of m a)}
      - set (perms_of m ''b'')"
  unfolding Let_def
  by (rule inheritedPerms_ancestors[where rk = "\<lambda>i. if i = ''b'' then 1 else 0"])
    (simp_all add: ranked_def parent_of_def role_get_def present_def)

text \<open>The page hangs on a cycle of parents: if the parent of a listed role lies on a cycle, the loop
  that collects the inherited permissions never ends, and the page is not rendered.  (The
  ordering of the rows, by contrast, marks what it has visited and is total.)\<close>

lemma inheritedPerms_cycle:
  assumes "cyclic roles C" "r \<in> set roles" "mr_parent r = Some p" "p \<noteq> []" "p \<in> C"
  shows "inheritedPerms roles m = None"
proof -
  have "inherited_of roles m r = None"
    using inherit_from_cycle[of roles m "mr_id r" "mr_parent r" "[]" _ C] assms(1,3-5)
    by (cases "inherited_of roles m r") (auto simp: inherited_of_def present_def)
  then show ?thesis using assms(2) by (simp add: inheritedPerms_def inherited_each_None)
qed

lemma inheritedPerms_cycle_example:
  "inheritedPerms [\<lparr>mr_id = ''a'', mr_parent = Some ''b'', mr_name = []\<rparr>, \<lparr>mr_id = ''b'', mr_parent = Some ''a'', mr_name = []\<rparr>] [] = None"
  by (rule inheritedPerms_cycle[where C = "{''a'', ''b''}" and r = "\<lparr>mr_id = ''a'', mr_parent = Some ''b'', mr_name = []\<rparr>" and p = "''b''"])
    (simp_all add: cyclic_def parent_of_def role_get_def present_def)

text \<open>A role whose permissions could not be loaded is overwritten by the next edit: the failed load
  is shown as the empty set, and after one cell of the role is switched on, saving sends a
  request that replaces all permissions of the role by that single one.\<close>

lemma failed_load_overwrites:
  assumes "apiFetch E base tenant (role_path (mr_id r)) no_options w = (Inl e, w1)"
    and "load_matrix E base tenant [r] [] w = (m, w1)"
    and "mp_roles p = [r]" "mp_matrix p = m" "mp_original p = m"
  shows "perms_of (mp_matrix p) (mr_id r) = [] \<and> \<not> isDirty p \<and>
    (\<exists>rest. sent (snd (handleSave E base tenant (toggleCell (mr_id r) permId False p, w2))) =
      sent w2 @ api_request base (role_path (mr_id r)) (put_options [permId])
        (api_headers tenant (put_options [permId]) w2) # rest)"
proof -
  have m: "m = [(mr_id r, [])]" using assms(1,2) by (simp add: load_role_def)
  let ?p = "toggleCell (mr_id r) permId False p" and ?o = "put_options [permId]"
  have mp: "mp_matrix ?p = [(mr_id r, [permId])]" "mp_original ?p = m" "mp_roles ?p = [r]"
    using assms(3-5) by (simp_all add: toggleCell_def m perms_of_def set_add_def Let_def)
  then have ch: "changedRoles ?p = [r]"
    by (simp add: changedRoles_def orderedRoles_single m perms_of_def differs_def)
  obtain res w3 where a: "apiFetch E base tenant (role_path (mr_id r)) ?o w2 = (res, w3)" by fastforce
  have "sent (snd (handleSave E base tenant (?p, w2))) = sent w3"
    using a by (auto simp: handleSave_def Let_def ch mp perms_of_def split: sum.splits)
  moreover obtain rest where "sent w3 = sent w2 @ api_request base (role_path (mr_id r)) ?o (api_headers tenant ?o w2) # rest"
    using apiFetch_sent[of E base tenant "role_path (mr_id r)" ?o w2] a by auto
  ultimately show ?thesis using assms(4,5) by (auto simp: isDirty_def m perms_of_def)
qed

lemma failed_load_overwrites_example:
  "let r = \<lparr>mr_id = ''a'', mr_parent = None, mr_name = []\<rparr>; E = always (Resp 503 []); w = page Map.empty ();
       p = \<lparr>mp_roles = [r], mp_permissions = [], mp_matrix = fst (load_matrix E ''b'' ''t'' [r] [] w),
            mp_original = fst (load_matrix E ''b'' ''t'' [r] [] w), mp_loading = False, mp_error = None, mp_msg = None\<rparr> in
   perms_of (mp_matrix p) (mr_id r) = [] \<and> \<not> isDirty p \<and>
    (\<exists>rest. sent (snd (handleSave E ''b'' ''t'' (toggleCell (mr_id r) (JStr ''p'') False p, w))) =
      sent w @ api_request ''b'' (role_path (mr_id r)) (put_options [JStr ''p''])
        (api_headers ''t'' (put_options [JStr ''p'']) w) # rest)"
proof -
  let ?r = "\<lparr>mr_id = ''a'', mr_parent = None, mr_name = []\<rparr>"
  obtain e w1 where a: "apiFetch (always (Resp 503 [])) ''b'' ''t'' (role_path (mr_id ?r)) no_options (page Map.empty ()) = (Inl e, w1)"
    by (simp add: apiFetch_def Let_def fetch_def always_def resp_ok_def)
  then have ld: "load_matrix (always (Resp 503 [])) ''b'' ''t'' [?r] [] (page Map.empty ()) =
      (fst (load_matrix (always (Resp 503 [])) ''b'' ''t'' [?r] [] (page Map.empty ())), w1)"
    by (simp add: load_role_def)
  show ?thesis unfolding Let_def by (rule failed_load_overwrites[OF a ld]) simp_all
qed

text \<open>A save that succeeds leaves nothing to save; one that fails keeps the edits and the snapshot.\<close>

lemma handleSave_dirty:
  assumes "handleSave E base tenant (p, w) = (p', w')"
  shows "mp_matrix p' = mp_matrix p \<and> (if mp_error p' = None then \<not> isDirty p' else mp_original p' = mp_original p)"
  using assms by (auto simp: handleSave_def Let_def isDirty_def list_ex_iff split: prod.splits option.splits)

end
