(* ===== verification/Saml.thy ===== *)
theory Saml
  imports OAuth_Pkce
begin

text \<open>
  The SAML service-provider helpers of the React SDK (\<open>sdk/react/src/saml.ts\<close>): the metadata
  document, the two readers of identity-provider metadata (regular expressions, written as
  scanners that try the positions in the order the expression does), and the URL of an
  authentication request.  The random identifier and the time stamp of a request are arguments.
\<close>

section \<open>XML text\<close>

definition escapeXml :: "string \<Rightarrow> string" where
  "escapeXml str = replace_all (CHR 0x27) ''&apos;'' (replace_all (CHR 0x22) ''&quot;'' (replace_all (CHR ''>'') ''&gt;''
     (replace_all (CHR ''<'') ''&lt;'' (replace_all (CHR ''&'') ''&amp;'' str))))"

text \<open>What an XML parser makes of the five predefined entities.\<close>

function unescapeXml :: "string \<Rightarrow> string" where
  "unescapeXml [] = []"
| "unescapeXml (c # cs) =
     (if c \<noteq> CHR ''&'' then c # unescapeXml cs
      else if prefix ''amp;'' cs then CHR ''&'' # unescapeXml (drop 4 cs)
      else if prefix ''lt;'' cs then CHR ''<'' # unescapeXml (drop 3 cs)
      else if prefix ''gt;'' cs then CHR ''>'' # unescapeXml (drop 3 cs)
      else if prefix ''quot;'' cs then CHR 0x22 # unescapeXml (drop 5 cs)
      else if prefix ''apos;'' cs then CHR 0x27 # unescapeXml (drop 5 cs)
      else c # unescapeXml cs)"
  by pat_completeness auto

termination by (relation "measure length") auto

section \<open>Metadata\<close>

record SAMLConfig =
  entityId :: string
  acsUrl :: string
  sloUrl :: "string option"
  signRequests :: bool

definition slo_element :: "SAMLConfig \<Rightarrow> string" where
  "slo_element c = (if present (sloUrl c)
     then ''  <SingleLogoutService Binding=\"urn:oasis:names:tc:SAML:2.0:bindings:HTTP-Redirect\" Location=\"''
       @ escapeXml (the (sloUrl c)) @ ''\" />'' @ [CHR 0x0A]
     else [])"

definition generateSPMetadata :: "SAMLConfig \<Rightarrow> string" where
  "generateSPMetadata c =
     ''<?xml version=\"1.0\" encoding=\"UTF-8\"?>'' @ [CHR 0x0A] @
     ''<EntityDescriptor xmlns=\"urn:oasis:names:tc:SAML:2.0:metadata\" entityID=\"'' @ escapeXml (entityId c) @ ''\">'' @ [CHR 0x0A] @
     ''  <SPSSODescriptor protocolSupportEnumeration=\"urn:oasis:names:tc:SAML:2.0:protocol\">'' @ [CHR 0x0A] @
     ''    <NameIDFormat>urn:oasis:names:tc:SAML:1.1:nameid-format:emailAddress</NameIDFormat>'' @ [CHR 0x0A] @
     ''    <AssertionConsumerService Binding=\"urn:oasis:names:tc:SAML:2.0:bindings:HTTP-POST\"'' @ [CHR 0x0A] @
     ''      Location=\"'' @ escapeXml (acsUrl c) @ ''\" index=\"0\" />'' @ [CHR 0x0A] @
     slo_element c @ ''  </SPSSODescriptor>'' @ [CHR 0x0A] @
     ''</EntityDescriptor>''"

definition metadata_request :: "string \<Rightarrow> request" where
  "metadata_request base = \<lparr>url = (if base \<noteq> [] \<and> last base = CHR ''/'' then butlast base else base) @ ''/saml/metadata'',
     meth = ''GET'', hdrs = [], rbody = None\<rparr>"

definition fetchIdPMetadata :: "'w env \<Rightarrow> string \<Rightarrow> 'w world \<Rightarrow> (exn + string) \<times> 'w world" where
  "fetchIdPMetadata E base w = (case fetch E (metadata_request base) w of
      (NetError, w1) \<Rightarrow> (Inl ExnNet, w1)
    | (Resp st body, w1) \<Rightarrow>
        (if \<not> resp_ok st then Inl (ExnError (''Failed to fetch IdP metadata: '' @ show_int st)) else Inr body, w1))"

text \<open>\<open>lit([^"]+)"\<close> at one position, and at the first position where it matches.\<close>

definition value_here :: "string \<Rightarrow> string \<Rightarrow> string option" where
  "value_here lit s =
     (if prefix lit s then
        (let r = drop (length lit) s; v = takeWhile (\<lambda>c. c \<noteq> CHR 0x22) r in
         if v \<noteq> [] \<and> length v < length r then Some v else None)
      else None)"

fun value_at :: "string \<Rightarrow> string \<Rightarrow> string option" where
  "value_at lit [] = None"
| "value_at lit (c # cs) = (case value_here lit (c # cs) of Some v \<Rightarrow> Some v | None \<Rightarrow> value_at lit cs)"

definition parseEntityId :: "string \<Rightarrow> string option" where
  "parseEntityId metadataXml = value_at ''entityID=\"'' metadataXml"

text \<open>\<open>[^>]*Location="([^"]+)"\<close>: the longest run of characters other than \<open>>\<close> is tried first.\<close>

fun location_after :: "string \<Rightarrow> string option" where
  "location_after [] = None"
| "location_after (c # cs) =
     (case (if c = CHR ''>'' then None else location_after cs) of Some v \<Rightarrow> Some v
      | None \<Rightarrow> value_here ''Location=\"'' (c # cs))"

fun parseSsoUrl :: "string \<Rightarrow> string option" where
  "parseSsoUrl [] = None"
| "parseSsoUrl (c # cs) =
     (case (if prefix ''SingleSignOnService'' (c # cs)
            then location_after (drop (length ''SingleSignOnService'') (c # cs)) else None) of
        Some v \<Rightarrow> Some v | None \<Rightarrow> parseSsoUrl cs)"

section \<open>Authentication requests\<close>

definition authn_request :: "string \<Rightarrow> string \<Rightarrow> string \<Rightarrow> string \<Rightarrow> string \<Rightarrow> string" where
  "authn_request ident instant ssoUrl entity acs =
     ''<samlp:AuthnRequest xmlns:samlp=\"urn:oasis:names:tc:SAML:2.0:protocol\" ID=\"'' @ ident @
     ''\" Version=\"2.0\" IssueInstant=\"'' @ instant @ ''\" Destination=\"'' @ escapeXml ssoUrl @
     ''\" AssertionConsumerServiceURL=\"'' @ escapeXml acs @
     ''\"><saml:Issuer xmlns:saml=\"urn:oasis:names:tc:SAML:2.0:assertion\">'' @ escapeXml entity @
     ''</saml:Issuer></samlp:AuthnRequest>''"

text \<open>\<open>Buffer.from(request).toString("base64")\<close> encodes the UTF-8 bytes; \<open>btoa\<close>, used when there is no
  \<open>Buffer\<close>, encodes the code units.\<close>

definition encode_request :: "bool \<Rightarrow> string \<Rightarrow> string" where
  "encode_request has_buffer request = (if has_buffer then encode_loop chars_std (utf8_encode request) else btoa request)"

definition buildAuthnRequestUrl ::
  "bool \<Rightarrow> string \<Rightarrow> string \<Rightarrow> string \<Rightarrow> string \<Rightarrow> string \<Rightarrow> string option \<Rightarrow> string" where
  "buildAuthnRequestUrl has_buffer ident instant ssoUrl entity acs relayState =
     ssoUrl @ (if str_includes ssoUrl ''?'' then ''&'' else ''?'') @
     search_params ((''SAMLRequest'', encode_request has_buffer (authn_request ident instant ssoUrl entity acs))
       # (if present relayState then [(''RelayState'', the relayState)] else []))"

section \<open>Lemmas\<close>

definition xml_esc :: "char \<Rightarrow> string" where
  "xml_esc c = (if c = CHR ''&'' then ''&amp;'' else if c = CHR ''<'' then ''&lt;'' else if c = CHR ''>'' then ''&gt;''
     else if c = CHR 0x22 then ''&quot;'' else if c = CHR 0x27 then ''&apos;'' else [c])"

lemma escapeXml_map: "escapeXml s = concat (map xml_esc s)"
  by (induction s) (auto simp: escapeXml_def replace_all_def xml_esc_def)

lemma unescape_step: "unescapeXml (xml_esc c @ s) = c # unescapeXml s"
  by (simp add: xml_esc_def)

lemma unescapeXml_escapeXml: "unescapeXml (escapeXml s) = s"
  unfolding escapeXml_map by (induction s) (simp_all add: unescape_step)

lemma escapeXml_safe: "set (escapeXml s) \<inter> {CHR ''<'', CHR ''>'', CHR 0x22, CHR 0x27} = {}"
  unfolding escapeXml_map by (induction s) (auto simp: xml_esc_def split: if_splits)

lemma escapeXml_id_iff: "escapeXml s = s \<longleftrightarrow> set s \<inter> {CHR ''&'', CHR ''<'', CHR ''>'', CHR 0x22, CHR 0x27} = {}"
proof -
  have len: "length s \<le> length (concat (map xml_esc s))" for s
    by (induction s) (auto simp: xml_esc_def)
  show ?thesis unfolding escapeXml_map
  proof (induction s)
    case (Cons c s)
    show ?case
    proof (cases "xml_esc c = [c]")
      case True
      then show ?thesis using Cons by (auto simp: xml_esc_def split: if_splits)
    next
      case False
      then have "length (xml_esc c) > 1" "c \<in> {CHR ''&'', CHR ''<'', CHR ''>'', CHR 0x22, CHR 0x27}"
        by (auto simp: xml_esc_def split: if_splits)
      moreover have "concat (map xml_esc (c # s)) \<noteq> c # s"
      proof
        assume "concat (map xml_esc (c # s)) = c # s"
        then have "length (xml_esc c) + length (concat (map xml_esc s)) = Suc (length s)"
          by (metis (no_types, lifting) concat.simps(2) length_Cons length_append list.simps(9))
        then show False using len[of s] calculation(1) by simp
      qed
      ultimately show ?thesis by auto
    qed
  qed simp
qed

lemma escapeXml_Nil [simp]: "escapeXml s = [] \<longleftrightarrow> s = []"
  by (cases s) (auto simp: escapeXml_map xml_esc_def)

lemma value_here_found:
  assumes "v \<noteq> []" "CHR 0x22 \<notin> set v"
  shows "value_here lit (lit @ v @ CHR 0x22 # rest) = Some v"
proof -
  have "takeWhile (\<lambda>c. c \<noteq> CHR 0x22) (v @ CHR 0x22 # rest) = v"
    using assms(2) by (subst takeWhile_append2) auto
  then show ?thesis using assms(1) by (simp add: value_here_def)
qed

lemma value_here_no: "\<not> prefix lit s \<Longrightarrow> value_here lit s = None"
  by (simp add: value_here_def)

lemma pad_of_length: "pad_of bs = replicate ((4 - length (enc_ix bs) mod 4) mod 4) (CHR ''='')"
proof (induction bs rule: enc_ix.induct)
  case (4 b1 b2 b3 bs)
  have "Suc (Suc (Suc (Suc n))) mod 4 = n mod 4" for n :: nat by presburger
  then show ?case using 4 by simp
qed (simp_all add: numeral_2_eq_2)

lemma bin_of_bytes_of [simp]: "bin_of (bytes_of s) = s"
  by (induction s) (simp_all add: bin_of_def bytes_of_def unat_of_nat take_bit_eq_mod of_char_mod_256)

lemma utf8_ascii: "(\<And>c. c \<in> set s \<Longrightarrow> (of_char c :: nat) < 128) \<Longrightarrow> utf8_encode s = bytes_of s"
  by (induction s) (simp_all add: utf8_encode_def bytes_of_def utf8_char_def Let_def)

text \<open>For an ASCII request the two encodings agree and decode to the request; for another one they
  differ in what they encode.\<close>

lemma encode_request_ascii:
  assumes "\<And>c. c \<in> set request \<Longrightarrow> (of_char c :: nat) < 128"
  shows "encode_request b request = btoa request \<and> atob (encode_request b request) = Some request"
proof -
  have "atob (btoa request) = Some request"
    using atob_padded[of "bytes_of request"] btoa_bin_of[of "bytes_of request"] by (simp add: pad_of_length)
  then show ?thesis using utf8_ascii[OF assms] by (simp add: encode_request_def btoa_def)
qed

section \<open>Properties\<close>

text \<open>The metadata is well formed and can be read back: the entity identifier of the generated
  document, whatever characters it has, is read as its escaped form, which contains no markup
  character and from which an XML parser recovers the identifier.  \<open>parseEntityId\<close> itself does
  not: it returns the identifier as configured only if none of its characters needs escaping.\<close>

lemma metadata_entity_roundtrip:
  assumes "entityId c \<noteq> []"
  shows "parseEntityId (generateSPMetadata c) = Some (escapeXml (entityId c)) \<and>
    set (escapeXml (entityId c)) \<inter> {CHR ''<'', CHR ''>'', CHR 0x22, CHR 0x27} = {} \<and>
    unescapeXml (escapeXml (entityId c)) = entityId c \<and>
    (parseEntityId (generateSPMetadata c) = Some (entityId c) \<longleftrightarrow>
       set (entityId c) \<inter> {CHR ''&'', CHR ''<'', CHR ''>'', CHR 0x22, CHR 0x27} = {})"
proof -
  obtain rest where rest: "generateSPMetadata c =
      (''<?xml version=\"1.0\" encoding=\"UTF-8\"?>'' @ [CHR 0x0A] @
       ''<EntityDescriptor xmlns=\"urn:oasis:names:tc:SAML:2.0:metadata\" '') @
      (''entityID=\"'' @ escapeXml (entityId c) @ CHR 0x22 # rest)"
    by (simp add: generateSPMetadata_def)
  have "value_here ''entityID=\"'' (''entityID=\"'' @ escapeXml (entityId c) @ CHR 0x22 # rest) = Some (escapeXml (entityId c))"
    by (rule value_here_found) (use assms escapeXml_safe[of "entityId c"] in auto)
  then have "parseEntityId (generateSPMetadata c) = Some (escapeXml (entityId c))"
    unfolding rest parseEntityId_def by (simp add: value_here_no)
  then show ?thesis using escapeXml_safe[of "entityId c"] unescapeXml_escapeXml[of "entityId c"]
      escapeXml_id_iff[of "entityId c"] by simp
qed

lemma metadata_entity_roundtrip_example:
  "let c = \<lparr>entityId = ''a&b'', acsUrl = ''u'', sloUrl = None, signRequests = False\<rparr> in
    parseEntityId (generateSPMetadata c) = Some (escapeXml (entityId c)) \<and>
    set (escapeXml (entityId c)) \<inter> {CHR ''<'', CHR ''>'', CHR 0x22, CHR 0x27} = {} \<and>
    unescapeXml (escapeXml (entityId c)) = entityId c \<and>
    (parseEntityId (generateSPMetadata c) = Some (entityId c) \<longleftrightarrow>
       set (entityId c) \<inter> {CHR ''&'', CHR ''<'', CHR ''>'', CHR 0x22, CHR 0x27} = {})"
  unfolding Let_def by (rule metadata_entity_roundtrip) simp

end
