(* ===== verification/Parents.thy ===== *)
theory Parents
  imports Browser
begin

text \<open>
  Two things several pages share: a JavaScript \<open>Set\<close>, kept as the list of its elements in insertion
  order, and the loop \<open>while (current?.parent) ...\<close> that climbs from a record to its
  parent.  The loop is a partial function, \<^term>\<open>None\<close> meaning that it never ends; the locale
  \<open>parent_chain\<close> states once when it ends and what it collects.
\<close>

section \<open>Sets in insertion order\<close>

definition js_add :: "'a \<Rightarrow> 'a list \<Rightarrow> 'a list" where
  "js_add x s = (if x \<in> set s then s else s @ [x])"

definition js_delete :: "'a \<Rightarrow> 'a list \<Rightarrow> 'a list" where
  "js_delete x s = filter (\<lambda>y. y \<noteq> x) s"

definition js_toggle :: "'a \<Rightarrow> 'a list \<Rightarrow> 'a list" where
  "js_toggle x s = (if x \<in> set s then js_delete x s else js_add x s)"

definition js_set :: "'a list \<Rightarrow> 'a list" where
  "js_set xs = foldl (\<lambda>s x. js_add x s) [] xs"

lemma set_js_add [simp]: "set (js_add x s) = insert x (set s)"
  by (auto simp: js_add_def)

lemma set_js_delete [simp]: "set (js_delete x s) = set s - {x}"
  by (auto simp: js_delete_def)

lemma distinct_js_add [simp]: "distinct s \<Longrightarrow> distinct (js_add x s)"
  by (simp add: js_add_def)

lemma distinct_js_toggle [simp]: "distinct s \<Longrightarrow> distinct (js_toggle x s)"
  by (simp add: js_toggle_def js_delete_def)

lemma set_js_toggle: "set (js_toggle x s) = (if x \<in> set s then set s - {x} else insert x (set s))"
  by (simp add: js_toggle_def)

lemma js_adds_set: "set (foldl (\<lambda>s x. js_add x s) s xs) = set s \<union> set xs"
  by (induction xs arbitrary: s) auto

lemma set_js_set [simp]: "set (js_set xs) = set xs"
  by (simp add: js_set_def js_adds_set)

lemma distinct_js_set [simp]: "distinct (js_set xs)"
proof -
  have "distinct s \<Longrightarrow> distinct (foldl (\<lambda>s x. js_add x s) s xs)" for s
    by (induction xs arbitrary: s) auto
  then show ?thesis by (simp add: js_set_def)
qed

lemma find_SomeD: "find P xs = Some x \<Longrightarrow> x \<in> set xs \<and> P x"
  by (induction xs) (auto split: if_splits)

lemma find_map_same: "(\<And>x. P (f x) = P x) \<Longrightarrow> find P (map f xs) = map_option f (find P xs)"
  by (induction xs) auto

section \<open>Climbing\<close>

text \<open>The loop over the parents: \<open>step\<close> is its body, \<open>parent\<close> the next record.\<close>

partial_function (option) climb ::
  "(string \<Rightarrow> string option) \<Rightarrow> (string \<Rightarrow> 's \<Rightarrow> 's) \<Rightarrow> string option \<Rightarrow> 's \<Rightarrow> 's option" where
  "climb parent step pid acc =
     (if \<not> present pid then Some acc
      else climb parent step (parent (the pid)) (step (the pid) acc))"

lemma climb_stop [simp]: "\<not> present pid \<Longrightarrow> climb parent step pid acc = Some acc"
  by (simp add: climb.simps)

lemma climb_step: "present pid \<Longrightarrow>
    climb parent step pid acc = climb parent step (parent (the pid)) (step (the pid) acc)"
  by (simp add: climb.simps[of parent step pid])

text \<open>The records above \<open>pid\<close>, itself included.\<close>

inductive above :: "(string \<Rightarrow> string option) \<Rightarrow> string option \<Rightarrow> string \<Rightarrow> bool" for parent where
  here: "p \<noteq> [] \<Longrightarrow> above parent (Some p) p"
| up: "p \<noteq> [] \<Longrightarrow> above parent (parent p) a \<Longrightarrow> above parent (Some p) a"

inductive_cases aboveE: "above parent pid a"

lemma above_iff: "above parent pid a \<longleftrightarrow> present pid \<and> (a = the pid \<or> above parent (parent (the pid)) a)"
  by (cases pid) (auto simp: present_def intro: above.intros elim: aboveE)

lemma above_trans: "above parent pid a \<Longrightarrow> above parent (parent a) b \<Longrightarrow> above parent pid b"
  by (induction rule: above.induct) (auto intro: above.up)

lemma above_nonempty: "above parent pid a \<Longrightarrow> a \<noteq> []"
  by (induction rule: above.induct) auto

text \<open>Every member of \<open>C\<close> has a parent in \<open>C\<close>.\<close>

definition closed_cycle :: "(string \<Rightarrow> string option) \<Rightarrow> string set \<Rightarrow> bool" where
  "closed_cycle parent C = (\<forall>i \<in> C. present (parent i) \<and> the (parent i) \<in> C)"

lemma climb_cycle:
  assumes "closed_cycle parent C" "present pid" "the pid \<in> C"
  shows "climb parent step pid acc = None"
proof -
  have "climb parent step pid acc = Some res \<Longrightarrow> closed_cycle parent C \<longrightarrow> present pid \<longrightarrow> the pid \<notin> C" for res
    by (erule climb.raw_induct[where P = "\<lambda>parent step pid acc res. closed_cycle parent C \<longrightarrow> present pid \<longrightarrow> the pid \<notin> C", rotated])
      (simp add: closed_cycle_def split: if_splits, blast)
  then show ?thesis using assms by (cases "climb parent step pid acc") auto
qed

text \<open>Only the records of the chain matter.\<close>

lemma climb_cong:
  assumes "climb parent step pid acc = Some res" "\<And>a. above parent pid a \<Longrightarrow> parent' a = parent a"
  shows "climb parent' step pid acc = Some res"
proof -
  have "climb parent step pid acc = Some res \<Longrightarrow>
      (\<forall>a. above parent pid a \<longrightarrow> parent' a = parent a) \<longrightarrow> climb parent' step pid acc = Some res"
  proof (erule climb.raw_induct[where P = "\<lambda>parent step pid acc res.
      (\<forall>a. above parent pid a \<longrightarrow> parent' a = parent a) \<longrightarrow> climb parent' step pid acc = Some res", rotated])
    fix f parent step pid acc res
    assume IH: "\<And>parent step pid (acc :: 'a) res. f parent step pid acc = Some res \<Longrightarrow>
        (\<forall>a. above parent pid a \<longrightarrow> parent' a = parent a) \<longrightarrow> climb parent' step pid acc = Some res"
      and body: "(if \<not> present pid then Some acc else f parent step (parent (the pid)) (step (the pid) acc)) = Some res"
    show "(\<forall>a. above parent pid a \<longrightarrow> parent' a = parent a) \<longrightarrow> climb parent' step pid acc = Some res"
    proof (cases "present pid")
      case True
      then have "above parent pid a \<longleftrightarrow> a = the pid \<or> above parent (parent (the pid)) a" for a
        by (subst above_iff) simp
      then show ?thesis using True body IH[of parent step "parent (the pid)"] by (simp add: climb_step)
    qed (use body in simp)
  qed
  then show ?thesis using assms by blast
qed

text \<open>A contract for the records a loop climbs over: a rank that falls from a record to its parent.\<close>

locale parent_chain =
  fixes parent :: "string \<Rightarrow> string option" and rank :: "string \<Rightarrow> nat"
  assumes falls: "present (parent i) \<Longrightarrow> rank (the (parent i)) < rank i"
begin

lemma climb_returns: "\<exists>res. climb parent step pid acc = Some res"
proof (induction "rank (the pid)" arbitrary: pid acc rule: less_induct)
  case less
  show ?case
  proof (cases "present pid \<and> present (parent (the pid))")
    case True
    then show ?thesis using less falls[of "the pid"] climb_step[of pid parent step acc] by simp
  next
    case False
    then show ?thesis by (cases "present pid") (simp_all add: climb_step)
  qed
qed

lemma climb_collects:
  assumes "\<And>i s. set (step i s) = insert i (set s)" "climb parent step pid acc = Some res"
  shows "set res = set acc \<union> {a. above parent pid a}"
  using assms(2)
proof (induction "rank (the pid)" arbitrary: pid acc rule: less_induct)
  case less
  show ?case
  proof (cases "present pid")
    case False
    then show ?thesis using less.prems by (auto simp: above_iff[of parent pid])
  next
    case True
    let ?q = "parent (the pid)"
    have rec: "climb parent step ?q (step (the pid) acc) = Some res" using less.prems True by (simp add: climb_step)
    have "set res = set (step (the pid) acc) \<union> {a. above parent ?q a}"
    proof (cases "present ?q")
      case True
      then show ?thesis using less.hyps[OF falls[OF True] rec] by simp
    next
      case False
      then show ?thesis using rec by (auto simp: above_iff[of parent ?q])
    qed
    moreover have "above parent pid a \<longleftrightarrow> a = the pid \<or> above parent ?q a" for a
      using True by (subst above_iff) simp
    ultimately show ?thesis using assms(1) by auto
  qed
qed

lemma not_above_itself: "\<not> above parent (parent i) i"
proof -
  have "above parent pid a \<Longrightarrow> rank a \<le> rank (the pid)" for pid a
  proof (induction rule: above.induct)
    case (up p a)
    then have "present (parent p)" using above_iff by blast
    then show ?case using up.IH falls[of p] by simp
  qed simp
  then show ?thesis using falls[of i] above_iff[of parent "parent i" i] by fastforce
qed

end

end
