(* ===== verification/Org_Tree.thy ===== *)
theory Org_Tree
  imports Api_Client Parents
begin

text \<open>
  The organization tree page (\<open>console/src/app/organizations/tree/page.tsx\<close>): building the
  tree from the flat list, the member totals, searching, drag and drop, the context menu, the dialogs
  and the calls to the server.  Organizations are records with string identifiers, as their
  static type says.  \<open>buildTree\<close> creates one node object per identifier and links the objects, so
  the totals are a store from identifiers to numbers that \<open>propagate\<close> updates in place; its recursion has
  fuel, and \<^term>\<open>None\<close> is the stack overflow.  The parallel requests of \<open>loadData\<close> are run one after
  the other.  Coordinates, icons and the timer that hides a message are left out.
\<close>

section \<open>Data\<close>

record org =
  og_id :: string
  og_name :: string
  og_path :: string
  og_parent :: "string option"
  og_desc :: string

datatype org_node = OrgNode (node_org: org) (node_children: "org_node list") (node_total: int)

abbreviation node_id :: "org_node \<Rightarrow> string" where
  "node_id n \<equiv> og_id (node_org n)"

type_synonym totals = "string \<Rightarrow> int"

section \<open>Building the tree\<close>

text \<open>\<open>map.get(id)\<close>: the last record of an identifier.\<close>

definition org_get :: "org list \<Rightarrow> string \<Rightarrow> org option" where
  "org_get orgs i = find (\<lambda>o'. og_id o' = i) (rev orgs)"

definition has_parent :: "org list \<Rightarrow> org \<Rightarrow> bool" where
  "has_parent orgs o' = (present (og_parent o') \<and> org_get orgs (the (og_parent o')) \<noteq> None)"

text \<open>The links that the second loop makes: the identifiers pushed to \<open>roots\<close> and to the children of a node.\<close>

definition root_ids :: "org list \<Rightarrow> string list" where
  "root_ids orgs = map og_id (filter (\<lambda>o'. \<not> has_parent orgs o') orgs)"

definition child_ids :: "org list \<Rightarrow> string \<Rightarrow> string list" where
  "child_ids orgs i = map og_id (filter (\<lambda>o'. has_parent orgs o' \<and> og_parent o' = Some i) orgs)"

fun propagate :: "nat \<Rightarrow> org list \<Rightarrow> string \<Rightarrow> totals \<Rightarrow> (int \<times> totals) option"
  and propagate_children :: "nat \<Rightarrow> org list \<Rightarrow> string list \<Rightarrow> int \<Rightarrow> totals \<Rightarrow> (int \<times> totals) option" where
  "propagate 0 orgs i tot = None"
| "propagate (Suc n) orgs i tot = (case propagate_children n orgs (child_ids orgs i) (tot i) tot of
      None \<Rightarrow> None | Some (s, tot') \<Rightarrow> Some (s, tot'(i := s)))"
| "propagate_children n orgs [] s tot = Some (s, tot)"
| "propagate_children n orgs (c # cs) s tot = (case propagate n orgs c tot of
      None \<Rightarrow> None | Some (s', tot') \<Rightarrow> propagate_children n orgs cs (s + s') tot')"

text \<open>\<open>roots.forEach(propagate)\<close>.\<close>

definition propagate_roots :: "nat \<Rightarrow> org list \<Rightarrow> string list \<Rightarrow> totals \<Rightarrow> totals option" where
  "propagate_roots n orgs rs tot = map_option snd (propagate_children n orgs rs 0 tot)"

text \<open>The object reached from an identifier, read off as a tree.\<close>

fun node_at :: "nat \<Rightarrow> org list \<Rightarrow> totals \<Rightarrow> string \<Rightarrow> org_node option" where
  "node_at 0 orgs tot i = None"
| "node_at (Suc n) orgs tot i = (case org_get orgs i of None \<Rightarrow> None
     | Some o' \<Rightarrow> map_option (\<lambda>cs. OrgNode o' cs (tot i)) (those (map (node_at n orgs tot) (child_ids orgs i))))"

text \<open>\<open>counts[id] || 0\<close>.\<close>

definition count_of :: "(string \<times> int) list \<Rightarrow> totals" where
  "count_of counts i = (case assoc i counts of None \<Rightarrow> 0 | Some c \<Rightarrow> c)"

definition buildTree :: "nat \<Rightarrow> org list \<Rightarrow> (string \<times> int) list \<Rightarrow> org_node list option" where
  "buildTree n orgs counts = (case propagate_roots n orgs (root_ids orgs) (count_of counts) of
      None \<Rightarrow> None | Some tot \<Rightarrow> those (map (node_at n orgs tot) (root_ids orgs)))"

fun findNode :: "org_node list \<Rightarrow> string \<Rightarrow> org_node option" where
  "findNode [] i = None"
| "findNode (OrgNode o' cs t # ns) i =
     (if og_id o' = i then Some (OrgNode o' cs t)
      else (case findNode cs i of Some r \<Rightarrow> Some r | None \<Rightarrow> findNode ns i))"

fun isDescendant :: "org_node \<Rightarrow> string \<Rightarrow> bool" where
  "isDescendant (OrgNode o' cs t) i = (og_id o' = i \<or> list_ex (\<lambda>c. isDescendant c i) cs)"

definition getSiblings :: "org_node list \<Rightarrow> string option \<Rightarrow> string option \<Rightarrow> org_node list" where
  "getSiblings nodes parentId excludeId =
     filter (\<lambda>n. Some (node_id n) \<noteq> excludeId)
       (if \<not> present parentId then nodes
        else (case findNode nodes (the parentId) of None \<Rightarrow> [] | Some p \<Rightarrow> node_children p))"

section \<open>Page state\<close>

datatype modal_mode = CreateRoot | CreateChild | Rename

record tree_page =
  tp_orgs :: "org list"
  tp_counts :: "(string \<times> int) list"
  tp_loading :: bool
  tp_error :: "string option"
  tp_msg :: "string option"
  tp_expanded :: "string list"
  tp_dragging :: "string option"
  tp_dragOver :: "string option"
  tp_search :: string
  tp_matched :: "string list"
  tp_menu :: "string option"
  tp_modal :: "modal_mode option"
  tp_modalOrg :: "string option"
  tp_modalName :: string
  tp_modalDesc :: string
  tp_saving :: bool

text \<open>The tree of the current render; the number of organizations is always enough fuel for distinct identifiers.\<close>

definition page_tree :: "tree_page \<Rightarrow> org_node list" where
  "page_tree p = (case buildTree (length (tp_orgs p)) (tp_orgs p) (tp_counts p) of None \<Rightarrow> [] | Some t \<Rightarrow> t)"

section \<open>Loading\<close>

definition org_of :: "jsv \<Rightarrow> org" where
  "org_of v = \<lparr>og_id = js_to_string (js_opt_prop v ''id''), og_name = js_to_string (js_opt_prop v ''name''),
     og_path = js_to_string (js_opt_prop v ''path''),
     og_parent = (case js_opt_prop v ''parent_id'' of JStr s \<Rightarrow> Some s | _ \<Rightarrow> None),
     og_desc = (case js_opt_prop v ''description'' of JStr s \<Rightarrow> s | _ \<Rightarrow> [])\<rparr>"

text \<open>\<open>memData.members?.length || 0\<close>, and \<open>0\<close> for an exception.\<close>

definition member_count :: "api_exn + jsv \<Rightarrow> int" where
  "member_count r = (case r of Inl _ \<Rightarrow> 0
     | Inr d \<Rightarrow> (case js_opt_prop d ''members'' of JArr ms \<Rightarrow> int (length ms) | JStr s \<Rightarrow> int (length s) | _ \<Rightarrow> 0))"

fun load_counts ::
  "'w env \<Rightarrow> string \<Rightarrow> string \<Rightarrow> org list \<Rightarrow> (string \<times> int) list \<Rightarrow> 'w world \<Rightarrow> (string \<times> int) list \<times> 'w world" where
  "load_counts E base tenant [] counts w = (counts, w)"
| "load_counts E base tenant (o' # os) counts w =
     (case apiFetch E base tenant (''/api/v1/orgs/'' @ og_id o' @ ''/members'') no_options w of
        (r, w1) \<Rightarrow> load_counts E base tenant os (obj_set (og_id o') (member_count r) counts) w1)"

text \<open>An answer whose list is not an array of objects raises a \<open>TypeError\<close>; the model then keeps the rows it
  had.\<close>

definition org_list :: "jsv \<Rightarrow> org list option" where
  "org_list data = (if nullish data then None
     else (case js_or (js_opt_prop data ''organizations'') (JArr []) of
        JArr vs \<Rightarrow> if list_ex nullish vs then None else Some (map org_of vs) | _ \<Rightarrow> None))"

definition tree_loadData :: "'w env \<Rightarrow> string \<Rightarrow> string \<Rightarrow> tree_page \<times> 'w world \<Rightarrow> tree_page \<times> 'w world" where
  "tree_loadData E base tenant pw = (case pw of (p, w) \<Rightarrow>
     (case apiFetch E base tenant ''/api/v1/orgs'' no_options w of
        (Inl e, w1) \<Rightarrow> (p\<lparr>tp_error := Some (api_exn_message E e), tp_loading := False\<rparr>, w1)
      | (Inr data, w1) \<Rightarrow> (case org_list data of
            None \<Rightarrow> (p\<lparr>tp_error := Some (type_message E), tp_loading := False\<rparr>, w1)
          | Some os \<Rightarrow> (case load_counts E base tenant os [] w1 of (counts, w2) \<Rightarrow>
              (p\<lparr>tp_orgs := os, tp_counts := counts,
                 tp_expanded := js_set (map og_id (filter (\<lambda>o'. \<not> present (og_parent o')) os)),
                 tp_error := None, tp_loading := False\<rparr>, w2)))))"

section \<open>Search\<close>

text \<open>\<open>orgs.find(o => o.id === id)?.parent_id\<close>: the first record of an identifier.\<close>

definition first_parent :: "org list \<Rightarrow> string \<Rightarrow> string option" where
  "first_parent orgs i = (case find (\<lambda>o'. og_id o' = i) orgs of None \<Rightarrow> None | Some o' \<Rightarrow> og_parent o')"

definition search_hits :: "org list \<Rightarrow> string \<Rightarrow> string list" where
  "search_hits orgs search = (let q = to_lower search in
     js_set (map og_id (filter (\<lambda>o'. str_includes (to_lower (og_name o')) q \<or> str_includes (to_lower (og_desc o')) q) orgs)))"

definition expand_ancestors :: "org list \<Rightarrow> string \<Rightarrow> string list \<Rightarrow> string list option" where
  "expand_ancestors orgs i ex = climb (first_parent orgs) js_add (first_parent orgs i) ex"

fun expand_all_ancestors :: "org list \<Rightarrow> string list \<Rightarrow> string list \<Rightarrow> string list option" where
  "expand_all_ancestors orgs [] ex = Some ex"
| "expand_all_ancestors orgs (i # is) ex = (case expand_ancestors orgs i ex of None \<Rightarrow> None
     | Some ex' \<Rightarrow> expand_all_ancestors orgs is ex')"

text \<open>The effect that runs after a change of the search text or of the organizations; \<^term>\<open>None\<close>: it does not end.\<close>

definition search_effect :: "tree_page \<Rightarrow> tree_page option" where
  "search_effect p =
     (if trim (tp_search p) = [] then Some (p\<lparr>tp_matched := []\<rparr>)
      else (let matched = search_hits (tp_orgs p) (tp_search p) in
        if matched = [] then Some (p\<lparr>tp_matched := []\<rparr>)
        else map_option (\<lambda>ex. p\<lparr>tp_matched := matched, tp_expanded := ex\<rparr>)
          (expand_all_ancestors (tp_orgs p) matched (tp_expanded p))))"

definition tree_toggleExpand :: "string \<Rightarrow> tree_page \<Rightarrow> tree_page" where
  "tree_toggleExpand i p = p\<lparr>tp_expanded := js_toggle i (tp_expanded p)\<rparr>"

section \<open>Drag and drop\<close>

definition handleDragStart :: "string \<Rightarrow> tree_page \<Rightarrow> tree_page" where
  "handleDragStart orgId p = p\<lparr>tp_dragging := Some orgId\<rparr>"

definition handleDragOver :: "string \<Rightarrow> tree_page \<Rightarrow> tree_page" where
  "handleDragOver orgId p = (if present (tp_dragging p) \<and> Some orgId \<noteq> tp_dragging p
     then p\<lparr>tp_dragOver := Some orgId\<rparr> else p)"

definition handleDragLeave :: "tree_page \<Rightarrow> tree_page" where
  "handleDragLeave p = p\<lparr>tp_dragOver := None\<rparr>"

definition handleDragEnd :: "tree_page \<Rightarrow> tree_page" where
  "handleDragEnd p = p\<lparr>tp_dragging := None, tp_dragOver := None\<rparr>"

definition reparent :: "string \<Rightarrow> string \<Rightarrow> org list \<Rightarrow> org list" where
  "reparent src tgt orgs = map (\<lambda>o'. if og_id o' = src then o'\<lparr>og_parent := Some tgt\<rparr> else o') orgs"

text \<open>The part of \<open>handleDrop\<close> before the request: the new state, and the organization that is moved
  unless the handler returns early.\<close>

definition drop_local :: "string \<Rightarrow> tree_page \<Rightarrow> string option \<times> tree_page" where
  "drop_local tgt p =
     (let p1 = p\<lparr>tp_dragOver := None, tp_dragging := None\<rparr> in
      if \<not> present (tp_dragging p) \<or> tp_dragging p = Some tgt then (None, p1)
      else (let src = the (tp_dragging p) in
        case find (\<lambda>n. node_id n = src) (page_tree p) of
          Some n \<Rightarrow> if isDescendant n tgt
            then (None, p1\<lparr>tp_error := Some ''Cannot reassign an org to its own descendant''\<rparr>)
            else (Some src, p1\<lparr>tp_orgs := reparent src tgt (tp_orgs p)\<rparr>)
        | None \<Rightarrow> (Some src, p1\<lparr>tp_orgs := reparent src tgt (tp_orgs p)\<rparr>)))"

definition json_options :: "string \<Rightarrow> (string \<times> jsv) list \<Rightarrow> req_options" where
  "json_options m kvs = \<lparr>o_method = Some m, o_headers = [], o_body = Some (json_stringify (JObj kvs))\<rparr>"

text \<open>\<open>orgMap.get(id)?.name\<close> in a template.\<close>

definition org_label :: "org list \<Rightarrow> string \<Rightarrow> string" where
  "org_label orgs i = (case org_get orgs i of None \<Rightarrow> ''undefined'' | Some o' \<Rightarrow> og_name o')"

definition quote_mark :: string where "quote_mark = [CHR 0x22]"

definition handleDrop :: "'w env \<Rightarrow> string \<Rightarrow> string \<Rightarrow> string \<Rightarrow> tree_page \<times> 'w world \<Rightarrow> tree_page \<times> 'w world" where
  "handleDrop E base tenant tgt pw = (case pw of (p, w) \<Rightarrow>
     (case drop_local tgt p of
        (None, p1) \<Rightarrow> (p1, w)
      | (Some src, p1) \<Rightarrow>
          (case apiFetch E base tenant (''/api/v1/orgs/'' @ src) (json_options ''PUT'' [(''parent_id'', JStr tgt)]) w of
             (Inl e, w1) \<Rightarrow> tree_loadData E base tenant (p1\<lparr>tp_error := Some (api_exn_message E e)\<rparr>, w1)
           | (Inr _, w1) \<Rightarrow> tree_loadData E base tenant
               (p1\<lparr>tp_msg := Some (''Moved '' @ quote_mark @ org_label (tp_orgs p) src @ quote_mark @ '' under '' @
                   quote_mark @ org_label (tp_orgs p) tgt @ quote_mark)\<rparr>, w1))))"

section \<open>Menu and dialogs\<close>

definition handleContextMenu :: "string \<Rightarrow> tree_page \<Rightarrow> tree_page" where
  "handleContextMenu orgId p = p\<lparr>tp_menu := Some orgId\<rparr>"

text \<open>\<open>findIndex\<close>: \<open>-1\<close> if there is none.\<close>

definition sibling_index :: "org_node list \<Rightarrow> string \<Rightarrow> int" where
  "sibling_index ns i = (let k = length (takeWhile (\<lambda>n. node_id n \<noteq> i) ns) in if k < length ns then int k else - 1)"

text \<open>Whether the entries \<open>Move Up\<close> and \<open>Move Down\<close> are enabled; \<^term>\<open>None\<close>: no menu is shown.\<close>

definition menu_moves :: "tree_page \<Rightarrow> (bool \<times> bool) option" where
  "menu_moves p = (case tp_menu p of None \<Rightarrow> None
     | Some i \<Rightarrow> (case findNode (page_tree p) i of None \<Rightarrow> None
        | Some n \<Rightarrow>
            (let siblings = getSiblings (page_tree p) (og_parent (node_org n)) (Some (node_id n));
                 myIndex = sibling_index (getSiblings (page_tree p) (og_parent (node_org n)) None) (node_id n)
             in Some (\<not> myIndex \<le> 0, \<not> myIndex \<ge> int (length siblings)))))"

definition openCreateRoot :: "tree_page \<Rightarrow> tree_page" where
  "openCreateRoot p = p\<lparr>tp_modal := Some CreateRoot, tp_modalOrg := None, tp_modalName := [], tp_modalDesc := []\<rparr>"

definition openCreateChild :: "string \<Rightarrow> tree_page \<Rightarrow> tree_page" where
  "openCreateChild i p = p\<lparr>tp_modal := Some CreateChild, tp_modalOrg := Some i, tp_modalName := [], tp_modalDesc := []\<rparr>"

definition openRename :: "string \<Rightarrow> tree_page \<Rightarrow> tree_page" where
  "openRename i p = p\<lparr>tp_modal := Some Rename, tp_modalOrg := Some i,
     tp_modalName := (case org_get (tp_orgs p) i of None \<Rightarrow> [] | Some o' \<Rightarrow> og_name o'),
     tp_modalDesc := (case org_get (tp_orgs p) i of None \<Rightarrow> [] | Some o' \<Rightarrow> og_desc o')\<rparr>"

definition closeModal :: "tree_page \<Rightarrow> tree_page" where
  "closeModal p = p\<lparr>tp_modal := None, tp_modalOrg := None, tp_modalName := [], tp_modalDesc := []\<rparr>"

text \<open>The request of the dialog and the message after it; \<^term>\<open>None\<close>: no branch applies and none is sent.\<close>

definition modal_request :: "tree_page \<Rightarrow> ((string \<times> req_options) \<times> string) option" where
  "modal_request p =
     (let nm = (''name'', JStr (tp_modalName p)); ds = (''description'', JStr (tp_modalDesc p));
          shown = quote_mark @ tp_modalName p @ quote_mark in
      if tp_modal p = Some CreateRoot then
        Some ((''/api/v1/orgs'', json_options ''POST'' [nm, ds]), ''Created root org '' @ shown)
      else if tp_modal p = Some CreateChild \<and> present (tp_modalOrg p) then
        Some ((''/api/v1/orgs'', json_options ''POST'' [nm, ds, (''parent_id'', JStr (the (tp_modalOrg p)))]),
          ''Created child org '' @ shown)
      else if tp_modal p = Some Rename \<and> present (tp_modalOrg p) then
        Some ((''/api/v1/orgs/'' @ the (tp_modalOrg p), json_options ''PUT'' [nm, ds]), ''Renamed to '' @ shown)
      else None)"

definition handleSaveModal :: "'w env \<Rightarrow> string \<Rightarrow> string \<Rightarrow> tree_page \<times> 'w world \<Rightarrow> tree_page \<times> 'w world" where
  "handleSaveModal E base tenant pw = (case pw of (p, w) \<Rightarrow>
     if trim (tp_modalName p) = [] then (p\<lparr>tp_error := Some ''Organization name is required''\<rparr>, w)
     else (case modal_request p of
        None \<Rightarrow> tree_loadData E base tenant (closeModal (p\<lparr>tp_error := None, tp_saving := False\<rparr>), w)
      | Some ((path, opts), done_msg) \<Rightarrow>
          (case apiFetch E base tenant path opts w of
             (Inl e, w1) \<Rightarrow> (p\<lparr>tp_error := Some (api_exn_message E e), tp_saving := False\<rparr>, w1)
           | (Inr _, w1) \<Rightarrow> tree_loadData E base tenant
               (closeModal (p\<lparr>tp_error := None, tp_saving := False, tp_msg := Some done_msg\<rparr>), w1))))"

text \<open>\<open>handleDelete\<close> asks for a confirmation (\<^term>\<open>None\<close>: it does not, the organization is unknown);
  \<open>delete_confirmed\<close> is the \<open>onConfirm\<close> it passes.\<close>

definition delete_title :: "string \<Rightarrow> tree_page \<Rightarrow> string option" where
  "delete_title orgId p = map_option (\<lambda>o'. ''Delete '' @ quote_mark @ og_name o' @ quote_mark @ ''?'') (org_get (tp_orgs p) orgId)"

definition delete_confirmed :: "'w env \<Rightarrow> string \<Rightarrow> string \<Rightarrow> string \<Rightarrow> tree_page \<times> 'w world \<Rightarrow> tree_page \<times> 'w world" where
  "delete_confirmed E base tenant orgId pw = (case pw of (p, w) \<Rightarrow>
     (case apiFetch E base tenant (''/api/v1/orgs/'' @ orgId) \<lparr>o_method = Some ''DELETE'', o_headers = [], o_body = None\<rparr> w of
        (Inl e, w1) \<Rightarrow> (p\<lparr>tp_error := Some (api_exn_message E e)\<rparr>, w1)
      | (Inr _, w1) \<Rightarrow> tree_loadData E base tenant
          (p\<lparr>tp_msg := Some (''Deleted '' @ quote_mark @ org_label (tp_orgs p) orgId @ quote_mark)\<rparr>, w1)))"

definition move_target :: "bool \<Rightarrow> int \<Rightarrow> int \<Rightarrow> int option" where
  "move_target up myIndex n = (if up \<and> 0 < myIndex then Some (myIndex - 1)
     else if \<not> up \<and> myIndex < n - 1 then Some (myIndex + 1) else None)"

definition handleMove :: "'w env \<Rightarrow> string \<Rightarrow> string \<Rightarrow> string \<Rightarrow> bool \<Rightarrow> tree_page \<times> 'w world \<Rightarrow> tree_page \<times> 'w world" where
  "handleMove E base tenant orgId up pw = (case pw of (p, w) \<Rightarrow>
     (case findNode (page_tree p) orgId of None \<Rightarrow> (p, w)
      | Some n \<Rightarrow>
          (let siblings = getSiblings (page_tree p) (og_parent (node_org n)) None in
           case move_target up (sibling_index siblings orgId) (int (length siblings)) of
             None \<Rightarrow> (p, w)
           | Some k \<Rightarrow>
               (let said = ''Moved '' @ quote_mark @ og_name (node_org n) @ quote_mark @ (if up then '' up'' else '' down'') in
                case apiFetch E base tenant (''/api/v1/orgs/'' @ orgId) (json_options ''PUT'' [(''sort_order'', JNum k)]) w of
                  (r, w1) \<Rightarrow> tree_loadData E base tenant
                    (p\<lparr>tp_msg := Some (said @ (case r of Inl _ \<Rightarrow> '' (local only)'' | Inr _ \<Rightarrow> []))\<rparr>, w1)))))"

section \<open>Rendering\<close>

text \<open>The rows that are shown: identifiers with their depth.\<close>

fun renderNode :: "string list \<Rightarrow> string list \<Rightarrow> org_node \<Rightarrow> nat \<Rightarrow> (string \<times> nat) list" where
  "renderNode matched expanded (OrgNode o' cs t) depth =
     (if matched \<noteq> [] \<and> og_id o' \<notin> set matched \<and> cs = [] then []
      else (og_id o', depth) #
        (if og_id o' \<in> set expanded then concat (map (\<lambda>c. renderNode matched expanded c (Suc depth)) cs) else []))"

definition tree_rows :: "tree_page \<Rightarrow> (string \<times> nat) list" where
  "tree_rows p = concat (map (\<lambda>n. renderNode (tp_matched p) (tp_expanded p) n 0) (page_tree p))"

section \<open>The forest of the parent links\<close>

text \<open>The specification the tree is compared with: \<open>below\<close> is the closure of the child links, an
  organization is \<open>rooted\<close> if it is below a root.\<close>

abbreviation below :: "org list \<Rightarrow> string \<Rightarrow> string \<Rightarrow> bool" where
  "below orgs \<equiv> (\<lambda>a b. b \<in> set (child_ids orgs a))\<^sup>*\<^sup>*"

definition rooted :: "org list \<Rightarrow> string \<Rightarrow> bool" where
  "rooted orgs i = (\<exists>r \<in> set (root_ids orgs). below orgs r i)"

definition unique_ids :: "org list \<Rightarrow> bool" where
  "unique_ids orgs = distinct (map og_id orgs)"

inductive depth :: "org list \<Rightarrow> string \<Rightarrow> nat \<Rightarrow> bool" for orgs where
  root: "i \<in> set (root_ids orgs) \<Longrightarrow> depth orgs i 0"
| child: "depth orgs p d \<Longrightarrow> i \<in> set (child_ids orgs p) \<Longrightarrow> depth orgs i (Suc d)"

inductive_cases depthE: "depth orgs i d"

lemma unique_same: "unique_ids orgs \<Longrightarrow> a \<in> set orgs \<Longrightarrow> b \<in> set orgs \<Longrightarrow> og_id a = og_id b \<Longrightarrow> a = b"
  unfolding unique_ids_def distinct_map by (blast dest: inj_onD)

lemma org_get_iff:
  assumes "unique_ids orgs"
  shows "org_get orgs i = Some o' \<longleftrightarrow> o' \<in> set orgs \<and> og_id o' = i"
proof
  assume "org_get orgs i = Some o'"
  then have "find (\<lambda>o'. og_id o' = i) (rev orgs) = Some o'" by (simp add: org_get_def)
  then show "o' \<in> set orgs \<and> og_id o' = i" using find_SomeD by fastforce
next
  assume a: "o' \<in> set orgs \<and> og_id o' = i"
  then have "org_get orgs i \<noteq> None" by (auto simp: org_get_def find_None_iff)
  then obtain b where b: "org_get orgs i = Some b" by auto
  then have "find (\<lambda>o'. og_id o' = i) (rev orgs) = Some b" by (simp add: org_get_def)
  then have "b \<in> set orgs \<and> og_id b = i" using find_SomeD by fastforce
  then show "org_get orgs i = Some o'" using a assms b unique_same[of orgs b o'] by simp
qed

lemma org_get_None: "org_get orgs i = None \<longleftrightarrow> i \<notin> og_id ` set orgs"
  by (auto simp: org_get_def find_None_iff)

lemma first_get: "unique_ids orgs \<Longrightarrow> find (\<lambda>o'. og_id o' = i) orgs = org_get orgs i"
proof (cases "find (\<lambda>o'. og_id o' = i) orgs")
  case None
  then have "i \<notin> og_id ` set orgs" by (auto simp: find_None_iff)
  then show ?thesis using None by (simp add: org_get_None[THEN iffD2])
next
  case (Some o')
  assume u: "unique_ids orgs"
  have "o' \<in> set orgs \<and> og_id o' = i" using find_SomeD[OF Some] .
  then have "org_get orgs i = Some o'" using org_get_iff[OF u] by blast
  then show ?thesis using Some by simp
qed

lemma root_iff: "unique_ids orgs \<Longrightarrow>
    i \<in> set (root_ids orgs) \<longleftrightarrow> (\<exists>o'. org_get orgs i = Some o' \<and> \<not> has_parent orgs o')"
  by (auto simp: root_ids_def org_get_iff)

lemma child_iff: "unique_ids orgs \<Longrightarrow>
    i \<in> set (child_ids orgs p) \<longleftrightarrow> (\<exists>o'. org_get orgs i = Some o' \<and> has_parent orgs o' \<and> og_parent o' = Some p)"
  by (auto simp: child_ids_def org_get_iff)

lemma parent_unique: "unique_ids orgs \<Longrightarrow> i \<in> set (child_ids orgs p) \<Longrightarrow> i \<in> set (child_ids orgs q) \<Longrightarrow> p = q"
  by (auto simp: child_iff)

lemma root_no_child: "unique_ids orgs \<Longrightarrow> i \<in> set (root_ids orgs) \<Longrightarrow> i \<notin> set (child_ids orgs p)"
  by (auto simp: child_iff root_iff)

lemma distinct_links [simp]: "unique_ids orgs \<Longrightarrow> distinct (child_ids orgs i)" "unique_ids orgs \<Longrightarrow> distinct (root_ids orgs)"
  by (auto simp: unique_ids_def child_ids_def root_ids_def distinct_map intro: inj_on_subset)

lemma depth_fun: "depth orgs i d \<Longrightarrow> depth orgs i e \<Longrightarrow> unique_ids orgs \<Longrightarrow> d = e"
proof (induction i d arbitrary: e rule: depth.induct)
  case (root i)
  then show ?case by (auto elim!: depthE[of orgs i e] dest: root_no_child)
next
  case (child p d i)
  from child.prems(1) show ?case
  proof (cases rule: depth.cases)
    case root
    then show ?thesis using child root_no_child by blast
  next
    case (child q e')
    then show ?thesis using child.IH child.prems child.hyps(2) parent_unique by blast
  qed
qed

lemma depth_known: "depth orgs i d \<Longrightarrow> i \<in> og_id ` set orgs"
  by (induction rule: depth.induct) (auto simp: root_ids_def child_ids_def)

lemma depth_lower: "depth orgs i d \<Longrightarrow> k \<le> d \<Longrightarrow> \<exists>j. depth orgs j k"
  by (induction rule: depth.induct) (auto intro: depth.intros simp: le_Suc_eq)

lemma depth_bound:
  assumes "unique_ids orgs" "depth orgs i d"
  shows "d < length orgs"
proof -
  define f where "f k = (SOME j. depth orgs j k)" for k
  have f: "depth orgs (f k) k" if "k \<le> d" for k
    unfolding f_def by (rule someI_ex) (rule depth_lower[OF assms(2) that])
  then have "inj_on f {..d}" using depth_fun[OF _ _ assms(1)] by (metis atMost_iff inj_onI)
  moreover have "f ` {..d} \<subseteq> og_id ` set orgs" using f depth_known by blast
  ultimately have "card {..d} \<le> card (og_id ` set orgs)" by (meson card_inj_on_le finite_imageI finite_set)
  also have "\<dots> \<le> length orgs" by (meson card_image_le card_length finite_set le_trans)
  finally show ?thesis by simp
qed

lemma depth_below: "below orgs i j \<Longrightarrow> depth orgs i d \<Longrightarrow> \<exists>e \<ge> d. depth orgs j e \<and> (e = d \<longrightarrow> j = i)"
proof (induction rule: rtranclp_induct)
  case (step y z)
  then obtain e where "d \<le> e" "depth orgs y e" by blast
  then show ?case using depth.child[OF _ step.hyps(2)] by (intro exI[of _ "Suc e"]) simp
qed auto

lemma rooted_depth: "rooted orgs i \<longleftrightarrow> (\<exists>d. depth orgs i d)"
proof
  assume "\<exists>d. depth orgs i d"
  then obtain d where "depth orgs i d" ..
  then show "rooted orgs i"
    by (induction rule: depth.induct) (auto simp: rooted_def intro: rtranclp.rtrancl_into_rtrancl)
qed (auto simp: rooted_def dest: depth.root depth_below)

text \<open>Two organizations of the same depth have nothing below them in common.\<close>

lemma below_disjoint:
  assumes "unique_ids orgs" "depth orgs c d" "depth orgs c' d" "below orgs c j" "below orgs c' j"
  shows "c = c'"
  using assms(4,5)
proof (induction rule: rtranclp_induct)
  case base
  then show ?case using depth_below[OF base assms(3)] assms(1,2) depth_fun by blast
next
  case (step y z)
  obtain e where e: "d \<le> e" "depth orgs y e" using depth_below[OF step.hyps(1) assms(2)] by blast
  from step.prems show ?case
  proof (cases rule: rtranclp.cases)
    case rtrancl_refl
    then show ?thesis using depth.child[OF e(2) step.hyps(2)] assms(1,3) e(1) depth_fun by fastforce
  next
    case (rtrancl_into_rtrancl y')
    then show ?thesis using step parent_unique[OF assms(1)] by metis
  qed
qed

subsection \<open>Subtrees\<close>

fun preorder :: "nat \<Rightarrow> org list \<Rightarrow> string \<Rightarrow> string list" where
  "preorder 0 orgs i = []"
| "preorder (Suc n) orgs i = i # concat (map (preorder n orgs) (child_ids orgs i))"

definition subtree :: "org list \<Rightarrow> string \<Rightarrow> string list" where
  "subtree orgs i = preorder (length orgs) orgs i"

lemma preorder_fuel:
  "unique_ids orgs \<Longrightarrow> depth orgs i d \<Longrightarrow> length orgs \<le> n + d \<Longrightarrow> length orgs \<le> m + d \<Longrightarrow>
   preorder n orgs i = preorder m orgs i"
proof (induction n arbitrary: m i d)
  case 0
  then show ?case using depth_bound by fastforce
next
  case (Suc n)
  then obtain m' where m: "m = Suc m'" using depth_bound[OF Suc.prems(1,2)] by (cases m) auto
  have "preorder n orgs c = preorder m' orgs c" if "c \<in> set (child_ids orgs i)" for c
    using Suc.prems(3,4) m by (intro Suc.IH[OF Suc.prems(1) depth.child[OF Suc.prems(2) that]]) simp_all
  then have "map (preorder n orgs) (child_ids orgs i) = map (preorder m' orgs) (child_ids orgs i)"
    by (intro map_cong refl)
  then show ?case by (simp only: m preorder.simps)
qed

lemma subtree_unfold:
  assumes "unique_ids orgs" "depth orgs i d"
  shows "subtree orgs i = i # concat (map (subtree orgs) (child_ids orgs i))"
proof -
  obtain l where l: "length orgs = Suc l" using depth_bound[OF assms] by (cases "length orgs") auto
  have "preorder l orgs c = subtree orgs c" if "c \<in> set (child_ids orgs i)" for c
    using preorder_fuel[OF assms(1) depth.child[OF assms(2) that], of l "length orgs"] l by (simp add: subtree_def)
  then have "map (preorder l orgs) (child_ids orgs i) = map (subtree orgs) (child_ids orgs i)" by simp
  then show ?thesis by (simp only: subtree_def[of orgs i] l preorder.simps)
qed

lemma depth_induct [consumes 2, case_names node]:
  assumes "unique_ids orgs" "depth orgs i d"
    and "\<And>i d. depth orgs i d \<Longrightarrow> (\<And>c. c \<in> set (child_ids orgs i) \<Longrightarrow> P c (Suc d)) \<Longrightarrow> P i d"
  shows "P i d"
  using assms(2)
proof (induction "length orgs - d" arbitrary: i d rule: less_induct)
  case less
  have "length orgs - Suc d < length orgs - d" using depth_bound[OF assms(1) less.prems] by simp
  then show ?case using less assms(3) depth.child by blast
qed

lemma set_subtree:
  assumes "unique_ids orgs" "depth orgs i d"
  shows "set (subtree orgs i) = {j. below orgs i j}"
  using assms
proof (induction rule: depth_induct)
  case (node i d)
  have "below orgs i j \<longleftrightarrow> j = i \<or> (\<exists>c \<in> set (child_ids orgs i). below orgs c j)" for j
    by (auto elim: converse_rtranclpE intro: converse_rtranclp_into_rtranclp)
  then show ?case using node.IH by (auto simp: subtree_unfold[OF assms(1) node.hyps(1)])
qed

lemma distinct_concat_mapI:
  assumes "distinct xs" "\<And>x. x \<in> set xs \<Longrightarrow> distinct (f x)"
    and "\<And>x y. x \<in> set xs \<Longrightarrow> y \<in> set xs \<Longrightarrow> x \<noteq> y \<Longrightarrow> set (f x) \<inter> set (f y) = {}"
  shows "distinct (concat (map f xs))"
  using assms
proof (induction xs)
  case (Cons x xs)
  then have "set (f x) \<inter> set (f y) = {}" if "y \<in> set xs" for y using that by force
  then show ?case using Cons by auto
qed simp

lemma subtree_disjoint:
  assumes "unique_ids orgs" "depth orgs c d" "depth orgs c' d" "c \<noteq> c'"
  shows "set (subtree orgs c) \<inter> set (subtree orgs c') = {}"
  using below_disjoint[OF assms(1-3)] assms(4) set_subtree[OF assms(1,2)] set_subtree[OF assms(1,3)] by blast

lemma distinct_forest:
  assumes "unique_ids orgs" "distinct cs" "\<And>c. c \<in> set cs \<Longrightarrow> depth orgs c d" "\<And>c. c \<in> set cs \<Longrightarrow> distinct (subtree orgs c)"
  shows "distinct (concat (map (subtree orgs) cs))"
proof (rule distinct_concat_mapI)
  fix x y assume "x \<in> set cs" "y \<in> set cs" "x \<noteq> y"
  then show "set (subtree orgs x) \<inter> set (subtree orgs y) = {}"
    using subtree_disjoint[OF assms(1) assms(3) assms(3)] by blast
qed (use assms in auto)

lemma distinct_subtree:
  assumes "unique_ids orgs" "depth orgs i d"
  shows "distinct (subtree orgs i)"
  using assms
proof (induction rule: depth_induct)
  case (node i d)
  let ?cs = "child_ids orgs i"
  have dc: "depth orgs c (Suc d)" if "c \<in> set ?cs" for c using node.hyps that by (rule depth.child)
  have "distinct (concat (map (subtree orgs) ?cs))"
    using node.IH dc assms(1) by (intro distinct_forest) auto
  moreover have "i \<notin> set (subtree orgs c)" if "c \<in> set ?cs" for c
  proof
    assume "i \<in> set (subtree orgs c)"
    then have "below orgs c i" using set_subtree[OF assms(1) dc[OF that]] by simp
    then show False using depth_below[OF _ dc[OF that]] depth_fun[OF _ node.hyps assms(1)] by fastforce
  qed
  ultimately show ?case by (auto simp: subtree_unfold[OF assms(1) node.hyps])
qed

text \<open>The roots together.\<close>

lemma distinct_roots:
  assumes "unique_ids orgs"
  shows "distinct (concat (map (subtree orgs) (root_ids orgs)))"
  using assms distinct_subtree[OF assms] depth.root[of _ orgs] by (intro distinct_forest[of orgs _ 0]) auto

lemma set_roots:
  assumes "unique_ids orgs"
  shows "set (concat (map (subtree orgs) (root_ids orgs))) = {i. rooted orgs i}"
  using set_subtree[OF assms depth.root] by (auto simp: rooted_def)

subsection \<open>Totals\<close>

definition total_below :: "org list \<Rightarrow> totals \<Rightarrow> string \<Rightarrow> int" where
  "total_below orgs tot i = sum_list (map tot (subtree orgs i))"

definition totals_set :: "org list \<Rightarrow> string set \<Rightarrow> totals \<Rightarrow> totals" where
  "totals_set orgs A tot = (\<lambda>j. if j \<in> A then total_below orgs tot j else tot j)"

lemma total_below_cong: "(\<And>j. j \<in> set (subtree orgs i) \<Longrightarrow> tot' j = tot j) \<Longrightarrow> total_below orgs tot' i = total_below orgs tot i"
  by (simp add: total_below_def cong: map_cong)

lemma below_rooted: "unique_ids orgs \<Longrightarrow> depth orgs i d \<Longrightarrow> j \<in> set (subtree orgs i) \<Longrightarrow>
    (\<exists>e. depth orgs j e) \<and> set (subtree orgs j) \<subseteq> set (subtree orgs i)"
  using depth_below[of orgs i j d] by (auto simp: set_subtree dest: rtranclp_trans)

lemma totals_set_later:
  assumes "unique_ids orgs" "depth orgs c d" "\<And>j. j \<in> set (subtree orgs c) \<Longrightarrow> j \<notin> A" "k \<in> set (subtree orgs c)"
  shows "total_below orgs (totals_set orgs A tot) k = total_below orgs tot k"
  using below_rooted[OF assms(1,2,4)] assms(3) by (intro total_below_cong) (auto simp: totals_set_def)

lemma propagate_children_total:
  assumes "unique_ids orgs" "distinct cs" "\<And>c. c \<in> set cs \<Longrightarrow> depth orgs c d"
    and "\<And>c tot. c \<in> set cs \<Longrightarrow>
      propagate n orgs c tot = Some (total_below orgs tot c, totals_set orgs (set (subtree orgs c)) tot)"
  shows "propagate_children n orgs cs s tot =
    Some (s + sum_list (map (total_below orgs tot) cs), totals_set orgs (\<Union>c \<in> set cs. set (subtree orgs c)) tot)"
  using assms(2-4)
proof (induction cs arbitrary: s tot)
  case Nil
  then show ?case by (simp add: totals_set_def)
next
  case (Cons c cs)
  let ?t = "totals_set orgs (set (subtree orgs c)) tot"
  have dis: "j \<notin> set (subtree orgs c)" if "e \<in> set cs" "j \<in> set (subtree orgs e)" for e j
    using subtree_disjoint[OF assms(1) Cons.prems(2)[of e] Cons.prems(2)[of c]] Cons.prems(1) that by auto
  have later: "total_below orgs ?t k = total_below orgs tot k" if "e \<in> set cs" "k \<in> set (subtree orgs e)" for e k
    by (rule totals_set_later[OF assms(1) Cons.prems(2)[of e]]) (use that dis in auto)
  have self: "e \<in> set (subtree orgs e)" if "e \<in> set cs" for e
    using set_subtree[OF assms(1) Cons.prems(2)[of e]] that by simp
  have sums: "map (total_below orgs ?t) cs = map (total_below orgs tot) cs" using later self by auto
  have upd: "totals_set orgs (\<Union>e \<in> set cs. set (subtree orgs e)) ?t =
      totals_set orgs (\<Union>e \<in> set (c # cs). set (subtree orgs e)) tot"
  proof
    fix j
    show "totals_set orgs (\<Union>e \<in> set cs. set (subtree orgs e)) ?t j =
        totals_set orgs (\<Union>e \<in> set (c # cs). set (subtree orgs e)) tot j"
      using later by (cases "\<exists>e \<in> set cs. j \<in> set (subtree orgs e)") (auto simp: totals_set_def)
  qed
  have "propagate_children n orgs cs (s + total_below orgs tot c) ?t =
      Some (s + total_below orgs tot c + sum_list (map (total_below orgs ?t) cs),
        totals_set orgs (\<Union>e \<in> set cs. set (subtree orgs e)) ?t)"
    using Cons.IH[of "s + total_below orgs tot c" ?t] Cons.prems by simp
  then show ?case using Cons.prems(3)[of c] by (simp add: sums upd add.assoc)
qed

lemma total_below_unfold:
  assumes "unique_ids orgs" "depth orgs i d"
  shows "total_below orgs tot i = tot i + sum_list (map (total_below orgs tot) (child_ids orgs i))"
proof -
  have "sum_list (map tot (concat (map f cs))) = sum_list (map (\<lambda>c. sum_list (map tot (f c))) cs)"
    for f :: "string \<Rightarrow> string list" and cs by (induction cs) auto
  then show ?thesis by (simp add: total_below_def[abs_def] subtree_unfold[OF assms])
qed

lemma propagate_total:
  assumes "unique_ids orgs"
  shows "depth orgs i d \<Longrightarrow> length orgs \<le> n + d \<Longrightarrow>
    propagate n orgs i tot = Some (total_below orgs tot i, totals_set orgs (set (subtree orgs i)) tot)"
proof (induction n arbitrary: i d tot)
  case 0
  then show ?case using depth_bound[OF assms] by fastforce
next
  case (Suc n)
  let ?cs = "child_ids orgs i"
  have "propagate_children n orgs ?cs (tot i) tot = Some (tot i + sum_list (map (total_below orgs tot) ?cs),
      totals_set orgs (\<Union>c \<in> set ?cs. set (subtree orgs c)) tot)"
    using assms Suc.IH[OF depth.child[OF Suc.prems(1)]] Suc.prems(2) depth.child[OF Suc.prems(1)]
    by (intro propagate_children_total[where d = "Suc d"]) auto
  moreover have "(totals_set orgs (\<Union>c \<in> set ?cs. set (subtree orgs c)) tot)(i := total_below orgs tot i) =
      totals_set orgs (set (subtree orgs i)) tot"
    by (auto simp: totals_set_def subtree_unfold[OF assms Suc.prems(1)])
  ultimately show ?case by (simp add: total_below_unfold[OF assms Suc.prems(1)])
qed

subsection \<open>The tree\<close>

fun tree_ids :: "org_node \<Rightarrow> string list" where
  "tree_ids (OrgNode o' cs t) = og_id o' # concat (map tree_ids cs)"

fun tree_nodes :: "org_node \<Rightarrow> org_node list" where
  "tree_nodes (OrgNode o' cs t) = OrgNode o' cs t # concat (map tree_nodes cs)"

lemma those_map: "(\<And>x. x \<in> set xs \<Longrightarrow> f x = Some (g x)) \<Longrightarrow> those (map f xs) = Some (map g xs)"
  by (induction xs) auto

text \<open>A node that represents \<open>i\<close>: its own record, its children in order, its total.\<close>

definition node_ok :: "org list \<Rightarrow> totals \<Rightarrow> org_node \<Rightarrow> bool" where
  "node_ok orgs tot t = (org_get orgs (node_id t) = Some (node_org t) \<and> node_total t = tot (node_id t) \<and>
     map node_id (node_children t) = child_ids orgs (node_id t) \<and> tree_ids t = subtree orgs (node_id t))"

lemma node_at_ok:
  assumes "unique_ids orgs"
  shows "depth orgs i d \<Longrightarrow> length orgs \<le> n + d \<Longrightarrow>
    \<exists>t. node_at n orgs tot i = Some t \<and> node_id t = i \<and> (\<forall>s \<in> set (tree_nodes t). node_ok orgs tot s)"
proof (induction n arbitrary: i d)
  case 0
  then show ?case using depth_bound[OF assms] by fastforce
next
  case (Suc n)
  let ?cs = "child_ids orgs i"
  obtain o' where o': "org_get orgs i = Some o'" "og_id o' = i"
    using depth_known[OF Suc.prems(1)] org_get_iff[OF assms] by blast
  have "\<forall>c \<in> set ?cs. \<exists>t. node_at n orgs tot c = Some t \<and> node_id t = c \<and> (\<forall>s \<in> set (tree_nodes t). node_ok orgs tot s)"
    using Suc.IH[OF depth.child[OF Suc.prems(1)]] Suc.prems(2) by simp
  then obtain g where g: "\<And>c. c \<in> set ?cs \<Longrightarrow> node_at n orgs tot c = Some (g c)"
      "\<And>c. c \<in> set ?cs \<Longrightarrow> node_id (g c) = c" "\<And>c. c \<in> set ?cs \<Longrightarrow> \<forall>s \<in> set (tree_nodes (g c)). node_ok orgs tot s"
    by metis
  let ?t = "OrgNode o' (map g ?cs) (tot i)"
  have at: "node_at (Suc n) orgs tot i = Some ?t" using o' those_map[of ?cs "node_at n orgs tot" g] g(1) by simp
  have self: "s \<in> set (tree_nodes s)" for s by (cases s) simp
  have "map tree_ids (map g ?cs) = map (subtree orgs) ?cs" using g(2,3) self by (auto simp: node_ok_def)
  then have "node_ok orgs tot ?t" using o' g(2) subtree_unfold[OF assms Suc.prems(1)]
    by (simp add: node_ok_def comp_def cong: map_cong)
  then show ?case using at o'(2) g(3) by auto
qed

lemma set_tree_ids: "i \<in> set (tree_ids t) \<longleftrightarrow> (\<exists>s \<in> set (tree_nodes t). node_id s = i)"
  by (induction t) auto

lemma isDescendant_ids: "isDescendant t i \<longleftrightarrow> i \<in> set (tree_ids t)"
  by (induction t) (auto simp: list_ex_iff)

lemma buildTree_ok:
  assumes "unique_ids orgs" "length orgs \<le> n"
  shows "\<exists>ts. buildTree n orgs counts = Some ts \<and> map node_id ts = root_ids orgs \<and>
    (\<forall>t \<in> set ts. \<forall>s \<in> set (tree_nodes t). node_ok orgs (totals_set orgs {i. rooted orgs i} (count_of counts)) s)"
proof -
  let ?tot = "totals_set orgs {i. rooted orgs i} (count_of counts)"
  have roots: "depth orgs r 0" if "r \<in> set (root_ids orgs)" for r using that by (rule depth.root)
  have "propagate_children n orgs (root_ids orgs) 0 (count_of counts) =
      Some (0 + sum_list (map (total_below orgs (count_of counts)) (root_ids orgs)),
        totals_set orgs (\<Union>c \<in> set (root_ids orgs). set (subtree orgs c)) (count_of counts))"
    using assms roots propagate_total[OF assms(1) roots] by (intro propagate_children_total[where d = 0]) auto
  then have tot: "propagate_roots n orgs (root_ids orgs) (count_of counts) = Some ?tot"
    using set_roots[OF assms(1)] by (simp add: propagate_roots_def)
  have "\<forall>r \<in> set (root_ids orgs). \<exists>t. node_at n orgs ?tot r = Some t \<and> node_id t = r \<and>
      (\<forall>s \<in> set (tree_nodes t). node_ok orgs ?tot s)"
    using node_at_ok[OF assms(1) roots] assms(2) by simp
  then obtain g where g: "\<forall>r \<in> set (root_ids orgs). node_at n orgs ?tot r = Some (g r) \<and> node_id (g r) = r \<and>
      (\<forall>s \<in> set (tree_nodes (g r)). node_ok orgs ?tot s)"
    by metis
  then have "buildTree n orgs counts = Some (map g (root_ids orgs))"
    using tot those_map[of "root_ids orgs" "node_at n orgs ?tot" g] by (simp add: buildTree_def)
  moreover have "map node_id (map g (root_ids orgs)) = root_ids orgs" using g by (simp add: map_idI)
  ultimately show ?thesis using g by (intro exI[of _ "map g (root_ids orgs)"]) simp
qed

lemma node_ok_ids:
  assumes "\<And>s. s \<in> set (tree_nodes t) \<Longrightarrow> node_ok orgs tot s"
  shows "tree_ids t = subtree orgs (node_id t)"
  using assms[of t] by (cases t) (simp add: node_ok_def)

lemma forest_ids:
  assumes "map node_id ts = root_ids orgs" "\<forall>t \<in> set ts. \<forall>s \<in> set (tree_nodes t). node_ok orgs tot s"
  shows "concat (map tree_ids ts) = concat (map (subtree orgs) (root_ids orgs))"
proof -
  have "map tree_ids ts = map (subtree orgs \<circ> node_id) ts" using node_ok_ids[of _ orgs tot] assms(2) by auto
  then show ?thesis using assms(1) by (metis map_map)
qed

subsection \<open>Climbing to the roots\<close>

text \<open>On rooted organizations the loop of the search effect climbs a chain whose depth falls.\<close>

definition rooted_parent :: "org list \<Rightarrow> string \<Rightarrow> string option" where
  "rooted_parent orgs i = (if unique_ids orgs \<and> rooted orgs i then first_parent orgs i else None)"

definition org_rank :: "org list \<Rightarrow> string \<Rightarrow> nat" where
  "org_rank orgs i = (if rooted orgs i then Suc (SOME d. depth orgs i d) else 0)"

lemma org_rank_depth: "unique_ids orgs \<Longrightarrow> depth orgs i d \<Longrightarrow> org_rank orgs i = Suc d"
  using depth_fun[of orgs i] rooted_depth[of orgs i] by (auto simp: org_rank_def intro!: some_equality)

lemma first_parent_cases:
  assumes "unique_ids orgs" "rooted orgs i" "present (first_parent orgs i)"
  shows "\<not> the (first_parent orgs i) \<in> og_id ` set orgs \<and> i \<in> set (root_ids orgs) \<or>
    i \<in> set (child_ids orgs (the (first_parent orgs i)))"
proof -
  obtain d where "depth orgs i d" using assms(2) rooted_depth by blast
  then obtain o' where o': "org_get orgs i = Some o'"
    using depth_known org_get_None[of orgs i] by blast
  then have fp: "first_parent orgs i = og_parent o'" using first_get[OF assms(1)] by (simp add: first_parent_def)
  show ?thesis
  proof (cases "has_parent orgs o'")
    case True
    then show ?thesis using o' fp child_iff[OF assms(1)] by (auto simp: has_parent_def present_def split: option.splits)
  next
    case False
    then show ?thesis using o' fp assms(1,3) root_iff[of orgs i] by (auto simp: has_parent_def org_get_None)
  qed
qed

lemma child_rooted: "unique_ids orgs \<Longrightarrow> i \<in> set (child_ids orgs p) \<Longrightarrow> depth orgs i d \<Longrightarrow> \<exists>e. d = Suc e \<and> depth orgs p e"
  by (erule depthE) (auto dest: root_no_child parent_unique)

interpretation org_chain: parent_chain "rooted_parent orgs" "org_rank orgs" for orgs
proof
  fix i
  assume p: "present (rooted_parent orgs i)"
  then have u: "unique_ids orgs" and rt: "rooted orgs i" and fp: "rooted_parent orgs i = first_parent orgs i"
    by (auto simp: rooted_parent_def present_def split: if_splits)
  obtain d where d: "depth orgs i d" using rt rooted_depth by blast
  let ?p = "the (first_parent orgs i)"
  have "org_rank orgs ?p < Suc d"
  proof (cases "i \<in> set (child_ids orgs ?p)")
    case True
    then show ?thesis using child_rooted[OF u True d] org_rank_depth[OF u] by auto
  next
    case False
    then have "?p \<notin> og_id ` set orgs" using first_parent_cases[OF u rt] p fp by auto
    then have "\<not> rooted orgs ?p" using depth_known rooted_depth by blast
    then show ?thesis by (simp add: org_rank_def)
  qed
  then show "org_rank orgs (the (rooted_parent orgs i)) < org_rank orgs i"
    using org_rank_depth[OF u d] fp by simp
qed

lemma rooted_chain:
  assumes "unique_ids orgs" "rooted orgs i" "above (rooted_parent orgs) (rooted_parent orgs i) a"
  shows "first_parent orgs a = rooted_parent orgs a"
proof -
  have next_rooted: "rooted orgs (the (rooted_parent orgs j)) \<or> the (rooted_parent orgs j) \<notin> og_id ` set orgs"
    if "present (rooted_parent orgs j)" for j
  proof -
    have j: "rooted orgs j" "rooted_parent orgs j = first_parent orgs j"
      using that by (auto simp: rooted_parent_def present_def split: if_splits)
    obtain d where d: "depth orgs j d" using j(1) rooted_depth by blast
    show ?thesis using first_parent_cases[OF assms(1) j(1)] child_rooted[OF assms(1) _ d] that j(2) rooted_depth by metis
  qed
  have "above (rooted_parent orgs) pid a \<Longrightarrow> rooted orgs (the pid) \<or> the pid \<notin> og_id ` set orgs \<Longrightarrow>
      rooted orgs a \<or> a \<notin> og_id ` set orgs" for pid
  proof (induction rule: above.induct)
    case (up p a)
    then have "present (rooted_parent orgs p)" using above_iff by blast
    then show ?case using up.IH next_rooted by simp
  qed simp
  then have "rooted orgs a \<or> a \<notin> og_id ` set orgs" using assms(3) next_rooted above_iff by blast
  then show ?thesis using assms(1) first_get[OF assms(1), of a] org_get_None[of orgs a]
    by (auto simp: rooted_parent_def first_parent_def)
qed

lemma expand_rooted:
  assumes "unique_ids orgs" "rooted orgs i"
  shows "\<exists>res. expand_ancestors orgs i ex = Some res \<and> set res = set ex \<union> {a. above (rooted_parent orgs) (rooted_parent orgs i) a}"
proof -
  obtain res where res: "climb (rooted_parent orgs) js_add (rooted_parent orgs i) ex = Some res"
    using org_chain.climb_returns[of orgs js_add "rooted_parent orgs i" ex] by blast
  then have "climb (first_parent orgs) js_add (rooted_parent orgs i) ex = Some res"
    using rooted_chain[OF assms] by (rule climb_cong)
  moreover have "rooted_parent orgs i = first_parent orgs i" using assms by (simp add: rooted_parent_def)
  moreover have "set res = set ex \<union> {a. above (rooted_parent orgs) (rooted_parent orgs i) a}"
    using res by (intro org_chain.climb_collects[where step = js_add]) simp_all
  ultimately show ?thesis by (simp add: expand_ancestors_def)
qed

lemma unrooted_parent:
  assumes "unique_ids orgs" "i \<in> og_id ` set orgs" "\<not> rooted orgs i"
  shows "present (first_parent orgs i) \<and> the (first_parent orgs i) \<in> og_id ` set orgs \<and> \<not> rooted orgs (the (first_parent orgs i))"
proof -
  obtain o' where o': "org_get orgs i = Some o'" using assms(2) org_get_None[of orgs i] by blast
  have fp: "first_parent orgs i = og_parent o'" using first_get[OF assms(1)] o' by (simp add: first_parent_def)
  have "i \<notin> set (root_ids orgs)" using assms(3) by (auto simp: rooted_def)
  then have hp: "has_parent orgs o'" using root_iff[OF assms(1)] o' by blast
  then have pr: "present (first_parent orgs i)" and kn: "the (first_parent orgs i) \<in> og_id ` set orgs"
    using fp org_get_None[of orgs "the (og_parent o')"] by (auto simp: has_parent_def)
  have "i \<in> set (child_ids orgs (the (first_parent orgs i)))"
    using hp o' pr fp child_iff[OF assms(1)] by (auto simp: present_def split: option.splits)
  then have "\<not> rooted orgs (the (first_parent orgs i))" using assms(3) depth.child rooted_depth by blast
  then show ?thesis using pr kn by simp
qed

lemma expand_unrooted:
  assumes "unique_ids orgs" "i \<in> og_id ` set orgs" "\<not> rooted orgs i"
  shows "expand_ancestors orgs i ex = None"
proof -
  let ?C = "{j \<in> og_id ` set orgs. \<not> rooted orgs j}"
  have "closed_cycle (first_parent orgs) ?C" using unrooted_parent[OF assms(1)] by (auto simp: closed_cycle_def)
  then show ?thesis unfolding expand_ancestors_def
    using unrooted_parent[OF assms] by (intro climb_cycle[where C = ?C]) simp_all
qed

lemma expand_all_iff:
  assumes "unique_ids orgs" "set is \<subseteq> og_id ` set orgs"
  shows "expand_all_ancestors orgs is ex \<noteq> None \<longleftrightarrow> (\<forall>i \<in> set is. rooted orgs i)"
  using assms(2)
proof (induction "is" arbitrary: ex)
  case (Cons i "is")
  show ?case
  proof (cases "rooted orgs i")
    case True
    then obtain res where "expand_ancestors orgs i ex = Some res" using expand_rooted[OF assms(1) True] by blast
    then show ?thesis using Cons.IH[of res] Cons.prems True by simp
  next
    case False
    then show ?thesis using expand_unrooted[OF assms(1) _ False, of ex] Cons.prems by simp
  qed
qed simp

lemma search_hits_known: "set (search_hits orgs q) \<subseteq> og_id ` set orgs"
  by (auto simp: search_hits_def Let_def)

subsection \<open>Moving an organization\<close>

lemma page_tree_ok:
  assumes "unique_ids (tp_orgs p)"
  shows "map node_id (page_tree p) = root_ids (tp_orgs p)"
    and "t \<in> set (page_tree p) \<Longrightarrow> isDescendant t j \<longleftrightarrow> below (tp_orgs p) (node_id t) j"
proof -
  let ?orgs = "tp_orgs p"
  obtain ts where ts: "buildTree (length ?orgs) ?orgs (tp_counts p) = Some ts" "map node_id ts = root_ids ?orgs"
    and ok: "\<forall>t \<in> set ts. \<forall>s \<in> set (tree_nodes t). node_ok ?orgs (totals_set ?orgs {i. rooted ?orgs i} (count_of (tp_counts p))) s"
    using buildTree_ok[OF assms order_refl] by blast
  have pt: "page_tree p = ts" using ts(1) by (simp add: page_tree_def)
  then show "map node_id (page_tree p) = root_ids ?orgs" using ts(2) by simp
  show "isDescendant t j \<longleftrightarrow> below ?orgs (node_id t) j" if t: "t \<in> set (page_tree p)"
  proof -
    have "node_id t \<in> set (root_ids ?orgs)" using t pt ts(2) by (metis image_eqI list.set_map)
    then have "depth ?orgs (node_id t) 0" by (rule depth.root)
    moreover have "tree_ids t = subtree ?orgs (node_id t)" using node_ok_ids t pt ok by blast
    ultimately show ?thesis using set_subtree[OF assms] by (simp add: isDescendant_ids)
  qed
qed

lemma find_root:
  assumes "unique_ids (tp_orgs p)"
  shows "(\<exists>t. find (\<lambda>n. node_id n = i) (page_tree p) = Some t) \<longleftrightarrow> i \<in> set (root_ids (tp_orgs p))"
    and "find (\<lambda>n. node_id n = i) (page_tree p) = Some t \<Longrightarrow> node_id t = i \<and> (isDescendant t j \<longleftrightarrow> below (tp_orgs p) i j)"
proof -
  have "(\<exists>t. find (\<lambda>n. node_id n = i) (page_tree p) = Some t) \<longleftrightarrow> i \<in> set (map node_id (page_tree p))"
    by (cases "find (\<lambda>n. node_id n = i) (page_tree p)") (auto simp: find_None_iff dest: find_SomeD)
  then show "(\<exists>t. find (\<lambda>n. node_id n = i) (page_tree p) = Some t) \<longleftrightarrow> i \<in> set (root_ids (tp_orgs p))"
    using page_tree_ok(1)[OF assms] by simp
  assume "find (\<lambda>n. node_id n = i) (page_tree p) = Some t"
  from find_SomeD[OF this] show "node_id t = i \<and> (isDescendant t j \<longleftrightarrow> below (tp_orgs p) i j)"
    using page_tree_ok(2)[OF assms] by auto
qed

lemma reparent_ids [simp]: "map og_id (reparent src tgt orgs) = map og_id orgs"
  by (simp add: reparent_def)

lemma reparent_unique [simp]: "unique_ids (reparent src tgt orgs) = unique_ids orgs"
  by (simp add: unique_ids_def)

lemma reparent_known [simp]: "og_id ` set (reparent src tgt orgs) = og_id ` set orgs"
  by (metis list.set_map reparent_ids)

lemma first_parent_reparent:
  "first_parent (reparent src tgt orgs) j =
     (if j = src \<and> src \<in> og_id ` set orgs then Some tgt else first_parent orgs j)"
  by (induction orgs) (auto simp: reparent_def first_parent_def)

lemma org_get_reparent:
  "org_get (reparent src tgt orgs) j =
     map_option (\<lambda>o'. if og_id o' = src then o'\<lparr>og_parent := Some tgt\<rparr> else o') (org_get orgs j)"
  unfolding org_get_def reparent_def rev_map by (subst find_map_same) auto

lemma links_reparent:
  assumes "unique_ids orgs"
  shows "j \<noteq> src \<Longrightarrow> j \<in> set (child_ids (reparent src tgt orgs) q) \<longleftrightarrow> j \<in> set (child_ids orgs q)"
    and "j \<noteq> src \<Longrightarrow> j \<in> set (root_ids (reparent src tgt orgs)) \<longleftrightarrow> j \<in> set (root_ids orgs)"
    and "src \<in> og_id ` set orgs \<Longrightarrow> tgt \<in> og_id ` set orgs \<Longrightarrow> tgt \<noteq> [] \<Longrightarrow> src \<in> set (child_ids (reparent src tgt orgs) tgt)"
proof -
  have u: "unique_ids (reparent src tgt orgs)" using assms by simp
  have hp: "has_parent (reparent src tgt orgs) o' = has_parent orgs o'" for o'
    by (simp add: has_parent_def org_get_reparent)
  have keep: "org_get (reparent src tgt orgs) j = org_get orgs j" if "j \<noteq> src" for j
  proof (cases "org_get orgs j")
    case (Some a)
    then have "og_id a = j" using org_get_iff[OF assms] by blast
    then show ?thesis using Some that by (simp add: org_get_reparent)
  qed (simp add: org_get_reparent)
  show "j \<noteq> src \<Longrightarrow> j \<in> set (child_ids (reparent src tgt orgs) q) \<longleftrightarrow> j \<in> set (child_ids orgs q)"
    using child_iff[OF u] child_iff[OF assms] by (simp add: keep hp)
  show "j \<noteq> src \<Longrightarrow> j \<in> set (root_ids (reparent src tgt orgs)) \<longleftrightarrow> j \<in> set (root_ids orgs)"
    using root_iff[OF u] root_iff[OF assms] by (simp add: keep hp)
  assume "src \<in> og_id ` set orgs" "tgt \<in> og_id ` set orgs" "tgt \<noteq> []"
  moreover from this obtain o' where "org_get orgs src = Some o'" "og_id o' = src"
    using org_get_iff[OF assms] by blast
  moreover have "org_get orgs tgt \<noteq> None" using \<open>tgt \<in> _\<close> org_get_None by blast
  ultimately show "src \<in> set (child_ids (reparent src tgt orgs) tgt)"
    using child_iff[OF u] by (simp add: org_get_reparent has_parent_def present_def)
qed

lemma reparent_cycle:
  assumes "unique_ids orgs" "below orgs src tgt" "src \<in> og_id ` set orgs" "tgt \<noteq> []"
  shows "closed_cycle (first_parent (reparent src tgt orgs)) {j. below orgs src j \<and> below orgs j tgt}"
  unfolding closed_cycle_def
proof
  fix j
  assume "j \<in> {j. below orgs src j \<and> below orgs j tgt}"
  then have j: "below orgs src j" "below orgs j tgt" by auto
  let ?fp = "first_parent (reparent src tgt orgs) j"
  show "present ?fp \<and> the ?fp \<in> {j. below orgs src j \<and> below orgs j tgt}"
  proof (cases "j = src")
    case True
    then show ?thesis using assms by (simp add: first_parent_reparent present_def)
  next
    case False
    with j(1) obtain q where q: "below orgs src q" "j \<in> set (child_ids orgs q)"
      by (cases rule: rtranclp.cases) auto
    then obtain o' where "org_get orgs j = Some o'" "has_parent orgs o'" "og_parent o' = Some q"
      using child_iff[OF assms(1)] by blast
    then have "first_parent orgs j = Some q" "q \<noteq> []"
      using first_get[OF assms(1)] by (simp_all add: first_parent_def has_parent_def present_def)
    moreover have "below orgs q tgt" using q(2) j(2) by (rule converse_rtranclp_into_rtranclp)
    ultimately show ?thesis using False q(1) by (simp add: first_parent_reparent present_def)
  qed
qed

lemma reparent_rooted:
  assumes "unique_ids orgs" "src \<in> set (root_ids orgs)" "rooted orgs tgt" "tgt \<noteq> []" "\<not> below orgs src tgt" "rooted orgs i"
  shows "rooted (reparent src tgt orgs) i"
proof -
  let ?os = "reparent src tgt orgs"
  have known: "src \<in> og_id ` set orgs" "tgt \<in> og_id ` set orgs"
    using depth_known depth.root[OF assms(2)] assms(3) rooted_depth by blast+
  have link: "rooted ?os j" if "rooted ?os q" "j \<in> set (child_ids orgs q)" for j q
  proof -
    have "j \<noteq> src" using that(2) root_no_child[OF assms(1,2)] by blast
    then have "j \<in> set (child_ids ?os q)" using that(2) links_reparent(1)[OF assms(1), of j src tgt q] by simp
    then show ?thesis using that(1) rooted_depth depth.child by blast
  qed
  have top: "rooted ?os j" if "j \<in> set (root_ids orgs)" "j \<noteq> src" for j
    using links_reparent(2)[OF assms(1) that(2), of tgt] that(1) depth.root rooted_depth by blast
  have "depth orgs j d \<Longrightarrow> \<not> below orgs src j \<Longrightarrow> rooted ?os j" for j d
  proof (induction rule: depth.induct)
    case (root i)
    then have "i \<noteq> src" by auto
    with root show ?case using top by blast
  next
    case (child p d i)
    have "\<not> below orgs src p"
    proof
      assume "below orgs src p"
      then have "below orgs src i" using child.hyps(2) by (rule rtranclp.rtrancl_into_rtrancl)
      then show False using child.prems by simp
    qed
    then show ?case using link[OF child.IH child.hyps(2)] by simp
  qed
  then have "rooted ?os tgt" using assms(3,5) rooted_depth by blast
  then have src: "rooted ?os src"
    using links_reparent(3)[OF assms(1) known assms(4)] rooted_depth depth.child by blast
  have "depth orgs j d \<Longrightarrow> rooted ?os j" for j d
    by (induction rule: depth.induct) (use src top link in blast)+
  then show ?thesis using assms(6) rooted_depth by blast
qed

text \<open>The error of a refused move is cleared by the reload that reverts it.\<close>

lemma drop_error_lost:
  assumes "drop_local tgt p = (Some src, p1)"
    and "apiFetch E base tenant (''/api/v1/orgs/'' @ src) (json_options ''PUT'' [(''parent_id'', JStr tgt)]) w = (Inl e, w1)"
    and "apiFetch E base tenant ''/api/v1/orgs'' no_options w1 = (Inr data, w2)" "org_list data = Some os"
  shows "tp_error (fst (handleDrop E base tenant tgt (p, w))) = None"
  using assms by (simp add: handleDrop_def tree_loadData_def split: prod.splits)

section \<open>Properties\<close>

text \<open>C19. With distinct identifiers the tree is built for every fuel from the number of
  organizations on: its nodes are the organizations below a root, each once, the roots are those whose
  parent is missing, the subtree of a node is exactly what is below it, and its member total is the sum of the member
  counts of these organizations.\<close>

theorem buildTree_forest:
  assumes "unique_ids orgs" "length orgs \<le> n"
  shows "\<exists>ts. buildTree n orgs counts = Some ts \<and> map node_id ts = root_ids orgs \<and>
    distinct (concat (map tree_ids ts)) \<and> set (concat (map tree_ids ts)) = {i. rooted orgs i} \<and>
    (\<forall>t \<in> set ts. \<forall>s \<in> set (tree_nodes t). set (tree_ids s) = {j. below orgs (node_id s) j} \<and>
       node_total s = (\<Sum>j | below orgs (node_id s) j. count_of counts j))"
proof -
  let ?tot = "totals_set orgs {i. rooted orgs i} (count_of counts)"
  obtain ts where ts: "buildTree n orgs counts = Some ts" "map node_id ts = root_ids orgs"
    and ok: "\<forall>t \<in> set ts. \<forall>s \<in> set (tree_nodes t). node_ok orgs ?tot s"
    using buildTree_ok[OF assms] by blast
  note ids = forest_ids[OF ts(2) ok]
  have each: "set (tree_ids s) = {j. below orgs (node_id s) j} \<and> node_total s = (\<Sum>j | below orgs (node_id s) j. count_of counts j)"
    if "t \<in> set ts" "s \<in> set (tree_nodes t)" for t s
  proof -
    have s: "node_ok orgs ?tot s" using ok that by blast
    have "node_id s \<in> set (concat (map tree_ids ts))" using that set_tree_ids by fastforce
    then have rt: "rooted orgs (node_id s)" using ids set_roots[OF assms(1)] by (metis mem_Collect_eq)
    then obtain d where d: "depth orgs (node_id s) d" using rooted_depth by blast
    show ?thesis using s rt set_subtree[OF assms(1) d] distinct_subtree[OF assms(1) d]
      by (simp add: node_ok_def totals_set_def total_below_def sum_list_distinct_conv_sum_set)
  qed
  show ?thesis
    using ts each distinct_roots[OF assms(1)] set_roots[OF assms(1)] ids by (intro exI[of _ ts]) simp
qed

definition demo_orgs :: "org list" where
  "demo_orgs = [\<lparr>og_id = ''a'', og_name = ''A'', og_path = [], og_parent = None, og_desc = []\<rparr>,
     \<lparr>og_id = ''b'', og_name = ''B'', og_path = [], og_parent = Some ''a'', og_desc = []\<rparr>,
     \<lparr>og_id = ''c'', og_name = ''C'', og_path = [], og_parent = Some ''b'', og_desc = []\<rparr>,
     \<lparr>og_id = ''d'', og_name = ''D'', og_path = [], og_parent = None, og_desc = []\<rparr>]"

definition demo_tree_page :: tree_page where
  "demo_tree_page = \<lparr>tp_orgs = demo_orgs, tp_counts = [(''c'', 2)], tp_loading = False, tp_error = None, tp_msg = None,
     tp_expanded = [], tp_dragging = Some ''b'', tp_dragOver = None, tp_search = ''b'', tp_matched = [], tp_menu = None,
     tp_modal = None, tp_modalOrg = None, tp_modalName = [], tp_modalDesc = [], tp_saving = False\<rparr>"

lemma demo_unique: "unique_ids demo_orgs"
  by (simp add: unique_ids_def demo_orgs_def)

lemma demo_below: "below demo_orgs ''a'' ''c''" "below demo_orgs ''b'' ''c''"
proof -
  have "''b'' \<in> set (child_ids demo_orgs ''a'')" "''c'' \<in> set (child_ids demo_orgs ''b'')" by code_simp+
  then show "below demo_orgs ''a'' ''c''" "below demo_orgs ''b'' ''c''"
    by (blast intro: rtranclp.intros)+
qed

theorem buildTree_forest_witness:
  "unique_ids demo_orgs \<and> length demo_orgs \<le> 4 \<and>
   (\<exists>ts. buildTree 4 demo_orgs [(''c'', 2)] = Some ts \<and> map node_id ts = [''a'', ''d''])"
proof -
  have "length demo_orgs \<le> 4" "root_ids demo_orgs = [''a'', ''d'']" by code_simp+
  then show ?thesis using buildTree_forest[OF demo_unique, of 4 "[(''c'', 2)]"] demo_unique by auto
qed

text \<open>C20. The search effect ends if and only if every organization it finds is in the tree: it climbs
  the parents without a record of where it has been, so one match on or below a cycle of parents, which
  the tree does not show at all, hangs the page.\<close>

theorem search_ends_iff:
  assumes "unique_ids (tp_orgs p)"
  shows "search_effect p \<noteq> None \<longleftrightarrow>
    trim (tp_search p) = [] \<or> (\<forall>i \<in> set (search_hits (tp_orgs p) (tp_search p)). rooted (tp_orgs p) i)"
  using expand_all_iff[OF assms search_hits_known] by (auto simp: search_effect_def Let_def)

theorem search_ends_iff_witness: "search_effect demo_tree_page \<noteq> None"
proof -
  have "set (search_hits (tp_orgs demo_tree_page) (tp_search demo_tree_page)) = {''b''}" by code_simp
  moreover have "rooted (tp_orgs demo_tree_page) ''b''"
  proof -
    have "''a'' \<in> set (root_ids demo_orgs)" "''b'' \<in> set (child_ids demo_orgs ''a'')" by code_simp+
    then show ?thesis by (auto simp: rooted_def demo_tree_page_def)
  qed
  ultimately show ?thesis using search_ends_iff[of demo_tree_page] demo_unique by (simp add: demo_tree_page_def)
qed

text \<open>The guard of \<open>handleDrop\<close> against moving an organization below itself only looks at the roots of
  the tree: a dragged organization that is not a root is moved under any organization below it, the request is
  sent, and in the new state it lies on a cycle: it is no longer in the tree, and a search that finds it does not
  end.\<close>

lemma drop_nested_detaches:
  assumes "unique_ids (tp_orgs p)" "tp_dragging p = Some src" "src \<noteq> []" "tgt \<noteq> []" "src \<noteq> tgt"
    and "src \<notin> set (root_ids (tp_orgs p))" "below (tp_orgs p) src tgt"
  shows "\<exists>p'. drop_local tgt p = (Some src, p') \<and> tp_error p' = tp_error p \<and> \<not> rooted (tp_orgs p') src \<and>
    (\<forall>ex. expand_ancestors (tp_orgs p') src ex = None)"
proof -
  let ?orgs = "tp_orgs p" and ?os = "reparent src tgt (tp_orgs p)"
  have "find (\<lambda>n. node_id n = src) (page_tree p) = None"
    using find_root(1)[OF assms(1)] assms(6) by (cases "find (\<lambda>n. node_id n = src) (page_tree p)") auto
  then have drop: "drop_local tgt p = (Some src, p\<lparr>tp_dragOver := None, tp_dragging := None, tp_orgs := ?os\<rparr>)"
    using assms(2,3,5) by (simp add: drop_local_def present_def Let_def)
  obtain c where "c \<in> set (child_ids ?orgs src)" using assms(5,7) by (auto elim: converse_rtranclpE)
  then have known: "src \<in> og_id ` set ?orgs"
    using child_iff[OF assms(1), of c src] org_get_None[of ?orgs src] by (auto simp: has_parent_def)
  have none: "expand_ancestors ?os src ex = None" for ex
    unfolding expand_ancestors_def using known assms(4,7)
    by (intro climb_cycle[OF reparent_cycle[OF assms(1,7) known assms(4)]]) (simp_all add: first_parent_reparent present_def)
  then have "\<not> rooted ?os src" using expand_rooted[of ?os src] assms(1) by fastforce
  then show ?thesis using drop none by simp
qed

lemma drop_nested_detaches_example:
  "\<exists>p'. drop_local ''c'' demo_tree_page = (Some ''b'', p') \<and> \<not> rooted (tp_orgs p') ''b''"
proof -
  have "''b'' \<notin> set (root_ids demo_orgs)" by code_simp
  then show ?thesis using drop_nested_detaches[of demo_tree_page "''b''" "''c''"] demo_unique demo_below
    by (auto simp: demo_tree_page_def)
qed

text \<open>For a dragged root the guard is right: a target below it is refused with an error and nothing
  changes; any other target of the tree is accepted, and every organization of the tree stays in it.\<close>

lemma drop_root_keeps_tree:
  assumes "unique_ids (tp_orgs p)" "tp_dragging p = Some src" "src \<noteq> []" "tgt \<noteq> []" "src \<noteq> tgt"
    and "src \<in> set (root_ids (tp_orgs p))" "rooted (tp_orgs p) tgt"
  shows "if below (tp_orgs p) src tgt
    then fst (drop_local tgt p) = None \<and> tp_orgs (snd (drop_local tgt p)) = tp_orgs p \<and> tp_error (snd (drop_local tgt p)) \<noteq> None
    else fst (drop_local tgt p) = Some src \<and> {i. rooted (tp_orgs p) i} \<subseteq> {i. rooted (tp_orgs (snd (drop_local tgt p))) i}"
proof -
  obtain t where t: "find (\<lambda>n. node_id n = src) (page_tree p) = Some t" using find_root(1)[OF assms(1)] assms(6) by blast
  then have "isDescendant t tgt \<longleftrightarrow> below (tp_orgs p) src tgt" using find_root(2)[OF assms(1)] by blast
  then show ?thesis
    using t assms(2,3,5) reparent_rooted[OF assms(1,6,7,4)] by (auto simp: drop_local_def present_def Let_def)
qed

lemma drop_root_keeps_tree_example:
  "fst (drop_local ''c'' (demo_tree_page\<lparr>tp_dragging := Some ''a''\<rparr>)) = None"
proof -
  have "''a'' \<in> set (root_ids demo_orgs)" by code_simp
  then show ?thesis using drop_root_keeps_tree[of "demo_tree_page\<lparr>tp_dragging := Some ''a''\<rparr>" "''a''" "''c''"] demo_unique demo_below
    by (auto simp: demo_tree_page_def rooted_def)
qed

end
