(* ===== verification/Js_Sort.thy ===== *)
theory Js_Sort
  imports Browser
begin

text \<open>
  \<open>Array.prototype.sort\<close> with a comparison function.  The language asks for a stable sort and leaves the order open where
  the comparison is not a consistent one (a date that does not parse compares as equal to everything); insertion from the right is one
  stable sort.  The interface \<open>js_order\<close> says what a consistent comparison is, on the elements that a page sorts, and
  what the sorted list then is.  Also the order of strings by their code units.
\<close>

section \<open>Order of strings\<close>

text \<open>\<open>a <= b\<close> on strings compares code units.\<close>

fun str_le :: "string \<Rightarrow> string \<Rightarrow> bool" where
  "str_le [] t = True"
| "str_le (c # s) [] = False"
| "str_le (c # s) (d # t) = ((of_char c :: nat) < of_char d \<or> c = d \<and> str_le s t)"

lemma str_le_refl [simp]: "str_le s s"
  by (induction s) auto

lemma str_le_total: "str_le s t \<or> str_le t s"
proof (induction s t rule: str_le.induct)
  case (3 c s d t)
  then show ?case using linorder_less_linear[of "of_char c :: nat" "of_char d"] by auto
qed auto

lemma str_le_antisym: "str_le s t \<Longrightarrow> str_le t s \<Longrightarrow> s = t"
  by (induction s t rule: str_le.induct) (auto, metis list.exhaust str_le.simps(2))

lemma str_le_trans: "str_le s t \<Longrightarrow> str_le t u \<Longrightarrow> str_le s u"
proof (induction s u arbitrary: t rule: str_le.induct)
  case (1 u) then show ?case by simp
next
  case (2 c s) then show ?case by (cases t) auto
next
  case (3 c s d u)
  then show ?case by (cases t) auto
qed

text \<open>\<open>a < b\<close> and \<open>a > b\<close>.\<close>

definition str_less :: "string \<Rightarrow> string \<Rightarrow> bool" where
  "str_less s t = (\<not> str_le t s)"

lemma str_less_cases: "str_less s u \<Longrightarrow> str_less s t \<or> str_less t u"
  unfolding str_less_def using str_le_total str_le_trans by blast

lemma str_less_asym: "str_less s t \<Longrightarrow> \<not> str_less t s"
  unfolding str_less_def using str_le_total by blast

section \<open>Sorting\<close>

text \<open>\<open>gt a b\<close> is that the comparison function gives a positive number for \<open>a\<close> and \<open>b\<close>.\<close>

fun js_insert :: "('a \<Rightarrow> 'a \<Rightarrow> bool) \<Rightarrow> 'a \<Rightarrow> 'a list \<Rightarrow> 'a list" where
  "js_insert gt x [] = [x]"
| "js_insert gt x (y # ys) = (if gt x y then y # js_insert gt x ys else x # y # ys)"

definition js_sort :: "('a \<Rightarrow> 'a \<Rightarrow> bool) \<Rightarrow> 'a list \<Rightarrow> 'a list" where
  "js_sort gt xs = foldr (js_insert gt) xs []"

lemma js_sort_simps [simp]: "js_sort gt [] = []" "js_sort gt (x # xs) = js_insert gt x (js_sort gt xs)"
  by (simp_all add: js_sort_def)

lemma set_js_insert [simp]: "set (js_insert gt x ys) = insert x (set ys)"
  by (induction ys) auto

lemma set_js_sort [simp]: "set (js_sort gt xs) = set xs"
  by (induction xs) auto

lemma count_js_insert: "count_list (js_insert gt x ys) y = count_list (x # ys) y"
  by (induction ys) auto

lemma count_js_sort [simp]: "count_list (js_sort gt xs) y = count_list xs y"
  by (induction xs) (auto simp: count_js_insert)

lemma length_js_insert [simp]: "length (js_insert gt x ys) = Suc (length ys)"
  by (induction ys) auto

lemma length_js_sort [simp]: "length (js_sort gt xs) = length xs"
  by (induction xs) auto

locale js_order =
  fixes gt :: "'a \<Rightarrow> 'a \<Rightarrow> bool"
    and ok :: "'a \<Rightarrow> bool"
  assumes asym: "ok a \<Longrightarrow> ok b \<Longrightarrow> gt a b \<Longrightarrow> \<not> gt b a"
    and cases: "ok a \<Longrightarrow> ok b \<Longrightarrow> ok c \<Longrightarrow> gt a c \<Longrightarrow> gt a b \<or> gt b c"
begin

text \<open>The sorted list is in order, and elements the comparison does not tell apart keep their places.\<close>

lemma insert_sorted:
  assumes "ok x" "\<forall>y \<in> set ys. ok y" "sorted_wrt (\<lambda>a b. \<not> gt a b) ys"
  shows "sorted_wrt (\<lambda>a b. \<not> gt a b) (js_insert gt x ys)"
  using assms
proof (induction ys)
  case (Cons y ys)
  show ?case
  proof (cases "gt x y")
    case True
    then show ?thesis using Cons asym by auto
  next
    case False
    then show ?thesis using Cons cases[of x y] by auto
  qed
qed simp

lemma sorted:
  assumes "\<forall>x \<in> set xs. ok x"
  shows "sorted_wrt (\<lambda>a b. \<not> gt a b) (js_sort gt xs)"
  using assms by (induction xs) (auto intro: insert_sorted)

lemma insert_stable:
  assumes "ok x" "\<forall>y \<in> set ys. ok y" "ok z"
  shows "filter (\<lambda>y. \<not> gt y z \<and> \<not> gt z y) (js_insert gt x ys) = filter (\<lambda>y. \<not> gt y z \<and> \<not> gt z y) (x # ys)"
  using assms
proof (induction ys)
  case (Cons y ys)
  have "\<not> (\<not> gt y z \<and> \<not> gt z y)" if "gt x y" "\<not> gt x z" "\<not> gt z x"
    using that cases[of x z y] Cons.prems by auto
  then show ?case using Cons by auto
qed simp

lemma stable:
  assumes "\<forall>x \<in> set xs. ok x" "ok z"
  shows "filter (\<lambda>y. \<not> gt y z \<and> \<not> gt z y) (js_sort gt xs) = filter (\<lambda>y. \<not> gt y z \<and> \<not> gt z y) xs"
  using assms by (induction xs) (simp_all add: insert_stable)

end

text \<open>Comparing by an integer or a string, ascending or descending.\<close>

interpretation by_int: js_order "\<lambda>a b. key b < (key a :: int)" "\<lambda>_. True" for key
  by unfold_locales auto

interpretation by_str: js_order "\<lambda>a b. str_less (key b) (key a)" "\<lambda>_. True" for key
  by unfold_locales (use str_less_asym str_less_cases in blast)+

interpretation by_str_desc: js_order "\<lambda>a b. str_less (key a) (key b)" "\<lambda>_. True" for key
  by unfold_locales (use str_less_asym str_less_cases in blast)+

end
