(* ===== verification/Audit_Query.thy ===== *)
theory Audit_Query
  imports Api_Client Parents Js_Sort "HOL-Library.Multiset"
begin

text \<open>
  The advanced audit search (\<open>console/src/app/audit/advanced/page.tsx\<close>): the tree of conditions
  and its editing, the evaluation of a query on an event, the anomaly marks, loading, saved searches and scheduled
  reports.  An event is a record of strings, the empty string for a missing field: every field is
  read with a default or compared after a test for truth; the metadata are kept as their JSON text.  \<open>new Date(s).getTime()\<close> is a
  parameter (\<^term>\<open>None\<close> is \<open>NaN\<close>, with which every comparison is false).  Identifiers come
  from \<open>genId\<close>, the time and a random suffix: what its successive calls find of both is an argument, the state counts the
  calls, and nothing is assumed about them in the definitions, so that identifiers may coincide.  \<open>genId\<close> also calls a React hook, and React
  allows hooks during rendering only; the parameter \<open>hooks_allowed\<close> says whether a hook may be called in a
  phase, and where it may not the call throws.
\<close>

section \<open>Data\<close>

record audit_event =
  ev_id :: string
  ev_actor_id :: string
  ev_actor_name :: string
  ev_action :: string
  ev_result :: string
  ev_created_at :: string
  ev_ip :: string
  ev_agent :: string
  ev_service :: string
  ev_severity :: string
  ev_metadata :: string

datatype field_type = FUser | FAction | FIp | FService | FSeverity | FResult | FTimestamp

datatype operator = OpEquals | OpContains | OpStartsWith | OpIn | OpBetween

record condition =
  cn_id :: string
  cn_field :: field_type
  cn_op :: operator
  cn_value :: string
  cn_value2 :: string

datatype logic = AND' | OR'

datatype cgroup = CGroup (cg_id: string) (cg_logic: logic) (cg_conditions: "condition list") (cg_groups: "cgroup list")

section \<open>Identifiers\<close>

text \<open>The time and the suffix (\<open>Math.random().toString(36).slice(2, 8)\<close>) at the \<open>n\<close>-th call.\<close>

type_synonym draws = "nat \<Rightarrow> int \<times> string"

definition genId :: "draws \<Rightarrow> nat \<Rightarrow> string" where
  "genId d n = show_int (fst (d n)) @ ''-'' @ snd (d n)"

definition emptyCondition :: "draws \<Rightarrow> nat \<Rightarrow> condition \<times> nat" where
  "emptyCondition d k = (\<lparr>cn_id = genId d k, cn_field = FUser, cn_op = OpEquals, cn_value = [], cn_value2 = []\<rparr>, Suc k)"

definition emptyGroup :: "draws \<Rightarrow> logic \<Rightarrow> nat \<Rightarrow> cgroup \<times> nat" where
  "emptyGroup d l k = (CGroup (genId d k) l [] [], Suc k)"

fun clone_conditions :: "draws \<Rightarrow> condition list \<Rightarrow> nat \<Rightarrow> condition list \<times> nat" where
  "clone_conditions d [] k = ([], k)"
| "clone_conditions d (c # cs) k = (case clone_conditions d cs (Suc k) of (cs', k') \<Rightarrow> (c\<lparr>cn_id := genId d k\<rparr> # cs', k'))"

fun cloneGroup :: "draws \<Rightarrow> cgroup \<Rightarrow> nat \<Rightarrow> cgroup \<times> nat"
  and clone_groups :: "draws \<Rightarrow> cgroup list \<Rightarrow> nat \<Rightarrow> cgroup list \<times> nat" where
  "cloneGroup d (CGroup i l cs gs) k = (case clone_conditions d cs (Suc k) of (cs', k1) \<Rightarrow>
     (case clone_groups d gs k1 of (gs', k2) \<Rightarrow> (CGroup (genId d k) l cs' gs', k2)))"
| "clone_groups d [] k = ([], k)"
| "clone_groups d (g # gs) k = (case cloneGroup d g k of (g', k1) \<Rightarrow> (case clone_groups d gs k1 of (gs', k2) \<Rightarrow> (g' # gs', k2)))"

text \<open>The query the page starts with.\<close>

definition query_root :: "draws \<Rightarrow> nat \<Rightarrow> cgroup \<times> nat" where
  "query_root d k = (case emptyGroup d AND' k of (g, k1) \<Rightarrow> (case emptyCondition d k1 of (c, k2) \<Rightarrow> (CGroup (cg_id g) (cg_logic g) [c] (cg_groups g), k2)))"

section \<open>Editing\<close>

text \<open>The \<open>updater\<close> every editing function has: every group with the identifier is changed, the subgroups of such a group are not visited.  What an updater adds draws its
  identifier anew for every group it changes.\<close>

fun update_group :: "string \<Rightarrow> (cgroup \<Rightarrow> cgroup) \<Rightarrow> cgroup \<Rightarrow> cgroup" where
  "update_group i f (CGroup j l cs gs) =
     (if j = i then f (CGroup j l cs gs) else CGroup j l cs (map (update_group i f) gs))"

fun update_draw :: "string \<Rightarrow> (cgroup \<Rightarrow> nat \<Rightarrow> cgroup \<times> nat) \<Rightarrow> cgroup \<Rightarrow> nat \<Rightarrow> cgroup \<times> nat"
  and update_draws :: "string \<Rightarrow> (cgroup \<Rightarrow> nat \<Rightarrow> cgroup \<times> nat) \<Rightarrow> cgroup list \<Rightarrow> nat \<Rightarrow> cgroup list \<times> nat" where
  "update_draw i f (CGroup j l cs gs) k = (if j = i then f (CGroup j l cs gs) k
     else (case update_draws i f gs k of (gs', k') \<Rightarrow> (CGroup j l cs gs', k')))"
| "update_draws i f [] k = ([], k)"
| "update_draws i f (g # gs) k = (case update_draw i f g k of (g', k1) \<Rightarrow> (case update_draws i f gs k1 of (gs', k2) \<Rightarrow> (g' # gs', k2)))"

definition addCondition :: "draws \<Rightarrow> string \<Rightarrow> cgroup \<Rightarrow> nat \<Rightarrow> cgroup \<times> nat" where
  "addCondition d groupId = update_draw groupId (\<lambda>g k. case emptyCondition d k of (c, k') \<Rightarrow>
     (CGroup (cg_id g) (cg_logic g) (cg_conditions g @ [c]) (cg_groups g), k'))"

definition addGroup :: "draws \<Rightarrow> string \<Rightarrow> cgroup \<Rightarrow> nat \<Rightarrow> cgroup \<times> nat" where
  "addGroup d parentId = update_draw parentId (\<lambda>g k. case emptyGroup d AND' k of (n, k') \<Rightarrow>
     (CGroup (cg_id g) (cg_logic g) (cg_conditions g) (cg_groups g @ [n]), k'))"

definition removeCondition :: "string \<Rightarrow> string \<Rightarrow> cgroup \<Rightarrow> cgroup" where
  "removeCondition groupId condId = update_group groupId
     (\<lambda>g. CGroup (cg_id g) (cg_logic g) (filter (\<lambda>c. cn_id c \<noteq> condId) (cg_conditions g)) (cg_groups g))"

definition removeGroup :: "string \<Rightarrow> string \<Rightarrow> cgroup \<Rightarrow> cgroup" where
  "removeGroup parentId groupId = update_group parentId
     (\<lambda>g. CGroup (cg_id g) (cg_logic g) (cg_conditions g) (filter (\<lambda>s. cg_id s \<noteq> groupId) (cg_groups g)))"

definition updateCondition :: "string \<Rightarrow> string \<Rightarrow> (condition \<Rightarrow> condition) \<Rightarrow> cgroup \<Rightarrow> cgroup" where
  "updateCondition groupId condId patch = update_group groupId
     (\<lambda>g. CGroup (cg_id g) (cg_logic g) (map (\<lambda>c. if cn_id c = condId then patch c else c) (cg_conditions g)) (cg_groups g))"

definition toggleGroupLogic :: "string \<Rightarrow> cgroup \<Rightarrow> cgroup" where
  "toggleGroupLogic groupId = update_group groupId
     (\<lambda>g. CGroup (cg_id g) (if cg_logic g = AND' then OR' else AND') (cg_conditions g) (cg_groups g))"

section \<open>Evaluation\<close>

definition or_else :: "string \<Rightarrow> string \<Rightarrow> string" where
  "or_else a b = (if a = [] then b else a)"

definition event_value :: "audit_event \<Rightarrow> field_type \<Rightarrow> string" where
  "event_value e f = (case f of
      FUser \<Rightarrow> or_else (ev_actor_name e) (ev_actor_id e)
    | FAction \<Rightarrow> ev_action e
    | FIp \<Rightarrow> ev_ip e
    | FService \<Rightarrow> or_else (ev_service e) (hd (split_on (CHR ''.'') (ev_action e)))
    | FSeverity \<Rightarrow> or_else (ev_severity e) ''info''
    | FResult \<Rightarrow> ev_result e
    | FTimestamp \<Rightarrow> ev_created_at e)"

definition num_between :: "int option \<Rightarrow> int option \<Rightarrow> int option \<Rightarrow> bool" where
  "num_between t lo hi = (case (t, lo, hi) of (Some a, Some b, Some c) \<Rightarrow> b \<le> a \<and> a \<le> c | _ \<Rightarrow> False)"

definition matchesCondition :: "(string \<Rightarrow> int option) \<Rightarrow> audit_event \<Rightarrow> condition \<Rightarrow> bool" where
  "matchesCondition date e c =
     (let v = event_value e (cn_field c); x = cn_value c; y = or_else (cn_value2 c) (cn_value c) in
      case cn_op c of
        OpEquals \<Rightarrow> if cn_field c = FTimestamp then starts_with v x else to_lower v = to_lower x
      | OpContains \<Rightarrow> str_includes (to_lower v) (to_lower x)
      | OpStartsWith \<Rightarrow> starts_with (to_lower v) (to_lower x)
      | OpIn \<Rightarrow> to_lower v \<in> set (map (\<lambda>u. to_lower (trim u)) (split_on (CHR '','') x))
      | OpBetween \<Rightarrow> if cn_field c = FTimestamp then num_between (date v) (date x) (date y)
          else str_le x v \<and> str_le v y)"

fun matchesGroup :: "(string \<Rightarrow> int option) \<Rightarrow> audit_event \<Rightarrow> cgroup \<Rightarrow> bool" where
  "matchesGroup date e (CGroup i l cs gs) =
     (let condResults = map (matchesCondition date e) (filter (\<lambda>c. cn_value c \<noteq> []) cs);
          subResults = map (matchesGroup date e) gs;
          all = condResults @ subResults in
      if all = [] then True
      else case l of AND' \<Rightarrow> list_all (\<lambda>b. b) all | OR' \<Rightarrow> list_ex (\<lambda>b. b) all)"

section \<open>Anomaly marks\<close>

datatype anomaly = FailedSpike | UnusualIp | NewDevice

definition failed_login :: "audit_event \<Rightarrow> bool" where
  "failed_login e = (ev_action e = ''user.login'' \<and> ev_result e \<noteq> ''success'')"

definition count_events :: "(audit_event \<Rightarrow> bool) \<Rightarrow> audit_event list \<Rightarrow> nat" where
  "count_events P es = length (filter P es)"

definition getAnomalyType :: "audit_event \<Rightarrow> audit_event list \<Rightarrow> anomaly option" where
  "getAnomalyType e es =
     (let mine = (\<lambda>x. ev_actor_id x = ev_actor_id e) in
      if failed_login e \<and> 3 \<le> count_events (\<lambda>x. mine x \<and> failed_login x) es then Some FailedSpike
      else if ev_ip e \<noteq> [] \<and> count_events (\<lambda>x. mine x \<and> ev_ip x = ev_ip e) es = 1 \<and>
        count_events (\<lambda>x. ev_ip x = ev_ip e) es \<le> 2 then Some UnusualIp
      else if ev_agent e \<noteq> [] \<and> count_events (\<lambda>x. mine x \<and> ev_agent x = ev_agent e) es = 1 then Some NewDevice
      else None)"

section \<open>Page state\<close>

record saved_search =
  ss_id :: string
  ss_name :: string
  ss_group :: cgroup
  ss_created :: int

datatype frequency = Daily | Weekly

record scheduled_report =
  sr_id :: string
  sr_name :: string
  sr_frequency :: frequency
  sr_recipients :: string
  sr_time :: string
  sr_enabled :: bool
  sr_group :: cgroup

record new_report =
  nr_name :: string
  nr_frequency :: frequency
  nr_recipients :: string
  nr_time :: string

record query_page =
  qp_root :: cgroup
  qp_counter :: nat
  qp_events :: "audit_event list"
  qp_loading :: bool
  qp_error :: "string option"
  qp_expanded :: "string list"
  qp_saved :: "saved_search list"
  qp_showSave :: bool
  qp_newName :: string
  qp_reports :: "scheduled_report list"
  qp_showSchedule :: bool
  qp_newReport :: new_report
  qp_failedLogins :: nat
  qp_uniqueIps :: nat
  qp_anomalies :: nat

datatype phase = Rendering | Handling

text \<open>The state updaters run while React renders; \<^term>\<open>None\<close> is the exception of a hook called in the wrong phase.\<close>

definition page_addCondition :: "(phase \<Rightarrow> bool) \<Rightarrow> draws \<Rightarrow> string \<Rightarrow> query_page \<Rightarrow> query_page option" where
  "page_addCondition hooks_allowed d groupId p = (case addCondition d groupId (qp_root p) (qp_counter p) of (g, k) \<Rightarrow>
     if k \<noteq> qp_counter p \<and> \<not> hooks_allowed Rendering then None else Some (p\<lparr>qp_root := g, qp_counter := k\<rparr>))"

definition page_addGroup :: "(phase \<Rightarrow> bool) \<Rightarrow> draws \<Rightarrow> string \<Rightarrow> query_page \<Rightarrow> query_page option" where
  "page_addGroup hooks_allowed d parentId p = (case addGroup d parentId (qp_root p) (qp_counter p) of (g, k) \<Rightarrow>
     if k \<noteq> qp_counter p \<and> \<not> hooks_allowed Rendering then None else Some (p\<lparr>qp_root := g, qp_counter := k\<rparr>))"

section \<open>Loading\<close>

definition str_of :: "jsv \<Rightarrow> string \<Rightarrow> string" where
  "str_of v k = (case js_opt_prop v k of JStr s \<Rightarrow> s | _ \<Rightarrow> [])"

definition event_of :: "jsv \<Rightarrow> audit_event" where
  "event_of v = \<lparr>ev_id = str_of v ''id'', ev_actor_id = str_of v ''actor_id'', ev_actor_name = str_of v ''actor_name'',
     ev_action = str_of v ''action'', ev_result = str_of v ''result'', ev_created_at = str_of v ''created_at'',
     ev_ip = str_of v ''ip_address'', ev_agent = str_of v ''user_agent'', ev_service = str_of v ''service'',
     ev_severity = str_of v ''severity'',
     ev_metadata = (if truthy (js_opt_prop v ''metadata'') then json_stringify (js_opt_prop v ''metadata'') else [])\<rparr>"

text \<open>\<open>data.events || []\<close>; \<^term>\<open>None\<close> is the \<open>TypeError\<close> of an answer of another shape.\<close>

definition event_list :: "jsv \<Rightarrow> audit_event list option" where
  "event_list data = (if nullish data then None
     else (case js_or (js_opt_prop data ''events'') (JArr []) of
        JArr vs \<Rightarrow> if list_ex nullish vs then None else Some (map event_of vs) | _ \<Rightarrow> None))"

definition DAY_MS :: int where "DAY_MS = 24 * 60 * 60 * 1000"

definition recent_events :: "(string \<Rightarrow> int option) \<Rightarrow> int \<Rightarrow> audit_event list \<Rightarrow> audit_event list" where
  "recent_events date t es = filter (\<lambda>e. case date (ev_created_at e) of None \<Rightarrow> False | Some d \<Rightarrow> t - DAY_MS < d) es"

definition query_loadData ::
  "(string \<Rightarrow> int option) \<Rightarrow> 'w env \<Rightarrow> string \<Rightarrow> string \<Rightarrow> query_page \<times> 'w world \<Rightarrow> query_page \<times> 'w world" where
  "query_loadData date E base tenant pw = (case pw of (p, w) \<Rightarrow>
     (case apiFetch E base tenant (''/api/v1/audit/events?'' @ search_params [(''page_size'', ''100'')]) no_options w of
        (Inl e, w1) \<Rightarrow> (p\<lparr>qp_error := Some (api_exn_message E e), qp_loading := False\<rparr>, w1)
      | (Inr data, w1) \<Rightarrow> (case event_list data of
            None \<Rightarrow> (p\<lparr>qp_error := Some (type_message E), qp_loading := False\<rparr>, w1)
          | Some es \<Rightarrow>
              (let fetched = filter (\<lambda>e. matchesGroup date e (qp_root p)) es;
                   recent = recent_events date (date_now E w1) fetched in
               (p\<lparr>qp_events := fetched, qp_error := None, qp_loading := False,
                  qp_failedLogins := count_events failed_login recent,
                  qp_uniqueIps := length (js_set (filter (\<lambda>i. i \<noteq> []) (map ev_ip recent))),
                  qp_anomalies := count_events (\<lambda>e. getAnomalyType e recent \<noteq> None) recent\<rparr>, w1)))))"

section \<open>Saved searches and reports\<close>

definition saveSearch :: "(phase \<Rightarrow> bool) \<Rightarrow> draws \<Rightarrow> int \<Rightarrow> query_page \<Rightarrow> query_page option" where
  "saveSearch hooks_allowed d t p =
     (if trim (qp_newName p) = [] then Some p
      else if \<not> hooks_allowed Handling then None
      else (case cloneGroup d (qp_root p) (Suc (qp_counter p)) of (g, k) \<Rightarrow>
        Some (p\<lparr>qp_saved := qp_saved p @ [\<lparr>ss_id = genId d (qp_counter p), ss_name = qp_newName p, ss_group = g, ss_created = t\<rparr>],
          qp_counter := k, qp_showSave := False, qp_newName := []\<rparr>)))"

definition loadSearch :: "(phase \<Rightarrow> bool) \<Rightarrow> draws \<Rightarrow> saved_search \<Rightarrow> query_page \<Rightarrow> query_page option" where
  "loadSearch hooks_allowed d s p = (if \<not> hooks_allowed Handling then None
     else (case cloneGroup d (ss_group s) (qp_counter p) of (g, k) \<Rightarrow> Some (p\<lparr>qp_root := g, qp_counter := k\<rparr>)))"

definition deleteSearch :: "string \<Rightarrow> query_page \<Rightarrow> query_page" where
  "deleteSearch i p = p\<lparr>qp_saved := filter (\<lambda>s. ss_id s \<noteq> i) (qp_saved p)\<rparr>"

definition blank_report :: new_report where
  "blank_report = \<lparr>nr_name = [], nr_frequency = Daily, nr_recipients = [], nr_time = ''09:00''\<rparr>"

definition addScheduledReport :: "(phase \<Rightarrow> bool) \<Rightarrow> draws \<Rightarrow> query_page \<Rightarrow> query_page option" where
  "addScheduledReport hooks_allowed d p = (let n = qp_newReport p in
     if trim (nr_name n) = [] \<or> trim (nr_recipients n) = [] then Some p
     else if \<not> hooks_allowed Handling then None
     else (case cloneGroup d (qp_root p) (Suc (qp_counter p)) of (g, k) \<Rightarrow>
       Some (p\<lparr>qp_reports := qp_reports p @ [\<lparr>sr_id = genId d (qp_counter p), sr_name = nr_name n, sr_frequency = nr_frequency n,
            sr_recipients = nr_recipients n, sr_time = nr_time n, sr_enabled = True, sr_group = g\<rparr>],
          qp_counter := k, qp_showSchedule := False, qp_newReport := blank_report\<rparr>)))"

definition toggleReport :: "string \<Rightarrow> query_page \<Rightarrow> query_page" where
  "toggleReport i p = p\<lparr>qp_reports := map (\<lambda>r. if sr_id r = i then r\<lparr>sr_enabled := \<not> sr_enabled r\<rparr> else r) (qp_reports p)\<rparr>"

definition deleteReport :: "string \<Rightarrow> query_page \<Rightarrow> query_page" where
  "deleteReport i p = p\<lparr>qp_reports := filter (\<lambda>r. sr_id r \<noteq> i) (qp_reports p)\<rparr>"

definition export_url :: "string \<Rightarrow> string \<Rightarrow> string \<Rightarrow> string" where
  "export_url base tenant format = base @ ''/api/v1/audit/export?'' @ search_params [(''tenant_id'', tenant), (''format'', format)]"

definition query_toggleExpand :: "string \<Rightarrow> query_page \<Rightarrow> query_page" where
  "query_toggleExpand i p = p\<lparr>qp_expanded := js_toggle i (qp_expanded p)\<rparr>"

section \<open>Lemmas\<close>

text \<open>The identifiers of a group, and the query without them.\<close>

fun group_ids :: "cgroup \<Rightarrow> string list" where
  "group_ids (CGroup i l cs gs) = i # map cn_id cs @ concat (map group_ids gs)"

text \<open>The identifiers given out by some calls.\<close>

definition drawn :: "draws \<Rightarrow> nat \<Rightarrow> nat \<Rightarrow> string list" where
  "drawn d k k' = map (genId d) [k..<k']"

lemma drawn_simps: "drawn d k k = []" "k < k' \<Longrightarrow> drawn d k k' = genId d k # drawn d (Suc k) k'" "drawn d k (Suc k) = [genId d k]"
  by (simp_all add: drawn_def upt_conv_Cons)

lemma drawn_append: "k \<le> k1 \<Longrightarrow> k1 \<le> k2 \<Longrightarrow> drawn d k k1 @ drawn d k1 k2 = drawn d k k2"
proof -
  assume "k \<le> k1" "k1 \<le> k2"
  then have "[k..<k2] = [k..<k1] @ [k1..<k2]" by (metis le_add_diff_inverse upt_add_eq_append)
  then show ?thesis by (simp add: drawn_def)
qed

lemma clone_conditions_spec:
  "clone_conditions d cs k = (cs', k') \<Longrightarrow> k' = k + length cs \<and> map cn_id cs' = drawn d k k' \<and>
     map (cn_id_update (\<lambda>_. [])) cs' = map (cn_id_update (\<lambda>_. [])) cs"
proof (induction cs arbitrary: k cs' k')
  case (Cons c cs)
  obtain ds j where ds: "clone_conditions d cs (Suc k) = (ds, j)" by fastforce
  from Cons.IH[OF ds] ds Cons.prems show ?case by (auto simp: drawn_simps)
qed (simp add: drawn_simps)

lemma matches_conditions_cong:
  assumes "map (cn_id_update (\<lambda>_. [])) cs' = map (cn_id_update (\<lambda>_. [])) cs"
  shows "map (matchesCondition date e) (filter (\<lambda>c. cn_value c \<noteq> []) cs') =
    map (matchesCondition date e) (filter (\<lambda>c. cn_value c \<noteq> []) cs)"
  using assms
proof (induction cs' cs rule: list_induct2')
  case (4 x xs y ys)
  then have xy: "x\<lparr>cn_id := []\<rparr> = y\<lparr>cn_id := []\<rparr>" by simp
  have same: "cn_field x = cn_field y" "cn_op x = cn_op y" "cn_value x = cn_value y" "cn_value2 x = cn_value2 y"
    using arg_cong[OF xy, of cn_field] arg_cong[OF xy, of cn_op] arg_cong[OF xy, of cn_value] arg_cong[OF xy, of cn_value2]
    by simp_all
  then have "matchesCondition date e x = matchesCondition date e y" by (simp add: matchesCondition_def)
  then show ?case using 4 same by simp
qed simp_all

lemma cloneGroup_spec:
  "cloneGroup d g k = (g', k') \<Longrightarrow> k < k' \<and> group_ids g' = drawn d k k' \<and> (\<forall>e. matchesGroup date e g' = matchesGroup date e g)"
  "clone_groups d gs k = (gs', k') \<Longrightarrow> k \<le> k' \<and> concat (map group_ids gs') = drawn d k k' \<and>
     (\<forall>e. map (matchesGroup date e) gs' = map (matchesGroup date e) gs)"
proof (induction d g k and d gs k arbitrary: g' k' and gs' k' rule: cloneGroup_clone_groups.induct)
  case (1 d i l cs gs k)
  obtain cs' k1 where c: "clone_conditions d cs (Suc k) = (cs', k1)" by fastforce
  obtain gs2 k2 where g: "clone_groups d gs k1 = (gs2, k2)" by fastforce
  note cc = clone_conditions_spec[OF c]
  note gg = "1.IH"[OF c[symmetric] g]
  have eq: "g' = CGroup (genId d k) l cs' gs2" "k' = k2" using "1.prems" c g by auto
  have "Suc k \<le> k1" "k1 \<le> k2" using cc gg by auto
  then have "genId d k # drawn d (Suc k) k1 @ drawn d k1 k2 = drawn d k k2" by (simp add: drawn_append drawn_simps(2)[of k k2])
  moreover have "matchesGroup date e g' = matchesGroup date e (CGroup i l cs gs)" for e
    using gg matches_conditions_cong[of cs' cs date e] cc by (simp only: eq matchesGroup.simps)
  ultimately show ?case using cc gg eq by simp
next
  case (2 d k)
  then show ?case by (simp add: drawn_simps)
next
  case (3 d g gs k)
  obtain h k1 where h: "cloneGroup d g k = (h, k1)" by fastforce
  obtain hs k2 where hs: "clone_groups d gs k1 = (hs, k2)" by fastforce
  have "drawn d k k1 @ drawn d k1 k2 = drawn d k k2"
    using "3.IH"(1)[OF h] "3.IH"(2)[OF h[symmetric] hs] by (intro drawn_append) auto
  then show ?case using "3.IH"(1)[OF h] "3.IH"(2)[OF h[symmetric] hs] "3.prems" h hs by auto
qed

text \<open>An edit of the query as the page makes it; the state counts the calls of \<open>genId\<close>.  A patch never touches the identifier of a condition.\<close>

datatype query_edit =
    AddCondition string
  | AddGroup string
  | RemoveCondition string string
  | RemoveGroup string string
  | PatchCondition string string "field_type option" "operator option" "string option" "string option"
  | ToggleLogic string

definition patch_condition :: "field_type option \<Rightarrow> operator option \<Rightarrow> string option \<Rightarrow> string option \<Rightarrow> condition \<Rightarrow> condition" where
  "patch_condition f o' v v2 c = \<lparr>cn_id = cn_id c, cn_field = (case f of None \<Rightarrow> cn_field c | Some x \<Rightarrow> x),
     cn_op = (case o' of None \<Rightarrow> cn_op c | Some x \<Rightarrow> x), cn_value = (case v of None \<Rightarrow> cn_value c | Some x \<Rightarrow> x),
     cn_value2 = (case v2 of None \<Rightarrow> cn_value2 c | Some x \<Rightarrow> x)\<rparr>"

fun apply_edit :: "draws \<Rightarrow> query_edit \<Rightarrow> cgroup \<times> nat \<Rightarrow> cgroup \<times> nat" where
  "apply_edit d (AddCondition i) (g, k) = addCondition d i g k"
| "apply_edit d (AddGroup i) (g, k) = addGroup d i g k"
| "apply_edit d (RemoveCondition i c) (g, k) = (removeCondition i c g, k)"
| "apply_edit d (RemoveGroup i j) (g, k) = (removeGroup i j g, k)"
| "apply_edit d (PatchCondition i c f o' v v2) (g, k) = (updateCondition i c (patch_condition f o' v v2) g, k)"
| "apply_edit d (ToggleLogic i) (g, k) = (toggleGroupLogic i g, k)"

lemma group_ids_sel:
  "group_ids h = cg_id h # map cn_id (cg_conditions h) @ concat (map group_ids (cg_groups h))"
  by (cases h) simp

lemma filter_groups_ids: "mset (concat (map group_ids (filter P gs))) \<subseteq># mset (concat (map group_ids gs))"
  by (induction gs) (auto intro: subset_mset.add_mono subset_mset.add_increasing)

lemma patch_condition_id [simp]: "cn_id (patch_condition f o' v v2 c) = cn_id c"
  by (simp add: patch_condition_def)

lemma patch_if: "cn_id (if P then patch_condition f o' v v2 c else c) = cn_id c"
  by simp

text \<open>What an updater does to the identifiers, if it draws those it adds.\<close>

lemma update_group_ids:
  assumes "\<And>h. mset (group_ids (f h)) \<subseteq># mset (group_ids h)"
  shows "mset (group_ids (update_group i f g)) \<subseteq># mset (group_ids g)"
proof (induction g)
  case (CGroup j l cs gs)
  then have "mset (concat (map (group_ids \<circ> update_group i f) gs)) \<subseteq># mset (concat (map group_ids gs))"
    by (induction gs) (auto intro: subset_mset.add_mono)
  then show ?case using assms[of "CGroup j l cs gs"] by (cases "j = i") simp_all
qed

lemma update_draw_ids:
  assumes "\<And>h k h' k'. f h k = (h', k') \<Longrightarrow> k \<le> k' \<and> mset (group_ids h') \<subseteq># mset (group_ids h) + mset (drawn d k k')"
  shows "update_draw i f g k = (g', k') \<Longrightarrow> k \<le> k' \<and> mset (group_ids g') \<subseteq># mset (group_ids g) + mset (drawn d k k')"
proof (induction g arbitrary: k g' k')
  case (CGroup j l cs gs)
  have subs: "k \<le> k' \<and> mset (concat (map group_ids hs')) \<subseteq># mset (concat (map group_ids hs)) + mset (drawn d k k')"
    if "update_draws i f hs k = (hs', k')" "set hs \<subseteq> set gs" for hs hs' k k'
    using that
  proof (induction hs arbitrary: hs' k k')
    case (Cons h hs)
    obtain h1 k1 where h1: "update_draw i f h k = (h1, k1)" by fastforce
    obtain hs2 k2 where hs2: "update_draws i f hs k1 = (hs2, k2)" by fastforce
    have first: "k \<le> k1 \<and> mset (group_ids h1) \<subseteq># mset (group_ids h) + mset (drawn d k k1)"
      using CGroup.IH[OF _ h1] Cons.prems(2) by simp
    have rest: "k1 \<le> k2 \<and> mset (concat (map group_ids hs2)) \<subseteq># mset (concat (map group_ids hs)) + mset (drawn d k1 k2)"
      using Cons.IH[OF hs2] Cons.prems(2) by simp
    have "mset (drawn d k k2) = mset (drawn d k k1) + mset (drawn d k1 k2)" using first rest drawn_append[of k k1 k2 d] by (metis mset_append)
    moreover have "hs' = h1 # hs2" "k' = k2" using Cons.prems(1) h1 hs2 by simp_all
    ultimately show ?case using first rest
      subset_mset.add_mono[OF first[THEN conjunct2] rest[THEN conjunct2]] by (simp add: ac_simps)
  qed (simp add: drawn_simps)
  show ?case
  proof (cases "j = i")
    case True
    then show ?thesis using CGroup.prems assms[of "CGroup j l cs gs" k g' k'] by simp
  next
    case False
    then obtain gs' where "update_draws i f gs k = (gs', k')" "g' = CGroup j l cs gs'"
      using CGroup.prems by (auto split: prod.splits)
    then show ?thesis using subs[of gs k gs' k'] by simp
  qed
qed

lemma apply_edit_ids:
  "apply_edit d e (g, k) = (g', k') \<Longrightarrow> k \<le> k' \<and> mset (group_ids g') \<subseteq># mset (group_ids g) + mset (drawn d k k')"
proof (cases e)
  case (AddCondition i)
  assume "apply_edit d e (g, k) = (g', k')"
  then have u: "update_draw i (\<lambda>g k. case emptyCondition d k of (c, k') \<Rightarrow>
      (CGroup (cg_id g) (cg_logic g) (cg_conditions g @ [c]) (cg_groups g), k')) g k = (g', k')" using AddCondition by (simp add: addCondition_def)
  show ?thesis by (rule update_draw_ids[OF _ u]) (auto simp: emptyCondition_def group_ids_sel drawn_simps)
next
  case (AddGroup i)
  assume "apply_edit d e (g, k) = (g', k')"
  then have u: "update_draw i (\<lambda>g k. case emptyGroup d AND' k of (n, k') \<Rightarrow>
      (CGroup (cg_id g) (cg_logic g) (cg_conditions g) (cg_groups g @ [n]), k')) g k = (g', k')" using AddGroup by (simp add: addGroup_def)
  show ?thesis by (rule update_draw_ids[OF _ u]) (auto simp: emptyGroup_def group_ids_sel drawn_simps)
next
  case (RemoveCondition i c)
  assume "apply_edit d e (g, k) = (g', k')"
  moreover have "mset (group_ids (removeCondition i c g)) \<subseteq># mset (group_ids g)"
    unfolding removeCondition_def by (rule update_group_ids) (simp add: group_ids_sel image_mset_subseteq_mono)
  ultimately show ?thesis using RemoveCondition by (simp add: drawn_simps)
next
  case (RemoveGroup i j)
  assume "apply_edit d e (g, k) = (g', k')"
  moreover have "mset (group_ids (removeGroup i j g)) \<subseteq># mset (group_ids g)"
    unfolding removeGroup_def by (rule update_group_ids) (simp add: group_ids_sel filter_groups_ids)
  ultimately show ?thesis using RemoveGroup by (simp add: drawn_simps)
next
  case (PatchCondition i c f o' v v2)
  assume "apply_edit d e (g, k) = (g', k')"
  moreover have "mset (group_ids (updateCondition i c (patch_condition f o' v v2) g)) \<subseteq># mset (group_ids g)"
    unfolding updateCondition_def by (rule update_group_ids) (simp add: group_ids_sel image_mset.compositionality comp_def patch_if)
  ultimately show ?thesis using PatchCondition by (simp add: drawn_simps)
next
  case (ToggleLogic i)
  assume "apply_edit d e (g, k) = (g', k')"
  moreover have "mset (group_ids (toggleGroupLogic i g)) \<subseteq># mset (group_ids g)"
    unfolding toggleGroupLogic_def by (rule update_group_ids) (simp add: group_ids_sel)
  ultimately show ?thesis using ToggleLogic by (simp add: drawn_simps)
qed

lemma apply_edits_ids:
  "foldl (\<lambda>q e. apply_edit d e q) (g, k) es = (g', k') \<Longrightarrow> k \<le> k' \<and> mset (group_ids g') \<subseteq># mset (group_ids g) + mset (drawn d k k')"
proof (induction es arbitrary: g k)
  case (Cons e es)
  obtain h k1 where h: "apply_edit d e (g, k) = (h, k1)" by fastforce
  note first = apply_edit_ids[OF h]
  have rest: "k1 \<le> k' \<and> mset (group_ids g') \<subseteq># mset (group_ids h) + mset (drawn d k1 k')" using Cons.IH[of h k1] Cons.prems h by simp
  have "mset (drawn d k k') = mset (drawn d k k1) + mset (drawn d k1 k')" using first rest drawn_append[of k k1 k' d] by (metis mset_append)
  moreover have "mset (group_ids g') \<subseteq># (mset (group_ids g) + mset (drawn d k k1)) + mset (drawn d k1 k')"
    using first rest by (meson subset_mset.add_right_mono subset_mset.order_trans)
  ultimately show ?case using first rest by (simp add: ac_simps)
qed (simp add: drawn_simps)

lemma distinct_subseteq_mset:
  assumes "mset ys \<subseteq># mset xs" "distinct xs"
  shows "distinct ys"
proof -
  obtain C where C: "mset xs = mset ys + C" using assms(1) by (metis mset_subset_eq_exists_conv)
  obtain zs where "C = mset zs" by (metis ex_mset)
  then have "mset xs = mset (ys @ zs)" using C by simp
  then have "distinct (ys @ zs)" using assms(2) mset_eq_imp_distinct_iff by blast
  then show ?thesis by simp
qed

text \<open>With distinct identifiers a group has one condition at most with a given one.\<close>

lemma removed_one: "distinct (map f xs) \<Longrightarrow> length xs \<le> Suc (length (filter (\<lambda>x. f x \<noteq> a) xs))"
proof (induction xs)
  case (Cons x xs)
  have "filter (\<lambda>x. f x \<noteq> a) xs = xs" if "f x = a" using Cons.prems that by (intro filter_True) (auto simp: image_iff)
  then show ?case using Cons by (cases "f x = a") simp_all
qed simp

lemma update_group_absent: "i \<notin> set (group_ids g) \<Longrightarrow> update_group i f g = g"
  by (induction g) (auto simp: map_idI)

text \<open>With distinct identifiers the whole query loses one at most.\<close>

lemma removeCondition_one:
  "distinct (group_ids g) \<Longrightarrow> length (group_ids g) \<le> Suc (length (group_ids (removeCondition i c g)))"
proof (induction g)
  case (CGroup j l cs gs)
  have subs: "length (concat (map group_ids hs)) \<le> Suc (length (concat (map (group_ids \<circ> removeCondition i c) hs)))"
    if "set hs \<subseteq> set gs" "distinct (concat (map group_ids hs))" for hs
    using that
  proof (induction hs)
    case (Cons h hs)
    have absent: "removeCondition i c x = x" if "i \<notin> set (group_ids x)" for x
      using that by (simp add: removeCondition_def update_group_absent)
    show ?case
    proof (cases "i \<in> set (group_ids h)")
      case True
      then have "\<forall>x\<in>set hs. i \<notin> set (group_ids x)" using Cons.prems(2) by auto
      then have "map (group_ids \<circ> removeCondition i c) hs = map group_ids hs" using absent by simp
      then have "concat (map (group_ids \<circ> removeCondition i c) hs) = concat (map group_ids hs)" by (rule arg_cong)
      moreover have "length (group_ids h) \<le> Suc (length (group_ids (removeCondition i c h)))" using CGroup.IH[of h] Cons.prems by simp
      ultimately show ?thesis by (simp add: comp_def)
    next
      case False
      then show ?thesis using absent Cons by simp
    qed
  qed simp
  show ?case using subs[of gs] removed_one[of cn_id cs c] CGroup.prems
    by (cases "j = i") (simp_all add: removeCondition_def comp_def)
qed

text \<open>Under React's rule that hooks are called during rendering only, a search is never saved or opened
  and a report never scheduled: the handlers throw.\<close>

lemma handlers_throw:
  assumes "\<not> hooks_allowed Handling"
  shows "trim (qp_newName p) \<noteq> [] \<Longrightarrow> saveSearch hooks_allowed d t p = None"
    and "loadSearch hooks_allowed d s p = None"
    and "trim (nr_name (qp_newReport p)) \<noteq> [] \<Longrightarrow> trim (nr_recipients (qp_newReport p)) \<noteq> [] \<Longrightarrow>
      addScheduledReport hooks_allowed d p = None"
  using assms by (simp_all add: saveSearch_def loadSearch_def addScheduledReport_def Let_def)

section \<open>Properties\<close>

text \<open>A copied query, as it is made for a saved search, for a report and when a saved search is
  opened, selects the same events as the original, and each of its identifiers is drawn by its own call.\<close>

lemma cloneGroup_equivalent:
  assumes "cloneGroup d g k = (g', k')"
  shows "(\<forall>e. matchesGroup date e g' = matchesGroup date e g) \<and> group_ids g' = drawn d k k'"
  using cloneGroup_spec(1)[OF assms, of date] by simp

text \<open>A clock that stands still and the calls themselves as suffixes.\<close>

definition counted :: draws where
  "counted n = (0, show_nat n)"

definition demo_query :: cgroup where
  "demo_query = CGroup ''r'' OR' [\<lparr>cn_id = ''a'', cn_field = FUser, cn_op = OpEquals, cn_value = ''ann'', cn_value2 = []\<rparr>]
     [CGroup ''s'' AND' [\<lparr>cn_id = ''b'', cn_field = FResult, cn_op = OpIn, cn_value = ''denied, failure'', cn_value2 = []\<rparr>] []]"

definition demo_query_page :: query_page where
  "demo_query_page = \<lparr>qp_root = demo_query, qp_counter = 4, qp_events = [], qp_loading = False, qp_error = None,
     qp_expanded = [], qp_saved = [], qp_showSave = False, qp_newName = [], qp_reports = [], qp_showSchedule = False,
     qp_newReport = blank_report, qp_failedLogins = 0, qp_uniqueIps = 0, qp_anomalies = 0\<rparr>"

text \<open>A new, still empty subgroup changes nothing in a query that joins by AND, but a query that
  joins by OR then selects every event, since an empty group counts as matched; removing the
  subgroup restores the query.\<close>

lemma new_subgroup_effect:
  assumes "page_addGroup hooks_allowed d (cg_id (qp_root p)) p = Some p'"
  shows "matchesGroup date e (qp_root p') = (cg_logic (qp_root p) = OR' \<or> matchesGroup date e (qp_root p)) \<and>
    (genId d (qp_counter p) \<notin> set (group_ids (qp_root p)) \<longrightarrow>
      removeGroup (cg_id (qp_root p)) (genId d (qp_counter p)) (qp_root p') = qp_root p)"
proof -
  obtain i l cs gs where r: "qp_root p = CGroup i l cs gs" by (cases "qp_root p")
  have p': "qp_root p' = CGroup i l cs (gs @ [CGroup (genId d (qp_counter p)) AND' [] []])"
    using assms by (auto simp: page_addGroup_def addGroup_def emptyGroup_def r split: if_splits)
  have "matchesGroup date e (qp_root p') = (l = OR' \<or> matchesGroup date e (qp_root p))"
    by (cases l) (auto simp: p' r Let_def)
  moreover have "filter (\<lambda>s. cg_id s \<noteq> genId d (qp_counter p)) gs = gs" if "genId d (qp_counter p) \<notin> set (group_ids (qp_root p))"
  proof (intro filter_True ballI)
    fix x assume "x \<in> set gs"
    then have "genId d (qp_counter p) \<notin> set (group_ids x)" using that by (simp add: r)
    then show "cg_id x \<noteq> genId d (qp_counter p)" by (cases x) auto
  qed
  ultimately show ?thesis by (simp add: p' r removeGroup_def)
qed

lemma new_subgroup_effect_example:
  "\<exists>p'. page_addGroup (\<lambda>_. True) counted ''r'' demo_query_page = Some p' \<and> (\<forall>e. matchesGroup (\<lambda>_. None) e (qp_root p'))"
proof -
  obtain p' where p': "page_addGroup (\<lambda>_. True) counted (cg_id (qp_root demo_query_page)) demo_query_page = Some p'"
    by (cases "addGroup counted (cg_id (qp_root demo_query_page)) (qp_root demo_query_page) (qp_counter demo_query_page)")
      (simp add: page_addGroup_def)
  show ?thesis using new_subgroup_effect[OF p', of "\<lambda>_. None"] p'
    by (simp add: demo_query_page_def demo_query_def)
qed

text \<open>C34. Where the identifiers of an audit query come from: after any sequence of edits each occurrence of an identifier stems from an occurrence in the
  query before or from a call of \<open>genId\<close> of its own, so no edit ever duplicates one.  Hence, if what \<open>genId\<close> gave out are new and different texts,
  the identifiers stay distinct, and then deleting a condition by its identifier takes one condition at most from the whole query.  If two calls give the
  same text (the same millisecond and suffix), two conditions of a group can share it, and deleting one deletes both.\<close>

theorem query_edits_wf:
  assumes "foldl (\<lambda>q e. apply_edit d e q) (g, k) es = (g', k')"
  shows "mset (group_ids g') \<subseteq># mset (group_ids g) + mset (map (genId d) [k..<k']) \<and>
    (distinct (group_ids g @ map (genId d) [k..<k']) \<longrightarrow> distinct (group_ids g') \<and>
      (\<forall>i c. length (group_ids g') \<le> Suc (length (group_ids (removeCondition i c g'))))) \<and>
    (genId d k = genId d (Suc k) \<longrightarrow> (let h = fst (apply_edit d (AddCondition (cg_id g)) (apply_edit d (AddCondition (cg_id g)) (g, k))) in
      length (cg_conditions h) = length (cg_conditions g) + 2 \<and>
      length (cg_conditions (removeCondition (cg_id g) (genId d k) h)) \<le> length (cg_conditions g)))"
proof (intro conjI impI)
  show ids: "mset (group_ids g') \<subseteq># mset (group_ids g) + mset (map (genId d) [k..<k'])"
    using apply_edits_ids[OF assms] by (simp add: drawn_def)
  show "distinct (group_ids g')" if "distinct (group_ids g @ map (genId d) [k..<k'])"
    using distinct_subseteq_mset[of "group_ids g'", OF _ that] ids by simp
  then show "\<forall>i c. length (group_ids g') \<le> Suc (length (group_ids (removeCondition i c g')))"
    if "distinct (group_ids g @ map (genId d) [k..<k'])"
    using that removeCondition_one by blast
  show "let h = fst (apply_edit d (AddCondition (cg_id g)) (apply_edit d (AddCondition (cg_id g)) (g, k))) in
      length (cg_conditions h) = length (cg_conditions g) + 2 \<and>
      length (cg_conditions (removeCondition (cg_id g) (genId d k) h)) \<le> length (cg_conditions g)" if "genId d k = genId d (Suc k)"
    using that by (cases g) (simp add: addCondition_def emptyCondition_def removeCondition_def)
qed

theorem query_edits_wf_witness:
  "distinct (group_ids (fst (foldl (\<lambda>q e. apply_edit counted e q) (demo_query, 4) [AddGroup ''s'', AddCondition ''0-4'', RemoveGroup ''r'' ''0-4''])))"
proof -
  let ?q = "foldl (\<lambda>q e. apply_edit counted e q) (demo_query, 4) [AddGroup ''s'', AddCondition ''0-4'', RemoveGroup ''r'' ''0-4'']"
  have k: "snd ?q = 6" "distinct (group_ids demo_query @ map (genId counted) [4..<6])" by code_simp+
  have q: "?q = (fst ?q, 6)" using k(1) by (metis prod.collapse)
  show ?thesis using query_edits_wf[OF q] k(2) by blast
qed

end
