(* ===== verification/Audit_Analysis.thy ===== *)
theory Audit_Analysis
  imports Audit_Query User_Import
begin

text \<open>
  What the audit pages compute from a list of events: the alerts of \<open>detectAnomalies\<close>
  (\<open>console/src/app/audit/page.tsx\<close>), the groups of five minutes, the filter and the CSV export of
  \<open>console/src/app/audit/visualization/page.tsx\<close>, the counts of \<open>console/src/app/audit/reports/page.tsx\<close> and the
  classification of \<open>console/src/app/audit/timeline/page.tsx\<close>.  As in \<open>Audit_Query\<close>, parsing a date is a
  parameter.  An object used as a table is the list of its entries in order of insertion; the language
  lists keys that are numerals first, and its objects inherit a few names, so keys are taken to be neither (they are
  identifiers, user names and action names).
\<close>

section \<open>Alerts\<close>

record alert =
  al_severity :: string
  al_title :: string
  al_description :: string

definition actor_key :: "audit_event \<Rightarrow> string" where
  "actor_key e = or_else (ev_actor_id e) (or_else (ev_actor_name e) ''unknown'')"

text \<open>\<open>if (!t[k]) t[k] = []; t[k].push(e)\<close>.\<close>

definition push_entry :: "string \<Rightarrow> 'a \<Rightarrow> (string \<times> 'a list) list \<Rightarrow> (string \<times> 'a list) list" where
  "push_entry k x t = obj_set k ((case assoc k t of None \<Rightarrow> [] | Some xs \<Rightarrow> xs) @ [x]) t"

definition failedLoginsByActor :: "audit_event list \<Rightarrow> (string \<times> audit_event list) list" where
  "failedLoginsByActor es = foldl (\<lambda>t e. if failed_login e then push_entry (actor_key e) e t else t) [] es"

definition login_alert :: "string \<times> audit_event list \<Rightarrow> alert list" where
  "login_alert entry = (case entry of (actor, fails) \<Rightarrow>
     (let who = or_else (ev_actor_name (hd fails)) (take 8 actor); n = show_nat (length fails) in
      if 5 \<le> length fails then
        [\<lparr>al_severity = ''critical'', al_title = ''Brute Force Suspected: '' @ who,
          al_description = n @ '' failed login attempts detected. IP: '' @ or_else (ev_ip (hd fails)) ''unknown'' @ ''.''\<rparr>]
      else if 3 \<le> length fails then
        [\<lparr>al_severity = ''warning'', al_title = ''Login Failures: '' @ who,
          al_description = n @ '' failed login attempts in current view.''\<rparr>]
      else []))"

definition ipsByActor :: "audit_event list \<Rightarrow> (string \<times> string list) list" where
  "ipsByActor es = foldl (\<lambda>t e. if ev_ip e \<noteq> [] then
      obj_set (actor_key e) (js_add (ev_ip e) (case assoc (actor_key e) t of None \<Rightarrow> [] | Some s \<Rightarrow> s)) t else t) [] es"

fun join_str :: "string \<Rightarrow> string list \<Rightarrow> string" where
  "join_str d [] = []"
| "join_str d [w] = w"
| "join_str d (w # v # ws) = w @ d @ join_str d (v # ws)"

definition ip_alert :: "audit_event list \<Rightarrow> string \<times> string list \<Rightarrow> alert list" where
  "ip_alert es entry = (case entry of (actor, ips) \<Rightarrow>
     if 3 < length ips then
       [\<lparr>al_severity = ''warning'',
         al_title = ''Multiple IP Addresses: '' @
           or_else (case find (\<lambda>e. ev_actor_id e = actor) es of None \<Rightarrow> [] | Some e \<Rightarrow> ev_actor_name e) (take 8 actor),
         al_description = ''Activity from '' @ show_nat (length ips) @ '' unique IP addresses: '' @ join_str '', '' ips @ ''.''\<rparr>]
     else [])"

definition utc_hour :: "int \<Rightarrow> int" where
  "utc_hour t = (t div 3600000) mod 24"

definition off_hours :: "(string \<Rightarrow> int option) \<Rightarrow> audit_event \<Rightarrow> bool" where
  "off_hours date e = (case date (ev_created_at e) of None \<Rightarrow> False
     | Some t \<Rightarrow> 2 \<le> utc_hour t \<and> utc_hour t < 5 \<and> ev_result e \<noteq> ''success'')"

definition detectAnomalies :: "(string \<Rightarrow> int option) \<Rightarrow> audit_event list \<Rightarrow> alert list" where
  "detectAnomalies date es =
     (if es = [] then []
      else concat (map login_alert (failedLoginsByActor es)) @ concat (map (ip_alert es) (ipsByActor es)) @
        (let n = count_events (\<lambda>e. ev_result e = ''denied'') es in
         if 5 \<le> n then [\<lparr>al_severity = ''warning'', al_title = ''Access Denied Spike'',
           al_description = show_nat n @ '' access denied events in current view. Possible permission misconfiguration or unauthorized access attempt.''\<rparr>]
         else []) @
        (let n = count_events (off_hours date) es in
         if 3 \<le> n then [\<lparr>al_severity = ''info'', al_title = ''Off-Hours Suspicious Activity'',
           al_description = show_nat n @ '' failed/denied events between 2-5 AM UTC. Potential unauthorized access attempt.''\<rparr>]
         else []))"

section \<open>Groups of five minutes\<close>

record event_group =
  eg_key :: string
  eg_events :: "audit_event list"
  eg_start :: string

definition within_group :: "int option \<Rightarrow> int option \<Rightarrow> bool" where
  "within_group t start = (case (t, start) of (Some a, Some b) \<Rightarrow> a - b \<le> 300000 | _ \<Rightarrow> False)"

text \<open>The loop from index \<open>i\<close> on; \<open>cur\<close> is \<open>currentGroup\<close>.\<close>

fun group_loop :: "(string \<Rightarrow> int option) \<Rightarrow> audit_event list \<Rightarrow> nat \<Rightarrow> audit_event list \<Rightarrow> event_group list \<Rightarrow>
    audit_event list \<Rightarrow> int option \<Rightarrow> event_group list" where
  "group_loop date es i [] groups cur start =
     groups @ [\<lparr>eg_key = ''group-'' @ show_nat (length groups), eg_events = cur,
       eg_start = (case cur of [] \<Rightarrow> [] | e # _ \<Rightarrow> ev_created_at e)\<rparr>]"
| "group_loop date es i (e # rest) groups cur start =
     (if within_group (date (ev_created_at e)) start then group_loop date es (Suc i) rest groups (cur @ [e]) start
      else group_loop date es (Suc i) rest
        (groups @ [\<lparr>eg_key = ''group-'' @ show_nat (length groups), eg_events = cur,
           eg_start = ev_created_at (es ! (i - length cur))\<rparr>]) [e] (date (ev_created_at e)))"

definition groupEvents :: "(string \<Rightarrow> int option) \<Rightarrow> audit_event list \<Rightarrow> event_group list" where
  "groupEvents date es = (case es of [] \<Rightarrow> [] | e # rest \<Rightarrow> group_loop date es 1 rest [] [e] (date (ev_created_at e)))"

definition toggleGroup :: "string \<Rightarrow> string list \<Rightarrow> string list" where
  "toggleGroup key collapsed = js_toggle key collapsed"

section \<open>Filter and export\<close>

record viz_filter =
  vf_user :: string
  vf_action :: string
  vf_ip :: string
  vf_from :: string
  vf_to :: string
  vf_result :: string

definition action_prefixes :: "string list" where
  "action_prefixes = [''user.'', ''token.'', ''mfa.'', ''role.'', ''config.'', ''policy.'']"

definition strip_action :: "string \<Rightarrow> string" where
  "strip_action a = (case find (starts_with a) action_prefixes of None \<Rightarrow> a | Some p \<Rightarrow> drop (length p) a)"

definition date_lt :: "int option \<Rightarrow> int option \<Rightarrow> bool" where
  "date_lt a b = (case (a, b) of (Some x, Some y) \<Rightarrow> x < y | _ \<Rightarrow> False)"

definition viz_shown :: "(string \<Rightarrow> int option) \<Rightarrow> viz_filter \<Rightarrow> audit_event \<Rightarrow> bool" where
  "viz_shown date f e =
     (\<not> (vf_user f \<noteq> [] \<and> \<not> str_includes (to_lower (ev_actor_name e)) (to_lower (vf_user f)) \<and>
         \<not> str_includes (to_lower (ev_actor_id e)) (to_lower (vf_user f))) \<and>
      \<not> (vf_action f \<noteq> ''all'' \<and> \<not> (ev_action e = vf_action f \<or> str_includes (ev_action e) (vf_action f) \<or>
         strip_action (ev_action e) = vf_action f)) \<and>
      \<not> (vf_ip f \<noteq> [] \<and> \<not> str_includes (ev_ip e) (vf_ip f)) \<and>
      \<not> (vf_result f \<noteq> ''all'' \<and> ev_result e \<noteq> vf_result f) \<and>
      \<not> (vf_from f \<noteq> [] \<and> date_lt (date (ev_created_at e)) (date (vf_from f @ ''T00:00:00Z''))) \<and>
      \<not> (vf_to f \<noteq> [] \<and> date_lt (date (vf_to f @ ''T23:59:59Z'')) (date (ev_created_at e))))"

definition viz_filteredEvents :: "(string \<Rightarrow> int option) \<Rightarrow> viz_filter \<Rightarrow> audit_event list \<Rightarrow> audit_event list" where
  "viz_filteredEvents date f es = filter (viz_shown date f) es"

text \<open>The query of \<open>loadEvents\<close>.\<close>

definition viz_params :: "viz_filter \<Rightarrow> (string \<times> string) list" where
  "viz_params f = [(''page_size'', ''100'')] @
     (if vf_action f \<noteq> ''all'' then [(''action'', vf_action f)] else []) @
     (if vf_result f \<noteq> ''all'' then [(''result'', vf_result f)] else []) @
     (if vf_user f \<noteq> [] then [(''actor_id'', vf_user f)] else []) @
     (if vf_from f \<noteq> [] then [(''from'', vf_from f @ ''T00:00:00Z'')] else []) @
     (if vf_to f \<noteq> [] then [(''to'', vf_to f @ ''T23:59:59Z'')] else [])"

definition csv_cell :: "string \<Rightarrow> string" where
  "csv_cell s = CHR 0x22 # replace_all (CHR 0x22) [CHR 0x22, CHR 0x22] s @ [CHR 0x22]"

definition csv_line :: "string list \<Rightarrow> string" where
  "csv_line row = join_on (CHR '','') (map csv_cell row)"

definition event_row :: "audit_event \<Rightarrow> string list" where
  "event_row e = [ev_created_at e, or_else (ev_actor_name e) (ev_actor_id e), ev_action e, ev_ip e, ev_result e, ev_metadata e]"

definition handleExportCSV :: "audit_event list \<Rightarrow> string" where
  "handleExportCSV es = join_on (CHR 0x0A) (map csv_line
     ([''timestamp'', ''user'', ''action'', ''ip'', ''result'', ''details''] # map event_row es))"

section \<open>Classification\<close>

text \<open>\<open>inferSeverity\<close> and \<open>inferService\<close> of the timeline page, \<open>classifyEvent\<close> of the timeline of a user.\<close>

definition timeline_inferSeverity :: "audit_event \<Rightarrow> string" where
  "timeline_inferSeverity e =
     (if ev_severity e \<noteq> [] then ev_severity e
      else if ev_result e = ''denied'' then ''critical''
      else if ev_result e = ''failure'' then ''error''
      else if str_includes (ev_action e) ''mfa'' \<or> str_includes (ev_action e) ''denied'' then ''warning''
      else ''info'')"

definition timeline_inferService :: "audit_event \<Rightarrow> string" where
  "timeline_inferService e =
     (let a = ev_action e in
      if ev_service e \<noteq> [] then ev_service e
      else if starts_with a ''user.'' \<or> starts_with a ''auth.'' then ''auth''
      else if starts_with a ''oauth.'' \<or> starts_with a ''token.'' then ''oauth''
      else if starts_with a ''policy.'' \<or> starts_with a ''role.'' then ''policy''
      else if starts_with a ''org.'' \<or> starts_with a ''member.'' then ''identity''
      else ''audit'')"

definition classifyEvent :: "string \<Rightarrow> string" where
  "classifyEvent a =
     (if str_includes a ''login'' \<or> str_includes a ''auth'' then ''login''
      else if str_includes a ''mfa'' \<or> str_includes a ''otp'' \<or> str_includes a ''webauthn'' then ''mfa''
      else if str_includes a ''token'' \<or> str_includes a ''oauth'' then ''token''
      else if str_includes a ''policy'' \<or> str_includes a ''decision'' then ''policy''
      else if str_includes a ''risk'' then ''risk''
      else ''session'')"

section \<open>Report counts\<close>

definition inferService :: "string \<Rightarrow> string" where
  "inferService a =
     (if starts_with a ''user.'' \<or> starts_with a ''auth.'' then ''auth''
      else if starts_with a ''oauth.'' \<or> starts_with a ''token.'' then ''oauth''
      else if starts_with a ''policy.'' \<or> starts_with a ''role.'' then ''policy''
      else if starts_with a ''org.'' \<or> starts_with a ''member.'' then ''identity''
      else ''audit'')"

definition inferSeverity :: "string \<Rightarrow> string \<Rightarrow> string" where
  "inferSeverity a result =
     (if result = ''denied'' then ''critical''
      else if result = ''failure'' then ''error''
      else if str_includes a ''mfa'' \<or> str_includes a ''denied'' then ''warning''
      else ''info'')"

text \<open>The key of an event; the day is printed by \<open>toISOString\<close>, a parameter that throws (\<^term>\<open>None\<close>) on an invalid
  date.\<close>

definition report_key :: "(string \<Rightarrow> string option) \<Rightarrow> string \<Rightarrow> audit_event \<Rightarrow> string option" where
  "report_key toISO groupBy e =
     (if groupBy = ''day'' then map_option (take 10) (toISO (ev_created_at e))
      else if groupBy = ''user'' then Some (or_else (ev_actor_name e) (or_else (take 8 (ev_actor_id e)) ''system''))
      else if groupBy = ''service'' then Some (inferService (ev_action e))
      else if groupBy = ''event_type'' then Some (ev_action e)
      else Some ''All Events'')"

definition bump :: "string \<Rightarrow> (string \<times> nat) list \<Rightarrow> (string \<times> nat) list" where
  "bump k t = obj_set k (Suc (case assoc k t of None \<Rightarrow> 0 | Some n \<Rightarrow> n)) t"

text \<open>Names with their counts, of all events; the percentage shown is computed from the two.\<close>

definition report_groups :: "(string \<Rightarrow> string option) \<Rightarrow> string \<Rightarrow> audit_event list \<Rightarrow> (string \<times> nat) list option" where
  "report_groups toISO groupBy es =
     (if es = [] then Some []
      else map_option (\<lambda>ks. take 15 (sort_key (\<lambda>(k, n). - int n) (foldl (\<lambda>t k. bump k t) [] ks)))
        (those (map (report_key toISO groupBy) es)))"

section \<open>Lemmas\<close>

subsection \<open>Tables\<close>

lemma assoc_push: "assoc k (push_entry j x t) = (if k = j then Some ((case assoc j t of None \<Rightarrow> [] | Some xs \<Rightarrow> xs) @ [x]) else assoc k t)"
  by (simp add: push_entry_def)

lemma assoc_foldl_push:
  "assoc k (foldl (\<lambda>t e. if P e then push_entry (f e) e t else t) t es) =
     (let new = filter (\<lambda>e. P e \<and> f e = k) es in
      if new = [] then assoc k t else Some ((case assoc k t of None \<Rightarrow> [] | Some xs \<Rightarrow> xs) @ new))"
  by (induction es arbitrary: t) (auto simp: assoc_push Let_def split: option.splits)

lemma foldl_push_keys: "distinct (map fst t) \<Longrightarrow> distinct (map fst (foldl (\<lambda>t e. if P e then push_entry (f e) e t else t) t es))"
  by (induction es arbitrary: t) (auto simp: push_entry_def intro: obj_set_distinct)

lemma assoc_iff: "distinct (map fst t) \<Longrightarrow> (k, v) \<in> set t \<longleftrightarrow> assoc k t = Some v"
proof (induction t)
  case (Cons e t)
  then show ?case by (cases e) (auto, force)
qed simp

lemma failedLogins_entries:
  "(k, fs) \<in> set (failedLoginsByActor es) \<longleftrightarrow>
     fs = filter (\<lambda>e. failed_login e \<and> actor_key e = k) es \<and> fs \<noteq> []"
proof -
  have "distinct (map fst (failedLoginsByActor es))" unfolding failedLoginsByActor_def by (rule foldl_push_keys) simp
  then show ?thesis using assoc_foldl_push[of k failed_login actor_key "[]" es]
    by (auto simp: assoc_iff failedLoginsByActor_def Let_def)
qed

lemma alert_severities:
  "a \<in> set (login_alert x) \<Longrightarrow> al_severity a = ''critical'' \<longleftrightarrow> 5 \<le> length (snd x)"
  "a \<in> set (ip_alert es y) \<Longrightarrow> al_severity a = ''warning''"
  by (auto simp: login_alert_def ip_alert_def Let_def split: prod.splits if_splits)

subsection \<open>Groups\<close>

definition group_ok :: "(string \<Rightarrow> int option) \<Rightarrow> event_group \<Rightarrow> bool" where
  "group_ok date g = (eg_events g \<noteq> [] \<and> eg_start g = ev_created_at (hd (eg_events g)) \<and>
     list_all (\<lambda>e. within_group (date (ev_created_at e)) (date (eg_start g))) (tl (eg_events g)))"

lemma group_loop_spec:
  assumes "es = concat (map eg_events groups) @ cur @ rest" "i = length (concat (map eg_events groups)) + length cur"
    and "cur \<noteq> []" "start = date (ev_created_at (hd cur))" "list_all (group_ok date) groups"
    and "list_all (\<lambda>e. within_group (date (ev_created_at e)) start) (tl cur)"
    and "map eg_key groups = map (\<lambda>k. ''group-'' @ show_nat k) [0..<length groups]"
  shows "let gs = group_loop date es i rest groups cur start in
    concat (map eg_events gs) = es \<and> list_all (group_ok date) gs \<and>
    map eg_key gs = map (\<lambda>k. ''group-'' @ show_nat k) [0..<length gs]"
  using assms
proof (induction rest arbitrary: i groups cur start)
  case Nil
  then show ?case by (cases cur) (auto simp: group_ok_def Let_def)
next
  case (Cons e rest)
  show ?case
  proof (cases "within_group (date (ev_created_at e)) start")
    case True
    have "list_all (\<lambda>e. within_group (date (ev_created_at e)) start) (tl (cur @ [e]))"
      using Cons.prems(3,6) True by (cases cur) auto
    then show ?thesis using True Cons.prems Cons.IH[of groups "cur @ [e]" "Suc i" start] by simp
  next
    case False
    let ?g = "\<lparr>eg_key = ''group-'' @ show_nat (length groups), eg_events = cur, eg_start = ev_created_at (es ! (i - length cur))\<rparr>"
    have "es ! (i - length cur) = hd cur" using Cons.prems(1-3) by (cases cur) (auto simp: nth_append)
    then have "group_ok date ?g" using Cons.prems by (simp add: group_ok_def)
    then show ?thesis using False Cons.prems Cons.IH[of "groups @ [?g]" "[e]" "Suc i" "date (ev_created_at e)"]
      by (simp add: \<open>es ! _ = _\<close>)
  qed
qed

lemma groupEvents_spec:
  "concat (map eg_events (groupEvents date es)) = es \<and> list_all (group_ok date) (groupEvents date es) \<and>
   map eg_key (groupEvents date es) = map (\<lambda>k. ''group-'' @ show_nat k) [0..<length (groupEvents date es)]"
proof (cases es)
  case (Cons e rest)
  then show ?thesis using group_loop_spec[of es "[]" "[e]" rest 1 "date (ev_created_at e)" date]
    by (simp add: groupEvents_def Let_def)
qed (simp add: groupEvents_def)

lemma group_loop_one:
  "list_all (\<lambda>e. within_group (date (ev_created_at e)) start) rest \<Longrightarrow> length (group_loop date es i rest groups cur start) = Suc (length groups)"
  by (induction rest arbitrary: i cur) auto

lemma show_nat_inj: "show_nat a = show_nat b \<Longrightarrow> a = b"
  by (metis nat_of_digits_show)

subsection \<open>Reading an exported cell\<close>

abbreviation doubled :: "string \<Rightarrow> string" where
  "doubled s \<equiv> replace_all (CHR 0x22) [CHR 0x22, CHR 0x22] s"

lemma doubled_simps: "doubled [] = []" "doubled (c # s) = (if c = CHR 0x22 then [CHR 0x22, CHR 0x22] else [c]) @ doubled s"
  by (simp_all add: replace_all_def)

definition field_end :: "string \<Rightarrow> bool" where
  "field_end r = (r = [] \<or> hd r = CHR '','')"

lemma csv_go_doubled:
  "field_end r \<Longrightarrow> csv_go True cur (doubled f @ CHR 0x22 # r) = csv_go False (cur @ f) r"
  by (induction f arbitrary: cur) (auto simp: doubled_simps field_end_def)

text \<open>What a cell of the export is read as: a cell of quotes only, the empty one included, gets one
  quote too many.\<close>

definition csv_read :: "string \<Rightarrow> string" where
  "csv_read f = (if set f \<subseteq> {CHR 0x22} then CHR 0x22 # f else f)"

lemma csv_go_quotes:
  "csv_go False cur (CHR 0x22 # doubled f @ CHR 0x22 # r) = csv_go False (cur @ csv_read f) r" if "field_end r"
proof (induction f arbitrary: cur)
  case Nil
  then show ?case using that by (simp add: doubled_simps csv_read_def)
next
  case (Cons c f)
  show ?case
  proof (cases "c = CHR 0x22")
    case True
    have "csv_go False cur (CHR 0x22 # doubled (c # f) @ CHR 0x22 # r) =
        csv_go False (cur @ [CHR 0x22]) (CHR 0x22 # doubled f @ CHR 0x22 # r)"
      using True by (simp add: doubled_simps)
    then show ?thesis using Cons True by (simp add: csv_read_def)
  next
    case False
    then have "csv_go False cur (CHR 0x22 # doubled (c # f) @ CHR 0x22 # r) = csv_go True cur (doubled (c # f) @ CHR 0x22 # r)"
      by (simp add: doubled_simps)
    then show ?thesis using False csv_go_doubled[OF that, of cur "c # f"] by (simp add: csv_read_def)
  qed
qed

lemma csv_cells_read:
  "row \<noteq> [] \<Longrightarrow> csv_go False [] (join_on (CHR '','') (map csv_cell row)) = map (\<lambda>f. trim (csv_read f)) row"
proof (induction row)
  case (Cons f row)
  have step: "csv_go False [] (csv_cell f @ r) = csv_go False (csv_read f) r" if "field_end r" for r
    using csv_go_quotes[OF that, of "[]" f] by (simp add: csv_cell_def)
  show ?case
  proof (cases row)
    case Nil
    then show ?thesis using step[of "[]"] by (simp add: field_end_def)
  next
    case (Cons g row')
    then show ?thesis using step[of "CHR '','' # join_on (CHR '','') (map csv_cell row)"] Cons.IH
      by (simp add: field_end_def)
  qed
qed simp

lemma csv_line_read: "row \<noteq> [] \<Longrightarrow> parseCsvLine (csv_line row) = map (\<lambda>f. trim (csv_read f)) row"
  by (simp add: parseCsvLine_def csv_line_def csv_cells_read)

subsection \<open>Counts\<close>

lemma assoc_bump: "assoc k (bump j t) = (if k = j then Some (Suc (case assoc j t of None \<Rightarrow> 0 | Some n \<Rightarrow> n)) else assoc k t)"
  by (simp add: bump_def)

lemma assoc_foldl_bump:
  "assoc k (foldl (\<lambda>t k. bump k t) t ks) =
     (if k \<in> set ks then Some (count_list ks k + (case assoc k t of None \<Rightarrow> 0 | Some n \<Rightarrow> n)) else assoc k t)"
  by (induction ks arbitrary: t) (auto simp: assoc_bump split: option.splits)

lemma bump_keys: "distinct (map fst t) \<Longrightarrow> distinct (map fst (foldl (\<lambda>t k. bump k t) t ks))"
  by (induction ks arbitrary: t) (auto simp: bump_def intro: obj_set_distinct)

lemma bump_entries: "(k, n) \<in> set (foldl (\<lambda>t k. bump k t) [] ks) \<longleftrightarrow> k \<in> set ks \<and> n = count_list ks k"
  using bump_keys[of "[]" ks] assoc_foldl_bump[of k "[]" ks] by (auto simp: assoc_iff)

lemma those_Some: "those xs = Some ys \<longleftrightarrow> xs = map Some ys"
proof (induction xs arbitrary: ys)
  case (Cons x xs)
  then show ?case by (cases x; cases ys) auto
qed auto

section \<open>Properties\<close>

text \<open>A critical alert is raised if and only if some actor has at least five failed logins among
  the events shown.\<close>

lemma critical_alert_iff:
  "(\<exists>a \<in> set (detectAnomalies date es). al_severity a = ''critical'') \<longleftrightarrow>
     (\<exists>actor. 5 \<le> length (filter (\<lambda>e. failed_login e \<and> actor_key e = actor) es))"
proof -
  have "(\<exists>a \<in> set (detectAnomalies date es). al_severity a = ''critical'') \<longleftrightarrow>
      (\<exists>x \<in> set (failedLoginsByActor es). 5 \<le> length (snd x))"
  proof
    assume "\<exists>a \<in> set (detectAnomalies date es). al_severity a = ''critical''"
    then show "\<exists>x \<in> set (failedLoginsByActor es). 5 \<le> length (snd x)"
      using alert_severities by (auto simp: detectAnomalies_def Let_def split: if_splits)
  next
    assume "\<exists>x \<in> set (failedLoginsByActor es). 5 \<le> length (snd x)"
    then obtain x where x: "x \<in> set (failedLoginsByActor es)" "5 \<le> length (snd x)" by blast
    then have "es \<noteq> []" by (auto simp: failedLoginsByActor_def)
    moreover have "\<exists>a \<in> set (login_alert x). al_severity a = ''critical''"
      using x(2) by (cases x) (simp add: login_alert_def Let_def)
    ultimately show "\<exists>a \<in> set (detectAnomalies date es). al_severity a = ''critical''"
      using x(1) by (auto simp: detectAnomalies_def)
  qed
  also have "\<dots> \<longleftrightarrow> (\<exists>actor. 5 \<le> length (filter (\<lambda>e. failed_login e \<and> actor_key e = actor) es))"
  proof
    assume "\<exists>x \<in> set (failedLoginsByActor es). 5 \<le> length (snd x)"
    then obtain k fs where "(k, fs) \<in> set (failedLoginsByActor es)" "5 \<le> length fs" by auto
    then show "\<exists>actor. 5 \<le> length (filter (\<lambda>e. failed_login e \<and> actor_key e = actor) es)"
      using failedLogins_entries[of k fs es] by blast
  next
    assume "\<exists>actor. 5 \<le> length (filter (\<lambda>e. failed_login e \<and> actor_key e = actor) es)"
    then obtain k where k: "5 \<le> length (filter (\<lambda>e. failed_login e \<and> actor_key e = k) es)" ..
    then have "(k, filter (\<lambda>e. failed_login e \<and> actor_key e = k) es) \<in> set (failedLoginsByActor es)"
      by (subst failedLogins_entries) (auto simp del: filter_empty_conv)
    from bexI[OF _ this, of "\<lambda>x. 5 \<le> length (snd x)"] show "\<exists>x \<in> set (failedLoginsByActor es). 5 \<le> length (snd x)"
      using k by simp
  qed
  finally show ?thesis .
qed

text \<open>The groups of the visualization are a partition: their events in order are the events, no group is
  empty, each starts at the time of its first event and contains only events up to five minutes
  after it, and the keys are distinct.  But events in descending order of time, as
  the newest-first list of a server has them, all fall into a single group, however far apart they are.\<close>

lemma groupEvents_partition:
  "concat (map eg_events (groupEvents date es)) = es \<and> list_all (group_ok date) (groupEvents date es) \<and>
   distinct (map eg_key (groupEvents date es)) \<and>
   (\<forall>ts. ts \<noteq> [] \<longrightarrow> map (\<lambda>e. date (ev_created_at e)) es = map Some ts \<longrightarrow> sorted_wrt (\<ge>) ts \<longrightarrow> length (groupEvents date es) = 1)"
proof -
  have "distinct (map eg_key (groupEvents date es))"
    using groupEvents_spec[of date es] show_nat_inj by (simp add: distinct_map inj_on_def)
  moreover have "length (groupEvents date es) = 1"
    if ts: "ts \<noteq> []" "map (\<lambda>e. date (ev_created_at e)) es = map Some ts" "sorted_wrt (\<ge>) ts" for ts
  proof -
    obtain t ts' where t: "ts = t # ts'" using ts(1) by (cases ts) auto
    then obtain e rest where e: "es = e # rest" "date (ev_created_at e) = Some t"
      "map (\<lambda>e. date (ev_created_at e)) rest = map Some ts'" using ts(2) by (cases es) auto
    have "within_group (date (ev_created_at x)) (Some t)" if "x \<in> set rest" for x
    proof -
      have "date (ev_created_at x) \<in> set (map Some ts')" using that e(3) by (metis image_eqI list.set_map)
      then show ?thesis using ts(3) t by (auto simp: within_group_def)
    qed
    then show ?thesis using e by (simp add: groupEvents_def group_loop_one list_all_iff)
  qed
  ultimately show ?thesis using groupEvents_spec[of date es] by blast
qed

lemma groupEvents_partition_example:
  "let ev = (\<lambda>t. \<lparr>ev_id = [], ev_actor_id = [], ev_actor_name = [], ev_action = [], ev_result = [], ev_created_at = t,
       ev_ip = [], ev_agent = [], ev_service = [], ev_severity = [], ev_metadata = []\<rparr>);
       date = (\<lambda>s. if s = ''new'' then Some 9000000 else Some 0) in
   length (groupEvents date [ev ''new'', ev ''old'']) = 1 \<and> length (groupEvents date [ev ''old'', ev ''new'']) = 2"
proof -
  have "length (groupEvents (\<lambda>s. if s = ''new'' then Some 9000000 else Some 0)
    [\<lparr>ev_id = [], ev_actor_id = [], ev_actor_name = [], ev_action = [], ev_result = [], ev_created_at = ''new'',
       ev_ip = [], ev_agent = [], ev_service = [], ev_severity = [], ev_metadata = []\<rparr>,
     \<lparr>ev_id = [], ev_actor_id = [], ev_actor_name = [], ev_action = [], ev_result = [], ev_created_at = ''old'',
       ev_ip = [], ev_agent = [], ev_service = [], ev_severity = [], ev_metadata = []\<rparr>]) = 1"
    by (rule groupEvents_partition[THEN conjunct2, THEN conjunct2, THEN conjunct2, rule_format, of "[9000000, 0]"]) simp_all
  then show ?thesis by (simp add: groupEvents_def within_group_def)
qed

text \<open>An exported line is read back by the import wizard cell by cell, trimmed, except that a cell
  without any character other than quotes, in particular an empty cell, is read with an additional
  quote.\<close>

lemma csv_export_import:
  assumes "row \<noteq> []"
  shows "parseCsvLine (csv_line row) =
    map (\<lambda>f. if set f \<subseteq> {CHR 0x22} then CHR 0x22 # f else trim f) row"
proof -
  have "trim (CHR 0x22 # f) = CHR 0x22 # f" if "set f \<subseteq> {CHR 0x22}" for f
  proof -
    have "\<not> is_space (CHR 0x22)" by code_simp
    moreover have "last (CHR 0x22 # f) = CHR 0x22" using that last_in_set[of f] by (cases f) auto
    ultimately show ?thesis
      by (metis dropWhile.simps(2) hd_rev list.collapse list.discI rev_is_Nil_conv rev_rev_ident trim_def trim_end_def)
  qed
  then show ?thesis using csv_line_read[OF assms] by (auto simp: csv_read_def)
qed

lemma csv_export_import_example:
  "parseCsvLine (csv_line [''a,b'', [], ''x'']) = [''a,b'', [CHR 0x22], ''x'']"
proof -
  have "trim ''a,b'' = ''a,b''" "trim ''x'' = ''x''" by code_simp+
  then show ?thesis using csv_export_import[of "[''a,b'', [], ''x'']"] by simp
qed

text \<open>The counts of a report: every name is listed once, with the number of events that have it as
  their key, in descending order, at most fifteen of them, and a name is left out only if fifteen others
  count at least as many.\<close>

lemma report_groups_counts:
  assumes "report_groups toISO groupBy es = Some gs" "map (report_key toISO groupBy) es = map Some ks"
  shows "distinct (map fst gs) \<and> sorted_wrt (\<ge>) (map snd gs) \<and> length gs \<le> 15 \<and>
    (\<forall>(k, n) \<in> set gs. k \<in> set ks \<and> n = count_list ks k) \<and>
    (\<forall>k \<in> set ks. k \<notin> fst ` set gs \<longrightarrow> length gs = 15 \<and> (\<forall>(j, n) \<in> set gs. count_list ks k \<le> n))"
proof (cases "es = []")
  case True
  then show ?thesis using assms by (simp add: report_groups_def)
next
  case False
  define tbl where "tbl = foldl (\<lambda>t k. bump k t) [] ks"
  define srt where "srt = sort_key (\<lambda>(k, n). - int n) tbl"
  have gs: "gs = take 15 srt"
    using assms False those_Some[of "map (report_key toISO groupBy) es" ks] by (simp add: report_groups_def tbl_def srt_def)
  have dist: "distinct (map fst srt)"
    using bump_keys[of "[]" ks] by (simp add: srt_def tbl_def distinct_map)
  have entries: "(k, n) \<in> set srt \<longleftrightarrow> k \<in> set ks \<and> n = count_list ks k" for k n
    using bump_entries by (simp add: srt_def tbl_def)
  have "sorted_wrt (\<lambda>x y. snd y \<le> snd x) srt"
    using sorted_sort_key[of "\<lambda>(k, n). - int n" tbl] by (simp add: srt_def sorted_map split_beta)
  then have "sorted_wrt (\<lambda>x y. snd y \<le> snd x) (gs @ drop 15 srt)" by (simp add: gs)
  then have sorted: "sorted_wrt (\<lambda>x y. snd y \<le> snd x) gs"
    and late: "\<And>x y. x \<in> set gs \<Longrightarrow> y \<in> set (drop 15 srt) \<Longrightarrow> snd y \<le> snd x"
    by (auto simp: sorted_wrt_append)
  have "length gs = 15 \<and> (\<forall>(j, n) \<in> set gs. count_list ks k \<le> n)" if "k \<in> set ks" "k \<notin> fst ` set gs" for k
  proof -
    have "(k, count_list ks k) \<in> set (gs @ drop 15 srt)" using that(1) entries by (simp add: gs)
    then have d: "(k, count_list ks k) \<in> set (drop 15 srt)" using that(2) by force
    then have "15 < length srt" by (metis drop_all empty_iff list.set(1) not_le_imp_less)
    then show ?thesis using late[OF _ d] by (auto simp: gs)
  qed
  moreover have "distinct (map fst gs)" using dist distinct_take[of "map fst srt" 15] by (simp add: gs take_map)
  moreover have "\<forall>(k, n) \<in> set gs. k \<in> set ks \<and> n = count_list ks k"
    using entries in_set_takeD[of _ 15 srt] by (auto simp: gs)
  ultimately show ?thesis using sorted by (simp add: sorted_wrt_map gs)
qed

lemma report_groups_counts_example:
  "let ev = (\<lambda>a. \<lparr>ev_id = [], ev_actor_id = [], ev_actor_name = [], ev_action = a, ev_result = [], ev_created_at = [],
       ev_ip = [], ev_agent = [], ev_service = [], ev_severity = [], ev_metadata = []\<rparr>);
       es = [ev ''user.login'', ev ''role.assign'', ev ''auth.mfa''] in
   \<exists>gs. report_groups (\<lambda>_. None) ''service'' es = Some gs \<and> (\<forall>(k, n) \<in> set gs. n = count_list [''auth'', ''policy'', ''auth''] k)"
proof -
  let ?ev = "\<lambda>a. \<lparr>ev_id = [], ev_actor_id = [], ev_actor_name = [], ev_action = a, ev_result = [], ev_created_at = [],
       ev_ip = [], ev_agent = [], ev_service = [], ev_severity = [], ev_metadata = []\<rparr>"
  let ?es = "[?ev ''user.login'', ?ev ''role.assign'', ?ev ''auth.mfa'']"
  have "\<exists>gs. report_groups (\<lambda>_. None) ''service'' ?es = Some gs"
    by (simp add: report_groups_def report_key_def)
  then obtain gs where gs: "report_groups (\<lambda>_. None) ''service'' ?es = Some gs" ..
  have "map (report_key (\<lambda>_. None) ''service'') ?es = map Some [''auth'', ''policy'', ''auth'']" by code_simp
  from report_groups_counts[OF gs this] show ?thesis using gs by (auto simp: Let_def)
qed

text \<open>Every OAuth and every WebAuthn event is classified as a login: the first test, for \<open>auth\<close>, comes
  before the tests for \<open>webauthn\<close> and \<open>oauth\<close>, which contain it.\<close>

lemma includes_trans: "str_includes q p \<Longrightarrow> str_includes s q \<Longrightarrow> str_includes s p"
  by (auto simp: str_includes_iff) (metis append.assoc)

lemma classify_shadowed: "str_includes a ''oauth'' \<or> str_includes a ''webauthn'' \<Longrightarrow> classifyEvent a = ''login''"
proof -
  have "str_includes ''oauth'' ''auth''" "str_includes ''webauthn'' ''auth''" by code_simp+
  then show "str_includes a ''oauth'' \<or> str_includes a ''webauthn'' \<Longrightarrow> classifyEvent a = ''login''"
    using includes_trans[of "''oauth''" "''auth''" a] includes_trans[of "''webauthn''" "''auth''" a]
    by (auto simp only: classifyEvent_def simp_thms if_True)
qed

end
