(* ===== verification/Login.thy ===== *)
theory Login
  imports Auth_Guard Webauthn
begin

text \<open>
  The ways into the console: the login page (\<open>console/src/app/login/page.tsx\<close>) with password,
  second factor, rate limit and tenant selection, the passwordless component
  (\<open>console/src/components/auth/passwordless-login.tsx\<close>), the callback page
  (\<open>console/src/app/auth/callback/page.tsx\<close>) and the setup wizard (\<open>console/src/app/setup/page.tsx\<close>).
  Navigation and the detached signal call are returned as effects.  The query of the address,
  the host name, the origin and the configured base address and default tenant are arguments;
  \<open>retry_after\<close> is a number, as the server sends it.
\<close>

section \<open>Effects and shared pieces\<close>

datatype login_effect = Replace string | Goto string | SyncSignals

definition form_post :: "string \<Rightarrow> headers \<Rightarrow> (string \<times> string) list \<Rightarrow> request" where
  "form_post u h kvs = \<lparr>url = u, meth = ''POST'', hdrs = (''Content-Type'', ''application/x-www-form-urlencoded'') # h,
     rbody = Some (search_params kvs)\<rparr>"

definition json_post :: "string \<Rightarrow> headers \<Rightarrow> (string \<times> jsv) list \<Rightarrow> request" where
  "json_post u h kvs = \<lparr>url = u, meth = ''POST'', hdrs = (''Content-Type'', ''application/json'') # h,
     rbody = Some (json_stringify (JObj kvs))\<rparr>"

definition plain_get :: "string \<Rightarrow> headers \<Rightarrow> request" where
  "plain_get u h = \<lparr>url = u, meth = ''GET'', hdrs = h, rbody = None\<rparr>"

text \<open>\<open>fetch(rq).then(r => r.ok ? r.json() : null)\<close>; \<^term>\<open>None\<close> where the promise is rejected.\<close>

definition fetch_json :: "'w env \<Rightarrow> request \<Rightarrow> 'w world \<Rightarrow> jsv option \<times> 'w world" where
  "fetch_json E rq w = (case fetch E rq w of
      (NetError, w1) \<Rightarrow> (None, w1)
    | (Resp st body, w1) \<Rightarrow> (if resp_ok st then json_parse body else Some JNull, w1))"

text \<open>The access and refresh token of an answer, as every page stores them.\<close>

definition store_pair :: "jsv \<Rightarrow> 'w world \<Rightarrow> 'w world" where
  "store_pair data w =
     (let w1 = set_item ''ggid_access_token'' (js_to_string (js_opt_prop data ''access_token'')) w;
          rt = js_opt_prop data ''refresh_token'' in
      if truthy rt then set_item ''ggid_refresh_token'' (js_to_string rt) w1 else w1)"

section \<open>The login page\<close>

datatype login_step = Credentials | Mfa

record login_page =
  lg_step :: login_step
  lg_username :: string
  lg_password :: string
  lg_totp :: string
  lg_useBackup :: bool
  lg_backup :: string
  lg_redirect :: string
  lg_mfaToken :: jsv
  lg_error :: string
  lg_registered :: string
  lg_rateLimit :: int
  lg_loading :: bool
  lg_connectors :: jsv
  lg_connectorsLoaded :: bool
  lg_slug :: string
  lg_tenant :: string
  lg_pwFeedback :: string
  lg_methods :: jsv
  lg_initialized :: bool
  lg_userCount :: jsv
  lg_showTenant :: bool
  lg_tenantError :: string
  lg_tenantResolved :: bool

text \<open>The initial state: \<open>param\<close> reads the query.\<close>

definition login_init :: "(string \<Rightarrow> string option) \<Rightarrow> string \<Rightarrow> string \<Rightarrow> login_page" where
  "login_init param hostname default_tenant =
     \<lparr>lg_step = Credentials, lg_username = [], lg_password = [], lg_totp = [], lg_useBackup = False, lg_backup = [],
      lg_redirect = item_or (param ''redirect_to'') ''/'', lg_mfaToken = JStr [], lg_error = [], lg_registered = [],
      lg_rateLimit = 0, lg_loading = False, lg_connectors = JArr [], lg_connectorsLoaded = False,
      lg_slug = getEffectiveTenantSlug True (param ''tenant'') hostname, lg_tenant = default_tenant, lg_pwFeedback = [],
      lg_methods = JArr [JStr ''password''], lg_initialized = False, lg_userCount = JNum 0, lg_showTenant = True,
      lg_tenantError = [], lg_tenantResolved = False\<rparr>"

subsection \<open>Effects at mount\<close>

definition fallback_request :: "string \<Rightarrow> request" where
  "fallback_request base = plain_get (base @ ''/api/v1/tenants/resolve?slug=default'') []"

definition mount_tenant ::
  "'w env \<Rightarrow> string \<Rightarrow> string \<Rightarrow> (string \<Rightarrow> string option) \<Rightarrow> string \<Rightarrow>
   login_page \<times> (resolve_cache \<times> 'w world) \<Rightarrow> login_page \<times> (resolve_cache \<times> 'w world)" where
  "mount_tenant E base default_tenant param hostname pcw = (case pcw of (p, cw) \<Rightarrow>
     (let slug = getEffectiveTenantSlug True (param ''tenant'') hostname;
          effective = (if slug = [] then ''default'' else slug);
          p1 = p\<lparr>lg_registered := (if param ''registered'' = Some ''1''
                   then ''Registration successful! Please log in with your new account.'' else lg_registered p),
                 lg_slug := effective\<rparr> in
      case resolveTenantSlug E base effective cw of
        (Some i, (c, w)) \<Rightarrow>
          (p1\<lparr>lg_tenant := js_to_string i\<rparr>, (c, set_item ''ggid_tenant_id'' (js_to_string i) w))
      | (None, (c, w)) \<Rightarrow> (case fetch_json E (fallback_request base) w of
            (None, w1) \<Rightarrow> (p1\<lparr>lg_tenant := default_tenant\<rparr>, (c, w1))
          | (Some d, w1) \<Rightarrow>
              (let i = js_to_string (js_or (js_opt_prop d ''id'') (js_or (js_opt_prop d ''tenant_id'') (JStr default_tenant))) in
               (p1\<lparr>lg_tenant := i\<rparr>, (c, set_item ''ggid_tenant_id'' i w1))))))"

text \<open>\<open>methods.filter(...)\<close> against the status of the providers; \<^term>\<open>None\<close>: \<open>methods\<close> has no \<open>filter\<close>.\<close>

definition method_available :: "jsv \<Rightarrow> jsv \<Rightarrow> bool" where
  "method_available status m =
     (if m = JStr ''sms_otp'' then js_opt_prop status ''sms_otp'' = JBool True
      else if m = JStr ''email_otp'' then js_opt_prop status ''email_otp'' = JBool True
      else True)"

definition available_methods :: "jsv \<Rightarrow> jsv \<Rightarrow> jsv option" where
  "available_methods status methods = (case methods of
      JArr ms \<Rightarrow> Some (let av = filter (method_available status) ms in if av \<noteq> [] then JArr av else JArr [JStr ''password''])
    | _ \<Rightarrow> None)"

definition client_request :: "string \<Rightarrow> login_page \<Rightarrow> 'w world \<Rightarrow> request" where
  "client_request base p w = plain_get (base @ ''/api/v1/oauth/clients/gcid-console'')
     (spread [(''X-Tenant-ID'', lg_tenant p)] (authHeader w))"

definition provider_status_request :: "string \<Rightarrow> login_page \<Rightarrow> request" where
  "provider_status_request base p =
     plain_get (base @ ''/api/v1/providers/status?tenant_id='' @ lg_tenant p @ ''&client_id=gcid-console'') []"

definition load_methods :: "'w env \<Rightarrow> string \<Rightarrow> login_page \<times> 'w world \<Rightarrow> login_page \<times> 'w world" where
  "load_methods E base pw = (case pw of (p, w) \<Rightarrow>
     (case fetch_json E (client_request base p w) w of
        (None, w1) \<Rightarrow> (p, w1)
      | (Some data, w1) \<Rightarrow>
          if \<not> truthy data then (p, w1)
          else (let methods = js_or (js_opt_prop (js_or (js_opt_prop data ''client'') data) ''auth_methods'') (JArr [JStr ''password'']) in
            case fetch_json E (provider_status_request base p) w1 of
              (None, w2) \<Rightarrow> (p\<lparr>lg_methods := methods\<rparr>, w2)
            | (Some status, w2) \<Rightarrow>
                (p\<lparr>lg_methods := (if truthy status then (case available_methods status methods of None \<Rightarrow> methods | Some ms \<Rightarrow> ms)
                     else methods)\<rparr>, w2))))"

definition load_connectors :: "'w env \<Rightarrow> string \<Rightarrow> login_page \<times> 'w world \<Rightarrow> login_page \<times> 'w world" where
  "load_connectors E base pw = (case pw of (p, w) \<Rightarrow>
     (case fetch_json E (plain_get (base @ ''/api/v1/auth/social/connectors'') (spread (authHeader w) [(''X-Tenant-ID'', lg_tenant p)])) w of
        (None, w1) \<Rightarrow> (p\<lparr>lg_connectorsLoaded := True\<rparr>, w1)
      | (Some data, w1) \<Rightarrow>
          (p\<lparr>lg_connectors := (if is_array (js_opt_prop data ''connectors'') then js_opt_prop data ''connectors'' else lg_connectors p),
             lg_connectorsLoaded := True\<rparr>, w1)))"

definition check_initialized :: "'w env \<Rightarrow> string \<Rightarrow> login_page \<times> 'w world \<Rightarrow> login_page \<times> login_effect list \<times> 'w world" where
  "check_initialized E base pw = (case pw of (p, w) \<Rightarrow>
     (case fetch_json E (plain_get (base @ ''/api/v1/system/initialized'') []) w of
        (None, w1) \<Rightarrow> (p\<lparr>lg_initialized := True, lg_userCount := JNum 1\<rparr>, [], w1)
      | (Some data, w1) \<Rightarrow>
          if truthy data \<and> js_opt_prop data ''initialized'' = JBool False then (p, [Goto ''/setup''], w1)
          else (p\<lparr>lg_initialized := True, lg_userCount := js_nullish (js_opt_prop data ''user_count'') (JNum 1)\<rparr>, [], w1)))"

definition mount_query :: "(string \<Rightarrow> string option) \<Rightarrow> login_page \<Rightarrow> login_page" where
  "mount_query param p =
     p\<lparr>lg_slug := (if present (param ''tenant'') then the (param ''tenant'') else lg_slug p),
       lg_showTenant := (if param ''single_tenant'' = Some ''1'' then False else lg_showTenant p)\<rparr>"

text \<open>The timer of the rate limit: it runs while the count is positive.\<close>

definition rate_limit_tick :: "login_page \<Rightarrow> login_page" where
  "rate_limit_tick p = (if lg_rateLimit p \<le> 0 then p else p\<lparr>lg_rateLimit := lg_rateLimit p - 1\<rparr>)"

definition submit_enabled :: "login_page \<Rightarrow> bool" where
  "submit_enabled p = (\<not> (lg_loading p \<or> 0 < lg_rateLimit p))"

subsection \<open>Handlers\<close>

definition grant_params :: "login_page \<Rightarrow> (string \<times> string) list" where
  "grant_params p = [(''grant_type'', ''password''), (''username'', lg_username p), (''password'', lg_password p),
     (''client_id'', ''gcid-console''), (''scope'', ''openid profile email offline_access'')]"

definition password_request :: "string \<Rightarrow> login_page \<Rightarrow> request" where
  "password_request base p = form_post (base @ ''/oauth/token'') [(''X-Tenant-ID'', lg_tenant p)] (grant_params p)"

definition mfa_request :: "string \<Rightarrow> login_page \<Rightarrow> request" where
  "mfa_request base p = form_post (base @ ''/oauth/token'') [(''X-Tenant-ID'', lg_tenant p)]
     (grant_params p @ [(''mfa_code'', if lg_useBackup p then [] else lg_totp p),
        (''backup_code'', if lg_useBackup p then lg_backup p else [])])"

definition login_failed :: "string \<Rightarrow> login_page \<Rightarrow> login_page" where
  "login_failed m p = p\<lparr>lg_error := m, lg_loading := False\<rparr>"

text \<open>\<open>payload.permissions\<close> of the token, which only the password login stores.\<close>

definition store_permissions :: "jsv \<Rightarrow> 'w world \<Rightarrow> 'w world" where
  "store_permissions tok w = (case jwt_payload tok of None \<Rightarrow> w
     | Some pl \<Rightarrow> if truthy (js_opt_prop pl ''permissions'')
         then set_item ''ggid_user_permissions'' (json_stringify (js_opt_prop pl ''permissions'')) w else w)"

definition retry_seconds :: "jsv \<Rightarrow> int" where
  "retry_seconds v = (case v of JNum n \<Rightarrow> n | _ \<Rightarrow> 0)"

definition credentials_refused :: "int \<Rightarrow> jsv \<Rightarrow> login_page \<Rightarrow> login_page" where
  "credentials_refused st data p =
     (if js_opt_prop data ''error'' = JStr ''mfa_required'' \<or> truthy (js_opt_prop data ''mfa_required'')
      then p\<lparr>lg_mfaToken := js_or (js_opt_prop data ''mfa_token'') (js_or (js_opt_prop data ''access_token'') (JStr [])),
             lg_step := Mfa, lg_loading := False\<rparr>
      else login_failed (js_to_string (js_or (js_opt_prop data ''error_description'') (js_or (js_opt_prop data ''error'') (JStr ''Login failed''))))
        (if st = 429 \<and> truthy (js_opt_prop data ''retry_after'')
         then p\<lparr>lg_rateLimit := retry_seconds (js_opt_prop data ''retry_after'')\<rparr> else p))"

definition handleCredentials ::
  "'w env \<Rightarrow> string \<Rightarrow> login_page \<times> 'w world \<Rightarrow> login_page \<times> login_effect list \<times> 'w world" where
  "handleCredentials E base pw = (case pw of (p0, w) \<Rightarrow>
     (let p = p0\<lparr>lg_loading := True, lg_error := []\<rparr> in
      case fetch E (password_request base p) w of
        (NetError, w1) \<Rightarrow> (login_failed (net_message E) p, [], w1)
      | (Resp st body, w1) \<Rightarrow> (case json_parse body of
          None \<Rightarrow> (login_failed (syntax_message E) p, [], w1)
        | Some data \<Rightarrow>
            if nullish data then (login_failed (type_message E) p, [], w1)
            else if \<not> resp_ok st then (credentials_refused st data p, [], w1)
            else (let at = js_opt_prop data ''access_token'';
                      w2 = set_item ''ggid_tenant_id'' (lg_tenant p) (store_pair data w1) in
              (p, [SyncSignals, Replace (lg_redirect p)], store_permissions at (store_scopes at w2))))))"

definition handleMfa ::
  "'w env \<Rightarrow> string \<Rightarrow> login_page \<times> 'w world \<Rightarrow> login_page \<times> login_effect list \<times> 'w world" where
  "handleMfa E base pw = (case pw of (p0, w) \<Rightarrow>
     (let p = p0\<lparr>lg_loading := True, lg_error := []\<rparr> in
      case fetch E (mfa_request base p) w of
        (NetError, w1) \<Rightarrow> (login_failed (net_message E) p, [], w1)
      | (Resp st body, w1) \<Rightarrow> (case json_parse body of
          None \<Rightarrow> (login_failed (syntax_message E) p, [], w1)
        | Some data \<Rightarrow>
            if nullish data then (login_failed (type_message E) p, [], w1)
            else if \<not> resp_ok st then
              (login_failed (js_to_string (js_or (js_opt_prop data ''error_description'')
                 (js_or (js_opt_prop data ''error'') (JStr ''MFA verification failed'')))) p, [], w1)
            else (p, [Replace (lg_redirect p)], store_scopes (js_opt_prop data ''access_token'') (store_pair data w1)))))"

text \<open>The \<open>onSuccess\<close> of the passwordless component.\<close>

definition passwordless_success :: "login_page \<Rightarrow> jsv \<Rightarrow> 'w world \<Rightarrow> login_effect list \<times> 'w world" where
  "passwordless_success p data w =
     ([Replace (lg_redirect p)], set_item ''ggid_tenant_id'' (lg_tenant p) (store_pair data w))"

definition handleSocialLogin :: "string \<Rightarrow> string \<Rightarrow> string \<Rightarrow> login_page \<Rightarrow> login_effect list" where
  "handleSocialLogin base origin provider p = [Goto (base @ ''/api/v1/auth/social/'' @ provider @ ''?'' @
     search_params [(''tenant_id'', lg_tenant p), (''redirect_uri'', origin @ ''/auth/callback'')])]"

text \<open>\<open>/^[0-9a-f]{8}-...$/i\<close>.\<close>

definition is_hex :: "char \<Rightarrow> bool" where
  "is_hex c = (is_digit c \<or> lower_char c \<in> set ''abcdef'')"

definition is_uuid :: "string \<Rightarrow> bool" where
  "is_uuid s = (case split_on (CHR ''-'') s of
      [a, b, c, d, e] \<Rightarrow> map length [a, b, c, d, e] = [8, 4, 4, 4, 12] \<and> list_all (list_all is_hex) [a, b, c, d, e]
    | _ \<Rightarrow> False)"

definition resolveTenant :: "'w env \<Rightarrow> string \<Rightarrow> string \<Rightarrow> string \<Rightarrow> login_page \<times> 'w world \<Rightarrow> login_page \<times> 'w world" where
  "resolveTenant E base default_tenant slug pw = (case pw of (p, w) \<Rightarrow>
     if slug = [] \<or> slug = default_tenant then
       (p\<lparr>lg_tenantError := [], lg_tenantResolved := False, lg_tenant := default_tenant\<rparr>, w)
     else if is_uuid slug then
       (p\<lparr>lg_tenantError := [], lg_tenantResolved := True, lg_tenant := slug\<rparr>, set_item ''ggid_tenant_id'' slug w)
     else (case fetch E (plain_get (base @ ''/api/v1/tenants/resolve?slug='' @ encodeURIComponent slug) []) w of
        (NetError, w1) \<Rightarrow> (p\<lparr>lg_tenantError := [], lg_tenantResolved := False\<rparr>, w1)
      | (Resp st body, w1) \<Rightarrow>
          if \<not> resp_ok st then (p\<lparr>lg_tenantError := ''Organization not found'', lg_tenantResolved := False\<rparr>, w1)
          else (case json_parse body of None \<Rightarrow> (p\<lparr>lg_tenantError := [], lg_tenantResolved := False\<rparr>, w1)
             | Some data \<Rightarrow>
                 if nullish data then (p\<lparr>lg_tenantError := [], lg_tenantResolved := False\<rparr>, w1)
                 else (let tid = resolved_id data in
                   if truthy tid then (p\<lparr>lg_tenantError := [], lg_tenantResolved := True, lg_tenant := js_to_string tid\<rparr>,
                       set_item ''ggid_tenant_id'' (js_to_string tid) w1)
                   else (p\<lparr>lg_tenantError := [], lg_tenantResolved := True\<rparr>, w1)))))"

definition change_password :: "string \<Rightarrow> login_page \<Rightarrow> login_page" where
  "change_password pw p = p\<lparr>lg_password := pw, lg_pwFeedback :=
     (if pw = [] then []
      else if length pw < 8 then ''Password is too short (min 8 characters)''
      else if \<not> list_ex (\<lambda>c. c \<in> set ''ABCDEFGHIJKLMNOPQRSTUVWXYZ'') pw \<or> \<not> list_ex is_digit pw
        then ''Add uppercase and numbers for stronger security''
      else [])\<rparr>"

definition change_slug :: "string \<Rightarrow> login_page \<Rightarrow> login_page" where
  "change_slug s p = p\<lparr>lg_slug := s, lg_tenantResolved := False, lg_tenantError := []\<rparr>"

definition change_totp :: "string \<Rightarrow> login_page \<Rightarrow> login_page" where
  "change_totp s p = p\<lparr>lg_totp := take 6 (filter is_digit s)\<rparr>"

definition mfa_enabled :: "login_page \<Rightarrow> bool" where
  "mfa_enabled p = (\<not> (lg_loading p \<or> (if \<not> lg_useBackup p then length (lg_totp p) \<noteq> 6 else trim (lg_backup p) = [])))"

definition toggle_backup :: "login_page \<Rightarrow> login_page" where
  "toggle_backup p = p\<lparr>lg_useBackup := \<not> lg_useBackup p, lg_error := []\<rparr>"

definition back_to_credentials :: "login_page \<Rightarrow> login_page" where
  "back_to_credentials p = p\<lparr>lg_step := Credentials, lg_error := [], lg_totp := []\<rparr>"

section \<open>The callback page\<close>

text \<open>\<open>frag\<close> and \<open>param\<close> read the parameters of the fragment and of the query.  The effect returns the error
  shown (empty: none), the effects and the world; \<^term>\<open>None\<close> is the exception of a stored flow that is
  not JSON, or is JSON \<open>null\<close>.\<close>

definition fragment_scopes :: "string \<Rightarrow> 'w world \<Rightarrow> 'w world" where
  "fragment_scopes accessToken w = (case jwt_payload (JStr accessToken) of None \<Rightarrow> w
     | Some pl \<Rightarrow> if nullish pl then w
         else (let w1 = (if truthy (js_opt_prop pl ''tenant_id'') then set_item ''ggid_tenant_id'' (js_to_string (js_opt_prop pl ''tenant_id'')) w else w);
                   w2 = (if truthy (js_opt_prop pl ''sub'') then set_item ''ggid_user_id'' (js_to_string (js_opt_prop pl ''sub'')) w1 else w1);
                   s = js_or (js_opt_prop pl ''scope'') (js_or (js_opt_prop pl ''scopes'') (js_or (js_opt_prop pl ''roles'') (JArr [JStr ''user'']))) in
           set_item ''ggid_user_scopes'' (json_stringify (if is_array s then s else JArr [s])) w2))"

definition after_login :: "string \<Rightarrow> 'w world \<Rightarrow> login_effect list \<times> 'w world" where
  "after_login dflt w = ([Replace (item_or (session_store w ''ggid_redirect_after_login'') dflt)],
     remove_session ''ggid_redirect_after_login'' w)"

definition callback_request :: "string \<Rightarrow> string \<Rightarrow> jsv \<Rightarrow> request" where
  "callback_request base code flow = form_post (base @ ''/oauth/token'') []
     [(''grant_type'', ''authorization_code''), (''code'', code), (''redirect_uri'', js_to_string (js_opt_prop flow ''redirect_uri'')),
      (''client_id'', js_to_string (js_opt_prop flow ''client_id'')),
      (''code_verifier'', js_to_string (js_opt_prop flow ''code_verifier''))]"

definition callback_exchange :: "'w env \<Rightarrow> string \<Rightarrow> string \<Rightarrow> jsv \<Rightarrow> 'w world \<Rightarrow> string \<times> login_effect list \<times> 'w world" where
  "callback_exchange E base code flow w =
     (let fail = (\<lambda>m w. (m, [], remove_session ''ggid_oauth_flow'' w)) in
      case fetch E (callback_request base code flow) w of
        (NetError, w1) \<Rightarrow> fail (net_message E) w1
      | (Resp st body, w1) \<Rightarrow> (case json_parse body of None \<Rightarrow> fail (syntax_message E) w1
          | Some data \<Rightarrow>
              if nullish data then fail (type_message E) w1
              else if \<not> resp_ok st then
                fail (js_to_string (js_or (js_opt_prop data ''error_description'') (js_or (js_opt_prop data ''error'') (JStr ''Token exchange failed'')))) w1
              else (case after_login ''/'' (remove_session ''ggid_oauth_flow'' (store_pair data w1)) of (es, w2) \<Rightarrow> ([], es, w2))))"

definition callback_effect ::
  "'w env \<Rightarrow> string \<Rightarrow> (string \<Rightarrow> string option) \<Rightarrow> (string \<Rightarrow> string option) \<Rightarrow> 'w world \<Rightarrow>
   (string \<times> login_effect list \<times> 'w world) option" where
  "callback_effect E base frag param w =
     (if has_window w \<and> present (frag ''access_token'') then
        (let at = the (frag ''access_token''); w1 = set_item ''ggid_access_token'' at w;
             w2 = (if present (frag ''refresh_token'') then set_item ''ggid_refresh_token'' (the (frag ''refresh_token'')) w1 else w1) in
         case after_login ''/dashboard'' (fragment_scopes at w2) of (es, w3) \<Rightarrow> Some ([], es, w3))
      else if \<not> present (param ''code'') then Some (''No authorization code received'', [], w)
      else if \<not> present (session_store w ''ggid_oauth_flow'') then
        Some (''Missing PKCE flow state. Please try logging in again.'', [], w)
      else (case json_parse (the (session_store w ''ggid_oauth_flow'')) of
          None \<Rightarrow> None
        | Some flow \<Rightarrow>
            if nullish flow then None
            else if present (param ''state'') \<and> truthy (js_opt_prop flow ''state'') \<and> js_opt_prop flow ''state'' \<noteq> JStr (the (param ''state''))
            then Some (''State mismatch - possible CSRF attack. Please try again.'', [], remove_session ''ggid_oauth_flow'' w)
            else Some (callback_exchange E base (the (param ''code'')) flow w)))"

section \<open>The passwordless component\<close>

record passwordless =
  pl_loading :: bool
  pl_identifier :: string
  pl_code :: string
  pl_sent :: bool
  pl_countdown :: int

record pl_props =
  pr_base :: string
  pr_tenant :: string
  pr_method :: string
  pr_origin :: string

text \<open>Hexadecimal of a 32-bit number, padded to two digits: \<open>b.toString(16).padStart(2, "0")\<close>.\<close>

fun hex_digits :: "nat \<Rightarrow> string" where
  "hex_digits n = (if n < 16 then [hex_char n] else hex_digits (n div 16) @ [hex_char (n mod 16)])"

declare hex_digits.simps [simp del]

definition pad2 :: "string \<Rightarrow> string" where
  "pad2 s = (if length s < 2 then CHR ''0'' # s else s)"

definition pl_verifier :: "32 word list \<Rightarrow> string" where
  "pl_verifier rv = concat (map (\<lambda>b. pad2 (hex_digits (unat b))) rv)"

definition pl_state :: "32 word list \<Rightarrow> string" where
  "pl_state rs = concat (map (\<lambda>b. show_nat (unat b)) rs)"

definition pl_challenge :: "(u8 list \<Rightarrow> u8 list) \<Rightarrow> string \<Rightarrow> string" where
  "pl_challenge sha256 verifier = strip_pad (replace_all (CHR ''/'') ''_'' (replace_all (CHR ''+'') ''-''
     (btoa (bin_of (sha256 (utf8_encode verifier))))))"

definition pl_redirect :: "pl_props \<Rightarrow> string" where
  "pl_redirect q = pr_origin q @ ''/auth/callback''"

definition pl_authorize_url :: "pl_props \<Rightarrow> string \<Rightarrow> string \<Rightarrow> string \<Rightarrow> string" where
  "pl_authorize_url q ticket challenge st = pr_base q @ ''/oauth/authorize?auth_ticket='' @ ticket @
     ''&client_id=gcid-console&redirect_uri='' @ encodeURIComponent (pl_redirect q) @
     ''&response_type=code&scope=openid+profile+email+offline_access&code_challenge='' @ challenge @
     ''&code_challenge_method=S256&state='' @ st"

text \<open>\<open>loc.match(/code=([^&]+)/)\<close>: the first place where \<open>code=\<close> is followed by something.\<close>

fun match_code :: "string \<Rightarrow> string" where
  "match_code [] = []"
| "match_code (c # cs) =
     (let v = takeWhile (\<lambda>x. x \<noteq> CHR ''&'') (drop 5 (c # cs)) in
      if prefix ''code='' (c # cs) \<and> v \<noteq> [] then v else match_code cs)"

definition pl_flow :: "pl_props \<Rightarrow> string \<Rightarrow> string \<Rightarrow> jsv" where
  "pl_flow q verifier st = JObj [(''code_verifier'', JStr verifier), (''redirect_uri'', JStr (pl_redirect q)),
     (''client_id'', JStr ''gcid-console''), (''state'', JStr st)]"

definition pl_token_request :: "pl_props \<Rightarrow> string \<Rightarrow> string \<Rightarrow> request" where
  "pl_token_request q code verifier = form_post (pr_base q @ ''/oauth/token'') [(''X-Tenant-ID'', pr_tenant q)]
     [(''grant_type'', ''authorization_code''), (''code'', code), (''client_id'', ''gcid-console''),
      (''redirect_uri'', pl_redirect q), (''code_verifier'', verifier)]"

text \<open>What the component calls back: \<open>onSuccess\<close>, \<open>onError\<close>, or it leaves the page.\<close>

datatype pl_outcome = PlSuccess jsv | PlError string | PlLeave string

text \<open>\<open>exchangeTicketForToken\<close>.  \<open>location\<close> is the \<open>Location\<close> header the browser shows of the answer to a request
  with manual redirect (empty: none).\<close>

definition exchangeTicketForToken ::
  "'w env \<Rightarrow> ('w \<Rightarrow> request \<Rightarrow> string) \<Rightarrow> (u8 list \<Rightarrow> u8 list) \<Rightarrow> 32 word list \<Rightarrow> 32 word list \<Rightarrow> pl_props \<Rightarrow> string \<Rightarrow>
   'w world \<Rightarrow> pl_outcome \<times> 'w world" where
  "exchangeTicketForToken E location sha256 rs rv q ticket w =
     (let st = pl_state rs; verifier = pl_verifier rv;
          u = pl_authorize_url q ticket (pl_challenge sha256 verifier) st;
          rq = plain_get u [(''X-Tenant-ID'', pr_tenant q)] in
      case fetch E rq w of (out, w1) \<Rightarrow>
        (let authCode = (case out of NetError \<Rightarrow> [] | Resp _ _ \<Rightarrow> match_code (location (outside w) rq)) in
         if authCode = [] then
           (PlLeave u, set_session ''ggid_oauth_flow'' (json_stringify (pl_flow q verifier st)) w1)
         else (case fetch E (pl_token_request q authCode verifier) w1 of
             (NetError, w2) \<Rightarrow> (PlError (net_message E), w2)
           | (Resp _ body, w2) \<Rightarrow> (case json_parse body of None \<Rightarrow> (PlError (syntax_message E), w2)
               | Some data \<Rightarrow>
                   if nullish data then (PlError (type_message E), w2)
                   else if \<not> truthy (js_opt_prop data ''access_token'') then (PlError ''Failed to obtain access token'', w2)
                   else (PlSuccess data, w2)))))"

definition otp_channel :: "pl_props \<Rightarrow> string" where
  "otp_channel q = (if pr_method q = ''sms_otp'' then ''sms'' else ''email'')"

definition error_or :: "jsv \<Rightarrow> string \<Rightarrow> string" where
  "error_or data d = js_to_string (js_or (js_opt_prop data ''error'') (JStr d))"

text \<open>\<open>handleSendOTP\<close>: the new state, the last text given to \<open>onError\<close> and the world.\<close>

definition handleSendOTP :: "'w env \<Rightarrow> pl_props \<Rightarrow> passwordless \<times> 'w world \<Rightarrow> passwordless \<times> string \<times> 'w world" where
  "handleSendOTP E q sw = (case sw of (s, w) \<Rightarrow>
     if pl_identifier s = [] then
       (s, ''Please enter your '' @ (if pr_method q = ''sms_otp'' then ''phone number'' else ''email''), w)
     else (case fetch E (json_post (pr_base q @ ''/api/v1/auth/otp/send'') [(''X-Tenant-ID'', pr_tenant q)]
            [(''identifier'', JStr (pl_identifier s)), (''channel'', JStr (otp_channel q))]) w of
        (NetError, w1) \<Rightarrow> (s\<lparr>pl_loading := False\<rparr>, net_message E, w1)
      | (Resp st body, w1) \<Rightarrow> (case json_parse body of
          None \<Rightarrow> (s\<lparr>pl_loading := False\<rparr>, syntax_message E, w1)
        | Some data \<Rightarrow>
            if resp_ok st then (s\<lparr>pl_loading := False, pl_sent := True, pl_countdown := 60\<rparr>, [], w1)
            else if nullish data then (s\<lparr>pl_loading := False\<rparr>, type_message E, w1)
            else (s\<lparr>pl_loading := False\<rparr>, error_or data ''Failed to send code'', w1))))"

text \<open>The timer of the countdown, which stops at zero; the button to send again needs it to be zero.\<close>

definition countdown_tick :: "passwordless \<Rightarrow> passwordless" where
  "countdown_tick s = s\<lparr>pl_countdown := (if 1 < pl_countdown s then pl_countdown s - 1 else 0)\<rparr>"

definition handleVerifyOTP ::
  "'w env \<Rightarrow> ('w \<Rightarrow> request \<Rightarrow> string) \<Rightarrow> (u8 list \<Rightarrow> u8 list) \<Rightarrow> 32 word list \<Rightarrow> 32 word list \<Rightarrow> pl_props \<Rightarrow>
   passwordless \<times> 'w world \<Rightarrow> passwordless \<times> pl_outcome \<times> 'w world" where
  "handleVerifyOTP E location sha256 rs rv q sw = (case sw of (s, w) \<Rightarrow>
     if pl_code s = [] then (s, PlError ''Please enter the code'', w)
     else (case fetch E (json_post (pr_base q @ ''/api/v1/auth/otp/verify'') [(''X-Tenant-ID'', pr_tenant q)]
            [(''identifier'', JStr (pl_identifier s)), (''code'', JStr (pl_code s)), (''channel'', JStr (otp_channel q))]) w of
        (NetError, w1) \<Rightarrow> (s\<lparr>pl_loading := False\<rparr>, PlError (net_message E), w1)
      | (Resp st body, w1) \<Rightarrow> (case json_parse body of
          None \<Rightarrow> (s\<lparr>pl_loading := False\<rparr>, PlError (syntax_message E), w1)
        | Some data \<Rightarrow>
            if nullish data then (s\<lparr>pl_loading := False\<rparr>, PlError (type_message E), w1)
            else if \<not> resp_ok st then (s\<lparr>pl_loading := False\<rparr>, PlError (error_or data ''Verification failed''), w1)
            else if \<not> truthy (js_opt_prop data ''auth_ticket'') then (s\<lparr>pl_loading := False\<rparr>, PlError ''No auth ticket'', w1)
            else (case exchangeTicketForToken E location sha256 rs rv q (js_to_string (js_opt_prop data ''auth_ticket'')) w1 of
               (r, w2) \<Rightarrow> (s\<lparr>pl_loading := False\<rparr>, r, w2)))))"

text \<open>Passkey login.  The browser's prompt is a parameter: it gets the options object of the server with the
  challenge (if it was a text) and the identifiers of the allowed credentials decoded, and is answered, answered with
  \<open>null\<close>, refused by the user (\<open>NotAllowedError\<close>) or rejects with another error.\<close>

record login_options =
  lo_pk :: jsv
  lo_challenge :: "u8 list option"
  lo_allow :: "(jsv \<times> u8 list) list option"

datatype pk_answer = PkGot assertion | PkNull | PkNotAllowed | PkFailed string

record 'w pk_platform =
  pp_get :: "'w \<Rightarrow> login_options \<Rightarrow> pk_answer \<times> 'w"
  pp_atob_message :: string

definition b64urlToBuf :: "string \<Rightarrow> u8 list option" where
  "b64urlToBuf s = map_option bytes_of (atob (replace_all (CHR ''_'') ''/'' (replace_all (CHR ''-'') ''+'' s)))"

fun chunk_binary :: "u8 list \<Rightarrow> string" where
  "chunk_binary bs = (if bs = [] then [] else bin_of (take 8192 bs) @ chunk_binary (drop 8192 bs))"

declare chunk_binary.simps [simp del]

definition bufToB64url :: "u8 list \<Rightarrow> string" where
  "bufToB64url bs = strip_pad (replace_all (CHR ''/'') ''_'' (replace_all (CHR ''+'') ''-'' (btoa (chunk_binary bs))))"

text \<open>The decoded list of allowed credentials: \<open>Inl\<close> is the message of the exception.\<close>

fun decode_allowed :: "'w env \<Rightarrow> 'w pk_platform \<Rightarrow> jsv list \<Rightarrow> string + (jsv \<times> u8 list) list" where
  "decode_allowed E P [] = Inr []"
| "decode_allowed E P (c # cs) = (case js_opt_prop c ''id'' of
      JStr s \<Rightarrow> (case b64urlToBuf s of None \<Rightarrow> Inl (pp_atob_message P)
        | Some b \<Rightarrow> (case decode_allowed E P cs of Inl m \<Rightarrow> Inl m | Inr r \<Rightarrow> Inr ((c, b) # r)))
    | _ \<Rightarrow> Inl (type_message E))"

definition login_options_of :: "'w env \<Rightarrow> 'w pk_platform \<Rightarrow> jsv \<Rightarrow> string + login_options" where
  "login_options_of E P pk =
     (let ch = js_opt_prop pk ''challenge''; al = js_opt_prop pk ''allowCredentials'';
          allowed = (\<lambda>c. if \<not> truthy al then Inr \<lparr>lo_pk = pk, lo_challenge = c, lo_allow = None\<rparr>
            else (case al of JArr cs \<Rightarrow> (case decode_allowed E P cs of Inl m \<Rightarrow> Inl m
                | Inr r \<Rightarrow> Inr \<lparr>lo_pk = pk, lo_challenge = c, lo_allow = Some r\<rparr>)
              | _ \<Rightarrow> Inl (type_message E))) in
      case ch of
        JStr s \<Rightarrow> if s = [] then allowed None
          else (case b64urlToBuf s of None \<Rightarrow> Inl (pp_atob_message P) | Some b \<Rightarrow> allowed (Some b))
      | _ \<Rightarrow> allowed None)"

text \<open>The message for a refused start; \<open>errMsg.includes\<close> exists on texts and on arrays.\<close>

definition begin_error :: "'w env \<Rightarrow> jsv \<Rightarrow> string" where
  "begin_error E errData =
     (if nullish errData then type_message E
      else (let e = js_opt_prop errData ''error'';
          errMsg = (case e of JStr _ \<Rightarrow> e
            | _ \<Rightarrow> js_or (js_opt_prop e ''message'') (js_or e (JStr ''Passkey login not available'')));
          no_passkey = ''No passkey registered. Please log in with password first, then register a passkey in Settings.'' in
        case errMsg of
          JStr s \<Rightarrow> if str_includes s ''no credentials'' \<or> str_includes s ''Found no credentials'' then no_passkey else s
        | JArr vs \<Rightarrow> if JStr ''no credentials'' \<in> set vs \<or> JStr ''Found no credentials'' \<in> set vs then no_passkey else js_to_string errMsg
        | _ \<Rightarrow> type_message E))"

definition assert_body :: "assertion \<Rightarrow> (string \<times> jsv) list" where
  "assert_body a =
     [(''id'', JStr (as_id a)), (''rawId'', JStr (bufToB64url (as_rawId a))), (''type'', JStr (as_type a)),
      (''response'', JObj
        [(''authenticatorData'', JStr (bufToB64url (as_authenticatorData a))),
         (''clientDataJSON'', JStr (bufToB64url (as_clientDataJSON a))),
         (''signature'', JStr (bufToB64url (as_signature a))),
         (''userHandle'', case as_userHandle a of None \<Rightarrow> JNull | Some u \<Rightarrow> JStr (bufToB64url u))])]"

definition pk_begin_request :: "pl_props \<Rightarrow> request" where
  "pk_begin_request q = \<lparr>url = pr_base q @ ''/api/v1/auth/webauthn/login/begin'', meth = ''POST'',
     hdrs = [(''Content-Type'', ''application/json''), (''X-Tenant-ID'', pr_tenant q)], rbody = None\<rparr>"

definition pk_finish_request :: "pl_props \<Rightarrow> assertion \<Rightarrow> request" where
  "pk_finish_request q a = json_post (pr_base q @ ''/api/v1/auth/webauthn/login/finish'') [(''X-Tenant-ID'', pr_tenant q)] (assert_body a)"

text \<open>The ceremony up to the ticket, and the whole handler; the component's loading flag is false again when it returns.\<close>

definition pk_ticket :: "'w env \<Rightarrow> 'w pk_platform \<Rightarrow> pl_props \<Rightarrow> 'w world \<Rightarrow> (string + string) \<times> 'w world" where
  "pk_ticket E P q w = (case fetch E (pk_begin_request q) w of
      (NetError, w1) \<Rightarrow> (Inl (net_message E), w1)
    | (Resp st body, w1) \<Rightarrow>
        if \<not> resp_ok st then
          (Inl (begin_error E (case json_parse body of None \<Rightarrow> JObj [] | Some d \<Rightarrow> d)), w1)
        else (case json_parse body of None \<Rightarrow> (Inl (syntax_message E), w1)
          | Some options \<Rightarrow>
              if nullish options then (Inl (type_message E), w1)
              else (case login_options_of E P (js_or (js_opt_prop options ''publicKey'') (js_or (js_opt_prop options ''response'') options)) of
                 Inl m \<Rightarrow> (Inl m, w1)
               | Inr lo \<Rightarrow> (case pp_get P (outside w1) lo of
                    (PkNotAllowed, o') \<Rightarrow> (Inl ''Passkey authentication cancelled'', w1\<lparr>outside := o'\<rparr>)
                  | (PkFailed m, o') \<Rightarrow> (Inl m, w1\<lparr>outside := o'\<rparr>)
                  | (PkNull, o') \<Rightarrow> (Inl ''No credential returned'', w1\<lparr>outside := o'\<rparr>)
                  | (PkGot a, o') \<Rightarrow> (case fetch E (pk_finish_request q a) (w1\<lparr>outside := o'\<rparr>) of
                      (NetError, w3) \<Rightarrow> (Inl (net_message E), w3)
                    | (Resp st2 body2, w3) \<Rightarrow> (case json_parse body2 of None \<Rightarrow> (Inl (syntax_message E), w3)
                        | Some result \<Rightarrow>
                            if nullish result then (Inl (type_message E), w3)
                            else if \<not> resp_ok st2 then (Inl (error_or result ''Passkey verification failed''), w3)
                            else if \<not> truthy (js_opt_prop result ''auth_ticket'') then (Inl ''No auth ticket'', w3)
                            else (Inr (js_to_string (js_opt_prop result ''auth_ticket'')), w3)))))))"

definition handlePasskey ::
  "'w env \<Rightarrow> 'w pk_platform \<Rightarrow> ('w \<Rightarrow> request \<Rightarrow> string) \<Rightarrow> (u8 list \<Rightarrow> u8 list) \<Rightarrow> 32 word list \<Rightarrow> 32 word list \<Rightarrow> pl_props \<Rightarrow>
   passwordless \<times> 'w world \<Rightarrow> passwordless \<times> pl_outcome \<times> 'w world" where
  "handlePasskey E P location sha256 rs rv q sw = (case sw of (s, w) \<Rightarrow>
     (case pk_ticket E P q w of
        (Inl m, w1) \<Rightarrow> (s\<lparr>pl_loading := False\<rparr>, PlError m, w1)
      | (Inr ticket, w1) \<Rightarrow> (case exchangeTicketForToken E location sha256 rs rv q ticket w1 of
           (r, w2) \<Rightarrow> (s\<lparr>pl_loading := False\<rparr>, r, w2))))"

section \<open>The setup wizard\<close>

record setup_page =
  se_step :: nat
  se_loading :: bool
  se_error :: string
  se_score :: int
  se_username :: string
  se_email :: string
  se_password :: string
  se_confirm :: string
  se_org :: string

text \<open>\<open>/^[^@]+@[^@]+\.[^@]+$/\<close>.\<close>

definition setup_email_ok :: "string \<Rightarrow> bool" where
  "setup_email_ok s = (case split_on (CHR ''@'') s of
      [a, b] \<Rightarrow> a \<noteq> [] \<and> list_ex (\<lambda>k. b ! k = CHR ''.'' \<and> 0 < k \<and> Suc k < length b) [0..<length b]
    | _ \<Rightarrow> False)"

definition bootstrap_request :: "setup_page \<Rightarrow> request" where
  "bootstrap_request p = json_post ''/api/v1/system/bootstrap'' []
     [(''admin_username'', JStr (se_username p)), (''admin_email'', JStr (se_email p)),
      (''admin_password'', JStr (se_password p)), (''tenant_name'', JStr (se_org p))]"

definition setup_scopes :: "jsv \<Rightarrow> 'w world \<Rightarrow> 'w world" where
  "setup_scopes tok w = (case jwt_payload tok of None \<Rightarrow> w
     | Some pl \<Rightarrow> if nullish pl then w
         else (let w1 = (if truthy (js_opt_prop pl ''tenant_id'') then set_item ''ggid_tenant_id'' (js_to_string (js_opt_prop pl ''tenant_id'')) w else w);
                   w2 = (if truthy (js_opt_prop pl ''sub'') then set_item ''ggid_user_id'' (js_to_string (js_opt_prop pl ''sub'')) w1 else w1) in
           set_item ''ggid_user_scopes'' (json_stringify (js_or (js_opt_prop pl ''scopes'') (JArr [JStr ''user'']))) w2))"

definition handleBootstrap :: "'w env \<Rightarrow> setup_page \<times> 'w world \<Rightarrow> setup_page \<times> 'w world" where
  "handleBootstrap E pw = (case pw of (p, w) \<Rightarrow>
     (case fetch E (bootstrap_request p) w of
        (NetError, w1) \<Rightarrow> (p\<lparr>se_error := net_message E, se_loading := False\<rparr>, w1)
      | (Resp st body, w1) \<Rightarrow> (case json_parse body of
          None \<Rightarrow> (p\<lparr>se_error := syntax_message E, se_loading := False\<rparr>, w1)
        | Some data \<Rightarrow>
            if nullish data then (p\<lparr>se_error := type_message E, se_loading := False\<rparr>, w1)
            else if \<not> resp_ok st then
              (p\<lparr>se_error := js_to_string (js_or (js_opt_prop (js_opt_prop data ''error'') ''message'') (js_or (js_opt_prop data ''error'')
                   (js_or (js_opt_prop data ''detail'') (JStr ''Setup failed'')))), se_loading := False\<rparr>, w1)
            else (p\<lparr>se_step := 4, se_error := [], se_loading := False\<rparr>,
              if truthy (js_opt_prop data ''access_token'')
              then setup_scopes (js_opt_prop data ''access_token'') (store_pair data w1) else w1))))"

definition setup_next :: "'w env \<Rightarrow> setup_page \<times> 'w world \<Rightarrow> setup_page \<times> 'w world" where
  "setup_next E pw = (case pw of (p0, w) \<Rightarrow>
     (let p = p0\<lparr>se_error := []\<rparr>; err = (\<lambda>m. (p\<lparr>se_error := m\<rparr>, w)) in
      if se_step p = 1 then
        (if trim (se_org p) = [] then err ''Organization name is required'' else (p\<lparr>se_step := 2\<rparr>, w))
      else if se_step p = 2 then
        (if trim (se_username p) = [] then err ''Username is required''
         else if trim (se_email p) = [] then err ''Email is required''
         else if \<not> setup_email_ok (se_email p) then err ''Invalid email format''
         else (p\<lparr>se_step := 3\<rparr>, w))
      else if se_step p = 3 then
        (if se_score p < 2 then err ''Password is too weak. Please use a stronger password.''
         else if se_password p \<noteq> se_confirm p then err ''Passwords do not match''
         else handleBootstrap E (p, w))
      else (p, w)))"

text \<open>The debounced strength check, for the password of the form at the time it runs.\<close>

definition strength_check :: "'w env \<Rightarrow> setup_page \<times> 'w world \<Rightarrow> setup_page \<times> 'w world" where
  "strength_check E pw = (case pw of (p, w) \<Rightarrow>
     if se_password p = [] then (p\<lparr>se_score := 0\<rparr>, w)
     else (case fetch E (json_post ''/api/v1/auth/password/strength'' [] [(''password'', JStr (se_password p))]) w of
        (NetError, w1) \<Rightarrow> (p, w1)
      | (Resp st body, w1) \<Rightarrow>
          (if \<not> resp_ok st then p
           else (case json_parse body of None \<Rightarrow> p
             | Some data \<Rightarrow> if nullish data then p
                 else p\<lparr>se_score := (case js_opt_prop data ''score'' of JNum n \<Rightarrow> n | _ \<Rightarrow> 0)\<rparr>), w1)))"

definition setup_back :: "setup_page \<Rightarrow> setup_page" where
  "setup_back p = p\<lparr>se_step := se_step p - 1\<rparr>"

section \<open>Lemmas\<close>

lemma store_pair_store:
  "local_store (store_pair data w) k =
     (if k = ''ggid_refresh_token'' \<and> truthy (js_opt_prop data ''refresh_token'') then Some (js_to_string (js_opt_prop data ''refresh_token''))
      else if k = ''ggid_access_token'' then Some (js_to_string (js_opt_prop data ''access_token'')) else local_store w k)"
  by (simp add: store_pair_def Let_def)

lemma store_pair_frame [simp]:
  "has_window (store_pair data w) = has_window w" "session_store (store_pair data w) = session_store w"
  "sent (store_pair data w) = sent w" "outside (store_pair data w) = outside w"
  by (simp_all add: store_pair_def Let_def)

lemma store_permissions_store [simp]:
  "k \<noteq> ''ggid_user_permissions'' \<Longrightarrow> local_store (store_permissions tok w) k = local_store w k"
  by (simp add: store_permissions_def split: option.splits)

lemma fragment_scopes_store:
  "local_store (fragment_scopes at w) ''ggid_access_token'' = local_store w ''ggid_access_token''"
  "has_window (fragment_scopes at w) = has_window w" "sent (fragment_scopes at w) = sent w"
  by (simp_all add: fragment_scopes_def Let_def split: option.splits)

lemma request_frame [simp]:
  "password_request base (p\<lparr>lg_loading := a, lg_error := b\<rparr>) = password_request base p"
  "mfa_request base (p\<lparr>lg_loading := a, lg_error := b\<rparr>) = mfa_request base p"
  by (simp_all add: password_request_def mfa_request_def grant_params_def)

lemma refused_loading: "\<not> lg_loading (credentials_refused st data p)" "lg_redirect (credentials_refused st data p) = lg_redirect p"
  by (simp_all add: credentials_refused_def login_failed_def)

lemma tick_iterate: "k \<le> nat (lg_rateLimit p) \<Longrightarrow>
    (rate_limit_tick ^^ k) p = p\<lparr>lg_rateLimit := (if k = 0 then lg_rateLimit p else lg_rateLimit p - int k)\<rparr>"
proof (induction k)
  case (Suc k)
  then show ?case by (auto simp: rate_limit_tick_def)
qed simp

lemma hex_digits_length: "16 ^ k \<le> n \<Longrightarrow> k < length (hex_digits n)"
proof (induction n arbitrary: k rule: hex_digits.induct)
  case (1 n)
  show ?case
  proof (cases k)
    case 0
    then show ?thesis by (subst hex_digits.simps) simp
  next
    case (Suc j)
    then have "16 * 16 ^ j \<le> n" using 1(2) by simp
    then have "16 \<le> n" "16 ^ j \<le> n div 16"
      by (metis le_trans mult_le_mono2 mult.right_neutral one_le_power one_le_numeral, simp add: less_eq_div_iff_mult_less_eq mult.commute)
    then show ?thesis using 1(1)[of j] Suc by (subst hex_digits.simps) simp
  qed
qed

lemma hex_digits_length_le: "n < 16 ^ Suc k \<Longrightarrow> length (hex_digits n) \<le> Suc k"
proof (induction n arbitrary: k rule: hex_digits.induct)
  case (1 n)
  show ?case
  proof (cases "n < 16")
    case True
    then show ?thesis by (subst hex_digits.simps) simp
  next
    case False
    then obtain j where k: "k = Suc j" using 1(2) by (cases k) auto
    then have "n div 16 < 16 ^ Suc j" using 1(2) by (simp add: div_less_iff_less_mult mult.commute)
    then show ?thesis using 1(1)[of j] False k by (subst hex_digits.simps) simp
  qed
qed

lemma verifier_length_bounds:
  assumes "\<And>b. b \<in> set rv \<Longrightarrow> 2 ^ 16 \<le> unat b"
  shows "5 * length rv \<le> length (pl_verifier rv) \<and> length (pl_verifier rv) \<le> 8 * length rv"
  using assms
proof (induction rv)
  case (Cons b rv)
  have "(16::nat) ^ 4 \<le> unat b" using Cons.prems[of b] by simp
  then have "4 < length (hex_digits (unat b))" by (rule hex_digits_length)
  moreover have "length (hex_digits (unat b)) \<le> 8"
    using hex_digits_length_le[of "unat b" 7] unsigned_less[of b] by simp
  ultimately show ?case using Cons by (auto simp: pl_verifier_def pad2_def)
qed (simp add: pl_verifier_def)

text \<open>The codec of the passkey login: working in chunks changes nothing, and the decoder, which adds no padding,
  inverts the encoder.\<close>

lemma chunk_binary_all: "chunk_binary bs = bin_of bs"
proof (induction bs rule: chunk_binary.induct)
  case (1 bs)
  have "bin_of (take 8192 bs) @ bin_of (drop 8192 bs) = bin_of bs"
    by (metis append_take_drop_id bin_of_def map_append)
  then show ?case using 1 by (subst chunk_binary.simps) (auto simp: bin_of_def)
qed

lemma bufToB64url_ix: "bufToB64url bs = map ((!) chars_url) (enc_ix bs)"
proof -
  have "map to_url (map ((!) chars_std) (enc_ix bs)) = map ((!) chars_url) (enc_ix bs)"
    using enc_ix_bound by (simp add: chars_translate)
  moreover have "map to_url (pad_of bs) = pad_of bs" by (simp add: pad_of_def to_url_def)
  ultimately have "bufToB64url bs = strip_pad (map ((!) chars_url) (enc_ix bs) @ pad_of bs)"
    by (simp add: bufToB64url_def chunk_binary_all replace_to_url btoa_bin_of del: map_map)
  also have "\<dots> = map ((!) chars_url) (enc_ix bs)"
    unfolding pad_of_def by (rule strip_pad_append) (use enc_ix_bound chars_no_pad in auto)
  finally show ?thesis .
qed

interpretation passkey_codec: byte_codec bufToB64url b64urlToBuf
proof
  fix bs
  have "map from_url (map ((!) chars_url) (enc_ix bs)) = map ((!) chars_std) (enc_ix bs)"
    using enc_ix_bound by (simp add: chars_translate)
  then show "b64urlToBuf (bufToB64url bs) = Some bs"
    by (simp add: b64urlToBuf_def bufToB64url_ix replace_from_url atob_unpadded del: map_map)
qed

text \<open>A login that is not reported as an error: the last two requests and their answers.\<close>

lemma exchange_ok:
  assumes "exchangeTicketForToken E location sha256 rs rv q ticket w = (r, w')" "\<And>m. r \<noteq> PlError m"
    and "u = pl_authorize_url q ticket (pl_challenge sha256 (pl_verifier rv)) (pl_state rs)" "rq = plain_get u [(''X-Tenant-ID'', pr_tenant q)]"
  shows "local_store w' = local_store w \<and>
    (r = PlLeave u \<and> sent w' = sent w @ [rq] \<and>
       session_store w' ''ggid_oauth_flow'' = Some (json_stringify (pl_flow q (pl_verifier rv) (pl_state rs))) \<or>
     (\<exists>data st st' body body' w2. fetch E rq w = (Resp st body, w2) \<and>
        (let token_rq = pl_token_request q (match_code (location (outside w) rq)) (pl_verifier rv) in
         fst (fetch E token_rq w2) = Resp st' body' \<and> sent w' = sent w @ [rq, token_rq]) \<and>
        match_code (location (outside w) rq) \<noteq> [] \<and> json_parse body' = Some data \<and> truthy (js_opt_prop data ''access_token'') \<and> r = PlSuccess data))"
proof -
  obtain out w2 where f: "fetch E rq w = (out, w2)" by fastforce
  note fr = fetch_frame[OF f]
  note ex = assms(1)[unfolded exchangeTicketForToken_def Let_def, folded assms(3), folded assms(4), unfolded f, simplified]
  let ?t = "pl_token_request q (match_code (location (outside w) rq)) (pl_verifier rv)"
  obtain out' w3 where g: "fetch E ?t w2 = (out', w3)" by fastforce
  note fr' = fetch_frame[OF g]
  show ?thesis
  proof (cases "out = NetError \<or> match_code (location (outside w) rq) = []")
    case True
    then have "r = PlLeave u" "w' = set_session ''ggid_oauth_flow'' (json_stringify (pl_flow q (pl_verifier rv) (pl_state rs))) w2"
      using ex by (auto split: outcome.splits)
    then show ?thesis using fr by (simp add: set_session_def)
  next
    case False
    then obtain st body where o: "out = Resp st body" "match_code (location (outside w) rq) \<noteq> []" by (cases out) auto
    then obtain st' body' data where d: "out' = Resp st' body'" "json_parse body' = Some data"
      using ex g assms(2) by (auto split: outcome.splits option.splits)
    then have "truthy (js_opt_prop data ''access_token'')" "r = PlSuccess data" "w' = w3"
      using ex g o assms(2) by (auto split: if_splits)
    then show ?thesis using f g o d fr fr' by auto
  qed
qed

text \<open>The bytes of a field of a JSON value.\<close>

definition read_bytes :: "jsv \<Rightarrow> string \<Rightarrow> u8 list option" where
  "read_bytes v k = (case js_opt_prop v k of JStr s \<Rightarrow> b64urlToBuf s | _ \<Rightarrow> None)"

lemma finish_read:
  "\<exists>v. Option.bind (rbody (pk_finish_request q a)) json_parse = Some v \<and> js_opt_prop v ''id'' = JStr (as_id a) \<and>
     read_bytes v ''rawId'' = Some (as_rawId a) \<and> (let resp = js_opt_prop v ''response'' in
     read_bytes resp ''authenticatorData'' = Some (as_authenticatorData a) \<and> read_bytes resp ''clientDataJSON'' = Some (as_clientDataJSON a) \<and>
     read_bytes resp ''signature'' = Some (as_signature a) \<and> read_bytes resp ''userHandle'' = as_userHandle a)"
proof -
  have "json_clean (JObj (assert_body a))" by (simp add: assert_body_def split: option.split)
  then have "Option.bind (rbody (pk_finish_request q a)) json_parse = Some (JObj (assert_body a))"
    by (simp add: pk_finish_request_def json_post_def json_stringify_clean)
  then show ?thesis
    by (simp add: assert_body_def read_bytes_def js_opt_prop_def passkey_codec.dec_enc split: option.split)
qed

text \<open>The part of the answer to the first request that is handed to the authenticator.\<close>

definition offered_key :: "jsv \<Rightarrow> jsv" where
  "offered_key options = js_or (js_opt_prop options ''publicKey'') (js_or (js_opt_prop options ''response'') options)"

lemma login_options_challenge:
  assumes "login_options_of E P pk = Inr lo" "js_opt_prop pk ''challenge'' = JStr (bufToB64url bs)" "bs \<noteq> []"
  shows "lo_challenge lo = Some bs"
proof -
  have "b64urlToBuf [] = Some []" by code_simp
  then have "bufToB64url bs \<noteq> []" using passkey_codec.dec_enc[of bs] assms(3) by auto
  then show ?thesis using assms(1,2)
    by (auto simp: login_options_of_def Let_def passkey_codec.dec_enc split: if_splits sum.splits jsv.splits)
qed

lemma pk_ticket_got:
  assumes "pk_ticket E P q w = (Inr ticket, w')"
  obtains st body options lo w1 a o2 st2 body2 result where
    "fetch E (pk_begin_request q) w = (Resp st body, w1)" "resp_ok st" "json_parse body = Some options"
    "login_options_of E P (offered_key options) = Inr lo" "pp_get P (outside w1) lo = (PkGot a, o2)"
    "fetch E (pk_finish_request q a) (w1\<lparr>outside := o2\<rparr>) = (Resp st2 body2, w')" "resp_ok st2" "json_parse body2 = Some result"
    "truthy (js_opt_prop result ''auth_ticket'')" "ticket = js_to_string (js_opt_prop result ''auth_ticket'')"
    "local_store w' = local_store w" "sent w' = sent w @ [pk_begin_request q, pk_finish_request q a]"
proof -
  obtain st body w1 where f: "fetch E (pk_begin_request q) w = (Resp st body, w1)"
    using assms by (auto simp: pk_ticket_def split: prod.splits outcome.splits)
  then obtain options where op: "resp_ok st" "json_parse body = Some options" "\<not> nullish options"
    using assms by (auto simp: pk_ticket_def split: if_splits option.splits)
  then obtain lo where lo: "login_options_of E P (offered_key options) = Inr lo"
    using assms f by (auto simp: pk_ticket_def offered_key_def split: sum.splits)
  then obtain a o2 where got: "pp_get P (outside w1) lo = (PkGot a, o2)"
    using assms f op by (auto simp: pk_ticket_def offered_key_def split: prod.splits pk_answer.splits)
  obtain out w3 where g: "fetch E (pk_finish_request q a) (w1\<lparr>outside := o2\<rparr>) = (out, w3)" by fastforce
  note run = assms[unfolded pk_ticket_def, folded offered_key_def, unfolded f, simplified, unfolded op(2), simplified, unfolded lo, simplified,
      unfolded got, simplified, unfolded g, simplified]
  obtain st2 body2 result where ans: "out = Resp st2 body2" "json_parse body2 = Some result"
    using run op lo got g by (auto split: outcome.splits option.splits if_splits)
  then have "resp_ok st2" "truthy (js_opt_prop result ''auth_ticket'')" "ticket = js_to_string (js_opt_prop result ''auth_ticket'')" "w' = w3"
    using run op lo got g by (auto split: if_splits)
  then show thesis using that[OF f op(1,2) lo got] g ans fetch_frame[OF f] fetch_frame[OF g] by simp
qed

section \<open>Properties\<close>

text \<open>C8. A session is stored only when the token endpoint grants one: the password form and the form of the
  second factor either leave \<open>localStorage\<close> as it is, navigate nowhere and end loading, or the
  request was answered with success and the token of the answer is stored; the page then goes to
  the address of the parameter \<open>redirect_to\<close>, whatever it is.\<close>

theorem login_stores_granted:
  assumes "handleCredentials E base (p, w) = (p1, es1, w1)" "handleMfa E base (p, w) = (p2, es2, w2)"
  shows "((es1 = [] \<and> local_store w1 = local_store w \<and> \<not> lg_loading p1) \<or>
      (\<exists>st body data. fst (fetch E (password_request base p) w) = Resp st body \<and> resp_ok st \<and> json_parse body = Some data \<and>
        es1 = [SyncSignals, Replace (lg_redirect p)] \<and> local_store w1 ''ggid_tenant_id'' = Some (lg_tenant p) \<and>
        local_store w1 ''ggid_access_token'' = Some (js_to_string (js_opt_prop data ''access_token'')))) \<and>
    ((es2 = [] \<and> local_store w2 = local_store w \<and> \<not> lg_loading p2) \<or>
      (\<exists>st body data. fst (fetch E (mfa_request base p) w) = Resp st body \<and> resp_ok st \<and> json_parse body = Some data \<and>
        es2 = [Replace (lg_redirect p)] \<and>
        local_store w2 ''ggid_access_token'' = Some (js_to_string (js_opt_prop data ''access_token''))))"
proof (rule conjI, goal_cases)
  case 1
  show ?case using assms(1) fetch_frame(2)[of E "password_request base p" w]
    by (auto simp: handleCredentials_def Let_def login_failed_def refused_loading store_pair_store
        split: prod.splits outcome.splits option.splits if_splits)
next
  case 2
  show ?case using assms(2) fetch_frame(2)[of E "mfa_request base p" w]
    by (auto simp: handleMfa_def Let_def login_failed_def store_pair_store
        split: prod.splits outcome.splits option.splits if_splits)
qed

definition demo_login :: login_page where
  "demo_login = (login_init (\<lambda>_. None) ''localhost'' ''t'')\<lparr>lg_username := ''ann'', lg_password := ''secret''\<rparr>"

definition granted :: string where
  "granted = json_stringify (JObj [(''access_token'', JStr ''tok'')])"

lemma granted_parse: "json_parse granted = Some (JObj [(''access_token'', JStr ''tok'')])"
  by (simp add: granted_def json_stringify_clean)

theorem login_stores_granted_witness:
  "fst (snd (handleCredentials (always (Resp 200 granted)) ''b'' (demo_login, blank_world))) = [SyncSignals, Replace ''/''] \<and>
   local_store (snd (snd (handleCredentials (always (Resp 200 granted)) ''b'' (demo_login, blank_world)))) ''ggid_access_token'' = Some ''tok''"
proof -
  let ?c = "handleCredentials (always (Resp 200 granted)) ''b'' (demo_login, blank_world)"
  let ?m = "handleMfa (always (Resp 200 granted)) ''b'' (demo_login, blank_world)"
  have rd: "lg_redirect demo_login = ''/''" by (simp add: demo_login_def login_init_def item_or_def)
  have es: "fst (snd ?c) \<noteq> []"
    by (simp add: handleCredentials_def fetch_def always_def granted_parse resp_ok_def Let_def)
  have at: "fst (fetch (always (Resp 200 granted)) rq blank_world) = Resp st body \<Longrightarrow> body = granted" for rq st body
    by (simp add: fetch_def always_def)
  show ?thesis using login_stores_granted[of "always (Resp 200 granted)" "''b''" demo_login blank_world "fst ?c" "fst (snd ?c)" "snd (snd ?c)"
      "fst ?m" "fst (snd ?m)" "snd (snd ?m)"] es rd by (auto simp: granted_parse dest!: at)
qed

text \<open>C9. The callback page does not insist on the \<open>state\<close> parameter: a callback whose state differs from the
  stored one is refused, without a request, and ends the flow; but a callback without a state
  exchanges its code all the same, although \<open>validateCallback\<close> of the PKCE module, which the page does
  not use, refuses it.\<close>

theorem callback_state_optional:
  assumes "\<not> present (frag ''access_token'')" "param ''code'' = Some code" "code \<noteq> []"
    and "session_store w ''ggid_oauth_flow'' = Some raw" "raw \<noteq> []" "json_parse raw = Some flow"
    and "js_opt_prop flow ''state'' = JStr s" "s \<noteq> []"
  shows "callback_effect E base frag param w =
      (if present (param ''state'') \<and> param ''state'' \<noteq> Some s
       then Some (''State mismatch - possible CSRF attack. Please try again.'', [], remove_session ''ggid_oauth_flow'' w)
       else Some (callback_exchange E base code flow w)) \<and>
    validateCallback [] code w = Inl (ExnError msg_mismatch)"
proof -
  have nn: "\<not> nullish flow" using assms(7) by (cases flow) auto
  then have fs: "js_prop flow ''state'' = Some (JStr s)"
    using assms(7) js_prop_None[of flow "''state''"] js_prop_Some[of flow "''state''"] by (cases "js_prop flow ''state''") auto
  have "validateCallback [] code w = Inl (ExnError msg_mismatch)"
    using assms(4-6,8) fs by (simp add: validateCallback_def present_def)
  moreover have "present (Some raw)" "present (Some code)" using assms(3,5) by (simp_all add: present_def)
  then have "callback_effect E base frag param w =
      (if present (param ''state'') \<and> JStr s \<noteq> JStr (the (param ''state''))
       then Some (''State mismatch - possible CSRF attack. Please try again.'', [], remove_session ''ggid_oauth_flow'' w)
       else Some (callback_exchange E base code flow w))"
    using assms(1,2,4,6-8) nn by (simp add: callback_effect_def)
  moreover have "present (param ''state'') \<and> JStr s \<noteq> JStr (the (param ''state'')) \<longleftrightarrow>
      present (param ''state'') \<and> param ''state'' \<noteq> Some s"
    by (cases "param ''state''") (auto simp: present_def)
  ultimately show ?thesis by simp
qed

theorem callback_state_optional_witness:
  "let flow = JObj [(''state'', JStr ''s''), (''redirect_uri'', JStr ''r''), (''client_id'', JStr ''c''), (''code_verifier'', JStr ''v'')];
       w = set_session ''ggid_oauth_flow'' (json_stringify flow) blank_world; E = always NetError in
   callback_effect E ''b'' (\<lambda>_. None) (\<lambda>k. if k = ''code'' then Some ''x'' else None) w = Some (callback_exchange E ''b'' ''x'' flow w) \<and>
   sent (snd (snd (callback_exchange E ''b'' ''x'' flow w))) \<noteq> []"
proof -
  let ?flow = "JObj [(''state'', JStr ''s''), (''redirect_uri'', JStr ''r''), (''client_id'', JStr ''c''), (''code_verifier'', JStr ''v'')]"
  have "json_parse (json_stringify ?flow) = Some ?flow" by (simp add: json_stringify_clean)
  moreover have "json_stringify ?flow \<noteq> []" by (simp add: json_stringify_def)
  ultimately show ?thesis
    using callback_state_optional[of "\<lambda>_. None" "\<lambda>k. if k = ''code'' then Some ''x'' else None" "''x''"
      "set_session ''ggid_oauth_flow'' (json_stringify ?flow) blank_world" "json_stringify ?flow" ?flow "''s''" "always NetError" "''b''"]
    by (simp add: Let_def present_def callback_exchange_def fetch_def always_def blank_world_def remove_session_def)
qed

text \<open>A link that carries an access token in its fragment sets the session: without any request, without a flow
  having been started and whatever the session was before, the callback page stores that token.\<close>

lemma callback_fragment_session:
  assumes "has_window w" "frag ''access_token'' = Some at" "at \<noteq> []"
  shows "\<exists>es w'. callback_effect E base frag param w = Some ([], es, w') \<and> sent w' = sent w \<and> getAuthToken w' = Some at"
  using assms by (auto simp: callback_effect_def present_def Let_def after_login_def getAuthToken_def fragment_scopes_store
      remove_session_def split: prod.splits)

lemma callback_fragment_session_example:
  "\<exists>es w'. callback_effect (always NetError) ''b'' (\<lambda>k. if k = ''access_token'' then Some ''evil'' else None) (\<lambda>_. None)
      (set_item ''ggid_access_token'' ''mine'' blank_world) = Some ([], es, w') \<and> sent w' = sent (set_item ''ggid_access_token'' ''mine'' blank_world) \<and>
      getAuthToken w' = Some ''evil''"
  by (rule callback_fragment_session) (simp_all add: blank_world_def)

text \<open>After a login by passkey or one-time code, and after the exchange of a code on the callback page, the guard still
  decides by the scopes that were stored before: the new token is stored, its scopes are not.\<close>

lemma passwordless_keeps_scopes:
  assumes "has_window w" "callback_exchange E base code flow w = (m, es, w')"
  shows "route_check path (snd (passwordless_success p data w)) = route_check path w \<and>
    getAuthToken (snd (passwordless_success p data w)) = Some (js_to_string (js_opt_prop data ''access_token'')) \<and>
    route_check path w' = route_check path w"
proof -
  have frame: "local_store (snd (fetch E rq w)) = local_store w" for rq
    using fetch_frame(2)[of E rq w] by (cases "fetch E rq w") simp
  have "local_store w' ''ggid_user_scopes'' = local_store w ''ggid_user_scopes''"
    using assms(2) frame[of "callback_request base code flow"]
    by (auto simp: callback_exchange_def Let_def after_login_def store_pair_store split: prod.splits outcome.splits option.splits if_splits)
  then show ?thesis using assms(1)
    by (simp add: route_check_def guard_scopes_def passwordless_success_def store_pair_store getAuthToken_def)
qed

lemma passwordless_keeps_scopes_example:
  "let w = set_item ''ggid_user_scopes'' (json_stringify (JArr [JStr ''tenant:admin''])) blank_world in
   route_check ''/users'' (snd (passwordless_success demo_login (JObj [(''access_token'', JStr ''a.b.c'')]) w)) = route_check ''/users'' w"
proof -
  let ?w = "set_item ''ggid_user_scopes'' (json_stringify (JArr [JStr ''tenant:admin''])) blank_world"
  obtain m es w' where c: "callback_exchange (always NetError) [] [] JNull ?w = (m, es, w')" by (metis prod_cases3)
  show ?thesis unfolding Let_def
    by (rule passwordless_keeps_scopes[OF _ c, THEN conjunct1]) (simp add: blank_world_def)
qed

text \<open>Where the passwordless component leaves for the authorization endpoint, the flow it has stored is the
  one the callback page needs: the page accepts the state of the address for every code and sends the
  verifier whose SHA-256 challenge is in the address.\<close>

lemma passwordless_callback_completes:
  assumes "exchangeTicketForToken E location sha256 rs rv q ticket w = (PlLeave u, w1)" "code \<noteq> []"
  shows "u = pl_authorize_url q ticket (pl_challenge sha256 (pl_verifier rv)) (pl_state rs) \<and>
    callback_effect E' base (\<lambda>_. None) (\<lambda>k. if k = ''code'' then Some code else if k = ''state'' then Some (pl_state rs) else None) w1 =
      Some (callback_exchange E' base code (pl_flow q (pl_verifier rv) (pl_state rs)) w1) \<and>
    rbody (callback_request base code (pl_flow q (pl_verifier rv) (pl_state rs))) =
      Some (search_params [(''grant_type'', ''authorization_code''), (''code'', code), (''redirect_uri'', pl_redirect q),
        (''client_id'', ''gcid-console''), (''code_verifier'', pl_verifier rv)])"
proof -
  let ?flow = "pl_flow q (pl_verifier rv) (pl_state rs)"
  have u: "u = pl_authorize_url q ticket (pl_challenge sha256 (pl_verifier rv)) (pl_state rs)"
    and st: "session_store w1 ''ggid_oauth_flow'' = Some (json_stringify ?flow)"
    using assms(1) by (auto simp: exchangeTicketForToken_def Let_def split: prod.splits outcome.splits option.splits if_splits)
  have "json_parse (json_stringify ?flow) = Some ?flow" "json_stringify ?flow \<noteq> []"
    by (simp_all add: pl_flow_def json_stringify_clean) (simp add: json_stringify_def)
  then show ?thesis using u st assms(2)
    by (simp add: callback_effect_def present_def pl_flow_def callback_request_def form_post_def)
qed

lemma passwordless_callback_completes_example:
  "let q = \<lparr>pr_base = ''b'', pr_tenant = ''t'', pr_method = ''passkey'', pr_origin = ''o''\<rparr>;
       r = exchangeTicketForToken (always NetError) (\<lambda>_ _. []) (\<lambda>b. b) [7] [300] q ''k'' blank_world in
   fst r = PlLeave (pl_authorize_url q ''k'' (pl_challenge (\<lambda>b. b) (pl_verifier [300])) (pl_state [7]))"
proof -
  let ?q = "\<lparr>pr_base = ''b'', pr_tenant = ''t'', pr_method = ''passkey'', pr_origin = ''o''\<rparr>"
  obtain u w1 where e: "exchangeTicketForToken (always NetError) (\<lambda>_ _. []) (\<lambda>b. b) [7] [300] ?q ''k'' blank_world = (PlLeave u, w1)"
    by (simp add: exchangeTicketForToken_def Let_def fetch_def always_def)
  show ?thesis using passwordless_callback_completes[OF e, of "''c''"] e by (simp add: Let_def)
qed

text \<open>The verifier of the passwordless component is too long: made of 32 random words in hexadecimal, it has at least 160
  characters as soon as every word has five digits, while the PKCE module's own verifier of 32 random bytes has
  43, the length the standard and the token endpoint of the repository ask for being 43 to 128.\<close>

lemma passwordless_verifier_length:
  assumes "length rv = 32" "\<forall>b \<in> set rv. 2 ^ 16 \<le> unat b" "length rb = 32"
  shows "160 \<le> length (pl_verifier rv) \<and> length (pl_verifier rv) \<le> 256 \<and> length (generateCodeVerifier rb) = 43"
  using verifier_length_bounds[of rv] assms by (simp add: generateCodeVerifier_def length_base64UrlEncode)

lemma passwordless_verifier_length_example:
  "160 \<le> length (pl_verifier (replicate 32 65536)) \<and> length (pl_verifier (replicate 32 65536)) \<le> 256 \<and>
   length (generateCodeVerifier (replicate 32 7)) = 43"
  by (rule passwordless_verifier_length) simp_all

text \<open>A rate limit expires: the form is blocked for exactly as many ticks of the timer as the server asked
  for and can be submitted afterwards.\<close>

lemma rate_limit_expires:
  assumes "\<not> lg_loading p" "n = nat (lg_rateLimit p)"
  shows "submit_enabled ((rate_limit_tick ^^ n) p) \<and> (\<forall>k < n. \<not> submit_enabled ((rate_limit_tick ^^ k) p))"
  using assms tick_iterate[of _ p] by (auto simp: submit_enabled_def)

lemma rate_limit_expires_example:
  "submit_enabled ((rate_limit_tick ^^ 3) (demo_login\<lparr>lg_rateLimit := 3\<rparr>)) \<and>
   (\<forall>k < 3. \<not> submit_enabled ((rate_limit_tick ^^ k) (demo_login\<lparr>lg_rateLimit := 3\<rparr>)))"
  by (rule rate_limit_expires) (simp_all add: demo_login_def login_init_def)

text \<open>The setup wizard asks the server to create the first administrator only from its third step, with a
  password that was rated at least two and that equals its confirmation, and reaches its last step if and only if the server agrees.\<close>

lemma setup_bootstrap_guarded:
  assumes "setup_next E (p, w) = (p', w')" "sent w' \<noteq> sent w"
  shows "se_step p = 3 \<and> 2 \<le> se_score p \<and> se_password p = se_confirm p \<and> sent w' = sent w @ [bootstrap_request p] \<and>
    (se_step p' = 4 \<longleftrightarrow> (\<exists>st body data. fst (fetch E (bootstrap_request p) w) = Resp st body \<and> resp_ok st \<and>
       json_parse body = Some data \<and> \<not> nullish data))"
proof -
  have frame: "bootstrap_request (p\<lparr>se_error := m\<rparr>) = bootstrap_request p" for m by (simp add: bootstrap_request_def)
  have g: "se_step p = 3" "2 \<le> se_score p" "se_password p = se_confirm p" "handleBootstrap E (p\<lparr>se_error := []\<rparr>, w) = (p', w')"
    using assms by (auto simp: setup_next_def Let_def split: if_splits)
  have sent: "sent (setup_scopes tok w1) = sent w1" for tok and w1 :: "'a world"
    by (simp add: setup_scopes_def Let_def split: option.splits)
  obtain out w1 where f: "fetch E (bootstrap_request p) w = (out, w1)" by fastforce
  then have "sent w' = sent w @ [bootstrap_request p]" using g(4) fetch_frame(5)[OF f]
    by (auto simp: handleBootstrap_def frame sent split: outcome.splits option.splits if_splits)
  moreover have "se_step p' = 4 \<longleftrightarrow> (\<exists>st body data. out = Resp st body \<and> resp_ok st \<and> json_parse body = Some data \<and> \<not> nullish data)"
    using g f by (auto simp: handleBootstrap_def frame split: outcome.splits option.splits if_splits)
  ultimately show ?thesis using g f by simp
qed

lemma setup_bootstrap_guarded_example:
  "let p = \<lparr>se_step = 3, se_loading = False, se_error = [], se_score = 3, se_username = ''a'', se_email = ''a@b.c'',
       se_password = ''x'', se_confirm = ''x'', se_org = ''o''\<rparr>; r = setup_next (always NetError) (p, blank_world) in
   sent (snd r) = sent blank_world @ [bootstrap_request p]"
proof -
  let ?p = "\<lparr>se_step = 3, se_loading = False, se_error = [], se_score = 3, se_username = ''a'', se_email = ''a@b.c'',
       se_password = ''x'', se_confirm = ''x'', se_org = ''o''\<rparr>"
  let ?r = "setup_next (always NetError) (?p, blank_world)"
  have "sent (snd ?r) \<noteq> sent blank_world"
    by (simp add: setup_next_def handleBootstrap_def fetch_def always_def)
  then show ?thesis using setup_bootstrap_guarded[of "always NetError" ?p blank_world "fst ?r" "snd ?r"] by (simp add: Let_def)
qed

text \<open>C10. A passkey login that does not end with an error message has run the whole ceremony.  The server accepted the start and its answer was
  handed to the authenticator (with the challenge the server encoded), which gave an assertion; the finish request carries this assertion, whose parts can
  be read back byte for byte, and was accepted too, with a ticket; the authorization request is for this ticket.  Then either a
  code came back, the fourth request exchanges it with the verifier of the challenge, and what is reported is the answer to it, with a
  token; or no code came back, and the page is left for the authorization address, with the verifier and the state stored for the
  callback.  \<open>localStorage\<close> is untouched until the page's \<open>onSuccess\<close>.\<close>

theorem passkey_login_ceremony:
  assumes "handlePasskey E P location sha256 rs rv q (s, w) = (s', r, w')" "\<And>m. r \<noteq> PlError m"
  shows "\<exists>st body options lo w1 a o2 st2 body2 result w3 ticket rq v.
    fetch E (pk_begin_request q) w = (Resp st body, w1) \<and> resp_ok st \<and> json_parse body = Some options \<and>
    login_options_of E P (offered_key options) = Inr lo \<and> pp_get P (outside w1) lo = (PkGot a, o2) \<and>
    (\<forall>bs. js_opt_prop (offered_key options) ''challenge'' = JStr (bufToB64url bs) \<and> bs \<noteq> [] \<longrightarrow> lo_challenge lo = Some bs) \<and>
    fetch E (pk_finish_request q a) (w1\<lparr>outside := o2\<rparr>) = (Resp st2 body2, w3) \<and> resp_ok st2 \<and> json_parse body2 = Some result \<and>
    truthy (js_opt_prop result ''auth_ticket'') \<and> ticket = js_to_string (js_opt_prop result ''auth_ticket'') \<and>
    Option.bind (rbody (pk_finish_request q a)) json_parse = Some v \<and> js_opt_prop v ''id'' = JStr (as_id a) \<and>
    read_bytes v ''rawId'' = Some (as_rawId a) \<and> (let resp = js_opt_prop v ''response'' in
    read_bytes resp ''authenticatorData'' = Some (as_authenticatorData a) \<and> read_bytes resp ''clientDataJSON'' = Some (as_clientDataJSON a) \<and>
    read_bytes resp ''signature'' = Some (as_signature a) \<and> read_bytes resp ''userHandle'' = as_userHandle a) \<and>
    rq = plain_get (pl_authorize_url q ticket (pl_challenge sha256 (pl_verifier rv)) (pl_state rs)) [(''X-Tenant-ID'', pr_tenant q)] \<and>
    local_store w' = local_store w \<and>
    (r = PlLeave (url rq) \<and> sent w' = sent w @ [pk_begin_request q, pk_finish_request q a, rq] \<and>
       session_store w' ''ggid_oauth_flow'' = Some (json_stringify (pl_flow q (pl_verifier rv) (pl_state rs))) \<or>
     (\<exists>data st4 body4 w4. snd (fetch E rq w3) = w4 \<and> match_code (location (outside w3) rq) \<noteq> [] \<and>
        (let token_rq = pl_token_request q (match_code (location (outside w3) rq)) (pl_verifier rv) in
         fst (fetch E token_rq w4) = Resp st4 body4 \<and> sent w' = sent w @ [pk_begin_request q, pk_finish_request q a, rq, token_rq]) \<and>
        json_parse body4 = Some data \<and> truthy (js_opt_prop data ''access_token'') \<and> r = PlSuccess data))"
proof -
  obtain ticket w3 where t: "pk_ticket E P q w = (Inr ticket, w3)"
    and ex: "exchangeTicketForToken E location sha256 rs rv q ticket w3 = (r, w')"
    using assms by (auto simp: handlePasskey_def split: prod.splits sum.splits)
  from t show ?thesis
  proof (rule pk_ticket_got)
    fix st body options lo w1 a o2 st2 body2 result
    assume 1: "fetch E (pk_begin_request q) w = (Resp st body, w1)" "resp_ok st" "json_parse body = Some options"
      "login_options_of E P (offered_key options) = Inr lo" "pp_get P (outside w1) lo = (PkGot a, o2)"
      and 2: "fetch E (pk_finish_request q a) (w1\<lparr>outside := o2\<rparr>) = (Resp st2 body2, w3)" "resp_ok st2" "json_parse body2 = Some result"
      "truthy (js_opt_prop result ''auth_ticket'')" "ticket = js_to_string (js_opt_prop result ''auth_ticket'')"
      and 3: "local_store w3 = local_store w" "sent w3 = sent w @ [pk_begin_request q, pk_finish_request q a]"
    define u where "u = pl_authorize_url q ticket (pl_challenge sha256 (pl_verifier rv)) (pl_state rs)"
    define rq where "rq = plain_get u [(''X-Tenant-ID'', pr_tenant q)]"
    have u: "url rq = u" by (simp add: rq_def plain_get_def)
    note e = exchange_ok[OF ex assms(2) u_def rq_def]
    have c: "\<forall>bs. js_opt_prop (offered_key options) ''challenge'' = JStr (bufToB64url bs) \<and> bs \<noteq> [] \<longrightarrow> lo_challenge lo = Some bs"
      using login_options_challenge[OF 1(4)] by blast
    obtain v where v: "Option.bind (rbody (pk_finish_request q a)) json_parse = Some v" "js_opt_prop v ''id'' = JStr (as_id a)"
      "read_bytes v ''rawId'' = Some (as_rawId a)" "let resp = js_opt_prop v ''response'' in
       read_bytes resp ''authenticatorData'' = Some (as_authenticatorData a) \<and> read_bytes resp ''clientDataJSON'' = Some (as_clientDataJSON a) \<and>
       read_bytes resp ''signature'' = Some (as_signature a) \<and> read_bytes resp ''userHandle'' = as_userHandle a"
      using finish_read[of q a] by blast
    have last: "local_store w' = local_store w \<and>
      (r = PlLeave (url rq) \<and> sent w' = sent w @ [pk_begin_request q, pk_finish_request q a, rq] \<and>
         session_store w' ''ggid_oauth_flow'' = Some (json_stringify (pl_flow q (pl_verifier rv) (pl_state rs))) \<or>
       (\<exists>data st4 body4 w4. snd (fetch E rq w3) = w4 \<and> match_code (location (outside w3) rq) \<noteq> [] \<and>
          (let token_rq = pl_token_request q (match_code (location (outside w3) rq)) (pl_verifier rv) in
           fst (fetch E token_rq w4) = Resp st4 body4 \<and> sent w' = sent w @ [pk_begin_request q, pk_finish_request q a, rq, token_rq]) \<and>
          json_parse body4 = Some data \<and> truthy (js_opt_prop data ''access_token'') \<and> r = PlSuccess data))"
      using e 3 unfolding u Let_def by auto
    show ?thesis
      by (rule exI[of _ st], rule exI[of _ body], rule exI[of _ options], rule exI[of _ lo], rule exI[of _ w1], rule exI[of _ a], rule exI[of _ o2],
          rule exI[of _ st2], rule exI[of _ body2], rule exI[of _ result], rule exI[of _ w3], rule exI[of _ ticket], rule exI[of _ rq], rule exI[of _ v])
        (use 1 2 c v last in \<open>simp only: rq_def u_def simp_thms\<close>)
  qed
qed

definition demo_assertion :: assertion where
  "demo_assertion = \<lparr>as_id = ''i'', as_rawId = [1], as_type = ''public-key'', as_authenticatorData = [2], as_clientDataJSON = [3],
     as_signature = [4], as_userHandle = None\<rparr>"

definition demo_ceremony :: "outcome list" where
  "demo_ceremony = [Resp 200 (json_stringify (JObj [(''publicKey'', JObj [(''challenge'', JStr ''AAAA'')])])),
     Resp 200 (json_stringify (JObj [(''auth_ticket'', JStr ''t'')])), NetError]"

theorem passkey_login_ceremony_witness:
  "let q = \<lparr>pr_base = ''b'', pr_tenant = ''t'', pr_method = ''passkey'', pr_origin = ''o''\<rparr>;
       P = \<lparr>pp_get = \<lambda>o' _. (PkGot demo_assertion, o'), pp_atob_message = ''atob''\<rparr>;
       res = handlePasskey scripted P (\<lambda>_ _. []) (\<lambda>b. b) [7] [300] q
         (\<lparr>pl_loading = True, pl_identifier = [], pl_code = [], pl_sent = False, pl_countdown = 0\<rparr>, page Map.empty demo_ceremony) in
   (\<exists>u. fst (snd res) = PlLeave u) \<and>
   (\<exists>a ticket rest. sent (snd (snd res)) = [pk_begin_request q, pk_finish_request q a,
      plain_get (pl_authorize_url q ticket (pl_challenge (\<lambda>b. b) (pl_verifier [300])) (pl_state [7])) [(''X-Tenant-ID'', pr_tenant q)]] @ rest)"
proof -
  let ?q = "\<lparr>pr_base = ''b'', pr_tenant = ''t'', pr_method = ''passkey'', pr_origin = ''o''\<rparr>"
  let ?P = "\<lparr>pp_get = \<lambda>o' _. (PkGot demo_assertion, o'), pp_atob_message = ''atob''\<rparr> :: outcome list pk_platform"
  let ?s = "\<lparr>pl_loading = True, pl_identifier = [], pl_code = [], pl_sent = False, pl_countdown = 0\<rparr>"
  let ?res = "handlePasskey scripted ?P (\<lambda>_ _. []) (\<lambda>b. b) [7] [300] ?q (?s, page Map.empty demo_ceremony)"
  have parse: "json_parse (json_stringify (JObj [(''publicKey'', JObj [(''challenge'', JStr ''AAAA'')])])) =
      Some (JObj [(''publicKey'', JObj [(''challenge'', JStr ''AAAA'')])])"
    "json_parse (json_stringify (JObj [(''auth_ticket'', JStr ''t'')])) = Some (JObj [(''auth_ticket'', JStr ''t'')])"
    by (simp_all add: json_stringify_clean)
  have "b64urlToBuf ''AAAA'' = Some [0, 0, 0]" by code_simp
  then have t: "pk_ticket scripted ?P ?q (page Map.empty demo_ceremony) =
      (Inr ''t'', (page Map.empty [NetError])\<lparr>sent := [pk_begin_request ?q, pk_finish_request ?q demo_assertion]\<rparr>)"
    by (simp add: pk_ticket_def demo_ceremony_def fetch_scripted parse resp_ok_def login_options_of_def Let_def page_def)
  obtain u where u: "fst (snd ?res) = PlLeave u"
    by (simp add: handlePasskey_def t exchangeTicketForToken_def Let_def fetch_scripted split: prod.splits)
  have "handlePasskey scripted ?P (\<lambda>_ _. []) (\<lambda>b. b) [7] [300] ?q (?s, page Map.empty demo_ceremony) =
      (fst ?res, fst (snd ?res), snd (snd ?res))" by simp
  from passkey_login_ceremony[OF this] u show ?thesis unfolding Let_def by fastforce
qed

end
