(* ===== verification/I18n.thy ===== *)
theory I18n
  imports Browser
begin

text \<open>
  Internationalisation (\<open>console/src/lib/i18n.tsx\<close>, \<open>console/src/lib/i18n/index.ts\<close>) and the colour theme
  (\<open>console/src/lib/theme.tsx\<close>).  A dictionary is a partial map; the dictionaries themselves are data and are
  parameters: \<open>en\<close>, and \<open>loader\<close> for the fifteen files of \<open>lib/i18n\<close>.  Loading a language takes time and
  several loads can be under way, so the provider is a step relation whose state has the
  loads in flight.  The strings of the interface that \<open>setLocale\<close> writes to the document are part of the
  state.
\<close>

section \<open>Locales\<close>

type_synonym dict = "string \<rightharpoonup> string"

definition LOCALES :: "string list" where
  "LOCALES = [''en'', ''zh'', ''zh-TW'', ''es'', ''hi'', ''fr'', ''ar'', ''pt'', ''ru'', ''de'', ''ja'', ''ko'', ''tr'', ''vi'', ''id'']"

definition RTL_LOCALES :: "string list" where
  "RTL_LOCALES = [''ar'']"

text \<open>The keys of \<open>loaders\<close>; \<open>loadLocale\<close> resolves to \<open>null\<close> (\<^term>\<open>None\<close>) for any other name.\<close>

definition loaders :: "string list" where
  "loaders = [''ar'', ''de'', ''en'', ''es'', ''fr'', ''hi'', ''id'', ''ja'', ''ko'', ''pt'', ''ru'', ''tr'', ''vi'', ''zh'', ''zh-TW'']"

definition loadLocale :: "(string \<Rightarrow> dict) \<Rightarrow> string \<Rightarrow> dict option" where
  "loadLocale loader l = (if l \<in> set loaders then Some (loader l) else None)"

record provider =
  in_locale :: string
  in_active :: dict
  in_cache :: "string \<rightharpoonup> dict"
  in_pending :: "string list"
  in_saved :: "string option"
  in_dir :: string
  in_lang :: string

definition provider_init :: "dict \<Rightarrow> string option \<Rightarrow> provider" where
  "provider_init en saved = \<lparr>in_locale = ''en'', in_active = en, in_cache = [''en'' \<mapsto> en], in_pending = [], in_saved = saved,
     in_dir = ''ltr'', in_lang = ''en''\<rparr>"

text \<open>The effect that runs after a render in which the locale has changed.\<close>

definition locale_effect :: "dict \<Rightarrow> provider \<Rightarrow> provider" where
  "locale_effect en s =
     (if in_locale s = ''en'' then s\<lparr>in_active := en\<rparr>
      else (case in_cache s (in_locale s) of Some d \<Rightarrow> s\<lparr>in_active := d\<rparr>
        | None \<Rightarrow> s\<lparr>in_pending := in_pending s @ [in_locale s]\<rparr>))"

definition change_locale :: "dict \<Rightarrow> string \<Rightarrow> provider \<Rightarrow> provider" where
  "change_locale en l s = (if l = in_locale s then s else locale_effect en (s\<lparr>in_locale := l\<rparr>))"

definition mount_provider :: "dict \<Rightarrow> provider \<Rightarrow> provider" where
  "mount_provider en s = (if present (in_saved s) \<and> the (in_saved s) \<in> set LOCALES
     then change_locale en (the (in_saved s)) s else s)"

definition setLocale :: "dict \<Rightarrow> string \<Rightarrow> provider \<Rightarrow> provider" where
  "setLocale en l s = (change_locale en l s)\<lparr>in_saved := Some l,
     in_dir := (if l \<in> set RTL_LOCALES then ''rtl'' else ''ltr''), in_lang := l\<rparr>"

text \<open>The end of a load: \<open>Inr r\<close> is the resolved value, \<open>Inl ()\<close> a rejected import.\<close>

definition load_finish :: "dict \<Rightarrow> string \<Rightarrow> unit + dict option \<Rightarrow> provider \<Rightarrow> provider" where
  "load_finish en l r s = (let s1 = s\<lparr>in_pending := remove1 l (in_pending s)\<rparr> in
     case r of Inl _ \<Rightarrow> s1\<lparr>in_active := en\<rparr>
     | Inr None \<Rightarrow> s1
     | Inr (Some d) \<Rightarrow> s1\<lparr>in_cache := (in_cache s1)(l \<mapsto> d), in_active := d\<rparr>)"

text \<open>\<open>t\<close>: the active dictionary, then English, then the key itself.\<close>

definition translate :: "dict \<Rightarrow> provider \<Rightarrow> string \<Rightarrow> string" where
  "translate en s key = (case in_active s key of Some v \<Rightarrow> if v \<noteq> [] then v else item_or (en key) key | None \<Rightarrow> item_or (en key) key)"

section \<open>Interleaving\<close>

inductive i18n_step :: "dict \<Rightarrow> (string \<Rightarrow> dict) \<Rightarrow> provider \<Rightarrow> provider \<Rightarrow> bool" for en loader where
  choose: "l \<in> set LOCALES \<Longrightarrow> i18n_step en loader s (setLocale en l s)"
| loaded: "l \<in> set (in_pending s) \<Longrightarrow> i18n_step en loader s (load_finish en l (Inr (loadLocale loader l)) s)"
| failed: "l \<in> set (in_pending s) \<Longrightarrow> i18n_step en loader s (load_finish en l (Inl ()) s)"

inductive_cases i18n_stepE: "i18n_step en loader s s'"

text \<open>The same with a user who waits: a language is chosen only while no load is under way.  The steps have names, so
  that a run has a history.\<close>

datatype i18n_event = Chosen string | Loaded string | Failed string

inductive patient_step :: "dict \<Rightarrow> (string \<Rightarrow> dict) \<Rightarrow> i18n_event \<Rightarrow> provider \<Rightarrow> provider \<Rightarrow> bool" for en loader where
  choose: "l \<in> set LOCALES \<Longrightarrow> in_pending s = [] \<Longrightarrow> patient_step en loader (Chosen l) s (setLocale en l s)"
| loaded: "l \<in> set (in_pending s) \<Longrightarrow> patient_step en loader (Loaded l) s (load_finish en l (Inr (loadLocale loader l)) s)"
| failed: "l \<in> set (in_pending s) \<Longrightarrow> patient_step en loader (Failed l) s (load_finish en l (Inl ()) s)"

inductive patient_run :: "dict \<Rightarrow> (string \<Rightarrow> dict) \<Rightarrow> string option \<Rightarrow> i18n_event list \<Rightarrow> provider \<Rightarrow> bool" for en loader saved where
  start: "patient_run en loader saved [] (mount_provider en (provider_init en saved))"
| step: "patient_run en loader saved es s \<Longrightarrow> patient_step en loader e s s' \<Longrightarrow> patient_run en loader saved (es @ [e]) s'"

section \<open>Theme\<close>

datatype theme_mode = Light | Dark | System

record theme_state =
  th_mode :: theme_mode
  th_dark :: bool
  th_mounted :: bool
  th_saved :: "string option"

definition mode_name :: "theme_mode \<Rightarrow> string" where
  "mode_name m = (case m of Light \<Rightarrow> ''light'' | Dark \<Rightarrow> ''dark'' | System \<Rightarrow> ''system'')"

definition resolve_theme :: "bool \<Rightarrow> theme_mode \<Rightarrow> bool" where
  "resolve_theme system_dark m = (case m of Light \<Rightarrow> False | Dark \<Rightarrow> True | System \<Rightarrow> system_dark)"

text \<open>The effect of a change of mode: it applies nothing before the saved preference has been read.\<close>

definition theme_effect :: "bool \<Rightarrow> theme_state \<Rightarrow> theme_state" where
  "theme_effect system_dark s = (if \<not> th_mounted s then s
     else s\<lparr>th_dark := resolve_theme system_dark (th_mode s), th_saved := Some (mode_name (th_mode s))\<rparr>)"

definition theme_mount :: "bool \<Rightarrow> theme_state \<Rightarrow> theme_state" where
  "theme_mount system_dark s = theme_effect system_dark (s\<lparr>th_mode :=
     (if th_saved s = Some ''dark'' then Dark else if th_saved s = Some ''light'' then Light else System), th_mounted := True\<rparr>)"

definition theme_toggle :: "bool \<Rightarrow> theme_state \<Rightarrow> theme_state" where
  "theme_toggle system_dark s = theme_effect system_dark (s\<lparr>th_mode :=
     (case th_mode s of Light \<Rightarrow> Dark | Dark \<Rightarrow> System | System \<Rightarrow> Light)\<rparr>)"

definition theme_setMode :: "bool \<Rightarrow> theme_mode \<Rightarrow> theme_state \<Rightarrow> theme_state" where
  "theme_setMode system_dark m s = (if m = th_mode s then s else theme_effect system_dark (s\<lparr>th_mode := m\<rparr>))"

definition system_change :: "bool \<Rightarrow> theme_state \<Rightarrow> theme_state" where
  "system_change system_dark s = (if th_mounted s \<and> th_mode s = System then s\<lparr>th_dark := system_dark\<rparr> else s)"

section \<open>Lemmas\<close>

lemma locales_loadable: "l \<in> set LOCALES \<Longrightarrow> l \<in> set loaders"
proof -
  have "set LOCALES \<subseteq> set loaders" by code_simp
  then show "l \<in> set LOCALES \<Longrightarrow> l \<in> set loaders" by blast
qed

text \<open>The language a history has chosen: the last choice, at first the saved one if it is a locale, else English.\<close>

fun chosen_language :: "string \<Rightarrow> i18n_event list \<Rightarrow> string" where
  "chosen_language l [] = l"
| "chosen_language l (Chosen m # es) = chosen_language m es"
| "chosen_language l (_ # es) = chosen_language l es"

definition first_language :: "string option \<Rightarrow> string" where
  "first_language saved = (case saved of Some l \<Rightarrow> if l \<in> set LOCALES then l else ''en'' | None \<Rightarrow> ''en'')"

lemma chosen_language_snoc [simp]:
  "chosen_language l (es @ [Chosen m]) = m"
  "chosen_language l (es @ [Loaded m]) = chosen_language l es"
  "chosen_language l (es @ [Failed m]) = chosen_language l es"
  by (induction l es rule: chosen_language.induct) simp_all

text \<open>The cache has what the history has loaded; with no load under way the cached dictionary of the chosen language is
  shown, and English only if there is none because a load of it has failed.\<close>

definition history_cache :: "dict \<Rightarrow> (string \<Rightarrow> dict) \<Rightarrow> i18n_event list \<Rightarrow> string \<Rightarrow> dict option" where
  "history_cache en loader es l = (if l = ''en'' then Some en else if Loaded l \<in> set es then Some (loader l) else None)"

definition patient_inv :: "dict \<Rightarrow> (string \<Rightarrow> dict) \<Rightarrow> string option \<Rightarrow> i18n_event list \<Rightarrow> provider \<Rightarrow> bool" where
  "patient_inv en loader saved es s = (in_cache s = history_cache en loader es \<and> in_locale s \<in> set loaders \<and>
     in_locale s = chosen_language (first_language saved) es \<and>
     (in_pending s = [] \<and> in_active s = (case in_cache s (in_locale s) of Some d \<Rightarrow> d | None \<Rightarrow> en) \<and>
        (in_cache s (in_locale s) = None \<longrightarrow> Failed (in_locale s) \<in> set es) \<or>
      in_pending s = [in_locale s] \<and> in_cache s (in_locale s) = None))"

lemma history_cache_simps [simp]:
  "history_cache en loader es ''en'' = Some en"
  "history_cache en loader (es @ [Chosen l]) = history_cache en loader es"
  "history_cache en loader (es @ [Failed l]) = history_cache en loader es"
  "l \<noteq> ''en'' \<Longrightarrow> history_cache en loader (es @ [Loaded l]) = (history_cache en loader es)(l \<mapsto> loader l)"
  by (auto simp: history_cache_def)

lemma change_locale_fields [simp]:
  "in_locale (change_locale en l s) = l" "in_cache (change_locale en l s) = in_cache s"
  by (auto simp: change_locale_def locale_effect_def split: option.splits)

lemma change_locale_inv:
  assumes "patient_inv en loader saved es s" "in_pending s = []" "l \<in> set LOCALES"
  shows "patient_inv en loader saved (es @ [Chosen l]) (change_locale en l s)"
  using assms locales_loadable[OF assms(3)]
  by (auto simp: patient_inv_def change_locale_def locale_effect_def split: option.splits)

lemma patient_inv_frame [simp]:
  "patient_inv en loader saved es (s\<lparr>in_saved := a, in_dir := b, in_lang := c\<rparr>) = patient_inv en loader saved es s"
  by (simp add: patient_inv_def)

text \<open>How the load under way ends.\<close>

lemma load_ends:
  assumes "patient_inv en loader saved es s" "l \<in> set (in_pending s)"
  shows "load_finish en l (Inr (loadLocale loader l)) s = s\<lparr>in_pending := [], in_cache := (in_cache s)(l \<mapsto> loader l), in_active := loader l\<rparr>"
    and "load_finish en l (Inl ()) s = s\<lparr>in_pending := [], in_active := en\<rparr>" and "l = in_locale s" and "l \<noteq> ''en''"
  using assms by (auto simp: patient_inv_def history_cache_def load_finish_def loadLocale_def Let_def split: if_splits)

lemma patient_step_inv:
  "patient_step en loader e s s' \<Longrightarrow> patient_inv en loader saved es s \<Longrightarrow> patient_inv en loader saved (es @ [e]) s'"
proof (induction rule: patient_step.induct)
  case (choose l s)
  then show ?case by (simp add: setLocale_def change_locale_inv)
next
  case (loaded l s)
  note ends = load_ends[OF loaded(2,1)]
  show ?case using loaded(2) ends(3,4) unfolding ends(1) by (auto simp: patient_inv_def)
next
  case (failed l s)
  note ends = load_ends[OF failed(2,1)]
  show ?case using failed ends(3,4) unfolding ends(2) by (auto simp: patient_inv_def)
qed

lemma provider_mount_inv: "patient_inv en loader saved [] (mount_provider en (provider_init en saved))"
proof -
  have "''en'' \<in> set LOCALES" "''en'' \<in> set loaders" "[] \<notin> set LOCALES" by code_simp+
  then show ?thesis using locales_loadable
    by (auto simp: patient_inv_def mount_provider_def provider_init_def change_locale_def locale_effect_def first_language_def
        present_def history_cache_def fun_eq_iff split: option.splits)
qed

lemma patient_run_inv: "patient_run en loader saved es s \<Longrightarrow> patient_inv en loader saved es s"
  by (induction rule: patient_run.induct) (auto intro: provider_mount_inv patient_step_inv)

text \<open>A saved right-to-left language is restored without its direction.\<close>

lemma saved_direction_lost:
  "in_dir (mount_provider en (provider_init en (Some ''ar''))) = ''ltr'' \<and> in_locale (mount_provider en (provider_init en (Some ''ar''))) = ''ar''"
proof -
  have "''ar'' \<in> set LOCALES" by code_simp
  then show ?thesis by (simp add: mount_provider_def provider_init_def present_def change_locale_def locale_effect_def)
qed

lemma toggle_cycle: "th_mode (theme_toggle a (theme_toggle b (theme_toggle c s))) = th_mode s"
  by (cases "th_mode s") (simp_all add: theme_toggle_def theme_effect_def)

section \<open>Properties\<close>

text \<open>C36. What the interface shows, read off the history of a user who waits for one language to load before choosing the
  next: the locale is the last choice, at most one load is under way and it is of that language, and either end of it settles the
  page.  Once settled the chosen language is shown if it is English or a load of it has ever succeeded; otherwise a
  load of it has failed, English is shown instead, and choosing the same language again starts no new load.\<close>

theorem i18n_settles:
  assumes "patient_run en loader saved es s"
  shows "in_locale s = chosen_language (first_language saved) es \<and>
    (in_pending s \<noteq> [] \<longrightarrow> in_pending s = [in_locale s] \<and>
      (\<exists>s'. patient_step en loader (Loaded (in_locale s)) s s' \<and> in_pending s' = [] \<and> in_active s' = loader (in_locale s)) \<and>
      (\<exists>s'. patient_step en loader (Failed (in_locale s)) s s' \<and> in_pending s' = [] \<and> in_active s' = en)) \<and>
    (in_pending s = [] \<longrightarrow>
      (if in_locale s = ''en'' then in_active s = en
       else if Loaded (in_locale s) \<in> set es then in_active s = loader (in_locale s)
       else in_active s = en \<and> Failed (in_locale s) \<in> set es \<and>
         in_pending (setLocale en (in_locale s) s) = [] \<and> in_active (setLocale en (in_locale s) s) = en))"
proof -
  note inv = patient_run_inv[OF assms]
  have "\<exists>s'. patient_step en loader (Loaded (in_locale s)) s s' \<and> in_pending s' = [] \<and> in_active s' = loader (in_locale s)"
    and "\<exists>s'. patient_step en loader (Failed (in_locale s)) s s' \<and> in_pending s' = [] \<and> in_active s' = en"
    if "in_locale s \<in> set (in_pending s)"
    using patient_step.loaded[OF that, of en loader] patient_step.failed[OF that, of en loader]
    unfolding load_ends(1,2)[OF inv that] by force+
  then show ?thesis using inv
    by (auto simp: patient_inv_def history_cache_def setLocale_def change_locale_def split: if_splits)
qed

theorem i18n_settles_witness:
  "\<exists>s. patient_run Map.empty (\<lambda>l. [''k'' \<mapsto> l]) None [Chosen ''fr'', Failed ''fr'', Chosen ''de'', Loaded ''de'', Chosen ''fr'', Failed ''fr''] s \<and>
    in_locale s = ''fr'' \<and> in_active s = Map.empty"
proof -
  let ?en = "Map.empty :: dict" and ?ld = "\<lambda>l. [''k'' \<mapsto> l] :: dict"
  let ?s0 = "mount_provider ?en (provider_init ?en None)"
  let ?s1 = "setLocale ?en ''fr'' ?s0"
  let ?s2 = "load_finish ?en ''fr'' (Inl ()) ?s1"
  let ?s3 = "setLocale ?en ''de'' ?s2"
  let ?s4 = "load_finish ?en ''de'' (Inr (loadLocale ?ld ''de'')) ?s3"
  let ?s5 = "setLocale ?en ''fr'' ?s4"
  let ?s6 = "load_finish ?en ''fr'' (Inl ()) ?s5"
  have l: "''fr'' \<in> set LOCALES" "''de'' \<in> set LOCALES" "''de'' \<in> set loaders" by code_simp+
  have s0: "?s0 = provider_init ?en None" by (simp add: mount_provider_def provider_init_def present_def)
  note defs = setLocale_def change_locale_def locale_effect_def provider_init_def load_finish_def loadLocale_def Let_def
  have "patient_run ?en ?ld None [] ?s0" by (rule patient_run.start)
  moreover have "patient_step ?en ?ld (Chosen ''fr'') ?s0 ?s1" unfolding s0 by (rule patient_step.choose) (simp_all add: l provider_init_def)
  moreover have "patient_step ?en ?ld (Failed ''fr'') ?s1 ?s2" unfolding s0 by (rule patient_step.failed) (simp add: defs)
  moreover have "patient_step ?en ?ld (Chosen ''de'') ?s2 ?s3" unfolding s0 by (rule patient_step.choose) (simp_all add: l defs)
  moreover have "patient_step ?en ?ld (Loaded ''de'') ?s3 ?s4" unfolding s0 by (rule patient_step.loaded) (simp add: defs)
  moreover have "patient_step ?en ?ld (Chosen ''fr'') ?s4 ?s5" unfolding s0 by (rule patient_step.choose) (simp_all add: l defs)
  moreover have "patient_step ?en ?ld (Failed ''fr'') ?s5 ?s6" unfolding s0 by (rule patient_step.failed) (simp add: l defs)
  ultimately have run: "patient_run ?en ?ld None ((((((([] @ [Chosen ''fr'']) @ [Failed ''fr'']) @ [Chosen ''de'']) @ [Loaded ''de'']) @ [Chosen ''fr'']) @ [Failed ''fr''])) ?s6"
    by (intro patient_run.step)
  have "in_pending ?s6 = []" unfolding s0 by (simp add: l defs)
  then show ?thesis using i18n_settles[OF run] run by (intro exI[of _ ?s6]) simp
qed

text \<open>Without that patience the last load to end wins: for any two languages that are not yet loaded
  there is a run that ends with no load under way, the second chosen and saved, and the first shown.\<close>

lemma i18n_race:
  assumes "a \<in> set LOCALES" "b \<in> set LOCALES" "a \<noteq> b" "a \<noteq> ''en''" "b \<noteq> ''en''"
  shows "\<exists>s. (i18n_step en loader)\<^sup>*\<^sup>* (mount_provider en (provider_init en None)) s \<and> in_pending s = [] \<and>
    in_locale s = b \<and> in_saved s = Some b \<and> in_active s = loader a"
proof -
  let ?s0 = "mount_provider en (provider_init en None)"
  let ?s1 = "setLocale en a ?s0" let ?s2 = "setLocale en b ?s1"
  let ?s3 = "load_finish en b (Inr (loadLocale loader b)) ?s2"
  let ?s4 = "load_finish en a (Inr (loadLocale loader a)) ?s3"
  have s0: "?s0 = provider_init en None" by (simp add: mount_provider_def provider_init_def present_def)
  have s2: "in_pending ?s2 = [a, b]" "in_locale ?s2 = b" "in_saved ?s2 = Some b"
    using assms unfolding s0 by (simp_all add: setLocale_def change_locale_def locale_effect_def provider_init_def)
  have load: "loadLocale loader l = Some (loader l)" if "l \<in> set LOCALES" for l
    using locales_loadable[OF that] by (simp add: loadLocale_def)
  have s3: "in_pending ?s3 = [a]" "in_locale ?s3 = b" "in_saved ?s3 = Some b"
    using s2 assms(3) load[OF assms(2)] by (simp_all add: load_finish_def Let_def)
  have "i18n_step en loader ?s0 ?s1" "i18n_step en loader ?s1 ?s2"
    using assms by (simp_all add: i18n_step.choose)
  moreover have "i18n_step en loader ?s2 ?s3" using s2 by (intro i18n_step.loaded) simp
  moreover have "i18n_step en loader ?s3 ?s4" using s3 by (intro i18n_step.loaded) simp
  ultimately have "(i18n_step en loader)\<^sup>*\<^sup>* ?s0 ?s4" by (meson converse_rtranclp_into_rtranclp rtranclp.rtrancl_refl)
  moreover have "in_pending ?s4 = [] \<and> in_locale ?s4 = b \<and> in_saved ?s4 = Some b \<and> in_active ?s4 = loader a"
    using s3 load[OF assms(1)] by (simp add: load_finish_def[of en a] Let_def)
  ultimately show ?thesis by blast
qed

lemma i18n_race_example:
  "\<exists>s. (i18n_step Map.empty (\<lambda>l. [''k'' \<mapsto> l]))\<^sup>*\<^sup>* (mount_provider Map.empty (provider_init Map.empty None)) s \<and> in_pending s = [] \<and>
    in_locale s = ''fr'' \<and> in_saved s = Some ''fr'' \<and> in_active s = [''k'' \<mapsto> ''de'']"
  by (rule i18n_race) (simp_all add: LOCALES_def)

end
