(* ===== verification/Widgets.thy ===== *)
theory Widgets
  imports Auth_Guard Webauthn Parents
begin

text \<open>
  Shared components of the console (\<open>console/src/components\<close>): notifications (\<open>Toast.tsx\<close>), the confirmation dialog
  (\<open>ConfirmDialog.tsx\<close>), page numbers (\<open>Pagination.tsx\<close>), the command palette (\<open>CommandPalette.tsx\<close>), the tenant
  switcher (\<open>TenantSwitcher.tsx\<close>), the passkey prompt (\<open>passkey-prompt.tsx\<close>) and \<open>asArray\<close>
  (\<open>console/src/lib/safe-array.ts\<close>).  Notifications and the dialog run timers and awaited actions beside the user, so they are step
  relations.  Icons, classes and the focus timer are left out.
\<close>

section \<open>Notifications\<close>

text \<open>An item on the screen: its timer is the time at which it fires.  The \<open>onClose\<close> calls that a fired timer has
  scheduled are kept apart, since removing the item does not cancel them.\<close>

datatype toast_type = Success | Error | Warning | Info

record toast_item =
  ti_id :: string
  ti_type :: toast_type
  ti_message :: string
  ti_duration :: int
  ti_visible :: bool
  ti_timer :: "int option"

record toaster =
  to_now :: int
  to_items :: "toast_item list"
  to_closing :: "(int \<times> string) list"

text \<open>The provider passes a new \<open>onClose\<close> at every render and the effect of an item depends on it, so a render of the
  provider restarts the timer of every item.\<close>

definition restart :: "int \<Rightarrow> toast_item \<Rightarrow> toast_item" where
  "restart now_ms i = i\<lparr>ti_visible := True, ti_timer := Some (now_ms + ti_duration i)\<rparr>"

definition render_items :: "toast_item list \<Rightarrow> toaster \<Rightarrow> toaster" where
  "render_items is T = T\<lparr>to_items := map (restart (to_now T)) is\<rparr>"

definition toast_add :: "string \<Rightarrow> toast_type \<Rightarrow> string \<Rightarrow> int \<Rightarrow> toaster \<Rightarrow> toaster" where
  "toast_add i ty m d T = render_items (to_items T @ [\<lparr>ti_id = i, ti_type = ty, ti_message = m, ti_duration = d,
     ti_visible = False, ti_timer = None\<rparr>]) T"

definition toast_success :: "string \<Rightarrow> string \<Rightarrow> toaster \<Rightarrow> toaster" where
  "toast_success i m = toast_add i Success m 4000"

definition toast_error :: "string \<Rightarrow> string \<Rightarrow> toaster \<Rightarrow> toaster" where
  "toast_error i m = toast_add i Error m 6000"

definition toast_remove :: "string \<Rightarrow> toaster \<Rightarrow> toaster" where
  "toast_remove i T = render_items (filter (\<lambda>x. ti_id x \<noteq> i) (to_items T)) T"

definition timer_fire :: "string \<Rightarrow> toaster \<Rightarrow> toaster" where
  "timer_fire i T = T\<lparr>to_items := map (\<lambda>x. if ti_id x = i then x\<lparr>ti_visible := False, ti_timer := None\<rparr> else x) (to_items T),
     to_closing := to_closing T @ [(to_now T + 200, i)]\<rparr>"

definition close_fire :: "int \<times> string \<Rightarrow> toaster \<Rightarrow> toaster" where
  "close_fire c T = toast_remove (snd c) (T\<lparr>to_closing := remove1 c (to_closing T)\<rparr>)"

text \<open>The clock does not pass a time at which a timer is due.\<close>

definition no_due :: "int \<Rightarrow> toaster \<Rightarrow> bool" where
  "no_due t T = (list_all (\<lambda>x. case ti_timer x of None \<Rightarrow> True | Some d \<Rightarrow> t \<le> d) (to_items T) \<and> list_all (\<lambda>(d, _). t \<le> d) (to_closing T))"

inductive quiet_step :: "toaster \<Rightarrow> toaster \<Rightarrow> bool" where
  timer: "x \<in> set (to_items T) \<Longrightarrow> ti_timer x = Some d \<Longrightarrow> d \<le> to_now T \<Longrightarrow> quiet_step T (timer_fire (ti_id x) T)"
| close: "c \<in> set (to_closing T) \<Longrightarrow> fst c \<le> to_now T \<Longrightarrow> quiet_step T (close_fire c T)"
| wait: "0 < d \<Longrightarrow> no_due (to_now T + d) T \<Longrightarrow> quiet_step T (T\<lparr>to_now := to_now T + d\<rparr>)"

text \<open>The same with new notifications and clicks.\<close>

inductive toast_step :: "toaster \<Rightarrow> toaster \<Rightarrow> bool" where
  quiet: "quiet_step T T' \<Longrightarrow> toast_step T T'"
| add: "toast_step T (toast_add i ty m d T)"
| click: "x \<in> set (to_items T) \<Longrightarrow> toast_step T (toast_remove (ti_id x) T)"

definition toaster_init :: toaster where
  "toaster_init = \<lparr>to_now = 0, to_items = [], to_closing = []\<rparr>"

section \<open>The confirmation dialog\<close>

text \<open>\<open>cf_running\<close> are the actions whose \<open>onConfirm\<close> has been called and not yet returned.\<close>

record confirm_state =
  cf_dialog :: "string option"
  cf_loading :: bool
  cf_running :: "string list"

definition confirm_init :: confirm_state where
  "confirm_init = \<lparr>cf_dialog = None, cf_loading = False, cf_running = []\<rparr>"

definition confirm_open :: "string \<Rightarrow> confirm_state \<Rightarrow> confirm_state" where
  "confirm_open d s = s\<lparr>cf_dialog := Some d\<rparr>"

definition handleConfirm :: "confirm_state \<Rightarrow> confirm_state" where
  "handleConfirm s = (case cf_dialog s of None \<Rightarrow> s
     | Some d \<Rightarrow> s\<lparr>cf_loading := True, cf_running := cf_running s @ [d]\<rparr>)"

definition confirm_done :: "string \<Rightarrow> confirm_state \<Rightarrow> confirm_state" where
  "confirm_done d s = s\<lparr>cf_loading := False, cf_dialog := None, cf_running := remove1 d (cf_running s)\<rparr>"

definition handleCancel :: "confirm_state \<Rightarrow> confirm_state" where
  "handleCancel s = s\<lparr>cf_dialog := None\<rparr>"

text \<open>The two buttons at the bottom are disabled while loading; the backdrop and the cross are not.\<close>

inductive confirm_step :: "confirm_state \<Rightarrow> confirm_state \<Rightarrow> bool" where
  opened: "confirm_step s (confirm_open d s)"
| confirmed: "cf_dialog s \<noteq> None \<Longrightarrow> \<not> cf_loading s \<Longrightarrow> confirm_step s (handleConfirm s)"
| cancelled: "cf_dialog s \<noteq> None \<Longrightarrow> \<not> cf_loading s \<Longrightarrow> confirm_step s (handleCancel s)"
| dismissed: "cf_dialog s \<noteq> None \<Longrightarrow> confirm_step s (handleCancel s)"
| finished: "d \<in> set (cf_running s) \<Longrightarrow> confirm_step s (confirm_done d s)"

inductive_cases confirm_stepE: "confirm_step s s'"

section \<open>Page numbers\<close>

text \<open>\<open>Math.max(1, Math.ceil(total / pageSize))\<close>; the component renders nothing when one page is enough.\<close>

definition totalPages :: "nat \<Rightarrow> nat \<Rightarrow> nat" where
  "totalPages tot pageSize = max 1 ((tot + pageSize - 1) div pageSize)"

definition page_start :: "nat \<Rightarrow> nat \<Rightarrow> nat" where
  "page_start p pageSize = (p - 1) * pageSize + 1"

definition page_end :: "nat \<Rightarrow> nat \<Rightarrow> nat \<Rightarrow> nat" where
  "page_end p pageSize tot = min (p * pageSize) tot"

definition pagination_label :: "nat \<Rightarrow> nat \<Rightarrow> nat \<Rightarrow> string option" where
  "pagination_label p pageSize tot = (if tot \<le> pageSize then None
     else Some (show_nat (page_start p pageSize) @ ''-'' @ show_nat (page_end p pageSize tot) @ '' of '' @ show_nat tot))"

datatype page_button = FirstPage | PreviousPage | NextPage | LastPage

text \<open>The page a button asks for; \<^term>\<open>None\<close>: it is disabled.\<close>

definition page_click :: "page_button \<Rightarrow> nat \<Rightarrow> nat \<Rightarrow> nat \<Rightarrow> nat option" where
  "page_click b p pageSize tot = (case b of
      FirstPage \<Rightarrow> if p = 1 then None else Some 1
    | PreviousPage \<Rightarrow> if p = 1 then None else Some (p - 1)
    | NextPage \<Rightarrow> if p = totalPages tot pageSize then None else Some (p + 1)
    | LastPage \<Rightarrow> if p = totalPages tot pageSize then None else Some (totalPages tot pageSize))"

section \<open>The command palette\<close>

record command_item =
  cm_id :: string
  cm_label :: string
  cm_href :: string
  cm_group :: string

definition command :: "string \<Rightarrow> string \<Rightarrow> string \<Rightarrow> string \<Rightarrow> command_item" where
  "command i l h g = \<lparr>cm_id = i, cm_label = l, cm_href = h, cm_group = g\<rparr>"

text \<open>Two labels have an arrow, U+2192, which is no character of the model; its low byte stands for it.\<close>

definition ALL_COMMANDS :: "command_item list" where
  "ALL_COMMANDS =
    [command ''dashboard'' ''Dashboard'' ''/dashboard'' ''Overview'',
     command ''sessions'' ''My Sessions'' ''/sessions'' ''Overview'',
     command ''access-requests'' ''Access Requests'' ''/access-requests'' ''Overview'',
     command ''users'' ''Users'' ''/users'' ''Identity'',
     command ''roles'' ''Roles & Permissions'' ''/roles'' ''Identity'',
     command ''organizations'' ''Organizations'' ''/organizations'' ''Identity'',
     command ''org-tree'' ''Organization Tree'' ''/organizations/tree'' ''Identity'',
     command ''api-keys'' ''API Keys'' ''/api-keys'' ''Identity'',
     command ''import'' ''Import Users'' ''/settings/import-wizard'' ''Identity'',
     command ''itdr'' ''ITDR Dashboard'' ''/security/itdr'' ''Security'',
     command ''security-sessions'' (''Security '' @ CHR 0x92 # '' Sessions'') ''/security/session-detail'' ''Security'',
     command ''risk-score'' ''Risk Score'' ''/security/risk-score'' ''Security'',
     command ''posture'' ''Security Posture'' ''/security/posture'' ''Security'',
     command ''conditional-access'' ''Conditional Access'' ''/settings/conditional-access'' ''Security'',
     command ''password-policy'' ''Password Policy'' ''/settings/password-policy'' ''Security'',
     command ''mfa'' ''MFA Configuration'' ''/settings/mfa'' ''Security'',
     command ''passkeys'' ''Passkey Management'' ''/settings/passkey-management'' ''Security'',
     command ''webauthn'' ''WebAuthn Configuration'' ''/settings/webauthn-config'' ''Security'',
     command ''audit'' ''Audit Log'' ''/audit'' ''Audit'',
     command ''audit-alerts'' ''Audit Alerts'' ''/audit/alerts'' ''Audit'',
     command ''audit-anomalies'' ''Anomaly Detection'' ''/audit/anomalies'' ''Audit'',
     command ''audit-advanced'' ''Advanced Audit Search'' ''/audit/advanced'' ''Audit'',
     command ''policies'' ''Policies'' ''/policies'' ''Audit'',
     command ''access-reviews'' ''Access Reviews'' ''/audit/access-reviews'' ''Audit'',
     command ''oauth-clients'' ''OAuth Clients'' ''/oauth-clients'' ''Applications'',
     command ''webhooks'' ''Webhooks'' ''/webhooks'' ''Applications'',
     command ''scim'' ''SCIM Configuration'' ''/settings/scim'' ''Applications'',
     command ''ldap'' ''LDAP Configuration'' ''/settings/ldap-config'' ''Applications'',
     command ''rate-limits'' ''Rate Limits'' ''/settings/rate-limits'' ''Applications'',
     command ''api-explorer'' ''API Explorer'' ''/api-explorer'' ''Applications'',
     command ''saml'' ''SAML Configuration'' ''/settings/saml-config'' ''Applications'',
     command ''settings'' ''All Settings'' ''/settings'' ''Settings'',
     command ''branding'' ''Branding'' ''/settings/branding'' ''Settings'',
     command ''feature-flags'' ''Feature Flags'' ''/settings/feature-flags'' ''Settings'',
     command ''notifications'' ''Notifications'' ''/settings/notifications'' ''Settings'',
     command ''analytics-iam'' ''IAM Metrics'' ''/analytics/iam-metrics'' ''Analytics'',
     command ''analytics-identity'' ''Identity Analytics'' ''/analytics/identity'' ''Analytics'',
     command ''analytics-login'' ''Login Security Analytics'' ''/analytics/login-security'' ''Analytics'',
     command ''admin'' (''Platform '' @ CHR 0x92 # '' Tenants'') ''/admin'' ''Platform'',
     command ''admin-audit'' ''Global Audit'' ''/admin/audit/global'' ''Platform'',
     command ''admin-threats'' ''Threat Dashboard'' ''/admin/threats'' ''Platform'',
     command ''admin-health'' ''System Health'' ''/admin/health'' ''Platform'',
     command ''profile'' ''My Profile'' ''/profile'' ''Account'',
     command ''activity'' ''My Activity'' ''/activity'' ''Account'',
     command ''onboarding'' ''Create New Organization'' ''/onboarding'' ''Account'']"

record palette =
  cp_open :: bool
  cp_query :: string
  cp_selected :: int

definition palette_init :: palette where
  "palette_init = \<lparr>cp_open = False, cp_query = [], cp_selected = 0\<rparr>"

definition palette_filtered :: "string \<Rightarrow> command_item list" where
  "palette_filtered query = (let q = trim (to_lower query) in
     if q = [] then ALL_COMMANDS
     else filter (\<lambda>c. str_includes (to_lower (cm_label c)) q \<or> str_includes (to_lower (cm_group c)) q \<or>
       str_includes (to_lower (cm_href c)) q) ALL_COMMANDS)"

text \<open>\<open>groups[item.group].push(item)\<close>; the keys of an object keep the order of their insertion.\<close>

definition push_group :: "(string \<times> command_item list) list \<Rightarrow> command_item \<Rightarrow> (string \<times> command_item list) list" where
  "push_group gs c = obj_set (cm_group c) ((case assoc (cm_group c) gs of None \<Rightarrow> [] | Some cs \<Rightarrow> cs) @ [c]) gs"

definition palette_grouped :: "string \<Rightarrow> (string \<times> command_item list) list" where
  "palette_grouped query = foldl push_group [] (palette_filtered query)"

definition flatList :: "string \<Rightarrow> command_item list" where
  "flatList query = concat (map snd (palette_grouped query))"

text \<open>The effect that runs when the palette opens.\<close>

definition set_open :: "bool \<Rightarrow> palette \<Rightarrow> palette" where
  "set_open b p = (if b \<and> \<not> cp_open p then p\<lparr>cp_open := True, cp_query := [], cp_selected := 0\<rparr> else p\<lparr>cp_open := b\<rparr>)"

definition palette_shortcut :: "palette \<Rightarrow> palette" where
  "palette_shortcut p = set_open (\<not> cp_open p) p"

definition change_query :: "string \<Rightarrow> palette \<Rightarrow> palette" where
  "change_query q p = p\<lparr>cp_query := q, cp_selected := 0\<rparr>"

definition key_down :: "palette \<Rightarrow> palette" where
  "key_down p = p\<lparr>cp_selected := min (cp_selected p + 1) (int (length (flatList (cp_query p))) - 1)\<rparr>"

definition key_up :: "palette \<Rightarrow> palette" where
  "key_up p = p\<lparr>cp_selected := max (cp_selected p - 1) 0\<rparr>"

definition palette_navigate :: "command_item \<Rightarrow> palette \<Rightarrow> string \<times> palette" where
  "palette_navigate c p = (cm_href c, set_open False p)"

text \<open>Enter: the address pushed to the router, if an item is selected.\<close>

definition key_enter :: "palette \<Rightarrow> string option \<times> palette" where
  "key_enter p = (let cs = flatList (cp_query p); k = cp_selected p in
     if 0 \<le> k \<and> k < int (length cs) then map_prod Some id (palette_navigate (cs ! nat k) p) else (None, p))"

definition mouse_enter :: "nat \<Rightarrow> palette \<Rightarrow> palette" where
  "mouse_enter k p = p\<lparr>cp_selected := int k\<rparr>"

inductive palette_step :: "palette \<Rightarrow> palette \<Rightarrow> bool" where
  shortcut: "palette_step p (palette_shortcut p)"
| escape: "palette_step p (set_open False p)"
| button: "\<not> cp_open p \<Longrightarrow> palette_step p (set_open True p)"
| typed: "cp_open p \<Longrightarrow> palette_step p (change_query q p)"
| down: "cp_open p \<Longrightarrow> palette_step p (key_down p)"
| up: "cp_open p \<Longrightarrow> palette_step p (key_up p)"
| mouse: "cp_open p \<Longrightarrow> k < length (flatList (cp_query p)) \<Longrightarrow> palette_step p (mouse_enter k p)"
| enter: "cp_open p \<Longrightarrow> palette_step p (snd (key_enter p))"

section \<open>The tenant switcher\<close>

record switcher =
  sw_open :: bool
  sw_tenants :: "jsv list"
  sw_loading :: bool
  sw_current :: "string option"

definition switcher_mount :: "'w world \<Rightarrow> switcher \<Rightarrow> switcher" where
  "switcher_mount w s = s\<lparr>sw_current := local_store w ''ggid_tenant_id''\<rparr>"

text \<open>\<open>d.tenants || d.items || (Array.isArray(d) ? d : [])\<close>, as far as it is an array; a \<open>null\<close> answer throws, which is
  caught.\<close>

definition tenants_of :: "jsv \<Rightarrow> jsv list option" where
  "tenants_of d = (if nullish d then None
     else (case js_or (js_opt_prop d ''tenants'') (js_or (js_opt_prop d ''items'') (if is_array d then d else JArr [])) of
        JArr ts \<Rightarrow> Some ts | _ \<Rightarrow> None))"

definition tenants_request :: "string \<Rightarrow> 'w world \<Rightarrow> request" where
  "tenants_request base w = \<lparr>url = base @ ''/api/v1/tenants'', meth = ''GET'', hdrs = authHeader w, rbody = None\<rparr>"

definition loadTenants :: "'w env \<Rightarrow> string \<Rightarrow> switcher \<times> 'w world \<Rightarrow> switcher \<times> 'w world" where
  "loadTenants E base sw = (case sw of (s, w) \<Rightarrow>
     (case fetch E (tenants_request base w) w of
        (NetError, w1) \<Rightarrow> (s\<lparr>sw_loading := False\<rparr>, w1)
      | (Resp st body, w1) \<Rightarrow>
          (s\<lparr>sw_tenants := (if resp_ok st then (case Option.bind (json_parse body) tenants_of of None \<Rightarrow> sw_tenants s | Some ts \<Rightarrow> ts) else sw_tenants s),
             sw_loading := False\<rparr>, w1)))"

definition switcher_handleOpen :: "'w env \<Rightarrow> string \<Rightarrow> switcher \<times> 'w world \<Rightarrow> switcher \<times> 'w world" where
  "switcher_handleOpen E base sw = (case sw of (s, w) \<Rightarrow>
     (if \<not> sw_open s \<and> sw_tenants s = [] then loadTenants E base (s\<lparr>sw_open := \<not> sw_open s\<rparr>, w) else (s\<lparr>sw_open := \<not> sw_open s\<rparr>, w)))"

text \<open>\<open>switchTenant\<close>; the page is reloaded afterwards.\<close>

definition switchTenant :: "string \<Rightarrow> switcher \<times> 'w world \<Rightarrow> switcher \<times> 'w world" where
  "switchTenant i sw = (case sw of (s, w) \<Rightarrow> (s\<lparr>sw_current := Some i, sw_open := False\<rparr>, set_item ''ggid_tenant_id'' i w))"

section \<open>The passkey prompt\<close>

datatype prompt_status = Idle | PromptLoading | PromptSuccess | PromptError

record passkey_prompt =
  pp_show :: bool
  pp_status :: prompt_status
  pp_error :: string

text \<open>The check at mount.  \<open>parse_int\<close> reads the leading integer of the stored time (\<^term>\<open>None\<close>: \<open>NaN\<close>, with which the
  comparison is false).\<close>

definition dismissed_recently :: "(string \<Rightarrow> int option) \<Rightarrow> int \<Rightarrow> string option \<Rightarrow> bool" where
  "dismissed_recently parse_int now_ms v = (present v \<and>
     (case parse_int (the v) of None \<Rightarrow> False | Some t \<Rightarrow> now_ms - t < 7 * 86400000))"

definition prompt_check ::
  "'w env \<Rightarrow> 'w authn \<Rightarrow> string \<Rightarrow> (string \<Rightarrow> int option) \<Rightarrow> passkey_prompt \<times> 'w world \<Rightarrow> passkey_prompt \<times> 'w world" where
  "prompt_check E A base parse_int pw = (case pw of (p, w) \<Rightarrow>
     if dismissed_recently parse_int (date_now E w) (local_store w ''passkey_prompt_dismissed'') then (p, w)
     else if \<not> pkc_defined A then (p, w)
     else if \<not> present (local_store w ''ggid_user_id'') then (p, w)
     else (case userHasPasskey E base (the (local_store w ''ggid_user_id'')) w of
         (has, w1) \<Rightarrow> (if has then p else p\<lparr>pp_show := True\<rparr>, w1)))"

definition handleBind :: "'w env \<Rightarrow> 'w authn \<Rightarrow> string \<Rightarrow> passkey_prompt \<times> 'w world \<Rightarrow> passkey_prompt \<times> 'w world" where
  "handleBind E A base pw = (case pw of (p, w) \<Rightarrow>
     (let token = item_or (local_store w ''ggid_access_token'') []; uid = item_or (local_store w ''ggid_user_id'') [] in
      if token = [] \<or> uid = [] then (p\<lparr>pp_status := PromptError, pp_error := ''Not logged in''\<rparr>, w)
      else (case offerPasskeyUpgrade E A base token uid w of
          (True, w1) \<Rightarrow> (p\<lparr>pp_status := PromptSuccess, pp_error := []\<rparr>, w1)
        | (False, w1) \<Rightarrow> (p\<lparr>pp_status := PromptError, pp_error := ''Passkey creation was cancelled or failed. Try again.''\<rparr>, w1))))"

text \<open>The timer that hides a successful prompt after three seconds.\<close>

definition prompt_hide :: "passkey_prompt \<Rightarrow> passkey_prompt" where
  "prompt_hide p = p\<lparr>pp_show := False\<rparr>"

definition handleDismiss :: "'w env \<Rightarrow> passkey_prompt \<times> 'w world \<Rightarrow> passkey_prompt \<times> 'w world" where
  "handleDismiss E pw = (case pw of (p, w) \<Rightarrow>
     (p\<lparr>pp_show := False\<rparr>, set_item ''passkey_prompt_dismissed'' (show_int (date_now E w)) w))"

section \<open>Arrays in answers\<close>

definition asArray :: "jsv \<Rightarrow> jsv list" where
  "asArray v = (case v of
      JArr vs \<Rightarrow> vs
    | JObj kvs \<Rightarrow> (case find is_array (map (js_opt_prop v) [''items'', ''data'', ''users'', ''roles'', ''tenants'', ''events'', ''organizations'']) of
        Some a \<Rightarrow> arr_items a | None \<Rightarrow> [])
    | _ \<Rightarrow> [])"

section \<open>Lemmas\<close>

subsection \<open>Notifications\<close>

lemma toast_add_items: "to_items (toast_add i ty m d T) = map (restart (to_now T)) (to_items T) @
    [\<lparr>ti_id = i, ti_type = ty, ti_message = m, ti_duration = d, ti_visible = True, ti_timer = Some (to_now T + d)\<rparr>]"
  by (simp add: toast_add_def render_items_def restart_def)

lemma toast_add_frame [simp]: "to_now (toast_add i ty m d T) = to_now T" "to_closing (toast_add i ty m d T) = to_closing T"
  by (simp_all add: toast_add_def render_items_def)

text \<open>The life of a single notification: waiting for its timer, fading out, gone.\<close>

inductive lonely :: "int \<Rightarrow> string \<Rightarrow> toaster \<Rightarrow> bool" for due i where
  shown: "to_items T = [x] \<Longrightarrow> ti_id x = i \<Longrightarrow> ti_timer x = Some due \<Longrightarrow> to_closing T = [] \<Longrightarrow> to_now T \<le> due \<Longrightarrow> lonely due i T"
| fading: "to_items T = [x] \<Longrightarrow> ti_id x = i \<Longrightarrow> ti_timer x = None \<Longrightarrow> to_closing T = [(due + 200, i)] \<Longrightarrow> to_now T \<le> due + 200 \<Longrightarrow> lonely due i T"
| gone: "to_items T = [] \<Longrightarrow> to_closing T = [] \<Longrightarrow> lonely due i T"

lemma lonely_step: "quiet_step T T' \<Longrightarrow> lonely due i T \<Longrightarrow> lonely due i T'"
proof (induction rule: quiet_step.induct)
  case (timer x T d)
  from timer(4) show ?case
  proof cases
    case (shown y)
    then have "to_now T = due" "x = y" using timer by auto
    then show ?thesis using shown
      by (intro lonely.fading[where x = "y\<lparr>ti_visible := False, ti_timer := None\<rparr>"]) (simp_all add: timer_fire_def)
  next
    case (fading y)
    then show ?thesis using timer by simp
  next
    case gone
    then show ?thesis using timer by simp
  qed
next
  case (close c T)
  from close(3) show ?case
  proof cases
    case (fading y)
    then show ?thesis using close by (intro lonely.gone) (auto simp: close_fire_def toast_remove_def render_items_def)
  next
    case (shown y)
    then show ?thesis using close by simp
  next
    case gone
    then show ?thesis using close by simp
  qed
next
  case (wait d T)
  from wait(3) show ?case
  proof cases
    case (shown x)
    then show ?thesis using wait by (intro lonely.shown) (auto simp: no_due_def)
  next
    case (fading x)
    then show ?thesis using wait by (intro lonely.fading) (auto simp: no_due_def)
  next
    case gone
    then show ?thesis by (intro lonely.gone) simp_all
  qed
qed

lemma lonely_run: "quiet_step\<^sup>*\<^sup>* T T' \<Longrightarrow> lonely due i T \<Longrightarrow> lonely due i T'"
  by (induction rule: rtranclp_induct) (auto intro: lonely_step)

lemma lonely_late: "lonely due i T \<Longrightarrow> due + 200 < to_now T \<Longrightarrow> to_items T = []"
  by (induction rule: lonely.induct) auto

text \<open>Notifications that arrive faster than they expire keep all earlier ones on the screen: after \<open>n\<close> more, one every three
  seconds, all of them are visible.\<close>

lemma toast_burst:
  "\<exists>T. toast_step\<^sup>*\<^sup>* toaster_init T \<and> to_now T = 3000 * int n \<and> length (to_items T) = Suc n \<and> to_closing T = [] \<and>
    list_all (\<lambda>x. ti_visible x \<and> ti_duration x = 4000 \<and> ti_timer x = Some (to_now T + 4000)) (to_items T)"
proof (induction n)
  case 0
  have "toast_step toaster_init (toast_add ''a'' Info [] 4000 toaster_init)" by (rule toast_step.add)
  then show ?case
    by (intro exI[of _ "toast_add ''a'' Info [] 4000 toaster_init"]) (auto simp: toast_add_items toaster_init_def)
next
  case (Suc n)
  then obtain T where T: "toast_step\<^sup>*\<^sup>* toaster_init T" "to_now T = 3000 * int n" "length (to_items T) = Suc n" "to_closing T = []"
    "list_all (\<lambda>x. ti_visible x \<and> ti_duration x = 4000 \<and> ti_timer x = Some (to_now T + 4000)) (to_items T)" by blast
  let ?T1 = "T\<lparr>to_now := to_now T + 3000\<rparr>" and ?T2 = "toast_add ''a'' Info [] 4000 (T\<lparr>to_now := to_now T + 3000\<rparr>)"
  have "no_due (to_now T + 3000) T" using T(4,5) by (simp add: no_due_def list_all_iff)
  then have "toast_step T ?T1" by (intro toast_step.quiet quiet_step.wait) simp_all
  moreover have "toast_step ?T1 ?T2" by (rule toast_step.add)
  ultimately have "toast_step\<^sup>*\<^sup>* toaster_init ?T2" using T(1) by (meson rtranclp.rtrancl_into_rtrancl)
  moreover have "list_all (\<lambda>x. ti_visible x \<and> ti_duration x = 4000 \<and> ti_timer x = Some (to_now ?T2 + 4000)) (to_items ?T2)"
    using T(5) by (auto simp: toast_add_items list_all_iff restart_def)
  ultimately show ?case using T by (intro exI[of _ ?T2]) (simp add: toast_add_items)
qed

subsection \<open>The dialog\<close>

lemma confirm_run_inv:
  "confirm_step\<^sup>*\<^sup>* confirm_init s \<Longrightarrow> length (cf_running s) \<le> 1 \<and> (cf_loading s \<longleftrightarrow> cf_running s \<noteq> [])"
proof (induction rule: rtranclp_induct)
  case base
  then show ?case by (simp add: confirm_init_def)
next
  case (step s t)
  from step.hyps(2) step.IH show ?case
    by (cases rule: confirm_step.cases)
      (auto simp: confirm_open_def handleConfirm_def handleCancel_def confirm_done_def le_Suc_eq length_Suc_conv)
qed

subsection \<open>Page numbers\<close>

lemma totalPages_pos [simp]: "1 \<le> totalPages tot ps"
  by (simp add: totalPages_def)

lemma page_of_item:
  assumes "0 < ps" "1 \<le> k" "k \<le> tot" "1 \<le> p"
  shows "page_start p ps \<le> k \<and> k \<le> page_end p ps tot \<longleftrightarrow> p = (k - 1) div ps + 1"
proof -
  obtain q j where q: "p = Suc q" "k = Suc j" using assms by (metis One_nat_def Suc_le_D)
  have "page_start p ps \<le> k \<and> k \<le> page_end p ps tot \<longleftrightarrow> q * ps \<le> j \<and> j < Suc q * ps"
    using assms q by (auto simp: page_start_def page_end_def)
  also have "\<dots> \<longleftrightarrow> j div ps = q"
    using assms(1) by (metis div_nat_eqI dividend_less_times_div mult.commute mult_Suc_right times_div_less_eq_dividend add.commute)
  finally show ?thesis using q by auto
qed

lemma item_page_exists:
  assumes "0 < ps" "1 \<le> k" "k \<le> tot"
  shows "(k - 1) div ps + 1 \<le> totalPages tot ps"
proof -
  have "(k - 1) div ps + 1 = (k - 1 + ps) div ps" using assms(1) by (simp only: div_add_self2)
  also have "\<dots> \<le> (tot + ps - 1) div ps" using assms by (intro div_le_mono) simp
  finally show ?thesis by (simp add: totalPages_def)
qed

subsection \<open>The palette\<close>

lemma assoc_append_fresh: "assoc k gs = None \<Longrightarrow> obj_set k v (gs @ [(k, u)]) = gs @ [(k, v)]"
  by (induction gs) (auto split: if_splits)

lemma assoc_None: "assoc k gs = None \<longleftrightarrow> k \<notin> fst ` set gs"
  by (induction gs) (auto split: if_splits)

lemma assoc_last: "assoc k gs = None \<Longrightarrow> assoc k (gs @ [(k, u)]) = Some u"
  by (induction gs) (auto split: if_splits)

lemma push_same_group:
  assumes "g \<notin> fst ` set gs" "list_all (\<lambda>c. cm_group c = g) cs"
  shows "foldl push_group (gs @ [(g, u)]) cs = gs @ [(g, u @ cs)]"
  using assms(2)
proof (induction cs arbitrary: u)
  case (Cons c cs)
  then have "push_group (gs @ [(g, u)]) c = gs @ [(g, u @ [c])]"
    using assms(1) by (simp add: push_group_def assoc_last assoc_append_fresh assoc_None)
  then show ?case using Cons by simp
qed simp

lemma push_block:
  assumes "g \<notin> fst ` set gs" "list_all (\<lambda>c. cm_group c = g) cs"
  shows "foldl push_group gs cs = gs @ (if cs = [] then [] else [(g, cs)])"
proof (cases cs)
  case (Cons c cs')
  have "push_group gs c = gs @ [(g, [c])]"
    using assms Cons by (simp add: push_group_def obj_set_fresh assoc_None[THEN iffD2])
  then show ?thesis using push_same_group[OF assms(1), of cs' "[c]"] assms(2) Cons by simp
qed simp

lemma push_blocks:
  assumes "distinct (map fst bs)" "list_all (\<lambda>(g, cs). list_all (\<lambda>c. cm_group c = g) cs) bs" "fst ` set gs \<inter> fst ` set bs = {}"
  shows "concat (map snd (foldl push_group gs (concat (map snd bs)))) = concat (map snd gs) @ concat (map snd bs)"
  using assms
proof (induction bs arbitrary: gs)
  case (Cons b bs)
  obtain g cs where b: "b = (g, cs)" by (cases b)
  have "foldl push_group gs cs = gs @ (if cs = [] then [] else [(g, cs)])"
    using Cons.prems b by (intro push_block) auto
  moreover have "concat (map snd (foldl push_group (gs @ (if cs = [] then [] else [(g, cs)])) (concat (map snd bs)))) =
      concat (map snd (gs @ (if cs = [] then [] else [(g, cs)]))) @ concat (map snd bs)"
    using Cons.prems b by (intro Cons.IH) (auto split: if_splits)
  ultimately show ?case using b by (auto split: if_splits)
qed simp

text \<open>The commands of one group stand together, so grouping and flattening changes nothing.\<close>

definition command_blocks :: "(string \<times> command_item list) list" where
  "command_blocks = map (\<lambda>g. (g, filter (\<lambda>c. cm_group c = g) ALL_COMMANDS))
     [''Overview'', ''Identity'', ''Security'', ''Audit'', ''Applications'', ''Settings'', ''Analytics'', ''Platform'', ''Account'']"

lemma commands_in_blocks: "ALL_COMMANDS = concat (map snd command_blocks)"
  by code_simp

lemma filter_blocks: "filter P (concat (map snd bs)) = concat (map snd (map (map_prod id (filter P)) bs))"
  by (induction bs) auto

lemma flat_filter: "concat (map snd (foldl push_group [] (filter P ALL_COMMANDS))) = filter P ALL_COMMANDS"
proof -
  let ?bs = "map (map_prod id (filter P)) command_blocks"
  have "map fst ?bs = map fst command_blocks" by simp
  moreover have "distinct (map fst command_blocks)" by code_simp
  ultimately have "distinct (map fst ?bs)" by simp
  moreover have "list_all (\<lambda>(g, cs). list_all (\<lambda>c. cm_group c = g) cs) ?bs"
    by (auto simp: command_blocks_def list_all_iff)
  ultimately have "concat (map snd (foldl push_group [] (concat (map snd ?bs)))) = concat (map snd ?bs)"
    using push_blocks[of ?bs "[]"] by simp
  then show ?thesis by (subst (1 2) commands_in_blocks) (simp only: filter_blocks)
qed

lemma flatList_filtered: "flatList query = palette_filtered query"
  using flat_filter[of "\<lambda>_. True"] by (auto simp: flatList_def palette_grouped_def palette_filtered_def Let_def flat_filter)

definition palette_ok :: "palette \<Rightarrow> bool" where
  "palette_ok p = (let n = int (length (flatList (cp_query p))) in
     (0 \<le> cp_selected p \<or> n = 0 \<and> cp_selected p = - 1) \<and> (cp_selected p < n \<or> n = 0 \<and> cp_selected p = 0))"

lemma commands_nonempty: "flatList [] \<noteq> []"
  unfolding flatList_filtered by code_simp

lemma palette_ok_open: "palette_ok p \<Longrightarrow> palette_ok (set_open b p)"
  using commands_nonempty by (auto simp: palette_ok_def set_open_def Let_def)

lemma palette_step_ok: "palette_step p p' \<Longrightarrow> palette_ok p \<Longrightarrow> palette_ok p'"
proof (induction rule: palette_step.induct)
  case (typed p q)
  then show ?case by (auto simp: palette_ok_def change_query_def Let_def)
next
  case (mouse p k)
  then show ?case by (auto simp: palette_ok_def mouse_enter_def Let_def)
next
  case (down p)
  then show ?case by (auto simp: palette_ok_def key_down_def Let_def)
next
  case (up p)
  then show ?case by (auto simp: palette_ok_def key_up_def Let_def)
next
  case (enter p)
  then show ?case using palette_ok_open[of p False] by (auto simp: key_enter_def palette_navigate_def Let_def)
qed (auto simp: palette_shortcut_def intro: palette_ok_open)

lemma palette_run_ok: "palette_step\<^sup>*\<^sup>* palette_init p \<Longrightarrow> palette_ok p"
proof (induction rule: rtranclp_induct)
  case base
  then show ?case using commands_nonempty by (simp add: palette_init_def palette_ok_def Let_def)
qed (auto intro: palette_step_ok)

section \<open>Properties\<close>

text \<open>A notification goes away: if one is shown on an empty screen and nothing else happens (no new one, no click), then at any
  time more than its duration and 200 milliseconds later it is gone, and such a time is reached.\<close>

lemma toast_dismissed:
  assumes "to_items T = []" "to_closing T = []" "0 < d"
  shows "(\<forall>T'. quiet_step\<^sup>*\<^sup>* (toast_add i ty m d T) T' \<longrightarrow> to_now T + d + 200 < to_now T' \<longrightarrow> to_items T' = []) \<and>
    (\<exists>T'. quiet_step\<^sup>*\<^sup>* (toast_add i ty m d T) T' \<and> to_now T' = to_now T + d + 200 \<and> to_items T' = [])"
proof (rule conjI, intro allI impI)
  have "to_items (toast_add i ty m d T) = [\<lparr>ti_id = i, ti_type = ty, ti_message = m, ti_duration = d, ti_visible = True,
      ti_timer = Some (to_now T + d)\<rparr>]" using assms by (simp add: toast_add_items)
  from lonely.shown[OF this] have "lonely (to_now T + d) i (toast_add i ty m d T)" using assms by simp
  then show "to_items T' = []" if "quiet_step\<^sup>*\<^sup>* (toast_add i ty m d T) T'" "to_now T + d + 200 < to_now T'" for T'
    using lonely_run[OF that(1)] that(2) by (intro lonely_late)
next
  let ?T0 = "toast_add i ty m d T"
  let ?T1 = "?T0\<lparr>to_now := to_now T + d\<rparr>" let ?T2 = "timer_fire i ?T1"
  let ?T3 = "?T2\<lparr>to_now := to_now T + d + 200\<rparr>" let ?T4 = "close_fire (to_now T + d + 200, i) ?T3"
  have "quiet_step ?T0 ?T1" using quiet_step.wait[of d ?T0] assms by (simp add: no_due_def toast_add_items)
  moreover have "quiet_step ?T1 ?T2"
    using quiet_step.timer[of "last (to_items ?T1)" ?T1 "to_now T + d"] assms by (simp add: toast_add_items)
  moreover have "quiet_step ?T2 ?T3"
    using quiet_step.wait[of 200 ?T2] assms by (simp add: no_due_def toast_add_items timer_fire_def)
  moreover have "quiet_step ?T3 ?T4"
    using assms by (intro quiet_step.close) (simp_all add: timer_fire_def)
  ultimately have "quiet_step\<^sup>*\<^sup>* ?T0 ?T4" by (meson converse_rtranclp_into_rtranclp rtranclp.rtrancl_refl)
  moreover have "to_items ?T4 = []" "to_now ?T4 = to_now T + d + 200"
    using assms by (simp_all add: close_fire_def toast_remove_def render_items_def timer_fire_def toast_add_items)
  ultimately show "\<exists>T'. quiet_step\<^sup>*\<^sup>* ?T0 T' \<and> to_now T' = to_now T + d + 200 \<and> to_items T' = []" by blast
qed

lemma toast_dismissed_example:
  "\<exists>T'. quiet_step\<^sup>*\<^sup>* (toast_add ''a'' Error ''failed'' 6000 toaster_init) T' \<and> to_now T' = 6200 \<and> to_items T' = []"
  using toast_dismissed[of toaster_init 6000 "''a''" Error "''failed''"] by (simp add: toaster_init_def)

text \<open>In every run of the confirmation dialog at most one confirmed action is under way and the dialog is marked as loading exactly
  then.  But a dialog can be dismissed while its action runs and another opened: for any two, there is a run after which the second is
  shown with its buttons disabled, and the end of the first action closes it unanswered.\<close>

lemma confirm_dialog_runs:
  "(confirm_step\<^sup>*\<^sup>* confirm_init s \<longrightarrow> length (cf_running s) \<le> 1 \<and> (cf_loading s \<longleftrightarrow> cf_running s \<noteq> [])) \<and>
   (\<exists>s1. confirm_step\<^sup>*\<^sup>* confirm_init s1 \<and> cf_dialog s1 = Some b \<and> cf_loading s1 \<and> cf_running s1 = [a] \<and>
     confirm_step s1 (confirm_done a s1) \<and> cf_dialog (confirm_done a s1) = None \<and> cf_running (confirm_done a s1) = [])"
proof (rule conjI)
  show "confirm_step\<^sup>*\<^sup>* confirm_init s \<longrightarrow> length (cf_running s) \<le> 1 \<and> (cf_loading s \<longleftrightarrow> cf_running s \<noteq> [])"
    using confirm_run_inv by blast
next
  let ?s1 = "confirm_open a confirm_init" let ?s2 = "handleConfirm ?s1" let ?s3 = "handleCancel ?s2" let ?s4 = "confirm_open b ?s3"
  note defs = confirm_init_def confirm_open_def handleConfirm_def handleCancel_def confirm_done_def
  have "confirm_step confirm_init ?s1" by (rule confirm_step.opened)
  moreover have "confirm_step ?s1 ?s2" by (rule confirm_step.confirmed) (simp_all add: defs)
  moreover have "confirm_step ?s2 ?s3" by (rule confirm_step.dismissed) (simp add: defs)
  moreover have "confirm_step ?s3 ?s4" by (rule confirm_step.opened)
  ultimately have "confirm_step\<^sup>*\<^sup>* confirm_init ?s4" by (meson converse_rtranclp_into_rtranclp rtranclp.rtrancl_refl)
  moreover have "confirm_step ?s4 (confirm_done a ?s4)" by (rule confirm_step.finished) (simp add: defs)
  ultimately show "\<exists>s1. confirm_step\<^sup>*\<^sup>* confirm_init s1 \<and> cf_dialog s1 = Some b \<and> cf_loading s1 \<and> cf_running s1 = [a] \<and>
     confirm_step s1 (confirm_done a s1) \<and> cf_dialog (confirm_done a s1) = None \<and> cf_running (confirm_done a s1) = []"
    by (intro exI[of _ ?s4]) (simp add: defs)
qed

lemma confirm_dialog_runs_example:
  "\<exists>s1. confirm_step\<^sup>*\<^sup>* confirm_init s1 \<and> cf_dialog s1 = Some ''delete role'' \<and> cf_running s1 = [''delete user''] \<and> cf_loading s1 \<and>
     length (cf_running s1) \<le> 1"
proof -
  obtain s1 where "confirm_step\<^sup>*\<^sup>* confirm_init s1" "cf_dialog s1 = Some ''delete role''" "cf_running s1 = [''delete user'']" "cf_loading s1"
    using confirm_dialog_runs[of _ "''delete role''" "''delete user''"] by blast
  then show ?thesis using confirm_dialog_runs[of s1] by blast
qed

text \<open>Page numbers: every item of a list is on exactly one page, and no button leads outside the pages.\<close>

lemma pagination_partition:
  assumes "0 < ps" "1 \<le> k" "k \<le> tot" "1 \<le> p" "p \<le> totalPages tot ps" "page_click b p ps tot = Some p'"
  shows "(\<exists>!q. 1 \<le> q \<and> q \<le> totalPages tot ps \<and> page_start q ps \<le> k \<and> k \<le> page_end q ps tot) \<and>
    1 \<le> p' \<and> p' \<le> totalPages tot ps"
proof (rule conjI)
  show "\<exists>!q. 1 \<le> q \<and> q \<le> totalPages tot ps \<and> page_start q ps \<le> k \<and> k \<le> page_end q ps tot"
    using page_of_item[OF assms(1-3)] item_page_exists[OF assms(1-3)]
    by (intro ex1I[of _ "(k - 1) div ps + 1"]) auto
  show "1 \<le> p' \<and> p' \<le> totalPages tot ps"
    using assms(4-6) totalPages_pos[of tot ps] by (cases b) (auto simp: page_click_def split: if_splits)
qed

lemma pagination_partition_example:
  "(\<exists>!q. 1 \<le> q \<and> q \<le> totalPages 45 20 \<and> page_start q 20 \<le> 41 \<and> 41 \<le> page_end q 20 45) \<and> totalPages 45 20 = 3"
proof -
  have "page_click NextPage 2 20 45 = Some 3" "2 \<le> totalPages 45 20" "totalPages 45 20 = 3" by code_simp+
  then show ?thesis using pagination_partition[of 20 41 45 2 NextPage 3] by simp
qed

text \<open>The palette lists every page for every user; the list is in the order of the table whatever is typed, Enter opens one of the
  listed pages whenever there are any, and which of them a user without an administrator role can stay on is decided by the guard
  alone: eight of the 45 pages, among them the platform dashboard \<open>/admin\<close>, which no rule of the guard covers.\<close>

lemma palette_and_guard:
  assumes "palette_step\<^sup>*\<^sup>* palette_init p" "flatList (cp_query p) \<noteq> []" "stores_scopes w ss"
    "\<not> list_ex platform_name ss" "\<not> list_ex guard_tenant_name ss"
  shows "flatList (cp_query p) = palette_filtered (cp_query p) \<and>
    (\<exists>c. c \<in> set (palette_filtered (cp_query p)) \<and> fst (key_enter p) = Some (cm_href c)) \<and>
    map cm_href (filter (\<lambda>c. route_check (cm_href c) w = Some True) (flatList [])) =
      [''/dashboard'', ''/sessions'', ''/access-requests'', ''/api-explorer'', ''/admin'', ''/profile'', ''/activity'', ''/onboarding'']"
proof (intro conjI)
  show "flatList (cp_query p) = palette_filtered (cp_query p)" by (rule flatList_filtered)
  have "0 \<le> cp_selected p \<and> cp_selected p < int (length (flatList (cp_query p)))"
    using palette_run_ok[OF assms(1)] assms(2) by (auto simp: palette_ok_def Let_def)
  then show "\<exists>c. c \<in> set (palette_filtered (cp_query p)) \<and> fst (key_enter p) = Some (cm_href c)"
    by (intro exI[of _ "flatList (cp_query p) ! nat (cp_selected p)"])
      (simp add: key_enter_def palette_navigate_def Let_def flatList_filtered nth_mem nat_less_iff)
  have r: "(route_check (cm_href c) w = Some True) = route_allowed (cm_href c) False False" for c
    using route_check_stored[OF assms(3)] assms(4,5) by simp
  have "map cm_href (filter (\<lambda>c. route_allowed (cm_href c) False False) (palette_filtered [])) =
      [''/dashboard'', ''/sessions'', ''/access-requests'', ''/api-explorer'', ''/admin'', ''/profile'', ''/activity'', ''/onboarding'']"
    by code_simp
  then show "map cm_href (filter (\<lambda>c. route_check (cm_href c) w = Some True) (flatList [])) =
      [''/dashboard'', ''/sessions'', ''/access-requests'', ''/api-explorer'', ''/admin'', ''/profile'', ''/activity'', ''/onboarding'']"
    unfolding r flatList_filtered .
qed

lemma palette_and_guard_example:
  "map cm_href (filter (\<lambda>c. route_check (cm_href c) (page [''ggid_user_scopes'' \<mapsto> json_stringify (JArr [JStr ''user''])] ()) = Some True) (flatList [])) =
      [''/dashboard'', ''/sessions'', ''/access-requests'', ''/api-explorer'', ''/admin'', ''/profile'', ''/activity'', ''/onboarding''] \<and>
   fst (key_enter palette_init) \<noteq> None"
proof -
  have s: "stores_scopes (page [''ggid_user_scopes'' \<mapsto> json_stringify (JArr [JStr ''user''])] ()) [''user'']"
    by (simp add: stores_scopes_def)
  have n: "\<not> list_ex platform_name [''user'']" "\<not> list_ex guard_tenant_name [''user'']" by code_simp+
  have e: "flatList (cp_query palette_init) \<noteq> []" using commands_nonempty by (simp add: palette_init_def)
  show ?thesis using palette_and_guard[OF rtranclp.rtrancl_refl e s n] by auto
qed

text \<open>A dismissed prompt stays away for seven days, if the clock can be read back from its decimal text.\<close>

lemma prompt_dismissal_lasts:
  assumes "parse_int (show_int (date_now E w)) = Some (date_now E w)" "show_int (date_now E w) \<noteq> []"
    and "handleDismiss E (p, w) = (p', w')" "date_now E' w'' < date_now E w + 7 * 86400000"
    and "local_store w'' ''passkey_prompt_dismissed'' = local_store w' ''passkey_prompt_dismissed''"
  shows "prompt_check E' A base parse_int (p', w'') = (p', w'') \<and> \<not> pp_show p'"
  using assms by (auto simp: handleDismiss_def prompt_check_def dismissed_recently_def present_def)

end
