(* ===== verification/Passwords.thy ===== *)
theory Passwords
  imports Api_Client
begin

text \<open>
  Passwords in the settings of the console: the strength tester and its configuration
  (\<open>console/src/app/settings/password-strength/page.tsx\<close>) and the password policy with its live check
  (\<open>console/src/app/settings/password/page.tsx\<close>).  Guesses and times are exact natural numbers where the code computes with
  floating point numbers; logarithms and quotients are rounded as \<open>Math.round\<close> does.
\<close>

section \<open>Character classes\<close>

definition char_in :: "nat \<Rightarrow> nat \<Rightarrow> char \<Rightarrow> bool" where
  "char_in a b c = (a \<le> of_char c \<and> of_char c \<le> b)"

definition has_lower :: "string \<Rightarrow> bool" where "has_lower pw = list_ex (char_in 97 122) pw"

definition has_upper :: "string \<Rightarrow> bool" where "has_upper pw = list_ex (char_in 65 90) pw"

definition has_digit :: "string \<Rightarrow> bool" where "has_digit pw = list_ex (char_in 48 57) pw"

definition has_special :: "string \<Rightarrow> bool" where
  "has_special pw = list_ex (\<lambda>c. \<not> char_in 97 122 c \<and> \<not> char_in 65 90 c \<and> \<not> char_in 48 57 c) pw"

definition charset_size :: "string \<Rightarrow> nat" where
  "charset_size pw = (if has_lower pw then 26 else 0) + (if has_upper pw then 26 else 0) + (if has_digit pw then 10 else 0) +
     (if has_special pw then 32 else 0)"

section \<open>The strength tester\<close>

definition COMMON :: "string list" where
  "COMMON = [''password'', ''123456'', ''qwerty'', ''admin'', ''welcome'', ''letmein'', ''monkey'', ''dragon'', ''master'', ''login'']"

definition SEQUENCES :: "string list" where
  "SEQUENCES = [''abcdefghijklmnopqrstuvwxyz'', ''0123456789'', ''qwertyuiop'', ''asdfghjkl'']"

text \<open>\<open>Math.round(len * Math.log2(c))\<close>, from the binary logarithm of the square.\<close>

fun ilog2 :: "nat \<Rightarrow> nat" where
  "ilog2 n = (if n < 2 then 0 else Suc (ilog2 (n div 2)))"

declare ilog2.simps [simp del]

definition entropy :: "nat \<Rightarrow> nat \<Rightarrow> nat" where
  "entropy len c = (ilog2 (c ^ (2 * len)) + 1) div 2"

text \<open>The loop over one sequence: \<open>substring\<close> stops at the end, so the last piece has three characters.\<close>

definition has_sequence :: "string \<Rightarrow> string \<Rightarrow> bool" where
  "has_sequence lower seq = list_ex (\<lambda>i. str_includes lower (take 4 (drop i seq))) [0..<length seq - 2]"

text \<open>\<open>/(.)\1{2,}/\<close>: the dot matches no line terminator.\<close>

fun has_repeat :: "string \<Rightarrow> bool" where
  "has_repeat (a # b # c # s) = ((a = b \<and> b = c \<and> a \<noteq> CHR 0x0A \<and> a \<noteq> CHR 0x0D) \<or> has_repeat (b # c # s))"
| "has_repeat _ = False"

definition patterns_of :: "string \<Rightarrow> string list" where
  "patterns_of pw = map (\<lambda>_. ''sequence'') (filter (has_sequence (to_lower pw)) SEQUENCES) @
     (if has_repeat pw then [''repeat''] else []) @
     (if list_ex (str_includes (to_lower pw)) COMMON then [''common''] else [])"

definition score_of :: "string \<Rightarrow> nat" where
  "score_of pw =
     (let len = length pw; cs = charset_size pw; pats = patterns_of pw;
          s1 = (if 8 \<le> len then 1 else 0) + (if 12 \<le> len \<and> 36 \<le> cs then 1 else 0) + (if 16 \<le> len \<and> 62 \<le> cs then 1 else 0) +
            (if pats = [] \<and> 60 \<le> entropy len (max cs 1) then 1 else 0);
          s2 = (if ''common'' \<in> set pats \<or> len < 6 then 0 else s1);
          s3 = (if 1 < length pats \<and> 1 < s2 then 1 else s2)
      in min 4 (max 0 s3))"

text \<open>\<open>Math.round(a / b)\<close>, and the time to try all guesses at ten billion a second.\<close>

definition round_div :: "nat \<Rightarrow> nat \<Rightarrow> nat" where
  "round_div a b = (2 * a + b) div (2 * b)"

definition GUESS_RATE :: nat where "GUESS_RATE = 10 ^ 10"

definition crack_time :: "nat \<Rightarrow> string" where
  "crack_time guesses =
     (let below = (\<lambda>secs. guesses < secs * GUESS_RATE); in_units = (\<lambda>secs. show_nat (round_div guesses (secs * GUESS_RATE))) in
      if below 1 then ''instant''
      else if below 60 then in_units 1 @ '' seconds''
      else if below 3600 then in_units 60 @ '' minutes''
      else if below 86400 then in_units 3600 @ '' hours''
      else if below 31536000 then in_units 86400 @ '' days''
      else if below (31536000 * 1000) then in_units 31536000 @ '' years''
      else if below (31536000 * 10 ^ 9) then in_units (31536000 * 1000) @ '' thousand years''
      else ''centuries'')"

definition warning_of :: "string \<Rightarrow> string" where
  "warning_of pw = (let pats = patterns_of pw in
     if ''common'' \<in> set pats then ''Contains a common password''
     else if ''sequence'' \<in> set pats then ''Contains a sequence''
     else if ''repeat'' \<in> set pats then ''Contains repeated characters'' else [])"

definition suggestions_of :: "string \<Rightarrow> string list" where
  "suggestions_of pw = (let pats = patterns_of pw; when = (\<lambda>b m. if b then [m] else []) in
     when (''common'' \<in> set pats) ''Avoid common words and patterns'' @
     when (''sequence'' \<in> set pats) ''Avoid sequences (abc, 123, qwerty)'' @
     when (''repeat'' \<in> set pats) ''Avoid repeated characters (aaa, 111)'' @
     when (length pw < 12) ''Use 12+ characters'' @
     when (\<not> has_upper pw) ''Add uppercase letters'' @
     when (\<not> has_digit pw) ''Add numbers'' @
     when (\<not> has_special pw) ''Add symbols (!@#$)'')"

record score_result =
  sr_score :: nat
  sr_guesses :: nat
  sr_crackTime :: string
  sr_entropy :: nat
  sr_warning :: string
  sr_suggestions :: "string list"
  sr_patterns :: "string list"

text \<open>The dash shown for an empty password is U+2014; its low byte stands for it.\<close>

definition dash :: string where "dash = [CHR 0x14]"

definition scorePassword :: "string \<Rightarrow> score_result" where
  "scorePassword pw =
     (if pw = [] then \<lparr>sr_score = 0, sr_guesses = 0, sr_crackTime = dash, sr_entropy = 0, sr_warning = [], sr_suggestions = [], sr_patterns = []\<rparr>
      else (let c = max (charset_size pw) 1; guesses = c ^ length pw in
        \<lparr>sr_score = score_of pw, sr_guesses = guesses, sr_crackTime = crack_time guesses, sr_entropy = entropy (length pw) c,
          sr_warning = warning_of pw, sr_suggestions = suggestions_of pw, sr_patterns = patterns_of pw\<rparr>))"

text \<open>The configuration tab: \<open>save\<close> does not look at the answer.\<close>

record strength_config =
  sc_minScore :: int
  sc_dict :: bool
  sc_breach :: bool
  sc_blocklist :: string
  sc_saving :: bool
  sc_msg :: "string option"

definition config_request :: "string \<Rightarrow> strength_config \<Rightarrow> 'w world \<Rightarrow> request" where
  "config_request base c w = \<lparr>url = base @ ''/api/v1/auth/password-policy/check'', meth = ''PUT'',
     hdrs = foldl (\<lambda>h (k, v). obj_set k v h) [(''Content-Type'', ''application/json'')] (authHeader w),
     rbody = Some (json_stringify (JObj [(''min_score'', JNum (sc_minScore c)), (''dictionary_check'', JBool (sc_dict c)),
       (''breach_check'', JBool (sc_breach c)),
       (''custom_blocklist'', JArr (map JStr (filter (\<lambda>s. s \<noteq> []) (split_on (CHR 0x0A) (sc_blocklist c)))))]))\<rparr>"

definition strength_save :: "'w env \<Rightarrow> string \<Rightarrow> string \<Rightarrow> strength_config \<times> 'w world \<Rightarrow> strength_config \<times> 'w world" where
  "strength_save E base saved_text cw = (case cw of (c, w) \<Rightarrow>
     (case fetch E (config_request base c w) w of (_, w1) \<Rightarrow> (c\<lparr>sc_saving := False, sc_msg := Some saved_text\<rparr>, w1)))"

section \<open>The password policy\<close>

record policy_config =
  pc_minLength :: int
  pc_upper :: bool
  pc_lower :: bool
  pc_digit :: bool
  pc_special :: bool
  pc_username :: bool
  pc_common :: bool
  pc_history :: int
  pc_expiry :: int
  pc_force :: bool

definition defaultConfig :: policy_config where
  "defaultConfig = \<lparr>pc_minLength = 12, pc_upper = True, pc_lower = True, pc_digit = True, pc_special = True, pc_username = True,
     pc_common = False, pc_history = 5, pc_expiry = 90, pc_force = False\<rparr>"

definition COMMON_PASSWORDS :: "string list" where
  "COMMON_PASSWORDS =
    [''password'', ''12345678'', ''qwerty'', ''abc123'', ''letmein'', ''admin'', ''welcome'', ''monkey'', ''dragon'', ''master'',
     ''sunshine'', ''iloveyou'', ''princess'', ''passw0rd'', ''football'', ''baseball'', ''superman'', ''trustno1'', ''hello123'', ''charlie'',
     ''00000000'', ''11111111'', ''12341234'', ''password1'', ''qwerty123'', ''welcome1'', ''admin123'', ''letmein1'', ''abc12345'', ''test1234'',
     ''iloveyou1'', ''welcome123'', ''1q2w3e4r'', ''passw0rd1'', ''princess1'', ''football1'', ''baseball1'', ''dragon1'', ''master1'', ''monkey1'',
     ''shadow'', ''michael'', ''jennifer'', ''jordan'', ''hunter'', ''robert'', ''andrew'', ''jessica'', ''harley'', ''ranger'',
     ''pepper'', ''ginger'', ''austin'', ''joshua'', ''thomas'']"

definition estimate_score :: "string \<Rightarrow> nat" where
  "estimate_score pw = (if pw = [] then 0 else
     (if 8 \<le> length pw then 1 else 0) + (if 12 \<le> length pw then 1 else 0) + (if 16 \<le> length pw then 1 else 0) +
     (if has_lower pw then 1 else 0) + (if has_upper pw then 1 else 0) + (if has_digit pw then 1 else 0) + (if has_special pw then 1 else 0))"

definition estimate_label :: "nat \<Rightarrow> string" where
  "estimate_label sc = (if sc \<le> 2 then ''Very Weak'' else if sc \<le> 3 then ''Weak'' else if sc \<le> 4 then ''Fair''
     else if sc \<le> 5 then ''Strong'' else ''Very Strong'')"

definition estimate_time :: "nat \<Rightarrow> string" where
  "estimate_time guesses =
     (let below = (\<lambda>secs. guesses < secs * GUESS_RATE); in_units = (\<lambda>secs. show_nat (round_div guesses (secs * GUESS_RATE))) in
      if below 1 then ''instant''
      else if below 60 then in_units 1 @ '' seconds''
      else if below 3600 then in_units 60 @ '' minutes''
      else if below 86400 then in_units 3600 @ '' hours''
      else if below 31536000 then in_units 86400 @ '' days''
      else if below (31536000 * 100) then in_units 31536000 @ '' years''
      else if below (31536000 * 10 ^ 6) then in_units (31536000 * 1000) @ ''K years''
      else ''centuries+'')"

text \<open>Score, label and time; the colour follows the label.\<close>

definition estimateStrength :: "string \<Rightarrow> nat \<times> string \<times> string" where
  "estimateStrength pw = (if pw = [] then (0, dash, dash)
     else (estimate_score pw, estimate_label (estimate_score pw), estimate_time (charset_size pw ^ length pw)))"

datatype policy_rule = MinLength | RequireUpper | RequireLower | RequireDigit | RequireSpecial | PreventUsername | PreventCommon

definition checkRule :: "policy_config \<Rightarrow> string \<Rightarrow> string \<Rightarrow> policy_rule \<Rightarrow> bool" where
  "checkRule c user pw r = (if pw = [] then False else (case r of
      MinLength \<Rightarrow> pc_minLength c \<le> int (length pw)
    | RequireUpper \<Rightarrow> has_upper pw
    | RequireLower \<Rightarrow> has_lower pw
    | RequireDigit \<Rightarrow> has_digit pw
    | RequireSpecial \<Rightarrow> has_special pw
    | PreventUsername \<Rightarrow> if \<not> pc_username c \<or> user = [] then True else \<not> str_includes (to_lower pw) (to_lower user)
    | PreventCommon \<Rightarrow> if \<not> pc_common c then True else to_lower pw \<notin> set COMMON_PASSWORDS))"

definition allRulesPass :: "policy_config \<Rightarrow> string \<Rightarrow> string \<Rightarrow> bool" where
  "allRulesPass c user pw =
     (let rules = [checkRule c user pw MinLength] @
            (if pc_upper c then [checkRule c user pw RequireUpper] else []) @
            (if pc_lower c then [checkRule c user pw RequireLower] else []) @
            (if pc_digit c then [checkRule c user pw RequireDigit] else []) @
            (if pc_special c then [checkRule c user pw RequireSpecial] else []) @
            (if pc_username c then [checkRule c user pw PreventUsername] else []) @
            (if pc_common c then [checkRule c user pw PreventCommon] else [])
      in if pw \<noteq> [] then list_all id rules else False)"

text \<open>The stored policy is a JSON object; \<open>{...defaultConfig, ...JSON.parse(stored)}\<close> takes from it what it has.  A stored number of
  another type than declared, which only an edited storage can hold, is read as the default.\<close>

definition policy_json :: "policy_config \<Rightarrow> jsv" where
  "policy_json c = JObj [(''min_length'', JNum (pc_minLength c)), (''require_uppercase'', JBool (pc_upper c)),
     (''require_lowercase'', JBool (pc_lower c)), (''require_digit'', JBool (pc_digit c)), (''require_special'', JBool (pc_special c)),
     (''prevent_username'', JBool (pc_username c)), (''prevent_common'', JBool (pc_common c)), (''history_count'', JNum (pc_history c)),
     (''expiry_days'', JNum (pc_expiry c)), (''force_change_on_next_login'', JBool (pc_force c))]"

definition num_or :: "jsv \<Rightarrow> string \<Rightarrow> int \<Rightarrow> int" where
  "num_or v k d = (case js_opt_prop v k of JNum n \<Rightarrow> n | _ \<Rightarrow> d)"

definition flag_or :: "jsv \<Rightarrow> string \<Rightarrow> bool \<Rightarrow> bool" where
  "flag_or v k d = (case js_opt_prop v k of JUndef \<Rightarrow> d | u \<Rightarrow> truthy u)"

definition merge_policy :: "jsv \<Rightarrow> policy_config" where
  "merge_policy v = (let d = defaultConfig in
     \<lparr>pc_minLength = num_or v ''min_length'' (pc_minLength d), pc_upper = flag_or v ''require_uppercase'' (pc_upper d),
      pc_lower = flag_or v ''require_lowercase'' (pc_lower d), pc_digit = flag_or v ''require_digit'' (pc_digit d),
      pc_special = flag_or v ''require_special'' (pc_special d), pc_username = flag_or v ''prevent_username'' (pc_username d),
      pc_common = flag_or v ''prevent_common'' (pc_common d), pc_history = num_or v ''history_count'' (pc_history d),
      pc_expiry = num_or v ''expiry_days'' (pc_expiry d), pc_force = flag_or v ''force_change_on_next_login'' (pc_force d)\<rparr>)"

record policy_page =
  po_config :: policy_config
  po_msg :: "string option"
  po_ok :: bool
  po_saving :: bool
  po_testPw :: string
  po_testUser :: string

definition policy_init :: policy_page where
  "policy_init = \<lparr>po_config = defaultConfig, po_msg = None, po_ok = True, po_saving = False, po_testPw = [], po_testUser = []\<rparr>"

definition POLICY_KEY :: string where "POLICY_KEY = ''ggid_password_policy''"

definition policy_mount :: "'w world \<Rightarrow> policy_page \<Rightarrow> policy_page" where
  "policy_mount w p = (if has_window w \<and> present (local_store w POLICY_KEY)
     then (case json_parse (the (local_store w POLICY_KEY)) of None \<Rightarrow> p | Some v \<Rightarrow> p\<lparr>po_config := merge_policy v\<rparr>) else p)"

definition policy_save :: "'w env \<Rightarrow> string \<Rightarrow> string \<Rightarrow> policy_page \<times> 'w world \<Rightarrow> policy_page \<times> 'w world" where
  "policy_save E base tenant pw = (case pw of (p, w) \<Rightarrow>
     (let body = json_stringify (policy_json (po_config p)) in
      case apiFetch E base tenant ''/api/v1/auth/password-policy'' \<lparr>o_method = Some ''PUT'', o_headers = [], o_body = Some body\<rparr> w of
        (Inr _, w1) \<Rightarrow> (p\<lparr>po_msg := Some ''Password policy saved to server'', po_ok := True, po_saving := False\<rparr>, set_item POLICY_KEY body w1)
      | (Inl _, w1) \<Rightarrow> (p\<lparr>po_msg := Some (''Endpoint unavailable '' @ dash @ '' saved to localStorage''), po_ok := False, po_saving := False\<rparr>,
          set_item POLICY_KEY body w1)))"

definition policy_reset :: "policy_page \<times> 'w world \<Rightarrow> policy_page \<times> 'w world" where
  "policy_reset pw = (case pw of (p, w) \<Rightarrow>
     (p\<lparr>po_config := defaultConfig, po_testPw := [], po_testUser := [], po_msg := Some ''Policy reset to defaults'', po_ok := True\<rparr>,
      remove_item POLICY_KEY w))"

section \<open>Lemmas\<close>

lemma ilog2_lower: "2 ^ k \<le> n \<Longrightarrow> k \<le> ilog2 n"
proof (induction k arbitrary: n)
  case (Suc k)
  have "1 \<le> (2::nat) ^ k" by simp
  then have "2 \<le> n" using Suc.prems unfolding power_Suc by linarith
  moreover have "2 ^ k \<le> n div 2" using Suc.prems by simp
  ultimately show ?case using Suc.IH[of "n div 2"] by (subst ilog2.simps) simp
qed simp

lemma entropy_enough: "16 \<le> len \<Longrightarrow> 62 \<le> c \<Longrightarrow> 60 \<le> entropy len c"
proof -
  assume a: "16 \<le> len" "62 \<le> c"
  have "(2::nat) ^ 119 \<le> 62 ^ 32" by simp
  also have "\<dots> \<le> c ^ 32" by (rule power_mono[OF a(2)]) simp
  also have "\<dots> \<le> c ^ (2 * len)" using a by (intro power_increasing) auto
  finally show ?thesis using ilog2_lower[of 119 "c ^ (2 * len)"] by (simp add: entropy_def)
qed

lemma flag_mono: "(b \<Longrightarrow> b') \<Longrightarrow> (if b then 1 else 0) \<le> (if b' then 1 else (0::nat))"
  by simp

lemma estimate_score_mono:
  assumes "set pw \<subseteq> set t" "length pw \<le> length t"
  shows "estimate_score pw \<le> estimate_score t"
proof (cases "pw = []")
  case False
  then have "t \<noteq> []" using assms(1) by auto
  have cls: "list_ex P t" if "list_ex P pw" for P using that assms(1) by (auto simp: list_ex_iff)
  show ?thesis unfolding estimate_score_def has_lower_def has_upper_def has_digit_def has_special_def if_not_P[OF False] if_not_P[OF \<open>t \<noteq> []\<close>]
    by (intro add_mono flag_mono) (use assms(2) cls in auto)
qed (simp add: estimate_score_def)

lemma estimate_fst: "fst (estimateStrength pw) = estimate_score pw"
  by (simp add: estimateStrength_def estimate_score_def)

lemma sequence_found: "''sequence'' \<in> set (patterns_of pw) \<longleftrightarrow> list_ex (has_sequence (to_lower pw)) SEQUENCES"
  by (auto simp: patterns_of_def list_ex_iff)

lemma has_sequence_iff:
  assumes "3 \<le> length seq"
  shows "has_sequence lower seq = (list_ex (\<lambda>i. str_includes lower (take 4 (drop i seq))) [0..<length seq - 3] \<or>
    str_includes lower (drop (length seq - 3) seq))"
proof -
  have "length seq - 2 = Suc (length seq - 3)" using assms by simp
  then have "[0..<length seq - 2] = [0..<length seq - 3] @ [length seq - 3]" by (simp only: upt_Suc_append[OF le0])
  moreover have "take 4 (drop (length seq - 3) seq) = drop (length seq - 3) seq" using assms by simp
  ultimately show ?thesis by (simp add: has_sequence_def)
qed

lemma list_ex_or: "list_ex (\<lambda>x. P x \<or> Q x) xs \<longleftrightarrow> list_ex P xs \<or> list_ex Q xs"
  by (induction xs) auto

text \<open>The sequences its own advice names are not found.\<close>

lemma short_sequences_missed: "patterns_of ''K-abc-Z'' = []" "patterns_of ''K-123-Z'' = []" "patterns_of ''K-xyz-Z'' = [''sequence'']"
  by code_simp+

lemma policy_merge: "merge_policy (policy_json c) = c"
  by (simp add: merge_policy_def policy_json_def num_or_def flag_or_def Let_def)

lemma policy_parse: "json_parse (json_stringify (policy_json c)) = Some (policy_json c)" "json_stringify (policy_json c) \<noteq> []"
proof -
  have "json_clean (policy_json c)" by (simp add: policy_json_def)
  then show "json_parse (json_stringify (policy_json c)) = Some (policy_json c)" by (rule json_stringify_clean)
  show "json_stringify (policy_json c) \<noteq> []" by (simp add: policy_json_def json_stringify_def)
qed

text \<open>The configuration tab reports success for every answer and for none.\<close>

lemma strength_save_blind: "sc_msg (fst (strength_save E base saved_text cw)) = Some saved_text"
  by (simp add: strength_save_def split: prod.splits)

section \<open>Properties\<close>

text \<open>The best score is given exactly to passwords of at least sixteen characters from a character set of at least 62
  in which no pattern is found; the test of the entropy never decides.\<close>

lemma score_four_iff: "sr_score (scorePassword pw) = 4 \<longleftrightarrow> 16 \<le> length pw \<and> 62 \<le> charset_size pw \<and> patterns_of pw = []"
proof (cases "pw = []")
  case False
  show ?thesis
  proof
    assume "16 \<le> length pw \<and> 62 \<le> charset_size pw \<and> patterns_of pw = []"
    then show "sr_score (scorePassword pw) = 4"
      using False entropy_enough[of "length pw" "max (charset_size pw) 1"] by (simp add: scorePassword_def Let_def score_of_def)
  next
    assume "sr_score (scorePassword pw) = 4"
    then show "16 \<le> length pw \<and> 62 \<le> charset_size pw \<and> patterns_of pw = []"
      using False by (auto simp: scorePassword_def Let_def score_of_def min_def split: if_splits)
  qed
qed (simp add: scorePassword_def)

text \<open>Which sequences the tester finds: a piece of four consecutive characters of one of its sequences, or the last three of
  one; three letters elsewhere, \<open>abc\<close> and \<open>123\<close> of its own advice, pass.\<close>

lemma sequence_detected_iff:
  "''sequence'' \<in> set (sr_patterns (scorePassword pw)) \<longleftrightarrow>
     list_ex (\<lambda>seq. list_ex (\<lambda>i. str_includes (to_lower pw) (take 4 (drop i seq))) [0..<length seq - 3]) SEQUENCES \<or>
     list_ex (str_includes (to_lower pw)) [''xyz'', ''789'', ''iop'', ''jkl'']"
proof (cases "pw = []")
  case False
  have len: "list_all (\<lambda>seq. 3 \<le> length seq) SEQUENCES" by code_simp
  have tails: "map (\<lambda>seq. drop (length seq - 3) seq) SEQUENCES = [''xyz'', ''789'', ''iop'', ''jkl'']" by code_simp
  let ?Q = "\<lambda>seq. list_ex (\<lambda>i. str_includes (to_lower pw) (take 4 (drop i seq))) [0..<length seq - 3] \<or>
      str_includes (to_lower pw) (drop (length seq - 3) seq)"
  have "list_ex (has_sequence (to_lower pw)) SEQUENCES = list_ex ?Q SEQUENCES"
    using len by (intro list_ex_cong refl) (simp add: list_all_iff has_sequence_iff)
  then have "''sequence'' \<in> set (patterns_of pw) \<longleftrightarrow>
      list_ex (\<lambda>seq. list_ex (\<lambda>i. str_includes (to_lower pw) (take 4 (drop i seq))) [0..<length seq - 3]) SEQUENCES \<or>
      list_ex (str_includes (to_lower pw)) (map (\<lambda>seq. drop (length seq - 3) seq) SEQUENCES)"
    unfolding sequence_found list_ex_or by (simp add: list_ex_iff)
  then show ?thesis using False by (simp add: scorePassword_def Let_def tails)
next
  case True
  then show ?thesis by (simp add: scorePassword_def) code_simp
qed

text \<open>The policy page never rates a password lower for having more characters: adding to either end keeps or raises
  the score.\<close>

lemma estimate_monotone:
  "fst (estimateStrength pw) \<le> fst (estimateStrength (pw @ s)) \<and> fst (estimateStrength pw) \<le> fst (estimateStrength (s @ pw)) \<and>
   fst (estimateStrength pw) \<le> 7"
proof -
  have "estimate_score pw \<le> 1 + 1 + 1 + 1 + 1 + 1 + 1"
  proof (cases "pw = []")
    case False
    show ?thesis unfolding estimate_score_def if_not_P[OF False] by (intro add_mono) auto
  qed (simp add: estimate_score_def)
  then show ?thesis by (simp add: estimate_fst estimate_score_mono)
qed

text \<open>The live check accepts a password exactly if it is not empty, has the minimum length, and satisfies each rule that is
  switched on.\<close>

lemma allRulesPass_iff:
  "allRulesPass c user pw \<longleftrightarrow> pw \<noteq> [] \<and> pc_minLength c \<le> int (length pw) \<and> (\<not> pc_upper c \<or> has_upper pw) \<and> (\<not> pc_lower c \<or> has_lower pw) \<and>
     (\<not> pc_digit c \<or> has_digit pw) \<and> (\<not> pc_special c \<or> has_special pw) \<and>
     (\<not> pc_username c \<or> user = [] \<or> \<not> str_includes (to_lower pw) (to_lower user)) \<and>
     (\<not> pc_common c \<or> to_lower pw \<notin> set COMMON_PASSWORDS)"
  by (auto simp: allRulesPass_def checkRule_def Let_def)

lemma allRulesPass_iff_example:
  "allRulesPass defaultConfig ''ann'' ''Correct-Horse-7'' \<and> \<not> allRulesPass defaultConfig ''ann'' ''Susannah-Horse-7''"
proof -
  have u: "has_upper ''Correct-Horse-7''" "has_lower ''Correct-Horse-7''" "has_digit ''Correct-Horse-7''" "has_special ''Correct-Horse-7''"
    "\<not> str_includes (to_lower ''Correct-Horse-7'') (to_lower ''ann'')" "str_includes (to_lower ''Susannah-Horse-7'') (to_lower ''ann'')"
    by code_simp+
  then show ?thesis unfolding allRulesPass_iff by (simp add: defaultConfig_def)
qed

text \<open>The saved policy is the one the page shows after a reload, whether the server accepted it or not, and regardless of what
  the server holds: the page reads only its local copy.\<close>

lemma policy_save_reload:
  assumes "policy_save E base tenant (p, w) = (p', w')" "has_window w'"
  shows "po_config (policy_mount w' policy_init) = po_config p \<and> po_config p' = po_config p \<and>
    po_ok p' = (case fst (apiFetch E base tenant ''/api/v1/auth/password-policy''
       \<lparr>o_method = Some ''PUT'', o_headers = [], o_body = Some (json_stringify (policy_json (po_config p)))\<rparr> w) of Inl _ \<Rightarrow> False | Inr _ \<Rightarrow> True)"
proof -
  have st: "local_store w' POLICY_KEY = Some (json_stringify (policy_json (po_config p)))" "po_config p' = po_config p"
    using assms(1) by (auto simp: policy_save_def Let_def split: prod.splits sum.splits)
  have "policy_mount w' policy_init = policy_init\<lparr>po_config := po_config p\<rparr>"
    using assms(2) policy_parse[of "po_config p"] by (simp add: policy_mount_def st present_def policy_merge)
  then show ?thesis using st assms(1) by (auto simp: policy_save_def Let_def split: prod.splits sum.splits)
qed

lemma policy_save_reload_example:
  "let pw = policy_save (always NetError) ''b'' ''t'' (policy_init\<lparr>po_config := defaultConfig\<lparr>pc_minLength := 20\<rparr>\<rparr>, blank_world) in
   pc_minLength (po_config (policy_mount (snd pw) policy_init)) = 20"
proof -
  let ?p = "policy_init\<lparr>po_config := defaultConfig\<lparr>pc_minLength := 20\<rparr>\<rparr>"
  let ?pw = "policy_save (always NetError) ''b'' ''t'' (?p, blank_world)"
  have "has_window (snd ?pw)"
    by (simp add: policy_save_def Let_def apiFetch_def fetch_def always_def blank_world_def split: prod.splits sum.splits)
  then show ?thesis using policy_save_reload[of "always NetError" "''b''" "''t''" ?p blank_world "fst ?pw" "snd ?pw"] by (simp add: Let_def)
qed

end
