(* ===== verification/Import_Wizard.thy ===== *)
theory Import_Wizard
  imports User_Import
begin

text \<open>
  The state of the user import wizard (\<open>console/src/app/users/import/page.tsx\<close>) around the functions of
  \<open>User_Import\<close>: five steps, uploading and pasting, the dry run, the import and \<open>Reset\<close>.  Reading a file, the dry run (it
  waits for 400 milliseconds) and the import (it awaits one request per row) go on beside what the user does, each with the data
  of the render in which it was started, so the wizard is a step relation whose state has the reads, dry runs and imports
  under way.  \<open>csvText\<close> is written and never read.  Names of files and the sizes of their contents are given by the browser.
\<close>

section \<open>State\<close>

datatype import_status = Idle | Importing | Done

text \<open>What a render of the page hands to \<open>runFullValidation\<close> and \<open>startImport\<close>.\<close>

record dataset =
  ds_headers :: "string list"
  ds_rows :: "string list list"
  ds_mapping :: column_map

text \<open>An import under way: its data, the errors of its rows, the number of rows done, its counters.\<close>

record import_run =
  ir_data :: dataset
  ir_next :: nat
  ir_stats :: import_stats

record wizard =
  wz_step :: nat
  wz_fileName :: "string option"
  wz_fileSize :: nat
  wz_csvText :: string
  wz_pasteText :: string
  wz_dragOver :: bool
  wz_data :: dataset
  wz_validating :: bool
  wz_result :: "validation_result option"
  wz_status :: import_status
  wz_progress :: nat
  wz_stats :: import_stats
  wz_reads :: "string list"
  wz_checks :: "dataset list"
  wz_imports :: "import_run list"

definition no_stats :: import_stats where
  "no_stats = \<lparr>is_created = 0, is_skipped = 0, is_failed = 0\<rparr>"

definition no_data :: dataset where
  "no_data = \<lparr>ds_headers = [], ds_rows = [], ds_mapping = []\<rparr>"

definition wizard_init :: wizard where
  "wizard_init = \<lparr>wz_step = 0, wz_fileName = None, wz_fileSize = 0, wz_csvText = [], wz_pasteText = [], wz_dragOver = False,
     wz_data = no_data, wz_validating = False, wz_result = None, wz_status = Idle, wz_progress = 0, wz_stats = no_stats,
     wz_reads = [], wz_checks = [], wz_imports = []\<rparr>"

section \<open>Uploading\<close>

definition parsed_data :: "string \<Rightarrow> dataset" where
  "parsed_data text' = (case parseCsvText text' of (hs, rs) \<Rightarrow>
     \<lparr>ds_headers = hs, ds_rows = rs, ds_mapping = autoDetectMapping hs\<rparr>)"

definition processFile :: "string \<Rightarrow> nat \<Rightarrow> string \<Rightarrow> wizard \<Rightarrow> wizard" where
  "processFile name sz text' s = s\<lparr>wz_fileName := Some name, wz_fileSize := sz, wz_reads := wz_reads s @ [text']\<rparr>"

text \<open>\<open>reader.onload\<close>.\<close>

definition file_loaded :: "string \<Rightarrow> wizard \<Rightarrow> wizard" where
  "file_loaded text' s = s\<lparr>wz_csvText := text', wz_data := parsed_data text', wz_reads := remove1 text' (wz_reads s)\<rparr>"

text \<open>The file of the event, if there is one: its name, size and contents.\<close>

definition handleFileInput :: "(string \<times> nat \<times> string) option \<Rightarrow> wizard \<Rightarrow> wizard" where
  "handleFileInput file s = (case file of None \<Rightarrow> s | Some (n, z, c) \<Rightarrow> processFile n z c s)"

definition ends_with :: "string \<Rightarrow> string \<Rightarrow> bool" where
  "ends_with s t = suffix t s"

definition import_drop :: "(string \<times> nat \<times> string) option \<Rightarrow> wizard \<Rightarrow> wizard" where
  "import_drop file s0 = (let s = s0\<lparr>wz_dragOver := False\<rparr> in
     case file of None \<Rightarrow> s | Some (n, z, c) \<Rightarrow> if ends_with n ''.csv'' then processFile n z c s else s)"

text \<open>\<open>new Blob([text]).size\<close>: the bytes of the text in UTF-8.\<close>

definition blob_size :: "string \<Rightarrow> nat" where
  "blob_size t = sum_list (map (\<lambda>c. if (of_char c :: nat) < 128 then 1 else 2) t)"

definition handlePasteSubmit :: "wizard \<Rightarrow> wizard" where
  "handlePasteSubmit s = (let t = trim (wz_pasteText s) in
     if t = [] then s
     else s\<lparr>wz_csvText := t, wz_fileName := Some ''pasted-data.csv'', wz_fileSize := blob_size t, wz_data := parsed_data t,
            wz_step := 1\<rparr>)"

section \<open>Mapping, dry run and import\<close>

definition change_mapping :: "string \<Rightarrow> string \<Rightarrow> wizard \<Rightarrow> wizard" where
  "change_mapping h k s = s\<lparr>wz_data := (wz_data s)\<lparr>ds_mapping := handleMappingChange h k (ds_mapping (wz_data s))\<rparr>\<rparr>"

definition start_validation :: "wizard \<Rightarrow> wizard" where
  "start_validation s = s\<lparr>wz_validating := True, wz_checks := wz_checks s @ [wz_data s]\<rparr>"

definition dry_run :: "dataset \<Rightarrow> validation_result" where
  "dry_run d = runFullValidation (ds_rows d) (ds_headers d) (ds_mapping d)"

definition validation_done :: "dataset \<Rightarrow> wizard \<Rightarrow> wizard" where
  "validation_done d s = s\<lparr>wz_result := Some (dry_run d), wz_validating := False, wz_checks := remove1 d (wz_checks s)\<rparr>"

definition data_errors :: "dataset \<Rightarrow> row_error list" where
  "data_errors d = allRowErrors (ds_headers d) (ds_rows d) (ds_mapping d)"

definition import_click :: "wizard \<Rightarrow> wizard" where
  "import_click s = s\<lparr>wz_status := Importing, wz_progress := 0,
     wz_imports := wz_imports s @ [\<lparr>ir_data = wz_data s, ir_next = 0, ir_stats = no_stats\<rparr>]\<rparr>"

text \<open>One round of the loop of \<open>startImport\<close>: row \<open>ir_next\<close> is skipped or sent, and the counters are shown.\<close>

definition import_row :: "'w env \<Rightarrow> string \<Rightarrow> string \<Rightarrow> import_run \<Rightarrow> 'w world \<Rightarrow> import_run \<times> 'w world" where
  "import_row E base tenant r w =
     (let d = ir_data r; i = ir_next r; st = ir_stats r in
      if list_ex (\<lambda>e. re_row e = i + 2) (data_errors d)
      then (r\<lparr>ir_next := Suc i, ir_stats := st\<lparr>is_skipped := Suc (is_skipped st)\<rparr>\<rparr>, w)
      else (case apiFetch E base tenant ''/api/v1/users'' (import_options (ds_rows d ! i) (ds_headers d) (ds_mapping d)) w of
         (Inl _, w1) \<Rightarrow> (r\<lparr>ir_next := Suc i, ir_stats := st\<lparr>is_failed := Suc (is_failed st)\<rparr>\<rparr>, w1)
       | (Inr _, w1) \<Rightarrow> (r\<lparr>ir_next := Suc i, ir_stats := st\<lparr>is_created := Suc (is_created st)\<rparr>\<rparr>, w1)))"

definition replace_run :: "import_run \<Rightarrow> import_run \<Rightarrow> import_run list \<Rightarrow> import_run list" where
  "replace_run r r' rs = remove1 r rs @ [r']"

definition import_progress :: "'w env \<Rightarrow> string \<Rightarrow> string \<Rightarrow> import_run \<Rightarrow> wizard \<times> 'w world \<Rightarrow> wizard \<times> 'w world" where
  "import_progress E base tenant r sw = (case sw of (s, w) \<Rightarrow> (case import_row E base tenant r w of (r', w') \<Rightarrow>
     (s\<lparr>wz_stats := ir_stats r', wz_progress := ir_next r', wz_imports := replace_run r r' (wz_imports s)\<rparr>, w')))"

definition import_done :: "import_run \<Rightarrow> wizard \<Rightarrow> wizard" where
  "import_done r s = s\<lparr>wz_status := Done, wz_imports := remove1 r (wz_imports s)\<rparr>"

text \<open>\<open>reset\<close> leaves \<open>dragOver\<close> and \<open>validating\<close> as they are, and stops nothing that is under way.\<close>

definition reset_wizard :: "wizard \<Rightarrow> wizard" where
  "reset_wizard s = s\<lparr>wz_step := 0, wz_fileName := None, wz_fileSize := 0, wz_csvText := [], wz_pasteText := [],
     wz_data := no_data, wz_result := None, wz_status := Idle, wz_progress := 0, wz_stats := no_stats\<rparr>"

section \<open>Moving between the steps\<close>

definition can_go :: "wizard \<Rightarrow> bool" where
  "can_go s = canProceed (ds_headers (wz_data s)) (ds_rows (wz_data s)) (ds_mapping (wz_data s)) (wz_step s)"

definition click_step :: "nat \<Rightarrow> wizard \<Rightarrow> wizard" where
  "click_step i s = (if i \<le> wz_step s then s\<lparr>wz_step := i\<rparr> else s)"

definition click_back :: "wizard \<Rightarrow> wizard" where
  "click_back s = (if wz_step s < 4 then s\<lparr>wz_step := wz_step s - 1\<rparr> else s)"

definition click_next :: "wizard \<Rightarrow> wizard" where
  "click_next s = (if wz_step s < 3 \<and> can_go s then s\<lparr>wz_step := Suc (wz_step s)\<rparr> else s)"

definition click_proceed :: "wizard \<Rightarrow> wizard" where
  "click_proceed s = (if wz_step s = 3 \<and> wz_result s \<noteq> None then s\<lparr>wz_step := 4\<rparr> else s)"

text \<open>What is rendered says which handler can be called: a file and pasted text at step 0, the mapping at
  step 1, the button of the dry run at step 3 as long as there is no result, the button of the import at step 4 before the
  import; \<open>Reset\<close> and the bar of the steps always.\<close>

inductive wizard_step :: "'w env \<Rightarrow> string \<Rightarrow> string \<Rightarrow> wizard \<times> 'w world \<Rightarrow> wizard \<times> 'w world \<Rightarrow> bool" for E base tenant where
  wz_pick: "wz_step s = 0 \<Longrightarrow> wizard_step E base tenant (s, w) (handleFileInput f s, w)"
| wz_dropped: "wz_step s = 0 \<Longrightarrow> wizard_step E base tenant (s, w) (import_drop f s, w)"
| wz_drag: "wz_step s = 0 \<Longrightarrow> wizard_step E base tenant (s, w) (s\<lparr>wz_dragOver := b\<rparr>, w)"
| wz_read: "t \<in> set (wz_reads s) \<Longrightarrow> wizard_step E base tenant (s, w) (file_loaded t s, w)"
| wz_paste: "wz_step s = 0 \<Longrightarrow> wizard_step E base tenant (s, w) (s\<lparr>wz_pasteText := t\<rparr>, w)"
| wz_pasted: "wz_step s = 0 \<Longrightarrow> wizard_step E base tenant (s, w) (handlePasteSubmit s, w)"
| wz_mapped: "wz_step s = 1 \<Longrightarrow> wizard_step E base tenant (s, w) (change_mapping h k s, w)"
| wz_check: "wz_step s = 3 \<Longrightarrow> wz_result s = None \<Longrightarrow> \<not> wz_validating s \<Longrightarrow> wizard_step E base tenant (s, w) (start_validation s, w)"
| wz_checked: "d \<in> set (wz_checks s) \<Longrightarrow> wizard_step E base tenant (s, w) (validation_done d s, w)"
| wz_start: "wz_step s = 4 \<Longrightarrow> wz_status s = Idle \<Longrightarrow> wizard_step E base tenant (s, w) (import_click s, w)"
| wz_row: "r \<in> set (wz_imports s) \<Longrightarrow> ir_next r < length (ds_rows (ir_data r)) \<Longrightarrow>
    wizard_step E base tenant (s, w) (import_progress E base tenant r (s, w))"
| wz_finish: "r \<in> set (wz_imports s) \<Longrightarrow> ir_next r = length (ds_rows (ir_data r)) \<Longrightarrow>
    wizard_step E base tenant (s, w) (import_done r s, w)"
| wz_reset: "wizard_step E base tenant (s, w) (reset_wizard s, w)"
| wz_bar: "wizard_step E base tenant (s, w) (click_step i s, w)"
| wz_back: "wizard_step E base tenant (s, w) (click_back s, w)"
| wz_next: "wizard_step E base tenant (s, w) (click_next s, w)"
| wz_proceed: "wizard_step E base tenant (s, w) (click_proceed s, w)"

inductive_cases wizard_stepE: "wizard_step E base tenant p q"

section \<open>Lemmas\<close>

lemmas wizard_ops = handleFileInput_def processFile_def import_drop_def file_loaded_def handlePasteSubmit_def change_mapping_def
  start_validation_def validation_done_def import_click_def import_progress_def import_done_def reset_wizard_def click_step_def
  click_back_def click_next_def click_proceed_def

text \<open>The counters of an import account for the rows it has done.\<close>

definition run_ok :: "import_run \<Rightarrow> bool" where
  "run_ok r = (is_created (ir_stats r) + is_skipped (ir_stats r) + is_failed (ir_stats r) = ir_next r \<and>
     ir_next r \<le> length (ds_rows (ir_data r)))"

definition wizard_inv :: "wizard \<Rightarrow> bool" where
  "wizard_inv s = (wz_step s \<le> 4 \<and> (wz_step s = 4 \<longrightarrow> wz_result s \<noteq> None) \<and> (wz_validating s \<longleftrightarrow> wz_checks s \<noteq> []) \<and>
     length (wz_checks s) \<le> 1 \<and> list_all run_ok (wz_imports s) \<and> (\<forall>v. wz_result s = Some v \<longrightarrow> (\<exists>d. v = dry_run d)))"

lemma import_row_data [simp]: "ir_data (fst (import_row E base tenant r w)) = ir_data r"
  by (auto simp: import_row_def Let_def split: prod.splits sum.splits)

lemma import_row_ok:
  assumes "run_ok r" "ir_next r < length (ds_rows (ir_data r))"
  shows "run_ok (fst (import_row E base tenant r w))"
  using assms by (auto simp: run_ok_def import_row_def Let_def split: prod.splits sum.splits)

lemma run_ok_start: "run_ok \<lparr>ir_data = d, ir_next = 0, ir_stats = no_stats\<rparr>"
  by (simp add: run_ok_def no_stats_def)

lemma list_all_remove1: "list_all P xs \<Longrightarrow> list_all P (remove1 x xs)"
  using set_remove1_subset[of x xs] by (auto simp: list_all_iff)

lemma remove1_single: "length xs \<le> 1 \<Longrightarrow> x \<in> set xs \<Longrightarrow> remove1 x xs = []"
  by (cases xs) auto

lemma wizard_step_inv:
  assumes "wizard_step E base tenant p q" "wizard_inv (fst p)"
  shows "wizard_inv (fst q)"
  using assms
proof (cases rule: wizard_step.cases)
  case (wz_row r s w)
  have "run_ok (fst (import_row E base tenant r w))"
    using wz_row assms(2) by (intro import_row_ok) (auto simp: wizard_inv_def list_all_iff)
  then show ?thesis using wz_row assms(2)
    by (auto simp: wizard_inv_def import_progress_def replace_run_def list_all_remove1 split: prod.splits)
next
  case (wz_checked d s w)
  then show ?thesis using assms(2) by (auto simp: wizard_inv_def validation_done_def remove1_single)
next
  case (wz_start s w)
  then show ?thesis using assms(2) run_ok_start by (auto simp: wizard_inv_def import_click_def)
qed (auto simp: wizard_inv_def wizard_ops list_all_remove1 Let_def split: option.splits)

lemma wizard_run_inv:
  assumes "(wizard_step E base tenant)\<^sup>*\<^sup>* (wizard_init, w) q"
  shows "wizard_inv (fst q)"
proof -
  have "wizard_inv (fst (wizard_init, w))" by (simp add: wizard_inv_def wizard_init_def)
  with assms show ?thesis by (induction rule: rtranclp_induct) (blast intro: wizard_step_inv)+
qed

text \<open>A result that is shown is not replaced by another one: only \<open>Reset\<close> removes it, and the button of the dry run is
  not shown before.\<close>

lemma result_step:
  assumes "wizard_step E base tenant p q" "wz_result (fst p) = Some v" "wz_checks (fst p) = []" "wz_result (fst q) \<noteq> None"
  shows "wz_result (fst q) = Some v \<and> wz_checks (fst q) = []"
  using assms by (cases rule: wizard_step.cases) (auto simp: wizard_ops Let_def split: option.splits prod.splits)

text \<open>The rounds of an import add up to \<open>startImport\<close>.\<close>

lemma import_rounds:
  assumes "ir_next r + n = length (ds_rows (ir_data r))"
  shows "((\<lambda>(r, w). import_row E base tenant r w) ^^ n) (r, w) =
    (case import_rows E base tenant (drop (ir_next r) (ds_rows (ir_data r))) (ds_headers (ir_data r)) (ds_mapping (ir_data r))
       (data_errors (ir_data r)) (ir_next r) (ir_stats r, w) of
     (st, w') \<Rightarrow> (r\<lparr>ir_next := ir_next r + n, ir_stats := st\<rparr>, w'))"
  using assms
proof (induction n arbitrary: r w)
  case 0
  then show ?case by simp
next
  case (Suc n)
  have split: "drop (ir_next r) (ds_rows (ir_data r)) =
      (ds_rows (ir_data r) ! ir_next r) # drop (Suc (ir_next r)) (ds_rows (ir_data r))"
    using Suc.prems by (simp add: Cons_nth_drop_Suc)
  obtain r1 w1 where r1: "import_row E base tenant r w = (r1, w1)" by fastforce
  have d: "ir_data r1 = ir_data r" "ir_next r1 = Suc (ir_next r)"
    using r1 by (auto simp: import_row_def Let_def split: prod.splits sum.splits if_splits)
  have "((\<lambda>(r, w). import_row E base tenant r w) ^^ Suc n) (r, w) = ((\<lambda>(r, w). import_row E base tenant r w) ^^ n) (r1, w1)"
    using r1 by (simp add: funpow_swap1)
  also have "\<dots> = (case import_rows E base tenant (drop (ir_next r1) (ds_rows (ir_data r1))) (ds_headers (ir_data r1)) (ds_mapping (ir_data r1))
       (data_errors (ir_data r1)) (ir_next r1) (ir_stats r1, w1) of (st, w') \<Rightarrow> (r1\<lparr>ir_next := ir_next r1 + n, ir_stats := st\<rparr>, w'))"
    using Suc.prems d by (intro Suc.IH) simp
  also have "\<dots> = (case import_rows E base tenant (drop (ir_next r) (ds_rows (ir_data r))) (ds_headers (ir_data r)) (ds_mapping (ir_data r))
       (data_errors (ir_data r)) (ir_next r) (ir_stats r, w) of (st, w') \<Rightarrow> (r\<lparr>ir_next := ir_next r + Suc n, ir_stats := st\<rparr>, w'))"
    using r1 unfolding split by (auto simp: d import_row_def Let_def split: prod.splits sum.splits if_splits)
  finally show ?case .
qed

lemma import_rounds_startImport:
  "((\<lambda>(r, w). import_row E base tenant r w) ^^ length (ds_rows d)) (\<lparr>ir_data = d, ir_next = 0, ir_stats = no_stats\<rparr>, w) =
    (case startImport E base tenant (ds_rows d) (ds_headers d) (ds_mapping d) w of
     (st, w') \<Rightarrow> (\<lparr>ir_data = d, ir_next = length (ds_rows d), ir_stats = st\<rparr>, w'))"
  using import_rounds[of "\<lparr>ir_data = d, ir_next = 0, ir_stats = no_stats\<rparr>" "length (ds_rows d)" E base tenant w]
  by (auto simp: startImport_def data_errors_def no_stats_def split: prod.splits)

text \<open>Text that can be pasted and taken through the mapping and the preview.\<close>

definition ready :: "string \<Rightarrow> bool" where
  "ready t = (trim t \<noteq> [] \<and> (let d = parsed_data (trim t) in
     ds_headers d \<noteq> [] \<and> ds_rows d \<noteq> [] \<and> requiredFieldsMapped (ds_mapping d)))"

definition paste_through :: "string \<Rightarrow> wizard \<Rightarrow> wizard" where
  "paste_through t s = s\<lparr>wz_pasteText := t, wz_csvText := trim t, wz_fileName := Some ''pasted-data.csv'',
     wz_fileSize := blob_size (trim t), wz_data := parsed_data (trim t), wz_step := 3\<rparr>"

lemma paste_run:
  assumes "wz_step s = 0" "ready t"
  shows "(wizard_step E base tenant)\<^sup>*\<^sup>* (s, w) (paste_through t s, w)"
proof -
  let ?R = "wizard_step E base tenant"
  let ?s1 = "s\<lparr>wz_pasteText := t\<rparr>" let ?s2 = "handlePasteSubmit ?s1" let ?s3 = "click_next ?s2" let ?s4 = "click_next ?s3"
  note steps = wizard_step.wz_paste[OF assms(1), of E base tenant w t] wizard_step.wz_next[of E base tenant ?s2 w]
    wizard_step.wz_next[of E base tenant ?s3 w]
  have "?R (?s1, w) (?s2, w)" using assms(1) by (intro wizard_step.wz_pasted) simp
  then have "?R\<^sup>*\<^sup>* (s, w) (?s4, w)" using steps by (meson rtranclp.rtrancl_into_rtrancl rtranclp.rtrancl_refl)
  moreover have "?s4 = paste_through t s"
    using assms by (simp add: ready_def handlePasteSubmit_def click_next_def can_go_def canProceed_def paste_through_def Let_def)
  ultimately show ?thesis by simp
qed

section \<open>Properties\<close>

text \<open>C32. Whatever the order in which the user clicks and files, dry runs and imports end: the import step is reached only
  with the result of a dry run, at most one dry run is under way, and the counters of every import add
  up to the rows it has done, never more than it has.\<close>

theorem wizard_runs:
  assumes "(wizard_step E base tenant)\<^sup>*\<^sup>* (wizard_init, w) (s, w')"
  shows "wz_step s \<le> 4 \<and> (wz_step s = 4 \<longrightarrow> (\<exists>d. wz_result s = Some (dry_run d))) \<and> length (wz_checks s) \<le> 1 \<and>
    (wz_validating s \<longleftrightarrow> wz_checks s \<noteq> []) \<and>
    (\<forall>r \<in> set (wz_imports s). is_created (ir_stats r) + is_skipped (ir_stats r) + is_failed (ir_stats r) = ir_next r \<and>
       ir_next r \<le> length (ds_rows (ir_data r)))"
  using wizard_run_inv[OF assms] by (auto simp: wizard_inv_def run_ok_def list_all_iff)

text \<open>The dry run that is shown need not be the one of the data that is imported: from the moment a result is shown, it stays
  the same until \<open>Reset\<close>, whatever is uploaded, pasted or mapped, because the button of the dry run is gone; so for any two texts
  that can be imported there is a run that ends before the import of the second, with the counts of the first shown as what
  will be created.\<close>

lemma dry_run_outlives_data:
  assumes "ready t1" "ready t2"
    and "wz_result s = Some v" "wz_checks s = []" "(\<lambda>p q. wizard_step E base tenant p q \<and> wz_result (fst q) \<noteq> None)\<^sup>*\<^sup>* (s, w) q"
  shows "wz_result (fst q) = Some v \<and>
    (\<exists>s'. (wizard_step E base tenant)\<^sup>*\<^sup>* (wizard_init, w) (s', w) \<and> wz_step s' = 4 \<and> wz_status s' = Idle \<and>
       wz_data s' = parsed_data (trim t2) \<and> wz_result s' = Some (dry_run (parsed_data (trim t1))))"
proof (rule conjI)
  have "wz_result (fst q) = Some v \<and> wz_checks (fst q) = []"
    using assms(5) by (induction rule: rtranclp_induct) (auto simp: assms(3,4) dest: result_step)
  then show "wz_result (fst q) = Some v" by simp
  let ?R = "wizard_step E base tenant"
  let ?s1 = "paste_through t1 wizard_init" let ?s2 = "start_validation ?s1" let ?s3 = "validation_done (wz_data ?s1) ?s2"
  let ?s4 = "click_step 0 ?s3" let ?s5 = "paste_through t2 ?s4" let ?s6 = "click_proceed ?s5"
  note f = paste_through_def wizard_init_def start_validation_def validation_done_def click_step_def click_proceed_def
  have "?R\<^sup>*\<^sup>* (wizard_init, w) (?s1, w)" using assms(1) by (intro paste_run) (simp_all add: wizard_init_def)
  moreover have "?R (?s1, w) (?s2, w)" by (intro wizard_step.wz_check) (simp_all add: f)
  moreover have "?R (?s2, w) (?s3, w)" by (intro wizard_step.wz_checked) (simp add: f)
  moreover have "?R (?s3, w) (?s4, w)" by (rule wizard_step.wz_bar)
  moreover have "?R\<^sup>*\<^sup>* (?s4, w) (?s5, w)" using assms(2) by (intro paste_run) (simp_all add: f)
  moreover have "?R (?s5, w) (?s6, w)" by (rule wizard_step.wz_proceed)
  ultimately have "?R\<^sup>*\<^sup>* (wizard_init, w) (?s6, w)" by (meson rtranclp.rtrancl_into_rtrancl rtranclp_trans)
  moreover have "wz_step ?s6 = 4 \<and> wz_status ?s6 = Idle \<and> wz_data ?s6 = parsed_data (trim t2) \<and>
      wz_result ?s6 = Some (dry_run (parsed_data (trim t1)))" by (simp add: f)
  ultimately show "\<exists>s'. ?R\<^sup>*\<^sup>* (wizard_init, w) (s', w) \<and> wz_step s' = 4 \<and> wz_status s' = Idle \<and>
       wz_data s' = parsed_data (trim t2) \<and> wz_result s' = Some (dry_run (parsed_data (trim t1)))" by blast
qed

definition csv_text :: "string \<Rightarrow> string" where
  "csv_text cell = ''email,name'' @ [CHR 0x0A] @ cell @ '',A''"

text \<open>The dry run of the first text counts one row to be created, the import of the second creates none.\<close>

lemma dry_run_outlives_data_example:
  "\<exists>s'. (wizard_step (always NetError) ''b'' ''t'')\<^sup>*\<^sup>* (wizard_init, blank_world) (s', blank_world) \<and> wz_step s' = 4 \<and> wz_status s' = Idle \<and>
     map_option vr_valid (wz_result s') = Some 1 \<and> vr_valid (dry_run (wz_data s')) = 0"
proof -
  let ?s = "wizard_init\<lparr>wz_result := Some (dry_run no_data)\<rparr>"
  have r: "ready (csv_text ''a@b.c'')" "ready (csv_text ''a'')" by code_simp+
  have v: "vr_valid (dry_run (parsed_data (trim (csv_text ''a@b.c'')))) = 1" "vr_valid (dry_run (parsed_data (trim (csv_text ''a'')))) = 0"
    by code_simp+
  have "(\<exists>s'. (wizard_step (always NetError) ''b'' ''t'')\<^sup>*\<^sup>* (wizard_init, blank_world) (s', blank_world) \<and> wz_step s' = 4 \<and> wz_status s' = Idle \<and>
       wz_data s' = parsed_data (trim (csv_text ''a'')) \<and> wz_result s' = Some (dry_run (parsed_data (trim (csv_text ''a@b.c'')))))"
    using dry_run_outlives_data[OF r, of ?s "dry_run no_data" "always NetError" "''b''" "''t''" blank_world "(?s, blank_world)"]
    by (simp add: wizard_init_def)
  then show ?thesis using v by auto
qed

theorem wizard_runs_witness:
  "wz_step (paste_through (csv_text ''a'') wizard_init) \<le> 4 \<and>
   length (wz_checks (paste_through (csv_text ''a'') wizard_init)) \<le> 1"
proof -
  have "ready (csv_text ''a'')" by code_simp
  then have "(wizard_step (always NetError) ''b'' ''t'')\<^sup>*\<^sup>* (wizard_init, blank_world) (paste_through (csv_text ''a'') wizard_init, blank_world)"
    by (intro paste_run) (simp_all add: wizard_init_def)
  from wizard_runs[OF this] show ?thesis by simp
qed

text \<open>A \<open>Reset\<close> during an import does not stop it: when it ends, the wizard, back at its first step and empty, is
  marked as done, and the next file that is brought to the last step cannot be imported without another \<open>Reset\<close>.\<close>

lemma reset_does_not_stop:
  assumes "r \<in> set (wz_imports s)" "ir_next r = length (ds_rows (ir_data r))"
  shows "wizard_step E base tenant (reset_wizard s, w) (import_done r (reset_wizard s), w) \<and>
    wz_status (import_done r (reset_wizard s)) = Done \<and> wz_data (import_done r (reset_wizard s)) = no_data"
proof -
  have "r \<in> set (wz_imports (reset_wizard s))" using assms(1) by (simp add: reset_wizard_def)
  then have "wizard_step E base tenant (reset_wizard s, w) (import_done r (reset_wizard s), w)"
    using assms(2) by (rule wizard_step.wz_finish)
  then show ?thesis by (simp add: import_done_def reset_wizard_def)
qed

end
