(* ===== verification/Impersonation.thy ===== *)
theory Impersonation
  imports Api_Client
begin

text \<open>
  Impersonation: the page \<open>console/src/app/admin/impersonate/page.tsx\<close> and the banner
  \<open>console/src/components/impersonation-banner.tsx\<close>, which share \<open>localStorage\<close>.  The user found by the search is a record, as
  its static type says; the stored session is a JSON value, since it is read back from the storage.  The text of
  \<open>new Date().toISOString()\<close> is an argument.
\<close>

section \<open>The page\<close>

record hit =
  hi_id :: string
  hi_username :: string
  hi_email :: string
  hi_roles :: "string list"

record history_entry =
  he_admin :: string
  he_target :: string
  he_start :: string
  he_end :: "string option"
  he_reason :: string

datatype imp_message = ImpSuccess string | ImpError string

record imp_page =
  im_query :: string
  im_results :: "hit list"
  im_searching :: bool
  im_show :: bool
  im_timer :: "string option"
  im_selected :: "hit option"
  im_reason :: string
  im_reasonError :: "string option"
  im_touched :: bool
  im_session :: jsv
  im_submitting :: bool
  im_msg :: "imp_message option"
  im_history :: "history_entry list"

definition STORAGE_KEY :: string where
  "STORAGE_KEY = ''ggid_impersonation_state''"

definition TOKEN_KEY :: string where
  "TOKEN_KEY = ''ggid_impersonation_token''"

text \<open>The effect at mount that restores a stored session.\<close>

definition restore_session :: "imp_page \<times> 'w world \<Rightarrow> imp_page \<times> 'w world" where
  "restore_session pw = (case pw of (p, w) \<Rightarrow>
     if \<not> present (local_store w STORAGE_KEY) then (p, w)
     else (case json_parse (the (local_store w STORAGE_KEY)) of
         None \<Rightarrow> (p, remove_item STORAGE_KEY w)
       | Some st \<Rightarrow> (p\<lparr>im_session := st\<rparr>, w)))"

text \<open>\<open>loadHistory\<close>: a failed request leaves the history as it is.\<close>

definition entry_of :: "jsv \<Rightarrow> history_entry" where
  "entry_of h = \<lparr>he_admin = js_to_string (js_opt_prop h ''adminUser''), he_target = js_to_string (js_opt_prop h ''targetUser''),
     he_start = js_to_string (js_opt_prop h ''startTime''),
     he_end = (case js_opt_prop h ''endTime'' of JStr t \<Rightarrow> Some t | _ \<Rightarrow> None),
     he_reason = js_to_string (js_opt_prop h ''reason'')\<rparr>"

definition loadHistory :: "'w env \<Rightarrow> string \<Rightarrow> string \<Rightarrow> imp_page \<times> 'w world \<Rightarrow> imp_page \<times> 'w world" where
  "loadHistory E base tenant pw = (case pw of (p, w) \<Rightarrow>
     (case apiFetch E base tenant ''/api/v1/impersonate/active?limit=20'' no_options w of
        (Inr data, w1) \<Rightarrow>
          (if truthy data then
             (let raw = (if is_array data then data else js_or (js_opt_prop data ''sessions'') (js_or (js_opt_prop data ''items'') (JArr [])))
              in p\<lparr>im_history := (if is_array raw then map entry_of (arr_items raw) else [])\<rparr>)
           else p, w1)
      | (Inl _, w1) \<Rightarrow> (p, w1)))"

definition persistImpersonation :: "jsv \<Rightarrow> imp_page \<times> 'w world \<Rightarrow> imp_page \<times> 'w world" where
  "persistImpersonation st pw = (case pw of (p, w) \<Rightarrow>
     (p\<lparr>im_session := st\<rparr>, if truthy st then set_item STORAGE_KEY (json_stringify st) w else remove_item STORAGE_KEY w))"

text \<open>\<open>performSearch\<close>: the roles of a user may be texts or objects; a value without a name is dropped.  \<^term>\<open>None\<close> is the
  exception of a list that is no array or holds \<open>null\<close>, which the handler catches.\<close>

definition role_text :: "jsv \<Rightarrow> jsv" where
  "role_text r = (case r of JStr s \<Rightarrow> r
     | _ \<Rightarrow> js_or (js_opt_prop r ''role_name'') (js_or (js_opt_prop r ''name'') (js_or (js_opt_prop r ''key'') (JStr []))))"

definition hit_of :: "jsv \<Rightarrow> hit" where
  "hit_of u = \<lparr>hi_id = js_to_string (js_opt_prop u ''id''), hi_username = js_to_string (js_opt_prop u ''username''),
     hi_email = js_to_string (js_opt_prop u ''email''),
     hi_roles = (case js_opt_prop u ''roles'' of
        JArr rs \<Rightarrow> map js_to_string (filter truthy (map role_text rs)) | JStr s \<Rightarrow> [s] | _ \<Rightarrow> [])\<rparr>"

definition hits_of :: "jsv \<Rightarrow> hit list option" where
  "hits_of data = (case (if is_array data then data
       else js_or (js_opt_prop data ''users'') (js_or (js_opt_prop data ''items'') (JArr []))) of
      JArr us \<Rightarrow> if list_ex nullish us then None else Some (map hit_of us) | _ \<Rightarrow> None)"

definition performSearch ::
  "'w env \<Rightarrow> string \<Rightarrow> string \<Rightarrow> string \<Rightarrow> imp_page \<times> 'w world \<Rightarrow> imp_page \<times> 'w world" where
  "performSearch E base tenant query pw = (case pw of (p, w) \<Rightarrow>
     if trim query = [] then (p\<lparr>im_results := [], im_searching := False\<rparr>, w)
     else (case apiFetch E base tenant (''/api/v1/users?search='' @ encodeURIComponent query @ ''&page_size=10'') no_options w of
         (Inl _, w1) \<Rightarrow> (p\<lparr>im_results := [], im_searching := False\<rparr>, w1)
       | (Inr data, w1) \<Rightarrow>
           (p\<lparr>im_results := (if truthy data then (case hits_of data of None \<Rightarrow> [] | Some hs \<Rightarrow> hs) else []), im_searching := False\<rparr>, w1)))"

definition handleSearchChange :: "string \<Rightarrow> imp_page \<Rightarrow> imp_page" where
  "handleSearchChange v p =
     (let p1 = p\<lparr>im_query := v, im_show := True, im_selected := None, im_timer := None\<rparr> in
      if trim v = [] then p1\<lparr>im_results := []\<rparr>
      else p1\<lparr>im_searching := True, im_timer := Some v\<rparr>)"

text \<open>The debounced search runs 300 milliseconds after the last change.\<close>

definition search_timer :: "'w env \<Rightarrow> string \<Rightarrow> string \<Rightarrow> imp_page \<times> 'w world \<Rightarrow> imp_page \<times> 'w world" where
  "search_timer E base tenant pw = (case pw of (p, w) \<Rightarrow>
     (case im_timer p of None \<Rightarrow> (p, w) | Some v \<Rightarrow> performSearch E base tenant v (p\<lparr>im_timer := None\<rparr>, w)))"

definition handleSelectUser :: "hit \<Rightarrow> imp_page \<Rightarrow> imp_page" where
  "handleSelectUser u p = p\<lparr>im_selected := Some u, im_query := hi_username u, im_show := False\<rparr>"

definition reason_required :: string where
  "reason_required = ''Reason for impersonation is required for compliance''"

definition reason_short :: string where
  "reason_short = ''Reason for impersonation is required for compliance (minimum 10 characters)''"

text \<open>A change of the reason, with the effect that validates it.\<close>

definition change_reason :: "string \<Rightarrow> imp_page \<Rightarrow> imp_page" where
  "change_reason v p = p\<lparr>im_reason := v, im_reasonError :=
     (if im_touched p \<and> length (trim v) < 10 \<and> v \<noteq> [] then Some reason_short
      else if im_touched p \<and> v = [] then Some reason_required else None)\<rparr>"

definition impersonate_options :: "hit \<Rightarrow> string \<Rightarrow> 'w world \<Rightarrow> req_options" where
  "impersonate_options u reason w = \<lparr>o_method = Some ''POST'', o_headers = [], o_body = Some (json_stringify (JObj
     [(''impersonator_id'', JStr (item_or (local_store w ''ggid_user_id'') [])), (''target_user_id'', JStr (hi_id u)),
      (''tenant_id'', JStr (item_or (local_store w ''ggid_tenant_id'') [])), (''reason'', JStr (trim reason))]))\<rparr>"

text \<open>The identifier inside the token, if the token can be decoded.\<close>

definition token_id :: "jsv \<Rightarrow> jsv" where
  "token_id token = (case jwt_payload token of None \<Rightarrow> JStr []
     | Some pl \<Rightarrow> if nullish pl then JStr [] else js_or (js_opt_prop pl ''jti'') (JStr []))"

definition session_of :: "hit \<Rightarrow> string \<Rightarrow> string \<Rightarrow> jsv option \<Rightarrow> jsv" where
  "session_of u reason started tid = JObj ([(''userId'', JStr (hi_id u)), (''username'', JStr (hi_username u)),
     (''email'', JStr (hi_email u)), (''reason'', JStr (trim reason)), (''startedAt'', JStr started)] @
     (case tid of None \<Rightarrow> [] | Some t \<Rightarrow> [(''tokenId'', t)]))"

text \<open>\<open>handleImpersonate\<close>.  After the two branches, which declare \<open>newSession\<close> each in its own block, the handler reads
  \<open>newSession.startedAt\<close> outside of them: the name is not declared there, so a \<open>ReferenceError\<close> is thrown and
  caught, and the rest (history entry, success message, reset of the form) is never reached.\<close>

definition handleImpersonate ::
  "'w env \<Rightarrow> string \<Rightarrow> string \<Rightarrow> string \<Rightarrow> imp_page \<times> 'w world \<Rightarrow> imp_page \<times> 'w world" where
  "handleImpersonate E base tenant started pw = (case pw of (p, w) \<Rightarrow>
     case im_selected p of
       None \<Rightarrow> (p\<lparr>im_msg := Some (ImpError ''Please select a user first'')\<rparr>, w)
     | Some u \<Rightarrow>
        if length (trim (im_reason p)) < 10 then (p\<lparr>im_touched := True, im_reasonError := Some reason_short\<rparr>, w)
        else (case apiFetch E base tenant ''/api/v1/auth/impersonate'' (impersonate_options u (im_reason p) w) w of (r, w1) \<Rightarrow>
          (let resp = (case r of Inl _ \<Rightarrow> JNull | Inr v \<Rightarrow> v);
               token = js_or (js_opt_prop resp ''access_token'') (js_opt_prop resp ''token'');
               p1 = p\<lparr>im_reasonError := None\<rparr>;
               pw2 = (if truthy token
                 then persistImpersonation (session_of u (im_reason p) started (Some (token_id token)))
                        (p1, set_item TOKEN_KEY (js_to_string token) w1)
                 else persistImpersonation (session_of u (im_reason p) started None) (p1, w1))
           in ((fst pw2)\<lparr>im_msg := Some (ImpError ''Failed to start impersonation''), im_submitting := False\<rparr>, snd pw2))))"

definition revoke_options :: "jsv \<Rightarrow> req_options" where
  "revoke_options tid = \<lparr>o_method = Some ''POST'', o_headers = [], o_body = Some (json_stringify (JObj [(''token_id'', tid)]))\<rparr>"

definition end_first :: "string \<Rightarrow> history_entry list \<Rightarrow> history_entry list" where
  "end_first now_text hs = (case hs of [] \<Rightarrow> [] | h # rest \<Rightarrow> (if he_end h = None then h\<lparr>he_end := Some now_text\<rparr> else h) # rest)"

definition handleEndImpersonation ::
  "'w env \<Rightarrow> string \<Rightarrow> string \<Rightarrow> string \<Rightarrow> imp_page \<times> 'w world \<Rightarrow> imp_page \<times> 'w world" where
  "handleEndImpersonation E base tenant now_text pw = (case pw of (p, w) \<Rightarrow>
     (case apiFetch E base tenant ''/api/v1/auth/impersonate/revoke''
        (revoke_options (js_or (js_opt_prop (im_session p) ''tokenId'') (JStr []))) w of
       (_, w1) \<Rightarrow>
        (let prevUser = js_to_string (js_or (js_opt_prop (im_session p) ''username'') (JStr ''user''));
             pw2 = persistImpersonation JNull (p\<lparr>im_history := end_first now_text (im_history p)\<rparr>, remove_item TOKEN_KEY w1)
         in ((fst pw2)\<lparr>im_msg := Some (ImpSuccess (''Impersonation of '' @ prevUser @ '' ended'')), im_submitting := False\<rparr>, snd pw2))))"

text \<open>\<open>%\<close> has the sign of the dividend.\<close>

definition js_mod :: "int \<Rightarrow> int \<Rightarrow> int" where
  "js_mod a b = (if a < 0 then - ((- a) mod b) else a mod b)"

definition imp_formatDuration :: "(string \<Rightarrow> int option) \<Rightarrow> int \<Rightarrow> string \<Rightarrow> string option \<Rightarrow> string" where
  "imp_formatDuration parse_date now_ms start fin =
     (case (parse_date start, if present fin then parse_date (the fin) else Some now_ms) of
        (Some a, Some b) \<Rightarrow>
          (let diff = b - a; mins = diff div 60000; secs = js_mod diff 60000 div 1000 in
           if 60 \<le> mins then show_int (mins div 60) @ ''h '' @ show_int (mins mod 60) @ ''m''
           else if 0 < mins then show_int mins @ ''m '' @ show_int secs @ ''s''
           else show_int secs @ ''s'')
      | _ \<Rightarrow> ''NaNs'')"

section \<open>The banner\<close>

record imp_banner =
  ib_active :: bool
  ib_username :: jsv
  ib_email :: jsv
  ib_reason :: jsv
  ib_tokenId :: jsv
  ib_ending :: bool

definition banner_init :: imp_banner where
  "banner_init = \<lparr>ib_active = False, ib_username = JStr [], ib_email = JStr [], ib_reason = JStr [], ib_tokenId = JStr [], ib_ending = False\<rparr>"

definition banner_mount :: "'w world \<Rightarrow> imp_banner" where
  "banner_mount w = (case local_store w STORAGE_KEY of None \<Rightarrow> banner_init
     | Some raw \<Rightarrow> if raw = [] then banner_init
         else (case json_parse raw of None \<Rightarrow> banner_init
           | Some imp \<Rightarrow> if truthy imp \<and> truthy (js_opt_prop imp ''userId'')
               then \<lparr>ib_active = True, ib_username = js_or (js_opt_prop imp ''username'') (JStr ''unknown user''),
                      ib_email = js_or (js_opt_prop imp ''email'') (JStr []), ib_reason = js_or (js_opt_prop imp ''reason'') (JStr []),
                      ib_tokenId = js_or (js_opt_prop imp ''tokenId'') (JStr []), ib_ending = False\<rparr>
               else banner_init))"

text \<open>\<open>handleEnd\<close>; the page is reloaded afterwards.\<close>

definition banner_handleEnd :: "'w env \<Rightarrow> string \<Rightarrow> string \<Rightarrow> imp_banner \<times> 'w world \<Rightarrow> imp_banner \<times> 'w world" where
  "banner_handleEnd E base tenant bw = (case bw of (b, w) \<Rightarrow>
     (case apiFetch E base tenant ''/api/v1/auth/impersonate/revoke'' (revoke_options (ib_tokenId b)) w of
        (_, w1) \<Rightarrow> (b\<lparr>ib_ending := True, ib_active := False\<rparr>, remove_item TOKEN_KEY (remove_item STORAGE_KEY w1))))"

section \<open>Lemmas\<close>

lemma clean_prop: "json_clean v \<Longrightarrow> truthy (js_opt_prop v k) \<Longrightarrow> json_clean (js_opt_prop v k)"
proof (cases v)
  case (JObj kvs)
  assume "json_clean v" "truthy (js_opt_prop v k)"
  then have "list_all (\<lambda>(k, v). json_clean v) kvs" "assoc k kvs \<noteq> None" using JObj by (auto split: option.splits)
  then obtain u where "assoc k kvs = Some u" "json_clean u"
    by (induction kvs) (auto split: if_splits)
  then show ?thesis using JObj by simp
qed simp_all

lemma token_id_clean: "json_clean (token_id t)"
proof -
  have "json_clean pl" if "jwt_payload t = Some pl" for pl
    using that by (auto simp: jwt_payload_def bind_eq_Some_conv dest: json_parse_clean split: jsv.splits)
  then show ?thesis by (auto simp: token_id_def js_or_def clean_prop split: option.splits)
qed

lemma truthy_session [simp]: "truthy (session_of u reason started tid)"
  by (simp add: session_of_def)

lemma session_parses:
  assumes "\<And>t. tid = Some t \<Longrightarrow> json_clean t"
  shows "json_parse (json_stringify (session_of u reason started tid)) = Some (session_of u reason started tid)"
    and "json_stringify (session_of u reason started tid) \<noteq> []"
  using assms by (auto simp: session_of_def json_stringify_clean split: option.splits)
    (simp_all add: json_stringify_def session_of_def)

lemma authHeader_cong:
  assumes "has_window w' = has_window w"
    and "\<And>k. k \<in> {''ggid_access_token'', ''ggid_user_id'', ''ggid_tenant_id''} \<Longrightarrow> local_store w' k = local_store w k"
  shows "authHeader w' = authHeader w"
  using assms by (simp add: authHeader_def getAuthToken_def Let_def)

text \<open>What a valid submission does, in one equation: the session is persisted, with the token's identifier if a token was
  granted and without if not, and the error message is shown.\<close>

lemma handleImpersonate_valid:
  assumes "im_selected p = Some u" "10 \<le> length (trim (im_reason p))"
    and "apiFetch E base tenant ''/api/v1/auth/impersonate'' (impersonate_options u (im_reason p) w) w = (r, w1)"
  obtains st w2 where
    "handleImpersonate E base tenant started (p, w) =
      (p\<lparr>im_reasonError := None, im_session := st, im_msg := Some (ImpError ''Failed to start impersonation''), im_submitting := False\<rparr>,
       set_item STORAGE_KEY (json_stringify st) w2)"
    "json_parse (json_stringify st) = Some st" "json_stringify st \<noteq> []"
    "js_opt_prop st ''userId'' = JStr (hi_id u)" "js_opt_prop st ''username'' = JStr (hi_username u)"
    "w2 = w1 \<or> (\<exists>t. w2 = set_item TOKEN_KEY t w1)"
proof -
  define resp where "resp = (case r of Inl _ \<Rightarrow> JNull | Inr v \<Rightarrow> v)"
  define token where "token = js_or (js_opt_prop resp ''access_token'') (js_opt_prop resp ''token'')"
  define st where "st = session_of u (im_reason p) started (if truthy token then Some (token_id token) else None)"
  have "js_opt_prop st ''userId'' = JStr (hi_id u)" "js_opt_prop st ''username'' = JStr (hi_username u)"
    by (simp_all add: st_def session_of_def)
  moreover have "handleImpersonate E base tenant started (p, w) =
      (p\<lparr>im_reasonError := None, im_session := st, im_msg := Some (ImpError ''Failed to start impersonation''), im_submitting := False\<rparr>,
       set_item STORAGE_KEY (json_stringify st) (if truthy token then set_item TOKEN_KEY (js_to_string token) w1 else w1))"
    using assms by (simp add: handleImpersonate_def resp_def token_def persistImpersonation_def Let_def st_def)
  moreover have "json_parse (json_stringify st) = Some st" "json_stringify st \<noteq> []"
    unfolding st_def by (rule session_parses; use token_id_clean in \<open>auto split: if_splits\<close>)+
  moreover have "(if truthy token then set_item TOKEN_KEY (js_to_string token) w1 else w1) = w1 \<or>
      (\<exists>t. (if truthy token then set_item TOKEN_KEY (js_to_string token) w1 else w1) = set_item TOKEN_KEY t w1)" by auto
  ultimately show thesis by (intro that)
qed

section \<open>Properties\<close>

text \<open>Starting an impersonation never succeeds visibly and always takes hold locally: a valid submission ends
  with the message \<open>Failed to start impersonation\<close>, the form and the history stay as they were, yet
  whether the server granted a token or refused, the session is stored and the banner announces that the user is being impersonated.
  The requests that follow carry the same headers as before, since nothing reads the stored token.\<close>

lemma impersonate_reports_failure:
  assumes "im_selected p = Some u" "10 \<le> length (trim (im_reason p))" "hi_id u \<noteq> []" "hi_username u \<noteq> []"
    and "handleImpersonate E base tenant started (p, w) = (p', w')"
  shows "im_msg p' = Some (ImpError ''Failed to start impersonation'') \<and> im_history p' = im_history p \<and>
    im_selected p' = im_selected p \<and> im_reason p' = im_reason p \<and>
    ib_active (banner_mount w') \<and> ib_username (banner_mount w') = JStr (hi_username u) \<and>
    authHeader w' = authHeader (snd (apiFetch E base tenant ''/api/v1/auth/impersonate'' (impersonate_options u (im_reason p) w) w))"
proof -
  obtain r w1 where f: "apiFetch E base tenant ''/api/v1/auth/impersonate'' (impersonate_options u (im_reason p) w) w = (r, w1)"
    by fastforce
  obtain st w2 where h: "handleImpersonate E base tenant started (p, w) =
      (p\<lparr>im_reasonError := None, im_session := st, im_msg := Some (ImpError ''Failed to start impersonation''), im_submitting := False\<rparr>,
       set_item STORAGE_KEY (json_stringify st) w2)"
    and st: "json_parse (json_stringify st) = Some st" "json_stringify st \<noteq> []"
      "js_opt_prop st ''userId'' = JStr (hi_id u)" "js_opt_prop st ''username'' = JStr (hi_username u)"
    and w2: "w2 = w1 \<or> (\<exists>t. w2 = set_item TOKEN_KEY t w1)"
    using handleImpersonate_valid[OF assms(1,2) f] by metis
  have "authHeader w' = authHeader w1"
    using h w2 assms(5) by (intro authHeader_cong) (auto simp: STORAGE_KEY_def TOKEN_KEY_def)
  moreover have "truthy st" using st(3) by (cases st) auto
  ultimately show ?thesis using h st assms(3,4,5) f by (auto simp: banner_mount_def)
qed

lemma impersonate_reports_failure_example:
  "let p = \<lparr>im_query = [], im_results = [], im_searching = False, im_show = False, im_timer = None,
         im_selected = Some \<lparr>hi_id = ''7'', hi_username = ''ann'', hi_email = ''a@b'', hi_roles = []\<rparr>, im_reason = ''ticket number 4711'',
         im_reasonError = None, im_touched = False, im_session = JNull, im_submitting = True, im_msg = None, im_history = []\<rparr>;
       pw = handleImpersonate (always NetError) ''b'' ''t'' ''now'' (p, page [''ggid_access_token'' \<mapsto> ''a''] ()) in
   im_msg (fst pw) = Some (ImpError ''Failed to start impersonation'') \<and> ib_username (banner_mount (snd pw)) = JStr ''ann''"
proof -
  let ?u = "\<lparr>hi_id = ''7'', hi_username = ''ann'', hi_email = ''a@b'', hi_roles = []\<rparr>"
  let ?p = "\<lparr>im_query = [], im_results = [], im_searching = False, im_show = False, im_timer = None,
         im_selected = Some ?u, im_reason = ''ticket number 4711'',
         im_reasonError = None, im_touched = False, im_session = JNull, im_submitting = True, im_msg = None, im_history = []\<rparr>"
  have len: "10 \<le> length (trim ''ticket number 4711'')" by code_simp
  show ?thesis
    using impersonate_reports_failure[of ?p ?u "always NetError" "''b''" "''t''" "''now''" "page [''ggid_access_token'' \<mapsto> ''a''] ()"
      "fst (handleImpersonate (always NetError) ''b'' ''t'' ''now'' (?p, page [''ggid_access_token'' \<mapsto> ''a''] ()))"
      "snd (handleImpersonate (always NetError) ''b'' ''t'' ''now'' (?p, page [''ggid_access_token'' \<mapsto> ''a''] ()))"] len
    unfolding Let_def by simp
qed

text \<open>Ending it, in the page or in the banner, clears both keys whatever the server answers, so a revocation that failed
  leaves a token that is valid on the server and forgotten by the console.\<close>

lemma end_clears_session:
  "local_store (snd (banner_handleEnd E base tenant bw)) STORAGE_KEY = None"
  "local_store (snd (banner_handleEnd E base tenant bw)) TOKEN_KEY = None"
  "local_store (snd (handleEndImpersonation E base tenant now_text pw)) STORAGE_KEY = None"
  "local_store (snd (handleEndImpersonation E base tenant now_text pw)) TOKEN_KEY = None"
  "banner_mount (snd (banner_handleEnd E base tenant bw)) = banner_init"
  "banner_mount (snd (handleEndImpersonation E base tenant now_text pw)) = banner_init"
  by (auto simp: banner_handleEnd_def handleEndImpersonation_def persistImpersonation_def banner_mount_def STORAGE_KEY_def TOKEN_KEY_def
      Let_def split: prod.splits)

end
