(* ===== verification/Shell.thy ===== *)
theory Shell
  imports Auth_Guard Impersonation Sdk_Provider Parents
begin

text \<open>
  The frame around the pages: the health probe of \<open>console/src/lib/api-config.ts\<close>, the sidebar's monitor of it, its groups, search and
  sign-out button (\<open>console/src/components/sidebar.tsx\<close>), the record of loading times (\<open>console/src/lib/performance.ts\<close>), the
  accessibility helpers (\<open>console/src/lib/a11y.ts\<close>), the page title, and the parts of the React SDK that have no requests of
  their own: \<open>useGGIDAuth.ts\<close>, \<open>useTokenRefresh.ts\<close>, \<open>ErrorBoundary.tsx\<close> and \<open>LogoutButton.tsx\<close>.  \<open>performance.now()\<close> and the times of
  a navigation are whole microseconds.  The monitor's timer and its probe run beside the user; it is a step relation.
\<close>

section \<open>The health probe\<close>

record health_result =
  hr_online :: bool
  hr_latency :: "int option"

text \<open>\<open>Math.round\<close> of a number of microseconds in milliseconds.\<close>

definition round_ms :: "int \<Rightarrow> int" where
  "round_ms us = (us + 500) div 1000"

definition health_request :: "string \<Rightarrow> string \<Rightarrow> request" where
  "health_request base tenant = \<lparr>url = base @ ''/healthz'', meth = ''GET'', hdrs = [(''X-Tenant-ID'', tenant)], rbody = None\<rparr>"

text \<open>An aborted request (after five seconds) is one that fails.\<close>

definition checkApiHealthDetailed ::
  "'w env \<Rightarrow> ('w \<Rightarrow> int) \<Rightarrow> string \<Rightarrow> string \<Rightarrow> 'w world \<Rightarrow> health_result \<times> 'w world" where
  "checkApiHealthDetailed E perf base tenant w = (case fetch E (health_request base tenant) w of
     (NetError, w1) \<Rightarrow> (\<lparr>hr_online = False, hr_latency = None\<rparr>, w1)
   | (Resp st body, w1) \<Rightarrow> (\<lparr>hr_online = resp_ok st, hr_latency = Some (round_ms (perf (outside w1) - perf (outside w)))\<rparr>, w1))"

definition checkApiHealth :: "'w env \<Rightarrow> ('w \<Rightarrow> int) \<Rightarrow> string \<Rightarrow> string \<Rightarrow> 'w world \<Rightarrow> bool \<times> 'w world" where
  "checkApiHealth E perf base tenant w = (case checkApiHealthDetailed E perf base tenant w of (r, w1) \<Rightarrow> (hr_online r, w1))"

section \<open>The monitor of the sidebar\<close>

text \<open>\<open>doHealthCheck\<close> and \<open>scheduleNext\<close> are made anew by every render and remember the \<open>reconnecting\<close> of their render; a
  timer and a probe under way belong to the functions of one render.  \<open>mo_timer\<close> is the timer of \<open>intervalRef\<close>, with what it
  remembers and its delay; \<open>mo_probes\<close> has what each probe under way remembers.\<close>

record monitor =
  mo_health :: "health_result option"
  mo_reconnecting :: bool
  mo_timer :: "(bool \<times> nat) option"
  mo_probes :: "bool list"
  mo_mounted :: bool

text \<open>The first render and its effect.\<close>

definition monitor_mount :: monitor where
  "monitor_mount = \<lparr>mo_health = None, mo_reconnecting = False, mo_timer = None, mo_probes = [False], mo_mounted = True\<rparr>"

definition scheduleNext :: "bool \<Rightarrow> bool \<Rightarrow> monitor \<Rightarrow> monitor" where
  "scheduleNext rec online s = s\<lparr>mo_timer := Some (rec, if online then 30000 else 5000)\<rparr>"

text \<open>The rest of \<open>doHealthCheck\<close> once the probe has its result; \<open>rec\<close> is the \<open>reconnecting\<close> it remembers.  State setters
  do nothing after the component is unmounted, the timer is set all the same.\<close>

definition doHealthCheck_rest :: "bool \<Rightarrow> health_result \<Rightarrow> monitor \<Rightarrow> monitor" where
  "doHealthCheck_rest rec r s =
     (let s1 = (if mo_mounted s then s\<lparr>mo_health := Some r,
                  mo_reconnecting := (if \<not> hr_online r then True else if rec then False else mo_reconnecting s)\<rparr> else s)
      in scheduleNext rec (hr_online r) (s1\<lparr>mo_probes := remove1 rec (mo_probes s)\<rparr>))"

definition monitor_timer :: "bool \<Rightarrow> monitor \<Rightarrow> monitor" where
  "monitor_timer rec s = s\<lparr>mo_timer := None, mo_probes := mo_probes s @ [rec]\<rparr>"

definition monitor_unmount :: "monitor \<Rightarrow> monitor" where
  "monitor_unmount s = s\<lparr>mo_timer := None, mo_mounted := False\<rparr>"

inductive monitor_step :: "monitor \<Rightarrow> monitor \<Rightarrow> bool" where
  answer: "rec \<in> set (mo_probes s) \<Longrightarrow> monitor_step s (doHealthCheck_rest rec r s)"
| tick: "mo_timer s = Some (rec, d) \<Longrightarrow> monitor_step s (monitor_timer rec s)"
| unmount: "mo_mounted s \<Longrightarrow> monitor_step s (monitor_unmount s)"

datatype health_icon = Spinner | Pulse | Alert

definition shown_icon :: "monitor \<Rightarrow> health_icon" where
  "shown_icon s = (if mo_reconnecting s then Spinner
     else case mo_health s of Some r \<Rightarrow> if hr_online r then Pulse else Alert | None \<Rightarrow> Alert)"

text \<open>\<open>offline\<close> is the translation of \<open>sidebar.offline\<close>.\<close>

definition shown_latency :: "string \<Rightarrow> monitor \<Rightarrow> string" where
  "shown_latency offline s = (case mo_health s of
     Some r \<Rightarrow> if hr_online r then ''API: '' @ (case hr_latency r of None \<Rightarrow> ''?'' | Some n \<Rightarrow> show_int n) @ ''ms'' else offline
   | None \<Rightarrow> offline)"

section \<open>The rest of the sidebar\<close>

record sidebar_ui =
  su_mobileOpen :: bool
  su_search :: string
  su_collapsed :: "string list"
  su_helpOpen :: bool

definition sidebar_ui_init :: sidebar_ui where
  "sidebar_ui_init = \<lparr>su_mobileOpen = False, su_search = [], su_collapsed = [], su_helpOpen = False\<rparr>"

text \<open>The menu button (shown while the menu is closed), the backdrop and the close button; the search box; the label of a group; the
  help button; its backdrop and its links.\<close>

definition open_mobile :: "sidebar_ui \<Rightarrow> sidebar_ui" where
  "open_mobile u = (if su_mobileOpen u then u else u\<lparr>su_mobileOpen := True\<rparr>)"

definition close_mobile :: "sidebar_ui \<Rightarrow> sidebar_ui" where
  "close_mobile u = u\<lparr>su_mobileOpen := False\<rparr>"

definition sidebar_search :: "string \<Rightarrow> sidebar_ui \<Rightarrow> sidebar_ui" where
  "sidebar_search t u = u\<lparr>su_search := t\<rparr>"

definition sidebar_toggleGroup :: "string \<Rightarrow> sidebar_ui \<Rightarrow> sidebar_ui" where
  "sidebar_toggleGroup label u = u\<lparr>su_collapsed := js_toggle label (su_collapsed u)\<rparr>"

definition help_toggle :: "sidebar_ui \<Rightarrow> sidebar_ui" where
  "help_toggle u = u\<lparr>su_helpOpen := \<not> su_helpOpen u\<rparr>"

definition help_close :: "sidebar_ui \<Rightarrow> sidebar_ui" where
  "help_close u = u\<lparr>su_helpOpen := False\<rparr>"

definition isGroupCollapsed :: "string \<Rightarrow> string list \<Rightarrow> string \<Rightarrow> bool" where
  "isGroupCollapsed search collapsed label = (if trim search \<noteq> [] then False else label \<in> set collapsed)"

definition link_active :: "string \<Rightarrow> string \<Rightarrow> bool" where
  "link_active pathname h = (pathname = h \<or> (h \<noteq> ''/'' \<and> h \<noteq> ''/dashboard'' \<and> prefix h pathname))"

text \<open>What is rendered of the navigation: each group with its label and, unless it is collapsed, its links.\<close>

definition rendered_links :: "string \<Rightarrow> string list \<Rightarrow> nav_group list \<Rightarrow> (string \<times> string list) list" where
  "rendered_links search collapsed groups =
     map (\<lambda>g. (glabel g, if isGroupCollapsed search collapsed (glabel g) then [] else map href (items g))) (searchGroups search groups)"

definition user_label :: "'w world \<Rightarrow> string" where
  "user_label w = (if has_window w
     then item_or (local_store w ''ggid_user_email'') (item_or (local_store w ''ggid_user_name'') ''User'') else ''User'')"

text \<open>The sign-out button: the keys it removes, and the address it goes to.\<close>

definition signout_keys :: "string list" where
  "signout_keys = [''ggid_access_token'', ''ggid_refresh_token'', ''ggid_session_id'', ''ggid_tenant_id'', ''ggid_user_id'',
     ''ggid_user_name'', ''ggid_user_email'', ''ggid_user_scopes'', ''ggid_user_permissions'', ''ggid_redirect_after_login'']"

definition sidebar_signout :: "'w world \<Rightarrow> string \<times> 'w world" where
  "sidebar_signout w = (''/login'', remove_items signout_keys w)"

section \<open>Loading times\<close>

record nav_timing =
  nt_start :: int
  nt_dcl :: int
  nt_load :: int
  nt_response :: int
  nt_interactive :: int
  nt_transfer :: int

definition perf_entry :: "nav_timing \<Rightarrow> string \<Rightarrow> int \<Rightarrow> jsv" where
  "perf_entry n pageName t = JObj [(''page'', JStr pageName), (''domContentLoaded'', JNum (round_ms (nt_dcl n - nt_start n))),
     (''loadComplete'', JNum (round_ms (nt_load n - nt_start n))), (''ttfb'', JNum (round_ms (nt_response n - nt_start n))),
     (''domInteractive'', JNum (round_ms (nt_interactive n - nt_start n))), (''transferSize'', JNum (nt_transfer n)), (''timestamp'', JNum t)]"

text \<open>\<^term>\<open>None\<close> where the stored text is not JSON or not an array, with which the call throws.\<close>

definition trackPageLoad :: "'w env \<Rightarrow> nav_timing option \<Rightarrow> string \<Rightarrow> 'w world \<Rightarrow> 'w world option" where
  "trackPageLoad E navs pageName w =
     (if \<not> has_window w then Some w
      else (case navs of None \<Rightarrow> Some w
        | Some n \<Rightarrow> (case json_parse (item_or (session_store w ''ggid_perf'') ''[]'') of
             Some (JArr es) \<Rightarrow>
               (let es1 = es @ [perf_entry n pageName (date_now E w)]; es2 = (if 50 < length es1 then tl es1 else es1)
                in Some (set_session ''ggid_perf'' (json_stringify (JArr es2)) w))
           | _ \<Rightarrow> None)))"

definition getBundleMetrics :: "(string \<times> int) list \<Rightarrow> 'w world \<Rightarrow> (int \<times> nat) option" where
  "getBundleMetrics resources w = (if \<not> has_window w then None
     else (let js = filter (\<lambda>(n, sz). suffix ''.js'' n) resources in Some (sum_list (map snd js), length js)))"

definition clearPerfData :: "'w world \<Rightarrow> 'w world" where
  "clearPerfData w = remove_session ''ggid_perf'' w"

section \<open>Accessibility helpers and the title\<close>

definition ariaLabel :: "string \<Rightarrow> (string \<Rightarrow> string) option \<Rightarrow> string" where
  "ariaLabel key t = (case t of None \<Rightarrow> key | Some f \<Rightarrow> f key)"

definition aria_tab :: "bool \<Rightarrow> string \<Rightarrow> (string \<times> jsv) list" where
  "aria_tab active i = [(''role'', JStr ''tab''), (''aria-selected'', JBool active), (''aria-controls'', JStr (i @ ''-panel'')),
     (''id'', JStr (i @ ''-tab'')), (''tabIndex'', JNum (if active then 0 else -1))]"

definition aria_tabPanel :: "string \<Rightarrow> (string \<times> jsv) list" where
  "aria_tabPanel i = [(''role'', JStr ''tabpanel''), (''id'', JStr (i @ ''-panel'')), (''aria-labelledby'', JStr (i @ ''-tab''))]"

definition aria_switch :: "bool \<Rightarrow> string \<Rightarrow> (string \<times> jsv) list" where
  "aria_switch checked label = [(''role'', JStr ''switch''), (''aria-checked'', JBool checked), (''aria-label'', JStr label), (''tabIndex'', JNum 0)]"

text \<open>\<open>onEnterKey\<close>: whether the key's default is prevented and the function called.\<close>

definition onEnterKey :: "('s \<Rightarrow> 's) \<Rightarrow> string \<Rightarrow> 's \<Rightarrow> bool \<times> 's" where
  "onEnterKey fn key s = (if key = ''Enter'' \<or> key = '' '' then (True, fn s) else (False, s))"

definition title_effect :: "string \<Rightarrow> string" where
  "title_effect title = title @ '' | GGID Console''"

definition title_cleanup :: string where
  "title_cleanup = ''GGID Console''"

section \<open>Parts of the React SDK\<close>

definition useGGIDAuth :: "'c option \<Rightarrow> exn + 'c" where
  "useGGIDAuth ctx = (case ctx of
     None \<Rightarrow> Inl (ExnError ''useGGIDAuth must be used within a <GGIDProvider> component'') | Some c \<Rightarrow> Inr c)"

text \<open>The effect of \<open>useTokenRefresh\<close>: the delay of its timer, and the event its timer dispatches.\<close>

definition useTokenRefresh_delay :: "int \<Rightarrow> jsv \<Rightarrow> int option" where
  "useTokenRefresh_delay t ts =
     (if \<not> truthy (js_opt_prop ts ''access_token'') then None
      else (case expires_at_ms ts of None \<Rightarrow> None
        | Some e \<Rightarrow> if e = 0 then None
            else (let refreshDelay = max (e - t - 60000) 5000 in if refreshDelay \<le> 0 then None else Some refreshDelay)))"

definition useTokenRefresh_fire :: "'w world \<Rightarrow> 'w world" where
  "useTokenRefresh_fire w = dispatch ''ggid:token-refresh'' w"

text \<open>The error boundary: its state is the message of the error caught; the fallback and the children are
  what is rendered.\<close>

definition boundary_caught :: "string \<Rightarrow> string option \<Rightarrow> string option" where
  "boundary_caught msg st = Some msg"

definition boundary_is_auth :: "string \<Rightarrow> bool" where
  "boundary_is_auth msg = list_ex (str_includes msg) [''401'', ''403'', ''token'', ''unauthorized'', ''session expired'']"

definition handleRetry :: "('s \<Rightarrow> 's) option \<Rightarrow> string option \<times> 's \<Rightarrow> string option \<times> 's" where
  "handleRetry onRetry st = (None, case onRetry of None \<Rightarrow> snd st | Some f \<Rightarrow> f (snd st))"

datatype 'v boundary_view = Children | Fallback 'v | Message string

definition boundary_render :: "'v option \<Rightarrow> string option \<Rightarrow> 'v boundary_view" where
  "boundary_render fallback st = (case st of None \<Rightarrow> Children
     | Some msg \<Rightarrow> (case fallback of Some v \<Rightarrow> Fallback v
         | None \<Rightarrow> Message (if msg = [] then ''An unexpected error occurred.'' else msg)))"

text \<open>\<open>LogoutButton\<close>: the state after the click and the address it goes to.\<close>

definition logout_button_click :: "sdk_config \<Rightarrow> string option \<Rightarrow> bool \<Rightarrow> bool \<Rightarrow> prov \<Rightarrow> string option \<times> prov" where
  "logout_button_click c redirect disabled window' p =
     (if disabled then (None, p)
      else (if window' then Some (case redirect of None \<Rightarrow> ''/login'' | Some u \<Rightarrow> u) else None, sdk_logout c p))"

section \<open>Lemmas\<close>

definition monitor_inv :: "monitor \<Rightarrow> bool" where
  "monitor_inv s = (length (mo_probes s) + (if mo_timer s = None then 0 else 1) \<le> 1 \<and>
     (mo_mounted s \<longrightarrow> mo_probes s \<noteq> [] \<or> mo_timer s \<noteq> None) \<and> list_all Not (mo_probes s) \<and> (\<forall>rec d. mo_timer s = Some (rec, d) \<longrightarrow> \<not> rec \<and> (d = 5000 \<or> d = 30000)))"

lemma monitor_step_inv: "monitor_step s s' \<Longrightarrow> monitor_inv s \<Longrightarrow> monitor_inv s'"
  by (induction rule: monitor_step.induct)
    (cases s; auto simp: monitor_inv_def doHealthCheck_rest_def scheduleNext_def monitor_timer_def monitor_unmount_def Let_def
      length_remove1 list_all_iff dest: in_set_remove1)+

lemma monitor_run_inv:
  assumes "monitor_step\<^sup>*\<^sup>* s s'" "monitor_inv s"
  shows "monitor_inv s'"
  using assms by (induction rule: rtranclp_induct) (blast intro: monitor_step_inv)+

lemma monitor_mount_inv: "monitor_inv monitor_mount"
  by (simp add: monitor_inv_def monitor_mount_def)

text \<open>No function that runs remembers a render after the first, so none resets the flag.\<close>

lemma reconnecting_step:
  assumes "monitor_step s s'" "monitor_inv s" "mo_reconnecting s"
  shows "mo_reconnecting s'"
  using assms by (cases rule: monitor_step.cases)
    (auto simp: monitor_inv_def doHealthCheck_rest_def scheduleNext_def monitor_timer_def monitor_unmount_def Let_def list_all_iff)

lemma reconnecting_run:
  assumes "monitor_step\<^sup>*\<^sup>* s s'" "monitor_inv s" "mo_reconnecting s"
  shows "mo_reconnecting s'"
  using assms(1)
proof (induction rule: rtranclp_induct)
  case (step t u)
  then show ?case using reconnecting_step[OF step(2)] monitor_run_inv[OF step(1) assms(2)] by blast
qed (rule assms(3))

text \<open>A monitor that is mounted gets every answer the server can give.\<close>

lemma monitor_answer:
  assumes "monitor_inv s" "mo_mounted s"
  shows "\<exists>s'. monitor_step\<^sup>*\<^sup>* s s' \<and> mo_health s' = Some r"
proof (cases "mo_probes s")
  case (Cons rec ps)
  then have "monitor_step s (doHealthCheck_rest rec r s)" by (intro monitor_step.answer) simp
  moreover have "mo_health (doHealthCheck_rest rec r s) = Some r"
    using assms(2) by (simp add: doHealthCheck_rest_def scheduleNext_def Let_def)
  ultimately show ?thesis by blast
next
  case Nil
  then obtain rec d where t: "mo_timer s = Some (rec, d)" using assms by (auto simp: monitor_inv_def)
  let ?s = "monitor_timer rec s"
  have "monitor_step s ?s" using t by (rule monitor_step.tick)
  moreover have "monitor_step ?s (doHealthCheck_rest rec r ?s)" by (intro monitor_step.answer) (simp add: monitor_timer_def)
  moreover have "mo_health (doHealthCheck_rest rec r ?s) = Some r"
    using assms(2) by (simp add: doHealthCheck_rest_def scheduleNext_def monitor_timer_def Let_def)
  ultimately show ?thesis by (meson rtranclp.rtrancl_into_rtrancl rtranclp.rtrancl_refl)
qed

text \<open>A monitor that is unmounted while a probe is under way goes on probing: the answer sets a timer that nothing clears.\<close>

lemma unmounted_keeps_polling:
  assumes "\<not> mo_mounted s" "mo_probes s = [rec]"
  shows "\<exists>d s1 s2. monitor_step s s1 \<and> mo_timer s1 = Some (rec, d) \<and> monitor_step s1 s2 \<and> \<not> mo_mounted s2 \<and> mo_probes s2 = [rec]"
proof -
  let ?s1 = "doHealthCheck_rest rec r s"
  have s1: "monitor_step s ?s1" using assms(2) by (intro monitor_step.answer) simp
  have t: "mo_timer ?s1 = Some (rec, if hr_online r then 30000 else 5000)" "mo_probes ?s1 = []" "\<not> mo_mounted ?s1"
    using assms by (simp_all add: doHealthCheck_rest_def scheduleNext_def Let_def)
  then have "monitor_step ?s1 (monitor_timer rec ?s1)" by (intro monitor_step.tick)
  then show ?thesis using s1 t by (fastforce simp: monitor_timer_def)
qed

text \<open>A search shows every link that matches, whatever is collapsed, and clearing it brings the collapsed groups back.\<close>

lemma search_shows_collapsed:
  assumes "trim t \<noteq> []"
  shows "rendered_links (su_search (sidebar_search t u)) (su_collapsed u) groups =
      map (\<lambda>g. (glabel g, map href (items g))) (searchGroups t groups) \<and>
    rendered_links (su_search (sidebar_search [] (sidebar_search t u))) (su_collapsed (sidebar_search t u)) groups =
      rendered_links [] (su_collapsed u) groups"
  using assms by (simp add: rendered_links_def isGroupCollapsed_def sidebar_search_def)

text \<open>Signing out by the sidebar removes what \<open>logout\<close> of the API client removes and one item that is kept elsewhere, but the
  server is not told, and an impersonation stays: the banner is shown to whoever signs in next.\<close>

lemma signout_leaves:
  assumes "sidebar_signout w = (u, w')"
  shows "u = ''/login'' \<and> getAuthToken w' = None \<and> set session_keys \<subseteq> set signout_keys \<and> sent w' = sent w \<and>
    session_store w' = session_store w \<and> banner_mount w' = banner_mount w"
proof -
  have w': "u = ''/login''" "w' = remove_items signout_keys w" using assms by (auto simp: sidebar_signout_def)
  have "set session_keys \<subseteq> set signout_keys" by (simp add: session_keys_def signout_keys_def)
  moreover have "getAuthToken w' = None" by (simp add: w' getAuthToken_def remove_items_store signout_keys_def)
  moreover have "STORAGE_KEY \<notin> set signout_keys" by (simp add: STORAGE_KEY_def signout_keys_def)
  then have "banner_mount w' = banner_mount w" by (simp add: w' banner_mount_def remove_items_store)
  ultimately show ?thesis by (simp add: w' remove_items_frame)
qed

text \<open>The record of loading times keeps the last fifty.\<close>

lemma perf_log_window:
  assumes "has_window w" "json_parse (item_or (session_store w ''ggid_perf'') ''[]'') = Some (JArr es)" "length es \<le> 50"
  shows "\<exists>w' es'. trackPageLoad E (Some n) pageName w = Some w' \<and>
    json_parse (item_or (session_store w' ''ggid_perf'') ''[]'') = Some (JArr es') \<and> length es' \<le> 50 \<and>
    es' = drop (length es + 1 - 50) (es @ [perf_entry n pageName (date_now E w)])"
proof -
  let ?e = "perf_entry n pageName (date_now E w)"
  let ?es = "drop (length es + 1 - 50) (es @ [?e])"
  have clean: "json_clean (JArr es)" using json_parse_clean[OF assms(2)] .
  then have es': "json_clean (JArr ?es)" by (auto simp: list_all_iff perf_entry_def dest: in_set_dropD)
  have shift: "(if 50 < length (es @ [?e]) then tl (es @ [?e]) else es @ [?e]) = ?es"
    using assms(3) by (cases "length es = 50"; cases es) (auto simp: drop_Suc)
  have "trackPageLoad E (Some n) pageName w = Some (set_session ''ggid_perf'' (json_stringify (JArr ?es)) w)"
    using assms(1,2) shift by (simp add: trackPageLoad_def Let_def)
  moreover have "json_stringify (JArr ?es) \<noteq> []" by (rule json_stringify_arr_nonempty)
  ultimately show ?thesis using json_stringify_clean[OF es'] assms(3)
    by (simp add: set_session_def item_or_def)
qed

text \<open>The hook and the provider compute the same delay, which is at least five seconds: the test for an expired token
  never applies.\<close>

lemma refresh_delays_agree: "useTokenRefresh_delay t ts = refresh_delay t ts"
  by (simp add: useTokenRefresh_delay_def refresh_delay_def Let_def)

lemma tab_names_panel:
  "assoc ''aria-controls'' (aria_tab a i) = assoc ''id'' (aria_tabPanel i) \<and> assoc ''aria-labelledby'' (aria_tabPanel i) = assoc ''id'' (aria_tab a i)"
  by (simp add: aria_tab_def aria_tabPanel_def)

section \<open>Properties\<close>

text \<open>C35. The monitor never has more than one probe or timer, and while it is mounted it always has one, so the state of
  the server is asked for again and again.  But once a probe has failed the sidebar shows the sign of
  reconnecting for good: the probes belong to the first render, in which nothing was being reconnected, and none of them takes
  the sign back, although the server can be online again and is shown to be.\<close>

theorem monitor_never_recovers:
  assumes "monitor_step\<^sup>*\<^sup>* monitor_mount s" "mo_mounted s"
  shows "length (mo_probes s) + (if mo_timer s = None then 0 else 1) = 1 \<and>
    (mo_reconnecting s \<longrightarrow> (\<forall>s'. monitor_step\<^sup>*\<^sup>* s s' \<longrightarrow> shown_icon s' = Spinner) \<and>
       (\<forall>r. \<exists>s'. monitor_step\<^sup>*\<^sup>* s s' \<and> mo_health s' = Some r \<and> shown_icon s' = Spinner))"
proof -
  have inv: "monitor_inv s" using assms(1) monitor_mount_inv by (rule monitor_run_inv)
  have spin: "shown_icon s' = Spinner" if "mo_reconnecting s" "monitor_step\<^sup>*\<^sup>* s s'" for s'
    using reconnecting_run[OF that(2) inv that(1)] by (simp add: shown_icon_def)
  have "length (mo_probes s) + (if mo_timer s = None then 0 else 1) = 1"
    using inv assms(2) by (cases "mo_probes s") (auto simp: monitor_inv_def split: if_splits)
  then show ?thesis using spin monitor_answer[OF inv assms(2)] by blast
qed

theorem monitor_never_recovers_witness:
  "\<exists>s'. mo_health s' = Some \<lparr>hr_online = True, hr_latency = Some 7\<rparr> \<and> shown_icon s' = Spinner \<and> monitor_step\<^sup>*\<^sup>* monitor_mount s'"
proof -
  let ?s = "doHealthCheck_rest False \<lparr>hr_online = False, hr_latency = None\<rparr> monitor_mount"
  have r: "monitor_step\<^sup>*\<^sup>* monitor_mount ?s"
    by (intro r_into_rtranclp monitor_step.answer) (simp add: monitor_mount_def)
  have "mo_mounted ?s" "mo_reconnecting ?s"
    by (simp_all add: doHealthCheck_rest_def scheduleNext_def monitor_mount_def Let_def)
  then show ?thesis using monitor_never_recovers[OF r] r by (meson rtranclp_trans)
qed

end
