(* ===== verification/Sdk_Config_Hooks.thy ===== *)
theory Sdk_Config_Hooks
  imports Sdk_Hooks
begin

text \<open>
  The hooks of the React SDK that read and write one configuration object (\<open>sdk/react/src/use*Config.ts\<close> and a few of
  other names) or read one statistics object.  The hooks of a group have the same body up to the
  address, which is the whole of what a hook's definition here says beside the pattern.  The last section is the pattern
  of the hooks that show demonstration data when their request fails, with one of them written out.
\<close>

section \<open>The pattern\<close>

record conf_hook =
  ch_config :: jsv
  ch_loading :: bool
  ch_error :: "string option"

definition conf_init :: conf_hook where
  "conf_init = \<lparr>ch_config = JNull, ch_loading = False, ch_error = None\<rparr>"

definition conf_get :: "string \<Rightarrow> string \<Rightarrow> request" where
  "conf_get baseUrl path = \<lparr>url = baseUrl @ path, meth = ''GET'', hdrs = [], rbody = None\<rparr>"

definition conf_put :: "string \<Rightarrow> string \<Rightarrow> jsv \<Rightarrow> request" where
  "conf_put baseUrl path v = \<lparr>url = baseUrl @ path, meth = ''PUT'', hdrs = [(''Content-Type'', ''application/json'')],
     rbody = Some (json_stringify v)\<rparr>"

text \<open>A request whose answer is read as JSON; \<open>Inl\<close> is the message of the exception.\<close>

definition conf_call :: "'w env \<Rightarrow> request \<Rightarrow> 'w world \<Rightarrow> (string + jsv) \<times> 'w world" where
  "conf_call E rq w = (case fetch E rq w of
      (NetError, w1) \<Rightarrow> (Inl (net_message E), w1)
    | (Resp st body, w1) \<Rightarrow>
        (if \<not> resp_ok st then Inl (''HTTP '' @ show_int st)
         else (case json_parse body of None \<Rightarrow> Inl (syntax_message E) | Some v \<Rightarrow> Inr v), w1))"

definition conf_fetchConfig :: "string \<Rightarrow> string \<Rightarrow> 'w env \<Rightarrow> conf_hook \<times> 'w world \<Rightarrow> conf_hook \<times> 'w world" where
  "conf_fetchConfig baseUrl path E sw = (case sw of (s, w) \<Rightarrow>
     (case conf_call E (conf_get baseUrl path) w of
        (Inl m, w1) \<Rightarrow> (s\<lparr>ch_error := Some m, ch_loading := False\<rparr>, w1)
      | (Inr v, w1) \<Rightarrow> (s\<lparr>ch_config := v, ch_error := None, ch_loading := False\<rparr>, w1)))"

text \<open>\<open>updateConfig\<close> takes over the answer and returns it, or \<open>null\<close>.\<close>

definition conf_updateConfig :: "string \<Rightarrow> string \<Rightarrow> 'w env \<Rightarrow> jsv \<Rightarrow> conf_hook \<times> 'w world \<Rightarrow> jsv \<times> conf_hook \<times> 'w world" where
  "conf_updateConfig baseUrl path E patch sw = (case sw of (s, w) \<Rightarrow>
     (case conf_call E (conf_put baseUrl path patch) w of
        (Inl m, w1) \<Rightarrow> (JNull, s\<lparr>ch_error := Some m, ch_loading := False\<rparr>, w1)
      | (Inr v, w1) \<Rightarrow> (v, s\<lparr>ch_config := v, ch_error := None, ch_loading := False\<rparr>, w1)))"

text \<open>\<open>saveConfig\<close> does not read the body of the answer and takes over what it sent.\<close>

definition conf_saveConfig :: "string \<Rightarrow> string \<Rightarrow> 'w env \<Rightarrow> jsv \<Rightarrow> conf_hook \<times> 'w world \<Rightarrow> bool \<times> conf_hook \<times> 'w world" where
  "conf_saveConfig baseUrl path E cfg sw = (case sw of (s, w) \<Rightarrow>
     (case fetch E (conf_put baseUrl path cfg) w of
        (NetError, w1) \<Rightarrow> (False, s\<lparr>ch_error := Some (net_message E), ch_loading := False\<rparr>, w1)
      | (Resp st body, w1) \<Rightarrow>
          if \<not> resp_ok st then (False, s\<lparr>ch_error := Some (''HTTP '' @ show_int st), ch_loading := False\<rparr>, w1)
          else (True, s\<lparr>ch_config := cfg, ch_error := None, ch_loading := False\<rparr>, w1)))"

text \<open>The operations a hook returns.\<close>

record 'w config_api =
  ca_fetch :: "'w env \<Rightarrow> conf_hook \<times> 'w world \<Rightarrow> conf_hook \<times> 'w world"
  ca_update :: "'w env \<Rightarrow> jsv \<Rightarrow> conf_hook \<times> 'w world \<Rightarrow> jsv \<times> conf_hook \<times> 'w world"

definition config_ops :: "string \<Rightarrow> string \<Rightarrow> 'w config_api" where
  "config_ops path baseUrl = \<lparr>ca_fetch = conf_fetchConfig baseUrl path, ca_update = conf_updateConfig baseUrl path\<rparr>"

record 'w save_api =
  sa_fetch :: "'w env \<Rightarrow> conf_hook \<times> 'w world \<Rightarrow> conf_hook \<times> 'w world"
  sa_save :: "'w env \<Rightarrow> jsv \<Rightarrow> conf_hook \<times> 'w world \<Rightarrow> bool \<times> conf_hook \<times> 'w world"

definition save_ops :: "string \<Rightarrow> string \<Rightarrow> 'w save_api" where
  "save_ops path baseUrl = \<lparr>sa_fetch = conf_fetchConfig baseUrl path, sa_save = conf_saveConfig baseUrl path\<rparr>"

definition conf_fetchStats :: "string \<Rightarrow> string \<Rightarrow> 'w env \<Rightarrow> conf_hook \<times> 'w world \<Rightarrow> conf_hook \<times> 'w world" where
  "conf_fetchStats path baseUrl E sw = conf_fetchConfig baseUrl path E sw"

section \<open>The hooks\<close>

definition useAbacConditionConfig :: "string \<Rightarrow> 'w config_api" where "useAbacConditionConfig = config_ops ''/api/v1/settings/abac-condition-config''"

definition useAccessRequestLifecycleConfig :: "string \<Rightarrow> 'w config_api" where "useAccessRequestLifecycleConfig = config_ops ''/api/v1/settings/access-request-lifecycle-config''"

definition useAdaptiveAuthDesign :: "string \<Rightarrow> 'w config_api" where "useAdaptiveAuthDesign = config_ops ''/api/v1/settings/adaptive-auth-design''"

definition useAuditExportScheduleConfig :: "string \<Rightarrow> 'w config_api" where "useAuditExportScheduleConfig = config_ops ''/api/v1/settings/audit-export-schedule-config''"

definition useAuditQueryOptimizationConfig :: "string \<Rightarrow> 'w config_api" where "useAuditQueryOptimizationConfig = config_ops ''/api/v1/settings/audit-query-optimization-config''"

definition useAuditTamperDetectionConfig :: "string \<Rightarrow> 'w config_api" where "useAuditTamperDetectionConfig = config_ops ''/api/v1/settings/audit-tamper-detection-config''"

definition useAuthMtlsConfig :: "string \<Rightarrow> 'w config_api" where "useAuthMtlsConfig = config_ops ''/api/v1/settings/auth-mtls-config''"

definition useCorsConfig :: "string \<Rightarrow> 'w config_api" where "useCorsConfig = config_ops ''/api/v1/settings/cors-config''"

definition useDataSovereigntyConfig :: "string \<Rightarrow> 'w config_api" where "useDataSovereigntyConfig = config_ops ''/api/v1/settings/data-sovereignty-config''"

definition useDeviceAuthorizationFlowConfig :: "string \<Rightarrow> 'w config_api" where "useDeviceAuthorizationFlowConfig = config_ops ''/api/v1/settings/device-authorization-flow-config''"

definition useEventDrivenAuditConfig :: "string \<Rightarrow> 'w config_api" where "useEventDrivenAuditConfig = config_ops ''/api/v1/settings/event-driven-audit-config''"

definition useFederationPatternsConfig :: "string \<Rightarrow> 'w config_api" where "useFederationPatternsConfig = config_ops ''/api/v1/settings/federation-patterns-config''"

definition useIdentityAttributeSchemaConfig :: "string \<Rightarrow> 'w config_api" where "useIdentityAttributeSchemaConfig = config_ops ''/api/v1/settings/identity-attribute-schema-config''"

definition useIdentityProofingConfig :: "string \<Rightarrow> 'w config_api" where "useIdentityProofingConfig = config_ops ''/api/v1/settings/identity-proofing-config''"

definition useIdentityTokenPrefetchConfig :: "string \<Rightarrow> 'w config_api" where "useIdentityTokenPrefetchConfig = config_ops ''/api/v1/settings/identity-token-prefetch-config''"

definition useJwtClaimValidationConfig :: "string \<Rightarrow> 'w config_api" where "useJwtClaimValidationConfig = config_ops ''/api/v1/settings/jwt-claim-validation-config''"

definition useLdapDirectoryConfig :: "string \<Rightarrow> 'w config_api" where "useLdapDirectoryConfig = config_ops ''/api/v1/settings/ldap-directory-config''"

definition useOAuth21ComplianceChecker :: "string \<Rightarrow> 'w config_api" where "useOAuth21ComplianceChecker = config_ops ''/api/v1/settings/oauth-2-1-compliance-checker''"

definition useOAuthBackpressureConfig :: "string \<Rightarrow> 'w config_api" where "useOAuthBackpressureConfig = config_ops ''/api/v1/settings/oauth-backpressure-config''"

definition useOAuthClientMigrationConfig :: "string \<Rightarrow> 'w config_api" where "useOAuthClientMigrationConfig = config_ops ''/api/v1/settings/oauth-client-migration-config''"

definition useOAuthErrorCatalogConfig :: "string \<Rightarrow> 'w config_api" where "useOAuthErrorCatalogConfig = config_ops ''/api/v1/settings/oauth-error-catalog-config''"

definition useOAuthIntrospectionCacheConfig :: "string \<Rightarrow> 'w config_api" where "useOAuthIntrospectionCacheConfig = config_ops ''/api/v1/settings/oauth-introspection-cache-config''"

definition useOAuthScopeConsentMatrixConfig :: "string \<Rightarrow> 'w config_api" where "useOAuthScopeConsentMatrixConfig = config_ops ''/api/v1/settings/oauth-scope-consent-matrix-config''"

definition useOAuthStateManagementConfig :: "string \<Rightarrow> 'w config_api" where "useOAuthStateManagementConfig = config_ops ''/api/v1/settings/oauth-state-management-config''"

definition useOAuthTokenExchangeConfig :: "string \<Rightarrow> 'w config_api" where "useOAuthTokenExchangeConfig = config_ops ''/api/v1/settings/oauth-token-exchange-config''"

definition useOauthConsentFlowConfig :: "string \<Rightarrow> 'w config_api" where "useOauthConsentFlowConfig = config_ops ''/api/v1/settings/oauth-consent-flow-config''"

definition usePkceDeepDiveConfig :: "string \<Rightarrow> 'w config_api" where "usePkceDeepDiveConfig = config_ops ''/api/v1/settings/pkce-deep-dive-config''"

definition usePolicyBreakGlassConfig :: "string \<Rightarrow> 'w config_api" where "usePolicyBreakGlassConfig = config_ops ''/api/v1/settings/policy-break-glass-config''"

definition usePolicyDryRunConfig :: "string \<Rightarrow> 'w config_api" where "usePolicyDryRunConfig = config_ops ''/api/v1/settings/policy-dry-run-config''"

definition usePolicyEvaluationEngineConfig :: "string \<Rightarrow> 'w config_api" where "usePolicyEvaluationEngineConfig = config_ops ''/api/v1/settings/policy-evaluation-engine-config''"

definition usePolicyHotReloadConfig :: "string \<Rightarrow> 'w config_api" where "usePolicyHotReloadConfig = config_ops ''/api/v1/settings/policy-hot-reload-config''"

definition useRbacDesignConfig :: "string \<Rightarrow> 'w config_api" where "useRbacDesignConfig = config_ops ''/api/v1/settings/rbac-design-config''"

definition useRefreshTokenRotationConfig :: "string \<Rightarrow> 'w config_api" where "useRefreshTokenRotationConfig = config_ops ''/api/v1/settings/refresh-token-rotation-config''"

definition useSamlMetadataManagement :: "string \<Rightarrow> 'w config_api" where "useSamlMetadataManagement = config_ops ''/api/v1/settings/saml-metadata-management''"

definition useSamlSpConfig :: "string \<Rightarrow> 'w config_api" where "useSamlSpConfig = config_ops ''/api/v1/settings/saml-sp-config''"

definition useServiceMeshConfig :: "string \<Rightarrow> 'w config_api" where "useServiceMeshConfig = config_ops ''/api/v1/settings/service-mesh-config''"

definition useSessionClusteringConfig :: "string \<Rightarrow> 'w config_api" where "useSessionClusteringConfig = config_ops ''/api/v1/settings/session-clustering-config''"

definition useTenantProvisioningConfig :: "string \<Rightarrow> 'w config_api" where "useTenantProvisioningConfig = config_ops ''/api/v1/settings/tenant-provisioning-config''"

definition useTokenBindingComparison :: "string \<Rightarrow> 'w config_api" where "useTokenBindingComparison = config_ops ''/api/v1/settings/token-binding-comparison''"

definition useTokenIntrospectionDesign :: "string \<Rightarrow> 'w config_api" where "useTokenIntrospectionDesign = config_ops ''/api/v1/settings/token-introspection-design''"

definition useUserLifecycleConfig :: "string \<Rightarrow> 'w config_api" where "useUserLifecycleConfig = config_ops ''/api/v1/settings/user-lifecycle-config''"

definition useUserProvisioningPipelineConfig :: "string \<Rightarrow> 'w config_api" where "useUserProvisioningPipelineConfig = config_ops ''/api/v1/settings/user-provisioning-pipeline-config''"

definition useWebauthnRecoveryConfig :: "string \<Rightarrow> 'w config_api" where "useWebauthnRecoveryConfig = config_ops ''/api/v1/settings/webauthn-recovery-config''"

definition useWebauthnServerConfig :: "string \<Rightarrow> 'w config_api" where "useWebauthnServerConfig = config_ops ''/api/v1/settings/webauthn-server-config''"

definition useAgentIdentityDelegationConfig :: "string \<Rightarrow> 'w config_api" where "useAgentIdentityDelegationConfig = config_ops ''/api/v1/settings/agent-identity-delegation-config''"

definition useCanaryDeploymentConfig :: "string \<Rightarrow> 'w config_api" where "useCanaryDeploymentConfig = config_ops ''/api/v1/settings/canary-deployment-config''"

definition useComplianceAutomationConfig :: "string \<Rightarrow> 'w config_api" where "useComplianceAutomationConfig = config_ops ''/api/v1/settings/compliance-automation-config''"

definition useConnectionPoolTuning :: "string \<Rightarrow> 'w config_api" where "useConnectionPoolTuning = config_ops ''/api/v1/settings/connection-pool-tuning''"

definition useDatabaseMigrationConfig :: "string \<Rightarrow> 'w config_api" where "useDatabaseMigrationConfig = config_ops ''/api/v1/settings/database-migration-config''"

definition useDistributedTracingConfig :: "string \<Rightarrow> 'w config_api" where "useDistributedTracingConfig = config_ops ''/api/v1/settings/distributed-tracing-config''"

definition useFeatureFlagArchitectureConfig :: "string \<Rightarrow> 'w config_api" where "useFeatureFlagArchitectureConfig = config_ops ''/api/v1/settings/feature-flag-architecture-config''"

definition useHealthCheckDesignConfig :: "string \<Rightarrow> 'w config_api" where "useHealthCheckDesignConfig = config_ops ''/api/v1/settings/health-check-design-config''"

definition useIdentityRecoveryConfig :: "string \<Rightarrow> 'w config_api" where "useIdentityRecoveryConfig = config_ops ''/api/v1/settings/identity-recovery-config''"

definition useLogAggregationConfig :: "string \<Rightarrow> 'w config_api" where "useLogAggregationConfig = config_ops ''/api/v1/settings/log-aggregation-config''"

definition useOAuthScopeTieringConfig :: "string \<Rightarrow> 'w config_api" where "useOAuthScopeTieringConfig = config_ops ''/api/v1/settings/oauth-scope-tiering-config''"

definition usePostQuantumMigrationConfig :: "string \<Rightarrow> 'w config_api" where "usePostQuantumMigrationConfig = config_ops ''/api/v1/settings/post-quantum-migration-config''"

definition useSecretSprawlPreventionConfig :: "string \<Rightarrow> 'w config_api" where "useSecretSprawlPreventionConfig = config_ops ''/api/v1/settings/secret-sprawl-prevention-config''"

definition useZeroTrustNetworkConfig :: "string \<Rightarrow> 'w config_api" where "useZeroTrustNetworkConfig = config_ops ''/api/v1/settings/zero-trust-network-config''"

definition useCibaConfig :: "string \<Rightarrow> 'w config_api" where "useCibaConfig = config_ops ''/api/v1/settings/ciba-config''"

definition useJarConfig :: "string \<Rightarrow> 'w config_api" where "useJarConfig = config_ops ''/api/v1/settings/jar-config''"

definition useOidcFederationConfig :: "string \<Rightarrow> 'w config_api" where "useOidcFederationConfig = config_ops ''/api/v1/settings/oidc-federation-config''"

definition useSessionBindingConfig :: "string \<Rightarrow> 'w config_api" where "useSessionBindingConfig = config_ops ''/api/v1/settings/session-binding-config''"

definition useBruteForceConfig :: "string \<Rightarrow> 'w save_api" where "useBruteForceConfig = save_ops ''/api/v1/auth/brute-force-config''"

definition usePkceEnforcement :: "string \<Rightarrow> 'w save_api" where "usePkceEnforcement = save_ops ''/api/v1/oauth/pkce-enforcement''"

definition useRiskScoringConfig :: "string \<Rightarrow> 'w save_api" where "useRiskScoringConfig = save_ops ''/api/v1/auth/risk-scoring-config''"

definition useSessionTimeoutConfig :: "string \<Rightarrow> 'w save_api" where "useSessionTimeoutConfig = save_ops ''/api/v1/auth/session-timeout-config''"

definition useGrantTypeStats :: "string \<Rightarrow> 'w env \<Rightarrow> conf_hook \<times> 'w world \<Rightarrow> conf_hook \<times> 'w world" where
  "useGrantTypeStats = conf_fetchStats ''/api/v1/oauth/grant-type-stats''"

definition useIntrospectionStats :: "string \<Rightarrow> 'w env \<Rightarrow> conf_hook \<times> 'w world \<Rightarrow> conf_hook \<times> 'w world" where
  "useIntrospectionStats = conf_fetchStats ''/api/v1/oauth/introspection-stats''"

definition useMFAEnrollmentStats :: "string \<Rightarrow> 'w env \<Rightarrow> conf_hook \<times> 'w world \<Rightarrow> conf_hook \<times> 'w world" where
  "useMFAEnrollmentStats = conf_fetchStats ''/api/v1/auth/mfa-enrollment-stats''"

definition usePasswordlessStats :: "string \<Rightarrow> 'w env \<Rightarrow> conf_hook \<times> 'w world \<Rightarrow> conf_hook \<times> 'w world" where
  "usePasswordlessStats = conf_fetchStats ''/api/v1/auth/passwordless-stats''"

definition useTokenBindingStats :: "string \<Rightarrow> 'w env \<Rightarrow> conf_hook \<times> 'w world \<Rightarrow> conf_hook \<times> 'w world" where
  "useTokenBindingStats = conf_fetchStats ''/api/v1/oauth/token-binding-stats''"

definition useBackchannelLogoutStats :: "string \<Rightarrow> 'w env \<Rightarrow> conf_hook \<times> 'w world \<Rightarrow> conf_hook \<times> 'w world" where
  "useBackchannelLogoutStats = conf_fetchStats ''/api/v1/auth/backchannel-logout-stats''"

definition useCredentialStuffingStats :: "string \<Rightarrow> 'w env \<Rightarrow> conf_hook \<times> 'w world \<Rightarrow> conf_hook \<times> 'w world" where
  "useCredentialStuffingStats = conf_fetchStats ''/api/v1/auth/credential-stuffing-stats''"

definition useTokenRevocationStats :: "string \<Rightarrow> 'w env \<Rightarrow> conf_hook \<times> 'w world \<Rightarrow> conf_hook \<times> 'w world" where
  "useTokenRevocationStats = conf_fetchStats ''/api/v1/oauth/token-revocation-stats''"

definition CONFIG_HOOKS :: "(string \<Rightarrow> 'w config_api) list" where
  "CONFIG_HOOKS =
    [useAbacConditionConfig, useAccessRequestLifecycleConfig, useAdaptiveAuthDesign, useAuditExportScheduleConfig,
     useAuditQueryOptimizationConfig, useAuditTamperDetectionConfig, useAuthMtlsConfig, useCorsConfig,
     useDataSovereigntyConfig, useDeviceAuthorizationFlowConfig, useEventDrivenAuditConfig, useFederationPatternsConfig,
     useIdentityAttributeSchemaConfig, useIdentityProofingConfig, useIdentityTokenPrefetchConfig, useJwtClaimValidationConfig,
     useLdapDirectoryConfig, useOAuth21ComplianceChecker, useOAuthBackpressureConfig, useOAuthClientMigrationConfig,
     useOAuthErrorCatalogConfig, useOAuthIntrospectionCacheConfig, useOAuthScopeConsentMatrixConfig, useOAuthStateManagementConfig,
     useOAuthTokenExchangeConfig, useOauthConsentFlowConfig, usePkceDeepDiveConfig, usePolicyBreakGlassConfig,
     usePolicyDryRunConfig, usePolicyEvaluationEngineConfig, usePolicyHotReloadConfig, useRbacDesignConfig,
     useRefreshTokenRotationConfig, useSamlMetadataManagement, useSamlSpConfig, useServiceMeshConfig,
     useSessionClusteringConfig, useTenantProvisioningConfig, useTokenBindingComparison, useTokenIntrospectionDesign,
     useUserLifecycleConfig, useUserProvisioningPipelineConfig, useWebauthnRecoveryConfig, useWebauthnServerConfig,
     useAgentIdentityDelegationConfig, useCanaryDeploymentConfig, useComplianceAutomationConfig, useConnectionPoolTuning,
     useDatabaseMigrationConfig, useDistributedTracingConfig, useFeatureFlagArchitectureConfig, useHealthCheckDesignConfig,
     useIdentityRecoveryConfig, useLogAggregationConfig, useOAuthScopeTieringConfig, usePostQuantumMigrationConfig,
     useSecretSprawlPreventionConfig, useZeroTrustNetworkConfig, useCibaConfig, useJarConfig,
     useOidcFederationConfig, useSessionBindingConfig]"

definition SAVE_HOOKS :: "(string \<Rightarrow> 'w save_api) list" where
  "SAVE_HOOKS = [useBruteForceConfig, usePkceEnforcement, useRiskScoringConfig, useSessionTimeoutConfig]"

definition STATS_HOOKS :: "(string \<Rightarrow> 'w env \<Rightarrow> conf_hook \<times> 'w world \<Rightarrow> conf_hook \<times> 'w world) list" where
  "STATS_HOOKS =
    [useGrantTypeStats, useIntrospectionStats, useMFAEnrollmentStats, usePasswordlessStats,
     useTokenBindingStats, useBackchannelLogoutStats, useCredentialStuffingStats, useTokenRevocationStats]"

lemmas config_hook_defs = useAbacConditionConfig_def useAccessRequestLifecycleConfig_def useAdaptiveAuthDesign_def useAuditExportScheduleConfig_def
  useAuditQueryOptimizationConfig_def useAuditTamperDetectionConfig_def useAuthMtlsConfig_def useCorsConfig_def
  useDataSovereigntyConfig_def useDeviceAuthorizationFlowConfig_def useEventDrivenAuditConfig_def useFederationPatternsConfig_def
  useIdentityAttributeSchemaConfig_def useIdentityProofingConfig_def useIdentityTokenPrefetchConfig_def useJwtClaimValidationConfig_def
  useLdapDirectoryConfig_def useOAuth21ComplianceChecker_def useOAuthBackpressureConfig_def useOAuthClientMigrationConfig_def
  useOAuthErrorCatalogConfig_def useOAuthIntrospectionCacheConfig_def useOAuthScopeConsentMatrixConfig_def useOAuthStateManagementConfig_def
  useOAuthTokenExchangeConfig_def useOauthConsentFlowConfig_def usePkceDeepDiveConfig_def usePolicyBreakGlassConfig_def
  usePolicyDryRunConfig_def usePolicyEvaluationEngineConfig_def usePolicyHotReloadConfig_def useRbacDesignConfig_def
  useRefreshTokenRotationConfig_def useSamlMetadataManagement_def useSamlSpConfig_def useServiceMeshConfig_def
  useSessionClusteringConfig_def useTenantProvisioningConfig_def useTokenBindingComparison_def useTokenIntrospectionDesign_def
  useUserLifecycleConfig_def useUserProvisioningPipelineConfig_def useWebauthnRecoveryConfig_def useWebauthnServerConfig_def
  useAgentIdentityDelegationConfig_def useCanaryDeploymentConfig_def useComplianceAutomationConfig_def useConnectionPoolTuning_def
  useDatabaseMigrationConfig_def useDistributedTracingConfig_def useFeatureFlagArchitectureConfig_def useHealthCheckDesignConfig_def
  useIdentityRecoveryConfig_def useLogAggregationConfig_def useOAuthScopeTieringConfig_def usePostQuantumMigrationConfig_def
  useSecretSprawlPreventionConfig_def useZeroTrustNetworkConfig_def useCibaConfig_def useJarConfig_def
  useOidcFederationConfig_def useSessionBindingConfig_def

lemmas save_hook_defs = useBruteForceConfig_def usePkceEnforcement_def useRiskScoringConfig_def useSessionTimeoutConfig_def

lemmas stats_hook_defs = useGrantTypeStats_def useIntrospectionStats_def useMFAEnrollmentStats_def usePasswordlessStats_def
  useTokenBindingStats_def useBackchannelLogoutStats_def useCredentialStuffingStats_def useTokenRevocationStats_def

section \<open>Demonstration data\<close>

text \<open>149 hooks of the SDK ask the address \<open>/api/v1/data\<close>, whatever they are named for, and show data written into the source
  if they get no success answer.\<close>

record demo_hook =
  de_data :: jsv
  de_demo :: bool
  de_loading :: bool
  de_error :: "string option"

definition demo_init :: demo_hook where
  "demo_init = \<lparr>de_data = JNull, de_demo = True, de_loading = True, de_error = None\<rparr>"

definition demo_request :: request where
  "demo_request = \<lparr>url = ''/api/v1/data'', meth = ''GET'', hdrs = [(''Content-Type'', ''application/json'')], rbody = None\<rparr>"

definition demo_fetch :: "jsv \<Rightarrow> 'w env \<Rightarrow> demo_hook \<times> 'w world \<Rightarrow> demo_hook \<times> 'w world" where
  "demo_fetch demo E sw = (case sw of (s, w) \<Rightarrow>
     (case fetch E demo_request w of (out, w1) \<Rightarrow>
       ((case out of
           Resp st body \<Rightarrow>
             if resp_ok st then
               (case json_parse body of None \<Rightarrow> s\<lparr>de_error := Some (syntax_message E), de_loading := False\<rparr>
                | Some v \<Rightarrow> s\<lparr>de_data := v, de_demo := False, de_error := None, de_loading := False\<rparr>)
             else s\<lparr>de_data := demo, de_demo := True, de_error := None, de_loading := False\<rparr>
         | NetError \<Rightarrow> s\<lparr>de_data := demo, de_demo := True, de_error := None, de_loading := False\<rparr>), w1)))"

text \<open>One of them, with its data.\<close>

definition flagged :: "string \<Rightarrow> int \<Rightarrow> string list \<Rightarrow> string \<Rightarrow> jsv" where
  "flagged user score signals action_taken = JObj [(''user'', JStr user), (''score'', JNum score),
     (''signals'', JArr (map JStr signals)), (''action_taken'', JStr action_taken)]"

definition velocity :: "string \<Rightarrow> int \<Rightarrow> int \<Rightarrow> int \<Rightarrow> jsv" where
  "velocity rule threshold rate triggered = JObj [(''rule'', JStr rule), (''threshold'', JNum threshold),
     (''current_rate'', JNum rate), (''triggered_count'', JNum triggered)]"

definition fraud_demo :: jsv where
  "fraud_demo = JObj
     [(''flagged_accounts'', JArr
        [flagged ''suspicious@temp.com'' 92 [''new_device'', ''velocity_burst'', ''known_bad_ip''] ''blocked'',
         flagged ''user.account@ legit.com'' 67 [''device_mismatch'', ''off_hours''] ''challenged'',
         flagged ''new.signup@mail.com'' 45 [''velocity_warning''] ''flagged'']),
      (''velocity_rules'', JArr
        [velocity ''Signups per IP / hour'' 10 7 3, velocity ''Login attempts / min'' 5 2 12,
         velocity ''Password resets / hour'' 3 1 5, velocity ''Account creations / day'' 50 34 0]),
      (''device_fingerprint_count'', JNum 15420),
      (''blocked_entities'', JObj [(''ips'', JNum 1247), (''emails'', JNum 89), (''devices'', JNum 34), (''total'', JNum 1370)]),
      (''score_distribution'', JArr (map JNum [120, 80, 200, 150, 90, 45, 30, 15, 8, 3]))]"

definition useFraudDetection :: "'w env \<Rightarrow> demo_hook \<times> 'w world \<Rightarrow> demo_hook \<times> 'w world" where
  "useFraudDetection = demo_fetch fraud_demo"

section \<open>Lemmas\<close>

lemma conf_call_sent: "conf_call E rq w = (r, w') \<Longrightarrow> sent w' = sent w @ [rq]"
  by (auto simp: conf_call_def fetch_eq split: outcome.splits prod.splits)

lemma config_hook_path: "h \<in> set CONFIG_HOOKS \<Longrightarrow> \<exists>p. h = config_ops p"
  by (auto simp: CONFIG_HOOKS_def config_hook_defs)

lemma save_hook_path: "h \<in> set SAVE_HOOKS \<Longrightarrow> \<exists>p. h = save_ops p"
  by (auto simp: SAVE_HOOKS_def save_hook_defs)

lemma demo_fetch_fraud: "useFraudDetection E (s, w) = demo_fetch fraud_demo E (s, w)"
  by (simp add: useFraudDetection_def)

text \<open>\<open>saveConfig\<close> trusts the status alone.\<close>

lemma save_keeps_sent:
  assumes "h \<in> set SAVE_HOOKS" "sa_save (h b) E cfg (s, w) = (True, s', w')"
  shows "ch_config s' = cfg \<and> ch_error s' = None"
proof -
  obtain p where "h = save_ops p" using save_hook_path[OF assms(1)] by blast
  then show ?thesis using assms(2)
    by (auto simp: save_ops_def conf_saveConfig_def split: prod.splits outcome.splits if_splits)
qed

section \<open>Properties\<close>

text \<open>The configuration hooks send their one request without a token and without a tenant, unlike the hooks of
  the other patterns; a refused update changes nothing but the error, and an accepted one makes the answer, not what was sent,
  the configuration.\<close>

lemma config_update_contract:
  assumes "h \<in> set CONFIG_HOOKS" "ca_update (h b) E patch (s, w) = (r, s', w')"
  shows "(\<exists>rq. sent w' = sent w @ [rq] \<and> meth rq = ''PUT'' \<and> rbody rq = Some (json_stringify patch) \<and>
      assoc ''Authorization'' (hdrs rq) = None \<and> assoc ''X-Tenant-ID'' (hdrs rq) = None \<and>
      (case fst (fetch E rq w) of
         Resp st body \<Rightarrow>
           (if resp_ok st \<and> json_parse body \<noteq> None then Some r = json_parse body \<and> ch_config s' = r \<and> ch_error s' = None
            else r = JNull \<and> ch_config s' = ch_config s \<and>
              ch_error s' = Some (if resp_ok st then syntax_message E else ''HTTP '' @ show_int st))
       | NetError \<Rightarrow> r = JNull \<and> ch_config s' = ch_config s \<and> ch_error s' = Some (net_message E)))"
proof -
  obtain p where h: "h = config_ops p" using config_hook_path[OF assms(1)] by blast
  let ?rq = "conf_put b p patch"
  have u: "conf_updateConfig b p E patch (s, w) = (r, s', w')" using assms(2) by (simp add: h config_ops_def)
  have sent: "sent w' = sent w @ [?rq]"
    using u by (auto simp: conf_updateConfig_def dest: conf_call_sent split: prod.splits sum.splits)
  show ?thesis
  proof (intro exI[of _ ?rq] conjI)
    show "case fst (fetch E ?rq w) of
         Resp st body \<Rightarrow>
           (if resp_ok st \<and> json_parse body \<noteq> None then Some r = json_parse body \<and> ch_config s' = r \<and> ch_error s' = None
            else r = JNull \<and> ch_config s' = ch_config s \<and>
              ch_error s' = Some (if resp_ok st then syntax_message E else ''HTTP '' @ show_int st))
       | NetError \<Rightarrow> r = JNull \<and> ch_config s' = ch_config s \<and> ch_error s' = Some (net_message E)"
      using u by (auto simp: conf_updateConfig_def conf_call_def split: prod.splits outcome.splits option.splits if_splits)
  qed (simp_all add: sent conf_put_def)
qed

lemma config_update_contract_example:
  "let res = ca_update (useCorsConfig ''b'') (always (Resp 401 [])) (JObj []) (conf_init, blank_world) in
   (\<exists>rq. sent (snd (snd res)) = [rq] \<and> assoc ''Authorization'' (hdrs rq) = None) \<and> ch_config (fst (snd res)) = JNull"
proof -
  let ?res = "ca_update (useCorsConfig ''b'') (always (Resp 401 [])) (JObj []) (conf_init, blank_world)"
  have "useCorsConfig \<in> set CONFIG_HOOKS" by (simp add: CONFIG_HOOKS_def)
  then show ?thesis
    using config_update_contract[of useCorsConfig "''b''" "always (Resp 401 [])" "JObj []" conf_init blank_world "fst ?res" "fst (snd ?res)" "snd (snd ?res)"]
    by (auto simp: Let_def fetch_def always_def resp_ok_def conf_init_def blank_world_def)
qed

text \<open>A demonstration hook never reports a failure of the server: whatever error it answers, unauthorized included, and also
  without a connection, the hook ends without an error and shows the data of the source, here accounts
  said to be blocked for fraud; only the flag tells.\<close>

lemma demo_masks_failure:
  assumes "useFraudDetection E (s, w) = (s', w')"
    and "fst (fetch E demo_request w) = NetError \<or> (\<exists>st body. fst (fetch E demo_request w) = Resp st body \<and> \<not> resp_ok st)"
  shows "de_error s' = None \<and> de_data s' = fraud_demo \<and> de_demo s' \<and> \<not> de_loading s' \<and>
    sent w' = sent w @ [demo_request] \<and> assoc ''Authorization'' (hdrs demo_request) = None"
  using assms by (auto simp: useFraudDetection_def demo_fetch_def fetch_eq demo_request_def split: outcome.splits)

lemma demo_masks_failure_example:
  "de_data (fst (useFraudDetection (always (Resp 401 [])) (demo_init, blank_world))) = fraud_demo \<and>
   de_error (fst (useFraudDetection (always (Resp 401 [])) (demo_init, blank_world))) = None"
  using demo_masks_failure[of "always (Resp 401 [])" demo_init blank_world "fst (useFraudDetection (always (Resp 401 [])) (demo_init, blank_world))"
      "snd (useFraudDetection (always (Resp 401 [])) (demo_init, blank_world))"]
  by (simp add: fetch_def always_def resp_ok_def)

end
