(* ===== verification/Sdk_Demo_Hooks.thy ===== *)
theory Sdk_Demo_Hooks
  imports Sdk_Config_Hooks
begin

text \<open>
  Hooks of the React SDK (\<open>sdk/react/src/use*.ts\<close>) that show data written into the source when the address \<open>/api/v1/data\<close>, which
  all of them ask, gives no success answer.  They have the body of \<open>demo_fetch\<close> of \<open>Sdk_Config_Hooks\<close>; each is given here by its
  data, by whether it returns the flag \<open>isDemoData\<close>, and by its actions, all of which only write to the console.
\<close>

section \<open>The pattern\<close>

text \<open>What a hook returns to the component; \<open>dv_isDemoData\<close> is \<^term>\<open>None\<close> where the flag is not returned.\<close>

record demo_view =
  dv_data :: jsv
  dv_loading :: bool
  dv_error :: "string option"
  dv_isDemoData :: "bool option"

definition demo_view_of :: "bool \<Rightarrow> demo_hook \<Rightarrow> demo_view" where
  "demo_view_of reveals s = \<lparr>dv_data = de_data s, dv_loading = de_loading s, dv_error = de_error s,
     dv_isDemoData = (if reveals then Some (de_demo s) else None)\<rparr>"

text \<open>An action: what it logs for its arguments, and the state after it.\<close>

type_synonym 'w demo_action = "jsv list \<Rightarrow> demo_hook \<times> 'w world \<Rightarrow> jsv list \<times> demo_hook \<times> 'w world"

record 'w demo_api =
  dm_refresh :: "'w env \<Rightarrow> demo_hook \<times> 'w world \<Rightarrow> demo_hook \<times> 'w world"
  dm_view :: "demo_hook \<Rightarrow> demo_view"
  dm_actions :: "(string \<times> 'w demo_action) list"

definition arg :: "jsv list \<Rightarrow> nat \<Rightarrow> jsv" where
  "arg a i = (if i < length a then a ! i else JUndef)"

definition log_action :: "(jsv list \<Rightarrow> jsv list) \<Rightarrow> 'w demo_action" where
  "log_action f args sw = (f args, sw)"

definition demo_api_of :: "bool \<Rightarrow> jsv \<Rightarrow> (string \<times> (jsv list \<Rightarrow> jsv list)) list \<Rightarrow> 'w demo_api" where
  "demo_api_of reveals data acts = \<lparr>dm_refresh = demo_fetch data, dm_view = demo_view_of reveals,
     dm_actions = map (\<lambda>(n, f). (n, log_action f)) acts\<rparr>"

section \<open>The hooks\<close>

definition AccessCertificationCampaigns_demo :: jsv where
  "AccessCertificationCampaigns_demo = JObj
      [(''campaigns'', JArr
         [JObj
            [(''id'', JStr ''c1''), (''name'', JStr ''Q3 Access Review''), (''scope'', JStr ''All Engineering Users''),
             (''period'', JStr ''Q3 2026''), (''status'', JStr ''active''), (''completion_pct'', JNum 65)],
          JObj
            [(''id'', JStr ''c2''), (''name'', JStr ''Admin Privilege Review''), (''scope'', JStr ''Users with admin roles''),
             (''period'', JStr ''Monthly July''), (''status'', JStr ''active''), (''completion_pct'', JNum 40)],
          JObj
            [(''id'', JStr ''c3''), (''name'', JStr ''Contractor Access Review''),
             (''scope'', JStr ''All contractor accounts''), (''period'', JStr ''Q2 2026''), (''status'', JStr ''completed''),
             (''completion_pct'', JNum 100)],
          JObj
            [(''id'', JStr ''c4''), (''name'', JStr ''Service Account Audit''), (''scope'', JStr ''Non-human identities''),
             (''period'', JStr ''Annual 2026''), (''status'', JStr ''scheduled''), (''completion_pct'', JNum 0)]]),
       (''reviewer_workload'', JArr
         [JObj [(''reviewer'', JStr ''Alice Chen''), (''assigned'', JNum 45), (''completed'', JNum 30), (''pending'', JNum 15)],
          JObj [(''reviewer'', JStr ''Bob Smith''), (''assigned'', JNum 38), (''completed'', JNum 25), (''pending'', JNum 13)],
          JObj [(''reviewer'', JStr ''Diana Liu''), (''assigned'', JNum 52), (''completed'', JNum 40), (''pending'', JNum 12)],
          JObj [(''reviewer'', JStr ''Evan Park''), (''assigned'', JNum 30), (''completed'', JNum 28), (''pending'', JNum 2)]]),
       (''pending_reviews'', JArr
         [JObj
            [(''id'', JStr ''r1''), (''user'', JStr ''svc.legacy-api''), (''role'', JStr ''admin''),
             (''last_accessed'', JStr ''3d ago''), (''reviewer'', JStr ''Alice Chen'')],
          JObj
            [(''id'', JStr ''r2''), (''user'', JStr ''temp.contractor''), (''role'', JStr ''developer''),
             (''last_accessed'', JStr ''30d ago''), (''reviewer'', JStr ''Bob Smith'')],
          JObj
            [(''id'', JStr ''r3''), (''user'', JStr ''automation-bot''), (''role'', JStr ''writer''),
             (''last_accessed'', JStr ''never''), (''reviewer'', JStr ''Diana Liu'')]]),
       (''auto_escalation'', JStr ''Escalate to manager after 7 days, to security lead after 14 days'')]"

definition useAccessCertificationCampaigns :: "'w demo_api" where
  "useAccessCertificationCampaigns = demo_api_of True AccessCertificationCampaigns_demo []"

definition AccessRequestApprovalWorkflow_demo :: jsv where
  "AccessRequestApprovalWorkflow_demo = JObj
      [(''pending_requests'', JArr
         [JObj
            [(''id'', JStr ''req-1''), (''requester_name'', JStr ''Alice Chen''),
             (''requested_role'', JStr ''Data Engineer''), (''sla_remaining_hours'', JNum 6),
             (''auto_approve_eligible'', JBool False),
             (''approval_chain'', JArr
               [JObj [(''role'', JStr ''Manager''), (''status'', JStr ''approved'')],
                JObj [(''role'', JStr ''Security Admin''), (''status'', JStr ''pending'')],
                JObj [(''role'', JStr ''Compliance''), (''status'', JStr ''waiting'')]])],
          JObj
            [(''id'', JStr ''req-2''), (''requester_name'', JStr ''Bob Martinez''),
             (''requested_role'', JStr ''Read-Only Analyst''), (''sla_remaining_hours'', JNum 2),
             (''auto_approve_eligible'', JBool False),
             (''approval_chain'', JArr
               [JObj [(''role'', JStr ''Manager''), (''status'', JStr ''pending'')],
                JObj [(''role'', JStr ''Security Admin''), (''status'', JStr ''waiting'')]])],
          JObj
            [(''id'', JStr ''req-3''), (''requester_name'', JStr ''Carol Jones''),
             (''requested_role'', JStr ''Finance Admin''), (''sla_remaining_hours'', JNum (- 1)),
             (''auto_approve_eligible'', JBool False),
             (''approval_chain'', JArr
               [JObj [(''role'', JStr ''Manager''), (''status'', JStr ''approved'')],
                JObj [(''role'', JStr ''Security Admin''), (''status'', JStr ''approved'')],
                JObj [(''role'', JStr ''Compliance''), (''status'', JStr ''pending'')]])]]),
       (''auto_approve_rules'', JArr
         [JObj
            [(''id'', JStr ''rule-1''), (''name'', JStr ''Low-risk read roles''),
             (''condition'', JStr ''Role = Read-Only AND dept != Finance''), (''enabled'', JBool True)],
          JObj
            [(''id'', JStr ''rule-2''), (''name'', JStr ''Same-day contractor access''),
             (''condition'', JStr ''Contractor AND duration <= 8h''), (''enabled'', JBool True)],
          JObj
            [(''id'', JStr ''rule-3''), (''name'', JStr ''Dev environment access''),
             (''condition'', JStr ''Environment = dev AND role != admin''), (''enabled'', JBool False)]])]"

definition useAccessRequestApprovalWorkflow :: "'w demo_api" where
  "useAccessRequestApprovalWorkflow = demo_api_of False AccessRequestApprovalWorkflow_demo [(''approve'', \<lambda>a. [JStr ''Approving request:'', arg a 0]),
     (''reject'', \<lambda>a. [JStr ''Rejecting request:'', arg a 0])]"

definition AdaptiveAuthConfig_demo :: jsv where
  "AdaptiveAuthConfig_demo = JObj
      [(''risk_thresholds'', JArr
         [JObj [(''level'', JStr ''low''), (''score_range'', JStr ''0-30''), (''required_factor'', JStr ''password'')],
          JObj [(''level'', JStr ''medium''), (''score_range'', JStr ''31-60''), (''required_factor'', JStr ''password + OTP'')],
          JObj
            [(''level'', JStr ''high''), (''score_range'', JStr ''61-85''),
             (''required_factor'', JStr ''password + WebAuthn'')],
          JObj [(''level'', JStr ''critical''), (''score_range'', JStr ''86-100''), (''required_factor'', JStr ''deny'')]]),
       (''signal_weights'', JArr
         [JObj [(''signal'', JStr ''geo_anomaly''), (''weight'', JNum 30)],
          JObj [(''signal'', JStr ''device_trust''), (''weight'', JNum 25)],
          JObj [(''signal'', JStr ''time_of_day''), (''weight'', JNum 15)],
          JObj [(''signal'', JStr ''ip_reputation''), (''weight'', JNum 20)],
          JObj [(''signal'', JStr ''frequency''), (''weight'', JNum 10)]]),
       (''step_up_triggers'', JArr
         [JStr ''sensitive_action:delete_user'',
          JStr ''policy_change:modify_rbac'',
          JStr ''admin_access:panel'',
          JStr ''data_export:bulk_pii'']),
       (''role_overrides'', JArr
         [JObj [(''role'', JStr ''admin''), (''min_factor'', JStr ''webauthn'')],
          JObj [(''role'', JStr ''developer''), (''min_factor'', JStr ''totp'')],
          JObj [(''role'', JStr ''user''), (''min_factor'', JStr ''password'')]])]"

definition useAdaptiveAuthConfig :: "'w demo_api" where
  "useAdaptiveAuthConfig = demo_api_of True AdaptiveAuthConfig_demo []"

definition AgentConsentFlow_demo :: jsv where
  "AgentConsentFlow_demo = JObj
      [(''pending_consent_requests'', JArr
         [JObj
            [(''id'', JStr ''cr-001''), (''agent_name'', JStr ''CI/CD Bot''),
             (''requested_scopes'', JArr [JStr ''deploy:staging'', JStr ''read:config'']),
             (''resource'', JStr ''staging-cluster''), (''user'', JStr ''devops@ggid.dev''),
             (''requested_at'', JStr ''5m ago''), (''expires_in'', JStr ''55m''),
             (''scope_justification'', JStr ''Deploy v2.3.1 to staging environment'')],
          JObj
            [(''id'', JStr ''cr-002''), (''agent_name'', JStr ''Data Pipeline''),
             (''requested_scopes'', JArr [JStr ''read:users'', JStr ''write:audit'']), (''resource'', JStr ''user-database''),
             (''user'', JStr ''data@ggid.dev''), (''requested_at'', JStr ''15m ago''), (''expires_in'', JStr ''45m''),
             (''scope_justification'', JStr ''Nightly ETL sync requires user data access'')]]),
       (''consent_history'', JArr
         [JObj
            [(''agent'', JStr ''Monitoring Agent''), (''user'', JStr ''sre@ggid.dev''),
             (''scopes'', JArr [JStr ''read:metrics'', JStr ''read:health'']), (''granted_at'', JStr ''1h ago''),
             (''revoked_at'', JStr []), (''status'', JStr ''active'')],
          JObj
            [(''agent'', JStr ''Security Scanner''), (''user'', JStr ''sec@ggid.dev''),
             (''scopes'', JArr [JStr ''read:all'', JStr ''scan:vulns'']), (''granted_at'', JStr ''2h ago''),
             (''revoked_at'', JStr []), (''status'', JStr ''active'')],
          JObj
            [(''agent'', JStr ''Legacy Integration''), (''user'', JStr ''admin@ggid.dev''),
             (''scopes'', JArr [JStr ''read:users'']), (''granted_at'', JStr ''5d ago''), (''revoked_at'', JStr ''2d ago''),
             (''status'', JStr ''revoked'')],
          JObj
            [(''agent'', JStr ''CI/CD Bot''), (''user'', JStr ''devops@ggid.dev''),
             (''scopes'', JArr [JStr ''deploy:staging'']), (''granted_at'', JStr ''6h ago''), (''revoked_at'', JStr []),
             (''status'', JStr ''active'')]]),
       (''active_agent_count'', JNum 3), (''granular_scope_toggle'', JBool True), (''auto_expire_hours'', JNum 24)]"

definition useAgentConsentFlow :: "'w demo_api" where
  "useAgentConsentFlow = demo_api_of False AgentConsentFlow_demo [(''approve'', \<lambda>a. [JStr ''Approving consent:'', arg a 0]),
     (''deny'', \<lambda>a. [JStr ''Denying consent:'', arg a 0])]"

definition AgentCredentialRotation_demo :: jsv where
  "AgentCredentialRotation_demo = JObj
      [(''rotation_schedule'', JArr
         [JObj
            [(''agent_id'', JStr ''agent-001''), (''agent_name'', JStr ''CI/CD Bot''), (''current_key_age_days'', JNum 30),
             (''rotation_due_days'', JNum 60), (''auto_rotate'', JBool False)],
          JObj
            [(''agent_id'', JStr ''agent-002''), (''agent_name'', JStr ''Monitoring Agent''),
             (''current_key_age_days'', JNum 85), (''rotation_due_days'', JNum 5), (''auto_rotate'', JBool False)],
          JObj
            [(''agent_id'', JStr ''agent-003''), (''agent_name'', JStr ''Data Pipeline''),
             (''current_key_age_days'', JNum 95), (''rotation_due_days'', JNum (- 5)), (''auto_rotate'', JBool False)],
          JObj
            [(''agent_id'', JStr ''agent-004''), (''agent_name'', JStr ''Security Scanner''),
             (''current_key_age_days'', JNum 15), (''rotation_due_days'', JNum 75), (''auto_rotate'', JBool False)],
          JObj
            [(''agent_id'', JStr ''agent-005''), (''agent_name'', JStr ''Legacy Integration''),
             (''current_key_age_days'', JNum 180), (''rotation_due_days'', JNum (- 90)), (''auto_rotate'', JBool False)]]),
       (''rotation_history'', JArr
         [JObj
            [(''agent_name'', JStr ''CI/CD Bot''), (''rotated_at'', JStr ''30d ago''),
             (''rotated_by'', JStr ''auto-rotation''), (''key_thumbprint_before'', JStr ''a1b2c3d4e5f6a7b8''),
             (''key_thumbprint_after'', JStr ''f8e7d6c5b4a39281'')],
          JObj
            [(''agent_name'', JStr ''Security Scanner''), (''rotated_at'', JStr ''15d ago''),
             (''rotated_by'', JStr ''admin@ggid.dev''), (''key_thumbprint_before'', JStr ''b2c3d4e5f6a7b8c1''),
             (''key_thumbprint_after'', JStr ''e7d6c5b4a3928170'')],
          JObj
            [(''agent_name'', JStr ''Monitoring Agent''), (''rotated_at'', JStr ''85d ago''),
             (''rotated_by'', JStr ''auto-rotation''), (''key_thumbprint_before'', JStr ''c3d4e5f6a7b8c1d2''),
             (''key_thumbprint_after'', JStr ''d6c5b4a3928170f1'')]]),
       (''compliance_pct'', JNum 60)]"

definition useAgentCredentialRotation :: "'w demo_api" where
  "useAgentCredentialRotation = demo_api_of False AgentCredentialRotation_demo [(''rotateNow'', \<lambda>a. [JStr ''Rotating credential for:'', arg a 0])]"

definition AgentLifecycle_demo :: jsv where
  "AgentLifecycle_demo = JObj
      [(''registered_agents'', JArr
         [JObj
            [(''agent_id'', JStr ''agent-001''), (''name'', JStr ''CI/CD Bot''), (''owner'', JStr ''devops@ggid.dev''),
             (''status'', JStr ''active''), (''created_at'', JStr ''30d ago''), (''last_active'', JStr ''2m ago''),
             (''permissions'', JArr [JStr ''deploy:staging'', JStr ''read:config'']), (''request_rate_per_min'', JNum 45),
             (''rotation_due'', JBool False)],
          JObj
            [(''agent_id'', JStr ''agent-002''), (''name'', JStr ''Monitoring Agent''), (''owner'', JStr ''sre@ggid.dev''),
             (''status'', JStr ''active''), (''created_at'', JStr ''60d ago''), (''last_active'', JStr ''30s ago''),
             (''permissions'', JArr [JStr ''read:metrics'', JStr ''read:health'']), (''request_rate_per_min'', JNum 180),
             (''rotation_due'', JBool True)],
          JObj
            [(''agent_id'', JStr ''agent-003''), (''name'', JStr ''Data Pipeline''), (''owner'', JStr ''data@ggid.dev''),
             (''status'', JStr ''suspended''), (''created_at'', JStr ''90d ago''), (''last_active'', JStr ''5h ago''),
             (''permissions'', JArr [JStr ''read:users'', JStr ''write:audit'']), (''request_rate_per_min'', JNum 0),
             (''rotation_due'', JBool True)],
          JObj
            [(''agent_id'', JStr ''agent-004''), (''name'', JStr ''Security Scanner''), (''owner'', JStr ''sec@ggid.dev''),
             (''status'', JStr ''active''), (''created_at'', JStr ''15d ago''), (''last_active'', JStr ''1h ago''),
             (''permissions'', JArr [JStr ''read:all'', JStr ''scan:vulns'']), (''request_rate_per_min'', JNum 12),
             (''rotation_due'', JBool False)],
          JObj
            [(''agent_id'', JStr ''agent-005''), (''name'', JStr ''Legacy Integration''),
             (''owner'', JStr ''admin@ggid.dev''), (''status'', JStr ''expired''), (''created_at'', JStr ''180d ago''),
             (''last_active'', JStr ''30d ago''), (''permissions'', JArr [JStr ''read:users'']),
             (''request_rate_per_min'', JNum 0), (''rotation_due'', JBool True)]]),
       (''credential_rotation_schedule'', JObj [(''interval_days'', JNum 90), (''next_rotation'', JStr ''in 15 days'')]),
       (''behavioral_alerts'', JArr
         [JObj
            [(''agent_name'', JStr ''Monitoring Agent''),
             (''pattern'', JStr ''Unusual API pattern: 3x normal request rate to /api/v1/users''),
             (''timestamp'', JStr ''15m ago'')],
          JObj
            [(''agent_name'', JStr ''CI/CD Bot''),
             (''pattern'', JStr ''Accessed endpoint outside declared scope: /api/v1/admin/config''),
             (''timestamp'', JStr ''1h ago'')]])]"

definition useAgentLifecycle :: "'w demo_api" where
  "useAgentLifecycle = demo_api_of True AgentLifecycle_demo []"

definition AnomalyDetectDashboard_demo :: jsv where
  "AnomalyDetectDashboard_demo = JObj
      [(''events'', JArr
         [JObj
            [(''id'', JStr ''ae1''), (''type'', JStr ''impossible_travel''), (''severity'', JStr ''critical''),
             (''user'', JStr ''user_jd''), (''description'', JStr ''Login from Tokyo 5min after New York login''),
             (''timestamp'', JStr ''10m ago''), (''confidence'', JNum 98)],
          JObj
            [(''id'', JStr ''ae2''), (''type'', JStr ''off_hours_access''), (''severity'', JStr ''medium''),
             (''user'', JStr ''user_sm''), (''description'', JStr ''Admin access at 3AM local time''),
             (''timestamp'', JStr ''1h ago''), (''confidence'', JNum 82)],
          JObj
            [(''id'', JStr ''ae3''), (''type'', JStr ''new_device''), (''severity'', JStr ''low''),
             (''user'', JStr ''user_al''), (''description'', JStr ''First login from new device fingerprint''),
             (''timestamp'', JStr ''2h ago''), (''confidence'', JNum 65)],
          JObj
            [(''id'', JStr ''ae4''), (''type'', JStr ''unusual_resource''), (''severity'', JStr ''high''),
             (''user'', JStr ''user_mk''), (''description'', JStr ''Accessed admin panel (first time)''),
             (''timestamp'', JStr ''3h ago''), (''confidence'', JNum 91)]]),
       (''patterns'', JArr
         [JObj [(''pattern'', JStr ''off_hours_access''), (''count'', JNum 23), (''auto_action'', JStr ''require_mfa'')],
          JObj [(''pattern'', JStr ''impossible_travel''), (''count'', JNum 5), (''auto_action'', JStr ''block'')],
          JObj [(''pattern'', JStr ''new_device''), (''count'', JNum 45), (''auto_action'', JStr ''verify_email'')],
          JObj [(''pattern'', JStr ''unusual_resource''), (''count'', JNum 12), (''auto_action'', JStr ''flag_review'')]])]"

definition useAnomalyDetectDashboard :: "'w demo_api" where
  "useAnomalyDetectDashboard = demo_api_of False AnomalyDetectDashboard_demo [(''acknowledge'', \<lambda>a. [JStr ''Ack'', arg a 0])]"

definition AuditChainVerification_demo :: jsv where
  "AuditChainVerification_demo = JObj
      [(''last_verification'', JObj [(''blocks_verified'', JNum 1284500), (''blocks_failed'', JNum 0), (''chain_integrity_pct'', JNum 100)]),
       (''verification_log'', JArr
         [JObj
            [(''run_id'', JStr ''ver-005''), (''timestamp'', JStr ''5m ago''), (''result'', JStr ''pass''),
             (''duration_ms'', JNum 3400), (''anomalies_found'', JNum 0)],
          JObj
            [(''run_id'', JStr ''ver-004''), (''timestamp'', JStr ''1h ago''), (''result'', JStr ''pass''),
             (''duration_ms'', JNum 3200), (''anomalies_found'', JNum 0)],
          JObj
            [(''run_id'', JStr ''ver-003''), (''timestamp'', JStr ''2h ago''), (''result'', JStr ''pass''),
             (''duration_ms'', JNum 3500), (''anomalies_found'', JNum 0)],
          JObj
            [(''run_id'', JStr ''ver-002''), (''timestamp'', JStr ''3h ago''), (''result'', JStr ''warning''),
             (''duration_ms'', JNum 4100), (''anomalies_found'', JNum 2)],
          JObj
            [(''run_id'', JStr ''ver-001''), (''timestamp'', JStr ''4h ago''), (''result'', JStr ''pass''),
             (''duration_ms'', JNum 3100), (''anomalies_found'', JNum 0)]]),
       (''auto_verify_schedule'', JStr ''0 */1 * * *''), (''alert_on_failure'', JBool True)]"

definition useAuditChainVerification :: "'w demo_api" where
  "useAuditChainVerification = demo_api_of False AuditChainVerification_demo [(''verifyNow'', \<lambda>a. [JStr ''Verifying chain now''])]"

definition AuditComplianceScheduler_demo :: jsv where
  "AuditComplianceScheduler_demo = JObj
      [(''scheduled_audits'', JArr
         [JObj
            [(''id'', JStr ''sched-1''), (''framework'', JStr ''SOC2 Type II''), (''frequency_cron'', JStr ''0 0 1 */3 *''),
             (''next_run'', JStr ''2026-04-01''), (''scope'', JStr ''All production systems''),
             (''owner'', JStr ''Sarah Kim'')],
          JObj
            [(''id'', JStr ''sched-2''), (''framework'', JStr ''ISO 27001''), (''frequency_cron'', JStr ''0 0 1 1 *''),
             (''next_run'', JStr ''2026-12-01''), (''scope'', JStr ''ISMS scope''), (''owner'', JStr ''Mike Lee'')],
          JObj
            [(''id'', JStr ''sched-3''), (''framework'', JStr ''GDPR''), (''frequency_cron'', JStr ''0 0 1 */6 *''),
             (''next_run'', JStr ''2026-07-01''), (''scope'', JStr ''EU data processing''),
             (''owner'', JStr ''Anna Schmidt'')],
          JObj
            [(''id'', JStr ''sched-4''), (''framework'', JStr ''HIPAA''), (''frequency_cron'', JStr ''0 0 1 * *''),
             (''next_run'', JStr ''2026-02-01''), (''scope'', JStr ''PHI handling''), (''owner'', JStr ''Dr. James Wong'')]]),
       (''audit_preparation_checklist'', JArr
         [JObj [(''task'', JStr ''Collect access logs (90d)''), (''status'', JStr ''ready'')],
          JObj [(''task'', JStr ''Generate policy compliance report''), (''status'', JStr ''ready'')],
          JObj [(''task'', JStr ''Verify evidence chain of custody''), (''status'', JStr ''in_progress'')],
          JObj [(''task'', JStr ''Review incident response records''), (''status'', JStr ''pending'')],
          JObj [(''task'', JStr ''Export security training completion''), (''status'', JStr ''ready'')]]),
       (''evidence_collection_status'', JObj [(''ready'', JNum 3), (''total'', JNum 5)]),
       (''upcoming_deadlines_30d'', JArr
         [JObj [(''framework'', JStr ''HIPAA''), (''description'', JStr ''Annual compliance audit''), (''days_left'', JNum 18)],
          JObj
            [(''framework'', JStr ''SOC2''), (''description'', JStr ''Quarterly evidence submission''),
             (''days_left'', JNum 25)]]),
       (''overdue_alerts'', JArr [JObj [(''framework'', JStr ''PCI-DSS''), (''days_overdue'', JNum 5)]])]"

definition useAuditComplianceScheduler :: "'w demo_api" where
  "useAuditComplianceScheduler = demo_api_of True AuditComplianceScheduler_demo []"

definition AuditDataLineage_demo :: jsv where
  "AuditDataLineage_demo = JObj
      [(''flow_nodes'', JArr
         [JObj [(''id'', JStr ''n1''), (''name'', JStr ''PostgreSQL''), (''type'', JStr ''source'')],
          JObj [(''id'', JStr ''n2''), (''name'', JStr ''ETL Pipeline''), (''type'', JStr ''processor'')],
          JObj [(''id'', JStr ''n3''), (''name'', JStr ''Data Warehouse''), (''type'', JStr ''processor'')],
          JObj [(''id'', JStr ''n4''), (''name'', JStr ''BI Dashboard''), (''type'', JStr ''destination'')]]),
       (''datasets'', JArr
         [JObj
            [(''dataset_name'', JStr ''user_profiles''), (''source_system'', JStr ''PostgreSQL''),
             (''transformations'', JArr [JStr ''PII masking'', JStr ''field mapping'', JStr ''aggregation'']),
             (''downstream_consumers'', JArr [JStr ''BI Dashboard'', JStr ''Analytics API'', JStr ''ML Pipeline'']),
             (''pii_classification'', JStr ''high''), (''retention_path'', JStr ''90 days -> archive''),
             (''deletion_propagation'', JStr ''cascade'')],
          JObj
            [(''dataset_name'', JStr ''audit_logs''), (''source_system'', JStr ''NATS JetStream''),
             (''transformations'', JArr [JStr ''hash chaining'', JStr ''compression'']),
             (''downstream_consumers'', JArr [JStr ''SIEM Splunk'', JStr ''Archive S3'']),
             (''pii_classification'', JStr ''medium''), (''retention_path'', JStr ''7 years''),
             (''deletion_propagation'', JStr ''manual_only'')],
          JObj
            [(''dataset_name'', JStr ''session_metrics''), (''source_system'', JStr ''Redis''),
             (''transformations'', JArr [JStr ''anonymization'', JStr ''aggregation'']),
             (''downstream_consumers'', JArr [JStr ''Grafana'', JStr ''Prometheus'']),
             (''pii_classification'', JStr ''none''), (''retention_path'', JStr ''30 days''),
             (''deletion_propagation'', JStr ''automatic'')]])]"

definition useAuditDataLineage :: "'w demo_api" where
  "useAuditDataLineage = demo_api_of True AuditDataLineage_demo []"

definition AuditDataSovereignty_demo :: jsv where
  "AuditDataSovereignty_demo = JObj
      [(''data_residency_regions'', JArr
         [JObj [(''region'', JStr ''EU-West (Frankfurt)''), (''allowed'', JBool True), (''encryption_required'', JBool True)],
          JObj [(''region'', JStr ''US-East (Virginia)''), (''allowed'', JBool True), (''encryption_required'', JBool False)],
          JObj
            [(''region'', JStr ''AP-Southeast (Singapore)''), (''allowed'', JBool True),
             (''encryption_required'', JBool True)],
          JObj [(''region'', JStr ''CN-North (Beijing)''), (''allowed'', JBool False), (''encryption_required'', JBool True)]]),
       (''cross_border_transfer_rules'', JArr
         [JObj
            [(''source_region'', JStr ''EU-West''), (''destination_region'', JStr ''US-East''),
             (''transfer_mechanism'', JStr ''SCCs (Standard Contractual Clauses)''),
             (''data_types'', JArr [JStr ''audit_logs'', JStr ''user_profiles''])],
          JObj
            [(''source_region'', JStr ''US-East''), (''destination_region'', JStr ''AP-Southeast''),
             (''transfer_mechanism'', JStr ''Binding Corporate Rules''), (''data_types'', JArr [JStr ''audit_logs''])]]),
       (''gdpr_article_45'', JBool True), (''gdpr_article_49'', JBool False),
       (''data_localization_status'', JStr ''compliant''),
       (''pending_transfers'', JArr
         [JObj
            [(''id'', JStr ''pt-1''), (''data_type'', JStr ''audit_logs''), (''source'', JStr ''EU-West''),
             (''destination'', JStr ''US-East''), (''status'', JStr ''awaiting_approval'')]]),
       (''sovereignty_violations'', JArr
         [JObj
            [(''violation_type'', JStr ''unauthorized_transfer''),
             (''description'', JStr ''Data transferred to CN-North without approval''), (''region'', JStr ''CN-North''),
             (''severity'', JStr ''critical''), (''detected_at'', JStr ''3h ago'')]])]"

definition useAuditDataSovereignty :: "'w demo_api" where
  "useAuditDataSovereignty = demo_api_of True AuditDataSovereignty_demo []"

definition AuditEventCorrelation_demo :: jsv where
  "AuditEventCorrelation_demo = JObj
      [(''engine_status'', JStr ''running''),
       (''correlated_incidents'', JArr
         [JObj
            [(''id'', JStr ''ci-001''), (''title'', JStr ''Brute Force Pattern''),
             (''description'', JStr ''12 failed logins from 203.0.113.50 targeting 4 users''),
             (''severity'', JStr ''critical''), (''event_count'', JNum 12), (''correlation_key'', JStr ''source_ip''),
             (''timestamp'', JStr ''2h ago''),
             (''events'', JArr [JStr ''auth.login.failed x8'', JStr ''auth.login.failed x4''])],
          JObj
            [(''id'', JStr ''ci-002''), (''title'', JStr ''Token Reuse''),
             (''description'', JStr ''Refresh token used from 2 different IPs''), (''severity'', JStr ''high''),
             (''event_count'', JNum 3), (''correlation_key'', JStr ''token_id''), (''timestamp'', JStr ''5h ago''),
             (''events'', JArr [JStr ''oauth.token.refresh'', JStr ''oauth.token.refresh'', JStr ''session.anomaly''])]]),
       (''correlation_rules'', JArr
         [JObj
            [(''rule'', JStr ''Multiple failed logins same IP''), (''window'', JStr ''5 min''), (''min_events'', JNum 5),
             (''action'', JStr ''Create incident'')],
          JObj
            [(''rule'', JStr ''Token reuse from different IPs''), (''window'', JStr ''1 hour''), (''min_events'', JNum 2),
             (''action'', JStr ''Alert security'')],
          JObj
            [(''rule'', JStr ''Privilege escalation chain''), (''window'', JStr ''30 min''), (''min_events'', JNum 3),
             (''action'', JStr ''Auto-block'')],
          JObj
            [(''rule'', JStr ''After-hours admin access''), (''window'', JStr ''1 hour''), (''min_events'', JNum 1),
             (''action'', JStr ''Notify on-call'')]])]"

definition useAuditEventCorrelation :: "'w demo_api" where
  "useAuditEventCorrelation = demo_api_of True AuditEventCorrelation_demo []"

definition AuditEvidenceCollection_demo :: jsv where
  "AuditEvidenceCollection_demo = JObj
      [(''evidence_requests'', JArr
         [JObj
            [(''framework'', JStr ''SOC2''), (''control_id'', JStr ''CC6.1''),
             (''requested_by'', JStr ''audit-lead@ggid.dev''), (''deadline'', JStr ''2024-03-15''),
             (''status'', JStr ''collected'')],
          JObj
            [(''framework'', JStr ''SOC2''), (''control_id'', JStr ''CC7.2''),
             (''requested_by'', JStr ''audit-lead@ggid.dev''), (''deadline'', JStr ''2024-03-20''),
             (''status'', JStr ''pending'')],
          JObj
            [(''framework'', JStr ''HIPAA''), (''control_id'', JStr ''164.312(a)(1)''),
             (''requested_by'', JStr ''compliance@ggid.dev''), (''deadline'', JStr ''2024-03-10''),
             (''status'', JStr ''overdue'')],
          JObj
            [(''framework'', JStr ''ISO27001''), (''control_id'', JStr ''A.9.4.2''),
             (''requested_by'', JStr ''iso-lead@ggid.dev''), (''deadline'', JStr ''2024-03-25''),
             (''status'', JStr ''pending'')],
          JObj
            [(''framework'', JStr ''GDPR''), (''control_id'', JStr ''Art.30''), (''requested_by'', JStr ''dpo@ggid.dev''),
             (''deadline'', JStr ''2024-03-18''), (''status'', JStr ''collected'')]]),
       (''evidence_repository'', JArr
         [JObj
            [(''file_name'', JStr ''SOC2_CC6.1_access_controls_2024Q1.pdf''),
             (''hash'', JStr ''sha256:a1b2c3d4e5f6789abcdef0123456789abcdef0123456789abcdef0123456789''),
             (''uploaded_by'', JStr ''audit-lead@ggid.dev''), (''uploaded_at'', JStr ''2d ago''), (''verified'', JBool True)],
          JObj
            [(''file_name'', JStr ''GDPR_Art30_records_processing.pdf''),
             (''hash'', JStr ''sha256:b2c3d4e5f67890abcdef123456789abcdef0123456789abcdef01234567890a''),
             (''uploaded_by'', JStr ''dpo@ggid.dev''), (''uploaded_at'', JStr ''3d ago''), (''verified'', JBool True)],
          JObj
            [(''file_name'', JStr ''ISO27001_A.9.4.2_access_matrix.xlsx''),
             (''hash'', JStr ''sha256:c3d4e5f67890abcdef23456789abcdef0123456789abcdef01234567890abcd''),
             (''uploaded_by'', JStr ''iso-lead@ggid.dev''), (''uploaded_at'', JStr ''1h ago''), (''verified'', JBool False)]]),
       (''collection_progress'', JArr
         [JObj [(''framework'', JStr ''SOC2''), (''progress_pct'', JNum 75), (''collected'', JNum 18), (''total'', JNum 24)],
          JObj [(''framework'', JStr ''HIPAA''), (''progress_pct'', JNum 60), (''collected'', JNum 12), (''total'', JNum 20)],
          JObj [(''framework'', JStr ''ISO27001''), (''progress_pct'', JNum 45), (''collected'', JNum 54), (''total'', JNum 120)],
          JObj [(''framework'', JStr ''GDPR''), (''progress_pct'', JNum 90), (''collected'', JNum 9), (''total'', JNum 10)],
          JObj [(''framework'', JStr ''PCI-DSS''), (''progress_pct'', JNum 30), (''collected'', JNum 36), (''total'', JNum 120)]])]"

definition useAuditEvidenceCollection :: "'w demo_api" where
  "useAuditEvidenceCollection = demo_api_of True AuditEvidenceCollection_demo []"

definition AuditGdprRequests_demo :: jsv where
  "AuditGdprRequests_demo = JObj
      [(''request_queue'', JArr
         [JObj
            [(''id'', JStr ''gdpr-1''), (''request_type'', JStr ''access''), (''user_id'', JStr ''user-1234''),
             (''status'', JStr ''pending''), (''deadline_days'', JNum 15), (''identity_verified'', JBool True)],
          JObj
            [(''id'', JStr ''gdpr-2''), (''request_type'', JStr ''erasure''), (''user_id'', JStr ''user-5678''),
             (''status'', JStr ''pending''), (''deadline_days'', JNum 5), (''identity_verified'', JBool True),
             (''anonymization_preview'', JArr [JStr ''email'', JStr ''full_name'', JStr ''phone'', JStr ''address'', JStr ''date_of_birth''])],
          JObj
            [(''id'', JStr ''gdpr-3''), (''request_type'', JStr ''portability''), (''user_id'', JStr ''user-9012''),
             (''status'', JStr ''processing''), (''deadline_days'', JNum 20), (''identity_verified'', JBool True)],
          JObj
            [(''id'', JStr ''gdpr-4''), (''request_type'', JStr ''rectification''), (''user_id'', JStr ''user-3456''),
             (''status'', JStr ''pending''), (''deadline_days'', JNum (- 2)), (''identity_verified'', JBool False)],
          JObj
            [(''id'', JStr ''gdpr-5''), (''request_type'', JStr ''erasure''), (''user_id'', JStr ''user-7890''),
             (''status'', JStr ''pending''), (''deadline_days'', JNum 8), (''identity_verified'', JBool True),
             (''anonymization_preview'', JArr [JStr ''email'', JStr ''profile_data'', JStr ''activity_logs''])]]),
       (''completed_stats'', JObj
         [(''total_30d'', JNum 28), (''overdue'', JNum 2),
          (''by_type'', JObj [(''access'', JNum 12), (''erasure'', JNum 8), (''portability'', JNum 5), (''rectification'', JNum 3)])]),
       (''sla_compliance_pct'', JNum 93)]"

definition useAuditGdprRequests :: "'w demo_api" where
  "useAuditGdprRequests = demo_api_of False AuditGdprRequests_demo [(''processRequest'', \<lambda>a. [JStr ''Processing GDPR request:'', arg a 0])]"

definition AuditSiemForwarding_demo :: jsv where
  "AuditSiemForwarding_demo = JObj
      [(''destinations'', JArr
         [JObj
            [(''id'', JStr ''spl-1''), (''name'', JStr ''Splunk Production''), (''type'', JStr ''Splunk''),
             (''format'', JStr ''CEF''), (''status'', JStr ''connected''), (''throughput_events_per_min'', JNum 2400),
             (''queue_depth'', JNum 12), (''events_forwarded_24h'', JNum 3456000), (''last_error'', JStr []),
             (''event_filter'', JArr
               [JStr ''auth.login'',
                JStr ''auth.logout'',
                JStr ''policy.decision'',
                JStr ''admin.action'',
                JStr ''security.alert''])],
          JObj
            [(''id'', JStr ''qr-1''), (''name'', JStr ''QRadar SIEM''), (''type'', JStr ''QRadar''),
             (''format'', JStr ''LEEF''), (''status'', JStr ''connected''), (''throughput_events_per_min'', JNum 1800),
             (''queue_depth'', JNum 0), (''events_forwarded_24h'', JNum 2592000), (''last_error'', JStr []),
             (''event_filter'', JArr [JStr ''auth.*'', JStr ''oauth.*'', JStr ''policy.*'', JStr ''audit.*''])],
          JObj
            [(''id'', JStr ''es-1''), (''name'', JStr ''Elastic Security''), (''type'', JStr ''Elasticsearch''),
             (''format'', JStr ''JSON''), (''status'', JStr ''error''), (''throughput_events_per_min'', JNum 0),
             (''queue_depth'', JNum 8500), (''events_forwarded_24h'', JNum 980000),
             (''last_error'', JStr ''Connection timeout to elasticsearch:9200''),
             (''event_filter'', JArr [JStr ''security.*'', JStr ''auth.*''])]])]"

definition useAuditSiemForwarding :: "'w demo_api" where
  "useAuditSiemForwarding = demo_api_of False AuditSiemForwarding_demo [(''testForward'', \<lambda>a. [JStr ''Testing forward to'', arg a 0])]"

definition AuditSiemMapping_demo :: jsv where
  "AuditSiemMapping_demo = JObj
      [(''per_destination'', JArr
         [JObj
            [(''destination'', JStr ''Splunk''),
             (''field_mappings'', JArr
               [JObj [(''local_field'', JStr ''event_id''), (''siem_field'', JStr ''_key'')],
                JObj [(''local_field'', JStr ''timestamp''), (''siem_field'', JStr ''_time'')],
                JObj [(''local_field'', JStr ''user_id''), (''siem_field'', JStr ''user'')],
                JObj [(''local_field'', JStr ''action''), (''siem_field'', JStr ''event_type'')],
                JObj [(''local_field'', JStr ''resource''), (''siem_field'', JStr ''object'')],
                JObj [(''local_field'', JStr ''source_ip''), (''siem_field'', JStr ''src_ip'')],
                JObj [(''local_field'', JStr ''tenant_id''), (''siem_field'', JStr ''tenant'')],
                JObj [(''local_field'', JStr ''outcome''), (''siem_field'', JStr ''result'')]])]]),
       (''event_type_filter'', JArr
         [JStr ''auth.login.success'',
          JStr ''auth.login.failed'',
          JStr ''auth.logout'',
          JStr ''role.change'',
          JStr ''permission.grant'',
          JStr ''permission.revoke'',
          JStr ''policy.create'',
          JStr ''policy.update'',
          JStr ''policy.delete'',
          JStr ''user.create'',
          JStr ''user.delete'',
          JStr ''user.suspend'',
          JStr ''api.key.create'',
          JStr ''api.key.revoke'',
          JStr ''session.revoke'',
          JStr ''token.revoke'']),
       (''severity_mapping'', JArr
         [JObj [(''our_severity'', JStr ''critical''), (''siem_severity'', JStr ''SEV1'')],
          JObj [(''our_severity'', JStr ''high''), (''siem_severity'', JStr ''SEV2'')],
          JObj [(''our_severity'', JStr ''medium''), (''siem_severity'', JStr ''SEV3'')],
          JObj [(''our_severity'', JStr ''low''), (''siem_severity'', JStr ''SEV4'')],
          JObj [(''our_severity'', JStr ''info''), (''siem_severity'', JStr ''INFO'')]]),
       (''custom_fields'', JArr
         [JObj [(''key'', JStr ''product''), (''value'', JStr ''ggid'')],
          JObj [(''key'', JStr ''env''), (''value'', JStr ''prod'')],
          JObj [(''key'', JStr ''data_center''), (''value'', JStr ''us-west-2'')]]),
       (''throughput_estimate'', JNum 4200)]"

definition useAuditSiemMapping :: "'w demo_api" where
  "useAuditSiemMapping = demo_api_of False AuditSiemMapping_demo [(''testMapping'', \<lambda>a. [JStr ''Testing SIEM mapping''])]"

definition AuthBackChannelAuth_demo :: jsv where
  "AuthBackChannelAuth_demo = JObj
      [(''enabled'', JBool True),
       (''binding_message_config'', JObj [(''required'', JBool True), (''max_length'', JNum 128), (''format_pattern'', JStr ''^[a-zA-Z0-9 ]+$'')]),
       (''max_polling_interval_seconds'', JNum 10), (''requested_expiry_max_seconds'', JNum 1200),
       (''token_delivery_mode'', JStr ''poll''),
       (''per_client_ciba'', JArr
         [JObj [(''client_id'', JStr ''client-banking-app''), (''delivery_mode'', JStr ''ping''), (''enabled'', JBool True)],
          JObj [(''client_id'', JStr ''client-kiosk-001''), (''delivery_mode'', JStr ''poll''), (''enabled'', JBool True)],
          JObj [(''client_id'', JStr ''client-mobile-002''), (''delivery_mode'', JStr ''push''), (''enabled'', JBool False)]]),
       (''usage_stats'', JObj
         [(''ciba_requests_24h'', JNum 342), (''successful_24h'', JNum 298), (''rejected_24h'', JNum 24),
          (''timeouts_24h'', JNum 20)])]"

definition useAuthBackChannelAuth :: "'w demo_api" where
  "useAuthBackChannelAuth = demo_api_of True AuthBackChannelAuth_demo []"

definition AuthOidcFederation_demo :: jsv where
  "AuthOidcFederation_demo = JObj
      [(''trust_anchors'', JArr
         [JObj
            [(''issuer'', JStr ''https://fed.example.org''),
             (''jwks_uri'', JStr ''https://fed.example.org/.well-known/jwks.json''), (''trust_mark_valid'', JBool True)],
          JObj
            [(''issuer'', JStr ''https://swamid.se''), (''jwks_uri'', JStr ''https://swamid.se/.well-known/jwks.json''),
             (''trust_mark_valid'', JBool True)],
          JObj
            [(''issuer'', JStr ''https://incommon.org''), (''jwks_uri'', JStr ''https://incommon.org/.well-known/jwks.json''),
             (''trust_mark_valid'', JBool False)]]),
       (''federated_providers'', JArr
         [JObj
            [(''entity_id'', JStr ''https://idp.univ1.edu''), (''organization'', JStr ''University One''),
             (''role'', JStr ''OP''), (''status'', JStr ''active'')],
          JObj
            [(''entity_id'', JStr ''https://idp.univ2.edu''), (''organization'', JStr ''University Two''),
             (''role'', JStr ''OP''), (''status'', JStr ''active'')],
          JObj
            [(''entity_id'', JStr ''https://idp.univ3.edu''), (''organization'', JStr ''University Three''),
             (''role'', JStr ''OP''), (''status'', JStr ''pending'')],
          JObj
            [(''entity_id'', JStr ''https://sp.research.org''), (''organization'', JStr ''Research Portal''),
             (''role'', JStr ''RP''), (''status'', JStr ''active'')]]),
       (''trust_chain'', JArr
         [JObj
            [(''entity'', JStr ''Trust Anchor (fed.example.org)''), (''metadata_type'', JStr ''federation_entity''),
             (''verified'', JBool True)],
          JObj
            [(''entity'', JStr ''Intermediate (edu-federation)''), (''metadata_type'', JStr ''federation_entity''),
             (''verified'', JBool True)],
          JObj
            [(''entity'', JStr ''Identity Provider (idp.univ1.edu)''), (''metadata_type'', JStr ''openid_provider''),
             (''verified'', JBool True)],
          JObj
            [(''entity'', JStr ''Relying Party (sp.research.org)''), (''metadata_type'', JStr ''openid_relying_party''),
             (''verified'', JBool False)]]),
       (''entity_statement'', JObj
         [(''iss'', JStr ''https://fed.example.org''), (''sub'', JStr ''https://idp.univ1.edu''), (''iat'', JNum 1700000000),
          (''exp'', JNum 1700086400),
          (''metadata'', JObj
            [(''openid_provider'', JObj
               [(''issuer'', JStr ''https://idp.univ1.edu''),
                (''authorization_endpoint'', JStr ''https://idp.univ1.edu/authorize''),
                (''token_endpoint'', JStr ''https://idp.univ1.edu/token''),
                (''jwks_uri'', JStr ''https://idp.univ1.edu/jwks'')])]),
          (''constraints'', JObj [(''max_path_length'', JNum 2)])]),
       (''trust_resolution_status'', JStr ''healthy''), (''last_auto_discovery'', JStr ''5m ago'')]"

definition useAuthOidcFederation :: "'w demo_api" where
  "useAuthOidcFederation = demo_api_of True AuthOidcFederation_demo []"

definition AuthPasswordlessConfig_demo :: jsv where
  "AuthPasswordlessConfig_demo = JObj
      [(''enabled_methods'', JArr
         [JObj
            [(''method'', JStr ''magic_link''), (''description'', JStr ''Send a one-time login link to user email''),
             (''enabled'', JBool True)],
          JObj
            [(''method'', JStr ''passkey''), (''description'', JStr ''FIDO2/WebAuthn passkeys (platform authenticators)''),
             (''enabled'', JBool True)],
          JObj
            [(''method'', JStr ''webauthn''), (''description'', JStr ''WebAuthn with security keys (YubiKey, Titan, etc.)''),
             (''enabled'', JBool True)],
          JObj
            [(''method'', JStr ''biometric''), (''description'', JStr ''Touch ID / Face ID via platform authenticator''),
             (''enabled'', JBool False)]]),
       (''magic_link_expiry_minutes'', JNum 15), (''passkey_rp_id'', JStr ''idp.example.com''),
       (''webauthn_timeout_seconds'', JNum 300), (''fallback_to_password'', JBool True),
       (''per_role_requirement'', JArr
         [JObj
            [(''role'', JStr ''admin''), (''required_method'', JStr ''webauthn''), (''enforcement'', JStr ''required''),
             (''grace_period_days'', JNum 0)],
          JObj
            [(''role'', JStr ''security_analyst''), (''required_method'', JStr ''passkey''),
             (''enforcement'', JStr ''required''), (''grace_period_days'', JNum 7)],
          JObj
            [(''role'', JStr ''developer''), (''required_method'', JStr ''passkey''), (''enforcement'', JStr ''recommended''),
             (''grace_period_days'', JNum 30)],
          JObj
            [(''role'', JStr ''user''), (''required_method'', JStr ''magic_link''), (''enforcement'', JStr ''optional''),
             (''grace_period_days'', JNum 90)]])]"

definition useAuthPasswordlessConfig :: "'w demo_api" where
  "useAuthPasswordlessConfig = demo_api_of True AuthPasswordlessConfig_demo []"

definition AuthSessionBinding_demo :: jsv where
  "AuthSessionBinding_demo = JObj
      [(''binding_method'', JStr ''DPoP''),
       (''per_application_binding'', JArr
         [JObj [(''app'', JStr ''Web Dashboard''), (''method'', JStr ''cookie''), (''enforce'', JBool True)],
          JObj [(''app'', JStr ''Mobile App''), (''method'', JStr ''DPoP''), (''enforce'', JBool True)],
          JObj [(''app'', JStr ''API Gateway''), (''method'', JStr ''mTLS''), (''enforce'', JBool True)],
          JObj [(''app'', JStr ''Service-to-Service''), (''method'', JStr ''bearer''), (''enforce'', JBool False)]]),
       (''binding_rotation_policy'', JStr ''every 90 days''), (''session_hijack_protection'', JBool True),
       (''cross_device_session_transfer'', JObj
         [(''enabled'', JBool True), (''transfer_window_seconds'', JNum 120), (''verification_required'', JBool True),
          (''max_per_day'', JNum 5)]),
       (''fallback_method'', JStr ''cookie'')]"

definition useAuthSessionBinding :: "'w demo_api" where
  "useAuthSessionBinding = demo_api_of True AuthSessionBinding_demo []"

definition AuthSessionResilience_demo :: jsv where
  "AuthSessionResilience_demo = JObj
      [(''connection_pool_status'', JObj [(''active'', JNum 42), (''idle'', JNum 18), (''max'', JNum 100)]),
       (''session_failover_config'', JObj [(''primary_redis'', JStr ''redis-cluster-prod:6379''), (''fallback_memory'', JStr ''in-process LRU cache'')]),
       (''grace_period_during_outage'', JNum 300), (''offline_token_validation'', JBool True),
       (''degraded_mode_indicators'', JArr
         [JObj [(''indicator'', JStr ''Redis connection pool degraded''), (''active'', JBool False)],
          JObj [(''indicator'', JStr ''Fallback memory store active''), (''active'', JBool False)],
          JObj [(''indicator'', JStr ''Session sync delayed''), (''active'', JBool False)],
          JObj [(''indicator'', JStr ''Token revocation propagation delayed''), (''active'', JBool True)],
          JObj [(''indicator'', JStr ''High session read latency (>100ms)''), (''active'', JBool False)]])]"

definition useAuthSessionResilience :: "'w demo_api" where
  "useAuthSessionResilience = demo_api_of False AuthSessionResilience_demo [(''testRecovery'', \<lambda>a. [JStr ''Running session recovery test''])]"

definition AuthStepUpOrchestrator_demo :: jsv where
  "AuthStepUpOrchestrator_demo = JObj
      [(''step_up_flows'', JArr
         [JObj
            [(''trigger_action'', JStr ''sensitive_action''), (''required_factors'', JArr [JStr ''otp'']),
             (''max_attempts'', JNum 3), (''timeout_seconds'', JNum 120), (''success_rate_pct'', JNum 94)],
          JObj
            [(''trigger_action'', JStr ''policy_change''), (''required_factors'', JArr [JStr ''webauthn'']),
             (''max_attempts'', JNum 2), (''timeout_seconds'', JNum 60), (''success_rate_pct'', JNum 88)],
          JObj
            [(''trigger_action'', JStr ''admin_access''), (''required_factors'', JArr [JStr ''webauthn'', JStr ''otp'']),
             (''max_attempts'', JNum 2), (''timeout_seconds'', JNum 90), (''success_rate_pct'', JNum 91)],
          JObj
            [(''trigger_action'', JStr ''data_export''), (''required_factors'', JArr [JStr ''otp'']),
             (''max_attempts'', JNum 3), (''timeout_seconds'', JNum 180), (''success_rate_pct'', JNum 96)]]),
       (''active_challenges'', JArr
         [JObj
            [(''id'', JStr ''ch-1''), (''user'', JStr ''alice.chen''), (''challenge_type'', JStr ''webauthn''),
             (''started_at'', JStr ''30s ago''), (''expires_in_seconds'', JNum 30)],
          JObj
            [(''id'', JStr ''ch-2''), (''user'', JStr ''bob.martinez''), (''challenge_type'', JStr ''otp''),
             (''started_at'', JStr ''1m ago''), (''expires_in_seconds'', JNum 60)]]),
       (''avg_success_rate_pct'', JNum 92), (''challenge_timeout_policy'', JStr ''expire_and_retry'')]"

definition useAuthStepUpOrchestrator :: "'w demo_api" where
  "useAuthStepUpOrchestrator = demo_api_of True AuthStepUpOrchestrator_demo []"

definition AuthTokenBindingEnforcement_demo :: jsv where
  "AuthTokenBindingEnforcement_demo = JObj
      [(''enforcement_level'', JStr ''required''),
       (''per_client_binding_policy'', JArr
         [JObj
            [(''client_id'', JStr ''client-banking-app''), (''min_binding_strength'', JStr ''strict''),
             (''allowed_methods'', JArr [JStr ''mTLS'', JStr ''DPoP'']), (''non_compliant_count'', JNum 0)],
          JObj
            [(''client_id'', JStr ''client-mobile-002''), (''min_binding_strength'', JStr ''required''),
             (''allowed_methods'', JArr [JStr ''DPoP'']), (''non_compliant_count'', JNum 3)],
          JObj
            [(''client_id'', JStr ''client-internal-cli''), (''min_binding_strength'', JStr ''optional''),
             (''allowed_methods'', JArr [JStr ''DPoP'', JStr ''PKI'']), (''non_compliant_count'', JNum 0)],
          JObj
            [(''client_id'', JStr ''client-legacy-svc''), (''min_binding_strength'', JStr ''none''),
             (''allowed_methods'', JArr []), (''non_compliant_count'', JNum 12)]]),
       (''grace_period_days'', JNum 30), (''non_compliant_tokens_count'', JNum 15), (''auto_revoke_enabled'', JBool False),
       (''migration_timeline'', JArr
         [JObj
            [(''phase'', JStr ''Discovery''),
             (''description'', JStr ''Identify all clients and their current binding status''),
             (''status'', JStr ''completed'')],
          JObj
            [(''phase'', JStr ''Notification''), (''description'', JStr ''Notify non-compliant client owners''),
             (''status'', JStr ''completed'')],
          JObj
            [(''phase'', JStr ''Optional Phase''), (''description'', JStr ''Binding supported but not required''),
             (''status'', JStr ''active'')],
          JObj
            [(''phase'', JStr ''Required Phase''), (''description'', JStr ''Reject tokens without binding''),
             (''status'', JStr ''pending'')],
          JObj
            [(''phase'', JStr ''Strict Phase''), (''description'', JStr ''Enforce highest binding strength only''),
             (''status'', JStr ''pending'')]])]"

definition useAuthTokenBindingEnforcement :: "'w demo_api" where
  "useAuthTokenBindingEnforcement = demo_api_of True AuthTokenBindingEnforcement_demo []"

definition AuthWebauthnConfig_demo :: jsv where
  "AuthWebauthnConfig_demo = JObj
      [(''rp_id'', JStr ''auth.ggid.dev''), (''rp_name'', JStr ''GGID Identity Platform''),
       (''origin'', JStr ''https://auth.ggid.dev''), (''attestation_requirement'', JStr ''direct''),
       (''user_verification'', JStr ''required''),
       (''supported_algs'', JArr
         [JObj [(''name'', JStr ''RS256''), (''cose_id'', JNum (- 257))],
          JObj [(''name'', JStr ''ES256''), (''cose_id'', JNum (- 7))],
          JObj [(''name'', JStr ''EdDSA''), (''cose_id'', JNum (- 8))]]),
       (''timeout_seconds'', JNum 300),
       (''per_platform_config'', JArr
         [JObj
            [(''platform'', JStr ''web''), (''authenticator_type'', JStr ''cross_platform''),
             (''attachment'', JStr ''cross_platform''), (''discoverable_credentials'', JBool True)],
          JObj
            [(''platform'', JStr ''ios''), (''authenticator_type'', JStr ''platform''), (''attachment'', JStr ''platform''),
             (''discoverable_credentials'', JBool True)],
          JObj
            [(''platform'', JStr ''android''), (''authenticator_type'', JStr ''platform''),
             (''attachment'', JStr ''platform''), (''discoverable_credentials'', JBool True)]])]"

definition useAuthWebauthnConfig :: "'w demo_api" where
  "useAuthWebauthnConfig = demo_api_of True AuthWebauthnConfig_demo []"

definition ComplianceEvidenceTracker_demo :: jsv where
  "ComplianceEvidenceTracker_demo = JObj
      [(''frameworks'', JObj
         [(''SOC2'', JArr
            [JObj
               [(''control'', JStr ''CC6.1''), (''evidence_type'', JStr ''Access control policy''),
                (''last_collected'', JStr ''5d ago''), (''next_due'', JStr ''25d''), (''owner'', JStr ''sec-lead''),
                (''status'', JStr ''collected'')],
             JObj
               [(''control'', JStr ''CC7.2''), (''evidence_type'', JStr ''Incident response log''),
                (''last_collected'', JStr ''30d ago''), (''next_due'', JStr ''0d''), (''owner'', JStr ''sec-ops''),
                (''status'', JStr ''overdue'')],
             JObj
               [(''control'', JStr ''CC8.1''), (''evidence_type'', JStr ''Change management records''),
                (''last_collected'', JStr ''3d ago''), (''next_due'', JStr ''27d''), (''owner'', JStr ''dev-lead''),
                (''status'', JStr ''collected'')]]),
          (''HIPAA'', JArr
            [JObj
               [(''control'', JStr ''164.312(a)(1)''), (''evidence_type'', JStr ''Access controls audit''),
                (''last_collected'', JStr ''60d ago''), (''next_due'', JStr ''0d''), (''owner'', JStr ''compliance''),
                (''status'', JStr ''overdue'')],
             JObj
               [(''control'', JStr ''164.312(b)''), (''evidence_type'', JStr ''Audit controls report''),
                (''last_collected'', JStr ''10d ago''), (''next_due'', JStr ''20d''), (''owner'', JStr ''compliance''),
                (''status'', JStr ''collected'')]]),
          (''ISO27001'', JArr
            [JObj
               [(''control'', JStr ''A.9.4.2''), (''evidence_type'', JStr ''Privileged access matrix''),
                (''last_collected'', JStr ''15d ago''), (''next_due'', JStr ''15d''), (''owner'', JStr ''iso-lead''),
                (''status'', JStr ''pending'')],
             JObj
               [(''control'', JStr ''A.12.6.1''), (''evidence_type'', JStr ''Vulnerability scan results''),
                (''last_collected'', JStr ''2d ago''), (''next_due'', JStr ''28d''), (''owner'', JStr ''sec-ops''),
                (''status'', JStr ''collected'')]]),
          (''GDPR'', JArr
            [JObj
               [(''control'', JStr ''Art.30''), (''evidence_type'', JStr ''Processing records''),
                (''last_collected'', JStr ''3d ago''), (''next_due'', JStr ''27d''), (''owner'', JStr ''dpo''),
                (''status'', JStr ''collected'')],
             JObj
               [(''control'', JStr ''Art.32''), (''evidence_type'', JStr ''Security measures doc''),
                (''last_collected'', JStr ''8d ago''), (''next_due'', JStr ''22d''), (''owner'', JStr ''dpo''),
                (''status'', JStr ''collected'')]]),
          (''PCI-DSS'', JArr
            [JObj
               [(''control'', JStr ''Req 8.3''), (''evidence_type'', JStr ''MFA enforcement proof''),
                (''last_collected'', JStr ''45d ago''), (''next_due'', JStr ''15d''), (''owner'', JStr ''sec-lead''),
                (''status'', JStr ''pending'')]])]),
       (''overdue_alerts'', JArr
         [JObj [(''control_id'', JStr ''CC7.2''), (''framework'', JStr ''SOC2''), (''days_overdue'', JNum 0)],
          JObj [(''control_id'', JStr ''164.312(a)(1)''), (''framework'', JStr ''HIPAA''), (''days_overdue'', JNum 30)]]),
       (''auto_collection_rules'', JArr
         [JObj
            [(''rule_name'', JStr ''Auto-collect access logs''),
             (''description'', JStr ''Collect access control logs monthly for SOC2 CC6.1''), (''enabled'', JBool True)],
          JObj
            [(''rule_name'', JStr ''Auto-collect scan results''),
             (''description'', JStr ''Collect vulnerability scan results quarterly''), (''enabled'', JBool True)],
          JObj
            [(''rule_name'', JStr ''Auto-collect incident reports''),
             (''description'', JStr ''Collect incident response reports monthly''), (''enabled'', JBool False)],
          JObj
            [(''rule_name'', JStr ''Auto-collect policy acknowledgments''),
             (''description'', JStr ''Collect signed policy acknowledgments annually''), (''enabled'', JBool True)]])]"

definition useComplianceEvidenceTracker :: "'w demo_api" where
  "useComplianceEvidenceTracker = demo_api_of True ComplianceEvidenceTracker_demo []"

definition ComplianceGapReport_demo :: jsv where
  "ComplianceGapReport_demo = JObj
      [(''frameworks'', JArr [JStr ''SOC2'', JStr ''ISO 27001'', JStr ''GDPR'', JStr ''HIPAA'', JStr ''PCI-DSS'']),
       (''gaps'', JArr
         [JObj
            [(''framework'', JStr ''SOC2''), (''control_id'', JStr ''CC6.1''),
             (''requirement'', JStr ''Logical access controls''), (''current_state'', JStr ''Partially implemented''),
             (''gap_severity'', JStr ''high''),
             (''remediation_plan'', JStr ''Deploy MFA enforcement for all admin accounts''),
             (''owner'', JStr ''Security Team''), (''deadline'', JStr ''2026-02-15'')],
          JObj
            [(''framework'', JStr ''SOC2''), (''control_id'', JStr ''CC7.2''), (''requirement'', JStr ''System monitoring''),
             (''current_state'', JStr ''Missing SIEM integration''), (''gap_severity'', JStr ''critical''),
             (''remediation_plan'', JStr ''Complete SIEM forwarding for all services''), (''owner'', JStr ''DevOps''),
             (''deadline'', JStr ''2026-01-30'')],
          JObj
            [(''framework'', JStr ''SOC2''), (''control_id'', JStr ''CC8.1''), (''requirement'', JStr ''Change management''),
             (''current_state'', JStr ''Documented''), (''gap_severity'', JStr ''low''),
             (''remediation_plan'', JStr ''Add automated approval workflow''), (''owner'', JStr ''Engineering''),
             (''deadline'', JStr ''2026-03-01'')],
          JObj
            [(''framework'', JStr ''ISO 27001''), (''control_id'', JStr ''A.9.2.3''),
             (''requirement'', JStr ''User access management''), (''current_state'', JStr ''Manual review''),
             (''gap_severity'', JStr ''medium''),
             (''remediation_plan'', JStr ''Implement quarterly access review automation''), (''owner'', JStr ''IT Admin''),
             (''deadline'', JStr ''2026-04-15'')],
          JObj
            [(''framework'', JStr ''ISO 27001''), (''control_id'', JStr ''A.12.4''),
             (''requirement'', JStr ''Event logging''), (''current_state'', JStr ''Implemented''),
             (''gap_severity'', JStr ''low''), (''remediation_plan'', JStr ''Extend log retention to 365 days''),
             (''owner'', JStr ''DevOps''), (''deadline'', JStr ''2026-02-28'')],
          JObj
            [(''framework'', JStr ''GDPR''), (''control_id'', JStr ''Art.32''),
             (''requirement'', JStr ''Data protection measures''), (''current_state'', JStr ''Encryption in transit''),
             (''gap_severity'', JStr ''high''), (''remediation_plan'', JStr ''Add field-level encryption for PII at rest''),
             (''owner'', JStr ''Data Team''), (''deadline'', JStr ''2026-01-20'')],
          JObj
            [(''framework'', JStr ''HIPAA''), (''control_id'', JStr ''164.312(a)(1)''),
             (''requirement'', JStr ''Access control''), (''current_state'', JStr ''RBAC implemented''),
             (''gap_severity'', JStr ''medium''), (''remediation_plan'', JStr ''Add ABAC for sensitive records''),
             (''owner'', JStr ''Security Team''), (''deadline'', JStr ''2026-03-10'')],
          JObj
            [(''framework'', JStr ''PCI-DSS''), (''control_id'', JStr ''Req-8''), (''requirement'', JStr ''Authentication''),
             (''current_state'', JStr ''MFA partial''), (''gap_severity'', JStr ''critical''),
             (''remediation_plan'', JStr ''Enforce MFA for all cardholder data access''), (''owner'', JStr ''Security Team''),
             (''deadline'', JStr ''2026-01-15'')]]),
       (''summary'', JObj
         [(''total_gaps'', JNum 8),
          (''by_severity'', JObj [(''critical'', JNum 2), (''high'', JNum 2), (''medium'', JNum 2), (''low'', JNum 2)]),
          (''resolved_30d'', JNum 5)])]"

definition useComplianceGapReport :: "'w demo_api" where
  "useComplianceGapReport = demo_api_of True ComplianceGapReport_demo []"

definition ConsentManagement_demo :: jsv where
  "ConsentManagement_demo = JObj
      [(''user_consent_registry'', JArr
         [JObj
            [(''user'', JStr ''alice@corp.com''), (''purpose'', JStr ''Marketing emails''),
             (''granted_at'', JStr ''2024-01-15''), (''expires_at'', JStr ''2025-01-15''), (''withdrawn_at'', JStr []),
             (''source'', JStr ''web_signup'')],
          JObj
            [(''user'', JStr ''bob@corp.com''), (''purpose'', JStr ''Analytics tracking''),
             (''granted_at'', JStr ''2024-02-01''), (''expires_at'', JStr []), (''withdrawn_at'', JStr []),
             (''source'', JStr ''app_prompt'')],
          JObj
            [(''user'', JStr ''charlie@corp.com''), (''purpose'', JStr ''Marketing emails''),
             (''granted_at'', JStr ''2023-06-10''), (''expires_at'', JStr ''2024-06-10''),
             (''withdrawn_at'', JStr ''2024-03-01''), (''source'', JStr ''web_signup'')],
          JObj
            [(''user'', JStr ''diana@corp.com''), (''purpose'', JStr ''Third-party data sharing''),
             (''granted_at'', JStr ''2024-01-20''), (''expires_at'', JStr ''2025-01-20''), (''withdrawn_at'', JStr []),
             (''source'', JStr ''admin_manual'')]]),
       (''consent_templates'', JArr
         [JObj
            [(''purpose'', JStr ''Marketing emails''),
             (''purpose_text'', JStr ''We may send you product updates and promotional content''),
             (''required'', JBool False), (''legal_basis'', JStr ''GDPR Art. 6(1)(a) - Consent'')],
          JObj
            [(''purpose'', JStr ''Analytics tracking''),
             (''purpose_text'', JStr ''We collect usage data to improve our services''), (''required'', JBool False),
             (''legal_basis'', JStr ''GDPR Art. 6(1)(a) - Consent'')],
          JObj
            [(''purpose'', JStr ''Third-party data sharing''),
             (''purpose_text'', JStr ''Share data with trusted partners for enhanced services''), (''required'', JBool False),
             (''legal_basis'', JStr ''GDPR Art. 6(1)(a) - Consent'')],
          JObj
            [(''purpose'', JStr ''Service operation''),
             (''purpose_text'', JStr ''Process and store your data to provide core services''), (''required'', JBool True),
             (''legal_basis'', JStr ''GDPR Art. 6(1)(b) - Contract'')]]),
       (''per_region_compliance'', JArr
         [JObj [(''region'', JStr ''GDPR (EU)''), (''compliance_pct'', JNum 98), (''active_consents'', JNum 4520)],
          JObj [(''region'', JStr ''CCPA (US)''), (''compliance_pct'', JNum 95), (''active_consents'', JNum 3210)],
          JObj [(''region'', JStr ''PIPL (CN)''), (''compliance_pct'', JNum 92), (''active_consents'', JNum 890)]])]"

definition useConsentManagement :: "'w demo_api" where
  "useConsentManagement = demo_api_of False ConsentManagement_demo [(''withdrawConsent'', \<lambda>a. [JStr ''Withdrawing consent for'', arg a 0, arg a 1])]"

definition DataRetentionDashboard_demo :: jsv where
  "DataRetentionDashboard_demo = JObj
      [(''retention_policies'', JArr
         [JObj
            [(''data_type'', JStr ''Audit Logs''), (''retention_days'', JNum 2555), (''action'', JStr ''archive''),
             (''legal_basis'', JStr ''SOC2 Type II'')],
          JObj
            [(''data_type'', JStr ''User Sessions''), (''retention_days'', JNum 90), (''action'', JStr ''delete''),
             (''legal_basis'', JStr ''GDPR Art. 5(1)(e)'')],
          JObj
            [(''data_type'', JStr ''PII Data''), (''retention_days'', JNum 365), (''action'', JStr ''anonymize''),
             (''legal_basis'', JStr ''GDPR Art. 17'')],
          JObj
            [(''data_type'', JStr ''Security Events''), (''retention_days'', JNum 1095), (''action'', JStr ''archive''),
             (''legal_basis'', JStr ''PCI-DSS Req 10'')]]),
       (''storage_usage_by_age'', JArr
         [JObj [(''age_range'', JStr ''0-30d''), (''size_gb'', JNum 45), (''pct'', JNum 35)],
          JObj [(''age_range'', JStr ''31-90d''), (''size_gb'', JNum 32), (''pct'', JNum 25)],
          JObj [(''age_range'', JStr ''91-365d''), (''size_gb'', JNum 28), (''pct'', JNum 22)],
          JObj [(''age_range'', JStr ''1-3y''), (''size_gb'', JNum 15), (''pct'', JNum 12)],
          JObj [(''age_range'', JStr ''3y+''), (''size_gb'', JNum 8), (''pct'', JNum 6)]]),
       (''upcoming_purges'', JArr
         [JObj [(''date'', JStr ''2024-03-20''), (''data_type'', JStr ''Expired Sessions''), (''affected_records'', JNum 125000)],
          JObj [(''date'', JStr ''2024-04-01''), (''data_type'', JStr ''Anonymized PII''), (''affected_records'', JNum 3400)]]),
       (''compliance_status'', JArr
         [JObj [(''framework'', JStr ''GDPR''), (''compliant'', JBool True)],
          JObj [(''framework'', JStr ''CCPA''), (''compliant'', JBool True)],
          JObj [(''framework'', JStr ''SOC2''), (''compliant'', JBool True)],
          JObj [(''framework'', JStr ''PCI-DSS''), (''compliant'', JBool False)]]),
       (''purge_history'', JArr
         [JObj [(''date'', JStr ''2024-03-01''), (''data_type'', JStr ''Sessions''), (''records_purged'', JNum 89000)],
          JObj [(''date'', JStr ''2024-02-15''), (''data_type'', JStr ''Audit Logs''), (''records_purged'', JNum 450000)]])]"

definition useDataRetentionDashboard :: "'w demo_api" where
  "useDataRetentionDashboard = demo_api_of True DataRetentionDashboard_demo []"

definition DeviceFingerprintAnalytics_demo :: jsv where
  "DeviceFingerprintAnalytics_demo = JObj
      [(''unique_fingerprints'', JNum 15420),
       (''fingerprint_clusters'', JArr
         [JObj [(''browser'', JStr ''Chrome''), (''os'', JStr ''Windows''), (''device_count'', JNum 5800), (''pct'', JNum 38)],
          JObj [(''browser'', JStr ''Safari''), (''os'', JStr ''iOS''), (''device_count'', JNum 3200), (''pct'', JNum 21)],
          JObj [(''browser'', JStr ''Chrome''), (''os'', JStr ''macOS''), (''device_count'', JNum 2400), (''pct'', JNum 16)],
          JObj [(''browser'', JStr ''Chrome''), (''os'', JStr ''Android''), (''device_count'', JNum 1800), (''pct'', JNum 12)],
          JObj [(''browser'', JStr ''Firefox''), (''os'', JStr ''Linux''), (''device_count'', JNum 1220), (''pct'', JNum 8)],
          JObj [(''browser'', JStr ''Edge''), (''os'', JStr ''Windows''), (''device_count'', JNum 1000), (''pct'', JNum 5)]]),
       (''known_good_list'', JArr
         [JObj [(''hash'', JStr ''a1b2c3d4e5f6789a''), (''last_seen'', JStr ''1m ago'')],
          JObj [(''hash'', JStr ''b2c3d4e5f6789a1b''), (''last_seen'', JStr ''5m ago'')],
          JObj [(''hash'', JStr ''c3d4e5f6789a1b2c''), (''last_seen'', JStr ''10m ago'')],
          JObj [(''hash'', JStr ''d4e5f6789a1b2c3d''), (''last_seen'', JStr ''20m ago'')],
          JObj [(''hash'', JStr ''e5f6789a1b2c3d4e''), (''last_seen'', JStr ''1h ago'')],
          JObj [(''hash'', JStr ''f6789a1b2c3d4e5f''), (''last_seen'', JStr ''2h ago'')]]),
       (''suspicious_fingerprints'', JArr
         [JObj
            [(''fingerprint_hash'', JStr ''9f8e7d6c5b4a3928''), (''reason'', JStr ''headless_browser''),
             (''associated_user'', JStr ''unknown''), (''timestamp'', JStr ''5m ago'')],
          JObj
            [(''fingerprint_hash'', JStr ''1a2b3c4d5e6f7890''), (''reason'', JStr ''spoofed''),
             (''associated_user'', JStr ''user.123@temp.com''), (''timestamp'', JStr ''15m ago'')],
          JObj
            [(''fingerprint_hash'', JStr ''0f9e8d7c6b5a4938''), (''reason'', JStr ''inconsistent''),
             (''associated_user'', JStr ''suspicious@mail.com''), (''timestamp'', JStr ''30m ago'')]]),
       (''fingerprint_match_rate_pct'', JNum 94),
       (''canvas_hash_distribution'', JArr [JNum 5, JNum 12, JNum 28, JNum 45, JNum 67, JNum 89, JNum 72, JNum 45, JNum 23, JNum 15, JNum 8, JNum 4]),
       (''webgl_hash_distribution'', JArr [JNum 8, JNum 15, JNum 22, JNum 38, JNum 55, JNum 78, JNum 91, JNum 65, JNum 41, JNum 22, JNum 10, JNum 5])]"

definition useDeviceFingerprintAnalytics :: "'w demo_api" where
  "useDeviceFingerprintAnalytics = demo_api_of True DeviceFingerprintAnalytics_demo []"

definition GDPRDataPortability_demo :: jsv where
  "GDPRDataPortability_demo = JObj
      [(''export_requests'', JArr
         [JObj
            [(''user'', JStr ''alice@corp.com''), (''requested_at'', JStr ''2024-03-10 10:30''), (''status'', JStr ''ready''),
             (''format'', JStr ''JSON''), (''scope'', JArr [JStr ''profile'', JStr ''activity'', JStr ''consents'']),
             (''download_link'', JStr ''/exports/alice_20240310.json'')],
          JObj
            [(''user'', JStr ''bob@corp.com''), (''requested_at'', JStr ''2024-03-12 14:00''),
             (''status'', JStr ''processing''), (''format'', JStr ''CSV''),
             (''scope'', JArr [JStr ''profile'', JStr ''sessions'']), (''download_link'', JStr [])],
          JObj
            [(''user'', JStr ''charlie@corp.com''), (''requested_at'', JStr ''2024-03-08 09:15''),
             (''status'', JStr ''expired''), (''format'', JStr ''JSON''),
             (''scope'', JArr [JStr ''profile'', JStr ''activity'', JStr ''consents'', JStr ''sessions'', JStr ''audit_events'']),
             (''download_link'', JStr [])],
          JObj
            [(''user'', JStr ''diana@corp.com''), (''requested_at'', JStr ''2024-03-13 16:45''),
             (''status'', JStr ''queued''), (''format'', JStr ''JSON''), (''scope'', JArr [JStr ''profile'']),
             (''download_link'', JStr [])]]),
       (''auto_expiry_days'', JNum 7)]"

definition useGDPRDataPortability :: "'w demo_api" where
  "useGDPRDataPortability = demo_api_of False GDPRDataPortability_demo [(''generateExport'', \<lambda>a. [JStr ''Generating export for'', arg a 0, JStr ''scopes:'', arg a 1])]"

definition GeoFencingConfig_demo :: jsv where
  "GeoFencingConfig_demo = JObj
      [(''enabled'', JBool True),
       (''rules'', JArr
         [JObj
            [(''id'', JStr ''r1''), (''country'', JStr ''US''), (''cidr'', JStr ''0.0.0.0/0''), (''action'', JStr ''allow''),
             (''label'', JStr ''Corporate VPN'')],
          JObj
            [(''id'', JStr ''r2''), (''country'', JStr ''CN''), (''cidr'', JStr ''0.0.0.0/0''), (''action'', JStr ''deny''),
             (''label'', JStr ''Blocked region'')],
          JObj
            [(''id'', JStr ''r3''), (''country'', JStr ''RU''), (''cidr'', JStr ''0.0.0.0/0''),
             (''action'', JStr ''challenge''), (''label'', JStr ''Step-up required'')]]),
       (''whitelist_ips'', JArr [JStr ''10.0.0.0/8'', JStr ''172.16.0.0/12'', JStr ''192.168.1.100''])]"

definition useGeoFencingConfig :: "'w demo_api" where
  "useGeoFencingConfig = demo_api_of True GeoFencingConfig_demo []"

definition GoldenTicketDetect_demo :: jsv where
  "GoldenTicketDetect_demo = JObj
      [(''detected_forgeries'', JArr
         [JObj
            [(''token_hash'', JStr ''a1b2c3d4e5f6789abcdef0123456789''), (''anomaly_type'', JStr ''issuer_mismatch''),
             (''user'', JStr ''admin@ggid.dev''), (''source_ip'', JStr ''10.0.5.23''), (''timestamp'', JStr ''15m ago'')],
          JObj
            [(''token_hash'', JStr ''b2c3d4e5f67890abcdef12345678901''), (''anomaly_type'', JStr ''signature_anomaly''),
             (''user'', JStr ''svc.legacy''), (''source_ip'', JStr ''192.168.1.50''), (''timestamp'', JStr ''1h ago'')],
          JObj
            [(''token_hash'', JStr ''c3d4e5f67890abcdef23456789012''), (''anomaly_type'', JStr ''abnormal_claims''),
             (''user'', JStr ''user.test''), (''source_ip'', JStr ''172.16.0.8''), (''timestamp'', JStr ''2h ago'')],
          JObj
            [(''token_hash'', JStr ''d4e5f67890abcdef345678901234''), (''anomaly_type'', JStr ''expiry_anomaly''),
             (''user'', JStr ''admin.old''), (''source_ip'', JStr ''10.0.5.99''), (''timestamp'', JStr ''3h ago'')]]),
       (''detection_rules'', JArr
         [JObj
            [(''rule_name'', JStr ''Issuer validation''),
             (''description'', JStr ''Check token issuer matches configured IdP''), (''enabled'', JBool True)],
          JObj
            [(''rule_name'', JStr ''Signature verification''),
             (''description'', JStr ''Validate token signature against JWKS''), (''enabled'', JBool True)],
          JObj
            [(''rule_name'', JStr ''Claim anomaly detection''),
             (''description'', JStr ''Detect unusual claim patterns (admin claims on service tokens)''),
             (''enabled'', JBool True)],
          JObj
            [(''rule_name'', JStr ''Expiry anomaly detection''),
             (''description'', JStr ''Flag tokens with abnormal expiry times (>7d)''), (''enabled'', JBool True)],
          JObj
            [(''rule_name'', JStr ''Token replay detection''),
             (''description'', JStr ''Check jti against known replay databases''), (''enabled'', JBool False)]]),
       (''false_positive_rate_pct'', JNum 3), (''auto_revoke_enabled'', JBool False)]"

definition useGoldenTicketDetect :: "'w demo_api" where
  "useGoldenTicketDetect = demo_api_of True GoldenTicketDetect_demo []"

definition IdentityAccessRevoke_demo :: jsv where
  "IdentityAccessRevoke_demo = JObj
      [(''searchable_users'', JArr
         [JObj
            [(''user_id'', JStr ''u1''), (''username'', JStr ''alice.chen''), (''email'', JStr ''alice@ggid.dev''),
             (''active'', JBool True)],
          JObj
            [(''user_id'', JStr ''u2''), (''username'', JStr ''bob.martinez''), (''email'', JStr ''bob@ggid.dev''),
             (''active'', JBool True)],
          JObj
            [(''user_id'', JStr ''u3''), (''username'', JStr ''carol.jones''), (''email'', JStr ''carol@ggid.dev''),
             (''active'', JBool True)],
          JObj
            [(''user_id'', JStr ''u4''), (''username'', JStr ''dave.wilson''), (''email'', JStr ''dave@ggid.dev''),
             (''active'', JBool False)],
          JObj
            [(''user_id'', JStr ''u5''), (''username'', JStr ''eve.brown''), (''email'', JStr ''eve@ggid.dev''),
             (''active'', JBool True)]]),
       (''estimated_impact'', JArr
         [JObj [(''category'', JStr ''active_sessions''), (''count'', JNum 4)],
          JObj [(''category'', JStr ''active_tokens''), (''count'', JNum 12)],
          JObj [(''category'', JStr ''api_keys''), (''count'', JNum 3)],
          JObj [(''category'', JStr ''app_access''), (''count'', JNum 8)],
          JObj [(''category'', JStr ''ssh_keys''), (''count'', JNum 2)]]),
       (''execution_log'', JArr
         [JObj [(''action'', JStr ''Revoked session sess-abc123''), (''timestamp'', JStr ''5m ago''), (''success'', JBool True)],
          JObj [(''action'', JStr ''Revoked token tok-def456''), (''timestamp'', JStr ''5m ago''), (''success'', JBool True)],
          JObj [(''action'', JStr ''Disabled API key key-ghi789''), (''timestamp'', JStr ''4m ago''), (''success'', JBool True)]])]"

definition useIdentityAccessRevoke :: "'w demo_api" where
  "useIdentityAccessRevoke = demo_api_of False IdentityAccessRevoke_demo [(''executeRevoke'', \<lambda>a. [JStr ''Revoking:'', arg a 0, JStr ''Reason:'', arg a 1, JStr ''Notify:'', arg a 2])]"

definition IdentityDeprovisioningAutomation_demo :: jsv where
  "IdentityDeprovisioningAutomation_demo = JObj
      [(''automation_rules'', JArr
         [JObj
            [(''trigger'', JStr ''last_login_days''), (''action'', JStr ''disable''), (''delay_hours'', JNum 24),
             (''enabled'', JBool True)],
          JObj
            [(''trigger'', JStr ''manager_request''), (''action'', JStr ''revoke''), (''delay_hours'', JNum 0),
             (''enabled'', JBool True)],
          JObj
            [(''trigger'', JStr ''hr_system''), (''action'', JStr ''archive''), (''delay_hours'', JNum 72),
             (''enabled'', JBool True)],
          JObj
            [(''trigger'', JStr ''contract_end''), (''action'', JStr ''revoke''), (''delay_hours'', JNum 0),
             (''enabled'', JBool True)]]),
       (''pending_actions'', JArr
         [JObj
            [(''user'', JStr ''alice.chen''), (''action'', JStr ''disable''), (''trigger_reason'', JStr ''last_login_90d''),
             (''scheduled_at'', JStr ''in 2h'')],
          JObj
            [(''user'', JStr ''bob.martinez''), (''action'', JStr ''revoke''), (''trigger_reason'', JStr ''contract_end''),
             (''scheduled_at'', JStr ''in 30m'')],
          JObj
            [(''user'', JStr ''carol.jones''), (''action'', JStr ''archive''), (''trigger_reason'', JStr ''hr_terminated''),
             (''scheduled_at'', JStr ''in 48h'')]]),
       (''dry_run'', JBool False), (''success_rate_pct'', JNum 98), (''processed_7d'', JNum 14)]"

definition useIdentityDeprovisioningAutomation :: "'w demo_api" where
  "useIdentityDeprovisioningAutomation = demo_api_of True IdentityDeprovisioningAutomation_demo []"

definition IdentityJitProvisioningConfig_demo :: jsv where
  "IdentityJitProvisioningConfig_demo = JObj
      [(''per_idp_config'', JArr
         [JObj [(''idp_name'', JStr ''Google Workspace''), (''enabled'', JBool True)],
          JObj [(''idp_name'', JStr ''Azure AD''), (''enabled'', JBool True)],
          JObj [(''idp_name'', JStr ''Okta''), (''enabled'', JBool False)],
          JObj [(''idp_name'', JStr ''SAML IdP (Internal)''), (''enabled'', JBool True)]]),
       (''attribute_mapping'', JArr
         [JObj [(''idp_claim'', JStr ''email''), (''local_attr'', JStr ''email''), (''required'', JBool True)],
          JObj [(''idp_claim'', JStr ''name''), (''local_attr'', JStr ''full_name''), (''required'', JBool True)],
          JObj [(''idp_claim'', JStr ''department''), (''local_attr'', JStr ''department''), (''required'', JBool False)],
          JObj [(''idp_claim'', JStr ''groups''), (''local_attr'', JStr ''groups''), (''required'', JBool False)],
          JObj [(''idp_claim'', JStr ''picture''), (''local_attr'', JStr ''avatar_url''), (''required'', JBool False)]]),
       (''default_role_on_create'', JStr ''developer''),
       (''default_group_assignments'', JArr [JStr ''all-staff'', JStr ''engineering'']), (''update_on_login'', JBool True),
       (''conflict_resolution'', JStr ''create''),
       (''provisioning_log_24h'', JArr
         [JObj
            [(''user'', JStr ''new.user1@ggid.dev''), (''idp'', JStr ''Google Workspace''), (''action'', JStr ''created''),
             (''timestamp'', JStr ''10m ago'')],
          JObj
            [(''user'', JStr ''returning.user@ggid.dev''), (''idp'', JStr ''Azure AD''), (''action'', JStr ''updated''),
             (''timestamp'', JStr ''30m ago'')],
          JObj
            [(''user'', JStr ''third.user@ggid.dev''), (''idp'', JStr ''SAML IdP (Internal)''),
             (''action'', JStr ''created''), (''timestamp'', JStr ''2h ago'')]])]"

definition useIdentityJitProvisioningConfig :: "'w demo_api" where
  "useIdentityJitProvisioningConfig = demo_api_of True IdentityJitProvisioningConfig_demo []"

definition IdentitySoftDeleteConfig_demo :: jsv where
  "IdentitySoftDeleteConfig_demo = JObj
      [(''retention_days'', JNum 30), (''auto_purge_after_days'', JNum 90), (''recoverable_window_days'', JNum 30),
       (''per_entity_config'', JArr
         [JObj [(''entity'', JStr ''users''), (''enabled'', JBool True), (''retention_days'', JNum 30)],
          JObj [(''entity'', JStr ''groups''), (''enabled'', JBool True), (''retention_days'', JNum 30)],
          JObj [(''entity'', JStr ''api_keys''), (''enabled'', JBool True), (''retention_days'', JNum 14)],
          JObj [(''entity'', JStr ''clients''), (''enabled'', JBool True), (''retention_days'', JNum 60)]]),
       (''soft_deleted_items'', JArr
         [JObj
            [(''id'', JStr ''sd-1''), (''entity'', JStr ''user''), (''name'', JStr ''alice.chen''),
             (''deleted_at'', JStr ''5d ago''), (''purge_at'', JStr ''in 25d''), (''restorable'', JBool True)],
          JObj
            [(''id'', JStr ''sd-2''), (''entity'', JStr ''api_key''), (''name'', JStr ''key-prod-001''),
             (''deleted_at'', JStr ''10d ago''), (''purge_at'', JStr ''in 4d''), (''restorable'', JBool True)],
          JObj
            [(''id'', JStr ''sd-3''), (''entity'', JStr ''group''), (''name'', JStr ''Legacy Admins''),
             (''deleted_at'', JStr ''35d ago''), (''purge_at'', JStr ''in -5d (overdue)''), (''restorable'', JBool False)],
          JObj
            [(''id'', JStr ''sd-4''), (''entity'', JStr ''client''), (''name'', JStr ''client-old-legacy''),
             (''deleted_at'', JStr ''2d ago''), (''purge_at'', JStr ''in 58d''), (''restorable'', JBool True)]])]"

definition useIdentitySoftDeleteConfig :: "'w demo_api" where
  "useIdentitySoftDeleteConfig = demo_api_of False IdentitySoftDeleteConfig_demo [(''restoreItem'', \<lambda>a. [JStr ''Restoring:'', arg a 0]),
     (''purgeAll'', \<lambda>a. [JStr ''Purging all soft-deleted items''])]"

definition IdentityUserAttestation_demo :: jsv where
  "IdentityUserAttestation_demo = JObj
      [(''campaigns'', JArr
         [JObj
            [(''id'', JStr ''camp-q1-2026''), (''name'', JStr ''Q1 2026 Access Review''), (''pending_count'', JNum 8),
             (''attested_count'', JNum 22),
             (''user_list'', JArr
               [JObj
                  [(''user_id'', JStr ''u1''), (''user_name'', JStr ''Alice Chen''),
                   (''attestation_status'', JStr ''attested''), (''last_attested_at'', JStr ''2026-01-10''),
                   (''attested_by'', JStr ''manager.bob''), (''permissions_at_time'', JNum 12)],
                JObj
                  [(''user_id'', JStr ''u2''), (''user_name'', JStr ''Bob Martinez''),
                   (''attestation_status'', JStr ''pending''), (''last_attested_at'', JNull), (''attested_by'', JNull),
                   (''permissions_at_time'', JNum 8)],
                JObj
                  [(''user_id'', JStr ''u3''), (''user_name'', JStr ''Carol Jones''),
                   (''attestation_status'', JStr ''pending''), (''last_attested_at'', JNull), (''attested_by'', JNull),
                   (''permissions_at_time'', JNum 15)],
                JObj
                  [(''user_id'', JStr ''u4''), (''user_name'', JStr ''Dave Wilson''),
                   (''attestation_status'', JStr ''attested''), (''last_attested_at'', JStr ''2026-01-08''),
                   (''attested_by'', JStr ''manager.bob''), (''permissions_at_time'', JNum 6)],
                JObj
                  [(''user_id'', JStr ''u5''), (''user_name'', JStr ''Eve Brown''),
                   (''attestation_status'', JStr ''revoked''), (''last_attested_at'', JStr ''2025-10-15''),
                   (''attested_by'', JStr ''system.auto''), (''permissions_at_time'', JNum 0)],
                JObj
                  [(''user_id'', JStr ''u6''), (''user_name'', JStr ''Frank Lee''),
                   (''attestation_status'', JStr ''pending''), (''last_attested_at'', JNull), (''attested_by'', JNull),
                   (''permissions_at_time'', JNum 20)]])],
          JObj
            [(''id'', JStr ''camp-q4-2025''), (''name'', JStr ''Q4 2025 Access Review''), (''pending_count'', JNum 2),
             (''attested_count'', JNum 30),
             (''user_list'', JArr
               [JObj
                  [(''user_id'', JStr ''u7''), (''user_name'', JStr ''Grace Kim''),
                   (''attestation_status'', JStr ''attested''), (''last_attested_at'', JStr ''2025-10-01''),
                   (''attested_by'', JStr ''manager.alice''), (''permissions_at_time'', JNum 10)],
                JObj
                  [(''user_id'', JStr ''u8''), (''user_name'', JStr ''Henry Chen''),
                   (''attestation_status'', JStr ''pending''), (''last_attested_at'', JNull), (''attested_by'', JNull),
                   (''permissions_at_time'', JNum 5)]])]]),
       (''overdue_attestations'', JNum 3), (''auto_revoke_unattested_days'', JNum 30)]"

definition useIdentityUserAttestation :: "'w demo_api" where
  "useIdentityUserAttestation = demo_api_of False IdentityUserAttestation_demo [(''bulkAttest'', \<lambda>a. [JStr ''Bulk attesting campaign:'', arg a 0])]"

definition IdpFailoverConfig_demo :: jsv where
  "IdpFailoverConfig_demo = JObj
      [(''idp_cards'', JArr
         [JObj
            [(''name'', JStr ''Azure AD (Primary)''), (''role'', JStr ''primary''), (''status'', JStr ''healthy''),
             (''latency_ms'', JNum 45), (''health_score'', JNum 98)],
          JObj
            [(''name'', JStr ''Okta (Secondary)''), (''role'', JStr ''secondary''), (''status'', JStr ''healthy''),
             (''latency_ms'', JNum 120), (''health_score'', JNum 95)]]),
       (''failover_rules'', JArr
         [JObj
            [(''trigger'', JStr ''Latency Threshold''), (''condition'', JStr ''> 500ms for 3 consecutive checks''),
             (''action'', JStr ''Switch to secondary'')],
          JObj
            [(''trigger'', JStr ''Error Rate''), (''condition'', JStr ''> 10% in 5min window''),
             (''action'', JStr ''Switch to secondary'')],
          JObj
            [(''trigger'', JStr ''Unreachable''), (''condition'', JStr ''3 consecutive health check failures''),
             (''action'', JStr ''Immediate switch'')]]),
       (''failover_history'', JArr
         [JObj
            [(''id'', JStr ''1''), (''timestamp'', JStr ''3d ago''), (''from'', JStr ''Azure AD''), (''to'', JStr ''Okta''),
             (''reason'', JStr ''Latency > 500ms'')],
          JObj
            [(''id'', JStr ''2''), (''timestamp'', JStr ''3d ago''), (''from'', JStr ''Okta''), (''to'', JStr ''Azure AD''),
             (''reason'', JStr ''Primary recovered'')]]),
       (''health_check_interval'', JStr ''30s''), (''auto_fallback'', JBool False)]"

definition useIdpFailoverConfig :: "'w demo_api" where
  "useIdpFailoverConfig = demo_api_of False IdpFailoverConfig_demo [(''manualSwitch'', \<lambda>a. [JStr ''Manual switch to'', arg a 0])]"

definition IncidentResponsePlaybook_demo :: jsv where
  "IncidentResponsePlaybook_demo = JObj
      [(''active_incidents'', JArr
         [JObj
            [(''incident_id'', JStr ''INC-2024-007''), (''type'', JStr ''Credential Stuffing''),
             (''severity'', JStr ''critical''), (''status'', JStr ''active''), (''assigned_to'', JStr ''sec-team-alpha''),
             (''sla_countdown'', JStr ''2h 15m''),
             (''steps'', JArr
               [JObj [(''name'', JStr ''Detect''), (''status'', JStr ''done'')],
                JObj [(''name'', JStr ''Contain''), (''status'', JStr ''done'')],
                JObj [(''name'', JStr ''Investigate''), (''status'', JStr ''active'')],
                JObj [(''name'', JStr ''Eradicate''), (''status'', JStr ''pending'')],
                JObj [(''name'', JStr ''Recover''), (''status'', JStr ''pending'')]])]]),
       (''playbook_library'', JArr
         [JObj
            [(''incident_type'', JStr ''Credential Stuffing''), (''severity'', JStr ''critical''), (''steps_count'', JNum 8),
             (''automated_actions_count'', JNum 5),
             (''escalation_chain'', JArr [JStr ''on-call'', JStr ''sec-lead'', JStr ''ciso''])],
          JObj
            [(''incident_type'', JStr ''Account Takeover''), (''severity'', JStr ''critical''), (''steps_count'', JNum 10),
             (''automated_actions_count'', JNum 4),
             (''escalation_chain'', JArr [JStr ''on-call'', JStr ''sec-lead'', JStr ''ciso'', JStr ''legal''])],
          JObj
            [(''incident_type'', JStr ''Insider Threat''), (''severity'', JStr ''high''), (''steps_count'', JNum 12),
             (''automated_actions_count'', JNum 2),
             (''escalation_chain'', JArr [JStr ''sec-lead'', JStr ''hr'', JStr ''ciso'', JStr ''legal''])],
          JObj
            [(''incident_type'', JStr ''Malware Detection''), (''severity'', JStr ''high''), (''steps_count'', JNum 9),
             (''automated_actions_count'', JNum 6),
             (''escalation_chain'', JArr [JStr ''on-call'', JStr ''it-ops'', JStr ''sec-lead''])]]),
       (''post_mortem_templates'', JArr
         [JObj [(''template_name'', JStr ''Security Incident - Standard''), (''sections_count'', JNum 7)],
          JObj [(''template_name'', JStr ''Data Breach - Detailed''), (''sections_count'', JNum 12)],
          JObj [(''template_name'', JStr ''Insider Threat - Confidential''), (''sections_count'', JNum 9)]])]"

definition useIncidentResponsePlaybook :: "'w demo_api" where
  "useIncidentResponsePlaybook = demo_api_of True IncidentResponsePlaybook_demo []"

definition LockoutPolicyConfig_demo :: jsv where
  "LockoutPolicyConfig_demo = JObj
      [(''max_failed_attempts'', JNum 5), (''lockout_duration_minutes'', JNum 15), (''progressive_backoff'', JBool True),
       (''captcha_after'', JNum 3), (''auto_unlock_after'', JNum 30),
       (''current_lockouts'', JArr [JObj [(''username'', JStr ''user_js''), (''attempts'', JNum 5), (''unlock_at'', JStr ''12m'')]]),
       (''per_endpoint'', JArr
         [JObj [(''endpoint'', JStr ''/auth/login''), (''threshold'', JNum 5), (''lockout_min'', JNum 15)],
          JObj [(''endpoint'', JStr ''/auth/refresh''), (''threshold'', JNum 10), (''lockout_min'', JNum 5)],
          JObj [(''endpoint'', JStr ''/admin/*''), (''threshold'', JNum 3), (''lockout_min'', JNum 60)]])]"

definition useLockoutPolicyConfig :: "'w demo_api" where
  "useLockoutPolicyConfig = demo_api_of True LockoutPolicyConfig_demo []"

definition MitreAttackMapping_demo :: jsv where
  "MitreAttackMapping_demo = JObj
      [(''techniques'', JArr
         [JObj
            [(''t_id'', JStr ''T1595.002''), (''name'', JStr ''Active Scanning: Vulnerability Scanning''),
             (''tactic'', JStr ''reconnaissance''), (''detection_status'', JStr ''detected'')],
          JObj
            [(''t_id'', JStr ''T1592.004''), (''name'', JStr ''Gather Victim Host Info: Client Config''),
             (''tactic'', JStr ''reconnaissance''), (''detection_status'', JStr ''mitigated'')],
          JObj
            [(''t_id'', JStr ''T1110.004''), (''name'', JStr ''Credential Stuffing''),
             (''tactic'', JStr ''credential_access''), (''detection_status'', JStr ''detected'')],
          JObj
            [(''t_id'', JStr ''T1550.002''), (''name'', JStr ''Pass the Hash''), (''tactic'', JStr ''lateral_movement''),
             (''detection_status'', JStr ''detected'')],
          JObj
            [(''t_id'', JStr ''T1558.001''), (''name'', JStr ''Golden Ticket''), (''tactic'', JStr ''lateral_movement''),
             (''detection_status'', JStr ''mitigated'')],
          JObj
            [(''t_id'', JStr ''T1528''), (''name'', JStr ''Steal Application Access Token''),
             (''tactic'', JStr ''credential_access''), (''detection_status'', JStr ''detected'')],
          JObj
            [(''t_id'', JStr ''T1530''), (''name'', JStr ''Data from Cloud Storage''), (''tactic'', JStr ''exfiltration''),
             (''detection_status'', JStr ''unknown'')],
          JObj
            [(''t_id'', JStr ''T1537''), (''name'', JStr ''Transfer Data to Cloud Account''),
             (''tactic'', JStr ''exfiltration''), (''detection_status'', JStr ''unknown'')]])]"

definition useMitreAttackMapping :: "'w demo_api" where
  "useMitreAttackMapping = demo_api_of True MitreAttackMapping_demo []"

definition NotificationPrefConfig_demo :: jsv where
  "NotificationPrefConfig_demo = JObj
      [(''matrix'', JArr
         [JObj
            [(''event'', JStr ''security_alert''), (''event_label'', JStr ''Security Alert''),
             (''channels'', JArr [JStr ''email'', JStr ''push'', JStr ''webhook''])],
          JObj
            [(''event'', JStr ''access_change''), (''event_label'', JStr ''Access Change''),
             (''channels'', JArr [JStr ''email''])],
          JObj
            [(''event'', JStr ''mfa_event''), (''event_label'', JStr ''MFA Event''),
             (''channels'', JArr [JStr ''email'', JStr ''push''])],
          JObj
            [(''event'', JStr ''compliance_deadline''), (''event_label'', JStr ''Compliance Deadline''),
             (''channels'', JArr [JStr ''email'', JStr ''webhook''])]]),
       (''quiet_hours'', JObj [(''start'', JStr ''22:00''), (''end'', JStr ''07:00''), (''timezone'', JStr ''Asia/Shanghai'')]),
       (''digest_frequency'', JStr ''daily''), (''emergency_override'', JBool True)]"

definition useNotificationPrefConfig :: "'w demo_api" where
  "useNotificationPrefConfig = demo_api_of True NotificationPrefConfig_demo []"

definition OAuth21Audit_demo :: jsv where
  "OAuth21Audit_demo = JObj
      [(''compliance_checklist'', JArr
         [JObj
            [(''item'', JStr ''PKCE Required''),
             (''description'', JStr ''All authorization code flows must use PKCE (S256)''), (''status'', JStr ''pass'')],
          JObj
            [(''item'', JStr ''Implicit Grant Disabled''),
             (''description'', JStr ''response_type=token must not be supported''), (''status'', JStr ''pass'')],
          JObj
            [(''item'', JStr ''Password Grant Disabled''),
             (''description'', JStr ''grant_type=password must not be supported''), (''status'', JStr ''pass'')],
          JObj
            [(''item'', JStr ''Exact Redirect URI Matching''),
             (''description'', JStr ''Redirect URIs must match exactly (no wildcards)''), (''status'', JStr ''pass'')],
          JObj
            [(''item'', JStr ''State Parameter Mandatory''),
             (''description'', JStr ''state parameter required on all authorize requests''), (''status'', JStr ''pass'')],
          JObj
            [(''item'', JStr ''DPoP Support''), (''description'', JStr ''Demonstration of Proof-of-Possession recommended''),
             (''status'', JStr ''warning'')],
          JObj
            [(''item'', JStr ''Refresh Token Rotation''),
             (''description'', JStr ''Refresh token rotation should be enabled''), (''status'', JStr ''pass'')],
          JObj
            [(''item'', JStr ''No http:// Redirect URIs''),
             (''description'', JStr ''Only https:// URIs allowed (except localhost)''), (''status'', JStr ''fail'')]]),
       (''non_compliant_clients'', JArr
         [JObj
            [(''client_id'', JStr ''client-legacy-app''), (''issue'', JStr ''Uses http:// redirect URI''),
             (''severity'', JStr ''critical''),
             (''remediation'', JStr ''Switch to https:// or register localhost exception'')],
          JObj
            [(''client_id'', JStr ''client-mobile-v1''), (''issue'', JStr ''No PKCE on code flow''),
             (''severity'', JStr ''high''), (''remediation'', JStr ''Implement PKCE with S256 challenge method'')],
          JObj
            [(''client_id'', JStr ''client-spa-old''), (''issue'', JStr ''Uses implicit grant''),
             (''severity'', JStr ''high''), (''remediation'', JStr ''Migrate to authorization code + PKCE'')]]),
       (''remediation_actions'', JArr
         [JObj
            [(''action'', JStr ''Enforce https:// for all redirect URIs''),
             (''description'', JStr ''Remove http:// exceptions except localhost''), (''affected_count'', JNum 1)],
          JObj
            [(''action'', JStr ''Require PKCE for all public clients''),
             (''description'', JStr ''Block code flow requests without code_challenge''), (''affected_count'', JNum 1)],
          JObj
            [(''action'', JStr ''Deprecate implicit grant''),
             (''description'', JStr ''Remove response_type=token support globally''), (''affected_count'', JNum 1)],
          JObj
            [(''action'', JStr ''Enable DPoP''), (''description'', JStr ''Recommend DPoP for all SPA and mobile clients''),
             (''affected_count'', JNum 8)]]),
       (''overall_compliance_pct'', JNum 87)]"

definition useOAuth21Audit :: "'w demo_api" where
  "useOAuth21Audit = demo_api_of True OAuth21Audit_demo []"

definition OAuthBackchannelLogoutConfig_demo :: jsv where
  "OAuthBackchannelLogoutConfig_demo = JObj
      [(''logout_endpoint'', JStr ''https://idp.example.com/backchannel-logout''), (''session_lifetime'', JNum 3600),
       (''token_revocation_on_logout'', JBool True), (''per_client_toggle'', JBool True),
       (''error_handling'', JObj [(''retry_attempts'', JNum 3), (''retry_timeout_seconds'', JNum 30), (''failed_notifications_24h'', JNum 2)]),
       (''client_configs'', JArr
         [JObj
            [(''client_id'', JStr ''client-web-001''), (''client_name'', JStr ''Web Dashboard''),
             (''backchannel_logout_enabled'', JBool False)],
          JObj
            [(''client_id'', JStr ''client-mobile-002''), (''client_name'', JStr ''Mobile App''),
             (''backchannel_logout_enabled'', JBool False)],
          JObj
            [(''client_id'', JStr ''client-api-003''), (''client_name'', JStr ''API Gateway''),
             (''backchannel_logout_enabled'', JBool False)],
          JObj
            [(''client_id'', JStr ''client-spa-004''), (''client_name'', JStr ''Marketing SPA''),
             (''backchannel_logout_enabled'', JBool False)]]),
       (''logout_token_preview'', JObj
         [(''iss'', JStr ''https://idp.example.com''), (''sub'', JStr ''user-uuid-123''), (''iat'', JNum 1700000000),
          (''jti'', JStr ''logout-unique-id-456''),
          (''events'', JObj [(''http://schemas.openid.net/event/backchannel-logout'', JObj [])]),
          (''sid'', JStr ''session-id-789'')])]"

definition useOAuthBackchannelLogoutConfig :: "'w demo_api" where
  "useOAuthBackchannelLogoutConfig = demo_api_of False OAuthBackchannelLogoutConfig_demo [(''testLogout'', \<lambda>a. [JStr ''Sending test backchannel logout''])]"

definition OAuthClientDeployment_demo :: jsv where
  "OAuthClientDeployment_demo = JObj
      [(''environments'', JArr
         [JObj
            [(''name'', JStr ''dev''), (''version'', JStr ''v2.4.1-beta''), (''health'', JStr ''healthy''),
             (''last_deploy'', JStr ''2h ago''), (''active_clients'', JNum 8)],
          JObj
            [(''name'', JStr ''staging''), (''version'', JStr ''v2.4.0''), (''health'', JStr ''healthy''),
             (''last_deploy'', JStr ''1d ago''), (''active_clients'', JNum 12)],
          JObj
            [(''name'', JStr ''prod''), (''version'', JStr ''v2.3.9''), (''health'', JStr ''healthy''),
             (''last_deploy'', JStr ''3d ago''), (''active_clients'', JNum 28)]]),
       (''config_diff'', JArr
         [JObj
            [(''field'', JStr ''redirect_uris''), (''change_type'', JStr ''added''), (''old_value'', JStr []),
             (''new_value'', JStr ''https://app2.example.com/callback'')],
          JObj
            [(''field'', JStr ''grant_types''), (''change_type'', JStr ''modified''),
             (''old_value'', JStr ''[authorization_code]''), (''new_value'', JStr ''[authorization_code, refresh_token]'')],
          JObj
            [(''field'', JStr ''token_endpoint_auth_method''), (''change_type'', JStr ''modified''),
             (''old_value'', JStr ''client_secret_post''), (''new_value'', JStr ''client_secret_basic'')],
          JObj
            [(''field'', JStr ''scope''), (''change_type'', JStr ''modified''), (''old_value'', JStr ''openid profile''),
             (''new_value'', JStr ''openid profile email'')]]),
       (''deployment_history'', JArr
         [JObj
            [(''id'', JStr ''dep-1''), (''environment'', JStr ''dev''), (''version'', JStr ''v2.4.1-beta''),
             (''status'', JStr ''success''), (''deployed_by'', JStr ''alice''), (''timestamp'', JStr ''2h ago''),
             (''rollback_available'', JBool True)],
          JObj
            [(''id'', JStr ''dep-2''), (''environment'', JStr ''staging''), (''version'', JStr ''v2.4.0''),
             (''status'', JStr ''success''), (''deployed_by'', JStr ''ci-bot''), (''timestamp'', JStr ''1d ago''),
             (''rollback_available'', JBool True)],
          JObj
            [(''id'', JStr ''dep-3''), (''environment'', JStr ''prod''), (''version'', JStr ''v2.3.9''),
             (''status'', JStr ''success''), (''deployed_by'', JStr ''bob''), (''timestamp'', JStr ''3d ago''),
             (''rollback_available'', JBool True)],
          JObj
            [(''id'', JStr ''dep-4''), (''environment'', JStr ''prod''), (''version'', JStr ''v2.3.8''),
             (''status'', JStr ''success''), (''deployed_by'', JStr ''bob''), (''timestamp'', JStr ''7d ago''),
             (''rollback_available'', JBool False)],
          JObj
            [(''id'', JStr ''dep-5''), (''environment'', JStr ''staging''), (''version'', JStr ''v2.3.9-beta''),
             (''status'', JStr ''failed''), (''deployed_by'', JStr ''ci-bot''), (''timestamp'', JStr ''8d ago''),
             (''rollback_available'', JBool False)]]),
       (''health_checks'', JArr
         [JObj [(''check'', JStr ''Token Endpoint''), (''status'', JStr ''pass''), (''latency_ms'', JNum 45)],
          JObj [(''check'', JStr ''Authorize Endpoint''), (''status'', JStr ''pass''), (''latency_ms'', JNum 32)],
          JObj [(''check'', JStr ''UserInfo Endpoint''), (''status'', JStr ''pass''), (''latency_ms'', JNum 28)],
          JObj [(''check'', JStr ''JWKS Endpoint''), (''status'', JStr ''pass''), (''latency_ms'', JNum 12)],
          JObj [(''check'', JStr ''Revocation Endpoint''), (''status'', JStr ''warn''), (''latency_ms'', JNum 120)],
          JObj [(''check'', JStr ''Introspection Endpoint''), (''status'', JStr ''pass''), (''latency_ms'', JNum 55)]])]"

definition useOAuthClientDeployment :: "'w demo_api" where
  "useOAuthClientDeployment = demo_api_of False OAuthClientDeployment_demo [(''promote'', \<lambda>a. [JStr ''Promoting from:'', arg a 0]),
     (''rollback'', \<lambda>a. [JStr ''Rolling back deployment:'', arg a 0])]"

definition OAuthClientOnboardingWizard_demo :: jsv where
  "OAuthClientOnboardingWizard_demo = JObj
      [(''app_info'', JObj [(''name'', JStr ''My OAuth App''), (''description'', JStr ''Sample application'')]),
       (''grant_types'', JArr
         [JObj
            [(''value'', JStr ''authorization_code''), (''description'', JStr ''For web/mobile apps with user consent''),
             (''selected'', JBool True)],
          JObj
            [(''value'', JStr ''client_credentials''), (''description'', JStr ''For machine-to-machine communication''),
             (''selected'', JBool False)],
          JObj
            [(''value'', JStr ''refresh_token''), (''description'', JStr ''Obtain new tokens after expiry''),
             (''selected'', JBool True)],
          JObj
            [(''value'', JStr ''urn:ietf:params:oauth:grant-type:device_code''),
             (''description'', JStr ''For devices without browsers''), (''selected'', JBool False)]]),
       (''redirect_uris'', JArr [JStr ''https://my-app.com/callback'', JStr ''https://my-app.com/auth/silent'']),
       (''scopes'', JArr
         [JObj
            [(''name'', JStr ''openid''), (''description'', JStr ''OpenID Connect authentication''),
             (''required'', JBool True)],
          JObj
            [(''name'', JStr ''profile''), (''description'', JStr ''Access to user profile claims''),
             (''required'', JBool False)],
          JObj [(''name'', JStr ''email''), (''description'', JStr ''Access to user email claim''), (''required'', JBool False)],
          JObj
            [(''name'', JStr ''offline_access''), (''description'', JStr ''Request refresh tokens''),
             (''required'', JBool False)]]),
       (''credentials'', JObj [(''client_id'', JStr ''client_XyZ789abc123''), (''client_secret'', JStr ''secret_AbCdEfGhIjKlMnOpQrSt'')])]"

definition useOAuthClientOnboardingWizard :: "'w demo_api" where
  "useOAuthClientOnboardingWizard = demo_api_of True OAuthClientOnboardingWizard_demo []"

definition OAuthCrossTenant_demo :: jsv where
  "OAuthCrossTenant_demo = JObj
      [(''trusted_tenants'', JArr
         [JObj
            [(''tenant_id'', JStr ''tenant-acme-corp''), (''trust_direction'', JStr ''bidirectional''),
             (''scopes_allowed'', JArr [JStr ''openid'', JStr ''profile'', JStr ''email'']),
             (''expires_at'', JStr ''2025-12-31'')],
          JObj
            [(''tenant_id'', JStr ''tenant-partner-org''), (''trust_direction'', JStr ''inbound''),
             (''scopes_allowed'', JArr [JStr ''openid'', JStr ''profile'']), (''expires_at'', JStr ''2025-09-30'')],
          JObj
            [(''tenant_id'', JStr ''tenant-vendor-co''), (''trust_direction'', JStr ''outbound''),
             (''scopes_allowed'', JArr [JStr ''openid'']), (''expires_at'', JStr ''2025-06-30'')]]),
       (''revocation_policy'', JObj [(''type'', JStr ''grace_period''), (''grace_period_hours'', JNum 24)]),
       (''audit_trail'', JArr
         [JObj [(''action'', JStr ''trust_created''), (''actor'', JStr ''admin@ggid.dev''), (''timestamp'', JStr ''2d ago'')],
          JObj [(''action'', JStr ''scope_modified''), (''actor'', JStr ''admin@ggid.dev''), (''timestamp'', JStr ''5d ago'')],
          JObj [(''action'', JStr ''trust_revoked''), (''actor'', JStr ''security@ggid.dev''), (''timestamp'', JStr ''1w ago'')]]),
       (''per_app_sharing'', JArr
         [JObj
            [(''app_id'', JStr ''app-dashboard''), (''app_name'', JStr ''Analytics Dashboard''),
             (''shared_with_tenant_ids'', JArr [JStr ''tenant-acme-corp'']), (''enabled'', JBool True)],
          JObj
            [(''app_id'', JStr ''app-mobile''), (''app_name'', JStr ''Mobile App''), (''shared_with_tenant_ids'', JArr []),
             (''enabled'', JBool False)]])]"

definition useOAuthCrossTenant :: "'w demo_api" where
  "useOAuthCrossTenant = demo_api_of True OAuthCrossTenant_demo []"

definition OAuthDpopProofViewer_demo :: jsv where
  "OAuthDpopProofViewer_demo = JObj
      [(''proof'', JObj
         [(''valid'', JBool True),
          (''header'', JObj
            [(''typ'', JStr ''dpop+jwt''), (''alg'', JStr ''ES256''),
             (''jwk_thumbprint'', JStr ''9nGq8p3vNwUMxkZqWtL2sYx7bD1cKu5rJaFmHnVeRqs='')]),
          (''payload'', JObj
            [(''htm'', JStr ''POST''), (''htu'', JStr ''https://idp.example.com/oauth/token''),
             (''jti'', JStr ''-wYQu9O9oSzZ3M8jKqP''), (''ath'', JStr ''czZmNGRlNjk4MzU2Nzc4NTQ0Njg=''),
             (''iat'', JNum 1700000000)]),
          (''signature'', JStr ''MEUCIQDf3v2vZ8k7t5x1KpLm6rQ4nWxYbH0jF3aSdV6tNgIgCgVbZ7rN4mP8sK2xQwJ9fT3uM5oL1aY6dR8cN0w2s=''),
          (''key_binding_verified'', JBool True), (''key_binding_algorithm'', JStr ''ES256'')]),
       (''validity_timeline'', JArr
         [JObj
            [(''check'', JStr ''JWT Decoded''), (''detail'', JStr ''Header and payload parsed successfully''),
             (''passed'', JBool True)],
          JObj
            [(''check'', JStr ''typ Header Valid''), (''detail'', JStr ''typ is dpop+jwt as required''),
             (''passed'', JBool True)],
          JObj
            [(''check'', JStr ''alg Supported''), (''detail'', JStr ''ES256 is in the supported algorithms list''),
             (''passed'', JBool True)],
          JObj
            [(''check'', JStr ''htm Matches''), (''detail'', JStr ''HTTP method POST matches token endpoint''),
             (''passed'', JBool True)],
          JObj
            [(''check'', JStr ''htu Matches''), (''detail'', JStr ''URL matches expected token endpoint''),
             (''passed'', JBool True)],
          JObj
            [(''check'', JStr ''jti Unique''), (''detail'', JStr ''No replay detected for this jti''),
             (''passed'', JBool True)],
          JObj
            [(''check'', JStr ''ath Correct''), (''detail'', JStr ''Access token hash matches bound token''),
             (''passed'', JBool True)],
          JObj
            [(''check'', JStr ''iat Within Window''), (''detail'', JStr ''Proof created 12s ago, within 60s max age''),
             (''passed'', JBool True)],
          JObj
            [(''check'', JStr ''Signature Verified''), (''detail'', JStr ''ECDSA signature validated against public key''),
             (''passed'', JBool True)],
          JObj
            [(''check'', JStr ''Key Binding Confirmed''), (''detail'', JStr ''Proof key matches DPoP-bound token key''),
             (''passed'', JBool True)]]),
       (''error_analysis'', JArr [])]"

definition useOAuthDpopProofViewer :: "'w demo_api" where
  "useOAuthDpopProofViewer = demo_api_of True OAuthDpopProofViewer_demo []"

definition OAuthFederationMetadata_demo :: jsv where
  "OAuthFederationMetadata_demo = JObj
      [(''federated_entities'', JArr
         [JObj
            [(''entity_id'', JStr ''https://idp.corp.com''), (''role'', JStr ''OP (OpenID Provider)''),
             (''metadata_url'', JStr ''https://idp.corp.com/.well-known/openid-configuration''),
             (''trust_status'', JStr ''trusted''), (''last_refresh'', JStr ''2h ago''),
             (''entity_categories'', JArr [JStr ''SPID'', JStr ''REFEDS''])],
          JObj
            [(''entity_id'', JStr ''https://rp.partner.io''), (''role'', JStr ''RP (Relying Party)''),
             (''metadata_url'', JStr ''https://rp.partner.io/metadata.xml''), (''trust_status'', JStr ''trusted''),
             (''last_refresh'', JStr ''5h ago''), (''entity_categories'', JArr [JStr ''REFEDS''])],
          JObj
            [(''entity_id'', JStr ''https://auth.contractor.net''), (''role'', JStr ''OP''),
             (''metadata_url'', JStr ''https://auth.contractor.net/.well-known/openid-configuration''),
             (''trust_status'', JStr ''pending''), (''last_refresh'', JStr ''1d ago''), (''entity_categories'', JArr [])]]),
       (''auto_refresh_schedule'', JStr ''Every 24h (02:00 UTC)''), (''next_refresh'', JStr ''in 18h'')]"

definition useOAuthFederationMetadata :: "'w demo_api" where
  "useOAuthFederationMetadata = demo_api_of True OAuthFederationMetadata_demo []"

definition OAuthIntrospectionCache_demo :: jsv where
  "OAuthIntrospectionCache_demo = JObj
      [(''cache_config'', JObj [(''enabled'', JBool True), (''ttl_seconds'', JNum 60), (''max_entries'', JNum 10000)]),
       (''hit_rate_pct'', JNum 87), (''cache_size_bytes'', JNum 4194304), (''evictions_per_min'', JNum 12),
       (''cached_tokens'', JArr
         [JObj
            [(''token_hash'', JStr ''sha256-a1b2c3d4e5f6''), (''client'', JStr ''client-web-001''),
             (''cached_at'', JStr ''2m ago''), (''expires_at'', JStr ''in 58s'')],
          JObj
            [(''token_hash'', JStr ''sha256-g7h8i9j0k1l2''), (''client'', JStr ''client-mobile-002''),
             (''cached_at'', JStr ''5m ago''), (''expires_at'', JStr ''in 30s'')],
          JObj
            [(''token_hash'', JStr ''sha256-m3n4o5p6q7r8''), (''client'', JStr ''client-api-003''),
             (''cached_at'', JStr ''1m ago''), (''expires_at'', JStr ''in 59s'')],
          JObj
            [(''token_hash'', JStr ''sha256-s9t0u1v2w3x4''), (''client'', JStr ''client-spa-005''),
             (''cached_at'', JStr ''30s ago''), (''expires_at'', JStr ''in 30s'')]]),
       (''cache_invalidation_rules'', JArr
         [JObj
            [(''trigger'', JStr ''token_revoked''), (''action'', JStr ''purge_entry''),
             (''description'', JStr ''Remove cached entry when token is revoked'')],
          JObj
            [(''trigger'', JStr ''client_disabled''), (''action'', JStr ''purge_all_client''),
             (''description'', JStr ''Purge all entries for disabled client'')],
          JObj
            [(''trigger'', JStr ''ttl_expired''), (''action'', JStr ''evict''),
             (''description'', JStr ''Auto-evict expired entries'')],
          JObj
            [(''trigger'', JStr ''scope_changed''), (''action'', JStr ''refresh''),
             (''description'', JStr ''Refresh entry when token scopes change'')]])]"

definition useOAuthIntrospectionCache :: "'w demo_api" where
  "useOAuthIntrospectionCache = demo_api_of False OAuthIntrospectionCache_demo [(''purgeCache'', \<lambda>a. [JStr ''Purging introspection cache''])]"

definition OAuthIssuerMetadata_demo :: jsv where
  "OAuthIssuerMetadata_demo = JObj
      [(''issuer_url'', JStr ''https://auth.ggid.dev''), (''well_known_path'', JStr ''/.well-known/openid-configuration''),
       (''supported_response_types'', JArr
         [JStr ''code'',
          JStr ''token'',
          JStr ''id_token'',
          JStr ''code token'',
          JStr ''code id_token'',
          JStr ''code token id_token'']),
       (''supported_subject_types'', JArr [JStr ''public'', JStr ''pairwise'']),
       (''claim_types_supported'', JArr [JStr ''normal'', JStr ''aggregated'', JStr ''distributed'']),
       (''request_parameter_supported'', JBool True), (''request_uri_parameter_supported'', JBool True),
       (''require_request_uri_registration'', JBool False),
       (''well_known_preview'', JObj
         [(''issuer'', JStr ''https://auth.ggid.dev''),
          (''authorization_endpoint'', JStr ''https://auth.ggid.dev/oauth/authorize''),
          (''token_endpoint'', JStr ''https://auth.ggid.dev/oauth/token''),
          (''userinfo_endpoint'', JStr ''https://auth.ggid.dev/oauth/userinfo''),
          (''jwks_uri'', JStr ''https://auth.ggid.dev/.well-known/jwks.json''),
          (''response_types_supported'', JArr [JStr ''code'', JStr ''token'', JStr ''id_token'']),
          (''subject_types_supported'', JArr [JStr ''public'', JStr ''pairwise'']),
          (''scopes_supported'', JArr [JStr ''openid'', JStr ''profile'', JStr ''email'', JStr ''offline_access'']),
          (''token_endpoint_auth_methods_supported'', JArr [JStr ''client_secret_basic'', JStr ''client_secret_post'', JStr ''private_key_jwt'', JStr ''tls_client_auth''])])]"

definition useOAuthIssuerMetadata :: "'w demo_api" where
  "useOAuthIssuerMetadata = demo_api_of True OAuthIssuerMetadata_demo []"

definition OAuthIssuerMetadataConfig_demo :: jsv where
  "OAuthIssuerMetadataConfig_demo = JObj
      [(''issuer_url'', JStr ''https://auth.ggid.dev''),
       (''response_types'', JArr [JStr ''code'', JStr ''token'', JStr ''id_token'', JStr ''code id_token'', JStr ''code token'']),
       (''subject_types'', JArr [JStr ''public'', JStr ''pairwise'']),
       (''claim_types'', JArr [JStr ''normal'', JStr ''aggregated'', JStr ''distributed'']),
       (''request_param_supported'', JBool True), (''request_uri_supported'', JBool True),
       (''require_request_uri'', JBool False),
       (''well_known'', JObj
         [(''issuer'', JStr ''https://auth.ggid.dev''),
          (''authorization_endpoint'', JStr ''https://auth.ggid.dev/oauth/authorize''),
          (''token_endpoint'', JStr ''https://auth.ggid.dev/oauth/token''),
          (''jwks_uri'', JStr ''https://auth.ggid.dev/.well-known/jwks.json''),
          (''scopes_supported'', JArr [JStr ''openid'', JStr ''profile'', JStr ''email'', JStr ''offline_access'']),
          (''response_types_supported'', JArr [JStr ''code'', JStr ''token'', JStr ''id_token''])])]"

definition useOAuthIssuerMetadataConfig :: "'w demo_api" where
  "useOAuthIssuerMetadataConfig = demo_api_of True OAuthIssuerMetadataConfig_demo []"

definition OAuthJarConfig_demo :: jsv where
  "OAuthJarConfig_demo = JObj
      [(''require_jar'', JBool True), (''jar_lifetime_seconds'', JNum 300), (''signing_alg'', JStr ''RS256''),
       (''encryption_optional'', JBool True),
       (''per_client_override'', JArr
         [JObj
            [(''client_id'', JStr ''client-web-001''), (''jar_required'', JBool False), (''signing_alg'', JStr ''RS256''),
             (''lifetime_seconds'', JNum 600)],
          JObj
            [(''client_id'', JStr ''client-mobile-002''), (''jar_required'', JBool True), (''signing_alg'', JStr ''ES256''),
             (''lifetime_seconds'', JNum 300)],
          JObj
            [(''client_id'', JStr ''client-api-003''), (''jar_required'', JBool True), (''signing_alg'', JStr ''PS256''),
             (''lifetime_seconds'', JNum 180)]]),
       (''request_object_preview'', JObj
         [(''iss'', JStr ''client-mobile-002''), (''aud'', JStr ''https://auth.ggid.dev''),
          (''response_type'', JStr ''code''), (''client_id'', JStr ''client-mobile-002''),
          (''redirect_uri'', JStr ''myapp://callback''), (''scope'', JStr ''openid profile''), (''state'', JStr ''xyz123''),
          (''nonce'', JStr ''abc456''), (''exp'', JNum 1735341600), (''iat'', JNum 1735341300)]),
       (''jar_usage_stats'', JObj
         [(''total_requests_24h'', JNum 15420), (''jar_requests_24h'', JNum 11200), (''adoption_rate_pct'', JNum 73),
          (''validation_failures_24h'', JNum 4)])]"

definition useOAuthJarConfig :: "'w demo_api" where
  "useOAuthJarConfig = demo_api_of True OAuthJarConfig_demo []"

definition OAuthJwksManagement_demo :: jsv where
  "OAuthJwksManagement_demo = JObj
      [(''active_keys'', JArr
         [JObj
            [(''kid'', JStr ''key-2026-01''), (''alg'', JStr ''RS256''), (''kty'', JStr ''RSA''),
             (''created_at'', JStr ''2026-01-10''), (''status'', JStr ''active'')],
          JObj
            [(''kid'', JStr ''key-2025-12''), (''alg'', JStr ''RS256''), (''kty'', JStr ''RSA''),
             (''created_at'', JStr ''2025-12-01''), (''status'', JStr ''rotated'')],
          JObj
            [(''kid'', JStr ''key-2025-11''), (''alg'', JStr ''RS256''), (''kty'', JStr ''RSA''),
             (''created_at'', JStr ''2025-11-01''), (''status'', JStr ''revoked'')],
          JObj
            [(''kid'', JStr ''key-es-01''), (''alg'', JStr ''ES256''), (''kty'', JStr ''EC''),
             (''created_at'', JStr ''2026-01-10''), (''status'', JStr ''active'')]]),
       (''key_rotation_history'', JArr
         [JObj
            [(''old_kid'', JStr ''key-2025-12''), (''new_kid'', JStr ''key-2026-01''),
             (''timestamp'', JStr ''2026-01-10 02:00 UTC''), (''triggered_by'', JStr ''auto-rotation''),
             (''success'', JBool True)],
          JObj
            [(''old_kid'', JStr ''key-2025-11''), (''new_kid'', JStr ''key-2025-12''),
             (''timestamp'', JStr ''2025-12-01 02:00 UTC''), (''triggered_by'', JStr ''auto-rotation''),
             (''success'', JBool True)],
          JObj
            [(''old_kid'', JStr ''key-2025-10''), (''new_kid'', JStr ''key-2025-11''),
             (''timestamp'', JStr ''2025-11-01 02:00 UTC''), (''triggered_by'', JStr ''manual''), (''success'', JBool True)]]),
       (''auto_rotation_interval_days'', JNum 30), (''kid_strategy'', JStr ''x5t#S256''),
       (''jwks_uri_health'', JObj
         [(''uri'', JStr ''https://idp.example.com/.well-known/jwks.json''), (''healthy'', JBool True),
          (''response_time_ms'', JNum 18), (''cache_hit_rate'', JNum 97)])]"

definition useOAuthJwksManagement :: "'w demo_api" where
  "useOAuthJwksManagement = demo_api_of False OAuthJwksManagement_demo [(''rotateKey'', \<lambda>a. [JStr ''Rotating key'']),
     (''testEndpoint'', \<lambda>a. [JStr ''Testing JWKS endpoint''])]"

definition OAuthParUsage_demo :: jsv where
  "OAuthParUsage_demo = JObj
      [(''total_pushed'', JNum 18500),
       (''active_requests'', JArr
         [JObj
            [(''request_uri'', JStr ''urn:ietf:params:oauth:request_uri:abc123''), (''client'', JStr ''web-console''),
             (''pushed_at'', JStr ''1m ago''), (''expires_at'', JStr ''59s''), (''consumed'', JBool False)],
          JObj
            [(''request_uri'', JStr ''urn:ietf:params:oauth:request_uri:def456''), (''client'', JStr ''mobile-app''),
             (''pushed_at'', JStr ''30s ago''), (''expires_at'', JStr ''30s''), (''consumed'', JBool False)],
          JObj
            [(''request_uri'', JStr ''urn:ietf:params:oauth:request_uri:ghi789''), (''client'', JStr ''ci-cd-bot''),
             (''pushed_at'', JStr ''55s ago''), (''expires_at'', JStr ''5s''), (''consumed'', JBool True)]]),
       (''cache_size'', JNum 42), (''hit_rate'', JNum 94),
       (''per_client'', JArr
         [JObj [(''client'', JStr ''web-console''), (''count'', JNum 8200), (''pct'', JNum 44)],
          JObj [(''client'', JStr ''mobile-app''), (''count'', JNum 5100), (''pct'', JNum 28)],
          JObj [(''client'', JStr ''ci-cd-bot''), (''count'', JNum 3200), (''pct'', JNum 17)],
          JObj [(''client'', JStr ''partner-api''), (''count'', JNum 2000), (''pct'', JNum 11)]]),
       (''errors'', JArr
         [JObj [(''error'', JStr ''invalid_request_uri''), (''count'', JNum 45)],
          JObj [(''error'', JStr ''expired_request''), (''count'', JNum 28)],
          JObj [(''error'', JStr ''client_mismatch''), (''count'', JNum 12)]])]"

definition useOAuthParUsage :: "'w demo_api" where
  "useOAuthParUsage = demo_api_of True OAuthParUsage_demo []"

definition OAuthRateLimitPerClient_demo :: jsv where
  "OAuthRateLimitPerClient_demo = JObj
      [(''rate_limits'', JArr
         [JObj
            [(''client_id'', JStr ''client-web-001''), (''requests_per_min'', JNum 100), (''burst'', JNum 20),
             (''concurrent_tokens'', JNum 50), (''daily_quota'', JNum 50000), (''current_usage_today'', JNum 12400)],
          JObj
            [(''client_id'', JStr ''client-mobile-002''), (''requests_per_min'', JNum 200), (''burst'', JNum 50),
             (''concurrent_tokens'', JNum 100), (''daily_quota'', JNum 100000), (''current_usage_today'', JNum 89000)],
          JObj
            [(''client_id'', JStr ''client-api-003''), (''requests_per_min'', JNum 500), (''burst'', JNum 100),
             (''concurrent_tokens'', JNum 200), (''daily_quota'', JNum 500000), (''current_usage_today'', JNum 342000)],
          JObj
            [(''client_id'', JStr ''client-spa-005''), (''requests_per_min'', JNum 60), (''burst'', JNum 10),
             (''concurrent_tokens'', JNum 30), (''daily_quota'', JNum 20000), (''current_usage_today'', JNum 5600)]]),
       (''per_endpoint_override'', JArr
         [JObj
            [(''client_id'', JStr ''client-web-001''), (''endpoint'', JStr ''/oauth/authorize''),
             (''override_req_per_min'', JNum 30), (''override_burst'', JNum 5)],
          JObj
            [(''client_id'', JStr ''client-web-001''), (''endpoint'', JStr ''/oauth/token''),
             (''override_req_per_min'', JNum 20), (''override_burst'', JNum 3)],
          JObj
            [(''client_id'', JStr ''client-api-003''), (''endpoint'', JStr ''/oauth/introspect''),
             (''override_req_per_min'', JNum 1000), (''override_burst'', JNum 200)]]),
       (''throttle_response'', JObj [(''status_code'', JNum 429), (''retry_after_seconds'', JNum 60)]),
       (''whitelist_ips'', JArr [JStr ''10.0.0.1'', JStr ''10.0.0.2''])]"

definition useOAuthRateLimitPerClient :: "'w demo_api" where
  "useOAuthRateLimitPerClient = demo_api_of True OAuthRateLimitPerClient_demo []"

definition OAuthRedirectURIValidation_demo :: jsv where
  "OAuthRedirectURIValidation_demo = JObj
      [(''exact_match_enabled'', JBool False), (''https_only'', JBool True), (''localhost_allowlist'', JBool True),
       (''custom_scheme_allowlist'', JArr [JStr ''myapp://'', JStr ''com.example.app://'']),
       (''per_client_uris'', JArr
         [JObj
            [(''client_id'', JStr ''c-web-001''), (''client_name'', JStr ''Web Dashboard''),
             (''allowed_uris'', JArr [JStr ''https://app.example.com/callback'', JStr ''https://app.example.com/auth''])],
          JObj
            [(''client_id'', JStr ''c-mobile-002''), (''client_name'', JStr ''Mobile App''),
             (''allowed_uris'', JArr [JStr ''myapp://callback'', JStr ''https://app.example.com/mobile/callback''])],
          JObj
            [(''client_id'', JStr ''c-api-003''), (''client_name'', JStr ''API Service''),
             (''allowed_uris'', JArr [JStr ''https://api.example.com/oauth/callback''])]]),
       (''validation_errors'', JArr
         [JObj
            [(''client_name'', JStr ''Legacy SPA''), (''invalid_uri'', JStr ''http://insecure.example.com/callback''),
             (''reason'', JStr ''HTTP not allowed when HTTPS Only is enabled'')],
          JObj
            [(''client_name'', JStr ''Test Client''), (''invalid_uri'', JStr ''https://*.example.com/callback''),
             (''reason'', JStr ''Wildcard not allowed when Exact Match is enabled'')]])]"

definition useOAuthRedirectURIValidation :: "'w demo_api" where
  "useOAuthRedirectURIValidation = demo_api_of False OAuthRedirectURIValidation_demo [(''testUri'', \<lambda>a. [JStr ''Testing URI:'', arg a 0])]"

definition OAuthTokenAuditing_demo :: jsv where
  "OAuthTokenAuditing_demo = JObj
      [(''audit_trail'', JArr
         [JObj
            [(''token_id'', JStr ''tok-001''), (''client'', JStr ''client-web-001''), (''user'', JStr ''alice.chen''),
             (''issued_at'', JStr ''2026-01-15T10:00:00Z''),
             (''scopes'', JArr [JStr ''openid'', JStr ''profile'', JStr ''read'']), (''revoked_at'', JNull),
             (''revoked_by'', JNull), (''revoke_reason'', JNull)],
          JObj
            [(''token_id'', JStr ''tok-002''), (''client'', JStr ''client-mobile-002''), (''user'', JStr ''bob.martinez''),
             (''issued_at'', JStr ''2026-01-15T09:30:00Z''), (''scopes'', JArr [JStr ''openid'', JStr ''profile'']),
             (''revoked_at'', JStr ''2026-01-15T11:00:00Z''), (''revoked_by'', JStr ''admin.carol''),
             (''revoke_reason'', JStr ''Suspicious activity'')],
          JObj
            [(''token_id'', JStr ''tok-003''), (''client'', JStr ''client-api-003''), (''user'', JStr ''service.bot''),
             (''issued_at'', JStr ''2026-01-15T08:00:00Z''), (''scopes'', JArr [JStr ''read'', JStr ''write'']),
             (''revoked_at'', JNull), (''revoked_by'', JNull), (''revoke_reason'', JNull)],
          JObj
            [(''token_id'', JStr ''tok-004''), (''client'', JStr ''client-web-001''), (''user'', JStr ''dave.wilson''),
             (''issued_at'', JStr ''2026-01-14T16:00:00Z''),
             (''scopes'', JArr [JStr ''openid'', JStr ''profile'', JStr ''admin'']),
             (''revoked_at'', JStr ''2026-01-14T18:00:00Z''), (''revoked_by'', JStr ''system.auto''),
             (''revoke_reason'', JStr ''Token reuse detected'')],
          JObj
            [(''token_id'', JStr ''tok-005''), (''client'', JStr ''client-spa-005''), (''user'', JStr ''eve.brown''),
             (''issued_at'', JStr ''2026-01-14T14:00:00Z''), (''scopes'', JArr [JStr ''openid'', JStr ''profile'']),
             (''revoked_at'', JNull), (''revoked_by'', JNull), (''revoke_reason'', JNull)]]),
       (''suspicious_patterns'', JArr
         [JObj
            [(''pattern_type'', JStr ''token_reuse''), (''severity'', JStr ''high''),
             (''description'', JStr ''Token used from 2 different IPs within 5 minutes''), (''count'', JNum 3),
             (''last_seen'', JStr ''1h ago'')],
          JObj
            [(''pattern_type'', JStr ''scope_escalation''), (''severity'', JStr ''critical''),
             (''description'', JStr ''Token upgraded from read to admin scope without re-auth''), (''count'', JNum 1),
             (''last_seen'', JStr ''2h ago'')],
          JObj
            [(''pattern_type'', JStr ''unusual_ip''), (''severity'', JStr ''medium''),
             (''description'', JStr ''Token issued from new geographic location''), (''count'', JNum 5),
             (''last_seen'', JStr ''30m ago'')]])]"

definition useOAuthTokenAuditing :: "'w demo_api" where
  "useOAuthTokenAuditing = demo_api_of True OAuthTokenAuditing_demo []"

definition OidcClaimMappingConfig_demo :: jsv where
  "OidcClaimMappingConfig_demo = JObj
      [(''claims'', JArr
         [JObj
            [(''name'', JStr ''sub''), (''source'', JStr ''user_attr:id''), (''transform'', JStr ''direct''),
             (''token_type'', JStr ''id_token+access'')],
          JObj
            [(''name'', JStr ''email''), (''source'', JStr ''user_attr:email''), (''transform'', JStr ''direct''),
             (''token_type'', JStr ''id_token'')],
          JObj
            [(''name'', JStr ''groups''), (''source'', JStr ''group''), (''transform'', JStr ''flatten''),
             (''token_type'', JStr ''access_token'')],
          JObj
            [(''name'', JStr ''roles''), (''source'', JStr ''group:role''), (''transform'', JStr ''regex:^role_(.+)''),
             (''token_type'', JStr ''access_token'')],
          JObj
            [(''name'', JStr ''tenant''), (''source'', JStr ''static''), (''transform'', JStr ''constant:default''),
             (''token_type'', JStr ''both'')]]),
       (''all_claims'', JArr [JStr ''sub'', JStr ''email'', JStr ''groups'', JStr ''roles'', JStr ''tenant'']),
       (''scope_matrix'', JArr
         [JObj [(''scope'', JStr ''openid''), (''claims'', JArr [JStr ''sub''])],
          JObj [(''scope'', JStr ''profile''), (''claims'', JArr [JStr ''sub'', JStr ''groups''])],
          JObj [(''scope'', JStr ''email''), (''claims'', JArr [JStr ''sub'', JStr ''email''])],
          JObj [(''scope'', JStr ''admin''), (''claims'', JArr [JStr ''sub'', JStr ''groups'', JStr ''roles'', JStr ''tenant''])]])]"

definition useOidcClaimMappingConfig :: "'w demo_api" where
  "useOidcClaimMappingConfig = demo_api_of True OidcClaimMappingConfig_demo []"

definition OrgCostAllocation_demo :: jsv where
  "OrgCostAllocation_demo = JObj
      [(''allocation_rules'', JArr
         [JObj
            [(''department'', JStr ''Engineering''), (''cost_center'', JStr ''CC-1001''), (''allocation_pct'', JNum 40),
             (''chargeback_model'', JStr ''per_user'')],
          JObj
            [(''department'', JStr ''Sales''), (''cost_center'', JStr ''CC-2002''), (''allocation_pct'', JNum 25),
             (''chargeback_model'', JStr ''per_usage'')],
          JObj
            [(''department'', JStr ''Finance''), (''cost_center'', JStr ''CC-3003''), (''allocation_pct'', JNum 15),
             (''chargeback_model'', JStr ''fixed'')],
          JObj
            [(''department'', JStr ''Marketing''), (''cost_center'', JStr ''CC-4004''), (''allocation_pct'', JNum 12),
             (''chargeback_model'', JStr ''per_user'')],
          JObj
            [(''department'', JStr ''Operations''), (''cost_center'', JStr ''CC-5005''), (''allocation_pct'', JNum 8),
             (''chargeback_model'', JStr ''fixed'')]]),
       (''monthly_cost_breakdown'', JArr
         [JObj [(''department'', JStr ''Engineering''), (''amount'', JNum 48000)],
          JObj [(''department'', JStr ''Sales''), (''amount'', JNum 30000)],
          JObj [(''department'', JStr ''Finance''), (''amount'', JNum 18000)],
          JObj [(''department'', JStr ''Marketing''), (''amount'', JNum 14400)],
          JObj [(''department'', JStr ''Operations''), (''amount'', JNum 9600)]]),
       (''chargeback_report_preview'', JObj
         [(''billing_period'', JStr ''2026-01''), (''total_cost'', JNum 120000), (''currency'', JStr ''USD''),
          (''departments'', JNum 5), (''model'', JStr ''hybrid (per_user + fixed)''),
          (''generated_at'', JStr ''2026-01-15T00:00:00Z'')]),
       (''over_budget_alerts'', JArr
         [JObj [(''department'', JStr ''Sales''), (''budget'', JNum 25000), (''actual'', JNum 30000), (''pct_over'', JNum 20)],
          JObj
            [(''department'', JStr ''Marketing''), (''budget'', JNum 12000), (''actual'', JNum 14400),
             (''pct_over'', JNum 20)]])]"

definition useOrgCostAllocation :: "'w demo_api" where
  "useOrgCostAllocation = demo_api_of True OrgCostAllocation_demo []"

definition PIIDiscovery_demo :: jsv where
  "PIIDiscovery_demo = JObj
      [(''data_sources'', JArr
         [JObj
            [(''table'', JStr ''users''), (''column'', JStr ''email''), (''pii_type'', JStr ''email''),
             (''sample_masked'', JStr ''j***@e*****.com''), (''confidence'', JNum 99), (''encrypted'', JBool True)],
          JObj
            [(''table'', JStr ''users''), (''column'', JStr ''phone''), (''pii_type'', JStr ''phone''),
             (''sample_masked'', JStr ''+1-555-***-1234''), (''confidence'', JNum 95), (''encrypted'', JBool True)],
          JObj
            [(''table'', JStr ''users''), (''column'', JStr ''full_name''), (''pii_type'', JStr ''name''),
             (''sample_masked'', JStr ''J*** D**''), (''confidence'', JNum 92), (''encrypted'', JBool False)],
          JObj
            [(''table'', JStr ''user_profiles''), (''column'', JStr ''ssn''), (''pii_type'', JStr ''SSN''),
             (''sample_masked'', JStr ''***-**-5678''), (''confidence'', JNum 88), (''encrypted'', JBool True)],
          JObj
            [(''table'', JStr ''user_profiles''), (''column'', JStr ''address''), (''pii_type'', JStr ''address''),
             (''sample_masked'', JStr ''123 M*** St''), (''confidence'', JNum 76), (''encrypted'', JBool False)],
          JObj
            [(''table'', JStr ''audit_logs''), (''column'', JStr ''ip_address''), (''pii_type'', JStr ''IP''),
             (''sample_masked'', JStr ''192.168.*.*''), (''confidence'', JNum 65), (''encrypted'', JBool False)]]),
       (''unencrypted_pii_alerts'', JArr
         [JObj [(''location'', JStr ''users.full_name''), (''pii_type'', JStr ''name'')],
          JObj [(''location'', JStr ''user_profiles.address''), (''pii_type'', JStr ''address'')]]),
       (''coverage_pct'', JNum 87),
       (''per_database_breakdown'', JArr
         [JObj [(''database'', JStr ''identity_db''), (''pii_columns'', JNum 12), (''unencrypted'', JNum 2)],
          JObj [(''database'', JStr ''audit_db''), (''pii_columns'', JNum 5), (''unencrypted'', JNum 1)],
          JObj [(''database'', JStr ''analytics_db''), (''pii_columns'', JNum 3), (''unencrypted'', JNum 0)]])]"

definition usePIIDiscovery :: "'w demo_api" where
  "usePIIDiscovery = demo_api_of True PIIDiscovery_demo []"

definition PasskeyHealth_demo :: jsv where
  "PasskeyHealth_demo = JObj
      [(''registered_passkeys'', JArr
         [JObj
            [(''id'', JStr ''pk-001''), (''user'', JStr ''alice@ggid.dev''), (''device'', JStr ''iPhone 15 Pro''),
             (''platform'', JStr ''iOS''), (''created_at'', JStr ''10d ago''), (''last_used'', JStr ''1m ago''),
             (''backup_eligible'', JBool True), (''backup_state'', JStr ''synced'')],
          JObj
            [(''id'', JStr ''pk-002''), (''user'', JStr ''bob@ggid.dev''), (''device'', JStr ''Pixel 8''),
             (''platform'', JStr ''Android''), (''created_at'', JStr ''20d ago''), (''last_used'', JStr ''5m ago''),
             (''backup_eligible'', JBool True), (''backup_state'', JStr ''synced'')],
          JObj
            [(''id'', JStr ''pk-003''), (''user'', JStr ''carol@ggid.dev''), (''device'', JStr ''MacBook Pro''),
             (''platform'', JStr ''macOS''), (''created_at'', JStr ''45d ago''), (''last_used'', JStr ''3h ago''),
             (''backup_eligible'', JBool False), (''backup_state'', JStr ''local'')],
          JObj
            [(''id'', JStr ''pk-004''), (''user'', JStr ''dave@ggid.dev''), (''device'', JStr ''Surface Pro''),
             (''platform'', JStr ''Windows''), (''created_at'', JStr ''120d ago''), (''last_used'', JStr ''95d ago''),
             (''backup_eligible'', JBool False), (''backup_state'', JStr ''local'')]]),
       (''adoption_rate_pct'', JNum 68),
       (''platform_distribution'', JObj [(''iOS'', JNum 45), (''Android'', JNum 28), (''Windows'', JNum 15), (''macOS'', JNum 12)]),
       (''stale_passkeys'', JArr
         [JObj
            [(''id'', JStr ''pk-004''), (''user'', JStr ''dave@ggid.dev''), (''device'', JStr ''Surface Pro''),
             (''platform'', JStr ''Windows''), (''created_at'', JStr ''120d ago''), (''last_used'', JStr ''95d ago''),
             (''backup_eligible'', JBool False), (''backup_state'', JStr ''local'')]]),
       (''recovery_options_config'', JArr
         [JObj [(''method'', JStr ''Account recovery key''), (''enabled'', JBool True)],
          JObj [(''method'', JStr ''Secondary passkey''), (''enabled'', JBool True)],
          JObj [(''method'', JStr ''Backup codes''), (''enabled'', JBool False)],
          JObj [(''method'', JStr ''Admin assistance''), (''enabled'', JBool True)]])]"

definition usePasskeyHealth :: "'w demo_api" where
  "usePasskeyHealth = demo_api_of True PasskeyHealth_demo []"

definition PasswordlessConfig_demo :: jsv where
  "PasswordlessConfig_demo = JObj
      [(''methods'', JArr
         [JObj
            [(''id'', JStr ''magic_link''), (''label'', JStr ''Magic Link''),
             (''description'', JStr ''Email-based one-click login''), (''enabled'', JBool True)],
          JObj
            [(''id'', JStr ''passkey''), (''label'', JStr ''Passkey''),
             (''description'', JStr ''Device-bound credential (FIDO2)''), (''enabled'', JBool True)],
          JObj
            [(''id'', JStr ''webauthn''), (''label'', JStr ''WebAuthn''), (''description'', JStr ''Hardware security key''),
             (''enabled'', JBool True)],
          JObj
            [(''id'', JStr ''biometric''), (''label'', JStr ''Biometric''), (''description'', JStr ''Face ID / Touch ID''),
             (''enabled'', JBool False)]]),
       (''magic_link_expiry_minutes'', JNum 15), (''passkey_rp_id'', JStr ''auth.ggid.dev''),
       (''fallback_to_password'', JBool True),
       (''per_role'', JArr
         [JObj [(''role'', JStr ''admin''), (''method'', JStr ''webauthn'')],
          JObj [(''role'', JStr ''developer''), (''method'', JStr ''passkey'')],
          JObj [(''role'', JStr ''user''), (''method'', JStr ''magic_link'')]])]"

definition usePasswordlessConfig :: "'w demo_api" where
  "usePasswordlessConfig = demo_api_of True PasswordlessConfig_demo []"

definition PiplCompliance_demo :: jsv where
  "PiplCompliance_demo = JObj
      [(''compliance_status'', JStr ''Compliant''),
       (''data_handling_rules'', JObj
         [(''consent_required'', JBool True), (''data_minimization'', JBool True), (''purpose_limitation'', JBool True),
          (''cross_border_assessment'', JBool True)]),
       (''chinese_user_consent_log'', JArr
         [JObj
            [(''user'', JStr ''zhang.wei@ggid.cn''), (''purpose'', JStr ''Account creation''),
             (''timestamp'', JStr ''2d ago''), (''withdrawn'', JBool False)],
          JObj
            [(''user'', JStr ''li.ming@ggid.cn''), (''purpose'', JStr ''Marketing communications''),
             (''timestamp'', JStr ''5d ago''), (''withdrawn'', JBool False)],
          JObj
            [(''user'', JStr ''wang.fang@ggid.cn''), (''purpose'', JStr ''Data export''), (''timestamp'', JStr ''1w ago''),
             (''withdrawn'', JBool True)]]),
       (''data_protection_officer'', JObj [(''name'', JStr ''Chen Yu''), (''email'', JStr ''dpo@ggid.cn'')]),
       (''cross_border_transfer_applications'', JArr
         [JObj
            [(''applicant'', JStr ''Analytics Team''), (''data_type'', JStr ''User behavior data''),
             (''recipient_country'', JStr ''United States''), (''status'', JStr ''approved''),
             (''assessment_result'', JStr ''Passed security assessment'')],
          JObj
            [(''applicant'', JStr ''Support Team''), (''data_type'', JStr ''Support tickets''),
             (''recipient_country'', JStr ''Singapore''), (''status'', JStr ''pending''),
             (''assessment_result'', JStr ''Under review'')],
          JObj
            [(''applicant'', JStr ''Marketing''), (''data_type'', JStr ''Email addresses''),
             (''recipient_country'', JStr ''Ireland''), (''status'', JStr ''pending''),
             (''assessment_result'', JStr ''Awaiting documentation'')]]),
       (''data_retention_compliance'', JArr
         [JObj [(''data_category'', JStr ''Identity documents''), (''policy_days'', JNum 180), (''compliant'', JBool True)],
          JObj [(''data_category'', JStr ''Biometric data''), (''policy_days'', JNum 90), (''compliant'', JBool True)],
          JObj [(''data_category'', JStr ''Transaction records''), (''policy_days'', JNum 1825), (''compliant'', JBool True)],
          JObj [(''data_category'', JStr ''Marketing data''), (''policy_days'', JNum 365), (''compliant'', JBool False)]])]"

definition usePiplCompliance :: "'w demo_api" where
  "usePiplCompliance = demo_api_of True PiplCompliance_demo []"

definition PolicyApprovalWorkflowConfig_demo :: jsv where
  "PolicyApprovalWorkflowConfig_demo = JObj
      [(''pipeline'', JArr
         [JObj [(''name'', JStr ''Draft''), (''assignee'', JStr ''Requester''), (''enabled'', JBool True)],
          JObj [(''name'', JStr ''Review''), (''assignee'', JStr ''Security Team''), (''enabled'', JBool True)],
          JObj [(''name'', JStr ''Approve''), (''assignee'', JStr ''Policy Owner''), (''enabled'', JBool True)],
          JObj [(''name'', JStr ''Activate''), (''assignee'', JStr ''System''), (''enabled'', JBool True)]]),
       (''reviewers'', JArr
         [JObj [(''category'', JStr ''access_control''), (''reviewer'', JStr ''Alice (Security)'')],
          JObj [(''category'', JStr ''data_protection''), (''reviewer'', JStr ''Bob (DPO)'')],
          JObj [(''category'', JStr ''compliance''), (''reviewer'', JStr ''Carol (Compliance)'')]]),
       (''freeze_windows'', JArr
         [JObj [(''name'', JStr ''Year-end Freeze''), (''period'', JStr ''Dec 20 - Jan 5'')],
          JObj [(''name'', JStr ''Quarterly Freeze''), (''period'', JStr ''Last 3 days of quarter'')]]),
       (''sod_enforced'', JBool True), (''emergency_bypass_enabled'', JBool False)]"

definition usePolicyApprovalWorkflowConfig :: "'w demo_api" where
  "usePolicyApprovalWorkflowConfig = demo_api_of True PolicyApprovalWorkflowConfig_demo []"

definition PolicyBreakGlass_demo :: jsv where
  "PolicyBreakGlass_demo = JObj
      [(''break_glass_roles'', JArr
         [JObj
            [(''role'', JStr ''Emergency Admin''), (''justification_required'', JBool True),
             (''auto_expire_minutes'', JNum 30), (''notify_on_use'', JBool True)],
          JObj
            [(''role'', JStr ''Security Responder''), (''justification_required'', JBool True),
             (''auto_expire_minutes'', JNum 60), (''notify_on_use'', JBool True)],
          JObj
            [(''role'', JStr ''DevOps Emergency''), (''justification_required'', JBool False),
             (''auto_expire_minutes'', JNum 15), (''notify_on_use'', JBool False)]]),
       (''active_sessions'', JArr
         [JObj
            [(''id'', JStr ''bg-1''), (''user'', JStr ''alice.chen''), (''role'', JStr ''Emergency Admin''),
             (''expires_at'', JStr ''in 12m''), (''justification'', JStr ''Production DB outage - need admin to restart'')]]),
       (''usage_history'', JArr
         [JObj
            [(''user'', JStr ''alice.chen''), (''role'', JStr ''Emergency Admin''), (''timestamp'', JStr ''2h ago''),
             (''duration_minutes'', JNum 30), (''outcome'', JStr ''expired'')],
          JObj
            [(''user'', JStr ''bob.martinez''), (''role'', JStr ''Security Responder''), (''timestamp'', JStr ''1d ago''),
             (''duration_minutes'', JNum 45), (''outcome'', JStr ''revoked'')],
          JObj
            [(''user'', JStr ''carol.jones''), (''role'', JStr ''DevOps Emergency''), (''timestamp'', JStr ''3d ago''),
             (''duration_minutes'', JNum 15), (''outcome'', JStr ''completed'')],
          JObj
            [(''user'', JStr ''dave.wilson''), (''role'', JStr ''Emergency Admin''), (''timestamp'', JStr ''5d ago''),
             (''duration_minutes'', JNum 30), (''outcome'', JStr ''expired'')]]),
       (''cooldown_period_minutes'', JNum 60), (''max_concurrent'', JNum 2)]"

definition usePolicyBreakGlass :: "'w demo_api" where
  "usePolicyBreakGlass = demo_api_of False PolicyBreakGlass_demo [(''activateBreakGlass'', \<lambda>a. [JStr ''Activating break glass:'', arg a 0])]"

definition PolicyClauseLibrary_demo :: jsv where
  "PolicyClauseLibrary_demo = JObj
      [(''clauses'', JArr
         [JObj
            [(''clause_id'', JStr ''AC-001''), (''category'', JStr ''access_control''),
             (''text'', JStr ''Access to production systems requires MFA authentication.''),
             (''parameters'', JObj [(''mfa_type'', JStr ''webauthn'')]), (''version'', JStr ''2.1''),
             (''used_in_policies'', JArr [JStr ''prod-access'', JStr ''admin-access'']), (''status'', JStr ''active'')],
          JObj
            [(''clause_id'', JStr ''AC-002''), (''category'', JStr ''access_control''),
             (''text'', JStr ''Privileged accounts must be reviewed quarterly.''),
             (''parameters'', JObj [(''review_cycle'', JStr ''quarterly'')]), (''version'', JStr ''1.3''),
             (''used_in_policies'', JArr [JStr ''privilege-review'']), (''status'', JStr ''active'')],
          JObj
            [(''clause_id'', JStr ''DP-001''), (''category'', JStr ''data_protection''),
             (''text'', JStr ''PII data must be encrypted at rest using AES-256.''),
             (''parameters'', JObj [(''algorithm'', JStr ''AES-256-GCM'')]), (''version'', JStr ''3.0''),
             (''used_in_policies'', JArr [JStr ''pii-handling'', JStr ''data-classification'']),
             (''status'', JStr ''active'')],
          JObj
            [(''clause_id'', JStr ''DP-002''), (''category'', JStr ''data_protection''),
             (''text'', JStr ''Data retention period for audit logs is 7 years.''),
             (''parameters'', JObj [(''retention_years'', JStr ''7'')]), (''version'', JStr ''1.0''),
             (''used_in_policies'', JArr [JStr ''audit-retention'']), (''status'', JStr ''active'')],
          JObj
            [(''clause_id'', JStr ''AU-001''), (''category'', JStr ''audit''),
             (''text'', JStr ''All authentication events must be logged with timestamp, IP, and user agent.''),
             (''parameters'', JObj []), (''version'', JStr ''1.2''),
             (''used_in_policies'', JArr [JStr ''auth-audit'', JStr ''siem-forward'']), (''status'', JStr ''active'')],
          JObj
            [(''clause_id'', JStr ''AU-002''), (''category'', JStr ''audit''),
             (''text'', JStr ''Audit logs must be tamper-evident using hash chaining.''),
             (''parameters'', JObj [(''hash_algo'', JStr ''SHA-256'')]), (''version'', JStr ''2.0''),
             (''used_in_policies'', JArr [JStr ''audit-integrity'']), (''status'', JStr ''active'')],
          JObj
            [(''clause_id'', JStr ''CO-001''), (''category'', JStr ''compliance''),
             (''text'', JStr ''Access reviews must be completed within 30 days of trigger.''),
             (''parameters'', JObj [(''deadline_days'', JStr ''30'')]), (''version'', JStr ''1.1''),
             (''used_in_policies'', JArr [JStr ''access-review'', JStr ''soc2-audit'']), (''status'', JStr ''active'')],
          JObj
            [(''clause_id'', JStr ''CO-002''), (''category'', JStr ''compliance''),
             (''text'', JStr ''GDPR data subject requests must be processed within 30 days.''),
             (''parameters'', JObj [(''sla_days'', JStr ''30'')]), (''version'', JStr ''2.0''),
             (''used_in_policies'', JArr [JStr ''gdpr-dsr'']), (''status'', JStr ''active'')]])]"

definition usePolicyClauseLibrary :: "'w demo_api" where
  "usePolicyClauseLibrary = demo_api_of True PolicyClauseLibrary_demo []"

definition PolicyContextualConditions_demo :: jsv where
  "PolicyContextualConditions_demo = JObj
      [(''condition_categories'', JArr
         [JObj
            [(''name'', JStr ''time''),
             (''available_attributes'', JArr [JStr ''hour_of_day'', JStr ''day_of_week'', JStr ''is_holiday'', JStr ''timezone''])],
          JObj
            [(''name'', JStr ''geo''),
             (''available_attributes'', JArr [JStr ''country'', JStr ''region'', JStr ''city'', JStr ''ip_range'', JStr ''distance_from_usual''])],
          JObj
            [(''name'', JStr ''device''),
             (''available_attributes'', JArr [JStr ''device_type'', JStr ''os_version'', JStr ''browser'', JStr ''is_managed'', JStr ''attestation''])],
          JObj
            [(''name'', JStr ''network''),
             (''available_attributes'', JArr [JStr ''ip_address'', JStr ''asn'', JStr ''is_vpn'', JStr ''is_tor'', JStr ''cidr_block''])],
          JObj
            [(''name'', JStr ''risk''),
             (''available_attributes'', JArr [JStr ''risk_score'', JStr ''threat_level'', JStr ''anomaly_count'', JStr ''failed_attempts''])],
          JObj
            [(''name'', JStr ''behavioral''),
             (''available_attributes'', JArr [JStr ''login_velocity'', JStr ''access_pattern_deviation'', JStr ''typing_pattern_match''])]]),
       (''saved_condition_templates'', JArr
         [JObj
            [(''name'', JStr ''Business Hours Only''), (''categories'', JArr [JStr ''time'']),
             (''condition_summary'', JStr ''hour_of_day >= 8 AND hour_of_day <= 18 AND day_of_week in [Mon-Fri]''),
             (''usage_count'', JNum 12)],
          JObj
            [(''name'', JStr ''Corporate Network''), (''categories'', JArr [JStr ''network'']),
             (''condition_summary'', JStr ''cidr_block in [10.0.0.0/8, 172.16.0.0/12]''), (''usage_count'', JNum 8)],
          JObj
            [(''name'', JStr ''Low Risk + Managed Device''), (''categories'', JArr [JStr ''risk'', JStr ''device'']),
             (''condition_summary'', JStr ''risk_score < 30 AND is_managed = true''), (''usage_count'', JNum 5)]])]"

definition usePolicyContextualConditions :: "'w demo_api" where
  "usePolicyContextualConditions = demo_api_of False PolicyContextualConditions_demo [(''testEvaluation'', \<lambda>a. [JStr ''Testing condition evaluation''])]"

definition PolicyDecisionStats_demo :: jsv where
  "PolicyDecisionStats_demo = JObj
      [(''allow_count'', JNum 145200), (''deny_count'', JNum 8400), (''avg_eval_time_ms'', JNum 38),
       (''cache_hit_rate'', JNum 87),
       (''by_policy'', JArr
         [JObj [(''policy'', JStr ''admin-access''), (''allow'', JNum 1200), (''deny'', JNum 45)],
          JObj [(''policy'', JStr ''api-access''), (''allow'', JNum 89000), (''deny'', JNum 5200)],
          JObj [(''policy'', JStr ''data-access''), (''allow'', JNum 45000), (''deny'', JNum 2800)],
          JObj [(''policy'', JStr ''service-account''), (''allow'', JNum 10000), (''deny'', JNum 355)]]),
       (''by_resource_type'', JArr
         [JObj [(''type'', JStr ''API Endpoint''), (''pct'', JNum 55)],
          JObj [(''type'', JStr ''Database''), (''pct'', JNum 22)],
          JObj [(''type'', JStr ''Dashboard''), (''pct'', JNum 15)],
          JObj [(''type'', JStr ''File Storage''), (''pct'', JNum 8)]]),
       (''top_denied_actions'', JArr
         [JObj [(''action'', JStr ''admin:delete_user''), (''count'', JNum 1200)],
          JObj [(''action'', JStr ''data:export_pii''), (''count'', JNum 850)],
          JObj [(''action'', JStr ''config:modify''), (''count'', JNum 420)],
          JObj [(''action'', JStr ''policy:override''), (''count'', JNum 180)]])]"

definition usePolicyDecisionStats :: "'w demo_api" where
  "usePolicyDecisionStats = demo_api_of True PolicyDecisionStats_demo []"

definition PolicyDryRunHistory_demo :: jsv where
  "PolicyDryRunHistory_demo = JObj
      [(''history'', JArr
         [JObj
            [(''run_id'', JStr ''run-001''), (''policy'', JStr ''prod-access-mfa''), (''subject'', JStr ''alice.chen''),
             (''decision'', JStr ''allow''), (''executed_by'', JStr ''admin.bob''), (''timestamp'', JStr ''10m ago''),
             (''duration_ms'', JNum 12)],
          JObj
            [(''run_id'', JStr ''run-002''), (''policy'', JStr ''admin-ip-restriction''), (''subject'', JStr ''carol.jones''),
             (''decision'', JStr ''deny''), (''executed_by'', JStr ''admin.bob''), (''timestamp'', JStr ''30m ago''),
             (''duration_ms'', JNum 8)],
          JObj
            [(''run_id'', JStr ''run-003''), (''policy'', JStr ''weekend-block''), (''subject'', JStr ''dave.wilson''),
             (''decision'', JStr ''deny''), (''executed_by'', JStr ''system.test''), (''timestamp'', JStr ''1h ago''),
             (''duration_ms'', JNum 15)],
          JObj
            [(''run_id'', JStr ''run-004''), (''policy'', JStr ''data-export-stepup''), (''subject'', JStr ''eve.brown''),
             (''decision'', JStr ''allow''), (''executed_by'', JStr ''eve.brown''), (''timestamp'', JStr ''2h ago''),
             (''duration_ms'', JNum 10)],
          JObj
            [(''run_id'', JStr ''run-005''), (''policy'', JStr ''geo-fencing''), (''subject'', JStr ''frank.lee''),
             (''decision'', JStr ''not_applicable''), (''executed_by'', JStr ''admin.bob''), (''timestamp'', JStr ''3h ago''),
             (''duration_ms'', JNum 6)],
          JObj
            [(''run_id'', JStr ''run-006''), (''policy'', JStr ''prod-access-mfa''), (''subject'', JStr ''grace.kim''),
             (''decision'', JStr ''allow''), (''executed_by'', JStr ''grace.kim''), (''timestamp'', JStr ''4h ago''),
             (''duration_ms'', JNum 11)]]),
       (''saved_run_templates'', JArr
         [JStr ''Admin access test'',
          JStr ''Weekend policy test'',
          JStr ''Geo-fence validation'',
          JStr ''MFA enforcement check''])]"

definition usePolicyDryRunHistory :: "'w demo_api" where
  "usePolicyDryRunHistory = demo_api_of False PolicyDryRunHistory_demo [(''replayRun'', \<lambda>a. [JStr ''Replaying run:'', arg a 0])]"

definition PolicyEmergencyChanges_demo :: jsv where
  "PolicyEmergencyChanges_demo = JObj
      [(''active_emergencies'', JArr
         [JObj
            [(''policy'', JStr ''policy-prod-access''), (''change_type'', JStr ''bypass_mfa''),
             (''approved_by'', JStr ''CISO + CTO''), (''effective_at'', JStr ''10m ago''),
             (''expires_at'', JStr ''in 3h 50m''), (''time_remaining'', JStr ''3h 50m''), (''time_remaining_pct'', JNum 95)]]),
       (''post_incident_review_required'', JBool True),
       (''emergency_history'', JArr
         [JObj
            [(''id'', JStr ''em-004''), (''policy'', JStr ''policy-admin-webauthn''),
             (''change_type'', JStr ''temporary_disable''), (''approved_by'', JStr ''Security Lead''),
             (''timestamp'', JStr ''2d ago''), (''outcome'', JStr ''reverted'')],
          JObj
            [(''id'', JStr ''em-003''), (''policy'', JStr ''policy-ip-restrict''), (''change_type'', JStr ''add_ip_range''),
             (''approved_by'', JStr ''CISO + CTO''), (''timestamp'', JStr ''1w ago''), (''outcome'', JStr ''reverted'')],
          JObj
            [(''id'', JStr ''em-002''), (''policy'', JStr ''policy-rate-limit''), (''change_type'', JStr ''increase_limit''),
             (''approved_by'', JStr ''On-call Admin''), (''timestamp'', JStr ''2w ago''), (''outcome'', JStr ''expired'')],
          JObj
            [(''id'', JStr ''em-001''), (''policy'', JStr ''policy-geo-fence''), (''change_type'', JStr ''add_country''),
             (''approved_by'', JStr ''Security Lead''), (''timestamp'', JStr ''3w ago''), (''outcome'', JStr ''reverted'')]])]"

definition usePolicyEmergencyChanges :: "'w demo_api" where
  "usePolicyEmergencyChanges = demo_api_of False PolicyEmergencyChanges_demo [(''requestEmergency'', \<lambda>a. [JStr ''Requesting emergency change''])]"

definition PolicyEvalTimeline_demo :: jsv where
  "PolicyEvalTimeline_demo = JObj
      [(''evaluations'', JArr
         [JObj
            [(''policy'', JStr ''admin-access-policy''), (''total_eval_time_ms'', JNum 42), (''cache_hit'', JBool True),
             (''decision'', JStr ''allow''),
             (''steps'', JArr
               [JObj
                  [(''name'', JStr ''Request Received''), (''description'', JStr ''HTTP request parsed, subject extracted''),
                   (''latency_ms'', JNum 2)],
                JObj
                  [(''name'', JStr ''Context Resolve''), (''description'', JStr ''User/resource/env attributes fetched''),
                   (''latency_ms'', JNum 8)],
                JObj
                  [(''name'', JStr ''Rule Match''), (''description'', JStr ''3 rules evaluated against context''),
                   (''latency_ms'', JNum 15)],
                JObj
                  [(''name'', JStr ''Decision''), (''description'', JStr ''Policy decision: allow''),
                   (''latency_ms'', JNum 5)],
                JObj
                  [(''name'', JStr ''Response''), (''description'', JStr ''Decision serialized and returned''),
                   (''latency_ms'', JNum 12)]]),
             (''matched_rules'', JArr
               [JObj
                  [(''rule_id'', JStr ''R001''),
                   (''condition'', JStr ''subject.role == admin AND resource.type == dashboard''), (''matched'', JBool True)],
                JObj
                  [(''rule_id'', JStr ''R002''), (''condition'', JStr ''time.in_business_hours()''),
                   (''matched'', JBool True)],
                JObj
                  [(''rule_id'', JStr ''R003''), (''condition'', JStr ''device.trust_level >= medium''),
                   (''matched'', JBool False)]])],
          JObj
            [(''policy'', JStr ''api-access-policy''), (''total_eval_time_ms'', JNum 128), (''cache_hit'', JBool False),
             (''decision'', JStr ''deny''),
             (''steps'', JArr
               [JObj
                  [(''name'', JStr ''Request Received''), (''description'', JStr ''HTTP request parsed''),
                   (''latency_ms'', JNum 3)],
                JObj
                  [(''name'', JStr ''Context Resolve''), (''description'', JStr ''Attributes fetched from DB (cache miss)''),
                   (''latency_ms'', JNum 65)],
                JObj [(''name'', JStr ''Rule Match''), (''description'', JStr ''5 rules evaluated''), (''latency_ms'', JNum 35)],
                JObj [(''name'', JStr ''Decision''), (''description'', JStr ''Policy decision: deny''), (''latency_ms'', JNum 5)],
                JObj [(''name'', JStr ''Response''), (''description'', JStr ''403 returned''), (''latency_ms'', JNum 20)]]),
             (''matched_rules'', JArr
               [JObj
                  [(''rule_id'', JStr ''R010''), (''condition'', JStr ''scope includes read:api''),
                   (''matched'', JBool False)]])]])]"

definition usePolicyEvalTimeline :: "'w demo_api" where
  "usePolicyEvalTimeline = demo_api_of True PolicyEvalTimeline_demo []"

definition PolicyGovernanceWorkflow_demo :: jsv where
  "PolicyGovernanceWorkflow_demo = JObj
      [(''policy_change_pipeline'', JArr
         [JObj [(''stage'', JStr ''draft''), (''count'', JNum 5), (''status'', JStr ''idle'')],
          JObj [(''stage'', JStr ''review''), (''count'', JNum 3), (''status'', JStr ''active'')],
          JObj [(''stage'', JStr ''approve''), (''count'', JNum 2), (''status'', JStr ''idle'')],
          JObj [(''stage'', JStr ''activate''), (''count'', JNum 0), (''status'', JStr ''idle'')]]),
       (''reviewer_assignment'', JArr
         [JObj [(''category'', JStr ''security''), (''reviewers'', JArr [JStr ''security_team'', JStr ''ciso''])],
          JObj [(''category'', JStr ''compliance''), (''reviewers'', JArr [JStr ''compliance_team'', JStr ''legal''])],
          JObj [(''category'', JStr ''access''), (''reviewers'', JArr [JStr ''platform_admin'', JStr ''security_team''])],
          JObj [(''category'', JStr ''infrastructure''), (''reviewers'', JArr [JStr ''devops_lead''])]]),
       (''change_freeze_windows'', JArr
         [JObj
            [(''name'', JStr ''Holiday Freeze''), (''start'', JStr ''2026-12-20''), (''end'', JStr ''2027-01-05''),
             (''reason'', JStr ''Holiday change freeze''), (''active'', JBool False)],
          JObj
            [(''name'', JStr ''Maintenance Window''), (''start'', JStr ''2026-01-15 02:00''),
             (''end'', JStr ''2026-01-15 06:00''), (''reason'', JStr ''Quarterly maintenance''), (''active'', JBool True)]]),
       (''emergency_bypass'', JObj [(''allowed'', JBool True), (''requires_approval'', JBool True), (''approvers'', JArr [JStr ''ciso'', JStr ''cto''])]),
       (''segregation_of_duties'', JObj
         [(''enforced'', JBool True),
          (''description'', JStr ''The person who drafts a policy change cannot be the same person who approves it.'')]),
       (''governance_audit_trail'', JArr
         [JObj
            [(''policy_name'', JStr ''MFA for Admin API''), (''action'', JStr ''approved''),
             (''actor'', JStr ''security_team''), (''timestamp'', JStr ''2h ago'')],
          JObj
            [(''policy_name'', JStr ''Session Timeout Policy''), (''action'', JStr ''submitted''),
             (''actor'', JStr ''platform_admin''), (''timestamp'', JStr ''5h ago'')],
          JObj
            [(''policy_name'', JStr ''IP Allowlist Finance''), (''action'', JStr ''rejected''), (''actor'', JStr ''ciso''),
             (''timestamp'', JStr ''1d ago'')],
          JObj
            [(''policy_name'', JStr ''OAuth Scope Restriction''), (''action'', JStr ''drafted''),
             (''actor'', JStr ''dev_team''), (''timestamp'', JStr ''2d ago'')],
          JObj
            [(''policy_name'', JStr ''Password Policy Update''), (''action'', JStr ''approved''),
             (''actor'', JStr ''compliance_team''), (''timestamp'', JStr ''3d ago'')]])]"

definition usePolicyGovernanceWorkflow :: "'w demo_api" where
  "usePolicyGovernanceWorkflow = demo_api_of True PolicyGovernanceWorkflow_demo []"

definition PolicyImportExport_demo :: jsv where
  "PolicyImportExport_demo = JObj
      [(''total_policies'', JNum 48),
       (''import_log'', JObj [(''imported'', JNum 12), (''skipped'', JNum 3), (''errored'', JNum 1)]),
       (''template_gallery'', JArr
         [JObj
            [(''name'', JStr ''RBAC Starter Pack''), (''description'', JStr ''Basic role-based access control policies''),
             (''compatible'', JBool True)],
          JObj
            [(''name'', JStr ''Zero Trust Template''), (''description'', JStr ''Default-deny with explicit allow rules''),
             (''compatible'', JBool True)],
          JObj
            [(''name'', JStr ''SOC2 Compliance Set''), (''description'', JStr ''Policies mapped to SOC2 controls''),
             (''compatible'', JBool True)],
          JObj
            [(''name'', JStr ''Legacy v1.x Export''), (''description'', JStr ''Import from GGID v1.x''),
             (''compatible'', JBool False)]])]"

definition usePolicyImportExport :: "'w demo_api" where
  "usePolicyImportExport = demo_api_of True PolicyImportExport_demo []"

definition PolicyLifecycleDashboard_demo :: jsv where
  "PolicyLifecycleDashboard_demo = JObj
      [(''policies_by_status'', JObj [(''draft'', JNum 8), (''active'', JNum 42), (''quarantined'', JNum 3), (''deprecated'', JNum 12)]),
       (''approval_pipeline'', JObj [(''submitted'', JNum 5), (''reviewing'', JNum 3), (''approved'', JNum 2), (''active'', JNum 42)]),
       (''avg_approval_time_hours'', JNum 36),
       (''recent_changes'', JArr
         [JObj
            [(''policy_name'', JStr ''MFA Required for Admin API''), (''action'', JStr ''activated''),
             (''author'', JStr ''security_team''), (''timestamp'', JStr ''2h ago'')],
          JObj
            [(''policy_name'', JStr ''Session Timeout Policy''), (''action'', JStr ''updated''),
             (''author'', JStr ''platform_admin''), (''timestamp'', JStr ''5h ago'')],
          JObj
            [(''policy_name'', JStr ''IP Allowlist for Finance''), (''action'', JStr ''quarantined''),
             (''author'', JStr ''compliance''), (''timestamp'', JStr ''1d ago'')],
          JObj
            [(''policy_name'', JStr ''OAuth Scope Restriction''), (''action'', JStr ''drafted''),
             (''author'', JStr ''dev_team''), (''timestamp'', JStr ''2d ago'')]]),
       (''rollback_count'', JNum 2),
       (''policy_age_histogram'', JArr
         [JObj [(''range'', JStr ''<7d''), (''count'', JNum 6)],
          JObj [(''range'', JStr ''1-4w''), (''count'', JNum 15)],
          JObj [(''range'', JStr ''1-3m''), (''count'', JNum 22)],
          JObj [(''range'', JStr ''3-6m''), (''count'', JNum 12)],
          JObj [(''range'', JStr ''6m+''), (''count'', JNum 10)]])]"

definition usePolicyLifecycleDashboard :: "'w demo_api" where
  "usePolicyLifecycleDashboard = demo_api_of True PolicyLifecycleDashboard_demo []"

definition PolicySoDConfig_demo :: jsv where
  "PolicySoDConfig_demo = JObj
      [(''conflicting_roles'', JArr
         [JObj
            [(''role_a'', JStr ''Payment Initiator''), (''role_b'', JStr ''Payment Approver''),
             (''conflict_type'', JStr ''approval'')],
          JObj
            [(''role_a'', JStr ''User Creator''), (''role_b'', JStr ''Access Assigner''),
             (''conflict_type'', JStr ''creation'')],
          JObj [(''role_a'', JStr ''Admin''), (''role_b'', JStr ''Audit Reviewer''), (''conflict_type'', JStr ''access'')],
          JObj
            [(''role_a'', JStr ''Config Editor''), (''role_b'', JStr ''Config Deployer''),
             (''conflict_type'', JStr ''approval'')]]),
       (''sod_violations'', JArr
         [JObj
            [(''user'', JStr ''alice.chen''),
             (''conflicting_roles'', JArr [JStr ''Payment Initiator'', JStr ''Payment Approver'']),
             (''detected_at'', JStr ''2h ago''), (''action_required'', JStr ''immediate'')],
          JObj
            [(''user'', JStr ''bob.martinez''), (''conflicting_roles'', JArr [JStr ''Admin'', JStr ''Audit Reviewer'']),
             (''detected_at'', JStr ''1d ago''), (''action_required'', JStr ''review'')]]),
       (''auto_enforce'', JBool False), (''bypass_requires_c_level'', JBool True)]"

definition usePolicySoDConfig :: "'w demo_api" where
  "usePolicySoDConfig = demo_api_of True PolicySoDConfig_demo []"

definition PolicyTagging_demo :: jsv where
  "PolicyTagging_demo = JObj
      [(''tag_taxonomy'', JArr
         [JObj [(''name'', JStr ''security''), (''category'', JStr ''category''), (''usage_count'', JNum 28)],
          JObj [(''name'', JStr ''authentication''), (''category'', JStr ''category''), (''usage_count'', JNum 22)],
          JObj [(''name'', JStr ''access-control''), (''category'', JStr ''category''), (''usage_count'', JNum 18)],
          JObj [(''name'', JStr ''dev''), (''category'', JStr ''env''), (''usage_count'', JNum 12)],
          JObj [(''name'', JStr ''staging''), (''category'', JStr ''env''), (''usage_count'', JNum 8)],
          JObj [(''name'', JStr ''prod''), (''category'', JStr ''env''), (''usage_count'', JNum 15)],
          JObj [(''name'', JStr ''SOC2''), (''category'', JStr ''compliance''), (''usage_count'', JNum 9)],
          JObj [(''name'', JStr ''GDPR''), (''category'', JStr ''compliance''), (''usage_count'', JNum 7)],
          JObj [(''name'', JStr ''HIPAA''), (''category'', JStr ''compliance''), (''usage_count'', JNum 4)],
          JObj [(''name'', JStr ''legacy''), (''category'', JStr ''custom''), (''usage_count'', JNum 3)]]),
       (''tagged_policies'', JArr
         [JObj
            [(''policy_id'', JStr ''pol-001''), (''policy_name'', JStr ''MFA Required for Admin API''),
             (''status'', JStr ''active''),
             (''tags'', JArr [JStr ''security'', JStr ''authentication'', JStr ''prod'', JStr ''SOC2''])],
          JObj
            [(''policy_id'', JStr ''pol-002''), (''policy_name'', JStr ''Session Timeout 15min''),
             (''status'', JStr ''active''), (''tags'', JArr [JStr ''security'', JStr ''prod''])],
          JObj
            [(''policy_id'', JStr ''pol-003''), (''policy_name'', JStr ''Dev Environment Access''),
             (''status'', JStr ''active''), (''tags'', JArr [JStr ''access-control'', JStr ''dev''])],
          JObj
            [(''policy_id'', JStr ''pol-004''), (''policy_name'', JStr ''GDPR Data Retention''),
             (''status'', JStr ''active''), (''tags'', JArr [JStr ''compliance'', JStr ''GDPR'', JStr ''prod''])],
          JObj
            [(''policy_id'', JStr ''pol-005''), (''policy_name'', JStr ''HIPAA Audit Logging''),
             (''status'', JStr ''active''), (''tags'', JArr [JStr ''compliance'', JStr ''HIPAA'', JStr ''prod''])],
          JObj
            [(''policy_id'', JStr ''pol-006''), (''policy_name'', JStr ''Legacy Auth Fallback''),
             (''status'', JStr ''deprecated''), (''tags'', JArr [JStr ''authentication'', JStr ''legacy''])],
          JObj
            [(''policy_id'', JStr ''pol-007''), (''policy_name'', JStr ''Staging IP Allowlist''),
             (''status'', JStr ''active''), (''tags'', JArr [JStr ''access-control'', JStr ''staging''])],
          JObj
            [(''policy_id'', JStr ''pol-008''), (''policy_name'', JStr ''SOC2 Access Review''), (''status'', JStr ''draft''),
             (''tags'', JArr [JStr ''compliance'', JStr ''SOC2''])]]),
       (''auto_tag_rules'', JArr
         [JObj
            [(''id'', JStr ''rule-1''), (''name'', JStr ''Tag prod policies''), (''condition'', JStr ''environment = prod''),
             (''applied_tags'', JArr [JStr ''prod'']), (''enabled'', JBool True)],
          JObj
            [(''id'', JStr ''rule-2''), (''name'', JStr ''Tag MFA policies as security''),
             (''condition'', JStr ''action CONTAINS mfa''),
             (''applied_tags'', JArr [JStr ''security'', JStr ''authentication'']), (''enabled'', JBool True)],
          JObj
            [(''id'', JStr ''rule-3''), (''name'', JStr ''Tag compliance policies''),
             (''condition'', JStr ''framework IS NOT NULL''), (''applied_tags'', JArr [JStr ''compliance'']),
             (''enabled'', JBool True)],
          JObj
            [(''id'', JStr ''rule-4''), (''name'', JStr ''Tag deprecated as legacy''),
             (''condition'', JStr ''status = deprecated''), (''applied_tags'', JArr [JStr ''legacy'']),
             (''enabled'', JBool False)]])]"

definition usePolicyTagging :: "'w demo_api" where
  "usePolicyTagging = demo_api_of True PolicyTagging_demo []"

definition PolicyVisualEditor_demo :: jsv where
  "PolicyVisualEditor_demo = JObj
      [(''nodes'', JArr
         [JObj
            [(''id'', JStr ''s1''), (''type'', JStr ''subject''), (''label'', JStr ''Role: Developer''),
             (''properties'', JObj [(''role'', JStr ''developer''), (''source'', JStr ''any'')])],
          JObj
            [(''id'', JStr ''s2''), (''type'', JStr ''subject''), (''label'', JStr ''Role: Admin''),
             (''properties'', JObj [(''role'', JStr ''admin''), (''source'', JStr ''corporate'')])],
          JObj
            [(''id'', JStr ''c1''), (''type'', JStr ''condition''), (''label'', JStr ''Business Hours''),
             (''properties'', JObj [(''time'', JStr ''08:00-18:00''), (''days'', JStr ''Mon-Fri''), (''tz'', JStr ''UTC'')])],
          JObj
            [(''id'', JStr ''c2''), (''type'', JStr ''condition''), (''label'', JStr ''IP in Corporate Range''),
             (''properties'', JObj [(''cidr'', JStr ''10.0.0.0/8'')])],
          JObj
            [(''id'', JStr ''a1''), (''type'', JStr ''action''), (''label'', JStr ''Allow Access''),
             (''properties'', JObj [(''decision'', JStr ''allow''), (''mfa'', JStr ''not_required'')])],
          JObj
            [(''id'', JStr ''a2''), (''type'', JStr ''action''), (''label'', JStr ''Require MFA''),
             (''properties'', JObj [(''decision'', JStr ''allow''), (''mfa'', JStr ''required''), (''step_up'', JStr ''webauthn'')])]]),
       (''template_gallery'', JArr
         [JObj [(''name'', JStr ''MFA for Admins''), (''description'', JStr ''Require WebAuthn for admin role'')],
          JObj [(''name'', JStr ''Business Hours Only''), (''description'', JStr ''Block access outside working hours'')],
          JObj [(''name'', JStr ''Corporate Network''), (''description'', JStr ''Require corporate IP'')],
          JObj [(''name'', JStr ''Geo-Fenced Access''), (''description'', JStr ''Restrict by country'')]])]"

definition usePolicyVisualEditor :: "'w demo_api" where
  "usePolicyVisualEditor = demo_api_of False PolicyVisualEditor_demo [(''validateFlow'', \<lambda>a. [JStr ''Validating policy flow''])]"

definition RemediationTracker_demo :: jsv where
  "RemediationTracker_demo = JObj
      [(''remediation_items'', JArr
         [JObj
            [(''source'', JStr ''vuln''), (''finding'', JStr ''CVE-2024-1234: RCE in openssl''),
             (''severity'', JStr ''critical''), (''assignee'', JStr ''infra-team''), (''due_date'', JStr ''2024-03-15''),
             (''status'', JStr ''in_progress''), (''progress_pct'', JNum 60)],
          JObj
            [(''source'', JStr ''pentest''), (''finding'', JStr ''SSRF in webhook delivery''), (''severity'', JStr ''high''),
             (''assignee'', JStr ''backend-team''), (''due_date'', JStr ''2024-03-12''), (''status'', JStr ''overdue''),
             (''progress_pct'', JNum 30)],
          JObj
            [(''source'', JStr ''audit''), (''finding'', JStr ''Missing access review documentation''),
             (''severity'', JStr ''medium''), (''assignee'', JStr ''sec-ops''), (''due_date'', JStr ''2024-03-20''),
             (''status'', JStr ''in_progress''), (''progress_pct'', JNum 45)],
          JObj
            [(''source'', JStr ''compliance''), (''finding'', JStr ''PCI-DSS Req 8.3 MFA enforcement''),
             (''severity'', JStr ''high''), (''assignee'', JStr ''identity-team''), (''due_date'', JStr ''2024-03-08''),
             (''status'', JStr ''completed''), (''progress_pct'', JNum 100)],
          JObj
            [(''source'', JStr ''vuln''), (''finding'', JStr ''CVE-2024-9012: Info disclosure''),
             (''severity'', JStr ''medium''), (''assignee'', JStr ''backend-team''), (''due_date'', JStr ''2024-04-01''),
             (''status'', JStr ''open''), (''progress_pct'', JNum 0)]]),
       (''overdue_alerts'', JArr
         [JObj
            [(''finding_id'', JStr ''PENT-005''), (''source'', JStr ''pentest''), (''days_overdue'', JNum 5),
             (''assignee'', JStr ''backend-team'')]]),
       (''completion_rate_pct'', JNum 20),
       (''per_team_breakdown'', JArr
         [JObj [(''team'', JStr ''infra''), (''total'', JNum 1), (''completed'', JNum 0)],
          JObj [(''team'', JStr ''backend''), (''total'', JNum 2), (''completed'', JNum 0)],
          JObj [(''team'', JStr ''sec-ops''), (''total'', JNum 1), (''completed'', JNum 0)],
          JObj [(''team'', JStr ''identity''), (''total'', JNum 1), (''completed'', JNum 1)]])]"

definition useRemediationTracker :: "'w demo_api" where
  "useRemediationTracker = demo_api_of True RemediationTracker_demo []"

definition RoleMiningResults_demo :: jsv where
  "RoleMiningResults_demo = JObj
      [(''creep_score'', JNum 62),
       (''unused_permissions'', JArr
         [JObj [(''permission'', JStr ''admin:billing:read''), (''user'', JStr ''user_js''), (''last_used_days'', JNum 120)],
          JObj [(''permission'', JStr ''data:export:pii''), (''user'', JStr ''user_mk''), (''last_used_days'', JNum 95)],
          JObj [(''permission'', JStr ''config:ssl:modify''), (''user'', JStr ''user_al''), (''last_used_days'', JNum 200)]]),
       (''suggested_consolidation'', JArr
         [JObj
            [(''merge_target'', JStr ''developer-fullstack''),
             (''roles_to_merge'', JArr [JStr ''dev-frontend'', JStr ''dev-backend'', JStr ''dev-infra'']),
             (''reduction_benefit'', JNum 28)],
          JObj
            [(''merge_target'', JStr ''analyst-readonly''),
             (''roles_to_merge'', JArr [JStr ''data-viewer'', JStr ''report-reader'']), (''reduction_benefit'', JNum 15)]]),
       (''over_assigned'', JArr
         [JObj [(''user'', JStr ''user_jd''), (''role'', JStr ''admin''), (''excess_permissions'', JNum 8)],
          JObj [(''user'', JStr ''user_sm''), (''role'', JStr ''developer''), (''excess_permissions'', JNum 3)]])]"

definition useRoleMiningResults :: "'w demo_api" where
  "useRoleMiningResults = demo_api_of True RoleMiningResults_demo []"

definition SamlIdpInitiatedSSO_demo :: jsv where
  "SamlIdpInitiatedSSO_demo = JObj
      [(''allowed_idps'', JArr
         [JObj
            [(''entity_id'', JStr ''https://idp.univ.edu/idp''), (''provider_name'', JStr ''University IdP''),
             (''status'', JStr ''active''), (''idp_initiated_enabled'', JBool False)],
          JObj
            [(''entity_id'', JStr ''https://corp.okta.com''), (''provider_name'', JStr ''Okta Corporate''),
             (''status'', JStr ''active''), (''idp_initiated_enabled'', JBool False)],
          JObj
            [(''entity_id'', JStr ''https://ad.corp.local''), (''provider_name'', JStr ''Active Directory FS''),
             (''status'', JStr ''pending''), (''idp_initiated_enabled'', JBool False)]]),
       (''relay_state_config'', JStr ''sp:app1.home''),
       (''sso_url_preview'', JStr ''https://idp.example.com/idp/profile/SAML2/Unsolicited/SSO?providerId=https://sp.example.com''),
       (''session_bridge'', JObj
         [(''create_local_session'', JBool True),
          (''map_attributes'', JArr [JStr ''email'', JStr ''displayname'', JStr ''groups'', JStr ''uid''])]),
       (''security_warnings'', JArr
         [JStr ''IdP-initiated SSO can be exploited if RelayState is not validated.'',
          JStr ''Ensure all IdP entity IDs are explicitly allowlisted.'',
          JStr ''Consider requiring reauthentication for sensitive applications.''])]"

definition useSamlIdpInitiatedSSO :: "'w demo_api" where
  "useSamlIdpInitiatedSSO = demo_api_of False SamlIdpInitiatedSSO_demo [(''testSso'', \<lambda>a. [JStr ''Testing IdP-initiated SSO''])]"

definition ScimErrorRecovery_demo :: jsv where
  "ScimErrorRecovery_demo = JObj
      [(''error_queue'', JArr
         [JObj
            [(''id'', JStr ''e1''), (''timestamp'', JStr ''5m ago''), (''operation'', JStr ''User.Create''),
             (''target_app'', JStr ''Salesforce''), (''error_type'', JStr ''duplicate_value''), (''retry_count'', JNum 2),
             (''status'', JStr ''retrying'')],
          JObj
            [(''id'', JStr ''e2''), (''timestamp'', JStr ''15m ago''), (''operation'', JStr ''Group.Update''),
             (''target_app'', JStr ''Slack''), (''error_type'', JStr ''rate_limit_exceeded''), (''retry_count'', JNum 1),
             (''status'', JStr ''pending'')],
          JObj
            [(''id'', JStr ''e3''), (''timestamp'', JStr ''1h ago''), (''operation'', JStr ''User.Deactivate''),
             (''target_app'', JStr ''Google Workspace''), (''error_type'', JStr ''permission_denied''),
             (''retry_count'', JNum 5), (''status'', JStr ''failed'')],
          JObj
            [(''id'', JStr ''e4''), (''timestamp'', JStr ''2h ago''), (''operation'', JStr ''User.Update''),
             (''target_app'', JStr ''Slack''), (''error_type'', JStr ''resource_not_found''), (''retry_count'', JNum 3),
             (''status'', JStr ''resolved'')]]),
       (''error_patterns'', JArr
         [JObj [(''error_type'', JStr ''rate_limit_exceeded''), (''count'', JNum 45)],
          JObj [(''error_type'', JStr ''duplicate_value''), (''count'', JNum 23)],
          JObj [(''error_type'', JStr ''permission_denied''), (''count'', JNum 12)]]),
       (''auto_retry_config'', JObj [(''max_retries'', JNum 5), (''backoff_seconds'', JNum 30), (''manual_override'', JBool True)])]"

definition useScimErrorRecovery :: "'w demo_api" where
  "useScimErrorRecovery = demo_api_of False ScimErrorRecovery_demo [(''retryError'', \<lambda>a. [JStr ''Retrying'', arg a 0]),
     (''bulkRetry'', \<lambda>a. [JStr ''Bulk retry''])]"

definition ScimGroupMappingConfig_demo :: jsv where
  "ScimGroupMappingConfig_demo = JObj
      [(''mappings'', JArr
         [JObj
            [(''id'', JStr ''s1''), (''external_group'', JStr ''Azure-Admin''), (''local_role'', JStr ''admin''),
             (''auto_provision'', JBool False), (''sync_direction'', JStr ''bidirectional'')],
          JObj
            [(''id'', JStr ''s2''), (''external_group'', JStr ''GitHub-Devs''), (''local_role'', JStr ''developer''),
             (''auto_provision'', JBool False), (''sync_direction'', JStr ''inbound'')],
          JObj
            [(''id'', JStr ''s3''), (''external_group'', JStr ''Okta-Readonly''), (''local_role'', JStr ''viewer''),
             (''auto_provision'', JBool False), (''sync_direction'', JStr ''inbound'')]]),
       (''per_app'', JArr
         [JObj [(''app'', JStr ''Slack''), (''mapping_count'', JNum 3)],
          JObj [(''app'', JStr ''Jira''), (''mapping_count'', JNum 2)],
          JObj [(''app'', JStr ''GitHub''), (''mapping_count'', JNum 5)]]),
       (''last_sync'', JObj
         [(''status'', JStr ''success''), (''synced_at'', JStr ''5m ago''), (''added'', JNum 2), (''removed'', JNum 0),
          (''errors'', JNum 0)])]"

definition useScimGroupMappingConfig :: "'w demo_api" where
  "useScimGroupMappingConfig = demo_api_of True ScimGroupMappingConfig_demo []"

definition SecurityKPITracker_demo :: jsv where
  "SecurityKPITracker_demo = JObj
      [(''kpi_definitions'', JArr
         [JObj
            [(''name'', JStr ''Critical vuln remediation SLA''), (''target'', JNum 7), (''current'', JNum 5),
             (''unit'', JStr ''days''), (''trend'', JStr ''down''), (''owner'', JStr ''sec-ops'')],
          JObj
            [(''name'', JStr ''Phishing simulation click rate''), (''target'', JNum 5), (''current'', JNum 3),
             (''unit'', JStr ''%''), (''trend'', JStr ''down''), (''owner'', JStr ''sec-awareness'')],
          JObj
            [(''name'', JStr ''MFA enrollment''), (''target'', JNum 100), (''current'', JNum 94), (''unit'', JStr ''%''),
             (''trend'', JStr ''up''), (''owner'', JStr ''identity-team'')],
          JObj
            [(''name'', JStr ''Patch lead time''), (''target'', JNum 14), (''current'', JNum 18), (''unit'', JStr ''days''),
             (''trend'', JStr ''up''), (''owner'', JStr ''infra'')],
          JObj
            [(''name'', JStr ''Security training completion''), (''target'', JNum 90), (''current'', JNum 87),
             (''unit'', JStr ''%''), (''trend'', JStr ''up''), (''owner'', JStr ''hr-sec'')]]),
       (''monthly_history'', JArr
         [JObj [(''month'', JStr ''Jul''), (''value'', JNum 72)],
          JObj [(''month'', JStr ''Aug''), (''value'', JNum 75)],
          JObj [(''month'', JStr ''Sep''), (''value'', JNum 73)],
          JObj [(''month'', JStr ''Oct''), (''value'', JNum 78)],
          JObj [(''month'', JStr ''Nov''), (''value'', JNum 80)],
          JObj [(''month'', JStr ''Dec''), (''value'', JNum 82)]]),
       (''alert_thresholds'', JArr
         [JObj [(''kpi'', JStr ''Patch lead time''), (''threshold'', JStr ''14d''), (''triggered'', JBool True)],
          JObj [(''kpi'', JStr ''MFA enrollment''), (''threshold'', JStr ''95%''), (''triggered'', JBool False)],
          JObj [(''kpi'', JStr ''Critical vuln SLA''), (''threshold'', JStr ''7d''), (''triggered'', JBool False)]])]"

definition useSecurityKPITracker :: "'w demo_api" where
  "useSecurityKPITracker = demo_api_of True SecurityKPITracker_demo []"

definition SecurityMetricsDash_demo :: jsv where
  "SecurityMetricsDash_demo = JObj
      [(''mttd_minutes'', JNum 8), (''mttr_hours'', JNum 4), (''open_vulns'', JNum 23), (''patch_compliance_pct'', JNum 94),
       (''incidents_30d'', JArr
         [JNum 2,
          JNum 1,
          JNum 3,
          JNum 0,
          JNum 1,
          JNum 2,
          JNum 4,
          JNum 1,
          JNum 0,
          JNum 2,
          JNum 1,
          JNum 3,
          JNum 2,
          JNum 0,
          JNum 1,
          JNum 2,
          JNum 1,
          JNum 0,
          JNum 1,
          JNum 3,
          JNum 2,
          JNum 1,
          JNum 0,
          JNum 1,
          JNum 2,
          JNum 1,
          JNum 3,
          JNum 0,
          JNum 1,
          JNum 2]),
       (''sla_breaches'', JNum 3),
       (''top_10_risks'', JArr
         [JObj
            [(''risk'', JStr ''Missing mTLS between services''), (''category'', JStr ''Infrastructure''), (''score'', JNum 9),
             (''status'', JStr ''mitigated'')],
          JObj
            [(''risk'', JStr ''OAuth introspection no auth''), (''category'', JStr ''Access Control''), (''score'', JNum 8),
             (''status'', JStr ''open'')],
          JObj
            [(''risk'', JStr ''Webhook SSRF exposure''), (''category'', JStr ''Data Protection''), (''score'', JNum 7),
             (''status'', JStr ''mitigated'')],
          JObj
            [(''risk'', JStr ''No audit hash chain''), (''category'', JStr ''Audit''), (''score'', JNum 6),
             (''status'', JStr ''open'')],
          JObj
            [(''risk'', JStr ''Password pepper not enforced''), (''category'', JStr ''Identity''), (''score'', JNum 5),
             (''status'', JStr ''mitigated'')]])]"

definition useSecurityMetricsDash :: "'w demo_api" where
  "useSecurityMetricsDash = demo_api_of True SecurityMetricsDash_demo []"

definition SecurityPostureScoring_demo :: jsv where
  "SecurityPostureScoring_demo = JObj
      [(''overall_score'', JNum 78),
       (''by_category'', JArr
         [JObj [(''category'', JStr ''identity''), (''score'', JNum 85), (''delta'', JNum 3)],
          JObj [(''category'', JStr ''access''), (''score'', JNum 82), (''delta'', JNum 2)],
          JObj [(''category'', JStr ''data''), (''score'', JNum 70), (''delta'', JNum (- 1))],
          JObj [(''category'', JStr ''infra''), (''score'', JNum 75), (''delta'', JNum 5)],
          JObj [(''category'', JStr ''compliance''), (''score'', JNum 80), (''delta'', JNum 1)]]),
       (''benchmark_comparison'', JObj [(''industry_avg'', JNum 72), (''top_10_pct'', JNum 88)]),
       (''trend_30d'', JArr [JNum 72, JNum 73, JNum 71, JNum 74, JNum 75, JNum 73, JNum 76, JNum 75, JNum 77, JNum 76, JNum 78, JNum 77, JNum 78]),
       (''improvement_recommendations'', JArr
         [JObj
            [(''recommendation'', JStr ''Enable DPoP for all SPA clients''), (''category'', JStr ''access''),
             (''potential_gain'', JNum 4)],
          JObj
            [(''recommendation'', JStr ''Implement data loss prevention policies''), (''category'', JStr ''data''),
             (''potential_gain'', JNum 6)],
          JObj
            [(''recommendation'', JStr ''Enforce mTLS between all microservices''), (''category'', JStr ''infra''),
             (''potential_gain'', JNum 3)],
          JObj
            [(''recommendation'', JStr ''Complete PCI-DSS QSA assessment''), (''category'', JStr ''compliance''),
             (''potential_gain'', JNum 5)]])]"

definition useSecurityPostureScoring :: "'w demo_api" where
  "useSecurityPostureScoring = demo_api_of True SecurityPostureScoring_demo []"

definition SessionTokenBindingCoverage_demo :: jsv where
  "SessionTokenBindingCoverage_demo = JObj
      [(''coverage_pct'', JNum 73), (''bound_tokens'', JNum 8760), (''unbound_tokens'', JNum 3240),
       (''compliance_threshold'', JNum 90),
       (''per_client'', JArr
         [JObj
            [(''client'', JStr ''web-console''), (''bound_pct'', JNum 98), (''binding_method'', JStr ''DPoP''),
             (''last_checked'', JStr ''5m ago'')],
          JObj
            [(''client'', JStr ''mobile-app''), (''bound_pct'', JNum 85), (''binding_method'', JStr ''DPoP''),
             (''last_checked'', JStr ''10m ago'')],
          JObj
            [(''client'', JStr ''ci-cd-bot''), (''bound_pct'', JNum 100), (''binding_method'', JStr ''mTLS''),
             (''last_checked'', JStr ''2m ago'')],
          JObj
            [(''client'', JStr ''legacy-api''), (''bound_pct'', JNum 12), (''binding_method'', JStr ''none''),
             (''last_checked'', JStr ''1h ago'')]]),
       (''unbound_list'', JArr
         [JObj [(''token_id'', JStr ''tok_a1b2c3''), (''client'', JStr ''legacy-api''), (''issued_at'', JStr ''2h ago'')],
          JObj [(''token_id'', JStr ''tok_d4e5f6''), (''client'', JStr ''legacy-api''), (''issued_at'', JStr ''3h ago'')],
          JObj [(''token_id'', JStr ''tok_g7h8i9''), (''client'', JStr ''mobile-app''), (''issued_at'', JStr ''30m ago'')]])]"

definition useSessionTokenBindingCoverage :: "'w demo_api" where
  "useSessionTokenBindingCoverage = demo_api_of True SessionTokenBindingCoverage_demo []"

definition SessionTokenForgery_demo :: jsv where
  "SessionTokenForgery_demo = JObj
      [(''forged_tokens'', JArr
         [JObj
            [(''token'', JStr ''eyJhbGciOiJSUzI1NiIsInR5cCI6IkpXVCJ9.eyJzdWIiOiJhZG1pbiIsImlzc''),
             (''detection_method'', JStr ''signature_invalid''), (''user_claimed'', JStr ''admin@ggid.dev''),
             (''actual_source'', JStr ''203.0.113.50''), (''timestamp'', JStr ''10m ago'')],
          JObj
            [(''token'', JStr ''eyJhbGciOiJSUzI1NiIsInR5cCI6IkpXVCJ9.eyJzdWIiOiJ1c2VyIiwib3J''),
             (''detection_method'', JStr ''claim_mismatch''), (''user_claimed'', JStr ''user@ggid.dev''),
             (''actual_source'', JStr ''198.51.100.22''), (''timestamp'', JStr ''30m ago'')],
          JObj
            [(''token'', JStr ''eyJhbGciOiJub25lIiwidHlwIjoiSldUIn0.eyJzdWIiOiJndWVzdCIsIm5hb''),
             (''detection_method'', JStr ''issuer_unknown''), (''user_claimed'', JStr ''guest@ggid.dev''),
             (''actual_source'', JStr ''203.0.113.99''), (''timestamp'', JStr ''1h ago'')]]),
       (''detection_stats'', JObj [(''blocked_attempts_24h'', JNum 47), (''token_validation_failures'', JNum 156), (''detection_rate_pct'', JNum 99)])]"

definition useSessionTokenForgery :: "'w demo_api" where
  "useSessionTokenForgery = demo_api_of True SessionTokenForgery_demo []"

definition SiemIntegrationStatus_demo :: jsv where
  "SiemIntegrationStatus_demo = JObj
      [(''total_throughput'', JNum 45200), (''total_queue_depth'', JNum 1200), (''total_retry_failures'', JNum 14),
       (''destinations'', JArr
         [JObj
            [(''id'', JStr ''dest-1''), (''name'', JStr ''Splunk Enterprise''), (''type'', JStr ''Splunk''),
             (''status'', JStr ''connected''), (''throughput'', JNum 28000), (''queue_depth'', JNum 300),
             (''retry_failures'', JNum 2), (''last_sync'', JStr ''30s ago'')],
          JObj
            [(''id'', JStr ''dest-2''), (''name'', JStr ''IBM QRadar''), (''type'', JStr ''QRadar''),
             (''status'', JStr ''connected''), (''throughput'', JNum 12000), (''queue_depth'', JNum 500),
             (''retry_failures'', JNum 5), (''last_sync'', JStr ''1m ago'')],
          JObj
            [(''id'', JStr ''dest-3''), (''name'', JStr ''Elasticsearch SIEM''), (''type'', JStr ''Elasticsearch''),
             (''status'', JStr ''error''), (''throughput'', JNum 5200), (''queue_depth'', JNum 400),
             (''retry_failures'', JNum 7), (''last_sync'', JStr ''15m ago'')],
          JObj
            [(''id'', JStr ''dest-4''), (''name'', JStr ''Custom Webhook''), (''type'', JStr ''Custom''),
             (''status'', JStr ''connected''), (''throughput'', JNum 0), (''queue_depth'', JNum 0),
             (''retry_failures'', JNum 0), (''last_sync'', JStr ''5m ago'')]])]"

definition useSiemIntegrationStatus :: "'w demo_api" where
  "useSiemIntegrationStatus = demo_api_of False SiemIntegrationStatus_demo [(''testConnection'', \<lambda>a. [JStr ''Testing connection for destination:'', arg a 0])]"

definition SyntheticIdentity_demo :: jsv where
  "SyntheticIdentity_demo = JObj
      [(''flagged_accounts'', JArr
         [JObj
            [(''email'', JStr ''user1@tempmail.com''), (''registration_source'', JStr ''web_signup''),
             (''disposable_domain'', JBool True), (''account_age_hours'', JNum 2), (''risk_score'', JNum 92)],
          JObj
            [(''email'', JStr ''fakeuser@guerrillamail.com''), (''registration_source'', JStr ''mobile_app''),
             (''disposable_domain'', JBool True), (''account_age_hours'', JNum 5), (''risk_score'', JNum 88)],
          JObj
            [(''email'', JStr ''synthetic@10minutemail.com''), (''registration_source'', JStr ''api''),
             (''disposable_domain'', JBool True), (''account_age_hours'', JNum 1), (''risk_score'', JNum 95)],
          JObj
            [(''email'', JStr ''real.maybe@protonmail.com''), (''registration_source'', JStr ''web_signup''),
             (''disposable_domain'', JBool False), (''account_age_hours'', JNum 48), (''risk_score'', JNum 42)]]),
       (''disposable_domains_blocklist'', JArr
         [JStr ''tempmail.com'',
          JStr ''guerrillamail.com'',
          JStr ''10minutemail.com'',
          JStr ''mailinator.com'',
          JStr ''throwaway.email'',
          JStr ''yopmail.com'',
          JStr ''sharklasers.com'',
          JStr ''dispostable.com'']),
       (''detection_rules'', JArr
         [JObj
            [(''rule_name'', JStr ''Disposable domain check''),
             (''description'', JStr ''Block registrations from known disposable email providers''), (''enabled'', JBool True)],
          JObj
            [(''rule_name'', JStr ''Rapid registration detection''),
             (''description'', JStr ''Flag accounts created within 1 hour of IP first seen''), (''enabled'', JBool True)],
          JObj
            [(''rule_name'', JStr ''Phone verification gap''),
             (''description'', JStr ''Flag accounts without phone verification after 24h''), (''enabled'', JBool False)],
          JObj
            [(''rule_name'', JStr ''Synthetic SSN detection''),
             (''description'', JStr ''Check SSN against synthetic identity database''), (''enabled'', JBool True)]]),
       (''auto_block_enabled'', JBool False)]"

definition useSyntheticIdentity :: "'w demo_api" where
  "useSyntheticIdentity = demo_api_of True SyntheticIdentity_demo []"

definition TenantIsolationCheck_demo :: jsv where
  "TenantIsolationCheck_demo = JObj
      [(''tests'', JArr
         [JObj
            [(''test_name'', JStr ''Cross-Tenant Query Isolation''), (''status'', JStr ''pass''),
             (''evidence'', JStr ''100 queries tested, 0 cross-tenant leaks''), (''remediation'', JStr [])],
          JObj
            [(''test_name'', JStr ''JWT Tenant Claim Enforcement''), (''status'', JStr ''pass''),
             (''evidence'', JStr ''All API requests validated against JWT tenant claim''), (''remediation'', JStr [])],
          JObj
            [(''test_name'', JStr ''RLS Policy Active''), (''status'', JStr ''pass''),
             (''evidence'', JStr ''Row-Level Security enabled on all multi-tenant tables''), (''remediation'', JStr [])],
          JObj
            [(''test_name'', JStr ''Data Leak Scan''), (''status'', JStr ''fail''),
             (''evidence'', JStr ''audit_events table accessible without tenant filter in raw SQL''),
             (''remediation'', JStr ''Add RLS policy to audit_events table for service role'')]]),
       (''cross_tenant_access_log'', JArr
         [JObj
            [(''id'', JStr ''1''), (''timestamp'', JStr ''1h ago''), (''user_id'', JStr ''svc.legacy''),
             (''target_tenant'', JStr ''tenant-002''), (''action'', JStr ''blocked'')],
          JObj
            [(''id'', JStr ''2''), (''timestamp'', JStr ''3h ago''), (''user_id'', JStr ''admin@tenant-001''),
             (''target_tenant'', JStr ''tenant-003''), (''action'', JStr ''blocked'')]]),
       (''rls_validation'', JArr
         [JObj [(''table'', JStr ''users''), (''enabled'', JBool True)],
          JObj [(''table'', JStr ''roles''), (''enabled'', JBool True)],
          JObj [(''table'', JStr ''organizations''), (''enabled'', JBool True)],
          JObj [(''table'', JStr ''audit_events''), (''enabled'', JBool False)],
          JObj [(''table'', JStr ''sessions''), (''enabled'', JBool True)],
          JObj [(''table'', JStr ''policies''), (''enabled'', JBool True)]]),
       (''compliance_status'', JStr ''issues_detected'')]"

definition useTenantIsolationCheck :: "'w demo_api" where
  "useTenantIsolationCheck = demo_api_of True TenantIsolationCheck_demo []"

definition TenantMigrationTool_demo :: jsv where
  "TenantMigrationTool_demo = JObj
      [(''source_tenant'', JStr ''tenant-staging (0000...0001)''),
       (''destination_tenant'', JStr ''tenant-prod (0000...0002)''),
       (''migration_scope'', JArr
         [JObj [(''name'', JStr ''users''), (''record_count'', JNum 4500)],
          JObj [(''name'', JStr ''groups''), (''record_count'', JNum 120)],
          JObj [(''name'', JStr ''roles''), (''record_count'', JNum 35)],
          JObj [(''name'', JStr ''policies''), (''record_count'', JNum 80)],
          JObj [(''name'', JStr ''oauth_clients''), (''record_count'', JNum 12)],
          JObj [(''name'', JStr ''audit_logs''), (''record_count'', JNum 580000)]]),
       (''dry_run'', JObj [(''affected_records'', JNum 584747), (''estimated_duration'', JStr ''~12 min''), (''conflicts'', JNum 3)]),
       (''migration_history'', JArr
         [JObj
            [(''id'', JStr ''m1''), (''timestamp'', JStr ''2026-06-15''), (''scope'', JStr ''users, roles''),
             (''status'', JStr ''completed'')],
          JObj
            [(''id'', JStr ''m2''), (''timestamp'', JStr ''2026-05-01''), (''scope'', JStr ''all''),
             (''status'', JStr ''completed'')]])]"

definition useTenantMigrationTool :: "'w demo_api" where
  "useTenantMigrationTool = demo_api_of False TenantMigrationTool_demo [(''executeMigration'', \<lambda>a. [JStr ''Executing migration with scope'', arg a 0])]"

definition ThreatHunting_demo :: jsv where
  "ThreatHunting_demo = JObj
      [(''hunt_results'', JArr
         [JObj
            [(''entity'', JStr ''185.220.101.45''), (''severity'', JStr ''high''),
             (''description'', JStr ''TOR exit node, 12 failed logins across 4 accounts''), (''timestamp'', JStr ''5m ago'')],
          JObj
            [(''entity'', JStr ''svc.legacy''), (''severity'', JStr ''medium''),
             (''description'', JStr ''Service account accessing endpoints outside normal pattern''),
             (''timestamp'', JStr ''15m ago'')]]),
       (''hypotheses'', JArr
         [JObj
            [(''id'', JStr ''h-001''), (''hypothesis'', JStr ''Insider using stolen credentials for lateral movement''),
             (''status'', JStr ''investigating''), (''evidence_count'', JNum 8), (''conclusion'', JStr [])],
          JObj
            [(''id'', JStr ''h-002''), (''hypothesis'', JStr ''Compromised service account exfiltrating data''),
             (''status'', JStr ''confirmed''), (''evidence_count'', JNum 15),
             (''conclusion'', JStr ''Confirmed - account suspended, IR triggered'')],
          JObj
            [(''id'', JStr ''h-003''), (''hypothesis'', JStr ''Automated scanner probing auth endpoints''),
             (''status'', JStr ''disproven''), (''evidence_count'', JNum 3),
             (''conclusion'', JStr ''False positive - legitimate pen test'')]]),
       (''saved_hunts'', JArr
         [JObj [(''name'', JStr ''TOR connections after hours''), (''last_run'', JStr ''2h ago'')],
          JObj [(''name'', JStr ''Mass login failures by IP''), (''last_run'', JStr ''4h ago'')],
          JObj [(''name'', JStr ''Service accounts new IPs''), (''last_run'', JStr ''1d ago'')]]),
       (''watchlist'', JArr [JStr ''203.0.113.50'', JStr ''198.51.100.22'', JStr ''svc.legacy'', JStr ''temp.admin''])]"

definition useThreatHunting :: "'w demo_api" where
  "useThreatHunting = demo_api_of True ThreatHunting_demo []"

definition TokenFamilyAnalysis_demo :: jsv where
  "TokenFamilyAnalysis_demo = JObj
      [(''families'', JArr
         [JObj
            [(''family_id'', JStr ''fam_001''), (''root_token_hash'', JStr ''sha256:abc123...''), (''child_count'', JNum 3),
             (''status'', JStr ''active'')],
          JObj
            [(''family_id'', JStr ''fam_002''), (''root_token_hash'', JStr ''sha256:def456...''), (''child_count'', JNum 1),
             (''status'', JStr ''active'')],
          JObj
            [(''family_id'', JStr ''fam_003''), (''root_token_hash'', JStr ''sha256:ghi789...''), (''child_count'', JNum 5),
             (''status'', JStr ''revoked'')]]),
       (''reuse_alerts'', JArr
         [JObj
            [(''id'', JStr ''ra1''), (''family_id'', JStr ''fam_003''),
             (''description'', JStr ''Refresh token used after revocation from different IP''),
             (''detected_at'', JStr ''2h ago'')]])]"

definition useTokenFamilyAnalysis :: "'w demo_api" where
  "useTokenFamilyAnalysis = demo_api_of True TokenFamilyAnalysis_demo []"

definition UserBehaviorAnalytics_demo :: jsv where
  "UserBehaviorAnalytics_demo = JObj
      [(''baseline'', JObj
         [(''login_time_range'', JStr ''08:00 - 18:00 UTC''),
          (''typical_devices'', JArr [JStr ''MacBook Pro (Work)'', JStr ''iPhone 15'']),
          (''geo_patterns'', JArr [JStr ''San Francisco, CA'', JStr ''Remote: US West'']),
          (''access_patterns'', JArr [JStr ''Dashboard read'', JStr ''User list view'', JStr ''Audit query''])]),
       (''deviation_score'', JNum 35),
       (''anomalies'', JArr
         [JObj
            [(''type'', JStr ''unusual_time''), (''description'', JStr ''Login at 03:14 UTC (outside baseline 08:00-18:00)''),
             (''severity'', JStr ''medium''), (''timestamp'', JStr ''2h ago'')],
          JObj
            [(''type'', JStr ''new_device''), (''description'', JStr ''Access from unrecognized Android device''),
             (''severity'', JStr ''high''), (''timestamp'', JStr ''5h ago'')],
          JObj
            [(''type'', JStr ''new_location''), (''description'', JStr ''Login from Lagos, Nigeria (new geo)''),
             (''severity'', JStr ''high''), (''timestamp'', JStr ''1d ago'')],
          JObj
            [(''type'', JStr ''unusual_access''), (''description'', JStr ''Bulk export of user data (outside baseline)''),
             (''severity'', JStr ''medium''), (''timestamp'', JStr ''2d ago'')]]),
       (''trend_7d'', JArr [JNum 15, JNum 22, JNum 18, JNum 45, JNum 35, JNum 50, JNum 35])]"

definition useUserBehaviorAnalytics :: "'w demo_api" where
  "useUserBehaviorAnalytics = demo_api_of True UserBehaviorAnalytics_demo []"

definition VelocityRulesConfig_demo :: jsv where
  "VelocityRulesConfig_demo = JObj
      [(''rules'', JArr
         [JObj
            [(''rule_name'', JStr ''Rapid Signups''), (''metric'', JStr ''registrations''), (''window'', JStr ''per_hour''),
             (''threshold'', JNum 10), (''action'', JStr ''challenge''), (''current_rate'', JNum 4),
             (''triggered_24h'', JNum 3)],
          JObj
            [(''rule_name'', JStr ''Login Brute Force''), (''metric'', JStr ''logins''), (''window'', JStr ''per_minute''),
             (''threshold'', JNum 5), (''action'', JStr ''block''), (''current_rate'', JNum 2), (''triggered_24h'', JNum 12)],
          JObj
            [(''rule_name'', JStr ''Password Spray''), (''metric'', JStr ''password_changes''),
             (''window'', JStr ''per_hour''), (''threshold'', JNum 20), (''action'', JStr ''block''),
             (''current_rate'', JNum 8), (''triggered_24h'', JNum 5)],
          JObj
            [(''rule_name'', JStr ''API Rate Limit''), (''metric'', JStr ''api_calls''), (''window'', JStr ''per_minute''),
             (''threshold'', JNum 100), (''action'', JStr ''throttle''), (''current_rate'', JNum 67),
             (''triggered_24h'', JNum 28)],
          JObj
            [(''rule_name'', JStr ''Account Recovery Abuse''), (''metric'', JStr ''password_changes''),
             (''window'', JStr ''per_day''), (''threshold'', JNum 3), (''action'', JStr ''challenge''),
             (''current_rate'', JNum 1), (''triggered_24h'', JNum 2)]]),
       (''scope'', JStr ''per_device''), (''geographic_velocity_check'', JBool True)]"

definition useVelocityRulesConfig :: "'w demo_api" where
  "useVelocityRulesConfig = demo_api_of True VelocityRulesConfig_demo []"

definition WebauthnConfig_demo :: jsv where
  "WebauthnConfig_demo = JObj
      [(''rp_id'', JStr ''auth.ggid.dev''), (''rp_name'', JStr ''GGID''), (''origin'', JStr ''https://auth.ggid.dev''),
       (''attestation_requirement'', JStr ''indirect''), (''user_verification'', JStr ''preferred''),
       (''timeout_seconds'', JNum 300),
       (''supported_algorithms'', JArr
         [JObj [(''id'', JStr ''RS256''), (''cose_id'', JNum (- 257)), (''enabled'', JBool True)],
          JObj [(''id'', JStr ''ES256''), (''cose_id'', JNum (- 7)), (''enabled'', JBool True)],
          JObj [(''id'', JStr ''EdDSA''), (''cose_id'', JNum (- 8)), (''enabled'', JBool False)]]),
       (''per_platform'', JArr
         [JObj
            [(''platform'', JStr ''Web (Chrome/Edge)''), (''authenticator_type'', JStr ''platform''),
             (''attachment'', JStr ''internal''), (''enabled'', JBool True)],
          JObj
            [(''platform'', JStr ''iOS (Face ID/Touch ID)''), (''authenticator_type'', JStr ''platform''),
             (''attachment'', JStr ''internal''), (''enabled'', JBool True)],
          JObj
            [(''platform'', JStr ''Security Key (USB/NFC)''), (''authenticator_type'', JStr ''cross-platform''),
             (''attachment'', JStr ''cross-platform''), (''enabled'', JBool True)]])]"

definition useWebauthnConfig :: "'w demo_api" where
  "useWebauthnConfig = demo_api_of True WebauthnConfig_demo []"

definition DEMO_HOOKS :: "'w demo_api list" where
  "DEMO_HOOKS = [useAccessCertificationCampaigns, useAccessRequestApprovalWorkflow, useAdaptiveAuthConfig, useAgentConsentFlow,
    useAgentCredentialRotation, useAgentLifecycle, useAnomalyDetectDashboard, useAuditChainVerification,
    useAuditComplianceScheduler, useAuditDataLineage, useAuditDataSovereignty, useAuditEventCorrelation,
    useAuditEvidenceCollection, useAuditGdprRequests, useAuditSiemForwarding, useAuditSiemMapping, useAuthBackChannelAuth,
    useAuthOidcFederation, useAuthPasswordlessConfig, useAuthSessionBinding, useAuthSessionResilience,
    useAuthStepUpOrchestrator, useAuthTokenBindingEnforcement, useAuthWebauthnConfig, useComplianceEvidenceTracker,
    useComplianceGapReport, useConsentManagement, useDataRetentionDashboard, useDeviceFingerprintAnalytics,
    useGDPRDataPortability, useGeoFencingConfig, useGoldenTicketDetect, useIdentityAccessRevoke,
    useIdentityDeprovisioningAutomation, useIdentityJitProvisioningConfig, useIdentitySoftDeleteConfig,
    useIdentityUserAttestation, useIdpFailoverConfig, useIncidentResponsePlaybook, useLockoutPolicyConfig,
    useMitreAttackMapping, useNotificationPrefConfig, useOAuth21Audit, useOAuthBackchannelLogoutConfig,
    useOAuthClientDeployment, useOAuthClientOnboardingWizard, useOAuthCrossTenant, useOAuthDpopProofViewer,
    useOAuthFederationMetadata, useOAuthIntrospectionCache, useOAuthIssuerMetadata, useOAuthIssuerMetadataConfig,
    useOAuthJarConfig, useOAuthJwksManagement, useOAuthParUsage, useOAuthRateLimitPerClient, useOAuthRedirectURIValidation,
    useOAuthTokenAuditing, useOidcClaimMappingConfig, useOrgCostAllocation, usePIIDiscovery, usePasskeyHealth,
    usePasswordlessConfig, usePiplCompliance, usePolicyApprovalWorkflowConfig, usePolicyBreakGlass, usePolicyClauseLibrary,
    usePolicyContextualConditions, usePolicyDecisionStats, usePolicyDryRunHistory, usePolicyEmergencyChanges,
    usePolicyEvalTimeline, usePolicyGovernanceWorkflow, usePolicyImportExport, usePolicyLifecycleDashboard, usePolicySoDConfig,
    usePolicyTagging, usePolicyVisualEditor, useRemediationTracker, useRoleMiningResults, useSamlIdpInitiatedSSO,
    useScimErrorRecovery, useScimGroupMappingConfig, useSecurityKPITracker, useSecurityMetricsDash, useSecurityPostureScoring,
    useSessionTokenBindingCoverage, useSessionTokenForgery, useSiemIntegrationStatus, useSyntheticIdentity,
    useTenantIsolationCheck, useTenantMigrationTool, useThreatHunting, useTokenFamilyAnalysis, useUserBehaviorAnalytics,
    useVelocityRulesConfig, useWebauthnConfig]"

lemmas demo_hook_defs = useAccessCertificationCampaigns_def useAccessRequestApprovalWorkflow_def useAdaptiveAuthConfig_def useAgentConsentFlow_def
  useAgentCredentialRotation_def useAgentLifecycle_def useAnomalyDetectDashboard_def useAuditChainVerification_def
  useAuditComplianceScheduler_def useAuditDataLineage_def useAuditDataSovereignty_def useAuditEventCorrelation_def
  useAuditEvidenceCollection_def useAuditGdprRequests_def useAuditSiemForwarding_def useAuditSiemMapping_def
  useAuthBackChannelAuth_def useAuthOidcFederation_def useAuthPasswordlessConfig_def useAuthSessionBinding_def
  useAuthSessionResilience_def useAuthStepUpOrchestrator_def useAuthTokenBindingEnforcement_def useAuthWebauthnConfig_def
  useComplianceEvidenceTracker_def useComplianceGapReport_def useConsentManagement_def useDataRetentionDashboard_def
  useDeviceFingerprintAnalytics_def useGDPRDataPortability_def useGeoFencingConfig_def useGoldenTicketDetect_def
  useIdentityAccessRevoke_def useIdentityDeprovisioningAutomation_def useIdentityJitProvisioningConfig_def
  useIdentitySoftDeleteConfig_def useIdentityUserAttestation_def useIdpFailoverConfig_def useIncidentResponsePlaybook_def
  useLockoutPolicyConfig_def useMitreAttackMapping_def useNotificationPrefConfig_def useOAuth21Audit_def
  useOAuthBackchannelLogoutConfig_def useOAuthClientDeployment_def useOAuthClientOnboardingWizard_def useOAuthCrossTenant_def
  useOAuthDpopProofViewer_def useOAuthFederationMetadata_def useOAuthIntrospectionCache_def useOAuthIssuerMetadata_def
  useOAuthIssuerMetadataConfig_def useOAuthJarConfig_def useOAuthJwksManagement_def useOAuthParUsage_def
  useOAuthRateLimitPerClient_def useOAuthRedirectURIValidation_def useOAuthTokenAuditing_def useOidcClaimMappingConfig_def
  useOrgCostAllocation_def usePIIDiscovery_def usePasskeyHealth_def usePasswordlessConfig_def usePiplCompliance_def
  usePolicyApprovalWorkflowConfig_def usePolicyBreakGlass_def usePolicyClauseLibrary_def usePolicyContextualConditions_def
  usePolicyDecisionStats_def usePolicyDryRunHistory_def usePolicyEmergencyChanges_def usePolicyEvalTimeline_def
  usePolicyGovernanceWorkflow_def usePolicyImportExport_def usePolicyLifecycleDashboard_def usePolicySoDConfig_def
  usePolicyTagging_def usePolicyVisualEditor_def useRemediationTracker_def useRoleMiningResults_def useSamlIdpInitiatedSSO_def
  useScimErrorRecovery_def useScimGroupMappingConfig_def useSecurityKPITracker_def useSecurityMetricsDash_def
  useSecurityPostureScoring_def useSessionTokenBindingCoverage_def useSessionTokenForgery_def useSiemIntegrationStatus_def
  useSyntheticIdentity_def useTenantIsolationCheck_def useTenantMigrationTool_def useThreatHunting_def
  useTokenFamilyAnalysis_def useUserBehaviorAnalytics_def useVelocityRulesConfig_def useWebauthnConfig_def

section \<open>Lemmas\<close>

text \<open>A hook returns the flag exactly if it has no actions.\<close>

definition shaped :: "'w demo_api \<Rightarrow> bool" where
  "shaped h = (\<exists>data acts. h = demo_api_of (acts = []) data acts)"

lemma shaped_api [simp]: "shaped (demo_api_of True data [])" "shaped (demo_api_of False data (x # xs))"
  unfolding shaped_def by (rule exI[of _ data], rule exI[of _ "[]"], simp) (rule exI[of _ data], rule exI[of _ "x # xs"], simp)

lemma demo_hook_shape: "h \<in> set DEMO_HOOKS \<Longrightarrow> shaped h"
  by (auto simp: DEMO_HOOKS_def demo_hook_defs)

section \<open>Properties\<close>

text \<open>The demonstration hooks never report a failure of the server, and the actions they offer (revoking access, activating
  an emergency role, withdrawing consent, rotating a key and others) do nothing: after any failed request
  the hook shows the data of the source without an error; where it has actions it does not return the flag
  that would tell, and an action sends no request and leaves the state as it is.\<close>

lemma demo_actions_do_nothing:
  assumes "h \<in> set DEMO_HOOKS" "dm_refresh h E (s, w) = (s', w')"
    and "fst (fetch E demo_request w) = NetError \<or> (\<exists>st body. fst (fetch E demo_request w) = Resp st body \<and> \<not> resp_ok st)"
  shows "dv_error (dm_view h s') = None \<and> \<not> dv_loading (dm_view h s') \<and> de_demo s' \<and> sent w' = sent w @ [demo_request] \<and>
    dv_isDemoData (dm_view h s') = (if dm_actions h = [] then Some True else None) \<and>
    (\<forall>(name, act) \<in> set (dm_actions h). \<forall>args. snd (act args (s', w')) = (s', w'))"
proof -
  obtain data acts where h: "h = demo_api_of (acts = []) data acts" using demo_hook_shape[OF assms(1)] by (auto simp: shaped_def)
  have r: "demo_fetch data E (s, w) = (s', w')" using assms(2) by (simp add: h demo_api_of_def)
  have "de_error s' = None \<and> \<not> de_loading s' \<and> de_demo s' \<and> sent w' = sent w @ [demo_request]"
    using r assms(3) by (auto simp: demo_fetch_def fetch_eq split: outcome.splits)
  then show ?thesis by (auto simp: h demo_api_of_def demo_view_of_def log_action_def)
qed

lemma demo_actions_do_nothing_example:
  "let p = dm_refresh usePolicyBreakGlass (always (Resp 403 [])) (demo_init, blank_world) in
   dv_error (dm_view (usePolicyBreakGlass :: unit demo_api) (fst p)) = None \<and>
   dv_isDemoData (dm_view (usePolicyBreakGlass :: unit demo_api) (fst p)) = None"
proof -
  let ?h = "usePolicyBreakGlass :: unit demo_api" and ?E = "always (Resp 403 [])"
  let ?p = "dm_refresh ?h ?E (demo_init, blank_world)"
  have mem: "?h \<in> set DEMO_HOOKS" by (simp add: DEMO_HOOKS_def)
  have run: "dm_refresh ?h ?E (demo_init, blank_world) = (fst ?p, snd ?p)" by simp
  have "fst (fetch ?E demo_request blank_world) = Resp 403 []" "\<not> resp_ok 403" by (simp_all add: fetch_def always_def resp_ok_def)
  then have "fst (fetch ?E demo_request blank_world) = NetError \<or> (\<exists>st body. fst (fetch ?E demo_request blank_world) = Resp st body \<and> \<not> resp_ok st)"
    by blast
  from demo_actions_do_nothing[OF mem run this] have
    "dv_error (dm_view ?h (fst ?p)) = None \<and> dv_isDemoData (dm_view ?h (fst ?p)) = (if dm_actions ?h = [] then Some True else None)" by simp
  moreover have "dm_actions ?h \<noteq> []" by (simp add: usePolicyBreakGlass_def demo_api_of_def)
  ultimately show ?thesis by (simp add: Let_def)
qed

end
