(* ===== verification/Sessions.thy ===== *)
theory Sessions
  imports Api_Client Parents Js_Sort Audit_Query
begin

text \<open>
  The sessions page (\<open>console/src/app/sessions/page.tsx\<close>): loading sessions and the session policy, revoking, the labels, the
  filters and the sorting of the table.  A session is a record of strings, the empty string for a missing field: every field is read
  with a default or after a test for truth; \<open>current\<close> has its default since the load.  \<open>new Date(s).getTime()\<close> is a parameter
  (\<^term>\<open>None\<close> is \<open>NaN\<close>), and so is the current time.  The flag of a country and the timer that hides a message are left out.
\<close>

section \<open>Data\<close>

record session =
  ss_id :: string
  ss_ip :: string
  ss_ua :: string
  ss_created :: string
  ss_last :: string
  ss_expires :: string
  ss_device :: string
  ss_location :: string
  ss_city :: string
  ss_country :: string
  ss_user_id :: string
  ss_user_name :: string
  ss_username :: string
  ss_email :: string
  ss_current :: bool

datatype sort_field = SfUser | SfIp | SfDevice | SfLocation | SfLastActive | SfExpires

record sessions_page =
  sp_sessions :: "session list"
  sp_loading :: bool
  sp_error :: "string option"
  sp_msg :: "string option"
  sp_sortField :: sort_field
  sp_asc :: bool
  sp_search :: string
  sp_deviceFilter :: string
  sp_locationFilter :: string
  sp_showRevokeAll :: bool
  sp_revokeTarget :: "session option"
  sp_revokingAll :: bool
  sp_revokingId :: "string option"
  sp_timeout :: int
  sp_limit :: bool
  sp_max :: int
  sp_savingPolicy :: bool

definition sessions_init :: sessions_page where
  "sessions_init = \<lparr>sp_sessions = [], sp_loading = True, sp_error = None, sp_msg = None, sp_sortField = SfLastActive, sp_asc = True,
     sp_search = [], sp_deviceFilter = ''All'', sp_locationFilter = [], sp_showRevokeAll = False, sp_revokeTarget = None,
     sp_revokingAll = False, sp_revokingId = None, sp_timeout = 60, sp_limit = False, sp_max = 5, sp_savingPolicy = False\<rparr>"

section \<open>Loading\<close>

text \<open>\<open>{ ...s, current: s.current ?? (i === 0) }\<close>; the fields are strings as their type says, \<open>current\<close> a boolean.\<close>

definition session_at :: "nat \<Rightarrow> jsv \<Rightarrow> session" where
  "session_at i v = \<lparr>ss_id = str_of v ''id'', ss_ip = str_of v ''ip_address'', ss_ua = str_of v ''user_agent'',
     ss_created = str_of v ''created_at'', ss_last = str_of v ''last_active_at'', ss_expires = str_of v ''expires_at'',
     ss_device = str_of v ''device_type'', ss_location = str_of v ''location'', ss_city = str_of v ''city'', ss_country = str_of v ''country'',
     ss_user_id = str_of v ''user_id'', ss_user_name = str_of v ''user_name'', ss_username = str_of v ''username'', ss_email = str_of v ''email'',
     ss_current = (let c = js_opt_prop v ''current'' in if nullish c then i = 0 else truthy c)\<rparr>"

text \<open>The list of an answer; \<^term>\<open>None\<close> where the code throws.\<close>

definition sessions_of :: "jsv \<Rightarrow> session list option" where
  "sessions_of data = (case (if is_array data then data else js_or (js_opt_prop data ''sessions'') (JArr [])) of
     JArr vs \<Rightarrow> if list_ex nullish vs then None else Some (map (\<lambda>(i, v). session_at i v) (zip [0..<length vs] vs))
   | _ \<Rightarrow> None)"

definition loadSessions :: "'w env \<Rightarrow> string \<Rightarrow> string \<Rightarrow> sessions_page \<times> 'w world \<Rightarrow> sessions_page \<times> 'w world" where
  "loadSessions E base tenant pw = (case pw of (p, w) \<Rightarrow>
     (case apiFetch E base tenant ''/api/v1/auth/sessions'' no_options w of (r, w1) \<Rightarrow>
       (let data = (case r of Inl _ \<Rightarrow> JNull | Inr v \<Rightarrow> v) in
        if \<not> truthy data then (p\<lparr>sp_sessions := [], sp_error := None, sp_loading := False\<rparr>, w1)
        else (case sessions_of data of
            None \<Rightarrow> (p\<lparr>sp_sessions := [], sp_error := Some (type_message E), sp_loading := False\<rparr>, w1)
          | Some ss \<Rightarrow> (p\<lparr>sp_sessions := ss, sp_error := None, sp_loading := False\<rparr>, w1)))))"

text \<open>\<open>Number(v)\<close>; \<^term>\<open>None\<close> is \<open>NaN\<close>.  Of the texts only decimal integers are numbers here, and
  \<open>[5]\<close>, which the language reads as \<open>5\<close>, is not.\<close>

definition js_number :: "jsv \<Rightarrow> int option" where
  "js_number v = (case v of
      JNum n \<Rightarrow> Some n
    | JBool b \<Rightarrow> Some (if b then 1 else 0)
    | JNull \<Rightarrow> Some 0
    | JStr s \<Rightarrow> (let t = trim s; d = (if t \<noteq> [] \<and> hd t = CHR ''-'' then tl t else t) in
        if t = [] then Some 0
        else if d \<noteq> [] \<and> list_all is_digit d then Some ((if d = t then 1 else -1) * int (nat_of_digits 0 d))
        else None)
    | _ \<Rightarrow> None)"

text \<open>\<open>Number(v) || d\<close>.\<close>

definition number_or :: "jsv \<Rightarrow> int \<Rightarrow> int" where
  "number_or v d = (case js_number v of None \<Rightarrow> d | Some n \<Rightarrow> if n = 0 then d else n)"

definition policy_path :: "string \<Rightarrow> string" where
  "policy_path tenant = ''/api/v1/tenants/'' @ tenant @ ''/session-policy''"

definition loadPolicy :: "'w env \<Rightarrow> string \<Rightarrow> string \<Rightarrow> sessions_page \<times> 'w world \<Rightarrow> sessions_page \<times> 'w world" where
  "loadPolicy E base tenant pw = (case pw of (p, w) \<Rightarrow>
     (case apiFetch E base tenant (policy_path tenant) no_options w of
        (Inl _, w1) \<Rightarrow> (p, w1)
      | (Inr data, w1) \<Rightarrow>
          (if truthy data
           then p\<lparr>sp_timeout := number_or (js_opt_prop data ''session_timeout'') 60,
                  sp_limit := truthy (js_opt_prop data ''limit_concurrent_sessions''),
                  sp_max := number_or (js_opt_prop data ''max_concurrent_sessions'') 5\<rparr>
           else p, w1)))"

section \<open>Revoking and saving\<close>

definition page_revoke_options :: "string list \<Rightarrow> req_options" where
  "page_revoke_options ids = \<lparr>o_method = Some ''POST'', o_headers = [(''Content-Type'', ''application/json'')],
     o_body = Some (json_stringify (JObj [(''session_ids'', JArr (map JStr ids))]))\<rparr>"

text \<open>The texts of the messages are translations, an argument.\<close>

definition page_handleRevoke ::
  "(string \<Rightarrow> string) \<Rightarrow> 'w env \<Rightarrow> string \<Rightarrow> string \<Rightarrow> string \<Rightarrow> sessions_page \<times> 'w world \<Rightarrow> sessions_page \<times> 'w world" where
  "page_handleRevoke t E base tenant sessionId pw = (case pw of (p, w) \<Rightarrow>
     (case (case apiFetch E base tenant ''/api/v1/auth/sessions/revoke'' (page_revoke_options [sessionId]) w of
        (Inr _, w1) \<Rightarrow> (p\<lparr>sp_sessions := filter (\<lambda>s. ss_id s \<noteq> sessionId) (sp_sessions p), sp_msg := Some (t ''sessions.sessionrevoked'')\<rparr>, w1)
      | (Inl _, w1) \<Rightarrow> (p\<lparr>sp_sessions := filter (\<lambda>s. ss_id s \<noteq> sessionId) (sp_sessions p), sp_msg := Some (t ''sessions.sessionrevoked'')\<rparr>, w1))
      of (p1, w1) \<Rightarrow> (p1\<lparr>sp_revokingId := None, sp_revokeTarget := None\<rparr>, w1)))"

definition page_otherIds :: "session list \<Rightarrow> string list" where
  "page_otherIds ss = map ss_id (filter (\<lambda>s. \<not> ss_current s) ss)"

definition handleRevokeAll ::
  "(string \<Rightarrow> string) \<Rightarrow> 'w env \<Rightarrow> string \<Rightarrow> string \<Rightarrow> sessions_page \<times> 'w world \<Rightarrow> sessions_page \<times> 'w world" where
  "handleRevokeAll t E base tenant pw = (case pw of (p, w) \<Rightarrow>
     (let ids = page_otherIds (sp_sessions p) in
      case (case (if ids \<noteq> [] then apiFetch E base tenant ''/api/v1/auth/sessions/revoke'' (page_revoke_options ids) w else (Inr JUndef, w)) of
        (Inr _, w1) \<Rightarrow> (p\<lparr>sp_sessions := filter ss_current (sp_sessions p), sp_msg := Some (t ''sessions.allothersessionsrevoked'')\<rparr>, w1)
      | (Inl _, w1) \<Rightarrow> (p\<lparr>sp_sessions := filter ss_current (sp_sessions p), sp_msg := Some (t ''sessions.allothersessionsrevoked'')\<rparr>, w1))
      of (p1, w1) \<Rightarrow> (p1\<lparr>sp_revokingAll := False, sp_showRevokeAll := False\<rparr>, w1)))"

definition session_policy_json :: "sessions_page \<Rightarrow> jsv" where
  "session_policy_json p = JObj [(''session_timeout'', JNum (sp_timeout p)), (''limit_concurrent_sessions'', JBool (sp_limit p)),
     (''max_concurrent_sessions'', JNum (if sp_limit p then sp_max p else 0))]"

definition handleSavePolicy ::
  "(string \<Rightarrow> string) \<Rightarrow> 'w env \<Rightarrow> string \<Rightarrow> string \<Rightarrow> sessions_page \<times> 'w world \<Rightarrow> sessions_page \<times> 'w world" where
  "handleSavePolicy t E base tenant pw = (case pw of (p, w) \<Rightarrow>
     (case apiFetch E base tenant (policy_path tenant)
        \<lparr>o_method = Some ''PUT'', o_headers = [], o_body = Some (json_stringify (session_policy_json p))\<rparr> w of (r, w1) \<Rightarrow>
       (p\<lparr>sp_msg := Some (t ''sessions.sessionpolicysaved''), sp_savingPolicy := False\<rparr>, w1)))"

text \<open>The inputs of the policy form keep the values within their bounds.\<close>

definition change_timeout :: "string \<Rightarrow> sessions_page \<Rightarrow> sessions_page" where
  "change_timeout v p = p\<lparr>sp_timeout := min 1440 (max 5 (number_or (JStr v) 5))\<rparr>"

definition change_max :: "string \<Rightarrow> sessions_page \<Rightarrow> sessions_page" where
  "change_max v p = (if sp_limit p then p\<lparr>sp_max := min 100 (max 1 (number_or (JStr v) 1))\<rparr> else p)"

definition toggle_limit :: "sessions_page \<Rightarrow> sessions_page" where
  "toggle_limit p = p\<lparr>sp_limit := \<not> sp_limit p\<rparr>"

section \<open>Labels\<close>

definition getDisplayName :: "session \<Rightarrow> string" where
  "getDisplayName s = or_else (ss_user_name s) (or_else (ss_username s) (or_else (ss_email s)
     (if ss_user_id s \<noteq> [] then ''User '' @ take 8 (ss_user_id s) else ''Unknown User'')))"

text \<open>\<open>toUpperCase\<close> on a code unit below 256 whose capital is one too; the other three (181, 223, 255) are left.\<close>

definition upper_char :: "char \<Rightarrow> char" where
  "upper_char c = (let n = of_char c :: nat in
     if (97 \<le> n \<and> n \<le> 122) \<or> (224 \<le> n \<and> n \<le> 254 \<and> n \<noteq> 247) then char_of (n - 32) else c)"

text \<open>\<open>split(/[\s@._]+/).filter(Boolean)\<close>: the parts between separators that are not empty.\<close>

definition name_sep :: "char \<Rightarrow> bool" where
  "name_sep c = (is_space c \<or> c \<in> {CHR ''@'', CHR ''.'', CHR ''_''})"

fun name_parts :: "string \<Rightarrow> string \<Rightarrow> string list" where
  "name_parts acc [] = (if acc = [] then [] else [acc])"
| "name_parts acc (c # cs) = (if name_sep c then (if acc = [] then name_parts [] cs else acc # name_parts [] cs)
     else name_parts (acc @ [c]) cs)"

definition getInitials :: "session \<Rightarrow> string" where
  "getInitials s = (let name = or_else (ss_user_name s) (or_else (ss_username s) (or_else (ss_email s)
       (if ss_user_id s \<noteq> [] then ''User '' @ take 8 (ss_user_id s) else ''User'')))
     in or_else (map (upper_char \<circ> hd) (take 2 (name_parts [] name))) ''U'')"

text \<open>A test \<open>/a|b/i\<close>.\<close>

definition ua_has :: "string list \<Rightarrow> string \<Rightarrow> bool" where
  "ua_has ws ua = list_ex (str_includes (to_lower ua)) ws"

definition parseDeviceType :: "string \<Rightarrow> string" where
  "parseDeviceType ua = (if ua_has [''mobile'', ''android'', ''iphone''] ua then ''Mobile''
     else if ua_has [''ipad'', ''tablet''] ua then ''Tablet'' else ''Desktop'')"

definition getDeviceType :: "session \<Rightarrow> string" where
  "getDeviceType s = or_else (ss_device s) (parseDeviceType (ss_ua s))"

definition parseBrowser :: "string \<Rightarrow> string" where
  "parseBrowser ua = (if ua_has [''edg''] ua then ''Edge'' else if ua_has [''chrome''] ua then ''Chrome''
     else if ua_has [''firefox''] ua then ''Firefox'' else if ua_has [''safari''] ua then ''Safari'' else ''Browser'')"

definition parseOS :: "string \<Rightarrow> string" where
  "parseOS ua = (if ua_has [''windows nt 10''] ua then ''Windows'' else if ua_has [''windows''] ua then ''Windows''
     else if ua_has [''mac os x'', ''macintosh''] ua then ''macOS'' else if ua_has [''linux''] ua then ''Linux''
     else if ua_has [''android''] ua then ''Android'' else if ua_has [''iphone'', ''ipad'', ''ios''] ua then ''iOS'' else ''Unknown'')"

definition getDeviceLabel :: "session \<Rightarrow> string" where
  "getDeviceLabel s = parseBrowser (ss_ua s) @ '' on '' @ parseOS (ss_ua s)"

definition getLocationStr :: "session \<Rightarrow> string" where
  "getLocationStr s = (if ss_city s \<noteq> [] \<and> ss_country s \<noteq> [] then ss_city s @ '', '' @ ss_country s
     else if ss_location s \<noteq> [] then ss_location s else ''Unknown'')"

text \<open>\<open>remaining > 0 && remaining < 60 * 60 * 1000\<close>.\<close>

definition near_expiry :: "(string \<Rightarrow> int option) \<Rightarrow> int \<Rightarrow> session \<Rightarrow> bool" where
  "near_expiry date t s = (ss_expires s \<noteq> [] \<and> (case date (ss_expires s) of None \<Rightarrow> False | Some e \<Rightarrow> 0 < e - t \<and> e - t < 3600000))"

definition last_seen :: "session \<Rightarrow> string" where
  "last_seen s = or_else (ss_last s) (ss_created s)"

datatype session_status = StCurrent | StExpiring | StIdle | StActive

definition getSessionStatus :: "(string \<Rightarrow> int option) \<Rightarrow> int \<Rightarrow> session \<Rightarrow> session_status" where
  "getSessionStatus date t s = (if ss_current s then StCurrent else if near_expiry date t s then StExpiring
     else if (case date (last_seen s) of None \<Rightarrow> False | Some l \<Rightarrow> 86400000 < t - l) then StIdle else StActive)"

text \<open>The texts of times; \<open>toLocaleDateString\<close> is a parameter.  \<^term>\<open>None\<close> is the dash that stands for a missing time; the
  comparisons with \<open>NaN\<close> are false, which leaves the last case.\<close>

definition formatTime :: "(string \<Rightarrow> int option) \<Rightarrow> (string \<Rightarrow> string) \<Rightarrow> int \<Rightarrow> string \<Rightarrow> string option" where
  "formatTime date localeDate t ts = (if ts = [] then None
     else Some (case date ts of None \<Rightarrow> localeDate ts | Some d \<Rightarrow>
       (let mins = (t - d) div 60000; hours = mins div 60; days = hours div 24 in
        if mins < 1 then ''just now'' else if mins < 60 then show_int mins @ ''m ago''
        else if hours < 24 then show_int hours @ ''h ago'' else if days < 30 then show_int days @ ''d ago'' else localeDate ts)))"

text \<open>\<^term>\<open>None\<close> is the dash that stands for a missing time.  \<open>mins % 60\<close> of a positive number.\<close>

definition getExpiresIn :: "(string \<Rightarrow> int option) \<Rightarrow> int \<Rightarrow> session \<Rightarrow> string option" where
  "getExpiresIn date t s = (if ss_expires s = [] then None
     else Some (case date (ss_expires s) of None \<Rightarrow> ''NaNd NaNh'' | Some e \<Rightarrow>
       (let remaining = e - t; mins = remaining div 60000; hours = mins div 60 in
        if remaining \<le> 0 then ''Expired''
        else if mins < 60 then show_int mins @ ''m''
        else if hours < 24 then show_int hours @ ''h '' @ show_int (mins mod 60) @ ''m''
        else show_int (hours div 24) @ ''d '' @ show_int (hours mod 24) @ ''h'')))"

section \<open>The table\<close>

definition handleSort :: "sort_field \<Rightarrow> sessions_page \<Rightarrow> sessions_page" where
  "handleSort f p = (if sp_sortField p = f then p\<lparr>sp_asc := \<not> sp_asc p\<rparr> else p\<lparr>sp_sortField := f, sp_asc := True\<rparr>)"

definition clear_filters :: "sessions_page \<Rightarrow> sessions_page" where
  "clear_filters p = p\<lparr>sp_search := [], sp_deviceFilter := ''All'', sp_locationFilter := []\<rparr>"

definition locationOptions :: "session list \<Rightarrow> string list" where
  "locationOptions ss = ''All'' # js_sort (\<lambda>a b. str_less b a)
     (foldl (\<lambda>locs s. if getLocationStr s \<noteq> ''Unknown'' then js_add (getLocationStr s) locs else locs) [] ss)"

text \<open>\<open>valA < valB\<close> in each case of the switch; the missing expiry is \<open>Infinity\<close>.\<close>

definition time_less :: "int option \<Rightarrow> int option \<Rightarrow> bool" where
  "time_less a b = (case (a, b) of (Some x, Some y) \<Rightarrow> x < y | _ \<Rightarrow> False)"

definition expiry_less :: "(string \<Rightarrow> int option) \<Rightarrow> session \<Rightarrow> session \<Rightarrow> bool" where
  "expiry_less date a b = (if ss_expires a = [] then False
     else if ss_expires b = [] then date (ss_expires a) \<noteq> None
     else time_less (date (ss_expires a)) (date (ss_expires b)))"

definition session_less :: "(string \<Rightarrow> int option) \<Rightarrow> sort_field \<Rightarrow> session \<Rightarrow> session \<Rightarrow> bool" where
  "session_less date f a b = (case f of
      SfUser \<Rightarrow> str_less (to_lower (getDisplayName a)) (to_lower (getDisplayName b))
    | SfIp \<Rightarrow> str_less (ss_ip a) (ss_ip b)
    | SfDevice \<Rightarrow> str_less (getDeviceType a) (getDeviceType b)
    | SfLocation \<Rightarrow> str_less (getLocationStr a) (getLocationStr b)
    | SfLastActive \<Rightarrow> time_less (date (last_seen a)) (date (last_seen b))
    | SfExpires \<Rightarrow> expiry_less date a b)"

definition session_shown :: "sessions_page \<Rightarrow> session \<Rightarrow> bool" where
  "session_shown p s =
     ((trim (sp_search p) = [] \<or> (let q = to_lower (sp_search p) in
         str_includes (to_lower (getDisplayName s)) q \<or> str_includes (to_lower (ss_email s)) q \<or> str_includes (to_lower (ss_ip s)) q)) \<and>
      (sp_deviceFilter p = ''All'' \<or> getDeviceType s = sp_deviceFilter p) \<and>
      (sp_locationFilter p = [] \<or> sp_locationFilter p = ''All'' \<or> getLocationStr s = sp_locationFilter p))"

definition processedSessions :: "(string \<Rightarrow> int option) \<Rightarrow> sessions_page \<Rightarrow> session list" where
  "processedSessions date p = js_sort
     (\<lambda>a b. if sp_asc p then session_less date (sp_sortField p) b a else session_less date (sp_sortField p) a b)
     (filter (session_shown p) (sp_sessions p))"

definition uniqueDevices :: "(string \<Rightarrow> int option) \<Rightarrow> sessions_page \<Rightarrow> nat" where
  "uniqueDevices date p = length (remdups (map getDeviceType (processedSessions date p)))"

definition sessionsNearExpiry :: "(string \<Rightarrow> int option) \<Rightarrow> int \<Rightarrow> sessions_page \<Rightarrow> session list" where
  "sessionsNearExpiry date t p = filter (near_expiry date t) (sp_sessions p)"

section \<open>The order of the table\<close>

text \<open>The column sorts consistently for sessions whose times parse.\<close>

definition times_parse :: "(string \<Rightarrow> int option) \<Rightarrow> session \<Rightarrow> bool" where
  "times_parse date s = (date (last_seen s) \<noteq> None \<and> (ss_expires s = [] \<or> date (ss_expires s) \<noteq> None))"

lemma session_less_asym:
  "times_parse date a \<Longrightarrow> times_parse date b \<Longrightarrow> session_less date f a b \<Longrightarrow> \<not> session_less date f b a"
  by (cases f) (auto simp: session_less_def str_less_asym time_less_def expiry_less_def times_parse_def split: if_splits)

lemma session_less_cases:
  assumes "times_parse date a" "times_parse date b" "times_parse date c" "session_less date f a c"
  shows "session_less date f a b \<or> session_less date f b c"
proof (cases f)
  case SfExpires
  then show ?thesis using assms by (auto simp: session_less_def expiry_less_def time_less_def times_parse_def split: if_splits)
qed (use assms in \<open>auto simp: session_less_def time_less_def times_parse_def dest: str_less_cases\<close>)

definition row_after :: "(string \<Rightarrow> int option) \<Rightarrow> sessions_page \<Rightarrow> session \<Rightarrow> session \<Rightarrow> bool" where
  "row_after date p a b = (if sp_asc p then session_less date (sp_sortField p) b a else session_less date (sp_sortField p) a b)"

lemma processed_eq: "processedSessions date p = js_sort (row_after date p) (filter (session_shown p) (sp_sessions p))"
proof -
  have "row_after date p = (\<lambda>a b. if sp_asc p then session_less date (sp_sortField p) b a else session_less date (sp_sortField p) a b)"
    by (intro ext) (simp add: row_after_def)
  then show ?thesis by (simp add: processedSessions_def)
qed

interpretation rows: js_order "row_after date p" "times_parse date" for date p
  by unfold_locales (auto simp: row_after_def dest: session_less_asym session_less_cases)

lemma processed_count: "count_list (processedSessions date p) s = (if session_shown p s then count_list (sp_sessions p) s else 0)"
proof -
  have "count_list (filter P xs) s = (if P s then count_list xs s else 0)" for P and xs :: "session list"
    by (induction xs) auto
  then show ?thesis by (simp add: processed_eq)
qed

lemma locationOptions_set: "set (locationOptions ss) = insert ''All'' (getLocationStr ` set ss - {''Unknown''})"
proof -
  have "set (foldl (\<lambda>locs s. if getLocationStr s \<noteq> ''Unknown'' then js_add (getLocationStr s) locs else locs) acc ss)
      = set acc \<union> (getLocationStr ` set ss - {''Unknown''})" for acc
    by (induction ss arbitrary: acc) (auto simp: js_add_def)
  then show ?thesis by (simp add: locationOptions_def)
qed

section \<open>Loading\<close>

lemma sessions_of_nth:
  "sessions_of (JArr vs) = Some ss \<Longrightarrow> length ss = length vs \<and> (\<forall>i < length vs. ss ! i = session_at i (vs ! i))"
  by (auto simp: sessions_of_def is_array_def split: if_splits)

text \<open>A refused or broken request shows an empty list and no error.\<close>

lemma failed_load_is_empty:
  assumes "fst (apiFetch E base tenant ''/api/v1/auth/sessions'' no_options w) = Inl x"
  shows "fst (loadSessions E base tenant (p, w)) = p\<lparr>sp_sessions := [], sp_error := None, sp_loading := False\<rparr>"
  using assms by (auto simp: loadSessions_def split: prod.splits)

text \<open>The stored policy is read back, except that a limit of zero is shown as five.\<close>

lemma policy_reload:
  assumes "fst (apiFetch E base tenant (policy_path tenant) no_options w) = Inr (session_policy_json p)" "sp_timeout p \<noteq> 0"
  shows "fst (loadPolicy E base tenant (q, w)) = q\<lparr>sp_timeout := sp_timeout p, sp_limit := sp_limit p,
     sp_max := (if sp_limit p \<and> sp_max p \<noteq> 0 then sp_max p else 5)\<rparr>"
  using assms by (auto simp: loadPolicy_def session_policy_json_def number_or_def js_number_def js_opt_prop_def split: prod.splits)

lemma form_bounds:
  "5 \<le> sp_timeout (change_timeout v p)" "sp_timeout (change_timeout v p) \<le> 1440"
  "sp_limit p \<Longrightarrow> 1 \<le> sp_max (change_max v p) \<and> sp_max (change_max v p) \<le> 100"
  by (simp_all add: change_timeout_def change_max_def)

section \<open>Labels\<close>

text \<open>A phone whose user agent names Linux, as every Android browser's does, or Mac OS X, as every iPhone's does, is not shown as a phone's
  system.\<close>

lemma parseOS_phones:
  "ua_has [''linux''] ua \<Longrightarrow> parseOS ua \<noteq> ''Android'' \<and> parseOS ua \<noteq> ''iOS''"
  "ua_has [''mac os x''] ua \<Longrightarrow> parseOS ua \<noteq> ''Android'' \<and> parseOS ua \<noteq> ''iOS''"
  by (auto simp: parseOS_def ua_has_def)

lemma parseOS_android:
  "parseOS ''Mozilla/5.0 (Linux; Android 14; Pixel 8) Chrome/120 Mobile Safari/537'' = ''Linux''"
  by code_simp

lemma expiring_is_warned:
  "getSessionStatus date t s = StExpiring \<Longrightarrow> s \<in> set (sp_sessions p) \<Longrightarrow> s \<in> set (sessionsNearExpiry date t p)"
  by (auto simp: getSessionStatus_def sessionsNearExpiry_def split: if_splits)

lemma name_parts_nonempty: "q \<in> set (name_parts acc s) \<Longrightarrow> q \<noteq> []"
  by (induction acc s rule: name_parts.induct) (auto split: if_splits)

lemma getInitials_length: "1 \<le> length (getInitials s) \<and> length (getInitials s) \<le> 2"
  by (auto simp: getInitials_def or_else_def Let_def Suc_le_eq)

section \<open>Revoking\<close>

lemma page_handleRevoke_eq:
  "fst (page_handleRevoke t E base tenant i (p, w)) =
     p\<lparr>sp_sessions := filter (\<lambda>s. ss_id s \<noteq> i) (sp_sessions p), sp_msg := Some (t ''sessions.sessionrevoked''),
       sp_revokingId := None, sp_revokeTarget := None\<rparr>"
  by (simp add: page_handleRevoke_def split: prod.splits sum.splits)

lemma handleRevokeAll_eq:
  "fst (handleRevokeAll t E base tenant (p, w)) =
     p\<lparr>sp_sessions := filter ss_current (sp_sessions p), sp_msg := Some (t ''sessions.allothersessionsrevoked''),
       sp_revokingAll := False, sp_showRevokeAll := False\<rparr>"
  by (simp add: handleRevokeAll_def Let_def split: prod.splits sum.splits)

text \<open>A path with \<open>/auth/\<close> is requested once: there is no refresh.\<close>

lemma apiFetch_auth_once:
  assumes "str_includes path ''/auth/''"
  shows "sent (snd (apiFetch E base tenant path opts w)) = sent w @ [api_request base path opts (api_headers tenant opts w)]"
  using assms by (auto simp: apiFetch_def Let_def dest: fetch_frame(5) split: prod.splits outcome.splits option.splits)

lemma revoke_path_auth: "str_includes ''/api/v1/auth/sessions/revoke'' ''/auth/''" "str_includes ''/api/v1/auth/sessions'' ''/auth/''"
  by code_simp+

lemma page_handleRevoke_sent:
  "sent (snd (page_handleRevoke t E base tenant i (p, w))) =
     sent w @ [api_request base ''/api/v1/auth/sessions/revoke'' (page_revoke_options [i]) (api_headers tenant (page_revoke_options [i]) w)]"
  using apiFetch_auth_once[OF revoke_path_auth(1), of E base tenant "page_revoke_options [i]" w]
  by (auto simp: page_handleRevoke_def split: prod.splits sum.splits)

lemma handleRevokeAll_sent:
  "sent (snd (handleRevokeAll t E base tenant (p, w))) = sent w @
     (let ids = page_otherIds (sp_sessions p) in if ids = [] then []
      else [api_request base ''/api/v1/auth/sessions/revoke'' (page_revoke_options ids) (api_headers tenant (page_revoke_options ids) w)])"
  using apiFetch_auth_once[OF revoke_path_auth(1), of E base tenant "page_revoke_options (page_otherIds (sp_sessions p))" w]
  by (auto simp: handleRevokeAll_def Let_def split: prod.splits sum.splits)

section \<open>Properties\<close>

text \<open>Revoking on the sessions page is announced, not checked: for every server, the one that refuses every request among
  them, the page ends in the same state after one request to revoke, with the session gone from the list and the message that it was
  revoked; ``revoke all'' likewise, with one request for the identifiers of the sessions that are not marked as current, or none if there are
  none.\<close>

lemma revoke_announced_unchecked:
  "fst (page_handleRevoke t E base tenant i (p, w)) = fst (page_handleRevoke t E' base tenant i (p, w')) \<and>
   i \<notin> ss_id ` set (sp_sessions (fst (page_handleRevoke t E base tenant i (p, w)))) \<and>
   sp_msg (fst (page_handleRevoke t E base tenant i (p, w))) = Some (t ''sessions.sessionrevoked'') \<and>
   (\<exists>rq. sent (snd (page_handleRevoke t E base tenant i (p, w))) = sent w @ [rq] \<and> rbody rq = o_body (page_revoke_options [i])) \<and>
   fst (handleRevokeAll t E base tenant (p, w)) = fst (handleRevokeAll t E' base tenant (p, w')) \<and>
   sp_sessions (fst (handleRevokeAll t E base tenant (p, w))) = filter ss_current (sp_sessions p) \<and>
   (\<exists>rqs. sent (snd (handleRevokeAll t E base tenant (p, w))) = sent w @ rqs \<and>
     map rbody rqs = (if page_otherIds (sp_sessions p) = [] then [] else [o_body (page_revoke_options (page_otherIds (sp_sessions p)))]))"
  by (auto simp: page_handleRevoke_eq handleRevokeAll_eq page_handleRevoke_sent handleRevokeAll_sent api_request_def Let_def)

text \<open>The table of sessions holds the sessions that the filters let through, each as often as it was loaded; no row comes before one
  that belongs before it in the chosen column and direction, and rows that the column does not tell apart keep the order of the
  server.\<close>

lemma session_table_sorted:
  assumes "\<forall>s \<in> set (sp_sessions p). times_parse date s"
  shows "(\<forall>s. count_list (processedSessions date p) s = (if session_shown p s then count_list (sp_sessions p) s else 0)) \<and>
    sorted_wrt (\<lambda>a b. \<not> row_after date p a b) (processedSessions date p) \<and>
    (\<forall>z. times_parse date z \<longrightarrow> filter (\<lambda>y. \<not> row_after date p y z \<and> \<not> row_after date p z y) (processedSessions date p) =
      filter (\<lambda>y. \<not> row_after date p y z \<and> \<not> row_after date p z y) (filter (session_shown p) (sp_sessions p)))"
  using assms by (intro conjI allI impI) (simp_all add: processed_count, simp_all add: processed_eq rows.sorted rows.stable)

definition session_named :: "string \<Rightarrow> string \<Rightarrow> session" where
  "session_named i d = \<lparr>ss_id = i, ss_ip = [], ss_ua = [], ss_created = d, ss_last = [], ss_expires = [], ss_device = [], ss_location = [],
     ss_city = [], ss_country = [], ss_user_id = [], ss_user_name = i, ss_username = [], ss_email = [], ss_current = False\<rparr>"

lemma session_table_sorted_example:
  "map ss_id (processedSessions (\<lambda>d. Some (int (length d))) (sessions_init\<lparr>sp_sessions := [session_named ''b'' ''xx'', session_named ''a'' ''x'']\<rparr>))
     = [''a'', ''b''] \<and>
   sorted_wrt (\<lambda>a b. \<not> row_after (\<lambda>d. Some (int (length d))) (sessions_init\<lparr>sp_sessions := [session_named ''b'' ''xx'', session_named ''a'' ''x'']\<rparr>) a b)
     (processedSessions (\<lambda>d. Some (int (length d))) (sessions_init\<lparr>sp_sessions := [session_named ''b'' ''xx'', session_named ''a'' ''x'']\<rparr>))"
proof -
  let ?p = "sessions_init\<lparr>sp_sessions := [session_named ''b'' ''xx'', session_named ''a'' ''x'']\<rparr>"
  have "map ss_id (processedSessions (\<lambda>d. Some (int (length d))) ?p) = [''a'', ''b'']" by code_simp
  then show ?thesis
    using session_table_sorted[of ?p "\<lambda>d. Some (int (length d))"] by (simp add: times_parse_def)
qed

end
