(* ===== verification/Json_Pretty.thy ===== *)
theory Json_Pretty
  imports Json
begin

text \<open>
  \<open>JSON.stringify(v, null, 2)\<close>, the text with line breaks and indentation that pages show, export and import.  That the
  parser reads it back is shown for every way of putting white space between the tokens of a value: the relation
  \<open>layout\<close> says which texts are a value's, and the indented text and the short one are two of them.
\<close>

section \<open>Printing with indentation\<close>

definition line_break :: "nat \<Rightarrow> string" where
  "line_break d = CHR 0x0A # replicate d (CHR '' '')"

fun join_sep :: "string \<Rightarrow> string list \<Rightarrow> string" where
  "join_sep sep [] = []"
| "join_sep sep [s] = s"
| "join_sep sep (s # t # ts) = s @ sep @ join_sep sep (t # ts)"

fun pretty_text :: "nat \<Rightarrow> jsv \<Rightarrow> string" where
  "pretty_text d (JArr vs) = (if vs = [] then ''[]'' else
     ''['' @ line_break (d + 2) @ join_sep ('','' @ line_break (d + 2)) (map (pretty_text (d + 2)) vs) @ line_break d @ '']'')"
| "pretty_text d (JObj kvs) = (if kvs = [] then ''{}'' else
     ''{'' @ line_break (d + 2) @
       join_sep ('','' @ line_break (d + 2)) (map (\<lambda>(k, v). json_quote k @ '': '' @ pretty_text (d + 2) v) kvs) @ line_break d @ ''}'')"
| "pretty_text d v = json_text v"

definition json_pretty :: "jsv \<Rightarrow> string" where
  "json_pretty v = pretty_text 0 (json_norm v)"

section \<open>Layouts\<close>

definition blank :: "string \<Rightarrow> bool" where
  "blank a = list_all json_ws a"

definition atom :: "jsv \<Rightarrow> bool" where
  "atom v = (case v of JUndef \<Rightarrow> False | JArr _ \<Rightarrow> False | JObj _ \<Rightarrow> False | _ \<Rightarrow> True)"

text \<open>The texts of a value, of the items of an array up to its bracket and of the members of an object up to its
  brace.\<close>

inductive layout :: "jsv \<Rightarrow> string \<Rightarrow> bool"
  and layout_items :: "jsv list \<Rightarrow> string \<Rightarrow> bool"
  and layout_members :: "(string \<times> jsv) list \<Rightarrow> string \<Rightarrow> bool" where
  atomic: "atom v \<Longrightarrow> layout v (json_text v)"
| space: "blank a \<Longrightarrow> layout v s \<Longrightarrow> layout v (a @ s)"
| arr_nil: "blank a \<Longrightarrow> layout (JArr []) (CHR ''['' # a @ '']'')"
| arr: "layout_items vs s \<Longrightarrow> layout (JArr vs) (CHR ''['' # s)"
| obj_nil: "blank a \<Longrightarrow> layout (JObj []) (CHR ''{'' # a @ ''}'')"
| obj: "layout_members kvs s \<Longrightarrow> distinct (map fst kvs) \<Longrightarrow> layout (JObj kvs) (CHR ''{'' # s)"
| last_item: "layout v s \<Longrightarrow> blank a \<Longrightarrow> layout_items [v] (s @ a @ '']'')"
| item: "layout v s \<Longrightarrow> blank a \<Longrightarrow> layout_items vs t \<Longrightarrow> layout_items (v # vs) (s @ a @ CHR '','' # t)"
| last_member: "blank b \<Longrightarrow> blank c \<Longrightarrow> layout v s \<Longrightarrow> blank a \<Longrightarrow>
    layout_members [(k, v)] (b @ json_quote k @ c @ CHR '':'' # s @ a @ ''}'')"
| member: "blank b \<Longrightarrow> blank c \<Longrightarrow> layout v s \<Longrightarrow> blank a \<Longrightarrow> layout_members kvs t \<Longrightarrow>
    layout_members ((k, v) # kvs) (b @ json_quote k @ c @ CHR '':'' # s @ a @ CHR '','' # t)"

lemma skip_blank [simp]: "blank a \<Longrightarrow> skip_ws (a @ s) = skip_ws s"
  by (simp add: blank_def skip_ws_def list_all_iff dropWhile_append2)

lemma skip_quote [simp]: "skip_ws (json_quote k @ s) = json_quote k @ s"
  by (simp add: json_quote_def)

lemma delim_blank: "blank a \<Longrightarrow> delim s \<Longrightarrow> delim (a @ s)"
  by (cases a) (auto simp: blank_def delim_def)

lemma p_value_blank: "blank a \<Longrightarrow> p_value f (a @ s) = p_value f s"
  by (cases f) simp_all

lemma skip_ws_append: "skip_ws s = c # t \<Longrightarrow> skip_ws (s @ r) = c # t @ r"
  by (induction s) (auto simp: skip_ws_def)

text \<open>A layout starts with a character other than a closing bracket after its white space.\<close>

lemma layout_first:
  "layout v s \<Longrightarrow> \<exists>c t. skip_ws s = c # t \<and> \<not> json_ws c \<and> c \<noteq> CHR '']''"
  "layout_items vs t \<Longrightarrow> \<exists>c u. skip_ws t = c # u \<and> c \<noteq> CHR '']''"
  "layout_members kvs u \<Longrightarrow> \<exists>c x. skip_ws u = c # x \<and> c \<noteq> CHR ''}''"
proof (induction rule: layout_layout_items_layout_members.inducts)
  case (atomic v)
  obtain c t where "json_text v = c # t" "\<not> json_ws c" "c \<noteq> CHR '']''" by (rule json_text_first)
  then show ?case by simp
next
  case (last_item v s a)
  then show ?case using skip_ws_append by fastforce
next
  case (item v s a vs t)
  then show ?case using skip_ws_append by fastforce
qed (auto simp: json_quote_def)

section \<open>Every layout is read\<close>

lemma p_value_atom:
  assumes "atom v" "delim r" "2 * length (json_text v) < f"
  shows "p_value f (json_text v @ r) = Some (v, r)"
proof -
  have "json_clean v" using assms(1) by (cases v) (auto simp: atom_def)
  then show ?thesis using reads_clean readsD assms(2,3) by blast
qed

lemma layout_reads:
  "layout v s \<Longrightarrow> delim r \<Longrightarrow> 2 * length s < f \<Longrightarrow> p_value f (s @ r) = Some (v, r)"
  "layout_items vs t \<Longrightarrow> 2 * length t < f \<Longrightarrow> p_items f (t @ r) = Some (vs, r)"
  "layout_members kvs u \<Longrightarrow> 2 * length u < f \<Longrightarrow> p_members f (u @ r) = Some (kvs, r)"
proof (induction arbitrary: f r and f r and f r rule: layout_layout_items_layout_members.inducts)
  case (atomic v)
  then show ?case by (intro p_value_atom)
next
  case (space a v s)
  then show ?case by (simp add: p_value_blank)
next
  case (arr_nil a)
  then show ?case by (cases f) simp_all
next
  case (arr vs s)
  obtain g where f: "f = Suc g" using arr.prems by (cases f) auto
  obtain c u where c: "skip_ws s = c # u" "c \<noteq> CHR '']''" using layout_first(2)[OF arr.hyps] by blast
  have "p_items g (s @ r) = Some (vs, r)" using arr.prems f by (intro arr.IH) simp
  then show ?case using c skip_ws_append[OF c(1)] by (simp add: f)
next
  case (obj_nil a)
  then show ?case by (cases f) simp_all
next
  case (obj kvs s)
  obtain g where f: "f = Suc g" using obj.prems by (cases f) auto
  obtain c u where c: "skip_ws s = c # u" "c \<noteq> CHR ''}''" using layout_first(3)[OF obj.hyps(1)] by blast
  have "p_members g (s @ r) = Some (kvs, r)" using obj.prems f by (intro obj.IH) simp
  then show ?case using c skip_ws_append[OF c(1)] obj.hyps(2) by (simp add: f mk_obj_distinct)
next
  case (last_item v s a)
  obtain g where f: "f = Suc g" using last_item.prems by (cases f) auto
  have "p_value g (s @ a @ CHR '']'' # r) = Some (v, a @ CHR '']'' # r)"
    using last_item.prems last_item.hyps f by (intro last_item.IH delim_blank) simp_all
  then show ?case using last_item.hyps by (simp add: f)
next
  case (item v s a vs t)
  obtain g where f: "f = Suc g" using item.prems by (cases f) auto
  have "p_value g (s @ a @ CHR '','' # t @ r) = Some (v, a @ CHR '','' # t @ r)"
    using item.prems item.hyps f by (intro item.IH(1) delim_blank) simp_all
  moreover have "p_items g (t @ r) = Some (vs, r)" using item.prems f by (intro item.IH(2)) simp
  ultimately show ?case using item.hyps by (simp add: f)
next
  case (last_member b c v s a k)
  obtain g where f: "f = Suc g" using last_member.prems by (cases f) auto
  have "p_value g (s @ a @ CHR ''}'' # r) = Some (v, a @ CHR ''}'' # r)"
    using last_member.prems last_member.hyps f by (intro last_member.IH delim_blank) simp_all
  then show ?case using last_member.hyps by (simp add: f json_quote_def p_chars_quote)
next
  case (member b c v s a kvs t k)
  obtain g where f: "f = Suc g" using member.prems by (cases f) auto
  have "p_value g (s @ a @ CHR '','' # t @ r) = Some (v, a @ CHR '','' # t @ r)"
    using member.prems member.hyps f by (intro member.IH(1) delim_blank) simp_all
  moreover have "p_members g (t @ r) = Some (kvs, r)" using member.prems f by (intro member.IH(2)) simp
  ultimately show ?case using member.hyps by (simp add: f json_quote_def p_chars_quote)
qed

lemma json_parse_layout: "layout v s \<Longrightarrow> json_parse s = Some v"
  using layout_reads(1)[of v s "[]" "Suc (2 * length s)"] by (simp add: json_parse_def skip_ws_def)

section \<open>The indented text is a layout\<close>

lemma blank_simps [simp]: "blank []" "blank (line_break d)" "blank '' ''"
  by (simp_all add: blank_def line_break_def json_ws_def list_all_iff)

lemma pretty_items:
  "vs \<noteq> [] \<Longrightarrow> (\<And>v. v \<in> set vs \<Longrightarrow> layout v (g v)) \<Longrightarrow> blank a \<Longrightarrow> blank b \<Longrightarrow>
   layout_items vs (a @ join_sep (CHR '','' # a) (map g vs) @ b @ '']'')"
proof (induction vs)
  case (Cons v vs)
  have v: "layout v (a @ g v)" using Cons.prems by (intro layout_layout_items_layout_members.space) simp_all
  show ?case
  proof (cases vs)
    case Nil
    then show ?thesis using layout_layout_items_layout_members.last_item[OF v Cons.prems(4)] by simp
  next
    case (Cons w ws)
    then have "layout_items vs (a @ join_sep (CHR '','' # a) (map g vs) @ b @ '']'')"
      using Cons.prems Cons.IH by simp
    from layout_layout_items_layout_members.item[OF v blank_simps(1) this] show ?thesis using \<open>vs = w # ws\<close> by simp
  qed
qed simp

lemma pretty_members:
  "kvs \<noteq> [] \<Longrightarrow> (\<And>k v. (k, v) \<in> set kvs \<Longrightarrow> layout v (g v)) \<Longrightarrow> blank a \<Longrightarrow> blank b \<Longrightarrow>
   layout_members kvs (a @ join_sep (CHR '','' # a) (map (\<lambda>(k, v). json_quote k @ '': '' @ g v) kvs) @ b @ ''}'')"
proof (induction kvs)
  case (Cons kv kvs)
  obtain k v where kv: "kv = (k, v)" by (cases kv)
  have v: "layout v ('' '' @ g v)" using Cons.prems kv by (intro layout_layout_items_layout_members.space) auto
  show ?case
  proof (cases kvs)
    case Nil
    then show ?thesis using layout_layout_items_layout_members.last_member[OF Cons.prems(3) blank_simps(1) v Cons.prems(4), of k] kv by simp
  next
    case (Cons w ws)
    then have "layout_members kvs (a @ join_sep (CHR '','' # a) (map (\<lambda>(k, v). json_quote k @ '': '' @ g v) kvs) @ b @ ''}'')"
      using Cons.prems Cons.IH by auto
    from layout_layout_items_layout_members.member[OF Cons.prems(3) blank_simps(1) v blank_simps(1) this, of k]
    show ?thesis using kv \<open>kvs = w # ws\<close> by simp
  qed
qed simp

lemma pretty_atom:
  assumes "atom v"
  shows "layout v (pretty_text d v)"
proof -
  have "pretty_text d v = json_text v" using assms by (cases v) (auto simp: atom_def)
  then show ?thesis using layout_layout_items_layout_members.atomic[OF assms] by simp
qed

lemma pretty_layout: "json_clean v \<Longrightarrow> layout v (pretty_text d v)"
proof (induction v arbitrary: d)
  case (JArr vs)
  show ?case
  proof (cases "vs = []")
    case True
    then show ?thesis using layout_layout_items_layout_members.arr_nil[OF blank_simps(1)] by simp
  next
    case False
    have "layout_items vs (line_break (d + 2) @ join_sep (CHR '','' # line_break (d + 2)) (map (pretty_text (d + 2)) vs) @ line_break d @ '']'')"
      using False JArr by (intro pretty_items) (auto simp: list_all_iff)
    from layout_layout_items_layout_members.arr[OF this] show ?thesis using False by simp
  qed
next
  case (JObj kvs)
  show ?case
  proof (cases "kvs = []")
    case True
    then show ?thesis using layout_layout_items_layout_members.obj_nil[OF blank_simps(1)] by simp
  next
    case False
    have "layout v (pretty_text (d + 2) v)" if "(k, v) \<in> set kvs" for k v
      using JObj that by (fastforce simp: list_all_iff)
    then have "layout_members kvs (line_break (d + 2) @
        join_sep (CHR '','' # line_break (d + 2)) (map (\<lambda>(k, v). json_quote k @ '': '' @ pretty_text (d + 2) v) kvs) @ line_break d @ ''}'')"
      using False by (intro pretty_members) auto
    from layout_layout_items_layout_members.obj[OF this] show ?thesis using False JObj.prems by simp
  qed
next
  case JUndef
  then show ?case by simp
qed (rule pretty_atom, simp add: atom_def)+

lemma json_parse_pretty: "keys_distinct v \<Longrightarrow> json_parse (json_pretty v) = Some (json_norm v)"
  unfolding json_pretty_def by (intro json_parse_layout pretty_layout json_clean_norm)

lemma json_pretty_clean: "json_clean v \<Longrightarrow> json_parse (json_pretty v) = Some v"
  unfolding json_pretty_def by (simp add: json_norm_clean json_parse_layout pretty_layout)

end
