(* ===== verification/Policy_Editor.thy ===== *)
theory Policy_Editor
  imports Api_Client Json_Pretty
begin

text \<open>
  The policy editor (\<open>console/src/app/policies/page.tsx\<close>): the list of policies, the rule editor with its JSON text, the
  matrix of role permissions, the builder of attribute rules, export, import, saving, deleting and the dry run.  The page takes what a
  file or the server holds without checking it, so the values it keeps are JSON values.  Its handlers run on a page that
  is shown: \<open>page_renders\<close> says when rendering does not throw.  \<open>refresh\<close>, which the handlers start without waiting, is
  run at its end; the fields it sets are set by nothing else meanwhile.  The text of a chosen file and the answer to
  \<open>prompt\<close> are arguments, \<open>exported_at\<close> is the argument \<open>stamp\<close>; the timer that hides a message is left out.
\<close>

section \<open>Data\<close>

record policies_page =
  pp_policies :: jsv
  pp_loading :: bool
  pp_error :: "string option"
  pp_msg :: "string option"
  pp_selected :: "jsv option"
  pp_json :: string
  pp_rules :: jsv
  pp_name :: jsv
  pp_drySubject :: string
  pp_dryResource :: string
  pp_dryAction :: string
  pp_dryResult :: "(jsv \<times> jsv) option"
  pp_dryLoading :: bool
  pp_priority :: jsv
  pp_effect :: jsv
  pp_rbac :: "jsv list"
  pp_abac :: "jsv list"
  pp_deleteTarget :: "(string \<times> jsv) option"
  pp_condSeq :: nat
  pp_abacSeq :: nat

definition PERMISSION_COLUMNS :: "string list" where
  "PERMISSION_COLUMNS = [''read'', ''write'', ''delete'', ''admin'']"

definition rbac_entry :: "string \<Rightarrow> bool \<Rightarrow> bool \<Rightarrow> bool \<Rightarrow> bool \<Rightarrow> jsv" where
  "rbac_entry n r w d a = JObj [(''role'', JStr n),
     (''permissions'', JObj [(''read'', JBool r), (''write'', JBool w), (''delete'', JBool d), (''admin'', JBool a)])]"

definition policies_init :: policies_page where
  "policies_init = \<lparr>pp_policies = JArr [], pp_loading = True, pp_error = None, pp_msg = None, pp_selected = None, pp_json = [],
     pp_rules = JArr [], pp_name = JStr [], pp_drySubject = [], pp_dryResource = [], pp_dryAction = [], pp_dryResult = None,
     pp_dryLoading = False, pp_priority = JNum 50, pp_effect = JStr ''allow'',
     pp_rbac = [rbac_entry ''admin'' True True True True, rbac_entry ''editor'' True True False False, rbac_entry ''viewer'' True False False False],
     pp_abac = [], pp_deleteTarget = None, pp_condSeq = 0, pp_abacSeq = 0\<rparr>"

section \<open>Loading, saving, deleting\<close>

definition policies_refresh ::
  "'w env \<Rightarrow> string \<Rightarrow> string \<Rightarrow> policies_page \<times> 'w world \<Rightarrow> policies_page \<times> 'w world" where
  "policies_refresh E base tenant pw = (case pw of (p, w) \<Rightarrow>
     (case apiFetch E base tenant ''/api/v1/policies'' no_options w of
        (Inl x, w1) \<Rightarrow> (p\<lparr>pp_error := Some (api_exn_message E x), pp_loading := False\<rparr>, w1)
      | (Inr data, w1) \<Rightarrow>
          if nullish data then (p\<lparr>pp_error := Some (type_message E), pp_loading := False\<rparr>, w1)
          else (p\<lparr>pp_policies := js_or (js_opt_prop data ''policies'') (js_or (js_opt_prop data ''items'') (JArr [])),
                  pp_error := None, pp_loading := False\<rparr>, w1)))"

definition selectPolicy :: "jsv \<Rightarrow> policies_page \<Rightarrow> policies_page" where
  "selectPolicy v p = p\<lparr>pp_selected := Some v, pp_name := js_opt_prop v ''name'', pp_rules := js_or (js_opt_prop v ''rules'') (JArr []),
     pp_priority := js_nullish (js_opt_prop v ''priority'') (JNum 50), pp_effect := js_nullish (js_opt_prop v ''effect'') (JStr ''allow''),
     pp_json := json_pretty v\<rparr>"

definition resetEditor :: "policies_page \<Rightarrow> policies_page" where
  "resetEditor p = p\<lparr>pp_selected := None, pp_name := JStr [], pp_rules := JArr [], pp_json := [], pp_priority := JNum 50,
     pp_effect := JStr ''allow''\<rparr>"

definition policy_payload :: "policies_page \<Rightarrow> jsv" where
  "policy_payload p = JObj [(''name'', js_or (pp_name p) (JStr ''Untitled Policy'')), (''rules'', pp_rules p),
     (''priority'', pp_priority p), (''effect'', pp_effect p)]"

definition post_options :: "jsv \<Rightarrow> req_options" where
  "post_options v = \<lparr>o_method = Some ''POST'', o_headers = [], o_body = Some (json_stringify v)\<rparr>"

definition handleCreatePolicy ::
  "'w env \<Rightarrow> string \<Rightarrow> string \<Rightarrow> policies_page \<times> 'w world \<Rightarrow> policies_page \<times> 'w world" where
  "handleCreatePolicy E base tenant pw = (case pw of (p, w) \<Rightarrow>
     (case apiFetch E base tenant ''/api/v1/policies'' (post_options (policy_payload p)) w of
        (Inl x, w1) \<Rightarrow> (p\<lparr>pp_error := Some (api_exn_message E x)\<rparr>, w1)
      | (Inr _, w1) \<Rightarrow>
          policies_refresh E base tenant ((resetEditor p)\<lparr>pp_msg := Some ''Policy created successfully'', pp_loading := True\<rparr>, w1)))"

definition handleDeletePolicy ::
  "'w env \<Rightarrow> string \<Rightarrow> string \<Rightarrow> string \<Rightarrow> policies_page \<times> 'w world \<Rightarrow> policies_page \<times> 'w world" where
  "handleDeletePolicy E base tenant i pw = (case pw of (p, w) \<Rightarrow>
     (case apiFetch E base tenant (''/api/v1/policies/'' @ i) \<lparr>o_method = Some ''DELETE'', o_headers = [], o_body = None\<rparr> w of
        (Inl x, w1) \<Rightarrow> (p\<lparr>pp_error := Some (api_exn_message E x), pp_deleteTarget := None\<rparr>, w1)
      | (Inr _, w1) \<Rightarrow>
          (let p1 = (if pp_selected p \<noteq> None \<and> js_opt_prop (the (pp_selected p)) ''id'' = JStr i then resetEditor p else p)
           in policies_refresh E base tenant
                (p1\<lparr>pp_msg := Some ''Policy deleted'', pp_deleteTarget := None, pp_loading := True\<rparr>, w1))))"

text \<open>\<open>data.allow ?? data.decision === "allow"\<close>; the answer and its detail.\<close>

definition dry_run_allow :: "jsv \<Rightarrow> jsv" where
  "dry_run_allow data = js_nullish (js_opt_prop data ''allow'') (JBool (js_opt_prop data ''decision'' = JStr ''allow''))"

definition dry_run_result :: "'w env \<Rightarrow> api_exn + jsv \<Rightarrow> jsv \<times> jsv" where
  "dry_run_result E r = (case r of
      Inl x \<Rightarrow> (JBool False, JStr (api_exn_message E x))
    | Inr data \<Rightarrow> if nullish data then (JBool False, JStr (type_message E)) else (dry_run_allow data, js_opt_prop data ''detail''))"

text \<open>The button is disabled while a field is empty or a run is under way.\<close>

definition handleDryRun ::
  "'w env \<Rightarrow> string \<Rightarrow> string \<Rightarrow> policies_page \<times> 'w world \<Rightarrow> policies_page \<times> 'w world" where
  "handleDryRun E base tenant pw = (case pw of (p, w) \<Rightarrow>
     if pp_drySubject p = [] \<or> pp_dryResource p = [] \<or> pp_dryAction p = [] \<or> pp_dryLoading p then (p, w)
     else (case apiFetch E base tenant ''/api/v1/policies/dry-run'' (post_options (JObj [(''subject'', JStr (pp_drySubject p)),
              (''resource'', JStr (pp_dryResource p)), (''action'', JStr (pp_dryAction p))])) w of
        (r, w1) \<Rightarrow> (p\<lparr>pp_dryResult := Some (dry_run_result E r), pp_dryLoading := False\<rparr>, w1)))"

section \<open>Rules\<close>

text \<open>\<open>{ ...v, [k]: x }\<close> of an object; and the lists with the item at an index removed or changed.\<close>

definition js_with :: "jsv \<Rightarrow> string \<Rightarrow> jsv \<Rightarrow> jsv" where
  "js_with v k x = JObj (obj_set k x (case v of JObj kvs \<Rightarrow> kvs | _ \<Rightarrow> []))"

definition drop_index :: "nat \<Rightarrow> 'a list \<Rightarrow> 'a list" where
  "drop_index i xs = take i xs @ drop (Suc i) xs"

definition change_index :: "nat \<Rightarrow> ('a \<Rightarrow> 'a) \<Rightarrow> 'a list \<Rightarrow> 'a list" where
  "change_index i f xs = (if i < length xs then xs[i := f (xs ! i)] else xs)"

definition addRule :: "policies_page \<Rightarrow> policies_page" where
  "addRule p = p\<lparr>pp_rules := JArr (arr_items (pp_rules p) @
     [JObj [(''subject'', JStr []), (''resource'', JStr []), (''action'', JStr []), (''effect'', JStr ''allow'')]])\<rparr>"

definition removeRule :: "nat \<Rightarrow> policies_page \<Rightarrow> policies_page" where
  "removeRule i p = p\<lparr>pp_rules := JArr (drop_index i (arr_items (pp_rules p)))\<rparr>"

definition editor_updateRule :: "nat \<Rightarrow> string \<Rightarrow> string \<Rightarrow> policies_page \<Rightarrow> policies_page" where
  "editor_updateRule i f v p = p\<lparr>pp_rules := JArr (change_index i (\<lambda>r. js_with r f (JStr v)) (arr_items (pp_rules p)))\<rparr>"

definition syncJsonToRules :: "'w env \<Rightarrow> policies_page \<Rightarrow> policies_page" where
  "syncJsonToRules E p = (case json_parse (pp_json p) of
      None \<Rightarrow> p\<lparr>pp_error := Some (''Invalid JSON: '' @ syntax_message E)\<rparr>
    | Some v \<Rightarrow> if nullish v then p\<lparr>pp_error := Some (''Invalid JSON: '' @ type_message E)\<rparr>
        else p\<lparr>pp_rules := js_or (js_opt_prop v ''rules'') (JArr []), pp_name := js_or (js_opt_prop v ''name'') (pp_name p),
               pp_msg := Some ''JSON parsed and synced to rules''\<rparr>)"

section \<open>Export and import\<close>

definition export_all_text :: "string \<Rightarrow> policies_page \<Rightarrow> string" where
  "export_all_text stamp p = json_pretty (JObj [(''exported_at'', JStr stamp), (''policies'', pp_policies p)])"

definition handleExportAllJson :: "string \<Rightarrow> policies_page \<Rightarrow> (string \<times> string) \<times> policies_page" where
  "handleExportAllJson stamp p = ((''all_policies_'' @ take 10 stamp @ ''.json'', export_all_text stamp p),
     p\<lparr>pp_msg := Some ''All policies exported as JSON''\<rparr>)"

definition export_value :: "policies_page \<Rightarrow> jsv" where
  "export_value p = JObj [(''name'', js_or (pp_name p) (JStr ''Untitled Policy'')), (''rules'', pp_rules p),
     (''priority'', pp_priority p), (''effect'', pp_effect p), (''rbac'', JArr (pp_rbac p)), (''abac'', JArr (pp_abac p))]"

text \<open>\<open>/[^a-z0-9]/gi\<close>.\<close>

definition file_char :: "char \<Rightarrow> char" where
  "file_char c = (let n = of_char c :: nat in
     if 97 \<le> n \<and> n \<le> 122 \<or> 65 \<le> n \<and> n \<le> 90 \<or> 48 \<le> n \<and> n \<le> 57 then c else CHR ''_'')"

text \<open>The file's name and text; \<^term>\<open>None\<close> where the name is no string and \<open>replace\<close> throws.\<close>

definition handleExportJson :: "policies_page \<Rightarrow> ((string \<times> string) \<times> policies_page) option" where
  "handleExportJson p = (case js_or (pp_name p) (JStr ''policy'') of
      JStr n \<Rightarrow> Some ((map file_char n @ ''.json'', json_pretty (export_value p)), p\<lparr>pp_msg := Some ''Policy exported as JSON''\<rparr>)
    | _ \<Rightarrow> None)"

definition array_or :: "jsv \<Rightarrow> jsv list \<Rightarrow> jsv list" where
  "array_or v d = (case v of JArr vs \<Rightarrow> vs | _ \<Rightarrow> d)"

definition import_value :: "jsv \<Rightarrow> policies_page \<Rightarrow> policies_page" where
  "import_value v p = p\<lparr>pp_name := js_or (js_opt_prop v ''name'') (JStr ''Imported Policy''),
     pp_rules := js_or (js_opt_prop v ''rules'') (JArr []),
     pp_priority := (case js_opt_prop v ''priority'' of JNum n \<Rightarrow> JNum n | _ \<Rightarrow> JNum 50),
     pp_effect := JStr (if js_opt_prop v ''effect'' = JStr ''deny'' then ''deny'' else ''allow''),
     pp_json := json_pretty v,
     pp_rbac := array_or (js_opt_prop v ''rbac'') (pp_rbac p),
     pp_abac := array_or (js_opt_prop v ''abac'') (pp_abac p),
     pp_msg := Some ''Policy imported successfully''\<rparr>"

definition handleImportJson :: "'w env \<Rightarrow> string option \<Rightarrow> policies_page \<Rightarrow> policies_page" where
  "handleImportJson E file p = (case file of None \<Rightarrow> p | Some txt \<Rightarrow>
     (case json_parse txt of
        None \<Rightarrow> p\<lparr>pp_error := Some (''Failed to parse JSON file: '' @ syntax_message E)\<rparr>
      | Some v \<Rightarrow> if nullish v then p\<lparr>pp_error := Some (''Failed to parse JSON file: '' @ type_message E)\<rparr>
          else import_value v p))"

section \<open>Role permissions and attribute rules\<close>

definition addRbacRole :: "string option \<Rightarrow> policies_page \<Rightarrow> policies_page" where
  "addRbacRole answer p = (if present answer
     then p\<lparr>pp_rbac := pp_rbac p @ [rbac_entry (the answer) False False False False]\<rparr> else p)"

definition removeRbacRole :: "nat \<Rightarrow> policies_page \<Rightarrow> policies_page" where
  "removeRbacRole i p = p\<lparr>pp_rbac := drop_index i (pp_rbac p)\<rparr>"

definition toggle_permission :: "string \<Rightarrow> jsv \<Rightarrow> jsv" where
  "toggle_permission perm e = (let ps = js_opt_prop e ''permissions'' in
     js_with e ''permissions'' (js_with ps perm (JBool (\<not> truthy (js_opt_prop ps perm)))))"

definition toggleRbacPermission :: "nat \<Rightarrow> string \<Rightarrow> policies_page \<Rightarrow> policies_page" where
  "toggleRbacPermission i perm p = p\<lparr>pp_rbac := change_index i (toggle_permission perm) (pp_rbac p)\<rparr>"

definition renameRbacRole :: "nat \<Rightarrow> string \<Rightarrow> policies_page \<Rightarrow> policies_page" where
  "renameRbacRole i name p = p\<lparr>pp_rbac := change_index i (\<lambda>e. js_with e ''role'' (JStr name)) (pp_rbac p)\<rparr>"

definition makeCondition :: "int \<Rightarrow> nat \<Rightarrow> jsv" where
  "makeCondition t n = JObj [(''id'', JStr (''cond-'' @ show_int t @ ''-'' @ show_nat n)), (''target'', JStr ''subject''),
     (''attribute'', JStr []), (''operator'', JStr ''eq''), (''value'', JStr [])]"

definition makeAbacRule :: "int \<Rightarrow> nat \<Rightarrow> nat \<Rightarrow> jsv" where
  "makeAbacRule t m n = JObj [(''id'', JStr (''abac-'' @ show_int t @ ''-'' @ show_nat m)), (''conditions'', JArr [makeCondition t n]),
     (''effect'', JStr ''allow'')]"

definition addAbacRule :: "int \<Rightarrow> policies_page \<Rightarrow> policies_page" where
  "addAbacRule t p = p\<lparr>pp_abac := pp_abac p @ [makeAbacRule t (pp_abacSeq p) (pp_condSeq p)],
     pp_abacSeq := Suc (pp_abacSeq p), pp_condSeq := Suc (pp_condSeq p)\<rparr>"

text \<open>Identifiers of a rule and a condition are compared with \<open>===\<close>; they are strings, or missing in imported rules.\<close>

abbreviation id_of :: "jsv \<Rightarrow> jsv" where
  "id_of v \<equiv> js_opt_prop v ''id''"

definition removeAbacRule :: "jsv \<Rightarrow> policies_page \<Rightarrow> policies_page" where
  "removeAbacRule i p = p\<lparr>pp_abac := filter (\<lambda>r. id_of r \<noteq> i) (pp_abac p)\<rparr>"

definition change_rule :: "jsv \<Rightarrow> (jsv \<Rightarrow> jsv) \<Rightarrow> jsv list \<Rightarrow> jsv list" where
  "change_rule i f rs = map (\<lambda>r. if id_of r = i then f r else r) rs"

definition conditions_of :: "jsv \<Rightarrow> jsv list" where
  "conditions_of r = arr_items (js_opt_prop r ''conditions'')"

text \<open>The updater makes one condition for each rule with the identifier, all numbered from the counter on.\<close>

fun add_conditions :: "int \<Rightarrow> jsv \<Rightarrow> nat \<Rightarrow> jsv list \<Rightarrow> jsv list \<times> nat" where
  "add_conditions t i n [] = ([], n)"
| "add_conditions t i n (r # rs) =
     (if id_of r = i
      then (case add_conditions t i (Suc n) rs of (rs', m) \<Rightarrow> (js_with r ''conditions'' (JArr (conditions_of r @ [makeCondition t n])) # rs', m))
      else (case add_conditions t i n rs of (rs', m) \<Rightarrow> (r # rs', m)))"

definition addAbacCondition :: "int \<Rightarrow> jsv \<Rightarrow> policies_page \<Rightarrow> policies_page" where
  "addAbacCondition t i p = (case add_conditions t i (pp_condSeq p) (pp_abac p) of (rs, n) \<Rightarrow> p\<lparr>pp_abac := rs, pp_condSeq := n\<rparr>)"

definition removeAbacCondition :: "jsv \<Rightarrow> jsv \<Rightarrow> policies_page \<Rightarrow> policies_page" where
  "removeAbacCondition i c p = p\<lparr>pp_abac := change_rule i
     (\<lambda>r. js_with r ''conditions'' (JArr (filter (\<lambda>x. id_of x \<noteq> c) (conditions_of r)))) (pp_abac p)\<rparr>"

definition updateAbacCondition :: "jsv \<Rightarrow> jsv \<Rightarrow> string \<Rightarrow> string \<Rightarrow> policies_page \<Rightarrow> policies_page" where
  "updateAbacCondition i c f v p = p\<lparr>pp_abac := change_rule i
     (\<lambda>r. js_with r ''conditions'' (JArr (map (\<lambda>x. if id_of x = c then js_with x f (JStr v) else x) (conditions_of r)))) (pp_abac p)\<rparr>"

definition updateAbacEffect :: "jsv \<Rightarrow> string \<Rightarrow> policies_page \<Rightarrow> policies_page" where
  "updateAbacEffect i e p = p\<lparr>pp_abac := change_rule i (\<lambda>r. js_with r ''effect'' (JStr e)) (pp_abac p)\<rparr>"

section \<open>Rendering\<close>

text \<open>With its sections open, rendering maps over the policies, the rules, the entries, the attribute rules and their conditions and reads properties of each;
  \<open>permissions\<close> of an entry is read too.\<close>

definition row_ok :: "jsv \<Rightarrow> bool" where
  "row_ok v = (\<not> nullish v)"

definition rbac_ok :: "jsv \<Rightarrow> bool" where
  "rbac_ok e = (row_ok e \<and> row_ok (js_opt_prop e ''permissions''))"

definition abac_ok :: "jsv \<Rightarrow> bool" where
  "abac_ok r = (row_ok r \<and> is_array (js_opt_prop r ''conditions'') \<and> list_all row_ok (conditions_of r))"

definition page_renders :: "policies_page \<Rightarrow> bool" where
  "page_renders p = (is_array (pp_policies p) \<and> list_all row_ok (arr_items (pp_policies p)) \<and>
     is_array (pp_rules p) \<and> list_all row_ok (arr_items (pp_rules p)) \<and>
     list_all rbac_ok (pp_rbac p) \<and> list_all abac_ok (pp_abac p))"

section \<open>Edits keep the page rendering\<close>

datatype editor_edit =
    AddRule | RemoveRule nat | UpdateRule nat string string | Name string | Priority int | Effect string | Reset
  | AddRole "string option" | RemoveRole nat | TogglePerm nat string | RenameRole nat string
  | AddAbac int | RemoveAbac jsv | AddCond int jsv | RemoveCond jsv jsv | UpdateCond jsv jsv string string | AbacEffect jsv string

fun edit_policy :: "editor_edit \<Rightarrow> policies_page \<Rightarrow> policies_page" where
  "edit_policy AddRule p = addRule p"
| "edit_policy (RemoveRule i) p = removeRule i p"
| "edit_policy (UpdateRule i f v) p = editor_updateRule i f v p"
| "edit_policy (Name n) p = p\<lparr>pp_name := JStr n\<rparr>"
| "edit_policy (Priority n) p = p\<lparr>pp_priority := JNum n\<rparr>"
| "edit_policy (Effect e) p = p\<lparr>pp_effect := JStr e\<rparr>"
| "edit_policy Reset p = resetEditor p"
| "edit_policy (AddRole n) p = addRbacRole n p"
| "edit_policy (RemoveRole i) p = removeRbacRole i p"
| "edit_policy (TogglePerm i k) p = toggleRbacPermission i k p"
| "edit_policy (RenameRole i n) p = renameRbacRole i n p"
| "edit_policy (AddAbac t) p = addAbacRule t p"
| "edit_policy (RemoveAbac i) p = removeAbacRule i p"
| "edit_policy (AddCond t i) p = addAbacCondition t i p"
| "edit_policy (RemoveCond i c) p = removeAbacCondition i c p"
| "edit_policy (UpdateCond i c f v) p = updateAbacCondition i c f v p"
| "edit_policy (AbacEffect i e) p = updateAbacEffect i e p"

lemma js_with_prop [simp]: "js_opt_prop (js_with v k x) k' = (if k' = k then x else if (\<exists>kvs. v = JObj kvs) then js_opt_prop v k' else JUndef)"
  by (cases v) (auto simp: js_with_def js_opt_prop_def assoc_obj_set)

lemma row_ok_with [simp]: "row_ok (js_with v k x)"
  by (simp add: row_ok_def js_with_def)

lemma list_all_drop_index: "list_all P xs \<Longrightarrow> list_all P (drop_index i xs)"
  by (auto simp: drop_index_def list_all_iff dest: in_set_takeD in_set_dropD)

lemma list_all_change_index: "list_all P xs \<Longrightarrow> (\<And>x. P x \<Longrightarrow> P (f x)) \<Longrightarrow> list_all P (change_index i f xs)"
  unfolding change_index_def list_all_iff by (auto dest!: set_update_subset_insert[THEN subsetD])

lemma list_all_change_rule: "list_all P rs \<Longrightarrow> (\<And>r. P r \<Longrightarrow> P (f r)) \<Longrightarrow> list_all P (change_rule i f rs)"
  by (auto simp: change_rule_def list_all_iff)

text \<open>A value with an array of conditions is an object.\<close>

lemma array_prop_obj: "is_array (js_opt_prop v k) \<Longrightarrow> \<exists>kvs. v = JObj kvs"
  by (cases v) (auto simp: js_opt_prop_def is_array_def)

lemma abac_ok_conditions: "list_all row_ok cs \<Longrightarrow> abac_ok (js_with r ''conditions'' (JArr cs))"
  by (simp add: abac_ok_def conditions_of_def is_array_def)

lemma abac_ok_effect: "abac_ok r \<Longrightarrow> abac_ok (js_with r ''effect'' e)"
  by (auto simp: abac_ok_def conditions_of_def dest: array_prop_obj)

lemma row_ok_makeCondition [simp]: "row_ok (makeCondition t n)"
  by (simp add: makeCondition_def row_ok_def)

lemma abac_ok_make [simp]: "abac_ok (makeAbacRule t m n)"
  by (simp add: makeAbacRule_def abac_ok_def conditions_of_def row_ok_def is_array_def makeCondition_def js_opt_prop_def)

lemma abac_ok_conds: "abac_ok r \<Longrightarrow> list_all row_ok (conditions_of r)"
  by (simp add: abac_ok_def)

lemma add_conditions_ok: "list_all abac_ok rs \<Longrightarrow> list_all abac_ok (fst (add_conditions t i n rs))"
  by (induction t i n rs rule: add_conditions.induct) (auto simp: abac_ok_conditions abac_ok_conds split: prod.splits)

lemmas edit_defs = addRule_def removeRule_def editor_updateRule_def resetEditor_def addRbacRole_def removeRbacRole_def toggleRbacPermission_def
  renameRbacRole_def addAbacRule_def removeAbacRule_def removeAbacCondition_def updateAbacCondition_def updateAbacEffect_def

lemma rbac_ok_entry [simp]: "rbac_ok (rbac_entry n r w d a)"
  by (simp add: rbac_ok_def rbac_entry_def row_ok_def js_opt_prop_def)

lemma rbac_ok_rename: "rbac_ok e \<Longrightarrow> rbac_ok (js_with e ''role'' x)"
  by (cases e) (auto simp: rbac_ok_def row_ok_def js_opt_prop_def js_with_def assoc_obj_set)

lemma rbac_ok_toggle: "rbac_ok (toggle_permission k e)"
  by (simp add: toggle_permission_def Let_def rbac_ok_def)

lemma abac_ok_remove: "abac_ok r \<Longrightarrow> abac_ok (js_with r ''conditions'' (JArr (filter Q (conditions_of r))))"
  by (rule abac_ok_conditions) (auto simp: abac_ok_def list_all_iff)

lemma abac_ok_update: "abac_ok r \<Longrightarrow> abac_ok (js_with r ''conditions'' (JArr (map (\<lambda>x. if Q x then js_with x f v else x) (conditions_of r))))"
  by (rule abac_ok_conditions) (auto simp: abac_ok_def list_all_iff)

lemma list_all_filter': "list_all P xs \<Longrightarrow> list_all P (filter Q xs)"
  by (auto simp: list_all_iff)

lemma edit_renders:
  assumes "page_renders p"
  shows "page_renders (edit_policy e p)"
proof (cases e)
  case (AddCond t i)
  then show ?thesis
    using assms add_conditions_ok[of "pp_abac p" t i "pp_condSeq p"] by (auto simp: page_renders_def addAbacCondition_def split: prod.splits)
qed (use assms in \<open>auto simp: page_renders_def edit_defs is_array_def row_ok_def[of "JObj _"] rbac_ok_rename rbac_ok_toggle abac_ok_remove abac_ok_update abac_ok_effect
    intro!: list_all_drop_index list_all_change_index list_all_change_rule list_all_filter'\<close>)

lemma edits_render: "page_renders p \<Longrightarrow> page_renders (fold edit_policy es p)"
  by (induction es arbitrary: p) (simp_all add: edit_renders)

section \<open>Export and import\<close>

text \<open>The values of an editor whose fields have their declared types.\<close>

definition editor_typed :: "policies_page \<Rightarrow> bool" where
  "editor_typed p = ((\<exists>n. pp_name p = JStr n) \<and> is_array (pp_rules p) \<and> json_clean (pp_rules p) \<and> (\<exists>n. pp_priority p = JNum n) \<and>
     pp_effect p \<in> {JStr ''allow'', JStr ''deny''} \<and> list_all json_clean (pp_rbac p) \<and> list_all json_clean (pp_abac p))"

lemma export_value_clean: "editor_typed p \<Longrightarrow> json_clean (export_value p)"
  by (auto simp: editor_typed_def export_value_def js_or_def)

lemma export_props:
  "js_opt_prop (export_value p) ''name'' = js_or (pp_name p) (JStr ''Untitled Policy'')"
  "js_opt_prop (export_value p) ''rules'' = pp_rules p"
  "js_opt_prop (export_value p) ''priority'' = pp_priority p"
  "js_opt_prop (export_value p) ''effect'' = pp_effect p"
  "js_opt_prop (export_value p) ''rbac'' = JArr (pp_rbac p)"
  "js_opt_prop (export_value p) ''abac'' = JArr (pp_abac p)"
  by (simp_all add: export_value_def js_opt_prop_def)

lemma import_export_value:
  assumes "editor_typed p"
  shows "import_value (export_value p) q = q\<lparr>pp_name := js_or (pp_name p) (JStr ''Untitled Policy''), pp_rules := pp_rules p,
     pp_priority := pp_priority p, pp_effect := pp_effect p, pp_json := json_pretty (export_value p), pp_rbac := pp_rbac p, pp_abac := pp_abac p,
     pp_msg := Some ''Policy imported successfully''\<rparr>"
proof -
  obtain m n e where v: "pp_name p = JStr m" "pp_priority p = JNum n" "pp_effect p = JStr e" "e = ''allow'' \<or> e = ''deny''"
    using assms unfolding editor_typed_def by blast
  have "(if JStr e = JStr ''deny'' then ''deny'' else ''allow'') = e" using v(4) by auto
  moreover have "truthy (js_or (JStr m) (JStr ''Untitled Policy''))" by (simp add: js_or_def)
  moreover have "truthy (pp_rules p)" using assms by (auto simp: editor_typed_def is_array_def split: jsv.splits)
  ultimately show ?thesis by (simp add: import_value_def export_props array_or_def v(1-3))
qed

section \<open>Saving\<close>

lemma refresh_extends: "\<exists>us. sent (snd (policies_refresh E base tenant (q, v))) = sent v @ us"
proof -
  have "snd (policies_refresh E base tenant (q, v)) = snd (apiFetch E base tenant ''/api/v1/policies'' no_options v)"
    by (auto simp: policies_refresh_def split: prod.splits sum.splits)
  then show ?thesis using apiFetch_sent[of E base tenant "''/api/v1/policies''" no_options v] by auto
qed

lemma create_first_request:
  "\<exists>rs. sent (snd (handleCreatePolicy E base tenant (p, w))) =
     sent w @ api_request base ''/api/v1/policies'' (post_options (policy_payload p)) (api_headers tenant (post_options (policy_payload p)) w) # rs"
proof -
  let ?r = "apiFetch E base tenant ''/api/v1/policies'' (post_options (policy_payload p)) w"
  obtain rs where rs: "sent (snd ?r) = sent w @
      api_request base ''/api/v1/policies'' (post_options (policy_payload p)) (api_headers tenant (post_options (policy_payload p)) w) # rs"
    using apiFetch_sent by blast
  show ?thesis
  proof (cases "fst ?r")
    case (Inl x)
    then show ?thesis using rs by (simp add: handleCreatePolicy_def case_prod_beta)
  next
    case (Inr d)
    then show ?thesis
      using rs refresh_extends[of E base tenant "(resetEditor p)\<lparr>pp_msg := Some ''Policy created successfully'', pp_loading := True\<rparr>" "snd ?r"]
      by (auto simp: handleCreatePolicy_def case_prod_beta)
  qed
qed

section \<open>Properties\<close>

text \<open>C27. A policy exported from the editor and imported again, into any editor, brings back its rules, priority, effect, role
  permissions and attribute rules, its name with the default for an empty one, and the JSON text is the text of the file.\<close>

theorem policy_export_import:
  assumes "editor_typed p" "handleExportJson p = Some ((name, txt), p')"
  shows "handleImportJson E (Some txt) q = q\<lparr>pp_name := js_or (pp_name p) (JStr ''Untitled Policy''), pp_rules := pp_rules p,
     pp_priority := pp_priority p, pp_effect := pp_effect p, pp_json := txt, pp_rbac := pp_rbac p, pp_abac := pp_abac p,
     pp_msg := Some ''Policy imported successfully''\<rparr>"
proof -
  have t: "txt = json_pretty (export_value p)"
    using assms(2) by (auto simp: handleExportJson_def split: jsv.splits)
  moreover have "\<not> nullish (export_value p)" by (simp add: export_value_def)
  ultimately show ?thesis
    using json_pretty_clean[OF export_value_clean[OF assms(1)]] import_export_value[OF assms(1), of q]
    by (simp add: handleImportJson_def)
qed

theorem policy_export_import_witness:
  "\<exists>txt. handleExportJson policies_init = Some ((''policy.json'', txt), policies_init\<lparr>pp_msg := Some ''Policy exported as JSON''\<rparr>) \<and>
     pp_rbac (handleImportJson (always NetError) (Some txt) (policies_init\<lparr>pp_rbac := []\<rparr>)) = pp_rbac policies_init"
proof -
  have e: "handleExportJson policies_init = Some ((''policy.json'', json_pretty (export_value policies_init)),
      policies_init\<lparr>pp_msg := Some ''Policy exported as JSON''\<rparr>)"
    by (simp add: handleExportJson_def policies_init_def file_char_def)
  have "editor_typed policies_init"
    by (simp add: editor_typed_def policies_init_def is_array_def rbac_entry_def)
  from policy_export_import[OF this e, of "always NetError" "policies_init\<lparr>pp_rbac := []\<rparr>"] e show ?thesis by simp
qed

text \<open>Every sequence of edits keeps the policy page showing, but a file whose \<open>rules\<close> is a JSON value other than an array
  (and not false, zero, the empty string or null) is reported as imported and leaves a page that cannot be rendered.\<close>

lemma import_breaks_page:
  "page_renders (fold edit_policy es policies_init) \<and>
   (json_parse txt = Some v \<and> truthy (js_opt_prop v ''rules'') \<and> \<not> is_array (js_opt_prop v ''rules'') \<longrightarrow>
     pp_msg (handleImportJson E (Some txt) p) = Some ''Policy imported successfully'' \<and> \<not> page_renders (handleImportJson E (Some txt) p))"
proof -
  have "page_renders policies_init"
    by (simp add: page_renders_def policies_init_def is_array_def)
  then have "page_renders (fold edit_policy es policies_init)" by (rule edits_render)
  moreover have "\<not> nullish v" if "truthy (js_opt_prop v ''rules'')"
    using that by (cases v) (auto simp: js_opt_prop_def)
  ultimately show ?thesis by (simp add: handleImportJson_def import_value_def page_renders_def[of "_\<lparr>pp_msg := _\<rparr>"])
qed

lemma import_breaks_page_example:
  "json_parse ''{\"rules\":{}}'' = Some (JObj [(''rules'', JObj [])]) \<and>
   \<not> page_renders (handleImportJson (always NetError) (Some ''{\"rules\":{}}'') policies_init)"
proof -
  have "json_parse ''{\"rules\":{}}'' = Some (JObj [(''rules'', JObj [])])" by code_simp
  then show ?thesis
    using import_breaks_page[of "[]" "''{\"rules\":{}}''" "JObj [(''rules'', JObj [])]" "always NetError" policies_init]
    by (simp add: js_opt_prop_def is_array_def)
qed

text \<open>The button that saves the policy editor creates a policy whatever is selected: its first request is a POST to the collection, and its
  body is the same whichever policy was selected and whatever the matrix of role permissions and the attribute rules hold, though both are part
  of the exported file; selecting another policy keeps them.\<close>

lemma save_creates_and_drops:
  "\<exists>rq rs. sent (snd (handleCreatePolicy E base tenant (p, w))) = sent w @ rq # rs \<and> meth rq = ''POST'' \<and> url rq = base @ ''/api/v1/policies'' \<and>
     (\<forall>s r a. \<exists>rs'. sent (snd (handleCreatePolicy E base tenant (p\<lparr>pp_selected := s, pp_rbac := r, pp_abac := a\<rparr>, w))) = sent w @ rq # rs') \<and>
     (\<forall>v. js_opt_prop (export_value (selectPolicy v p)) ''abac'' = JArr (pp_abac p) \<and> js_opt_prop (export_value (selectPolicy v p)) ''rbac'' = JArr (pp_rbac p))"
proof -
  let ?rq = "api_request base ''/api/v1/policies'' (post_options (policy_payload p)) (api_headers tenant (post_options (policy_payload p)) w)"
  have same: "policy_payload (p\<lparr>pp_selected := s, pp_rbac := r, pp_abac := a\<rparr>) = policy_payload p" for s r a
    by (simp add: policy_payload_def)
  obtain rs where "sent (snd (handleCreatePolicy E base tenant (p, w))) = sent w @ ?rq # rs"
    using create_first_request by blast
  moreover have "\<exists>rs'. sent (snd (handleCreatePolicy E base tenant (p\<lparr>pp_selected := s, pp_rbac := r, pp_abac := a\<rparr>, w))) = sent w @ ?rq # rs'" for s r a
    using create_first_request[of E base tenant "p\<lparr>pp_selected := s, pp_rbac := r, pp_abac := a\<rparr>" w] unfolding same .
  moreover have "meth ?rq = ''POST''" "url ?rq = base @ ''/api/v1/policies''"
    by (simp_all add: api_request_def post_options_def)
  moreover have "\<forall>v. js_opt_prop (export_value (selectPolicy v p)) ''abac'' = JArr (pp_abac p) \<and> js_opt_prop (export_value (selectPolicy v p)) ''rbac'' = JArr (pp_rbac p)"
    by (simp add: export_props selectPolicy_def)
  ultimately show ?thesis by blast
qed

end
