(* ===== verification/Policy_Builder.thy ===== *)
theory Policy_Builder
  imports Policy_Editor
begin

text \<open>
  The visual policy builder (\<open>console/src/app/policies/builder/page.tsx\<close>): the nodes on the canvas, their validation, the policy
  they stand for, saving and the dry run.  Identifiers of nodes are \<open>node-<time>-<number>\<close> with a number from a counter of the
  module; the time of a click is an argument.  The colours of the highlighted JSON and the timer that hides a message are left out.
\<close>

section \<open>Data\<close>

datatype node_type = NSubject | NResource | NAction | NCondition

record policy_node =
  nd_id :: string
  nd_type :: node_type
  nd_attribute :: string
  nd_operator :: string
  nd_value :: string

fun type_name :: "node_type \<Rightarrow> string" where
  "type_name NSubject = ''subject''"
| "type_name NResource = ''resource''"
| "type_name NAction = ''action''"
| "type_name NCondition = ''condition''"

fun node_attributes :: "node_type \<Rightarrow> string list" where
  "node_attributes NSubject = [''role'', ''group'', ''department'', ''clearance_level'']"
| "node_attributes NResource = [''type'', ''owner'', ''department'', ''sensitivity'']"
| "node_attributes NAction = [''read'', ''write'', ''delete'', ''execute'', ''manage'']"
| "node_attributes NCondition = [''time'', ''location'', ''device_trust'']"

fun node_operators :: "node_type \<Rightarrow> string list option" where
  "node_operators NSubject = Some [''equals'', ''in'', ''contains'']"
| "node_operators NResource = Some [''equals'', ''in'', ''contains'']"
| "node_operators NAction = None"
| "node_operators NCondition = Some [''equals'', ''in'', ''contains'', ''between'']"

definition ALL_OPERATORS :: "string list" where
  "ALL_OPERATORS = [''equals'', ''in'', ''contains'', ''between'']"

record builder_page =
  bp_nodes :: "policy_node list"
  bp_name :: string
  bp_effect :: string
  bp_msg :: "string option"
  bp_msgType :: string
  bp_dryOpen :: bool
  bp_dryResult :: "(jsv \<times> jsv) option"
  bp_dryLoading :: bool
  bp_drySubject :: string
  bp_dryResource :: string
  bp_dryAction :: string
  bp_dragged :: "node_type option"
  bp_seq :: nat

definition builder_init :: builder_page where
  "builder_init = \<lparr>bp_nodes = [], bp_name = [], bp_effect = ''allow'', bp_msg = None, bp_msgType = ''success'', bp_dryOpen = False,
     bp_dryResult = None, bp_dryLoading = False, bp_drySubject = [], bp_dryResource = [], bp_dryAction = ''read'', bp_dragged = None, bp_seq = 0\<rparr>"

section \<open>Editing\<close>

text \<open>\<open>prefix-${Date.now()}-${seq}\<close>.\<close>

definition stamped_id :: "string \<Rightarrow> int \<Rightarrow> nat \<Rightarrow> string" where
  "stamped_id pre t n = pre @ show_int t @ ''-'' @ show_nat n"

definition makeNode :: "int \<Rightarrow> nat \<Rightarrow> node_type \<Rightarrow> policy_node" where
  "makeNode t n ty = \<lparr>nd_id = stamped_id ''node-'' t n, nd_type = ty, nd_attribute = [],
     nd_operator = (case node_operators ty of Some ops \<Rightarrow> hd ops | None \<Rightarrow> []), nd_value = []\<rparr>"

definition addNode :: "int \<Rightarrow> node_type \<Rightarrow> builder_page \<Rightarrow> builder_page" where
  "addNode t ty b = b\<lparr>bp_nodes := bp_nodes b @ [makeNode t (bp_seq b) ty], bp_seq := Suc (bp_seq b)\<rparr>"

definition deleteNode :: "string \<Rightarrow> builder_page \<Rightarrow> builder_page" where
  "deleteNode i b = b\<lparr>bp_nodes := filter (\<lambda>n. nd_id n \<noteq> i) (bp_nodes b)\<rparr>"

text \<open>The fields that the canvas changes.\<close>

datatype node_field = FAttribute | FOperator | FValue

fun set_field :: "node_field \<Rightarrow> string \<Rightarrow> policy_node \<Rightarrow> policy_node" where
  "set_field FAttribute v n = n\<lparr>nd_attribute := v\<rparr>"
| "set_field FOperator v n = n\<lparr>nd_operator := v\<rparr>"
| "set_field FValue v n = n\<lparr>nd_value := v\<rparr>"

definition updateNode :: "string \<Rightarrow> node_field \<Rightarrow> string \<Rightarrow> builder_page \<Rightarrow> builder_page" where
  "updateNode i f v b = b\<lparr>bp_nodes := map (\<lambda>n. if nd_id n = i then set_field f v n else n) (bp_nodes b)\<rparr>"

definition dragStart :: "node_type \<Rightarrow> builder_page \<Rightarrow> builder_page" where
  "dragStart ty b = b\<lparr>bp_dragged := Some ty\<rparr>"

definition builder_handleDrop :: "int \<Rightarrow> builder_page \<Rightarrow> builder_page" where
  "builder_handleDrop t b = (case bp_dragged b of None \<Rightarrow> b | Some ty \<Rightarrow> (addNode t ty b)\<lparr>bp_dragged := None\<rparr>)"

section \<open>Validation and the policy\<close>

definition node_errors :: "policy_node \<Rightarrow> (string \<times> string) list" where
  "node_errors n =
     (if nd_attribute n = [] \<and> nd_type n \<noteq> NAction then [(nd_id n, ''Attribute required'')] else []) @
     (if nd_value n = [] \<and> nd_type n \<noteq> NAction then [(nd_id n, ''Value required'')] else []) @
     (if nd_type n \<noteq> NAction \<and> nd_operator n \<noteq> [] \<and> nd_operator n \<notin> set ALL_OPERATORS then [(nd_id n, ''Invalid operator'')] else []) @
     (if nd_type n = NAction \<and> nd_attribute n = [] then [(nd_id n, ''Action required'')] else [])"

definition validationErrors :: "builder_page \<Rightarrow> (string \<times> string) list" where
  "validationErrors b = concat (map node_errors (bp_nodes b))"

definition errorCount :: "builder_page \<Rightarrow> nat" where
  "errorCount b = length (validationErrors b)"

definition getError :: "builder_page \<Rightarrow> string \<Rightarrow> string option" where
  "getError b i = map_option snd (find (\<lambda>e. fst e = i) (validationErrors b))"

definition node_part :: "policy_node \<Rightarrow> jsv" where
  "node_part n = JObj [(''attribute'', JStr (nd_attribute n)), (''operator'', JStr (nd_operator n)), (''value'', JStr (nd_value n))]"

definition node_json :: "policy_node \<Rightarrow> jsv" where
  "node_json n = JObj [(''type'', JStr (type_name (nd_type n))), (''attribute'', JStr (nd_attribute n)),
     (''operator'', JStr (nd_operator n)), (''value'', JStr (nd_value n))]"

definition nodes_of_type :: "node_type \<Rightarrow> builder_page \<Rightarrow> policy_node list" where
  "nodes_of_type ty b = filter (\<lambda>n. nd_type n = ty) (bp_nodes b)"

definition rule_json :: "builder_page \<Rightarrow> jsv" where
  "rule_json b = JObj [(''subjects'', JArr (map node_part (nodes_of_type NSubject b))),
     (''resources'', JArr (map node_part (nodes_of_type NResource b))),
     (''actions'', JArr (map (JStr \<circ> nd_attribute) (nodes_of_type NAction b))),
     (''conditions'', JArr (map node_part (nodes_of_type NCondition b))),
     (''effect'', JStr (bp_effect b))]"

definition buildPolicyJSON :: "builder_page \<Rightarrow> (string \<times> jsv) list" where
  "buildPolicyJSON b = [(''name'', JStr (if bp_name b = [] then ''Untitled Policy'' else bp_name b)), (''effect'', JStr (bp_effect b)),
     (''rules'', JArr [rule_json b]), (''nodes'', JArr (map node_json (bp_nodes b)))]"

section \<open>Saving and the dry run\<close>

definition builder_handleSave ::
  "'w env \<Rightarrow> string \<Rightarrow> string \<Rightarrow> builder_page \<times> 'w world \<Rightarrow> builder_page \<times> 'w world" where
  "builder_handleSave E base tenant bw = (case bw of (b, w) \<Rightarrow>
     if 0 < errorCount b then (b, w)
     else (case apiFetch E base tenant ''/api/v1/policies'' (post_options (JObj (buildPolicyJSON b))) w of
        (Inl x, w1) \<Rightarrow> (b\<lparr>bp_msg := Some (api_exn_message E x), bp_msgType := ''error''\<rparr>, w1)
      | (Inr _, w1) \<Rightarrow> (b\<lparr>bp_msg := Some ''Policy saved successfully'', bp_msgType := ''success''\<rparr>, w1)))"

definition dry_run_body :: "builder_page \<Rightarrow> jsv" where
  "dry_run_body b = JObj (buildPolicyJSON b @
     [(''subject'', JStr (if bp_drySubject b = [] then ''user:admin'' else bp_drySubject b)),
      (''resource'', JStr (if bp_dryResource b = [] then ''resource:dashboard'' else bp_dryResource b)),
      (''action'', JStr (bp_dryAction b))])"

definition builder_handleDryRun ::
  "'w env \<Rightarrow> string \<Rightarrow> string \<Rightarrow> builder_page \<times> 'w world \<Rightarrow> builder_page \<times> 'w world" where
  "builder_handleDryRun E base tenant bw = (case bw of (b, w) \<Rightarrow>
     if bp_dryLoading b then (b, w)
     else (case apiFetch E base tenant ''/api/v1/policies/dry-run'' (post_options (dry_run_body b)) w of
        (r, w1) \<Rightarrow> (b\<lparr>bp_dryResult := Some (dry_run_result E r), bp_dryLoading := False\<rparr>, w1)))"

section \<open>Identifiers\<close>

text \<open>The number of an identifier is its last digits.\<close>

lemma stamped_id_number: "takeWhile is_digit (rev (stamped_id pre t n)) = rev (show_nat n)"
proof -
  have "takeWhile is_digit (rev (show_nat n) @ CHR ''-'' # xs) = rev (show_nat n)" for xs
    using show_nat_digits by (subst takeWhile_append2) (auto simp: is_digit_def)
  then show ?thesis by (simp add: stamped_id_def)
qed

lemma stamped_id_inj: "stamped_id pre t n = stamped_id pre' t' m \<Longrightarrow> n = m"
  by (metis stamped_id_number nat_of_digits_show rev_rev_ident)

definition ids_wf :: "string \<Rightarrow> nat \<Rightarrow> string list \<Rightarrow> bool" where
  "ids_wf pre k ids = (distinct ids \<and> (\<forall>i \<in> set ids. \<exists>t n. n < k \<and> i = stamped_id pre t n))"

lemma ids_wf_new: "ids_wf pre k ids \<Longrightarrow> ids_wf pre (Suc k) (ids @ [stamped_id pre t k])"
  unfolding ids_wf_def by (auto dest: stamped_id_inj) (metis less_SucI)

lemma ids_wf_filter: "ids_wf pre k (map f xs) \<Longrightarrow> ids_wf pre k (map f (filter P xs))"
  by (auto simp: ids_wf_def distinct_map_filter)

definition builder_wf :: "builder_page \<Rightarrow> bool" where
  "builder_wf b = ids_wf ''node-'' (bp_seq b) (map nd_id (bp_nodes b))"

datatype builder_edit = BAdd int node_type | BDelete string | BUpdate string node_field string | BDrag node_type | BDrop int

fun edit_builder :: "builder_edit \<Rightarrow> builder_page \<Rightarrow> builder_page" where
  "edit_builder (BAdd t ty) b = addNode t ty b"
| "edit_builder (BDelete i) b = deleteNode i b"
| "edit_builder (BUpdate i f v) b = updateNode i f v b"
| "edit_builder (BDrag ty) b = dragStart ty b"
| "edit_builder (BDrop t) b = builder_handleDrop t b"

lemma set_field_frame [simp]: "nd_id (set_field f v n) = nd_id n" "nd_type (set_field f v n) = nd_type n"
  by (cases f; simp)+

lemma addNode_wf: "builder_wf b \<Longrightarrow> builder_wf (addNode t ty b)"
  by (simp add: builder_wf_def addNode_def makeNode_def ids_wf_new)

lemma updateNode_ids: "map nd_id (bp_nodes (updateNode i f v b)) = map nd_id (bp_nodes b)"
  by (simp add: updateNode_def)

lemma edit_builder_wf: "builder_wf b \<Longrightarrow> builder_wf (edit_builder e b)"
proof (cases e)
  case (BUpdate i f v)
  assume "builder_wf b"
  moreover have "bp_seq (updateNode i f v b) = bp_seq b" by (simp add: updateNode_def)
  ultimately show ?thesis using BUpdate by (simp add: builder_wf_def updateNode_ids)
next
  case (BDrop t)
  assume "builder_wf b"
  then have "builder_wf (addNode t ty b)" for ty by (rule addNode_wf)
  then show ?thesis using BDrop \<open>builder_wf b\<close> by (auto simp: builder_handleDrop_def builder_wf_def split: option.splits)
qed (auto simp: addNode_wf, auto simp: deleteNode_def dragStart_def builder_wf_def ids_wf_filter)

text \<open>With distinct identifiers, an update or a deletion concerns one node.\<close>

lemma map_if_id:
  assumes "distinct (map f xs)" "k < length xs" "\<And>x. f (g x) = f x"
  shows "map (\<lambda>x. if f x = f (xs ! k) then g x else x) xs = xs[k := g (xs ! k)]"
  using assms by (intro nth_equalityI) (auto simp: nth_list_update nth_eq_iff_index_eq distinct_map inj_on_eq_iff)

lemma filter_if_id:
  assumes "distinct (map f xs)" "k < length xs"
  shows "filter (\<lambda>x. f x \<noteq> f (xs ! k)) xs = take k xs @ drop (Suc k) xs"
proof -
  have d: "xs = take k xs @ xs ! k # drop (Suc k) xs" using assms(2) by (rule id_take_nth_drop)
  then have "distinct (map f (take k xs @ xs ! k # drop (Suc k) xs))" using assms(1) by simp
  then have "f (xs ! k) \<notin> f ` (set (take k xs) \<union> set (drop (Suc k) xs))" by auto
  then have "f x \<noteq> f (xs ! k)" if "x \<in> set (take k xs) \<union> set (drop (Suc k) xs)" for x using that by (metis image_eqI)
  then show ?thesis by (subst d, subst filter_append) (auto intro!: filter_True)
qed

section \<open>Validation\<close>

definition node_complete :: "policy_node \<Rightarrow> bool" where
  "node_complete n = (nd_attribute n \<noteq> [] \<and> (nd_type n = NAction \<or> nd_value n \<noteq> [] \<and> nd_operator n \<in> set ([] # ALL_OPERATORS)))"

lemma node_errors_none: "node_errors n = [] \<longleftrightarrow> node_complete n"
  by (cases "nd_type n = NAction"; cases "nd_attribute n = []"; cases "nd_value n = []"; cases "nd_operator n = []")
    (simp_all add: node_errors_def node_complete_def)

lemma errorCount_zero: "errorCount b = 0 \<longleftrightarrow> (\<forall>n \<in> set (bp_nodes b). node_complete n)"
  by (simp add: errorCount_def validationErrors_def node_errors_none)

section \<open>The policy\<close>

lemma policy_clean: "json_clean (JObj (buildPolicyJSON b))"
  by (simp add: buildPolicyJSON_def rule_json_def node_part_def node_json_def list_all_iff)

text \<open>Reading a saved policy: a node of a given type from its three texts, the list \<open>nodes\<close>, and a list of its rule.\<close>

definition read_parts :: "node_type \<Rightarrow> jsv \<Rightarrow> policy_node option" where
  "read_parts ty v = (case (js_opt_prop v ''attribute'', js_opt_prop v ''operator'', js_opt_prop v ''value'') of
     (JStr a, JStr o', JStr x) \<Rightarrow> Some \<lparr>nd_id = [], nd_type = ty, nd_attribute = a, nd_operator = o', nd_value = x\<rparr> | _ \<Rightarrow> None)"

definition read_node :: "jsv \<Rightarrow> policy_node option" where
  "read_node v = (case find (\<lambda>ty. js_opt_prop v ''type'' = JStr (type_name ty)) [NSubject, NResource, NAction, NCondition] of
     None \<Rightarrow> None | Some ty \<Rightarrow> read_parts ty v)"

definition read_list :: "(jsv \<Rightarrow> policy_node option) \<Rightarrow> string \<Rightarrow> jsv \<Rightarrow> policy_node list option" where
  "read_list rd k v = (case js_opt_prop v k of JArr vs \<Rightarrow> those (map rd vs) | _ \<Rightarrow> None)"

lemma those_reads: "(\<And>x. x \<in> set xs \<Longrightarrow> f x = Some (g x)) \<Longrightarrow> those (map f xs) = Some (map g xs)"
  by (induction xs) auto

lemma read_node_json: "read_node (node_json n) = Some (n\<lparr>nd_id := []\<rparr>)"
  by (cases n, cases "nd_type n") (simp_all add: read_node_def read_parts_def node_json_def js_opt_prop_def)

lemma read_node_part: "read_parts (nd_type n) (node_part n) = Some (n\<lparr>nd_id := []\<rparr>)"
  by (cases n) (simp add: read_parts_def node_part_def js_opt_prop_def)

lemma policy_read:
  "\<exists>rule. js_opt_prop (JObj (buildPolicyJSON b)) ''rules'' = JArr [rule] \<and> js_opt_prop rule ''effect'' = JStr (bp_effect b) \<and>
     read_list (read_parts NSubject) ''subjects'' rule = Some (map (nd_id_update (\<lambda>_. [])) (nodes_of_type NSubject b)) \<and>
     read_list (read_parts NResource) ''resources'' rule = Some (map (nd_id_update (\<lambda>_. [])) (nodes_of_type NResource b)) \<and>
     read_list (read_parts NCondition) ''conditions'' rule = Some (map (nd_id_update (\<lambda>_. [])) (nodes_of_type NCondition b)) \<and>
     js_opt_prop rule ''actions'' = JArr (map (JStr \<circ> nd_attribute) (nodes_of_type NAction b))"
  "read_list read_node ''nodes'' (JObj (buildPolicyJSON b)) = Some (map (nd_id_update (\<lambda>_. [])) (bp_nodes b))"
proof -
  have parts: "those (map (read_parts ty \<circ> node_part) (nodes_of_type ty b)) = Some (map (nd_id_update (\<lambda>_. [])) (nodes_of_type ty b))" for ty
    by (rule those_reads) (auto simp: nodes_of_type_def read_node_part)
  show "\<exists>rule. js_opt_prop (JObj (buildPolicyJSON b)) ''rules'' = JArr [rule] \<and> js_opt_prop rule ''effect'' = JStr (bp_effect b) \<and>
     read_list (read_parts NSubject) ''subjects'' rule = Some (map (nd_id_update (\<lambda>_. [])) (nodes_of_type NSubject b)) \<and>
     read_list (read_parts NResource) ''resources'' rule = Some (map (nd_id_update (\<lambda>_. [])) (nodes_of_type NResource b)) \<and>
     read_list (read_parts NCondition) ''conditions'' rule = Some (map (nd_id_update (\<lambda>_. [])) (nodes_of_type NCondition b)) \<and>
     js_opt_prop rule ''actions'' = JArr (map (JStr \<circ> nd_attribute) (nodes_of_type NAction b))"
    using parts by (intro exI[of _ "rule_json b"]) (simp add: buildPolicyJSON_def rule_json_def read_list_def js_opt_prop_def)
  have "those (map (read_node \<circ> node_json) (bp_nodes b)) = Some (map (nd_id_update (\<lambda>_. [])) (bp_nodes b))"
    by (rule those_reads) (simp add: read_node_json)
  then show "read_list read_node ''nodes'' (JObj (buildPolicyJSON b)) = Some (map (nd_id_update (\<lambda>_. [])) (bp_nodes b))"
    by (simp add: read_list_def buildPolicyJSON_def js_opt_prop_def)
qed

lemma builder_handleSave_sent:
  "(0 < errorCount b \<longrightarrow> builder_handleSave E base tenant (b, w) = (b, w)) \<and>
   (errorCount b = 0 \<longrightarrow> (\<exists>rs. sent (snd (builder_handleSave E base tenant (b, w))) = sent w @
      api_request base ''/api/v1/policies'' (post_options (JObj (buildPolicyJSON b))) (api_headers tenant (post_options (JObj (buildPolicyJSON b))) w) # rs))"
proof -
  have "snd (builder_handleSave E base tenant (b, w)) =
      snd (apiFetch E base tenant ''/api/v1/policies'' (post_options (JObj (buildPolicyJSON b))) w)" if "errorCount b = 0"
    using that by (auto simp: builder_handleSave_def split: prod.splits sum.splits)
  then show ?thesis
    using apiFetch_sent[of E base tenant "''/api/v1/policies''" "post_options (JObj (buildPolicyJSON b))" w]
    by (auto simp: builder_handleSave_def)
qed

text \<open>Findings: the empty canvas, and a node whose operator was taken back, count as valid.\<close>

lemma empty_canvas_valid: "errorCount (builder_init\<lparr>bp_effect := e\<rparr>) = 0"
  by (simp add: errorCount_zero builder_init_def)

lemma no_operator_valid:
  "errorCount b = 0 \<Longrightarrow> errorCount (updateNode i FOperator [] b) = 0"
  by (auto simp: errorCount_zero updateNode_def node_complete_def)

section \<open>Properties\<close>

text \<open>In every sequence of edits of the policy builder the identifiers of the nodes stay distinct, so that changing or
  deleting a node concerns the node in its place and no other.\<close>

lemma builder_edits_local:
  assumes "b = fold edit_builder es builder_init" "k < length (bp_nodes b)"
  shows "distinct (map nd_id (bp_nodes b)) \<and>
    bp_nodes (updateNode (nd_id (bp_nodes b ! k)) f v b) = (bp_nodes b)[k := set_field f v (bp_nodes b ! k)] \<and>
    bp_nodes (deleteNode (nd_id (bp_nodes b ! k)) b) = take k (bp_nodes b) @ drop (Suc k) (bp_nodes b)"
proof -
  have "builder_wf (fold edit_builder es c)" if "builder_wf c" for c
    using that by (induction es arbitrary: c) (simp_all add: edit_builder_wf)
  then have "builder_wf b" using assms(1) by (simp add: builder_init_def builder_wf_def ids_wf_def)
  then have d: "distinct (map nd_id (bp_nodes b))" by (simp add: builder_wf_def ids_wf_def)
  then show ?thesis
    using map_if_id[OF d assms(2), of "set_field f v"] filter_if_id[OF d assms(2)] by (simp add: updateNode_def deleteNode_def)
qed

lemma builder_edits_local_example:
  "nd_attribute (bp_nodes (updateNode (stamped_id ''node-'' 7 1) FAttribute ''role''
     (fold edit_builder [BAdd 7 NAction, BAdd 7 NSubject] builder_init)) ! 1) = ''role''"
  using builder_edits_local[of "fold edit_builder [BAdd 7 NAction, BAdd 7 NSubject] builder_init" "[BAdd 7 NAction, BAdd 7 NSubject]" 1 FAttribute "''role''"]
  by (simp add: addNode_def makeNode_def builder_init_def)

text \<open>C28. Saving in the policy builder sends nothing and changes nothing while some node has no attribute (an action: no action) or, unless it is an action, no value or
  an operator that is none of the four (no operator at all passes).  Otherwise the first request creates a policy whose body, read back, has the
  chosen effect, holds every node of the canvas in order in \<open>nodes\<close>, and has one rule, under that effect, whose subjects, resources and
  conditions are exactly the nodes of these types with all their texts, and whose actions are the chosen ones, each list in the order of the
  canvas.\<close>

theorem builder_saves_canvas:
  "((\<exists>n \<in> set (bp_nodes b). nd_attribute n = [] \<or> nd_type n \<noteq> NAction \<and>
        (nd_value n = [] \<or> nd_operator n \<notin> {[], ''equals'', ''in'', ''contains'', ''between''})) \<longrightarrow>
      builder_handleSave E base tenant (b, w) = (b, w)) \<and>
   ((\<forall>n \<in> set (bp_nodes b). nd_attribute n \<noteq> [] \<and> (nd_type n = NAction \<or>
        nd_value n \<noteq> [] \<and> nd_operator n \<in> {[], ''equals'', ''in'', ''contains'', ''between''})) \<longrightarrow>
      (\<exists>rq rs txt policy rule. sent (snd (builder_handleSave E base tenant (b, w))) = sent w @ rq # rs \<and>
        url rq = base @ ''/api/v1/policies'' \<and> meth rq = ''POST'' \<and> rbody rq = Some txt \<and> json_parse txt = Some policy \<and>
        js_opt_prop policy ''effect'' = JStr (bp_effect b) \<and>
        read_list read_node ''nodes'' policy = Some (map (nd_id_update (\<lambda>_. [])) (bp_nodes b)) \<and>
        js_opt_prop policy ''rules'' = JArr [rule] \<and> js_opt_prop rule ''effect'' = JStr (bp_effect b) \<and>
        read_list (read_parts NSubject) ''subjects'' rule = Some (map (nd_id_update (\<lambda>_. [])) (nodes_of_type NSubject b)) \<and>
        read_list (read_parts NResource) ''resources'' rule = Some (map (nd_id_update (\<lambda>_. [])) (nodes_of_type NResource b)) \<and>
        read_list (read_parts NCondition) ''conditions'' rule = Some (map (nd_id_update (\<lambda>_. [])) (nodes_of_type NCondition b)) \<and>
        js_opt_prop rule ''actions'' = JArr (map (JStr \<circ> nd_attribute) (nodes_of_type NAction b))))"
proof (intro conjI impI)
  note complete = errorCount_zero[of b, unfolded node_complete_def ALL_OPERATORS_def]
  assume "\<exists>n \<in> set (bp_nodes b). nd_attribute n = [] \<or> nd_type n \<noteq> NAction \<and>
      (nd_value n = [] \<or> nd_operator n \<notin> {[], ''equals'', ''in'', ''contains'', ''between''})"
  then have "errorCount b \<noteq> 0" using complete by auto
  then show "builder_handleSave E base tenant (b, w) = (b, w)" using builder_handleSave_sent[of b E base tenant w] by simp
next
  note complete = errorCount_zero[of b, unfolded node_complete_def ALL_OPERATORS_def]
  assume "\<forall>n \<in> set (bp_nodes b). nd_attribute n \<noteq> [] \<and> (nd_type n = NAction \<or>
      nd_value n \<noteq> [] \<and> nd_operator n \<in> {[], ''equals'', ''in'', ''contains'', ''between''})"
  then have "errorCount b = 0" using complete by simp
  then obtain rq rs where rq: "sent (snd (builder_handleSave E base tenant (b, w))) = sent w @ rq # rs" "url rq = base @ ''/api/v1/policies''"
    "meth rq = ''POST''" "rbody rq = Some (json_stringify (JObj (buildPolicyJSON b)))"
    using builder_handleSave_sent[of b E base tenant w] by (auto simp: api_request_def post_options_def)
  have "json_parse (json_stringify (JObj (buildPolicyJSON b))) = Some (JObj (buildPolicyJSON b))"
    by (rule json_stringify_clean[OF policy_clean])
  moreover have "js_opt_prop (JObj (buildPolicyJSON b)) ''effect'' = JStr (bp_effect b)" by (simp add: buildPolicyJSON_def js_opt_prop_def)
  ultimately show "\<exists>rq rs txt policy rule. sent (snd (builder_handleSave E base tenant (b, w))) = sent w @ rq # rs \<and>
        url rq = base @ ''/api/v1/policies'' \<and> meth rq = ''POST'' \<and> rbody rq = Some txt \<and> json_parse txt = Some policy \<and>
        js_opt_prop policy ''effect'' = JStr (bp_effect b) \<and>
        read_list read_node ''nodes'' policy = Some (map (nd_id_update (\<lambda>_. [])) (bp_nodes b)) \<and>
        js_opt_prop policy ''rules'' = JArr [rule] \<and> js_opt_prop rule ''effect'' = JStr (bp_effect b) \<and>
        read_list (read_parts NSubject) ''subjects'' rule = Some (map (nd_id_update (\<lambda>_. [])) (nodes_of_type NSubject b)) \<and>
        read_list (read_parts NResource) ''resources'' rule = Some (map (nd_id_update (\<lambda>_. [])) (nodes_of_type NResource b)) \<and>
        read_list (read_parts NCondition) ''conditions'' rule = Some (map (nd_id_update (\<lambda>_. [])) (nodes_of_type NCondition b)) \<and>
        js_opt_prop rule ''actions'' = JArr (map (JStr \<circ> nd_attribute) (nodes_of_type NAction b))"
    using rq policy_read[of b] by blast
qed

text \<open>Managers may read: a canvas with two nodes is saved; without the value of the first it is not.\<close>

definition two_nodes :: "string \<Rightarrow> builder_page" where
  "two_nodes v = builder_init\<lparr>bp_nodes := [\<lparr>nd_id = ''a'', nd_type = NSubject, nd_attribute = ''role'', nd_operator = ''equals'', nd_value = v\<rparr>,
     \<lparr>nd_id = ''b'', nd_type = NAction, nd_attribute = ''read'', nd_operator = [], nd_value = []\<rparr>]\<rparr>"

theorem builder_saves_canvas_witness:
  "builder_handleSave (always (Resp 200 ''{}'')) [] [] (two_nodes [], blank_world) = (two_nodes [], blank_world) \<and>
   (\<exists>rq rs policy rule. sent (snd (builder_handleSave (always (Resp 200 ''{}'')) [] [] (two_nodes ''manager'', blank_world))) = rq # rs \<and>
      Option.bind (rbody rq) json_parse = Some policy \<and> js_opt_prop policy ''rules'' = JArr [rule] \<and> js_opt_prop rule ''actions'' = JArr [JStr ''read''])"
proof -
  have n: "nodes_of_type NAction (two_nodes v) = [\<lparr>nd_id = ''b'', nd_type = NAction, nd_attribute = ''read'', nd_operator = [], nd_value = []\<rparr>]" for v
    by (simp add: nodes_of_type_def two_nodes_def)
  have "builder_handleSave (always (Resp 200 ''{}'')) [] [] (two_nodes [], blank_world) = (two_nodes [], blank_world)"
    using builder_saves_canvas[of "two_nodes []" "always (Resp 200 ''{}'')" "[]" "[]" blank_world] by (simp add: two_nodes_def)
  moreover have "\<forall>n \<in> set (bp_nodes (two_nodes ''manager'')). nd_attribute n \<noteq> [] \<and> (nd_type n = NAction \<or>
        nd_value n \<noteq> [] \<and> nd_operator n \<in> {[], ''equals'', ''in'', ''contains'', ''between''})" by (simp add: two_nodes_def)
  then have "\<exists>rq rs policy rule. sent (snd (builder_handleSave (always (Resp 200 ''{}'')) [] [] (two_nodes ''manager'', blank_world))) = rq # rs \<and>
      Option.bind (rbody rq) json_parse = Some policy \<and> js_opt_prop policy ''rules'' = JArr [rule] \<and> js_opt_prop rule ''actions'' = JArr [JStr ''read'']"
    using builder_saves_canvas[of "two_nodes ''manager''" "always (Resp 200 ''{}'')" "[]" "[]" blank_world] by (fastforce simp: n blank_world_def)
  ultimately show ?thesis by blast
qed

end
