(* ===== verification/Perm_Matrix.thy ===== *)
theory Perm_Matrix
  imports Api_Client Parents Policy_Editor
begin

text \<open>
  The role permission matrix (\<open>console/src/app/roles/permission-matrix/page.tsx\<close>): the fixed roles and permissions, toggling a
  cell or a group, bulk assignment, the CSV export and saving.  A \<open>Set\<close> is the list of its elements, the matrix
  an object from role identifiers to sets.  The timer that hides a message is left out.
\<close>

section \<open>Roles and permissions\<close>

record pm_role =
  pr_id :: string
  pr_key :: string
  pr_name :: string

definition DEFAULT_ROLES :: "pm_role list" where
  "DEFAULT_ROLES = map (\<lambda>(i, n). \<lparr>pr_id = i, pr_key = i, pr_name = n\<rparr>)
     [(''admin'', ''Admin''), (''manager'', ''Manager''), (''editor'', ''Editor''), (''viewer'', ''Viewer''), (''guest'', ''Guest'')]"

text \<open>The groups: a label and the permissions, each a key and a label.\<close>

definition pm_groups :: "(string \<times> (string \<times> string) list) list" where
  "pm_groups = [
    (''User Management'', [(''users.create'', ''Create Users''), (''users.read'', ''View Users''), (''users.update'', ''Update Users''),
       (''users.delete'', ''Delete Users''), (''users.export'', ''Export Users'')]),
    (''Organization'', [(''orgs.create'', ''Create Orgs''), (''orgs.read'', ''View Orgs''), (''orgs.update'', ''Update Orgs''), (''orgs.delete'', ''Delete Orgs'')]),
    (''Policy'', [(''policies.create'', ''Create Policies''), (''policies.read'', ''View Policies''), (''policies.update'', ''Update Policies''),
       (''policies.delete'', ''Delete Policies''), (''policies.evaluate'', ''Evaluate Policies'')]),
    (''Audit'', [(''audit.read'', ''View Audit''), (''audit.export'', ''Export Audit''), (''audit.delete'', ''Delete Audit'')]),
    (''Admin'', [(''admin.settings'', ''Manage Settings''), (''admin.impersonate'', ''Impersonate Users''), (''admin.apikeys'', ''Manage API Keys''),
       (''admin.webhooks'', ''Manage Webhooks'')])]"

definition ALL_PERMS :: "(string \<times> string) list" where
  "ALL_PERMS = concat (map snd pm_groups)"

type_synonym perm_matrix = "(string \<times> string list) list"

definition DEFAULT_MATRIX :: perm_matrix where
  "DEFAULT_MATRIX = [
    (''admin'', map fst ALL_PERMS),
    (''manager'', [''users.create'', ''users.read'', ''users.update'', ''users.export'', ''orgs.create'', ''orgs.read'', ''orgs.update'', ''policies.read'', ''audit.read'']),
    (''editor'', [''users.read'', ''orgs.read'', ''policies.read'', ''policies.evaluate'', ''audit.read'']),
    (''viewer'', [''users.read'', ''orgs.read'', ''policies.read'', ''audit.read'']),
    (''guest'', [''users.read''])]"

record pm_page =
  pm_matrix :: perm_matrix
  pm_search :: string
  pm_roleFilter :: string
  pm_collapsed :: "string list"
  pm_bulkRole :: string
  pm_bulkGroup :: string
  pm_bulkSelected :: "string list"
  pm_msg :: "string option"
  pm_error :: "string option"
  pm_saving :: bool

definition pm_init :: pm_page where
  "pm_init = \<lparr>pm_matrix = DEFAULT_MATRIX, pm_search = [], pm_roleFilter = ''all'', pm_collapsed = [], pm_bulkRole = [], pm_bulkGroup = [],
     pm_bulkSelected = [], pm_msg = None, pm_error = None, pm_saving = False\<rparr>"

text \<open>\<open>matrix[roleId] || []\<close>.\<close>

definition cells :: "perm_matrix \<Rightarrow> string \<Rightarrow> string list" where
  "cells m r = (case assoc r m of None \<Rightarrow> [] | Some s \<Rightarrow> s)"

definition filteredPerms :: "pm_page \<Rightarrow> (string \<times> string) list" where
  "filteredPerms p = (if pm_search p = [] then ALL_PERMS
     else (let q = to_lower (pm_search p) in filter (\<lambda>(k, l). str_includes (to_lower k) q \<or> str_includes (to_lower l) q) ALL_PERMS))"

definition visibleRoles :: "pm_page \<Rightarrow> pm_role list" where
  "visibleRoles p = (if pm_roleFilter p = ''all'' then DEFAULT_ROLES else filter (\<lambda>r. pr_id r = pm_roleFilter p) DEFAULT_ROLES)"

section \<open>Changing cells\<close>

definition pm_toggleCell :: "string \<Rightarrow> string \<Rightarrow> pm_page \<Rightarrow> pm_page" where
  "pm_toggleCell r k p = p\<lparr>pm_matrix := obj_set r (js_toggle k (cells (pm_matrix p) r)) (pm_matrix p)\<rparr>"

definition pm_toggleGroup :: "string \<Rightarrow> pm_page \<Rightarrow> pm_page" where
  "pm_toggleGroup l p = p\<lparr>pm_collapsed := js_toggle l (pm_collapsed p)\<rparr>"

definition toggle_all :: "string list \<Rightarrow> string list \<Rightarrow> string list" where
  "toggle_all ks s = (if list_all (\<lambda>k. k \<in> set s) ks then foldl (\<lambda>s k. js_delete k s) s ks else foldl (\<lambda>s k. js_add k s) s ks)"

definition toggleEntireGroupForRole :: "string \<Rightarrow> (string \<times> string) list \<Rightarrow> pm_page \<Rightarrow> pm_page" where
  "toggleEntireGroupForRole r g p = p\<lparr>pm_matrix := obj_set r (toggle_all (map fst g) (cells (pm_matrix p) r)) (pm_matrix p)\<rparr>"

definition handleBulkTogglePerm :: "string \<Rightarrow> pm_page \<Rightarrow> pm_page" where
  "handleBulkTogglePerm k p = p\<lparr>pm_bulkSelected := js_toggle k (pm_bulkSelected p)\<rparr>"

definition bulk_name :: "string \<Rightarrow> string" where
  "bulk_name r = (case find (\<lambda>x. pr_id x = r) DEFAULT_ROLES of Some x \<Rightarrow> pr_name x | None \<Rightarrow> r)"

definition handleApplyAll :: "pm_page \<Rightarrow> pm_page" where
  "handleApplyAll p = (if pm_bulkRole p = [] \<or> pm_bulkSelected p = []
     then p\<lparr>pm_error := Some ''Select a role and at least one permission to apply''\<rparr>
     else p\<lparr>pm_matrix := obj_set (pm_bulkRole p) (foldl (\<lambda>s k. js_add k s) (cells (pm_matrix p) (pm_bulkRole p)) (pm_bulkSelected p)) (pm_matrix p),
            pm_msg := Some (''Applied '' @ show_nat (length (pm_bulkSelected p)) @ '' permission(s) to '' @ bulk_name (pm_bulkRole p)),
            pm_bulkSelected := [], pm_error := None\<rparr>)"

definition selectAllInBulkGroup :: "pm_page \<Rightarrow> pm_page" where
  "selectAllInBulkGroup p = (case find (\<lambda>g. fst g = pm_bulkGroup p) pm_groups of
      None \<Rightarrow> p | Some g \<Rightarrow> p\<lparr>pm_bulkSelected := js_set (map fst (snd g))\<rparr>)"

section \<open>Export and saving\<close>

text \<open>Each cell between quotes, whatever it holds.\<close>

definition quoted_row :: "string list \<Rightarrow> string" where
  "quoted_row cs = join_on (CHR '','') (map (\<lambda>c. CHR 34 # c @ [CHR 34]) cs)"

definition csv_rows :: "pm_page \<Rightarrow> string list list" where
  "csv_rows p = (''Role'' # map fst ALL_PERMS) #
     map (\<lambda>r. pr_name r # map (\<lambda>k. if fst k \<in> set (cells (pm_matrix p) (pr_id r)) then ''Y'' else ''N'') ALL_PERMS) DEFAULT_ROLES"

definition pm_handleExportCSV :: "pm_page \<Rightarrow> string" where
  "pm_handleExportCSV p = join_on (CHR 0x0A) (map quoted_row (csv_rows p))"

definition assignments :: "perm_matrix \<Rightarrow> jsv" where
  "assignments m = JObj [(''assignments'', JArr (map (\<lambda>r. JObj [(''role_id'', JStr (pr_id r)), (''role_key'', JStr (pr_key r)),
     (''permissions'', JArr (map JStr (cells m (pr_id r))))]) DEFAULT_ROLES))]"

definition pm_put :: "pm_page \<Rightarrow> req_options" where
  "pm_put p = \<lparr>o_method = Some ''PUT'', o_headers = [], o_body = Some (json_stringify (assignments (pm_matrix p)))\<rparr>"

definition pm_handleSave :: "'w env \<Rightarrow> string \<Rightarrow> string \<Rightarrow> pm_page \<times> 'w world \<Rightarrow> pm_page \<times> 'w world" where
  "pm_handleSave E base tenant pw = (case pw of (p, w) \<Rightarrow>
     if pm_saving p then (p, w)
     else (case apiFetch E base tenant ''/api/v1/roles/permissions'' (pm_put p) w of
        (Inl _, w1) \<Rightarrow> (p\<lparr>pm_error := None, pm_msg := Some ''Saved locally (API may not be available)'', pm_saving := False\<rparr>, w1)
      | (Inr _, w1) \<Rightarrow> (p\<lparr>pm_error := None, pm_msg := Some ''Permission matrix saved successfully'', pm_saving := False\<rparr>, w1)))"

section \<open>Changes\<close>

datatype pm_edit =
    PToggle string string | PGroup string "(string \<times> string) list" | PBulk string | PApply | PAllInGroup | PRole string | PSelGroup string
  | PSearch string | PFilter string | PCollapse string

text \<open>Choosing another group in the form keeps the selection, which then is not shown.\<close>

fun edit_matrix :: "pm_edit \<Rightarrow> pm_page \<Rightarrow> pm_page" where
  "edit_matrix (PToggle r k) p = pm_toggleCell r k p"
| "edit_matrix (PGroup r g) p = toggleEntireGroupForRole r g p"
| "edit_matrix (PBulk k) p = handleBulkTogglePerm k p"
| "edit_matrix PApply p = handleApplyAll p"
| "edit_matrix PAllInGroup p = selectAllInBulkGroup p"
| "edit_matrix (PRole r) p = p\<lparr>pm_bulkRole := r\<rparr>"
| "edit_matrix (PSelGroup g) p = p\<lparr>pm_bulkGroup := g\<rparr>"
| "edit_matrix (PSearch q) p = p\<lparr>pm_search := q\<rparr>"
| "edit_matrix (PFilter r) p = p\<lparr>pm_roleFilter := r\<rparr>"
| "edit_matrix (PCollapse l) p = pm_toggleGroup l p"

section \<open>What the changes do\<close>

lemma cells_obj_set [simp]: "cells (obj_set r s m) r' = (if r' = r then s else cells m r')"
  by (simp add: cells_def assoc_obj_set)

lemma js_deletes_set: "set (foldl (\<lambda>s k. js_delete k s) s ks) = set s - set ks"
  by (induction ks arbitrary: s) auto

lemma set_toggle_all: "set (toggle_all ks s) = (if set ks \<subseteq> set s then set s - set ks else set s \<union> set ks)"
  by (auto simp: toggle_all_def list_all_iff js_deletes_set js_adds_set)

text \<open>The sets of the matrix never hold an element twice.\<close>

definition matrix_sets :: "pm_page \<Rightarrow> bool" where
  "matrix_sets p = ((\<forall>r. distinct (cells (pm_matrix p) r)) \<and> distinct (pm_bulkSelected p))"

lemma distinct_adds: "distinct s \<Longrightarrow> distinct (foldl (\<lambda>s k. js_add k s) s ks)"
  by (induction ks arbitrary: s) auto

lemma distinct_deletes: "distinct s \<Longrightarrow> distinct (foldl (\<lambda>s k. js_delete k s) s ks)"
  by (induction ks arbitrary: s) (auto simp: js_delete_def)

lemma distinct_toggle_all: "distinct s \<Longrightarrow> distinct (toggle_all ks s)"
  by (simp add: toggle_all_def distinct_adds distinct_deletes)

lemma edit_matrix_sets: "matrix_sets p \<Longrightarrow> matrix_sets (edit_matrix e p)"
  by (cases e) (auto simp: matrix_sets_def pm_toggleCell_def toggleEntireGroupForRole_def handleBulkTogglePerm_def handleApplyAll_def
      selectAllInBulkGroup_def pm_toggleGroup_def distinct_adds distinct_toggle_all split: option.splits)

lemma default_sets: "matrix_sets pm_init"
  by (auto simp: matrix_sets_def pm_init_def cells_def DEFAULT_MATRIX_def ALL_PERMS_def pm_groups_def split: option.splits if_splits)

lemma edits_sets: "matrix_sets (fold edit_matrix es pm_init)"
proof -
  have "matrix_sets p \<Longrightarrow> matrix_sets (fold edit_matrix es p)" for p
    by (induction es arbitrary: p) (simp_all add: edit_matrix_sets)
  then show ?thesis using default_sets by blast
qed

lemma edit_not_saving: "pm_saving (edit_matrix e p) = pm_saving p"
  by (cases e) (auto simp: pm_toggleCell_def toggleEntireGroupForRole_def handleBulkTogglePerm_def handleApplyAll_def
      selectAllInBulkGroup_def pm_toggleGroup_def split: option.splits)

lemma edits_not_saving: "\<not> pm_saving (fold edit_matrix es pm_init)"
proof -
  have "pm_saving (fold edit_matrix es p) = pm_saving p" for p
    by (induction es arbitrary: p) (simp_all add: edit_not_saving)
  then show ?thesis by (simp add: pm_init_def)
qed

text \<open>The exported lines tell which of the known permissions each role has.\<close>

lemma csv_determines:
  assumes "csv_rows p = csv_rows q" "r \<in> set DEFAULT_ROLES" "k \<in> fst ` set ALL_PERMS"
  shows "k \<in> set (cells (pm_matrix p) (pr_id r)) \<longleftrightarrow> k \<in> set (cells (pm_matrix q) (pr_id r))"
proof -
  have "map (\<lambda>k. if fst k \<in> set (cells (pm_matrix p) (pr_id r)) then ''Y'' else ''N'') ALL_PERMS =
      map (\<lambda>k. if fst k \<in> set (cells (pm_matrix q) (pr_id r)) then ''Y'' else ''N'') ALL_PERMS"
    using assms(1,2) by (auto simp: csv_rows_def)
  then show ?thesis using assms(3) by (auto split: if_splits)
qed

lemma assignments_clean: "json_clean (assignments m)"
  by (simp add: assignments_def list_all_iff)

section \<open>Properties\<close>

text \<open>A click on a cell of the permission matrix changes that cell and no other; the button of a group takes the group's permissions
  from a role that has them all and otherwise gives it all of them; bulk assignment only adds.\<close>

lemma matrix_changes:
  "k' \<in> set (cells (pm_matrix (pm_toggleCell r k p)) r') \<longleftrightarrow>
     (if r' = r \<and> k' = k then k \<notin> set (cells (pm_matrix p) r) else k' \<in> set (cells (pm_matrix p) r')) "
  "k' \<in> set (cells (pm_matrix (toggleEntireGroupForRole r g p)) r') \<longleftrightarrow>
     (if r' = r \<and> k' \<in> fst ` set g then \<not> fst ` set g \<subseteq> set (cells (pm_matrix p) r) else k' \<in> set (cells (pm_matrix p) r'))"
  "k' \<in> set (cells (pm_matrix (handleApplyAll p)) r') \<longleftrightarrow>
     (k' \<in> set (cells (pm_matrix p) r') \<or> r' = pm_bulkRole p \<and> r' \<noteq> [] \<and> k' \<in> set (pm_bulkSelected p))"
  by (auto simp: pm_toggleCell_def toggleEntireGroupForRole_def set_toggle_all set_js_toggle handleApplyAll_def js_adds_set)

text \<open>The permission matrix page replaces the permissions of the five built-in roles without having read them: after any edits, saving
  sends first a PUT with the built-in matrix changed by the edits alone, whatever the server holds; a refusal is announced as ``Saved
  locally'' and not as an error.  Saving the untouched page gives the role \<open>admin\<close> all permissions again.\<close>

lemma matrix_saved_unread:
  assumes "p = fold edit_matrix es pm_init"
  shows "(\<exists>rq rs txt. sent (snd (pm_handleSave E base tenant (p, w))) = sent w @ rq # rs \<and> meth rq = ''PUT'' \<and>
      url rq = base @ ''/api/v1/roles/permissions'' \<and> rbody rq = Some txt \<and> json_parse txt = Some (assignments (pm_matrix p))) \<and>
    (fst (apiFetch E base tenant ''/api/v1/roles/permissions'' (pm_put p) w) = Inl x \<longrightarrow>
      pm_error (fst (pm_handleSave E base tenant (p, w))) = None \<and>
      pm_msg (fst (pm_handleSave E base tenant (p, w))) = Some ''Saved locally (API may not be available)'') \<and>
    (es = [] \<longrightarrow> cells (pm_matrix p) ''admin'' = map fst ALL_PERMS)"
proof -
  have ns: "\<not> pm_saving p" using assms edits_not_saving by simp
  then have "snd (pm_handleSave E base tenant (p, w)) = snd (apiFetch E base tenant ''/api/v1/roles/permissions'' (pm_put p) w)"
    by (auto simp: pm_handleSave_def split: prod.splits sum.splits)
  then have "\<exists>rs. sent (snd (pm_handleSave E base tenant (p, w))) =
      sent w @ api_request base ''/api/v1/roles/permissions'' (pm_put p) (api_headers tenant (pm_put p) w) # rs"
    using apiFetch_sent[of E base tenant "''/api/v1/roles/permissions''" "pm_put p" w] by auto
  moreover have "json_parse (json_stringify (assignments (pm_matrix p))) = Some (assignments (pm_matrix p))"
    by (rule json_stringify_clean[OF assignments_clean])
  ultimately have "\<exists>rq rs txt. sent (snd (pm_handleSave E base tenant (p, w))) = sent w @ rq # rs \<and> meth rq = ''PUT'' \<and>
      url rq = base @ ''/api/v1/roles/permissions'' \<and> rbody rq = Some txt \<and> json_parse txt = Some (assignments (pm_matrix p))"
    by (auto simp: api_request_def pm_put_def)
  moreover have "es = [] \<longrightarrow> cells (pm_matrix p) ''admin'' = map fst ALL_PERMS"
    using assms by (simp add: pm_init_def cells_def DEFAULT_MATRIX_def)
  ultimately show ?thesis using ns by (auto simp: pm_handleSave_def split: prod.splits)
qed

lemma matrix_saved_unread_example:
  "pm_msg (fst (pm_handleSave (always NetError) [] [] (pm_init, blank_world))) = Some ''Saved locally (API may not be available)''"
proof -
  have "fst (apiFetch (always NetError) [] [] ''/api/v1/roles/permissions'' (pm_put pm_init) blank_world) = Inl (PlatformExn ExnNet)"
    by (simp add: apiFetch_def fetch_def always_def Let_def)
  then show ?thesis using matrix_saved_unread[of pm_init "[]" "always NetError" "[]" "[]" blank_world "PlatformExn ExnNet"] by simp
qed

end
