(* ===== verification/Users_Page.thy ===== *)
theory Users_Page
  imports User_Import Audit_Analysis Policy_Editor
begin

text \<open>
  The users page (\<open>console/src/app/users/page.tsx\<close>): the filtered and paged list, the selection, creating, locking and deleting
  users, the batch operations, the two imports and the two exports.  A user is a record of strings, the empty string for a missing
  field, with the list of role values and the value the server sent.  Requests that are started together (\<open>Promise.all\<close>) are run one after the other:
  all are sent, and the first that fails gives the message.  A \<open>refresh\<close> that a handler starts or leaves to a timer is run at its
  end; the timers that hide messages, the menus and the badge of the source are left out.  A dash
  in a message, no character of eight bits, is written as a colon.
\<close>

section \<open>Data\<close>

record user =
  us_id :: string
  us_username :: string
  us_email :: string
  us_display :: string
  us_phone :: string
  us_status :: string
  us_created :: string
  us_roles :: "jsv list"
  us_value :: jsv

definition user_str :: "jsv \<Rightarrow> string \<Rightarrow> string" where
  "user_str v k = (case js_opt_prop v k of JStr s \<Rightarrow> s | _ \<Rightarrow> [])"

definition page_user_of :: "jsv \<Rightarrow> user" where
  "page_user_of v = \<lparr>us_id = user_str v ''id'', us_username = user_str v ''username'', us_email = user_str v ''email'',
     us_display = user_str v ''display_name'', us_phone = user_str v ''phone'', us_status = user_str v ''status'',
     us_created = user_str v ''created_at'', us_roles = arr_items (js_opt_prop v ''roles''), us_value = v\<rparr>"

record users_page =
  up_hook :: users_hook
  up_roles :: jsv
  up_search :: string
  up_roleFilter :: string
  up_page :: nat
  up_selected :: "string list"
  up_batchRole :: string
  up_msg :: "string option"
  up_showCreate :: bool
  up_creating :: bool
  up_formError :: string
  up_formSuccess :: string
  up_fieldErrors :: "(string \<times> string) list"
  up_pwStrength :: jsv
  up_pwFeedback :: string
  up_deleteTarget :: "(string list \<times> string) option"
  up_importText :: string
  up_importResult :: "string option"
  up_showCsv :: bool
  up_csvHeaders :: "string list"
  up_csvData :: "string list list"
  up_mapping :: column_map
  up_csvResult :: "string option"

definition users_init :: users_page where
  "users_init = \<lparr>up_hook = \<lparr>uh_users = JArr [], uh_loading = True, uh_error = None\<rparr>, up_roles = JArr [], up_search = [], up_roleFilter = [], up_page = 0,
     up_selected = [], up_batchRole = [], up_msg = None, up_showCreate = False, up_creating = False, up_formError = [], up_formSuccess = [],
     up_fieldErrors = [], up_pwStrength = JNum 0, up_pwFeedback = [], up_deleteTarget = None, up_importText = [], up_importResult = None,
     up_showCsv = False, up_csvHeaders = [], up_csvData = [], up_mapping = [], up_csvResult = None\<rparr>"

definition up_users :: "users_page \<Rightarrow> user list" where
  "up_users p = map page_user_of (arr_items (uh_users (up_hook p)))"

definition up_refresh :: "'w env \<Rightarrow> string \<Rightarrow> string \<Rightarrow> users_page \<times> 'w world \<Rightarrow> users_page \<times> 'w world" where
  "up_refresh E base tenant pw = (case pw of (p, w) \<Rightarrow>
     (case useUsers_refresh E base tenant (up_hook p, w) of (h, w1) \<Rightarrow> (p\<lparr>up_hook := h\<rparr>, w1)))"

definition users_loadRoles :: "'w env \<Rightarrow> string \<Rightarrow> string \<Rightarrow> users_page \<times> 'w world \<Rightarrow> users_page \<times> 'w world" where
  "users_loadRoles E base tenant pw = (case pw of (p, w) \<Rightarrow>
     (case apiFetch E base tenant ''/api/v1/roles'' no_options w of
        (Inl _, w1) \<Rightarrow> (p, w1)
      | (Inr data, w1) \<Rightarrow> (if nullish data then p else p\<lparr>up_roles := js_or (js_opt_prop data ''roles'') (JArr [])\<rparr>, w1)))"

section \<open>The list\<close>

definition role_label :: "jsv \<Rightarrow> string" where
  "role_label r = (case r of JStr s \<Rightarrow> s
     | _ \<Rightarrow> js_to_string (js_or (js_opt_prop r ''role_name'') (js_or (js_opt_prop r ''name'') (js_or (js_opt_prop r ''key'') (JStr [])))))"

definition user_shown :: "users_page \<Rightarrow> user \<Rightarrow> bool" where
  "user_shown p u =
     ((up_search p = [] \<or> (let q = to_lower (up_search p) in str_includes (to_lower (us_username u)) q \<or> str_includes (to_lower (us_email u)) q)) \<and>
      (up_roleFilter p = [] \<or> list_ex (\<lambda>r. str_includes (to_lower (role_label r)) (to_lower (up_roleFilter p))) (us_roles u)))"

definition up_filtered :: "users_page \<Rightarrow> user list" where
  "up_filtered p = filter (user_shown p) (up_users p)"

definition PAGE_SIZE :: nat where "PAGE_SIZE = 10"

definition up_totalPages :: "users_page \<Rightarrow> nat" where
  "up_totalPages p = (length (up_filtered p) + PAGE_SIZE - 1) div PAGE_SIZE"

definition paginated :: "users_page \<Rightarrow> user list" where
  "paginated p = take PAGE_SIZE (drop (up_page p * PAGE_SIZE) (up_filtered p))"

definition change_search :: "string \<Rightarrow> users_page \<Rightarrow> users_page" where
  "change_search q p = p\<lparr>up_search := q, up_page := 0\<rparr>"

definition change_roleFilter :: "string \<Rightarrow> users_page \<Rightarrow> users_page" where
  "change_roleFilter r p = p\<lparr>up_roleFilter := r, up_page := 0\<rparr>"

text \<open>The buttons are disabled on the first and on the last page.\<close>

definition prev_page :: "users_page \<Rightarrow> users_page" where
  "prev_page p = (if up_page p = 0 then p else p\<lparr>up_page := up_page p - 1\<rparr>)"

definition next_page :: "users_page \<Rightarrow> users_page" where
  "next_page p = (if up_totalPages p \<le> up_page p + 1 then p else p\<lparr>up_page := min (up_totalPages p - 1) (up_page p + 1)\<rparr>)"

definition toggleSelect :: "string \<Rightarrow> users_page \<Rightarrow> users_page" where
  "toggleSelect i p = p\<lparr>up_selected := js_toggle i (up_selected p)\<rparr>"

definition toggleSelectAll :: "users_page \<Rightarrow> users_page" where
  "toggleSelectAll p = p\<lparr>up_selected := (if length (up_selected p) = length (paginated p) then [] else js_set (map us_id (paginated p)))\<rparr>"

section \<open>Creating a user\<close>

definition create_errors :: "string \<Rightarrow> string \<Rightarrow> string \<Rightarrow> (string \<times> string) list" where
  "create_errors username email password =
     (if length username < 2 then [(''username'', ''Username must be at least 2 characters'')] else []) @
     (if email = [] \<or> \<not> isValidEmail email then [(''email'', ''Please enter a valid email address'')] else []) @
     (if length password < 12 then [(''password'', ''Password must be at least 12 characters'')] else [])"

text \<open>\<open>v || undefined\<close>.\<close>

definition str_or_undef :: "string \<Rightarrow> jsv" where
  "str_or_undef s = (if s = [] then JUndef else JStr s)"

definition create_body :: "string \<Rightarrow> string \<Rightarrow> string \<Rightarrow> string \<Rightarrow> jsv" where
  "create_body username email password displayName = JObj [(''username'', JStr username), (''email'', JStr email), (''password'', JStr password),
     (''display_name'', str_or_undef displayName)]"

definition users_handleCreate ::
  "'w env \<Rightarrow> string \<Rightarrow> string \<Rightarrow> string \<Rightarrow> string \<Rightarrow> string \<Rightarrow> string \<Rightarrow> string \<Rightarrow> users_page \<times> 'w world \<Rightarrow> users_page \<times> 'w world" where
  "users_handleCreate E base tenant username email password displayName roleId pw = (case pw of (p, w) \<Rightarrow>
     (let errs = create_errors username email password; p0 = p\<lparr>up_formError := [], up_fieldErrors := errs\<rparr> in
      if errs \<noteq> [] then (p0, w)
      else (let created = (\<lambda>m w'. up_refresh E base tenant (p0\<lparr>up_formSuccess := m, up_showCreate := False, up_creating := False\<rparr>, w'));
                failed = (\<lambda>m w'. (p0\<lparr>up_formError := m, up_creating := False\<rparr>, w')) in
        case apiFetch E base tenant ''/api/v1/users'' (post_options (create_body username email password displayName)) w of
          (Inl x, w1) \<Rightarrow> failed (api_exn_message E x) w1
        | (Inr resp, w1) \<Rightarrow>
            if roleId = [] then created (''User \"'' @ username @ ''\" created successfully.'') w1
            else if nullish resp then failed (type_message E) w1
            else (let newId = js_or (js_opt_prop resp ''id'') (js_opt_prop resp ''user_id'') in
              if \<not> truthy newId then created (''User \"'' @ username @ ''\" created, but user ID not returned: please assign role manually.'') w1
              else (case apiFetch E base tenant (''/api/v1/users/'' @ js_to_string newId @ ''/roles'') (post_options (JObj [(''role_id'', JStr roleId)])) w1 of
                 (Inl x, w2) \<Rightarrow> created (''User \"'' @ username @ ''\" created, but role assignment failed: '' @ api_exn_message E x @ ''. Please assign role manually.'') w2
               | (Inr _, w2) \<Rightarrow> created (''User \"'' @ username @ ''\" created successfully and assigned role.'') w2)))))"

definition has_char :: "(char \<Rightarrow> bool) \<Rightarrow> string \<Rightarrow> bool" where
  "has_char P s = list_ex P s"

definition upper_letter :: "char \<Rightarrow> bool" where
  "upper_letter c = (65 \<le> (of_char c :: nat) \<and> (of_char c :: nat) \<le> 90)"

definition lower_letter :: "char \<Rightarrow> bool" where
  "lower_letter c = (97 \<le> (of_char c :: nat) \<and> (of_char c :: nat) \<le> 122)"

definition pw_score :: "string \<Rightarrow> int" where
  "pw_score pw = 2 + (if has_char upper_letter pw then 1 else 0) + (if has_char is_digit pw then 1 else 0) +
     (if has_char (\<lambda>c. \<not> upper_letter c \<and> \<not> lower_letter c \<and> \<not> is_digit c) pw then 1 else 0)"

text \<open>The password goes to the server when it has twelve characters; the server's score then replaces the own one.\<close>

definition checkPasswordStrength ::
  "'w env \<Rightarrow> string \<Rightarrow> string \<Rightarrow> string \<Rightarrow> users_page \<times> 'w world \<Rightarrow> users_page \<times> 'w world" where
  "checkPasswordStrength E base tenant pw' pw = (case pw of (p, w) \<Rightarrow>
     if pw' = [] then (p\<lparr>up_pwStrength := JNum 0, up_pwFeedback := []\<rparr>, w)
     else if length pw' < 12 then (p\<lparr>up_pwStrength := JNum 1, up_pwFeedback := ''Too short (min 12 characters)''\<rparr>, w)
     else (let score = pw_score pw';
               p1 = p\<lparr>up_pwStrength := JNum score,
                      up_pwFeedback := (if score < 3 then ''Weak: add uppercase, numbers, symbols'' else if score < 5 then ''Fair'' else ''Strong'')\<rparr> in
       case apiFetch E base tenant ''/api/v1/auth/password/strength'' (post_options (JObj [(''password'', JStr pw')])) w of
          (Inl _, w1) \<Rightarrow> (p1, w1)
        | (Inr res, w1) \<Rightarrow> (let s = js_opt_prop res ''score'' in (if nullish s then p1 else p1\<lparr>up_pwStrength := s\<rparr>, w1))))"

definition field_error :: "string \<Rightarrow> string \<Rightarrow> string option" where
  "field_error name v = (if v = [] then None
     else if name = ''username'' then (if length v < 2 then Some ''Min 2 characters'' else None)
     else if name = ''email'' then (if isValidEmail v then None else Some ''Invalid email format'')
     else if name = ''password'' then (if length v < 12 then Some ''Min 12 characters'' else None)
     else None)"

definition validateField :: "string \<Rightarrow> string \<Rightarrow> users_page \<Rightarrow> users_page" where
  "validateField name v p = (if name \<in> {''username'', ''email'', ''password''}
     then p\<lparr>up_fieldErrors := (case field_error name v of
        None \<Rightarrow> filter (\<lambda>(k, m). k \<noteq> name) (up_fieldErrors p) | Some m \<Rightarrow> obj_set name m (up_fieldErrors p))\<rparr>
     else p)"

section \<open>Locking, deleting, batches\<close>

text \<open>A failure is only written to the console.\<close>

definition handleLock ::
  "'w env \<Rightarrow> string \<Rightarrow> string \<Rightarrow> string \<Rightarrow> string \<Rightarrow> users_page \<times> 'w world \<Rightarrow> users_page \<times> 'w world" where
  "handleLock E base tenant userId currentStatus pw = (case pw of (p, w) \<Rightarrow>
     (case apiFetch E base tenant (''/api/v1/users/'' @ userId @ ''/'' @ (if currentStatus = ''active'' then ''lock'' else ''unlock''))
        \<lparr>o_method = Some ''POST'', o_headers = [], o_body = None\<rparr> w of
        (Inl _, w1) \<Rightarrow> (p, w1) | (Inr _, w1) \<Rightarrow> up_refresh E base tenant (p, w1)))"

definition users_handleDelete :: "string \<Rightarrow> string \<Rightarrow> users_page \<Rightarrow> users_page" where
  "users_handleDelete userId username p = p\<lparr>up_deleteTarget := Some ([userId], ''user \"'' @ username @ ''\"'')\<rparr>"

definition handleBatchDelete :: "users_page \<Rightarrow> users_page" where
  "handleBatchDelete p = (if up_selected p = [] then p
     else p\<lparr>up_deleteTarget := Some (up_selected p, show_nat (length (up_selected p)) @ '' selected users'')\<rparr>)"

text \<open>\<open>Promise.all(ids.map(...))\<close>: the first failure, or none.\<close>

fun all_requests ::
  "'w env \<Rightarrow> string \<Rightarrow> string \<Rightarrow> (string \<times> req_options) list \<Rightarrow> 'w world \<Rightarrow> api_exn option \<times> 'w world" where
  "all_requests E base tenant [] w = (None, w)"
| "all_requests E base tenant ((path, opts) # rs) w =
     (case apiFetch E base tenant path opts w of (r, w1) \<Rightarrow>
       (case all_requests E base tenant rs w1 of (x, w2) \<Rightarrow> (case r of Inl y \<Rightarrow> Some y | Inr _ \<Rightarrow> x, w2)))"

definition delete_requests :: "string list \<Rightarrow> (string \<times> req_options) list" where
  "delete_requests ids = map (\<lambda>i. (''/api/v1/users/'' @ i, \<lparr>o_method = Some ''DELETE'', o_headers = [], o_body = None\<rparr>)) ids"

definition doDelete ::
  "'w env \<Rightarrow> string \<Rightarrow> string \<Rightarrow> string list \<Rightarrow> string \<Rightarrow> users_page \<times> 'w world \<Rightarrow> users_page \<times> 'w world" where
  "doDelete E base tenant ids label pw = (case pw of (p, w) \<Rightarrow>
     (case all_requests E base tenant (delete_requests ids) w of
        (Some x, w1) \<Rightarrow> (p\<lparr>up_formError := api_exn_message E x\<rparr>, w1)
      | (None, w1) \<Rightarrow> up_refresh E base tenant (p\<lparr>up_selected := [],
          up_formSuccess := (if length ids = 1 then ''User \"'' @ label @ ''\"'' else show_nat (length ids) @ '' users'') @ '' deleted.''\<rparr>, w1)))"

definition confirm_delete ::
  "'w env \<Rightarrow> string \<Rightarrow> string \<Rightarrow> users_page \<times> 'w world \<Rightarrow> users_page \<times> 'w world" where
  "confirm_delete E base tenant pw = (case pw of (p, w) \<Rightarrow> (case up_deleteTarget p of None \<Rightarrow> (p, w)
     | Some (ids, label) \<Rightarrow> (case doDelete E base tenant ids label (p, w) of (p1, w1) \<Rightarrow> (p1\<lparr>up_deleteTarget := None\<rparr>, w1))))"

definition post_each :: "(string \<Rightarrow> string) \<Rightarrow> string option \<Rightarrow> string list \<Rightarrow> (string \<times> req_options) list" where
  "post_each path body ids = map (\<lambda>i. (path i, \<lparr>o_method = Some ''POST'', o_headers = [], o_body = body\<rparr>)) ids"

definition users_handleBatchAssignRole ::
  "'w env \<Rightarrow> string \<Rightarrow> string \<Rightarrow> users_page \<times> 'w world \<Rightarrow> users_page \<times> 'w world" where
  "users_handleBatchAssignRole E base tenant pw = (case pw of (p, w) \<Rightarrow>
     if up_selected p = [] \<or> up_batchRole p = [] then (p, w)
     else (case all_requests E base tenant (post_each (\<lambda>i. ''/api/v1/users/'' @ i @ ''/roles'')
             (Some (json_stringify (JObj [(''role_id'', JStr (up_batchRole p))]))) (up_selected p)) w of
        (Some _, w1) \<Rightarrow> (p, w1)
      | (None, w1) \<Rightarrow> (p\<lparr>up_msg := Some (''Role assigned to '' @ show_nat (length (up_selected p)) @ '' users''), up_selected := [], up_batchRole := []\<rparr>, w1)))"

definition handleBatch ::
  "string \<Rightarrow> string \<Rightarrow> 'w env \<Rightarrow> string \<Rightarrow> string \<Rightarrow> users_page \<times> 'w world \<Rightarrow> users_page \<times> 'w world" where
  "handleBatch action past E base tenant pw = (case pw of (p, w) \<Rightarrow>
     if up_selected p = [] then (p, w)
     else (case all_requests E base tenant (post_each (\<lambda>i. ''/api/v1/users/'' @ i @ ''/'' @ action) None (up_selected p)) w of
        (Some x, w1) \<Rightarrow> (p\<lparr>up_msg := Some (api_exn_message E x)\<rparr>, w1)
      | (None, w1) \<Rightarrow> up_refresh E base tenant (p\<lparr>up_msg := Some (show_nat (length (up_selected p)) @ '' users '' @ past), up_selected := []\<rparr>, w1)))"

definition handleBatchActivate :: "'w env \<Rightarrow> string \<Rightarrow> string \<Rightarrow> users_page \<times> 'w world \<Rightarrow> users_page \<times> 'w world" where
  "handleBatchActivate = handleBatch ''activate'' ''activated''"

definition handleBatchDeactivate :: "'w env \<Rightarrow> string \<Rightarrow> string \<Rightarrow> users_page \<times> 'w world \<Rightarrow> users_page \<times> 'w world" where
  "handleBatchDeactivate = handleBatch ''deactivate'' ''deactivated''"

section \<open>Export\<close>

definition user_cells :: "user \<Rightarrow> string list" where
  "user_cells u = [us_username u, us_email u, us_display u, us_phone u, or_else (us_status u) ''active'', us_created u]"

definition users_handleExportCSV :: "users_page \<Rightarrow> string" where
  "users_handleExportCSV p = ''username,email,displayName,phone,status,created_at'' @ [CHR 0x0A] @
     join_on (CHR 0x0A) (map (csv_line \<circ> user_cells) (up_filtered p))"

definition users_handleExportJSON :: "users_page \<Rightarrow> string" where
  "users_handleExportJSON p = json_pretty (JArr (map us_value (up_filtered p)))"

section \<open>Imports\<close>

definition temp_password :: string where "temp_password = ''TempPass123!''"

text \<open>The rows of the text import, with their numbers; a part that is not there is \<open>undefined\<close>.\<close>

fun import_lines ::
  "'w env \<Rightarrow> string \<Rightarrow> string \<Rightarrow> nat \<Rightarrow> string list \<Rightarrow> nat \<times> string list \<Rightarrow> 'w world \<Rightarrow> (nat \<times> string list) \<times> 'w world" where
  "import_lines E base tenant i [] acc w = (acc, w)"
| "import_lines E base tenant i (l # ls) (n, errs) w =
     (let parts = map trim (split_on (CHR '','') l); part = (\<lambda>k. if k < length parts then parts ! k else []) in
      if part 0 = [] \<or> part 1 = [] then
        import_lines E base tenant (Suc i) ls (n, errs @ [''Row '' @ show_nat (Suc i) @ '': missing username or email'']) w
      else (case apiFetch E base tenant ''/api/v1/users'' (post_options (JObj [(''username'', JStr (part 0)), (''email'', JStr (part 1)),
              (''password'', JStr (or_else (part 2) temp_password))])) w of
          (Inl x, w1) \<Rightarrow> import_lines E base tenant (Suc i) ls (n, errs @ [''Row '' @ show_nat (Suc i) @ '': '' @ api_exn_message E x]) w1
        | (Inr _, w1) \<Rightarrow> import_lines E base tenant (Suc i) ls (Suc n, errs) w1))"

definition text_lines :: "string \<Rightarrow> string list" where
  "text_lines t = filter (\<lambda>l. trim l \<noteq> [] \<and> \<not> starts_with l ''username,'') (split_on (CHR 0x0A) (trim t))"

definition users_handleImportCSV ::
  "'w env \<Rightarrow> string \<Rightarrow> string \<Rightarrow> users_page \<times> 'w world \<Rightarrow> users_page \<times> 'w world" where
  "users_handleImportCSV E base tenant pw = (case pw of (p, w) \<Rightarrow>
     if trim (up_importText p) = [] then (p, w)
     else (case import_lines E base tenant 0 (text_lines (up_importText p)) (0, []) w of ((n, errs), w1) \<Rightarrow>
       up_refresh E base tenant (p\<lparr>up_importResult := Some (''Created '' @ show_nat n @ '' users'' @
           (if errs = [] then [] else '', '' @ show_nat (length errs) @ '' errors: '' @ join_str ''; '' errs)), up_importText := []\<rparr>, w1)))"

definition users_fields :: "(string \<times> string list) list" where
  "users_fields = [(''username'', [''username'', ''user_name'', ''login'']), (''email'', [''email'', ''e-mail'', ''mail'']),
     (''display_name'', [''display_name'', ''displayname'', ''name'', ''full_name'']), (''phone'', [''phone'', ''phone_number'', ''tel''])]"

definition users_mapping :: "string list \<Rightarrow> column_map" where
  "users_mapping headers = foldl (\<lambda>m h. case find (\<lambda>(f, names). trim (to_lower h) \<in> set names) users_fields of
     None \<Rightarrow> m | Some (f, _) \<Rightarrow> obj_set h f m) [] headers"

text \<open>\<open>parseLine\<close> is, line by line, the \<open>parseCsvLine\<close> of the import wizard.\<close>

definition users_parseCsv :: "string \<Rightarrow> users_page \<Rightarrow> users_page" where
  "users_parseCsv text' p = (case filter (\<lambda>l. trim l \<noteq> []) (split_lines (trim text')) of
      [] \<Rightarrow> p
    | l # ls \<Rightarrow> p\<lparr>up_csvHeaders := parseCsvLine l, up_csvData := map parseCsvLine ls, up_mapping := users_mapping (parseCsvLine l),
        up_csvResult := None, up_showCsv := True\<rparr>)"

definition users_handleMappingChange :: "string \<Rightarrow> string \<Rightarrow> users_page \<Rightarrow> users_page" where
  "users_handleMappingChange col field p = p\<lparr>up_mapping := (if field = [] then filter (\<lambda>(k, v). k \<noteq> col) (up_mapping p)
     else obj_set col field (up_mapping p))\<rparr>"

definition csv_payload :: "(string \<times> string) list \<Rightarrow> jsv" where
  "csv_payload mp = JObj [(''username'', JStr (item_or (assoc ''username'' mp) [])), (''email'', JStr (item_or (assoc ''email'' mp) [])),
     (''display_name'', str_or_undef (item_or (assoc ''display_name'' mp) [])), (''phone'', str_or_undef (item_or (assoc ''phone'' mp) [])),
     (''password'', JStr temp_password)]"

fun import_csv_rows ::
  "'w env \<Rightarrow> string \<Rightarrow> string \<Rightarrow> string list \<Rightarrow> column_map \<Rightarrow> nat \<Rightarrow> string list list \<Rightarrow> nat \<times> string list \<Rightarrow> 'w world \<Rightarrow> (nat \<times> string list) \<times> 'w world" where
  "import_csv_rows E base tenant hs m i [] acc w = (acc, w)"
| "import_csv_rows E base tenant hs m i (row # rows) (n, errs) w =
     (let mp = mapped_fields row hs m in
      if \<not> present (assoc ''username'' mp) \<or> \<not> present (assoc ''email'' mp) then
        import_csv_rows E base tenant hs m (Suc i) rows (n, errs @ [''Row '' @ show_nat (i + 2) @ '': missing required field'']) w
      else (case apiFetch E base tenant ''/api/v1/users'' (post_options (csv_payload mp)) w of
          (Inl x, w1) \<Rightarrow> import_csv_rows E base tenant hs m (Suc i) rows (n, errs @ [''Row '' @ show_nat (i + 2) @ '': '' @ api_exn_message E x]) w1
        | (Inr _, w1) \<Rightarrow> import_csv_rows E base tenant hs m (Suc i) rows (Suc n, errs) w1))"

definition handleCsvImport ::
  "'w env \<Rightarrow> string \<Rightarrow> string \<Rightarrow> users_page \<times> 'w world \<Rightarrow> users_page \<times> 'w world" where
  "handleCsvImport E base tenant pw = (case pw of (p, w) \<Rightarrow>
     if up_csvData p = [] then (p, w)
     else if ''username'' \<notin> snd ` set (up_mapping p) then (p\<lparr>up_csvResult := Some ''Error: username field must be mapped''\<rparr>, w)
     else if ''email'' \<notin> snd ` set (up_mapping p) then (p\<lparr>up_csvResult := Some ''Error: email field must be mapped''\<rparr>, w)
     else (case import_csv_rows E base tenant (up_csvHeaders p) (up_mapping p) 0 (up_csvData p) (0, []) w of ((n, errs), w1) \<Rightarrow>
       (let p1 = p\<lparr>up_csvResult := Some (''Imported '' @ show_nat n @ '' users'' @
            (if errs = [] then [] else '', '' @ show_nat (length errs) @ '' errors: '' @ join_str ''; '' (take 5 errs) @ (if 5 < length errs then ''...'' else [])))\<rparr>
        in if 0 < n then up_refresh E base tenant (p1, w1) else (p1, w1))))"

definition closeCsvImport :: "users_page \<Rightarrow> users_page" where
  "closeCsvImport p = p\<lparr>up_showCsv := False, up_csvData := [], up_csvHeaders := [], up_mapping := [], up_csvResult := None\<rparr>"

section \<open>Requests of a batch\<close>

text \<open>Every request of a batch is sent, whatever the others are answered.\<close>

definition asked :: "string \<Rightarrow> 'w world \<Rightarrow> 'w world \<Rightarrow> string \<times> req_options \<Rightarrow> bool" where
  "asked base w w' r = (\<exists>rq \<in> set (drop (length (sent w)) (sent w')).
     url rq = base @ fst r \<and> meth rq = (case o_method (snd r) of None \<Rightarrow> ''GET'' | Some m \<Rightarrow> m) \<and> rbody rq = o_body (snd r))"

lemma apiFetch_extends: "\<exists>rs. sent (snd (apiFetch E base tenant path opts w)) = sent w @ rs \<and> rs \<noteq> [] \<and>
    url (hd rs) = base @ path \<and> meth (hd rs) = (case o_method opts of None \<Rightarrow> ''GET'' | Some m \<Rightarrow> m) \<and> rbody (hd rs) = o_body opts"
  using apiFetch_sent[of E base tenant path opts w] by (auto simp: api_request_def)

lemma all_requests_extends: "\<exists>us. sent (snd (all_requests E base tenant rs w)) = sent w @ us"
proof (induction rs arbitrary: w)
  case (Cons po rs)
  obtain path opts where po: "po = (path, opts)" by (cases po)
  obtain r w1 where a: "apiFetch E base tenant path opts w = (r, w1)" by fastforce
  have "sent (snd (all_requests E base tenant ((path, opts) # rs) w)) = sent (snd (all_requests E base tenant rs w1))"
    by (simp add: a case_prod_beta)
  moreover have "\<exists>us. sent w1 = sent w @ us" using apiFetch_extends[of E base tenant path opts w] a by auto
  moreover have "\<exists>us. sent (snd (all_requests E base tenant rs w1)) = sent w1 @ us" by (rule Cons.IH)
  ultimately show ?case unfolding po by (metis append_assoc)
qed simp

lemma all_requests_asked:
  "r \<in> set rs \<Longrightarrow> asked base w (snd (all_requests E base tenant rs w)) r"
proof (induction rs arbitrary: w)
  case (Cons po rs)
  obtain path opts where po: "po = (path, opts)" by (cases po)
  obtain q w1 where a: "apiFetch E base tenant path opts w = (q, w1)" by fastforce
  have s: "snd (all_requests E base tenant ((path, opts) # rs) w) = snd (all_requests E base tenant rs w1)"
    by (simp add: a case_prod_beta)
  obtain us where us: "sent w1 = sent w @ us" "us \<noteq> []" "url (hd us) = base @ path"
      "meth (hd us) = (case o_method opts of None \<Rightarrow> ''GET'' | Some m \<Rightarrow> m)" "rbody (hd us) = o_body opts"
    using apiFetch_extends[of E base tenant path opts w] a by auto
  obtain vs where vs: "sent (snd (all_requests E base tenant rs w1)) = sent w1 @ vs" using all_requests_extends by blast
  show ?case
  proof (cases "r = (path, opts)")
    case True
    have "hd us \<in> set (us @ vs)" using us(2) by simp
    with True us vs s show ?thesis unfolding asked_def po by (intro bexI[of _ "hd us"]) simp_all
  next
    case False
    then have "asked base w1 (snd (all_requests E base tenant rs w1)) r" using Cons.IH[of w1] Cons.prems po by simp
    then show ?thesis using us(1) vs s unfolding po by (auto simp: asked_def)
  qed
qed simp

lemma useUsers_refresh_extends: "\<exists>us. sent (snd (useUsers_refresh E base tenant (h, w))) = sent w @ us"
proof -
  have "snd (useUsers_refresh E base tenant (h, w)) = snd (apiFetch E base tenant ''/api/v1/users'' no_options w)"
    by (auto simp: useUsers_refresh_def split: prod.splits sum.splits)
  then show ?thesis using apiFetch_extends[of E base tenant "''/api/v1/users''" no_options w] by auto
qed

lemma up_refresh_extends: "\<exists>us. sent (snd (up_refresh E base tenant (p, w))) = sent w @ us"
  using useUsers_refresh_extends[of E base tenant "up_hook p" w] by (simp add: up_refresh_def case_prod_beta)

lemma asked_extends: "asked base w w1 r \<Longrightarrow> sent w1 = sent w @ xs \<Longrightarrow> sent w2 = sent w1 @ us \<Longrightarrow> asked base w w2 r"
  by (auto simp: asked_def)

lemma doDelete_asked:
  assumes "i \<in> set ids"
  shows "asked base w (snd (doDelete E base tenant ids label (p, w))) (''/api/v1/users/'' @ i, \<lparr>o_method = Some ''DELETE'', o_headers = [], o_body = None\<rparr>)"
proof -
  let ?r = "(''/api/v1/users/'' @ i, \<lparr>o_method = Some ''DELETE'', o_headers = [], o_body = None\<rparr>)"
  let ?a = "all_requests E base tenant (delete_requests ids) w"
  have a: "asked base w (snd ?a) ?r"
    by (rule all_requests_asked) (use assms in \<open>auto simp: delete_requests_def\<close>)
  obtain us where us: "sent (snd ?a) = sent w @ us" using all_requests_extends by blast
  show ?thesis
  proof (cases "fst ?a")
    case None
    let ?p = "p\<lparr>up_selected := [],
        up_formSuccess := (if length ids = 1 then ''User \"'' @ label @ ''\"'' else show_nat (length ids) @ '' users'') @ '' deleted.''\<rparr>"
    obtain vs where "sent (snd (up_refresh E base tenant (?p, snd ?a))) = sent (snd ?a) @ vs" using up_refresh_extends by blast
    from asked_extends[OF a us this] None show ?thesis by (simp add: doDelete_def case_prod_beta)
  next
    case (Some x)
    then show ?thesis using a by (simp add: doDelete_def case_prod_beta)
  qed
qed

lemma doDelete_failed:
  assumes "fst (all_requests E base tenant (delete_requests ids) w) = Some x"
  shows "fst (doDelete E base tenant ids label (p, w)) = p\<lparr>up_formError := api_exn_message E x\<rparr>"
  using assms by (simp add: doDelete_def case_prod_beta)

text \<open>Rows are counted once: created or failed.\<close>

lemma import_lines_count:
  "import_lines E base tenant i ls (n, errs) w = ((m, errs'), w') \<Longrightarrow> m + length errs' = n + length errs + length ls"
  by (induction E base tenant i ls "(n, errs)" w arbitrary: n errs rule: import_lines.induct)
    (auto simp: Let_def split: if_splits prod.splits sum.splits)

lemma import_csv_rows_count:
  "import_csv_rows E base tenant hs mp i rows (n, errs) w = ((m, errs'), w') \<Longrightarrow> m + length errs' = n + length errs + length rows"
  by (induction E base tenant hs mp i rows "(n, errs)" w arbitrary: n errs rule: import_csv_rows.induct)
    (auto simp: Let_def split: if_splits prod.splits sum.splits)

section \<open>Reading an exported file\<close>

lemma split_on_join: "ls \<noteq> [] \<Longrightarrow> \<forall>l \<in> set ls. d \<notin> set l \<Longrightarrow> split_on d (join_on d ls) = ls"
proof (induction ls rule: join_on.induct)
  case (2 d s) then show ?case by (simp add: split_on_id)
next
  case (3 d s t ts) then show ?case by (simp add: split_on_sep)
qed simp

lemma trim_id: "s \<noteq> [] \<Longrightarrow> \<not> is_space (hd s) \<Longrightarrow> \<not> is_space (last s) \<Longrightarrow> trim s = s"
proof -
  assume a: "s \<noteq> []" "\<not> is_space (hd s)" "\<not> is_space (last s)"
  have d: "dropWhile is_space xs = xs" if "xs \<noteq> []" "\<not> is_space (hd xs)" for xs using that by (cases xs) auto
  show ?thesis using d[of s] d[of "rev s"] a by (simp add: trim_def trim_end_def hd_rev)
qed

lemma join_on_ends:
  "ls \<noteq> [] \<Longrightarrow> \<forall>l \<in> set ls. l \<noteq> [] \<Longrightarrow> join_on d ls \<noteq> [] \<and> hd (join_on d ls) = hd (hd ls) \<and> last (join_on d ls) = last (last ls)"
proof (induction ls)
  case (Cons l ls) then show ?case by (cases ls) auto
qed simp

lemma set_join_on: "set (join_on d ls) \<subseteq> insert d (\<Union> (set ` set ls))"
  by (induction ls rule: join_on.induct) auto

lemma set_csv_line: "set (csv_line row) \<subseteq> {CHR 0x22, CHR '',''} \<union> \<Union> (set ` set row)"
proof -
  have "set (csv_cell f) \<subseteq> insert (CHR 0x22) (set f)" for f
    by (auto simp: csv_cell_def replace_all_def split: if_splits)
  then have "\<Union> (set ` set (map csv_cell row)) \<subseteq> insert (CHR 0x22) (\<Union> (set ` set row))" by fastforce
  then have "insert (CHR '','') (\<Union> (set ` set (map csv_cell row))) \<subseteq> {CHR 0x22, CHR '',''} \<union> \<Union> (set ` set row)" by auto
  then show ?thesis unfolding csv_line_def by (rule subset_trans[OF set_join_on])
qed

lemma csv_line_ends: "row \<noteq> [] \<Longrightarrow> csv_line row \<noteq> [] \<and> hd (csv_line row) = CHR 0x22 \<and> last (csv_line row) = CHR 0x22"
  using join_on_ends[of "map csv_cell row" "CHR '',''"] by (cases row rule: rev_cases) (auto simp: csv_line_def csv_cell_def hd_append hd_map)

text \<open>The lines of a file whose lines are not blank, start and end without white space and hold no line break.\<close>

definition plain_line :: "string \<Rightarrow> bool" where
  "plain_line l = (l \<noteq> [] \<and> \<not> is_space (hd l) \<and> \<not> is_space (last l) \<and> CHR 0x0A \<notin> set l)"

lemma plain_lines_read:
  assumes "ls \<noteq> []" "\<forall>l \<in> set ls. plain_line l"
  shows "filter (\<lambda>l. trim l \<noteq> []) (split_lines (trim (join_on (CHR 0x0A) ls))) = ls"
proof -
  let ?t = "join_on (CHR 0x0A) ls"
  have ne: "\<forall>l \<in> set ls. l \<noteq> []" using assms(2) by (auto simp: plain_line_def)
  have "trim ?t = ?t"
    using join_on_ends[OF assms(1) ne, of "CHR 0x0A"] assms by (intro trim_id) (auto simp: plain_line_def)
  moreover have "split_on (CHR 0x0A) ?t = ls" using assms by (intro split_on_join) (auto simp: plain_line_def)
  moreover have "drop_cr l = l" if "l \<in> set ls" for l
    using assms(2) that by (auto simp: drop_cr_def plain_line_def is_space_def)
  then have "map drop_cr (butlast ls) = butlast ls" by (intro map_idI) (auto dest: in_set_butlastD)
  moreover have "trim l \<noteq> []" if "l \<in> set ls" for l using assms(2) that by (auto simp: plain_line_def trim_id)
  ultimately show ?thesis using assms(1) by (simp add: split_lines_def Let_def)
qed

definition export_header :: string where
  "export_header = ''username,email,displayName,phone,status,created_at''"

lemma export_header_read:
  "plain_line export_header"
  "parseCsvLine export_header = [''username'', ''email'', ''displayName'', ''phone'', ''status'', ''created_at'']"
  "users_mapping (parseCsvLine export_header) =
     [(''username'', ''username''), (''email'', ''email''), (''displayName'', ''display_name''), (''phone'', ''phone'')]"
  by code_simp+

lemma csv_line_plain:
  assumes "row \<noteq> []" "\<forall>f \<in> set row. CHR 0x0A \<notin> set f"
  shows "plain_line (csv_line row)"
proof -
  have "CHR 0x0A \<notin> set (csv_line row)" using set_csv_line[of row] assms(2) by auto
  then show ?thesis using csv_line_ends[OF assms(1)] by (simp add: plain_line_def is_space_def)
qed

lemma export_parsed:
  assumes "up_filtered p \<noteq> []" "\<forall>u \<in> set (up_filtered p). \<forall>f \<in> set (user_cells u). CHR 0x0A \<notin> set f"
  shows "users_parseCsv (users_handleExportCSV p) q = q\<lparr>
     up_csvHeaders := parseCsvLine export_header,
     up_csvData := map (\<lambda>u. map (\<lambda>f. trim (csv_read f)) (user_cells u)) (up_filtered p),
     up_mapping := users_mapping (parseCsvLine export_header), up_csvResult := None, up_showCsv := True\<rparr>"
proof -
  let ?ls = "export_header # map (csv_line \<circ> user_cells) (up_filtered p)"
  have "join_on (CHR 0x0A) ?ls = users_handleExportCSV p"
    using assms(1) by (cases "up_filtered p") (simp_all add: users_handleExportCSV_def export_header_def)
  moreover have "\<forall>l \<in> set ?ls. plain_line l"
    using assms(2) by (auto simp: export_header_read(1) user_cells_def intro!: csv_line_plain)
  ultimately have "filter (\<lambda>l. trim l \<noteq> []) (split_lines (trim (users_handleExportCSV p))) = ?ls"
    using plain_lines_read[of ?ls] by simp
  then show ?thesis by (simp add: users_parseCsv_def csv_line_read user_cells_def comp_def)
qed

lemma exported_row_fields:
  "mapped_fields (map (\<lambda>f. trim (csv_read f)) (user_cells u)) (parseCsvLine export_header) (users_mapping (parseCsvLine export_header)) =
     [(''username'', trim (csv_read (us_username u))), (''email'', trim (csv_read (us_email u))),
      (''display_name'', trim (csv_read (us_display u))), (''phone'', trim (csv_read (us_phone u)))]"
  by (subst export_header_read(3), subst export_header_read(2)) (simp add: mapped_fields_def user_cells_def upt_rec nth_Cons')

section \<open>Pages\<close>

text \<open>Navigation keeps the page within the list; a refresh after a deletion does not.\<close>

definition page_ok :: "users_page \<Rightarrow> bool" where
  "page_ok p = (up_page p = 0 \<or> up_page p < up_totalPages p)"

lemma filtered_page [simp]: "up_filtered (p\<lparr>up_page := k\<rparr>) = up_filtered p"
proof -
  have "user_shown (p\<lparr>up_page := k\<rparr>) = user_shown p" by (intro ext) (simp add: user_shown_def)
  then show ?thesis by (simp add: up_filtered_def up_users_def)
qed

lemma navigation_ok:
  "page_ok (change_search q p)" "page_ok (change_roleFilter r p)" "page_ok p \<Longrightarrow> page_ok (prev_page p)" "page_ok p \<Longrightarrow> page_ok (next_page p)"
  by (auto simp: page_ok_def change_search_def change_roleFilter_def prev_page_def next_page_def up_totalPages_def)

lemma paginated_shown: "u \<in> set (paginated p) \<Longrightarrow> user_shown p u \<and> u \<in> set (up_users p)"
  by (auto simp: paginated_def up_filtered_def dest!: in_set_takeD in_set_dropD)

lemma pages_cover:
  assumes "u \<in> set (up_filtered p)"
  shows "\<exists>k < up_totalPages p. u \<in> set (paginated (p\<lparr>up_page := k\<rparr>))"
proof -
  obtain i where i: "i < length (up_filtered p)" "up_filtered p ! i = u" using assms by (auto simp: in_set_conv_nth)
  let ?k = "i div PAGE_SIZE"
  have pos: "0 < PAGE_SIZE" by (simp add: PAGE_SIZE_def)
  have "?k < up_totalPages p"
    using i(1) by (simp add: up_totalPages_def PAGE_SIZE_def)
  moreover have "u \<in> set (take PAGE_SIZE (drop (?k * PAGE_SIZE) (up_filtered p)))"
  proof -
    have m: "i mod PAGE_SIZE < PAGE_SIZE" "i = ?k * PAGE_SIZE + i mod PAGE_SIZE" using pos by simp_all
    have "?k * PAGE_SIZE \<le> length (up_filtered p)" using i(1) m(2) by linarith
    then have "drop (?k * PAGE_SIZE) (up_filtered p) ! (i mod PAGE_SIZE) = u" using i(2) m(2) by simp
    moreover have "i mod PAGE_SIZE < length (drop (?k * PAGE_SIZE) (up_filtered p))" using i(1) m(2) unfolding length_drop by linarith
    ultimately show ?thesis using m(1) by (auto simp: in_set_conv_nth intro!: exI[of _ "i mod PAGE_SIZE"])
  qed
  ultimately show ?thesis by (auto simp: paginated_def)
qed

section \<open>Properties\<close>

text \<open>C29. A list of users, none of whose exported fields contains a line break, exported as CSV and loaded again into the import of the same page has its columns
  mapped by themselves and one row per user, in order; each row has exactly the four fields name, address, display name and phone, and a field comes back as
  it was, trimmed, if it contains anything but quotation marks; but a field of quotation marks only gets one more, so that an empty one, such as a missing
  phone or display name, comes back as a quotation mark.\<close>

theorem users_export_reimport:
  assumes "up_filtered p \<noteq> []" "\<forall>u \<in> set (up_filtered p). \<forall>f \<in> set (user_cells u). CHR 0x0A \<notin> set f"
    and "q' = users_parseCsv (users_handleExportCSV p) q"
  shows "length (up_csvData q') = length (up_filtered p) \<and>
    (\<forall>i < length (up_filtered p). (let u = up_filtered p ! i; mp = mapped_fields (up_csvData q' ! i) (up_csvHeaders q') (up_mapping q') in
      map fst mp = [''username'', ''email'', ''display_name'', ''phone''] \<and>
      (\<forall>(k, f) \<in> {(''username'', us_username u), (''email'', us_email u), (''display_name'', us_display u), (''phone'', us_phone u)}.
        assoc k mp = Some (if set f \<subseteq> {CHR 0x22} then CHR 0x22 # f else trim f))))"
proof -
  have "\<not> is_space (CHR 0x22)" by code_simp
  then have "set f \<subseteq> {CHR 0x22} \<Longrightarrow> trim (CHR 0x22 # f) = CHR 0x22 # f" for f
    by (intro trim_id) (auto dest!: subsetD[OF _ last_in_set])
  then have cell: "trim (csv_read f) = (if set f \<subseteq> {CHR 0x22} then CHR 0x22 # f else trim f)" for f by (simp add: csv_read_def)
  show ?thesis using export_parsed[OF assms(1,2), of q] assms(3) by (simp add: exported_row_fields Let_def) (simp add: cell)
qed

definition one_user :: users_page where
  "one_user = users_init\<lparr>up_hook := \<lparr>uh_users = JArr [JObj [(''id'', JStr ''1''), (''username'', JStr ''bob''), (''email'', JStr ''b@x.y''), (''phone'', JStr ''123'')]],
     uh_loading = False, uh_error = None\<rparr>\<rparr>"

theorem users_export_reimport_witness:
  "let q = users_parseCsv (users_handleExportCSV one_user) users_init; mp = mapped_fields (up_csvData q ! 0) (up_csvHeaders q) (up_mapping q) in
   assoc ''username'' mp = Some ''bob'' \<and> assoc ''phone'' mp = Some ''123'' \<and> assoc ''display_name'' mp = Some [CHR 0x22]"
proof -
  let ?u = "page_user_of (JObj [(''id'', JStr ''1''), (''username'', JStr ''bob''), (''email'', JStr ''b@x.y''), (''phone'', JStr ''123'')])"
  have "up_filtered one_user = [?u]"
    by (simp add: up_filtered_def up_users_def one_user_def users_init_def user_shown_def)
  moreover have "\<forall>f \<in> set (user_cells ?u). CHR 0x0A \<notin> set f"
    by (simp add: user_cells_def page_user_of_def user_str_def or_else_def js_opt_prop_def)
  moreover have "us_username ?u = ''bob''" "us_phone ?u = ''123''" "us_display ?u = []"
    by (simp_all add: page_user_of_def user_str_def js_opt_prop_def or_else_def)
  moreover have "trim ''bob'' = ''bob''" "trim ''123'' = ''123''" by code_simp+
  ultimately show ?thesis
    using users_export_reimport[of one_user "users_parseCsv (users_handleExportCSV one_user) users_init" users_init] by (simp add: Let_def)
qed

text \<open>The selection of the users page outlives the list it was made in: after a change of the search, also to one that
  finds nobody, deleting the selection asks the server to delete every selected user.  All requests are sent even when some fail; then the selection stays
  and the list is not loaded again.\<close>

lemma batch_delete_unseen:
  assumes "i \<in> set (up_selected p)"
  shows "(\<exists>rq \<in> set (drop (length (sent w)) (sent (snd (confirm_delete E base tenant (handleBatchDelete (change_search q p), w))))).
      url rq = base @ ''/api/v1/users/'' @ i \<and> meth rq = ''DELETE'') \<and>
    (\<forall>x. fst (all_requests E base tenant (delete_requests (up_selected p)) w) = Some x \<longrightarrow>
      up_selected (fst (confirm_delete E base tenant (handleBatchDelete (change_search q p), w))) = up_selected p \<and>
      up_hook (fst (confirm_delete E base tenant (handleBatchDelete (change_search q p), w))) = up_hook p)"
proof -
  let ?p = "handleBatchDelete (change_search q p)" and ?l = "show_nat (length (up_selected p)) @ '' selected users''"
  have d: "up_deleteTarget ?p = Some (up_selected p, ?l)" "up_selected ?p = up_selected p" "up_hook ?p = up_hook p"
    using assms by (auto simp: handleBatchDelete_def change_search_def)
  have c: "confirm_delete E base tenant (?p, w) = ((fst (doDelete E base tenant (up_selected p) ?l (?p, w)))\<lparr>up_deleteTarget := None\<rparr>,
      snd (doDelete E base tenant (up_selected p) ?l (?p, w)))"
    using d by (simp add: confirm_delete_def case_prod_beta)
  have "\<exists>rq \<in> set (drop (length (sent w)) (sent (snd (confirm_delete E base tenant (?p, w))))). url rq = base @ ''/api/v1/users/'' @ i \<and> meth rq = ''DELETE''"
    using doDelete_asked[OF assms, of base w E tenant ?l ?p] c by (auto simp: asked_def)
  moreover have "up_selected (fst (confirm_delete E base tenant (?p, w))) = up_selected p \<and> up_hook (fst (confirm_delete E base tenant (?p, w))) = up_hook p"
    if "fst (all_requests E base tenant (delete_requests (up_selected p)) w) = Some x" for x
    using doDelete_failed[OF that, of ?l ?p] c d by simp
  ultimately show ?thesis by blast
qed

lemma batch_delete_unseen_example:
  "paginated (change_search ''zzz'' (one_user\<lparr>up_selected := [''1'']\<rparr>)) = [] \<and>
   (\<exists>rq \<in> set (sent (snd (confirm_delete (always NetError) [] [] (handleBatchDelete (change_search ''zzz'' (one_user\<lparr>up_selected := [''1'']\<rparr>)), blank_world)))).
      url rq = ''/api/v1/users/1'')"
proof -
  have "paginated (change_search ''zzz'' (one_user\<lparr>up_selected := [''1'']\<rparr>)) = []" by code_simp
  then show ?thesis
    using batch_delete_unseen[of "''1''" "one_user\<lparr>up_selected := [''1'']\<rparr>" blank_world "always NetError" "[]" "[]" "''zzz''"] by (auto dest: in_set_dropD)
qed

end
