(* ===== verification/Roles_Page.thy ===== *)
theory Roles_Page
  imports Users_Page
begin

text \<open>
  The roles page (\<open>console/src/app/roles/page.tsx\<close>) with its tabs: the roles, the assignment of permissions, the hierarchy,
  the matrix, the policy check and the builder of attribute conditions; and the page of one role
  (\<open>console/src/app/roles/[id]/page.tsx\<close>).  Roles and permissions are records of strings, the empty string for a missing field, and
  the lists of an answer are arrays where they are not missing.
  Requests started together are run one after the other, and \<open>loadData\<close> and \<open>loadRolePerms\<close>, which handlers start without waiting, at the end of the handler.
  Translations are an argument, as is the answer to \<open>confirm\<close>; timers that hide a message are left out.
\<close>

section \<open>Data\<close>

record role_rec =
  rl_id :: string
  rl_key :: string
  rl_name :: string
  rl_desc :: string
  rl_system :: bool
  rl_parent :: string

record perm_rec =
  pe_id :: string
  pe_key :: string
  pe_name :: string
  pe_resource :: string
  pe_action :: string

definition role_rec_of :: "jsv \<Rightarrow> role_rec" where
  "role_rec_of v = \<lparr>rl_id = user_str v ''id'', rl_key = user_str v ''key'', rl_name = user_str v ''name'', rl_desc = user_str v ''description'',
     rl_system = truthy (js_opt_prop v ''system_role''), rl_parent = user_str v ''parent_role_id''\<rparr>"

definition perm_rec_of :: "jsv \<Rightarrow> perm_rec" where
  "perm_rec_of v = \<lparr>pe_id = user_str v ''id'', pe_key = user_str v ''key'', pe_name = user_str v ''name'',
     pe_resource = user_str v ''resource_type'', pe_action = user_str v ''action''\<rparr>"

record role_form =
  rf_key :: string
  rf_name :: string
  rf_desc :: string

definition empty_form :: role_form where
  "empty_form = \<lparr>rf_key = [], rf_name = [], rf_desc = []\<rparr>"

definition form_json :: "role_form \<Rightarrow> jsv" where
  "form_json f = JObj [(''key'', JStr (rf_key f)), (''name'', JStr (rf_name f)), (''description'', JStr (rf_desc f))]"

record roles_page =
  rp_roles :: "role_rec list"
  rp_permissions :: "perm_rec list"
  rp_loading :: bool
  rp_error :: "string option"
  rp_msg :: "string option"
  rp_showCreate :: bool
  rp_createForm :: role_form
  rp_editing :: "role_rec option"
  rp_editForm :: role_form
  rp_roleUsers :: "(string \<times> jsv) list"
  rp_selectedRole :: string
  rp_rolePerms :: "perm_rec list"
  rp_permLoading :: bool
  rp_search :: string
  rp_selected :: "string list"

definition roles_init :: roles_page where
  "roles_init = \<lparr>rp_roles = [], rp_permissions = [], rp_loading = True, rp_error = None, rp_msg = None, rp_showCreate = False,
     rp_createForm = empty_form, rp_editing = None, rp_editForm = empty_form, rp_roleUsers = [], rp_selectedRole = [], rp_rolePerms = [],
     rp_permLoading = False, rp_search = [], rp_selected = []\<rparr>"

section \<open>Loading\<close>

text \<open>A request whose failure gives an object with an empty list; the list of an answer, \<^term>\<open>None\<close> for \<open>null\<close>, whose property is read.\<close>

definition list_or_empty :: "string list \<Rightarrow> api_exn + jsv \<Rightarrow> jsv list option" where
  "list_or_empty ks r = (case r of Inl _ \<Rightarrow> Some []
     | Inr d \<Rightarrow> if nullish d then None else Some (arr_items (foldr (\<lambda>k v. js_or (js_opt_prop d k) v) ks (JArr []))))"

definition roles_loadData ::
  "'w env \<Rightarrow> string \<Rightarrow> string \<Rightarrow> roles_page \<times> 'w world \<Rightarrow> roles_page \<times> 'w world" where
  "roles_loadData E base tenant pw = (case pw of (p, w) \<Rightarrow>
     (case apiFetch E base tenant ''/api/v1/roles'' no_options w of (r1, w1) \<Rightarrow>
     (case apiFetch E base tenant ''/api/v1/permissions'' no_options w1 of (r2, w2) \<Rightarrow>
       (case list_or_empty [''roles'', ''items''] r1 of
          None \<Rightarrow> (p\<lparr>rp_error := Some (type_message E), rp_loading := False\<rparr>, w2)
        | Some rs \<Rightarrow> (let p1 = p\<lparr>rp_roles := map role_rec_of rs\<rparr> in
           case list_or_empty [''permissions'', ''items''] r2 of
             None \<Rightarrow> (p1\<lparr>rp_error := Some (type_message E), rp_loading := False\<rparr>, w2)
           | Some ps \<Rightarrow> (p1\<lparr>rp_permissions := map perm_rec_of ps, rp_error := None, rp_loading := False\<rparr>, w2))))))"

definition role_perms_path :: "string \<Rightarrow> string" where
  "role_perms_path i = ''/api/v1/roles/'' @ i @ ''/permissions''"

definition loadRolePerms ::
  "'w env \<Rightarrow> string \<Rightarrow> string \<Rightarrow> string \<Rightarrow> roles_page \<times> 'w world \<Rightarrow> roles_page \<times> 'w world" where
  "loadRolePerms E base tenant roleId pw = (case pw of (p, w) \<Rightarrow>
     if roleId = [] then (p\<lparr>rp_rolePerms := []\<rparr>, w)
     else (case apiFetch E base tenant (role_perms_path roleId) no_options w of (r, w1) \<Rightarrow>
       (p\<lparr>rp_rolePerms := (case list_or_empty [''permissions''] r of None \<Rightarrow> [] | Some ps \<Rightarrow> map perm_rec_of ps), rp_permLoading := False\<rparr>, w1)))"

section \<open>Roles\<close>

definition roles_handleCreate ::
  "(string \<Rightarrow> string) \<Rightarrow> 'w env \<Rightarrow> string \<Rightarrow> string \<Rightarrow> roles_page \<times> 'w world \<Rightarrow> roles_page \<times> 'w world" where
  "roles_handleCreate t E base tenant pw = (case pw of (p, w) \<Rightarrow>
     if rf_key (rp_createForm p) = [] \<or> rf_name (rp_createForm p) = [] then (p, w)
     else (case apiFetch E base tenant ''/api/v1/roles'' (post_options (form_json (rp_createForm p))) w of
        (Inl x, w1) \<Rightarrow> (p\<lparr>rp_error := Some (api_exn_message E x)\<rparr>, w1)
      | (Inr _, w1) \<Rightarrow> roles_loadData E base tenant
          (p\<lparr>rp_showCreate := False, rp_createForm := empty_form, rp_msg := Some (t ''roles.roleCreated''), rp_loading := True\<rparr>, w1)))"

definition roles_handleDelete ::
  "(string \<Rightarrow> string) \<Rightarrow> 'w env \<Rightarrow> string \<Rightarrow> string \<Rightarrow> bool \<Rightarrow> string \<Rightarrow> bool \<Rightarrow> roles_page \<times> 'w world \<Rightarrow> roles_page \<times> 'w world" where
  "roles_handleDelete t E base tenant confirmed roleId systemRole pw = (case pw of (p, w) \<Rightarrow>
     if systemRole then (p\<lparr>rp_error := Some (t ''roles.systemRole'')\<rparr>, w)
     else if \<not> confirmed then (p, w)
     else (case apiFetch E base tenant (''/api/v1/roles/'' @ roleId) \<lparr>o_method = Some ''DELETE'', o_headers = [], o_body = None\<rparr> w of
        (Inl x, w1) \<Rightarrow> (p\<lparr>rp_error := Some (api_exn_message E x)\<rparr>, w1)
      | (Inr _, w1) \<Rightarrow> roles_loadData E base tenant (p\<lparr>rp_msg := Some (t ''roles.roleDeleted''), rp_loading := True\<rparr>, w1)))"

text \<open>\<open>n.toString(36)\<close>, and \<open>s.replace(p, r)\<close> of the first occurrence.\<close>

fun show_base36 :: "nat \<Rightarrow> string" where
  "show_base36 n = (if n < 36 then [] else show_base36 (n div 36)) @ [char_of (if n mod 36 < 10 then 48 + n mod 36 else 87 + n mod 36)]"

declare show_base36.simps [simp del]

fun replace_first :: "string \<Rightarrow> string \<Rightarrow> string \<Rightarrow> string" where
  "replace_first pat r s = (if prefix pat s then r @ drop (length pat) s else (case s of [] \<Rightarrow> [] | c # cs \<Rightarrow> c # replace_first pat r cs))"

declare replace_first.simps [simp del]

definition clone_key :: "nat \<Rightarrow> role_rec \<Rightarrow> string" where
  "clone_key ms r = rl_key r @ ''-copy-'' @ show_base36 ms"

definition clone_body :: "nat \<Rightarrow> role_rec \<Rightarrow> jsv" where
  "clone_body ms r = JObj [(''key'', JStr (clone_key ms r)), (''name'', JStr (rl_name r @ '' (Copy)'')), (''description'', JStr (rl_desc r)),
     (''parent_role_id'', JStr (rl_id r))]"

definition handleCloneRole ::
  "(string \<Rightarrow> string) \<Rightarrow> 'w env \<Rightarrow> string \<Rightarrow> string \<Rightarrow> nat \<Rightarrow> role_rec \<Rightarrow> roles_page \<times> 'w world \<Rightarrow> roles_page \<times> 'w world" where
  "handleCloneRole t E base tenant ms r pw = (case pw of (p, w) \<Rightarrow>
     (case apiFetch E base tenant ''/api/v1/roles'' (post_options (clone_body ms r)) w of
        (Inl x, w1) \<Rightarrow> (p\<lparr>rp_error := Some (api_exn_message E x)\<rparr>, w1)
      | (Inr _, w1) \<Rightarrow> roles_loadData E base tenant
          (p\<lparr>rp_msg := Some (replace_first ''{key}'' (clone_key ms r) (t ''roles.roleCloned'')), rp_loading := True\<rparr>, w1)))"

definition handleEditRole :: "role_rec \<Rightarrow> roles_page \<Rightarrow> roles_page" where
  "handleEditRole r p = p\<lparr>rp_editing := Some r, rp_editForm := \<lparr>rf_key = rl_key r, rf_name = rl_name r, rf_desc = rl_desc r\<rparr>\<rparr>"

definition handleSaveEdit ::
  "(string \<Rightarrow> string) \<Rightarrow> 'w env \<Rightarrow> string \<Rightarrow> string \<Rightarrow> roles_page \<times> 'w world \<Rightarrow> roles_page \<times> 'w world" where
  "handleSaveEdit t E base tenant pw = (case pw of (p, w) \<Rightarrow> (case rp_editing p of None \<Rightarrow> (p, w)
     | Some r \<Rightarrow>
        (case apiFetch E base tenant (''/api/v1/roles/'' @ rl_id r)
             \<lparr>o_method = Some ''PUT'', o_headers = [], o_body = Some (json_stringify (form_json (rp_editForm p)))\<rparr> w of
           (Inl x, w1) \<Rightarrow> (p\<lparr>rp_error := Some (api_exn_message E x)\<rparr>, w1)
         | (Inr _, w1) \<Rightarrow> roles_loadData E base tenant (p\<lparr>rp_editing := None, rp_msg := Some (t ''roles.roleUpdated''), rp_loading := True\<rparr>, w1))))"

text \<open>\<open>roleUsers[roleId]\<close> is loaded once; an entry is always an object and so true.\<close>

definition loadRoleUsers ::
  "'w env \<Rightarrow> string \<Rightarrow> string \<Rightarrow> string \<Rightarrow> roles_page \<times> 'w world \<Rightarrow> roles_page \<times> 'w world" where
  "loadRoleUsers E base tenant roleId pw = (case pw of (p, w) \<Rightarrow>
     if assoc roleId (rp_roleUsers p) \<noteq> None then (p, w)
     else (case apiFetch E base tenant (''/api/v1/roles/'' @ roleId @ ''/users'') no_options w of (r, w1) \<Rightarrow>
       (p\<lparr>rp_roleUsers := obj_set roleId (case r of Inl _ \<Rightarrow> JArr []
            | Inr d \<Rightarrow> if nullish d then JArr [] else js_or (js_opt_prop d ''users'') (JArr [])) (rp_roleUsers p)\<rparr>, w1)))"

section \<open>Assigning permissions\<close>

definition ids_body :: "string list \<Rightarrow> jsv" where
  "ids_body ids = JObj [(''permission_ids'', JArr (map JStr ids))]"

definition change_perms ::
  "string \<Rightarrow> string list \<Rightarrow> string \<Rightarrow> 'w env \<Rightarrow> string \<Rightarrow> string \<Rightarrow> roles_page \<times> 'w world \<Rightarrow> roles_page \<times> 'w world" where
  "change_perms m ids done' E base tenant pw = (case pw of (p, w) \<Rightarrow>
     (case apiFetch E base tenant (role_perms_path (rp_selectedRole p))
          \<lparr>o_method = Some m, o_headers = [], o_body = Some (json_stringify (ids_body ids))\<rparr> w of
        (Inl x, w1) \<Rightarrow> (p\<lparr>rp_error := Some (api_exn_message E x)\<rparr>, w1)
      | (Inr _, w1) \<Rightarrow> loadRolePerms E base tenant (rp_selectedRole p) (p\<lparr>rp_msg := Some done', rp_permLoading := True\<rparr>, w1)))"

definition handleAssignPerm ::
  "(string \<Rightarrow> string) \<Rightarrow> 'w env \<Rightarrow> string \<Rightarrow> string \<Rightarrow> string \<Rightarrow> roles_page \<times> 'w world \<Rightarrow> roles_page \<times> 'w world" where
  "handleAssignPerm t E base tenant i pw = (case pw of (p, w) \<Rightarrow> if rp_selectedRole p = [] then (p, w)
     else change_perms ''POST'' [i] (t ''roles.permAssigned'') E base tenant (p, w))"

definition handleRevokePerm ::
  "(string \<Rightarrow> string) \<Rightarrow> 'w env \<Rightarrow> string \<Rightarrow> string \<Rightarrow> string \<Rightarrow> roles_page \<times> 'w world \<Rightarrow> roles_page \<times> 'w world" where
  "handleRevokePerm t E base tenant i pw = (case pw of (p, w) \<Rightarrow> if rp_selectedRole p = [] then (p, w)
     else change_perms ''DELETE'' [i] (t ''roles.permRevoked'') E base tenant (p, w))"

definition handleBatchAssign ::
  "(string \<Rightarrow> string) \<Rightarrow> 'w env \<Rightarrow> string \<Rightarrow> string \<Rightarrow> string list \<Rightarrow> roles_page \<times> 'w world \<Rightarrow> roles_page \<times> 'w world" where
  "handleBatchAssign t E base tenant ids pw = (case pw of (p, w) \<Rightarrow> if rp_selectedRole p = [] \<or> ids = [] then (p, w)
     else change_perms ''POST'' ids (replace_first ''{n}'' (show_nat (length ids)) (t ''roles.batchAssigned'')) E base tenant (p, w))"

text \<open>Choosing another role starts \<open>loadRolePerms\<close> for it and keeps the selection of the assignment tab.\<close>

definition select_role ::
  "'w env \<Rightarrow> string \<Rightarrow> string \<Rightarrow> string \<Rightarrow> roles_page \<times> 'w world \<Rightarrow> roles_page \<times> 'w world" where
  "select_role E base tenant i pw = (case pw of (p, w) \<Rightarrow>
     if i = [] then (p\<lparr>rp_selectedRole := []\<rparr>, w) else loadRolePerms E base tenant i (p\<lparr>rp_selectedRole := i\<rparr>, w))"

definition perm_shown :: "string \<Rightarrow> perm_rec \<Rightarrow> bool" where
  "perm_shown q e = (q = [] \<or> str_includes (to_lower (pe_key e)) (to_lower q) \<or> str_includes (to_lower (pe_name e)) (to_lower q) \<or>
     str_includes (to_lower (pe_resource e)) (to_lower q))"

definition roles_filteredPerms :: "roles_page \<Rightarrow> perm_rec list" where
  "roles_filteredPerms p = filter (perm_shown (rp_search p)) (rp_permissions p)"

definition groupedPerms :: "perm_rec list \<Rightarrow> (string \<times> perm_rec list) list" where
  "groupedPerms ps = foldl (\<lambda>acc e. push_entry (or_else (pe_resource e) ''other'') e acc) [] ps"

definition resourceGroups :: "perm_rec list \<Rightarrow> string list" where
  "resourceGroups ps = js_sort (\<lambda>a b. str_less b a) (map fst (groupedPerms ps))"

definition check_perm :: "string \<Rightarrow> roles_page \<Rightarrow> roles_page" where
  "check_perm i p = p\<lparr>rp_selected := js_toggle i (rp_selected p)\<rparr>"

definition select_all_perms :: "roles_page \<Rightarrow> roles_page" where
  "select_all_perms p = p\<lparr>rp_selected := (if length (rp_selected p) = length (roles_filteredPerms p) then []
     else js_set (map pe_id (roles_filteredPerms p)))\<rparr>"

definition assign_selected ::
  "(string \<Rightarrow> string) \<Rightarrow> 'w env \<Rightarrow> string \<Rightarrow> string \<Rightarrow> roles_page \<times> 'w world \<Rightarrow> roles_page \<times> 'w world" where
  "assign_selected t E base tenant pw = (case pw of (p, w) \<Rightarrow> if rp_selected p = [] then (p, w)
     else (case handleBatchAssign t E base tenant (rp_selected p) (p, w) of (p1, w1) \<Rightarrow> (p1\<lparr>rp_selected := []\<rparr>, w1)))"

section \<open>The hierarchy\<close>

definition role_children :: "role_rec list \<Rightarrow> string \<Rightarrow> role_rec list" where
  "role_children rs i = filter (\<lambda>r. rl_parent r \<noteq> [] \<and> rl_parent r = i) rs"

definition role_roots :: "role_rec list \<Rightarrow> role_rec list" where
  "role_roots rs = filter (\<lambda>r. rl_parent r = []) rs"

text \<open>The rows of the tree with their depths; the recursion has fuel, \<^term>\<open>None\<close> is the stack overflow.\<close>

fun roles_renderNode :: "nat \<Rightarrow> role_rec list \<Rightarrow> string list \<Rightarrow> nat \<Rightarrow> role_rec \<Rightarrow> (role_rec \<times> nat) list option" where
  "roles_renderNode 0 rs ex d r = None"
| "roles_renderNode (Suc n) rs ex d r =
     (if rl_id r \<in> set ex \<and> role_children rs (rl_id r) \<noteq> []
      then map_option (\<lambda>xs. (r, d) # concat xs) (those (map (roles_renderNode n rs ex (Suc d)) (role_children rs (rl_id r))))
      else Some [(r, d)])"

definition hierarchy_rows :: "nat \<Rightarrow> role_rec list \<Rightarrow> string list \<Rightarrow> (role_rec \<times> nat) list option" where
  "hierarchy_rows n rs ex = map_option concat (those (map (roles_renderNode n rs ex 0) (role_roots rs)))"

record hierarchy =
  hi_effective :: "(string \<times> jsv list) list"
  hi_expanded :: "string list"

text \<open>An answer that is \<open>null\<close>, or an item of its list that is, throws and is ignored.\<close>

definition loadEffective ::
  "'w env \<Rightarrow> string \<Rightarrow> string \<Rightarrow> string \<Rightarrow> hierarchy \<times> 'w world \<Rightarrow> hierarchy \<times> 'w world" where
  "loadEffective E base tenant i hw = (case hw of (h, w) \<Rightarrow>
     (case apiFetch E base tenant (''/api/v1/roles/'' @ i @ ''/effective-permissions'') no_options w of (r, w1) \<Rightarrow>
       (case list_or_empty [''permissions''] r of None \<Rightarrow> (h, w1)
        | Some ps \<Rightarrow> if list_ex nullish ps then (h, w1)
            else (h\<lparr>hi_effective := obj_set i (map (\<lambda>v. js_opt_prop v ''key'') ps) (hi_effective h)\<rparr>, w1))))"

definition hierarchy_toggleExpand ::
  "'w env \<Rightarrow> string \<Rightarrow> string \<Rightarrow> string \<Rightarrow> hierarchy \<times> 'w world \<Rightarrow> hierarchy \<times> 'w world" where
  "hierarchy_toggleExpand E base tenant i hw = (case hw of (h, w) \<Rightarrow>
     if i \<in> set (hi_expanded h) then (h\<lparr>hi_expanded := js_delete i (hi_expanded h)\<rparr>, w)
     else loadEffective E base tenant i (h\<lparr>hi_expanded := js_add i (hi_expanded h)\<rparr>, w))"

section \<open>The matrix\<close>

definition matrix_entry :: "api_exn + jsv \<Rightarrow> jsv list" where
  "matrix_entry r = (case r of Inl _ \<Rightarrow> [] | Inr d \<Rightarrow> if nullish d then []
     else (case js_or (js_opt_prop d ''permissions'') (JArr []) of
        JArr vs \<Rightarrow> if list_ex nullish vs then [] else js_set (map (\<lambda>v. js_opt_prop v ''id'') vs) | _ \<Rightarrow> []))"

fun roles_loadMatrix ::
  "'w env \<Rightarrow> string \<Rightarrow> string \<Rightarrow> role_rec list \<Rightarrow> (string \<times> jsv list) list \<Rightarrow> 'w world \<Rightarrow> (string \<times> jsv list) list \<times> 'w world" where
  "roles_loadMatrix E base tenant [] m w = (m, w)"
| "roles_loadMatrix E base tenant (r # rs) m w = (case apiFetch E base tenant (role_perms_path (rl_id r)) no_options w of
     (a, w1) \<Rightarrow> roles_loadMatrix E base tenant rs (obj_set (rl_id r) (matrix_entry a) m) w1)"

datatype cell_mark = AllMark | PartialMark | NoMark

definition matrix_cell :: "(string \<times> jsv list) list \<Rightarrow> string \<Rightarrow> perm_rec list \<Rightarrow> cell_mark" where
  "matrix_cell m i ps = (let has = (\<lambda>e. case assoc i m of None \<Rightarrow> False | Some s \<Rightarrow> JStr (pe_id e) \<in> set s) in
     if list_all has ps then AllMark else if list_ex has ps then PartialMark else NoMark)"

section \<open>The policy check\<close>

record checker =
  ck_user :: string
  ck_resource_type :: string
  ck_action :: string
  ck_resource :: string
  ck_result :: "jsv option"
  ck_error :: "string option"
  ck_checking :: bool

definition handleCheck :: "'w env \<Rightarrow> string \<Rightarrow> string \<Rightarrow> checker \<times> 'w world \<Rightarrow> checker \<times> 'w world" where
  "handleCheck E base tenant cw = (case cw of (c, w) \<Rightarrow>
     if ck_user c = [] \<or> ck_resource_type c = [] \<or> ck_action c = [] then (c, w)
     else (case apiFetch E base tenant ''/api/v1/policies/check'' (post_options (JObj [(''user_id'', JStr (ck_user c)),
            (''resource_type'', JStr (ck_resource_type c)), (''action'', JStr (ck_action c)), (''resource'', JStr (ck_resource c))])) w of
        (Inl x, w1) \<Rightarrow> (c\<lparr>ck_result := None, ck_error := Some (api_exn_message E x), ck_checking := False\<rparr>, w1)
      | (Inr d, w1) \<Rightarrow> (c\<lparr>ck_result := Some d, ck_error := None, ck_checking := False\<rparr>, w1)))"

text \<open>What is shown: \<^term>\<open>None\<close> for no result, otherwise whether access is shown as allowed.\<close>

definition check_verdict :: "checker \<Rightarrow> bool option" where
  "check_verdict c = (case ck_result c of None \<Rightarrow> None | Some d \<Rightarrow> if truthy d then Some (truthy (js_opt_prop d ''allowed'')) else None)"

section \<open>The builder of attribute conditions\<close>

record condition_rule =
  cr_attribute :: string
  cr_operator :: string
  cr_value :: string

record abac_builder =
  ab_rules :: "condition_rule list"
  ab_combine :: string
  ab_effect :: string
  ab_name :: string
  ab_msg :: "string option"

definition abac_init :: abac_builder where
  "abac_init = \<lparr>ab_rules = [\<lparr>cr_attribute = ''user.role'', cr_operator = ''eq'', cr_value = ''admin''\<rparr>], ab_combine = ''AND'', ab_effect = ''allow'',
     ab_name = [], ab_msg = None\<rparr>"

definition abac_addRule :: "abac_builder \<Rightarrow> abac_builder" where
  "abac_addRule b = b\<lparr>ab_rules := ab_rules b @ [\<lparr>cr_attribute = ''request.ip'', cr_operator = ''eq'', cr_value = []\<rparr>]\<rparr>"

definition abac_removeRule :: "nat \<Rightarrow> abac_builder \<Rightarrow> abac_builder" where
  "abac_removeRule i b = b\<lparr>ab_rules := drop_index i (ab_rules b)\<rparr>"

datatype rule_field = RAttribute | ROperator | RValue

fun set_rule_field :: "rule_field \<Rightarrow> string \<Rightarrow> condition_rule \<Rightarrow> condition_rule" where
  "set_rule_field RAttribute v r = r\<lparr>cr_attribute := v\<rparr>"
| "set_rule_field ROperator v r = r\<lparr>cr_operator := v\<rparr>"
| "set_rule_field RValue v r = r\<lparr>cr_value := v\<rparr>"

definition abac_updateRule :: "nat \<Rightarrow> rule_field \<Rightarrow> string \<Rightarrow> abac_builder \<Rightarrow> abac_builder" where
  "abac_updateRule i f v b = b\<lparr>ab_rules := change_index i (set_rule_field f v) (ab_rules b)\<rparr>"

definition abac_value :: "abac_builder \<Rightarrow> jsv" where
  "abac_value b = JObj [(''name'', JStr (or_else (ab_name b) ''abac_policy'')), (''effect'', JStr (ab_effect b)), (''combine'', JStr (ab_combine b)),
     (''conditions'', JArr (map (\<lambda>r. JObj [(''attribute'', JStr (cr_attribute r)), (''operator'', JStr (cr_operator r)), (''value'', JStr (cr_value r))])
        (ab_rules b)))]"

definition generatedJSON :: "abac_builder \<Rightarrow> string" where
  "generatedJSON b = json_pretty (abac_value b)"

definition abac_handleSave :: "'w env \<Rightarrow> string \<Rightarrow> string \<Rightarrow> abac_builder \<times> 'w world \<Rightarrow> abac_builder \<times> 'w world" where
  "abac_handleSave E base tenant bw = (case bw of (b, w) \<Rightarrow>
     (case apiFetch E base tenant ''/api/v1/policies'' \<lparr>o_method = Some ''POST'', o_headers = [], o_body = Some (generatedJSON b)\<rparr> w of
        (Inl _, w1) \<Rightarrow> (b\<lparr>ab_msg := Some ''Failed to save policy (policy API may not be available)''\<rparr>, w1)
      | (Inr _, w1) \<Rightarrow> (b\<lparr>ab_msg := Some ''ABAC policy saved successfully''\<rparr>, w1)))"

section \<open>The page of a role\<close>

record role_detail =
  rd_role :: "role_rec option"
  rd_perms :: "perm_rec list"
  rd_users :: "jsv list"
  rd_all :: "perm_rec list"
  rd_loading :: bool
  rd_saving :: bool
  rd_msg :: string
  rd_editName :: string
  rd_editDesc :: string
  rd_showAdd :: bool

text \<open>\<open>resp?.k ?? []\<close> of an answer that is \<open>{ k: [] }\<close> for a failure.\<close>

definition opt_list :: "string \<Rightarrow> api_exn + jsv \<Rightarrow> jsv list" where
  "opt_list k r = (case r of Inl _ \<Rightarrow> [] | Inr d \<Rightarrow> arr_items (js_opt_prop d k))"

definition loadRole ::
  "'w env \<Rightarrow> string \<Rightarrow> string \<Rightarrow> string \<Rightarrow> role_detail \<times> 'w world \<Rightarrow> role_detail \<times> 'w world" where
  "loadRole E base tenant roleId dw = (case dw of (d, w) \<Rightarrow>
     (case apiFetch E base tenant (''/api/v1/roles/'' @ roleId) no_options w of (r1, w1) \<Rightarrow>
     (case apiFetch E base tenant (role_perms_path roleId) no_options w1 of (r2, w2) \<Rightarrow>
     (case apiFetch E base tenant (''/api/v1/roles/'' @ roleId @ ''/users'') no_options w2 of (r3, w3) \<Rightarrow>
     (case apiFetch E base tenant ''/api/v1/permissions'' no_options w3 of (r4, w4) \<Rightarrow>
       (let d1 = (case r1 of Inl _ \<Rightarrow> d | Inr v \<Rightarrow> if truthy v
               then d\<lparr>rd_role := Some (role_rec_of v), rd_editName := rl_name (role_rec_of v), rd_editDesc := rl_desc (role_rec_of v)\<rparr> else d)
        in (d1\<lparr>rd_perms := map perm_rec_of (opt_list ''permissions'' r2), rd_users := opt_list ''users'' r3,
               rd_all := map perm_rec_of (opt_list ''permissions'' r4), rd_loading := False\<rparr>, w4)))))))"

text \<open>The controls that change a role are not there for a system role.\<close>

definition editable :: "role_detail \<Rightarrow> bool" where
  "editable d = (case rd_role d of None \<Rightarrow> False | Some r \<Rightarrow> \<not> rl_system r)"

definition handleSaveRole ::
  "'w env \<Rightarrow> string \<Rightarrow> string \<Rightarrow> string \<Rightarrow> role_detail \<times> 'w world \<Rightarrow> role_detail \<times> 'w world" where
  "handleSaveRole E base tenant roleId dw = (case dw of (d, w) \<Rightarrow> if \<not> editable d \<or> rd_saving d then (d, w)
     else (case apiFetch E base tenant (''/api/v1/roles/'' @ roleId) \<lparr>o_method = Some ''PUT'', o_headers = [],
            o_body = Some (json_stringify (JObj [(''name'', JStr (rd_editName d)), (''description'', JStr (rd_editDesc d))]))\<rparr> w of
        (Inl _, w1) \<Rightarrow> (d\<lparr>rd_msg := ''Failed to update role'', rd_saving := False\<rparr>, w1)
      | (Inr _, w1) \<Rightarrow> (d\<lparr>rd_role := Some ((the (rd_role d))\<lparr>rl_name := rd_editName d, rl_desc := rd_editDesc d\<rparr>),
          rd_msg := ''Role updated'', rd_saving := False\<rparr>, w1)))"

definition availablePermissions :: "role_detail \<Rightarrow> perm_rec list" where
  "availablePermissions d = filter (\<lambda>e. \<not> list_ex (\<lambda>a. pe_id a = pe_id e) (rd_perms d)) (rd_all d)"

text \<open>The button is there for each available permission.\<close>

definition handleAddPermission ::
  "'w env \<Rightarrow> string \<Rightarrow> string \<Rightarrow> string \<Rightarrow> string \<Rightarrow> role_detail \<times> 'w world \<Rightarrow> role_detail \<times> 'w world" where
  "handleAddPermission E base tenant roleId i dw = (case dw of (d, w) \<Rightarrow>
     if \<not> editable d \<or> \<not> rd_showAdd d \<or> i \<notin> pe_id ` set (availablePermissions d) then (d, w)
     else (case apiFetch E base tenant (role_perms_path roleId) (post_options (ids_body [i])) w of
        (Inl _, w1) \<Rightarrow> (d\<lparr>rd_msg := ''Failed to add permission''\<rparr>, w1)
      | (Inr _, w1) \<Rightarrow> (d\<lparr>rd_perms := rd_perms d @ (case find (\<lambda>e. pe_id e = i) (rd_all d) of None \<Rightarrow> [] | Some e \<Rightarrow> [e]),
          rd_showAdd := False, rd_msg := ''Permission added''\<rparr>, w1)))"

definition handleRemovePermission ::
  "'w env \<Rightarrow> string \<Rightarrow> string \<Rightarrow> string \<Rightarrow> string \<Rightarrow> role_detail \<times> 'w world \<Rightarrow> role_detail \<times> 'w world" where
  "handleRemovePermission E base tenant roleId i dw = (case dw of (d, w) \<Rightarrow> if \<not> editable d then (d, w)
     else (case apiFetch E base tenant (role_perms_path roleId @ ''/'' @ i) \<lparr>o_method = Some ''DELETE'', o_headers = [], o_body = None\<rparr> w of
        (Inl _, w1) \<Rightarrow> (d\<lparr>rd_msg := ''Failed to remove permission''\<rparr>, w1)
      | (Inr _, w1) \<Rightarrow> (d\<lparr>rd_perms := filter (\<lambda>e. pe_id e \<noteq> i) (rd_perms d), rd_msg := ''Permission removed''\<rparr>, w1)))"

definition handleRemoveUser ::
  "'w env \<Rightarrow> string \<Rightarrow> string \<Rightarrow> string \<Rightarrow> string \<Rightarrow> role_detail \<times> 'w world \<Rightarrow> role_detail \<times> 'w world" where
  "handleRemoveUser E base tenant roleId i dw = (case dw of (d, w) \<Rightarrow> if \<not> editable d then (d, w)
     else (case apiFetch E base tenant (''/api/v1/roles/'' @ roleId @ ''/users/'' @ i) \<lparr>o_method = Some ''DELETE'', o_headers = [], o_body = None\<rparr> w of
        (Inl _, w1) \<Rightarrow> (d\<lparr>rd_msg := ''Failed to unassign user''\<rparr>, w1)
      | (Inr _, w1) \<Rightarrow> (d\<lparr>rd_users := filter (\<lambda>u. js_opt_prop u ''id'' \<noteq> JStr i) (rd_users d), rd_msg := ''User unassigned''\<rparr>, w1)))"

section \<open>Groups of permissions\<close>

lemma groupedPerms_count: "(\<Sum>(k, es) \<leftarrow> groupedPerms ps. length es) = length ps"
proof -
  have push: "(\<Sum>(k, es) \<leftarrow> push_entry k0 e acc. length es) = Suc (\<Sum>(k, es) \<leftarrow> acc. length es)"
    for k0 and e :: perm_rec and acc
  proof -
    have "(\<Sum>(k, es) \<leftarrow> obj_set k0 (xs @ [e]) acc. length es) + (case assoc k0 acc of None \<Rightarrow> 0 | Some ys \<Rightarrow> length ys)
        = (\<Sum>(k, es) \<leftarrow> acc. length es) + length xs + 1" for xs
      by (induction acc) (auto split: option.splits)
    from this[of "case assoc k0 acc of None \<Rightarrow> [] | Some ys \<Rightarrow> ys"] show ?thesis
      by (cases "assoc k0 acc") (auto simp: push_entry_def)
  qed
  have "(\<Sum>(k, es) \<leftarrow> foldl (\<lambda>acc e. push_entry (or_else (pe_resource e) ''other'') e acc) acc ps. length es) =
      (\<Sum>(k, es) \<leftarrow> acc. length es) + length ps" for acc
    by (induction ps arbitrary: acc) (simp_all add: push)
  then show ?thesis by (simp add: groupedPerms_def)
qed

lemma resourceGroups_sorted: "sorted_wrt str_le (resourceGroups ps)"
  using by_str.sorted[of "map fst (groupedPerms ps)" id] by (simp add: resourceGroups_def str_less_def)

section \<open>What the hierarchy shows\<close>

text \<open>A role at depth \<open>d\<close>: \<open>d\<close> parents lead to a role without one.\<close>

inductive at_depth :: "role_rec list \<Rightarrow> role_rec \<Rightarrow> nat \<Rightarrow> bool" for rs where
  root: "r \<in> set rs \<Longrightarrow> rl_parent r = [] \<Longrightarrow> at_depth rs r 0"
| child: "at_depth rs r d \<Longrightarrow> c \<in> set rs \<Longrightarrow> rl_parent c \<noteq> [] \<Longrightarrow> rl_parent c = rl_id r \<Longrightarrow> at_depth rs c (Suc d)"

inductive_cases at_depthE: "at_depth rs r d"

lemma at_depth_in: "at_depth rs r d \<Longrightarrow> r \<in> set rs"
  by (induction rule: at_depth.induct) auto

lemma at_depth_unique:
  assumes "distinct (map rl_id rs)"
  shows "at_depth rs r d \<Longrightarrow> at_depth rs r e \<Longrightarrow> d = e"
proof (induction arbitrary: e rule: at_depth.induct)
  case (root r)
  from root.prems root.hyps show ?case by (auto elim: at_depthE)
next
  case (child r d c)
  from child.prems child.hyps(3) obtain r' e' where r': "at_depth rs r' e'" "rl_parent c = rl_id r'" "e = Suc e'" by (auto elim: at_depthE)
  then have "r' = r" using assms at_depth_in[OF r'(1)] at_depth_in[OF child.hyps(1)] child.hyps(4) by (auto simp: distinct_map inj_on_def)
  then show ?case using child.IH r' by simp
qed

lemma at_depth_bound:
  assumes "distinct (map rl_id rs)" "at_depth rs r d"
  shows "d < length rs"
proof -
  have ex: "\<forall>e \<le> d. \<exists>x. at_depth rs x e" using assms(2)
    by (induction rule: at_depth.induct) (auto simp: le_Suc_eq intro: at_depth.intros, metis at_depth.child)
  then obtain f where f: "\<And>e. e \<le> d \<Longrightarrow> at_depth rs (f e) e" by metis
  have "inj_on f {..d}" by (rule inj_onI) (metis f at_depth_unique[OF assms(1)] atMost_iff)
  moreover have "f ` {..d} \<subseteq> set rs" using f at_depth_in by auto
  ultimately have "card {..d} \<le> card (set rs)" by (metis card_image card_mono List.finite_set)
  then show ?thesis using card_length[of rs] by simp
qed

text \<open>What is open: a role without a parent, and the children of an expanded role that is open itself.\<close>

inductive visible :: "role_rec list \<Rightarrow> string list \<Rightarrow> role_rec \<Rightarrow> nat \<Rightarrow> bool" for rs ex where
  root: "r \<in> set rs \<Longrightarrow> rl_parent r = [] \<Longrightarrow> visible rs ex r 0"
| child: "visible rs ex r d \<Longrightarrow> rl_id r \<in> set ex \<Longrightarrow> c \<in> set rs \<Longrightarrow> rl_parent c \<noteq> [] \<Longrightarrow> rl_parent c = rl_id r \<Longrightarrow> visible rs ex c (Suc d)"

lemma visible_at_depth: "visible rs ex r d \<Longrightarrow> at_depth rs r d"
  by (induction rule: visible.induct) (auto intro: at_depth.intros)

lemma at_depth_visible: "at_depth rs r d \<Longrightarrow> rl_id ` set rs \<subseteq> set ex \<Longrightarrow> visible rs ex r d"
proof (induction rule: at_depth.induct)
  case (child r d c)
  have "rl_id r \<in> set ex" using at_depth_in[OF child.hyps(1)] child.prems by auto
  then show ?case using visible.child[OF child.IH[OF child.prems]] child.hyps by blast
qed (rule visible.root)

lemma visible_collapsed: "visible rs [] r d \<longleftrightarrow> r \<in> set rs \<and> rl_parent r = [] \<and> d = 0"
  by (auto intro: visible.root elim: visible.cases)

lemma children_depth: "at_depth rs r d \<Longrightarrow> c \<in> set (role_children rs (rl_id r)) \<Longrightarrow> at_depth rs c (Suc d)"
  by (auto simp: role_children_def intro: at_depth.child)

lemma roles_renderNode_total:
  assumes "distinct (map rl_id rs)"
  shows "at_depth rs r d \<Longrightarrow> length rs \<le> n + d \<Longrightarrow> \<exists>xs. roles_renderNode n rs ex k r = Some xs"
proof (induction n arbitrary: r d k)
  case 0
  then show ?case using at_depth_bound[OF assms] by fastforce
next
  case (Suc n)
  have "\<exists>xs. roles_renderNode n rs ex (Suc k) c = Some xs" if "c \<in> set (role_children rs (rl_id r))" for c
    using Suc.IH[OF children_depth[OF Suc.prems(1) that]] Suc.prems(2) by simp
  then obtain g where "\<And>c. c \<in> set (role_children rs (rl_id r)) \<Longrightarrow> roles_renderNode n rs ex (Suc k) c = Some (g c)" by metis
  then have "map (roles_renderNode n rs ex (Suc k)) (role_children rs (rl_id r)) = map Some (map g (role_children rs (rl_id r)))" by simp
  then have "those (map (roles_renderNode n rs ex (Suc k)) (role_children rs (rl_id r))) = Some (map g (role_children rs (rl_id r)))"
    by (simp only: those_Some)
  then show ?case by simp
qed

text \<open>The rows of the children.\<close>

lemma those_map_Some:
  assumes "those (map f cs) = Some yss"
  shows "ys \<in> set yss \<Longrightarrow> \<exists>c \<in> set cs. f c = Some ys" "c \<in> set cs \<Longrightarrow> \<exists>ys \<in> set yss. f c = Some ys"
proof -
  have m: "map f cs = map Some yss" using assms by (simp add: those_Some)
  show "\<exists>c \<in> set cs. f c = Some ys" if "ys \<in> set yss"
  proof -
    have "Some ys \<in> set (map f cs)" using that by (simp add: m)
    then show ?thesis by auto
  qed
  show "\<exists>ys \<in> set yss. f c = Some ys" if "c \<in> set cs"
  proof -
    have "f c \<in> set (map Some yss)" using that m[symmetric] by simp
    then show ?thesis by auto
  qed
qed

lemma roles_renderNode_sound: "roles_renderNode n rs ex d r = Some xs \<Longrightarrow> visible rs ex r d \<Longrightarrow> (x, e) \<in> set xs \<Longrightarrow> visible rs ex x e"
proof (induction n arbitrary: r d xs)
  case (Suc n)
  show ?case
  proof (cases "(x, e) = (r, d)")
    case False
    then obtain yss where y: "those (map (roles_renderNode n rs ex (Suc d)) (role_children rs (rl_id r))) = Some yss" "(x, e) \<in> set (concat yss)" "rl_id r \<in> set ex"
      using Suc.prems by (auto split: if_splits)
    from y(2) obtain ys where ys: "ys \<in> set yss" "(x, e) \<in> set ys" by auto
    from those_map_Some(1)[OF y(1) ys(1)] obtain c where "c \<in> set (role_children rs (rl_id r))" "roles_renderNode n rs ex (Suc d) c = Some ys" by blast
    moreover from this(1) have "visible rs ex c (Suc d)" using visible.child[OF Suc.prems(2) y(3)] by (auto simp: role_children_def)
    ultimately show ?thesis using Suc.IH[of "Suc d" c ys] ys(2) by blast
  qed (use Suc.prems in auto)
qed simp

lemma roles_renderNode_head: "roles_renderNode n rs ex d r = Some xs \<Longrightarrow> (r, d) \<in> set xs"
  by (cases n) (auto split: if_splits)

lemma roles_renderNode_closed:
  assumes "rl_id y \<in> set ex" "c \<in> set (role_children rs (rl_id y))"
  shows "roles_renderNode n rs ex d r = Some xs \<Longrightarrow> (y, e) \<in> set xs \<Longrightarrow> (c, Suc e) \<in> set xs"
proof (induction n arbitrary: r d xs)
  case (Suc n)
  show ?case
  proof (cases "(y, e) = (r, d)")
    case True
    then obtain yss where y: "those (map (roles_renderNode n rs ex (Suc d)) (role_children rs (rl_id r))) = Some yss" "xs = (r, d) # concat yss"
      using Suc.prems assms by (auto split: if_splits)
    obtain ys where "ys \<in> set yss" "roles_renderNode n rs ex (Suc d) c = Some ys" using those_map_Some(2)[OF y(1), of c] True assms(2) by auto
    then show ?thesis using roles_renderNode_head[of n rs ex "Suc d" c ys] y(2) True by auto
  next
    case False
    then obtain yss where y: "those (map (roles_renderNode n rs ex (Suc d)) (role_children rs (rl_id r))) = Some yss" "xs = (r, d) # concat yss"
        "(y, e) \<in> set (concat yss)"
      using Suc.prems by (auto split: if_splits)
    from y(3) obtain ys where ys: "ys \<in> set yss" "(y, e) \<in> set ys" by auto
    from those_map_Some(1)[OF y(1) ys(1)] obtain c' where "roles_renderNode n rs ex (Suc d) c' = Some ys" by blast
    then have "(c, Suc e) \<in> set ys" using Suc.IH ys(2) by blast
    then show ?thesis using y(2) ys(1) by auto
  qed
qed simp

lemma hierarchy_rows_total:
  assumes "distinct (map rl_id rs)"
  shows "\<exists>rows. hierarchy_rows (length rs) rs ex = Some rows"
proof -
  have "\<exists>xs. roles_renderNode (length rs) rs ex 0 r = Some xs" if "r \<in> set (role_roots rs)" for r
    using roles_renderNode_total[OF assms, of r 0 "length rs" ex 0] that by (auto simp: role_roots_def intro: at_depth.root)
  then obtain g where "\<And>r. r \<in> set (role_roots rs) \<Longrightarrow> roles_renderNode (length rs) rs ex 0 r = Some (g r)" by metis
  then have "map (roles_renderNode (length rs) rs ex 0) (role_roots rs) = map Some (map g (role_roots rs))" by simp
  then have "those (map (roles_renderNode (length rs) rs ex 0) (role_roots rs)) = Some (map g (role_roots rs))" by (simp only: those_Some)
  then show ?thesis by (simp add: hierarchy_rows_def)
qed

lemma hierarchy_rows_sound:
  assumes "hierarchy_rows n rs ex = Some rows" "(x, e) \<in> set rows"
  shows "visible rs ex x e"
proof -
  obtain yss where y: "those (map (roles_renderNode n rs ex 0) (role_roots rs)) = Some yss" "rows = concat yss"
    using assms(1) by (auto simp: hierarchy_rows_def)
  with assms(2) obtain ys where ys: "ys \<in> set yss" "(x, e) \<in> set ys" by auto
  from those_map_Some(1)[OF y(1) ys(1)] obtain r where "r \<in> set (role_roots rs)" "roles_renderNode n rs ex 0 r = Some ys" by blast
  then show ?thesis using roles_renderNode_sound ys(2) by (fastforce simp: role_roots_def intro: visible.root)
qed

lemma hierarchy_rows_complete:
  assumes "hierarchy_rows n rs ex = Some rows"
  shows "visible rs ex x e \<Longrightarrow> (x, e) \<in> set rows"
proof (induction rule: visible.induct)
  case (root r)
  obtain yss where y: "those (map (roles_renderNode n rs ex 0) (role_roots rs)) = Some yss" "rows = concat yss"
    using assms(1) by (auto simp: hierarchy_rows_def)
  have "r \<in> set (role_roots rs)" using root by (simp add: role_roots_def)
  from those_map_Some(2)[OF y(1) this] show ?case using roles_renderNode_head y(2) by fastforce
next
  case (child r d c)
  obtain yss where y: "those (map (roles_renderNode n rs ex 0) (role_roots rs)) = Some yss" "rows = concat yss"
    using assms(1) by (auto simp: hierarchy_rows_def)
  with child.IH obtain ys where ys: "ys \<in> set yss" "(r, d) \<in> set ys" by auto
  from those_map_Some(1)[OF y(1) ys(1)] obtain q where q: "roles_renderNode n rs ex 0 q = Some ys" by blast
  have "c \<in> set (role_children rs (rl_id r))" using child.hyps by (simp add: role_children_def)
  then show ?case using roles_renderNode_closed[OF child.hyps(2) _ q ys(2)] y(2) ys(1) by auto
qed

section \<open>Selections and system roles\<close>

lemma loadRolePerms_keeps:
  "rp_selected (fst (loadRolePerms E base tenant i (p, w))) = rp_selected p"
  "rp_selectedRole (fst (loadRolePerms E base tenant i (p, w))) = rp_selectedRole p"
  "\<exists>us. sent (snd (loadRolePerms E base tenant i (p, w))) = sent w @ us"
  using apiFetch_extends[of E base tenant "role_perms_path i" no_options w]
  by (auto simp: loadRolePerms_def case_prod_beta)

lemma change_perms_first:
  "\<exists>rq rs. sent (snd (change_perms m ids done' E base tenant (p, w))) = sent w @ rq # rs \<and> meth rq = m \<and>
     url rq = base @ role_perms_path (rp_selectedRole p) \<and> rbody rq = Some (json_stringify (ids_body ids))"
proof -
  let ?o = "\<lparr>o_method = Some m, o_headers = [], o_body = Some (json_stringify (ids_body ids))\<rparr>"
  let ?a = "apiFetch E base tenant (role_perms_path (rp_selectedRole p)) ?o w"
  obtain rs where rs: "sent (snd ?a) = sent w @ rs" "rs \<noteq> []" "url (hd rs) = base @ role_perms_path (rp_selectedRole p)" "meth (hd rs) = m"
      "rbody (hd rs) = Some (json_stringify (ids_body ids))"
    using apiFetch_extends[of E base tenant "role_perms_path (rp_selectedRole p)" ?o w] by auto
  obtain us where "sent (snd (change_perms m ids done' E base tenant (p, w))) = sent (snd ?a) @ us"
  proof (cases "fst ?a")
    case (Inl x)
    then show ?thesis using that[of "[]"] by (simp add: change_perms_def case_prod_beta)
  next
    case (Inr d)
    then show ?thesis
      using loadRolePerms_keeps(3)[of E base tenant "rp_selectedRole p" "p\<lparr>rp_msg := Some done', rp_permLoading := True\<rparr>" "snd ?a"] that
      by (auto simp: change_perms_def case_prod_beta)
  qed
  then show ?thesis using rs by (intro exI[of _ "hd rs"] exI[of _ "tl rs @ us"]) simp
qed

text \<open>Permissions ticked for one role are assigned to the role that is chosen when the button is pressed.\<close>

lemma ticked_for_another_role:
  assumes "rp_selected p \<noteq> []" "j \<noteq> []"
  shows "\<exists>rq rs. sent (snd (assign_selected t E base tenant (select_role E base tenant j (p, w)))) =
      sent (snd (select_role E base tenant j (p, w))) @ rq # rs \<and>
    meth rq = ''POST'' \<and> url rq = base @ role_perms_path j \<and> rbody rq = Some (json_stringify (ids_body (rp_selected p)))"
proof -
  let ?s = "select_role E base tenant j (p, w)"
  have s: "rp_selected (fst ?s) = rp_selected p" "rp_selectedRole (fst ?s) = j"
    using assms(2) loadRolePerms_keeps(1,2)[of E base tenant j "p\<lparr>rp_selectedRole := j\<rparr>" w] by (simp_all add: select_role_def)
  have "sent (snd (assign_selected t E base tenant ?s)) =
      sent (snd (change_perms ''POST'' (rp_selected p) (replace_first ''{n}'' (show_nat (length (rp_selected p))) (t ''roles.batchAssigned'')) E base tenant ?s))"
    using s assms by (simp add: assign_selected_def handleBatchAssign_def case_prod_beta)
  then show ?thesis
    using change_perms_first[of "''POST''" "rp_selected p" "replace_first ''{n}'' (show_nat (length (rp_selected p))) (t ''roles.batchAssigned'')" E base tenant "fst ?s" "snd ?s"] s
    by auto
qed

lemma roles_loadData_extends: "\<exists>us. sent (snd (roles_loadData E base tenant (p, w))) = sent w @ us"
proof -
  let ?a = "apiFetch E base tenant ''/api/v1/roles'' no_options w"
  have "snd (roles_loadData E base tenant (p, w)) = snd (apiFetch E base tenant ''/api/v1/permissions'' no_options (snd ?a))"
    by (simp add: roles_loadData_def case_prod_beta Let_def split: option.splits)
  then show ?thesis
    using apiFetch_extends[of E base tenant "''/api/v1/roles''" no_options w]
      apiFetch_extends[of E base tenant "''/api/v1/permissions''" no_options "snd ?a"] by auto
qed

lemma handleSaveEdit_first:
  assumes "rp_editing p = Some r"
  shows "\<exists>rq rs. sent (snd (handleSaveEdit t E base tenant (p, w))) = sent w @ rq # rs \<and> meth rq = ''PUT'' \<and>
     url rq = base @ ''/api/v1/roles/'' @ rl_id r \<and> rbody rq = Some (json_stringify (form_json (rp_editForm p)))"
proof -
  let ?o = "\<lparr>o_method = Some ''PUT'', o_headers = [], o_body = Some (json_stringify (form_json (rp_editForm p)))\<rparr>"
  let ?a = "apiFetch E base tenant (''/api/v1/roles/'' @ rl_id r) ?o w"
  obtain rs where rs: "sent (snd ?a) = sent w @ rs" "rs \<noteq> []" "url (hd rs) = base @ ''/api/v1/roles/'' @ rl_id r" "meth (hd rs) = ''PUT''"
      "rbody (hd rs) = Some (json_stringify (form_json (rp_editForm p)))"
    using apiFetch_extends[of E base tenant "''/api/v1/roles/'' @ rl_id r" ?o w] by auto
  obtain us where "sent (snd (handleSaveEdit t E base tenant (p, w))) = sent (snd ?a) @ us"
  proof (cases "fst ?a")
    case (Inl x)
    then show ?thesis using assms that[of "[]"] by (simp add: handleSaveEdit_def case_prod_beta)
  next
    case (Inr d)
    then show ?thesis
      using assms roles_loadData_extends[of E base tenant "p\<lparr>rp_editing := None, rp_msg := Some (t ''roles.roleUpdated''), rp_loading := True\<rparr>" "snd ?a"] that
      by (auto simp: handleSaveEdit_def case_prod_beta)
  qed
  then show ?thesis using rs by (intro exI[of _ "hd rs"] exI[of _ "tl rs @ us"]) simp
qed

lemma add_keeps_distinct:
  assumes "distinct (map pe_id (rd_perms d))"
  shows "distinct (map pe_id (rd_perms (fst (handleAddPermission E base tenant roleId i (d, w)))))"
  using assms by (auto simp: handleAddPermission_def availablePermissions_def list_ex_iff split: prod.splits sum.splits option.splits dest!: find_SomeD)

text \<open>The generated text of the condition builder is read back as its value.\<close>

lemma generatedJSON_read: "json_parse (generatedJSON b) = Some (abac_value b)"
  unfolding generatedJSON_def by (rule json_pretty_clean) (auto simp: abac_value_def list_all_iff)

section \<open>Properties\<close>

text \<open>C30. The hierarchy of roles, whichever roles are expanded, is drawn to its end, and shows exactly the roles without a parent and the children of
  the expanded roles it shows, each at the number of its parents.  Before anything is expanded these are the roles without a parent; with all roles
  expanded, exactly the roles from which parents lead to a role without one.  A role that is not among these, because its parent is not in the list or because it is
  below itself, is never shown, whatever is expanded.\<close>

theorem hierarchy_shows_rooted:
  assumes "distinct (map rl_id rs)"
  shows "\<exists>rows. hierarchy_rows (length rs) rs ex = Some rows \<and> (\<forall>x e. (x, e) \<in> set rows \<longleftrightarrow> visible rs ex x e) \<and>
    (ex = [] \<longrightarrow> set rows = {(x, 0) | x. x \<in> set rs \<and> rl_parent x = []}) \<and>
    (rl_id ` set rs \<subseteq> set ex \<longrightarrow> set rows = {(x, e). at_depth rs x e}) \<and> set rows \<subseteq> {(x, e). at_depth rs x e} \<and>
    (\<forall>x e. rl_parent x \<noteq> [] \<and> rl_parent x \<notin> rl_id ` set rs \<longrightarrow> (x, e) \<notin> set rows)"
proof -
  obtain rows where r: "hierarchy_rows (length rs) rs ex = Some rows" using hierarchy_rows_total[OF assms] by blast
  have iff: "(x, e) \<in> set rows \<longleftrightarrow> visible rs ex x e" for x e
    using hierarchy_rows_sound[OF r] hierarchy_rows_complete[OF r] by blast
  moreover have "\<not> at_depth rs x e" if "rl_parent x \<noteq> []" "rl_parent x \<notin> rl_id ` set rs" for x e
  proof
    assume "at_depth rs x e"
    then show False by (rule at_depthE) (use that at_depth_in in force)+
  qed
  moreover have "set rows \<subseteq> {(x, e). at_depth rs x e}" using iff visible_at_depth by auto
  moreover have "set rows = {(x, e). at_depth rs x e}" if "rl_id ` set rs \<subseteq> set ex"
    using iff visible_at_depth at_depth_visible[OF _ that] by auto
  moreover have "set rows = {(x, 0) | x. x \<in> set rs \<and> rl_parent x = []}" if "ex = []"
    using iff that by (auto simp: visible_collapsed)
  moreover from calculation have "(x, e) \<notin> set rows" if "rl_parent x \<noteq> []" "rl_parent x \<notin> rl_id ` set rs" for x e using that visible_at_depth by blast
  ultimately show ?thesis using r by (intro exI[of _ rows]) (simp only: simp_thms, blast)
qed

definition sample_roles :: "role_rec list" where
  "sample_roles = [\<lparr>rl_id = ''1'', rl_key = ''a'', rl_name = ''A'', rl_desc = [], rl_system = False, rl_parent = []\<rparr>,
     \<lparr>rl_id = ''2'', rl_key = ''b'', rl_name = ''B'', rl_desc = [], rl_system = False, rl_parent = ''1''\<rparr>,
     \<lparr>rl_id = ''3'', rl_key = ''c'', rl_name = ''C'', rl_desc = [], rl_system = False, rl_parent = ''9''\<rparr>]"

theorem hierarchy_shows_rooted_witness:
  "(\<exists>rows. hierarchy_rows 3 sample_roles [''1'', ''2'', ''3''] = Some rows \<and> map (\<lambda>(r, d). (rl_id r, d)) rows = [(''1'', 0), (''2'', 1)]) \<and>
   (\<exists>rows. hierarchy_rows 3 sample_roles [] = Some rows \<and> set rows = {(sample_roles ! 0, 0)})"
proof -
  have d: "distinct (map rl_id sample_roles)" "length sample_roles = 3" by (simp_all add: sample_roles_def)
  have "map_option (map (\<lambda>(r, d). (rl_id r, d))) (hierarchy_rows 3 sample_roles [''1'', ''2'', ''3'']) = Some [(''1'', 0), (''2'', 1)]"
    by code_simp
  moreover have "filter (\<lambda>x. rl_parent x = []) sample_roles = [sample_roles ! 0]" by (simp add: sample_roles_def)
  then have "x \<in> set (filter (\<lambda>x. rl_parent x = []) sample_roles) \<longleftrightarrow> x = sample_roles ! 0" for x by (simp only: list.set) simp
  then have "x \<in> set sample_roles \<and> rl_parent x = [] \<longleftrightarrow> x = sample_roles ! 0" for x by (simp only: set_filter mem_Collect_eq)
  then have "{(x, 0 :: nat) | x. x \<in> set sample_roles \<and> rl_parent x = []} = {(sample_roles ! 0, 0)}" by simp
  moreover obtain rows where "hierarchy_rows 3 sample_roles [] = Some rows" "set rows = {(x, 0) | x. x \<in> set sample_roles \<and> rl_parent x = []}"
    using hierarchy_shows_rooted[OF d(1), of "[]"] unfolding d(2) by blast
  ultimately show ?thesis by auto
qed

text \<open>System roles are protected on some pages only.  The roles page refuses to delete one without a request, and the page of a system
  role changes nothing; but editing on the roles page asks the server to replace the key, the name and the description of any role, a
  system role too.\<close>

lemma system_role_edited:
  "roles_handleDelete t E base tenant c i True (p, w) = (p\<lparr>rp_error := Some (t ''roles.systemRole'')\<rparr>, w)"
  "\<not> editable d \<Longrightarrow> handleSaveRole E base tenant i (d, w) = (d, w) \<and> handleAddPermission E base tenant i k (d, w) = (d, w) \<and>
     handleRemovePermission E base tenant i k (d, w) = (d, w) \<and> handleRemoveUser E base tenant i k (d, w) = (d, w)"
  "\<exists>rq rs. sent (snd (handleSaveEdit t E base tenant ((handleEditRole r p)\<lparr>rp_editForm := f\<rparr>, w))) = sent w @ rq # rs \<and> meth rq = ''PUT'' \<and>
     url rq = base @ ''/api/v1/roles/'' @ rl_id r \<and> rbody rq = Some (json_stringify (form_json f))"
  using handleSaveEdit_first[of "(handleEditRole r p)\<lparr>rp_editForm := f\<rparr>" r t E base tenant w]
  by (simp_all add: roles_handleDelete_def handleSaveRole_def handleAddPermission_def handleRemovePermission_def handleRemoveUser_def handleEditRole_def)

definition system_detail :: role_detail where
  "system_detail = \<lparr>rd_role = Some \<lparr>rl_id = ''1'', rl_key = ''admin'', rl_name = ''Admin'', rl_desc = [], rl_system = True, rl_parent = []\<rparr>,
     rd_perms = [], rd_users = [], rd_all = [], rd_loading = False, rd_saving = False, rd_msg = [], rd_editName = ''x'', rd_editDesc = [], rd_showAdd = True\<rparr>"

lemma system_role_edited_example:
  "handleSaveRole (always NetError) [] [] ''1'' (system_detail, blank_world) = (system_detail, blank_world)"
  using system_role_edited(2)[of system_detail "always NetError" "[]" "[]" "''1''" blank_world "[]"] by (simp add: editable_def system_detail_def)

end
