(* ===== verification/Organizations.thy ===== *)
theory Organizations
  imports Org_Tree Policy_Editor
begin

text \<open>
  The organizations page (\<open>console/src/app/organizations/page.tsx\<close>): the tree with children loaded when a node is expanded, the
  departments, teams and members of an organization, creating and deleting.  \<open>buildTree\<close> is the loop of the tree page
  without the totals, so its links are the \<open>root_ids\<close> and \<open>child_ids\<close> of that theory.  Departments, teams and members are kept as
  the values the server sent.  Requests started together are run one after the other, and effects and loads that a handler starts run at its end;
  the values of a form, the answer to \<open>confirm\<close> and translations are arguments; the timer that hides a message is left out.
\<close>

section \<open>Data\<close>

record orgs_page =
  ot_orgs :: "org list"
  ot_loading :: bool
  ot_error :: "string option"
  ot_msg :: "string option"
  ot_depts :: jsv
  ot_teams :: jsv
  ot_counts :: "(string \<times> int) list"
  ot_treeData :: "(jsv \<times> jsv) option"
  ot_treeLoading :: bool
  ot_showCreate :: bool
  ot_expanded :: "string list"
  ot_selected :: "string option"
  ot_children :: "(string \<times> org list) list"

definition orgs_init :: orgs_page where
  "orgs_init = \<lparr>ot_orgs = [], ot_loading = True, ot_error = None, ot_msg = None, ot_depts = JArr [], ot_teams = JArr [], ot_counts = [],
     ot_treeData = None, ot_treeLoading = False, ot_showCreate = False, ot_expanded = [], ot_selected = None, ot_children = []\<rparr>"

text \<open>\<open>{ ...prev, ...counts }\<close>.\<close>

definition merge_counts :: "(string \<times> int) list \<Rightarrow> (string \<times> int) list \<Rightarrow> (string \<times> int) list" where
  "merge_counts prev new' = foldl (\<lambda>acc (k, v). obj_set k v acc) prev new'"

section \<open>Loading\<close>

definition children_path :: "string \<Rightarrow> string" where
  "children_path i = ''/api/v1/orgs?parent_id='' @ i"

definition orgs_fetchChildren ::
  "'w env \<Rightarrow> string \<Rightarrow> string \<Rightarrow> string \<Rightarrow> orgs_page \<times> 'w world \<Rightarrow> orgs_page \<times> 'w world" where
  "orgs_fetchChildren E base tenant i pw = (case pw of (p, w) \<Rightarrow>
     if assoc i (ot_children p) \<noteq> None then (p, w)
     else (case apiFetch E base tenant (children_path i) no_options w of
        (Inl _, w1) \<Rightarrow> (p\<lparr>ot_children := obj_set i [] (ot_children p)\<rparr>, w1)
      | (Inr data, w1) \<Rightarrow> (case org_list data of
           None \<Rightarrow> (p\<lparr>ot_children := obj_set i [] (ot_children p)\<rparr>, w1)
         | Some os \<Rightarrow> (case load_counts E base tenant os [] w1 of (counts, w2) \<Rightarrow>
             (p\<lparr>ot_counts := merge_counts (ot_counts p) counts, ot_children := obj_set i os (ot_children p)\<rparr>, w2)))))"

fun fetch_each ::
  "'w env \<Rightarrow> string \<Rightarrow> string \<Rightarrow> string list \<Rightarrow> orgs_page \<times> 'w world \<Rightarrow> orgs_page \<times> 'w world" where
  "fetch_each E base tenant [] pw = pw"
| "fetch_each E base tenant (i # is) pw = fetch_each E base tenant is (orgs_fetchChildren E base tenant i pw)"

definition plain_roots :: "org list \<Rightarrow> string list" where
  "plain_roots orgs = map og_id (filter (\<lambda>o'. \<not> present (og_parent o')) orgs)"

text \<open>The effect that expands the roots while nothing is expanded.\<close>

definition expand_effect ::
  "'w env \<Rightarrow> string \<Rightarrow> string \<Rightarrow> orgs_page \<times> 'w world \<Rightarrow> orgs_page \<times> 'w world" where
  "expand_effect E base tenant pw = (case pw of (p, w) \<Rightarrow>
     if ot_orgs p \<noteq> [] \<and> ot_expanded p = []
     then fetch_each E base tenant (plain_roots (ot_orgs p)) (p\<lparr>ot_expanded := js_set (plain_roots (ot_orgs p))\<rparr>, w)
     else (p, w))"

definition loadOrgs ::
  "'w env \<Rightarrow> string \<Rightarrow> string \<Rightarrow> orgs_page \<times> 'w world \<Rightarrow> orgs_page \<times> 'w world" where
  "loadOrgs E base tenant pw = (case pw of (p, w) \<Rightarrow>
     (case apiFetch E base tenant ''/api/v1/orgs'' no_options w of
        (Inl x, w1) \<Rightarrow> (p\<lparr>ot_error := Some (api_exn_message E x), ot_orgs := [], ot_loading := False\<rparr>, w1)
      | (Inr data, w1) \<Rightarrow> (case org_list data of
           None \<Rightarrow> (p\<lparr>ot_error := Some (type_message E), ot_orgs := [], ot_loading := False\<rparr>, w1)
         | Some os \<Rightarrow> (case load_counts E base tenant os [] w1 of (counts, w2) \<Rightarrow>
             expand_effect E base tenant (p\<lparr>ot_orgs := os, ot_counts := counts, ot_error := None, ot_loading := False\<rparr>, w2)))))"

text \<open>\<open>data.k || []\<close>, an error for \<open>null\<close>.\<close>

definition load_field ::
  "string \<Rightarrow> (jsv \<Rightarrow> orgs_page \<Rightarrow> orgs_page) \<Rightarrow> string \<Rightarrow> 'w env \<Rightarrow> string \<Rightarrow> string \<Rightarrow> orgs_page \<times> 'w world \<Rightarrow> orgs_page \<times> 'w world" where
  "load_field k put path E base tenant pw = (case pw of (p, w) \<Rightarrow>
     (case apiFetch E base tenant path no_options w of
        (Inl x, w1) \<Rightarrow> (put (JArr []) (p\<lparr>ot_error := Some (api_exn_message E x)\<rparr>), w1)
      | (Inr d, w1) \<Rightarrow> if nullish d then (put (JArr []) (p\<lparr>ot_error := Some (type_message E)\<rparr>), w1)
          else (put (js_or (js_opt_prop d k) (JArr [])) p, w1)))"

definition loadDepts :: "'w env \<Rightarrow> string \<Rightarrow> string \<Rightarrow> string \<Rightarrow> orgs_page \<times> 'w world \<Rightarrow> orgs_page \<times> 'w world" where
  "loadDepts E base tenant orgId = load_field ''departments'' (\<lambda>v p. p\<lparr>ot_depts := v\<rparr>) (''/api/v1/departments?org_id='' @ orgId) E base tenant"

definition loadTeams :: "'w env \<Rightarrow> string \<Rightarrow> string \<Rightarrow> string \<Rightarrow> orgs_page \<times> 'w world \<Rightarrow> orgs_page \<times> 'w world" where
  "loadTeams E base tenant orgId = load_field ''teams'' (\<lambda>v p. p\<lparr>ot_teams := v\<rparr>) (''/api/v1/teams?org_id='' @ orgId) E base tenant"

definition loadTree :: "'w env \<Rightarrow> string \<Rightarrow> string \<Rightarrow> string \<Rightarrow> orgs_page \<times> 'w world \<Rightarrow> orgs_page \<times> 'w world" where
  "loadTree E base tenant orgId pw = (case pw of (p, w) \<Rightarrow>
     (case apiFetch E base tenant (''/api/v1/orgs/'' @ orgId @ ''/tree'') no_options w of
        (Inl x, w1) \<Rightarrow> (p\<lparr>ot_error := Some (api_exn_message E x), ot_treeData := None, ot_treeLoading := False\<rparr>, w1)
      | (Inr d, w1) \<Rightarrow> if nullish d then (p\<lparr>ot_error := Some (type_message E), ot_treeData := None, ot_treeLoading := False\<rparr>, w1)
          else (p\<lparr>ot_treeData := Some (js_or (js_opt_prop d ''organizations'') (JArr []), js_or (js_opt_prop d ''departments'') (JArr [])),
                  ot_treeLoading := False\<rparr>, w1)))"

definition load_members :: "'w env \<Rightarrow> string \<Rightarrow> string \<Rightarrow> string \<Rightarrow> 'w world \<Rightarrow> jsv \<times> 'w world" where
  "load_members E base tenant orgId w = (case apiFetch E base tenant (''/api/v1/orgs/'' @ orgId @ ''/members'') no_options w of
      (Inl _, w1) \<Rightarrow> (JArr [], w1)
    | (Inr d, w1) \<Rightarrow> (if nullish d then JArr [] else js_or (js_opt_prop d ''members'') (JArr []), w1))"

section \<open>The tree\<close>

text \<open>\<open>Array.from(new Map(allOrgs.map(o => [o.id, o])).values())\<close>: the first place and the last value of an identifier.\<close>

definition uniqueOrgs :: "orgs_page \<Rightarrow> org list" where
  "uniqueOrgs p = map snd (foldl (\<lambda>m o'. obj_set (og_id o') o' m) [] (ot_orgs p @ concat (map snd (ot_children p))))"

text \<open>The rows of the nodes that are shown, with depth; the recursion has fuel.\<close>

fun org_rows :: "nat \<Rightarrow> org list \<Rightarrow> string list \<Rightarrow> nat \<Rightarrow> string \<Rightarrow> (string \<times> nat) list option" where
  "org_rows 0 orgs ex d i = None"
| "org_rows (Suc n) orgs ex d i = (if child_ids orgs i \<noteq> [] \<and> i \<in> set ex
     then map_option (\<lambda>xs. (i, d) # concat xs) (those (map (org_rows n orgs ex (Suc d)) (child_ids orgs i)))
     else Some [(i, d)])"

definition orgs_toggleExpand ::
  "'w env \<Rightarrow> string \<Rightarrow> string \<Rightarrow> string \<Rightarrow> orgs_page \<times> 'w world \<Rightarrow> orgs_page \<times> 'w world" where
  "orgs_toggleExpand E base tenant i pw = (case pw of (p, w) \<Rightarrow>
     if i \<in> set (ot_expanded p) then (p\<lparr>ot_expanded := js_delete i (ot_expanded p)\<rparr>, w)
     else (let p1 = p\<lparr>ot_expanded := js_add i (ot_expanded p)\<rparr> in
       if assoc i (ot_children p) = None then orgs_fetchChildren E base tenant i (p1, w) else (p1, w)))"

text \<open>A click on the arrow of a node, \<open>hasChildren && onToggle(org.id)\<close>, and the effect after it.\<close>

definition click_node ::
  "'w env \<Rightarrow> string \<Rightarrow> string \<Rightarrow> string \<Rightarrow> orgs_page \<times> 'w world \<Rightarrow> orgs_page \<times> 'w world" where
  "click_node E base tenant i pw = (if child_ids (uniqueOrgs (fst pw)) i = [] then pw
     else expand_effect E base tenant (orgs_toggleExpand E base tenant i pw))"

section \<open>Creating and deleting\<close>

definition with_parent :: "string \<Rightarrow> (string \<times> jsv) list \<Rightarrow> (string \<times> jsv) list" where
  "with_parent parentId kvs = kvs @ (if parentId = [] then [] else [(''parent_id'', JStr parentId)])"

definition handleCreateOrg ::
  "'w env \<Rightarrow> string \<Rightarrow> string \<Rightarrow> string \<Rightarrow> string \<Rightarrow> orgs_page \<times> 'w world \<Rightarrow> orgs_page \<times> 'w world" where
  "handleCreateOrg E base tenant name parentId pw = (case pw of (p, w) \<Rightarrow>
     (case apiFetch E base tenant ''/api/v1/orgs'' (post_options (JObj (with_parent parentId [(''tenant_id'', JStr tenant), (''name'', JStr name)]))) w of
        (Inl x, w1) \<Rightarrow> (p\<lparr>ot_error := Some (api_exn_message E x)\<rparr>, w1)
      | (Inr _, w1) \<Rightarrow> loadOrgs E base tenant (p\<lparr>ot_showCreate := False, ot_msg := Some ''Organization created''\<rparr>, w1)))"

definition form_org :: "string \<Rightarrow> orgs_page \<Rightarrow> string" where
  "form_org orgId p = (if orgId \<noteq> [] then orgId else item_or (ot_selected p) [])"

definition handleCreateDept ::
  "'w env \<Rightarrow> string \<Rightarrow> string \<Rightarrow> string \<Rightarrow> string \<Rightarrow> string \<Rightarrow> orgs_page \<times> 'w world \<Rightarrow> orgs_page \<times> 'w world" where
  "handleCreateDept E base tenant orgId name parentId pw = (case pw of (p, w) \<Rightarrow> (let i = form_org orgId p in
     (case apiFetch E base tenant ''/api/v1/departments'' (post_options (JObj (with_parent parentId [(''org_id'', JStr i), (''name'', JStr name)]))) w of
        (Inl x, w1) \<Rightarrow> (p\<lparr>ot_error := Some (api_exn_message E x)\<rparr>, w1)
      | (Inr _, w1) \<Rightarrow> (let p1 = p\<lparr>ot_showCreate := False, ot_msg := Some ''Department created''\<rparr> in
          if i = [] then (p1, w1) else loadDepts E base tenant i (p1, w1)))))"

definition handleCreateTeam ::
  "'w env \<Rightarrow> string \<Rightarrow> string \<Rightarrow> string \<Rightarrow> string \<Rightarrow> string \<Rightarrow> string \<Rightarrow> orgs_page \<times> 'w world \<Rightarrow> orgs_page \<times> 'w world" where
  "handleCreateTeam E base tenant orgId name desc creator pw = (case pw of (p, w) \<Rightarrow> (let i = form_org orgId p in
     (case apiFetch E base tenant ''/api/v1/teams'' (post_options (JObj [(''org_id'', JStr i), (''name'', JStr name), (''description'', JStr desc),
          (''created_by'', JStr creator)])) w of
        (Inl x, w1) \<Rightarrow> (p\<lparr>ot_error := Some (api_exn_message E x)\<rparr>, w1)
      | (Inr _, w1) \<Rightarrow> (let p1 = p\<lparr>ot_showCreate := False, ot_msg := Some ''Team created''\<rparr> in
          if i = [] then (p1, w1) else loadTeams E base tenant i (p1, w1)))))"

definition delete_opts :: req_options where
  "delete_opts = \<lparr>o_method = Some ''DELETE'', o_headers = [], o_body = None\<rparr>"

definition handleDeleteOrg ::
  "(string \<Rightarrow> string) \<Rightarrow> bool \<Rightarrow> 'w env \<Rightarrow> string \<Rightarrow> string \<Rightarrow> string \<Rightarrow> orgs_page \<times> 'w world \<Rightarrow> orgs_page \<times> 'w world" where
  "handleDeleteOrg t confirmed E base tenant i pw = (case pw of (p, w) \<Rightarrow> if \<not> confirmed then (p, w)
     else (case apiFetch E base tenant (''/api/v1/orgs/'' @ i) delete_opts w of
        (Inl x, w1) \<Rightarrow> (p\<lparr>ot_error := Some (api_exn_message E x)\<rparr>, w1)
      | (Inr _, w1) \<Rightarrow> loadOrgs E base tenant (p\<lparr>ot_msg := Some (t ''orgs.orgDeleted'')\<rparr>, w1)))"

definition handleDeleteDept ::
  "(string \<Rightarrow> string) \<Rightarrow> bool \<Rightarrow> 'w env \<Rightarrow> string \<Rightarrow> string \<Rightarrow> string \<Rightarrow> orgs_page \<times> 'w world \<Rightarrow> orgs_page \<times> 'w world" where
  "handleDeleteDept t confirmed E base tenant i pw = (case pw of (p, w) \<Rightarrow> if \<not> confirmed then (p, w)
     else (case apiFetch E base tenant (''/api/v1/departments/'' @ i) delete_opts w of
        (Inl x, w1) \<Rightarrow> (p\<lparr>ot_error := Some (api_exn_message E x)\<rparr>, w1)
      | (Inr _, w1) \<Rightarrow> (let p1 = p\<lparr>ot_msg := Some (t ''orgs.deptDeleted'')\<rparr> in
          if present (ot_selected p) then loadDepts E base tenant (the (ot_selected p)) (p1, w1) else (p1, w1))))"

definition handleDeleteTeam ::
  "(string \<Rightarrow> string) \<Rightarrow> bool \<Rightarrow> 'w env \<Rightarrow> string \<Rightarrow> string \<Rightarrow> string \<Rightarrow> orgs_page \<times> 'w world \<Rightarrow> orgs_page \<times> 'w world" where
  "handleDeleteTeam t confirmed E base tenant i pw = (case pw of (p, w) \<Rightarrow> if \<not> confirmed then (p, w)
     else (case apiFetch E base tenant (''/api/v1/teams/'' @ i) delete_opts w of
        (Inl x, w1) \<Rightarrow> (p\<lparr>ot_error := Some (api_exn_message E x)\<rparr>, w1)
      | (Inr _, w1) \<Rightarrow> (let p1 = p\<lparr>ot_msg := Some (t ''orgs.teamDeleted'')\<rparr> in
          if present (ot_selected p) then loadTeams E base tenant (the (ot_selected p)) (p1, w1) else (p1, w1))))"

section \<open>The unified tree\<close>

text \<open>Departments by organization, and the effect that expands the roots again when nothing is expanded.\<close>

definition deptsByOrg :: "jsv list \<Rightarrow> (string \<times> jsv list) list" where
  "deptsByOrg ds = foldl (\<lambda>m v. let k = js_to_string (js_opt_prop v ''org_id'') in
     obj_set k ((case assoc k m of None \<Rightarrow> [] | Some l \<Rightarrow> l) @ [v]) m) [] ds"

definition unified_toggle :: "string list \<Rightarrow> string \<Rightarrow> string list \<Rightarrow> string list" where
  "unified_toggle roots i ex = (let ex' = js_toggle i ex in if ex' = [] \<and> roots \<noteq> [] then js_set roots else ex')"

section \<open>One record for each identifier\<close>

definition keyed :: "(string \<times> org) list \<Rightarrow> bool" where
  "keyed m = (distinct (map fst m) \<and> (\<forall>(k, o') \<in> set m. k = og_id o'))"

lemma set_obj_set: "set (obj_set k v m) \<subseteq> insert (k, v) (set m)"
proof (induction m)
  case (Cons x m) then show ?case by (cases x) auto
qed simp

lemma assoc_in: "assoc k m = Some v \<Longrightarrow> (k, v) \<in> set m"
proof (induction m)
  case (Cons x m) then show ?case by (cases x) (auto split: if_splits)
qed simp

lemma keys_obj_set: "fst ` set (obj_set k v m) = insert k (fst ` set m)"
proof (induction m)
  case (Cons x m) then show ?case by (cases x) auto
qed simp

lemma obj_set_keyed: "keyed m \<Longrightarrow> keyed (obj_set (og_id o') o' m)"
  using set_obj_set[of "og_id o'" o' m] obj_set_distinct[of m "og_id o'" o'] by (auto simp: keyed_def)

lemma foldl_keyed:
  "keyed m \<Longrightarrow> keyed (foldl (\<lambda>m o'. obj_set (og_id o') o' m) m os) \<and>
     fst ` set (foldl (\<lambda>m o'. obj_set (og_id o') o' m) m os) = fst ` set m \<union> og_id ` set os \<and>
     snd ` set (foldl (\<lambda>m o'. obj_set (og_id o') o' m) m os) \<subseteq> snd ` set m \<union> set os"
proof (induction os arbitrary: m)
  case (Cons o' os)
  let ?m = "obj_set (og_id o') o' m"
  have "snd ` set ?m \<subseteq> insert o' (snd ` set m)" using set_obj_set[of "og_id o'" o' m] by force
  then have "snd ` set ?m \<union> set os \<subseteq> snd ` set m \<union> set (o' # os)" by auto
  from subset_trans[OF _ this] Cons.IH[OF obj_set_keyed[OF Cons.prems, of o']] show ?case unfolding foldl_Cons keys_obj_set by simp
qed simp

abbreviation all_orgs :: "orgs_page \<Rightarrow> org list" where
  "all_orgs p \<equiv> ot_orgs p @ concat (map snd (ot_children p))"

lemma uniqueOrgs_ok:
  "unique_ids (uniqueOrgs p)" "og_id ` set (uniqueOrgs p) = og_id ` set (all_orgs p)" "set (uniqueOrgs p) \<subseteq> set (all_orgs p)"
proof -
  define m where "m = foldl (\<lambda>m o'. obj_set (og_id o') o' m) [] (all_orgs p)"
  have u: "uniqueOrgs p = map snd m" by (simp add: uniqueOrgs_def m_def)
  have k: "keyed m" "fst ` set m = og_id ` set (all_orgs p)" "snd ` set m \<subseteq> set (all_orgs p)"
    using foldl_keyed[of "[]" "all_orgs p"] unfolding m_def by (simp_all add: keyed_def)
  have same: "map og_id (map snd m) = map fst m" using k(1) by (auto simp: keyed_def)
  show "unique_ids (uniqueOrgs p)" using k(1) unfolding unique_ids_def u same by (simp add: keyed_def)
  have "og_id ` set (uniqueOrgs p) = set (map og_id (map snd m))" by (simp add: u image_image)
  also have "\<dots> = og_id ` set (all_orgs p)" unfolding same using k(2) by simp
  finally show "og_id ` set (uniqueOrgs p) = og_id ` set (all_orgs p)" .
  show "set (uniqueOrgs p) \<subseteq> set (all_orgs p)" using k(3) by (simp add: u)
qed

section \<open>Loaded children stay\<close>

lemma orgs_fetchChildren_keeps: "assoc k (ot_children p) = Some os \<Longrightarrow> assoc k (ot_children (fst (orgs_fetchChildren E base tenant i (p, w)))) = Some os"
  by (auto simp: orgs_fetchChildren_def assoc_obj_set split: prod.splits sum.splits option.splits)

lemma fetch_each_keeps: "assoc k (ot_children (fst pw)) = Some os \<Longrightarrow> assoc k (ot_children (fst (fetch_each E base tenant is pw))) = Some os"
proof (induction "is" arbitrary: pw)
  case (Cons i js)
  then show ?case using orgs_fetchChildren_keeps[of k "fst pw" os E base tenant i "snd pw"] by simp
qed simp

lemma expand_effect_keeps: "assoc k (ot_children p) = Some os \<Longrightarrow> assoc k (ot_children (fst (expand_effect E base tenant (p, w)))) = Some os"
  by (simp add: expand_effect_def fetch_each_keeps)

lemma loadOrgs_keeps: "assoc k (ot_children p) = Some os \<Longrightarrow> assoc k (ot_children (fst (loadOrgs E base tenant (p, w)))) = Some os"
  by (simp add: loadOrgs_def expand_effect_keeps split: prod.splits sum.splits option.splits)

lemma handleDeleteOrg_keeps:
  "assoc k (ot_children p) = Some os \<Longrightarrow> assoc k (ot_children (fst (handleDeleteOrg t c E base tenant i (p, w)))) = Some os"
  by (simp add: handleDeleteOrg_def loadOrgs_keeps split: prod.splits sum.splits)

section \<open>The arrow\<close>

lemma orgs_fetchChildren_frame:
  "ot_expanded (fst (orgs_fetchChildren E base tenant i pw)) = ot_expanded (fst pw)" "ot_orgs (fst (orgs_fetchChildren E base tenant i pw)) = ot_orgs (fst pw)"
  by (cases pw; simp add: orgs_fetchChildren_def split: prod.splits sum.splits option.splits)+

lemma fetch_each_frame:
  "ot_expanded (fst (fetch_each E base tenant is pw)) = ot_expanded (fst pw)" "ot_orgs (fst (fetch_each E base tenant is pw)) = ot_orgs (fst pw)"
  by (induction "is" arbitrary: pw) (simp_all add: orgs_fetchChildren_frame)

text \<open>With a root in the list, something is always expanded: the last node that is collapsed opens the roots again.\<close>

lemma never_collapsed:
  assumes "plain_roots (ot_orgs p) \<noteq> []"
  shows "ot_expanded (fst (expand_effect E base tenant (p, w))) \<noteq> []"
proof -
  have "ot_orgs p \<noteq> []" using assms by (auto simp: plain_roots_def)
  moreover have "js_set (plain_roots (ot_orgs p)) \<noteq> []" using assms by (metis set_js_set set_empty)
  ultimately show ?thesis by (simp add: expand_effect_def fetch_each_frame)
qed

lemma unified_never_collapsed: "roots \<noteq> [] \<Longrightarrow> unified_toggle roots i ex \<noteq> []"
  by (auto simp: unified_toggle_def Let_def) (metis set_js_set set_empty)

text \<open>Children belong to the organization they were asked for; \<open>R\<close> are the identifiers of the roots.\<close>

definition two_levels :: "org list \<Rightarrow> orgs_page \<Rightarrow> bool" where
  "two_levels os p = (ot_orgs p = os \<and> (\<forall>k l. (k, l) \<in> set (ot_children p) \<longrightarrow> k \<in> set (plain_roots os) \<and> (\<forall>o' \<in> set l. og_parent o' = Some k)))"

definition answers_children :: "'w env \<Rightarrow> string \<Rightarrow> string \<Rightarrow> string \<Rightarrow> bool" where
  "answers_children E base tenant i = (\<forall>w d os. fst (apiFetch E base tenant (children_path i) no_options w) = Inr d \<longrightarrow> org_list d = Some os \<longrightarrow>
     (\<forall>o' \<in> set os. og_parent o' = Some i))"

lemma orgs_fetchChildren_levels:
  assumes "two_levels os p" "i \<in> set (plain_roots os)" "answers_children E base tenant i"
  shows "two_levels os (fst (orgs_fetchChildren E base tenant i (p, w)))"
proof -
  have put: "two_levels os (p\<lparr>ot_children := obj_set i l (ot_children p)\<rparr>)" if "\<forall>o' \<in> set l. og_parent o' = Some i" for l
  proof -
    have "(k, l') = (i, l) \<or> (k, l') \<in> set (ot_children p)" if "(k, l') \<in> set (obj_set i l (ot_children p))" for k l'
      using that set_obj_set[of i l "ot_children p"] by auto
    moreover have "ot_orgs p = os" "\<And>k l. (k, l) \<in> set (ot_children p) \<Longrightarrow> k \<in> set (plain_roots os) \<and> (\<forall>o' \<in> set l. og_parent o' = Some k)"
      using assms(1) unfolding two_levels_def by blast+
    ultimately have "k \<in> set (plain_roots os) \<and> (\<forall>o' \<in> set l'. og_parent o' = Some k)" if "(k, l') \<in> set (obj_set i l (ot_children p))" for k l'
      using that assms(2) \<open>\<forall>o' \<in> set l. og_parent o' = Some i\<close> by (metis Pair_inject)
    then show ?thesis using \<open>ot_orgs p = os\<close> by (simp add: two_levels_def)
  qed
  have cnt: "two_levels os (q\<lparr>ot_counts := c\<rparr>) = two_levels os q" for q c by (simp add: two_levels_def)
  have swap: "p\<lparr>ot_counts := c, ot_children := l\<rparr> = p\<lparr>ot_children := l, ot_counts := c\<rparr>" for c l by simp
  obtain r w1 where a: "apiFetch E base tenant (children_path i) no_options w = (r, w1)" by fastforce
  show ?thesis
  proof (cases r)
    case (Inl x)
    then show ?thesis using a assms(1) put[of "[]"] by (simp add: orgs_fetchChildren_def)
  next
    case (Inr d)
    show ?thesis
    proof (cases "org_list d")
      case None
      then show ?thesis using a Inr assms(1) put[of "[]"] by (simp add: orgs_fetchChildren_def)
    next
      case (Some os')
      then have "\<forall>o' \<in> set os'. og_parent o' = Some i" using assms(3) a Inr unfolding answers_children_def by (metis fst_conv)
      from put[OF this] show ?thesis using a Inr Some assms(1) by (simp add: orgs_fetchChildren_def case_prod_beta swap cnt)
    qed
  qed
qed

lemma fetch_each_levels:
  "two_levels os (fst pw) \<Longrightarrow> set is \<subseteq> set (plain_roots os) \<Longrightarrow> \<forall>i \<in> set (plain_roots os). answers_children E base tenant i \<Longrightarrow>
   two_levels os (fst (fetch_each E base tenant is pw))"
proof (induction "is" arbitrary: pw)
  case (Cons i js)
  then show ?case using orgs_fetchChildren_levels[of os "fst pw" i E base tenant "snd pw"] by simp
qed simp

lemma levels_expanded: "two_levels os (p\<lparr>ot_expanded := x\<rparr>) = two_levels os p"
  by (simp add: two_levels_def)

lemma expand_effect_levels:
  "two_levels os p \<Longrightarrow> \<forall>i \<in> set (plain_roots os). answers_children E base tenant i \<Longrightarrow> two_levels os (fst (expand_effect E base tenant (p, w)))"
  using fetch_each_levels[of os "(p\<lparr>ot_expanded := js_set (plain_roots (ot_orgs p))\<rparr>, w)" "plain_roots (ot_orgs p)" E base tenant]
  by (auto simp: expand_effect_def levels_expanded) (simp add: two_levels_def)

text \<open>Only roots have loaded children, so only roots have an arrow.\<close>

lemma arrow_root:
  assumes "two_levels os p" "\<forall>o' \<in> set os. \<not> present (og_parent o')" "child_ids (uniqueOrgs p) i \<noteq> []"
  shows "i \<in> set (plain_roots os)"
proof -
  obtain o' where o': "o' \<in> set (uniqueOrgs p)" "has_parent (uniqueOrgs p) o'" "og_parent o' = Some i"
    using assms(3) by (auto simp: child_ids_def filter_empty_conv)
  then have "o' \<in> set (all_orgs p)" using uniqueOrgs_ok(3) by auto
  moreover have "o' \<notin> set os" using o'(2) assms(2) by (auto simp: has_parent_def)
  ultimately show ?thesis using assms(1) o'(3) by (fastforce simp: two_levels_def)
qed

lemma click_levels:
  assumes "two_levels os p" "\<forall>o' \<in> set os. \<not> present (og_parent o')" "\<forall>i \<in> set (plain_roots os). answers_children E base tenant i"
  shows "two_levels os (fst (click_node E base tenant i (p, w)))"
proof (cases "child_ids (uniqueOrgs p) i = []")
  case False
  have "i \<in> set (plain_roots os)" by (rule arrow_root[OF assms(1,2) False])
  then have "two_levels os (fst (orgs_toggleExpand E base tenant i (p, w)))"
    using assms orgs_fetchChildren_levels[of os "p\<lparr>ot_expanded := js_add i (ot_expanded p)\<rparr>" i E base tenant w]
    by (simp add: orgs_toggleExpand_def levels_expanded Let_def)
  then show ?thesis
    using False expand_effect_levels[OF _ assms(3), of "fst (orgs_toggleExpand E base tenant i (p, w))" "snd (orgs_toggleExpand E base tenant i (p, w))"]
    by (simp add: click_node_def)
qed (use assms in \<open>simp add: click_node_def\<close>)

section \<open>Properties\<close>

text \<open>The organizations page loads at most two levels.  If the server lists the organizations without a parent, and for each of these its
  children, then no sequence of clicks makes the page ask for the children of a child: a node whose children are not loaded shows no arrow,
  and a click on it does nothing.\<close>

lemma lazy_tree_two_levels:
  assumes "\<forall>o' \<in> set os. \<not> present (og_parent o')" "\<forall>i \<in> set (plain_roots os). answers_children E base tenant i"
    and "ot_orgs p = os" "ot_children p = []" "pw = fold (click_node E base tenant) is (expand_effect E base tenant (p, w))"
  shows "fst ` set (ot_children (fst pw)) \<subseteq> set (plain_roots os) \<and>
    (\<forall>o' \<in> set (uniqueOrgs (fst pw)). og_id o' \<in> set (plain_roots os) \<or> (\<exists>r \<in> set (plain_roots os). og_parent o' = Some r)) \<and>
    (i \<notin> set (plain_roots os) \<longrightarrow> click_node E base tenant i pw = pw)"
proof -
  have step: "two_levels os (fst (fold (click_node E base tenant) is qw))" if "two_levels os (fst qw)" for qw
    using that
  proof (induction "is" arbitrary: qw)
    case (Cons i js)
    then show ?case using click_levels[OF Cons.prems assms(1,2), of i "snd qw"] by simp
  qed simp
  have "two_levels os p" using assms(3,4) by (simp add: two_levels_def)
  then have t: "two_levels os (fst pw)" using step expand_effect_levels[OF _ assms(2)] assms(5) by blast
  have "fst ` set (ot_children (fst pw)) \<subseteq> set (plain_roots os)" using t by (force simp: two_levels_def)
  moreover have "og_id o' \<in> set (plain_roots os) \<or> (\<exists>r \<in> set (plain_roots os). og_parent o' = Some r)" if "o' \<in> set (uniqueOrgs (fst pw))" for o'
  proof -
    have "o' \<in> set os \<or> (\<exists>(k, l) \<in> set (ot_children (fst pw)). o' \<in> set l)"
      using that uniqueOrgs_ok(3)[of "fst pw"] t by (fastforce simp: two_levels_def)
    then show ?thesis using t assms(1) by (fastforce simp: two_levels_def plain_roots_def)
  qed
  moreover have "click_node E base tenant i pw = pw" if "i \<notin> set (plain_roots os)"
    using arrow_root[OF t assms(1), of i] that by (auto simp: click_node_def)
  ultimately show ?thesis by blast
qed

text \<open>A server with the root \<open>1\<close>, its child \<open>2\<close> and the child \<open>3\<close> of \<open>2\<close>.\<close>

definition child_env :: "unit env" where
  "child_env = \<lparr>net = (\<lambda>_ rq. (if url rq = children_path ''1'' then Resp 200 ''{\"organizations\":[{\"id\":\"2\",\"parent_id\":\"1\"}]}''
     else if url rq = children_path ''2'' then Resp 200 ''{\"organizations\":[{\"id\":\"3\",\"parent_id\":\"2\"}]}'' else Resp 404 [], ())),
     now = (\<lambda>_. 0), net_message = [], syntax_message = [], type_message = []\<rparr>"

lemma child_env_answers: "answers_children child_env [] [] ''1''"
proof -
  have p: "json_parse ''{\"organizations\":[{\"id\":\"2\",\"parent_id\":\"1\"}]}'' =
      Some (JObj [(''organizations'', JArr [JObj [(''id'', JStr ''2''), (''parent_id'', JStr ''1'')]])])" by code_simp
  have "fst (apiFetch child_env [] [] (children_path ''1'') no_options w) =
      Inr (JObj [(''organizations'', JArr [JObj [(''id'', JStr ''2''), (''parent_id'', JStr ''1'')]])])" for w
    by (simp add: apiFetch_def child_env_def fetch_def api_request_def p resp_ok_def Let_def)
  then show ?thesis
    by (simp add: answers_children_def org_list_def org_of_def js_opt_prop_def)
qed

definition root_org :: org where
  "root_org = \<lparr>og_id = ''1'', og_name = ''Root'', og_path = [], og_parent = None, og_desc = []\<rparr>"

lemma lazy_tree_two_levels_example:
  "click_node child_env [] [] ''2'' (expand_effect child_env [] [] (orgs_init\<lparr>ot_orgs := [root_org]\<rparr>, blank_world)) =
     expand_effect child_env [] [] (orgs_init\<lparr>ot_orgs := [root_org]\<rparr>, blank_world)"
proof -
  have r: "plain_roots [root_org] = [''1'']" by (simp add: plain_roots_def root_org_def present_def)
  then have a: "\<forall>i \<in> set (plain_roots [root_org]). answers_children child_env [] [] i" using child_env_answers by simp
  have n: "\<forall>o' \<in> set [root_org]. \<not> present (og_parent o')" by (simp add: root_org_def present_def)
  have "ot_orgs (orgs_init\<lparr>ot_orgs := [root_org]\<rparr>) = [root_org]" "ot_children (orgs_init\<lparr>ot_orgs := [root_org]\<rparr>) = []" by (simp_all add: orgs_init_def)
  from lazy_tree_two_levels[OF n a this, of _ "[]" blank_world "''2''"] r show ?thesis by simp
qed

text \<open>An organization deleted from below an expanded node stays on the page: the children loaded for the node are kept for good, and the reload
  after the deletion adds them to whatever the server lists.\<close>

lemma deleted_org_stays:
  assumes "assoc k (ot_children p) = Some os" "i \<in> og_id ` set os"
  shows "i \<in> og_id ` set (uniqueOrgs (fst (handleDeleteOrg t True E base tenant i (p, w)))) \<and>
    i \<in> og_id ` set (uniqueOrgs (fst (loadOrgs E base tenant (handleDeleteOrg t True E base tenant i (p, w)))))"
proof -
  have shown: "i \<in> og_id ` set (uniqueOrgs q)" if "assoc k (ot_children q) = Some os" for q
  proof -
    have "(k, os) \<in> set (ot_children q)" using that by (rule assoc_in)
    then show ?thesis using assms(2) unfolding uniqueOrgs_ok(2) by force
  qed
  let ?d = "handleDeleteOrg t True E base tenant i (p, w)"
  have d: "assoc k (ot_children (fst ?d)) = Some os" by (rule handleDeleteOrg_keeps[OF assms(1)])
  show ?thesis using shown[OF d] shown[OF loadOrgs_keeps[OF d, of E base tenant "snd ?d"]] by simp
qed

lemma deleted_org_stays_example:
  "''2'' \<in> og_id ` set (uniqueOrgs (fst (handleDeleteOrg id True (always (Resp 204 [])) [] [] ''2''
     (orgs_init\<lparr>ot_orgs := [root_org], ot_children := [(''1'', [root_org\<lparr>og_id := ''2'', og_parent := Some ''1''\<rparr>])]\<rparr>, blank_world))))"
  using deleted_org_stays[of "''1''" "orgs_init\<lparr>ot_orgs := [root_org], ot_children := [(''1'', [root_org\<lparr>og_id := ''2'', og_parent := Some ''1''\<rparr>])]\<rparr>"
      "[root_org\<lparr>og_id := ''2'', og_parent := Some ''1''\<rparr>]" "''2''" id "always (Resp 204 [])" "[]" "[]" blank_world] by simp

end
