(* ===== verification/Conditional_Access.thy ===== *)
theory Conditional_Access
  imports Sessions Users_Page
begin

text \<open>
  The page for conditional access policies, \<open>console/src/app/settings/conditional-access/page.tsx\<close>: the list with its
  switches and arrows, the editor of a policy and its conditions, what is sent when a policy is saved, and the tester, which
  evaluates the policies of the page on values that the user enters.  Requests go through \<open>fetch\<close> with the headers of
  \<open>auth-helpers.ts\<close>, so an error status is not an exception.  Of the answers, fields other than \<open>conditions\<close> and \<open>logic\<close> are taken to
  have their declared types.  Date and clock enter through the environment.
\<close>

section \<open>Data\<close>

text \<open>The operator \<open>\<noteq>\<close> of the source is outside the code units of the model; as an operator it is a constructor like the others, and
  \<^term>\<open>OpOther\<close> is a text that is none of the six.\<close>

datatype ca_operator = OpLt | OpGt | OpEq | OpNe | OpIn | OpContains | OpOther

record ca_condition =
  cc_id :: string
  cc_operand :: string
  cc_operator :: ca_operator
  cc_value :: string

text \<open>What a policy has as \<open>conditions\<close>: nothing, an array, or another value that counts as true.\<close>

datatype ca_conds = NoConds | CondList "ca_condition list" | CondObject

record ca_policy =
  ca_id :: string
  ca_name :: string
  ca_priority :: int
  ca_enabled :: bool
  ca_action :: string
  ca_conditions :: ca_conds
  ca_logic :: "string option"

datatype ca_tab = TabPolicies | TabEditor | TabTester

definition OPERANDS :: "(string \<times> string) list" where
  "OPERANDS = [(''device_posture'', ''number''), (''risk_score'', ''number''), (''user_group'', ''text''), (''ip_range'', ''text''),
     (''time_of_day'', ''number''), (''location'', ''text''), (''mfa_enrolled'', ''boolean''), (''auth_method'', ''text'')]"

definition ACTIONS :: "string list" where
  "ACTIONS = [''allow'', ''require_mfa'', ''require_step_up'', ''deny'', ''block'']"

definition operator_of :: "string \<Rightarrow> ca_operator" where
  "operator_of s = (if s = ''<'' then OpLt else if s = ''>'' then OpGt else if s = ''='' then OpEq else if s = ''in'' then OpIn
     else if s = ''contains'' then OpContains else OpOther)"

definition ca_condition_of :: "jsv \<Rightarrow> ca_condition" where
  "ca_condition_of v = \<lparr>cc_id = user_str v ''id'', cc_operand = user_str v ''operand'', cc_operator = operator_of (user_str v ''operator''),
     cc_value = user_str v ''value''\<rparr>"

definition conds_of :: "jsv \<Rightarrow> ca_conds" where
  "conds_of v = (case v of JArr cs \<Rightarrow> CondList (map ca_condition_of cs) | _ \<Rightarrow> if truthy v then CondObject else NoConds)"

definition ca_policy_of :: "jsv \<Rightarrow> ca_policy" where
  "ca_policy_of v = \<lparr>ca_id = user_str v ''id'', ca_name = user_str v ''name'', ca_priority = (case js_opt_prop v ''priority'' of JNum n \<Rightarrow> n | _ \<Rightarrow> 0),
     ca_enabled = truthy (js_opt_prop v ''enabled''), ca_action = user_str v ''action'', ca_conditions = conds_of (js_opt_prop v ''conditions''),
     ca_logic = (case js_opt_prop v ''logic'' of JStr s \<Rightarrow> Some s | _ \<Rightarrow> None)\<rparr>"

record ca_page =
  cp_tab :: ca_tab
  cp_policies :: "ca_policy list"
  cp_loading :: bool
  cp_editing :: "ca_policy option"

definition ca_init :: ca_page where
  "ca_init = \<lparr>cp_tab = TabPolicies, cp_policies = [], cp_loading = True, cp_editing = None\<rparr>"

section \<open>The list\<close>

definition ca_url :: "string \<Rightarrow> string \<Rightarrow> string" where
  "ca_url base i = base @ ''/api/v1/auth/conditional-access/'' @ i"

definition ca_write :: "string \<Rightarrow> string \<Rightarrow> string \<Rightarrow> jsv \<Rightarrow> 'w world \<Rightarrow> request" where
  "ca_write base m i body w = \<lparr>url = ca_url base i, meth = m,
     hdrs = spread [(''Content-Type'', ''application/json'')] (authHeader w), rbody = Some (json_stringify body)\<rparr>"

text \<open>\<open>Array.isArray(d) ? d : (d.policies || [])\<close>; \<^term>\<open>None\<close> where reading a property of \<open>null\<close> throws.\<close>

definition ca_list :: "jsv \<Rightarrow> ca_policy list option" where
  "ca_list d = (case d of JArr ps \<Rightarrow> Some (map ca_policy_of ps)
     | _ \<Rightarrow> if nullish d then None else Some (map ca_policy_of (arr_items (js_or (js_opt_prop d ''policies'') (JArr [])))))"

definition ca_load :: "'w env \<Rightarrow> string \<Rightarrow> ca_page \<times> 'w world \<Rightarrow> ca_page \<times> 'w world" where
  "ca_load E base pw = (case pw of (p, w) \<Rightarrow>
     (case fetch E \<lparr>url = ca_url base [], meth = ''GET'', hdrs = authHeader w, rbody = None\<rparr> w of
        (Resp st txt, w1) \<Rightarrow> (p\<lparr>cp_policies := (if resp_ok st then
             (case json_parse txt of None \<Rightarrow> [] | Some d \<Rightarrow> (case ca_list d of None \<Rightarrow> [] | Some ps \<Rightarrow> ps)) else []),
           cp_loading := False\<rparr>, w1)
      | (NetError, w1) \<Rightarrow> (p\<lparr>cp_policies := [], cp_loading := False\<rparr>, w1)))"

definition ca_onEdit :: "ca_policy \<Rightarrow> ca_page \<Rightarrow> ca_page" where
  "ca_onEdit q p = p\<lparr>cp_editing := Some q, cp_tab := TabEditor\<rparr>"

definition ca_onAdd :: "ca_page \<Rightarrow> ca_page" where
  "ca_onAdd p = p\<lparr>cp_editing := None, cp_tab := TabEditor\<rparr>"

definition ca_onToggle :: "'w env \<Rightarrow> string \<Rightarrow> string \<Rightarrow> ca_page \<times> 'w world \<Rightarrow> ca_page \<times> 'w world" where
  "ca_onToggle E base i pw = (case pw of (p, w) \<Rightarrow>
     (case find (\<lambda>x. ca_id x = i) (cp_policies p) of None \<Rightarrow> (p, w)
      | Some x \<Rightarrow> (case fetch E (ca_write base ''PUT'' i (JObj [(''enabled'', JBool (\<not> ca_enabled x))]) w) w of
           (Resp _ _, w1) \<Rightarrow> ca_load E base (p, w1)
         | (NetError, w1) \<Rightarrow> (p\<lparr>cp_policies := map (\<lambda>y. if ca_id y = i then y\<lparr>ca_enabled := \<not> ca_enabled y\<rparr> else y) (cp_policies p)\<rparr>, w1))))"

text \<open>The index of the policy, and its exchange with a neighbour; an identifier that is not in the list has no arrows.\<close>

fun index_of :: "('a \<Rightarrow> bool) \<Rightarrow> 'a list \<Rightarrow> nat option" where
  "index_of P [] = None"
| "index_of P (x # xs) = (if P x then Some 0 else map_option Suc (index_of P xs))"

definition swap_at :: "nat \<Rightarrow> nat \<Rightarrow> 'a list \<Rightarrow> 'a list" where
  "swap_at i j xs = xs[i := xs ! j, j := xs ! i]"

definition ca_onMove :: "string \<Rightarrow> bool \<Rightarrow> ca_page \<Rightarrow> ca_page" where
  "ca_onMove i up p = (case index_of (\<lambda>x. ca_id x = i) (cp_policies p) of None \<Rightarrow> p
     | Some k \<Rightarrow> (if up then (if k = 0 then p else p\<lparr>cp_policies := swap_at k (k - 1) (cp_policies p)\<rparr>)
         else (if Suc k < length (cp_policies p) then p\<lparr>cp_policies := swap_at k (Suc k) (cp_policies p)\<rparr> else p)))"

definition ca_onDelete :: "bool \<Rightarrow> 'w env \<Rightarrow> string \<Rightarrow> string \<Rightarrow> ca_page \<times> 'w world \<Rightarrow> ca_page \<times> 'w world" where
  "ca_onDelete confirmed E base i pw = (case pw of (p, w) \<Rightarrow> if \<not> confirmed then (p, w) else
     (case fetch E \<lparr>url = ca_url base i, meth = ''DELETE'', hdrs = authHeader w, rbody = None\<rparr> w of
        (Resp _ _, w1) \<Rightarrow> ca_load E base (p, w1)
      | (NetError, w1) \<Rightarrow> (p\<lparr>cp_policies := filter (\<lambda>x. ca_id x \<noteq> i) (cp_policies p)\<rparr>, w1)))"

section \<open>The editor\<close>

record ca_editor =
  ed_name :: string
  ed_priority :: int
  ed_action :: string
  ed_logic :: string
  ed_conditions :: "ca_condition list"

text \<open>\<open>condId\<close> counts the identifiers given out; the clock reads \<open>t\<close>.\<close>

definition newCondId :: "int \<Rightarrow> nat \<Rightarrow> string" where
  "newCondId t n = ''c'' @ show_int t @ ''_'' @ show_nat n"

text \<open>The state of the editor when it is opened; \<^term>\<open>None\<close> where \<open>conditions.map\<close> is no function and the page cannot be
  rendered.\<close>

definition open_editor :: "int \<Rightarrow> nat \<Rightarrow> ca_policy option \<Rightarrow> ca_editor option" where
  "open_editor t n q = (let first = [\<lparr>cc_id = newCondId t n, cc_operand = ''device_posture'', cc_operator = OpLt, cc_value = ''70''\<rparr>] in
     case q of
       None \<Rightarrow> Some \<lparr>ed_name = [], ed_priority = 10, ed_action = ''require_mfa'', ed_logic = ''AND'', ed_conditions = first\<rparr>
     | Some x \<Rightarrow> (case ca_conditions x of CondObject \<Rightarrow> None
         | cs \<Rightarrow> Some \<lparr>ed_name = ca_name x, ed_priority = (if ca_priority x = 0 then 10 else ca_priority x),
             ed_action = or_else (ca_action x) ''require_mfa'', ed_logic = item_or (ca_logic x) ''AND'',
             ed_conditions = (case cs of CondList l \<Rightarrow> l | _ \<Rightarrow> first)\<rparr>))"

definition ca_addCondition :: "int \<Rightarrow> nat \<Rightarrow> ca_editor \<Rightarrow> ca_editor" where
  "ca_addCondition t n d = d\<lparr>ed_conditions := ed_conditions d @
     [\<lparr>cc_id = newCondId t n, cc_operand = ''risk_score'', cc_operator = OpGt, cc_value = ''50''\<rparr>]\<rparr>"

definition ca_removeCondition :: "string \<Rightarrow> ca_editor \<Rightarrow> ca_editor" where
  "ca_removeCondition i d = d\<lparr>ed_conditions := filter (\<lambda>c. cc_id c \<noteq> i) (ed_conditions d)\<rparr>"

definition ca_updateCondition :: "string \<Rightarrow> (ca_condition \<Rightarrow> ca_condition) \<Rightarrow> ca_editor \<Rightarrow> ca_editor" where
  "ca_updateCondition i f d = d\<lparr>ed_conditions := map (\<lambda>c. if cc_id c = i then f c else c) (ed_conditions d)\<rparr>"

text \<open>The policy that \<open>save\<close> hands to the page.\<close>

definition editor_policy :: "ca_policy option \<Rightarrow> ca_editor \<Rightarrow> ca_policy" where
  "editor_policy q d = \<lparr>ca_id = (case q of None \<Rightarrow> [] | Some x \<Rightarrow> ca_id x), ca_name = ed_name d, ca_priority = ed_priority d,
     ca_enabled = (case q of None \<Rightarrow> True | Some x \<Rightarrow> ca_enabled x), ca_action = ed_action d, ca_conditions = CondList (ed_conditions d),
     ca_logic = Some (ed_logic d)\<rparr>"

text \<open>\<open>isNaN(Number(c.value)) ? c.value : Number(c.value)\<close>.\<close>

definition condition_value :: "string \<Rightarrow> jsv" where
  "condition_value s = (case js_number (JStr s) of None \<Rightarrow> JStr s | Some n \<Rightarrow> JNum n)"

definition conditionsMap :: "ca_condition list \<Rightarrow> (string \<times> jsv) list" where
  "conditionsMap cs = foldl (\<lambda>m c. obj_set (cc_operand c) (condition_value (cc_value c)) m) [] cs"

definition cond_list :: "ca_conds \<Rightarrow> ca_condition list" where
  "cond_list cs = (case cs of CondList l \<Rightarrow> l | _ \<Rightarrow> [])"

definition ca_body :: "ca_policy \<Rightarrow> (string \<times> jsv) list" where
  "ca_body q = [(''name'', JStr (ca_name q)), (''priority'', JNum (ca_priority q)), (''enabled'', JBool (ca_enabled q)),
     (''action'', JStr (ca_action q)), (''conditions'', JObj (conditionsMap (cond_list (ca_conditions q))))]"

definition save_request :: "string \<Rightarrow> ca_policy \<Rightarrow> ca_policy option \<Rightarrow> 'w world \<Rightarrow> request" where
  "save_request base q editing w = (case editing of
       Some x \<Rightarrow> if ca_id x \<noteq> [] then ca_write base ''PUT'' (ca_id x) (JObj (ca_body q)) w else ca_write base ''POST'' [] (JObj (ca_body q)) w
     | None \<Rightarrow> ca_write base ''POST'' [] (JObj (ca_body q)) w)"

definition ca_onSave :: "'w env \<Rightarrow> string \<Rightarrow> ca_policy \<Rightarrow> ca_page \<times> 'w world \<Rightarrow> ca_page \<times> 'w world" where
  "ca_onSave E base q pw = (case pw of (p, w) \<Rightarrow>
     (case (case fetch E (save_request base q (cp_editing p) w) w of
          (Resp _ _, w1) \<Rightarrow> ca_load E base (p, w1)
        | (NetError, w1) \<Rightarrow> (p\<lparr>cp_policies := (if cp_editing p \<noteq> None then map (\<lambda>x. if ca_id x = ca_id q then q else x) (cp_policies p)
              else cp_policies p @ [q\<lparr>ca_id := CHR ''p'' # show_int (date_now E w1)\<rparr>])\<rparr>, w1))
      of (p1, w1) \<Rightarrow> (p1\<lparr>cp_tab := TabPolicies\<rparr>, w1)))"

definition ca_save :: "'w env \<Rightarrow> string \<Rightarrow> ca_editor \<Rightarrow> ca_page \<times> 'w world \<Rightarrow> ca_page \<times> 'w world" where
  "ca_save E base d pw = (if ed_name d = [] then pw else ca_onSave E base (editor_policy (cp_editing (fst pw)) d) pw)"

definition ca_onCancel :: "ca_page \<Rightarrow> ca_page" where
  "ca_onCancel p = p\<lparr>cp_tab := TabPolicies\<rparr>"

section \<open>The tester\<close>

text \<open>\<open>parseFloat\<close>.  The numbers are exact: \<open>Dec m k\<close> is \<open>m\<close> divided by the \<open>k\<close>-th power of ten, \<open>DecInf\<close> an infinity and whether it is
  positive; \<^term>\<open>None\<close> is \<open>NaN\<close>.  The longest prefix that is a number counts.\<close>

datatype dec = Dec int nat | DecInf bool

fun dec_less :: "dec \<Rightarrow> dec \<Rightarrow> bool" where
  "dec_less (Dec m k) (Dec n l) = (m * 10 ^ l < n * 10 ^ k)"
| "dec_less (Dec m k) (DecInf b) = b"
| "dec_less (DecInf b) (Dec n l) = (\<not> b)"
| "dec_less (DecInf b) (DecInf c) = (\<not> b \<and> c)"

text \<open>An optional sign, and the rest.\<close>

definition take_sign :: "string \<Rightarrow> bool \<times> string" where
  "take_sign s = (case s of c # r \<Rightarrow> if c = CHR ''-'' then (True, r) else if c = CHR ''+'' then (False, r) else (False, s) | [] \<Rightarrow> (False, s))"

definition take_exponent :: "string \<Rightarrow> int" where
  "take_exponent s = (case s of [] \<Rightarrow> 0 | c # r \<Rightarrow> if c = CHR ''e'' \<or> c = CHR ''E''
     then (case take_sign r of (neg, t) \<Rightarrow> (let n = int (nat_of_digits 0 (takeWhile is_digit t)) in if neg then - n else n)) else 0)"

definition parse_float :: "string \<Rightarrow> dec option" where
  "parse_float s = (case take_sign (dropWhile is_space s) of (neg, t) \<Rightarrow>
     if starts_with t ''Infinity'' then Some (DecInf (\<not> neg)) else
     (let a = takeWhile is_digit t; r = dropWhile is_digit t;
          b = (case r of c # r' \<Rightarrow> if c = CHR ''.'' then takeWhile is_digit r' else [] | [] \<Rightarrow> []);
          r2 = (case r of c # r' \<Rightarrow> if c = CHR ''.'' then dropWhile is_digit r' else r | [] \<Rightarrow> []);
          m = int (nat_of_digits 0 (a @ b)); e = take_exponent r2; m' = (if neg then - m else m)
      in if a @ b = [] then None
         else Some (if 0 \<le> e then Dec (m' * 10 ^ nat e) (length b) else Dec m' (length b + nat (- e)))))"

text \<open>\<open>parseFloat(s) || 0\<close>, and \<open>typeof v === "number" ? v : parseFloat(String(v)) || 0\<close>.\<close>

definition float_or_zero :: "string \<Rightarrow> dec" where
  "float_or_zero s = (case parse_float s of None \<Rightarrow> Dec 0 0 | Some d \<Rightarrow> d)"

definition numVal :: "jsv \<Rightarrow> dec" where
  "numVal v = (case v of JNum n \<Rightarrow> Dec n 0 | _ \<Rightarrow> float_or_zero (js_to_string v))"

type_synonym ca_input = "(string \<times> jsv) list"

definition tester_init :: ca_input where
  "tester_init = [(''device_posture'', JNum 75), (''risk_score'', JNum 40), (''user_group'', JStr ''engineers''),
     (''ip_address'', JStr ''192.168.1.100''), (''time_of_day'', JNum 14), (''country'', JStr ''CN''), (''mfa_enrolled'', JBool True),
     (''auth_method'', JStr ''passkey'')]"

definition inputFields :: "string list" where
  "inputFields = [''device_posture'', ''risk_score'', ''user_group'', ''ip_address'', ''time_of_day'', ''country'', ''mfa_enrolled'', ''auth_method'']"

definition set_input :: "string \<Rightarrow> jsv \<Rightarrow> ca_input \<Rightarrow> ca_input" where
  "set_input k v i = (if k \<in> set inputFields then obj_set k v i else i)"

definition condition_holds :: "ca_input \<Rightarrow> ca_condition \<Rightarrow> bool" where
  "condition_holds i c = (let v = js_opt_prop (JObj i) (cc_operand c) in
     case cc_operator c of
       OpLt \<Rightarrow> dec_less (numVal v) (float_or_zero (cc_value c))
     | OpGt \<Rightarrow> dec_less (float_or_zero (cc_value c)) (numVal v)
     | OpEq \<Rightarrow> js_to_string v = cc_value c
     | OpNe \<Rightarrow> js_to_string v \<noteq> cc_value c
     | OpIn \<Rightarrow> js_to_string v \<in> set (map trim (split_on (CHR '','') (cc_value c)))
     | OpContains \<Rightarrow> str_includes (js_to_string v) (cc_value c)
     | OpOther \<Rightarrow> False)"

definition policy_matches :: "ca_input \<Rightarrow> ca_policy \<Rightarrow> bool" where
  "policy_matches i q = (let results = map (condition_holds i) (cond_list (ca_conditions q)) in
     if ca_logic q = Some ''AND'' then list_all id results else list_ex id results)"

fun first_match :: "ca_input \<Rightarrow> ca_policy list \<Rightarrow> ca_policy option" where
  "first_match i [] = None"
| "first_match i (q # qs) = (if \<not> ca_enabled q then first_match i qs else if policy_matches i q then Some q else first_match i qs)"

definition prio_after :: "ca_policy \<Rightarrow> ca_policy \<Rightarrow> bool" where
  "prio_after a b = (ca_priority a - ca_priority b > 0)"

definition ca_evaluate :: "ca_input \<Rightarrow> ca_policy list \<Rightarrow> string \<times> ca_policy option" where
  "ca_evaluate i qs = (let m = first_match i (js_sort prio_after qs) in
     (case m of None \<Rightarrow> ''allow'' | Some q \<Rightarrow> or_else (ca_action q) ''allow'', m))"

section \<open>Evaluation\<close>

interpretation prio: js_order prio_after "\<lambda>_. True"
  by unfold_locales (auto simp: prio_after_def)

lemma first_match_hd:
  "first_match i qs = (case filter (\<lambda>q. ca_enabled q \<and> policy_matches i q) qs of [] \<Rightarrow> None | q # _ \<Rightarrow> Some q)"
  by (induction qs) auto

lemma sorted_same_priority:
  "filter (\<lambda>q. ca_priority q = n) (js_sort prio_after qs) = filter (\<lambda>q. ca_priority q = n) qs"
proof -
  let ?z = "\<lparr>ca_id = [], ca_name = [], ca_priority = n, ca_enabled = True, ca_action = [], ca_conditions = NoConds, ca_logic = None\<rparr>"
  have "(\<lambda>q. ca_priority q = n) = (\<lambda>y. \<not> prio_after y ?z \<and> \<not> prio_after ?z y)"
    by (auto simp: prio_after_def)
  then show ?thesis using prio.stable[of qs ?z] by simp
qed

text \<open>C26. The tester decides by the enabled policy of lowest priority number that matches, the first of them in the list if several have this
  number; without a match it allows.\<close>

theorem tester_picks_first:
  assumes "good = filter (\<lambda>q. ca_enabled q \<and> policy_matches i q) qs"
  shows "(good = [] \<longrightarrow> ca_evaluate i qs = (''allow'', None)) \<and>
    (good \<noteq> [] \<longrightarrow> (\<exists>q. ca_evaluate i qs = (or_else (ca_action q) ''allow'', Some q) \<and> q \<in> set good \<and>
      (\<forall>x \<in> set good. ca_priority q \<le> ca_priority x) \<and> hd (filter (\<lambda>x. ca_priority x = ca_priority q) good) = q))"
proof -
  let ?P = "\<lambda>q. ca_enabled q \<and> policy_matches i q"
  let ?s = "filter ?P (js_sort prio_after qs)"
  have eq: "set ?s = set good" using assms by auto
  show ?thesis
  proof (cases ?s)
    case Nil
    then show ?thesis using eq by (simp add: ca_evaluate_def first_match_hd)
  next
    case (Cons q ss)
    have ev: "ca_evaluate i qs = (or_else (ca_action q) ''allow'', Some q)"
      using Cons by (simp add: ca_evaluate_def first_match_hd)
    have "sorted_wrt (\<lambda>a b. \<not> prio_after a b) ?s" using prio.sorted[of qs] by (simp add: sorted_wrt_filter)
    then have le: "\<forall>x \<in> set good. ca_priority q \<le> ca_priority x"
      using eq Cons by (fastforce simp: prio_after_def)
    have "filter (\<lambda>x. ca_priority x = ca_priority q) ?s = filter (\<lambda>x. ca_priority x = ca_priority q) good"
      using sorted_same_priority[of "ca_priority q" qs] assms by (metis (no_types, lifting) filter_filter conj_commute filter_cong)
    then have "hd (filter (\<lambda>x. ca_priority x = ca_priority q) good) = q" using Cons by simp (metis list.sel(1))
    moreover have "q \<in> set good" using eq Cons by auto
    moreover have "good \<noteq> []" using calculation(2) by auto
    ultimately show ?thesis using ev le by blast
  qed
qed

definition risky :: ca_policy where
  "risky = \<lparr>ca_id = ''1'', ca_name = ''risky'', ca_priority = 1, ca_enabled = True, ca_action = ''block'',
     ca_conditions = CondList [\<lparr>cc_id = ''c'', cc_operand = ''risk_score'', cc_operator = OpGt, cc_value = ''25.5''\<rparr>], ca_logic = Some ''AND''\<rparr>"

theorem tester_picks_first_witness:
  "ca_evaluate tester_init [risky\<lparr>ca_priority := 5, ca_action := ''deny''\<rparr>, risky] = (''block'', Some risky)"
proof -
  let ?qs = "[risky\<lparr>ca_priority := 5, ca_action := ''deny''\<rparr>, risky]"
  have "filter (\<lambda>q. ca_enabled q \<and> policy_matches tester_init q) ?qs = ?qs" by code_simp
  then obtain q where "ca_evaluate tester_init ?qs = (or_else (ca_action q) ''allow'', Some q)" "q \<in> set ?qs" "\<forall>x \<in> set ?qs. ca_priority q \<le> ca_priority x"
    using tester_picks_first[of ?qs tester_init ?qs] by auto
  then show ?thesis by (auto simp: risky_def or_else_def)
qed

section \<open>Saving\<close>

text \<open>The body that is sent does not depend on the operators of the conditions, nor on how they are joined.\<close>

lemma body_forgets:
  "ca_body (editor_policy q (d\<lparr>ed_conditions := map (\<lambda>c. c\<lparr>cc_operator := f c\<rparr>) (ed_conditions d), ed_logic := l\<rparr>)) = ca_body (editor_policy q d)"
  by (simp add: ca_body_def editor_policy_def cond_list_def conditionsMap_def foldl_map)

text \<open>Of several conditions on one operand only the last is sent.\<close>

lemma conditionsMap_last:
  "assoc k (conditionsMap cs) = map_option (\<lambda>c. condition_value (cc_value c)) (find (\<lambda>c. cc_operand c = k) (rev cs))"
proof -
  have "assoc k (foldl (\<lambda>m c. obj_set (cc_operand c) (condition_value (cc_value c)) m) acc cs) =
      (case find (\<lambda>c. cc_operand c = k) (rev cs) of None \<Rightarrow> assoc k acc | Some c \<Rightarrow> Some (condition_value (cc_value c)))" for acc
    by (induction cs rule: rev_induct) auto
  from this[of "[]"] show ?thesis by (simp add: conditionsMap_def split: option.splits)
qed

lemma conditionsMap_clean: "json_clean (JObj (conditionsMap cs))"
proof -
  have "conditionsMap cs = foldl (\<lambda>o' (k, v). obj_set k v o') [] (map (\<lambda>c. (cc_operand c, condition_value (cc_value c))) cs)"
    by (simp add: conditionsMap_def foldl_map)
  moreover have "list_all (\<lambda>(k, v). json_clean v) (map (\<lambda>c. (cc_operand c, condition_value (cc_value c))) cs)"
    by (auto simp: list_all_iff condition_value_def split: option.splits)
  ultimately show ?thesis
    using mk_obj_clean[of "map (\<lambda>c. (cc_operand c, condition_value (cc_value c))) cs"] unfolding mk_obj_def by simp
qed

text \<open>A policy as the server returns it when it keeps what it was sent: no rule of the tester matches it and the editor cannot show it.\<close>

definition stored_policy :: "string \<Rightarrow> ca_policy \<Rightarrow> jsv" where
  "stored_policy i q = JObj ((''id'', JStr i) # ca_body q)"

lemma stored_policy_of:
  "ca_conditions (ca_policy_of (stored_policy i q)) = CondObject" "ca_logic (ca_policy_of (stored_policy i q)) = None"
  by (simp_all add: ca_policy_of_def stored_policy_def ca_body_def conds_of_def js_opt_prop_def)

lemma stored_unmatched: "\<not> policy_matches i (ca_policy_of (stored_policy k q))"
  by (simp add: policy_matches_def stored_policy_of cond_list_def)

lemma unmatched_allow: "\<forall>q \<in> set qs. \<not> policy_matches i q \<Longrightarrow> ca_evaluate i qs = (''allow'', None)"
  by (simp add: ca_evaluate_def first_match_hd filter_empty_conv)

lemma stored_clean: "json_clean (stored_policy k q)"
  using conditionsMap_clean[of "cond_list (ca_conditions q)"] by (simp add: stored_policy_def ca_body_def)

text \<open>A server that lists one policy, and that answers every other request with some status.\<close>

definition lists_only :: "'w env \<Rightarrow> jsv \<Rightarrow> bool" where
  "lists_only E v = (\<forall>o' rq. if meth rq = ''GET'' then fst (net E o' rq) = Resp 200 (json_stringify (JArr [v])) else fst (net E o' rq) \<noteq> NetError)"

lemma ca_load_lists:
  assumes "lists_only E v" "json_clean v"
  shows "cp_policies (fst (ca_load E base (p, w))) = [ca_policy_of v]"
proof -
  let ?rq = "\<lparr>url = ca_url base [], meth = ''GET'', hdrs = authHeader w, rbody = None\<rparr>"
  have "fst (net E (outside w) ?rq) = Resp 200 (json_stringify (JArr [v]))" using assms(1) by (simp add: lists_only_def)
  moreover have "json_parse (json_stringify (JArr [v])) = Some (JArr [v])" using assms(2) by (intro json_stringify_clean) simp
  ultimately show ?thesis by (simp add: ca_load_def fetch_def ca_list_def case_prod_beta resp_ok_def)
qed

lemma ca_save_answered:
  assumes "lists_only E v" "ed_name d \<noteq> []"
  shows "\<exists>w1. fst (ca_save E base d (p, w)) = (fst (ca_load E base (p, w1)))\<lparr>cp_tab := TabPolicies\<rparr>"
proof -
  let ?rq = "save_request base (editor_policy (cp_editing p) d) (cp_editing p) w"
  have "meth ?rq \<noteq> ''GET''" by (simp add: save_request_def ca_write_def split: option.splits)
  then obtain st t w1 where "fetch E ?rq w = (Resp st t, w1)"
    using assms(1) by (cases "fst (net E (outside w) ?rq)") (auto simp: lists_only_def fetch_def case_prod_beta)
  then show ?thesis using assms(2) by (auto simp: ca_save_def ca_onSave_def case_prod_beta)
qed

text \<open>C25. A conditional access policy loses its meaning when it is saved.  What is sent does not contain the operators of the conditions, nor
  whether all or one of them must hold; and after the page has loaded the policy from a server that kept what it was sent, the tester
  matches it for no input, so that it answers ``allow'', and the editor cannot be opened for it.\<close>

theorem saved_policy_forgotten:
  assumes "ed_name d \<noteq> []" "q = editor_policy (cp_editing p) d" "lists_only E (stored_policy k q)" "p' = fst (ca_save E base d (p, w))"
  shows "ca_evaluate i (cp_policies p') = (''allow'', None) \<and> (\<forall>x \<in> set (cp_policies p'). open_editor t n (Some x) = None) \<and>
    length (cp_policies p') = 1 \<and>
    (\<forall>f l. ca_body (editor_policy (cp_editing p) (d\<lparr>ed_conditions := map (\<lambda>c. c\<lparr>cc_operator := f c\<rparr>) (ed_conditions d), ed_logic := l\<rparr>)) = ca_body q)"
proof -
  obtain w1 where "p' = (fst (ca_load E base (p, w1)))\<lparr>cp_tab := TabPolicies\<rparr>"
    using ca_save_answered[OF assms(3,1), of base p w] assms(4) by blast
  then have "cp_policies p' = [ca_policy_of (stored_policy k q)]"
    using ca_load_lists[OF assms(3) stored_clean, of base p w1] by simp
  then show ?thesis
    using body_forgets assms(2) by (simp add: unmatched_allow stored_unmatched open_editor_def stored_policy_of)
qed

definition editing_risky :: ca_editor where
  "editing_risky = \<lparr>ed_name = ''risky'', ed_priority = 1, ed_action = ''block'', ed_logic = ''AND'',
     ed_conditions = [\<lparr>cc_id = ''c'', cc_operand = ''risk_score'', cc_operator = OpGt, cc_value = ''25''\<rparr>]\<rparr>"

definition keeps_risky :: "unit env" where
  "keeps_risky = (always NetError)\<lparr>net := \<lambda>_ rq. (Resp 200 (json_stringify (JArr [stored_policy ''7'' (editor_policy None editing_risky)])), ())\<rparr>"

theorem saved_policy_forgotten_witness:
  "fst (ca_evaluate tester_init [editor_policy None editing_risky]) = ''block'' \<and>
   fst (ca_evaluate tester_init (cp_policies (fst (ca_save keeps_risky [] editing_risky (ca_init, blank_world))))) = ''allow''"
proof -
  have "fst (ca_evaluate tester_init [editor_policy None editing_risky]) = ''block''" by code_simp
  moreover have "lists_only keeps_risky (stored_policy ''7'' (editor_policy (cp_editing ca_init) editing_risky))"
    by (simp add: lists_only_def keeps_risky_def ca_init_def)
  ultimately show ?thesis
    using saved_policy_forgotten[of editing_risky "editor_policy (cp_editing ca_init) editing_risky" ca_init keeps_risky "''7''"
      "fst (ca_save keeps_risky [] editing_risky (ca_init, blank_world))" "[]" blank_world tester_init 0 0]
    by (simp add: editing_risky_def)
qed

section \<open>Further behaviour of the page\<close>

text \<open>The tester has no field for the operands \<open>ip_range\<close> and \<open>location\<close>: a condition on them is decided by the text
  \<open>undefined\<close>, whatever is entered.\<close>

lemma input_other:
  assumes "k \<notin> set inputFields"
  shows "js_opt_prop (JObj (fold (\<lambda>(k, v). set_input k v) es i)) k = js_opt_prop (JObj i) k"
proof (induction es arbitrary: i)
  case (Cons e es)
  have "assoc k (set_input j v i) = assoc k i" for j v using assms by (auto simp: set_input_def)
  then show ?case using Cons.IH[of "set_input (fst e) (snd e) i"] by (simp add: case_prod_beta js_opt_prop_def)
qed simp

lemma tester_lacks_location:
  assumes "cc_operand c \<in> {''ip_range'', ''location''}"
  shows "condition_holds (fold (\<lambda>(k, v). set_input k v) es tester_init) c = condition_holds tester_init c"
    "cc_operator c = OpEq \<Longrightarrow> cc_value c \<noteq> ''undefined'' \<Longrightarrow> \<not> condition_holds tester_init c"
proof -
  have "cc_operand c \<notin> set inputFields" using assms by (auto simp: inputFields_def)
  from input_other[OF this, of es tester_init]
  show "condition_holds (fold (\<lambda>(k, v). set_input k v) es tester_init) c = condition_holds tester_init c"
    by (simp add: condition_holds_def)
  show "\<not> condition_holds tester_init c" if "cc_operator c = OpEq" "cc_value c \<noteq> ''undefined''"
    using that assms by (auto simp: condition_holds_def tester_init_def js_opt_prop_def)
qed

text \<open>A request that cannot be sent is shown as done: the policy is switched or gone on the page.  The arrows change the order of the list
  only on the page, and neither the priorities nor, by \<open>tester_picks_first\<close>, more than the choice among equal priorities.\<close>

lemma unsent_toggle_shown:
  assumes "fst (net E (outside w) (ca_write base ''PUT'' i (JObj [(''enabled'', JBool (\<not> ca_enabled x))]) w)) = NetError"
    "find (\<lambda>y. ca_id y = i) (cp_policies p) = Some x"
  shows "cp_policies (fst (ca_onToggle E base i (p, w))) = map (\<lambda>y. if ca_id y = i then y\<lparr>ca_enabled := \<not> ca_enabled y\<rparr> else y) (cp_policies p)"
  using assms by (auto simp: ca_onToggle_def fetch_def case_prod_beta)

lemma unsent_delete_shown:
  assumes "fst (net E (outside w) \<lparr>url = ca_url base i, meth = ''DELETE'', hdrs = authHeader w, rbody = None\<rparr>) = NetError"
  shows "cp_policies (fst (ca_onDelete True E base i (p, w))) = filter (\<lambda>x. ca_id x \<noteq> i) (cp_policies p)"
  using assms by (auto simp: ca_onDelete_def fetch_def case_prod_beta)

lemma swap_at_multiset: "i < length xs \<Longrightarrow> j < length xs \<Longrightarrow> mset (swap_at i j xs) = mset xs"
  by (simp add: swap_at_def mset_swap)

lemma index_of_less: "index_of P xs = Some k \<Longrightarrow> k < length xs \<and> P (xs ! k)"
  by (induction xs arbitrary: k) (auto split: if_splits)

lemma move_keeps_policies: "mset (cp_policies (ca_onMove i up p)) = mset (cp_policies p)"
  by (auto simp: ca_onMove_def swap_at_multiset split: option.splits dest!: index_of_less)

end
