(* ===== verification/Webhooks.thy ===== *)
theory Webhooks
  imports Organizations Users_Page
begin

text \<open>
  The webhooks page (\<open>console/src/app/webhooks/page.tsx\<close>): the endpoints and their subscriptions, registering, switching on and
  off, testing, the history of deliveries with retries, and the rotation of secrets.  Switching is shown before it is answered and
  taken back when it fails; these requests may overlap with each other and with edits, and are the steps of a relation.  The
  protocol of an address (\<open>new URL(url).protocol\<close>, \<^term>\<open>None\<close> where the constructor throws) and the text of a date are parameters.
  Timers that hide a message are left out.
\<close>

section \<open>Data\<close>

definition WEBHOOK_EVENTS :: "string list" where
  "WEBHOOK_EVENTS = [''user.created'', ''user.updated'', ''user.deleted'', ''role.assigned'', ''role.revoked'', ''org.member_added'',
     ''org.member_removed'', ''auth.login'', ''auth.logout'', ''auth.mfa_challenge'', ''policy.evaluated'', ''audit.alert'']"

record webhook =
  wk_id :: string
  wk_url :: string
  wk_description :: string
  wk_events :: "string list"
  wk_enabled :: bool
  wk_secret :: string
  wk_created :: string

record delivery =
  dl_id :: string
  dl_event :: string
  dl_status :: int
  dl_duration :: int
  dl_at :: string

record wh_test =
  tr_request :: string
  tr_status :: jsv
  tr_time :: int
  tr_body :: string

record webhooks_page =
  wp_webhooks :: "webhook list"
  wp_loading :: bool
  wp_msg :: "(bool \<times> string) option"
  wp_showForm :: bool
  wp_url :: string
  wp_desc :: string
  wp_selected :: "string list"
  wp_creating :: bool
  wp_expanded :: "string list"
  wp_testing :: "string option"
  wp_results :: "(string \<times> wh_test) list"
  wp_viewer :: "string option"
  wp_history :: "string option"
  wp_deliveries :: "(string \<times> delivery list) list"
  wp_historyLoading :: bool
  wp_retrying :: "string option"
  wp_newSecret :: "string option"
  wp_copied :: bool
  wp_ack :: bool
  wp_deleteTarget :: "webhook option"

definition webhooks_init :: webhooks_page where
  "webhooks_init = \<lparr>wp_webhooks = [], wp_loading = True, wp_msg = None, wp_showForm = False, wp_url = [], wp_desc = [], wp_selected = [],
     wp_creating = False, wp_expanded = [], wp_testing = None, wp_results = [], wp_viewer = None, wp_history = None, wp_deliveries = [],
     wp_historyLoading = False, wp_retrying = None, wp_newSecret = None, wp_copied = False, wp_ack = False, wp_deleteTarget = None\<rparr>"

text \<open>The fields as their declared types say.\<close>

definition strings_in :: "jsv \<Rightarrow> string list" where
  "strings_in v = map (\<lambda>x. case x of JStr s \<Rightarrow> s | _ \<Rightarrow> []) (arr_items v)"

definition webhook_of :: "jsv \<Rightarrow> webhook" where
  "webhook_of v = \<lparr>wk_id = user_str v ''id'', wk_url = user_str v ''url'', wk_description = user_str v ''description'',
     wk_events = strings_in (js_opt_prop v ''events''), wk_enabled = truthy (js_opt_prop v ''enabled''), wk_secret = user_str v ''secret'',
     wk_created = user_str v ''created_at''\<rparr>"

definition num_field :: "jsv \<Rightarrow> string \<Rightarrow> int" where
  "num_field v k = (case js_opt_prop v k of JNum n \<Rightarrow> n | _ \<Rightarrow> 0)"

definition delivery_of :: "jsv \<Rightarrow> delivery" where
  "delivery_of v = \<lparr>dl_id = user_str v ''id'', dl_event = user_str v ''event_type'', dl_status = num_field v ''status_code'',
     dl_duration = num_field v ''duration_ms'', dl_at = user_str v ''delivered_at''\<rparr>"

section \<open>Loading and forms\<close>

text \<open>\<open>Array.isArray(data) ? data : data.k || []\<close> for data that is no \<open>null\<close>.\<close>

definition list_field :: "string \<Rightarrow> jsv \<Rightarrow> jsv list" where
  "list_field k d = (case d of JArr vs \<Rightarrow> vs | _ \<Rightarrow> arr_items (js_or (js_opt_prop d k) (JArr [])))"

definition loadWebhooks :: "'w env \<Rightarrow> string \<Rightarrow> string \<Rightarrow> webhooks_page \<times> 'w world \<Rightarrow> webhooks_page \<times> 'w world" where
  "loadWebhooks E base tenant pw = (case pw of (p, w) \<Rightarrow>
     (case apiFetch E base tenant ''/api/v1/webhooks'' no_options w of
        (Inl _, w1) \<Rightarrow> (p\<lparr>wp_webhooks := [], wp_loading := False\<rparr>, w1)
      | (Inr data, w1) \<Rightarrow> (p\<lparr>wp_webhooks := (if \<not> truthy data then [] else map webhook_of (list_field ''webhooks'' data)), wp_loading := False\<rparr>, w1)))"

definition wh_isValidUrl :: "(string \<Rightarrow> string option) \<Rightarrow> string \<Rightarrow> bool" where
  "wh_isValidUrl protocol u = (protocol u = Some ''https:'' \<or> protocol u = Some ''http:'')"

definition toggle_selected :: "string \<Rightarrow> webhooks_page \<Rightarrow> webhooks_page" where
  "toggle_selected e p = p\<lparr>wp_selected := js_toggle e (wp_selected p)\<rparr>"

definition toggleEvent :: "string \<Rightarrow> string \<Rightarrow> webhooks_page \<Rightarrow> webhooks_page" where
  "toggleEvent i e p = p\<lparr>wp_webhooks := map (\<lambda>k. if wk_id k \<noteq> i then k else k\<lparr>wk_events := js_toggle e (js_set (wk_events k))\<rparr>) (wp_webhooks p)\<rparr>"

definition toggleEventExpanded :: "string \<Rightarrow> webhooks_page \<Rightarrow> webhooks_page" where
  "toggleEventExpanded i p = p\<lparr>wp_expanded := js_toggle i (wp_expanded p)\<rparr>"

definition persistEvents :: "'w env \<Rightarrow> string \<Rightarrow> string \<Rightarrow> webhook \<Rightarrow> webhooks_page \<times> 'w world \<Rightarrow> webhooks_page \<times> 'w world" where
  "persistEvents E base tenant k pw = (case pw of (p, w) \<Rightarrow>
     (case apiFetch E base tenant (''/api/v1/webhooks/'' @ wk_id k)
         (json_options ''PUT'' [(''events'', JArr (map JStr (wk_events k))), (''url'', JStr (wk_url k))]) w of
        (Inl _, w1) \<Rightarrow> (p\<lparr>wp_msg := Some (False, ''Failed to update events'')\<rparr>, w1)
      | (Inr _, w1) \<Rightarrow> (p\<lparr>wp_msg := Some (True, ''Event subscriptions updated'')\<rparr>, w1)))"

definition wh_create_body :: "webhooks_page \<Rightarrow> (string \<times> jsv) list" where
  "wh_create_body p = [(''name'', JStr (or_else (trim (wp_desc p)) (trim (wp_url p)))), (''url'', JStr (trim (wp_url p))),
     (''events'', JArr (map JStr (wp_selected p))), (''active'', JBool True)]"

definition wh_handleCreate ::
  "(string \<Rightarrow> string option) \<Rightarrow> 'w env \<Rightarrow> string \<Rightarrow> string \<Rightarrow> webhooks_page \<times> 'w world \<Rightarrow> webhooks_page \<times> 'w world" where
  "wh_handleCreate protocol E base tenant pw = (case pw of (p, w) \<Rightarrow>
     if trim (wp_url p) = [] then (p\<lparr>wp_msg := Some (False, ''URL is required'')\<rparr>, w)
     else if \<not> wh_isValidUrl protocol (trim (wp_url p)) then (p\<lparr>wp_msg := Some (False, ''Please enter a valid http(s) URL'')\<rparr>, w)
     else (case apiFetch E base tenant ''/api/v1/webhooks'' (json_options ''POST'' (wh_create_body p)) w of
        (Inl x, w1) \<Rightarrow> (p\<lparr>wp_msg := Some (False, api_exn_message E x), wp_creating := False\<rparr>, w1)
      | (Inr _, w1) \<Rightarrow> loadWebhooks E base tenant (p\<lparr>wp_msg := Some (True, ''Webhook registered successfully''), wp_url := [], wp_desc := [],
           wp_selected := [], wp_showForm := False, wp_creating := False\<rparr>, w1)))"

definition wh_handleDelete :: "'w env \<Rightarrow> string \<Rightarrow> string \<Rightarrow> webhooks_page \<times> 'w world \<Rightarrow> webhooks_page \<times> 'w world" where
  "wh_handleDelete E base tenant pw = (case pw of (p, w) \<Rightarrow>
     (case wp_deleteTarget p of None \<Rightarrow> (p, w)
      | Some k \<Rightarrow> (case (case apiFetch E base tenant (''/api/v1/webhooks/'' @ wk_id k) delete_opts w of
           (Inr _, w1) \<Rightarrow> (p\<lparr>wp_msg := Some (True, ''Webhook deleted''), wp_webhooks := filter (\<lambda>x. wk_id x \<noteq> wk_id k) (wp_webhooks p)\<rparr>, w1)
         | (Inl _, w1) \<Rightarrow> (p\<lparr>wp_msg := Some (False, ''Failed to delete webhook''), wp_webhooks := filter (\<lambda>x. wk_id x \<noteq> wk_id k) (wp_webhooks p)\<rparr>, w1))
         of (p1, w1) \<Rightarrow> (p1\<lparr>wp_deleteTarget := None\<rparr>, w1))))"

section \<open>Tests, deliveries and secrets\<close>

definition bare_post :: req_options where
  "bare_post = \<lparr>o_method = Some ''POST'', o_headers = [], o_body = None\<rparr>"

text \<open>The body shown with a test; \<open>stamp\<close> is \<open>new Date().toISOString()\<close>.\<close>

definition test_request :: "string \<Rightarrow> jsv" where
  "test_request stamp = JObj [(''event'', JStr ''webhook.test''), (''timestamp'', JStr stamp), (''data'', JObj [(''test'', JBool True)])]"

text \<open>A test.  The answer \<open>null\<close> throws where its status is read and counts as a failure; a text that is no string is shown as one.\<close>

definition wh_handleTest :: "string \<Rightarrow> 'w env \<Rightarrow> string \<Rightarrow> string \<Rightarrow> string \<Rightarrow> webhooks_page \<times> 'w world \<Rightarrow> webhooks_page \<times> 'w world" where
  "wh_handleTest stamp E base tenant i pw = (case pw of (p, w) \<Rightarrow>
     (case apiFetch E base tenant (''/api/v1/webhooks/'' @ i @ ''/test'') bare_post w of (r, w1) \<Rightarrow>
       (let elapsed = date_now E w1 - date_now E w;
            failed = (\<lambda>m. p\<lparr>wp_results := obj_set i \<lparr>tr_request = json_pretty (test_request stamp), tr_status = JNum 0, tr_time = elapsed, tr_body = m\<rparr> (wp_results p),
              wp_viewer := Some i, wp_testing := None\<rparr>)
        in (case r of
          Inl x \<Rightarrow> (failed (api_exn_message E x), w1)
        | Inr resp \<Rightarrow> if nullish resp then (failed (type_message E), w1) else
            (let st = js_or (js_opt_prop resp ''status'') (JNum 200) in
             (p\<lparr>wp_results := obj_set i \<lparr>tr_request = json_pretty (test_request stamp), tr_status = st, tr_time = elapsed,
                   tr_body = (let b = js_opt_prop resp ''response'' in if truthy b then js_to_string b else json_pretty resp)\<rparr> (wp_results p),
                wp_viewer := Some i, wp_msg := Some (True, ''Test sent ('' @ js_to_string st @ '')''), wp_testing := None\<rparr>, w1))))))"

definition loadDeliveries :: "'w env \<Rightarrow> string \<Rightarrow> string \<Rightarrow> string \<Rightarrow> webhooks_page \<times> 'w world \<Rightarrow> webhooks_page \<times> 'w world" where
  "loadDeliveries E base tenant i pw = (case pw of (p, w) \<Rightarrow>
     (case apiFetch E base tenant (''/api/v1/webhooks/'' @ i @ ''/deliveries'') no_options w of
        (Inl _, w1) \<Rightarrow> (p\<lparr>wp_deliveries := obj_set i [] (wp_deliveries p), wp_historyLoading := False\<rparr>, w1)
      | (Inr data, w1) \<Rightarrow> (p\<lparr>wp_deliveries := obj_set i (if nullish data then [] else map delivery_of (list_field ''deliveries'' data)) (wp_deliveries p),
           wp_historyLoading := False\<rparr>, w1)))"

definition handleViewHistory :: "'w env \<Rightarrow> string \<Rightarrow> string \<Rightarrow> string \<Rightarrow> webhooks_page \<times> 'w world \<Rightarrow> webhooks_page \<times> 'w world" where
  "handleViewHistory E base tenant i pw = (case pw of (p, w) \<Rightarrow>
     if wp_history p = Some i then (p\<lparr>wp_history := None\<rparr>, w)
     else loadDeliveries E base tenant i (p\<lparr>wp_history := Some i\<rparr>, w))"

definition retry_path :: "string \<Rightarrow> string \<Rightarrow> string" where
  "retry_path i d = ''/api/v1/webhooks/'' @ i @ ''/deliveries/'' @ d @ ''/retry''"

definition wh_handleRetry :: "'w env \<Rightarrow> string \<Rightarrow> string \<Rightarrow> string \<Rightarrow> string \<Rightarrow> webhooks_page \<times> 'w world \<Rightarrow> webhooks_page \<times> 'w world" where
  "wh_handleRetry E base tenant d i pw = (case pw of (p, w) \<Rightarrow>
     (case apiFetch E base tenant (retry_path i d) bare_post w of
        (Inl _, w1) \<Rightarrow> (p\<lparr>wp_msg := Some (False, ''Retry failed''), wp_retrying := None\<rparr>, w1)
      | (Inr _, w1) \<Rightarrow> loadDeliveries E base tenant i (p\<lparr>wp_msg := Some (True, ''Delivery retried''), wp_retrying := None\<rparr>, w1)))"

definition failed_delivery :: "delivery \<Rightarrow> bool" where
  "failed_delivery d = (dl_status d \<ge> 400 \<or> dl_status d = 0)"

definition deliveries_for :: "string \<Rightarrow> webhooks_page \<Rightarrow> delivery list" where
  "deliveries_for i p = (case assoc i (wp_deliveries p) of None \<Rightarrow> [] | Some ds \<Rightarrow> ds)"

definition hasFailedDeliveries :: "string \<Rightarrow> webhooks_page \<Rightarrow> bool" where
  "hasFailedDeliveries i p = list_ex failed_delivery (deliveries_for i p)"

fun retry_each :: "'w env \<Rightarrow> string \<Rightarrow> string \<Rightarrow> string \<Rightarrow> delivery list \<Rightarrow> 'w world \<Rightarrow> 'w world" where
  "retry_each E base tenant i [] w = w"
| "retry_each E base tenant i (d # ds) w =
     retry_each E base tenant i ds (snd (apiFetch E base tenant (retry_path i (dl_id d)) bare_post w))"

definition handleRetryAll :: "'w env \<Rightarrow> string \<Rightarrow> string \<Rightarrow> string \<Rightarrow> webhooks_page \<times> 'w world \<Rightarrow> webhooks_page \<times> 'w world" where
  "handleRetryAll E base tenant i pw = (case pw of (p, w) \<Rightarrow>
     (let failed = filter failed_delivery (deliveries_for i p) in
      loadDeliveries E base tenant i
        (p\<lparr>wp_msg := Some (True, ''Retried '' @ show_nat (length failed) @ '' failed deliveries'')\<rparr>, retry_each E base tenant i failed w)))"

text \<open>A secret that is no string is shown as the text it is turned into.\<close>

definition handleRotateSecret :: "'w env \<Rightarrow> string \<Rightarrow> string \<Rightarrow> string \<Rightarrow> webhooks_page \<times> 'w world \<Rightarrow> webhooks_page \<times> 'w world" where
  "handleRotateSecret E base tenant i pw = (case pw of (p, w) \<Rightarrow>
     (case apiFetch E base tenant (''/api/v1/webhooks/'' @ i @ ''/rotate-secret'') bare_post w of (r, w1) \<Rightarrow>
       (case (case r of Inl _ \<Rightarrow> JUndef | Inr data \<Rightarrow> js_opt_prop data ''secret'') of s \<Rightarrow>
         if truthy s then loadWebhooks E base tenant (p\<lparr>wp_newSecret := Some (js_to_string s), wp_copied := False, wp_ack := False\<rparr>, w1)
         else (p\<lparr>wp_msg := Some (False, ''Failed to rotate secret''), wp_copied := False, wp_ack := False\<rparr>, w1))))"

definition copySecret :: "webhooks_page \<Rightarrow> webhooks_page" where
  "copySecret p = (if wp_newSecret p = None then p else p\<lparr>wp_copied := True\<rparr>)"

definition set_ack :: "bool \<Rightarrow> webhooks_page \<Rightarrow> webhooks_page" where
  "set_ack b p = p\<lparr>wp_ack := b\<rparr>"

text \<open>The backdrop and the button close the dialog only after the acknowledgement.\<close>

definition close_secret :: "webhooks_page \<Rightarrow> webhooks_page" where
  "close_secret p = (if wp_ack p then p\<lparr>wp_newSecret := None\<rparr> else p)"

section \<open>Switching on and off\<close>

text \<open>The two updates of the list around the request, and the handler where nothing else happens meanwhile.\<close>

definition toggle_start :: "webhook \<Rightarrow> webhook list \<Rightarrow> webhook list" where
  "toggle_start k ks = map (\<lambda>x. if wk_id x = wk_id k then k\<lparr>wk_enabled := \<not> wk_enabled k\<rparr> else x) ks"

definition toggle_revert :: "webhook \<Rightarrow> webhook list \<Rightarrow> webhook list" where
  "toggle_revert k ks = map (\<lambda>x. if wk_id x = wk_id k then k else x) ks"

definition handleToggleEnabled :: "'w env \<Rightarrow> string \<Rightarrow> string \<Rightarrow> webhook \<Rightarrow> webhooks_page \<times> 'w world \<Rightarrow> webhooks_page \<times> 'w world" where
  "handleToggleEnabled E base tenant k pw = (case pw of (p, w) \<Rightarrow>
     (let p1 = p\<lparr>wp_webhooks := toggle_start k (wp_webhooks p)\<rparr> in
      case apiFetch E base tenant (''/api/v1/webhooks/'' @ wk_id k) (json_options ''PUT'' [(''enabled'', JBool (\<not> wk_enabled k))]) w of
        (Inr _, w1) \<Rightarrow> (p1, w1)
      | (Inl _, w1) \<Rightarrow> (p1\<lparr>wp_webhooks := toggle_revert k (wp_webhooks p1)\<rparr>, w1)))"

text \<open>The list with the requests under way, each with the endpoint it was started with, and what the server has.  A click concerns an
  endpoint as it is shown; the requests are answered in any order.\<close>

record wh_live =
  wl_page :: webhooks_page
  wl_pending :: "webhook list"
  wl_server :: "string \<Rightarrow> bool"

datatype wh_act = Click webhook | Answer bool | EditEvents | Removal | Reload

inductive wh_step :: "wh_act \<Rightarrow> wh_live \<Rightarrow> wh_live \<Rightarrow> bool" where
  click: "k \<in> set (wp_webhooks (wl_page s)) \<Longrightarrow> wh_step (Click k) s
    (s\<lparr>wl_page := (wl_page s)\<lparr>wp_webhooks := toggle_start k (wp_webhooks (wl_page s))\<rparr>, wl_pending := wl_pending s @ [k]\<rparr>)"
| accepted: "wl_pending s = xs @ k # ys \<Longrightarrow> wh_step (Answer True) s
    (s\<lparr>wl_pending := xs @ ys, wl_server := (wl_server s)(wk_id k := \<not> wk_enabled k)\<rparr>)"
| refused: "wl_pending s = xs @ k # ys \<Longrightarrow> wh_step (Answer False) s
    (s\<lparr>wl_page := (wl_page s)\<lparr>wp_webhooks := toggle_revert k (wp_webhooks (wl_page s))\<rparr>, wl_pending := xs @ ys\<rparr>)"
| edit: "wh_step EditEvents s (s\<lparr>wl_page := toggleEvent i e (wl_page s)\<rparr>)"
| removal: "wh_step Removal s (s\<lparr>wl_page := (wl_page s)\<lparr>wp_webhooks := filter (\<lambda>x. wk_id x \<noteq> i) (wp_webhooks (wl_page s))\<rparr>\<rparr>)"
| reload: "distinct (map wk_id ks) \<Longrightarrow> \<forall>k \<in> set ks. wk_enabled k = wl_server s (wk_id k) \<Longrightarrow> wh_step Reload s
    (s\<lparr>wl_page := (wl_page s)\<lparr>wp_webhooks := ks\<rparr>\<rparr>)"

inductive_cases wh_stepE: "wh_step a s s'"

text \<open>A user who does not click on an endpoint while a request for it is under way, nor reloads the list while any is.\<close>

definition waits :: "wh_act \<Rightarrow> wh_live \<Rightarrow> bool" where
  "waits a s = (case a of Click k \<Rightarrow> wk_id k \<notin> wk_id ` set (wl_pending s) | Reload \<Rightarrow> wl_pending s = [] | _ \<Rightarrow> True)"

definition wh_any :: "wh_live \<Rightarrow> wh_live \<Rightarrow> bool" where
  "wh_any s s' = (\<exists>a. wh_step a s s')"

definition patient_step :: "wh_live \<Rightarrow> wh_live \<Rightarrow> bool" where
  "patient_step s s' = (\<exists>a. wh_step a s s' \<and> waits a s)"

text \<open>Endpoints are told apart by their identifiers.  One with a request under way shows the opposite of what the server has and the request
  was started with what the server has; every other shows what the server has.\<close>

definition wh_inv :: "wh_live \<Rightarrow> bool" where
  "wh_inv s = (distinct (map wk_id (wp_webhooks (wl_page s))) \<and> distinct (map wk_id (wl_pending s)) \<and>
     (\<forall>q \<in> set (wl_pending s). wk_enabled q = wl_server s (wk_id q)) \<and>
     (\<forall>k \<in> set (wp_webhooks (wl_page s)). wk_enabled k = (wl_server s (wk_id k) \<noteq> (wk_id k \<in> wk_id ` set (wl_pending s)))))"

lemma ids_kept [simp]:
  "map wk_id (toggle_start k ks) = map wk_id ks" "map wk_id (toggle_revert k ks) = map wk_id ks"
  "map wk_id (wp_webhooks (toggleEvent i e p)) = map wk_id (wp_webhooks p)"
  by (induction ks) (simp_all add: toggle_start_def toggle_revert_def toggleEvent_def)

lemma toggled_cases:
  "x \<in> set (toggle_start k ks) \<Longrightarrow> x = k\<lparr>wk_enabled := \<not> wk_enabled k\<rparr> \<or> x \<in> set ks \<and> wk_id x \<noteq> wk_id k"
  "x \<in> set (toggle_revert k ks) \<Longrightarrow> x = k \<or> x \<in> set ks \<and> wk_id x \<noteq> wk_id k"
  "x \<in> set (wp_webhooks (toggleEvent i e p)) \<Longrightarrow> \<exists>y \<in> set (wp_webhooks p). wk_id x = wk_id y \<and> wk_enabled x = wk_enabled y"
  by (auto simp: toggle_start_def toggle_revert_def toggleEvent_def split: if_splits)

text \<open>What the invariant says of a request that is answered.\<close>

lemma wh_inv_pending:
  assumes "wh_inv s" "wl_pending s = xs @ k # ys"
  shows "wk_id k \<notin> wk_id ` set (xs @ ys)" "distinct (map wk_id (xs @ ys))" "wk_enabled k = wl_server s (wk_id k)"
    "\<forall>q \<in> set (xs @ ys). wk_enabled q = wl_server s (wk_id q)"
    "\<forall>x \<in> set (wp_webhooks (wl_page s)). wk_enabled x = (wl_server s (wk_id x) \<noteq> (wk_id x = wk_id k \<or> wk_id x \<in> wk_id ` set (xs @ ys)))"
proof -
  have "distinct (map wk_id (xs @ k # ys))" using assms by (simp add: wh_inv_def)
  then show "wk_id k \<notin> wk_id ` set (xs @ ys)" "distinct (map wk_id (xs @ ys))" by auto
  have "wk_id ` set (xs @ k # ys) = insert (wk_id k) (wk_id ` set (xs @ ys))" by auto
  then show "\<forall>x \<in> set (wp_webhooks (wl_page s)). wk_enabled x = (wl_server s (wk_id x) \<noteq> (wk_id x = wk_id k \<or> wk_id x \<in> wk_id ` set (xs @ ys)))"
    using assms unfolding wh_inv_def by simp
qed (use assms in \<open>simp_all add: wh_inv_def\<close>)

lemma wh_inv_step:
  assumes "wh_inv s" "patient_step s s'"
  shows "wh_inv s'"
proof -
  obtain a where a: "wh_step a s s'" "waits a s" using assms(2) by (auto simp: patient_step_def)
  from a(1) show ?thesis
  proof cases
    case (click k)
    then have "wk_enabled k = wl_server s (wk_id k)" using assms(1) a(2) by (auto simp: wh_inv_def waits_def)
    with click assms(1) a(2) show ?thesis
      by (auto simp: wh_inv_def waits_def dest!: toggled_cases(1))
  next
    case (accepted xs k ys)
    note pending = wh_inv_pending[OF assms(1) accepted(3)]
    have "wl_page s' = wl_page s" "wl_pending s' = xs @ ys" "wl_server s' = (wl_server s)(wk_id k := \<not> wk_enabled k)"
      using accepted(2) by simp_all
    note new = this
    have "wk_enabled q = wl_server s' (wk_id q)" if "q \<in> set (wl_pending s')" for q
      using that pending(1,4) new by (cases "wk_id q = wk_id k") (metis imageI, simp)
    moreover have "wk_enabled x = (wl_server s' (wk_id x) \<noteq> (wk_id x \<in> wk_id ` set (wl_pending s')))" if "x \<in> set (wp_webhooks (wl_page s'))" for x
      using that pending(1,3,5) unfolding new by (cases "wk_id x = wk_id k") (simp_all del: set_append)
    moreover have "distinct (map wk_id (wp_webhooks (wl_page s')))" using assms(1) new by (simp add: wh_inv_def)
    moreover have "distinct (map wk_id (wl_pending s'))" using pending(2) new by simp
    ultimately show ?thesis unfolding wh_inv_def by blast
  next
    case (refused xs k ys)
    note pending = wh_inv_pending[OF assms(1) refused(3)]
    have "wp_webhooks (wl_page s') = toggle_revert k (wp_webhooks (wl_page s))" "wl_pending s' = xs @ ys" "wl_server s' = wl_server s"
      using refused(2) by simp_all
    note new = this
    have "wk_enabled x = (wl_server s (wk_id x) \<noteq> (wk_id x \<in> wk_id ` set (xs @ ys)))"
      if "x \<in> set (toggle_revert k (wp_webhooks (wl_page s)))" for x
      using toggled_cases(2)[OF that] pending(1,3,5) by (auto simp del: set_append)
    moreover have "distinct (map wk_id (toggle_revert k (wp_webhooks (wl_page s))))" using assms(1) by (simp add: wh_inv_def)
    ultimately show ?thesis using pending(2,4) new unfolding wh_inv_def by simp
  next
    case (edit i e)
    then have new: "wl_page s' = toggleEvent i e (wl_page s)" "wl_pending s' = wl_pending s" "wl_server s' = wl_server s" by simp_all
    have "wk_enabled x = (wl_server s (wk_id x) \<noteq> (wk_id x \<in> wk_id ` set (wl_pending s)))" if "x \<in> set (wp_webhooks (toggleEvent i e (wl_page s)))" for x
      using toggled_cases(3)[OF that] assms(1) by (force simp: wh_inv_def)
    then show ?thesis using assms(1) new by (simp add: wh_inv_def)
  next
    case (removal i)
    then show ?thesis using assms(1) by (auto simp: wh_inv_def distinct_map_filter)
  next
    case (reload ks)
    then show ?thesis using assms(1) a(2) by (auto simp: wh_inv_def waits_def)
  qed
qed

text \<open>Two clicks on one endpoint, both refused: the second refusal restores what the first click had shown.\<close>

lemma double_click_wrong:
  assumes "k \<in> set (wp_webhooks (wl_page s))" "wl_pending s = []"
  shows "\<exists>s'. wh_any\<^sup>*\<^sup>* s s' \<and> wl_pending s' = [] \<and> wl_server s' = wl_server s \<and>
    (\<exists>k' \<in> set (wp_webhooks (wl_page s')). wk_id k' = wk_id k \<and> wk_enabled k' = (\<not> wk_enabled k))"
proof -
  let ?k = "k\<lparr>wk_enabled := \<not> wk_enabled k\<rparr>"
  let ?set = "\<lambda>ks ps. s\<lparr>wl_page := (wl_page s)\<lparr>wp_webhooks := ks\<rparr>, wl_pending := ps\<rparr>"
  define ks where "ks = wp_webhooks (wl_page s)"
  define k1 where "k1 = toggle_start k ks"
  define k2 where "k2 = toggle_start ?k k1"
  define k3 where "k3 = toggle_revert k k2"
  have "wh_step (Click k) s (?set k1 [k])"
    using click[of k s] assms by (simp add: k1_def ks_def)
  moreover have "?k \<in> set k1" using assms by (force simp: k1_def ks_def toggle_start_def)
  then have "wh_step (Click ?k) (?set k1 [k]) (?set k2 [k, ?k])"
    using click[of ?k "?set k1 [k]"] by (simp add: k2_def)
  moreover have "wh_step (Answer False) (?set k2 [k, ?k]) (?set k3 [?k])"
    using refused[of "?set k2 [k, ?k]" "[]" k "[?k]"] by (simp add: k3_def)
  moreover have "wh_step (Answer False) (?set k3 [?k]) (?set (toggle_revert ?k k3) [])"
    using refused[of "?set k3 [?k]" "[]" ?k "[]"] by simp
  moreover have "?k \<in> set (toggle_revert ?k k3)"
    using assms by (force simp: k3_def k2_def k1_def ks_def toggle_start_def toggle_revert_def)
  ultimately have "wh_any\<^sup>*\<^sup>* s (?set (toggle_revert ?k k3) [])" and "?k \<in> set (toggle_revert ?k k3)"
    by (meson wh_any_def r_into_rtranclp rtranclp.rtrancl_into_rtrancl)+
  then show ?thesis by (intro exI[of _ "?set (toggle_revert ?k k3) []"]) (auto intro!: bexI[of _ ?k])
qed

text \<open>C24. Switching webhooks shows what the server has, if the user waits: in every run in which no endpoint is clicked, and the list is not
  reloaded, while a request is under way that it would overtake, each endpoint without a request under way shows what the server has, whichever
  requests are refused and in whatever order they are answered.  Without waiting it fails: from every such state with an endpoint, two clicks
  whose requests are refused in their order leave the page showing the opposite of what the server has, with nothing under way that would
  correct it.\<close>

theorem optimistic_toggles:
  assumes "wh_inv s0" "wl_pending s0 = []" "patient_step\<^sup>*\<^sup>* s0 s"
  shows "(\<forall>k \<in> set (wp_webhooks (wl_page s)). wk_id k \<notin> wk_id ` set (wl_pending s) \<longrightarrow> wk_enabled k = wl_server s (wk_id k)) \<and>
    (\<forall>k \<in> set (wp_webhooks (wl_page s0)). \<exists>s'. wh_any\<^sup>*\<^sup>* s0 s' \<and> wl_pending s' = [] \<and> wl_server s' = wl_server s0 \<and>
       (\<exists>k' \<in> set (wp_webhooks (wl_page s')). wk_id k' = wk_id k \<and> wk_enabled k' \<noteq> wl_server s' (wk_id k)))"
proof -
  have "wh_inv s" using assms(3,1) by (induction rule: rtranclp_induct) (auto intro: wh_inv_step)
  then have "\<forall>k \<in> set (wp_webhooks (wl_page s)). wk_id k \<notin> wk_id ` set (wl_pending s) \<longrightarrow> wk_enabled k = wl_server s (wk_id k)"
    by (simp add: wh_inv_def)
  moreover have "\<exists>s'. wh_any\<^sup>*\<^sup>* s0 s' \<and> wl_pending s' = [] \<and> wl_server s' = wl_server s0 \<and>
       (\<exists>k' \<in> set (wp_webhooks (wl_page s')). wk_id k' = wk_id k \<and> wk_enabled k' \<noteq> wl_server s' (wk_id k))"
    if k: "k \<in> set (wp_webhooks (wl_page s0))" for k
  proof -
    have "wk_enabled k = wl_server s0 (wk_id k)" using assms(1,2) k by (simp add: wh_inv_def)
    then show ?thesis using double_click_wrong[OF k assms(2)] by (metis (full_types))
  qed
  ultimately show ?thesis by blast
qed

definition hook_named :: "string \<Rightarrow> webhook" where
  "hook_named i = \<lparr>wk_id = i, wk_url = ''http://x'', wk_description = [], wk_events = [], wk_enabled = True, wk_secret = [], wk_created = []\<rparr>"

theorem optimistic_toggles_witness:
  "\<exists>s'. wh_any\<^sup>*\<^sup>* \<lparr>wl_page = webhooks_init\<lparr>wp_webhooks := [hook_named ''1'']\<rparr>, wl_pending = [], wl_server = \<lambda>_. True\<rparr> s' \<and> wl_pending s' = [] \<and>
     (\<exists>k' \<in> set (wp_webhooks (wl_page s')). wk_id k' = ''1'' \<and> \<not> wk_enabled k')"
proof -
  let ?s = "\<lparr>wl_page = webhooks_init\<lparr>wp_webhooks := [hook_named ''1'']\<rparr>, wl_pending = [], wl_server = \<lambda>_. True\<rparr>"
  have "wh_inv ?s" by (simp add: wh_inv_def hook_named_def)
  from optimistic_toggles[OF this _ rtranclp.rtrancl_refl] obtain s' where
    "wh_any\<^sup>*\<^sup>* ?s s'" "wl_pending s' = []" "wl_server s' = wl_server ?s"
    "\<exists>k' \<in> set (wp_webhooks (wl_page s')). wk_id k' = ''1'' \<and> wk_enabled k' \<noteq> wl_server s' ''1''"
    by (force simp: hook_named_def)
  then show ?thesis by auto
qed

section \<open>Further behaviour of the page\<close>

text \<open>Subscriptions changed while switching is under way are lost when it is refused.\<close>

lemma refused_toggle_loses_edits:
  assumes "k \<in> set (wp_webhooks p)" "distinct (map wk_id (wp_webhooks p))"
  shows "toggle_revert k (wp_webhooks (toggleEvent (wk_id k) e (p\<lparr>wp_webhooks := toggle_start k (wp_webhooks p)\<rparr>))) = wp_webhooks p"
proof -
  have "k = x" if "x \<in> set (wp_webhooks p)" "wk_id x = wk_id k" for x
    using that assms by (auto simp: distinct_map inj_on_def)
  then show ?thesis by (auto simp: toggle_revert_def toggle_start_def toggleEvent_def intro!: map_idI)
qed

text \<open>Retrying all asks for every failed delivery of the history, and reports their number whatever the answers are.\<close>

lemma retry_each_asked:
  assumes "d \<in> set ds"
  shows "asked base w (retry_each E base tenant i ds w) (retry_path i (dl_id d), bare_post)" "\<exists>us. sent (retry_each E base tenant i ds w) = sent w @ us"
proof -
  have ext: "\<exists>us. sent (retry_each E base tenant i ds w) = sent w @ us" for ds w
  proof (induction ds arbitrary: w)
    case (Cons d ds)
    then show ?case using apiFetch_extends[of E base tenant "retry_path i (dl_id d)" bare_post w] by (metis append_assoc retry_each.simps(2))
  qed simp
  then show "\<exists>us. sent (retry_each E base tenant i ds w) = sent w @ us" .
  show "asked base w (retry_each E base tenant i ds w) (retry_path i (dl_id d), bare_post)"
    using assms
  proof (induction ds arbitrary: w)
    case (Cons x ds)
    let ?w = "snd (apiFetch E base tenant (retry_path i (dl_id x)) bare_post w)"
    obtain us where us: "sent ?w = sent w @ us" "us \<noteq> []" "url (hd us) = base @ retry_path i (dl_id x) \<and> meth (hd us) = ''POST'' \<and> rbody (hd us) = None"
      using apiFetch_extends[of E base tenant "retry_path i (dl_id x)" bare_post w] by (auto simp: bare_post_def)
    show ?case
    proof (cases "d = x")
      case True
      obtain vs where "sent (retry_each E base tenant i ds ?w) = sent ?w @ vs" using ext by blast
      then show ?thesis using us True by (cases us) (auto simp: asked_def bare_post_def)
    next
      case False
      then have "asked base ?w (retry_each E base tenant i ds ?w) (retry_path i (dl_id d), bare_post)" using Cons by simp
      then show ?thesis using us(1) ext[of ds ?w] by (auto simp: asked_def)
    qed
  qed simp
qed

lemma retry_all_reports:
  "wp_msg (fst (handleRetryAll E base tenant i (p, w))) =
     Some (True, ''Retried '' @ show_nat (length (filter failed_delivery (deliveries_for i p))) @ '' failed deliveries'')"
  by (simp add: handleRetryAll_def Let_def loadDeliveries_def split: prod.splits sum.splits)

text \<open>A webhook whose deletion is refused leaves the list all the same.\<close>

lemma refused_delete_hides:
  "wp_deleteTarget p = Some k \<Longrightarrow> wp_webhooks (fst (wh_handleDelete E base tenant (p, w))) = filter (\<lambda>x. wk_id x \<noteq> wk_id k) (wp_webhooks p)"
  by (simp add: wh_handleDelete_def split: prod.splits sum.splits)

text \<open>The list shown after a rotation of a secret is loaded again; the dialog with the new secret stays until it is acknowledged.\<close>

lemma rotated_secret_stays:
  assumes "fst (apiFetch E base tenant (''/api/v1/webhooks/'' @ i @ ''/rotate-secret'') bare_post w) = Inr data" "js_opt_prop data ''secret'' = JStr s" "s \<noteq> []"
  shows "wp_newSecret (close_secret (copySecret (fst (handleRotateSecret E base tenant i (p, w))))) = Some s"
  using assms by (auto simp: handleRotateSecret_def loadWebhooks_def close_secret_def copySecret_def split: prod.splits sum.splits)

end
