(* ===== verification/User_Detail.thy ===== *)
theory User_Detail
  imports Roles_Page Webhooks Passwords
begin

text \<open>
  The page of one user (\<open>console/src/app/users/[id]/page.tsx\<close>): loading, the profile form, locking, passwords, roles, sessions,
  credentials, provisioning data, deletion and impersonation.  Records of the server that the page only shows are JSON values.  The
  confirmation dialogs are arguments; addresses the page goes to are collected in a field.
\<close>

section \<open>Data\<close>

datatype drawer_tab = DProfile | DSessions | DCredentials | DAudit

record user_form =
  uf_display :: string
  uf_email :: string
  uf_phone :: string
  uf_status :: string

record user_detail =
  ud_user :: jsv
  ud_roles :: "jsv list"
  ud_userRoles :: "jsv list"
  ud_orgs :: "jsv list"
  ud_loading :: bool
  ud_error :: "string option"
  ud_editing :: bool
  ud_form :: user_form
  ud_reset :: string
  ud_msg :: "string option"
  ud_tab :: drawer_tab
  ud_activity :: "jsv list"
  ud_credentials :: "jsv list"
  ud_social :: "jsv list"
  ud_scim :: jsv
  ud_scimSyncing :: bool
  ud_sessions :: "jsv list"
  ud_revoking :: "string option"
  ud_deleting :: "string option"
  ud_showImpersonate :: bool
  ud_impersonating :: bool
  ud_goes :: "string list"

definition user_detail_init :: user_detail where
  "user_detail_init = \<lparr>ud_user = JNull, ud_roles = [], ud_userRoles = [], ud_orgs = [], ud_loading = True, ud_error = None, ud_editing = False,
     ud_form = \<lparr>uf_display = [], uf_email = [], uf_phone = [], uf_status = []\<rparr>, ud_reset = [], ud_msg = None, ud_tab = DProfile, ud_activity = [],
     ud_credentials = [], ud_social = [], ud_scim = JNull, ud_scimSyncing = False, ud_sessions = [], ud_revoking = None, ud_deleting = None,
     ud_showImpersonate = False, ud_impersonating = False, ud_goes = []\<rparr>"

text \<open>The redirection of an address without an identifier.\<close>

definition id_guard :: "string option \<Rightarrow> user_detail \<Rightarrow> user_detail" where
  "id_guard i p = (if \<not> present i \<or> i = Some ''[id]'' then p\<lparr>ud_goes := ud_goes p @ [''/users'']\<rparr> else p)"

section \<open>Loading\<close>

definition user_path :: "string \<Rightarrow> string \<Rightarrow> string" where
  "user_path i rest = ''/api/v1/users/'' @ i @ rest"

definition ud_loadScim :: "'w env \<Rightarrow> string \<Rightarrow> string \<Rightarrow> string \<Rightarrow> user_detail \<times> 'w world \<Rightarrow> user_detail \<times> 'w world" where
  "ud_loadScim E base tenant i pw = (case pw of (p, w) \<Rightarrow>
     (case apiFetch E base tenant (user_path i ''/scim'') no_options w of (r, w1) \<Rightarrow>
       (p\<lparr>ud_scim := (case r of Inl _ \<Rightarrow> JNull | Inr d \<Rightarrow> d)\<rparr>, w1)))"

definition ud_loadActivity :: "'w env \<Rightarrow> string \<Rightarrow> string \<Rightarrow> string \<Rightarrow> user_detail \<times> 'w world \<Rightarrow> user_detail \<times> 'w world" where
  "ud_loadActivity E base tenant i pw = (case pw of (p, w) \<Rightarrow>
     (case apiFetch E base tenant (''/api/v1/audit/events?actor_id='' @ i @ ''&page_size=20'') no_options w of (r, w1) \<Rightarrow>
       (p\<lparr>ud_activity := (case list_or_empty [''events''] r of None \<Rightarrow> [] | Some vs \<Rightarrow> vs)\<rparr>, w1)))"

definition loadUserRoles :: "'w env \<Rightarrow> string \<Rightarrow> string \<Rightarrow> string \<Rightarrow> user_detail \<times> 'w world \<Rightarrow> user_detail \<times> 'w world" where
  "loadUserRoles E base tenant i pw = (case pw of (p, w) \<Rightarrow>
     (case apiFetch E base tenant (user_path i ''/roles'') no_options w of (r, w1) \<Rightarrow>
       (p\<lparr>ud_userRoles := (case list_or_empty [''roles''] r of None \<Rightarrow> [] | Some vs \<Rightarrow> vs)\<rparr>, w1)))"

text \<open>The answer may be a list itself.\<close>

definition ud_loadSessions :: "'w env \<Rightarrow> string \<Rightarrow> string \<Rightarrow> string \<Rightarrow> user_detail \<times> 'w world \<Rightarrow> user_detail \<times> 'w world" where
  "ud_loadSessions E base tenant i pw = (case pw of (p, w) \<Rightarrow>
     (case apiFetch E base tenant (user_path i ''/sessions'') no_options w of (r, w1) \<Rightarrow>
       (p\<lparr>ud_sessions := (case r of Inl _ \<Rightarrow> [] | Inr d \<Rightarrow> if nullish d then [] else list_field ''sessions'' d)\<rparr>, w1)))"

definition open_tab :: "'w env \<Rightarrow> string \<Rightarrow> string \<Rightarrow> string \<Rightarrow> drawer_tab \<Rightarrow> user_detail \<times> 'w world \<Rightarrow> user_detail \<times> 'w world" where
  "open_tab E base tenant i tab pw = (case pw of (p, w) \<Rightarrow>
     (let p1 = p\<lparr>ud_tab := tab\<rparr> in if ud_tab p = tab then (p1, w)
      else if tab = DAudit then ud_loadActivity E base tenant i (p1, w)
      else if tab = DSessions then ud_loadSessions E base tenant i (p1, w) else (p1, w)))"

definition form_of :: "jsv \<Rightarrow> user_form" where
  "form_of u = \<lparr>uf_display = user_str u ''display_name'', uf_email = user_str u ''email'', uf_phone = user_str u ''phone'',
     uf_status = or_else (user_str u ''status'') ''active''\<rparr>"

text \<open>State updates up to the first that throws, and whether none does.\<close>

fun apply_until :: "('p \<Rightarrow> 'p) option list \<Rightarrow> 'p \<Rightarrow> 'p \<times> bool" where
  "apply_until [] p = (p, True)"
| "apply_until (None # fs) p = (p, False)"
| "apply_until (Some f # fs) p = apply_until fs (f p)"

text \<open>The six further requests of a load.\<close>

definition load_details :: "'w env \<Rightarrow> string \<Rightarrow> string \<Rightarrow> string \<Rightarrow> user_detail \<times> 'w world \<Rightarrow> (user_detail \<times> bool) \<times> 'w world" where
  "load_details E base tenant i pw = (case pw of (p, w) \<Rightarrow>
     (case apiFetch E base tenant ''/api/v1/roles'' no_options w of (r1, w1) \<Rightarrow>
     (case apiFetch E base tenant (user_path i ''/credentials'') no_options w1 of (r2, w2) \<Rightarrow>
     (case apiFetch E base tenant (user_path i ''/social'') no_options w2 of (r3, w3) \<Rightarrow>
     (case apiFetch E base tenant (user_path i ''/roles'') no_options w3 of (r4, w4) \<Rightarrow>
     (case apiFetch E base tenant (''/api/v1/org/memberships?user_id='' @ i) no_options w4 of (r5, w5) \<Rightarrow>
     (case apiFetch E base tenant (user_path i ''/scim'') no_options w5 of (r6, w6) \<Rightarrow>
       (apply_until
         [map_option (\<lambda>vs. ud_roles_update (\<lambda>_. vs)) (list_or_empty [''roles''] r1),
          map_option (\<lambda>vs. ud_credentials_update (\<lambda>_. vs)) (list_or_empty [''credentials''] r2),
          map_option (\<lambda>vs. ud_social_update (\<lambda>_. vs)) (list_or_empty [''connections''] r3),
          map_option (\<lambda>vs. ud_userRoles_update (\<lambda>_. vs)) (list_or_empty [''roles''] r4),
          map_option (\<lambda>vs. ud_orgs_update (\<lambda>_. vs)) (list_or_empty [''organizations''] r5),
          Some (ud_scim_update (\<lambda>_. case r6 of Inl _ \<Rightarrow> JNull | Inr d \<Rightarrow> d))] p, w6))))))))"

definition ud_loadData :: "'w env \<Rightarrow> string \<Rightarrow> string \<Rightarrow> string \<Rightarrow> user_detail \<times> 'w world \<Rightarrow> user_detail \<times> 'w world" where
  "ud_loadData E base tenant i pw = (case pw of (p, w) \<Rightarrow>
     (case apiFetch E base tenant (user_path i []) no_options w of
        (Inl x, w1) \<Rightarrow> (p\<lparr>ud_error := Some (api_exn_message E x), ud_loading := False\<rparr>, w1)
      | (Inr u, w1) \<Rightarrow>
          if nullish u then (p\<lparr>ud_user := u, ud_error := Some (type_message E), ud_loading := False\<rparr>, w1)
          else (case load_details E base tenant i (p\<lparr>ud_user := u, ud_form := form_of u\<rparr>, w1) of ((p1, ok), w2) \<Rightarrow>
            (p1\<lparr>ud_error := (if ok then None else Some (type_message E)), ud_loading := False\<rparr>, w2))))"

section \<open>Actions\<close>

text \<open>\<open>try { await apiFetch(...); ... } catch (err) { setError(...) }\<close>, which most actions share.\<close>

definition ud_call ::
  "'w env \<Rightarrow> string \<Rightarrow> string \<Rightarrow> string \<Rightarrow> req_options \<Rightarrow> (user_detail \<times> 'w world \<Rightarrow> user_detail \<times> 'w world) \<Rightarrow> user_detail \<times> 'w world \<Rightarrow> user_detail \<times> 'w world" where
  "ud_call E base tenant path opts done pw = (case pw of (p, w) \<Rightarrow>
     (case apiFetch E base tenant path opts w of
        (Inl x, w1) \<Rightarrow> (p\<lparr>ud_error := Some (api_exn_message E x)\<rparr>, w1)
      | (Inr _, w1) \<Rightarrow> done (p, w1)))"

definition say :: "string \<Rightarrow> user_detail \<times> 'w world \<Rightarrow> user_detail \<times> 'w world" where
  "say m pw = ((fst pw)\<lparr>ud_msg := Some m\<rparr>, snd pw)"

definition handleScimSync :: "'w env \<Rightarrow> string \<Rightarrow> string \<Rightarrow> string \<Rightarrow> user_detail \<times> 'w world \<Rightarrow> user_detail \<times> 'w world" where
  "handleScimSync E base tenant i pw = (case ud_call E base tenant (user_path i ''/scim/sync'') bare_post
       (\<lambda>pw. ud_loadScim E base tenant i (say ''SCIM sync triggered successfully'' pw)) pw of (p, w) \<Rightarrow> (p\<lparr>ud_scimSyncing := False\<rparr>, w))"

definition ud_handleRevokeSession :: "'w env \<Rightarrow> string \<Rightarrow> string \<Rightarrow> string \<Rightarrow> string \<Rightarrow> user_detail \<times> 'w world \<Rightarrow> user_detail \<times> 'w world" where
  "ud_handleRevokeSession E base tenant i s pw = (case ud_call E base tenant (user_path i (''/sessions/'' @ s)) delete_opts
       (\<lambda>pw. ud_loadSessions E base tenant i (say ''Session revoked successfully'' pw)) pw of (p, w) \<Rightarrow> (p\<lparr>ud_revoking := None\<rparr>, w))"

definition handleDeleteCredential :: "bool \<Rightarrow> 'w env \<Rightarrow> string \<Rightarrow> string \<Rightarrow> string \<Rightarrow> string \<Rightarrow> user_detail \<times> 'w world \<Rightarrow> user_detail \<times> 'w world" where
  "handleDeleteCredential confirmed E base tenant i c pw = (if \<not> confirmed then pw else
     (case ud_call E base tenant (user_path i (''/credentials/'' @ c)) delete_opts
       (\<lambda>pw. (case say ''Credential deleted successfully'' pw of (p, w) \<Rightarrow>
          (p\<lparr>ud_credentials := filter (\<lambda>v. js_opt_prop v ''id'' \<noteq> JStr c) (ud_credentials p)\<rparr>, w))) pw of (p, w) \<Rightarrow> (p\<lparr>ud_deleting := None\<rparr>, w)))"

text \<open>The message of the code has a dash.\<close>

definition ud_handleImpersonate :: "'w env \<Rightarrow> string \<Rightarrow> string \<Rightarrow> string \<Rightarrow> user_detail \<times> 'w world \<Rightarrow> user_detail \<times> 'w world" where
  "ud_handleImpersonate E base tenant i pw = (case pw of (p, w) \<Rightarrow>
     (case apiFetch E base tenant (user_path i ''/impersonate'') bare_post w of
        (Inl x, w1) \<Rightarrow> (p\<lparr>ud_error := Some (api_exn_message E x), ud_impersonating := False\<rparr>, w1)
      | (Inr resp, w1) \<Rightarrow>
          if nullish resp then (p\<lparr>ud_error := Some (type_message E), ud_impersonating := False\<rparr>, w1)
          else (let token = js_or (js_opt_prop resp ''token'') (js_opt_prop resp ''access_token'') in
            if truthy token
            then (p\<lparr>ud_msg := Some (''Impersonation active '' @ dash @ '' you are now this user''), ud_goes := ud_goes p @ [''/''],
                    ud_showImpersonate := False, ud_impersonating := False\<rparr>, set_item ''ggid_access_token'' (js_to_string token) w1)
            else (p\<lparr>ud_msg := Some ''Impersonation token received'', ud_showImpersonate := False, ud_impersonating := False\<rparr>, w1))))"

definition form_json_of :: "user_form \<Rightarrow> (string \<times> jsv) list" where
  "form_json_of f = [(''display_name'', JStr (uf_display f)), (''email'', JStr (uf_email f)), (''phone'', JStr (uf_phone f)), (''status'', JStr (uf_status f))]"

definition ud_handleSave :: "'w env \<Rightarrow> string \<Rightarrow> string \<Rightarrow> string \<Rightarrow> user_detail \<times> 'w world \<Rightarrow> user_detail \<times> 'w world" where
  "ud_handleSave E base tenant i pw = ud_call E base tenant (user_path i []) (json_options ''PUT'' (form_json_of (ud_form (fst pw))))
     (\<lambda>(p, w). ud_loadData E base tenant i (say ''User updated successfully'' (p\<lparr>ud_editing := False\<rparr>, w))) pw"

definition ud_handleLock :: "'w env \<Rightarrow> string \<Rightarrow> string \<Rightarrow> string \<Rightarrow> bool \<Rightarrow> user_detail \<times> 'w world \<Rightarrow> user_detail \<times> 'w world" where
  "ud_handleLock E base tenant i lock pw = ud_call E base tenant (user_path i (if lock then ''/lock'' else ''/unlock'')) bare_post
     (\<lambda>pw. ud_loadData E base tenant i (say (''User '' @ (if lock then ''locked'' else ''unlocked'') @ '' successfully'') pw)) pw"

definition handleResetPassword :: "'w env \<Rightarrow> string \<Rightarrow> string \<Rightarrow> string \<Rightarrow> user_detail \<times> 'w world \<Rightarrow> user_detail \<times> 'w world" where
  "handleResetPassword E base tenant i pw = (if ud_reset (fst pw) = [] then pw else
     ud_call E base tenant ''/api/v1/auth/password/reset''
       (json_options ''POST'' [(''user_id'', JStr i), (''new_password'', JStr (ud_reset (fst pw)))])
       (\<lambda>(p, w). say ''Password reset successfully'' (p\<lparr>ud_reset := []\<rparr>, w)) pw)"

definition ud_handleAssignRole :: "'w env \<Rightarrow> string \<Rightarrow> string \<Rightarrow> string \<Rightarrow> string \<Rightarrow> user_detail \<times> 'w world \<Rightarrow> user_detail \<times> 'w world" where
  "ud_handleAssignRole E base tenant i r pw = ud_call E base tenant (user_path i ''/roles'') (json_options ''POST'' [(''role_id'', JStr r)])
     (\<lambda>pw. loadUserRoles E base tenant i (say ''Role assigned successfully'' pw)) pw"

definition ud_handleRevokeRole :: "'w env \<Rightarrow> string \<Rightarrow> string \<Rightarrow> string \<Rightarrow> string \<Rightarrow> user_detail \<times> 'w world \<Rightarrow> user_detail \<times> 'w world" where
  "ud_handleRevokeRole E base tenant i r pw = ud_call E base tenant (user_path i (''/roles/'' @ r)) delete_opts
     (\<lambda>pw. loadUserRoles E base tenant i (say ''Role revoked successfully'' pw)) pw"

definition ud_handleDelete :: "bool \<Rightarrow> 'w env \<Rightarrow> string \<Rightarrow> string \<Rightarrow> string \<Rightarrow> user_detail \<times> 'w world \<Rightarrow> user_detail \<times> 'w world" where
  "ud_handleDelete confirmed E base tenant i pw = (if \<not> confirmed then pw else
     ud_call E base tenant (user_path i []) delete_opts (\<lambda>(p, w). (p\<lparr>ud_goes := ud_goes p @ [''/users'']\<rparr>, w)) pw)"

section \<open>What is shown\<close>

text \<open>\<open>role.role_id || role.id\<close>, the roles offered for assignment, and the button that takes the selected one.\<close>

definition assigned_id :: "jsv \<Rightarrow> jsv" where
  "assigned_id v = js_or (js_opt_prop v ''role_id'') (js_opt_prop v ''id'')"

definition offered_roles :: "user_detail \<Rightarrow> jsv list" where
  "offered_roles p = filter (\<lambda>r. \<not> list_ex (\<lambda>ur. assigned_id ur = js_opt_prop r ''id'') (ud_userRoles p)) (ud_roles p)"

definition click_add :: "'w env \<Rightarrow> string \<Rightarrow> string \<Rightarrow> string \<Rightarrow> string \<Rightarrow> user_detail \<times> 'w world \<Rightarrow> user_detail \<times> 'w world" where
  "click_add E base tenant i sel pw = (if sel = [] then pw else ud_handleAssignRole E base tenant i sel pw)"

record shown_credential =
  sc_id :: string
  sc_type :: string
  sc_name :: string

definition allCredentials :: "user_detail \<Rightarrow> shown_credential list" where
  "allCredentials p =
     map (\<lambda>c. \<lparr>sc_id = user_str c ''id'', sc_type = or_else (user_str c ''type'') ''webauthn'',
       sc_name = or_else (user_str c ''name'') (take 8 (user_str c ''id''))\<rparr>) (ud_credentials p) @
     map (\<lambda>c. \<lparr>sc_id = user_str c ''id'', sc_type = ''social'',
       sc_name = user_str c ''provider'' @ (if user_str c ''name'' = [] then [] else '' ('' @ user_str c ''name'' @ '')'')\<rparr>) (ud_social p)"

section \<open>Properties\<close>

text \<open>Every role of the tenant is offered or assigned, and none is both.\<close>

lemma offered_or_assigned:
  "r \<in> set (ud_roles p) \<Longrightarrow> r \<in> set (offered_roles p) \<longleftrightarrow> js_opt_prop r ''id'' \<notin> assigned_id ` set (ud_userRoles p)"
  by (auto simp: offered_roles_def list_ex_iff image_iff)

text \<open>What is saved is what is read back.\<close>

lemma form_round_trip: "uf_status f \<noteq> [] \<Longrightarrow> form_of (JObj (form_json_of f)) = f"
  by (simp add: form_of_def form_json_of_def user_str_def js_opt_prop_def or_else_def)

text \<open>A social connection is listed among the credentials with a button to delete it, but the request names a credential, and the connection stays
  in the list also when it succeeds.\<close>

lemma social_stays:
  "ud_social p \<noteq> [] \<Longrightarrow> filter (\<lambda>c. sc_type c = ''social'') (allCredentials (fst (handleDeleteCredential confirmed E base tenant i c (p, w)))) \<noteq> []"
  "ud_social (fst (handleDeleteCredential confirmed E base tenant i c (p, w))) = ud_social p"
proof -
  show s: "ud_social (fst (handleDeleteCredential confirmed E base tenant i c (p, w))) = ud_social p"
    by (auto simp: handleDeleteCredential_def ud_call_def say_def split: prod.splits sum.splits)
  show "filter (\<lambda>c. sc_type c = ''social'') (allCredentials (fst (handleDeleteCredential confirmed E base tenant i c (p, w)))) \<noteq> []"
    if "ud_social p \<noteq> []"
    using that s by (cases "ud_social p") (simp_all add: allCredentials_def)
qed

text \<open>Messages are never taken back: a failure is shown beside the success announced before it.\<close>

lemma success_stays:
  "fst (apiFetch E base tenant path opts w) = Inl x \<Longrightarrow> ud_msg (fst (ud_call E base tenant path opts k (p, w))) = ud_msg p"
  by (auto simp: ud_call_def split: prod.splits)

text \<open>A load whose answer lacks one of the lists keeps the lists set before and reports an error.\<close>

lemma apply_until_all: "list_all (\<lambda>f. f \<noteq> None) fs \<Longrightarrow> apply_until fs p = (fold (\<lambda>f. the f) fs p, True)"
  by (induction fs arbitrary: p) auto

section \<open>Impersonation and the stored session\<close>

lemma retry_store [simp]: "local_store (snd (retry E rq w)) = local_store w" "has_window (snd (retry E rq w)) = has_window w"
  by (auto simp: retry_def dispatch_def dest: fetch_frame(1) fetch_frame(2) split: prod.splits outcome.splits)

text \<open>After a 401 an accepted refresh is stored, whatever becomes of the repeated request.\<close>

lemma apiFetch_401_stored:
  assumes "fetch E (api_request base path opts (api_headers tenant opts w)) w = (Resp 401 body, w1)"
    and "has_window w" "\<not> str_includes path ''/auth/''" "local_store w ''ggid_refresh_token'' = Some rt" "rt \<noteq> []"
    and "fetch E (refresh_request base rt) w1 = (Resp st tbody, w2)" "resp_ok st"
    and "json_parse tbody = Some tokens" "truthy (js_opt_prop tokens ''access_token'')"
  shows "getAuthToken (snd (apiFetch E base tenant path opts w)) = Some (js_to_string (js_opt_prop tokens ''access_token''))"
proof -
  let ?r = "retry E (retry_request base path opts (api_headers tenant opts w) (js_opt_prop tokens ''access_token'')) (store_tokens tokens w2)"
  obtain v w3 where r: "?r = (v, w3)" by (cases ?r)
  then have "local_store w3 = local_store (store_tokens tokens w2)" "has_window w3 = has_window (store_tokens tokens w2)"
    using retry_store[of E "retry_request base path opts (api_headers tenant opts w) (js_opt_prop tokens ''access_token'')" "store_tokens tokens w2"] by simp_all
  moreover have "local_store (snd (apiFetch E base tenant path opts w)) = local_store w3" "has_window (snd (apiFetch E base tenant path opts w)) = has_window w3"
    unfolding apiFetch_401[OF assms(1-5)] try_refresh_ok[OF assms(6-9)] r by (simp_all add: give_up_def dispatch_def split: option.splits)
  moreover have "has_window w2" using fetch_frame(1)[OF assms(6)] fetch_frame(1)[OF assms(1)] assms(2) by simp
  ultimately show ?thesis by (simp add: getAuthToken_def store_tokens_access)
qed

lemma impersonate_store:
  assumes "apiFetch E base tenant (user_path i ''/impersonate'') bare_post w = (Inr resp, w1)"
    and "js_or (js_opt_prop resp ''token'') (js_opt_prop resp ''access_token'') = JStr tok" "tok \<noteq> []"
  shows "snd (ud_handleImpersonate E base tenant i (p, w)) = set_item ''ggid_access_token'' tok w1"
proof -
  have "\<not> nullish resp" using assms(2,3) by (cases resp) (auto simp: js_opt_prop_def js_or_def)
  then show ?thesis using assms by (simp add: ud_handleImpersonate_def)
qed

end
