(* ===== verification/OAuth_Clients.thy ===== *)
theory OAuth_Clients
  imports Webhooks Perm_Matrix
begin

text \<open>
  The page of OAuth clients in the settings (\<open>console/src/app/settings/oauth-clients/page.tsx\<close>): registering, editing, deleting,
  rotating secrets, the boxes for grant types and authentication methods, and the provider settings of one client.  Texts of the
  dictionary are an argument, the answers of confirmation dialogs too.
\<close>

section \<open>Data\<close>

definition ALL_GRANT_TYPES :: "string list" where
  "ALL_GRANT_TYPES = [''authorization_code'', ''client_credentials'', ''refresh_token'', ''implicit'']"

record oauth_client =
  oc_id :: string
  oc_client_id :: string
  oc_name :: string
  oc_grants :: "string list"
  oc_uris :: "string list"
  oc_scopes :: "string list"
  oc_methods :: "string list option"

definition oauth_client_of :: "jsv \<Rightarrow> oauth_client" where
  "oauth_client_of v = \<lparr>oc_id = user_str v ''id'', oc_client_id = user_str v ''client_id'', oc_name = user_str v ''name'',
     oc_grants = strings_in (js_opt_prop v ''grant_types''), oc_uris = strings_in (js_opt_prop v ''redirect_uris''),
     oc_scopes = strings_in (js_opt_prop v ''scopes''),
     oc_methods = (let a = js_opt_prop v ''auth_methods'' in if truthy a then Some (strings_in a) else None)\<rparr>"

text \<open>The sets of the form are lists in the order of insertion.\<close>

record client_form =
  cf_name :: string
  cf_uris :: string
  cf_grants :: "string list"
  cf_scopes :: string
  cf_methods :: "string list"

definition emptyForm :: client_form where
  "emptyForm = \<lparr>cf_name = [], cf_uris = [], cf_grants = [''authorization_code'', ''refresh_token''], cf_scopes = ''openid,profile,email'',
     cf_methods = [''password'']\<rparr>"

record clients_page =
  co_clients :: "oauth_client list"
  co_loading :: bool
  co_creating :: bool
  co_error :: "string option"
  co_msg :: "string option"
  co_showCreate :: bool
  co_showEdit :: bool
  co_edit :: "oauth_client option"
  co_form :: client_form
  co_newSecret :: "(string \<times> string) option"
  co_showSecret :: bool
  co_rotating :: "string option"
  co_status :: "(string \<times> bool) list"
  co_providersTab :: bool
  co_sms :: jsv
  co_email :: jsv
  co_saving :: bool

definition clients_init :: clients_page where
  "clients_init = \<lparr>co_clients = [], co_loading = True, co_creating = False, co_error = None, co_msg = None, co_showCreate = False, co_showEdit = False,
     co_edit = None, co_form = emptyForm, co_newSecret = None, co_showSecret = True, co_rotating = None, co_status = [], co_providersTab = False,
     co_sms = JNull, co_email = JNull, co_saving = False\<rparr>"

section \<open>Loading\<close>

text \<open>\<open>val?.configured ?? val?.enabled ?? false\<close>, of which the boxes test equality with \<open>true\<close>.\<close>

definition provider_ready :: "jsv \<Rightarrow> bool" where
  "provider_ready v = (let c = js_opt_prop v ''configured''; e = js_opt_prop v ''enabled'' in (if nullish c then e else c) = JBool True)"

text \<open>The entries of an object; a list has its positions as names, which no box asks for.\<close>

definition status_of :: "jsv \<Rightarrow> (string \<times> bool) list option" where
  "status_of d = (if nullish d then None else
     (case js_or (js_opt_prop d ''providers'') d of JObj kvs \<Rightarrow> Some (map (\<lambda>(k, v). (k, provider_ready v)) kvs) | _ \<Rightarrow> Some []))"

definition load_status :: "'w env \<Rightarrow> string \<Rightarrow> string \<Rightarrow> clients_page \<times> 'w world \<Rightarrow> clients_page \<times> 'w world" where
  "load_status E base tenant pw = (case pw of (p, w) \<Rightarrow>
     (case apiFetch E base tenant ''/api/v1/providers/status'' no_options w of
        (Inl _, w1) \<Rightarrow> (p, w1)
      | (Inr d, w1) \<Rightarrow> (case status_of d of None \<Rightarrow> (p, w1) | Some st \<Rightarrow> (p\<lparr>co_status := st\<rparr>, w1))))"

definition loadClients :: "'w env \<Rightarrow> string \<Rightarrow> string \<Rightarrow> clients_page \<times> 'w world \<Rightarrow> clients_page \<times> 'w world" where
  "loadClients E base tenant pw = (case pw of (p, w) \<Rightarrow>
     (case apiFetch E base tenant ''/api/v1/oauth/clients'' no_options w of (r, w1) \<Rightarrow>
       (case r of
          Inl _ \<Rightarrow> (p\<lparr>co_clients := [], co_loading := False\<rparr>, w1)
        | Inr d \<Rightarrow> if nullish d then (p\<lparr>co_error := Some (type_message E), co_loading := False\<rparr>, w1)
            else (p\<lparr>co_clients := map oauth_client_of (arr_items (js_or (js_opt_prop d ''clients'') (js_or (js_opt_prop d ''items'') (JArr [])))),
                    co_loading := False\<rparr>, w1))))"

section \<open>The boxes\<close>

definition toggleGrantType :: "string \<Rightarrow> client_form \<Rightarrow> client_form" where
  "toggleGrantType g f = f\<lparr>cf_grants := js_toggle g (cf_grants f)\<rparr>"

definition passwordless_methods :: "string list" where
  "passwordless_methods = [''passkey'', ''sms_otp'', ''email_otp'']"

definition toggleAuthMethod :: "string \<Rightarrow> client_form \<Rightarrow> client_form" where
  "toggleAuthMethod m f = (let n = cf_methods f;
     n1 = (if m \<in> set n then js_delete m n
           else js_add m (if m \<in> set passwordless_methods then foldl (\<lambda>s q. js_delete q s) n passwordless_methods else n))
     in f\<lparr>cf_methods := (if n1 = [] then js_add ''password'' n1 else n1)\<rparr>)"

definition method_provider :: "string \<Rightarrow> string option" where
  "method_provider m = (if m = ''passkey'' then Some ''webauthn'' else if m = ''sms_otp'' then Some ''sms'' else if m = ''email_otp'' then Some ''email'' else None)"

definition providerReady :: "(string \<times> bool) list \<Rightarrow> string \<Rightarrow> bool" where
  "providerReady st m = (case method_provider m of None \<Rightarrow> True | Some k \<Rightarrow> assoc k st = Some True)"

definition method_disabled :: "(string \<times> bool) list \<Rightarrow> client_form \<Rightarrow> string \<Rightarrow> bool" where
  "method_disabled st f m = (let checked = m \<in> set (cf_methods f) in
     m \<in> set passwordless_methods \<and> \<not> checked \<and> list_ex (\<lambda>q. q \<in> set (cf_methods f)) passwordless_methods \<or> \<not> providerReady st m \<and> \<not> checked)"

definition click_method :: "(string \<times> bool) list \<Rightarrow> string \<Rightarrow> client_form \<Rightarrow> client_form" where
  "click_method st m f = (if method_disabled st f m then f else toggleAuthMethod m f)"

section \<open>Registering and editing\<close>

text \<open>\<open>s.split(d).map(trim).filter(Boolean)\<close>.\<close>

definition clean_parts :: "char \<Rightarrow> string \<Rightarrow> string list" where
  "clean_parts d s = filter (\<lambda>x. x \<noteq> []) (map trim (split_on d s))"

definition jstrs :: "string list \<Rightarrow> jsv" where
  "jstrs xs = JArr (map JStr xs)"

definition create_client_body :: "client_form \<Rightarrow> (string \<times> jsv) list" where
  "create_client_body f = [(''name'', JStr (cf_name f)), (''grant_types'', jstrs (cf_grants f)), (''redirect_uris'', jstrs (clean_parts (CHR 0x0A) (cf_uris f))),
     (''scopes'', jstrs (clean_parts (CHR '','') (cf_scopes f))), (''response_types'', jstrs [''code'']), (''auth_methods'', jstrs (cf_methods f))]"

definition update_client_body :: "client_form \<Rightarrow> (string \<times> jsv) list" where
  "update_client_body f = [(''name'', JStr (cf_name f)), (''grant_types'', jstrs (cf_grants f)), (''auth_methods'', jstrs (cf_methods f)),
     (''redirect_uris'', jstrs (clean_parts (CHR 0x0A) (cf_uris f))), (''scopes'', jstrs (clean_parts (CHR '','') (cf_scopes f)))]"

definition clients_path :: "string \<Rightarrow> string" where
  "clients_path i = ''/api/v1/oauth/clients/'' @ i"

text \<open>The answer \<open>null\<close> throws where its secret is read, after the form was closed.\<close>

definition oc_handleCreate :: "(string \<Rightarrow> string) \<Rightarrow> 'w env \<Rightarrow> string \<Rightarrow> string \<Rightarrow> clients_page \<times> 'w world \<Rightarrow> clients_page \<times> 'w world" where
  "oc_handleCreate t E base tenant pw = (case pw of (p, w) \<Rightarrow>
     (case apiFetch E base tenant ''/api/v1/oauth/clients'' (json_options ''POST'' (create_client_body (co_form p))) w of
        (Inl x, w1) \<Rightarrow> (p\<lparr>co_error := Some (api_exn_message E x), co_creating := False\<rparr>, w1)
      | (Inr r, w1) \<Rightarrow> (let p1 = p\<lparr>co_showCreate := False, co_form := emptyForm, co_creating := False\<rparr>; s = js_opt_prop r ''client_secret'' in
          if nullish r then (p1\<lparr>co_error := Some (type_message E)\<rparr>, w1)
          else loadClients E base tenant ((if truthy s
            then p1\<lparr>co_newSecret := Some (js_to_string (js_opt_prop r ''client_id''), js_to_string s), co_showSecret := True\<rparr> else p1)\<lparr>co_msg := Some (t ''oauth.created'')\<rparr>, w1))))"

definition edit_form :: "oauth_client \<Rightarrow> client_form" where
  "edit_form c = \<lparr>cf_name = oc_name c, cf_uris = join_on (CHR 0x0A) (oc_uris c), cf_grants = js_set (oc_grants c), cf_scopes = join_on (CHR '','') (oc_scopes c),
     cf_methods = js_set (case oc_methods c of None \<Rightarrow> [''password''] | Some ms \<Rightarrow> ms)\<rparr>"

definition provider_config_path :: "string \<Rightarrow> oauth_client \<Rightarrow> 'w world \<Rightarrow> string" where
  "provider_config_path k c w = ''/api/v1/providers/config?key='' @ k @ ''&scope=app&tenant_id='' @
     (if has_window w then item_or (local_store w ''ggid_tenant_id'') [] else []) @ ''&client_id='' @ oc_client_id c"

definition oc_handleEdit :: "'w env \<Rightarrow> string \<Rightarrow> string \<Rightarrow> oauth_client \<Rightarrow> clients_page \<times> 'w world \<Rightarrow> clients_page \<times> 'w world" where
  "oc_handleEdit E base tenant c pw = (case pw of (p, w) \<Rightarrow>
     (case apiFetch E base tenant (provider_config_path ''sms_provider'' c w) no_options w of (r1, w1) \<Rightarrow>
     (case apiFetch E base tenant (provider_config_path ''email_provider'' c w) no_options w1 of (r2, w2) \<Rightarrow>
       (p\<lparr>co_edit := Some c, co_form := edit_form c, co_providersTab := False, co_showEdit := True,
          co_sms := (case r1 of Inl _ \<Rightarrow> JNull | Inr d \<Rightarrow> d), co_email := (case r2 of Inl _ \<Rightarrow> JNull | Inr d \<Rightarrow> d)\<rparr>, w2))))"

definition oc_handleUpdate :: "(string \<Rightarrow> string) \<Rightarrow> 'w env \<Rightarrow> string \<Rightarrow> string \<Rightarrow> clients_page \<times> 'w world \<Rightarrow> clients_page \<times> 'w world" where
  "oc_handleUpdate t E base tenant pw = (case pw of (p, w) \<Rightarrow>
     (case co_edit p of None \<Rightarrow> (p, w)
      | Some c \<Rightarrow> (case apiFetch E base tenant (clients_path (oc_client_id c)) (json_options ''PUT'' (update_client_body (co_form p))) w of
           (Inl x, w1) \<Rightarrow> (p\<lparr>co_error := Some (api_exn_message E x)\<rparr>, w1)
         | (Inr _, w1) \<Rightarrow> loadClients E base tenant (p\<lparr>co_showEdit := False, co_edit := None, co_form := emptyForm, co_msg := Some (t ''oauth.updated'')\<rparr>, w1))))"

definition oc_handleDelete :: "(string \<Rightarrow> string) \<Rightarrow> bool \<Rightarrow> 'w env \<Rightarrow> string \<Rightarrow> string \<Rightarrow> string \<Rightarrow> clients_page \<times> 'w world \<Rightarrow> clients_page \<times> 'w world" where
  "oc_handleDelete t confirmed E base tenant i pw = (case pw of (p, w) \<Rightarrow> if \<not> confirmed then (p, w) else
     (case apiFetch E base tenant (clients_path i) delete_opts w of
        (Inl x, w1) \<Rightarrow> (p\<lparr>co_error := Some (api_exn_message E x)\<rparr>, w1)
      | (Inr _, w1) \<Rightarrow> loadClients E base tenant (p\<lparr>co_msg := Some (t ''oauth.deleted'')\<rparr>, w1)))"

text \<open>The second request follows every failure of the first.\<close>

definition rotate_call :: "'w env \<Rightarrow> string \<Rightarrow> string \<Rightarrow> string \<Rightarrow> 'w world \<Rightarrow> (api_exn + jsv) \<times> 'w world" where
  "rotate_call E base tenant i w = (case apiFetch E base tenant (clients_path i @ ''/rotate-secret'') bare_post w of
     (Inr r, w1) \<Rightarrow> (Inr r, w1)
   | (Inl _, w1) \<Rightarrow> apiFetch E base tenant (clients_path i) (json_options ''PUT'' [(''rotate_secret'', JBool True)]) w1)"

definition oc_handleRotateSecret ::
  "(string \<Rightarrow> string) \<Rightarrow> bool \<Rightarrow> 'w env \<Rightarrow> string \<Rightarrow> string \<Rightarrow> string \<Rightarrow> clients_page \<times> 'w world \<Rightarrow> clients_page \<times> 'w world" where
  "oc_handleRotateSecret t confirmed E base tenant i pw = (case pw of (p, w) \<Rightarrow> if \<not> confirmed then (p, w) else
     (case rotate_call E base tenant i w of
        (Inl x, w1) \<Rightarrow> (p\<lparr>co_error := Some (api_exn_message E x), co_rotating := None\<rparr>, w1)
      | (Inr r, w1) \<Rightarrow> (let s = js_opt_prop r ''client_secret'' in
          if nullish r then (p\<lparr>co_error := Some (type_message E), co_rotating := None\<rparr>, w1)
          else if truthy s then (p\<lparr>co_newSecret := Some (i, js_to_string s), co_showSecret := True, co_msg := Some (t ''oauth.secretRotated''), co_rotating := None\<rparr>, w1)
          else (p\<lparr>co_rotating := None\<rparr>, w1))))"

text \<open>The settings of a provider for one client, \<open>k\<close> the key and \<open>label\<close> its name; the values come from the fields of the form.\<close>

definition save_override ::
  "string \<Rightarrow> string \<Rightarrow> string \<Rightarrow> string \<Rightarrow> 'w env \<Rightarrow> string \<Rightarrow> string \<Rightarrow> clients_page \<times> 'w world \<Rightarrow> clients_page \<times> 'w world" where
  "save_override k label ty from E base tenant pw = (case pw of (p, w) \<Rightarrow>
     (case co_edit p of None \<Rightarrow> (p, w)
      | Some c \<Rightarrow> if ty = [] then (p\<lparr>co_saving := False\<rparr>, w)
          else (case apiFetch E base tenant (provider_config_path k c w)
              (json_options ''PUT'' [(''provider_type'', JStr ty), (''config'', JObj [(''from'', JStr from)]), (''enabled'', JBool True)]) w of
             (_, w1) \<Rightarrow> (p\<lparr>co_saving := False, co_msg := Some (label @ '' provider override saved'')\<rparr>, w1))))"

definition open_create :: "clients_page \<Rightarrow> clients_page" where
  "open_create p = p\<lparr>co_showCreate := \<not> co_showCreate p, co_error := None, co_form := emptyForm\<rparr>"

definition close_edit :: "clients_page \<Rightarrow> clients_page" where
  "close_edit p = p\<lparr>co_showEdit := False, co_edit := None\<rparr>"

section \<open>Properties\<close>

definition methods_ok :: "(string \<times> bool) list \<Rightarrow> client_form \<Rightarrow> bool" where
  "methods_ok st f = (cf_methods f \<noteq> [] \<and> distinct (cf_methods f) \<and> (\<forall>m \<in> set (cf_methods f). providerReady st m) \<and>
     (\<forall>a \<in> set (cf_methods f). \<forall>b \<in> set (cf_methods f). a \<in> set passwordless_methods \<and> b \<in> set passwordless_methods \<longrightarrow> a = b))"

lemma password_plain: "''password'' \<notin> set passwordless_methods" "providerReady st ''password''"
  by (simp_all add: passwordless_methods_def providerReady_def method_provider_def)

lemma click_method_ok:
  assumes "methods_ok st f"
  shows "methods_ok st (click_method st m f)"
proof (cases "method_disabled st f m")
  case True
  then show ?thesis using assms by (simp add: click_method_def)
next
  case False
  show ?thesis
  proof (cases "m \<in> set (cf_methods f)")
    case True
    then show ?thesis using assms False password_plain
      by (auto simp: click_method_def toggleAuthMethod_def methods_ok_def Let_def js_add_def js_delete_def)
  next
    case new: False
    let ?n = "if m \<in> set passwordless_methods then foldl (\<lambda>s q. js_delete q s) (cf_methods f) passwordless_methods else cf_methods f"
    have ready: "providerReady st m" and free: "m \<in> set passwordless_methods \<Longrightarrow> set (cf_methods f) \<inter> set passwordless_methods = {}"
      using False new by (auto simp: method_disabled_def list_ex_iff)
    have n: "set ?n = set (cf_methods f)" "distinct ?n"
      using free assms distinct_deletes by (auto simp: js_deletes_set methods_ok_def)
    have "cf_methods (click_method st m f) = js_add m ?n"
      using False new by (simp add: click_method_def toggleAuthMethod_def Let_def js_add_def)
    moreover have "set (js_add m ?n) = insert m (set (cf_methods f))" "distinct (js_add m ?n)" using n by (simp_all only: set_js_add distinct_js_add)
    ultimately show ?thesis using assms ready free unfolding methods_ok_def by (auto simp del: set_js_add)
  qed
qed

text \<open>However the boxes of the authentication methods are clicked in a new form, at least one method stays chosen, at most one of the
  passwordless ones, and none whose provider is not configured.\<close>

lemma auth_methods_wf:
  "let f = fold (click_method st) ms emptyForm in
     cf_methods f \<noteq> [] \<and> distinct (cf_methods f) \<and> length (filter (\<lambda>m. m \<in> set passwordless_methods) (cf_methods f)) \<le> 1 \<and>
     list_all (providerReady st) (cf_methods f)"
proof -
  have "methods_ok st (fold (click_method st) ms f)" if "methods_ok st f" for f
    using that by (induction ms arbitrary: f) (auto intro: click_method_ok)
  moreover have "methods_ok st emptyForm" using password_plain by (simp add: methods_ok_def emptyForm_def)
  ultimately have ok: "methods_ok st (fold (click_method st) ms emptyForm)" by blast
  have "length (filter (\<lambda>m. m \<in> set passwordless_methods) xs) \<le> 1"
    if "distinct xs" "\<forall>a \<in> set xs. \<forall>b \<in> set xs. a \<in> set passwordless_methods \<and> b \<in> set passwordless_methods \<longrightarrow> a = b" for xs :: "string list"
  proof -
    have "card (set (filter (\<lambda>m. m \<in> set passwordless_methods) xs)) \<le> 1"
      using that(2) card_le_Suc0_iff_eq[of "set (filter (\<lambda>m. m \<in> set passwordless_methods) xs)"] by simp
    then show ?thesis using distinct_card[of "filter (\<lambda>m. m \<in> set passwordless_methods) xs"] that(1) by simp
  qed
  then show ?thesis using ok unfolding methods_ok_def Let_def by (simp add: list_all_iff)
qed

section \<open>Editing without a change\<close>

lemma loadClients_extends: "\<exists>us. sent (snd (loadClients E base tenant (p, w))) = sent w @ us"
  using apiFetch_extends[of E base tenant "''/api/v1/oauth/clients''" no_options w]
  by (auto simp: loadClients_def split: prod.splits sum.splits)

definition tidy :: "char \<Rightarrow> string list \<Rightarrow> bool" where
  "tidy d xs = (\<forall>x \<in> set xs. x \<noteq> [] \<and> d \<notin> set x \<and> \<not> is_space (hd x) \<and> \<not> is_space (last x))"

lemma clean_parts_join: "tidy d xs \<Longrightarrow> clean_parts d (join_on d xs) = xs"
proof (cases "xs = []")
  case True
  then show ?thesis by (simp add: clean_parts_def trim_def trim_end_def)
next
  case False
  assume t: "tidy d xs"
  then have "map trim xs = xs" "filter (\<lambda>x. x \<noteq> []) xs = xs"
    by (auto simp: tidy_def trim_id map_idI filter_id_conv)
  then show ?thesis using split_on_join[OF False, of d] t by (simp add: clean_parts_def tidy_def)
qed

lemma js_set_distinct: "distinct xs \<Longrightarrow> js_set xs = xs"
proof -
  have "distinct (s @ xs) \<Longrightarrow> foldl (\<lambda>s x. js_add x s) s xs = s @ xs" for s
  proof (induction xs arbitrary: s)
    case (Cons x xs)
    then show ?case using Cons.IH[of "s @ [x]"] by (simp add: js_add_def)
  qed simp
  from this[of "[]"] show "distinct xs \<Longrightarrow> js_set xs = xs" by (simp add: js_set_def)
qed

text \<open>What the server has of a client, in the names of the request.\<close>

definition client_json :: "oauth_client \<Rightarrow> jsv" where
  "client_json c = JObj [(''name'', JStr (oc_name c)), (''grant_types'', jstrs (oc_grants c)),
     (''auth_methods'', jstrs (case oc_methods c of None \<Rightarrow> [''password''] | Some ms \<Rightarrow> ms)), (''redirect_uris'', jstrs (oc_uris c)), (''scopes'', jstrs (oc_scopes c))]"

text \<open>Opening a client for editing and saving it without a change asks the server to store what it has: the first request replaces the
  client by its own name, grant types, methods, addresses and scopes, for lists without repetitions whose texts have no blanks around them and
  no separator of their field; a client without methods gets the method password.\<close>

lemma edit_unchanged_roundtrip:
  assumes "tidy (CHR 0x0A) (oc_uris c)" "tidy (CHR '','') (oc_scopes c)" "distinct (oc_grants c)"
    and "distinct (case oc_methods c of None \<Rightarrow> [''password''] | Some ms \<Rightarrow> ms)" "oc_handleEdit E base tenant c (p, w) = (p', w')"
  shows "\<exists>rq rs txt. sent (snd (oc_handleUpdate t E base tenant (p', w'))) = sent w' @ rq # rs \<and> meth rq = ''PUT'' \<and>
    url rq = base @ clients_path (oc_client_id c) \<and> rbody rq = Some txt \<and> json_parse txt = Some (client_json c)"
proof -
  have p': "co_edit p' = Some c" "co_form p' = edit_form c" using assms(5) by (auto simp: oc_handleEdit_def split: prod.splits)
  have body: "JObj (update_client_body (edit_form c)) = client_json c"
    using assms(1-4) by (simp add: update_client_body_def edit_form_def client_json_def clean_parts_join js_set_distinct)
  have "json_clean (client_json c)" by (auto simp: client_json_def jstrs_def list_all_iff)
  then have parse: "json_parse (json_stringify (client_json c)) = Some (client_json c)" by (rule json_stringify_clean)
  obtain us where us: "sent (snd (apiFetch E base tenant (clients_path (oc_client_id c)) (json_options ''PUT'' (update_client_body (edit_form c))) w')) = sent w' @ us"
    "us \<noteq> []" "url (hd us) = base @ clients_path (oc_client_id c)" "meth (hd us) = ''PUT''" "rbody (hd us) = Some (json_stringify (client_json c))"
    using apiFetch_extends[of E base tenant "clients_path (oc_client_id c)" "json_options ''PUT'' (update_client_body (edit_form c))" w']
    by (auto simp: json_options_def body)
  moreover have "\<exists>vs. sent (snd (oc_handleUpdate t E base tenant (p', w'))) = sent w' @ us @ vs"
  proof -
    obtain r w1 where r: "apiFetch E base tenant (clients_path (oc_client_id c)) (json_options ''PUT'' (update_client_body (edit_form c))) w' = (r, w1)"
      by fastforce
    then show ?thesis
      using p' us(1) loadClients_extends[of E base tenant _ w1] by (cases r) (auto simp: oc_handleUpdate_def)
  qed
  ultimately show ?thesis using parse by (cases us) fastforce+
qed

definition sample_client :: oauth_client where
  "sample_client = \<lparr>oc_id = ''1'', oc_client_id = ''c1'', oc_name = ''app'', oc_grants = [''refresh_token''], oc_uris = [''https://a/x'', ''https://b/y''],
     oc_scopes = [''openid'', ''email''], oc_methods = None\<rparr>"

lemma edit_unchanged_roundtrip_example:
  "\<exists>p' w' rq rs txt. oc_handleEdit (always NetError) [] [] sample_client (clients_init, blank_world) = (p', w') \<and>
     sent (snd (oc_handleUpdate id (always NetError) [] [] (p', w'))) = sent w' @ rq # rs \<and> rbody rq = Some txt \<and> json_parse txt = Some (client_json sample_client)"
proof -
  have ok: "tidy (CHR 0x0A) (oc_uris sample_client)" "tidy (CHR '','') (oc_scopes sample_client)" "distinct (oc_grants sample_client)"
    "distinct (case oc_methods sample_client of None \<Rightarrow> [''password''] | Some ms \<Rightarrow> ms)"
    by (simp_all add: sample_client_def tidy_def is_space_def)
  obtain p' w' where e: "oc_handleEdit (always NetError) [] [] sample_client (clients_init, blank_world) = (p', w')" by fastforce
  from edit_unchanged_roundtrip[OF ok e, of id] e show ?thesis by blast
qed

text \<open>What an untouched form sends.\<close>

lemma empty_form_body:
  "create_client_body emptyForm = [(''name'', JStr []), (''grant_types'', jstrs [''authorization_code'', ''refresh_token'']), (''redirect_uris'', jstrs []),
     (''scopes'', jstrs [''openid'', ''profile'', ''email'']), (''response_types'', jstrs [''code'']), (''auth_methods'', jstrs [''password''])]"
  by code_simp

text \<open>A refused rotation of a secret is followed by a request that replaces the client, whatever the reason of the refusal was; and saving the provider
  settings is reported as done whatever the answer.\<close>

lemma refused_rotation_updates:
  assumes "apiFetch E base tenant (clients_path i @ ''/rotate-secret'') bare_post w = (Inl x, w1)"
  shows "\<exists>rq rs. sent (snd (oc_handleRotateSecret t True E base tenant i (p, w))) = sent w1 @ rq # rs \<and> meth rq = ''PUT'' \<and>
    url rq = base @ clients_path i \<and> rbody rq = Some (json_stringify (JObj [(''rotate_secret'', JBool True)]))"
proof -
  let ?o = "json_options ''PUT'' [(''rotate_secret'', JBool True)]"
  have "snd (oc_handleRotateSecret t True E base tenant i (p, w)) = snd (apiFetch E base tenant (clients_path i) ?o w1)"
    using assms by (auto simp: oc_handleRotateSecret_def rotate_call_def Let_def split: prod.splits sum.splits)
  then show ?thesis using apiFetch_extends[of E base tenant "clients_path i" ?o w1] by (auto simp: json_options_def neq_Nil_conv)
qed

lemma override_always_saved:
  "co_edit p = Some c \<Longrightarrow> ty \<noteq> [] \<Longrightarrow> co_msg (fst (save_override k label ty from E base tenant (p, w))) = Some (label @ '' provider override saved'')"
  by (simp add: save_override_def split: prod.splits)

end
