(* ===== verification/Bulk_Import.thy ===== *)
theory Bulk_Import
  imports OAuth_Clients Conditional_Access Import_Wizard
begin

text \<open>
  The import wizard of the settings (\<open>console/src/app/settings/import-wizard/page.tsx\<close>): reading a CSV or JSON file, the proposed
  mapping of its fields, the preview, the request and its result.  It is another wizard than that of \<open>Import_Wizard\<close>: the file is sent
  as it is, with the mapping.  The request goes through \<open>fetch\<close>, so an error status is not an exception.
\<close>

section \<open>Data\<close>

datatype bulk_step = BUpload | BMap | BPreview | BImporting | BDone

record bulk_row =
  br_row :: nat
  br_email :: string
  br_name :: string
  br_valid :: bool
  br_errors :: "string list"

record bulk_result =
  bu_total :: jsv
  bu_valid :: jsv
  bu_invalid :: jsv
  bu_imported :: jsv
  bu_failed :: jsv
  bu_duration :: jsv

record bulk_page =
  bk_step :: bulk_step
  bk_fileName :: string
  bk_content :: string
  bk_json :: bool
  bk_fields :: "string list"
  bk_mapping :: "(string \<times> string) list"
  bk_rows :: "bulk_row list"
  bk_result :: "bulk_result option"
  bk_error :: string

definition bulk_init :: bulk_page where
  "bulk_init = \<lparr>bk_step = BUpload, bk_fileName = [], bk_content = [], bk_json = False, bk_fields = [], bk_mapping = [], bk_rows = [],
     bk_result = None, bk_error = []\<rparr>"

definition TARGET_FIELDS :: "string list" where
  "TARGET_FIELDS = [''email'', ''first_name'', ''last_name'', ''display_name'', ''department'', ''role'', ''phone'']"

section \<open>Reading a file\<close>

definition no_underscores :: "string \<Rightarrow> string" where
  "no_underscores s = filter (\<lambda>c. c \<noteq> CHR ''_'') s"

definition auto_target :: "string \<Rightarrow> string" where
  "auto_target f = (case find (\<lambda>k. k = f \<or> no_underscores k = to_lower (no_underscores f)) TARGET_FIELDS of None \<Rightarrow> ''skip'' | Some k \<Rightarrow> k)"

definition autoMap :: "string list \<Rightarrow> (string \<times> string) list" where
  "autoMap fs = foldl (\<lambda>m f. obj_set f (auto_target f) m) [] fs"

text \<open>\<open>Object.keys\<close>; \<^term>\<open>None\<close> where it throws.\<close>

definition object_keys :: "jsv \<Rightarrow> string list option" where
  "object_keys v = (case v of JObj kvs \<Rightarrow> Some (map fst kvs) | JArr vs \<Rightarrow> Some (map show_nat [0..<length vs]) | JStr s \<Rightarrow> Some (map show_nat [0..<length s])
     | JNum _ \<Rightarrow> Some [] | JBool _ \<Rightarrow> Some [] | _ \<Rightarrow> None)"

definition row_of :: "nat \<Rightarrow> string \<Rightarrow> string \<Rightarrow> bool \<Rightarrow> bulk_row" where
  "row_of i email name ok = \<lparr>br_row = Suc i, br_email = email, br_name = name, br_valid = ok, br_errors = (if ok then [] else [''Missing email''])\<rparr>"

text \<open>A row of a JSON file; \<^term>\<open>None\<close> for \<open>null\<close>, whose properties cannot be read.\<close>

definition json_row :: "nat \<Rightarrow> jsv \<Rightarrow> bulk_row option" where
  "json_row i v = (if nullish v then None else
     (let e = js_opt_prop v ''email'';
          n = join_on (CHR '' '') (map js_to_string (filter truthy [js_opt_prop v ''first_name'', js_opt_prop v ''last_name'']))
      in Some (row_of i (js_to_string (js_or e (JStr [])))
           (if n \<noteq> [] then n else js_to_string (js_or (js_opt_prop v ''display_name'') (JStr []))) (truthy e))))"

text \<open>\<open>replace(/^["']|["']$/g, "")\<close>.\<close>

definition is_quote :: "char \<Rightarrow> bool" where
  "is_quote c = (c = CHR 0x22 \<or> c = CHR 0x27)"

definition unquote :: "string \<Rightarrow> string" where
  "unquote s = (let a = (case s of c # r \<Rightarrow> if is_quote c then r else s | [] \<Rightarrow> [])
     in if a \<noteq> [] \<and> is_quote (last a) then butlast a else a)"

definition csv_cells :: "string \<Rightarrow> string list" where
  "csv_cells l = map (\<lambda>v. unquote (trim v)) (split_on (CHR '','') l)"

text \<open>\<open>vals[headers.indexOf(k)] || ""\<close>.\<close>

definition cell_named :: "string list \<Rightarrow> string list \<Rightarrow> string \<Rightarrow> string" where
  "cell_named headers vals k = (case index_of (\<lambda>h. h = k) headers of None \<Rightarrow> [] | Some i \<Rightarrow> if i < length vals then vals ! i else [])"

definition bulk_csv_row :: "string list \<Rightarrow> nat \<Rightarrow> string \<Rightarrow> bulk_row" where
  "bulk_csv_row headers i l = (let vals = csv_cells l; e = cell_named headers vals ''email'' in
     row_of i e (join_on (CHR '' '') (filter (\<lambda>x. x \<noteq> []) [cell_named headers vals ''first_name'', cell_named headers vals ''last_name''])) (e \<noteq> []))"

definition parse_json_file :: "string \<Rightarrow> bulk_page \<Rightarrow> bulk_page" where
  "parse_json_file content p = (let failed = ''Failed to parse JSON file'' in
     case json_parse content of None \<Rightarrow> p\<lparr>bk_error := failed\<rparr>
     | Some v \<Rightarrow> (case v of
          JArr (x # xs) \<Rightarrow> (case object_keys x of None \<Rightarrow> p\<lparr>bk_error := failed\<rparr>
            | Some fs \<Rightarrow> (let p1 = p\<lparr>bk_fields := fs, bk_mapping := autoMap fs\<rparr> in
                case those (map (\<lambda>(i, y). json_row i y) (zip [0..<50] (take 50 (x # xs)))) of
                  None \<Rightarrow> p1\<lparr>bk_error := failed\<rparr> | Some rs \<Rightarrow> p1\<lparr>bk_rows := rs\<rparr>))
        | _ \<Rightarrow> p\<lparr>bk_error := ''Invalid JSON: expected non-empty array''\<rparr>))"

definition parse_csv_file :: "string \<Rightarrow> bulk_page \<Rightarrow> bulk_page" where
  "parse_csv_file content p = (let ls = split_on (CHR 0x0A) (trim content) in
     if length ls < 2 then p\<lparr>bk_error := ''Invalid CSV: need header + at least 1 row''\<rparr>
     else (let headers = csv_cells (hd ls) in
       p\<lparr>bk_fields := headers, bk_mapping := autoMap headers,
         bk_rows := map (\<lambda>(i, l). bulk_csv_row headers i l) (zip [0..<50] (take 50 (tl ls)))\<rparr>))"

definition bulk_parseFile :: "string \<Rightarrow> bool \<Rightarrow> bulk_page \<Rightarrow> bulk_page" where
  "bulk_parseFile content json p = (if json then parse_json_file content (p\<lparr>bk_error := []\<rparr>) else parse_csv_file content (p\<lparr>bk_error := []\<rparr>))"

definition bulk_handleFile :: "string \<Rightarrow> string \<Rightarrow> bulk_page \<Rightarrow> bulk_page" where
  "bulk_handleFile name content p = (let json = ends_with name ''.json'' in
     bulk_parseFile content json (p\<lparr>bk_json := json, bk_fileName := name, bk_content := content\<rparr>))"

section \<open>Steps and the import\<close>

definition bulk_next :: "bulk_page \<Rightarrow> bulk_page" where
  "bulk_next p = (case bk_step p of
       BUpload \<Rightarrow> if bk_fileName p = [] then p else p\<lparr>bk_step := BMap\<rparr>
     | BMap \<Rightarrow> p\<lparr>bk_step := BPreview\<rparr>
     | _ \<Rightarrow> p)"

definition bulk_back :: "bulk_page \<Rightarrow> bulk_page" where
  "bulk_back p = (case bk_step p of BMap \<Rightarrow> p\<lparr>bk_step := BUpload\<rparr> | BPreview \<Rightarrow> p\<lparr>bk_step := BMap\<rparr> | _ \<Rightarrow> p)"

definition bulk_set_mapping :: "string \<Rightarrow> string \<Rightarrow> bulk_page \<Rightarrow> bulk_page" where
  "bulk_set_mapping f k p = p\<lparr>bk_mapping := obj_set f k (bk_mapping p)\<rparr>"

definition bulk_request :: "string \<Rightarrow> string \<Rightarrow> bulk_page \<Rightarrow> 'w world \<Rightarrow> request" where
  "bulk_request base tenant p w = \<lparr>url = base @ ''/api/v1/users/bulk-import'', meth = ''POST'',
     hdrs = spread [(''Content-Type'', ''application/json'')] (authHeader w),
     rbody = Some (json_stringify (JObj [(''tenant_id'', JStr tenant), (''format'', JStr (if bk_json p then ''json'' else ''csv'')), (''data'', JStr (bk_content p)),
       (''mapping'', JObj (map (\<lambda>(k, v). (k, JStr v)) (bk_mapping p)))]))\<rparr>"

definition valid_rows_of :: "bulk_page \<Rightarrow> nat" where
  "valid_rows_of p = length (filter br_valid (bk_rows p))"

definition result_of :: "jsv \<Rightarrow> bulk_page \<Rightarrow> bulk_result" where
  "result_of d p = \<lparr>bu_total = js_or (js_opt_prop d ''total'') (JNum (int (length (bk_rows p)))),
     bu_valid = js_or (js_opt_prop d ''valid'') (JNum (int (valid_rows_of p))),
     bu_invalid = js_or (js_opt_prop d ''invalid'') (JNum (int (length (filter (\<lambda>r. \<not> br_valid r) (bk_rows p))))),
     bu_imported = js_or (js_opt_prop d ''imported'') (js_or (js_opt_prop d ''valid'') (JNum (int (valid_rows_of p)))),
     bu_failed = js_or (js_opt_prop d ''failed'') (JNum 0), bu_duration = js_or (js_opt_prop d ''duration_ms'') (JNum 0)\<rparr>"

definition bulk_handleImport :: "'w env \<Rightarrow> string \<Rightarrow> string \<Rightarrow> bulk_page \<times> 'w world \<Rightarrow> bulk_page \<times> 'w world" where
  "bulk_handleImport E base tenant pw = (case pw of (p, w) \<Rightarrow>
     (let fail = p\<lparr>bk_error := ''Import failed'', bk_step := BPreview\<rparr> in
      case fetch E (bulk_request base tenant p w) w of
        (NetError, w1) \<Rightarrow> (fail, w1)
      | (Resp st txt, w1) \<Rightarrow> (case json_parse txt of None \<Rightarrow> (fail, w1)
           | Some d \<Rightarrow> if nullish d then (fail, w1) else (p\<lparr>bk_result := Some (result_of d p), bk_step := BDone\<rparr>, w1))))"

definition bulk_reset :: "bulk_page \<Rightarrow> bulk_page" where
  "bulk_reset p = p\<lparr>bk_step := BUpload, bk_fileName := [], bk_content := [], bk_fields := [], bk_mapping := [], bk_rows := [], bk_result := None, bk_error := []\<rparr>"

section \<open>Properties\<close>

lemma preview_bounded: "length (bk_rows p) \<le> 50 \<Longrightarrow> length (bk_rows (bulk_handleFile name content p)) \<le> 50"
proof -
  have "length rs \<le> 50" if "those (map (\<lambda>(i, y). json_row i y) (zip [0..<50] ys)) = Some rs" for ys rs
  proof -
    have "map (\<lambda>(i, y). json_row i y) (zip [0..<50] ys) = map Some rs" using that those_Some by blast
    then have "length (map (\<lambda>(i, y). json_row i y) (zip [0..<50] ys)) = length rs" by (metis length_map)
    then show ?thesis by simp
  qed
  then show "length (bk_rows p) \<le> 50 \<Longrightarrow> length (bk_rows (bulk_handleFile name content p)) \<le> 50"
    by (auto simp: bulk_handleFile_def bulk_parseFile_def parse_json_file_def parse_csv_file_def Let_def split: option.splits jsv.splits list.splits)
qed

lemma assoc_absent: "k \<notin> fst ` set kvs \<Longrightarrow> assoc k kvs = None"
  by (induction kvs rule: assoc.induct) auto

lemma index_of_none: "x \<notin> set xs \<Longrightarrow> index_of (\<lambda>h. h = x) xs = None"
  by (induction xs) auto

lemma autoMap_assoc: "assoc f (autoMap fs) = (if f \<in> set fs then Some (auto_target f) else None)"
proof -
  have "assoc f (foldl (\<lambda>m f. obj_set f (auto_target f) m) m fs) = (if f \<in> set fs then Some (auto_target f) else assoc f m)" for m
    by (induction fs arbitrary: m) auto
  then show ?thesis by (simp add: autoMap_def)
qed

text \<open>The import wizard reports a refused import as done: whatever the status of the answer is, if its body is a JSON object without
  counts, as an error body is, the page ends in the last step and says that all rows the preview counted valid were imported and none
  failed.\<close>

lemma refused_import_reported:
  assumes "fst (net E (outside w) (bulk_request base tenant p w)) = Resp st txt" "json_parse txt = Some (JObj kvs)"
    and "set (map fst kvs) \<inter> {''total'', ''valid'', ''invalid'', ''imported'', ''failed''} = {}"
  shows "\<exists>r. bk_result (fst (bulk_handleImport E base tenant (p, w))) = Some r \<and> bk_step (fst (bulk_handleImport E base tenant (p, w))) = BDone \<and>
    bu_imported r = JNum (int (valid_rows_of p)) \<and> bu_total r = JNum (int (length (bk_rows p))) \<and> bu_failed r = JNum 0 \<and>
    bk_error (fst (bulk_handleImport E base tenant (p, w))) = bk_error p"
proof -
  have none: "js_opt_prop (JObj kvs) k = JUndef" if "k \<in> {''total'', ''valid'', ''invalid'', ''imported'', ''failed''}" for k
    using assms(3) that by (auto simp: js_opt_prop_def assoc_absent)
  have "fst (bulk_handleImport E base tenant (p, w)) = p\<lparr>bk_result := Some (result_of (JObj kvs) p), bk_step := BDone\<rparr>"
    using assms(1,2) by (simp add: bulk_handleImport_def fetch_def Let_def case_prod_beta)
  then show ?thesis using none by (simp add: result_of_def js_or_def)
qed

lemma refused_import_reported_example:
  "let p = bulk_handleFile ''u.csv'' (''email,role'' @ CHR 0x0A # ''a@b.c,x'') bulk_init;
       q = fst (bulk_handleImport (always (Resp 500 ''{\"error\":\"x\"}'')) [] [] (p, blank_world)) in
   bk_step q = BDone \<and> map_option bu_imported (bk_result q) = Some (JNum 1)"
proof -
  let ?p = "bulk_handleFile ''u.csv'' (''email,role'' @ CHR 0x0A # ''a@b.c,x'') bulk_init"
  have "json_parse ''{\"error\":\"x\"}'' = Some (JObj [(''error'', JStr ''x'')])" "valid_rows_of ?p = 1" by code_simp+
  then show ?thesis
    using refused_import_reported[of "always (Resp 500 ''{\"error\":\"x\"}'')" blank_world "[]" "[]" ?p 500 "''{\"error\":\"x\"}''" "[(''error'', JStr ''x'')]"]
    by (auto simp: always_def Let_def)
qed

text \<open>The preview knows neither the mapping nor the file that is sent.  In a file without a column named exactly \<open>email\<close> every row
  is shown as lacking its address, though a column such as \<open>Email\<close> is mapped to it; no change of the mapping changes the preview; and a
  file that cannot be read leaves the preview and the mapping of the file before it, with which its own content is then sent.\<close>

lemma preview_not_what_is_sent:
  assumes "ls = split_on (CHR 0x0A) (trim content)" "2 \<le> length ls" "''email'' \<notin> set (csv_cells (hd ls))" "\<not> ends_with name ''.json''"
    and "\<not> ends_with name' ''.json''" "length (split_on (CHR 0x0A) (trim content')) < 2"
    and "p1 = bulk_handleFile name content p" "p2 = bulk_handleFile name' content' p1"
  shows "list_all (\<lambda>r. \<not> br_valid r) (bk_rows p1) \<and>
    (\<forall>h \<in> set (csv_cells (hd ls)). assoc h (bk_mapping p1) = Some (auto_target h)) \<and> auto_target ''Email'' = ''email'' \<and>
    (\<forall>f k. bk_rows (bulk_set_mapping f k p1) = bk_rows p1) \<and>
    bk_rows p2 = bk_rows p1 \<and> bk_mapping p2 = bk_mapping p1 \<and>
    rbody (bulk_request base tenant p2 w) = Some (json_stringify (JObj [(''tenant_id'', JStr tenant), (''format'', JStr ''csv''), (''data'', JStr content'),
       (''mapping'', JObj (map (\<lambda>(k, v). (k, JStr v)) (bk_mapping p1)))]))"
proof -
  have p1: "bk_rows p1 = map (\<lambda>(i, l). bulk_csv_row (csv_cells (hd ls)) i l) (zip [0..<50] (take 50 (tl ls)))" "bk_mapping p1 = autoMap (csv_cells (hd ls))"
    using assms(1,2,4,7) by (auto simp: bulk_handleFile_def bulk_parseFile_def parse_csv_file_def Let_def)
  have p2: "bk_rows p2 = bk_rows p1" "bk_mapping p2 = bk_mapping p1" "bk_content p2 = content'" "\<not> bk_json p2"
    using assms(5,6,8) by (auto simp: bulk_handleFile_def bulk_parseFile_def parse_csv_file_def Let_def)
  have "\<not> br_valid (bulk_csv_row (csv_cells (hd ls)) i l)" for i l
    using assms(3) by (simp add: bulk_csv_row_def row_of_def cell_named_def Let_def index_of_none)
  then have "list_all (\<lambda>r. \<not> br_valid r) (bk_rows p1)" by (auto simp: p1(1) list_all_iff)
  moreover have "auto_target ''Email'' = ''email''" by code_simp
  moreover have "\<forall>h \<in> set (csv_cells (hd ls)). assoc h (bk_mapping p1) = Some (auto_target h)" by (simp add: p1(2) autoMap_assoc)
  ultimately show ?thesis using p2 by (simp add: bulk_set_mapping_def bulk_request_def)
qed

lemma preview_not_what_is_sent_example:
  "let p1 = bulk_handleFile ''a.csv'' (''Email,role'' @ CHR 0x0A # ''a@b.c,x'') bulk_init in
   map br_valid (bk_rows p1) = [False] \<and> assoc ''Email'' (bk_mapping p1) = Some ''email'' \<and>
   bk_rows (bulk_handleFile ''b.csv'' ''junk'' p1) = bk_rows p1"
proof -
  let ?c = "''Email,role'' @ CHR 0x0A # ''a@b.c,x''"
  have f: "2 \<le> length (split_on (CHR 0x0A) (trim ?c))" "''email'' \<notin> set (csv_cells (hd (split_on (CHR 0x0A) (trim ?c))))" "\<not> ends_with ''a.csv'' ''.json''"
    "\<not> ends_with ''b.csv'' ''.json''" "length (split_on (CHR 0x0A) (trim ''junk'')) < 2" "''Email'' \<in> set (csv_cells (hd (split_on (CHR 0x0A) (trim ?c))))"
    "map br_valid (bk_rows (bulk_handleFile ''a.csv'' ?c bulk_init)) = [False]"
    by code_simp+
  note t = preview_not_what_is_sent[OF refl f(1-5) refl refl, of bulk_init "[]" "[]" blank_world]
  then have "assoc ''Email'' (bk_mapping (bulk_handleFile ''a.csv'' ?c bulk_init)) = Some (auto_target ''Email'')" using f(6) by blast
  with t f(7) show ?thesis unfolding Let_def by metis
qed

end
