(* ===== verification/Uri_Codec.thy ===== *)
theory Uri_Codec
  imports Tenant
begin

text \<open>
  \<open>decodeURIComponent\<close>, which the profile page applies to the secret of a TOTP address, over the strings of the model (code units below
  256, in one or two bytes of UTF-8).  It answers \<^term>\<open>None\<close> where the language throws a \<open>URIError\<close> and, outside the model, on longer
  sequences.  \<open>uri_decode_encode\<close> is the round trip with \<open>encodeURIComponent\<close>.
\<close>

definition hex_byte :: "char \<Rightarrow> char \<Rightarrow> nat option" where
  "hex_byte a b = (case (hex_val a, hex_val b) of (Some x, Some y) \<Rightarrow> Some (16 * x + y) | _ \<Rightarrow> None)"

text \<open>One byte \<open>%XX\<close> and the rest.\<close>

fun percent_byte :: "string \<Rightarrow> (nat \<times> string) option" where
  "percent_byte (p # a # b # r) = (if p = CHR ''%'' then map_option (\<lambda>n. (n, r)) (hex_byte a b) else None)"
| "percent_byte _ = None"

lemma percent_byte_shorter: "percent_byte s = Some (n, r) \<Longrightarrow> length r < length s"
  by (cases s rule: percent_byte.cases) (auto split: if_splits)

function decodeURIComponent :: "string \<Rightarrow> string option" where
  "decodeURIComponent [] = Some []"
| "decodeURIComponent (c # s) =
     (if c \<noteq> CHR ''%'' then map_option (Cons c) (decodeURIComponent s)
      else (case percent_byte (c # s) of None \<Rightarrow> None
        | Some (n, r) \<Rightarrow>
            if n < 128 then map_option (Cons (char_of n)) (decodeURIComponent r)
            else if n \<noteq> 194 \<and> n \<noteq> 195 then None
            else (case percent_byte r of None \<Rightarrow> None
              | Some (m, r') \<Rightarrow> if 128 \<le> m \<and> m < 192 then map_option (Cons (char_of ((n - 192) * 64 + (m - 128)))) (decodeURIComponent r') else None)))"
  by pat_completeness auto
termination
  by (relation "measure length") (auto dest!: percent_byte_shorter)

section \<open>Round trip\<close>

lemma hex_val_upper: "n < 16 \<Longrightarrow> hex_val (upper_hex n) = Some n"
  by (auto simp: hex_val_def upper_hex_def Let_def)

lemma percent_byte_escape: "n < 256 \<Longrightarrow> percent_byte (CHR ''%'' # upper_hex (n div 16) # upper_hex (n mod 16) # r) = Some (n, r)"
proof -
  assume "n < 256"
  then have "n div 16 < 16" by (simp add: less_mult_imp_div_less)
  then show ?thesis by (simp add: hex_byte_def hex_val_upper)
qed

lemma uri_byte_unat: "n < 256 \<Longrightarrow> uri_byte (word_of_nat n) = (if uri_safe n then [char_of n] else [CHR ''%'', upper_hex (n div 16), upper_hex (n mod 16)])"
  by (simp add: uri_byte_def Let_def unsigned_of_nat take_bit_nat_eq_self)

lemma decode_char: "decodeURIComponent (concat (map uri_byte (utf8_char c)) @ r) = map_option (Cons c) (decodeURIComponent r)"
proof -
  define n where "n = (of_char c :: nat)"
  have n: "n < 256" "c = char_of n" by (simp_all add: n_def)
  show ?thesis
  proof (cases "n < 128")
    case True
    then have u: "utf8_char c = [word_of_nat n]" by (simp add: utf8_char_def Let_def n_def)
    have "char_of n \<noteq> CHR ''%''" if "uri_safe n"
    proof
      assume "char_of n = CHR ''%''"
      then have "of_char (char_of n :: char) = (37 :: nat)" by simp
      then have "n = 37" using n(1) by simp
      then show False using that by (simp add: uri_safe_def)
    qed
    then have "decodeURIComponent (uri_byte (word_of_nat n) @ r) = map_option (Cons (char_of n)) (decodeURIComponent r)"
      using True n(1) percent_byte_escape[OF n(1), of r] by (auto simp: uri_byte_unat)
    then show ?thesis unfolding u n(2)[symmetric] by simp
  next
    case False
    then have u: "utf8_char c = [word_of_nat (192 + n div 64), word_of_nat (128 + n mod 64)]" by (simp add: utf8_char_def Let_def n_def)
    let ?a = "192 + n div 64" and ?b = "128 + n mod 64"
    have q: "n div 64 = 2 \<or> n div 64 = 3" using False n(1) by auto
    then have a: "?a < 256" "\<not> uri_safe ?a" "?a = 194 \<or> ?a = 195" by (auto simp: uri_safe_def)
    have m: "n mod 64 < 64" by simp
    have b: "?b < 256" "\<not> uri_safe ?b" "128 \<le> ?b" "?b < 192" using m by (auto simp: uri_safe_def)
    let ?s = "CHR ''%'' # upper_hex (?b div 16) # upper_hex (?b mod 16) # r"
    have pa: "percent_byte (CHR ''%'' # upper_hex (?a div 16) # upper_hex (?a mod 16) # ?s) = Some (?a, ?s)"
      using percent_byte_escape[OF a(1)] .
    have pb: "percent_byte ?s = Some (?b, r)" using percent_byte_escape[OF b(1)] .
    have e: "concat (map uri_byte (utf8_char c)) @ r = CHR ''%'' # upper_hex (?a div 16) # upper_hex (?a mod 16) # ?s"
      unfolding u using a b uri_byte_unat[OF a(1)] uri_byte_unat[OF b(1)] by simp
    have "(?a - 192) * 64 + (?b - 128) = n" by simp
    then have "decodeURIComponent (CHR ''%'' # upper_hex (?a div 16) # upper_hex (?a mod 16) # ?s) = map_option (Cons (char_of n)) (decodeURIComponent r)"
      using a b by (simp only: decodeURIComponent.simps pa pb option.simps prod.simps) auto
    then show ?thesis using e n by simp
  qed
qed

lemma uri_decode_encode: "decodeURIComponent (encodeURIComponent s) = Some s"
  by (induction s) (simp_all add: encodeURIComponent_def utf8_encode_def decode_char del: decodeURIComponent.simps(2))

end
