(* ===== verification/Api_Explorer.thy ===== *)
theory Api_Explorer
  imports Audit_Analysis Js_Sort Uri_Codec Policy_Editor Roles_Page Users_Page
begin

text \<open>
  The API explorer (\<open>console/src/app/api-explorer/page.tsx\<close>): the table of endpoints, search and grouping by tag, the fields of an
  endpoint's parameters, and the request that is sent.  Values of path and query parameters are percent-encoded, names of query
  parameters are not.  The address is sent as the URL parser of \<open>fetch\<close> makes it from the text: segments of one or two dots are resolved and braces encoded;
  what the parser does with a query is left out.
\<close>

section \<open>The table\<close>

text \<open>Method, path, summary and tag; every entry of the source has one tag.\<close>

type_synonym endpoint = "string \<times> string \<times> string \<times> string"

definition ep_method :: "endpoint \<Rightarrow> string" where "ep_method e = fst e"
definition ep_path :: "endpoint \<Rightarrow> string" where "ep_path e = fst (snd e)"
definition ep_summary :: "endpoint \<Rightarrow> string" where "ep_summary e = fst (snd (snd e))"
definition ep_tag :: "endpoint \<Rightarrow> string" where "ep_tag e = snd (snd (snd e))"

definition API_SPEC :: "endpoint list" where
  "API_SPEC =
    [(''POST'', ''/api/v1/auth/register'', ''Register a new user'', ''Auth''),
     (''POST'', ''/api/v1/auth/login'', ''Login with username/password'', ''Auth''),
     (''POST'', ''/api/v1/auth/logout'', ''Logout (invalidate access token)'', ''Auth''),
     (''POST'', ''/api/v1/auth/refresh'', ''Refresh access token'', ''Auth''),
     (''POST'', ''/api/v1/auth/password/forgot'', ''Request password reset email'', ''Auth''),
     (''POST'', ''/api/v1/auth/password/reset'', ''Reset password with token'', ''Auth''),
     (''POST'', ''/api/v1/auth/password/change'', ''Change password (authenticated)'', ''Auth''),
     (''GET'', ''/api/v1/auth/password/policy'', ''Get password policy configuration'', ''Auth''),
     (''POST'', ''/api/v1/auth/mfa/setup'', ''Set up MFA (TOTP)'', ''Auth''),
     (''POST'', ''/api/v1/auth/mfa/verify'', ''Verify MFA TOTP code'', ''Auth''),
     (''POST'', ''/api/v1/auth/mfa/disable'', ''Disable MFA'', ''Auth''),
     (''POST'', ''/api/v1/auth/mfa/login'', ''Complete MFA login step'', ''Auth''),
     (''GET'', ''/api/v1/auth/sessions'', ''List active sessions'', ''Auth''),
     (''DELETE'', ''/api/v1/auth/sessions'', ''Revoke session'', ''Auth''),
     (''POST'', ''/api/v1/webauthn/register/begin'', ''Begin WebAuthn registration'', ''Auth''),
     (''POST'', ''/api/v1/webauthn/register/finish'', ''Finish WebAuthn registration'', ''Auth''),
     (''POST'', ''/api/v1/auth/webauthn/login/begin'', ''Begin WebAuthn login'', ''Auth''),
     (''POST'', ''/api/v1/auth/webauthn/login/finish'', ''Finish WebAuthn login'', ''Auth''),
     (''GET'', ''/api/v1/auth/social/{provider}'', ''Initiate social login'', ''Auth''),
     (''POST'', ''/api/v1/auth/step-up'', ''Trigger step-up authentication'', ''Auth''),
     (''GET'', ''/api/v1/users'', ''List users'', ''Users''),
     (''POST'', ''/api/v1/users'', ''Create user'', ''Users''),
     (''POST'', ''/api/v1/users/import'', ''Bulk import users via CSV'', ''Users''),
     (''GET'', ''/api/v1/users/{id}'', ''Get user by ID'', ''Users''),
     (''PATCH'', ''/api/v1/users/{id}'', ''Update user'', ''Users''),
     (''DELETE'', ''/api/v1/users/{id}'', ''Delete user'', ''Users''),
     (''POST'', ''/api/v1/users/{id}/activate'', ''Activate user'', ''Users''),
     (''POST'', ''/api/v1/users/{id}/deactivate'', ''Deactivate user'', ''Users''),
     (''POST'', ''/api/v1/users/{id}/lock'', ''Lock user account'', ''Users''),
     (''POST'', ''/api/v1/users/{id}/unlock'', ''Unlock user account'', ''Users''),
     (''GET'', ''/api/v1/roles'', ''List roles'', ''Roles''),
     (''POST'', ''/api/v1/roles'', ''Create role'', ''Roles''),
     (''GET'', ''/api/v1/roles/{id}'', ''Get role by ID'', ''Roles''),
     (''DELETE'', ''/api/v1/roles/{id}'', ''Delete role'', ''Roles''),
     (''GET'', ''/api/v1/roles/{id}/permissions'', ''List role permissions'', ''Roles''),
     (''POST'', ''/api/v1/roles/{id}/permissions'', ''Add permission to role'', ''Roles''),
     (''POST'', ''/api/v1/roles/{id}/parent'', ''Set parent role (inheritance)'', ''Roles''),
     (''GET'', ''/api/v1/permissions'', ''List all permissions'', ''Roles''),
     (''GET'', ''/api/v1/orgs'', ''List organizations'', ''Organizations''),
     (''POST'', ''/api/v1/orgs'', ''Create organization'', ''Organizations''),
     (''GET'', ''/api/v1/orgs/{id}'', ''Get organization by ID'', ''Organizations''),
     (''PUT'', ''/api/v1/orgs/{id}'', ''Update organization'', ''Organizations''),
     (''DELETE'', ''/api/v1/orgs/{id}'', ''Delete organization'', ''Organizations''),
     (''GET'', ''/api/v1/orgs/{id}/members'', ''List org members'', ''Organizations''),
     (''POST'', ''/api/v1/orgs/{id}/members'', ''Add member to org'', ''Organizations''),
     (''GET'', ''/api/v1/orgs/{id}/tree'', ''Get organization tree (sub-orgs)'', ''Organizations''),
     (''GET'', ''/api/v1/policies'', ''List policies'', ''Policies''),
     (''POST'', ''/api/v1/policies'', ''Create policy'', ''Policies''),
     (''GET'', ''/api/v1/policies/{id}'', ''Get policy by ID'', ''Policies''),
     (''DELETE'', ''/api/v1/policies/{id}'', ''Delete policy'', ''Policies''),
     (''POST'', ''/api/v1/policies/check'', ''Check permission (policy evaluation)'', ''Policies''),
     (''GET'', ''/api/v1/policies/export'', ''Export policies (JSON)'', ''Policies''),
     (''POST'', ''/api/v1/policies/import'', ''Import policies (JSON)'', ''Policies''),
     (''GET'', ''/api/v1/policies/versions'', ''List policy versions'', ''Policies''),
     (''POST'', ''/api/v1/policies/versions'', ''Snapshot current policy as new version'', ''Policies''),
     (''POST'', ''/api/v1/policies/versions/rollback'', ''Rollback policy to a specific version'', ''Policies''),
     (''GET'', ''/api/v1/policies/templates'', ''List compliance policy templates'', ''Policies''),
     (''GET'', ''/api/v1/audit/events'', ''Query audit events'', ''Audit''),
     (''GET'', ''/api/v1/audit/events/{id}'', ''Get single audit event'', ''Audit''),
     (''GET'', ''/api/v1/audit/export'', ''Export audit events (CSV)'', ''Audit''),
     (''GET'', ''/api/v1/audit/stats'', ''Get audit statistics'', ''Audit''),
     (''GET'', ''/api/v1/audit/integrity'', ''Verify audit log integrity (hash chain)'', ''Audit''),
     (''GET'', ''/api/v1/audit/retention'', ''Get retention configuration'', ''Audit''),
     (''PUT'', ''/api/v1/audit/retention'', ''Update retention configuration'', ''Audit''),
     (''GET'', ''/api/v1/audit/rules'', ''List anomaly detection rules'', ''Audit''),
     (''POST'', ''/api/v1/audit/rules'', ''Create anomaly detection rule'', ''Audit''),
     (''GET'', ''/api/v1/audit/webhooks'', ''List audit webhook subscriptions'', ''Audit''),
     (''POST'', ''/api/v1/audit/webhooks'', ''Register audit webhook subscription'', ''Audit''),
     (''GET'', ''/oauth/authorize'', ''OAuth2 authorize endpoint'', ''OAuth''),
     (''POST'', ''/oauth/token'', ''OAuth2 token endpoint'', ''OAuth''),
     (''GET'', ''/scim/v2/Users'', ''List users (SCIM 2.0)'', ''SCIM''),
     (''POST'', ''/scim/v2/Users'', ''Create user (SCIM 2.0)'', ''SCIM''),
     (''GET'', ''/scim/v2/Users/{id}'', ''Get user (SCIM 2.0)'', ''SCIM''),
     (''PUT'', ''/scim/v2/Users/{id}'', ''Update user (SCIM 2.0)'', ''SCIM''),
     (''DELETE'', ''/scim/v2/Users/{id}'', ''Delete user (SCIM 2.0)'', ''SCIM''),
     (''GET'', ''/api/v1/departments'', ''List departments'', ''Org''),
     (''POST'', ''/api/v1/departments'', ''Create department'', ''Org''),
     (''GET'', ''/api/v1/teams'', ''List teams'', ''Org''),
     (''POST'', ''/api/v1/teams'', ''Create team'', ''Org''),
     (''GET'', ''/api/v1/idp/config'', ''List IdP federation configs'', ''IdP''),
     (''POST'', ''/api/v1/idp/config'', ''Create IdP federation config'', ''IdP''),
     (''GET'', ''/api/v1/agents'', ''List AI agents for a tenant'', ''Agents''),
     (''POST'', ''/api/v1/agents/register'', ''Register a new AI agent identity'', ''Agents''),
     (''POST'', ''/api/v1/agents/token'', ''Exchange user token for agent-scoped token'', ''Agents''),
     (''POST'', ''/api/v1/agents/verify'', ''Verify an agent token'', ''Agents''),
     (''GET'', ''/.well-known/jwks.json'', ''JWKS endpoint'', ''System''),
     (''GET'', ''/.well-known/openid-configuration'', ''OIDC discovery document'', ''System''),
     (''GET'', ''/healthz'', ''Gateway health check'', ''System'')]"

record explorer_page =
  ex_search :: string
  ex_selected :: "endpoint option"
  ex_tagFilter :: string
  ex_pathParams :: "(string \<times> string) list"
  ex_queryParams :: "(string \<times> string) list"
  ex_body :: string
  ex_response :: "string option"
  ex_status :: "int option"
  ex_expanded :: "(string \<times> bool) list"

definition explorer_init :: explorer_page where
  "explorer_init = \<lparr>ex_search = [], ex_selected = None, ex_tagFilter = [], ex_pathParams = [], ex_queryParams = [], ex_body = [], ex_response = None,
     ex_status = None, ex_expanded = []\<rparr>"

section \<open>Search and groups\<close>

definition ep_shown :: "explorer_page \<Rightarrow> endpoint \<Rightarrow> bool" where
  "ep_shown p e = (let q = trim (to_lower (ex_search p)) in
     (ex_tagFilter p = [] \<or> ep_tag e = ex_tagFilter p) \<and>
     (q = [] \<or> str_includes (to_lower (ep_path e)) q \<or> str_includes (to_lower (ep_summary e)) q \<or> str_includes (to_lower (ep_method e)) q))"

definition ex_grouped :: "explorer_page \<Rightarrow> (string \<times> endpoint list) list" where
  "ex_grouped p = foldl (\<lambda>acc e. push_entry (or_else (ep_tag e) ''Other'') e acc) [] (filter (ep_shown p) API_SPEC)"

definition allTags :: "string list" where
  "allTags = js_sort (\<lambda>a b. str_less b a) (js_set (map ep_tag API_SPEC))"

definition toggle_tag :: "string \<Rightarrow> explorer_page \<Rightarrow> explorer_page" where
  "toggle_tag g p = p\<lparr>ex_expanded := obj_set g (assoc g (ex_expanded p) \<noteq> Some True) (ex_expanded p)\<rparr>"

text \<open>A group is open unless its entry is \<open>false\<close>.\<close>

definition tag_open :: "string \<Rightarrow> explorer_page \<Rightarrow> bool" where
  "tag_open g p = (assoc g (ex_expanded p) \<noteq> Some False)"

section \<open>Parameters\<close>

definition select_endpoint :: "endpoint \<Rightarrow> explorer_page \<Rightarrow> explorer_page" where
  "select_endpoint e p = p\<lparr>ex_selected := Some e, ex_pathParams := [], ex_queryParams := [], ex_body := [], ex_response := None, ex_status := None\<rparr>"

text \<open>\<open>\w\<close> of a regular expression, and the names that \<open>/\{(\w+)\}/g\<close> finds.\<close>

definition word_char :: "char \<Rightarrow> bool" where
  "word_char c = (let n = of_char c :: nat in 48 \<le> n \<and> n \<le> 57 \<or> 65 \<le> n \<and> n \<le> 90 \<or> 97 \<le> n \<and> n \<le> 122 \<or> c = CHR ''_'')"

fun pathParamNames :: "string \<Rightarrow> string list" where
  "pathParamNames [] = []"
| "pathParamNames (c # s) = (let k = takeWhile word_char s; r = dropWhile word_char s in
     if c = CHR ''{'' \<and> k \<noteq> [] \<and> r \<noteq> [] \<and> hd r = CHR ''}'' then k # pathParamNames s else pathParamNames s)"

definition set_pathParam :: "string \<Rightarrow> string \<Rightarrow> explorer_page \<Rightarrow> explorer_page" where
  "set_pathParam k v p = p\<lparr>ex_pathParams := obj_set k v (ex_pathParams p)\<rparr>"

text \<open>\<open>Object.fromEntries(entries)\<close> after the name or the value of the \<open>i\<close>-th entry was replaced; equal names become one entry.\<close>

definition from_entries :: "(string \<times> string) list \<Rightarrow> (string \<times> string) list" where
  "from_entries es = foldl (\<lambda>m (k, v). obj_set k v m) [] es"

definition rename_query :: "nat \<Rightarrow> string \<Rightarrow> explorer_page \<Rightarrow> explorer_page" where
  "rename_query i k p = (if i < length (ex_queryParams p)
     then p\<lparr>ex_queryParams := from_entries ((ex_queryParams p)[i := (k, snd (ex_queryParams p ! i))])\<rparr> else p)"

definition set_queryParam :: "nat \<Rightarrow> string \<Rightarrow> explorer_page \<Rightarrow> explorer_page" where
  "set_queryParam i v p = (if i < length (ex_queryParams p)
     then p\<lparr>ex_queryParams := from_entries ((ex_queryParams p)[i := (fst (ex_queryParams p ! i), v)])\<rparr> else p)"

definition add_query :: "explorer_page \<Rightarrow> explorer_page" where
  "add_query p = p\<lparr>ex_queryParams := obj_set (''param'' @ show_nat (length (ex_queryParams p))) [] (ex_queryParams p)\<rparr>"

section \<open>The request\<close>

text \<open>The first occurrence of each placeholder is replaced.  A percent-encoded value has no \<open>$\<close>, which the language would treat specially.\<close>

definition fill_path :: "(string \<times> string) list \<Rightarrow> string \<Rightarrow> string" where
  "fill_path ps path = foldl (\<lambda>s (k, v). replace_first (CHR ''{'' # k @ ''}'') (encodeURIComponent v) s) path ps"

definition query_string :: "(string \<times> string) list \<Rightarrow> string" where
  "query_string qs = join_on (CHR ''&'') (map (\<lambda>(k, v). k @ ''='' @ encodeURIComponent v) (filter (\<lambda>(k, v). v \<noteq> []) qs))"

definition explorer_path :: "explorer_page \<Rightarrow> endpoint \<Rightarrow> string" where
  "explorer_path p e = (let q = query_string (ex_queryParams p) in
     fill_path (ex_pathParams p) (ep_path e) @ (if q \<noteq> [] then CHR ''?'' # q else []))"

text \<open>The path of a URL: a segment of one dot is dropped and one of two dots takes the segment before with it, also when the dots are
  percent-encoded; at the end both leave an empty segment.\<close>

definition SINGLE_DOT :: "string list" where
  "SINGLE_DOT = [''.'', ''%2e'', ''%2E'']"

definition DOUBLE_DOT :: "string list" where
  "DOUBLE_DOT = concat (map (\<lambda>a. map (\<lambda>b. a @ b) SINGLE_DOT) SINGLE_DOT)"

fun resolve_dots :: "string list \<Rightarrow> string list \<Rightarrow> string list" where
  "resolve_dots out [] = out"
| "resolve_dots out (s # ss) =
     (if s \<in> set DOUBLE_DOT then (if ss = [] then butlast out @ [[]] else resolve_dots (butlast out) ss)
      else if s \<in> set SINGLE_DOT then (if ss = [] then out @ [[]] else resolve_dots out ss)
      else resolve_dots (out @ [s]) ss)"

definition encode_braces :: "string \<Rightarrow> string" where
  "encode_braces s = replace_all (CHR ''}'') ''%7D'' (replace_all (CHR ''{'') ''%7B'' s)"

definition url_path :: "string \<Rightarrow> string" where
  "url_path s = join_on (CHR ''/'') ([] # map encode_braces (resolve_dots [] (tl (split_on (CHR ''/'') s))))"

definition url_of :: "string \<Rightarrow> string" where
  "url_of s = url_path (takeWhile (\<lambda>c. c \<noteq> CHR ''?'') s) @ dropWhile (\<lambda>c. c \<noteq> CHR ''?'') s"

definition explorer_request :: "string \<Rightarrow> explorer_page \<Rightarrow> endpoint \<Rightarrow> 'w world \<Rightarrow> request" where
  "explorer_request base p e w = \<lparr>url = base @ url_of (explorer_path p e), meth = ep_method e,
     hdrs = spread [(''Content-Type'', ''application/json'')] (authHeader w),
     rbody = (if ep_method e \<in> {''POST'', ''PUT'', ''PATCH''} \<and> ex_body p \<noteq> [] then Some (ex_body p) else None)\<rparr>"

definition tryRequest :: "'w env \<Rightarrow> string \<Rightarrow> explorer_page \<times> 'w world \<Rightarrow> explorer_page \<times> 'w world" where
  "tryRequest E base pw = (case pw of (p, w) \<Rightarrow>
     (case ex_selected p of None \<Rightarrow> (p, w)
      | Some e \<Rightarrow> (case fetch E (explorer_request base p e w) w of
           (NetError, w1) \<Rightarrow> (p\<lparr>ex_status := Some 0, ex_response := Some (net_message E)\<rparr>, w1)
         | (Resp st txt, w1) \<Rightarrow> (p\<lparr>ex_status := Some st,
              ex_response := Some (case json_parse txt of None \<Rightarrow> txt | Some v \<Rightarrow> json_pretty v)\<rparr>, w1))))"

section \<open>Properties\<close>

text \<open>The characters of an encoded value.\<close>

definition uri_char :: "char \<Rightarrow> bool" where
  "uri_char c = (c = CHR ''%'' \<or> uri_safe (of_char c))"

lemma word_char_uri: "word_char c \<Longrightarrow> uri_char c"
  by (auto simp: word_char_def uri_char_def uri_safe_def Let_def)

lemma upper_hex_uri: "n < 16 \<Longrightarrow> uri_char (upper_hex n)"
  by (auto simp: upper_hex_def uri_char_def uri_safe_def)

lemma uri_byte_chars: "c \<in> set (uri_byte b) \<Longrightarrow> uri_char c"
proof -
  assume c: "c \<in> set (uri_byte b)"
  have n: "unat b < 256" using unsigned_less[of b, where ?'a = nat] by simp
  show ?thesis
  proof (cases "uri_safe (unat b)")
    case True
    then have "c = char_of (unat b)" using c by (simp add: uri_byte_def Let_def)
    then show ?thesis using True n by (simp add: uri_char_def)
  next
    case False
    then have "c \<in> {CHR ''%'', upper_hex (unat b div 16), upper_hex (unat b mod 16)}" using c by (simp add: uri_byte_def Let_def)
    moreover have "unat b div 16 < 16" using n by simp
    ultimately show ?thesis using upper_hex_uri[of "unat b mod 16"] upper_hex_uri[of "unat b div 16"] by (auto simp: uri_char_def)
  qed
qed

lemma encode_chars: "c \<in> set (encodeURIComponent s) \<Longrightarrow> uri_char c"
  by (auto simp: encodeURIComponent_def uri_byte_chars)

lemma encode_no_delims: "CHR ''/'' \<notin> set (encodeURIComponent v)" "CHR ''?'' \<notin> set (encodeURIComponent v)"
  "CHR ''{'' \<notin> set (encodeURIComponent v)" "CHR ''}'' \<notin> set (encodeURIComponent v)"
proof -
  have "\<not> uri_char (CHR ''/'')" "\<not> uri_char (CHR ''?'')" "\<not> uri_char (CHR ''{'')" "\<not> uri_char (CHR ''}'')" by code_simp+
  then show "CHR ''/'' \<notin> set (encodeURIComponent v)" "CHR ''?'' \<notin> set (encodeURIComponent v)"
    "CHR ''{'' \<notin> set (encodeURIComponent v)" "CHR ''}'' \<notin> set (encodeURIComponent v)"
    using encode_chars by blast+
qed

text \<open>An encoded value is a segment of dots only if the value is.\<close>

lemma dots_decoded:
  "list_all (\<lambda>s. decodeURIComponent s = Some ''.'') SINGLE_DOT" "list_all (\<lambda>s. decodeURIComponent s = Some ''..'') DOUBLE_DOT"
  by code_simp+

lemma encoded_dots:
  "encodeURIComponent v \<in> set SINGLE_DOT \<longleftrightarrow> v = ''.''" "encodeURIComponent v \<in> set DOUBLE_DOT \<longleftrightarrow> v = ''..''"
proof -
  have "encodeURIComponent ''.'' \<in> set SINGLE_DOT" "encodeURIComponent ''..'' \<in> set DOUBLE_DOT" by code_simp+
  then show "encodeURIComponent v \<in> set SINGLE_DOT \<longleftrightarrow> v = ''.''" "encodeURIComponent v \<in> set DOUBLE_DOT \<longleftrightarrow> v = ''..''"
    using dots_decoded uri_decode_encode[of v] by (auto simp: list_all_iff)
qed

lemma replace_first_at: "CHR ''{'' \<notin> set a \<Longrightarrow> replace_first (CHR ''{'' # k) r (a @ CHR ''{'' # k @ b) = a @ r @ b"
proof (induction a)
  case Nil
  show ?case by (subst replace_first.simps) simp
next
  case (Cons c a)
  then show ?case by (subst append_Cons, subst replace_first.simps) simp
qed

lemma replace_all_none: "c \<notin> set s \<Longrightarrow> replace_all c r s = s"
  by (induction s) (auto simp: replace_all_def)

lemma join_on_set: "c \<in> set (join_on d ss) \<Longrightarrow> c \<noteq> d \<Longrightarrow> \<exists>s \<in> set ss. c \<in> set s"
  by (induction d ss rule: join_on.induct) auto

text \<open>What stands before a segment.\<close>

lemma join_around: "join_on d ([] # pre @ x # post) = join_on d ([] # pre @ [[]]) @ x @ (if post = [] then [] else d # join_on d post)"
proof -
  have "join_on d (ws @ x # post) = join_on d (ws @ [[]]) @ x @ (if post = [] then [] else d # join_on d post)" for ws
  proof (induction ws)
    case Nil
    then show ?case by (cases post) auto
  next
    case (Cons w ws)
    have "join_on d (w # us @ y # zs) = w @ d # join_on d (us @ y # zs)" for us y zs by (cases us) auto
    then show ?case using Cons.IH by simp
  qed
  from this[of "[] # pre"] show ?thesis by simp
qed

text \<open>The templates of the table: at most one placeholder, which is a whole segment; no braces, question marks or segments of dots elsewhere.\<close>

definition plain_segment :: "string \<Rightarrow> bool" where
  "plain_segment s = (list_all (\<lambda>c. c \<noteq> CHR ''{'' \<and> c \<noteq> CHR ''}'' \<and> c \<noteq> CHR ''?'') s \<and>
     (case s of [] \<Rightarrow> True | c # s' \<Rightarrow> c \<noteq> CHR ''%'' \<and> (c = CHR ''.'' \<longrightarrow> s' \<noteq> [] \<and> hd s' \<noteq> CHR ''.'' \<and> hd s' \<noteq> CHR ''%'')))"

lemma plain_no_dots: "plain_segment s \<Longrightarrow> s \<notin> set SINGLE_DOT" "plain_segment s \<Longrightarrow> s \<notin> set DOUBLE_DOT"
  by (auto simp: plain_segment_def SINGLE_DOT_def DOUBLE_DOT_def)

lemma plain_chars: "plain_segment s \<Longrightarrow> CHR ''{'' \<notin> set s" "plain_segment s \<Longrightarrow> CHR ''}'' \<notin> set s" "plain_segment s \<Longrightarrow> CHR ''?'' \<notin> set s"
  by (auto simp: plain_segment_def list_all_iff)

definition template_ok :: "string \<Rightarrow> bool" where
  "template_ok path = (CHR ''{'' \<in> set path \<longrightarrow> (case filter (\<lambda>s. \<not> plain_segment s) (split_on (CHR ''/'') path) of
     [s] \<Rightarrow> 2 < length s \<and> list_all word_char (butlast (tl s)) | _ \<Rightarrow> False))"

lemma templates_ok: "list_all template_ok (map ep_path API_SPEC)"
  by code_simp

lemma names_none: "CHR ''{'' \<notin> set a \<Longrightarrow> pathParamNames (a @ b) = pathParamNames b"
  by (induction a) (auto simp: Let_def)

lemma names_one:
  assumes "CHR ''{'' \<notin> set a" "CHR ''{'' \<notin> set c" "list_all word_char k" "k \<noteq> []"
  shows "pathParamNames (a @ (CHR ''{'' # k @ ''}'') @ c) = [k]"
proof -
  have w: "\<not> word_char (CHR ''}'')" "\<not> word_char (CHR ''{'')" by code_simp+
  have "takeWhile word_char (k @ CHR ''}'' # c) = k" "dropWhile word_char (k @ CHR ''}'' # c) = CHR ''}'' # c"
    using assms(3) w by (auto simp: list_all_iff takeWhile_append dropWhile_append)
  moreover have "pathParamNames (k @ CHR ''}'' # c) = []"
    using names_none[of "k @ CHR ''}'' # c" "[]"] assms(2,3) w by (auto simp: list_all_iff)
  ultimately show ?thesis using names_none[OF assms(1), of "(CHR ''{'' # k @ ''}'') @ c"] assms(4) by simp
qed

lemma template_segments:
  assumes "e \<in> set API_SPEC" "split_on (CHR ''/'') (ep_path e) = [] # pre @ (CHR ''{'' # k @ ''}'') # post"
  shows "pathParamNames (ep_path e) = [k] \<and> list_all plain_segment pre \<and> list_all plain_segment post"
proof -
  let ?x = "CHR ''{'' # k @ ''}''"
  have path: "ep_path e = join_on (CHR ''/'') ([] # pre @ [[]]) @ ?x @ (if post = [] then [] else CHR ''/'' # join_on (CHR ''/'') post)"
    using join_split[of "CHR ''/''" "ep_path e"] unfolding assms(2) by (subst (asm) join_around) simp
  have x: "\<not> plain_segment ?x" "plain_segment []" by (simp_all add: plain_segment_def)
  have "template_ok (ep_path e)" using templates_ok assms(1) by (simp add: list_all_iff)
  moreover have "CHR ''{'' \<in> set (ep_path e)" by (simp add: path)
  ultimately obtain y where "filter (\<lambda>s. \<not> plain_segment s) ([] # pre @ ?x # post) = [y]" "2 < length y" "list_all word_char (butlast (tl y))"
    unfolding template_ok_def assms(2) by (auto split: list.splits)
  then have f: "filter (\<lambda>s. \<not> plain_segment s) pre @ ?x # filter (\<lambda>s. \<not> plain_segment s) post = [y]" "2 < length y" "list_all word_char (butlast (tl y))"
    using x by simp_all
  then have none: "filter (\<lambda>s. \<not> plain_segment s) pre = []" "filter (\<lambda>s. \<not> plain_segment s) post = []" "y = ?x" by (auto simp: append_eq_Cons_conv)
  then have plain: "list_all plain_segment pre" "list_all plain_segment post" by (auto simp: filter_empty_conv list_all_iff)
  have k: "list_all word_char k" "k \<noteq> []" using f(2,3) none(3) by (auto simp: butlast_append)
  have "CHR ''{'' \<notin> set (join_on (CHR ''/'') ([] # pre @ [[]]))" "CHR ''{'' \<notin> set (join_on (CHR ''/'') post)"
    using plain plain_chars(1) by (fastforce dest: join_on_set simp: list_all_iff)+
  then show ?thesis using plain names_one[OF _ _ k] path by simp
qed

lemma resolve_plain: "list_all plain_segment ss \<Longrightarrow> resolve_dots out (ss @ ts) = resolve_dots (out @ ss) ts"
  by (induction ss arbitrary: out) (simp_all add: plain_no_dots)

lemma encode_braces_plain: "list_all plain_segment ss \<Longrightarrow> map encode_braces ss = ss"
  by (induction ss) (simp_all add: plain_chars encode_braces_def replace_all_none)

lemma url_of_plain: "CHR ''?'' \<notin> set s \<Longrightarrow> url_of s = url_path s"
proof -
  assume "CHR ''?'' \<notin> set s"
  then have "takeWhile (\<lambda>c. c \<noteq> CHR ''?'') s = s \<and> dropWhile (\<lambda>c. c \<noteq> CHR ''?'') s = []" by (induction s) auto
  then show ?thesis unfolding url_of_def by (simp only: append_Nil2)
qed

lemma resolve_last: "list_all plain_segment ss \<Longrightarrow> resolve_dots out ss = out @ ss"
  using resolve_plain[of ss out "[]"] by simp

text \<open>The fields of the path parameters, filled in one after another.\<close>

definition fill_fields :: "endpoint \<Rightarrow> (string \<times> string) list \<Rightarrow> explorer_page \<Rightarrow> explorer_page" where
  "fill_fields e edits p = foldl (\<lambda>p (k, v). set_pathParam k v p) (select_endpoint e p) edits"

lemma fields_one:
  assumes "fst ` set edits \<subseteq> {k}" "edits \<noteq> []"
  shows "ex_pathParams (fill_fields e edits p) = [(k, snd (last edits))]" "ex_queryParams (fill_fields e edits p) = []"
proof -
  have q: "ex_queryParams (foldl (\<lambda>p (k, v). set_pathParam k v p) p es) = ex_queryParams p" for es and p :: explorer_page
    by (induction es arbitrary: p) (auto simp: set_pathParam_def)
  have one: "ex_pathParams (foldl (\<lambda>p (k, v). set_pathParam k v p) p es) = [(k, snd (last es))]"
    if "fst ` set es \<subseteq> {k}" "es \<noteq> []" "ex_pathParams p = [] \<or> (\<exists>v. ex_pathParams p = [(k, v)])" for es and p :: explorer_page
    using that
  proof (induction es arbitrary: p)
    case (Cons kv es)
    obtain v where kv: "kv = (k, v)" using Cons.prems(1) by (cases kv) auto
    have "ex_pathParams (set_pathParam k v p) = [(k, v)]" using Cons.prems(3) by (auto simp: set_pathParam_def)
    then show ?case using Cons.IH[of "set_pathParam k v p"] Cons.prems(1) kv by (cases "es = []") auto
  qed simp
  show "ex_pathParams (fill_fields e edits p) = [(k, snd (last edits))]" unfolding fill_fields_def
    by (rule one[OF assms]) (simp add: select_endpoint_def)
  show "ex_queryParams (fill_fields e edits p) = []" by (simp add: fill_fields_def q select_endpoint_def)
qed

text \<open>C31. What is sent for an endpoint of the table that has a path parameter, whatever is typed into its field, if the address of the server has
  no path of its own and no query is given: the last value typed, percent-encoded, stands in the place of the placeholder, all other segments are those of the
  template, and the server decodes what was typed; no value can add a segment or a query.  The two exceptions are the values \<open>.\<close>
  and \<open>..\<close>, which the encoding leaves as they are and the URL parser resolves: the first removes its segment, the second removes the segment before
  it as well, so that another endpoint is called.\<close>

theorem path_values_confined:
  assumes "e \<in> set API_SPEC" "split_on (CHR ''/'') (ep_path e) = [] # pre @ (CHR ''{'' # k @ ''}'') # post"
    and "fst ` set edits \<subseteq> set (pathParamNames (ep_path e))" "edits \<noteq> []" "v = snd (last edits)"
  shows "url (explorer_request base (fill_fields e edits p) e w) = base @ join_on (CHR ''/'') ([] #
      (if v = ''.'' then pre @ (if post = [] then [[]] else post)
       else if v = ''..'' then butlast pre @ (if post = [] then [[]] else post)
       else pre @ encodeURIComponent v # post)) \<and>
    split_on (CHR ''/'') (encodeURIComponent v) = [encodeURIComponent v] \<and> CHR ''?'' \<notin> set (encodeURIComponent v) \<and>
    decodeURIComponent (encodeURIComponent v) = Some v"
proof -
  note t = template_segments[OF assms(1,2)]
  let ?x = "CHR ''{'' # k @ ''}''" and ?f = "fill_fields e edits p"
  let ?segs = "[] # pre @ encodeURIComponent v # post"
  have pieces: "\<forall>s \<in> set ([] # pre @ ?x # post). CHR ''/'' \<notin> set s" using split_on_pieces[of _ "CHR ''/''" "ep_path e"] assms(2) by simp
  have path: "ep_path e = join_on (CHR ''/'') ([] # pre @ ?x # post)" using join_split[of "CHR ''/''" "ep_path e"] assms(2) by simp
  have fields: "ex_pathParams ?f = [(k, v)]" "ex_queryParams ?f = []" using fields_one[of edits k e p] assms(3-5) t by auto
  have "CHR ''{'' \<notin> set (join_on (CHR ''/'') ([] # pre @ [[]]))" using t plain_chars(1) by (fastforce dest: join_on_set simp: list_all_iff)
  then have "fill_path [(k, v)] (ep_path e) = join_on (CHR ''/'') ?segs"
    unfolding path by (subst (1 2) join_around) (simp add: fill_path_def replace_first_at[of _ "k @ ''}''", simplified])
  then have ep: "explorer_path ?f e = join_on (CHR ''/'') ?segs" using fields by (simp add: explorer_path_def query_string_def)
  have "CHR ''?'' \<notin> set (join_on (CHR ''/'') ?segs)"
    using t encode_no_delims(2)[of v] plain_chars(3) by (fastforce dest: join_on_set simp: list_all_iff)
  then have u: "url_of (join_on (CHR ''/'') ?segs) = url_path (join_on (CHR ''/'') ?segs)"
    by (rule url_of_plain)
  have "split_on (CHR ''/'') (join_on (CHR ''/'') ?segs) = ?segs"
    using pieces encode_no_delims(1)[of v] by (intro split_on_join) auto
  moreover have "resolve_dots [] (pre @ encodeURIComponent v # post) =
      (if v = ''.'' then pre @ (if post = [] then [[]] else post) else if v = ''..'' then butlast pre @ (if post = [] then [[]] else post)
       else pre @ encodeURIComponent v # post)"
    using t by (simp add: resolve_plain resolve_last encoded_dots)
  moreover have "encode_braces (encodeURIComponent v) = encodeURIComponent v" "encode_braces [] = []"
    using encode_no_delims(3,4)[of v] by (simp_all add: encode_braces_def replace_all_none)
  moreover have "map encode_braces pre = pre" "map encode_braces (butlast pre) = butlast pre" "map encode_braces post = post"
    using t by (intro encode_braces_plain; force simp: list_all_iff dest: in_set_butlastD)+
  ultimately have "url_path (join_on (CHR ''/'') ?segs) = join_on (CHR ''/'') ([] #
      (if v = ''.'' then pre @ (if post = [] then [[]] else post) else if v = ''..'' then butlast pre @ (if post = [] then [[]] else post)
       else pre @ encodeURIComponent v # post))" by (simp add: url_path_def)
  then show ?thesis using ep u encode_no_delims(1,2)[of v] uri_decode_encode[of v] by (simp add: explorer_request_def split_on_id)
qed

text \<open>Locking a user: a value with a slash stays in its segment; two dots call another endpoint.\<close>

theorem path_values_confined_witness:
  "url (explorer_request [] (fill_fields (''POST'', ''/api/v1/users/{id}/lock'', ''Lock user account'', ''Users'') [(''id'', ''a/b?c'')] explorer_init)
     (''POST'', ''/api/v1/users/{id}/lock'', ''Lock user account'', ''Users'') blank_world) = ''/api/v1/users/a%2Fb%3Fc/lock'' \<and>
   url (explorer_request [] (fill_fields (''POST'', ''/api/v1/users/{id}/lock'', ''Lock user account'', ''Users'') [(''id'', ''..'')] explorer_init)
     (''POST'', ''/api/v1/users/{id}/lock'', ''Lock user account'', ''Users'') blank_world) = ''/api/v1/lock''"
proof -
  let ?e = "(''POST'', ''/api/v1/users/{id}/lock'', ''Lock user account'', ''Users'')"
  have e: "?e \<in> set API_SPEC" by (simp add: API_SPEC_def)
  have s: "split_on (CHR ''/'') (ep_path ?e) = [] # [''api'', ''v1'', ''users''] @ (CHR ''{'' # ''id'' @ ''}'') # [''lock'']" by code_simp
  have k: "fst ` set [(''id'', v)] \<subseteq> set (pathParamNames (ep_path ?e))" for v :: string
  proof -
    have "pathParamNames (ep_path ?e) = [''id'']" by code_simp
    then show ?thesis by simp
  qed
  have c: "encodeURIComponent ''a/b?c'' = ''a%2Fb%3Fc''" by code_simp
  show ?thesis
    using path_values_confined[OF e s k[of "''a/b?c''"], of "''a/b?c''" "[]" explorer_init blank_world]
      path_values_confined[OF e s k[of "''..''"], of "''..''" "[]" explorer_init blank_world] by (simp add: c)
qed

text \<open>A group holds the shown endpoints of its tag in the order of the table, and no group is empty.\<close>

lemma explorer_groups:
  "(g, es) \<in> set (ex_grouped p) \<longleftrightarrow> es = filter (\<lambda>e. ep_shown p e \<and> or_else (ep_tag e) ''Other'' = g) API_SPEC \<and> es \<noteq> []"
proof -
  let ?f = "\<lambda>e. or_else (ep_tag e) ''Other''"
  have g: "ex_grouped p = foldl (\<lambda>t e. if True then push_entry (?f e) e t else t) [] (filter (ep_shown p) API_SPEC)"
    by (simp add: ex_grouped_def)
  have "distinct (map fst (ex_grouped p))" unfolding g by (rule foldl_push_keys) simp
  then show ?thesis using assoc_foldl_push[of g "\<lambda>_. True" ?f "[]" "filter (ep_shown p) API_SPEC"]
    by (auto simp: assoc_iff g Let_def filter_filter conj_commute simp del: if_True)
qed

text \<open>The first click on the heading of a group changes nothing: no entry counts as open, and is negated to \<open>true\<close>.\<close>

lemma first_click_ignored: "assoc g (ex_expanded p) = None \<Longrightarrow> tag_open g p \<and> tag_open g (toggle_tag g p)"
  by (simp add: tag_open_def toggle_tag_def)

lemma second_click_closes: "assoc g (ex_expanded p) = None \<Longrightarrow> \<not> tag_open g (toggle_tag g (toggle_tag g p))"
  by (simp add: tag_open_def toggle_tag_def)

text \<open>A new query parameter is named after the number of those there are; one that was renamed to that name loses its value.\<close>

lemma added_param_overwrites:
  assumes "assoc (''param'' @ show_nat (length (ex_queryParams p))) (ex_queryParams p) = Some v"
  shows "assoc (''param'' @ show_nat (length (ex_queryParams p))) (ex_queryParams (add_query p)) = Some []"
  by (simp add: add_query_def)

text \<open>The name of a query parameter is sent as it was typed: one that contains an ampersand becomes two parameters.\<close>

lemma query_name_raw: "query_string [(''a=1&b'', ''2'')] = ''a=1&b=2''"
  by code_simp

end
