(* ===== verification/Hook_Ops.thy ===== *)
theory Hook_Ops
  imports Sdk_Hooks
begin

text \<open>
  The statements of which the operations of the remaining resource hooks of the React SDK are made (\<open>sdk/react/src/use*.ts\<close>): state
  setters, functional updates, \<open>await fetch\<close>, the test of \<open>ok\<close>, reading the body as JSON, \<open>try\<close>, \<open>catch\<close> and \<open>finally\<close>, and the call of another
  operation.  Each takes what is done after it as its last argument, so that an operation reads like its code.  The theories \<open>Hooks_Auth\<close>
  and \<open>Hooks_Plain\<close> hold the operations.

  The locale \<open>op_rule\<close> is the interface of a property of operations that can be proved along their statements; two properties interpret it.
\<close>

section \<open>State\<close>

text \<open>The variables of \<open>useState\<close> by name, and whether an updater has thrown, which React reports while rendering and no handler of the
  hook sees.\<close>

record hook_state =
  hs_var :: "string \<Rightarrow> jsv"
  hs_crashed :: bool

type_synonym 'w cmd = "hook_state \<Rightarrow> 'w world \<Rightarrow> (exn + jsv) \<times> hook_state \<times> 'w world"

definition state_of :: "(string \<times> jsv) list \<Rightarrow> hook_state" where
  "state_of kvs = \<lparr>hs_var = (\<lambda>k. case assoc k kvs of None \<Rightarrow> JUndef | Some v \<Rightarrow> v), hs_crashed = False\<rparr>"

section \<open>Statements\<close>

definition ret :: "jsv \<Rightarrow> 'w cmd" where
  "ret v s w = (Inr v, s, w)"

definition throw :: "exn \<Rightarrow> 'w cmd" where
  "throw e s w = (Inl e, s, w)"

text \<open>\<open>setX(v)\<close> and the value of a variable when the operation was called.\<close>

definition setv :: "string \<Rightarrow> jsv \<Rightarrow> 'w cmd \<Rightarrow> 'w cmd" where
  "setv x v c s w = c (s\<lparr>hs_var := (hs_var s)(x := v)\<rparr>) w"

definition getv :: "string \<Rightarrow> (jsv \<Rightarrow> 'w cmd) \<Rightarrow> 'w cmd" where
  "getv x c s w = c (hs_var s x) s w"

text \<open>\<open>setX(prev => f(prev))\<close>; \<^term>\<open>None\<close> where the updater throws.\<close>

definition updv :: "string \<Rightarrow> (jsv \<Rightarrow> jsv option) \<Rightarrow> 'w cmd \<Rightarrow> 'w cmd" where
  "updv x f c s w = c (case f (hs_var s x) of None \<Rightarrow> s\<lparr>hs_crashed := True\<rparr> | Some v \<Rightarrow> s\<lparr>hs_var := (hs_var s)(x := v)\<rparr>) w"

text \<open>\<open>const res = await fetch(\<dots>)\<close> with the status and the body of the answer, \<open>if (!res.ok) throw new Error(m)\<close> and \<open>await res.json()\<close>.\<close>

definition send :: "'w env \<Rightarrow> request \<Rightarrow> (int \<Rightarrow> string \<Rightarrow> 'w cmd) \<Rightarrow> 'w cmd" where
  "send E rq c s w = (case fetch E rq w of (NetError, w1) \<Rightarrow> (Inl ExnNet, s, w1) | (Resp st body, w1) \<Rightarrow> c st body s w1)"

definition unless_ok :: "int \<Rightarrow> string \<Rightarrow> 'w cmd \<Rightarrow> 'w cmd" where
  "unless_ok st m c = (if resp_ok st then c else throw (ExnError m))"

definition read_json :: "string \<Rightarrow> (jsv \<Rightarrow> 'w cmd) \<Rightarrow> 'w cmd" where
  "read_json body c = (case json_parse body of None \<Rightarrow> throw ExnSyntax | Some v \<Rightarrow> c v)"

text \<open>Reading a property of \<open>null\<close> or \<open>undefined\<close> throws.\<close>

definition reads :: "jsv \<Rightarrow> 'w cmd \<Rightarrow> 'w cmd" where
  "reads v c = (if nullish v then throw ExnType else c)"

text \<open>\<open>await f(\<dots>)\<close> for another operation of the hook.\<close>

definition run :: "'w cmd \<Rightarrow> (jsv \<Rightarrow> 'w cmd) \<Rightarrow> 'w cmd" where
  "run c k s w = (case c s w of (Inl e, s1, w1) \<Rightarrow> (Inl e, s1, w1) | (Inr v, s1, w1) \<Rightarrow> k v s1 w1)"

definition branch :: "bool \<Rightarrow> 'w cmd \<Rightarrow> 'w cmd \<Rightarrow> 'w cmd" where
  "branch b c d = (if b then c else d)"

text \<open>\<open>try { c } catch (e) { h(e.message) } finally { setX(v); \<dots> }\<close>, the last as the list of its setters.\<close>

definition finally_set :: "(string \<times> jsv) list \<Rightarrow> hook_state \<Rightarrow> hook_state" where
  "finally_set kvs s = s\<lparr>hs_var := foldl (\<lambda>f (k, v). f(k := v)) (hs_var s) kvs\<rparr>"

definition try_catch :: "'w env \<Rightarrow> 'w cmd \<Rightarrow> (string \<Rightarrow> 'w cmd) \<Rightarrow> (string \<times> jsv) list \<Rightarrow> 'w cmd" where
  "try_catch E c h fin s w = (case c s w of
      (Inr v, s1, w1) \<Rightarrow> (Inr v, finally_set fin s1, w1)
    | (Inl e, s1, w1) \<Rightarrow> (case h (exn_message E e) s1 w1 of (r, s2, w2) \<Rightarrow> (r, finally_set fin s2, w2)))"

section \<open>Requests\<close>

definition plain_request :: "string \<Rightarrow> string \<Rightarrow> headers \<Rightarrow> jsv option \<Rightarrow> request" where
  "plain_request m u hs body = \<lparr>url = u, meth = m, hdrs = hs, rbody = map_option json_stringify body\<rparr>"

definition json_header :: headers where
  "json_header = [(''Content-Type'', ''application/json'')]"

section \<open>Values\<close>

text \<open>\<open>prev.map(r => f r)\<close> and \<open>prev.filter(r => P r)\<close>, whose functions read a property of every element first; \<open>[...prev, v]\<close> and \<open>[v, ...prev]\<close>.\<close>

definition map_items :: "(jsv \<Rightarrow> jsv) \<Rightarrow> jsv \<Rightarrow> jsv option" where
  "map_items f v = (case v of JArr vs \<Rightarrow> if list_ex nullish vs then None else Some (JArr (map f vs)) | _ \<Rightarrow> None)"

definition filter_items :: "(jsv \<Rightarrow> bool) \<Rightarrow> jsv \<Rightarrow> jsv option" where
  "filter_items P v = (case v of JArr vs \<Rightarrow> if list_ex nullish vs then None else Some (JArr (filter P vs)) | _ \<Rightarrow> None)"

definition spread_items :: "jsv \<Rightarrow> jsv list option" where
  "spread_items v = (case v of JArr vs \<Rightarrow> Some vs | JStr t \<Rightarrow> Some (map (\<lambda>c. JStr [c]) t) | _ \<Rightarrow> None)"

definition append_items :: "jsv \<Rightarrow> jsv \<Rightarrow> jsv option" where
  "append_items x v = map_option (\<lambda>vs. JArr (vs @ [x])) (spread_items v)"

definition prepend_items :: "jsv \<Rightarrow> jsv \<Rightarrow> jsv option" where
  "prepend_items x v = map_option (\<lambda>vs. JArr (x # vs)) (spread_items v)"

text \<open>\<open>{ ...v, k: x, \<dots> }\<close> and \<open>{ ...v, ...u }\<close>: the entries of an object, or those of the indices of an array or a text.\<close>

definition entries_of :: "jsv \<Rightarrow> (string \<times> jsv) list" where
  "entries_of v = (case v of JObj kvs \<Rightarrow> kvs | JArr vs \<Rightarrow> map (\<lambda>(i, x). (show_nat i, x)) (enumerate 0 vs)
     | JStr t \<Rightarrow> map (\<lambda>(i, c). (show_nat i, JStr [c])) (enumerate 0 t) | _ \<Rightarrow> [])"

definition with_entries :: "jsv \<Rightarrow> (string \<times> jsv) list \<Rightarrow> jsv" where
  "with_entries v kvs = JObj (foldl (\<lambda>m (k, x). obj_set k x m) (entries_of v) kvs)"

section \<open>Properties along the statements\<close>

text \<open>A property of operations that every statement passes on.  What it demands of a request, of a setter and of an updater is a parameter.\<close>

locale op_rule =
  fixes holds :: "'w cmd \<Rightarrow> bool" and rq_ok :: "request \<Rightarrow> bool" and set_ok :: "string \<Rightarrow> jsv \<Rightarrow> bool"
    and upd_ok :: "string \<Rightarrow> (jsv \<Rightarrow> jsv option) \<Rightarrow> bool"
  assumes ret_rule: "holds (ret v)"
    and throw_rule: "holds (throw e)"
    and setv_rule: "set_ok x v \<Longrightarrow> holds c \<Longrightarrow> holds (setv x v c)"
    and getv_rule: "(\<And>v. holds (k v)) \<Longrightarrow> holds (getv x k)"
    and updv_rule: "upd_ok x f \<Longrightarrow> holds c \<Longrightarrow> holds (updv x f c)"
    and send_rule: "rq_ok rq \<Longrightarrow> (\<And>st body. holds (k2 st body)) \<Longrightarrow> holds (send E rq k2)"
    and run_rule: "holds c \<Longrightarrow> (\<And>v. holds (k v)) \<Longrightarrow> holds (run c k)"
    and try_rule: "holds c \<Longrightarrow> (\<And>m. holds (h m)) \<Longrightarrow> list_all (\<lambda>(x, v). set_ok x v) fin \<Longrightarrow> holds (try_catch E c h fin)"
begin

lemma unless_ok_rule: "holds c \<Longrightarrow> holds (unless_ok st m c)"
  by (simp add: unless_ok_def throw_rule)

lemma read_json_rule: "(\<And>v. holds (k v)) \<Longrightarrow> holds (read_json body k)"
  by (simp add: read_json_def throw_rule split: option.split)

lemma reads_rule: "holds c \<Longrightarrow> holds (reads v c)"
  by (simp add: reads_def throw_rule)

lemma branch_rule: "\<lbrakk>b \<Longrightarrow> holds c; \<not> b \<Longrightarrow> holds d\<rbrakk> \<Longrightarrow> holds (branch b c d)"
  by (simp add: branch_def)

lemmas rules = ret_rule throw_rule setv_rule getv_rule updv_rule send_rule run_rule try_rule unless_ok_rule read_json_rule reads_rule branch_rule

end

subsection \<open>What is sent\<close>

definition sends_only :: "(request \<Rightarrow> bool) \<Rightarrow> 'w cmd \<Rightarrow> bool" where
  "sends_only P c = (\<forall>s w. \<exists>rs. sent (snd (snd (c s w))) = sent w @ rs \<and> list_all P rs)"

lemma sends_onlyD:
  assumes "sends_only P c" "c s w = (r, s', w')"
  obtains rs where "sent w' = sent w @ rs" "list_all P rs"
  using assms unfolding sends_only_def by (metis snd_conv)

lemma fetch_sent_one: "fetch E rq w = (a, w') \<Longrightarrow> sent w' = sent w @ [rq]"
  by (auto simp: fetch_def case_prod_beta)

lemma sends_only_bind:
  assumes "sends_only P c" "\<And>v. sends_only P (k v)"
  shows "\<exists>rs. sent (snd (snd (run c k s w))) = sent w @ rs \<and> list_all P rs"
proof (cases "c s w")
  case (fields r s1 w1)
  then obtain rs where rs: "sent w1 = sent w @ rs" "list_all P rs" by (rule sends_onlyD[OF assms(1)])
  show ?thesis
  proof (cases r)
    case (Inr v)
    obtain r2 s2 w2 where k: "k v s1 w1 = (r2, s2, w2)" by (metis prod_cases3)
    obtain rs2 where "sent w2 = sent w1 @ rs2" "list_all P rs2" by (rule sends_onlyD[OF assms(2) k])
    then show ?thesis using rs fields Inr k by (intro exI[of _ "rs @ rs2"]) (simp add: run_def)
  qed (use rs fields in \<open>auto simp: run_def\<close>)
qed

interpretation sends: op_rule "sends_only P" P "\<lambda>_ _. True" "\<lambda>_ _. True" for P
proof
  show "sends_only P (ret v)" for v by (simp add: sends_only_def ret_def)
  show "sends_only P (throw e)" for e by (simp add: sends_only_def throw_def)
  show "sends_only P c \<Longrightarrow> sends_only P (setv x v c)" for x v c by (auto simp: sends_only_def setv_def)
  show "(\<And>v. sends_only P (k v)) \<Longrightarrow> sends_only P (getv x k)" for x k by (auto simp: sends_only_def getv_def)
  show "sends_only P c \<Longrightarrow> sends_only P (updv x f c)" for x f c by (auto simp: sends_only_def updv_def)
  show "sends_only P c \<Longrightarrow> (\<And>v. sends_only P (k v)) \<Longrightarrow> sends_only P (run c k)" for c k
    using sends_only_bind unfolding sends_only_def[of P "run c k"] by blast
  show "sends_only P (send E rq k)" if rq: "P rq" and k: "\<And>st body. sends_only P (k st body)" for E rq k
    unfolding sends_only_def
  proof (intro allI)
    fix s w
    obtain a w1 where f: "fetch E rq w = (a, w1)" by fastforce
    show "\<exists>rs. sent (snd (snd (send E rq k s w))) = sent w @ rs \<and> list_all P rs"
    proof (cases a)
      case (Resp st body)
      obtain r2 s2 w2 where e: "k st body s w1 = (r2, s2, w2)" by (metis prod_cases3)
      obtain rs where "sent w2 = sent w1 @ rs" "list_all P rs" by (rule sends_onlyD[OF k e])
      then show ?thesis using f fetch_sent_one[OF f] rq Resp e by (intro exI[of _ "rq # rs"]) (simp add: send_def)
    qed (use f fetch_sent_one[OF f] rq in \<open>auto simp: send_def\<close>)
  qed
  show "sends_only P (try_catch E c h fin)" if c: "sends_only P c" and h: "\<And>m. sends_only P (h m)" for E c h fin
    unfolding sends_only_def
  proof (intro allI)
    fix s w
    obtain r s1 w1 where e: "c s w = (r, s1, w1)" by (metis prod_cases3)
    obtain rs where rs: "sent w1 = sent w @ rs" "list_all P rs" by (rule sends_onlyD[OF c e])
    show "\<exists>rs. sent (snd (snd (try_catch E c h fin s w))) = sent w @ rs \<and> list_all P rs"
    proof (cases r)
      case (Inl x)
      obtain r2 s2 w2 where e2: "h (exn_message E x) s1 w1 = (r2, s2, w2)" by (metis prod_cases3)
      obtain rs2 where "sent w2 = sent w1 @ rs2" "list_all P rs2" by (rule sends_onlyD[OF h e2])
      then show ?thesis using e e2 rs Inl by (intro exI[of _ "rs @ rs2"]) (simp add: try_catch_def)
    qed (use e rs in \<open>auto simp: try_catch_def\<close>)
  qed
qed

subsection \<open>What the variables hold\<close>

text \<open>The variable \<open>error\<close> holds \<open>null\<close> or a text.\<close>

definition error_value :: "jsv \<Rightarrow> bool" where
  "error_value v = (case v of JNull \<Rightarrow> True | JStr _ \<Rightarrow> True | _ \<Rightarrow> False)"

definition typed :: "'w cmd \<Rightarrow> bool" where
  "typed c = (\<forall>s w. error_value (hs_var s ''error'') \<longrightarrow> error_value (hs_var (fst (snd (c s w))) ''error''))"

lemma error_value_simps [simp]: "error_value JNull" "error_value (JStr m)"
  by (simp_all add: error_value_def)

lemma typedD: "typed c \<Longrightarrow> c s w = (r, s', w') \<Longrightarrow> error_value (hs_var s ''error'') \<Longrightarrow> error_value (hs_var s' ''error'')"
  unfolding typed_def by (metis fst_conv snd_conv)

lemma finally_typed:
  "list_all (\<lambda>(x, v). x = ''error'' \<longrightarrow> error_value v) fin \<Longrightarrow> error_value (hs_var s ''error'') \<Longrightarrow> error_value (hs_var (finally_set fin s) ''error'')"
proof -
  have "error_value (f ''error'') \<Longrightarrow> list_all (\<lambda>(x, v). x = ''error'' \<longrightarrow> error_value v) fin \<Longrightarrow>
    error_value (foldl (\<lambda>f (k, v). f(k := v)) f fin ''error'')" for f
    by (induction fin arbitrary: f) auto
  then show "list_all (\<lambda>(x, v). x = ''error'' \<longrightarrow> error_value v) fin \<Longrightarrow> error_value (hs_var s ''error'') \<Longrightarrow> error_value (hs_var (finally_set fin s) ''error'')"
    by (simp add: finally_set_def)
qed

interpretation typed: op_rule typed "\<lambda>_. True" "\<lambda>x v. x = ''error'' \<longrightarrow> error_value v" "\<lambda>x _. x \<noteq> ''error''"
proof
  show "typed (ret v)" for v by (simp add: typed_def ret_def)
  show "typed (throw e)" for e by (simp add: typed_def throw_def)
  show "x = ''error'' \<longrightarrow> error_value v \<Longrightarrow> typed c \<Longrightarrow> typed (setv x v c)" for x v c by (auto simp: typed_def setv_def)
  show "(\<And>v. typed (k v)) \<Longrightarrow> typed (getv x k)" for x k by (auto simp: typed_def getv_def)
  show "x \<noteq> ''error'' \<Longrightarrow> typed c \<Longrightarrow> typed (updv x f c)" for x f c by (auto simp: typed_def updv_def split: option.split)
  show "(\<And>st body. typed (k st body)) \<Longrightarrow> typed (send E rq k)" for E rq k
    by (auto simp: typed_def send_def split: prod.split outcome.split)
  show "typed c \<Longrightarrow> (\<And>v. typed (k v)) \<Longrightarrow> typed (run c k)" for c k
    by (auto simp: typed_def[of "run c k"] run_def split: prod.split sum.split dest: typedD) (metis typedD typed_def)
  show "typed c \<Longrightarrow> (\<And>m. typed (h m)) \<Longrightarrow> list_all (\<lambda>(x, v). x = ''error'' \<longrightarrow> error_value v) fin \<Longrightarrow> typed (try_catch E c h fin)" for E c h fin
    by (auto simp: typed_def[of "try_catch E c h fin"] try_catch_def intro!: finally_typed split: prod.split sum.split dest: typedD)
qed

subsection \<open>Rejections\<close>

text \<open>The promise of an operation is never rejected.\<close>

definition quiet :: "'w cmd \<Rightarrow> bool" where
  "quiet c = (\<forall>s w. \<exists>v. fst (c s w) = Inr v)"

lemma quiet_rules:
  "quiet (ret v)" "quiet c \<Longrightarrow> quiet (setv x v c)" "(\<And>v. quiet (k v)) \<Longrightarrow> quiet (getv x k)" "quiet c \<Longrightarrow> quiet (updv x f c)"
  "\<lbrakk>b \<Longrightarrow> quiet c; \<not> b \<Longrightarrow> quiet d\<rbrakk> \<Longrightarrow> quiet (branch b c d)" "(\<And>m. quiet (h m)) \<Longrightarrow> quiet (try_catch E c' h fin)"
  by (auto simp: quiet_def ret_def setv_def getv_def updv_def branch_def try_catch_def split: prod.split sum.split) (metis fst_conv)

lemma quiet_run: "quiet c \<Longrightarrow> (\<And>v. quiet (k v)) \<Longrightarrow> quiet (run c k)"
  unfolding quiet_def run_def by (auto split: prod.split sum.split) (metis Inl_Inr_False fst_conv)

subsection \<open>The sign of loading\<close>

text \<open>An operation ends with the sign \<open>b\<close> taken back; or it does so if the sign was not set before.\<close>

definition ends :: "string \<Rightarrow> 'w cmd \<Rightarrow> bool" where
  "ends b c = (\<forall>s w. hs_var (fst (snd (c s w))) b = JBool False)"

definition calm :: "string \<Rightarrow> 'w cmd \<Rightarrow> bool" where
  "calm b c = (\<forall>s w. hs_var s b = JBool False \<longrightarrow> hs_var (fst (snd (c s w))) b = JBool False)"

lemma calmD: "calm b c \<Longrightarrow> c s w = (r, s', w') \<Longrightarrow> hs_var s b = JBool False \<Longrightarrow> hs_var s' b = JBool False"
  unfolding calm_def by (metis fst_conv snd_conv)

lemma finally_foldl: "foldl (\<lambda>f (k, v). f(k := v)) f fin b = (case assoc b (rev fin) of None \<Rightarrow> f b | Some v \<Rightarrow> v)"
  by (induction fin rule: rev_induct) auto

lemma ends_rules:
  "ends b c \<Longrightarrow> ends b (setv x v c)" "assoc b (rev fin) = Some (JBool False) \<Longrightarrow> ends b (try_catch E c' h fin)"
  by (auto simp: ends_def setv_def try_catch_def finally_set_def finally_foldl split: prod.split sum.split)

lemma calm_setv: "(if x = b \<and> v \<noteq> JBool False then ends b c else calm b c) \<Longrightarrow> calm b (setv x v c)"
  by (auto simp: calm_def ends_def setv_def split: if_splits)

interpretation calm: op_rule "calm b" "\<lambda>_. True" "\<lambda>x v. x = b \<longrightarrow> v = JBool False" "\<lambda>x _. x \<noteq> b" for b
proof
  show "calm b (ret v)" for v by (simp add: calm_def ret_def)
  show "calm b (throw e)" for e by (simp add: calm_def throw_def)
  show "x = b \<longrightarrow> v = JBool False \<Longrightarrow> calm b c \<Longrightarrow> calm b (setv x v c)" for x v c by (auto simp: calm_def setv_def)
  show "(\<And>v. calm b (k v)) \<Longrightarrow> calm b (getv x k)" for x k by (auto simp: calm_def getv_def)
  show "x \<noteq> b \<Longrightarrow> calm b c \<Longrightarrow> calm b (updv x f c)" for x f c by (auto simp: calm_def updv_def split: option.split)
  show "(\<And>st body. calm b (k st body)) \<Longrightarrow> calm b (send E rq k)" for E rq k
    by (auto simp: calm_def send_def split: prod.split outcome.split)
  show "calm b c \<Longrightarrow> (\<And>v. calm b (k v)) \<Longrightarrow> calm b (run c k)" for c k
    by (auto simp: calm_def[of b "run c k"] run_def split: prod.split sum.split dest: calmD) (metis calmD calm_def)
  show "calm b (try_catch E c h fin)" if c: "calm b c" "\<And>m. calm b (h m)" and f: "list_all (\<lambda>(x, v). x = b \<longrightarrow> v = JBool False) fin" for E c h fin
  proof -
    have "v = JBool False" if "assoc b (rev fin) = Some v" for v
      using f that by (induction fin rule: rev_induct) (auto split: if_splits)
    then show ?thesis using c
      by (auto simp: calm_def[of b "try_catch E c h fin"] try_catch_def finally_set_def finally_foldl split: prod.split sum.split option.split dest: calmD)
  qed
qed

section \<open>The contract of an operation\<close>

text \<open>Every request satisfies \<open>P\<close>, the promise is not rejected, the error stays \<open>null\<close> or a text, and the signs of loading are taken back.\<close>

definition good_op :: "(request \<Rightarrow> bool) \<Rightarrow> 'w cmd \<Rightarrow> bool" where
  "good_op P c = (sends_only P c \<and> quiet c \<and> typed c \<and> calm ''loading'' c \<and> calm ''isLoading'' c)"

lemmas op_intros = sends.rules typed.rules calm.ret_rule calm.throw_rule calm.getv_rule calm.updv_rule calm.send_rule calm.run_rule calm.try_rule
  calm.unless_ok_rule calm.read_json_rule calm.reads_rule calm.branch_rule calm_setv ends_rules quiet_rules quiet_run

text \<open>Operations called one after the other, with their results.\<close>

fun run_all :: "'w cmd list \<Rightarrow> hook_state \<Rightarrow> 'w world \<Rightarrow> (exn + jsv) list \<times> hook_state \<times> 'w world" where
  "run_all [] s w = ([], s, w)"
| "run_all (c # cs) s w = (case c s w of (r, s1, w1) \<Rightarrow> (case run_all cs s1 w1 of (rs, s2, w2) \<Rightarrow> (r # rs, s2, w2)))"

lemma run_all_good:
  assumes "list_all (good_op P) cs" "b \<in> {''loading'', ''isLoading''}" "hs_var s b = JBool False" "error_value (hs_var s ''error'')"
    and "run_all cs s w = (rs, s', w')"
  shows "list_all (\<lambda>r. \<exists>v. r = Inr v) rs \<and> hs_var s' b = JBool False \<and> error_value (hs_var s' ''error'') \<and>
    (\<exists>qs. sent w' = sent w @ qs \<and> list_all P qs)"
  using assms
proof (induction cs arbitrary: s w rs s' w')
  case (Cons c cs)
  obtain r s1 w1 where c: "c s w = (r, s1, w1)" by (metis prod_cases3)
  obtain rs2 s2 w2 where cs: "run_all cs s1 w1 = (rs2, s2, w2)" by (metis prod_cases3)
  have g: "good_op P c" "list_all (good_op P) cs" using Cons.prems(1) by simp_all
  have "calm b c" using g(1) Cons.prems(2) by (auto simp: good_op_def)
  then have 1: "hs_var s1 b = JBool False" using c Cons.prems(3) calmD by blast
  have 2: "error_value (hs_var s1 ''error'')" using g(1) c Cons.prems(4) typedD unfolding good_op_def by blast
  have 3: "\<exists>v. r = Inr v" using g(1) c unfolding good_op_def quiet_def by (metis fst_conv)
  obtain qs where q: "sent w1 = sent w @ qs" "list_all P qs" using g(1) c sends_onlyD unfolding good_op_def by metis
  have ih: "list_all (\<lambda>r. \<exists>v. r = Inr v) rs2 \<and> hs_var s2 b = JBool False \<and> error_value (hs_var s2 ''error'') \<and>
    (\<exists>qs. sent w2 = sent w1 @ qs \<and> list_all P qs)" by (rule Cons.IH[OF g(2) Cons.prems(2) 1 2 cs])
  moreover have "rs = r # rs2" "s' = s2" "w' = w2" using Cons.prems(5) c cs by simp_all
  moreover obtain qs2 where "sent w2 = sent w1 @ qs2" "list_all P qs2" using ih by blast
  ultimately show ?case using 3 q by (auto intro!: exI[of _ "qs @ qs2"])
qed auto

section \<open>Refused requests\<close>

text \<open>A server that cannot be reached or accepts nothing, and the operations that then show nothing new: of the variables beside the error and
  the signs of loading, each is as it was or has been emptied.\<close>

definition all_refused :: "'w env \<Rightarrow> bool" where
  "all_refused E = (\<forall>w rq st body. fst (net E w rq) = Resp st body \<longrightarrow> \<not> resp_ok st)"

definition emptied :: "jsv \<Rightarrow> bool" where
  "emptied v = (v = JNull \<or> v = JArr [])"

definition status_vars :: "string set" where
  "status_vars = {''error'', ''loading'', ''isLoading''}"

definition no_more :: "hook_state \<Rightarrow> hook_state \<Rightarrow> bool" where
  "no_more s s' = (\<forall>x. x \<notin> status_vars \<longrightarrow> hs_var s' x = hs_var s x \<or> emptied (hs_var s' x))"

definition blank :: "'w cmd \<Rightarrow> bool" where
  "blank c = (\<forall>s w. no_more s (fst (snd (c s w))))"

lemma no_more_trans [trans]:
  assumes "no_more s t" "no_more t u"
  shows "no_more s u"
  unfolding no_more_def
proof (intro allI impI)
  fix x
  assume "x \<notin> status_vars"
  then have "hs_var t x = hs_var s x \<or> emptied (hs_var t x)" "hs_var u x = hs_var t x \<or> emptied (hs_var u x)"
    using assms by (simp_all add: no_more_def)
  then show "hs_var u x = hs_var s x \<or> emptied (hs_var u x)" by auto
qed

lemma no_more_set: "x \<in> status_vars \<or> emptied v \<Longrightarrow> no_more s (s\<lparr>hs_var := (hs_var s)(x := v)\<rparr>)"
  by (auto simp: no_more_def)

lemma blankI: "(\<And>s w. no_more s (fst (snd (c s w)))) \<Longrightarrow> blank c"
  by (simp add: blank_def)

lemma blankD: "blank c \<Longrightarrow> c s w = (r, s', w') \<Longrightarrow> no_more s s'"
  unfolding blank_def by (metis fst_conv snd_conv)

lemma blank_setv: "x \<in> status_vars \<or> emptied v \<Longrightarrow> blank c \<Longrightarrow> blank (setv x v c)"
  by (simp add: blank_def setv_def no_more_trans[OF no_more_set])

lemma blank_rules:
  "blank (ret v)" "blank (throw e)" "(\<And>v. blank (k v)) \<Longrightarrow> blank (getv x k)"
  "\<lbrakk>b \<Longrightarrow> blank c; \<not> b \<Longrightarrow> blank d\<rbrakk> \<Longrightarrow> blank (branch b c d)"
  "blank c \<Longrightarrow> blank (reads v c)"
  by (auto simp: blank_def ret_def throw_def getv_def unless_ok_def branch_def reads_def no_more_def)

lemma blank_send:
  assumes "all_refused E" "\<And>st body. \<not> resp_ok st \<Longrightarrow> blank (k st body)"
  shows "blank (send E rq k)"
proof (rule blankI)
  fix s w
  obtain a w1 where f: "fetch E rq w = (a, w1)" by fastforce
  show "no_more s (fst (snd (send E rq k s w)))"
  proof (cases a)
    case (Resp st body)
    then have "\<not> resp_ok st" using f assms(1) by (auto simp: fetch_def all_refused_def case_prod_beta)
    then show ?thesis using assms(2)[of st body] f Resp by (simp add: send_def blank_def)
  qed (use f in \<open>simp add: send_def no_more_def\<close>)
qed

lemma blank_run:
  assumes "blank c" "\<And>v. blank (k v)"
  shows "blank (run c k)"
proof (rule blankI)
  fix s w
  obtain r s1 w1 where e: "c s w = (r, s1, w1)" by (metis prod_cases3)
  show "no_more s (fst (snd (run c k s w)))"
  proof (cases r)
    case (Inr v)
    obtain r2 s2 w2 where e2: "k v s1 w1 = (r2, s2, w2)" by (metis prod_cases3)
    show ?thesis using no_more_trans[OF blankD[OF assms(1) e] blankD[OF assms(2) e2]] by (simp add: run_def e e2 Inr)
  qed (use blankD[OF assms(1) e] in \<open>simp add: run_def e\<close>)
qed

lemma blank_try:
  assumes "blank c" "\<And>m. blank (h m)" and f: "list_all (\<lambda>(x, v). x \<in> status_vars) fin"
  shows "blank (try_catch E c h fin)"
proof (rule blankI)
  fix s w
  have fin: "no_more t (finally_set fin t)" for t
  proof -
    have "assoc x (rev fin) = None" if "x \<notin> status_vars" for x using f that by (induction fin rule: rev_induct) auto
    then show ?thesis by (simp add: finally_set_def finally_foldl no_more_def)
  qed
  obtain r s1 w1 where e: "c s w = (r, s1, w1)" by (metis prod_cases3)
  note c = blankD[OF assms(1) e]
  show "no_more s (fst (snd (try_catch E c h fin s w)))"
  proof (cases r)
    case (Inl y)
    obtain r2 s2 w2 where e2: "h (exn_message E y) s1 w1 = (r2, s2, w2)" by (metis prod_cases3)
    show ?thesis using no_more_trans[OF no_more_trans[OF c blankD[OF assms(2) e2]] fin] by (simp add: try_catch_def e e2 Inl)
  qed (use no_more_trans[OF c fin] in \<open>simp add: try_catch_def e\<close>)
qed

lemma blank_consts [simp]: "emptied JNull" "emptied (JArr [])" "''error'' \<in> status_vars" "''loading'' \<in> status_vars" "''isLoading'' \<in> status_vars"
  by (simp_all add: emptied_def status_vars_def)

lemma blank_send_any: "all_refused E \<Longrightarrow> (\<And>st body. blank (k st body)) \<Longrightarrow> blank (send E rq k)"
  by (rule blank_send)

lemma blank_send_tested: "all_refused E \<Longrightarrow> blank (send E rq (\<lambda>st body. unless_ok st (m st body) (k st body)))"
  by (rule blank_send) (simp_all add: unless_ok_def blank_rules)

lemmas blank_intros = blank_rules blank_setv blank_run blank_try blank_send_any blank_send_tested

end
