(* ===== verification/Hooks_Auth.thy ===== *)
theory Hooks_Auth
  imports Hook_Ops
begin

text \<open>
  The resource hooks \<open>sdk/react/src/use*.ts\<close> that take the token and the tenant from the provider and the storage, beside those of
  \<open>Sdk_Hooks\<close>, \<open>Sdk_Local_Hooks\<close> and \<open>Sdk_Admin_Hooks\<close>.  For each hook its initial state, its operations in the order of the file, and the set
  of the operations it returns with all their arguments.  Every operation is shown to keep the contract of \<open>Hook_Ops\<close> with requests that
  carry the token and the tenant.
\<close>

text \<open>A request with the token and the tenant of the context.\<close>

definition with_credentials :: "hctx \<Rightarrow> request \<Rightarrow> bool" where
  "with_credentials x rq = (assoc ''Authorization'' (hdrs rq) = Some (''Bearer '' @ js_to_string (hc_token x)) \<and>
     assoc ''X-Tenant-ID'' (hdrs rq) = Some (hc_tenant x))"

lemma hook_request_credentials [simp]: "with_credentials x (hook_request m path body x)"
  by (simp add: with_credentials_def hook_request_def makeHeaders_def)

section \<open>\<open>useAccessPaths\<close>\<close>

definition useAccessPaths_init :: "hook_state" where
  "useAccessPaths_init = state_of [(''result'', JNull), (''isLoading'', JBool False), (''error'', JNull)]"

definition useAccessPaths_makeHeaders :: "hctx \<Rightarrow> headers" where
  "useAccessPaths_makeHeaders x = makeHeaders x"

definition useAccessPaths_analyze :: "'w env \<Rightarrow> hctx \<Rightarrow> string \<Rightarrow> 'w cmd" where
  "useAccessPaths_analyze E x userId = setv ''isLoading'' (JBool True) (setv ''error'' JNull
     (try_catch E
     (send E (hook_request ''GET'' (''/api/v1/policy/access-paths?user_id='' @ encodeURIComponent userId) None x) (\<lambda>st body.
     unless_ok st (''Analysis failed ('' @ show_int st @ '')'') (read_json body (\<lambda>v. setv ''result'' v (ret JUndef)))))
     (\<lambda>m. setv ''error'' (JStr m) (ret JUndef)) [(''isLoading'', JBool False)]))"

definition useAccessPaths_ops :: "'w env \<Rightarrow> hctx \<Rightarrow> 'w cmd set" where
  "useAccessPaths_ops E x = {useAccessPaths_analyze E x userId |userId. True}"

lemma useAccessPaths_blank: "c \<in> useAccessPaths_ops E x \<Longrightarrow> all_refused E \<Longrightarrow> blank c"
  unfolding useAccessPaths_ops_def useAccessPaths_analyze_def
  by (elim UnE CollectE exE conjE singletonE; simp add: blank_intros)

lemma useAccessPaths_good: "c \<in> useAccessPaths_ops E x \<Longrightarrow> good_op (with_credentials x) c"
  unfolding useAccessPaths_ops_def good_op_def useAccessPaths_analyze_def
  by (elim UnE CollectE exE conjE singletonE; simp add: op_intros)

section \<open>\<open>useAccessReviews\<close>\<close>

definition useAccessReviews_init :: "hook_state" where
  "useAccessReviews_init = state_of [(''campaigns'', JArr []), (''items'', JArr []), (''isLoading'', JBool False), (''error'', JNull)]"

definition useAccessReviews_makeHeaders :: "hctx \<Rightarrow> headers" where
  "useAccessReviews_makeHeaders x = makeHeaders x"

definition useAccessReviews_fetchCampaigns :: "'w env \<Rightarrow> hctx \<Rightarrow> 'w cmd" where
  "useAccessReviews_fetchCampaigns E x = branch (\<not> truthy (hc_token x)) (ret JUndef) (setv ''isLoading'' (JBool True) (setv ''error'' JNull
     (try_catch E
     (send E (hook_request ''GET'' ''/api/v1/audit/access-reviews'' None x) (\<lambda>st body.
     unless_ok st (''Failed to fetch campaigns ('' @ show_int st @ '')'') (read_json body (\<lambda>data'. reads data' (setv ''campaigns'' (js_nullish
       (js_nullish (js_opt_prop data' ''campaigns'') (js_opt_prop data' ''items'')) (JArr [])) (ret JUndef))))))
     (\<lambda>m. setv ''error'' (JStr m) (setv ''campaigns'' (JArr []) (ret JUndef))) [(''isLoading'', JBool False)])))"

definition useAccessReviews_effect :: "'w env \<Rightarrow> hctx \<Rightarrow> bool \<Rightarrow> 'w cmd" where
  "useAccessReviews_effect E x authenticated = branch authenticated (run (useAccessReviews_fetchCampaigns E x) (\<lambda>_. ret JUndef)) (ret JUndef)"

definition useAccessReviews_createCampaign :: "'w env \<Rightarrow> hctx \<Rightarrow> jsv \<Rightarrow> 'w cmd" where
  "useAccessReviews_createCampaign E x input = try_catch E
     (send E (hook_request ''POST'' ''/api/v1/audit/access-reviews'' (Some input) x) (\<lambda>st body.
     unless_ok st (''Failed to create campaign ('' @ show_int st @ '')'') (read_json body (\<lambda>created. run (useAccessReviews_fetchCampaigns E x)
       (\<lambda>_. ret created)))))
     (\<lambda>m. setv ''error'' (JStr m) (ret JNull)) []"

definition useAccessReviews_submitReview :: "'w env \<Rightarrow> hctx \<Rightarrow> string \<Rightarrow> string \<Rightarrow> string \<Rightarrow> 'w cmd" where
  "useAccessReviews_submitReview E x campaignId itemId decision = try_catch E
     (send E (hook_request ''POST'' (''/api/v1/audit/access-reviews/'' @ campaignId @ ''/items/'' @ itemId) (Some (JObj [(''decision'', JStr
       decision)])) x) (\<lambda>st body.
     unless_ok st (''Failed to submit review ('' @ show_int st @ '')'') (updv ''items'' (filter_items (\<lambda>i. js_opt_prop i ''id'' \<noteq> JStr
       itemId)) (ret (JBool True)))))
     (\<lambda>m. setv ''error'' (JStr m) (ret (JBool False))) []"

definition useAccessReviews_deleteCampaign :: "'w env \<Rightarrow> hctx \<Rightarrow> string \<Rightarrow> 'w cmd" where
  "useAccessReviews_deleteCampaign E x id' = try_catch E
     (send E (hook_request ''DELETE'' (''/api/v1/audit/access-reviews/'' @ id') None x) (\<lambda>st body.
     unless_ok st (''Failed to delete campaign ('' @ show_int st @ '')'') (updv ''campaigns'' (filter_items (\<lambda>c'. js_opt_prop c' ''id''
       \<noteq> JStr id')) (ret (JBool True)))))
     (\<lambda>m. setv ''error'' (JStr m) (ret (JBool False))) []"

definition useAccessReviews_ops :: "'w env \<Rightarrow> hctx \<Rightarrow> 'w cmd set" where
  "useAccessReviews_ops E x = {useAccessReviews_fetchCampaigns E x} \<union> {useAccessReviews_effect E x authenticated |authenticated. True} \<union>
       {useAccessReviews_createCampaign E x input |input. True} \<union> {useAccessReviews_submitReview E x campaignId itemId decision |campaignId
       itemId decision. True} \<union> {useAccessReviews_deleteCampaign E x id' |id'. True}"

lemma useAccessReviews_blank: "c \<in> useAccessReviews_ops E x \<Longrightarrow> all_refused E \<Longrightarrow> blank c"
  unfolding useAccessReviews_ops_def useAccessReviews_fetchCampaigns_def useAccessReviews_effect_def useAccessReviews_createCampaign_def useAccessReviews_submitReview_def useAccessReviews_deleteCampaign_def
  by (elim UnE CollectE exE conjE singletonE; simp add: blank_intros)

lemma useAccessReviews_good: "c \<in> useAccessReviews_ops E x \<Longrightarrow> good_op (with_credentials x) c"
  unfolding useAccessReviews_ops_def good_op_def useAccessReviews_fetchCampaigns_def useAccessReviews_effect_def useAccessReviews_createCampaign_def useAccessReviews_submitReview_def useAccessReviews_deleteCampaign_def
  by (elim UnE CollectE exE conjE singletonE; simp add: op_intros)

section \<open>\<open>useAnomalies\<close>\<close>

definition useAnomalies_init :: "hook_state" where
  "useAnomalies_init = state_of [(''anomalies'', JArr []), (''isLoading'', JBool False), (''error'', JNull)]"

definition useAnomalies_makeHeaders :: "hctx \<Rightarrow> headers" where
  "useAnomalies_makeHeaders x = makeHeaders x"

definition useAnomalies_fetchAnomalies :: "'w env \<Rightarrow> hctx \<Rightarrow> jsv \<Rightarrow> 'w cmd" where
  "useAnomalies_fetchAnomalies E x status' = branch (\<not> truthy (hc_token x)) (ret JUndef) (setv ''isLoading'' (JBool True) (setv ''error'' JNull
     (try_catch E
     (send E (hook_request ''GET'' (''/api/v1/audit/anomalies'' @ (if truthy status' then ''?status='' @ encodeURIComponent (js_to_string status')
       else [])) None x) (\<lambda>st body.
     unless_ok st (''Failed ('' @ show_int st @ '')'') (read_json body (\<lambda>v. setv ''anomalies'' v (ret JUndef)))))
     (\<lambda>m. setv ''error'' (JStr m) (ret JUndef)) [(''isLoading'', JBool False)])))"

definition useAnomalies_dismiss :: "'w env \<Rightarrow> hctx \<Rightarrow> string \<Rightarrow> string \<Rightarrow> 'w cmd" where
  "useAnomalies_dismiss E x id' reason' = try_catch E
     (send E (hook_request ''POST'' (''/api/v1/audit/anomalies/'' @ id' @ ''/dismiss'') (Some (JObj [(''reason'', JStr reason')])) x) (\<lambda>st
       body.
     unless_ok st (''Dismiss failed ('' @ show_int st @ '')'') (updv ''anomalies'' (map_items (\<lambda>a. if js_opt_prop a ''id'' = JStr id' then
       with_entries a [(''status'', JStr ''dismissed'')] else a)) (ret (JBool True)))))
     (\<lambda>m. setv ''error'' (JStr m) (ret (JBool False))) []"

definition useAnomalies_escalate :: "'w env \<Rightarrow> hctx \<Rightarrow> string \<Rightarrow> string \<Rightarrow> 'w cmd" where
  "useAnomalies_escalate E x id' note' = try_catch E
     (send E (hook_request ''POST'' (''/api/v1/audit/anomalies/'' @ id' @ ''/escalate'') (Some (JObj [(''note'', JStr note')])) x) (\<lambda>st body.
     unless_ok st (''Escalate failed ('' @ show_int st @ '')'') (updv ''anomalies'' (map_items (\<lambda>a. if js_opt_prop a ''id'' = JStr id' then
       with_entries a [(''status'', JStr ''escalated'')] else a)) (ret (JBool True)))))
     (\<lambda>m. setv ''error'' (JStr m) (ret (JBool False))) []"

definition useAnomalies_ops :: "'w env \<Rightarrow> hctx \<Rightarrow> 'w cmd set" where
  "useAnomalies_ops E x = {useAnomalies_fetchAnomalies E x status' |status'. True} \<union> {useAnomalies_dismiss E x id' reason' |id' reason'. True}
       \<union> {useAnomalies_escalate E x id' note' |id' note'. True}"

lemma useAnomalies_blank: "c \<in> useAnomalies_ops E x \<Longrightarrow> all_refused E \<Longrightarrow> blank c"
  unfolding useAnomalies_ops_def useAnomalies_fetchAnomalies_def useAnomalies_dismiss_def useAnomalies_escalate_def
  by (elim UnE CollectE exE conjE singletonE; simp add: blank_intros)

lemma useAnomalies_good: "c \<in> useAnomalies_ops E x \<Longrightarrow> good_op (with_credentials x) c"
  unfolding useAnomalies_ops_def good_op_def useAnomalies_fetchAnomalies_def useAnomalies_dismiss_def useAnomalies_escalate_def
  by (elim UnE CollectE exE conjE singletonE; simp add: op_intros)

section \<open>\<open>useApprovals\<close>\<close>

definition useApprovals_init :: "hook_state" where
  "useApprovals_init = state_of [(''pending'', JArr []), (''history'', JArr []), (''isLoading'', JBool False), (''error'', JNull)]"

definition useApprovals_makeHeaders :: "hctx \<Rightarrow> headers" where
  "useApprovals_makeHeaders x = makeHeaders x"

definition useApprovals_fetchPending :: "'w env \<Rightarrow> hctx \<Rightarrow> 'w cmd" where
  "useApprovals_fetchPending E x = branch (\<not> truthy (hc_token x)) (ret JUndef) (setv ''isLoading'' (JBool True) (setv ''error'' JNull
     (try_catch E
     (send E (hook_request ''GET'' ''/api/v1/policy/approvals?status=pending'' None x) (\<lambda>st body.
     unless_ok st (''Failed ('' @ show_int st @ '')'') (read_json body (\<lambda>v. setv ''pending'' v (ret JUndef)))))
     (\<lambda>m. setv ''error'' (JStr m) (ret JUndef)) [(''isLoading'', JBool False)])))"

definition useApprovals_fetchHistory :: "'w env \<Rightarrow> hctx \<Rightarrow> 'w cmd" where
  "useApprovals_fetchHistory E x = branch (\<not> truthy (hc_token x)) (ret JUndef)
     (try_catch E
     (send E (hook_request ''GET'' ''/api/v1/policy/approvals?status=completed'' None x) (\<lambda>st body.
     unless_ok st (''Failed ('' @ show_int st @ '')'') (read_json body (\<lambda>v. setv ''history'' v (ret JUndef)))))
     (\<lambda>m. setv ''error'' (JStr m) (ret JUndef)) [])"

definition useApprovals_approve :: "'w env \<Rightarrow> hctx \<Rightarrow> string \<Rightarrow> string \<Rightarrow> 'w cmd" where
  "useApprovals_approve E x id' comment = try_catch E
     (send E (hook_request ''POST'' (''/api/v1/policy/approvals/'' @ id' @ ''/approve'') (Some (JObj [(''comment'', JStr comment)])) x) (\<lambda>st
       body.
     unless_ok st (''Approve failed ('' @ show_int st @ '')'') (run (useApprovals_fetchPending E x) (\<lambda>_. ret (JBool True)))))
     (\<lambda>m. setv ''error'' (JStr m) (ret (JBool False))) []"

definition useApprovals_reject :: "'w env \<Rightarrow> hctx \<Rightarrow> string \<Rightarrow> string \<Rightarrow> 'w cmd" where
  "useApprovals_reject E x id' comment = try_catch E
     (send E (hook_request ''POST'' (''/api/v1/policy/approvals/'' @ id' @ ''/reject'') (Some (JObj [(''comment'', JStr comment)])) x) (\<lambda>st
       body.
     unless_ok st (''Reject failed ('' @ show_int st @ '')'') (run (useApprovals_fetchPending E x) (\<lambda>_. ret (JBool True)))))
     (\<lambda>m. setv ''error'' (JStr m) (ret (JBool False))) []"

definition useApprovals_cancel :: "'w env \<Rightarrow> hctx \<Rightarrow> string \<Rightarrow> 'w cmd" where
  "useApprovals_cancel E x id' = try_catch E
     (send E (hook_request ''POST'' (''/api/v1/policy/approvals/'' @ id' @ ''/cancel'') None x) (\<lambda>st body.
     unless_ok st (''Cancel failed ('' @ show_int st @ '')'') (run (useApprovals_fetchPending E x) (\<lambda>_. ret (JBool True)))))
     (\<lambda>m. setv ''error'' (JStr m) (ret (JBool False))) []"

definition useApprovals_ops :: "'w env \<Rightarrow> hctx \<Rightarrow> 'w cmd set" where
  "useApprovals_ops E x = {useApprovals_fetchPending E x} \<union> {useApprovals_fetchHistory E x} \<union> {useApprovals_approve E x id' comment |id'
       comment. True} \<union> {useApprovals_reject E x id' comment |id' comment. True} \<union> {useApprovals_cancel E x id' |id'. True}"

lemma useApprovals_blank: "c \<in> useApprovals_ops E x \<Longrightarrow> all_refused E \<Longrightarrow> blank c"
  unfolding useApprovals_ops_def useApprovals_fetchPending_def useApprovals_fetchHistory_def useApprovals_approve_def useApprovals_reject_def useApprovals_cancel_def
  by (elim UnE CollectE exE conjE singletonE; simp add: blank_intros)

lemma useApprovals_good: "c \<in> useApprovals_ops E x \<Longrightarrow> good_op (with_credentials x) c"
  unfolding useApprovals_ops_def good_op_def useApprovals_fetchPending_def useApprovals_fetchHistory_def useApprovals_approve_def useApprovals_reject_def useApprovals_cancel_def
  by (elim UnE CollectE exE conjE singletonE; simp add: op_intros)

section \<open>\<open>useBranding\<close>\<close>

definition useBranding_init :: "hook_state" where
  "useBranding_init = state_of [(''branding'', JNull), (''isLoading'', JBool False), (''error'', JNull)]"

definition useBranding_makeHeaders :: "hctx \<Rightarrow> headers" where
  "useBranding_makeHeaders x = makeHeaders x"

definition useBranding_fetchBranding :: "'w env \<Rightarrow> hctx \<Rightarrow> 'w cmd" where
  "useBranding_fetchBranding E x = branch (\<not> truthy (hc_token x)) (ret JUndef) (setv ''isLoading'' (JBool True) (setv ''error'' JNull
     (try_catch E
     (send E (hook_request ''GET'' ''/api/v1/settings/branding'' None x) (\<lambda>st body.
     unless_ok st (''Failed to fetch branding ('' @ show_int st @ '')'') (read_json body (\<lambda>data'. setv ''branding'' data' (ret JUndef)))))
     (\<lambda>m. setv ''error'' (JStr m) (setv ''branding'' JNull (ret JUndef))) [(''isLoading'', JBool False)])))"

definition useBranding_effect :: "'w env \<Rightarrow> hctx \<Rightarrow> bool \<Rightarrow> 'w cmd" where
  "useBranding_effect E x authenticated = branch authenticated (run (useBranding_fetchBranding E x) (\<lambda>_. ret JUndef)) (ret JUndef)"

definition useBranding_updateBranding :: "'w env \<Rightarrow> hctx \<Rightarrow> jsv \<Rightarrow> 'w cmd" where
  "useBranding_updateBranding E x config' = try_catch E
     (send E (hook_request ''PUT'' ''/api/v1/settings/branding'' (Some config') x) (\<lambda>st body.
     unless_ok st (''Failed to update branding ('' @ show_int st @ '')'') (read_json body (\<lambda>updated. setv ''branding'' updated (ret (JBool
       True))))))
     (\<lambda>m. setv ''error'' (JStr m) (ret (JBool False))) []"

definition useBranding_ops :: "'w env \<Rightarrow> hctx \<Rightarrow> 'w cmd set" where
  "useBranding_ops E x = {useBranding_fetchBranding E x} \<union> {useBranding_effect E x authenticated |authenticated. True} \<union>
       {useBranding_updateBranding E x config' |config'. True}"

lemma useBranding_blank: "c \<in> useBranding_ops E x \<Longrightarrow> all_refused E \<Longrightarrow> blank c"
  unfolding useBranding_ops_def useBranding_fetchBranding_def useBranding_effect_def useBranding_updateBranding_def
  by (elim UnE CollectE exE conjE singletonE; simp add: blank_intros)

lemma useBranding_good: "c \<in> useBranding_ops E x \<Longrightarrow> good_op (with_credentials x) c"
  unfolding useBranding_ops_def good_op_def useBranding_fetchBranding_def useBranding_effect_def useBranding_updateBranding_def
  by (elim UnE CollectE exE conjE singletonE; simp add: op_intros)

section \<open>\<open>useClientAnalytics\<close>\<close>

definition useClientAnalytics_init :: "hook_state" where
  "useClientAnalytics_init = state_of [(''analytics'', JArr []), (''isLoading'', JBool False), (''error'', JNull)]"

definition useClientAnalytics_makeHeaders :: "hctx \<Rightarrow> headers" where
  "useClientAnalytics_makeHeaders x = makeHeaders x"

definition useClientAnalytics_fetchAnalytics :: "'w env \<Rightarrow> hctx \<Rightarrow> jsv \<Rightarrow> 'w cmd" where
  "useClientAnalytics_fetchAnalytics E x clientId = branch (\<not> truthy (hc_token x)) (ret JUndef) (setv ''isLoading'' (JBool True) (setv ''error''
       JNull
     (try_catch E
     (send E (hook_request ''GET'' (''/api/v1/oauth/analytics'' @ (if truthy clientId then ''?client_id='' @ encodeURIComponent (js_to_string
       clientId) else [])) None x) (\<lambda>st body.
     unless_ok st (''Failed ('' @ show_int st @ '')'') (read_json body (\<lambda>v. setv ''analytics'' v (ret JUndef)))))
     (\<lambda>m. setv ''error'' (JStr m) (ret JUndef)) [(''isLoading'', JBool False)])))"

definition useClientAnalytics_ops :: "'w env \<Rightarrow> hctx \<Rightarrow> 'w cmd set" where
  "useClientAnalytics_ops E x = {useClientAnalytics_fetchAnalytics E x clientId |clientId. True}"

lemma useClientAnalytics_blank: "c \<in> useClientAnalytics_ops E x \<Longrightarrow> all_refused E \<Longrightarrow> blank c"
  unfolding useClientAnalytics_ops_def useClientAnalytics_fetchAnalytics_def
  by (elim UnE CollectE exE conjE singletonE; simp add: blank_intros)

lemma useClientAnalytics_good: "c \<in> useClientAnalytics_ops E x \<Longrightarrow> good_op (with_credentials x) c"
  unfolding useClientAnalytics_ops_def good_op_def useClientAnalytics_fetchAnalytics_def
  by (elim UnE CollectE exE conjE singletonE; simp add: op_intros)

section \<open>\<open>useComplianceDashboard\<close>\<close>

definition useComplianceDashboard_init :: "hook_state" where
  "useComplianceDashboard_init = state_of [(''frameworks'', JArr []), (''isLoading'', JBool False), (''error'', JNull)]"

definition useComplianceDashboard_fetchDashboard :: "'w env \<Rightarrow> hctx \<Rightarrow> 'w cmd" where
  "useComplianceDashboard_fetchDashboard E x = branch (\<not> truthy (hc_token x)) (ret JUndef) (setv ''isLoading'' (JBool True) (setv ''error'' JNull
     (try_catch E
     (send E (hook_request ''GET'' ''/api/v1/audit/compliance-dashboard'' None x) (\<lambda>st body.
     unless_ok st (''Failed ('' @ show_int st @ '')'') (read_json body (\<lambda>v. setv ''frameworks'' v (ret JUndef)))))
     (\<lambda>m. setv ''error'' (JStr m) (ret JUndef)) [(''isLoading'', JBool False)])))"

definition useComplianceDashboard_ops :: "'w env \<Rightarrow> hctx \<Rightarrow> 'w cmd set" where
  "useComplianceDashboard_ops E x = {useComplianceDashboard_fetchDashboard E x}"

lemma useComplianceDashboard_blank: "c \<in> useComplianceDashboard_ops E x \<Longrightarrow> all_refused E \<Longrightarrow> blank c"
  unfolding useComplianceDashboard_ops_def useComplianceDashboard_fetchDashboard_def
  by (elim UnE CollectE exE conjE singletonE; simp add: blank_intros)

lemma useComplianceDashboard_good: "c \<in> useComplianceDashboard_ops E x \<Longrightarrow> good_op (with_credentials x) c"
  unfolding useComplianceDashboard_ops_def good_op_def useComplianceDashboard_fetchDashboard_def
  by (elim UnE CollectE exE conjE singletonE; simp add: op_intros)

section \<open>\<open>useComplianceMapping\<close>\<close>

definition useComplianceMapping_init :: "hook_state" where
  "useComplianceMapping_init = state_of [(''mappings'', JArr []), (''isLoading'', JBool False), (''error'', JNull)]"

definition useComplianceMapping_makeHeaders :: "hctx \<Rightarrow> headers" where
  "useComplianceMapping_makeHeaders x = makeHeaders x"

definition useComplianceMapping_fetchMappings :: "'w env \<Rightarrow> hctx \<Rightarrow> jsv \<Rightarrow> 'w cmd" where
  "useComplianceMapping_fetchMappings E x framework = branch (\<not> truthy (hc_token x)) (ret JUndef) (setv ''isLoading'' (JBool True) (setv ''error''
       JNull
     (try_catch E
     (send E (hook_request ''GET'' (''/api/v1/audit/compliance-mapping'' @ (if truthy framework then ''?framework='' @ encodeURIComponent
       (js_to_string framework) else [])) None x) (\<lambda>st body.
     unless_ok st (''Failed ('' @ show_int st @ '')'') (read_json body (\<lambda>v. setv ''mappings'' v (ret JUndef)))))
     (\<lambda>m. setv ''error'' (JStr m) (ret JUndef)) [(''isLoading'', JBool False)])))"

definition useComplianceMapping_updateMapping :: "'w env \<Rightarrow> hctx \<Rightarrow> string \<Rightarrow> jsv \<Rightarrow> 'w cmd" where
  "useComplianceMapping_updateMapping E x id' patch = try_catch E
     (send E (hook_request ''PUT'' (''/api/v1/audit/compliance-mapping/'' @ id') (Some patch) x) (\<lambda>st body.
     unless_ok st (''Update failed ('' @ show_int st @ '')'') (updv ''mappings'' (map_items (\<lambda>m'. if js_opt_prop m' ''id'' = JStr id' then
       with_entries m' (entries_of patch) else m')) (ret (JBool True)))))
     (\<lambda>m. setv ''error'' (JStr m) (ret (JBool False))) []"

definition useComplianceMapping_ops :: "'w env \<Rightarrow> hctx \<Rightarrow> 'w cmd set" where
  "useComplianceMapping_ops E x = {useComplianceMapping_fetchMappings E x framework |framework. True} \<union> {useComplianceMapping_updateMapping E x
       id' patch |id' patch. True}"

lemma useComplianceMapping_blank: "c \<in> useComplianceMapping_ops E x \<Longrightarrow> all_refused E \<Longrightarrow> blank c"
  unfolding useComplianceMapping_ops_def useComplianceMapping_fetchMappings_def useComplianceMapping_updateMapping_def
  by (elim UnE CollectE exE conjE singletonE; simp add: blank_intros)

lemma useComplianceMapping_good: "c \<in> useComplianceMapping_ops E x \<Longrightarrow> good_op (with_credentials x) c"
  unfolding useComplianceMapping_ops_def good_op_def useComplianceMapping_fetchMappings_def useComplianceMapping_updateMapping_def
  by (elim UnE CollectE exE conjE singletonE; simp add: op_intros)

section \<open>\<open>useComplianceSchedules\<close>\<close>

definition useComplianceSchedules_init :: "hook_state" where
  "useComplianceSchedules_init = state_of [(''schedules'', JArr []), (''isLoading'', JBool False), (''error'', JNull)]"

definition useComplianceSchedules_makeHeaders :: "hctx \<Rightarrow> headers" where
  "useComplianceSchedules_makeHeaders x = makeHeaders x"

definition useComplianceSchedules_fetchSchedules :: "'w env \<Rightarrow> hctx \<Rightarrow> 'w cmd" where
  "useComplianceSchedules_fetchSchedules E x = branch (\<not> truthy (hc_token x)) (ret JUndef) (setv ''isLoading'' (JBool True) (setv ''error'' JNull
     (try_catch E
     (send E (hook_request ''GET'' ''/api/v1/audit/compliance/schedules'' None x) (\<lambda>st body.
     unless_ok st (''Failed to fetch schedules ('' @ show_int st @ '')'') (read_json body (\<lambda>data'. reads data' (setv ''schedules'' (js_nullish
       (js_nullish (js_opt_prop data' ''schedules'') (js_opt_prop data' ''items'')) (JArr [])) (ret JUndef))))))
     (\<lambda>m. setv ''error'' (JStr m) (setv ''schedules'' (JArr []) (ret JUndef))) [(''isLoading'', JBool False)])))"

definition useComplianceSchedules_effect :: "'w env \<Rightarrow> hctx \<Rightarrow> bool \<Rightarrow> 'w cmd" where
  "useComplianceSchedules_effect E x authenticated = branch authenticated (run (useComplianceSchedules_fetchSchedules E x) (\<lambda>_. ret JUndef))
       (ret JUndef)"

definition useComplianceSchedules_createSchedule :: "'w env \<Rightarrow> hctx \<Rightarrow> jsv \<Rightarrow> 'w cmd" where
  "useComplianceSchedules_createSchedule E x input = try_catch E
     (send E (hook_request ''POST'' ''/api/v1/audit/compliance/schedules'' (Some input) x) (\<lambda>st body.
     unless_ok st (''Failed to create schedule ('' @ show_int st @ '')'') (read_json body (\<lambda>created. updv ''schedules'' (append_items created)
       (ret created)))))
     (\<lambda>m. setv ''error'' (JStr m) (ret JNull)) []"

definition useComplianceSchedules_updateSchedule :: "'w env \<Rightarrow> hctx \<Rightarrow> string \<Rightarrow> jsv \<Rightarrow> 'w cmd" where
  "useComplianceSchedules_updateSchedule E x id' input = try_catch E
     (send E (hook_request ''PATCH'' (''/api/v1/audit/compliance/schedules/'' @ id') (Some input) x) (\<lambda>st body.
     unless_ok st (''Failed to update schedule ('' @ show_int st @ '')'') (read_json body (\<lambda>updated. updv ''schedules'' (map_items
       (\<lambda>s'. if js_opt_prop s' ''id'' = JStr id' then updated else s')) (ret (JBool True))))))
     (\<lambda>m. setv ''error'' (JStr m) (ret (JBool False))) []"

definition useComplianceSchedules_deleteSchedule :: "'w env \<Rightarrow> hctx \<Rightarrow> string \<Rightarrow> 'w cmd" where
  "useComplianceSchedules_deleteSchedule E x id' = try_catch E
     (send E (hook_request ''DELETE'' (''/api/v1/audit/compliance/schedules/'' @ id') None x) (\<lambda>st body.
     unless_ok st (''Failed to delete schedule ('' @ show_int st @ '')'') (updv ''schedules'' (filter_items (\<lambda>s'. js_opt_prop s' ''id''
       \<noteq> JStr id')) (ret (JBool True)))))
     (\<lambda>m. setv ''error'' (JStr m) (ret (JBool False))) []"

definition useComplianceSchedules_ops :: "'w env \<Rightarrow> hctx \<Rightarrow> 'w cmd set" where
  "useComplianceSchedules_ops E x = {useComplianceSchedules_fetchSchedules E x} \<union> {useComplianceSchedules_effect E x authenticated
       |authenticated. True} \<union> {useComplianceSchedules_createSchedule E x input |input. True} \<union> {useComplianceSchedules_updateSchedule E
       x id' input |id' input. True} \<union> {useComplianceSchedules_deleteSchedule E x id' |id'. True}"

lemma useComplianceSchedules_blank: "c \<in> useComplianceSchedules_ops E x \<Longrightarrow> all_refused E \<Longrightarrow> blank c"
  unfolding useComplianceSchedules_ops_def useComplianceSchedules_fetchSchedules_def useComplianceSchedules_effect_def useComplianceSchedules_createSchedule_def useComplianceSchedules_updateSchedule_def useComplianceSchedules_deleteSchedule_def
  by (elim UnE CollectE exE conjE singletonE; simp add: blank_intros)

lemma useComplianceSchedules_good: "c \<in> useComplianceSchedules_ops E x \<Longrightarrow> good_op (with_credentials x) c"
  unfolding useComplianceSchedules_ops_def good_op_def useComplianceSchedules_fetchSchedules_def useComplianceSchedules_effect_def useComplianceSchedules_createSchedule_def useComplianceSchedules_updateSchedule_def useComplianceSchedules_deleteSchedule_def
  by (elim UnE CollectE exE conjE singletonE; simp add: op_intros)

section \<open>\<open>useConditionalAccess\<close>\<close>

definition useConditionalAccess_init :: "hook_state" where
  "useConditionalAccess_init = state_of [(''policies'', JArr []), (''isLoading'', JBool False), (''error'', JNull)]"

definition useConditionalAccess_makeHeaders :: "hctx \<Rightarrow> headers" where
  "useConditionalAccess_makeHeaders x = makeHeaders x"

definition useConditionalAccess_fetchPolicies :: "'w env \<Rightarrow> hctx \<Rightarrow> 'w cmd" where
  "useConditionalAccess_fetchPolicies E x = branch (\<not> truthy (hc_token x)) (ret JUndef) (setv ''isLoading'' (JBool True) (setv ''error'' JNull
     (try_catch E
     (send E (hook_request ''GET'' ''/api/v1/policy/conditional-access'' None x) (\<lambda>st body.
     unless_ok st (''Failed ('' @ show_int st @ '')'') (read_json body (\<lambda>data'. reads data' (setv ''policies'' (js_nullish (js_nullish
       (js_opt_prop data' ''policies'') (js_opt_prop data' ''items'')) (JArr [])) (ret JUndef))))))
     (\<lambda>m. setv ''error'' (JStr m) (setv ''policies'' (JArr []) (ret JUndef))) [(''isLoading'', JBool False)])))"

definition useConditionalAccess_effect :: "'w env \<Rightarrow> hctx \<Rightarrow> bool \<Rightarrow> 'w cmd" where
  "useConditionalAccess_effect E x authenticated = branch authenticated (run (useConditionalAccess_fetchPolicies E x) (\<lambda>_. ret JUndef)) (ret
       JUndef)"

definition useConditionalAccess_createPolicy :: "'w env \<Rightarrow> hctx \<Rightarrow> jsv \<Rightarrow> 'w cmd" where
  "useConditionalAccess_createPolicy E x input = try_catch E
     (send E (hook_request ''POST'' ''/api/v1/policy/conditional-access'' (Some input) x) (\<lambda>st body.
     unless_ok st (''Create failed ('' @ show_int st @ '')'') (read_json body (\<lambda>created. run (useConditionalAccess_fetchPolicies E x)
       (\<lambda>_. ret created)))))
     (\<lambda>m. setv ''error'' (JStr m) (ret JNull)) []"

definition useConditionalAccess_updatePolicy :: "'w env \<Rightarrow> hctx \<Rightarrow> string \<Rightarrow> jsv \<Rightarrow> 'w cmd" where
  "useConditionalAccess_updatePolicy E x id' input = try_catch E
     (send E (hook_request ''PATCH'' (''/api/v1/policy/conditional-access/'' @ id') (Some input) x) (\<lambda>st body.
     unless_ok st (''Update failed ('' @ show_int st @ '')'') (run (useConditionalAccess_fetchPolicies E x) (\<lambda>_. ret (JBool True)))))
     (\<lambda>m. setv ''error'' (JStr m) (ret (JBool False))) []"

definition useConditionalAccess_deletePolicy :: "'w env \<Rightarrow> hctx \<Rightarrow> string \<Rightarrow> 'w cmd" where
  "useConditionalAccess_deletePolicy E x id' = try_catch E
     (send E (hook_request ''DELETE'' (''/api/v1/policy/conditional-access/'' @ id') None x) (\<lambda>st body.
     unless_ok st (''Delete failed ('' @ show_int st @ '')'') (updv ''policies'' (filter_items (\<lambda>p. js_opt_prop p ''id'' \<noteq> JStr id'))
       (ret (JBool True)))))
     (\<lambda>m. setv ''error'' (JStr m) (ret (JBool False))) []"

definition useConditionalAccess_ops :: "'w env \<Rightarrow> hctx \<Rightarrow> 'w cmd set" where
  "useConditionalAccess_ops E x = {useConditionalAccess_fetchPolicies E x} \<union> {useConditionalAccess_effect E x authenticated |authenticated.
       True} \<union> {useConditionalAccess_createPolicy E x input |input. True} \<union> {useConditionalAccess_updatePolicy E x id' input |id' input.
       True} \<union> {useConditionalAccess_deletePolicy E x id' |id'. True}"

lemma useConditionalAccess_blank: "c \<in> useConditionalAccess_ops E x \<Longrightarrow> all_refused E \<Longrightarrow> blank c"
  unfolding useConditionalAccess_ops_def useConditionalAccess_fetchPolicies_def useConditionalAccess_effect_def useConditionalAccess_createPolicy_def useConditionalAccess_updatePolicy_def useConditionalAccess_deletePolicy_def
  by (elim UnE CollectE exE conjE singletonE; simp add: blank_intros)

lemma useConditionalAccess_good: "c \<in> useConditionalAccess_ops E x \<Longrightarrow> good_op (with_credentials x) c"
  unfolding useConditionalAccess_ops_def good_op_def useConditionalAccess_fetchPolicies_def useConditionalAccess_effect_def useConditionalAccess_createPolicy_def useConditionalAccess_updatePolicy_def useConditionalAccess_deletePolicy_def
  by (elim UnE CollectE exE conjE singletonE; simp add: op_intros)

section \<open>\<open>useConsent\<close>\<close>

definition useConsent_init :: "hook_state" where
  "useConsent_init = state_of [(''consents'', JArr []), (''isLoading'', JBool False), (''error'', JNull)]"

definition useConsent_makeHeaders :: "hctx \<Rightarrow> headers" where
  "useConsent_makeHeaders x = makeHeaders x"

definition useConsent_fetchConsents :: "'w env \<Rightarrow> hctx \<Rightarrow> 'w cmd" where
  "useConsent_fetchConsents E x = branch (\<not> truthy (hc_token x)) (ret JUndef) (setv ''isLoading'' (JBool True) (setv ''error'' JNull
     (try_catch E
     (send E (hook_request ''GET'' ''/api/v1/oauth/consents'' None x) (\<lambda>st body.
     unless_ok st (''Failed to fetch consents ('' @ show_int st @ '')'') (read_json body (\<lambda>data'. reads data' (setv ''consents'' (js_nullish
       (js_nullish (js_opt_prop data' ''consents'') (js_opt_prop data' ''items'')) (JArr [])) (ret JUndef))))))
     (\<lambda>m. setv ''error'' (JStr m) (setv ''consents'' (JArr []) (ret JUndef))) [(''isLoading'', JBool False)])))"

definition useConsent_effect :: "'w env \<Rightarrow> hctx \<Rightarrow> bool \<Rightarrow> 'w cmd" where
  "useConsent_effect E x authenticated = branch authenticated (run (useConsent_fetchConsents E x) (\<lambda>_. ret JUndef)) (ret JUndef)"

definition useConsent_revokeConsent :: "'w env \<Rightarrow> hctx \<Rightarrow> string \<Rightarrow> 'w cmd" where
  "useConsent_revokeConsent E x id' = try_catch E
     (send E (hook_request ''DELETE'' (''/api/v1/oauth/consents/'' @ id') None x) (\<lambda>st body.
     unless_ok st (''Failed to revoke consent ('' @ show_int st @ '')'') (updv ''consents'' (filter_items (\<lambda>c'. js_opt_prop c' ''id'' \<noteq>
       JStr id')) (ret (JBool True)))))
     (\<lambda>m. setv ''error'' (JStr m) (ret (JBool False))) []"

definition useConsent_revokeByClient :: "'w env \<Rightarrow> hctx \<Rightarrow> string \<Rightarrow> 'w cmd" where
  "useConsent_revokeByClient E x clientId = try_catch E
     (send E (hook_request ''DELETE'' (''/api/v1/oauth/consents?client_id='' @ clientId) None x) (\<lambda>st body.
     unless_ok st (''Failed to revoke consent ('' @ show_int st @ '')'') (updv ''consents'' (filter_items (\<lambda>c'. js_opt_prop c' ''client_id''
       \<noteq> JStr clientId)) (ret (JBool True)))))
     (\<lambda>m. setv ''error'' (JStr m) (ret (JBool False))) []"

definition useConsent_ops :: "'w env \<Rightarrow> hctx \<Rightarrow> 'w cmd set" where
  "useConsent_ops E x = {useConsent_fetchConsents E x} \<union> {useConsent_effect E x authenticated |authenticated. True} \<union>
       {useConsent_revokeConsent E x id' |id'. True} \<union> {useConsent_revokeByClient E x clientId |clientId. True}"

lemma useConsent_blank: "c \<in> useConsent_ops E x \<Longrightarrow> all_refused E \<Longrightarrow> blank c"
  unfolding useConsent_ops_def useConsent_fetchConsents_def useConsent_effect_def useConsent_revokeConsent_def useConsent_revokeByClient_def
  by (elim UnE CollectE exE conjE singletonE; simp add: blank_intros)

lemma useConsent_good: "c \<in> useConsent_ops E x \<Longrightarrow> good_op (with_credentials x) c"
  unfolding useConsent_ops_def good_op_def useConsent_fetchConsents_def useConsent_effect_def useConsent_revokeConsent_def useConsent_revokeByClient_def
  by (elim UnE CollectE exE conjE singletonE; simp add: op_intros)

section \<open>\<open>useConsentScreen\<close>\<close>

definition useConsentScreen_init :: "hook_state" where
  "useConsentScreen_init = state_of [(''config'', JNull), (''isLoading'', JBool False), (''error'', JNull)]"

definition useConsentScreen_makeHeaders :: "hctx \<Rightarrow> headers" where
  "useConsentScreen_makeHeaders x = makeHeaders x"

definition useConsentScreen_fetchConfig :: "'w env \<Rightarrow> hctx \<Rightarrow> 'w cmd" where
  "useConsentScreen_fetchConfig E x = branch (\<not> truthy (hc_token x)) (ret JUndef) (setv ''isLoading'' (JBool True) (setv ''error'' JNull
     (try_catch E
     (send E (hook_request ''GET'' ''/api/v1/oauth/consent-screen/config'' None x) (\<lambda>st body.
     unless_ok st (''Failed ('' @ show_int st @ '')'') (read_json body (\<lambda>v. setv ''config'' v (ret JUndef)))))
     (\<lambda>m. setv ''error'' (JStr m) (ret JUndef)) [(''isLoading'', JBool False)])))"

definition useConsentScreen_updateConfig :: "'w env \<Rightarrow> hctx \<Rightarrow> jsv \<Rightarrow> 'w cmd" where
  "useConsentScreen_updateConfig E x patch = try_catch E
     (send E (hook_request ''PUT'' ''/api/v1/oauth/consent-screen/config'' (Some patch) x) (\<lambda>st body.
     unless_ok st (''Update failed ('' @ show_int st @ '')'') (read_json body (\<lambda>updated. setv ''config'' updated (ret (JBool True))))))
     (\<lambda>m. setv ''error'' (JStr m) (ret (JBool False))) []"

definition useConsentScreen_ops :: "'w env \<Rightarrow> hctx \<Rightarrow> 'w cmd set" where
  "useConsentScreen_ops E x = {useConsentScreen_fetchConfig E x} \<union> {useConsentScreen_updateConfig E x patch |patch. True}"

lemma useConsentScreen_blank: "c \<in> useConsentScreen_ops E x \<Longrightarrow> all_refused E \<Longrightarrow> blank c"
  unfolding useConsentScreen_ops_def useConsentScreen_fetchConfig_def useConsentScreen_updateConfig_def
  by (elim UnE CollectE exE conjE singletonE; simp add: blank_intros)

lemma useConsentScreen_good: "c \<in> useConsentScreen_ops E x \<Longrightarrow> good_op (with_credentials x) c"
  unfolding useConsentScreen_ops_def good_op_def useConsentScreen_fetchConfig_def useConsentScreen_updateConfig_def
  by (elim UnE CollectE exE conjE singletonE; simp add: op_intros)

section \<open>\<open>useCorrelationRules\<close>\<close>

definition useCorrelationRules_init :: "hook_state" where
  "useCorrelationRules_init = state_of [(''rules'', JArr []), (''isLoading'', JBool False), (''error'', JNull)]"

definition useCorrelationRules_makeHeaders :: "hctx \<Rightarrow> headers" where
  "useCorrelationRules_makeHeaders x = makeHeaders x"

definition useCorrelationRules_fetchRules :: "'w env \<Rightarrow> hctx \<Rightarrow> 'w cmd" where
  "useCorrelationRules_fetchRules E x = branch (\<not> truthy (hc_token x)) (ret JUndef) (setv ''isLoading'' (JBool True) (setv ''error'' JNull
     (try_catch E
     (send E (hook_request ''GET'' ''/api/v1/audit/correlation-rules'' None x) (\<lambda>st body.
     unless_ok st (''Failed ('' @ show_int st @ '')'') (read_json body (\<lambda>v. setv ''rules'' v (ret JUndef)))))
     (\<lambda>m. setv ''error'' (JStr m) (ret JUndef)) [(''isLoading'', JBool False)])))"

definition useCorrelationRules_create :: "'w env \<Rightarrow> hctx \<Rightarrow> jsv \<Rightarrow> 'w cmd" where
  "useCorrelationRules_create E x rule' = try_catch E
     (send E (hook_request ''POST'' ''/api/v1/audit/correlation-rules'' (Some rule') x) (\<lambda>st body.
     unless_ok st (''Create failed ('' @ show_int st @ '')'') (run (useCorrelationRules_fetchRules E x) (\<lambda>_. ret (JBool True)))))
     (\<lambda>m. setv ''error'' (JStr m) (ret (JBool False))) []"

definition useCorrelationRules_update :: "'w env \<Rightarrow> hctx \<Rightarrow> string \<Rightarrow> jsv \<Rightarrow> 'w cmd" where
  "useCorrelationRules_update E x id' patch = try_catch E
     (send E (hook_request ''PUT'' (''/api/v1/audit/correlation-rules/'' @ id') (Some patch) x) (\<lambda>st body.
     unless_ok st (''Update failed ('' @ show_int st @ '')'') (updv ''rules'' (map_items (\<lambda>r. if js_opt_prop r ''id'' = JStr id' then
       with_entries r (entries_of patch) else r)) (ret (JBool True)))))
     (\<lambda>m. setv ''error'' (JStr m) (ret (JBool False))) []"

definition useCorrelationRules_deleteRule :: "'w env \<Rightarrow> hctx \<Rightarrow> string \<Rightarrow> 'w cmd" where
  "useCorrelationRules_deleteRule E x id' = try_catch E
     (send E (hook_request ''DELETE'' (''/api/v1/audit/correlation-rules/'' @ id') None x) (\<lambda>st body.
     unless_ok st (''Delete failed ('' @ show_int st @ '')'') (updv ''rules'' (filter_items (\<lambda>r. js_opt_prop r ''id'' \<noteq> JStr id')) (ret
       (JBool True)))))
     (\<lambda>m. setv ''error'' (JStr m) (ret (JBool False))) []"

definition useCorrelationRules_test :: "'w env \<Rightarrow> hctx \<Rightarrow> string \<Rightarrow> 'w cmd" where
  "useCorrelationRules_test E x id' = try_catch E
     (send E (hook_request ''POST'' (''/api/v1/audit/correlation-rules/'' @ id' @ ''/test'') None x) (\<lambda>st body.
     unless_ok st (''Test failed ('' @ show_int st @ '')'') (read_json body (\<lambda>v. ret v))))
     (\<lambda>m. setv ''error'' (JStr m) (ret JNull)) []"

definition useCorrelationRules_ops :: "'w env \<Rightarrow> hctx \<Rightarrow> 'w cmd set" where
  "useCorrelationRules_ops E x = {useCorrelationRules_fetchRules E x} \<union> {useCorrelationRules_create E x rule' |rule'. True} \<union>
       {useCorrelationRules_update E x id' patch |id' patch. True} \<union> {useCorrelationRules_deleteRule E x id' |id'. True} \<union>
       {useCorrelationRules_test E x id' |id'. True}"

lemma useCorrelationRules_blank: "c \<in> useCorrelationRules_ops E x \<Longrightarrow> all_refused E \<Longrightarrow> blank c"
  unfolding useCorrelationRules_ops_def useCorrelationRules_fetchRules_def useCorrelationRules_create_def useCorrelationRules_update_def useCorrelationRules_deleteRule_def useCorrelationRules_test_def
  by (elim UnE CollectE exE conjE singletonE; simp add: blank_intros)

lemma useCorrelationRules_good: "c \<in> useCorrelationRules_ops E x \<Longrightarrow> good_op (with_credentials x) c"
  unfolding useCorrelationRules_ops_def good_op_def useCorrelationRules_fetchRules_def useCorrelationRules_create_def useCorrelationRules_update_def useCorrelationRules_deleteRule_def useCorrelationRules_test_def
  by (elim UnE CollectE exE conjE singletonE; simp add: op_intros)

section \<open>\<open>useCredentialVault\<close>\<close>

definition useCredentialVault_init :: "hook_state" where
  "useCredentialVault_init = state_of [(''credentials'', JArr []), (''isLoading'', JBool False), (''error'', JNull)]"

definition useCredentialVault_makeHeaders :: "hctx \<Rightarrow> headers" where
  "useCredentialVault_makeHeaders x = makeHeaders x"

definition useCredentialVault_fetchCredentials :: "'w env \<Rightarrow> hctx \<Rightarrow> 'w cmd" where
  "useCredentialVault_fetchCredentials E x = branch (\<not> truthy (hc_token x)) (ret JUndef) (setv ''isLoading'' (JBool True) (setv ''error'' JNull
     (try_catch E
     (send E (hook_request ''GET'' ''/api/v1/auth/credential-vault'' None x) (\<lambda>st body.
     unless_ok st (''Failed ('' @ show_int st @ '')'') (read_json body (\<lambda>v. setv ''credentials'' v (ret JUndef)))))
     (\<lambda>m. setv ''error'' (JStr m) (ret JUndef)) [(''isLoading'', JBool False)])))"

definition useCredentialVault_store :: "'w env \<Rightarrow> hctx \<Rightarrow> string \<Rightarrow> string \<Rightarrow> jsv \<Rightarrow> 'w cmd" where
  "useCredentialVault_store E x key' value' description = try_catch E
     (send E (hook_request ''POST'' ''/api/v1/auth/credential-vault'' (Some (JObj [(''key'', JStr key'), (''value'', JStr value'), (''description'',
       description)])) x) (\<lambda>st body.
     unless_ok st (''Store failed ('' @ show_int st @ '')'') (run (useCredentialVault_fetchCredentials E x) (\<lambda>_. ret (JBool True)))))
     (\<lambda>m. setv ''error'' (JStr m) (ret (JBool False))) []"

definition useCredentialVault_reveal :: "'w env \<Rightarrow> hctx \<Rightarrow> string \<Rightarrow> 'w cmd" where
  "useCredentialVault_reveal E x id' = try_catch E
     (send E (hook_request ''POST'' (''/api/v1/auth/credential-vault/'' @ id' @ ''/reveal'') None x) (\<lambda>st body.
     unless_ok st (''Reveal failed ('' @ show_int st @ '')'') (read_json body (\<lambda>data'. reads data' (ret (js_or (js_opt_prop data' ''value'')
       JNull))))))
     (\<lambda>m. setv ''error'' (JStr m) (ret JNull)) []"

definition useCredentialVault_remove :: "'w env \<Rightarrow> hctx \<Rightarrow> string \<Rightarrow> 'w cmd" where
  "useCredentialVault_remove E x id' = try_catch E
     (send E (hook_request ''DELETE'' (''/api/v1/auth/credential-vault/'' @ id') None x) (\<lambda>st body.
     unless_ok st (''Delete failed ('' @ show_int st @ '')'') (updv ''credentials'' (filter_items (\<lambda>c'. js_opt_prop c' ''id'' \<noteq> JStr
       id')) (ret (JBool True)))))
     (\<lambda>m. setv ''error'' (JStr m) (ret (JBool False))) []"

definition useCredentialVault_ops :: "'w env \<Rightarrow> hctx \<Rightarrow> 'w cmd set" where
  "useCredentialVault_ops E x = {useCredentialVault_fetchCredentials E x} \<union> {useCredentialVault_store E x key' value' description |key' value'
       description. True} \<union> {useCredentialVault_reveal E x id' |id'. True} \<union> {useCredentialVault_remove E x id' |id'. True}"

lemma useCredentialVault_blank: "c \<in> useCredentialVault_ops E x \<Longrightarrow> all_refused E \<Longrightarrow> blank c"
  unfolding useCredentialVault_ops_def useCredentialVault_fetchCredentials_def useCredentialVault_store_def useCredentialVault_reveal_def useCredentialVault_remove_def
  by (elim UnE CollectE exE conjE singletonE; simp add: blank_intros)

lemma useCredentialVault_good: "c \<in> useCredentialVault_ops E x \<Longrightarrow> good_op (with_credentials x) c"
  unfolding useCredentialVault_ops_def good_op_def useCredentialVault_fetchCredentials_def useCredentialVault_store_def useCredentialVault_reveal_def useCredentialVault_remove_def
  by (elim UnE CollectE exE conjE singletonE; simp add: op_intros)

section \<open>\<open>useDelegation\<close>\<close>

definition useDelegation_init :: "hook_state" where
  "useDelegation_init = state_of [(''delegations'', JArr []), (''isLoading'', JBool False), (''error'', JNull)]"

definition useDelegation_makeHeaders :: "hctx \<Rightarrow> headers" where
  "useDelegation_makeHeaders x = makeHeaders x"

definition useDelegation_fetchDelegations :: "'w env \<Rightarrow> hctx \<Rightarrow> 'w cmd" where
  "useDelegation_fetchDelegations E x = branch (\<not> truthy (hc_token x)) (ret JUndef) (setv ''isLoading'' (JBool True) (setv ''error'' JNull
     (try_catch E
     (send E (hook_request ''GET'' ''/api/v1/settings/delegations'' None x) (\<lambda>st body.
     unless_ok st (''Failed to fetch delegations ('' @ show_int st @ '')'') (read_json body (\<lambda>data'. reads data' (setv ''delegations''
       (js_nullish (js_nullish (js_opt_prop data' ''delegations'') (js_opt_prop data' ''items'')) (JArr [])) (ret JUndef))))))
     (\<lambda>m. setv ''error'' (JStr m) (setv ''delegations'' (JArr []) (ret JUndef))) [(''isLoading'', JBool False)])))"

definition useDelegation_effect :: "'w env \<Rightarrow> hctx \<Rightarrow> bool \<Rightarrow> 'w cmd" where
  "useDelegation_effect E x authenticated = branch authenticated (run (useDelegation_fetchDelegations E x) (\<lambda>_. ret JUndef)) (ret JUndef)"

definition useDelegation_delegate :: "'w env \<Rightarrow> hctx \<Rightarrow> jsv \<Rightarrow> 'w cmd" where
  "useDelegation_delegate E x input = try_catch E
     (send E (hook_request ''POST'' ''/api/v1/settings/delegations'' (Some input) x) (\<lambda>st body.
     unless_ok st (''Failed to create delegation ('' @ show_int st @ '')'') (read_json body (\<lambda>created. run (useDelegation_fetchDelegations E
       x) (\<lambda>_. ret created)))))
     (\<lambda>m. setv ''error'' (JStr m) (ret JNull)) []"

definition useDelegation_revoke :: "'w env \<Rightarrow> hctx \<Rightarrow> string \<Rightarrow> 'w cmd" where
  "useDelegation_revoke E x id' = try_catch E
     (send E (hook_request ''DELETE'' (''/api/v1/settings/delegations/'' @ id') None x) (\<lambda>st body.
     unless_ok st (''Failed to revoke delegation ('' @ show_int st @ '')'') (updv ''delegations'' (filter_items (\<lambda>d. js_opt_prop d ''id''
       \<noteq> JStr id')) (ret (JBool True)))))
     (\<lambda>m. setv ''error'' (JStr m) (ret (JBool False))) []"

definition useDelegation_ops :: "'w env \<Rightarrow> hctx \<Rightarrow> 'w cmd set" where
  "useDelegation_ops E x = {useDelegation_fetchDelegations E x} \<union> {useDelegation_effect E x authenticated |authenticated. True} \<union>
       {useDelegation_delegate E x input |input. True} \<union> {useDelegation_revoke E x id' |id'. True}"

lemma useDelegation_blank: "c \<in> useDelegation_ops E x \<Longrightarrow> all_refused E \<Longrightarrow> blank c"
  unfolding useDelegation_ops_def useDelegation_fetchDelegations_def useDelegation_effect_def useDelegation_delegate_def useDelegation_revoke_def
  by (elim UnE CollectE exE conjE singletonE; simp add: blank_intros)

lemma useDelegation_good: "c \<in> useDelegation_ops E x \<Longrightarrow> good_op (with_credentials x) c"
  unfolding useDelegation_ops_def good_op_def useDelegation_fetchDelegations_def useDelegation_effect_def useDelegation_delegate_def useDelegation_revoke_def
  by (elim UnE CollectE exE conjE singletonE; simp add: op_intros)

section \<open>\<open>useDeprovisioning\<close>\<close>

definition useDeprovisioning_init :: "hook_state" where
  "useDeprovisioning_init = state_of [(''result'', JNull), (''history'', JArr []), (''isLoading'', JBool False), (''error'', JNull)]"

definition useDeprovisioning_makeHeaders :: "hctx \<Rightarrow> headers" where
  "useDeprovisioning_makeHeaders x = makeHeaders x"

definition useDeprovisioning_deprovision :: "'w env \<Rightarrow> hctx \<Rightarrow> jsv \<Rightarrow> 'w cmd" where
  "useDeprovisioning_deprovision E x input = setv ''isLoading'' (JBool True) (setv ''error'' JNull
     (try_catch E
     (send E (hook_request ''POST'' ''/api/v1/users/deprovision'' (Some input) x) (\<lambda>st body.
     unless_ok st (''Deprovisioning failed ('' @ show_int st @ '')'') (read_json body (\<lambda>data'. setv ''result'' data' (ret data')))))
     (\<lambda>m. setv ''error'' (JStr m) (ret JNull)) [(''isLoading'', JBool False)]))"

definition useDeprovisioning_fetchHistory :: "'w env \<Rightarrow> hctx \<Rightarrow> 'w cmd" where
  "useDeprovisioning_fetchHistory E x = branch (\<not> truthy (hc_token x)) (ret JUndef)
     (try_catch E
     (send E (hook_request ''GET'' ''/api/v1/users/deprovision/history?limit=20'' None x) (\<lambda>st body.
     unless_ok st (''Failed to fetch history ('' @ show_int st @ '')'') (read_json body (\<lambda>data'. reads data' (setv ''history'' (js_nullish
       (js_nullish (js_opt_prop data' ''entries'') (js_opt_prop data' ''items'')) (JArr [])) (ret JUndef))))))
     (\<lambda>m. setv ''error'' (JStr m) (ret JUndef)) [])"

definition useDeprovisioning_ops :: "'w env \<Rightarrow> hctx \<Rightarrow> 'w cmd set" where
  "useDeprovisioning_ops E x = {useDeprovisioning_deprovision E x input |input. True} \<union> {useDeprovisioning_fetchHistory E x}"

lemma useDeprovisioning_blank: "c \<in> useDeprovisioning_ops E x \<Longrightarrow> all_refused E \<Longrightarrow> blank c"
  unfolding useDeprovisioning_ops_def useDeprovisioning_deprovision_def useDeprovisioning_fetchHistory_def
  by (elim UnE CollectE exE conjE singletonE; simp add: blank_intros)

lemma useDeprovisioning_good: "c \<in> useDeprovisioning_ops E x \<Longrightarrow> good_op (with_credentials x) c"
  unfolding useDeprovisioning_ops_def good_op_def useDeprovisioning_deprovision_def useDeprovisioning_fetchHistory_def
  by (elim UnE CollectE exE conjE singletonE; simp add: op_intros)

section \<open>\<open>useDeviceBindings\<close>\<close>

definition useDeviceBindings_init :: "hook_state" where
  "useDeviceBindings_init = state_of [(''bindings'', JArr []), (''isLoading'', JBool False), (''error'', JNull)]"

definition useDeviceBindings_makeHeaders :: "hctx \<Rightarrow> headers" where
  "useDeviceBindings_makeHeaders x = makeHeaders x"

definition useDeviceBindings_fetchBindings :: "'w env \<Rightarrow> hctx \<Rightarrow> 'w cmd" where
  "useDeviceBindings_fetchBindings E x = branch (\<not> truthy (hc_token x)) (ret JUndef) (setv ''isLoading'' (JBool True) (setv ''error'' JNull
     (try_catch E
     (send E (hook_request ''GET'' ''/api/v1/security/device-bindings'' None x) (\<lambda>st body.
     unless_ok st (''Failed to fetch device bindings ('' @ show_int st @ '')'') (read_json body (\<lambda>data'. reads data' (setv ''bindings''
       (js_nullish (js_nullish (js_opt_prop data' ''bindings'') (js_opt_prop data' ''items'')) (JArr [])) (ret JUndef))))))
     (\<lambda>m. setv ''error'' (JStr m) (setv ''bindings'' (JArr []) (ret JUndef))) [(''isLoading'', JBool False)])))"

definition useDeviceBindings_effect :: "'w env \<Rightarrow> hctx \<Rightarrow> bool \<Rightarrow> 'w cmd" where
  "useDeviceBindings_effect E x authenticated = branch authenticated (run (useDeviceBindings_fetchBindings E x) (\<lambda>_. ret JUndef)) (ret JUndef)"

definition useDeviceBindings_bindDevice :: "'w env \<Rightarrow> hctx \<Rightarrow> jsv \<Rightarrow> 'w cmd" where
  "useDeviceBindings_bindDevice E x input = try_catch E
     (send E (hook_request ''POST'' ''/api/v1/security/device-bindings'' (Some input) x) (\<lambda>st body.
     unless_ok st (''Failed to bind device ('' @ show_int st @ '')'') (read_json body (\<lambda>created. updv ''bindings'' (append_items created) (ret
       created)))))
     (\<lambda>m. setv ''error'' (JStr m) (ret JNull)) []"

definition useDeviceBindings_unbind :: "'w env \<Rightarrow> hctx \<Rightarrow> string \<Rightarrow> 'w cmd" where
  "useDeviceBindings_unbind E x id' = try_catch E
     (send E (hook_request ''DELETE'' (''/api/v1/security/device-bindings/'' @ id') None x) (\<lambda>st body.
     unless_ok st (''Failed to unbind device ('' @ show_int st @ '')'') (updv ''bindings'' (filter_items (\<lambda>b. js_opt_prop b ''id'' \<noteq>
       JStr id')) (ret (JBool True)))))
     (\<lambda>m. setv ''error'' (JStr m) (ret (JBool False))) []"

definition useDeviceBindings_ops :: "'w env \<Rightarrow> hctx \<Rightarrow> 'w cmd set" where
  "useDeviceBindings_ops E x = {useDeviceBindings_fetchBindings E x} \<union> {useDeviceBindings_effect E x authenticated |authenticated. True}
       \<union> {useDeviceBindings_bindDevice E x input |input. True} \<union> {useDeviceBindings_unbind E x id' |id'. True}"

lemma useDeviceBindings_blank: "c \<in> useDeviceBindings_ops E x \<Longrightarrow> all_refused E \<Longrightarrow> blank c"
  unfolding useDeviceBindings_ops_def useDeviceBindings_fetchBindings_def useDeviceBindings_effect_def useDeviceBindings_bindDevice_def useDeviceBindings_unbind_def
  by (elim UnE CollectE exE conjE singletonE; simp add: blank_intros)

lemma useDeviceBindings_good: "c \<in> useDeviceBindings_ops E x \<Longrightarrow> good_op (with_credentials x) c"
  unfolding useDeviceBindings_ops_def good_op_def useDeviceBindings_fetchBindings_def useDeviceBindings_effect_def useDeviceBindings_bindDevice_def useDeviceBindings_unbind_def
  by (elim UnE CollectE exE conjE singletonE; simp add: op_intros)

section \<open>\<open>useDeviceTrust\<close>\<close>

definition useDeviceTrust_init :: "hook_state" where
  "useDeviceTrust_init = state_of [(''devices'', JArr []), (''config'', JNull), (''isLoading'', JBool False), (''error'', JNull)]"

definition useDeviceTrust_makeHeaders :: "hctx \<Rightarrow> headers" where
  "useDeviceTrust_makeHeaders x = makeHeaders x"

definition useDeviceTrust_fetchDevices :: "'w env \<Rightarrow> hctx \<Rightarrow> 'w cmd" where
  "useDeviceTrust_fetchDevices E x = branch (\<not> truthy (hc_token x)) (ret JUndef) (setv ''isLoading'' (JBool True) (setv ''error'' JNull
     (try_catch E
     (send E (hook_request ''GET'' ''/api/v1/auth/devices/trust'' None x) (\<lambda>st body.
     unless_ok st (''Failed ('' @ show_int st @ '')'') (read_json body (\<lambda>v. setv ''devices'' v (ret JUndef)))))
     (\<lambda>m. setv ''error'' (JStr m) (ret JUndef)) [(''isLoading'', JBool False)])))"

definition useDeviceTrust_fetchConfig :: "'w env \<Rightarrow> hctx \<Rightarrow> 'w cmd" where
  "useDeviceTrust_fetchConfig E x = branch (\<not> truthy (hc_token x)) (ret JUndef)
     (try_catch E
     (send E (hook_request ''GET'' ''/api/v1/auth/devices/posture/config'' None x) (\<lambda>st body.
     unless_ok st (''Failed ('' @ show_int st @ '')'') (read_json body (\<lambda>v. setv ''config'' v (ret JUndef)))))
     (\<lambda>m. setv ''error'' (JStr m) (ret JUndef)) [])"

definition useDeviceTrust_reportPosture :: "'w env \<Rightarrow> hctx \<Rightarrow> jsv \<Rightarrow> 'w cmd" where
  "useDeviceTrust_reportPosture E x report' = try_catch E
     (send E (hook_request ''POST'' ''/api/v1/auth/devices/posture'' (Some report') x) (\<lambda>st body.
     unless_ok st (''Report failed ('' @ show_int st @ '')'') (ret (JBool True))))
     (\<lambda>m. setv ''error'' (JStr m) (ret (JBool False))) []"

definition useDeviceTrust_updateConfig :: "'w env \<Rightarrow> hctx \<Rightarrow> jsv \<Rightarrow> 'w cmd" where
  "useDeviceTrust_updateConfig E x patch = try_catch E
     (send E (hook_request ''PUT'' ''/api/v1/auth/devices/posture/config'' (Some patch) x) (\<lambda>st body.
     unless_ok st (''Update failed ('' @ show_int st @ '')'') (read_json body (\<lambda>updated. setv ''config'' updated (ret (JBool True))))))
     (\<lambda>m. setv ''error'' (JStr m) (ret (JBool False))) []"

definition useDeviceTrust_ops :: "'w env \<Rightarrow> hctx \<Rightarrow> 'w cmd set" where
  "useDeviceTrust_ops E x = {useDeviceTrust_fetchDevices E x} \<union> {useDeviceTrust_fetchConfig E x} \<union> {useDeviceTrust_reportPosture E x
       report' |report'. True} \<union> {useDeviceTrust_updateConfig E x patch |patch. True}"

lemma useDeviceTrust_blank: "c \<in> useDeviceTrust_ops E x \<Longrightarrow> all_refused E \<Longrightarrow> blank c"
  unfolding useDeviceTrust_ops_def useDeviceTrust_fetchDevices_def useDeviceTrust_fetchConfig_def useDeviceTrust_reportPosture_def useDeviceTrust_updateConfig_def
  by (elim UnE CollectE exE conjE singletonE; simp add: blank_intros)

lemma useDeviceTrust_good: "c \<in> useDeviceTrust_ops E x \<Longrightarrow> good_op (with_credentials x) c"
  unfolding useDeviceTrust_ops_def good_op_def useDeviceTrust_fetchDevices_def useDeviceTrust_fetchConfig_def useDeviceTrust_reportPosture_def useDeviceTrust_updateConfig_def
  by (elim UnE CollectE exE conjE singletonE; simp add: op_intros)

section \<open>\<open>useDevices\<close>\<close>

definition useDevices_init :: "hook_state" where
  "useDevices_init = state_of [(''devices'', JArr []), (''isLoading'', JBool False), (''error'', JNull)]"

definition useDevices_makeHeaders :: "hctx \<Rightarrow> headers" where
  "useDevices_makeHeaders x = makeHeaders x"

definition useDevices_fetchDevices :: "'w env \<Rightarrow> hctx \<Rightarrow> 'w cmd" where
  "useDevices_fetchDevices E x = branch (\<not> truthy (hc_token x)) (ret JUndef) (setv ''isLoading'' (JBool True) (setv ''error'' JNull
     (try_catch E
     (send E (hook_request ''GET'' ''/api/v1/webauthn/credentials'' None x) (\<lambda>st body.
     unless_ok st (''Failed to fetch devices ('' @ show_int st @ '')'') (read_json body (\<lambda>data'. reads data' (setv ''devices'' (js_nullish
       (js_nullish (js_nullish (js_opt_prop data' ''credentials'') (js_opt_prop data' ''devices'')) (js_opt_prop data' ''items'')) (JArr [])) (ret
       JUndef))))))
     (\<lambda>m. setv ''error'' (JStr m) (setv ''devices'' (JArr []) (ret JUndef))) [(''isLoading'', JBool False)])))"

definition useDevices_effect :: "'w env \<Rightarrow> hctx \<Rightarrow> bool \<Rightarrow> 'w cmd" where
  "useDevices_effect E x authenticated = branch authenticated (run (useDevices_fetchDevices E x) (\<lambda>_. ret JUndef)) (ret JUndef)"

definition useDevices_removeDevice :: "'w env \<Rightarrow> hctx \<Rightarrow> string \<Rightarrow> 'w cmd" where
  "useDevices_removeDevice E x id' = try_catch E
     (send E (hook_request ''DELETE'' (''/api/v1/webauthn/credentials/'' @ id') None x) (\<lambda>st body.
     unless_ok st (''Failed to remove device ('' @ show_int st @ '')'') (updv ''devices'' (filter_items (\<lambda>d. js_opt_prop d ''id'' \<noteq>
       JStr id')) (ret (JBool True)))))
     (\<lambda>m. setv ''error'' (JStr m) (ret (JBool False))) []"

definition useDevices_renameDevice :: "'w env \<Rightarrow> hctx \<Rightarrow> string \<Rightarrow> string \<Rightarrow> 'w cmd" where
  "useDevices_renameDevice E x id' name' = try_catch E
     (send E (hook_request ''PATCH'' (''/api/v1/webauthn/credentials/'' @ id') (Some (JObj [(''name'', JStr name')])) x) (\<lambda>st body.
     unless_ok st (''Failed to rename device ('' @ show_int st @ '')'') (updv ''devices'' (map_items (\<lambda>d. if js_opt_prop d ''id'' = JStr id'
       then with_entries d [(''name'', JStr name')] else d)) (ret (JBool True)))))
     (\<lambda>m. setv ''error'' (JStr m) (ret (JBool False))) []"

definition useDevices_ops :: "'w env \<Rightarrow> hctx \<Rightarrow> 'w cmd set" where
  "useDevices_ops E x = {useDevices_fetchDevices E x} \<union> {useDevices_effect E x authenticated |authenticated. True} \<union>
       {useDevices_removeDevice E x id' |id'. True} \<union> {useDevices_renameDevice E x id' name' |id' name'. True}"

lemma useDevices_blank: "c \<in> useDevices_ops E x \<Longrightarrow> all_refused E \<Longrightarrow> blank c"
  unfolding useDevices_ops_def useDevices_fetchDevices_def useDevices_effect_def useDevices_removeDevice_def useDevices_renameDevice_def
  by (elim UnE CollectE exE conjE singletonE; simp add: blank_intros)

lemma useDevices_good: "c \<in> useDevices_ops E x \<Longrightarrow> good_op (with_credentials x) c"
  unfolding useDevices_ops_def good_op_def useDevices_fetchDevices_def useDevices_effect_def useDevices_removeDevice_def useDevices_renameDevice_def
  by (elim UnE CollectE exE conjE singletonE; simp add: op_intros)

section \<open>\<open>useEmailOTP\<close>\<close>

definition useEmailOTP_init :: "hook_state" where
  "useEmailOTP_init = state_of [(''config'', JNull), (''isLoading'', JBool False), (''error'', JNull)]"

definition useEmailOTP_makeHeaders :: "hctx \<Rightarrow> headers" where
  "useEmailOTP_makeHeaders x = makeHeaders x"

definition useEmailOTP_fetchConfig :: "'w env \<Rightarrow> hctx \<Rightarrow> 'w cmd" where
  "useEmailOTP_fetchConfig E x = branch (\<not> truthy (hc_token x)) (ret JUndef) (setv ''isLoading'' (JBool True) (setv ''error'' JNull
     (try_catch E
     (send E (hook_request ''GET'' ''/api/v1/auth/email-otp/config'' None x) (\<lambda>st body.
     unless_ok st (''Failed ('' @ show_int st @ '')'') (read_json body (\<lambda>v. setv ''config'' v (ret JUndef)))))
     (\<lambda>m. setv ''error'' (JStr m) (ret JUndef)) [(''isLoading'', JBool False)])))"

definition useEmailOTP_updateConfig :: "'w env \<Rightarrow> hctx \<Rightarrow> jsv \<Rightarrow> 'w cmd" where
  "useEmailOTP_updateConfig E x patch = try_catch E
     (send E (hook_request ''PUT'' ''/api/v1/auth/email-otp/config'' (Some patch) x) (\<lambda>st body.
     unless_ok st (''Update failed ('' @ show_int st @ '')'') (read_json body (\<lambda>updated. setv ''config'' updated (ret (JBool True))))))
     (\<lambda>m. setv ''error'' (JStr m) (ret (JBool False))) []"

definition useEmailOTP_sendOTP :: "'w env \<Rightarrow> hctx \<Rightarrow> string \<Rightarrow> 'w cmd" where
  "useEmailOTP_sendOTP E x email = try_catch E
     (send E (hook_request ''POST'' ''/api/v1/auth/email-otp/send'' (Some (JObj [(''email'', JStr email)])) x) (\<lambda>st body.
     unless_ok st (''Send failed ('' @ show_int st @ '')'') (ret (JBool True))))
     (\<lambda>m. setv ''error'' (JStr m) (ret (JBool False))) []"

definition useEmailOTP_verifyOTP :: "'w env \<Rightarrow> hctx \<Rightarrow> string \<Rightarrow> string \<Rightarrow> 'w cmd" where
  "useEmailOTP_verifyOTP E x email code = try_catch E
     (send E (hook_request ''POST'' ''/api/v1/auth/email-otp/verify'' (Some (JObj [(''email'', JStr email), (''code'', JStr code)])) x) (\<lambda>st
       body.
     unless_ok st (''Verify failed ('' @ show_int st @ '')'') (ret (JBool True))))
     (\<lambda>m. setv ''error'' (JStr m) (ret (JBool False))) []"

definition useEmailOTP_ops :: "'w env \<Rightarrow> hctx \<Rightarrow> 'w cmd set" where
  "useEmailOTP_ops E x = {useEmailOTP_fetchConfig E x} \<union> {useEmailOTP_updateConfig E x patch |patch. True} \<union> {useEmailOTP_sendOTP E x
       email |email. True} \<union> {useEmailOTP_verifyOTP E x email code |email code. True}"

lemma useEmailOTP_blank: "c \<in> useEmailOTP_ops E x \<Longrightarrow> all_refused E \<Longrightarrow> blank c"
  unfolding useEmailOTP_ops_def useEmailOTP_fetchConfig_def useEmailOTP_updateConfig_def useEmailOTP_sendOTP_def useEmailOTP_verifyOTP_def
  by (elim UnE CollectE exE conjE singletonE; simp add: blank_intros)

lemma useEmailOTP_good: "c \<in> useEmailOTP_ops E x \<Longrightarrow> good_op (with_credentials x) c"
  unfolding useEmailOTP_ops_def good_op_def useEmailOTP_fetchConfig_def useEmailOTP_updateConfig_def useEmailOTP_sendOTP_def useEmailOTP_verifyOTP_def
  by (elim UnE CollectE exE conjE singletonE; simp add: op_intros)

section \<open>\<open>useGDPRForget\<close>\<close>

definition useGDPRForget_init :: "hook_state" where
  "useGDPRForget_init = state_of [(''history'', JArr []), (''searchResult'', JNull), (''isLoading'', JBool False), (''error'', JNull)]"

definition useGDPRForget_makeHeaders :: "hctx \<Rightarrow> headers" where
  "useGDPRForget_makeHeaders x = makeHeaders x"

definition useGDPRForget_fetchHistory :: "'w env \<Rightarrow> hctx \<Rightarrow> 'w cmd" where
  "useGDPRForget_fetchHistory E x = try_catch E
     (send E (hook_request ''GET'' ''/api/v1/audit/gdpr-forget'' None x) (\<lambda>st body.
     unless_ok st (''Failed ('' @ show_int st @ '')'') (read_json body (\<lambda>v. setv ''history'' v (ret JUndef)))))
     (\<lambda>m. setv ''error'' (JStr m) (ret JUndef)) []"

definition useGDPRForget_searchUser :: "'w env \<Rightarrow> hctx \<Rightarrow> string \<Rightarrow> 'w cmd" where
  "useGDPRForget_searchUser E x query' = setv ''isLoading'' (JBool True) (setv ''error'' JNull
     (try_catch E
     (send E (hook_request ''GET'' (''/api/v1/audit/gdpr-forget/search?q='' @ encodeURIComponent query') None x) (\<lambda>st body.
     unless_ok st (''Search failed ('' @ show_int st @ '')'') (read_json body (\<lambda>v. setv ''searchResult'' v (ret (JBool True))))))
     (\<lambda>m. setv ''error'' (JStr m) (ret (JBool False))) [(''isLoading'', JBool False)]))"

definition useGDPRForget_execute :: "'w env \<Rightarrow> hctx \<Rightarrow> string \<Rightarrow> 'w cmd" where
  "useGDPRForget_execute E x userId = setv ''isLoading'' (JBool True) (setv ''error'' JNull
     (try_catch E
     (send E (hook_request ''POST'' ''/api/v1/audit/gdpr-forget/execute'' (Some (JObj [(''user_id'', JStr userId)])) x) (\<lambda>st body.
     unless_ok st (''Execute failed ('' @ show_int st @ '')'') (run (useGDPRForget_fetchHistory E x) (\<lambda>_. ret (JBool True)))))
     (\<lambda>m. setv ''error'' (JStr m) (ret (JBool False))) [(''isLoading'', JBool False)]))"

definition useGDPRForget_ops :: "'w env \<Rightarrow> hctx \<Rightarrow> 'w cmd set" where
  "useGDPRForget_ops E x = {useGDPRForget_fetchHistory E x} \<union> {useGDPRForget_searchUser E x query' |query'. True} \<union>
       {useGDPRForget_execute E x userId |userId. True}"

lemma useGDPRForget_blank: "c \<in> useGDPRForget_ops E x \<Longrightarrow> all_refused E \<Longrightarrow> blank c"
  unfolding useGDPRForget_ops_def useGDPRForget_fetchHistory_def useGDPRForget_searchUser_def useGDPRForget_execute_def
  by (elim UnE CollectE exE conjE singletonE; simp add: blank_intros)

lemma useGDPRForget_good: "c \<in> useGDPRForget_ops E x \<Longrightarrow> good_op (with_credentials x) c"
  unfolding useGDPRForget_ops_def good_op_def useGDPRForget_fetchHistory_def useGDPRForget_searchUser_def useGDPRForget_execute_def
  by (elim UnE CollectE exE conjE singletonE; simp add: op_intros)

section \<open>\<open>useHijackDetection\<close>\<close>

definition useHijackDetection_init :: "hook_state" where
  "useHijackDetection_init = state_of [(''suspicious'', JArr []), (''isLoading'', JBool False), (''error'', JNull)]"

definition useHijackDetection_makeHeaders :: "hctx \<Rightarrow> headers" where
  "useHijackDetection_makeHeaders x = makeHeaders x"

definition useHijackDetection_fetchSuspicious :: "'w env \<Rightarrow> hctx \<Rightarrow> 'w cmd" where
  "useHijackDetection_fetchSuspicious E x = branch (\<not> truthy (hc_token x)) (ret JUndef) (setv ''isLoading'' (JBool True) (setv ''error'' JNull
     (try_catch E
     (send E (hook_request ''GET'' ''/api/v1/auth/sessions/hijack-detection'' None x) (\<lambda>st body.
     unless_ok st (''Failed ('' @ show_int st @ '')'') (read_json body (\<lambda>v. setv ''suspicious'' v (ret JUndef)))))
     (\<lambda>m. setv ''error'' (JStr m) (ret JUndef)) [(''isLoading'', JBool False)])))"

definition useHijackDetection_terminate :: "'w env \<Rightarrow> hctx \<Rightarrow> string \<Rightarrow> 'w cmd" where
  "useHijackDetection_terminate E x sessionId = try_catch E
     (send E (hook_request ''POST'' (''/api/v1/auth/sessions/'' @ sessionId @ ''/terminate'') None x) (\<lambda>st body.
     unless_ok st (''Terminate failed ('' @ show_int st @ '')'') (updv ''suspicious'' (filter_items (\<lambda>s'. js_opt_prop s' ''session_id''
       \<noteq> JStr sessionId)) (ret (JBool True)))))
     (\<lambda>m. setv ''error'' (JStr m) (ret (JBool False))) []"

definition useHijackDetection_ops :: "'w env \<Rightarrow> hctx \<Rightarrow> 'w cmd set" where
  "useHijackDetection_ops E x = {useHijackDetection_fetchSuspicious E x} \<union> {useHijackDetection_terminate E x sessionId |sessionId. True}"

lemma useHijackDetection_blank: "c \<in> useHijackDetection_ops E x \<Longrightarrow> all_refused E \<Longrightarrow> blank c"
  unfolding useHijackDetection_ops_def useHijackDetection_fetchSuspicious_def useHijackDetection_terminate_def
  by (elim UnE CollectE exE conjE singletonE; simp add: blank_intros)

lemma useHijackDetection_good: "c \<in> useHijackDetection_ops E x \<Longrightarrow> good_op (with_credentials x) c"
  unfolding useHijackDetection_ops_def good_op_def useHijackDetection_fetchSuspicious_def useHijackDetection_terminate_def
  by (elim UnE CollectE exE conjE singletonE; simp add: op_intros)

section \<open>\<open>useIdentityGovernance\<close>\<close>

definition useIdentityGovernance_init :: "hook_state" where
  "useIdentityGovernance_init = state_of [(''metrics'', JNull), (''isLoading'', JBool False), (''error'', JNull)]"

definition useIdentityGovernance_fetchMetrics :: "'w env \<Rightarrow> hctx \<Rightarrow> 'w cmd" where
  "useIdentityGovernance_fetchMetrics E x = branch (\<not> truthy (hc_token x)) (ret JUndef) (setv ''isLoading'' (JBool True) (setv ''error'' JNull
     (try_catch E
     (send E (hook_request ''GET'' ''/api/v1/audit/iga/metrics'' None x) (\<lambda>st body.
     unless_ok st (''Failed ('' @ show_int st @ '')'') (read_json body (\<lambda>v. setv ''metrics'' v (ret JUndef)))))
     (\<lambda>m. setv ''error'' (JStr m) (ret JUndef)) [(''isLoading'', JBool False)])))"

definition useIdentityGovernance_ops :: "'w env \<Rightarrow> hctx \<Rightarrow> 'w cmd set" where
  "useIdentityGovernance_ops E x = {useIdentityGovernance_fetchMetrics E x}"

lemma useIdentityGovernance_blank: "c \<in> useIdentityGovernance_ops E x \<Longrightarrow> all_refused E \<Longrightarrow> blank c"
  unfolding useIdentityGovernance_ops_def useIdentityGovernance_fetchMetrics_def
  by (elim UnE CollectE exE conjE singletonE; simp add: blank_intros)

lemma useIdentityGovernance_good: "c \<in> useIdentityGovernance_ops E x \<Longrightarrow> good_op (with_credentials x) c"
  unfolding useIdentityGovernance_ops_def good_op_def useIdentityGovernance_fetchMetrics_def
  by (elim UnE CollectE exE conjE singletonE; simp add: op_intros)

section \<open>\<open>useIncidentTimeline\<close>\<close>

definition useIncidentTimeline_init :: "hook_state" where
  "useIncidentTimeline_init = state_of [(''events'', JArr []), (''isLoading'', JBool False), (''error'', JNull)]"

definition useIncidentTimeline_fetchTimeline :: "'w env \<Rightarrow> hctx \<Rightarrow> string \<Rightarrow> 'w cmd" where
  "useIncidentTimeline_fetchTimeline E x incidentId = branch (\<not> truthy (hc_token x)) (ret JUndef) (setv ''isLoading'' (JBool True) (setv ''error''
       JNull
     (try_catch E
     (send E (hook_request ''GET'' (''/api/v1/audit/incidents/'' @ incidentId @ ''/timeline'') None x) (\<lambda>st body.
     unless_ok st (''Failed ('' @ show_int st @ '')'') (read_json body (\<lambda>v. setv ''events'' v (ret JUndef)))))
     (\<lambda>m. setv ''error'' (JStr m) (ret JUndef)) [(''isLoading'', JBool False)])))"

definition useIncidentTimeline_ops :: "'w env \<Rightarrow> hctx \<Rightarrow> 'w cmd set" where
  "useIncidentTimeline_ops E x = {useIncidentTimeline_fetchTimeline E x incidentId |incidentId. True}"

lemma useIncidentTimeline_blank: "c \<in> useIncidentTimeline_ops E x \<Longrightarrow> all_refused E \<Longrightarrow> blank c"
  unfolding useIncidentTimeline_ops_def useIncidentTimeline_fetchTimeline_def
  by (elim UnE CollectE exE conjE singletonE; simp add: blank_intros)

lemma useIncidentTimeline_good: "c \<in> useIncidentTimeline_ops E x \<Longrightarrow> good_op (with_credentials x) c"
  unfolding useIncidentTimeline_ops_def good_op_def useIncidentTimeline_fetchTimeline_def
  by (elim UnE CollectE exE conjE singletonE; simp add: op_intros)

section \<open>\<open>useJITProvisioning\<close>\<close>

definition useJITProvisioning_init :: "hook_state" where
  "useJITProvisioning_init = state_of [(''config'', JNull), (''isLoading'', JBool False), (''error'', JNull)]"

definition useJITProvisioning_makeHeaders :: "hctx \<Rightarrow> headers" where
  "useJITProvisioning_makeHeaders x = makeHeaders x"

definition useJITProvisioning_fetchConfig :: "'w env \<Rightarrow> hctx \<Rightarrow> 'w cmd" where
  "useJITProvisioning_fetchConfig E x = branch (\<not> truthy (hc_token x)) (ret JUndef) (setv ''isLoading'' (JBool True) (setv ''error'' JNull
     (try_catch E
     (send E (hook_request ''GET'' ''/api/v1/settings/jit-provisioning'' None x) (\<lambda>st body.
     unless_ok st (''Failed ('' @ show_int st @ '')'') (read_json body (\<lambda>v. setv ''config'' v (ret JUndef)))))
     (\<lambda>m. setv ''error'' (JStr m) (ret JUndef)) [(''isLoading'', JBool False)])))"

definition useJITProvisioning_updateConfig :: "'w env \<Rightarrow> hctx \<Rightarrow> jsv \<Rightarrow> 'w cmd" where
  "useJITProvisioning_updateConfig E x input = try_catch E
     (send E (hook_request ''PUT'' ''/api/v1/settings/jit-provisioning'' (Some input) x) (\<lambda>st body.
     unless_ok st (''Update failed ('' @ show_int st @ '')'') (read_json body (\<lambda>v. setv ''config'' v (ret (JBool True))))))
     (\<lambda>m. setv ''error'' (JStr m) (ret (JBool False))) []"

definition useJITProvisioning_ops :: "'w env \<Rightarrow> hctx \<Rightarrow> 'w cmd set" where
  "useJITProvisioning_ops E x = {useJITProvisioning_fetchConfig E x} \<union> {useJITProvisioning_updateConfig E x input |input. True}"

lemma useJITProvisioning_blank: "c \<in> useJITProvisioning_ops E x \<Longrightarrow> all_refused E \<Longrightarrow> blank c"
  unfolding useJITProvisioning_ops_def useJITProvisioning_fetchConfig_def useJITProvisioning_updateConfig_def
  by (elim UnE CollectE exE conjE singletonE; simp add: blank_intros)

lemma useJITProvisioning_good: "c \<in> useJITProvisioning_ops E x \<Longrightarrow> good_op (with_credentials x) c"
  unfolding useJITProvisioning_ops_def good_op_def useJITProvisioning_fetchConfig_def useJITProvisioning_updateConfig_def
  by (elim UnE CollectE exE conjE singletonE; simp add: op_intros)

section \<open>\<open>useJWKSRotation\<close>\<close>

definition useJWKSRotation_init :: "hook_state" where
  "useJWKSRotation_init = state_of [(''status'', JNull), (''isLoading'', JBool False), (''error'', JNull)]"

definition useJWKSRotation_makeHeaders :: "hctx \<Rightarrow> headers" where
  "useJWKSRotation_makeHeaders x = makeHeaders x"

definition useJWKSRotation_fetchStatus :: "'w env \<Rightarrow> hctx \<Rightarrow> 'w cmd" where
  "useJWKSRotation_fetchStatus E x = branch (\<not> truthy (hc_token x)) (ret JUndef) (setv ''isLoading'' (JBool True) (setv ''error'' JNull
     (try_catch E
     (send E (hook_request ''GET'' ''/api/v1/oauth/jwks/rotation-status'' None x) (\<lambda>st body.
     unless_ok st (''Failed to fetch JWKS status ('' @ show_int st @ '')'') (read_json body (\<lambda>v. setv ''status'' v (ret JUndef)))))
     (\<lambda>m. setv ''error'' (JStr m) (ret JUndef)) [(''isLoading'', JBool False)])))"

definition useJWKSRotation_rotate :: "'w env \<Rightarrow> hctx \<Rightarrow> 'w cmd" where
  "useJWKSRotation_rotate E x = setv ''isLoading'' (JBool True) (setv ''error'' JNull
     (try_catch E
     (send E (hook_request ''POST'' ''/api/v1/oauth/jwks/rotate'' None x) (\<lambda>st body.
     unless_ok st (''Rotation failed ('' @ show_int st @ '')'') (read_json body (\<lambda>result'. run (useJWKSRotation_fetchStatus E x) (\<lambda>_.
       ret result')))))
     (\<lambda>m. setv ''error'' (JStr m) (ret JNull)) [(''isLoading'', JBool False)]))"

definition useJWKSRotation_ops :: "'w env \<Rightarrow> hctx \<Rightarrow> 'w cmd set" where
  "useJWKSRotation_ops E x = {useJWKSRotation_fetchStatus E x} \<union> {useJWKSRotation_rotate E x}"

lemma useJWKSRotation_blank: "c \<in> useJWKSRotation_ops E x \<Longrightarrow> all_refused E \<Longrightarrow> blank c"
  unfolding useJWKSRotation_ops_def useJWKSRotation_fetchStatus_def useJWKSRotation_rotate_def
  by (elim UnE CollectE exE conjE singletonE; simp add: blank_intros)

lemma useJWKSRotation_good: "c \<in> useJWKSRotation_ops E x \<Longrightarrow> good_op (with_credentials x) c"
  unfolding useJWKSRotation_ops_def good_op_def useJWKSRotation_fetchStatus_def useJWKSRotation_rotate_def
  by (elim UnE CollectE exE conjE singletonE; simp add: op_intros)

section \<open>\<open>useNotificationTemplates\<close>\<close>

definition useNotificationTemplates_init :: "hook_state" where
  "useNotificationTemplates_init = state_of [(''templates'', JArr []), (''isLoading'', JBool False), (''error'', JNull)]"

definition useNotificationTemplates_makeHeaders :: "hctx \<Rightarrow> headers" where
  "useNotificationTemplates_makeHeaders x = makeHeaders x"

definition useNotificationTemplates_fetchTemplates :: "'w env \<Rightarrow> hctx \<Rightarrow> 'w cmd" where
  "useNotificationTemplates_fetchTemplates E x = branch (\<not> truthy (hc_token x)) (ret JUndef) (setv ''isLoading'' (JBool True) (setv ''error''
       JNull
     (try_catch E
     (send E (hook_request ''GET'' ''/api/v1/settings/notification-templates'' None x) (\<lambda>st body.
     unless_ok st (''Failed ('' @ show_int st @ '')'') (read_json body (\<lambda>data'. reads data' (setv ''templates'' (js_nullish (js_nullish
       (js_opt_prop data' ''templates'') (js_opt_prop data' ''items'')) (JArr [])) (ret JUndef))))))
     (\<lambda>m. setv ''error'' (JStr m) (setv ''templates'' (JArr []) (ret JUndef))) [(''isLoading'', JBool False)])))"

definition useNotificationTemplates_effect :: "'w env \<Rightarrow> hctx \<Rightarrow> bool \<Rightarrow> 'w cmd" where
  "useNotificationTemplates_effect E x authenticated = branch authenticated (run (useNotificationTemplates_fetchTemplates E x) (\<lambda>_. ret
       JUndef)) (ret JUndef)"

definition useNotificationTemplates_createTemplate :: "'w env \<Rightarrow> hctx \<Rightarrow> jsv \<Rightarrow> 'w cmd" where
  "useNotificationTemplates_createTemplate E x input = try_catch E
     (send E (hook_request ''POST'' ''/api/v1/settings/notification-templates'' (Some input) x) (\<lambda>st body.
     unless_ok st (''Create failed ('' @ show_int st @ '')'') (read_json body (\<lambda>created. updv ''templates'' (append_items created) (ret
       created)))))
     (\<lambda>m. setv ''error'' (JStr m) (ret JNull)) []"

definition useNotificationTemplates_updateTemplate :: "'w env \<Rightarrow> hctx \<Rightarrow> string \<Rightarrow> jsv \<Rightarrow> 'w cmd" where
  "useNotificationTemplates_updateTemplate E x id' input = try_catch E
     (send E (hook_request ''PATCH'' (''/api/v1/settings/notification-templates/'' @ id') (Some input) x) (\<lambda>st body.
     unless_ok st (''Update failed ('' @ show_int st @ '')'') (read_json body (\<lambda>updated. updv ''templates'' (map_items (\<lambda>t. if
       js_opt_prop t ''id'' = JStr id' then updated else t)) (ret (JBool True))))))
     (\<lambda>m. setv ''error'' (JStr m) (ret (JBool False))) []"

definition useNotificationTemplates_deleteTemplate :: "'w env \<Rightarrow> hctx \<Rightarrow> string \<Rightarrow> 'w cmd" where
  "useNotificationTemplates_deleteTemplate E x id' = try_catch E
     (send E (hook_request ''DELETE'' (''/api/v1/settings/notification-templates/'' @ id') None x) (\<lambda>st body.
     unless_ok st (''Delete failed ('' @ show_int st @ '')'') (updv ''templates'' (filter_items (\<lambda>t. js_opt_prop t ''id'' \<noteq> JStr id'))
       (ret (JBool True)))))
     (\<lambda>m. setv ''error'' (JStr m) (ret (JBool False))) []"

definition useNotificationTemplates_ops :: "'w env \<Rightarrow> hctx \<Rightarrow> 'w cmd set" where
  "useNotificationTemplates_ops E x = {useNotificationTemplates_fetchTemplates E x} \<union> {useNotificationTemplates_effect E x authenticated
       |authenticated. True} \<union> {useNotificationTemplates_createTemplate E x input |input. True} \<union>
       {useNotificationTemplates_updateTemplate E x id' input |id' input. True} \<union> {useNotificationTemplates_deleteTemplate E x id' |id'. True}"

lemma useNotificationTemplates_blank: "c \<in> useNotificationTemplates_ops E x \<Longrightarrow> all_refused E \<Longrightarrow> blank c"
  unfolding useNotificationTemplates_ops_def useNotificationTemplates_fetchTemplates_def useNotificationTemplates_effect_def useNotificationTemplates_createTemplate_def useNotificationTemplates_updateTemplate_def useNotificationTemplates_deleteTemplate_def
  by (elim UnE CollectE exE conjE singletonE; simp add: blank_intros)

lemma useNotificationTemplates_good: "c \<in> useNotificationTemplates_ops E x \<Longrightarrow> good_op (with_credentials x) c"
  unfolding useNotificationTemplates_ops_def good_op_def useNotificationTemplates_fetchTemplates_def useNotificationTemplates_effect_def useNotificationTemplates_createTemplate_def useNotificationTemplates_updateTemplate_def useNotificationTemplates_deleteTemplate_def
  by (elim UnE CollectE exE conjE singletonE; simp add: op_intros)

section \<open>\<open>usePIIScan\<close>\<close>

definition usePIIScan_init :: "hook_state" where
  "usePIIScan_init = state_of [(''results'', JNull), (''summary'', JNull), (''isLoading'', JBool False), (''error'', JNull)]"

definition usePIIScan_makeHeaders :: "hctx \<Rightarrow> headers" where
  "usePIIScan_makeHeaders x = makeHeaders x"

definition usePIIScan_fetchResults :: "'w env \<Rightarrow> hctx \<Rightarrow> 'w cmd" where
  "usePIIScan_fetchResults E x = branch (\<not> truthy (hc_token x)) (ret JUndef) (setv ''isLoading'' (JBool True) (setv ''error'' JNull
     (try_catch E
     (send E (hook_request ''GET'' ''/api/v1/audit/pii-scan/results'' None x) (\<lambda>st body.
     unless_ok st (''Failed ('' @ show_int st @ '')'') (read_json body (\<lambda>v. setv ''results'' v (ret JUndef)))))
     (\<lambda>m. setv ''error'' (JStr m) (ret JUndef)) [(''isLoading'', JBool False)])))"

definition usePIIScan_fetchSummary :: "'w env \<Rightarrow> hctx \<Rightarrow> 'w cmd" where
  "usePIIScan_fetchSummary E x = branch (\<not> truthy (hc_token x)) (ret JUndef)
     (try_catch E
     (send E (hook_request ''GET'' ''/api/v1/audit/pii-scan/summary'' None x) (\<lambda>st body.
     unless_ok st (''Failed ('' @ show_int st @ '')'') (read_json body (\<lambda>v. setv ''summary'' v (ret JUndef)))))
     (\<lambda>m. setv ''error'' (JStr m) (ret JUndef)) [])"

definition usePIIScan_runScan :: "'w env \<Rightarrow> hctx \<Rightarrow> 'w cmd" where
  "usePIIScan_runScan E x = setv ''isLoading'' (JBool True) (setv ''error'' JNull
     (try_catch E
     (send E (hook_request ''POST'' ''/api/v1/audit/pii-scan/run'' None x) (\<lambda>st body.
     unless_ok st (''Scan failed ('' @ show_int st @ '')'') (run (usePIIScan_fetchResults E x) (\<lambda>_. ret (JBool True)))))
     (\<lambda>m. setv ''error'' (JStr m) (ret (JBool False))) [(''isLoading'', JBool False)]))"

definition usePIIScan_ops :: "'w env \<Rightarrow> hctx \<Rightarrow> 'w cmd set" where
  "usePIIScan_ops E x = {usePIIScan_fetchResults E x} \<union> {usePIIScan_fetchSummary E x} \<union> {usePIIScan_runScan E x}"

lemma usePIIScan_blank: "c \<in> usePIIScan_ops E x \<Longrightarrow> all_refused E \<Longrightarrow> blank c"
  unfolding usePIIScan_ops_def usePIIScan_fetchResults_def usePIIScan_fetchSummary_def usePIIScan_runScan_def
  by (elim UnE CollectE exE conjE singletonE; simp add: blank_intros)

lemma usePIIScan_good: "c \<in> usePIIScan_ops E x \<Longrightarrow> good_op (with_credentials x) c"
  unfolding usePIIScan_ops_def good_op_def usePIIScan_fetchResults_def usePIIScan_fetchSummary_def usePIIScan_runScan_def
  by (elim UnE CollectE exE conjE singletonE; simp add: op_intros)

section \<open>\<open>usePasswordBreach\<close>\<close>

definition usePasswordBreach_init :: "hook_state" where
  "usePasswordBreach_init = state_of [(''status'', JNull), (''isLoading'', JBool False), (''error'', JNull)]"

definition usePasswordBreach_makeHeaders :: "hctx \<Rightarrow> headers" where
  "usePasswordBreach_makeHeaders x = makeHeaders x"

definition usePasswordBreach_fetchStatus :: "'w env \<Rightarrow> hctx \<Rightarrow> 'w cmd" where
  "usePasswordBreach_fetchStatus E x = branch (\<not> truthy (hc_token x)) (ret JUndef) (setv ''isLoading'' (JBool True) (setv ''error'' JNull
     (try_catch E
     (send E (hook_request ''GET'' ''/api/v1/auth/password-breach/status'' None x) (\<lambda>st body.
     unless_ok st (''Failed ('' @ show_int st @ '')'') (read_json body (\<lambda>v. setv ''status'' v (ret JUndef)))))
     (\<lambda>m. setv ''error'' (JStr m) (ret JUndef)) [(''isLoading'', JBool False)])))"

definition usePasswordBreach_notifyAffected :: "'w env \<Rightarrow> hctx \<Rightarrow> string \<Rightarrow> 'w cmd" where
  "usePasswordBreach_notifyAffected E x breachName = try_catch E
     (send E (hook_request ''POST'' ''/api/v1/auth/password-breach/notify'' (Some (JObj [(''breach_name'', JStr breachName)])) x) (\<lambda>st body.
     unless_ok st (''Notify failed ('' @ show_int st @ '')'') (run (usePasswordBreach_fetchStatus E x) (\<lambda>_. ret (JBool True)))))
     (\<lambda>m. setv ''error'' (JStr m) (ret (JBool False))) []"

definition usePasswordBreach_ops :: "'w env \<Rightarrow> hctx \<Rightarrow> 'w cmd set" where
  "usePasswordBreach_ops E x = {usePasswordBreach_fetchStatus E x} \<union> {usePasswordBreach_notifyAffected E x breachName |breachName. True}"

lemma usePasswordBreach_blank: "c \<in> usePasswordBreach_ops E x \<Longrightarrow> all_refused E \<Longrightarrow> blank c"
  unfolding usePasswordBreach_ops_def usePasswordBreach_fetchStatus_def usePasswordBreach_notifyAffected_def
  by (elim UnE CollectE exE conjE singletonE; simp add: blank_intros)

lemma usePasswordBreach_good: "c \<in> usePasswordBreach_ops E x \<Longrightarrow> good_op (with_credentials x) c"
  unfolding usePasswordBreach_ops_def good_op_def usePasswordBreach_fetchStatus_def usePasswordBreach_notifyAffected_def
  by (elim UnE CollectE exE conjE singletonE; simp add: op_intros)

section \<open>\<open>usePolicyAsCode\<close>\<close>

definition usePolicyAsCode_init :: "hook_state" where
  "usePolicyAsCode_init = state_of [(''policies'', JArr []), (''isLoading'', JBool False), (''error'', JNull)]"

definition usePolicyAsCode_makeHeaders :: "hctx \<Rightarrow> headers" where
  "usePolicyAsCode_makeHeaders x = makeHeaders x"

definition usePolicyAsCode_fetchPolicies :: "'w env \<Rightarrow> hctx \<Rightarrow> 'w cmd" where
  "usePolicyAsCode_fetchPolicies E x = branch (\<not> truthy (hc_token x)) (ret JUndef) (setv ''isLoading'' (JBool True) (setv ''error'' JNull
     (try_catch E
     (send E (hook_request ''GET'' ''/api/v1/policy/as-code'' None x) (\<lambda>st body.
     unless_ok st (''Failed ('' @ show_int st @ '')'') (read_json body (\<lambda>v. setv ''policies'' v (ret JUndef)))))
     (\<lambda>m. setv ''error'' (JStr m) (ret JUndef)) [(''isLoading'', JBool False)])))"

definition usePolicyAsCode_importYaml :: "'w env \<Rightarrow> hctx \<Rightarrow> string \<Rightarrow> string \<Rightarrow> 'w cmd" where
  "usePolicyAsCode_importYaml E x yaml name' = try_catch E
     (send E (hook_request ''POST'' ''/api/v1/policy/as-code/import'' (Some (JObj [(''yaml'', JStr yaml), (''name'', JStr name')])) x) (\<lambda>st
       body.
     unless_ok st (''Import failed ('' @ show_int st @ '')'') (run (usePolicyAsCode_fetchPolicies E x) (\<lambda>_. ret (JBool True)))))
     (\<lambda>m. setv ''error'' (JStr m) (ret (JBool False))) []"

definition usePolicyAsCode_previewDiff :: "'w env \<Rightarrow> hctx \<Rightarrow> string \<Rightarrow> string \<Rightarrow> 'w cmd" where
  "usePolicyAsCode_previewDiff E x id' yaml = try_catch E
     (send E (hook_request ''POST'' (''/api/v1/policy/as-code/'' @ id' @ ''/diff'') (Some (JObj [(''yaml'', JStr yaml)])) x) (\<lambda>st body.
     unless_ok st (''Diff failed ('' @ show_int st @ '')'') (read_json body (\<lambda>data'. reads data' (ret (js_or (js_opt_prop data' ''diff'')
       (JStr [])))))))
     (\<lambda>m. setv ''error'' (JStr m) (ret JNull)) []"

definition usePolicyAsCode_exportYaml :: "'w env \<Rightarrow> hctx \<Rightarrow> string \<Rightarrow> 'w cmd" where
  "usePolicyAsCode_exportYaml E x id' = try_catch E
     (send E (hook_request ''GET'' (''/api/v1/policy/as-code/'' @ id' @ ''/export'') None x) (\<lambda>st body.
     unless_ok st (''Export failed ('' @ show_int st @ '')'') (read_json body (\<lambda>data'. reads data' (ret (js_or (js_opt_prop data' ''yaml'')
       (JStr [])))))))
     (\<lambda>m. setv ''error'' (JStr m) (ret JNull)) []"

definition usePolicyAsCode_deletePolicy :: "'w env \<Rightarrow> hctx \<Rightarrow> string \<Rightarrow> 'w cmd" where
  "usePolicyAsCode_deletePolicy E x id' = try_catch E
     (send E (hook_request ''DELETE'' (''/api/v1/policy/as-code/'' @ id') None x) (\<lambda>st body.
     unless_ok st (''Delete failed ('' @ show_int st @ '')'') (updv ''policies'' (filter_items (\<lambda>p. js_opt_prop p ''id'' \<noteq> JStr id'))
       (ret (JBool True)))))
     (\<lambda>m. setv ''error'' (JStr m) (ret (JBool False))) []"

definition usePolicyAsCode_ops :: "'w env \<Rightarrow> hctx \<Rightarrow> 'w cmd set" where
  "usePolicyAsCode_ops E x = {usePolicyAsCode_fetchPolicies E x} \<union> {usePolicyAsCode_importYaml E x yaml name' |yaml name'. True} \<union>
       {usePolicyAsCode_previewDiff E x id' yaml |id' yaml. True} \<union> {usePolicyAsCode_exportYaml E x id' |id'. True} \<union>
       {usePolicyAsCode_deletePolicy E x id' |id'. True}"

lemma usePolicyAsCode_blank: "c \<in> usePolicyAsCode_ops E x \<Longrightarrow> all_refused E \<Longrightarrow> blank c"
  unfolding usePolicyAsCode_ops_def usePolicyAsCode_fetchPolicies_def usePolicyAsCode_importYaml_def usePolicyAsCode_previewDiff_def usePolicyAsCode_exportYaml_def usePolicyAsCode_deletePolicy_def
  by (elim UnE CollectE exE conjE singletonE; simp add: blank_intros)

lemma usePolicyAsCode_good: "c \<in> usePolicyAsCode_ops E x \<Longrightarrow> good_op (with_credentials x) c"
  unfolding usePolicyAsCode_ops_def good_op_def usePolicyAsCode_fetchPolicies_def usePolicyAsCode_importYaml_def usePolicyAsCode_previewDiff_def usePolicyAsCode_exportYaml_def usePolicyAsCode_deletePolicy_def
  by (elim UnE CollectE exE conjE singletonE; simp add: op_intros)

section \<open>\<open>useResourceACL\<close>\<close>

definition useResourceACL_init :: "hook_state" where
  "useResourceACL_init = state_of [(''rules'', JArr []), (''isLoading'', JBool False), (''error'', JNull)]"

definition useResourceACL_makeHeaders :: "hctx \<Rightarrow> headers" where
  "useResourceACL_makeHeaders x = makeHeaders x"

definition useResourceACL_fetchRules :: "'w env \<Rightarrow> hctx \<Rightarrow> jsv \<Rightarrow> 'w cmd" where
  "useResourceACL_fetchRules E x resourcePath = branch (\<not> truthy (hc_token x)) (ret JUndef) (setv ''isLoading'' (JBool True) (setv ''error'' JNull
     (try_catch E
     (send E (hook_request ''GET'' (''/api/v1/policy/resource-acl'' @ (if truthy resourcePath then ''?path='' @ encodeURIComponent (js_to_string
       resourcePath) else [])) None x) (\<lambda>st body.
     unless_ok st (''Failed ('' @ show_int st @ '')'') (read_json body (\<lambda>v. setv ''rules'' v (ret JUndef)))))
     (\<lambda>m. setv ''error'' (JStr m) (ret JUndef)) [(''isLoading'', JBool False)])))"

definition useResourceACL_create :: "'w env \<Rightarrow> hctx \<Rightarrow> jsv \<Rightarrow> 'w cmd" where
  "useResourceACL_create E x input = try_catch E
     (send E (hook_request ''POST'' ''/api/v1/policy/resource-acl'' (Some input) x) (\<lambda>st body.
     unless_ok st (''Create failed ('' @ show_int st @ '')'') (read_json body (\<lambda>created. updv ''rules'' (append_items created) (ret (JBool
       True))))))
     (\<lambda>m. setv ''error'' (JStr m) (ret (JBool False))) []"

definition useResourceACL_update :: "'w env \<Rightarrow> hctx \<Rightarrow> string \<Rightarrow> jsv \<Rightarrow> 'w cmd" where
  "useResourceACL_update E x id' patch = try_catch E
     (send E (hook_request ''PUT'' (''/api/v1/policy/resource-acl/'' @ id') (Some patch) x) (\<lambda>st body.
     unless_ok st (''Update failed ('' @ show_int st @ '')'') (updv ''rules'' (map_items (\<lambda>r. if js_opt_prop r ''id'' = JStr id' then
       with_entries r (entries_of patch) else r)) (ret (JBool True)))))
     (\<lambda>m. setv ''error'' (JStr m) (ret (JBool False))) []"

definition useResourceACL_deleteRule :: "'w env \<Rightarrow> hctx \<Rightarrow> string \<Rightarrow> 'w cmd" where
  "useResourceACL_deleteRule E x id' = try_catch E
     (send E (hook_request ''DELETE'' (''/api/v1/policy/resource-acl/'' @ id') None x) (\<lambda>st body.
     unless_ok st (''Delete failed ('' @ show_int st @ '')'') (updv ''rules'' (filter_items (\<lambda>r. js_opt_prop r ''id'' \<noteq> JStr id')) (ret
       (JBool True)))))
     (\<lambda>m. setv ''error'' (JStr m) (ret (JBool False))) []"

definition useResourceACL_ops :: "'w env \<Rightarrow> hctx \<Rightarrow> 'w cmd set" where
  "useResourceACL_ops E x = {useResourceACL_fetchRules E x resourcePath |resourcePath. True} \<union> {useResourceACL_create E x input |input. True}
       \<union> {useResourceACL_update E x id' patch |id' patch. True} \<union> {useResourceACL_deleteRule E x id' |id'. True}"

lemma useResourceACL_blank: "c \<in> useResourceACL_ops E x \<Longrightarrow> all_refused E \<Longrightarrow> blank c"
  unfolding useResourceACL_ops_def useResourceACL_fetchRules_def useResourceACL_create_def useResourceACL_update_def useResourceACL_deleteRule_def
  by (elim UnE CollectE exE conjE singletonE; simp add: blank_intros)

lemma useResourceACL_good: "c \<in> useResourceACL_ops E x \<Longrightarrow> good_op (with_credentials x) c"
  unfolding useResourceACL_ops_def good_op_def useResourceACL_fetchRules_def useResourceACL_create_def useResourceACL_update_def useResourceACL_deleteRule_def
  by (elim UnE CollectE exE conjE singletonE; simp add: op_intros)

section \<open>\<open>useResourceTags\<close>\<close>

definition useResourceTags_init :: "hook_state" where
  "useResourceTags_init = state_of [(''tags'', JArr []), (''isLoading'', JBool False), (''error'', JNull)]"

definition useResourceTags_makeHeaders :: "hctx \<Rightarrow> headers" where
  "useResourceTags_makeHeaders x = makeHeaders x"

definition useResourceTags_fetchTags :: "'w env \<Rightarrow> hctx \<Rightarrow> jsv \<Rightarrow> 'w cmd" where
  "useResourceTags_fetchTags E x filter' = branch (\<not> truthy (hc_token x)) (ret JUndef) (setv ''isLoading'' (JBool True) (setv ''error'' JNull
     (try_catch E
     (send E (hook_request ''GET'' (''/api/v1/policy/resource-tags'' @ (if truthy filter' then ''?filter='' @ encodeURIComponent (js_to_string
       filter') else [])) None x) (\<lambda>st body.
     unless_ok st (''Failed ('' @ show_int st @ '')'') (read_json body (\<lambda>v. setv ''tags'' v (ret JUndef)))))
     (\<lambda>m. setv ''error'' (JStr m) (ret JUndef)) [(''isLoading'', JBool False)])))"

definition useResourceTags_assign :: "'w env \<Rightarrow> hctx \<Rightarrow> string \<Rightarrow> jsv \<Rightarrow> 'w cmd" where
  "useResourceTags_assign E x resourcePath tagObj = try_catch E
     (send E (hook_request ''POST'' ''/api/v1/policy/resource-tags'' (Some (JObj [(''resource_path'', JStr resourcePath), (''tags'', tagObj)])) x)
       (\<lambda>st body.
     unless_ok st (''Assign failed ('' @ show_int st @ '')'') (run (useResourceTags_fetchTags E x JUndef) (\<lambda>_. ret (JBool True)))))
     (\<lambda>m. setv ''error'' (JStr m) (ret (JBool False))) []"

definition useResourceTags_bulkAssign :: "'w env \<Rightarrow> hctx \<Rightarrow> jsv \<Rightarrow> jsv \<Rightarrow> 'w cmd" where
  "useResourceTags_bulkAssign E x resourcePaths tagObj = try_catch E
     (send E (hook_request ''POST'' ''/api/v1/policy/resource-tags/bulk'' (Some (JObj [(''resource_paths'', resourcePaths), (''tags'', tagObj)])) x)
       (\<lambda>st body.
     unless_ok st (''Bulk assign failed ('' @ show_int st @ '')'') (run (useResourceTags_fetchTags E x JUndef) (\<lambda>_. ret (JBool True)))))
     (\<lambda>m. setv ''error'' (JStr m) (ret (JBool False))) []"

definition useResourceTags_remove :: "'w env \<Rightarrow> hctx \<Rightarrow> string \<Rightarrow> 'w cmd" where
  "useResourceTags_remove E x id' = try_catch E
     (send E (hook_request ''DELETE'' (''/api/v1/policy/resource-tags/'' @ id') None x) (\<lambda>st body.
     unless_ok st (''Delete failed ('' @ show_int st @ '')'') (updv ''tags'' (filter_items (\<lambda>t. js_opt_prop t ''id'' \<noteq> JStr id')) (ret
       (JBool True)))))
     (\<lambda>m. setv ''error'' (JStr m) (ret (JBool False))) []"

definition useResourceTags_ops :: "'w env \<Rightarrow> hctx \<Rightarrow> 'w cmd set" where
  "useResourceTags_ops E x = {useResourceTags_fetchTags E x filter' |filter'. True} \<union> {useResourceTags_assign E x resourcePath tagObj
       |resourcePath tagObj. True} \<union> {useResourceTags_bulkAssign E x resourcePaths tagObj |resourcePaths tagObj. True} \<union>
       {useResourceTags_remove E x id' |id'. True}"

lemma useResourceTags_blank: "c \<in> useResourceTags_ops E x \<Longrightarrow> all_refused E \<Longrightarrow> blank c"
  unfolding useResourceTags_ops_def useResourceTags_fetchTags_def useResourceTags_assign_def useResourceTags_bulkAssign_def useResourceTags_remove_def
  by (elim UnE CollectE exE conjE singletonE; simp add: blank_intros)

lemma useResourceTags_good: "c \<in> useResourceTags_ops E x \<Longrightarrow> good_op (with_credentials x) c"
  unfolding useResourceTags_ops_def good_op_def useResourceTags_fetchTags_def useResourceTags_assign_def useResourceTags_bulkAssign_def useResourceTags_remove_def
  by (elim UnE CollectE exE conjE singletonE; simp add: op_intros)

section \<open>\<open>useRetentionPolicies\<close>\<close>

definition useRetentionPolicies_init :: "hook_state" where
  "useRetentionPolicies_init = state_of [(''policies'', JArr []), (''isLoading'', JBool False), (''error'', JNull)]"

definition useRetentionPolicies_makeHeaders :: "hctx \<Rightarrow> headers" where
  "useRetentionPolicies_makeHeaders x = makeHeaders x"

definition useRetentionPolicies_fetchPolicies :: "'w env \<Rightarrow> hctx \<Rightarrow> 'w cmd" where
  "useRetentionPolicies_fetchPolicies E x = branch (\<not> truthy (hc_token x)) (ret JUndef) (setv ''isLoading'' (JBool True) (setv ''error'' JNull
     (try_catch E
     (send E (hook_request ''GET'' ''/api/v1/settings/retention-policies'' None x) (\<lambda>st body.
     unless_ok st (''Failed to fetch retention policies ('' @ show_int st @ '')'') (read_json body (\<lambda>data'. reads data' (setv ''policies''
       (js_nullish (js_nullish (js_opt_prop data' ''policies'') (js_opt_prop data' ''items'')) (JArr [])) (ret JUndef))))))
     (\<lambda>m. setv ''error'' (JStr m) (setv ''policies'' (JArr []) (ret JUndef))) [(''isLoading'', JBool False)])))"

definition useRetentionPolicies_effect :: "'w env \<Rightarrow> hctx \<Rightarrow> bool \<Rightarrow> 'w cmd" where
  "useRetentionPolicies_effect E x authenticated = branch authenticated (run (useRetentionPolicies_fetchPolicies E x) (\<lambda>_. ret JUndef)) (ret
       JUndef)"

definition useRetentionPolicies_createPolicy :: "'w env \<Rightarrow> hctx \<Rightarrow> jsv \<Rightarrow> 'w cmd" where
  "useRetentionPolicies_createPolicy E x input = try_catch E
     (send E (hook_request ''POST'' ''/api/v1/settings/retention-policies'' (Some input) x) (\<lambda>st body.
     unless_ok st (''Failed to create policy ('' @ show_int st @ '')'') (read_json body (\<lambda>created. updv ''policies'' (append_items created)
       (ret created)))))
     (\<lambda>m. setv ''error'' (JStr m) (ret JNull)) []"

definition useRetentionPolicies_updatePolicy :: "'w env \<Rightarrow> hctx \<Rightarrow> string \<Rightarrow> jsv \<Rightarrow> 'w cmd" where
  "useRetentionPolicies_updatePolicy E x id' input = try_catch E
     (send E (hook_request ''PATCH'' (''/api/v1/settings/retention-policies/'' @ id') (Some input) x) (\<lambda>st body.
     unless_ok st (''Failed to update policy ('' @ show_int st @ '')'') (read_json body (\<lambda>updated. updv ''policies'' (map_items (\<lambda>p.
       if js_opt_prop p ''id'' = JStr id' then updated else p)) (ret (JBool True))))))
     (\<lambda>m. setv ''error'' (JStr m) (ret (JBool False))) []"

definition useRetentionPolicies_deletePolicy :: "'w env \<Rightarrow> hctx \<Rightarrow> string \<Rightarrow> 'w cmd" where
  "useRetentionPolicies_deletePolicy E x id' = try_catch E
     (send E (hook_request ''DELETE'' (''/api/v1/settings/retention-policies/'' @ id') None x) (\<lambda>st body.
     unless_ok st (''Failed to delete policy ('' @ show_int st @ '')'') (updv ''policies'' (filter_items (\<lambda>p. js_opt_prop p ''id'' \<noteq>
       JStr id')) (ret (JBool True)))))
     (\<lambda>m. setv ''error'' (JStr m) (ret (JBool False))) []"

definition useRetentionPolicies_ops :: "'w env \<Rightarrow> hctx \<Rightarrow> 'w cmd set" where
  "useRetentionPolicies_ops E x = {useRetentionPolicies_fetchPolicies E x} \<union> {useRetentionPolicies_effect E x authenticated |authenticated.
       True} \<union> {useRetentionPolicies_createPolicy E x input |input. True} \<union> {useRetentionPolicies_updatePolicy E x id' input |id' input.
       True} \<union> {useRetentionPolicies_deletePolicy E x id' |id'. True}"

lemma useRetentionPolicies_blank: "c \<in> useRetentionPolicies_ops E x \<Longrightarrow> all_refused E \<Longrightarrow> blank c"
  unfolding useRetentionPolicies_ops_def useRetentionPolicies_fetchPolicies_def useRetentionPolicies_effect_def useRetentionPolicies_createPolicy_def useRetentionPolicies_updatePolicy_def useRetentionPolicies_deletePolicy_def
  by (elim UnE CollectE exE conjE singletonE; simp add: blank_intros)

lemma useRetentionPolicies_good: "c \<in> useRetentionPolicies_ops E x \<Longrightarrow> good_op (with_credentials x) c"
  unfolding useRetentionPolicies_ops_def good_op_def useRetentionPolicies_fetchPolicies_def useRetentionPolicies_effect_def useRetentionPolicies_createPolicy_def useRetentionPolicies_updatePolicy_def useRetentionPolicies_deletePolicy_def
  by (elim UnE CollectE exE conjE singletonE; simp add: op_intros)

section \<open>\<open>useRiskScore\<close>\<close>

definition useRiskScore_init :: "hook_state" where
  "useRiskScore_init = state_of [(''scores'', JArr []), (''summary'', JNull), (''isLoading'', JBool False), (''error'', JNull)]"

definition useRiskScore_makeHeaders :: "hctx \<Rightarrow> headers" where
  "useRiskScore_makeHeaders x = makeHeaders x"

definition useRiskScore_fetchScores :: "'w env \<Rightarrow> hctx \<Rightarrow> 'w cmd" where
  "useRiskScore_fetchScores E x = branch (\<not> truthy (hc_token x)) (ret JUndef) (setv ''isLoading'' (JBool True) (setv ''error'' JNull
     (try_catch E
     (send E (hook_request ''GET'' ''/api/v1/policy/risk-score/users'' None x) (\<lambda>st body.
     unless_ok st (''Failed ('' @ show_int st @ '')'') (read_json body (\<lambda>v. setv ''scores'' v (ret JUndef)))))
     (\<lambda>m. setv ''error'' (JStr m) (ret JUndef)) [(''isLoading'', JBool False)])))"

definition useRiskScore_fetchSummary :: "'w env \<Rightarrow> hctx \<Rightarrow> 'w cmd" where
  "useRiskScore_fetchSummary E x = branch (\<not> truthy (hc_token x)) (ret JUndef)
     (try_catch E
     (send E (hook_request ''GET'' ''/api/v1/policy/risk-score/summary'' None x) (\<lambda>st body.
     unless_ok st (''Failed ('' @ show_int st @ '')'') (read_json body (\<lambda>v. setv ''summary'' v (ret JUndef)))))
     (\<lambda>m. setv ''error'' (JStr m) (ret JUndef)) [])"

definition useRiskScore_recalculate :: "'w env \<Rightarrow> hctx \<Rightarrow> string \<Rightarrow> 'w cmd" where
  "useRiskScore_recalculate E x userId = try_catch E
     (send E (hook_request ''POST'' ''/api/v1/policy/risk-score/recalculate'' (Some (JObj [(''user_id'', JStr userId)])) x) (\<lambda>st body.
     unless_ok st (''Recalculate failed ('' @ show_int st @ '')'') (run (useRiskScore_fetchScores E x) (\<lambda>_. ret (JBool True)))))
     (\<lambda>m. setv ''error'' (JStr m) (ret (JBool False))) []"

definition useRiskScore_ops :: "'w env \<Rightarrow> hctx \<Rightarrow> 'w cmd set" where
  "useRiskScore_ops E x = {useRiskScore_fetchScores E x} \<union> {useRiskScore_fetchSummary E x} \<union> {useRiskScore_recalculate E x userId
       |userId. True}"

lemma useRiskScore_blank: "c \<in> useRiskScore_ops E x \<Longrightarrow> all_refused E \<Longrightarrow> blank c"
  unfolding useRiskScore_ops_def useRiskScore_fetchScores_def useRiskScore_fetchSummary_def useRiskScore_recalculate_def
  by (elim UnE CollectE exE conjE singletonE; simp add: blank_intros)

lemma useRiskScore_good: "c \<in> useRiskScore_ops E x \<Longrightarrow> good_op (with_credentials x) c"
  unfolding useRiskScore_ops_def good_op_def useRiskScore_fetchScores_def useRiskScore_fetchSummary_def useRiskScore_recalculate_def
  by (elim UnE CollectE exE conjE singletonE; simp add: op_intros)

section \<open>\<open>useRoleHierarchy\<close>\<close>

definition useRoleHierarchy_init :: "hook_state" where
  "useRoleHierarchy_init = state_of [(''tree'', JArr []), (''isLoading'', JBool False), (''error'', JNull)]"

definition useRoleHierarchy_fetchTree :: "'w env \<Rightarrow> hctx \<Rightarrow> 'w cmd" where
  "useRoleHierarchy_fetchTree E x = branch (\<not> truthy (hc_token x)) (ret JUndef) (setv ''isLoading'' (JBool True) (setv ''error'' JNull
     (try_catch E
     (send E (hook_request ''GET'' ''/api/v1/policy/roles/hierarchy'' None x) (\<lambda>st body.
     unless_ok st (''Failed to fetch role hierarchy ('' @ show_int st @ '')'') (read_json body (\<lambda>data'. reads data' (setv ''tree'' (js_nullish
       (js_nullish (js_nullish (js_opt_prop data' ''tree'') (js_opt_prop data' ''nodes'')) data') (JArr [])) (ret JUndef))))))
     (\<lambda>m. setv ''error'' (JStr m) (setv ''tree'' (JArr []) (ret JUndef))) [(''isLoading'', JBool False)])))"

definition useRoleHierarchy_effect :: "'w env \<Rightarrow> hctx \<Rightarrow> bool \<Rightarrow> 'w cmd" where
  "useRoleHierarchy_effect E x authenticated = branch authenticated (run (useRoleHierarchy_fetchTree E x) (\<lambda>_. ret JUndef)) (ret JUndef)"

definition useRoleHierarchy_ops :: "'w env \<Rightarrow> hctx \<Rightarrow> 'w cmd set" where
  "useRoleHierarchy_ops E x = {useRoleHierarchy_fetchTree E x} \<union> {useRoleHierarchy_effect E x authenticated |authenticated. True}"

lemma useRoleHierarchy_blank: "c \<in> useRoleHierarchy_ops E x \<Longrightarrow> all_refused E \<Longrightarrow> blank c"
  unfolding useRoleHierarchy_ops_def useRoleHierarchy_fetchTree_def useRoleHierarchy_effect_def
  by (elim UnE CollectE exE conjE singletonE; simp add: blank_intros)

lemma useRoleHierarchy_good: "c \<in> useRoleHierarchy_ops E x \<Longrightarrow> good_op (with_credentials x) c"
  unfolding useRoleHierarchy_ops_def good_op_def useRoleHierarchy_fetchTree_def useRoleHierarchy_effect_def
  by (elim UnE CollectE exE conjE singletonE; simp add: op_intros)

section \<open>\<open>useRoleTemplates\<close>\<close>

definition useRoleTemplates_init :: "hook_state" where
  "useRoleTemplates_init = state_of [(''templates'', JArr []), (''isLoading'', JBool False), (''error'', JNull)]"

definition useRoleTemplates_makeHeaders :: "hctx \<Rightarrow> headers" where
  "useRoleTemplates_makeHeaders x = makeHeaders x"

definition useRoleTemplates_fetchTemplates :: "'w env \<Rightarrow> hctx \<Rightarrow> 'w cmd" where
  "useRoleTemplates_fetchTemplates E x = branch (\<not> truthy (hc_token x)) (ret JUndef) (setv ''isLoading'' (JBool True) (setv ''error'' JNull
     (try_catch E
     (send E (hook_request ''GET'' ''/api/v1/policy/role-templates'' None x) (\<lambda>st body.
     unless_ok st (''Failed to fetch templates ('' @ show_int st @ '')'') (read_json body (\<lambda>data'. reads data' (setv ''templates'' (js_nullish
       (js_nullish (js_opt_prop data' ''templates'') (js_opt_prop data' ''items'')) (JArr [])) (ret JUndef))))))
     (\<lambda>m. setv ''error'' (JStr m) (setv ''templates'' (JArr []) (ret JUndef))) [(''isLoading'', JBool False)])))"

definition useRoleTemplates_effect :: "'w env \<Rightarrow> hctx \<Rightarrow> bool \<Rightarrow> 'w cmd" where
  "useRoleTemplates_effect E x authenticated = branch authenticated (run (useRoleTemplates_fetchTemplates E x) (\<lambda>_. ret JUndef)) (ret JUndef)"

definition useRoleTemplates_applyTemplate :: "'w env \<Rightarrow> hctx \<Rightarrow> string \<Rightarrow> jsv \<Rightarrow> 'w cmd" where
  "useRoleTemplates_applyTemplate E x templateId roleName = try_catch E
     (send E (hook_request ''POST'' (''/api/v1/policy/role-templates/'' @ templateId @ ''/apply'') (Some (JObj [(''role_name'', roleName)])) x)
       (\<lambda>st body.
     unless_ok st (''Failed to apply template ('' @ show_int st @ '')'') (read_json body (\<lambda>v. ret v))))
     (\<lambda>m. setv ''error'' (JStr m) (ret JNull)) []"

definition useRoleTemplates_previewTemplate :: "'w env \<Rightarrow> hctx \<Rightarrow> string \<Rightarrow> 'w cmd" where
  "useRoleTemplates_previewTemplate E x templateId = try_catch E
     (send E (hook_request ''GET'' (''/api/v1/policy/role-templates/'' @ templateId @ ''/preview'') None x) (\<lambda>st body.
     unless_ok st (''Failed to preview template ('' @ show_int st @ '')'') (read_json body (\<lambda>data'. reads data' (ret (js_nullish (js_nullish
       (js_opt_prop data' ''permissions'') (js_opt_prop data' ''tree'')) (JArr [])))))))
     (\<lambda>m. setv ''error'' (JStr m) (ret JNull)) []"

definition useRoleTemplates_ops :: "'w env \<Rightarrow> hctx \<Rightarrow> 'w cmd set" where
  "useRoleTemplates_ops E x = {useRoleTemplates_fetchTemplates E x} \<union> {useRoleTemplates_effect E x authenticated |authenticated. True} \<union>
       {useRoleTemplates_applyTemplate E x templateId roleName |templateId roleName. True} \<union> {useRoleTemplates_previewTemplate E x templateId
       |templateId. True}"

lemma useRoleTemplates_blank: "c \<in> useRoleTemplates_ops E x \<Longrightarrow> all_refused E \<Longrightarrow> blank c"
  unfolding useRoleTemplates_ops_def useRoleTemplates_fetchTemplates_def useRoleTemplates_effect_def useRoleTemplates_applyTemplate_def useRoleTemplates_previewTemplate_def
  by (elim UnE CollectE exE conjE singletonE; simp add: blank_intros)

lemma useRoleTemplates_good: "c \<in> useRoleTemplates_ops E x \<Longrightarrow> good_op (with_credentials x) c"
  unfolding useRoleTemplates_ops_def good_op_def useRoleTemplates_fetchTemplates_def useRoleTemplates_effect_def useRoleTemplates_applyTemplate_def useRoleTemplates_previewTemplate_def
  by (elim UnE CollectE exE conjE singletonE; simp add: op_intros)

section \<open>\<open>useSecurityPosture\<close>\<close>

definition useSecurityPosture_init :: "hook_state" where
  "useSecurityPosture_init = state_of [(''posture'', JNull), (''isLoading'', JBool False), (''error'', JNull)]"

definition useSecurityPosture_makeHeaders :: "hctx \<Rightarrow> headers" where
  "useSecurityPosture_makeHeaders x = makeHeaders x"

definition useSecurityPosture_fetchPosture :: "'w env \<Rightarrow> hctx \<Rightarrow> 'w cmd" where
  "useSecurityPosture_fetchPosture E x = branch (\<not> truthy (hc_token x)) (ret JUndef) (setv ''isLoading'' (JBool True) (setv ''error'' JNull
     (try_catch E
     (send E (hook_request ''GET'' ''/api/v1/audit/security-posture'' None x) (\<lambda>st body.
     unless_ok st (''Failed ('' @ show_int st @ '')'') (read_json body (\<lambda>v. setv ''posture'' v (ret JUndef)))))
     (\<lambda>m. setv ''error'' (JStr m) (ret JUndef)) [(''isLoading'', JBool False)])))"

definition useSecurityPosture_ops :: "'w env \<Rightarrow> hctx \<Rightarrow> 'w cmd set" where
  "useSecurityPosture_ops E x = {useSecurityPosture_fetchPosture E x}"

lemma useSecurityPosture_blank: "c \<in> useSecurityPosture_ops E x \<Longrightarrow> all_refused E \<Longrightarrow> blank c"
  unfolding useSecurityPosture_ops_def useSecurityPosture_fetchPosture_def
  by (elim UnE CollectE exE conjE singletonE; simp add: blank_intros)

lemma useSecurityPosture_good: "c \<in> useSecurityPosture_ops E x \<Longrightarrow> good_op (with_credentials x) c"
  unfolding useSecurityPosture_ops_def good_op_def useSecurityPosture_fetchPosture_def
  by (elim UnE CollectE exE conjE singletonE; simp add: op_intros)

section \<open>\<open>useSessionRisk\<close>\<close>

definition useSessionRisk_init :: "hook_state" where
  "useSessionRisk_init = state_of [(''sessions'', JArr []), (''isLoading'', JBool False), (''error'', JNull)]"

definition useSessionRisk_makeHeaders :: "hctx \<Rightarrow> headers" where
  "useSessionRisk_makeHeaders x = makeHeaders x"

definition useSessionRisk_fetchSessions :: "'w env \<Rightarrow> hctx \<Rightarrow> 'w cmd" where
  "useSessionRisk_fetchSessions E x = branch (\<not> truthy (hc_token x)) (ret JUndef) (setv ''isLoading'' (JBool True) (setv ''error'' JNull
     (try_catch E
     (send E (hook_request ''GET'' ''/api/v1/auth/sessions/risk'' None x) (\<lambda>st body.
     unless_ok st (''Failed ('' @ show_int st @ '')'') (read_json body (\<lambda>v. setv ''sessions'' v (ret JUndef)))))
     (\<lambda>m. setv ''error'' (JStr m) (ret JUndef)) [(''isLoading'', JBool False)])))"

definition useSessionRisk_reevaluate :: "'w env \<Rightarrow> hctx \<Rightarrow> string \<Rightarrow> 'w cmd" where
  "useSessionRisk_reevaluate E x sessionId = try_catch E
     (send E (hook_request ''POST'' (''/api/v1/auth/sessions/'' @ sessionId @ ''/reevaluate'') None x) (\<lambda>st body.
     unless_ok st (''Re-evaluate failed ('' @ show_int st @ '')'') (read_json body (\<lambda>updated. updv ''sessions'' (map_items (\<lambda>s'. if
       js_opt_prop s' ''session_id'' = JStr sessionId then updated else s')) (ret (JBool True))))))
     (\<lambda>m. setv ''error'' (JStr m) (ret (JBool False))) []"

definition useSessionRisk_reevaluateAll :: "'w env \<Rightarrow> hctx \<Rightarrow> 'w cmd" where
  "useSessionRisk_reevaluateAll E x = try_catch E
     (send E (hook_request ''POST'' ''/api/v1/auth/sessions/reevaluate-all'' None x) (\<lambda>st body.
     unless_ok st (''Re-evaluate all failed ('' @ show_int st @ '')'') (run (useSessionRisk_fetchSessions E x) (\<lambda>_. ret (JBool True)))))
     (\<lambda>m. setv ''error'' (JStr m) (ret (JBool False))) []"

definition useSessionRisk_ops :: "'w env \<Rightarrow> hctx \<Rightarrow> 'w cmd set" where
  "useSessionRisk_ops E x = {useSessionRisk_fetchSessions E x} \<union> {useSessionRisk_reevaluate E x sessionId |sessionId. True} \<union>
       {useSessionRisk_reevaluateAll E x}"

lemma useSessionRisk_blank: "c \<in> useSessionRisk_ops E x \<Longrightarrow> all_refused E \<Longrightarrow> blank c"
  unfolding useSessionRisk_ops_def useSessionRisk_fetchSessions_def useSessionRisk_reevaluate_def useSessionRisk_reevaluateAll_def
  by (elim UnE CollectE exE conjE singletonE; simp add: blank_intros)

lemma useSessionRisk_good: "c \<in> useSessionRisk_ops E x \<Longrightarrow> good_op (with_credentials x) c"
  unfolding useSessionRisk_ops_def good_op_def useSessionRisk_fetchSessions_def useSessionRisk_reevaluate_def useSessionRisk_reevaluateAll_def
  by (elim UnE CollectE exE conjE singletonE; simp add: op_intros)

section \<open>\<open>useSoDMatrix\<close>\<close>

definition useSoDMatrix_init :: "hook_state" where
  "useSoDMatrix_init = state_of [(''matrix'', JArr []), (''roles'', JArr []), (''rules'', JArr []), (''isLoading'', JBool False), (''error'', JNull)]"

definition useSoDMatrix_makeHeaders :: "hctx \<Rightarrow> headers" where
  "useSoDMatrix_makeHeaders x = makeHeaders x"

definition useSoDMatrix_fetchMatrix :: "'w env \<Rightarrow> hctx \<Rightarrow> 'w cmd" where
  "useSoDMatrix_fetchMatrix E x = branch (\<not> truthy (hc_token x)) (ret JUndef) (setv ''isLoading'' (JBool True) (setv ''error'' JNull
     (try_catch E
     (send E (hook_request ''GET'' ''/api/v1/policy/sod-matrix'' None x) (\<lambda>st body.
     unless_ok st (''Failed ('' @ show_int st @ '')'') (read_json body (\<lambda>data'. reads data' (setv ''matrix'' (js_or (js_opt_prop data'
       ''matrix'') (JArr [])) (reads data' (setv ''roles'' (js_or (js_opt_prop data' ''roles'') (JArr [])) (reads data' (setv ''rules'' (js_or
       (js_opt_prop data' ''rules'') (JArr [])) (ret JUndef))))))))))
     (\<lambda>m. setv ''error'' (JStr m) (ret JUndef)) [(''isLoading'', JBool False)])))"

definition useSoDMatrix_toggleExclusion :: "'w env \<Rightarrow> hctx \<Rightarrow> string \<Rightarrow> string \<Rightarrow> 'w cmd" where
  "useSoDMatrix_toggleExclusion E x roleA roleB = try_catch E
     (send E (hook_request ''POST'' ''/api/v1/policy/sod-matrix/toggle'' (Some (JObj [(''role_a'', JStr roleA), (''role_b'', JStr roleB)])) x)
       (\<lambda>st body.
     unless_ok st (''Toggle failed ('' @ show_int st @ '')'') (run (useSoDMatrix_fetchMatrix E x) (\<lambda>_. ret (JBool True)))))
     (\<lambda>m. setv ''error'' (JStr m) (ret (JBool False))) []"

definition useSoDMatrix_ops :: "'w env \<Rightarrow> hctx \<Rightarrow> 'w cmd set" where
  "useSoDMatrix_ops E x = {useSoDMatrix_fetchMatrix E x} \<union> {useSoDMatrix_toggleExclusion E x roleA roleB |roleA roleB. True}"

lemma useSoDMatrix_blank: "c \<in> useSoDMatrix_ops E x \<Longrightarrow> all_refused E \<Longrightarrow> blank c"
  unfolding useSoDMatrix_ops_def useSoDMatrix_fetchMatrix_def useSoDMatrix_toggleExclusion_def
  by (elim UnE CollectE exE conjE singletonE; simp add: blank_intros)

lemma useSoDMatrix_good: "c \<in> useSoDMatrix_ops E x \<Longrightarrow> good_op (with_credentials x) c"
  unfolding useSoDMatrix_ops_def good_op_def useSoDMatrix_fetchMatrix_def useSoDMatrix_toggleExclusion_def
  by (elim UnE CollectE exE conjE singletonE; simp add: op_intros)

section \<open>\<open>useSoDRules\<close>\<close>

definition useSoDRules_init :: "hook_state" where
  "useSoDRules_init = state_of [(''rules'', JArr []), (''isLoading'', JBool False), (''error'', JNull)]"

definition useSoDRules_makeHeaders :: "hctx \<Rightarrow> headers" where
  "useSoDRules_makeHeaders x = makeHeaders x"

definition useSoDRules_fetchRules :: "'w env \<Rightarrow> hctx \<Rightarrow> 'w cmd" where
  "useSoDRules_fetchRules E x = branch (\<not> truthy (hc_token x)) (ret JUndef) (setv ''isLoading'' (JBool True) (setv ''error'' JNull
     (try_catch E
     (send E (hook_request ''GET'' ''/api/v1/policy/sod/rules'' None x) (\<lambda>st body.
     unless_ok st (''Failed to fetch SoD rules ('' @ show_int st @ '')'') (read_json body (\<lambda>data'. reads data' (setv ''rules'' (js_nullish
       (js_nullish (js_opt_prop data' ''rules'') (js_opt_prop data' ''items'')) (JArr [])) (ret JUndef))))))
     (\<lambda>m. setv ''error'' (JStr m) (setv ''rules'' (JArr []) (ret JUndef))) [(''isLoading'', JBool False)])))"

definition useSoDRules_effect :: "'w env \<Rightarrow> hctx \<Rightarrow> bool \<Rightarrow> 'w cmd" where
  "useSoDRules_effect E x authenticated = branch authenticated (run (useSoDRules_fetchRules E x) (\<lambda>_. ret JUndef)) (ret JUndef)"

definition useSoDRules_createRule :: "'w env \<Rightarrow> hctx \<Rightarrow> jsv \<Rightarrow> 'w cmd" where
  "useSoDRules_createRule E x input = try_catch E
     (send E (hook_request ''POST'' ''/api/v1/policy/sod/rules'' (Some input) x) (\<lambda>st body.
     unless_ok st (''Failed to create rule ('' @ show_int st @ '')'') (read_json body (\<lambda>created. updv ''rules'' (append_items created) (ret
       created)))))
     (\<lambda>m. setv ''error'' (JStr m) (ret JNull)) []"

definition useSoDRules_updateRule :: "'w env \<Rightarrow> hctx \<Rightarrow> string \<Rightarrow> jsv \<Rightarrow> 'w cmd" where
  "useSoDRules_updateRule E x id' input = try_catch E
     (send E (hook_request ''PATCH'' (''/api/v1/policy/sod/rules/'' @ id') (Some input) x) (\<lambda>st body.
     unless_ok st (''Failed to update rule ('' @ show_int st @ '')'') (read_json body (\<lambda>updated. updv ''rules'' (map_items (\<lambda>r. if
       js_opt_prop r ''id'' = JStr id' then updated else r)) (ret (JBool True))))))
     (\<lambda>m. setv ''error'' (JStr m) (ret (JBool False))) []"

definition useSoDRules_deleteRule :: "'w env \<Rightarrow> hctx \<Rightarrow> string \<Rightarrow> 'w cmd" where
  "useSoDRules_deleteRule E x id' = try_catch E
     (send E (hook_request ''DELETE'' (''/api/v1/policy/sod/rules/'' @ id') None x) (\<lambda>st body.
     unless_ok st (''Failed to delete rule ('' @ show_int st @ '')'') (updv ''rules'' (filter_items (\<lambda>r. js_opt_prop r ''id'' \<noteq> JStr
       id')) (ret (JBool True)))))
     (\<lambda>m. setv ''error'' (JStr m) (ret (JBool False))) []"

definition useSoDRules_ops :: "'w env \<Rightarrow> hctx \<Rightarrow> 'w cmd set" where
  "useSoDRules_ops E x = {useSoDRules_fetchRules E x} \<union> {useSoDRules_effect E x authenticated |authenticated. True} \<union>
       {useSoDRules_createRule E x input |input. True} \<union> {useSoDRules_updateRule E x id' input |id' input. True} \<union>
       {useSoDRules_deleteRule E x id' |id'. True}"

lemma useSoDRules_blank: "c \<in> useSoDRules_ops E x \<Longrightarrow> all_refused E \<Longrightarrow> blank c"
  unfolding useSoDRules_ops_def useSoDRules_fetchRules_def useSoDRules_effect_def useSoDRules_createRule_def useSoDRules_updateRule_def useSoDRules_deleteRule_def
  by (elim UnE CollectE exE conjE singletonE; simp add: blank_intros)

lemma useSoDRules_good: "c \<in> useSoDRules_ops E x \<Longrightarrow> good_op (with_credentials x) c"
  unfolding useSoDRules_ops_def good_op_def useSoDRules_fetchRules_def useSoDRules_effect_def useSoDRules_createRule_def useSoDRules_updateRule_def useSoDRules_deleteRule_def
  by (elim UnE CollectE exE conjE singletonE; simp add: op_intros)

section \<open>\<open>useWebhookDelivery\<close>\<close>

definition useWebhookDelivery_init :: "hook_state" where
  "useWebhookDelivery_init = state_of [(''failed'', JArr []), (''isLoading'', JBool False), (''error'', JNull)]"

definition useWebhookDelivery_makeHeaders :: "hctx \<Rightarrow> headers" where
  "useWebhookDelivery_makeHeaders x = makeHeaders x"

definition useWebhookDelivery_fetchFailed :: "'w env \<Rightarrow> hctx \<Rightarrow> 'w cmd" where
  "useWebhookDelivery_fetchFailed E x = branch (\<not> truthy (hc_token x)) (ret JUndef) (setv ''isLoading'' (JBool True) (setv ''error'' JNull
     (try_catch E
     (send E (hook_request ''GET'' ''/api/v1/settings/webhooks/delivery-log?status=failed'' None x) (\<lambda>st body.
     unless_ok st (''Failed ('' @ show_int st @ '')'') (read_json body (\<lambda>data'. reads data' (setv ''failed'' (js_nullish (js_nullish
       (js_opt_prop data' ''entries'') (js_opt_prop data' ''items'')) (JArr [])) (ret JUndef))))))
     (\<lambda>m. setv ''error'' (JStr m) (setv ''failed'' (JArr []) (ret JUndef))) [(''isLoading'', JBool False)])))"

definition useWebhookDelivery_effect :: "'w env \<Rightarrow> hctx \<Rightarrow> bool \<Rightarrow> 'w cmd" where
  "useWebhookDelivery_effect E x authenticated = branch authenticated (run (useWebhookDelivery_fetchFailed E x) (\<lambda>_. ret JUndef)) (ret JUndef)"

definition useWebhookDelivery_retryDelivery :: "'w env \<Rightarrow> hctx \<Rightarrow> string \<Rightarrow> 'w cmd" where
  "useWebhookDelivery_retryDelivery E x id' = try_catch E
     (send E (hook_request ''POST'' (''/api/v1/settings/webhooks/deliveries/'' @ id' @ ''/retry'') None x) (\<lambda>st body.
     unless_ok st (''Retry failed ('' @ show_int st @ '')'') (updv ''failed'' (filter_items (\<lambda>d. js_opt_prop d ''id'' \<noteq> JStr id')) (ret
       (JBool True)))))
     (\<lambda>m. setv ''error'' (JStr m) (ret (JBool False))) []"

definition useWebhookDelivery_ops :: "'w env \<Rightarrow> hctx \<Rightarrow> 'w cmd set" where
  "useWebhookDelivery_ops E x = {useWebhookDelivery_fetchFailed E x} \<union> {useWebhookDelivery_effect E x authenticated |authenticated. True}
       \<union> {useWebhookDelivery_retryDelivery E x id' |id'. True}"

lemma useWebhookDelivery_blank: "c \<in> useWebhookDelivery_ops E x \<Longrightarrow> all_refused E \<Longrightarrow> blank c"
  unfolding useWebhookDelivery_ops_def useWebhookDelivery_fetchFailed_def useWebhookDelivery_effect_def useWebhookDelivery_retryDelivery_def
  by (elim UnE CollectE exE conjE singletonE; simp add: blank_intros)

lemma useWebhookDelivery_good: "c \<in> useWebhookDelivery_ops E x \<Longrightarrow> good_op (with_credentials x) c"
  unfolding useWebhookDelivery_ops_def good_op_def useWebhookDelivery_fetchFailed_def useWebhookDelivery_effect_def useWebhookDelivery_retryDelivery_def
  by (elim UnE CollectE exE conjE singletonE; simp add: op_intros)

section \<open>The table\<close>

definition AUTH_HOOKS :: "(hook_state \<times> ('w env \<Rightarrow> hctx \<Rightarrow> 'w cmd set)) list" where
  "AUTH_HOOKS = [(useAccessPaths_init, useAccessPaths_ops), (useAccessReviews_init, useAccessReviews_ops), (useAnomalies_init, useAnomalies_ops),
       (useApprovals_init, useApprovals_ops), (useBranding_init, useBranding_ops), (useClientAnalytics_init, useClientAnalytics_ops),
       (useComplianceDashboard_init, useComplianceDashboard_ops), (useComplianceMapping_init, useComplianceMapping_ops), (useComplianceSchedules_init,
       useComplianceSchedules_ops), (useConditionalAccess_init, useConditionalAccess_ops), (useConsent_init, useConsent_ops), (useConsentScreen_init,
       useConsentScreen_ops), (useCorrelationRules_init, useCorrelationRules_ops), (useCredentialVault_init, useCredentialVault_ops),
       (useDelegation_init, useDelegation_ops), (useDeprovisioning_init, useDeprovisioning_ops), (useDeviceBindings_init, useDeviceBindings_ops),
       (useDeviceTrust_init, useDeviceTrust_ops), (useDevices_init, useDevices_ops), (useEmailOTP_init, useEmailOTP_ops), (useGDPRForget_init,
       useGDPRForget_ops), (useHijackDetection_init, useHijackDetection_ops), (useIdentityGovernance_init, useIdentityGovernance_ops),
       (useIncidentTimeline_init, useIncidentTimeline_ops), (useJITProvisioning_init, useJITProvisioning_ops), (useJWKSRotation_init,
       useJWKSRotation_ops), (useNotificationTemplates_init, useNotificationTemplates_ops), (usePIIScan_init, usePIIScan_ops),
       (usePasswordBreach_init, usePasswordBreach_ops), (usePolicyAsCode_init, usePolicyAsCode_ops), (useResourceACL_init, useResourceACL_ops),
       (useResourceTags_init, useResourceTags_ops), (useRetentionPolicies_init, useRetentionPolicies_ops), (useRiskScore_init, useRiskScore_ops),
       (useRoleHierarchy_init, useRoleHierarchy_ops), (useRoleTemplates_init, useRoleTemplates_ops), (useSecurityPosture_init,
       useSecurityPosture_ops), (useSessionRisk_init, useSessionRisk_ops), (useSoDMatrix_init, useSoDMatrix_ops), (useSoDRules_init, useSoDRules_ops),
       (useWebhookDelivery_init, useWebhookDelivery_ops)]"

lemma AUTH_HOOKS_start: "(s0, ops) \<in> set AUTH_HOOKS \<Longrightarrow> hs_var s0 ''isLoading'' = JBool False \<and> hs_var s0 ''error'' = JNull"
  unfolding AUTH_HOOKS_def by (auto simp: state_of_def useAccessPaths_init_def useAccessReviews_init_def useAnomalies_init_def useApprovals_init_def useBranding_init_def useClientAnalytics_init_def useComplianceDashboard_init_def useComplianceMapping_init_def useComplianceSchedules_init_def useConditionalAccess_init_def useConsent_init_def useConsentScreen_init_def useCorrelationRules_init_def useCredentialVault_init_def useDelegation_init_def useDeprovisioning_init_def useDeviceBindings_init_def useDeviceTrust_init_def useDevices_init_def useEmailOTP_init_def useGDPRForget_init_def useHijackDetection_init_def useIdentityGovernance_init_def useIncidentTimeline_init_def useJITProvisioning_init_def useJWKSRotation_init_def useNotificationTemplates_init_def usePIIScan_init_def usePasswordBreach_init_def usePolicyAsCode_init_def useResourceACL_init_def useResourceTags_init_def useRetentionPolicies_init_def useRiskScore_init_def useRoleHierarchy_init_def useRoleTemplates_init_def useSecurityPosture_init_def useSessionRisk_init_def useSoDMatrix_init_def useSoDRules_init_def useWebhookDelivery_init_def)

lemma AUTH_HOOKS_good: "(s0, ops) \<in> set AUTH_HOOKS \<Longrightarrow> c \<in> ops E x \<Longrightarrow> good_op (with_credentials x) c"
  unfolding AUTH_HOOKS_def by (auto dest: useAccessPaths_good useAccessReviews_good useAnomalies_good useApprovals_good useBranding_good useClientAnalytics_good useComplianceDashboard_good useComplianceMapping_good useComplianceSchedules_good useConditionalAccess_good useConsent_good useConsentScreen_good useCorrelationRules_good useCredentialVault_good useDelegation_good useDeprovisioning_good useDeviceBindings_good useDeviceTrust_good useDevices_good useEmailOTP_good useGDPRForget_good useHijackDetection_good useIdentityGovernance_good useIncidentTimeline_good useJITProvisioning_good useJWKSRotation_good useNotificationTemplates_good usePIIScan_good usePasswordBreach_good usePolicyAsCode_good useResourceACL_good useResourceTags_good useRetentionPolicies_good useRiskScore_good useRoleHierarchy_good useRoleTemplates_good useSecurityPosture_good useSessionRisk_good useSoDMatrix_good useSoDRules_good useWebhookDelivery_good)

lemma AUTH_HOOKS_blank: "(s0, ops) \<in> set AUTH_HOOKS \<Longrightarrow> c \<in> ops E x \<Longrightarrow> all_refused E \<Longrightarrow> blank c"
  unfolding AUTH_HOOKS_def by (auto dest: useAccessPaths_blank useAccessReviews_blank useAnomalies_blank useApprovals_blank useBranding_blank useClientAnalytics_blank useComplianceDashboard_blank useComplianceMapping_blank useComplianceSchedules_blank useConditionalAccess_blank useConsent_blank useConsentScreen_blank useCorrelationRules_blank useCredentialVault_blank useDelegation_blank useDeprovisioning_blank useDeviceBindings_blank useDeviceTrust_blank useDevices_blank useEmailOTP_blank useGDPRForget_blank useHijackDetection_blank useIdentityGovernance_blank useIncidentTimeline_blank useJITProvisioning_blank useJWKSRotation_blank useNotificationTemplates_blank usePIIScan_blank usePasswordBreach_blank usePolicyAsCode_blank useResourceACL_blank useResourceTags_blank useRetentionPolicies_blank useRiskScore_blank useRoleHierarchy_blank useRoleTemplates_blank useSecurityPosture_blank useSessionRisk_blank useSoDMatrix_blank useSoDRules_blank useWebhookDelivery_blank)

end
