(* ===== verification/Hooks_Plain_A.thy ===== *)
theory Hooks_Plain_A
  imports Hook_Ops
begin

text \<open>
  The resource hooks \<open>sdk/react/src/use*.ts\<close> that take only the address of the server, from \<open>useAPIKeyLifecycle\<close> on in the order of their names;
  \<open>Hooks_Plain_B\<close> holds the others.  For each hook its initial state, its operations in the order of the file, and the set of the operations it
  returns with all their arguments.  Every operation is shown to keep the contract of \<open>Hook_Ops\<close> with requests that carry neither a token
  nor a tenant.
\<close>

text \<open>A request without the token and without the tenant.\<close>

definition without_credentials :: "request \<Rightarrow> bool" where
  "without_credentials rq = (assoc ''Authorization'' (hdrs rq) = None \<and> assoc ''X-Tenant-ID'' (hdrs rq) = None)"

lemma plain_request_credentials [simp]: "without_credentials (plain_request m u [] body)" "without_credentials (plain_request m u json_header body)"
  by (simp_all add: without_credentials_def plain_request_def json_header_def)

section \<open>\<open>useAPIKeyLifecycle\<close>\<close>

definition useAPIKeyLifecycle_init :: "hook_state" where
  "useAPIKeyLifecycle_init = state_of [(''keys'', JArr []), (''loading'', JBool False), (''error'', JNull)]"

definition useAPIKeyLifecycle_fetchKeys :: "'w env \<Rightarrow> string \<Rightarrow> 'w cmd" where
  "useAPIKeyLifecycle_fetchKeys E baseUrl = setv ''loading'' (JBool True) (setv ''error'' JNull
     (try_catch E
     (send E (plain_request ''GET'' (baseUrl @ ''/api/v1/auth/api-keys'') [] None) (\<lambda>st body.
     unless_ok st (''HTTP '' @ show_int st) (read_json body (\<lambda>data'. reads data' (setv ''keys'' (js_or (js_or (js_opt_prop data' ''keys'')
       data') (JArr [])) (ret JUndef))))))
     (\<lambda>m. setv ''error'' (JStr m) (ret JUndef)) [(''loading'', JBool False)]))"

definition useAPIKeyLifecycle_createKey :: "'w env \<Rightarrow> string \<Rightarrow> string \<Rightarrow> jsv \<Rightarrow> string \<Rightarrow> 'w cmd" where
  "useAPIKeyLifecycle_createKey E baseUrl name' scopes expiresAt = setv ''loading'' (JBool True) (setv ''error'' JNull
     (try_catch E
     (send E (plain_request ''POST'' (baseUrl @ ''/api/v1/auth/api-keys'') json_header (Some (JObj [(''name'', JStr name'), (''scopes'', scopes),
       (''expires_at'', JStr expiresAt)]))) (\<lambda>st body.
     unless_ok st (''HTTP '' @ show_int st) (ret (JBool True))))
     (\<lambda>m. setv ''error'' (JStr m) (ret (JBool False))) [(''loading'', JBool False)]))"

definition useAPIKeyLifecycle_rotateKey :: "'w env \<Rightarrow> string \<Rightarrow> string \<Rightarrow> 'w cmd" where
  "useAPIKeyLifecycle_rotateKey E baseUrl id' = setv ''loading'' (JBool True) (setv ''error'' JNull
     (try_catch E
     (send E (plain_request ''POST'' (baseUrl @ ''/api/v1/auth/api-keys/'' @ id' @ ''/rotate'') [] None) (\<lambda>st body.
     unless_ok st (''HTTP '' @ show_int st) (ret (JBool True))))
     (\<lambda>m. setv ''error'' (JStr m) (ret (JBool False))) [(''loading'', JBool False)]))"

definition useAPIKeyLifecycle_revokeKey :: "'w env \<Rightarrow> string \<Rightarrow> string \<Rightarrow> 'w cmd" where
  "useAPIKeyLifecycle_revokeKey E baseUrl id' = setv ''loading'' (JBool True) (setv ''error'' JNull
     (try_catch E
     (send E (plain_request ''DELETE'' (baseUrl @ ''/api/v1/auth/api-keys/'' @ id') [] None) (\<lambda>st body.
     unless_ok st (''HTTP '' @ show_int st) (ret (JBool True))))
     (\<lambda>m. setv ''error'' (JStr m) (ret (JBool False))) [(''loading'', JBool False)]))"

definition useAPIKeyLifecycle_ops :: "'w env \<Rightarrow> string \<Rightarrow> 'w cmd set" where
  "useAPIKeyLifecycle_ops E baseUrl = {useAPIKeyLifecycle_fetchKeys E baseUrl} \<union> {useAPIKeyLifecycle_createKey E baseUrl name' scopes expiresAt
       |name' scopes expiresAt. True} \<union> {useAPIKeyLifecycle_rotateKey E baseUrl id' |id'. True} \<union> {useAPIKeyLifecycle_revokeKey E
       baseUrl id' |id'. True}"

lemma useAPIKeyLifecycle_blank: "c \<in> useAPIKeyLifecycle_ops E baseUrl \<Longrightarrow> all_refused E \<Longrightarrow> blank c"
  unfolding useAPIKeyLifecycle_ops_def useAPIKeyLifecycle_fetchKeys_def useAPIKeyLifecycle_createKey_def useAPIKeyLifecycle_rotateKey_def useAPIKeyLifecycle_revokeKey_def
  by (elim UnE CollectE exE conjE singletonE; simp add: blank_intros)

lemma useAPIKeyLifecycle_good: "c \<in> useAPIKeyLifecycle_ops E baseUrl \<Longrightarrow> good_op without_credentials c"
  unfolding useAPIKeyLifecycle_ops_def good_op_def useAPIKeyLifecycle_fetchKeys_def useAPIKeyLifecycle_createKey_def useAPIKeyLifecycle_rotateKey_def useAPIKeyLifecycle_revokeKey_def
  by (elim UnE CollectE exE conjE singletonE; simp add: op_intros)

section \<open>\<open>useAccessCertification\<close>\<close>

definition useAccessCertification_init :: "hook_state" where
  "useAccessCertification_init = state_of [(''loading'', JBool False), (''error'', JNull)]"

definition useAccessCertification_fetchCampaigns :: "'w env \<Rightarrow> string \<Rightarrow> 'w cmd" where
  "useAccessCertification_fetchCampaigns E baseUrl = setv ''loading'' (JBool True) (setv ''error'' JNull
     (try_catch E
     (send E (plain_request ''GET'' (baseUrl @ ''/api/v1/policy/access-certification/campaigns'') [] None) (\<lambda>st body.
     unless_ok st (''HTTP '' @ show_int st) (read_json body (\<lambda>data'. reads data' (ret (js_or (js_or (js_opt_prop data' ''campaigns'') data')
       (JArr [])))))))
     (\<lambda>m. setv ''error'' (JStr m) (ret (JArr []))) [(''loading'', JBool False)]))"

definition useAccessCertification_fetchUsers :: "'w env \<Rightarrow> string \<Rightarrow> string \<Rightarrow> 'w cmd" where
  "useAccessCertification_fetchUsers E baseUrl campaignId = setv ''loading'' (JBool True) (setv ''error'' JNull
     (try_catch E
     (send E (plain_request ''GET'' (baseUrl @ ''/api/v1/policy/access-certification/campaigns/'' @ campaignId @ ''/users'') [] None) (\<lambda>st
       body.
     unless_ok st (''HTTP '' @ show_int st) (read_json body (\<lambda>data'. reads data' (ret (js_or (js_or (js_opt_prop data' ''users'') data') (JArr
       [])))))))
     (\<lambda>m. setv ''error'' (JStr m) (ret (JArr []))) [(''loading'', JBool False)]))"

definition useAccessCertification_submitDecision :: "'w env \<Rightarrow> string \<Rightarrow> string \<Rightarrow> string \<Rightarrow> jsv \<Rightarrow> jsv \<Rightarrow> 'w cmd" where
  "useAccessCertification_submitDecision E baseUrl campaignId userId decision comment = setv ''loading'' (JBool True) (setv ''error'' JNull
     (try_catch E
     (send E (plain_request ''POST'' (baseUrl @ ''/api/v1/policy/access-certification/campaigns/'' @ campaignId @ ''/users/'' @ userId) json_header
       (Some (JObj [(''decision'', decision), (''comment'', comment)]))) (\<lambda>st body.
     unless_ok st (''HTTP '' @ show_int st) (ret (JBool True))))
     (\<lambda>m. setv ''error'' (JStr m) (ret (JBool False))) [(''loading'', JBool False)]))"

definition useAccessCertification_ops :: "'w env \<Rightarrow> string \<Rightarrow> 'w cmd set" where
  "useAccessCertification_ops E baseUrl = {useAccessCertification_fetchCampaigns E baseUrl} \<union> {useAccessCertification_fetchUsers E baseUrl
       campaignId |campaignId. True} \<union> {useAccessCertification_submitDecision E baseUrl campaignId userId decision comment |campaignId userId
       decision comment. True}"

lemma useAccessCertification_blank: "c \<in> useAccessCertification_ops E baseUrl \<Longrightarrow> all_refused E \<Longrightarrow> blank c"
  unfolding useAccessCertification_ops_def useAccessCertification_fetchCampaigns_def useAccessCertification_fetchUsers_def useAccessCertification_submitDecision_def
  by (elim UnE CollectE exE conjE singletonE; simp add: blank_intros)

lemma useAccessCertification_good: "c \<in> useAccessCertification_ops E baseUrl \<Longrightarrow> good_op without_credentials c"
  unfolding useAccessCertification_ops_def good_op_def useAccessCertification_fetchCampaigns_def useAccessCertification_fetchUsers_def useAccessCertification_submitDecision_def
  by (elim UnE CollectE exE conjE singletonE; simp add: op_intros)

section \<open>\<open>useAccessFrequency\<close>\<close>

definition useAccessFrequency_init :: "hook_state" where
  "useAccessFrequency_init = state_of [(''data'', JNull), (''loading'', JBool False), (''error'', JNull)]"

definition useAccessFrequency_fetchFrequency :: "'w env \<Rightarrow> string \<Rightarrow> string \<Rightarrow> 'w cmd" where
  "useAccessFrequency_fetchFrequency E baseUrl resourceId = branch (resourceId = []) (ret JUndef) (setv ''loading'' (JBool True) (setv ''error'' JNull
     (try_catch E
     (send E (plain_request ''GET'' (baseUrl @ ''/api/v1/policy/access-frequency?resource='' @ encodeURIComponent resourceId) [] None) (\<lambda>st
       body.
     unless_ok st (''HTTP '' @ show_int st) (read_json body (\<lambda>json'. setv ''data'' json' (ret JUndef)))))
     (\<lambda>m. setv ''error'' (JStr m) (setv ''data'' JNull (ret JUndef))) [(''loading'', JBool False)])))"

definition useAccessFrequency_ops :: "'w env \<Rightarrow> string \<Rightarrow> 'w cmd set" where
  "useAccessFrequency_ops E baseUrl = {useAccessFrequency_fetchFrequency E baseUrl resourceId |resourceId. True}"

lemma useAccessFrequency_blank: "c \<in> useAccessFrequency_ops E baseUrl \<Longrightarrow> all_refused E \<Longrightarrow> blank c"
  unfolding useAccessFrequency_ops_def useAccessFrequency_fetchFrequency_def
  by (elim UnE CollectE exE conjE singletonE; simp add: blank_intros)

lemma useAccessFrequency_good: "c \<in> useAccessFrequency_ops E baseUrl \<Longrightarrow> good_op without_credentials c"
  unfolding useAccessFrequency_ops_def good_op_def useAccessFrequency_fetchFrequency_def
  by (elim UnE CollectE exE conjE singletonE; simp add: op_intros)

section \<open>\<open>useAccessGraph\<close>\<close>

definition useAccessGraph_init :: "hook_state" where
  "useAccessGraph_init = state_of [(''data'', JNull), (''loading'', JBool False), (''error'', JNull)]"

definition useAccessGraph_fetchGraph :: "'w env \<Rightarrow> string \<Rightarrow> string \<Rightarrow> 'w cmd" where
  "useAccessGraph_fetchGraph E baseUrl subject = setv ''loading'' (JBool True) (setv ''error'' JNull
     (try_catch E
     (send E (plain_request ''GET'' (baseUrl @ ''/api/v1/policy/access-graph?subject='' @ encodeURIComponent subject) [] None) (\<lambda>st body.
     unless_ok st (''HTTP '' @ show_int st) (read_json body (\<lambda>v. setv ''data'' v (ret JUndef)))))
     (\<lambda>m. setv ''error'' (JStr m) (ret JUndef)) [(''loading'', JBool False)]))"

definition useAccessGraph_ops :: "'w env \<Rightarrow> string \<Rightarrow> 'w cmd set" where
  "useAccessGraph_ops E baseUrl = {useAccessGraph_fetchGraph E baseUrl subject |subject. True}"

lemma useAccessGraph_blank: "c \<in> useAccessGraph_ops E baseUrl \<Longrightarrow> all_refused E \<Longrightarrow> blank c"
  unfolding useAccessGraph_ops_def useAccessGraph_fetchGraph_def
  by (elim UnE CollectE exE conjE singletonE; simp add: blank_intros)

lemma useAccessGraph_good: "c \<in> useAccessGraph_ops E baseUrl \<Longrightarrow> good_op without_credentials c"
  unfolding useAccessGraph_ops_def good_op_def useAccessGraph_fetchGraph_def
  by (elim UnE CollectE exE conjE singletonE; simp add: op_intros)

section \<open>\<open>useAccessOptimization\<close>\<close>

definition useAccessOptimization_init :: "hook_state" where
  "useAccessOptimization_init = state_of [(''data'', JNull), (''loading'', JBool False), (''error'', JNull)]"

definition useAccessOptimization_fetchOptimization :: "'w env \<Rightarrow> string \<Rightarrow> string \<Rightarrow> 'w cmd" where
  "useAccessOptimization_fetchOptimization E baseUrl user' = branch (user' = []) (ret JUndef) (setv ''loading'' (JBool True) (setv ''error'' JNull
     (try_catch E
     (send E (plain_request ''GET'' (baseUrl @ ''/api/v1/policy/access-optimization?user='' @ encodeURIComponent user') [] None) (\<lambda>st body.
     unless_ok st (''HTTP '' @ show_int st) (read_json body (\<lambda>json'. setv ''data'' json' (ret JUndef)))))
     (\<lambda>m. setv ''error'' (JStr m) (setv ''data'' JNull (ret JUndef))) [(''loading'', JBool False)])))"

definition useAccessOptimization_ops :: "'w env \<Rightarrow> string \<Rightarrow> 'w cmd set" where
  "useAccessOptimization_ops E baseUrl = {useAccessOptimization_fetchOptimization E baseUrl user' |user'. True}"

lemma useAccessOptimization_blank: "c \<in> useAccessOptimization_ops E baseUrl \<Longrightarrow> all_refused E \<Longrightarrow> blank c"
  unfolding useAccessOptimization_ops_def useAccessOptimization_fetchOptimization_def
  by (elim UnE CollectE exE conjE singletonE; simp add: blank_intros)

lemma useAccessOptimization_good: "c \<in> useAccessOptimization_ops E baseUrl \<Longrightarrow> good_op without_credentials c"
  unfolding useAccessOptimization_ops_def good_op_def useAccessOptimization_fetchOptimization_def
  by (elim UnE CollectE exE conjE singletonE; simp add: op_intros)

section \<open>\<open>useAccessRequest\<close>\<close>

definition useAccessRequest_init :: "hook_state" where
  "useAccessRequest_init = state_of [(''requests'', JArr []), (''loading'', JBool False), (''error'', JNull)]"

definition useAccessRequest_fetchRequests :: "'w env \<Rightarrow> string \<Rightarrow> 'w cmd" where
  "useAccessRequest_fetchRequests E baseUrl = setv ''loading'' (JBool True) (setv ''error'' JNull
     (try_catch E
     (send E (plain_request ''GET'' (baseUrl @ ''/api/v1/policy/access-request'') [] None) (\<lambda>st body.
     unless_ok st (''HTTP '' @ show_int st) (read_json body (\<lambda>data'. reads data' (setv ''requests'' (js_or (js_or (js_opt_prop data'
       ''requests'') data') (JArr [])) (ret JUndef))))))
     (\<lambda>m. setv ''error'' (JStr m) (ret JUndef)) [(''loading'', JBool False)]))"

definition useAccessRequest_submitRequest :: "'w env \<Rightarrow> string \<Rightarrow> jsv \<Rightarrow> 'w cmd" where
  "useAccessRequest_submitRequest E baseUrl payload = setv ''loading'' (JBool True) (setv ''error'' JNull
     (try_catch E
     (send E (plain_request ''POST'' (baseUrl @ ''/api/v1/policy/access-request'') json_header (Some payload)) (\<lambda>st body.
     unless_ok st (''HTTP '' @ show_int st) (ret (JBool True))))
     (\<lambda>m. setv ''error'' (JStr m) (ret (JBool False))) [(''loading'', JBool False)]))"

definition useAccessRequest_decide :: "'w env \<Rightarrow> string \<Rightarrow> string \<Rightarrow> string \<Rightarrow> 'w cmd" where
  "useAccessRequest_decide E baseUrl id' decision = setv ''loading'' (JBool True) (setv ''error'' JNull
     (try_catch E
     (send E (plain_request ''POST'' (baseUrl @ ''/api/v1/policy/access-request/'' @ id') json_header (Some (JObj [(''decision'', JStr decision)])))
       (\<lambda>st body.
     unless_ok st (''HTTP '' @ show_int st) (ret (JBool True))))
     (\<lambda>m. setv ''error'' (JStr m) (ret (JBool False))) [(''loading'', JBool False)]))"

definition useAccessRequest_ops :: "'w env \<Rightarrow> string \<Rightarrow> 'w cmd set" where
  "useAccessRequest_ops E baseUrl = {useAccessRequest_fetchRequests E baseUrl} \<union> {useAccessRequest_submitRequest E baseUrl payload |payload.
       True} \<union> {useAccessRequest_decide E baseUrl id' decision |id' decision. True}"

lemma useAccessRequest_blank: "c \<in> useAccessRequest_ops E baseUrl \<Longrightarrow> all_refused E \<Longrightarrow> blank c"
  unfolding useAccessRequest_ops_def useAccessRequest_fetchRequests_def useAccessRequest_submitRequest_def useAccessRequest_decide_def
  by (elim UnE CollectE exE conjE singletonE; simp add: blank_intros)

lemma useAccessRequest_good: "c \<in> useAccessRequest_ops E baseUrl \<Longrightarrow> good_op without_credentials c"
  unfolding useAccessRequest_ops_def good_op_def useAccessRequest_fetchRequests_def useAccessRequest_submitRequest_def useAccessRequest_decide_def
  by (elim UnE CollectE exE conjE singletonE; simp add: op_intros)

section \<open>\<open>useAccessReviewCampaigns\<close>\<close>

definition useAccessReviewCampaigns_init :: "hook_state" where
  "useAccessReviewCampaigns_init = state_of [(''campaigns'', JArr []), (''loading'', JBool False), (''error'', JNull)]"

definition useAccessReviewCampaigns_fetchCampaigns :: "'w env \<Rightarrow> string \<Rightarrow> 'w cmd" where
  "useAccessReviewCampaigns_fetchCampaigns E baseUrl = setv ''loading'' (JBool True) (setv ''error'' JNull
     (try_catch E
     (send E (plain_request ''GET'' (baseUrl @ ''/api/v1/policy/access-review-campaigns'') [] None) (\<lambda>st body.
     unless_ok st (''HTTP '' @ show_int st) (read_json body (\<lambda>data'. reads data' (setv ''campaigns'' (js_or (js_or (js_opt_prop data'
       ''campaigns'') data') (JArr [])) (ret JUndef))))))
     (\<lambda>m. setv ''error'' (JStr m) (ret JUndef)) [(''loading'', JBool False)]))"

definition useAccessReviewCampaigns_createCampaign :: "'w env \<Rightarrow> string \<Rightarrow> jsv \<Rightarrow> 'w cmd" where
  "useAccessReviewCampaigns_createCampaign E baseUrl payload = setv ''loading'' (JBool True) (setv ''error'' JNull
     (try_catch E
     (send E (plain_request ''POST'' (baseUrl @ ''/api/v1/policy/access-review-campaigns'') json_header (Some payload)) (\<lambda>st body.
     unless_ok st (''HTTP '' @ show_int st) (ret (JBool True))))
     (\<lambda>m. setv ''error'' (JStr m) (ret (JBool False))) [(''loading'', JBool False)]))"

definition useAccessReviewCampaigns_ops :: "'w env \<Rightarrow> string \<Rightarrow> 'w cmd set" where
  "useAccessReviewCampaigns_ops E baseUrl = {useAccessReviewCampaigns_fetchCampaigns E baseUrl} \<union> {useAccessReviewCampaigns_createCampaign E
       baseUrl payload |payload. True}"

lemma useAccessReviewCampaigns_blank: "c \<in> useAccessReviewCampaigns_ops E baseUrl \<Longrightarrow> all_refused E \<Longrightarrow> blank c"
  unfolding useAccessReviewCampaigns_ops_def useAccessReviewCampaigns_fetchCampaigns_def useAccessReviewCampaigns_createCampaign_def
  by (elim UnE CollectE exE conjE singletonE; simp add: blank_intros)

lemma useAccessReviewCampaigns_good: "c \<in> useAccessReviewCampaigns_ops E baseUrl \<Longrightarrow> good_op without_credentials c"
  unfolding useAccessReviewCampaigns_ops_def good_op_def useAccessReviewCampaigns_fetchCampaigns_def useAccessReviewCampaigns_createCampaign_def
  by (elim UnE CollectE exE conjE singletonE; simp add: op_intros)

section \<open>\<open>useAccountRecovery\<close>\<close>

definition useAccountRecovery_init :: "hook_state" where
  "useAccountRecovery_init = state_of [(''config'', JNull), (''codes'', JArr []), (''loading'', JBool False), (''error'', JNull)]"

definition useAccountRecovery_fetchData :: "'w env \<Rightarrow> string \<Rightarrow> 'w cmd" where
  "useAccountRecovery_fetchData E baseUrl = setv ''loading'' (JBool True) (setv ''error'' JNull
     (try_catch E
     (send E (plain_request ''GET'' (baseUrl @ ''/api/v1/auth/account-recovery'') [] None) (\<lambda>st body.
     unless_ok st (''HTTP '' @ show_int st) (read_json body (\<lambda>d. reads d (setv ''config'' (js_opt_prop d ''config'') (reads d (setv ''codes''
       (js_or (js_opt_prop d ''recovery_codes'') (JArr [])) (ret JUndef))))))))
     (\<lambda>m. setv ''error'' (JStr m) (ret JUndef)) [(''loading'', JBool False)]))"

definition useAccountRecovery_ops :: "'w env \<Rightarrow> string \<Rightarrow> 'w cmd set" where
  "useAccountRecovery_ops E baseUrl = {useAccountRecovery_fetchData E baseUrl}"

lemma useAccountRecovery_blank: "c \<in> useAccountRecovery_ops E baseUrl \<Longrightarrow> all_refused E \<Longrightarrow> blank c"
  unfolding useAccountRecovery_ops_def useAccountRecovery_fetchData_def
  by (elim UnE CollectE exE conjE singletonE; simp add: blank_intros)

lemma useAccountRecovery_good: "c \<in> useAccountRecovery_ops E baseUrl \<Longrightarrow> good_op without_credentials c"
  unfolding useAccountRecovery_ops_def good_op_def useAccountRecovery_fetchData_def
  by (elim UnE CollectE exE conjE singletonE; simp add: op_intros)

section \<open>\<open>useAdminSettings\<close>\<close>

definition useAdminSettings_init :: "hook_state" where
  "useAdminSettings_init = state_of [(''config'', JNull), (''loading'', JBool False), (''error'', JNull)]"

definition useAdminSettings_fetchConfig :: "'w env \<Rightarrow> string \<Rightarrow> 'w cmd" where
  "useAdminSettings_fetchConfig E baseUrl = setv ''loading'' (JBool True) (setv ''error'' JNull
     (try_catch E
     (send E (plain_request ''GET'' (baseUrl @ ''/api/v1/admin/settings'') [] None) (\<lambda>st body.
     unless_ok st (''HTTP '' @ show_int st) (read_json body (\<lambda>v. setv ''config'' v (ret JUndef)))))
     (\<lambda>m. setv ''error'' (JStr m) (ret JUndef)) [(''loading'', JBool False)]))"

definition useAdminSettings_saveConfig :: "'w env \<Rightarrow> string \<Rightarrow> jsv \<Rightarrow> 'w cmd" where
  "useAdminSettings_saveConfig E baseUrl cfg = setv ''loading'' (JBool True) (setv ''error'' JNull
     (try_catch E
     (send E (plain_request ''PUT'' (baseUrl @ ''/api/v1/admin/settings'') json_header (Some cfg)) (\<lambda>st body.
     unless_ok st (''HTTP '' @ show_int st) (setv ''config'' cfg (ret (JBool True)))))
     (\<lambda>m. setv ''error'' (JStr m) (ret (JBool False))) [(''loading'', JBool False)]))"

definition useAdminSettings_ops :: "'w env \<Rightarrow> string \<Rightarrow> 'w cmd set" where
  "useAdminSettings_ops E baseUrl = {useAdminSettings_fetchConfig E baseUrl} \<union> {useAdminSettings_saveConfig E baseUrl cfg |cfg. True}"

lemma useAdminSettings_blank: "c \<in> useAdminSettings_ops E baseUrl \<Longrightarrow> all_refused E \<Longrightarrow> blank c"
  unfolding useAdminSettings_ops_def useAdminSettings_fetchConfig_def useAdminSettings_saveConfig_def
  by (elim UnE CollectE exE conjE singletonE; simp add: blank_intros)

lemma useAdminSettings_good: "c \<in> useAdminSettings_ops E baseUrl \<Longrightarrow> good_op without_credentials c"
  unfolding useAdminSettings_ops_def good_op_def useAdminSettings_fetchConfig_def useAdminSettings_saveConfig_def
  by (elim UnE CollectE exE conjE singletonE; simp add: op_intros)

section \<open>\<open>useAnomalyDetection\<close>\<close>

definition useAnomalyDetection_init :: "hook_state" where
  "useAnomalyDetection_init = state_of [(''events'', JArr []), (''loading'', JBool False), (''error'', JNull)]"

definition useAnomalyDetection_fetchEvents :: "'w env \<Rightarrow> string \<Rightarrow> 'w cmd" where
  "useAnomalyDetection_fetchEvents E baseUrl = setv ''loading'' (JBool True) (setv ''error'' JNull
     (try_catch E
     (send E (plain_request ''GET'' (baseUrl @ ''/api/v1/audit/anomaly-detection'') [] None) (\<lambda>st body.
     unless_ok st (''HTTP '' @ show_int st) (read_json body (\<lambda>data'. reads data' (setv ''events'' (js_or (js_or (js_opt_prop data' ''events'')
       data') (JArr [])) (ret JUndef))))))
     (\<lambda>m. setv ''error'' (JStr m) (ret JUndef)) [(''loading'', JBool False)]))"

definition useAnomalyDetection_updateStatus :: "'w env \<Rightarrow> string \<Rightarrow> string \<Rightarrow> string \<Rightarrow> 'w cmd" where
  "useAnomalyDetection_updateStatus E baseUrl id' status' = try_catch E
     (send E (plain_request ''PATCH'' (baseUrl @ ''/api/v1/audit/anomaly-detection/'' @ id') json_header (Some (JObj [(''status'', JStr status')])))
       (\<lambda>st body.
     ret JUndef))
     (\<lambda>m. ret JUndef) []"

definition useAnomalyDetection_ops :: "'w env \<Rightarrow> string \<Rightarrow> 'w cmd set" where
  "useAnomalyDetection_ops E baseUrl = {useAnomalyDetection_fetchEvents E baseUrl} \<union> {useAnomalyDetection_updateStatus E baseUrl id' status'
       |id' status'. True}"

lemma useAnomalyDetection_blank: "c \<in> useAnomalyDetection_ops E baseUrl \<Longrightarrow> all_refused E \<Longrightarrow> blank c"
  unfolding useAnomalyDetection_ops_def useAnomalyDetection_fetchEvents_def useAnomalyDetection_updateStatus_def
  by (elim UnE CollectE exE conjE singletonE; simp add: blank_intros)

lemma useAnomalyDetection_good: "c \<in> useAnomalyDetection_ops E baseUrl \<Longrightarrow> good_op without_credentials c"
  unfolding useAnomalyDetection_ops_def good_op_def useAnomalyDetection_fetchEvents_def useAnomalyDetection_updateStatus_def
  by (elim UnE CollectE exE conjE singletonE; simp add: op_intros)

section \<open>\<open>useAnomalyScoring\<close>\<close>

definition useAnomalyScoring_init :: "hook_state" where
  "useAnomalyScoring_init = state_of [(''data'', JNull), (''loading'', JBool False), (''error'', JNull)]"

definition useAnomalyScoring_fetchData :: "'w env \<Rightarrow> string \<Rightarrow> 'w cmd" where
  "useAnomalyScoring_fetchData E baseUrl = setv ''loading'' (JBool True) (setv ''error'' JNull
     (try_catch E
     (send E (plain_request ''GET'' (baseUrl @ ''/api/v1/auth/anomaly-scoring'') [] None) (\<lambda>st body.
     unless_ok st (''HTTP '' @ show_int st) (read_json body (\<lambda>v. setv ''data'' v (ret JUndef)))))
     (\<lambda>m. setv ''error'' (JStr m) (ret JUndef)) [(''loading'', JBool False)]))"

definition useAnomalyScoring_ops :: "'w env \<Rightarrow> string \<Rightarrow> 'w cmd set" where
  "useAnomalyScoring_ops E baseUrl = {useAnomalyScoring_fetchData E baseUrl}"

lemma useAnomalyScoring_blank: "c \<in> useAnomalyScoring_ops E baseUrl \<Longrightarrow> all_refused E \<Longrightarrow> blank c"
  unfolding useAnomalyScoring_ops_def useAnomalyScoring_fetchData_def
  by (elim UnE CollectE exE conjE singletonE; simp add: blank_intros)

lemma useAnomalyScoring_good: "c \<in> useAnomalyScoring_ops E baseUrl \<Longrightarrow> good_op without_credentials c"
  unfolding useAnomalyScoring_ops_def good_op_def useAnomalyScoring_fetchData_def
  by (elim UnE CollectE exE conjE singletonE; simp add: op_intros)

section \<open>\<open>useApiGatewayConfig\<close>\<close>

definition useApiGatewayConfig_init :: "hook_state" where
  "useApiGatewayConfig_init = state_of [(''config'', JNull), (''loading'', JBool False), (''error'', JNull)]"

definition useApiGatewayConfig_fetchConfig :: "'w env \<Rightarrow> string \<Rightarrow> 'w cmd" where
  "useApiGatewayConfig_fetchConfig E baseUrl = setv ''loading'' (JBool True) (setv ''error'' JNull
     (try_catch E
     (send E (plain_request ''GET'' (baseUrl @ ''/api/v1/admin/gateway-config'') [] None) (\<lambda>st body.
     unless_ok st (''HTTP '' @ show_int st) (read_json body (\<lambda>v. setv ''config'' v (ret JUndef)))))
     (\<lambda>m. setv ''error'' (JStr m) (ret JUndef)) [(''loading'', JBool False)]))"

definition useApiGatewayConfig_saveConfig :: "'w env \<Rightarrow> string \<Rightarrow> jsv \<Rightarrow> 'w cmd" where
  "useApiGatewayConfig_saveConfig E baseUrl cfg = setv ''loading'' (JBool True) (setv ''error'' JNull
     (try_catch E
     (send E (plain_request ''PUT'' (baseUrl @ ''/api/v1/admin/gateway-config'') json_header (Some cfg)) (\<lambda>st body.
     unless_ok st (''HTTP '' @ show_int st) (setv ''config'' cfg (ret (JBool True)))))
     (\<lambda>m. setv ''error'' (JStr m) (ret (JBool False))) [(''loading'', JBool False)]))"

definition useApiGatewayConfig_ops :: "'w env \<Rightarrow> string \<Rightarrow> 'w cmd set" where
  "useApiGatewayConfig_ops E baseUrl = {useApiGatewayConfig_fetchConfig E baseUrl} \<union> {useApiGatewayConfig_saveConfig E baseUrl cfg |cfg. True}"

lemma useApiGatewayConfig_blank: "c \<in> useApiGatewayConfig_ops E baseUrl \<Longrightarrow> all_refused E \<Longrightarrow> blank c"
  unfolding useApiGatewayConfig_ops_def useApiGatewayConfig_fetchConfig_def useApiGatewayConfig_saveConfig_def
  by (elim UnE CollectE exE conjE singletonE; simp add: blank_intros)

lemma useApiGatewayConfig_good: "c \<in> useApiGatewayConfig_ops E baseUrl \<Longrightarrow> good_op without_credentials c"
  unfolding useApiGatewayConfig_ops_def good_op_def useApiGatewayConfig_fetchConfig_def useApiGatewayConfig_saveConfig_def
  by (elim UnE CollectE exE conjE singletonE; simp add: op_intros)

section \<open>\<open>useAttributeGovernance\<close>\<close>

definition useAttributeGovernance_init :: "hook_state" where
  "useAttributeGovernance_init = state_of [(''attributes'', JArr []), (''loading'', JBool False), (''error'', JNull)]"

definition useAttributeGovernance_fetchAttributes :: "'w env \<Rightarrow> string \<Rightarrow> 'w cmd" where
  "useAttributeGovernance_fetchAttributes E baseUrl = setv ''loading'' (JBool True) (setv ''error'' JNull
     (try_catch E
     (send E (plain_request ''GET'' (baseUrl @ ''/api/v1/identity/attribute-governance'') [] None) (\<lambda>st body.
     unless_ok st (''HTTP '' @ show_int st) (read_json body (\<lambda>data'. reads data' (setv ''attributes'' (js_or (js_or (js_opt_prop data'
       ''attributes'') data') (JArr [])) (ret JUndef))))))
     (\<lambda>m. setv ''error'' (JStr m) (ret JUndef)) [(''loading'', JBool False)]))"

definition useAttributeGovernance_ops :: "'w env \<Rightarrow> string \<Rightarrow> 'w cmd set" where
  "useAttributeGovernance_ops E baseUrl = {useAttributeGovernance_fetchAttributes E baseUrl}"

lemma useAttributeGovernance_blank: "c \<in> useAttributeGovernance_ops E baseUrl \<Longrightarrow> all_refused E \<Longrightarrow> blank c"
  unfolding useAttributeGovernance_ops_def useAttributeGovernance_fetchAttributes_def
  by (elim UnE CollectE exE conjE singletonE; simp add: blank_intros)

lemma useAttributeGovernance_good: "c \<in> useAttributeGovernance_ops E baseUrl \<Longrightarrow> good_op without_credentials c"
  unfolding useAttributeGovernance_ops_def good_op_def useAttributeGovernance_fetchAttributes_def
  by (elim UnE CollectE exE conjE singletonE; simp add: op_intros)

section \<open>\<open>useAuditChallengeResponse\<close>\<close>

definition useAuditChallengeResponse_init :: "hook_state" where
  "useAuditChallengeResponse_init = state_of [(''open'', JArr []), (''resolved'', JArr []), (''loading'', JBool False), (''error'', JNull)]"

definition useAuditChallengeResponse_fetchData :: "'w env \<Rightarrow> string \<Rightarrow> 'w cmd" where
  "useAuditChallengeResponse_fetchData E baseUrl = setv ''loading'' (JBool True) (setv ''error'' JNull
     (try_catch E
     (send E (plain_request ''GET'' (baseUrl @ ''/api/v1/audit/challenge-response'') [] None) (\<lambda>st body.
     unless_ok st (''HTTP '' @ show_int st) (read_json body (\<lambda>d. reads d (setv ''open'' (js_or (js_opt_prop d ''open'') (JArr [])) (reads d
       (setv ''resolved'' (js_or (js_opt_prop d ''resolved'') (JArr [])) (ret JUndef))))))))
     (\<lambda>m. setv ''error'' (JStr m) (ret JUndef)) [(''loading'', JBool False)]))"

definition useAuditChallengeResponse_ops :: "'w env \<Rightarrow> string \<Rightarrow> 'w cmd set" where
  "useAuditChallengeResponse_ops E baseUrl = {useAuditChallengeResponse_fetchData E baseUrl}"

lemma useAuditChallengeResponse_blank: "c \<in> useAuditChallengeResponse_ops E baseUrl \<Longrightarrow> all_refused E \<Longrightarrow> blank c"
  unfolding useAuditChallengeResponse_ops_def useAuditChallengeResponse_fetchData_def
  by (elim UnE CollectE exE conjE singletonE; simp add: blank_intros)

lemma useAuditChallengeResponse_good: "c \<in> useAuditChallengeResponse_ops E baseUrl \<Longrightarrow> good_op without_credentials c"
  unfolding useAuditChallengeResponse_ops_def good_op_def useAuditChallengeResponse_fetchData_def
  by (elim UnE CollectE exE conjE singletonE; simp add: op_intros)

section \<open>\<open>useAuditRetentionPolicy\<close>\<close>

definition useAuditRetentionPolicy_init :: "hook_state" where
  "useAuditRetentionPolicy_init = state_of [(''data'', JNull), (''loading'', JBool False), (''error'', JNull)]"

definition useAuditRetentionPolicy_fetchPolicy :: "'w env \<Rightarrow> string \<Rightarrow> 'w cmd" where
  "useAuditRetentionPolicy_fetchPolicy E baseUrl = setv ''loading'' (JBool True) (setv ''error'' JNull
     (try_catch E
     (send E (plain_request ''GET'' (baseUrl @ ''/api/v1/audit/retention-policy'') [] None) (\<lambda>st body.
     unless_ok st (''HTTP '' @ show_int st) (read_json body (\<lambda>v. setv ''data'' v (ret JUndef)))))
     (\<lambda>m. setv ''error'' (JStr m) (ret JUndef)) [(''loading'', JBool False)]))"

definition useAuditRetentionPolicy_savePolicy :: "'w env \<Rightarrow> string \<Rightarrow> jsv \<Rightarrow> 'w cmd" where
  "useAuditRetentionPolicy_savePolicy E baseUrl d = setv ''loading'' (JBool True) (setv ''error'' JNull
     (try_catch E
     (send E (plain_request ''PUT'' (baseUrl @ ''/api/v1/audit/retention-policy'') json_header (Some d)) (\<lambda>st body.
     unless_ok st (''HTTP '' @ show_int st) (ret (JBool True))))
     (\<lambda>m. setv ''error'' (JStr m) (ret (JBool False))) [(''loading'', JBool False)]))"

definition useAuditRetentionPolicy_ops :: "'w env \<Rightarrow> string \<Rightarrow> 'w cmd set" where
  "useAuditRetentionPolicy_ops E baseUrl = {useAuditRetentionPolicy_fetchPolicy E baseUrl} \<union> {useAuditRetentionPolicy_savePolicy E baseUrl d |d.
       True}"

lemma useAuditRetentionPolicy_blank: "c \<in> useAuditRetentionPolicy_ops E baseUrl \<Longrightarrow> all_refused E \<Longrightarrow> blank c"
  unfolding useAuditRetentionPolicy_ops_def useAuditRetentionPolicy_fetchPolicy_def useAuditRetentionPolicy_savePolicy_def
  by (elim UnE CollectE exE conjE singletonE; simp add: blank_intros)

lemma useAuditRetentionPolicy_good: "c \<in> useAuditRetentionPolicy_ops E baseUrl \<Longrightarrow> good_op without_credentials c"
  unfolding useAuditRetentionPolicy_ops_def good_op_def useAuditRetentionPolicy_fetchPolicy_def useAuditRetentionPolicy_savePolicy_def
  by (elim UnE CollectE exE conjE singletonE; simp add: op_intros)

section \<open>\<open>useAuthSessionResilienceConfig\<close>\<close>

definition useAuthSessionResilienceConfig_init :: "hook_state" where
  "useAuthSessionResilienceConfig_init = state_of [(''config'', JNull), (''loading'', JBool False), (''error'', JNull)]"

definition useAuthSessionResilienceConfig_fetchConfig :: "'w env \<Rightarrow> string \<Rightarrow> 'w cmd" where
  "useAuthSessionResilienceConfig_fetchConfig E baseUrl = setv ''loading'' (JBool True) (setv ''error'' JNull
     (try_catch E
     (send E (plain_request ''GET'' (baseUrl @ ''/api/v1/settings/auth-session-resilience-config'') [] None) (\<lambda>st body.
     unless_ok st (''HTTP '' @ show_int st) (read_json body (\<lambda>v. setv ''config'' v (ret JUndef)))))
     (\<lambda>m. setv ''error'' (JStr m) (ret JUndef)) [(''loading'', JBool False)]))"

definition useAuthSessionResilienceConfig_updateConfig :: "'w env \<Rightarrow> string \<Rightarrow> jsv \<Rightarrow> 'w cmd" where
  "useAuthSessionResilienceConfig_updateConfig E baseUrl patch = setv ''loading'' (JBool True) (setv ''error'' JNull
     (try_catch E
     (send E (plain_request ''PUT'' (baseUrl @ ''/api/v1/settings/auth-session-resilience-config'') json_header (Some patch)) (\<lambda>st body.
     unless_ok st (''HTTP '' @ show_int st) (read_json body (\<lambda>data'. setv ''config'' data' (ret data')))))
     (\<lambda>m. setv ''error'' (JStr m) (ret JNull)) [(''loading'', JBool False)]))"

definition useAuthSessionResilienceConfig_testRecovery :: "'w env \<Rightarrow> string \<Rightarrow> 'w cmd" where
  "useAuthSessionResilienceConfig_testRecovery E baseUrl = setv ''loading'' (JBool True) (setv ''error'' JNull
     (try_catch E
     (send E (plain_request ''POST'' (baseUrl @ ''/api/v1/settings/auth-session-resilience-config/test'') [] None) (\<lambda>st body.
     unless_ok st (''HTTP '' @ show_int st) (read_json body (\<lambda>v. ret v))))
     (\<lambda>m. setv ''error'' (JStr m) (ret JNull)) [(''loading'', JBool False)]))"

definition useAuthSessionResilienceConfig_ops :: "'w env \<Rightarrow> string \<Rightarrow> 'w cmd set" where
  "useAuthSessionResilienceConfig_ops E baseUrl = {useAuthSessionResilienceConfig_fetchConfig E baseUrl} \<union>
       {useAuthSessionResilienceConfig_updateConfig E baseUrl patch |patch. True} \<union> {useAuthSessionResilienceConfig_testRecovery E baseUrl}"

lemma useAuthSessionResilienceConfig_blank: "c \<in> useAuthSessionResilienceConfig_ops E baseUrl \<Longrightarrow> all_refused E \<Longrightarrow> blank c"
  unfolding useAuthSessionResilienceConfig_ops_def useAuthSessionResilienceConfig_fetchConfig_def useAuthSessionResilienceConfig_updateConfig_def useAuthSessionResilienceConfig_testRecovery_def
  by (elim UnE CollectE exE conjE singletonE; simp add: blank_intros)

lemma useAuthSessionResilienceConfig_good: "c \<in> useAuthSessionResilienceConfig_ops E baseUrl \<Longrightarrow> good_op without_credentials c"
  unfolding useAuthSessionResilienceConfig_ops_def good_op_def useAuthSessionResilienceConfig_fetchConfig_def useAuthSessionResilienceConfig_updateConfig_def useAuthSessionResilienceConfig_testRecovery_def
  by (elim UnE CollectE exE conjE singletonE; simp add: op_intros)

section \<open>\<open>useAuthorizeFlowAnalytics\<close>\<close>

definition useAuthorizeFlowAnalytics_init :: "hook_state" where
  "useAuthorizeFlowAnalytics_init = state_of [(''data'', JNull), (''loading'', JBool False), (''error'', JNull)]"

definition useAuthorizeFlowAnalytics_fetchAnalytics :: "'w env \<Rightarrow> string \<Rightarrow> 'w cmd" where
  "useAuthorizeFlowAnalytics_fetchAnalytics E baseUrl = setv ''loading'' (JBool True) (setv ''error'' JNull
     (try_catch E
     (send E (plain_request ''GET'' (baseUrl @ ''/api/v1/oauth/authorize-flow-analytics'') [] None) (\<lambda>st body.
     unless_ok st (''HTTP '' @ show_int st) (read_json body (\<lambda>v. setv ''data'' v (ret JUndef)))))
     (\<lambda>m. setv ''error'' (JStr m) (ret JUndef)) [(''loading'', JBool False)]))"

definition useAuthorizeFlowAnalytics_ops :: "'w env \<Rightarrow> string \<Rightarrow> 'w cmd set" where
  "useAuthorizeFlowAnalytics_ops E baseUrl = {useAuthorizeFlowAnalytics_fetchAnalytics E baseUrl}"

lemma useAuthorizeFlowAnalytics_blank: "c \<in> useAuthorizeFlowAnalytics_ops E baseUrl \<Longrightarrow> all_refused E \<Longrightarrow> blank c"
  unfolding useAuthorizeFlowAnalytics_ops_def useAuthorizeFlowAnalytics_fetchAnalytics_def
  by (elim UnE CollectE exE conjE singletonE; simp add: blank_intros)

lemma useAuthorizeFlowAnalytics_good: "c \<in> useAuthorizeFlowAnalytics_ops E baseUrl \<Longrightarrow> good_op without_credentials c"
  unfolding useAuthorizeFlowAnalytics_ops_def good_op_def useAuthorizeFlowAnalytics_fetchAnalytics_def
  by (elim UnE CollectE exE conjE singletonE; simp add: op_intros)

section \<open>\<open>useAutoAssignment\<close>\<close>

definition useAutoAssignment_init :: "hook_state" where
  "useAutoAssignment_init = state_of [(''assignments'', JArr []), (''campaigns'', JArr []), (''loading'', JBool False), (''error'', JNull)]"

definition useAutoAssignment_fetchCampaigns :: "'w env \<Rightarrow> string \<Rightarrow> 'w cmd" where
  "useAutoAssignment_fetchCampaigns E baseUrl = try_catch E
     (send E (plain_request ''GET'' (baseUrl @ ''/api/v1/policy/auto-assignment/campaigns'') [] None) (\<lambda>st body.
     unless_ok st (''HTTP '' @ show_int st) (read_json body (\<lambda>data'. reads data' (setv ''campaigns'' (js_or (js_or (js_opt_prop data'
       ''campaigns'') data') (JArr [])) (ret JUndef))))))
     (\<lambda>m. setv ''error'' (JStr m) (ret JUndef)) []"

definition useAutoAssignment_fetchAssignments :: "'w env \<Rightarrow> string \<Rightarrow> string \<Rightarrow> 'w cmd" where
  "useAutoAssignment_fetchAssignments E baseUrl campaign = setv ''loading'' (JBool True) (setv ''error'' JNull
     (try_catch E
     (send E (plain_request ''GET'' (baseUrl @ ''/api/v1/policy/auto-assignment?campaign='' @ encodeURIComponent campaign) [] None) (\<lambda>st body.
     unless_ok st (''HTTP '' @ show_int st) (read_json body (\<lambda>data'. reads data' (setv ''assignments'' (js_or (js_or (js_opt_prop data'
       ''assignments'') data') (JArr [])) (ret JUndef))))))
     (\<lambda>m. setv ''error'' (JStr m) (ret JUndef)) [(''loading'', JBool False)]))"

definition useAutoAssignment_reassign :: "'w env \<Rightarrow> string \<Rightarrow> string \<Rightarrow> 'w cmd" where
  "useAutoAssignment_reassign E baseUrl id' = setv ''loading'' (JBool True) (setv ''error'' JNull
     (try_catch E
     (send E (plain_request ''POST'' (baseUrl @ ''/api/v1/policy/auto-assignment/'' @ id' @ ''/reassign'') [] None) (\<lambda>st body.
     unless_ok st (''HTTP '' @ show_int st) (ret (JBool True))))
     (\<lambda>m. setv ''error'' (JStr m) (ret (JBool False))) [(''loading'', JBool False)]))"

definition useAutoAssignment_ops :: "'w env \<Rightarrow> string \<Rightarrow> 'w cmd set" where
  "useAutoAssignment_ops E baseUrl = {useAutoAssignment_fetchCampaigns E baseUrl} \<union> {useAutoAssignment_fetchAssignments E baseUrl campaign
       |campaign. True} \<union> {useAutoAssignment_reassign E baseUrl id' |id'. True}"

lemma useAutoAssignment_blank: "c \<in> useAutoAssignment_ops E baseUrl \<Longrightarrow> all_refused E \<Longrightarrow> blank c"
  unfolding useAutoAssignment_ops_def useAutoAssignment_fetchCampaigns_def useAutoAssignment_fetchAssignments_def useAutoAssignment_reassign_def
  by (elim UnE CollectE exE conjE singletonE; simp add: blank_intros)

lemma useAutoAssignment_good: "c \<in> useAutoAssignment_ops E baseUrl \<Longrightarrow> good_op without_credentials c"
  unfolding useAutoAssignment_ops_def good_op_def useAutoAssignment_fetchCampaigns_def useAutoAssignment_fetchAssignments_def useAutoAssignment_reassign_def
  by (elim UnE CollectE exE conjE singletonE; simp add: op_intros)

section \<open>\<open>useBatchSimulate\<close>\<close>

definition useBatchSimulate_init :: "hook_state" where
  "useBatchSimulate_init = state_of [(''data'', JNull), (''loading'', JBool False), (''error'', JNull)]"

definition useBatchSimulate_simulate :: "'w env \<Rightarrow> string \<Rightarrow> jsv \<Rightarrow> jsv \<Rightarrow> jsv \<Rightarrow> 'w cmd" where
  "useBatchSimulate_simulate E baseUrl subjects resources actions = setv ''loading'' (JBool True) (setv ''error'' JNull
     (try_catch E
     (send E (plain_request ''POST'' (baseUrl @ ''/api/v1/policy/batch-simulate'') json_header (Some (JObj [(''subjects'', subjects), (''resources'',
       resources), (''actions'', actions)]))) (\<lambda>st body.
     unless_ok st (''HTTP '' @ show_int st) (read_json body (\<lambda>v. setv ''data'' v (ret JUndef)))))
     (\<lambda>m. setv ''error'' (JStr m) (ret JUndef)) [(''loading'', JBool False)]))"

definition useBatchSimulate_ops :: "'w env \<Rightarrow> string \<Rightarrow> 'w cmd set" where
  "useBatchSimulate_ops E baseUrl = {useBatchSimulate_simulate E baseUrl subjects resources actions |subjects resources actions. True}"

lemma useBatchSimulate_blank: "c \<in> useBatchSimulate_ops E baseUrl \<Longrightarrow> all_refused E \<Longrightarrow> blank c"
  unfolding useBatchSimulate_ops_def useBatchSimulate_simulate_def
  by (elim UnE CollectE exE conjE singletonE; simp add: blank_intros)

lemma useBatchSimulate_good: "c \<in> useBatchSimulate_ops E baseUrl \<Longrightarrow> good_op without_credentials c"
  unfolding useBatchSimulate_ops_def good_op_def useBatchSimulate_simulate_def
  by (elim UnE CollectE exE conjE singletonE; simp add: op_intros)

section \<open>\<open>useBlastRadius\<close>\<close>

definition useBlastRadius_init :: "hook_state" where
  "useBlastRadius_init = state_of [(''data'', JNull), (''loading'', JBool False), (''error'', JNull)]"

definition useBlastRadius_analyze :: "'w env \<Rightarrow> string \<Rightarrow> string \<Rightarrow> 'w cmd" where
  "useBlastRadius_analyze E baseUrl policyId = setv ''loading'' (JBool True) (setv ''error'' JNull
     (try_catch E
     (send E (plain_request ''GET'' (baseUrl @ ''/api/v1/policy/blast-radius?id='' @ encodeURIComponent policyId) [] None) (\<lambda>st body.
     unless_ok st (''HTTP '' @ show_int st) (read_json body (\<lambda>v. setv ''data'' v (ret JUndef)))))
     (\<lambda>m. setv ''error'' (JStr m) (ret JUndef)) [(''loading'', JBool False)]))"

definition useBlastRadius_ops :: "'w env \<Rightarrow> string \<Rightarrow> 'w cmd set" where
  "useBlastRadius_ops E baseUrl = {useBlastRadius_analyze E baseUrl policyId |policyId. True}"

lemma useBlastRadius_blank: "c \<in> useBlastRadius_ops E baseUrl \<Longrightarrow> all_refused E \<Longrightarrow> blank c"
  unfolding useBlastRadius_ops_def useBlastRadius_analyze_def
  by (elim UnE CollectE exE conjE singletonE; simp add: blank_intros)

lemma useBlastRadius_good: "c \<in> useBlastRadius_ops E baseUrl \<Longrightarrow> good_op without_credentials c"
  unfolding useBlastRadius_ops_def good_op_def useBlastRadius_analyze_def
  by (elim UnE CollectE exE conjE singletonE; simp add: op_intros)

section \<open>\<open>useBudgetTracking\<close>\<close>

definition useBudgetTracking_init :: "hook_state" where
  "useBudgetTracking_init = state_of [(''data'', JNull), (''loading'', JBool False), (''error'', JNull)]"

definition useBudgetTracking_fetchBudget :: "'w env \<Rightarrow> string \<Rightarrow> 'w cmd" where
  "useBudgetTracking_fetchBudget E baseUrl = setv ''loading'' (JBool True) (setv ''error'' JNull
     (try_catch E
     (send E (plain_request ''GET'' (baseUrl @ ''/api/v1/identity/budget-tracking'') [] None) (\<lambda>st body.
     unless_ok st (''HTTP '' @ show_int st) (read_json body (\<lambda>v. setv ''data'' v (ret JUndef)))))
     (\<lambda>m. setv ''error'' (JStr m) (ret JUndef)) [(''loading'', JBool False)]))"

definition useBudgetTracking_ops :: "'w env \<Rightarrow> string \<Rightarrow> 'w cmd set" where
  "useBudgetTracking_ops E baseUrl = {useBudgetTracking_fetchBudget E baseUrl}"

lemma useBudgetTracking_blank: "c \<in> useBudgetTracking_ops E baseUrl \<Longrightarrow> all_refused E \<Longrightarrow> blank c"
  unfolding useBudgetTracking_ops_def useBudgetTracking_fetchBudget_def
  by (elim UnE CollectE exE conjE singletonE; simp add: blank_intros)

lemma useBudgetTracking_good: "c \<in> useBudgetTracking_ops E baseUrl \<Longrightarrow> good_op without_credentials c"
  unfolding useBudgetTracking_ops_def good_op_def useBudgetTracking_fetchBudget_def
  by (elim UnE CollectE exE conjE singletonE; simp add: op_intros)

section \<open>\<open>useCacheHealth\<close>\<close>

definition useCacheHealth_init :: "hook_state" where
  "useCacheHealth_init = state_of [(''instances'', JArr []), (''loading'', JBool False), (''error'', JNull)]"

definition useCacheHealth_fetchData :: "'w env \<Rightarrow> string \<Rightarrow> 'w cmd" where
  "useCacheHealth_fetchData E baseUrl = setv ''loading'' (JBool True) (setv ''error'' JNull
     (try_catch E
     (send E (plain_request ''GET'' (baseUrl @ ''/api/v1/admin/cache-health'') [] None) (\<lambda>st body.
     unless_ok st (''HTTP '' @ show_int st) (read_json body (\<lambda>d. reads d (setv ''instances'' (js_or (js_or (js_opt_prop d ''instances'') d)
       (JArr [])) (ret JUndef))))))
     (\<lambda>m. setv ''error'' (JStr m) (ret JUndef)) [(''loading'', JBool False)]))"

definition useCacheHealth_ops :: "'w env \<Rightarrow> string \<Rightarrow> 'w cmd set" where
  "useCacheHealth_ops E baseUrl = {useCacheHealth_fetchData E baseUrl}"

lemma useCacheHealth_blank: "c \<in> useCacheHealth_ops E baseUrl \<Longrightarrow> all_refused E \<Longrightarrow> blank c"
  unfolding useCacheHealth_ops_def useCacheHealth_fetchData_def
  by (elim UnE CollectE exE conjE singletonE; simp add: blank_intros)

lemma useCacheHealth_good: "c \<in> useCacheHealth_ops E baseUrl \<Longrightarrow> good_op without_credentials c"
  unfolding useCacheHealth_ops_def good_op_def useCacheHealth_fetchData_def
  by (elim UnE CollectE exE conjE singletonE; simp add: op_intros)

section \<open>\<open>useCertificateManagement\<close>\<close>

definition useCertificateManagement_init :: "hook_state" where
  "useCertificateManagement_init = state_of [(''certs'', JArr []), (''loading'', JBool False), (''error'', JNull)]"

definition useCertificateManagement_fetchCerts :: "'w env \<Rightarrow> string \<Rightarrow> 'w cmd" where
  "useCertificateManagement_fetchCerts E baseUrl = setv ''loading'' (JBool True) (setv ''error'' JNull
     (try_catch E
     (send E (plain_request ''GET'' (baseUrl @ ''/api/v1/auth/certificates'') [] None) (\<lambda>st body.
     unless_ok st (''HTTP '' @ show_int st) (read_json body (\<lambda>d. reads d (setv ''certs'' (js_or (js_or (js_opt_prop d ''certificates'') d)
       (JArr [])) (ret JUndef))))))
     (\<lambda>m. setv ''error'' (JStr m) (ret JUndef)) [(''loading'', JBool False)]))"

definition useCertificateManagement_renewCert :: "'w env \<Rightarrow> string \<Rightarrow> string \<Rightarrow> 'w cmd" where
  "useCertificateManagement_renewCert E baseUrl id' = setv ''loading'' (JBool True) (setv ''error'' JNull
     (try_catch E
     (send E (plain_request ''POST'' (baseUrl @ ''/api/v1/auth/certificates/'' @ id' @ ''/renew'') [] None) (\<lambda>st body.
     unless_ok st (''HTTP '' @ show_int st) (ret (JBool True))))
     (\<lambda>m. setv ''error'' (JStr m) (ret (JBool False))) [(''loading'', JBool False)]))"

definition useCertificateManagement_ops :: "'w env \<Rightarrow> string \<Rightarrow> 'w cmd set" where
  "useCertificateManagement_ops E baseUrl = {useCertificateManagement_fetchCerts E baseUrl} \<union> {useCertificateManagement_renewCert E baseUrl id'
       |id'. True}"

lemma useCertificateManagement_blank: "c \<in> useCertificateManagement_ops E baseUrl \<Longrightarrow> all_refused E \<Longrightarrow> blank c"
  unfolding useCertificateManagement_ops_def useCertificateManagement_fetchCerts_def useCertificateManagement_renewCert_def
  by (elim UnE CollectE exE conjE singletonE; simp add: blank_intros)

lemma useCertificateManagement_good: "c \<in> useCertificateManagement_ops E baseUrl \<Longrightarrow> good_op without_credentials c"
  unfolding useCertificateManagement_ops_def good_op_def useCertificateManagement_fetchCerts_def useCertificateManagement_renewCert_def
  by (elim UnE CollectE exE conjE singletonE; simp add: op_intros)

section \<open>\<open>useClientEvents\<close>\<close>

definition useClientEvents_init :: "hook_state" where
  "useClientEvents_init = state_of [(''events'', JArr []), (''loading'', JBool False), (''error'', JNull)]"

definition useClientEvents_fetchEvents :: "'w env \<Rightarrow> string \<Rightarrow> string \<Rightarrow> 'w cmd" where
  "useClientEvents_fetchEvents E baseUrl clientId = branch (clientId = []) (ret JUndef) (setv ''loading'' (JBool True) (setv ''error'' JNull
     (try_catch E
     (send E (plain_request ''GET'' (baseUrl @ ''/api/v1/oauth/clients/'' @ clientId @ ''/events'') [] None) (\<lambda>st body.
     unless_ok st (''HTTP '' @ show_int st) (read_json body (\<lambda>data'. reads data' (setv ''events'' (js_or (js_or (js_opt_prop data' ''events'')
       data') (JArr [])) (ret JUndef))))))
     (\<lambda>m. setv ''error'' (JStr m) (ret JUndef)) [(''loading'', JBool False)])))"

definition useClientEvents_ops :: "'w env \<Rightarrow> string \<Rightarrow> 'w cmd set" where
  "useClientEvents_ops E baseUrl = {useClientEvents_fetchEvents E baseUrl clientId |clientId. True}"

lemma useClientEvents_blank: "c \<in> useClientEvents_ops E baseUrl \<Longrightarrow> all_refused E \<Longrightarrow> blank c"
  unfolding useClientEvents_ops_def useClientEvents_fetchEvents_def
  by (elim UnE CollectE exE conjE singletonE; simp add: blank_intros)

lemma useClientEvents_good: "c \<in> useClientEvents_ops E baseUrl \<Longrightarrow> good_op without_credentials c"
  unfolding useClientEvents_ops_def good_op_def useClientEvents_fetchEvents_def
  by (elim UnE CollectE exE conjE singletonE; simp add: op_intros)

section \<open>\<open>useClientHealth\<close>\<close>

definition useClientHealth_init :: "hook_state" where
  "useClientHealth_init = state_of [(''clients'', JArr []), (''loading'', JBool False), (''error'', JNull)]"

definition useClientHealth_fetchHealth :: "'w env \<Rightarrow> string \<Rightarrow> 'w cmd" where
  "useClientHealth_fetchHealth E baseUrl = setv ''loading'' (JBool True) (setv ''error'' JNull
     (try_catch E
     (send E (plain_request ''GET'' (baseUrl @ ''/api/v1/oauth/client-health'') [] None) (\<lambda>st body.
     unless_ok st (''HTTP '' @ show_int st) (read_json body (\<lambda>data'. reads data' (setv ''clients'' (js_or (js_or (js_opt_prop data'
       ''clients'') data') (JArr [])) (ret JUndef))))))
     (\<lambda>m. setv ''error'' (JStr m) (ret JUndef)) [(''loading'', JBool False)]))"

definition useClientHealth_ops :: "'w env \<Rightarrow> string \<Rightarrow> 'w cmd set" where
  "useClientHealth_ops E baseUrl = {useClientHealth_fetchHealth E baseUrl}"

lemma useClientHealth_blank: "c \<in> useClientHealth_ops E baseUrl \<Longrightarrow> all_refused E \<Longrightarrow> blank c"
  unfolding useClientHealth_ops_def useClientHealth_fetchHealth_def
  by (elim UnE CollectE exE conjE singletonE; simp add: blank_intros)

lemma useClientHealth_good: "c \<in> useClientHealth_ops E baseUrl \<Longrightarrow> good_op without_credentials c"
  unfolding useClientHealth_ops_def good_op_def useClientHealth_fetchHealth_def
  by (elim UnE CollectE exE conjE singletonE; simp add: op_intros)

section \<open>\<open>useClientOnboarding\<close>\<close>

definition useClientOnboarding_init :: "hook_state" where
  "useClientOnboarding_init = state_of [(''creds'', JNull), (''loading'', JBool False), (''error'', JNull)]"

definition useClientOnboarding_register :: "'w env \<Rightarrow> string \<Rightarrow> jsv \<Rightarrow> 'w cmd" where
  "useClientOnboarding_register E baseUrl payload = setv ''loading'' (JBool True) (setv ''error'' JNull
     (try_catch E
     (send E (plain_request ''POST'' (baseUrl @ ''/api/v1/oauth/clients'') json_header (Some payload)) (\<lambda>st body.
     unless_ok st (''HTTP '' @ show_int st) (read_json body (\<lambda>data'. setv ''creds'' data' (ret data')))))
     (\<lambda>m. setv ''error'' (JStr m) (ret JNull)) [(''loading'', JBool False)]))"

definition useClientOnboarding_ops :: "'w env \<Rightarrow> string \<Rightarrow> 'w cmd set" where
  "useClientOnboarding_ops E baseUrl = {useClientOnboarding_register E baseUrl payload |payload. True}"

lemma useClientOnboarding_blank: "c \<in> useClientOnboarding_ops E baseUrl \<Longrightarrow> all_refused E \<Longrightarrow> blank c"
  unfolding useClientOnboarding_ops_def useClientOnboarding_register_def
  by (elim UnE CollectE exE conjE singletonE; simp add: blank_intros)

lemma useClientOnboarding_good: "c \<in> useClientOnboarding_ops E baseUrl \<Longrightarrow> good_op without_credentials c"
  unfolding useClientOnboarding_ops_def good_op_def useClientOnboarding_register_def
  by (elim UnE CollectE exE conjE singletonE; simp add: op_intros)

section \<open>\<open>useClientRateLimits\<close>\<close>

definition useClientRateLimits_init :: "hook_state" where
  "useClientRateLimits_init = state_of [(''config'', JNull), (''loading'', JBool False), (''error'', JNull)]"

definition useClientRateLimits_fetchConfig :: "'w env \<Rightarrow> string \<Rightarrow> string \<Rightarrow> 'w cmd" where
  "useClientRateLimits_fetchConfig E baseUrl clientId = setv ''loading'' (JBool True) (setv ''error'' JNull
     (try_catch E
     (send E (plain_request ''GET'' (baseUrl @ ''/api/v1/oauth/client-rate-limits?client_id='' @ encodeURIComponent clientId) [] None) (\<lambda>st
       body.
     unless_ok st (''HTTP '' @ show_int st) (read_json body (\<lambda>v. setv ''config'' v (ret JUndef)))))
     (\<lambda>m. setv ''error'' (JStr m) (setv ''config'' JNull (ret JUndef))) [(''loading'', JBool False)]))"

definition useClientRateLimits_saveConfig :: "'w env \<Rightarrow> string \<Rightarrow> jsv \<Rightarrow> 'w cmd" where
  "useClientRateLimits_saveConfig E baseUrl cfg = setv ''loading'' (JBool True) (setv ''error'' JNull
     (try_catch E
     (send E (plain_request ''PUT'' (baseUrl @ ''/api/v1/oauth/client-rate-limits'') json_header (Some cfg)) (\<lambda>st body.
     unless_ok st (''HTTP '' @ show_int st) (setv ''config'' cfg (ret (JBool True)))))
     (\<lambda>m. setv ''error'' (JStr m) (ret (JBool False))) [(''loading'', JBool False)]))"

definition useClientRateLimits_ops :: "'w env \<Rightarrow> string \<Rightarrow> 'w cmd set" where
  "useClientRateLimits_ops E baseUrl = {useClientRateLimits_fetchConfig E baseUrl clientId |clientId. True} \<union> {useClientRateLimits_saveConfig E
       baseUrl cfg |cfg. True}"

lemma useClientRateLimits_blank: "c \<in> useClientRateLimits_ops E baseUrl \<Longrightarrow> all_refused E \<Longrightarrow> blank c"
  unfolding useClientRateLimits_ops_def useClientRateLimits_fetchConfig_def useClientRateLimits_saveConfig_def
  by (elim UnE CollectE exE conjE singletonE; simp add: blank_intros)

lemma useClientRateLimits_good: "c \<in> useClientRateLimits_ops E baseUrl \<Longrightarrow> good_op without_credentials c"
  unfolding useClientRateLimits_ops_def good_op_def useClientRateLimits_fetchConfig_def useClientRateLimits_saveConfig_def
  by (elim UnE CollectE exE conjE singletonE; simp add: op_intros)

section \<open>\<open>useClientVersioning\<close>\<close>

definition useClientVersioning_init :: "hook_state" where
  "useClientVersioning_init = state_of [(''versions'', JArr []), (''loading'', JBool False), (''error'', JNull)]"

definition useClientVersioning_fetchVersions :: "'w env \<Rightarrow> string \<Rightarrow> string \<Rightarrow> 'w cmd" where
  "useClientVersioning_fetchVersions E baseUrl clientId = branch (clientId = []) (ret JUndef) (setv ''loading'' (JBool True) (setv ''error'' JNull
     (try_catch E
     (send E (plain_request ''GET'' (baseUrl @ ''/api/v1/oauth/clients/'' @ clientId @ ''/versions'') [] None) (\<lambda>st body.
     unless_ok st (''HTTP '' @ show_int st) (read_json body (\<lambda>data'. reads data' (setv ''versions'' (js_or (js_or (js_opt_prop data'
       ''versions'') data') (JArr [])) (ret JUndef))))))
     (\<lambda>m. setv ''error'' (JStr m) (ret JUndef)) [(''loading'', JBool False)])))"

definition useClientVersioning_rollback :: "'w env \<Rightarrow> string \<Rightarrow> string \<Rightarrow> int \<Rightarrow> 'w cmd" where
  "useClientVersioning_rollback E baseUrl clientId version = setv ''loading'' (JBool True) (setv ''error'' JNull
     (try_catch E
     (send E (plain_request ''POST'' (baseUrl @ ''/api/v1/oauth/clients/'' @ clientId @ ''/rollback'') json_header (Some (JObj [(''version'', JNum
       version)]))) (\<lambda>st body.
     unless_ok st (''HTTP '' @ show_int st) (run (useClientVersioning_fetchVersions E baseUrl clientId) (\<lambda>_. ret (JBool True)))))
     (\<lambda>m. setv ''error'' (JStr m) (ret (JBool False))) [(''loading'', JBool False)]))"

definition useClientVersioning_ops :: "'w env \<Rightarrow> string \<Rightarrow> 'w cmd set" where
  "useClientVersioning_ops E baseUrl = {useClientVersioning_fetchVersions E baseUrl clientId |clientId. True} \<union> {useClientVersioning_rollback E
       baseUrl clientId version |clientId version. True}"

lemma useClientVersioning_blank: "c \<in> useClientVersioning_ops E baseUrl \<Longrightarrow> all_refused E \<Longrightarrow> blank c"
  unfolding useClientVersioning_ops_def useClientVersioning_fetchVersions_def useClientVersioning_rollback_def
  by (elim UnE CollectE exE conjE singletonE; simp add: blank_intros)

lemma useClientVersioning_good: "c \<in> useClientVersioning_ops E baseUrl \<Longrightarrow> good_op without_credentials c"
  unfolding useClientVersioning_ops_def good_op_def useClientVersioning_fetchVersions_def useClientVersioning_rollback_def
  by (elim UnE CollectE exE conjE singletonE; simp add: op_intros)

section \<open>\<open>useCloneTemplate\<close>\<close>

definition useCloneTemplate_init :: "hook_state" where
  "useCloneTemplate_init = state_of [(''templates'', JArr []), (''loading'', JBool False), (''error'', JNull)]"

definition useCloneTemplate_fetchTemplates :: "'w env \<Rightarrow> string \<Rightarrow> 'w cmd" where
  "useCloneTemplate_fetchTemplates E baseUrl = setv ''loading'' (JBool True) (setv ''error'' JNull
     (try_catch E
     (send E (plain_request ''GET'' (baseUrl @ ''/api/v1/identity/clone-templates'') [] None) (\<lambda>st body.
     unless_ok st (''HTTP '' @ show_int st) (read_json body (\<lambda>data'. reads data' (setv ''templates'' (js_or (js_or (js_opt_prop data'
       ''templates'') data') (JArr [])) (ret JUndef))))))
     (\<lambda>m. setv ''error'' (JStr m) (ret JUndef)) [(''loading'', JBool False)]))"

definition useCloneTemplate_previewTemplate :: "'w env \<Rightarrow> string \<Rightarrow> string \<Rightarrow> 'w cmd" where
  "useCloneTemplate_previewTemplate E baseUrl userId = setv ''loading'' (JBool True) (setv ''error'' JNull
     (try_catch E
     (send E (plain_request ''GET'' (baseUrl @ ''/api/v1/identity/users/'' @ userId @ ''/template'') [] None) (\<lambda>st body.
     unless_ok st (''HTTP '' @ show_int st) (read_json body (\<lambda>data'. ret data'))))
     (\<lambda>m. setv ''error'' (JStr m) (ret JNull)) [(''loading'', JBool False)]))"

definition useCloneTemplate_createTemplate :: "'w env \<Rightarrow> string \<Rightarrow> string \<Rightarrow> string \<Rightarrow> string \<Rightarrow> jsv \<Rightarrow> 'w cmd" where
  "useCloneTemplate_createTemplate E baseUrl name' description sourceUser data' = setv ''loading'' (JBool True) (setv ''error'' JNull
     (try_catch E
     (send E (plain_request ''POST'' (baseUrl @ ''/api/v1/identity/clone-templates'') json_header (Some (JObj [(''name'', JStr name'),
       (''description'', JStr description), (''source_user'', JStr sourceUser), (''data'', data')]))) (\<lambda>st body.
     unless_ok st (''HTTP '' @ show_int st) (run (useCloneTemplate_fetchTemplates E baseUrl) (\<lambda>_. ret (JBool True)))))
     (\<lambda>m. setv ''error'' (JStr m) (ret (JBool False))) [(''loading'', JBool False)]))"

definition useCloneTemplate_applyTemplate :: "'w env \<Rightarrow> string \<Rightarrow> string \<Rightarrow> string \<Rightarrow> jsv \<Rightarrow> 'w cmd" where
  "useCloneTemplate_applyTemplate E baseUrl templateId username email = setv ''loading'' (JBool True) (setv ''error'' JNull
     (try_catch E
     (send E (plain_request ''POST'' (baseUrl @ ''/api/v1/identity/clone-templates/apply'') json_header (Some (JObj [(''template_id'', JStr
       templateId), (''username'', JStr username), (''email'', email)]))) (\<lambda>st body.
     unless_ok st (''HTTP '' @ show_int st) (ret (JBool True))))
     (\<lambda>m. setv ''error'' (JStr m) (ret (JBool False))) [(''loading'', JBool False)]))"

definition useCloneTemplate_ops :: "'w env \<Rightarrow> string \<Rightarrow> 'w cmd set" where
  "useCloneTemplate_ops E baseUrl = {useCloneTemplate_fetchTemplates E baseUrl} \<union> {useCloneTemplate_previewTemplate E baseUrl userId |userId.
       True} \<union> {useCloneTemplate_createTemplate E baseUrl name' description sourceUser data' |name' description sourceUser data'. True}
       \<union> {useCloneTemplate_applyTemplate E baseUrl templateId username email |templateId username email. True}"

lemma useCloneTemplate_blank: "c \<in> useCloneTemplate_ops E baseUrl \<Longrightarrow> all_refused E \<Longrightarrow> blank c"
  unfolding useCloneTemplate_ops_def useCloneTemplate_fetchTemplates_def useCloneTemplate_previewTemplate_def useCloneTemplate_createTemplate_def useCloneTemplate_applyTemplate_def
  by (elim UnE CollectE exE conjE singletonE; simp add: blank_intros)

lemma useCloneTemplate_good: "c \<in> useCloneTemplate_ops E baseUrl \<Longrightarrow> good_op without_credentials c"
  unfolding useCloneTemplate_ops_def good_op_def useCloneTemplate_fetchTemplates_def useCloneTemplate_previewTemplate_def useCloneTemplate_createTemplate_def useCloneTemplate_applyTemplate_def
  by (elim UnE CollectE exE conjE singletonE; simp add: op_intros)

section \<open>\<open>useComplianceDrift\<close>\<close>

definition useComplianceDrift_init :: "hook_state" where
  "useComplianceDrift_init = state_of [(''data'', JNull), (''loading'', JBool False), (''error'', JNull)]"

definition useComplianceDrift_fetchDrift :: "'w env \<Rightarrow> string \<Rightarrow> string \<Rightarrow> 'w cmd" where
  "useComplianceDrift_fetchDrift E baseUrl framework = setv ''loading'' (JBool True) (setv ''error'' JNull
     (try_catch E
     (send E (plain_request ''GET'' (baseUrl @ ''/api/v1/audit/compliance-drift?framework='' @ encodeURIComponent framework) [] None) (\<lambda>st
       body.
     unless_ok st (''HTTP '' @ show_int st) (read_json body (\<lambda>v. setv ''data'' v (ret JUndef)))))
     (\<lambda>m. setv ''error'' (JStr m) (setv ''data'' JNull (ret JUndef))) [(''loading'', JBool False)]))"

definition useComplianceDrift_ops :: "'w env \<Rightarrow> string \<Rightarrow> 'w cmd set" where
  "useComplianceDrift_ops E baseUrl = {useComplianceDrift_fetchDrift E baseUrl framework |framework. True}"

lemma useComplianceDrift_blank: "c \<in> useComplianceDrift_ops E baseUrl \<Longrightarrow> all_refused E \<Longrightarrow> blank c"
  unfolding useComplianceDrift_ops_def useComplianceDrift_fetchDrift_def
  by (elim UnE CollectE exE conjE singletonE; simp add: blank_intros)

lemma useComplianceDrift_good: "c \<in> useComplianceDrift_ops E baseUrl \<Longrightarrow> good_op without_credentials c"
  unfolding useComplianceDrift_ops_def good_op_def useComplianceDrift_fetchDrift_def
  by (elim UnE CollectE exE conjE singletonE; simp add: op_intros)

section \<open>\<open>useComplianceGaps\<close>\<close>

definition useComplianceGaps_init :: "hook_state" where
  "useComplianceGaps_init = state_of [(''gaps'', JArr []), (''loading'', JBool False), (''error'', JNull)]"

definition useComplianceGaps_fetchGaps :: "'w env \<Rightarrow> string \<Rightarrow> 'w cmd" where
  "useComplianceGaps_fetchGaps E baseUrl = setv ''loading'' (JBool True) (setv ''error'' JNull
     (try_catch E
     (send E (plain_request ''GET'' (baseUrl @ ''/api/v1/audit/compliance-gaps'') [] None) (\<lambda>st body.
     unless_ok st (''HTTP '' @ show_int st) (read_json body (\<lambda>data'. reads data' (setv ''gaps'' (js_or (js_or (js_opt_prop data' ''gaps'')
       data') (JArr [])) (ret JUndef))))))
     (\<lambda>m. setv ''error'' (JStr m) (ret JUndef)) [(''loading'', JBool False)]))"

definition useComplianceGaps_updateStatus :: "'w env \<Rightarrow> string \<Rightarrow> string \<Rightarrow> string \<Rightarrow> 'w cmd" where
  "useComplianceGaps_updateStatus E baseUrl gapId status' = setv ''loading'' (JBool True) (setv ''error'' JNull
     (try_catch E
     (send E (plain_request ''PATCH'' (baseUrl @ ''/api/v1/audit/compliance-gaps/'' @ gapId) json_header (Some (JObj [(''status'', JStr status')])))
       (\<lambda>st body.
     unless_ok st (''HTTP '' @ show_int st) (updv ''gaps'' (map_items (\<lambda>g. if js_opt_prop g ''id'' = JStr gapId then with_entries g
       [(''status'', JStr status')] else g)) (ret (JBool True)))))
     (\<lambda>m. setv ''error'' (JStr m) (ret (JBool False))) [(''loading'', JBool False)]))"

definition useComplianceGaps_effect :: "'w env \<Rightarrow> string \<Rightarrow> 'w cmd" where
  "useComplianceGaps_effect E baseUrl = run (useComplianceGaps_fetchGaps E baseUrl) (\<lambda>_. ret JUndef)"

definition useComplianceGaps_ops :: "'w env \<Rightarrow> string \<Rightarrow> 'w cmd set" where
  "useComplianceGaps_ops E baseUrl = {useComplianceGaps_fetchGaps E baseUrl} \<union> {useComplianceGaps_updateStatus E baseUrl gapId status' |gapId
       status'. True} \<union> {useComplianceGaps_effect E baseUrl}"

lemma useComplianceGaps_blank: "c \<in> useComplianceGaps_ops E baseUrl \<Longrightarrow> all_refused E \<Longrightarrow> blank c"
  unfolding useComplianceGaps_ops_def useComplianceGaps_fetchGaps_def useComplianceGaps_updateStatus_def useComplianceGaps_effect_def
  by (elim UnE CollectE exE conjE singletonE; simp add: blank_intros)

lemma useComplianceGaps_good: "c \<in> useComplianceGaps_ops E baseUrl \<Longrightarrow> good_op without_credentials c"
  unfolding useComplianceGaps_ops_def good_op_def useComplianceGaps_fetchGaps_def useComplianceGaps_updateStatus_def useComplianceGaps_effect_def
  by (elim UnE CollectE exE conjE singletonE; simp add: op_intros)

section \<open>\<open>useComplianceHeatmap\<close>\<close>

definition useComplianceHeatmap_init :: "hook_state" where
  "useComplianceHeatmap_init = state_of [(''data'', JNull), (''loading'', JBool False), (''error'', JNull)]"

definition useComplianceHeatmap_fetchHeatmap :: "'w env \<Rightarrow> string \<Rightarrow> string \<Rightarrow> 'w cmd" where
  "useComplianceHeatmap_fetchHeatmap E baseUrl framework = setv ''loading'' (JBool True) (setv ''error'' JNull
     (try_catch E
     (send E (plain_request ''GET'' (baseUrl @ ''/api/v1/audit/compliance-heatmap?framework='' @ encodeURIComponent framework) [] None) (\<lambda>st
       body.
     unless_ok st (''HTTP '' @ show_int st) (read_json body (\<lambda>json'. setv ''data'' json' (ret JUndef)))))
     (\<lambda>m. setv ''error'' (JStr m) (setv ''data'' JNull (ret JUndef))) [(''loading'', JBool False)]))"

definition useComplianceHeatmap_ops :: "'w env \<Rightarrow> string \<Rightarrow> 'w cmd set" where
  "useComplianceHeatmap_ops E baseUrl = {useComplianceHeatmap_fetchHeatmap E baseUrl framework |framework. True}"

lemma useComplianceHeatmap_blank: "c \<in> useComplianceHeatmap_ops E baseUrl \<Longrightarrow> all_refused E \<Longrightarrow> blank c"
  unfolding useComplianceHeatmap_ops_def useComplianceHeatmap_fetchHeatmap_def
  by (elim UnE CollectE exE conjE singletonE; simp add: blank_intros)

lemma useComplianceHeatmap_good: "c \<in> useComplianceHeatmap_ops E baseUrl \<Longrightarrow> good_op without_credentials c"
  unfolding useComplianceHeatmap_ops_def good_op_def useComplianceHeatmap_fetchHeatmap_def
  by (elim UnE CollectE exE conjE singletonE; simp add: op_intros)

section \<open>\<open>useComplianceTimeline\<close>\<close>

definition useComplianceTimeline_init :: "hook_state" where
  "useComplianceTimeline_init = state_of [(''data'', JNull), (''loading'', JBool False), (''error'', JNull)]"

definition useComplianceTimeline_fetchData :: "'w env \<Rightarrow> string \<Rightarrow> string \<Rightarrow> 'w cmd" where
  "useComplianceTimeline_fetchData E baseUrl framework = setv ''loading'' (JBool True) (setv ''error'' JNull
     (try_catch E
     (send E (plain_request ''GET'' (baseUrl @ ''/api/v1/audit/compliance-timeline?framework='' @ encodeURIComponent framework) [] None) (\<lambda>st
       body.
     unless_ok st (''HTTP '' @ show_int st) (read_json body (\<lambda>v. setv ''data'' v (ret JUndef)))))
     (\<lambda>m. setv ''error'' (JStr m) (ret JUndef)) [(''loading'', JBool False)]))"

definition useComplianceTimeline_ops :: "'w env \<Rightarrow> string \<Rightarrow> 'w cmd set" where
  "useComplianceTimeline_ops E baseUrl = {useComplianceTimeline_fetchData E baseUrl framework |framework. True}"

lemma useComplianceTimeline_blank: "c \<in> useComplianceTimeline_ops E baseUrl \<Longrightarrow> all_refused E \<Longrightarrow> blank c"
  unfolding useComplianceTimeline_ops_def useComplianceTimeline_fetchData_def
  by (elim UnE CollectE exE conjE singletonE; simp add: blank_intros)

lemma useComplianceTimeline_good: "c \<in> useComplianceTimeline_ops E baseUrl \<Longrightarrow> good_op without_credentials c"
  unfolding useComplianceTimeline_ops_def good_op_def useComplianceTimeline_fetchData_def
  by (elim UnE CollectE exE conjE singletonE; simp add: op_intros)

section \<open>\<open>useConditionBuilder\<close>\<close>

definition useConditionBuilder_init :: "hook_state" where
  "useConditionBuilder_init = state_of [(''groups'', JArr []), (''loading'', JBool False), (''error'', JNull)]"

definition useConditionBuilder_saveConditions :: "'w env \<Rightarrow> string \<Rightarrow> string \<Rightarrow> jsv \<Rightarrow> 'w cmd" where
  "useConditionBuilder_saveConditions E baseUrl policyId newGroups = setv ''loading'' (JBool True) (setv ''error'' JNull
     (try_catch E
     (send E (plain_request ''PUT'' (baseUrl @ ''/api/v1/policy/'' @ policyId @ ''/conditions'') json_header (Some newGroups)) (\<lambda>st body.
     unless_ok st (''HTTP '' @ show_int st) (setv ''groups'' newGroups (ret (JBool True)))))
     (\<lambda>m. setv ''error'' (JStr m) (ret (JBool False))) [(''loading'', JBool False)]))"

definition useConditionBuilder_validate :: "'w env \<Rightarrow> string \<Rightarrow> jsv \<Rightarrow> 'w cmd" where
  "useConditionBuilder_validate E baseUrl newGroups = setv ''loading'' (JBool True) (setv ''error'' JNull
     (try_catch E
     (send E (plain_request ''POST'' (baseUrl @ ''/api/v1/policy/conditions/validate'') json_header (Some newGroups)) (\<lambda>st body.
     unless_ok st (''HTTP '' @ show_int st) (ret (JBool True))))
     (\<lambda>m. setv ''error'' (JStr m) (ret (JBool False))) [(''loading'', JBool False)]))"

definition useConditionBuilder_ops :: "'w env \<Rightarrow> string \<Rightarrow> 'w cmd set" where
  "useConditionBuilder_ops E baseUrl = {useConditionBuilder_saveConditions E baseUrl policyId newGroups |policyId newGroups. True} \<union>
       {useConditionBuilder_validate E baseUrl newGroups |newGroups. True}"

lemma useConditionBuilder_blank: "c \<in> useConditionBuilder_ops E baseUrl \<Longrightarrow> all_refused E \<Longrightarrow> blank c"
  unfolding useConditionBuilder_ops_def useConditionBuilder_saveConditions_def useConditionBuilder_validate_def
  by (elim UnE CollectE exE conjE singletonE; simp add: blank_intros)

lemma useConditionBuilder_good: "c \<in> useConditionBuilder_ops E baseUrl \<Longrightarrow> good_op without_credentials c"
  unfolding useConditionBuilder_ops_def good_op_def useConditionBuilder_saveConditions_def useConditionBuilder_validate_def
  by (elim UnE CollectE exE conjE singletonE; simp add: op_intros)

section \<open>\<open>useConsentDashboard\<close>\<close>

definition useConsentDashboard_init :: "hook_state" where
  "useConsentDashboard_init = state_of [(''data'', JNull), (''loading'', JBool False), (''error'', JNull)]"

definition useConsentDashboard_fetchData :: "'w env \<Rightarrow> string \<Rightarrow> 'w cmd" where
  "useConsentDashboard_fetchData E baseUrl = setv ''loading'' (JBool True) (setv ''error'' JNull
     (try_catch E
     (send E (plain_request ''GET'' (baseUrl @ ''/api/v1/oauth/consent-dashboard'') [] None) (\<lambda>st body.
     unless_ok st (''HTTP '' @ show_int st) (read_json body (\<lambda>v. setv ''data'' v (ret JUndef)))))
     (\<lambda>m. setv ''error'' (JStr m) (ret JUndef)) [(''loading'', JBool False)]))"

definition useConsentDashboard_revoke :: "'w env \<Rightarrow> string \<Rightarrow> string \<Rightarrow> 'w cmd" where
  "useConsentDashboard_revoke E baseUrl clientId = setv ''loading'' (JBool True) (setv ''error'' JNull
     (try_catch E
     (send E (plain_request ''POST'' (baseUrl @ ''/api/v1/oauth/consent-dashboard/'' @ clientId @ ''/revoke'') [] None) (\<lambda>st body.
     unless_ok st (''HTTP '' @ show_int st) (ret (JBool True))))
     (\<lambda>m. setv ''error'' (JStr m) (ret (JBool False))) [(''loading'', JBool False)]))"

definition useConsentDashboard_ops :: "'w env \<Rightarrow> string \<Rightarrow> 'w cmd set" where
  "useConsentDashboard_ops E baseUrl = {useConsentDashboard_fetchData E baseUrl} \<union> {useConsentDashboard_revoke E baseUrl clientId |clientId.
       True}"

lemma useConsentDashboard_blank: "c \<in> useConsentDashboard_ops E baseUrl \<Longrightarrow> all_refused E \<Longrightarrow> blank c"
  unfolding useConsentDashboard_ops_def useConsentDashboard_fetchData_def useConsentDashboard_revoke_def
  by (elim UnE CollectE exE conjE singletonE; simp add: blank_intros)

lemma useConsentDashboard_good: "c \<in> useConsentDashboard_ops E baseUrl \<Longrightarrow> good_op without_credentials c"
  unfolding useConsentDashboard_ops_def good_op_def useConsentDashboard_fetchData_def useConsentDashboard_revoke_def
  by (elim UnE CollectE exE conjE singletonE; simp add: op_intros)

section \<open>\<open>useConsentHistory\<close>\<close>

definition useConsentHistory_init :: "hook_state" where
  "useConsentHistory_init = state_of [(''entries'', JArr []), (''loading'', JBool False), (''error'', JNull)]"

definition useConsentHistory_fetchHistory :: "'w env \<Rightarrow> string \<Rightarrow> 'w cmd" where
  "useConsentHistory_fetchHistory E baseUrl = setv ''loading'' (JBool True) (setv ''error'' JNull
     (try_catch E
     (send E (plain_request ''GET'' (baseUrl @ ''/api/v1/oauth/consent-history'') [] None) (\<lambda>st body.
     unless_ok st (''HTTP '' @ show_int st) (read_json body (\<lambda>data'. reads data' (setv ''entries'' (js_or (js_or (js_opt_prop data'
       ''entries'') data') (JArr [])) (ret JUndef))))))
     (\<lambda>m. setv ''error'' (JStr m) (ret JUndef)) [(''loading'', JBool False)]))"

definition useConsentHistory_ops :: "'w env \<Rightarrow> string \<Rightarrow> 'w cmd set" where
  "useConsentHistory_ops E baseUrl = {useConsentHistory_fetchHistory E baseUrl}"

lemma useConsentHistory_blank: "c \<in> useConsentHistory_ops E baseUrl \<Longrightarrow> all_refused E \<Longrightarrow> blank c"
  unfolding useConsentHistory_ops_def useConsentHistory_fetchHistory_def
  by (elim UnE CollectE exE conjE singletonE; simp add: blank_intros)

lemma useConsentHistory_good: "c \<in> useConsentHistory_ops E baseUrl \<Longrightarrow> good_op without_credentials c"
  unfolding useConsentHistory_ops_def good_op_def useConsentHistory_fetchHistory_def
  by (elim UnE CollectE exE conjE singletonE; simp add: op_intros)

section \<open>\<open>useConsentRegistry\<close>\<close>

definition useConsentRegistry_init :: "hook_state" where
  "useConsentRegistry_init = state_of [(''data'', JNull), (''loading'', JBool False), (''error'', JNull)]"

definition useConsentRegistry_fetchConsent :: "'w env \<Rightarrow> string \<Rightarrow> string \<Rightarrow> 'w cmd" where
  "useConsentRegistry_fetchConsent E baseUrl user' = branch (user' = []) (ret JUndef) (setv ''loading'' (JBool True) (setv ''error'' JNull
     (try_catch E
     (send E (plain_request ''GET'' (baseUrl @ ''/api/v1/identity/consent?user='' @ encodeURIComponent user') [] None) (\<lambda>st body.
     unless_ok st (''HTTP '' @ show_int st) (read_json body (\<lambda>v. setv ''data'' v (ret JUndef)))))
     (\<lambda>m. setv ''error'' (JStr m) (setv ''data'' JNull (ret JUndef))) [(''loading'', JBool False)])))"

definition useConsentRegistry_updateConsent :: "'w env \<Rightarrow> string \<Rightarrow> string \<Rightarrow> jsv \<Rightarrow> 'w cmd" where
  "useConsentRegistry_updateConsent E baseUrl userId consents = setv ''loading'' (JBool True) (setv ''error'' JNull
     (try_catch E
     (send E (plain_request ''PUT'' (baseUrl @ ''/api/v1/identity/consent/'' @ userId) json_header (Some (JObj [(''consents'', consents)])))
       (\<lambda>st body.
     unless_ok st (''HTTP '' @ show_int st) (ret (JBool True))))
     (\<lambda>m. setv ''error'' (JStr m) (ret (JBool False))) [(''loading'', JBool False)]))"

definition useConsentRegistry_ops :: "'w env \<Rightarrow> string \<Rightarrow> 'w cmd set" where
  "useConsentRegistry_ops E baseUrl = {useConsentRegistry_fetchConsent E baseUrl user' |user'. True} \<union> {useConsentRegistry_updateConsent E
       baseUrl userId consents |userId consents. True}"

lemma useConsentRegistry_blank: "c \<in> useConsentRegistry_ops E baseUrl \<Longrightarrow> all_refused E \<Longrightarrow> blank c"
  unfolding useConsentRegistry_ops_def useConsentRegistry_fetchConsent_def useConsentRegistry_updateConsent_def
  by (elim UnE CollectE exE conjE singletonE; simp add: blank_intros)

lemma useConsentRegistry_good: "c \<in> useConsentRegistry_ops E baseUrl \<Longrightarrow> good_op without_credentials c"
  unfolding useConsentRegistry_ops_def good_op_def useConsentRegistry_fetchConsent_def useConsentRegistry_updateConsent_def
  by (elim UnE CollectE exE conjE singletonE; simp add: op_intros)

section \<open>\<open>useCostCenters\<close>\<close>

definition useCostCenters_init :: "hook_state" where
  "useCostCenters_init = state_of [(''data'', JNull), (''loading'', JBool False), (''error'', JNull)]"

definition useCostCenters_fetchCostCenters :: "'w env \<Rightarrow> string \<Rightarrow> 'w cmd" where
  "useCostCenters_fetchCostCenters E baseUrl = setv ''loading'' (JBool True) (setv ''error'' JNull
     (try_catch E
     (send E (plain_request ''GET'' (baseUrl @ ''/api/v1/identity/cost-centers'') [] None) (\<lambda>st body.
     unless_ok st (''HTTP '' @ show_int st) (read_json body (\<lambda>v. setv ''data'' v (ret JUndef)))))
     (\<lambda>m. setv ''error'' (JStr m) (ret JUndef)) [(''loading'', JBool False)]))"

definition useCostCenters_ops :: "'w env \<Rightarrow> string \<Rightarrow> 'w cmd set" where
  "useCostCenters_ops E baseUrl = {useCostCenters_fetchCostCenters E baseUrl}"

lemma useCostCenters_blank: "c \<in> useCostCenters_ops E baseUrl \<Longrightarrow> all_refused E \<Longrightarrow> blank c"
  unfolding useCostCenters_ops_def useCostCenters_fetchCostCenters_def
  by (elim UnE CollectE exE conjE singletonE; simp add: blank_intros)

lemma useCostCenters_good: "c \<in> useCostCenters_ops E baseUrl \<Longrightarrow> good_op without_credentials c"
  unfolding useCostCenters_ops_def good_op_def useCostCenters_fetchCostCenters_def
  by (elim UnE CollectE exE conjE singletonE; simp add: op_intros)

section \<open>\<open>useCoverageMatrix\<close>\<close>

definition useCoverageMatrix_init :: "hook_state" where
  "useCoverageMatrix_init = state_of [(''data'', JNull), (''loading'', JBool False), (''error'', JNull)]"

definition useCoverageMatrix_fetchMatrix :: "'w env \<Rightarrow> string \<Rightarrow> 'w cmd" where
  "useCoverageMatrix_fetchMatrix E baseUrl = setv ''loading'' (JBool True) (setv ''error'' JNull
     (try_catch E
     (send E (plain_request ''GET'' (baseUrl @ ''/api/v1/policy/coverage-matrix'') [] None) (\<lambda>st body.
     unless_ok st (''HTTP '' @ show_int st) (read_json body (\<lambda>v. setv ''data'' v (ret JUndef)))))
     (\<lambda>m. setv ''error'' (JStr m) (ret JUndef)) [(''loading'', JBool False)]))"

definition useCoverageMatrix_ops :: "'w env \<Rightarrow> string \<Rightarrow> 'w cmd set" where
  "useCoverageMatrix_ops E baseUrl = {useCoverageMatrix_fetchMatrix E baseUrl}"

lemma useCoverageMatrix_blank: "c \<in> useCoverageMatrix_ops E baseUrl \<Longrightarrow> all_refused E \<Longrightarrow> blank c"
  unfolding useCoverageMatrix_ops_def useCoverageMatrix_fetchMatrix_def
  by (elim UnE CollectE exE conjE singletonE; simp add: blank_intros)

lemma useCoverageMatrix_good: "c \<in> useCoverageMatrix_ops E baseUrl \<Longrightarrow> good_op without_credentials c"
  unfolding useCoverageMatrix_ops_def good_op_def useCoverageMatrix_fetchMatrix_def
  by (elim UnE CollectE exE conjE singletonE; simp add: op_intros)

section \<open>\<open>useCredentialExposure\<close>\<close>

definition useCredentialExposure_init :: "hook_state" where
  "useCredentialExposure_init = state_of [(''data'', JNull), (''loading'', JBool False), (''error'', JNull)]"

definition useCredentialExposure_fetchExposure :: "'w env \<Rightarrow> string \<Rightarrow> string \<Rightarrow> 'w cmd" where
  "useCredentialExposure_fetchExposure E baseUrl user' = branch (user' = []) (ret JUndef) (setv ''loading'' (JBool True) (setv ''error'' JNull
     (try_catch E
     (send E (plain_request ''GET'' (baseUrl @ ''/api/v1/auth/credential-exposure?user='' @ encodeURIComponent user') [] None) (\<lambda>st body.
     unless_ok st (''HTTP '' @ show_int st) (read_json body (\<lambda>json'. setv ''data'' json' (ret JUndef)))))
     (\<lambda>m. setv ''error'' (JStr m) (setv ''data'' JNull (ret JUndef))) [(''loading'', JBool False)])))"

definition useCredentialExposure_ops :: "'w env \<Rightarrow> string \<Rightarrow> 'w cmd set" where
  "useCredentialExposure_ops E baseUrl = {useCredentialExposure_fetchExposure E baseUrl user' |user'. True}"

lemma useCredentialExposure_blank: "c \<in> useCredentialExposure_ops E baseUrl \<Longrightarrow> all_refused E \<Longrightarrow> blank c"
  unfolding useCredentialExposure_ops_def useCredentialExposure_fetchExposure_def
  by (elim UnE CollectE exE conjE singletonE; simp add: blank_intros)

lemma useCredentialExposure_good: "c \<in> useCredentialExposure_ops E baseUrl \<Longrightarrow> good_op without_credentials c"
  unfolding useCredentialExposure_ops_def good_op_def useCredentialExposure_fetchExposure_def
  by (elim UnE CollectE exE conjE singletonE; simp add: op_intros)

section \<open>\<open>useDSR\<close>\<close>

definition useDSR_init :: "hook_state" where
  "useDSR_init = state_of [(''requests'', JArr []), (''loading'', JBool False), (''error'', JNull)]"

definition useDSR_fetchRequests :: "'w env \<Rightarrow> string \<Rightarrow> 'w cmd" where
  "useDSR_fetchRequests E baseUrl = setv ''loading'' (JBool True) (setv ''error'' JNull
     (try_catch E
     (send E (plain_request ''GET'' (baseUrl @ ''/api/v1/audit/dsr'') [] None) (\<lambda>st body.
     unless_ok st (''HTTP '' @ show_int st) (read_json body (\<lambda>data'. reads data' (setv ''requests'' (js_or (js_or (js_opt_prop data'
       ''requests'') data') (JArr [])) (ret JUndef))))))
     (\<lambda>m. setv ''error'' (JStr m) (ret JUndef)) [(''loading'', JBool False)]))"

definition useDSR_createRequest :: "'w env \<Rightarrow> string \<Rightarrow> jsv \<Rightarrow> string \<Rightarrow> jsv \<Rightarrow> 'w cmd" where
  "useDSR_createRequest E baseUrl type' userId notes = setv ''loading'' (JBool True) (setv ''error'' JNull
     (try_catch E
     (send E (plain_request ''POST'' (baseUrl @ ''/api/v1/audit/dsr'') json_header (Some (JObj [(''type'', type'), (''user_id'', JStr userId),
       (''notes'', notes)]))) (\<lambda>st body.
     unless_ok st (''HTTP '' @ show_int st) (run (useDSR_fetchRequests E baseUrl) (\<lambda>_. ret (JBool True)))))
     (\<lambda>m. setv ''error'' (JStr m) (ret (JBool False))) [(''loading'', JBool False)]))"

definition useDSR_updateStatus :: "'w env \<Rightarrow> string \<Rightarrow> string \<Rightarrow> jsv \<Rightarrow> 'w cmd" where
  "useDSR_updateStatus E baseUrl id' status' = setv ''loading'' (JBool True) (setv ''error'' JNull
     (try_catch E
     (send E (plain_request ''PATCH'' (baseUrl @ ''/api/v1/audit/dsr/'' @ id') json_header (Some (JObj [(''status'', status')]))) (\<lambda>st body.
     unless_ok st (''HTTP '' @ show_int st) (updv ''requests'' (map_items (\<lambda>r. if js_opt_prop r ''id'' = JStr id' then with_entries r
       [(''status'', status')] else r)) (ret (JBool True)))))
     (\<lambda>m. setv ''error'' (JStr m) (ret (JBool False))) [(''loading'', JBool False)]))"

definition useDSR_ops :: "'w env \<Rightarrow> string \<Rightarrow> 'w cmd set" where
  "useDSR_ops E baseUrl = {useDSR_fetchRequests E baseUrl} \<union> {useDSR_createRequest E baseUrl type' userId notes |type' userId notes. True}
       \<union> {useDSR_updateStatus E baseUrl id' status' |id' status'. True}"

lemma useDSR_blank: "c \<in> useDSR_ops E baseUrl \<Longrightarrow> all_refused E \<Longrightarrow> blank c"
  unfolding useDSR_ops_def useDSR_fetchRequests_def useDSR_createRequest_def useDSR_updateStatus_def
  by (elim UnE CollectE exE conjE singletonE; simp add: blank_intros)

lemma useDSR_good: "c \<in> useDSR_ops E baseUrl \<Longrightarrow> good_op without_credentials c"
  unfolding useDSR_ops_def good_op_def useDSR_fetchRequests_def useDSR_createRequest_def useDSR_updateStatus_def
  by (elim UnE CollectE exE conjE singletonE; simp add: op_intros)

section \<open>\<open>useDataLineage\<close>\<close>

definition useDataLineage_init :: "hook_state" where
  "useDataLineage_init = state_of [(''lineage'', JNull), (''loading'', JBool False), (''error'', JNull)]"

definition useDataLineage_fetchLineage :: "'w env \<Rightarrow> string \<Rightarrow> string \<Rightarrow> 'w cmd" where
  "useDataLineage_fetchLineage E baseUrl resourceId = branch (resourceId = []) (ret JUndef) (setv ''loading'' (JBool True) (setv ''error'' JNull
     (try_catch E
     (send E (plain_request ''GET'' (baseUrl @ ''/api/v1/audit/data-lineage?resource='' @ encodeURIComponent resourceId) [] None) (\<lambda>st body.
     unless_ok st (''HTTP '' @ show_int st) (read_json body (\<lambda>data'. setv ''lineage'' data' (ret JUndef)))))
     (\<lambda>m. setv ''error'' (JStr m) (setv ''lineage'' JNull (ret JUndef))) [(''loading'', JBool False)])))"

definition useDataLineage_ops :: "'w env \<Rightarrow> string \<Rightarrow> 'w cmd set" where
  "useDataLineage_ops E baseUrl = {useDataLineage_fetchLineage E baseUrl resourceId |resourceId. True}"

lemma useDataLineage_blank: "c \<in> useDataLineage_ops E baseUrl \<Longrightarrow> all_refused E \<Longrightarrow> blank c"
  unfolding useDataLineage_ops_def useDataLineage_fetchLineage_def
  by (elim UnE CollectE exE conjE singletonE; simp add: blank_intros)

lemma useDataLineage_good: "c \<in> useDataLineage_ops E baseUrl \<Longrightarrow> good_op without_credentials c"
  unfolding useDataLineage_ops_def good_op_def useDataLineage_fetchLineage_def
  by (elim UnE CollectE exE conjE singletonE; simp add: op_intros)

section \<open>\<open>useDatabaseHealth\<close>\<close>

definition useDatabaseHealth_init :: "hook_state" where
  "useDatabaseHealth_init = state_of [(''data'', JNull), (''loading'', JBool False), (''error'', JNull)]"

definition useDatabaseHealth_fetchData :: "'w env \<Rightarrow> string \<Rightarrow> 'w cmd" where
  "useDatabaseHealth_fetchData E baseUrl = setv ''loading'' (JBool True) (setv ''error'' JNull
     (try_catch E
     (send E (plain_request ''GET'' (baseUrl @ ''/api/v1/admin/database-health'') [] None) (\<lambda>st body.
     unless_ok st (''HTTP '' @ show_int st) (read_json body (\<lambda>v. setv ''data'' v (ret JUndef)))))
     (\<lambda>m. setv ''error'' (JStr m) (ret JUndef)) [(''loading'', JBool False)]))"

definition useDatabaseHealth_ops :: "'w env \<Rightarrow> string \<Rightarrow> 'w cmd set" where
  "useDatabaseHealth_ops E baseUrl = {useDatabaseHealth_fetchData E baseUrl}"

lemma useDatabaseHealth_blank: "c \<in> useDatabaseHealth_ops E baseUrl \<Longrightarrow> all_refused E \<Longrightarrow> blank c"
  unfolding useDatabaseHealth_ops_def useDatabaseHealth_fetchData_def
  by (elim UnE CollectE exE conjE singletonE; simp add: blank_intros)

lemma useDatabaseHealth_good: "c \<in> useDatabaseHealth_ops E baseUrl \<Longrightarrow> good_op without_credentials c"
  unfolding useDatabaseHealth_ops_def good_op_def useDatabaseHealth_fetchData_def
  by (elim UnE CollectE exE conjE singletonE; simp add: op_intros)

section \<open>\<open>useDelegatedReview\<close>\<close>

definition useDelegatedReview_init :: "hook_state" where
  "useDelegatedReview_init = state_of [(''delegations'', JArr []), (''loading'', JBool False), (''error'', JNull)]"

definition useDelegatedReview_fetchDelegations :: "'w env \<Rightarrow> string \<Rightarrow> 'w cmd" where
  "useDelegatedReview_fetchDelegations E baseUrl = setv ''loading'' (JBool True) (setv ''error'' JNull
     (try_catch E
     (send E (plain_request ''GET'' (baseUrl @ ''/api/v1/policy/delegated-review'') [] None) (\<lambda>st body.
     unless_ok st (''HTTP '' @ show_int st) (read_json body (\<lambda>data'. reads data' (setv ''delegations'' (js_or (js_or (js_opt_prop data'
       ''delegations'') data') (JArr [])) (ret JUndef))))))
     (\<lambda>m. setv ''error'' (JStr m) (ret JUndef)) [(''loading'', JBool False)]))"

definition useDelegatedReview_createDelegation :: "'w env \<Rightarrow> string \<Rightarrow> string \<Rightarrow> string \<Rightarrow> string \<Rightarrow> string \<Rightarrow> 'w cmd" where
  "useDelegatedReview_createDelegation E baseUrl originalReviewer delegatedTo scope' expiresAt = setv ''loading'' (JBool True) (setv ''error'' JNull
     (try_catch E
     (send E (plain_request ''POST'' (baseUrl @ ''/api/v1/policy/delegated-review'') json_header (Some (JObj [(''original_reviewer'', JStr
       originalReviewer), (''delegated_to'', JStr delegatedTo), (''scope'', JStr scope'), (''expires_at'', JStr expiresAt)]))) (\<lambda>st body.
     unless_ok st (''HTTP '' @ show_int st) (ret (JBool True))))
     (\<lambda>m. setv ''error'' (JStr m) (ret (JBool False))) [(''loading'', JBool False)]))"

definition useDelegatedReview_revokeDelegation :: "'w env \<Rightarrow> string \<Rightarrow> string \<Rightarrow> 'w cmd" where
  "useDelegatedReview_revokeDelegation E baseUrl id' = setv ''loading'' (JBool True) (setv ''error'' JNull
     (try_catch E
     (send E (plain_request ''DELETE'' (baseUrl @ ''/api/v1/policy/delegated-review/'' @ id') [] None) (\<lambda>st body.
     unless_ok st (''HTTP '' @ show_int st) (ret (JBool True))))
     (\<lambda>m. setv ''error'' (JStr m) (ret (JBool False))) [(''loading'', JBool False)]))"

definition useDelegatedReview_ops :: "'w env \<Rightarrow> string \<Rightarrow> 'w cmd set" where
  "useDelegatedReview_ops E baseUrl = {useDelegatedReview_fetchDelegations E baseUrl} \<union> {useDelegatedReview_createDelegation E baseUrl
       originalReviewer delegatedTo scope' expiresAt |originalReviewer delegatedTo scope' expiresAt. True} \<union>
       {useDelegatedReview_revokeDelegation E baseUrl id' |id'. True}"

lemma useDelegatedReview_blank: "c \<in> useDelegatedReview_ops E baseUrl \<Longrightarrow> all_refused E \<Longrightarrow> blank c"
  unfolding useDelegatedReview_ops_def useDelegatedReview_fetchDelegations_def useDelegatedReview_createDelegation_def useDelegatedReview_revokeDelegation_def
  by (elim UnE CollectE exE conjE singletonE; simp add: blank_intros)

lemma useDelegatedReview_good: "c \<in> useDelegatedReview_ops E baseUrl \<Longrightarrow> good_op without_credentials c"
  unfolding useDelegatedReview_ops_def good_op_def useDelegatedReview_fetchDelegations_def useDelegatedReview_createDelegation_def useDelegatedReview_revokeDelegation_def
  by (elim UnE CollectE exE conjE singletonE; simp add: op_intros)

section \<open>\<open>useDelegations\<close>\<close>

definition useDelegations_init :: "hook_state" where
  "useDelegations_init = state_of [(''delegations'', JArr []), (''loading'', JBool False), (''error'', JNull)]"

definition useDelegations_fetchDelegations :: "'w env \<Rightarrow> string \<Rightarrow> 'w cmd" where
  "useDelegations_fetchDelegations E baseUrl = setv ''loading'' (JBool True) (setv ''error'' JNull
     (try_catch E
     (send E (plain_request ''GET'' (baseUrl @ ''/api/v1/identity/delegations'') [] None) (\<lambda>st body.
     unless_ok st (''HTTP '' @ show_int st) (read_json body (\<lambda>data'. reads data' (setv ''delegations'' (js_or (js_or (js_opt_prop data'
       ''delegations'') data') (JArr [])) (ret JUndef))))))
     (\<lambda>m. setv ''error'' (JStr m) (ret JUndef)) [(''loading'', JBool False)]))"

definition useDelegations_createDelegation :: "'w env \<Rightarrow> string \<Rightarrow> string \<Rightarrow> jsv \<Rightarrow> string \<Rightarrow> string \<Rightarrow> jsv \<Rightarrow> 'w cmd" where
  "useDelegations_createDelegation E baseUrl delegatedTo scope' startDate endDate reason' = setv ''loading'' (JBool True) (setv ''error'' JNull
     (try_catch E
     (send E (plain_request ''POST'' (baseUrl @ ''/api/v1/identity/delegations'') json_header (Some (JObj [(''delegated_to'', JStr delegatedTo),
       (''scope'', scope'), (''start_date'', JStr startDate), (''end_date'', JStr endDate), (''reason'', reason')]))) (\<lambda>st body.
     unless_ok st (''HTTP '' @ show_int st) (run (useDelegations_fetchDelegations E baseUrl) (\<lambda>_. ret (JBool True)))))
     (\<lambda>m. setv ''error'' (JStr m) (ret (JBool False))) [(''loading'', JBool False)]))"

definition useDelegations_revokeDelegation :: "'w env \<Rightarrow> string \<Rightarrow> string \<Rightarrow> 'w cmd" where
  "useDelegations_revokeDelegation E baseUrl id' = setv ''loading'' (JBool True) (setv ''error'' JNull
     (try_catch E
     (send E (plain_request ''POST'' (baseUrl @ ''/api/v1/identity/delegations/'' @ id' @ ''/revoke'') [] None) (\<lambda>st body.
     unless_ok st (''HTTP '' @ show_int st) (updv ''delegations'' (map_items (\<lambda>d. if js_opt_prop d ''id'' = JStr id' then with_entries d
       [(''status'', JStr ''revoked'')] else d)) (ret (JBool True)))))
     (\<lambda>m. setv ''error'' (JStr m) (ret (JBool False))) [(''loading'', JBool False)]))"

definition useDelegations_ops :: "'w env \<Rightarrow> string \<Rightarrow> 'w cmd set" where
  "useDelegations_ops E baseUrl = {useDelegations_fetchDelegations E baseUrl} \<union> {useDelegations_createDelegation E baseUrl delegatedTo scope'
       startDate endDate reason' |delegatedTo scope' startDate endDate reason'. True} \<union> {useDelegations_revokeDelegation E baseUrl id' |id'.
       True}"

lemma useDelegations_blank: "c \<in> useDelegations_ops E baseUrl \<Longrightarrow> all_refused E \<Longrightarrow> blank c"
  unfolding useDelegations_ops_def useDelegations_fetchDelegations_def useDelegations_createDelegation_def useDelegations_revokeDelegation_def
  by (elim UnE CollectE exE conjE singletonE; simp add: blank_intros)

lemma useDelegations_good: "c \<in> useDelegations_ops E baseUrl \<Longrightarrow> good_op without_credentials c"
  unfolding useDelegations_ops_def good_op_def useDelegations_fetchDelegations_def useDelegations_createDelegation_def useDelegations_revokeDelegation_def
  by (elim UnE CollectE exE conjE singletonE; simp add: op_intros)

section \<open>\<open>useDepartmentAnalytics\<close>\<close>

definition useDepartmentAnalytics_init :: "hook_state" where
  "useDepartmentAnalytics_init = state_of [(''departments'', JArr []), (''loading'', JBool False), (''error'', JNull)]"

definition useDepartmentAnalytics_fetchDepartments :: "'w env \<Rightarrow> string \<Rightarrow> 'w cmd" where
  "useDepartmentAnalytics_fetchDepartments E baseUrl = setv ''loading'' (JBool True) (setv ''error'' JNull
     (try_catch E
     (send E (plain_request ''GET'' (baseUrl @ ''/api/v1/org/department-analytics'') [] None) (\<lambda>st body.
     unless_ok st (''HTTP '' @ show_int st) (read_json body (\<lambda>data'. reads data' (setv ''departments'' (js_or (js_or (js_opt_prop data'
       ''departments'') data') (JArr [])) (ret JUndef))))))
     (\<lambda>m. setv ''error'' (JStr m) (ret JUndef)) [(''loading'', JBool False)]))"

definition useDepartmentAnalytics_ops :: "'w env \<Rightarrow> string \<Rightarrow> 'w cmd set" where
  "useDepartmentAnalytics_ops E baseUrl = {useDepartmentAnalytics_fetchDepartments E baseUrl}"

lemma useDepartmentAnalytics_blank: "c \<in> useDepartmentAnalytics_ops E baseUrl \<Longrightarrow> all_refused E \<Longrightarrow> blank c"
  unfolding useDepartmentAnalytics_ops_def useDepartmentAnalytics_fetchDepartments_def
  by (elim UnE CollectE exE conjE singletonE; simp add: blank_intros)

lemma useDepartmentAnalytics_good: "c \<in> useDepartmentAnalytics_ops E baseUrl \<Longrightarrow> good_op without_credentials c"
  unfolding useDepartmentAnalytics_ops_def good_op_def useDepartmentAnalytics_fetchDepartments_def
  by (elim UnE CollectE exE conjE singletonE; simp add: op_intros)

section \<open>\<open>useDeprovisionDashboard\<close>\<close>

definition useDeprovisionDashboard_init :: "hook_state" where
  "useDeprovisionDashboard_init = state_of [(''data'', JNull), (''loading'', JBool False), (''error'', JNull)]"

definition useDeprovisionDashboard_fetchData :: "'w env \<Rightarrow> string \<Rightarrow> 'w cmd" where
  "useDeprovisionDashboard_fetchData E baseUrl = setv ''loading'' (JBool True) (setv ''error'' JNull
     (try_catch E
     (send E (plain_request ''GET'' (baseUrl @ ''/api/v1/identity/deprovision-dashboard'') [] None) (\<lambda>st body.
     unless_ok st (''HTTP '' @ show_int st) (read_json body (\<lambda>v. setv ''data'' v (ret JUndef)))))
     (\<lambda>m. setv ''error'' (JStr m) (ret JUndef)) [(''loading'', JBool False)]))"

definition useDeprovisionDashboard_retry :: "'w env \<Rightarrow> string \<Rightarrow> string \<Rightarrow> 'w cmd" where
  "useDeprovisionDashboard_retry E baseUrl id' = setv ''loading'' (JBool True) (setv ''error'' JNull
     (try_catch E
     (send E (plain_request ''POST'' (baseUrl @ ''/api/v1/identity/deprovision/'' @ id' @ ''/retry'') [] None) (\<lambda>st body.
     unless_ok st (''HTTP '' @ show_int st) (ret (JBool True))))
     (\<lambda>m. setv ''error'' (JStr m) (ret (JBool False))) [(''loading'', JBool False)]))"

definition useDeprovisionDashboard_ops :: "'w env \<Rightarrow> string \<Rightarrow> 'w cmd set" where
  "useDeprovisionDashboard_ops E baseUrl = {useDeprovisionDashboard_fetchData E baseUrl} \<union> {useDeprovisionDashboard_retry E baseUrl id' |id'.
       True}"

lemma useDeprovisionDashboard_blank: "c \<in> useDeprovisionDashboard_ops E baseUrl \<Longrightarrow> all_refused E \<Longrightarrow> blank c"
  unfolding useDeprovisionDashboard_ops_def useDeprovisionDashboard_fetchData_def useDeprovisionDashboard_retry_def
  by (elim UnE CollectE exE conjE singletonE; simp add: blank_intros)

lemma useDeprovisionDashboard_good: "c \<in> useDeprovisionDashboard_ops E baseUrl \<Longrightarrow> good_op without_credentials c"
  unfolding useDeprovisionDashboard_ops_def good_op_def useDeprovisionDashboard_fetchData_def useDeprovisionDashboard_retry_def
  by (elim UnE CollectE exE conjE singletonE; simp add: op_intros)

section \<open>\<open>useDeprovisionSchedule\<close>\<close>

definition useDeprovisionSchedule_init :: "hook_state" where
  "useDeprovisionSchedule_init = state_of [(''jobs'', JArr []), (''loading'', JBool False), (''error'', JNull)]"

definition useDeprovisionSchedule_fetchJobs :: "'w env \<Rightarrow> string \<Rightarrow> 'w cmd" where
  "useDeprovisionSchedule_fetchJobs E baseUrl = setv ''loading'' (JBool True) (setv ''error'' JNull
     (try_catch E
     (send E (plain_request ''GET'' (baseUrl @ ''/api/v1/identity/deprovision-schedule'') [] None) (\<lambda>st body.
     unless_ok st (''HTTP '' @ show_int st) (read_json body (\<lambda>data'. reads data' (setv ''jobs'' (js_or (js_or (js_opt_prop data' ''jobs'')
       data') (JArr [])) (ret JUndef))))))
     (\<lambda>m. setv ''error'' (JStr m) (ret JUndef)) [(''loading'', JBool False)]))"

definition useDeprovisionSchedule_createJob :: "'w env \<Rightarrow> string \<Rightarrow> string \<Rightarrow> string \<Rightarrow> string \<Rightarrow> bool \<Rightarrow> int \<Rightarrow> 'w cmd" where
  "useDeprovisionSchedule_createJob E baseUrl userId scheduledAt reason' cascadeToApps notifyBeforeDays = setv ''loading'' (JBool True) (setv ''error''
       JNull
     (try_catch E
     (send E (plain_request ''POST'' (baseUrl @ ''/api/v1/identity/deprovision-schedule'') json_header (Some (JObj [(''user_id'', JStr userId),
       (''scheduled_at'', JStr scheduledAt), (''reason'', JStr reason'), (''cascade_to_apps'', JBool cascadeToApps), (''notify_before_days'', JNum
       notifyBeforeDays)]))) (\<lambda>st body.
     unless_ok st (''HTTP '' @ show_int st) (ret (JBool True))))
     (\<lambda>m. setv ''error'' (JStr m) (ret (JBool False))) [(''loading'', JBool False)]))"

definition useDeprovisionSchedule_cancelJob :: "'w env \<Rightarrow> string \<Rightarrow> string \<Rightarrow> 'w cmd" where
  "useDeprovisionSchedule_cancelJob E baseUrl id' = setv ''loading'' (JBool True) (setv ''error'' JNull
     (try_catch E
     (send E (plain_request ''DELETE'' (baseUrl @ ''/api/v1/identity/deprovision-schedule/'' @ id') [] None) (\<lambda>st body.
     unless_ok st (''HTTP '' @ show_int st) (ret (JBool True))))
     (\<lambda>m. setv ''error'' (JStr m) (ret (JBool False))) [(''loading'', JBool False)]))"

definition useDeprovisionSchedule_ops :: "'w env \<Rightarrow> string \<Rightarrow> 'w cmd set" where
  "useDeprovisionSchedule_ops E baseUrl = {useDeprovisionSchedule_fetchJobs E baseUrl} \<union> {useDeprovisionSchedule_createJob E baseUrl userId
       scheduledAt reason' cascadeToApps notifyBeforeDays |userId scheduledAt reason' cascadeToApps notifyBeforeDays. True} \<union>
       {useDeprovisionSchedule_cancelJob E baseUrl id' |id'. True}"

lemma useDeprovisionSchedule_blank: "c \<in> useDeprovisionSchedule_ops E baseUrl \<Longrightarrow> all_refused E \<Longrightarrow> blank c"
  unfolding useDeprovisionSchedule_ops_def useDeprovisionSchedule_fetchJobs_def useDeprovisionSchedule_createJob_def useDeprovisionSchedule_cancelJob_def
  by (elim UnE CollectE exE conjE singletonE; simp add: blank_intros)

lemma useDeprovisionSchedule_good: "c \<in> useDeprovisionSchedule_ops E baseUrl \<Longrightarrow> good_op without_credentials c"
  unfolding useDeprovisionSchedule_ops_def good_op_def useDeprovisionSchedule_fetchJobs_def useDeprovisionSchedule_createJob_def useDeprovisionSchedule_cancelJob_def
  by (elim UnE CollectE exE conjE singletonE; simp add: op_intros)

section \<open>\<open>useDeviceManagement\<close>\<close>

definition useDeviceManagement_init :: "hook_state" where
  "useDeviceManagement_init = state_of [(''devices'', JArr []), (''loading'', JBool False), (''error'', JNull)]"

definition useDeviceManagement_fetchDevices :: "'w env \<Rightarrow> string \<Rightarrow> 'w cmd" where
  "useDeviceManagement_fetchDevices E baseUrl = setv ''loading'' (JBool True) (setv ''error'' JNull
     (try_catch E
     (send E (plain_request ''GET'' (baseUrl @ ''/api/v1/identity/devices'') [] None) (\<lambda>st body.
     unless_ok st (''HTTP '' @ show_int st) (read_json body (\<lambda>data'. reads data' (setv ''devices'' (js_or (js_or (js_opt_prop data'
       ''devices'') data') (JArr [])) (ret JUndef))))))
     (\<lambda>m. setv ''error'' (JStr m) (ret JUndef)) [(''loading'', JBool False)]))"

definition useDeviceManagement_revokeDevice :: "'w env \<Rightarrow> string \<Rightarrow> string \<Rightarrow> 'w cmd" where
  "useDeviceManagement_revokeDevice E baseUrl id' = setv ''loading'' (JBool True) (setv ''error'' JNull
     (try_catch E
     (send E (plain_request ''DELETE'' (baseUrl @ ''/api/v1/identity/devices/'' @ id') [] None) (\<lambda>st body.
     unless_ok st (''HTTP '' @ show_int st) (ret (JBool True))))
     (\<lambda>m. setv ''error'' (JStr m) (ret (JBool False))) [(''loading'', JBool False)]))"

definition useDeviceManagement_ops :: "'w env \<Rightarrow> string \<Rightarrow> 'w cmd set" where
  "useDeviceManagement_ops E baseUrl = {useDeviceManagement_fetchDevices E baseUrl} \<union> {useDeviceManagement_revokeDevice E baseUrl id' |id'.
       True}"

lemma useDeviceManagement_blank: "c \<in> useDeviceManagement_ops E baseUrl \<Longrightarrow> all_refused E \<Longrightarrow> blank c"
  unfolding useDeviceManagement_ops_def useDeviceManagement_fetchDevices_def useDeviceManagement_revokeDevice_def
  by (elim UnE CollectE exE conjE singletonE; simp add: blank_intros)

lemma useDeviceManagement_good: "c \<in> useDeviceManagement_ops E baseUrl \<Longrightarrow> good_op without_credentials c"
  unfolding useDeviceManagement_ops_def good_op_def useDeviceManagement_fetchDevices_def useDeviceManagement_revokeDevice_def
  by (elim UnE CollectE exE conjE singletonE; simp add: op_intros)

section \<open>\<open>useDevicePosture\<close>\<close>

definition useDevicePosture_init :: "hook_state" where
  "useDevicePosture_init = state_of [(''data'', JNull), (''loading'', JBool False), (''error'', JNull)]"

definition useDevicePosture_fetchData :: "'w env \<Rightarrow> string \<Rightarrow> 'w cmd" where
  "useDevicePosture_fetchData E baseUrl = setv ''loading'' (JBool True) (setv ''error'' JNull
     (try_catch E
     (send E (plain_request ''GET'' (baseUrl @ ''/api/v1/identity/device-posture'') [] None) (\<lambda>st body.
     unless_ok st (''HTTP '' @ show_int st) (read_json body (\<lambda>v. setv ''data'' v (ret JUndef)))))
     (\<lambda>m. setv ''error'' (JStr m) (ret JUndef)) [(''loading'', JBool False)]))"

definition useDevicePosture_ops :: "'w env \<Rightarrow> string \<Rightarrow> 'w cmd set" where
  "useDevicePosture_ops E baseUrl = {useDevicePosture_fetchData E baseUrl}"

lemma useDevicePosture_blank: "c \<in> useDevicePosture_ops E baseUrl \<Longrightarrow> all_refused E \<Longrightarrow> blank c"
  unfolding useDevicePosture_ops_def useDevicePosture_fetchData_def
  by (elim UnE CollectE exE conjE singletonE; simp add: blank_intros)

lemma useDevicePosture_good: "c \<in> useDevicePosture_ops E baseUrl \<Longrightarrow> good_op without_credentials c"
  unfolding useDevicePosture_ops_def good_op_def useDevicePosture_fetchData_def
  by (elim UnE CollectE exE conjE singletonE; simp add: op_intros)

section \<open>\<open>useDirectoryReconcile\<close>\<close>

definition useDirectoryReconcile_init :: "hook_state" where
  "useDirectoryReconcile_init = state_of [(''data'', JNull), (''loading'', JBool False), (''error'', JNull)]"

definition useDirectoryReconcile_fetchReconcile :: "'w env \<Rightarrow> string \<Rightarrow> bool \<Rightarrow> 'w cmd" where
  "useDirectoryReconcile_fetchReconcile E baseUrl dryRun = setv ''loading'' (JBool True) (setv ''error'' JNull
     (try_catch E
     (send E (plain_request ''GET'' (baseUrl @ ''/api/v1/identity/directory-reconcile?dry_run='' @ (if dryRun then ''true'' else ''false'')) [] None)
       (\<lambda>st body.
     unless_ok st (''HTTP '' @ show_int st) (read_json body (\<lambda>v. setv ''data'' v (ret JUndef)))))
     (\<lambda>m. setv ''error'' (JStr m) (ret JUndef)) [(''loading'', JBool False)]))"

definition useDirectoryReconcile_execute :: "'w env \<Rightarrow> string \<Rightarrow> bool \<Rightarrow> string \<Rightarrow> 'w cmd" where
  "useDirectoryReconcile_execute E baseUrl dryRun mergeStrategy = setv ''loading'' (JBool True) (setv ''error'' JNull
     (try_catch E
     (send E (plain_request ''POST'' (baseUrl @ ''/api/v1/identity/directory-reconcile/execute'') json_header (Some (JObj [(''dry_run'', JBool
       dryRun), (''merge_strategy'', JStr mergeStrategy)]))) (\<lambda>st body.
     unless_ok st (''HTTP '' @ show_int st) (ret (JBool True))))
     (\<lambda>m. setv ''error'' (JStr m) (ret (JBool False))) [(''loading'', JBool False)]))"

definition useDirectoryReconcile_ops :: "'w env \<Rightarrow> string \<Rightarrow> 'w cmd set" where
  "useDirectoryReconcile_ops E baseUrl = {useDirectoryReconcile_fetchReconcile E baseUrl dryRun |dryRun. True} \<union> {useDirectoryReconcile_execute
       E baseUrl dryRun mergeStrategy |dryRun mergeStrategy. True}"

lemma useDirectoryReconcile_blank: "c \<in> useDirectoryReconcile_ops E baseUrl \<Longrightarrow> all_refused E \<Longrightarrow> blank c"
  unfolding useDirectoryReconcile_ops_def useDirectoryReconcile_fetchReconcile_def useDirectoryReconcile_execute_def
  by (elim UnE CollectE exE conjE singletonE; simp add: blank_intros)

lemma useDirectoryReconcile_good: "c \<in> useDirectoryReconcile_ops E baseUrl \<Longrightarrow> good_op without_credentials c"
  unfolding useDirectoryReconcile_ops_def good_op_def useDirectoryReconcile_fetchReconcile_def useDirectoryReconcile_execute_def
  by (elim UnE CollectE exE conjE singletonE; simp add: op_intros)

section \<open>\<open>useDirectorySnapshot\<close>\<close>

definition useDirectorySnapshot_init :: "hook_state" where
  "useDirectorySnapshot_init = state_of [(''snapshot'', JNull), (''loading'', JBool False), (''error'', JNull)]"

definition useDirectorySnapshot_fetchSnapshot :: "'w env \<Rightarrow> string \<Rightarrow> 'w cmd" where
  "useDirectorySnapshot_fetchSnapshot E baseUrl = setv ''loading'' (JBool True) (setv ''error'' JNull
     (try_catch E
     (send E (plain_request ''GET'' (baseUrl @ ''/api/v1/identity/directory-snapshot'') [] None) (\<lambda>st body.
     unless_ok st (''HTTP '' @ show_int st) (read_json body (\<lambda>v. setv ''snapshot'' v (ret JUndef)))))
     (\<lambda>m. setv ''error'' (JStr m) (setv ''snapshot'' JNull (ret JUndef))) [(''loading'', JBool False)]))"

definition useDirectorySnapshot_ops :: "'w env \<Rightarrow> string \<Rightarrow> 'w cmd set" where
  "useDirectorySnapshot_ops E baseUrl = {useDirectorySnapshot_fetchSnapshot E baseUrl}"

lemma useDirectorySnapshot_blank: "c \<in> useDirectorySnapshot_ops E baseUrl \<Longrightarrow> all_refused E \<Longrightarrow> blank c"
  unfolding useDirectorySnapshot_ops_def useDirectorySnapshot_fetchSnapshot_def
  by (elim UnE CollectE exE conjE singletonE; simp add: blank_intros)

lemma useDirectorySnapshot_good: "c \<in> useDirectorySnapshot_ops E baseUrl \<Longrightarrow> good_op without_credentials c"
  unfolding useDirectorySnapshot_ops_def good_op_def useDirectorySnapshot_fetchSnapshot_def
  by (elim UnE CollectE exE conjE singletonE; simp add: op_intros)

section \<open>\<open>useDiscoveryConfig\<close>\<close>

definition useDiscoveryConfig_init :: "hook_state" where
  "useDiscoveryConfig_init = state_of [(''data'', JNull), (''loading'', JBool False), (''error'', JNull)]"

definition useDiscoveryConfig_fetchData :: "'w env \<Rightarrow> string \<Rightarrow> 'w cmd" where
  "useDiscoveryConfig_fetchData E baseUrl = setv ''loading'' (JBool True) (setv ''error'' JNull
     (try_catch E
     (send E (plain_request ''GET'' (baseUrl @ ''/api/v1/oauth/discovery-config'') [] None) (\<lambda>st body.
     unless_ok st (''HTTP '' @ show_int st) (read_json body (\<lambda>v. setv ''data'' v (ret JUndef)))))
     (\<lambda>m. setv ''error'' (JStr m) (ret JUndef)) [(''loading'', JBool False)]))"

definition useDiscoveryConfig_refreshJwks :: "'w env \<Rightarrow> string \<Rightarrow> 'w cmd" where
  "useDiscoveryConfig_refreshJwks E baseUrl = setv ''loading'' (JBool True) (setv ''error'' JNull
     (try_catch E
     (send E (plain_request ''POST'' (baseUrl @ ''/api/v1/oauth/discovery-config/jwks-refresh'') [] None) (\<lambda>st body.
     unless_ok st (''HTTP '' @ show_int st) (ret (JBool True))))
     (\<lambda>m. setv ''error'' (JStr m) (ret (JBool False))) [(''loading'', JBool False)]))"

definition useDiscoveryConfig_ops :: "'w env \<Rightarrow> string \<Rightarrow> 'w cmd set" where
  "useDiscoveryConfig_ops E baseUrl = {useDiscoveryConfig_fetchData E baseUrl} \<union> {useDiscoveryConfig_refreshJwks E baseUrl}"

lemma useDiscoveryConfig_blank: "c \<in> useDiscoveryConfig_ops E baseUrl \<Longrightarrow> all_refused E \<Longrightarrow> blank c"
  unfolding useDiscoveryConfig_ops_def useDiscoveryConfig_fetchData_def useDiscoveryConfig_refreshJwks_def
  by (elim UnE CollectE exE conjE singletonE; simp add: blank_intros)

lemma useDiscoveryConfig_good: "c \<in> useDiscoveryConfig_ops E baseUrl \<Longrightarrow> good_op without_credentials c"
  unfolding useDiscoveryConfig_ops_def good_op_def useDiscoveryConfig_fetchData_def useDiscoveryConfig_refreshJwks_def
  by (elim UnE CollectE exE conjE singletonE; simp add: op_intros)

section \<open>\<open>useEmailTemplateEditor\<close>\<close>

definition useEmailTemplateEditor_init :: "hook_state" where
  "useEmailTemplateEditor_init = state_of [(''templates'', JObj []), (''loading'', JBool False), (''error'', JNull)]"

definition useEmailTemplateEditor_fetchTemplates :: "'w env \<Rightarrow> string \<Rightarrow> 'w cmd" where
  "useEmailTemplateEditor_fetchTemplates E baseUrl = setv ''loading'' (JBool True) (setv ''error'' JNull
     (try_catch E
     (send E (plain_request ''GET'' (baseUrl @ ''/api/v1/notification/email-templates'') [] None) (\<lambda>st body.
     unless_ok st (''HTTP '' @ show_int st) (read_json body (\<lambda>v. setv ''templates'' v (ret JUndef)))))
     (\<lambda>m. setv ''error'' (JStr m) (ret JUndef)) [(''loading'', JBool False)]))"

definition useEmailTemplateEditor_saveTemplate :: "'w env \<Rightarrow> string \<Rightarrow> string \<Rightarrow> string \<Rightarrow> string \<Rightarrow> 'w cmd" where
  "useEmailTemplateEditor_saveTemplate E baseUrl name' lang content = setv ''loading'' (JBool True) (setv ''error'' JNull
     (try_catch E
     (send E (plain_request ''PUT'' (baseUrl @ ''/api/v1/notification/email-templates'') json_header (Some (JObj [(''name'', JStr name'), (''lang'',
       JStr lang), (''content'', JStr content)]))) (\<lambda>st body.
     unless_ok st (''HTTP '' @ show_int st) (ret (JBool True))))
     (\<lambda>m. setv ''error'' (JStr m) (ret (JBool False))) [(''loading'', JBool False)]))"

definition useEmailTemplateEditor_sendTest :: "'w env \<Rightarrow> string \<Rightarrow> string \<Rightarrow> string \<Rightarrow> string \<Rightarrow> 'w cmd" where
  "useEmailTemplateEditor_sendTest E baseUrl template content email = setv ''loading'' (JBool True) (setv ''error'' JNull
     (try_catch E
     (send E (plain_request ''POST'' (baseUrl @ ''/api/v1/notification/email-test'') json_header (Some (JObj [(''template'', JStr template),
       (''content'', JStr content), (''email'', JStr email)]))) (\<lambda>st body.
     unless_ok st (''HTTP '' @ show_int st) (ret (JBool True))))
     (\<lambda>m. setv ''error'' (JStr m) (ret (JBool False))) [(''loading'', JBool False)]))"

definition useEmailTemplateEditor_ops :: "'w env \<Rightarrow> string \<Rightarrow> 'w cmd set" where
  "useEmailTemplateEditor_ops E baseUrl = {useEmailTemplateEditor_fetchTemplates E baseUrl} \<union> {useEmailTemplateEditor_saveTemplate E baseUrl
       name' lang content |name' lang content. True} \<union> {useEmailTemplateEditor_sendTest E baseUrl template content email |template content
       email. True}"

lemma useEmailTemplateEditor_blank: "c \<in> useEmailTemplateEditor_ops E baseUrl \<Longrightarrow> all_refused E \<Longrightarrow> blank c"
  unfolding useEmailTemplateEditor_ops_def useEmailTemplateEditor_fetchTemplates_def useEmailTemplateEditor_saveTemplate_def useEmailTemplateEditor_sendTest_def
  by (elim UnE CollectE exE conjE singletonE; simp add: blank_intros)

lemma useEmailTemplateEditor_good: "c \<in> useEmailTemplateEditor_ops E baseUrl \<Longrightarrow> good_op without_credentials c"
  unfolding useEmailTemplateEditor_ops_def good_op_def useEmailTemplateEditor_fetchTemplates_def useEmailTemplateEditor_saveTemplate_def useEmailTemplateEditor_sendTest_def
  by (elim UnE CollectE exE conjE singletonE; simp add: op_intros)

section \<open>\<open>useEntitlementReview\<close>\<close>

definition useEntitlementReview_init :: "hook_state" where
  "useEntitlementReview_init = state_of [(''permissions'', JArr []), (''loading'', JBool False), (''error'', JNull)]"

definition useEntitlementReview_reviewUser :: "'w env \<Rightarrow> string \<Rightarrow> string \<Rightarrow> 'w cmd" where
  "useEntitlementReview_reviewUser E baseUrl userId = setv ''loading'' (JBool True) (setv ''error'' JNull
     (try_catch E
     (send E (plain_request ''GET'' (baseUrl @ ''/api/v1/identity/entitlement-review?user='' @ encodeURIComponent userId) [] None) (\<lambda>st body.
     unless_ok st (''HTTP '' @ show_int st) (read_json body (\<lambda>data'. reads data' (setv ''permissions'' (js_or (js_or (js_opt_prop data'
       ''permissions'') data') (JArr [])) (ret JUndef))))))
     (\<lambda>m. setv ''error'' (JStr m) (ret JUndef)) [(''loading'', JBool False)]))"

definition useEntitlementReview_ops :: "'w env \<Rightarrow> string \<Rightarrow> 'w cmd set" where
  "useEntitlementReview_ops E baseUrl = {useEntitlementReview_reviewUser E baseUrl userId |userId. True}"

lemma useEntitlementReview_blank: "c \<in> useEntitlementReview_ops E baseUrl \<Longrightarrow> all_refused E \<Longrightarrow> blank c"
  unfolding useEntitlementReview_ops_def useEntitlementReview_reviewUser_def
  by (elim UnE CollectE exE conjE singletonE; simp add: blank_intros)

lemma useEntitlementReview_good: "c \<in> useEntitlementReview_ops E baseUrl \<Longrightarrow> good_op without_credentials c"
  unfolding useEntitlementReview_ops_def good_op_def useEntitlementReview_reviewUser_def
  by (elim UnE CollectE exE conjE singletonE; simp add: op_intros)

section \<open>\<open>useEvidenceCollection\<close>\<close>

definition useEvidenceCollection_init :: "hook_state" where
  "useEvidenceCollection_init = state_of [(''data'', JNull), (''loading'', JBool False), (''error'', JNull)]"

definition useEvidenceCollection_fetchEvidence :: "'w env \<Rightarrow> string \<Rightarrow> string \<Rightarrow> 'w cmd" where
  "useEvidenceCollection_fetchEvidence E baseUrl framework = setv ''loading'' (JBool True) (setv ''error'' JNull
     (try_catch E
     (send E (plain_request ''GET'' (baseUrl @ ''/api/v1/audit/evidence-collection?framework='' @ encodeURIComponent framework) [] None) (\<lambda>st
       body.
     unless_ok st (''HTTP '' @ show_int st) (read_json body (\<lambda>v. setv ''data'' v (ret JUndef)))))
     (\<lambda>m. setv ''error'' (JStr m) (ret JUndef)) [(''loading'', JBool False)]))"

definition useEvidenceCollection_uploadEvidence :: "'w env \<Rightarrow> string \<Rightarrow> string \<Rightarrow> 'w cmd" where
  "useEvidenceCollection_uploadEvidence E baseUrl controlId = setv ''loading'' (JBool True) (setv ''error'' JNull
     (try_catch E
     (send E (plain_request ''POST'' (baseUrl @ ''/api/v1/audit/evidence-collection/'' @ controlId @ ''/upload'') [] None) (\<lambda>st body.
     unless_ok st (''HTTP '' @ show_int st) (ret (JBool True))))
     (\<lambda>m. setv ''error'' (JStr m) (ret (JBool False))) [(''loading'', JBool False)]))"

definition useEvidenceCollection_ops :: "'w env \<Rightarrow> string \<Rightarrow> 'w cmd set" where
  "useEvidenceCollection_ops E baseUrl = {useEvidenceCollection_fetchEvidence E baseUrl framework |framework. True} \<union>
       {useEvidenceCollection_uploadEvidence E baseUrl controlId |controlId. True}"

lemma useEvidenceCollection_blank: "c \<in> useEvidenceCollection_ops E baseUrl \<Longrightarrow> all_refused E \<Longrightarrow> blank c"
  unfolding useEvidenceCollection_ops_def useEvidenceCollection_fetchEvidence_def useEvidenceCollection_uploadEvidence_def
  by (elim UnE CollectE exE conjE singletonE; simp add: blank_intros)

lemma useEvidenceCollection_good: "c \<in> useEvidenceCollection_ops E baseUrl \<Longrightarrow> good_op without_credentials c"
  unfolding useEvidenceCollection_ops_def good_op_def useEvidenceCollection_fetchEvidence_def useEvidenceCollection_uploadEvidence_def
  by (elim UnE CollectE exE conjE singletonE; simp add: op_intros)

section \<open>\<open>useEvidenceExpiry\<close>\<close>

definition useEvidenceExpiry_init :: "hook_state" where
  "useEvidenceExpiry_init = state_of [(''items'', JArr []), (''loading'', JBool False), (''error'', JNull)]"

definition useEvidenceExpiry_fetchExpiry :: "'w env \<Rightarrow> string \<Rightarrow> 'w cmd" where
  "useEvidenceExpiry_fetchExpiry E baseUrl = setv ''loading'' (JBool True) (setv ''error'' JNull
     (try_catch E
     (send E (plain_request ''GET'' (baseUrl @ ''/api/v1/audit/evidence-expiry'') [] None) (\<lambda>st body.
     unless_ok st (''HTTP '' @ show_int st) (read_json body (\<lambda>data'. reads data' (setv ''items'' (js_or (js_or (js_opt_prop data'
       ''evidence'') data') (JArr [])) (ret JUndef))))))
     (\<lambda>m. setv ''error'' (JStr m) (ret JUndef)) [(''loading'', JBool False)]))"

definition useEvidenceExpiry_refreshItem :: "'w env \<Rightarrow> string \<Rightarrow> string \<Rightarrow> 'w cmd" where
  "useEvidenceExpiry_refreshItem E baseUrl id' = setv ''loading'' (JBool True) (setv ''error'' JNull
     (try_catch E
     (send E (plain_request ''POST'' (baseUrl @ ''/api/v1/audit/evidence-expiry/'' @ id' @ ''/refresh'') [] None) (\<lambda>st body.
     unless_ok st (''HTTP '' @ show_int st) (updv ''items'' (map_items (\<lambda>e. if js_opt_prop e ''id'' = JStr id' then with_entries e
       [(''status'', JStr ''valid''), (''days_remaining'', JNum 90)] else e)) (ret (JBool True)))))
     (\<lambda>m. setv ''error'' (JStr m) (ret (JBool False))) [(''loading'', JBool False)]))"

definition useEvidenceExpiry_ops :: "'w env \<Rightarrow> string \<Rightarrow> 'w cmd set" where
  "useEvidenceExpiry_ops E baseUrl = {useEvidenceExpiry_fetchExpiry E baseUrl} \<union> {useEvidenceExpiry_refreshItem E baseUrl id' |id'. True}"

lemma useEvidenceExpiry_blank: "c \<in> useEvidenceExpiry_ops E baseUrl \<Longrightarrow> all_refused E \<Longrightarrow> blank c"
  unfolding useEvidenceExpiry_ops_def useEvidenceExpiry_fetchExpiry_def useEvidenceExpiry_refreshItem_def
  by (elim UnE CollectE exE conjE singletonE; simp add: blank_intros)

lemma useEvidenceExpiry_good: "c \<in> useEvidenceExpiry_ops E baseUrl \<Longrightarrow> good_op without_credentials c"
  unfolding useEvidenceExpiry_ops_def good_op_def useEvidenceExpiry_fetchExpiry_def useEvidenceExpiry_refreshItem_def
  by (elim UnE CollectE exE conjE singletonE; simp add: op_intros)

section \<open>\<open>useExportSchedule\<close>\<close>

definition useExportSchedule_init :: "hook_state" where
  "useExportSchedule_init = state_of [(''jobs'', JArr []), (''loading'', JBool False), (''error'', JNull)]"

definition useExportSchedule_fetchJobs :: "'w env \<Rightarrow> string \<Rightarrow> 'w cmd" where
  "useExportSchedule_fetchJobs E baseUrl = setv ''loading'' (JBool True) (setv ''error'' JNull
     (try_catch E
     (send E (plain_request ''GET'' (baseUrl @ ''/api/v1/audit/export-schedule'') [] None) (\<lambda>st body.
     unless_ok st (''HTTP '' @ show_int st) (read_json body (\<lambda>data'. reads data' (setv ''jobs'' (js_or (js_or (js_opt_prop data' ''jobs'')
       data') (JArr [])) (ret JUndef))))))
     (\<lambda>m. setv ''error'' (JStr m) (ret JUndef)) [(''loading'', JBool False)]))"

definition useExportSchedule_createJob :: "'w env \<Rightarrow> string \<Rightarrow> jsv \<Rightarrow> 'w cmd" where
  "useExportSchedule_createJob E baseUrl payload = setv ''loading'' (JBool True) (setv ''error'' JNull
     (try_catch E
     (send E (plain_request ''POST'' (baseUrl @ ''/api/v1/audit/export-schedule'') json_header (Some payload)) (\<lambda>st body.
     unless_ok st (''HTTP '' @ show_int st) (ret (JBool True))))
     (\<lambda>m. setv ''error'' (JStr m) (ret (JBool False))) [(''loading'', JBool False)]))"

definition useExportSchedule_deleteJob :: "'w env \<Rightarrow> string \<Rightarrow> string \<Rightarrow> 'w cmd" where
  "useExportSchedule_deleteJob E baseUrl id' = setv ''loading'' (JBool True) (setv ''error'' JNull
     (try_catch E
     (send E (plain_request ''DELETE'' (baseUrl @ ''/api/v1/audit/export-schedule/'' @ id') [] None) (\<lambda>st body.
     unless_ok st (''HTTP '' @ show_int st) (ret (JBool True))))
     (\<lambda>m. setv ''error'' (JStr m) (ret (JBool False))) [(''loading'', JBool False)]))"

definition useExportSchedule_ops :: "'w env \<Rightarrow> string \<Rightarrow> 'w cmd set" where
  "useExportSchedule_ops E baseUrl = {useExportSchedule_fetchJobs E baseUrl} \<union> {useExportSchedule_createJob E baseUrl payload |payload. True}
       \<union> {useExportSchedule_deleteJob E baseUrl id' |id'. True}"

lemma useExportSchedule_blank: "c \<in> useExportSchedule_ops E baseUrl \<Longrightarrow> all_refused E \<Longrightarrow> blank c"
  unfolding useExportSchedule_ops_def useExportSchedule_fetchJobs_def useExportSchedule_createJob_def useExportSchedule_deleteJob_def
  by (elim UnE CollectE exE conjE singletonE; simp add: blank_intros)

lemma useExportSchedule_good: "c \<in> useExportSchedule_ops E baseUrl \<Longrightarrow> good_op without_credentials c"
  unfolding useExportSchedule_ops_def good_op_def useExportSchedule_fetchJobs_def useExportSchedule_createJob_def useExportSchedule_deleteJob_def
  by (elim UnE CollectE exE conjE singletonE; simp add: op_intros)

section \<open>\<open>useForensicsTimeline\<close>\<close>

definition useForensicsTimeline_init :: "hook_state" where
  "useForensicsTimeline_init = state_of [(''data'', JNull), (''loading'', JBool False), (''error'', JNull)]"

definition useForensicsTimeline_fetchForensics :: "'w env \<Rightarrow> string \<Rightarrow> 'w cmd" where
  "useForensicsTimeline_fetchForensics E baseUrl = setv ''loading'' (JBool True) (setv ''error'' JNull
     (try_catch E
     (send E (plain_request ''GET'' (baseUrl @ ''/api/v1/audit/forensics-timeline'') [] None) (\<lambda>st body.
     unless_ok st (''HTTP '' @ show_int st) (read_json body (\<lambda>v. setv ''data'' v (ret JUndef)))))
     (\<lambda>m. setv ''error'' (JStr m) (ret JUndef)) [(''loading'', JBool False)]))"

definition useForensicsTimeline_ops :: "'w env \<Rightarrow> string \<Rightarrow> 'w cmd set" where
  "useForensicsTimeline_ops E baseUrl = {useForensicsTimeline_fetchForensics E baseUrl}"

lemma useForensicsTimeline_blank: "c \<in> useForensicsTimeline_ops E baseUrl \<Longrightarrow> all_refused E \<Longrightarrow> blank c"
  unfolding useForensicsTimeline_ops_def useForensicsTimeline_fetchForensics_def
  by (elim UnE CollectE exE conjE singletonE; simp add: blank_intros)

lemma useForensicsTimeline_good: "c \<in> useForensicsTimeline_ops E baseUrl \<Longrightarrow> good_op without_credentials c"
  unfolding useForensicsTimeline_ops_def good_op_def useForensicsTimeline_fetchForensics_def
  by (elim UnE CollectE exE conjE singletonE; simp add: op_intros)

section \<open>\<open>useFrameworkCoverage\<close>\<close>

definition useFrameworkCoverage_init :: "hook_state" where
  "useFrameworkCoverage_init = state_of [(''data'', JNull), (''loading'', JBool False), (''error'', JNull)]"

definition useFrameworkCoverage_fetchCoverage :: "'w env \<Rightarrow> string \<Rightarrow> 'w cmd" where
  "useFrameworkCoverage_fetchCoverage E baseUrl = setv ''loading'' (JBool True) (setv ''error'' JNull
     (try_catch E
     (send E (plain_request ''GET'' (baseUrl @ ''/api/v1/audit/framework-coverage'') [] None) (\<lambda>st body.
     unless_ok st (''HTTP '' @ show_int st) (read_json body (\<lambda>v. setv ''data'' v (ret JUndef)))))
     (\<lambda>m. setv ''error'' (JStr m) (ret JUndef)) [(''loading'', JBool False)]))"

definition useFrameworkCoverage_ops :: "'w env \<Rightarrow> string \<Rightarrow> 'w cmd set" where
  "useFrameworkCoverage_ops E baseUrl = {useFrameworkCoverage_fetchCoverage E baseUrl}"

lemma useFrameworkCoverage_blank: "c \<in> useFrameworkCoverage_ops E baseUrl \<Longrightarrow> all_refused E \<Longrightarrow> blank c"
  unfolding useFrameworkCoverage_ops_def useFrameworkCoverage_fetchCoverage_def
  by (elim UnE CollectE exE conjE singletonE; simp add: blank_intros)

lemma useFrameworkCoverage_good: "c \<in> useFrameworkCoverage_ops E baseUrl \<Longrightarrow> good_op without_credentials c"
  unfolding useFrameworkCoverage_ops_def good_op_def useFrameworkCoverage_fetchCoverage_def
  by (elim UnE CollectE exE conjE singletonE; simp add: op_intros)

section \<open>\<open>useGeofencing\<close>\<close>

definition useGeofencing_init :: "hook_state" where
  "useGeofencing_init = state_of [(''rule'', JNull), (''loading'', JBool False), (''error'', JNull)]"

definition useGeofencing_fetchRule :: "'w env \<Rightarrow> string \<Rightarrow> 'w cmd" where
  "useGeofencing_fetchRule E baseUrl = setv ''loading'' (JBool True) (setv ''error'' JNull
     (try_catch E
     (send E (plain_request ''GET'' (baseUrl @ ''/api/v1/auth/geofencing'') [] None) (\<lambda>st body.
     unless_ok st (''HTTP '' @ show_int st) (read_json body (\<lambda>data'. setv ''rule'' data' (ret JUndef)))))
     (\<lambda>m. setv ''error'' (JStr m) (ret JUndef)) [(''loading'', JBool False)]))"

definition useGeofencing_saveRule :: "'w env \<Rightarrow> string \<Rightarrow> jsv \<Rightarrow> 'w cmd" where
  "useGeofencing_saveRule E baseUrl newRule = setv ''loading'' (JBool True) (setv ''error'' JNull
     (try_catch E
     (send E (plain_request ''POST'' (baseUrl @ ''/api/v1/auth/geofencing'') json_header (Some newRule)) (\<lambda>st body.
     unless_ok st (''HTTP '' @ show_int st) (setv ''rule'' newRule (ret (JBool True)))))
     (\<lambda>m. setv ''error'' (JStr m) (ret (JBool False))) [(''loading'', JBool False)]))"

definition useGeofencing_ops :: "'w env \<Rightarrow> string \<Rightarrow> 'w cmd set" where
  "useGeofencing_ops E baseUrl = {useGeofencing_fetchRule E baseUrl} \<union> {useGeofencing_saveRule E baseUrl newRule |newRule. True}"

lemma useGeofencing_blank: "c \<in> useGeofencing_ops E baseUrl \<Longrightarrow> all_refused E \<Longrightarrow> blank c"
  unfolding useGeofencing_ops_def useGeofencing_fetchRule_def useGeofencing_saveRule_def
  by (elim UnE CollectE exE conjE singletonE; simp add: blank_intros)

lemma useGeofencing_good: "c \<in> useGeofencing_ops E baseUrl \<Longrightarrow> good_op without_credentials c"
  unfolding useGeofencing_ops_def good_op_def useGeofencing_fetchRule_def useGeofencing_saveRule_def
  by (elim UnE CollectE exE conjE singletonE; simp add: op_intros)

section \<open>\<open>useGrantHistory\<close>\<close>

definition useGrantHistory_init :: "hook_state" where
  "useGrantHistory_init = state_of [(''events'', JArr []), (''loading'', JBool False), (''error'', JNull)]"

definition useGrantHistory_fetchHistory :: "'w env \<Rightarrow> string \<Rightarrow> 'w cmd" where
  "useGrantHistory_fetchHistory E baseUrl = setv ''loading'' (JBool True) (setv ''error'' JNull
     (try_catch E
     (send E (plain_request ''GET'' (baseUrl @ ''/api/v1/oauth/grant-history'') [] None) (\<lambda>st body.
     unless_ok st (''HTTP '' @ show_int st) (read_json body (\<lambda>data'. reads data' (setv ''events'' (js_or (js_or (js_opt_prop data' ''events'')
       data') (JArr [])) (ret JUndef))))))
     (\<lambda>m. setv ''error'' (JStr m) (ret JUndef)) [(''loading'', JBool False)]))"

definition useGrantHistory_ops :: "'w env \<Rightarrow> string \<Rightarrow> 'w cmd set" where
  "useGrantHistory_ops E baseUrl = {useGrantHistory_fetchHistory E baseUrl}"

lemma useGrantHistory_blank: "c \<in> useGrantHistory_ops E baseUrl \<Longrightarrow> all_refused E \<Longrightarrow> blank c"
  unfolding useGrantHistory_ops_def useGrantHistory_fetchHistory_def
  by (elim UnE CollectE exE conjE singletonE; simp add: blank_intros)

lemma useGrantHistory_good: "c \<in> useGrantHistory_ops E baseUrl \<Longrightarrow> good_op without_credentials c"
  unfolding useGrantHistory_ops_def good_op_def useGrantHistory_fetchHistory_def
  by (elim UnE CollectE exE conjE singletonE; simp add: op_intros)

section \<open>\<open>useGroupAnalytics\<close>\<close>

definition useGroupAnalytics_init :: "hook_state" where
  "useGroupAnalytics_init = state_of [(''groups'', JArr []), (''loading'', JBool False), (''error'', JNull)]"

definition useGroupAnalytics_fetchGroups :: "'w env \<Rightarrow> string \<Rightarrow> 'w cmd" where
  "useGroupAnalytics_fetchGroups E baseUrl = setv ''loading'' (JBool True) (setv ''error'' JNull
     (try_catch E
     (send E (plain_request ''GET'' (baseUrl @ ''/api/v1/org/group-analytics'') [] None) (\<lambda>st body.
     unless_ok st (''HTTP '' @ show_int st) (read_json body (\<lambda>data'. reads data' (setv ''groups'' (js_or (js_or (js_opt_prop data' ''groups'')
       data') (JArr [])) (ret JUndef))))))
     (\<lambda>m. setv ''error'' (JStr m) (ret JUndef)) [(''loading'', JBool False)]))"

definition useGroupAnalytics_ops :: "'w env \<Rightarrow> string \<Rightarrow> 'w cmd set" where
  "useGroupAnalytics_ops E baseUrl = {useGroupAnalytics_fetchGroups E baseUrl}"

lemma useGroupAnalytics_blank: "c \<in> useGroupAnalytics_ops E baseUrl \<Longrightarrow> all_refused E \<Longrightarrow> blank c"
  unfolding useGroupAnalytics_ops_def useGroupAnalytics_fetchGroups_def
  by (elim UnE CollectE exE conjE singletonE; simp add: blank_intros)

lemma useGroupAnalytics_good: "c \<in> useGroupAnalytics_ops E baseUrl \<Longrightarrow> good_op without_credentials c"
  unfolding useGroupAnalytics_ops_def good_op_def useGroupAnalytics_fetchGroups_def
  by (elim UnE CollectE exE conjE singletonE; simp add: op_intros)

section \<open>\<open>useGroupPermissionTree\<close>\<close>

definition useGroupPermissionTree_init :: "hook_state" where
  "useGroupPermissionTree_init = state_of [(''tree'', JArr []), (''loading'', JBool False), (''error'', JNull)]"

definition useGroupPermissionTree_fetchTree :: "'w env \<Rightarrow> string \<Rightarrow> 'w cmd" where
  "useGroupPermissionTree_fetchTree E baseUrl = setv ''loading'' (JBool True) (setv ''error'' JNull
     (try_catch E
     (send E (plain_request ''GET'' (baseUrl @ ''/api/v1/policy/group-permission-tree'') [] None) (\<lambda>st body.
     unless_ok st (''HTTP '' @ show_int st) (read_json body (\<lambda>d. reads d (setv ''tree'' (js_or (js_or (js_opt_prop d ''tree'') d) (JArr []))
       (ret JUndef))))))
     (\<lambda>m. setv ''error'' (JStr m) (ret JUndef)) [(''loading'', JBool False)]))"

definition useGroupPermissionTree_ops :: "'w env \<Rightarrow> string \<Rightarrow> 'w cmd set" where
  "useGroupPermissionTree_ops E baseUrl = {useGroupPermissionTree_fetchTree E baseUrl}"

lemma useGroupPermissionTree_blank: "c \<in> useGroupPermissionTree_ops E baseUrl \<Longrightarrow> all_refused E \<Longrightarrow> blank c"
  unfolding useGroupPermissionTree_ops_def useGroupPermissionTree_fetchTree_def
  by (elim UnE CollectE exE conjE singletonE; simp add: blank_intros)

lemma useGroupPermissionTree_good: "c \<in> useGroupPermissionTree_ops E baseUrl \<Longrightarrow> good_op without_credentials c"
  unfolding useGroupPermissionTree_ops_def good_op_def useGroupPermissionTree_fetchTree_def
  by (elim UnE CollectE exE conjE singletonE; simp add: op_intros)

section \<open>\<open>useGrpcInterceptorConfig\<close>\<close>

definition useGrpcInterceptorConfig_init :: "hook_state" where
  "useGrpcInterceptorConfig_init = state_of [(''config'', JNull), (''loading'', JBool False), (''error'', JNull)]"

definition useGrpcInterceptorConfig_fetchConfig :: "'w env \<Rightarrow> string \<Rightarrow> 'w cmd" where
  "useGrpcInterceptorConfig_fetchConfig E baseUrl = setv ''loading'' (JBool True) (setv ''error'' JNull
     (try_catch E
     (send E (plain_request ''GET'' (baseUrl @ ''/api/v1/settings/grpc-interceptor-config'') [] None) (\<lambda>st body.
     unless_ok st (''HTTP '' @ show_int st) (read_json body (\<lambda>v. setv ''config'' v (ret JUndef)))))
     (\<lambda>m. setv ''error'' (JStr m) (ret JUndef)) [(''loading'', JBool False)]))"

definition useGrpcInterceptorConfig_updateConfig :: "'w env \<Rightarrow> string \<Rightarrow> jsv \<Rightarrow> 'w cmd" where
  "useGrpcInterceptorConfig_updateConfig E baseUrl patch = setv ''loading'' (JBool True) (setv ''error'' JNull
     (try_catch E
     (send E (plain_request ''PUT'' (baseUrl @ ''/api/v1/settings/grpc-interceptor-config'') json_header (Some patch)) (\<lambda>st body.
     unless_ok st (''HTTP '' @ show_int st) (read_json body (\<lambda>data'. setv ''config'' data' (ret data')))))
     (\<lambda>m. setv ''error'' (JStr m) (ret JNull)) [(''loading'', JBool False)]))"

definition useGrpcInterceptorConfig_testInterceptor :: "'w env \<Rightarrow> string \<Rightarrow> string \<Rightarrow> 'w cmd" where
  "useGrpcInterceptorConfig_testInterceptor E baseUrl name' = setv ''loading'' (JBool True) (setv ''error'' JNull
     (try_catch E
     (send E (plain_request ''POST'' (baseUrl @ ''/api/v1/settings/grpc-interceptor-config/test'') json_header (Some (JObj [(''name'', JStr name')])))
       (\<lambda>st body.
     unless_ok st (''HTTP '' @ show_int st) (read_json body (\<lambda>v. ret v))))
     (\<lambda>m. setv ''error'' (JStr m) (ret JNull)) [(''loading'', JBool False)]))"

definition useGrpcInterceptorConfig_ops :: "'w env \<Rightarrow> string \<Rightarrow> 'w cmd set" where
  "useGrpcInterceptorConfig_ops E baseUrl = {useGrpcInterceptorConfig_fetchConfig E baseUrl} \<union> {useGrpcInterceptorConfig_updateConfig E baseUrl
       patch |patch. True} \<union> {useGrpcInterceptorConfig_testInterceptor E baseUrl name' |name'. True}"

lemma useGrpcInterceptorConfig_blank: "c \<in> useGrpcInterceptorConfig_ops E baseUrl \<Longrightarrow> all_refused E \<Longrightarrow> blank c"
  unfolding useGrpcInterceptorConfig_ops_def useGrpcInterceptorConfig_fetchConfig_def useGrpcInterceptorConfig_updateConfig_def useGrpcInterceptorConfig_testInterceptor_def
  by (elim UnE CollectE exE conjE singletonE; simp add: blank_intros)

lemma useGrpcInterceptorConfig_good: "c \<in> useGrpcInterceptorConfig_ops E baseUrl \<Longrightarrow> good_op without_credentials c"
  unfolding useGrpcInterceptorConfig_ops_def good_op_def useGrpcInterceptorConfig_fetchConfig_def useGrpcInterceptorConfig_updateConfig_def useGrpcInterceptorConfig_testInterceptor_def
  by (elim UnE CollectE exE conjE singletonE; simp add: op_intros)

section \<open>\<open>useHashChain\<close>\<close>

definition useHashChain_init :: "hook_state" where
  "useHashChain_init = state_of [(''data'', JNull), (''loading'', JBool False), (''error'', JNull)]"

definition useHashChain_fetchChain :: "'w env \<Rightarrow> string \<Rightarrow> 'w cmd" where
  "useHashChain_fetchChain E baseUrl = setv ''loading'' (JBool True) (setv ''error'' JNull
     (try_catch E
     (send E (plain_request ''GET'' (baseUrl @ ''/api/v1/audit/hash-chain'') [] None) (\<lambda>st body.
     unless_ok st (''HTTP '' @ show_int st) (read_json body (\<lambda>v. setv ''data'' v (ret JUndef)))))
     (\<lambda>m. setv ''error'' (JStr m) (ret JUndef)) [(''loading'', JBool False)]))"

definition useHashChain_verify :: "'w env \<Rightarrow> string \<Rightarrow> 'w cmd" where
  "useHashChain_verify E baseUrl = setv ''loading'' (JBool True) (setv ''error'' JNull
     (try_catch E
     (send E (plain_request ''POST'' (baseUrl @ ''/api/v1/audit/hash-chain/verify'') [] None) (\<lambda>st body.
     unless_ok st (''HTTP '' @ show_int st) (ret (JBool True))))
     (\<lambda>m. setv ''error'' (JStr m) (ret (JBool False))) [(''loading'', JBool False)]))"

definition useHashChain_ops :: "'w env \<Rightarrow> string \<Rightarrow> 'w cmd set" where
  "useHashChain_ops E baseUrl = {useHashChain_fetchChain E baseUrl} \<union> {useHashChain_verify E baseUrl}"

lemma useHashChain_blank: "c \<in> useHashChain_ops E baseUrl \<Longrightarrow> all_refused E \<Longrightarrow> blank c"
  unfolding useHashChain_ops_def useHashChain_fetchChain_def useHashChain_verify_def
  by (elim UnE CollectE exE conjE singletonE; simp add: blank_intros)

lemma useHashChain_good: "c \<in> useHashChain_ops E baseUrl \<Longrightarrow> good_op without_credentials c"
  unfolding useHashChain_ops_def good_op_def useHashChain_fetchChain_def useHashChain_verify_def
  by (elim UnE CollectE exE conjE singletonE; simp add: op_intros)

section \<open>\<open>useHijackTimeline\<close>\<close>

definition useHijackTimeline_init :: "hook_state" where
  "useHijackTimeline_init = state_of [(''data'', JNull), (''loading'', JBool False), (''error'', JNull)]"

definition useHijackTimeline_fetchTimeline :: "'w env \<Rightarrow> string \<Rightarrow> string \<Rightarrow> 'w cmd" where
  "useHijackTimeline_fetchTimeline E baseUrl userId = setv ''loading'' (JBool True) (setv ''error'' JNull
     (try_catch E
     (send E (plain_request ''GET'' (baseUrl @ ''/api/v1/audit/hijack-timeline?user_id='' @ encodeURIComponent userId) [] None) (\<lambda>st body.
     unless_ok st (''HTTP '' @ show_int st) (read_json body (\<lambda>v. setv ''data'' v (ret JUndef)))))
     (\<lambda>m. setv ''error'' (JStr m) (ret JUndef)) [(''loading'', JBool False)]))"

definition useHijackTimeline_ops :: "'w env \<Rightarrow> string \<Rightarrow> 'w cmd set" where
  "useHijackTimeline_ops E baseUrl = {useHijackTimeline_fetchTimeline E baseUrl userId |userId. True}"

lemma useHijackTimeline_blank: "c \<in> useHijackTimeline_ops E baseUrl \<Longrightarrow> all_refused E \<Longrightarrow> blank c"
  unfolding useHijackTimeline_ops_def useHijackTimeline_fetchTimeline_def
  by (elim UnE CollectE exE conjE singletonE; simp add: blank_intros)

lemma useHijackTimeline_good: "c \<in> useHijackTimeline_ops E baseUrl \<Longrightarrow> good_op without_credentials c"
  unfolding useHijackTimeline_ops_def good_op_def useHijackTimeline_fetchTimeline_def
  by (elim UnE CollectE exE conjE singletonE; simp add: op_intros)

section \<open>\<open>useIdentityVerification\<close>\<close>

definition useIdentityVerification_init :: "hook_state" where
  "useIdentityVerification_init = state_of [(''config'', JNull), (''loading'', JBool False), (''error'', JNull)]"

definition useIdentityVerification_fetchConfig :: "'w env \<Rightarrow> string \<Rightarrow> 'w cmd" where
  "useIdentityVerification_fetchConfig E baseUrl = setv ''loading'' (JBool True) (setv ''error'' JNull
     (try_catch E
     (send E (plain_request ''GET'' (baseUrl @ ''/api/v1/auth/identity-verification'') [] None) (\<lambda>st body.
     unless_ok st (''HTTP '' @ show_int st) (read_json body (\<lambda>d. reads d (setv ''config'' (js_or (js_opt_prop d ''config'') d) (ret
       JUndef))))))
     (\<lambda>m. setv ''error'' (JStr m) (ret JUndef)) [(''loading'', JBool False)]))"

definition useIdentityVerification_ops :: "'w env \<Rightarrow> string \<Rightarrow> 'w cmd set" where
  "useIdentityVerification_ops E baseUrl = {useIdentityVerification_fetchConfig E baseUrl}"

lemma useIdentityVerification_blank: "c \<in> useIdentityVerification_ops E baseUrl \<Longrightarrow> all_refused E \<Longrightarrow> blank c"
  unfolding useIdentityVerification_ops_def useIdentityVerification_fetchConfig_def
  by (elim UnE CollectE exE conjE singletonE; simp add: blank_intros)

lemma useIdentityVerification_good: "c \<in> useIdentityVerification_ops E baseUrl \<Longrightarrow> good_op without_credentials c"
  unfolding useIdentityVerification_ops_def good_op_def useIdentityVerification_fetchConfig_def
  by (elim UnE CollectE exE conjE singletonE; simp add: op_intros)

section \<open>\<open>useIdpFederation\<close>\<close>

definition useIdpFederation_init :: "hook_state" where
  "useIdpFederation_init = state_of [(''idps'', JArr []), (''loading'', JBool False), (''error'', JNull)]"

definition useIdpFederation_fetchIdps :: "'w env \<Rightarrow> string \<Rightarrow> 'w cmd" where
  "useIdpFederation_fetchIdps E baseUrl = setv ''loading'' (JBool True) (setv ''error'' JNull
     (try_catch E
     (send E (plain_request ''GET'' (baseUrl @ ''/api/v1/identity/idp-federation'') [] None) (\<lambda>st body.
     unless_ok st (''HTTP '' @ show_int st) (read_json body (\<lambda>data'. reads data' (setv ''idps'' (js_or (js_or (js_opt_prop data' ''idps'')
       data') (JArr [])) (ret JUndef))))))
     (\<lambda>m. setv ''error'' (JStr m) (ret JUndef)) [(''loading'', JBool False)]))"

definition useIdpFederation_addIdp :: "'w env \<Rightarrow> string \<Rightarrow> jsv \<Rightarrow> 'w cmd" where
  "useIdpFederation_addIdp E baseUrl payload = setv ''loading'' (JBool True) (setv ''error'' JNull
     (try_catch E
     (send E (plain_request ''POST'' (baseUrl @ ''/api/v1/identity/idp-federation'') json_header (Some payload)) (\<lambda>st body.
     unless_ok st (''HTTP '' @ show_int st) (ret (JBool True))))
     (\<lambda>m. setv ''error'' (JStr m) (ret (JBool False))) [(''loading'', JBool False)]))"

definition useIdpFederation_testConnection :: "'w env \<Rightarrow> string \<Rightarrow> string \<Rightarrow> 'w cmd" where
  "useIdpFederation_testConnection E baseUrl id' = try_catch E
     (send E (plain_request ''POST'' (baseUrl @ ''/api/v1/identity/idp-federation/'' @ id' @ ''/test'') [] None) (\<lambda>st body.
     ret (JBool True)))
     (\<lambda>m. ret (JBool False)) []"

definition useIdpFederation_ops :: "'w env \<Rightarrow> string \<Rightarrow> 'w cmd set" where
  "useIdpFederation_ops E baseUrl = {useIdpFederation_fetchIdps E baseUrl} \<union> {useIdpFederation_addIdp E baseUrl payload |payload. True} \<union>
       {useIdpFederation_testConnection E baseUrl id' |id'. True}"

lemma useIdpFederation_blank: "c \<in> useIdpFederation_ops E baseUrl \<Longrightarrow> all_refused E \<Longrightarrow> blank c"
  unfolding useIdpFederation_ops_def useIdpFederation_fetchIdps_def useIdpFederation_addIdp_def useIdpFederation_testConnection_def
  by (elim UnE CollectE exE conjE singletonE; simp add: blank_intros)

lemma useIdpFederation_good: "c \<in> useIdpFederation_ops E baseUrl \<Longrightarrow> good_op without_credentials c"
  unfolding useIdpFederation_ops_def good_op_def useIdpFederation_fetchIdps_def useIdpFederation_addIdp_def useIdpFederation_testConnection_def
  by (elim UnE CollectE exE conjE singletonE; simp add: op_intros)

section \<open>\<open>useIdpMetadataImport\<close>\<close>

definition useIdpMetadataImport_init :: "hook_state" where
  "useIdpMetadataImport_init = state_of [(''metadata'', JNull), (''loading'', JBool False), (''error'', JNull)]"

definition useIdpMetadataImport_preview :: "'w env \<Rightarrow> string \<Rightarrow> string \<Rightarrow> string \<Rightarrow> 'w cmd" where
  "useIdpMetadataImport_preview E baseUrl source type' = setv ''loading'' (JBool True) (setv ''error'' JNull
     (try_catch E
     (send E (plain_request ''POST'' (baseUrl @ ''/api/v1/auth/idp-metadata/preview'') json_header (Some (if type' = ''url'' then JObj [(''url'', JStr
       source)] else JObj [(''xml'', JStr source)]))) (\<lambda>st body.
     unless_ok st (''HTTP '' @ show_int st) (read_json body (\<lambda>v. setv ''metadata'' v (ret JUndef)))))
     (\<lambda>m. setv ''error'' (JStr m) (ret JUndef)) [(''loading'', JBool False)]))"

definition useIdpMetadataImport_importMeta :: "'w env \<Rightarrow> string \<Rightarrow> string \<Rightarrow> string \<Rightarrow> 'w cmd" where
  "useIdpMetadataImport_importMeta E baseUrl source type' = setv ''loading'' (JBool True) (setv ''error'' JNull
     (try_catch E
     (send E (plain_request ''POST'' (baseUrl @ ''/api/v1/auth/idp-metadata/import'') json_header (Some (if type' = ''url'' then JObj [(''url'', JStr
       source)] else JObj [(''xml'', JStr source)]))) (\<lambda>st body.
     unless_ok st (''HTTP '' @ show_int st) (ret (JBool True))))
     (\<lambda>m. setv ''error'' (JStr m) (ret (JBool False))) [(''loading'', JBool False)]))"

definition useIdpMetadataImport_ops :: "'w env \<Rightarrow> string \<Rightarrow> 'w cmd set" where
  "useIdpMetadataImport_ops E baseUrl = {useIdpMetadataImport_preview E baseUrl source type' |source type'. True} \<union>
       {useIdpMetadataImport_importMeta E baseUrl source type' |source type'. True}"

lemma useIdpMetadataImport_blank: "c \<in> useIdpMetadataImport_ops E baseUrl \<Longrightarrow> all_refused E \<Longrightarrow> blank c"
  unfolding useIdpMetadataImport_ops_def useIdpMetadataImport_preview_def useIdpMetadataImport_importMeta_def
  by (elim UnE CollectE exE conjE singletonE; simp add: blank_intros)

lemma useIdpMetadataImport_good: "c \<in> useIdpMetadataImport_ops E baseUrl \<Longrightarrow> good_op without_credentials c"
  unfolding useIdpMetadataImport_ops_def good_op_def useIdpMetadataImport_preview_def useIdpMetadataImport_importMeta_def
  by (elim UnE CollectE exE conjE singletonE; simp add: op_intros)

section \<open>\<open>useImpactPreview\<close>\<close>

definition useImpactPreview_init :: "hook_state" where
  "useImpactPreview_init = state_of [(''result'', JNull), (''loading'', JBool False), (''error'', JNull)]"

definition useImpactPreview_preview :: "'w env \<Rightarrow> string \<Rightarrow> string \<Rightarrow> string \<Rightarrow> 'w cmd" where
  "useImpactPreview_preview E baseUrl policyId changes = setv ''loading'' (JBool True) (setv ''error'' JNull
     (try_catch E
     (send E (plain_request ''POST'' (baseUrl @ ''/api/v1/policy/impact-preview'') json_header (Some (JObj [(''policy_id'', JStr policyId),
       (''changes'', JStr changes)]))) (\<lambda>st body.
     unless_ok st (''HTTP '' @ show_int st) (read_json body (\<lambda>v. setv ''result'' v (ret JUndef)))))
     (\<lambda>m. setv ''error'' (JStr m) (setv ''result'' JNull (ret JUndef))) [(''loading'', JBool False)]))"

definition useImpactPreview_ops :: "'w env \<Rightarrow> string \<Rightarrow> 'w cmd set" where
  "useImpactPreview_ops E baseUrl = {useImpactPreview_preview E baseUrl policyId changes |policyId changes. True}"

lemma useImpactPreview_blank: "c \<in> useImpactPreview_ops E baseUrl \<Longrightarrow> all_refused E \<Longrightarrow> blank c"
  unfolding useImpactPreview_ops_def useImpactPreview_preview_def
  by (elim UnE CollectE exE conjE singletonE; simp add: blank_intros)

lemma useImpactPreview_good: "c \<in> useImpactPreview_ops E baseUrl \<Longrightarrow> good_op without_credentials c"
  unfolding useImpactPreview_ops_def good_op_def useImpactPreview_preview_def
  by (elim UnE CollectE exE conjE singletonE; simp add: op_intros)

section \<open>\<open>useIpReputation\<close>\<close>

definition useIpReputation_init :: "hook_state" where
  "useIpReputation_init = state_of [(''info'', JNull), (''loading'', JBool False), (''error'', JNull)]"

definition useIpReputation_search :: "'w env \<Rightarrow> string \<Rightarrow> string \<Rightarrow> 'w cmd" where
  "useIpReputation_search E baseUrl ip = setv ''loading'' (JBool True) (setv ''error'' JNull
     (try_catch E
     (send E (plain_request ''GET'' (baseUrl @ ''/api/v1/audit/ip-reputation?ip='' @ encodeURIComponent ip) [] None) (\<lambda>st body.
     unless_ok st (''HTTP '' @ show_int st) (read_json body (\<lambda>v. setv ''info'' v (ret JUndef)))))
     (\<lambda>m. setv ''error'' (JStr m) (setv ''info'' JNull (ret JUndef))) [(''loading'', JBool False)]))"

definition useIpReputation_ops :: "'w env \<Rightarrow> string \<Rightarrow> 'w cmd set" where
  "useIpReputation_ops E baseUrl = {useIpReputation_search E baseUrl ip |ip. True}"

lemma useIpReputation_blank: "c \<in> useIpReputation_ops E baseUrl \<Longrightarrow> all_refused E \<Longrightarrow> blank c"
  unfolding useIpReputation_ops_def useIpReputation_search_def
  by (elim UnE CollectE exE conjE singletonE; simp add: blank_intros)

lemma useIpReputation_good: "c \<in> useIpReputation_ops E baseUrl \<Longrightarrow> good_op without_credentials c"
  unfolding useIpReputation_ops_def good_op_def useIpReputation_search_def
  by (elim UnE CollectE exE conjE singletonE; simp add: op_intros)

section \<open>\<open>useJITElevation\<close>\<close>

definition useJITElevation_init :: "hook_state" where
  "useJITElevation_init = state_of [(''requests'', JArr []), (''loading'', JBool False), (''error'', JNull)]"

definition useJITElevation_fetchRequests :: "'w env \<Rightarrow> string \<Rightarrow> 'w cmd" where
  "useJITElevation_fetchRequests E baseUrl = setv ''loading'' (JBool True) (setv ''error'' JNull
     (try_catch E
     (send E (plain_request ''GET'' (baseUrl @ ''/api/v1/policy/jit-elevation'') [] None) (\<lambda>st body.
     unless_ok st (''HTTP '' @ show_int st) (read_json body (\<lambda>data'. reads data' (setv ''requests'' (js_or (js_or (js_opt_prop data'
       ''requests'') data') (JArr [])) (ret JUndef))))))
     (\<lambda>m. setv ''error'' (JStr m) (ret JUndef)) [(''loading'', JBool False)]))"

definition useJITElevation_submitRequest :: "'w env \<Rightarrow> string \<Rightarrow> string \<Rightarrow> int \<Rightarrow> string \<Rightarrow> 'w cmd" where
  "useJITElevation_submitRequest E baseUrl role' durationMinutes justification = setv ''loading'' (JBool True) (setv ''error'' JNull
     (try_catch E
     (send E (plain_request ''POST'' (baseUrl @ ''/api/v1/policy/jit-elevation'') json_header (Some (JObj [(''role'', JStr role'),
       (''duration_minutes'', JNum durationMinutes), (''justification'', JStr justification)]))) (\<lambda>st body.
     unless_ok st (''HTTP '' @ show_int st) (run (useJITElevation_fetchRequests E baseUrl) (\<lambda>_. ret (JBool True)))))
     (\<lambda>m. setv ''error'' (JStr m) (ret (JBool False))) [(''loading'', JBool False)]))"

definition useJITElevation_approve :: "'w env \<Rightarrow> string \<Rightarrow> string \<Rightarrow> 'w cmd" where
  "useJITElevation_approve E baseUrl id' = setv ''loading'' (JBool True) (setv ''error'' JNull
     (try_catch E
     (send E (plain_request ''POST'' (baseUrl @ ''/api/v1/policy/jit-elevation/'' @ id' @ ''/approve'') [] None) (\<lambda>st body.
     unless_ok st (''HTTP '' @ show_int st) (updv ''requests'' (map_items (\<lambda>r. if js_opt_prop r ''id'' = JStr id' then with_entries r
       [(''status'', JStr ''active'')] else r)) (ret (JBool True)))))
     (\<lambda>m. setv ''error'' (JStr m) (ret (JBool False))) [(''loading'', JBool False)]))"

definition useJITElevation_reject :: "'w env \<Rightarrow> string \<Rightarrow> string \<Rightarrow> 'w cmd" where
  "useJITElevation_reject E baseUrl id' = setv ''loading'' (JBool True) (setv ''error'' JNull
     (try_catch E
     (send E (plain_request ''POST'' (baseUrl @ ''/api/v1/policy/jit-elevation/'' @ id' @ ''/reject'') [] None) (\<lambda>st body.
     unless_ok st (''HTTP '' @ show_int st) (updv ''requests'' (map_items (\<lambda>r. if js_opt_prop r ''id'' = JStr id' then with_entries r
       [(''status'', JStr ''rejected'')] else r)) (ret (JBool True)))))
     (\<lambda>m. setv ''error'' (JStr m) (ret (JBool False))) [(''loading'', JBool False)]))"

definition useJITElevation_ops :: "'w env \<Rightarrow> string \<Rightarrow> 'w cmd set" where
  "useJITElevation_ops E baseUrl = {useJITElevation_fetchRequests E baseUrl} \<union> {useJITElevation_submitRequest E baseUrl role' durationMinutes
       justification |role' durationMinutes justification. True} \<union> {useJITElevation_approve E baseUrl id' |id'. True} \<union>
       {useJITElevation_reject E baseUrl id' |id'. True}"

lemma useJITElevation_blank: "c \<in> useJITElevation_ops E baseUrl \<Longrightarrow> all_refused E \<Longrightarrow> blank c"
  unfolding useJITElevation_ops_def useJITElevation_fetchRequests_def useJITElevation_submitRequest_def useJITElevation_approve_def useJITElevation_reject_def
  by (elim UnE CollectE exE conjE singletonE; simp add: blank_intros)

lemma useJITElevation_good: "c \<in> useJITElevation_ops E baseUrl \<Longrightarrow> good_op without_credentials c"
  unfolding useJITElevation_ops_def good_op_def useJITElevation_fetchRequests_def useJITElevation_submitRequest_def useJITElevation_approve_def useJITElevation_reject_def
  by (elim UnE CollectE exE conjE singletonE; simp add: op_intros)

section \<open>\<open>useJoinerFlow\<close>\<close>

definition useJoinerFlow_init :: "hook_state" where
  "useJoinerFlow_init = state_of [(''data'', JNull), (''loading'', JBool False), (''error'', JNull)]"

definition useJoinerFlow_submit :: "'w env \<Rightarrow> string \<Rightarrow> jsv \<Rightarrow> 'w cmd" where
  "useJoinerFlow_submit E baseUrl payload = setv ''loading'' (JBool True) (setv ''error'' JNull
     (try_catch E
     (send E (plain_request ''POST'' (baseUrl @ ''/api/v1/identity/joiner-flow'') json_header (Some payload)) (\<lambda>st body.
     unless_ok st (''HTTP '' @ show_int st) (read_json body (\<lambda>v. setv ''data'' v (ret (JBool True))))))
     (\<lambda>m. setv ''error'' (JStr m) (ret (JBool False))) [(''loading'', JBool False)]))"

definition useJoinerFlow_ops :: "'w env \<Rightarrow> string \<Rightarrow> 'w cmd set" where
  "useJoinerFlow_ops E baseUrl = {useJoinerFlow_submit E baseUrl payload |payload. True}"

lemma useJoinerFlow_blank: "c \<in> useJoinerFlow_ops E baseUrl \<Longrightarrow> all_refused E \<Longrightarrow> blank c"
  unfolding useJoinerFlow_ops_def useJoinerFlow_submit_def
  by (elim UnE CollectE exE conjE singletonE; simp add: blank_intros)

lemma useJoinerFlow_good: "c \<in> useJoinerFlow_ops E baseUrl \<Longrightarrow> good_op without_credentials c"
  unfolding useJoinerFlow_ops_def good_op_def useJoinerFlow_submit_def
  by (elim UnE CollectE exE conjE singletonE; simp add: op_intros)

section \<open>\<open>useJoinerFlowDashboard\<close>\<close>

definition useJoinerFlowDashboard_init :: "hook_state" where
  "useJoinerFlowDashboard_init = state_of [(''data'', JNull), (''loading'', JBool False), (''error'', JNull)]"

definition useJoinerFlowDashboard_fetchData :: "'w env \<Rightarrow> string \<Rightarrow> 'w cmd" where
  "useJoinerFlowDashboard_fetchData E baseUrl = setv ''loading'' (JBool True) (setv ''error'' JNull
     (try_catch E
     (send E (plain_request ''GET'' (baseUrl @ ''/api/v1/identity/joiner-dashboard'') [] None) (\<lambda>st body.
     unless_ok st (''HTTP '' @ show_int st) (read_json body (\<lambda>v. setv ''data'' v (ret JUndef)))))
     (\<lambda>m. setv ''error'' (JStr m) (ret JUndef)) [(''loading'', JBool False)]))"

definition useJoinerFlowDashboard_ops :: "'w env \<Rightarrow> string \<Rightarrow> 'w cmd set" where
  "useJoinerFlowDashboard_ops E baseUrl = {useJoinerFlowDashboard_fetchData E baseUrl}"

lemma useJoinerFlowDashboard_blank: "c \<in> useJoinerFlowDashboard_ops E baseUrl \<Longrightarrow> all_refused E \<Longrightarrow> blank c"
  unfolding useJoinerFlowDashboard_ops_def useJoinerFlowDashboard_fetchData_def
  by (elim UnE CollectE exE conjE singletonE; simp add: blank_intros)

lemma useJoinerFlowDashboard_good: "c \<in> useJoinerFlowDashboard_ops E baseUrl \<Longrightarrow> good_op without_credentials c"
  unfolding useJoinerFlowDashboard_ops_def good_op_def useJoinerFlowDashboard_fetchData_def
  by (elim UnE CollectE exE conjE singletonE; simp add: op_intros)

section \<open>\<open>useLdapSyncConfig\<close>\<close>

definition useLdapSyncConfig_init :: "hook_state" where
  "useLdapSyncConfig_init = state_of [(''config'', JNull), (''loading'', JBool False), (''error'', JNull)]"

definition useLdapSyncConfig_fetchConfig :: "'w env \<Rightarrow> string \<Rightarrow> 'w cmd" where
  "useLdapSyncConfig_fetchConfig E baseUrl = setv ''loading'' (JBool True) (setv ''error'' JNull
     (try_catch E
     (send E (plain_request ''GET'' (baseUrl @ ''/api/v1/auth/ldap-config'') [] None) (\<lambda>st body.
     unless_ok st (''HTTP '' @ show_int st) (read_json body (\<lambda>v. setv ''config'' v (ret JUndef)))))
     (\<lambda>m. setv ''error'' (JStr m) (ret JUndef)) [(''loading'', JBool False)]))"

definition useLdapSyncConfig_saveConfig :: "'w env \<Rightarrow> string \<Rightarrow> jsv \<Rightarrow> 'w cmd" where
  "useLdapSyncConfig_saveConfig E baseUrl c' = setv ''loading'' (JBool True) (setv ''error'' JNull
     (try_catch E
     (send E (plain_request ''PUT'' (baseUrl @ ''/api/v1/auth/ldap-config'') json_header (Some c')) (\<lambda>st body.
     unless_ok st (''HTTP '' @ show_int st) (setv ''config'' c' (ret (JBool True)))))
     (\<lambda>m. setv ''error'' (JStr m) (ret (JBool False))) [(''loading'', JBool False)]))"

definition useLdapSyncConfig_testConnection :: "'w env \<Rightarrow> string \<Rightarrow> jsv \<Rightarrow> 'w cmd" where
  "useLdapSyncConfig_testConnection E baseUrl c' = setv ''loading'' (JBool True) (setv ''error'' JNull
     (try_catch E
     (send E (plain_request ''POST'' (baseUrl @ ''/api/v1/auth/ldap-config/test'') json_header (Some c')) (\<lambda>st body.
     unless_ok st (''HTTP '' @ show_int st) (ret (JBool True))))
     (\<lambda>m. setv ''error'' (JStr m) (ret (JBool False))) [(''loading'', JBool False)]))"

definition useLdapSyncConfig_ops :: "'w env \<Rightarrow> string \<Rightarrow> 'w cmd set" where
  "useLdapSyncConfig_ops E baseUrl = {useLdapSyncConfig_fetchConfig E baseUrl} \<union> {useLdapSyncConfig_saveConfig E baseUrl c' |c'. True} \<union>
       {useLdapSyncConfig_testConnection E baseUrl c' |c'. True}"

lemma useLdapSyncConfig_blank: "c \<in> useLdapSyncConfig_ops E baseUrl \<Longrightarrow> all_refused E \<Longrightarrow> blank c"
  unfolding useLdapSyncConfig_ops_def useLdapSyncConfig_fetchConfig_def useLdapSyncConfig_saveConfig_def useLdapSyncConfig_testConnection_def
  by (elim UnE CollectE exE conjE singletonE; simp add: blank_intros)

lemma useLdapSyncConfig_good: "c \<in> useLdapSyncConfig_ops E baseUrl \<Longrightarrow> good_op without_credentials c"
  unfolding useLdapSyncConfig_ops_def good_op_def useLdapSyncConfig_fetchConfig_def useLdapSyncConfig_saveConfig_def useLdapSyncConfig_testConnection_def
  by (elim UnE CollectE exE conjE singletonE; simp add: op_intros)

section \<open>\<open>useLeaverFlow\<close>\<close>

definition useLeaverFlow_init :: "hook_state" where
  "useLeaverFlow_init = state_of [(''data'', JNull), (''loading'', JBool False), (''error'', JNull)]"

definition useLeaverFlow_fetchLeaver :: "'w env \<Rightarrow> string \<Rightarrow> string \<Rightarrow> 'w cmd" where
  "useLeaverFlow_fetchLeaver E baseUrl userId = setv ''loading'' (JBool True) (setv ''error'' JNull
     (try_catch E
     (send E (plain_request ''GET'' (baseUrl @ ''/api/v1/identity/leaver-flow?user_id='' @ encodeURIComponent userId) [] None) (\<lambda>st body.
     unless_ok st (''HTTP '' @ show_int st) (read_json body (\<lambda>v. setv ''data'' v (ret JUndef)))))
     (\<lambda>m. setv ''error'' (JStr m) (ret JUndef)) [(''loading'', JBool False)]))"

definition useLeaverFlow_triggerLeaver :: "'w env \<Rightarrow> string \<Rightarrow> string \<Rightarrow> string \<Rightarrow> bool \<Rightarrow> 'w cmd" where
  "useLeaverFlow_triggerLeaver E baseUrl userId scheduledDate cascade = setv ''loading'' (JBool True) (setv ''error'' JNull
     (try_catch E
     (send E (plain_request ''POST'' (baseUrl @ ''/api/v1/identity/leaver-flow'') json_header (Some (JObj [(''user_id'', JStr userId),
       (''scheduled_date'', JStr scheduledDate), (''cascade_to_apps'', JBool cascade)]))) (\<lambda>st body.
     unless_ok st (''HTTP '' @ show_int st) (ret (JBool True))))
     (\<lambda>m. setv ''error'' (JStr m) (ret (JBool False))) [(''loading'', JBool False)]))"

definition useLeaverFlow_ops :: "'w env \<Rightarrow> string \<Rightarrow> 'w cmd set" where
  "useLeaverFlow_ops E baseUrl = {useLeaverFlow_fetchLeaver E baseUrl userId |userId. True} \<union> {useLeaverFlow_triggerLeaver E baseUrl userId
       scheduledDate cascade |userId scheduledDate cascade. True}"

lemma useLeaverFlow_blank: "c \<in> useLeaverFlow_ops E baseUrl \<Longrightarrow> all_refused E \<Longrightarrow> blank c"
  unfolding useLeaverFlow_ops_def useLeaverFlow_fetchLeaver_def useLeaverFlow_triggerLeaver_def
  by (elim UnE CollectE exE conjE singletonE; simp add: blank_intros)

lemma useLeaverFlow_good: "c \<in> useLeaverFlow_ops E baseUrl \<Longrightarrow> good_op without_credentials c"
  unfolding useLeaverFlow_ops_def good_op_def useLeaverFlow_fetchLeaver_def useLeaverFlow_triggerLeaver_def
  by (elim UnE CollectE exE conjE singletonE; simp add: op_intros)

section \<open>\<open>useLockoutPolicy\<close>\<close>

definition useLockoutPolicy_init :: "hook_state" where
  "useLockoutPolicy_init = state_of [(''config'', JNull), (''lockouts'', JArr []), (''loading'', JBool False), (''error'', JNull)]"

definition useLockoutPolicy_fetchPolicy :: "'w env \<Rightarrow> string \<Rightarrow> 'w cmd" where
  "useLockoutPolicy_fetchPolicy E baseUrl = setv ''loading'' (JBool True) (setv ''error'' JNull
     (try_catch E
     (send E (plain_request ''GET'' (baseUrl @ ''/api/v1/auth/lockout-policy'') [] None) (\<lambda>st body.
     unless_ok st (''HTTP '' @ show_int st) (read_json body (\<lambda>d. reads d (setv ''config'' (js_opt_prop d ''config'') (reads d (setv
       ''lockouts'' (js_or (js_opt_prop d ''active_lockouts'') (JArr [])) (ret JUndef))))))))
     (\<lambda>m. setv ''error'' (JStr m) (ret JUndef)) [(''loading'', JBool False)]))"

definition useLockoutPolicy_savePolicy :: "'w env \<Rightarrow> string \<Rightarrow> jsv \<Rightarrow> 'w cmd" where
  "useLockoutPolicy_savePolicy E baseUrl c' = setv ''loading'' (JBool True) (setv ''error'' JNull
     (try_catch E
     (send E (plain_request ''PUT'' (baseUrl @ ''/api/v1/auth/lockout-policy'') json_header (Some c')) (\<lambda>st body.
     unless_ok st (''HTTP '' @ show_int st) (setv ''config'' c' (ret (JBool True)))))
     (\<lambda>m. setv ''error'' (JStr m) (ret (JBool False))) [(''loading'', JBool False)]))"

definition useLockoutPolicy_ops :: "'w env \<Rightarrow> string \<Rightarrow> 'w cmd set" where
  "useLockoutPolicy_ops E baseUrl = {useLockoutPolicy_fetchPolicy E baseUrl} \<union> {useLockoutPolicy_savePolicy E baseUrl c' |c'. True}"

lemma useLockoutPolicy_blank: "c \<in> useLockoutPolicy_ops E baseUrl \<Longrightarrow> all_refused E \<Longrightarrow> blank c"
  unfolding useLockoutPolicy_ops_def useLockoutPolicy_fetchPolicy_def useLockoutPolicy_savePolicy_def
  by (elim UnE CollectE exE conjE singletonE; simp add: blank_intros)

lemma useLockoutPolicy_good: "c \<in> useLockoutPolicy_ops E baseUrl \<Longrightarrow> good_op without_credentials c"
  unfolding useLockoutPolicy_ops_def good_op_def useLockoutPolicy_fetchPolicy_def useLockoutPolicy_savePolicy_def
  by (elim UnE CollectE exE conjE singletonE; simp add: op_intros)

section \<open>\<open>useLoginAnalytics\<close>\<close>

definition useLoginAnalytics_init :: "hook_state" where
  "useLoginAnalytics_init = state_of [(''data'', JNull), (''loading'', JBool False), (''error'', JNull)]"

definition useLoginAnalytics_fetchAnalytics :: "'w env \<Rightarrow> string \<Rightarrow> string \<Rightarrow> string \<Rightarrow> 'w cmd" where
  "useLoginAnalytics_fetchAnalytics E baseUrl startDate endDate = branch ((startDate = []) \<or> (endDate = [])) (ret JUndef) (setv ''loading'' (JBool
       True) (setv ''error'' JNull
     (try_catch E
     (send E (plain_request ''GET'' (baseUrl @ ''/api/v1/auth/login-analytics?start='' @ startDate @ ''&end='' @ endDate) [] None) (\<lambda>st body.
     unless_ok st (''HTTP '' @ show_int st) (read_json body (\<lambda>json'. setv ''data'' json' (ret JUndef)))))
     (\<lambda>m. setv ''error'' (JStr m) (setv ''data'' JNull (ret JUndef))) [(''loading'', JBool False)])))"

definition useLoginAnalytics_ops :: "'w env \<Rightarrow> string \<Rightarrow> 'w cmd set" where
  "useLoginAnalytics_ops E baseUrl = {useLoginAnalytics_fetchAnalytics E baseUrl startDate endDate |startDate endDate. True}"

lemma useLoginAnalytics_blank: "c \<in> useLoginAnalytics_ops E baseUrl \<Longrightarrow> all_refused E \<Longrightarrow> blank c"
  unfolding useLoginAnalytics_ops_def useLoginAnalytics_fetchAnalytics_def
  by (elim UnE CollectE exE conjE singletonE; simp add: blank_intros)

lemma useLoginAnalytics_good: "c \<in> useLoginAnalytics_ops E baseUrl \<Longrightarrow> good_op without_credentials c"
  unfolding useLoginAnalytics_ops_def good_op_def useLoginAnalytics_fetchAnalytics_def
  by (elim UnE CollectE exE conjE singletonE; simp add: op_intros)

section \<open>\<open>useLoginPatterns\<close>\<close>

definition useLoginPatterns_init :: "hook_state" where
  "useLoginPatterns_init = state_of [(''data'', JNull), (''loading'', JBool False), (''error'', JNull)]"

definition useLoginPatterns_fetchPatterns :: "'w env \<Rightarrow> string \<Rightarrow> 'w cmd" where
  "useLoginPatterns_fetchPatterns E baseUrl = setv ''loading'' (JBool True) (setv ''error'' JNull
     (try_catch E
     (send E (plain_request ''GET'' (baseUrl @ ''/api/v1/audit/login-patterns'') [] None) (\<lambda>st body.
     unless_ok st (''HTTP '' @ show_int st) (read_json body (\<lambda>v. setv ''data'' v (ret JUndef)))))
     (\<lambda>m. setv ''error'' (JStr m) (ret JUndef)) [(''loading'', JBool False)]))"

definition useLoginPatterns_ops :: "'w env \<Rightarrow> string \<Rightarrow> 'w cmd set" where
  "useLoginPatterns_ops E baseUrl = {useLoginPatterns_fetchPatterns E baseUrl}"

lemma useLoginPatterns_blank: "c \<in> useLoginPatterns_ops E baseUrl \<Longrightarrow> all_refused E \<Longrightarrow> blank c"
  unfolding useLoginPatterns_ops_def useLoginPatterns_fetchPatterns_def
  by (elim UnE CollectE exE conjE singletonE; simp add: blank_intros)

lemma useLoginPatterns_good: "c \<in> useLoginPatterns_ops E baseUrl \<Longrightarrow> good_op without_credentials c"
  unfolding useLoginPatterns_ops_def good_op_def useLoginPatterns_fetchPatterns_def
  by (elim UnE CollectE exE conjE singletonE; simp add: op_intros)

section \<open>\<open>useMFAFactors\<close>\<close>

definition useMFAFactors_init :: "hook_state" where
  "useMFAFactors_init = state_of [(''factors'', JArr []), (''loading'', JBool False), (''error'', JNull)]"

definition useMFAFactors_fetchFactors :: "'w env \<Rightarrow> string \<Rightarrow> string \<Rightarrow> 'w cmd" where
  "useMFAFactors_fetchFactors E baseUrl user' = branch (user' = []) (ret JUndef) (setv ''loading'' (JBool True) (setv ''error'' JNull
     (try_catch E
     (send E (plain_request ''GET'' (baseUrl @ ''/api/v1/auth/mfa-factors?user='' @ encodeURIComponent user') [] None) (\<lambda>st body.
     unless_ok st (''HTTP '' @ show_int st) (read_json body (\<lambda>data'. reads data' (setv ''factors'' (js_or (js_or (js_opt_prop data'
       ''factors'') data') (JArr [])) (ret JUndef))))))
     (\<lambda>m. setv ''error'' (JStr m) (ret JUndef)) [(''loading'', JBool False)])))"

definition useMFAFactors_deleteFactor :: "'w env \<Rightarrow> string \<Rightarrow> string \<Rightarrow> 'w cmd" where
  "useMFAFactors_deleteFactor E baseUrl factorId = setv ''loading'' (JBool True) (setv ''error'' JNull
     (try_catch E
     (send E (plain_request ''DELETE'' (baseUrl @ ''/api/v1/auth/mfa-factors/'' @ factorId) [] None) (\<lambda>st body.
     unless_ok st (''HTTP '' @ show_int st) (updv ''factors'' (filter_items (\<lambda>f. js_opt_prop f ''id'' \<noteq> JStr factorId)) (ret (JBool
       True)))))
     (\<lambda>m. setv ''error'' (JStr m) (ret (JBool False))) [(''loading'', JBool False)]))"

definition useMFAFactors_ops :: "'w env \<Rightarrow> string \<Rightarrow> 'w cmd set" where
  "useMFAFactors_ops E baseUrl = {useMFAFactors_fetchFactors E baseUrl user' |user'. True} \<union> {useMFAFactors_deleteFactor E baseUrl factorId
       |factorId. True}"

lemma useMFAFactors_blank: "c \<in> useMFAFactors_ops E baseUrl \<Longrightarrow> all_refused E \<Longrightarrow> blank c"
  unfolding useMFAFactors_ops_def useMFAFactors_fetchFactors_def useMFAFactors_deleteFactor_def
  by (elim UnE CollectE exE conjE singletonE; simp add: blank_intros)

lemma useMFAFactors_good: "c \<in> useMFAFactors_ops E baseUrl \<Longrightarrow> good_op without_credentials c"
  unfolding useMFAFactors_ops_def good_op_def useMFAFactors_fetchFactors_def useMFAFactors_deleteFactor_def
  by (elim UnE CollectE exE conjE singletonE; simp add: op_intros)

section \<open>\<open>useMembershipGraph\<close>\<close>

definition useMembershipGraph_init :: "hook_state" where
  "useMembershipGraph_init = state_of [(''data'', JNull), (''loading'', JBool False), (''error'', JNull)]"

definition useMembershipGraph_fetchGraph :: "'w env \<Rightarrow> string \<Rightarrow> string \<Rightarrow> 'w cmd" where
  "useMembershipGraph_fetchGraph E baseUrl groupId = setv ''loading'' (JBool True) (setv ''error'' JNull
     (try_catch E
     (send E (plain_request ''GET'' (baseUrl @ ''/api/v1/identity/membership-graph?group_id='' @ encodeURIComponent groupId) [] None) (\<lambda>st
       body.
     unless_ok st (''HTTP '' @ show_int st) (read_json body (\<lambda>v. setv ''data'' v (ret JUndef)))))
     (\<lambda>m. setv ''error'' (JStr m) (ret JUndef)) [(''loading'', JBool False)]))"

definition useMembershipGraph_ops :: "'w env \<Rightarrow> string \<Rightarrow> 'w cmd set" where
  "useMembershipGraph_ops E baseUrl = {useMembershipGraph_fetchGraph E baseUrl groupId |groupId. True}"

lemma useMembershipGraph_blank: "c \<in> useMembershipGraph_ops E baseUrl \<Longrightarrow> all_refused E \<Longrightarrow> blank c"
  unfolding useMembershipGraph_ops_def useMembershipGraph_fetchGraph_def
  by (elim UnE CollectE exE conjE singletonE; simp add: blank_intros)

lemma useMembershipGraph_good: "c \<in> useMembershipGraph_ops E baseUrl \<Longrightarrow> good_op without_credentials c"
  unfolding useMembershipGraph_ops_def good_op_def useMembershipGraph_fetchGraph_def
  by (elim UnE CollectE exE conjE singletonE; simp add: op_intros)

section \<open>\<open>useMergeConflicts\<close>\<close>

definition useMergeConflicts_init :: "hook_state" where
  "useMergeConflicts_init = state_of [(''conflicts'', JArr []), (''loading'', JBool False), (''error'', JNull)]"

definition useMergeConflicts_fetchConflicts :: "'w env \<Rightarrow> string \<Rightarrow> string \<Rightarrow> string \<Rightarrow> 'w cmd" where
  "useMergeConflicts_fetchConflicts E baseUrl policyA policyB = setv ''loading'' (JBool True) (setv ''error'' JNull
     (try_catch E
     (send E (plain_request ''GET'' (baseUrl @ ''/api/v1/policy/merge-conflicts?a='' @ encodeURIComponent policyA @ ''&b='' @ encodeURIComponent
       policyB) [] None) (\<lambda>st body.
     unless_ok st (''HTTP '' @ show_int st) (read_json body (\<lambda>data'. reads data' (setv ''conflicts'' (js_or (js_or (js_opt_prop data'
       ''conflicts'') data') (JArr [])) (ret JUndef))))))
     (\<lambda>m. setv ''error'' (JStr m) (ret JUndef)) [(''loading'', JBool False)]))"

definition useMergeConflicts_resolve :: "'w env \<Rightarrow> string \<Rightarrow> string \<Rightarrow> 'w cmd" where
  "useMergeConflicts_resolve E baseUrl strategy = setv ''loading'' (JBool True) (setv ''error'' JNull
     (try_catch E
     (send E (plain_request ''POST'' (baseUrl @ ''/api/v1/policy/merge-conflicts/resolve'') json_header (Some (JObj [(''strategy'', JStr strategy)])))
       (\<lambda>st body.
     unless_ok st (''HTTP '' @ show_int st) (ret (JBool True))))
     (\<lambda>m. setv ''error'' (JStr m) (ret (JBool False))) [(''loading'', JBool False)]))"

definition useMergeConflicts_ops :: "'w env \<Rightarrow> string \<Rightarrow> 'w cmd set" where
  "useMergeConflicts_ops E baseUrl = {useMergeConflicts_fetchConflicts E baseUrl policyA policyB |policyA policyB. True} \<union>
       {useMergeConflicts_resolve E baseUrl strategy |strategy. True}"

lemma useMergeConflicts_blank: "c \<in> useMergeConflicts_ops E baseUrl \<Longrightarrow> all_refused E \<Longrightarrow> blank c"
  unfolding useMergeConflicts_ops_def useMergeConflicts_fetchConflicts_def useMergeConflicts_resolve_def
  by (elim UnE CollectE exE conjE singletonE; simp add: blank_intros)

lemma useMergeConflicts_good: "c \<in> useMergeConflicts_ops E baseUrl \<Longrightarrow> good_op without_credentials c"
  unfolding useMergeConflicts_ops_def good_op_def useMergeConflicts_fetchConflicts_def useMergeConflicts_resolve_def
  by (elim UnE CollectE exE conjE singletonE; simp add: op_intros)

section \<open>The table\<close>

definition PLAIN_HOOKS_A :: "(hook_state \<times> ('w env \<Rightarrow> string \<Rightarrow> 'w cmd set)) list" where
  "PLAIN_HOOKS_A = [(useAPIKeyLifecycle_init, useAPIKeyLifecycle_ops), (useAccessCertification_init, useAccessCertification_ops),
       (useAccessFrequency_init, useAccessFrequency_ops), (useAccessGraph_init, useAccessGraph_ops), (useAccessOptimization_init,
       useAccessOptimization_ops), (useAccessRequest_init, useAccessRequest_ops), (useAccessReviewCampaigns_init, useAccessReviewCampaigns_ops),
       (useAccountRecovery_init, useAccountRecovery_ops), (useAdminSettings_init, useAdminSettings_ops), (useAnomalyDetection_init,
       useAnomalyDetection_ops), (useAnomalyScoring_init, useAnomalyScoring_ops), (useApiGatewayConfig_init, useApiGatewayConfig_ops),
       (useAttributeGovernance_init, useAttributeGovernance_ops), (useAuditChallengeResponse_init, useAuditChallengeResponse_ops),
       (useAuditRetentionPolicy_init, useAuditRetentionPolicy_ops), (useAuthSessionResilienceConfig_init, useAuthSessionResilienceConfig_ops),
       (useAuthorizeFlowAnalytics_init, useAuthorizeFlowAnalytics_ops), (useAutoAssignment_init, useAutoAssignment_ops), (useBatchSimulate_init,
       useBatchSimulate_ops), (useBlastRadius_init, useBlastRadius_ops), (useBudgetTracking_init, useBudgetTracking_ops), (useCacheHealth_init,
       useCacheHealth_ops), (useCertificateManagement_init, useCertificateManagement_ops), (useClientEvents_init, useClientEvents_ops),
       (useClientHealth_init, useClientHealth_ops), (useClientOnboarding_init, useClientOnboarding_ops), (useClientRateLimits_init,
       useClientRateLimits_ops), (useClientVersioning_init, useClientVersioning_ops), (useCloneTemplate_init, useCloneTemplate_ops),
       (useComplianceDrift_init, useComplianceDrift_ops), (useComplianceGaps_init, useComplianceGaps_ops), (useComplianceHeatmap_init,
       useComplianceHeatmap_ops), (useComplianceTimeline_init, useComplianceTimeline_ops), (useConditionBuilder_init, useConditionBuilder_ops),
       (useConsentDashboard_init, useConsentDashboard_ops), (useConsentHistory_init, useConsentHistory_ops), (useConsentRegistry_init,
       useConsentRegistry_ops), (useCostCenters_init, useCostCenters_ops), (useCoverageMatrix_init, useCoverageMatrix_ops),
       (useCredentialExposure_init, useCredentialExposure_ops), (useDSR_init, useDSR_ops), (useDataLineage_init, useDataLineage_ops),
       (useDatabaseHealth_init, useDatabaseHealth_ops), (useDelegatedReview_init, useDelegatedReview_ops), (useDelegations_init, useDelegations_ops),
       (useDepartmentAnalytics_init, useDepartmentAnalytics_ops), (useDeprovisionDashboard_init, useDeprovisionDashboard_ops),
       (useDeprovisionSchedule_init, useDeprovisionSchedule_ops), (useDeviceManagement_init, useDeviceManagement_ops), (useDevicePosture_init,
       useDevicePosture_ops), (useDirectoryReconcile_init, useDirectoryReconcile_ops), (useDirectorySnapshot_init, useDirectorySnapshot_ops),
       (useDiscoveryConfig_init, useDiscoveryConfig_ops), (useEmailTemplateEditor_init, useEmailTemplateEditor_ops), (useEntitlementReview_init,
       useEntitlementReview_ops), (useEvidenceCollection_init, useEvidenceCollection_ops), (useEvidenceExpiry_init, useEvidenceExpiry_ops),
       (useExportSchedule_init, useExportSchedule_ops), (useForensicsTimeline_init, useForensicsTimeline_ops), (useFrameworkCoverage_init,
       useFrameworkCoverage_ops), (useGeofencing_init, useGeofencing_ops), (useGrantHistory_init, useGrantHistory_ops), (useGroupAnalytics_init,
       useGroupAnalytics_ops), (useGroupPermissionTree_init, useGroupPermissionTree_ops), (useGrpcInterceptorConfig_init,
       useGrpcInterceptorConfig_ops), (useHashChain_init, useHashChain_ops), (useHijackTimeline_init, useHijackTimeline_ops),
       (useIdentityVerification_init, useIdentityVerification_ops), (useIdpFederation_init, useIdpFederation_ops), (useIdpMetadataImport_init,
       useIdpMetadataImport_ops), (useImpactPreview_init, useImpactPreview_ops), (useIpReputation_init, useIpReputation_ops), (useJITElevation_init,
       useJITElevation_ops), (useJoinerFlow_init, useJoinerFlow_ops), (useJoinerFlowDashboard_init, useJoinerFlowDashboard_ops),
       (useLdapSyncConfig_init, useLdapSyncConfig_ops), (useLeaverFlow_init, useLeaverFlow_ops), (useLockoutPolicy_init, useLockoutPolicy_ops),
       (useLoginAnalytics_init, useLoginAnalytics_ops), (useLoginPatterns_init, useLoginPatterns_ops), (useMFAFactors_init, useMFAFactors_ops),
       (useMembershipGraph_init, useMembershipGraph_ops), (useMergeConflicts_init, useMergeConflicts_ops)]"

lemma PLAIN_HOOKS_A_start: "(s0, ops) \<in> set PLAIN_HOOKS_A \<Longrightarrow> hs_var s0 ''loading'' = JBool False \<and> hs_var s0 ''error'' = JNull"
  unfolding PLAIN_HOOKS_A_def by (auto simp: state_of_def useAPIKeyLifecycle_init_def useAccessCertification_init_def useAccessFrequency_init_def useAccessGraph_init_def useAccessOptimization_init_def useAccessRequest_init_def useAccessReviewCampaigns_init_def useAccountRecovery_init_def useAdminSettings_init_def useAnomalyDetection_init_def useAnomalyScoring_init_def useApiGatewayConfig_init_def useAttributeGovernance_init_def useAuditChallengeResponse_init_def useAuditRetentionPolicy_init_def useAuthSessionResilienceConfig_init_def useAuthorizeFlowAnalytics_init_def useAutoAssignment_init_def useBatchSimulate_init_def useBlastRadius_init_def useBudgetTracking_init_def useCacheHealth_init_def useCertificateManagement_init_def useClientEvents_init_def useClientHealth_init_def useClientOnboarding_init_def useClientRateLimits_init_def useClientVersioning_init_def useCloneTemplate_init_def useComplianceDrift_init_def useComplianceGaps_init_def useComplianceHeatmap_init_def useComplianceTimeline_init_def useConditionBuilder_init_def useConsentDashboard_init_def useConsentHistory_init_def useConsentRegistry_init_def useCostCenters_init_def useCoverageMatrix_init_def useCredentialExposure_init_def useDSR_init_def useDataLineage_init_def useDatabaseHealth_init_def useDelegatedReview_init_def useDelegations_init_def useDepartmentAnalytics_init_def useDeprovisionDashboard_init_def useDeprovisionSchedule_init_def useDeviceManagement_init_def useDevicePosture_init_def useDirectoryReconcile_init_def useDirectorySnapshot_init_def useDiscoveryConfig_init_def useEmailTemplateEditor_init_def useEntitlementReview_init_def useEvidenceCollection_init_def useEvidenceExpiry_init_def useExportSchedule_init_def useForensicsTimeline_init_def useFrameworkCoverage_init_def useGeofencing_init_def useGrantHistory_init_def useGroupAnalytics_init_def useGroupPermissionTree_init_def useGrpcInterceptorConfig_init_def useHashChain_init_def useHijackTimeline_init_def useIdentityVerification_init_def useIdpFederation_init_def useIdpMetadataImport_init_def useImpactPreview_init_def useIpReputation_init_def useJITElevation_init_def useJoinerFlow_init_def useJoinerFlowDashboard_init_def useLdapSyncConfig_init_def useLeaverFlow_init_def useLockoutPolicy_init_def useLoginAnalytics_init_def useLoginPatterns_init_def useMFAFactors_init_def useMembershipGraph_init_def useMergeConflicts_init_def)

lemma PLAIN_HOOKS_A_good: "(s0, ops) \<in> set PLAIN_HOOKS_A \<Longrightarrow> c \<in> ops E baseUrl \<Longrightarrow> good_op without_credentials c"
  unfolding PLAIN_HOOKS_A_def by (auto dest: useAPIKeyLifecycle_good useAccessCertification_good useAccessFrequency_good useAccessGraph_good useAccessOptimization_good useAccessRequest_good useAccessReviewCampaigns_good useAccountRecovery_good useAdminSettings_good useAnomalyDetection_good useAnomalyScoring_good useApiGatewayConfig_good useAttributeGovernance_good useAuditChallengeResponse_good useAuditRetentionPolicy_good useAuthSessionResilienceConfig_good useAuthorizeFlowAnalytics_good useAutoAssignment_good useBatchSimulate_good useBlastRadius_good useBudgetTracking_good useCacheHealth_good useCertificateManagement_good useClientEvents_good useClientHealth_good useClientOnboarding_good useClientRateLimits_good useClientVersioning_good useCloneTemplate_good useComplianceDrift_good useComplianceGaps_good useComplianceHeatmap_good useComplianceTimeline_good useConditionBuilder_good useConsentDashboard_good useConsentHistory_good useConsentRegistry_good useCostCenters_good useCoverageMatrix_good useCredentialExposure_good useDSR_good useDataLineage_good useDatabaseHealth_good useDelegatedReview_good useDelegations_good useDepartmentAnalytics_good useDeprovisionDashboard_good useDeprovisionSchedule_good useDeviceManagement_good useDevicePosture_good useDirectoryReconcile_good useDirectorySnapshot_good useDiscoveryConfig_good useEmailTemplateEditor_good useEntitlementReview_good useEvidenceCollection_good useEvidenceExpiry_good useExportSchedule_good useForensicsTimeline_good useFrameworkCoverage_good useGeofencing_good useGrantHistory_good useGroupAnalytics_good useGroupPermissionTree_good useGrpcInterceptorConfig_good useHashChain_good useHijackTimeline_good useIdentityVerification_good useIdpFederation_good useIdpMetadataImport_good useImpactPreview_good useIpReputation_good useJITElevation_good useJoinerFlow_good useJoinerFlowDashboard_good useLdapSyncConfig_good useLeaverFlow_good useLockoutPolicy_good useLoginAnalytics_good useLoginPatterns_good useMFAFactors_good useMembershipGraph_good useMergeConflicts_good)

lemma PLAIN_HOOKS_A_blank: "(s0, ops) \<in> set PLAIN_HOOKS_A \<Longrightarrow> c \<in> ops E baseUrl \<Longrightarrow> all_refused E \<Longrightarrow> blank c"
  unfolding PLAIN_HOOKS_A_def by (auto dest: useAPIKeyLifecycle_blank useAccessCertification_blank useAccessFrequency_blank useAccessGraph_blank useAccessOptimization_blank useAccessRequest_blank useAccessReviewCampaigns_blank useAccountRecovery_blank useAdminSettings_blank useAnomalyDetection_blank useAnomalyScoring_blank useApiGatewayConfig_blank useAttributeGovernance_blank useAuditChallengeResponse_blank useAuditRetentionPolicy_blank useAuthSessionResilienceConfig_blank useAuthorizeFlowAnalytics_blank useAutoAssignment_blank useBatchSimulate_blank useBlastRadius_blank useBudgetTracking_blank useCacheHealth_blank useCertificateManagement_blank useClientEvents_blank useClientHealth_blank useClientOnboarding_blank useClientRateLimits_blank useClientVersioning_blank useCloneTemplate_blank useComplianceDrift_blank useComplianceGaps_blank useComplianceHeatmap_blank useComplianceTimeline_blank useConditionBuilder_blank useConsentDashboard_blank useConsentHistory_blank useConsentRegistry_blank useCostCenters_blank useCoverageMatrix_blank useCredentialExposure_blank useDSR_blank useDataLineage_blank useDatabaseHealth_blank useDelegatedReview_blank useDelegations_blank useDepartmentAnalytics_blank useDeprovisionDashboard_blank useDeprovisionSchedule_blank useDeviceManagement_blank useDevicePosture_blank useDirectoryReconcile_blank useDirectorySnapshot_blank useDiscoveryConfig_blank useEmailTemplateEditor_blank useEntitlementReview_blank useEvidenceCollection_blank useEvidenceExpiry_blank useExportSchedule_blank useForensicsTimeline_blank useFrameworkCoverage_blank useGeofencing_blank useGrantHistory_blank useGroupAnalytics_blank useGroupPermissionTree_blank useGrpcInterceptorConfig_blank useHashChain_blank useHijackTimeline_blank useIdentityVerification_blank useIdpFederation_blank useIdpMetadataImport_blank useImpactPreview_blank useIpReputation_blank useJITElevation_blank useJoinerFlow_blank useJoinerFlowDashboard_blank useLdapSyncConfig_blank useLeaverFlow_blank useLockoutPolicy_blank useLoginAnalytics_blank useLoginPatterns_blank useMFAFactors_blank useMembershipGraph_blank useMergeConflicts_blank)

end
