(* ===== verification/Hooks_Plain_B.thy ===== *)
theory Hooks_Plain_B
  imports Hooks_Plain_A
begin

text \<open>
  The second half of the resource hooks \<open>sdk/react/src/use*.ts\<close> that take only the address of the server, and the table of all of them.
\<close>

section \<open>\<open>useMfaChallengeConfig\<close>\<close>

definition useMfaChallengeConfig_init :: "hook_state" where
  "useMfaChallengeConfig_init = state_of [(''config'', JNull), (''loading'', JBool False), (''error'', JNull)]"

definition useMfaChallengeConfig_fetchConfig :: "'w env \<Rightarrow> string \<Rightarrow> 'w cmd" where
  "useMfaChallengeConfig_fetchConfig E baseUrl = setv ''loading'' (JBool True) (setv ''error'' JNull
     (try_catch E
     (send E (plain_request ''GET'' (baseUrl @ ''/api/v1/auth/mfa-challenge-config'') [] None) (\<lambda>st body.
     unless_ok st (''HTTP '' @ show_int st) (read_json body (\<lambda>v. setv ''config'' v (ret JUndef)))))
     (\<lambda>m. setv ''error'' (JStr m) (ret JUndef)) [(''loading'', JBool False)]))"

definition useMfaChallengeConfig_saveConfig :: "'w env \<Rightarrow> string \<Rightarrow> jsv \<Rightarrow> 'w cmd" where
  "useMfaChallengeConfig_saveConfig E baseUrl cfg = setv ''loading'' (JBool True) (setv ''error'' JNull
     (try_catch E
     (send E (plain_request ''PUT'' (baseUrl @ ''/api/v1/auth/mfa-challenge-config'') json_header (Some cfg)) (\<lambda>st body.
     unless_ok st (''HTTP '' @ show_int st) (setv ''config'' cfg (ret (JBool True)))))
     (\<lambda>m. setv ''error'' (JStr m) (ret (JBool False))) [(''loading'', JBool False)]))"

definition useMfaChallengeConfig_ops :: "'w env \<Rightarrow> string \<Rightarrow> 'w cmd set" where
  "useMfaChallengeConfig_ops E baseUrl = {useMfaChallengeConfig_fetchConfig E baseUrl} \<union> {useMfaChallengeConfig_saveConfig E baseUrl cfg |cfg.
       True}"

lemma useMfaChallengeConfig_blank: "c \<in> useMfaChallengeConfig_ops E baseUrl \<Longrightarrow> all_refused E \<Longrightarrow> blank c"
  unfolding useMfaChallengeConfig_ops_def useMfaChallengeConfig_fetchConfig_def useMfaChallengeConfig_saveConfig_def
  by (elim UnE CollectE exE conjE singletonE; simp add: blank_intros)

lemma useMfaChallengeConfig_good: "c \<in> useMfaChallengeConfig_ops E baseUrl \<Longrightarrow> good_op without_credentials c"
  unfolding useMfaChallengeConfig_ops_def good_op_def useMfaChallengeConfig_fetchConfig_def useMfaChallengeConfig_saveConfig_def
  by (elim UnE CollectE exE conjE singletonE; simp add: op_intros)

section \<open>\<open>useNatsJetstream\<close>\<close>

definition useNatsJetstream_init :: "hook_state" where
  "useNatsJetstream_init = state_of [(''data'', JNull), (''loading'', JBool False), (''error'', JNull)]"

definition useNatsJetstream_fetchData :: "'w env \<Rightarrow> string \<Rightarrow> 'w cmd" where
  "useNatsJetstream_fetchData E baseUrl = setv ''loading'' (JBool True) (setv ''error'' JNull
     (try_catch E
     (send E (plain_request ''GET'' (baseUrl @ ''/api/v1/admin/nats-health'') [] None) (\<lambda>st body.
     unless_ok st (''HTTP '' @ show_int st) (read_json body (\<lambda>v. setv ''data'' v (ret JUndef)))))
     (\<lambda>m. setv ''error'' (JStr m) (ret JUndef)) [(''loading'', JBool False)]))"

definition useNatsJetstream_ops :: "'w env \<Rightarrow> string \<Rightarrow> 'w cmd set" where
  "useNatsJetstream_ops E baseUrl = {useNatsJetstream_fetchData E baseUrl}"

lemma useNatsJetstream_blank: "c \<in> useNatsJetstream_ops E baseUrl \<Longrightarrow> all_refused E \<Longrightarrow> blank c"
  unfolding useNatsJetstream_ops_def useNatsJetstream_fetchData_def
  by (elim UnE CollectE exE conjE singletonE; simp add: blank_intros)

lemma useNatsJetstream_good: "c \<in> useNatsJetstream_ops E baseUrl \<Longrightarrow> good_op without_credentials c"
  unfolding useNatsJetstream_ops_def good_op_def useNatsJetstream_fetchData_def
  by (elim UnE CollectE exE conjE singletonE; simp add: op_intros)

section \<open>\<open>useNotificationPreferences\<close>\<close>

definition useNotificationPreferences_init :: "hook_state" where
  "useNotificationPreferences_init = state_of [(''prefs'', JNull), (''loading'', JBool False), (''error'', JNull)]"

definition useNotificationPreferences_fetchPrefs :: "'w env \<Rightarrow> string \<Rightarrow> 'w cmd" where
  "useNotificationPreferences_fetchPrefs E baseUrl = setv ''loading'' (JBool True) (setv ''error'' JNull
     (try_catch E
     (send E (plain_request ''GET'' (baseUrl @ ''/api/v1/notification/preferences'') [] None) (\<lambda>st body.
     unless_ok st (''HTTP '' @ show_int st) (read_json body (\<lambda>v. setv ''prefs'' v (ret JUndef)))))
     (\<lambda>m. setv ''error'' (JStr m) (ret JUndef)) [(''loading'', JBool False)]))"

definition useNotificationPreferences_savePrefs :: "'w env \<Rightarrow> string \<Rightarrow> jsv \<Rightarrow> 'w cmd" where
  "useNotificationPreferences_savePrefs E baseUrl p = setv ''loading'' (JBool True) (setv ''error'' JNull
     (try_catch E
     (send E (plain_request ''PUT'' (baseUrl @ ''/api/v1/notification/preferences'') json_header (Some p)) (\<lambda>st body.
     unless_ok st (''HTTP '' @ show_int st) (ret (JBool True))))
     (\<lambda>m. setv ''error'' (JStr m) (ret (JBool False))) [(''loading'', JBool False)]))"

definition useNotificationPreferences_ops :: "'w env \<Rightarrow> string \<Rightarrow> 'w cmd set" where
  "useNotificationPreferences_ops E baseUrl = {useNotificationPreferences_fetchPrefs E baseUrl} \<union> {useNotificationPreferences_savePrefs E
       baseUrl p |p. True}"

lemma useNotificationPreferences_blank: "c \<in> useNotificationPreferences_ops E baseUrl \<Longrightarrow> all_refused E \<Longrightarrow> blank c"
  unfolding useNotificationPreferences_ops_def useNotificationPreferences_fetchPrefs_def useNotificationPreferences_savePrefs_def
  by (elim UnE CollectE exE conjE singletonE; simp add: blank_intros)

lemma useNotificationPreferences_good: "c \<in> useNotificationPreferences_ops E baseUrl \<Longrightarrow> good_op without_credentials c"
  unfolding useNotificationPreferences_ops_def good_op_def useNotificationPreferences_fetchPrefs_def useNotificationPreferences_savePrefs_def
  by (elim UnE CollectE exE conjE singletonE; simp add: op_intros)

section \<open>\<open>useOAuthClientMigration\<close>\<close>

definition useOAuthClientMigration_init :: "hook_state" where
  "useOAuthClientMigration_init = state_of [(''preview'', JNull), (''loading'', JBool False), (''error'', JNull)]"

definition useOAuthClientMigration_doPreview :: "'w env \<Rightarrow> string \<Rightarrow> string \<Rightarrow> string \<Rightarrow> 'w cmd" where
  "useOAuthClientMigration_doPreview E baseUrl source target = setv ''loading'' (JBool True) (setv ''error'' JNull
     (try_catch E
     (send E (plain_request ''POST'' (baseUrl @ ''/api/v1/oauth/client-migration/preview'') json_header (Some (JObj [(''source'', JStr source),
       (''target'', JStr target)]))) (\<lambda>st body.
     unless_ok st (''HTTP '' @ show_int st) (read_json body (\<lambda>v. setv ''preview'' v (ret JUndef)))))
     (\<lambda>m. setv ''error'' (JStr m) (ret JUndef)) [(''loading'', JBool False)]))"

definition useOAuthClientMigration_ops :: "'w env \<Rightarrow> string \<Rightarrow> 'w cmd set" where
  "useOAuthClientMigration_ops E baseUrl = {useOAuthClientMigration_doPreview E baseUrl source target |source target. True}"

lemma useOAuthClientMigration_blank: "c \<in> useOAuthClientMigration_ops E baseUrl \<Longrightarrow> all_refused E \<Longrightarrow> blank c"
  unfolding useOAuthClientMigration_ops_def useOAuthClientMigration_doPreview_def
  by (elim UnE CollectE exE conjE singletonE; simp add: blank_intros)

lemma useOAuthClientMigration_good: "c \<in> useOAuthClientMigration_ops E baseUrl \<Longrightarrow> good_op without_credentials c"
  unfolding useOAuthClientMigration_ops_def good_op_def useOAuthClientMigration_doPreview_def
  by (elim UnE CollectE exE conjE singletonE; simp add: op_intros)

section \<open>\<open>useOAuthDynamicClientReg\<close>\<close>

definition useOAuthDynamicClientReg_init :: "hook_state" where
  "useOAuthDynamicClientReg_init = state_of [(''config'', JNull), (''loading'', JBool False), (''error'', JNull)]"

definition useOAuthDynamicClientReg_fetchConfig :: "'w env \<Rightarrow> string \<Rightarrow> 'w cmd" where
  "useOAuthDynamicClientReg_fetchConfig E baseUrl = setv ''loading'' (JBool True) (setv ''error'' JNull
     (try_catch E
     (send E (plain_request ''GET'' (baseUrl @ ''/api/v1/settings/oauth-dynamic-client-reg'') [] None) (\<lambda>st body.
     unless_ok st (''HTTP '' @ show_int st) (read_json body (\<lambda>v. setv ''config'' v (ret JUndef)))))
     (\<lambda>m. setv ''error'' (JStr m) (ret JUndef)) [(''loading'', JBool False)]))"

definition useOAuthDynamicClientReg_updateConfig :: "'w env \<Rightarrow> string \<Rightarrow> jsv \<Rightarrow> 'w cmd" where
  "useOAuthDynamicClientReg_updateConfig E baseUrl patch = setv ''loading'' (JBool True) (setv ''error'' JNull
     (try_catch E
     (send E (plain_request ''PUT'' (baseUrl @ ''/api/v1/settings/oauth-dynamic-client-reg'') json_header (Some patch)) (\<lambda>st body.
     unless_ok st (''HTTP '' @ show_int st) (read_json body (\<lambda>data'. setv ''config'' data' (ret data')))))
     (\<lambda>m. setv ''error'' (JStr m) (ret JNull)) [(''loading'', JBool False)]))"

definition useOAuthDynamicClientReg_registerClient :: "'w env \<Rightarrow> string \<Rightarrow> jsv \<Rightarrow> 'w cmd" where
  "useOAuthDynamicClientReg_registerClient E baseUrl payload = setv ''loading'' (JBool True) (setv ''error'' JNull
     (try_catch E
     (send E (plain_request ''POST'' (baseUrl @ ''/api/v1/settings/oauth-dynamic-client-reg/register'') json_header (Some payload)) (\<lambda>st body.
     unless_ok st (''HTTP '' @ show_int st) (read_json body (\<lambda>data'. setv ''config'' data' (ret data')))))
     (\<lambda>m. setv ''error'' (JStr m) (ret JNull)) [(''loading'', JBool False)]))"

definition useOAuthDynamicClientReg_deleteClient :: "'w env \<Rightarrow> string \<Rightarrow> string \<Rightarrow> 'w cmd" where
  "useOAuthDynamicClientReg_deleteClient E baseUrl clientId = setv ''loading'' (JBool True) (setv ''error'' JNull
     (try_catch E
     (send E (plain_request ''DELETE'' (baseUrl @ ''/api/v1/settings/oauth-dynamic-client-reg/'' @ clientId) [] None) (\<lambda>st body.
     unless_ok st (''HTTP '' @ show_int st) (read_json body (\<lambda>data'. setv ''config'' data' (ret data')))))
     (\<lambda>m. setv ''error'' (JStr m) (ret JNull)) [(''loading'', JBool False)]))"

definition useOAuthDynamicClientReg_ops :: "'w env \<Rightarrow> string \<Rightarrow> 'w cmd set" where
  "useOAuthDynamicClientReg_ops E baseUrl = {useOAuthDynamicClientReg_fetchConfig E baseUrl} \<union> {useOAuthDynamicClientReg_updateConfig E baseUrl
       patch |patch. True} \<union> {useOAuthDynamicClientReg_registerClient E baseUrl payload |payload. True} \<union>
       {useOAuthDynamicClientReg_deleteClient E baseUrl clientId |clientId. True}"

lemma useOAuthDynamicClientReg_blank: "c \<in> useOAuthDynamicClientReg_ops E baseUrl \<Longrightarrow> all_refused E \<Longrightarrow> blank c"
  unfolding useOAuthDynamicClientReg_ops_def useOAuthDynamicClientReg_fetchConfig_def useOAuthDynamicClientReg_updateConfig_def useOAuthDynamicClientReg_registerClient_def useOAuthDynamicClientReg_deleteClient_def
  by (elim UnE CollectE exE conjE singletonE; simp add: blank_intros)

lemma useOAuthDynamicClientReg_good: "c \<in> useOAuthDynamicClientReg_ops E baseUrl \<Longrightarrow> good_op without_credentials c"
  unfolding useOAuthDynamicClientReg_ops_def good_op_def useOAuthDynamicClientReg_fetchConfig_def useOAuthDynamicClientReg_updateConfig_def useOAuthDynamicClientReg_registerClient_def useOAuthDynamicClientReg_deleteClient_def
  by (elim UnE CollectE exE conjE singletonE; simp add: op_intros)

section \<open>\<open>useOAuthHealthCheck\<close>\<close>

definition useOAuthHealthCheck_init :: "hook_state" where
  "useOAuthHealthCheck_init = state_of [(''data'', JNull), (''loading'', JBool False), (''error'', JNull)]"

definition useOAuthHealthCheck_fetchHealth :: "'w env \<Rightarrow> string \<Rightarrow> 'w cmd" where
  "useOAuthHealthCheck_fetchHealth E baseUrl = setv ''loading'' (JBool True) (setv ''error'' JNull
     (try_catch E
     (send E (plain_request ''GET'' (baseUrl @ ''/api/v1/oauth/health-check'') [] None) (\<lambda>st body.
     unless_ok st (''HTTP '' @ show_int st) (read_json body (\<lambda>v. setv ''data'' v (ret JUndef)))))
     (\<lambda>m. setv ''error'' (JStr m) (ret JUndef)) [(''loading'', JBool False)]))"

definition useOAuthHealthCheck_ops :: "'w env \<Rightarrow> string \<Rightarrow> 'w cmd set" where
  "useOAuthHealthCheck_ops E baseUrl = {useOAuthHealthCheck_fetchHealth E baseUrl}"

lemma useOAuthHealthCheck_blank: "c \<in> useOAuthHealthCheck_ops E baseUrl \<Longrightarrow> all_refused E \<Longrightarrow> blank c"
  unfolding useOAuthHealthCheck_ops_def useOAuthHealthCheck_fetchHealth_def
  by (elim UnE CollectE exE conjE singletonE; simp add: blank_intros)

lemma useOAuthHealthCheck_good: "c \<in> useOAuthHealthCheck_ops E baseUrl \<Longrightarrow> good_op without_credentials c"
  unfolding useOAuthHealthCheck_ops_def good_op_def useOAuthHealthCheck_fetchHealth_def
  by (elim UnE CollectE exE conjE singletonE; simp add: op_intros)

section \<open>\<open>useOAuthJwksRotationConfig\<close>\<close>

definition useOAuthJwksRotationConfig_init :: "hook_state" where
  "useOAuthJwksRotationConfig_init = state_of [(''config'', JNull), (''loading'', JBool False), (''error'', JNull)]"

definition useOAuthJwksRotationConfig_fetchConfig :: "'w env \<Rightarrow> string \<Rightarrow> 'w cmd" where
  "useOAuthJwksRotationConfig_fetchConfig E baseUrl = setv ''loading'' (JBool True) (setv ''error'' JNull
     (try_catch E
     (send E (plain_request ''GET'' (baseUrl @ ''/api/v1/settings/oauth-jwks-rotation-config'') [] None) (\<lambda>st body.
     unless_ok st (''HTTP '' @ show_int st) (read_json body (\<lambda>v. setv ''config'' v (ret JUndef)))))
     (\<lambda>m. setv ''error'' (JStr m) (ret JUndef)) [(''loading'', JBool False)]))"

definition useOAuthJwksRotationConfig_updateConfig :: "'w env \<Rightarrow> string \<Rightarrow> jsv \<Rightarrow> 'w cmd" where
  "useOAuthJwksRotationConfig_updateConfig E baseUrl patch = setv ''loading'' (JBool True) (setv ''error'' JNull
     (try_catch E
     (send E (plain_request ''PUT'' (baseUrl @ ''/api/v1/settings/oauth-jwks-rotation-config'') json_header (Some patch)) (\<lambda>st body.
     unless_ok st (''HTTP '' @ show_int st) (read_json body (\<lambda>data'. setv ''config'' data' (ret data')))))
     (\<lambda>m. setv ''error'' (JStr m) (ret JNull)) [(''loading'', JBool False)]))"

definition useOAuthJwksRotationConfig_rotateNow :: "'w env \<Rightarrow> string \<Rightarrow> 'w cmd" where
  "useOAuthJwksRotationConfig_rotateNow E baseUrl = setv ''loading'' (JBool True) (setv ''error'' JNull
     (try_catch E
     (send E (plain_request ''POST'' (baseUrl @ ''/api/v1/settings/oauth-jwks-rotation-config/rotate'') [] None) (\<lambda>st body.
     unless_ok st (''HTTP '' @ show_int st) (read_json body (\<lambda>data'. setv ''config'' data' (ret data')))))
     (\<lambda>m. setv ''error'' (JStr m) (ret JNull)) [(''loading'', JBool False)]))"

definition useOAuthJwksRotationConfig_ops :: "'w env \<Rightarrow> string \<Rightarrow> 'w cmd set" where
  "useOAuthJwksRotationConfig_ops E baseUrl = {useOAuthJwksRotationConfig_fetchConfig E baseUrl} \<union> {useOAuthJwksRotationConfig_updateConfig E
       baseUrl patch |patch. True} \<union> {useOAuthJwksRotationConfig_rotateNow E baseUrl}"

lemma useOAuthJwksRotationConfig_blank: "c \<in> useOAuthJwksRotationConfig_ops E baseUrl \<Longrightarrow> all_refused E \<Longrightarrow> blank c"
  unfolding useOAuthJwksRotationConfig_ops_def useOAuthJwksRotationConfig_fetchConfig_def useOAuthJwksRotationConfig_updateConfig_def useOAuthJwksRotationConfig_rotateNow_def
  by (elim UnE CollectE exE conjE singletonE; simp add: blank_intros)

lemma useOAuthJwksRotationConfig_good: "c \<in> useOAuthJwksRotationConfig_ops E baseUrl \<Longrightarrow> good_op without_credentials c"
  unfolding useOAuthJwksRotationConfig_ops_def good_op_def useOAuthJwksRotationConfig_fetchConfig_def useOAuthJwksRotationConfig_updateConfig_def useOAuthJwksRotationConfig_rotateNow_def
  by (elim UnE CollectE exE conjE singletonE; simp add: op_intros)

section \<open>\<open>useOAuthScopeConsentMatrix\<close>\<close>

definition useOAuthScopeConsentMatrix_init :: "hook_state" where
  "useOAuthScopeConsentMatrix_init = state_of [(''data'', JNull), (''loading'', JBool False), (''error'', JNull)]"

definition useOAuthScopeConsentMatrix_fetchMatrix :: "'w env \<Rightarrow> string \<Rightarrow> 'w cmd" where
  "useOAuthScopeConsentMatrix_fetchMatrix E baseUrl = setv ''loading'' (JBool True) (setv ''error'' JNull
     (try_catch E
     (send E (plain_request ''GET'' (baseUrl @ ''/api/v1/oauth/scope-consent-matrix'') [] None) (\<lambda>st body.
     unless_ok st (''HTTP '' @ show_int st) (read_json body (\<lambda>v. setv ''data'' v (ret JUndef)))))
     (\<lambda>m. setv ''error'' (JStr m) (ret JUndef)) [(''loading'', JBool False)]))"

definition useOAuthScopeConsentMatrix_ops :: "'w env \<Rightarrow> string \<Rightarrow> 'w cmd set" where
  "useOAuthScopeConsentMatrix_ops E baseUrl = {useOAuthScopeConsentMatrix_fetchMatrix E baseUrl}"

lemma useOAuthScopeConsentMatrix_blank: "c \<in> useOAuthScopeConsentMatrix_ops E baseUrl \<Longrightarrow> all_refused E \<Longrightarrow> blank c"
  unfolding useOAuthScopeConsentMatrix_ops_def useOAuthScopeConsentMatrix_fetchMatrix_def
  by (elim UnE CollectE exE conjE singletonE; simp add: blank_intros)

lemma useOAuthScopeConsentMatrix_good: "c \<in> useOAuthScopeConsentMatrix_ops E baseUrl \<Longrightarrow> good_op without_credentials c"
  unfolding useOAuthScopeConsentMatrix_ops_def good_op_def useOAuthScopeConsentMatrix_fetchMatrix_def
  by (elim UnE CollectE exE conjE singletonE; simp add: op_intros)

section \<open>\<open>useOAuthTokenExchange\<close>\<close>

definition useOAuthTokenExchange_init :: "hook_state" where
  "useOAuthTokenExchange_init = state_of [(''result'', JNull), (''loading'', JBool False), (''error'', JNull)]"

definition useOAuthTokenExchange_exchange :: "'w env \<Rightarrow> string \<Rightarrow> string \<Rightarrow> string \<Rightarrow> string \<Rightarrow> string \<Rightarrow> string \<Rightarrow> 'w cmd" where
  "useOAuthTokenExchange_exchange E baseUrl subjectToken actorToken audience scope' resource' = setv ''loading'' (JBool True) (setv ''error'' JNull
     (try_catch E
     (send E (plain_request ''POST'' (baseUrl @ ''/api/v1/oauth/token-exchange'') json_header (Some (JObj [(''grant_type'', JStr
       ''urn:ietf:params:oauth:grant-type:token-exchange''), (''subject_token'', JStr subjectToken), (''actor_token'', js_or (JStr actorToken)
       JUndef), (''audience'', JStr audience), (''scope'', JStr scope'), (''resource'', JStr resource')]))) (\<lambda>st body.
     unless_ok st (''HTTP '' @ show_int st) (read_json body (\<lambda>v. setv ''result'' v (ret JUndef)))))
     (\<lambda>m. setv ''error'' (JStr m) (setv ''result'' JNull (ret JUndef))) [(''loading'', JBool False)]))"

definition useOAuthTokenExchange_ops :: "'w env \<Rightarrow> string \<Rightarrow> 'w cmd set" where
  "useOAuthTokenExchange_ops E baseUrl = {useOAuthTokenExchange_exchange E baseUrl subjectToken actorToken audience scope' resource' |subjectToken
       actorToken audience scope' resource'. True}"

lemma useOAuthTokenExchange_blank: "c \<in> useOAuthTokenExchange_ops E baseUrl \<Longrightarrow> all_refused E \<Longrightarrow> blank c"
  unfolding useOAuthTokenExchange_ops_def useOAuthTokenExchange_exchange_def
  by (elim UnE CollectE exE conjE singletonE; simp add: blank_intros)

lemma useOAuthTokenExchange_good: "c \<in> useOAuthTokenExchange_ops E baseUrl \<Longrightarrow> good_op without_credentials c"
  unfolding useOAuthTokenExchange_ops_def good_op_def useOAuthTokenExchange_exchange_def
  by (elim UnE CollectE exE conjE singletonE; simp add: op_intros)

section \<open>\<open>useOauthConsentFlow\<close>\<close>

definition useOauthConsentFlow_init :: "hook_state" where
  "useOauthConsentFlow_init = state_of [(''config'', JNull), (''loading'', JBool False), (''error'', JNull)]"

definition useOauthConsentFlow_fetchConfig :: "'w env \<Rightarrow> string \<Rightarrow> 'w cmd" where
  "useOauthConsentFlow_fetchConfig E baseUrl = setv ''loading'' (JBool True) (setv ''error'' JNull
     (try_catch E
     (send E (plain_request ''GET'' (baseUrl @ ''/api/v1/oauth/consent-flow-config'') [] None) (\<lambda>st body.
     unless_ok st (''HTTP '' @ show_int st) (read_json body (\<lambda>v. setv ''config'' v (ret JUndef)))))
     (\<lambda>m. setv ''error'' (JStr m) (ret JUndef)) [(''loading'', JBool False)]))"

definition useOauthConsentFlow_saveConfig :: "'w env \<Rightarrow> string \<Rightarrow> jsv \<Rightarrow> 'w cmd" where
  "useOauthConsentFlow_saveConfig E baseUrl cfg = setv ''loading'' (JBool True) (setv ''error'' JNull
     (try_catch E
     (send E (plain_request ''PUT'' (baseUrl @ ''/api/v1/oauth/consent-flow-config'') json_header (Some cfg)) (\<lambda>st body.
     unless_ok st (''HTTP '' @ show_int st) (setv ''config'' cfg (ret (JBool True)))))
     (\<lambda>m. setv ''error'' (JStr m) (ret (JBool False))) [(''loading'', JBool False)]))"

definition useOauthConsentFlow_ops :: "'w env \<Rightarrow> string \<Rightarrow> 'w cmd set" where
  "useOauthConsentFlow_ops E baseUrl = {useOauthConsentFlow_fetchConfig E baseUrl} \<union> {useOauthConsentFlow_saveConfig E baseUrl cfg |cfg. True}"

lemma useOauthConsentFlow_blank: "c \<in> useOauthConsentFlow_ops E baseUrl \<Longrightarrow> all_refused E \<Longrightarrow> blank c"
  unfolding useOauthConsentFlow_ops_def useOauthConsentFlow_fetchConfig_def useOauthConsentFlow_saveConfig_def
  by (elim UnE CollectE exE conjE singletonE; simp add: blank_intros)

lemma useOauthConsentFlow_good: "c \<in> useOauthConsentFlow_ops E baseUrl \<Longrightarrow> good_op without_credentials c"
  unfolding useOauthConsentFlow_ops_def good_op_def useOauthConsentFlow_fetchConfig_def useOauthConsentFlow_saveConfig_def
  by (elim UnE CollectE exE conjE singletonE; simp add: op_intros)

section \<open>\<open>useOidcBackchannelLogoutConfig\<close>\<close>

definition useOidcBackchannelLogoutConfig_init :: "hook_state" where
  "useOidcBackchannelLogoutConfig_init = state_of [(''config'', JNull), (''loading'', JBool False), (''error'', JNull)]"

definition useOidcBackchannelLogoutConfig_fetchConfig :: "'w env \<Rightarrow> string \<Rightarrow> 'w cmd" where
  "useOidcBackchannelLogoutConfig_fetchConfig E baseUrl = setv ''loading'' (JBool True) (setv ''error'' JNull
     (try_catch E
     (send E (plain_request ''GET'' (baseUrl @ ''/api/v1/settings/oidc-backchannel-logout-config'') [] None) (\<lambda>st body.
     unless_ok st (''HTTP '' @ show_int st) (read_json body (\<lambda>v. setv ''config'' v (ret JUndef)))))
     (\<lambda>m. setv ''error'' (JStr m) (ret JUndef)) [(''loading'', JBool False)]))"

definition useOidcBackchannelLogoutConfig_updateConfig :: "'w env \<Rightarrow> string \<Rightarrow> jsv \<Rightarrow> 'w cmd" where
  "useOidcBackchannelLogoutConfig_updateConfig E baseUrl patch = setv ''loading'' (JBool True) (setv ''error'' JNull
     (try_catch E
     (send E (plain_request ''PUT'' (baseUrl @ ''/api/v1/settings/oidc-backchannel-logout-config'') json_header (Some patch)) (\<lambda>st body.
     unless_ok st (''HTTP '' @ show_int st) (read_json body (\<lambda>data'. setv ''config'' data' (ret data')))))
     (\<lambda>m. setv ''error'' (JStr m) (ret JNull)) [(''loading'', JBool False)]))"

definition useOidcBackchannelLogoutConfig_testLogout :: "'w env \<Rightarrow> string \<Rightarrow> string \<Rightarrow> 'w cmd" where
  "useOidcBackchannelLogoutConfig_testLogout E baseUrl clientId = setv ''loading'' (JBool True) (setv ''error'' JNull
     (try_catch E
     (send E (plain_request ''POST'' (baseUrl @ ''/api/v1/settings/oidc-backchannel-logout-config/test'') json_header (Some (JObj [(''client_id'',
       JStr clientId)]))) (\<lambda>st body.
     unless_ok st (''HTTP '' @ show_int st) (read_json body (\<lambda>v. ret v))))
     (\<lambda>m. setv ''error'' (JStr m) (ret JNull)) [(''loading'', JBool False)]))"

definition useOidcBackchannelLogoutConfig_ops :: "'w env \<Rightarrow> string \<Rightarrow> 'w cmd set" where
  "useOidcBackchannelLogoutConfig_ops E baseUrl = {useOidcBackchannelLogoutConfig_fetchConfig E baseUrl} \<union>
       {useOidcBackchannelLogoutConfig_updateConfig E baseUrl patch |patch. True} \<union> {useOidcBackchannelLogoutConfig_testLogout E baseUrl
       clientId |clientId. True}"

lemma useOidcBackchannelLogoutConfig_blank: "c \<in> useOidcBackchannelLogoutConfig_ops E baseUrl \<Longrightarrow> all_refused E \<Longrightarrow> blank c"
  unfolding useOidcBackchannelLogoutConfig_ops_def useOidcBackchannelLogoutConfig_fetchConfig_def useOidcBackchannelLogoutConfig_updateConfig_def useOidcBackchannelLogoutConfig_testLogout_def
  by (elim UnE CollectE exE conjE singletonE; simp add: blank_intros)

lemma useOidcBackchannelLogoutConfig_good: "c \<in> useOidcBackchannelLogoutConfig_ops E baseUrl \<Longrightarrow> good_op without_credentials c"
  unfolding useOidcBackchannelLogoutConfig_ops_def good_op_def useOidcBackchannelLogoutConfig_fetchConfig_def useOidcBackchannelLogoutConfig_updateConfig_def useOidcBackchannelLogoutConfig_testLogout_def
  by (elim UnE CollectE exE conjE singletonE; simp add: op_intros)

section \<open>\<open>useOidcClaimConfig\<close>\<close>

definition useOidcClaimConfig_init :: "hook_state" where
  "useOidcClaimConfig_init = state_of [(''config'', JNull), (''loading'', JBool False), (''error'', JNull)]"

definition useOidcClaimConfig_fetchConfig :: "'w env \<Rightarrow> string \<Rightarrow> 'w cmd" where
  "useOidcClaimConfig_fetchConfig E baseUrl = setv ''loading'' (JBool True) (setv ''error'' JNull
     (try_catch E
     (send E (plain_request ''GET'' (baseUrl @ ''/api/v1/oauth/oidc-claim-config'') [] None) (\<lambda>st body.
     unless_ok st (''HTTP '' @ show_int st) (read_json body (\<lambda>v. setv ''config'' v (ret JUndef)))))
     (\<lambda>m. setv ''error'' (JStr m) (ret JUndef)) [(''loading'', JBool False)]))"

definition useOidcClaimConfig_saveConfig :: "'w env \<Rightarrow> string \<Rightarrow> jsv \<Rightarrow> 'w cmd" where
  "useOidcClaimConfig_saveConfig E baseUrl cfg = setv ''loading'' (JBool True) (setv ''error'' JNull
     (try_catch E
     (send E (plain_request ''PUT'' (baseUrl @ ''/api/v1/oauth/oidc-claim-config'') json_header (Some cfg)) (\<lambda>st body.
     unless_ok st (''HTTP '' @ show_int st) (ret (JBool True))))
     (\<lambda>m. setv ''error'' (JStr m) (ret (JBool False))) [(''loading'', JBool False)]))"

definition useOidcClaimConfig_ops :: "'w env \<Rightarrow> string \<Rightarrow> 'w cmd set" where
  "useOidcClaimConfig_ops E baseUrl = {useOidcClaimConfig_fetchConfig E baseUrl} \<union> {useOidcClaimConfig_saveConfig E baseUrl cfg |cfg. True}"

lemma useOidcClaimConfig_blank: "c \<in> useOidcClaimConfig_ops E baseUrl \<Longrightarrow> all_refused E \<Longrightarrow> blank c"
  unfolding useOidcClaimConfig_ops_def useOidcClaimConfig_fetchConfig_def useOidcClaimConfig_saveConfig_def
  by (elim UnE CollectE exE conjE singletonE; simp add: blank_intros)

lemma useOidcClaimConfig_good: "c \<in> useOidcClaimConfig_ops E baseUrl \<Longrightarrow> good_op without_credentials c"
  unfolding useOidcClaimConfig_ops_def good_op_def useOidcClaimConfig_fetchConfig_def useOidcClaimConfig_saveConfig_def
  by (elim UnE CollectE exE conjE singletonE; simp add: op_intros)

section \<open>\<open>useOrgChart\<close>\<close>

definition useOrgChart_init :: "hook_state" where
  "useOrgChart_init = state_of [(''tree'', JNull), (''loading'', JBool False), (''error'', JNull)]"

definition useOrgChart_fetchTree :: "'w env \<Rightarrow> string \<Rightarrow> string \<Rightarrow> 'w cmd" where
  "useOrgChart_fetchTree E baseUrl orgId = branch (orgId = []) (ret JUndef) (setv ''loading'' (JBool True) (setv ''error'' JNull
     (try_catch E
     (send E (plain_request ''GET'' (baseUrl @ ''/api/v1/org/orgs/'' @ orgId @ ''/chart'') [] None) (\<lambda>st body.
     unless_ok st (''HTTP '' @ show_int st) (read_json body (\<lambda>data'. setv ''tree'' data' (ret JUndef)))))
     (\<lambda>m. setv ''error'' (JStr m) (setv ''tree'' JNull (ret JUndef))) [(''loading'', JBool False)])))"

definition useOrgChart_ops :: "'w env \<Rightarrow> string \<Rightarrow> 'w cmd set" where
  "useOrgChart_ops E baseUrl = {useOrgChart_fetchTree E baseUrl orgId |orgId. True}"

lemma useOrgChart_blank: "c \<in> useOrgChart_ops E baseUrl \<Longrightarrow> all_refused E \<Longrightarrow> blank c"
  unfolding useOrgChart_ops_def useOrgChart_fetchTree_def
  by (elim UnE CollectE exE conjE singletonE; simp add: blank_intros)

lemma useOrgChart_good: "c \<in> useOrgChart_ops E baseUrl \<Longrightarrow> good_op without_credentials c"
  unfolding useOrgChart_ops_def good_op_def useOrgChart_fetchTree_def
  by (elim UnE CollectE exE conjE singletonE; simp add: op_intros)

section \<open>\<open>useOrgTransfer\<close>\<close>

definition useOrgTransfer_init :: "hook_state" where
  "useOrgTransfer_init = state_of [(''impact'', JNull), (''loading'', JBool False), (''error'', JNull)]"

definition useOrgTransfer_preview :: "'w env \<Rightarrow> string \<Rightarrow> string \<Rightarrow> string \<Rightarrow> 'w cmd" where
  "useOrgTransfer_preview E baseUrl userId newOrgId = setv ''loading'' (JBool True) (setv ''error'' JNull
     (try_catch E
     (send E (plain_request ''POST'' (baseUrl @ ''/api/v1/identity/org-transfer/preview'') json_header (Some (JObj [(''user_id'', JStr userId),
       (''new_org_id'', JStr newOrgId)]))) (\<lambda>st body.
     unless_ok st (''HTTP '' @ show_int st) (read_json body (\<lambda>data'. setv ''impact'' data' (ret data')))))
     (\<lambda>m. setv ''error'' (JStr m) (ret JNull)) [(''loading'', JBool False)]))"

definition useOrgTransfer_execute :: "'w env \<Rightarrow> string \<Rightarrow> string \<Rightarrow> string \<Rightarrow> 'w cmd" where
  "useOrgTransfer_execute E baseUrl userId newOrgId = setv ''loading'' (JBool True) (setv ''error'' JNull
     (try_catch E
     (send E (plain_request ''POST'' (baseUrl @ ''/api/v1/identity/org-transfer/execute'') json_header (Some (JObj [(''user_id'', JStr userId),
       (''new_org_id'', JStr newOrgId)]))) (\<lambda>st body.
     unless_ok st (''HTTP '' @ show_int st) (setv ''impact'' JNull (ret (JBool True)))))
     (\<lambda>m. setv ''error'' (JStr m) (ret (JBool False))) [(''loading'', JBool False)]))"

definition useOrgTransfer_ops :: "'w env \<Rightarrow> string \<Rightarrow> 'w cmd set" where
  "useOrgTransfer_ops E baseUrl = {useOrgTransfer_preview E baseUrl userId newOrgId |userId newOrgId. True} \<union> {useOrgTransfer_execute E baseUrl
       userId newOrgId |userId newOrgId. True}"

lemma useOrgTransfer_blank: "c \<in> useOrgTransfer_ops E baseUrl \<Longrightarrow> all_refused E \<Longrightarrow> blank c"
  unfolding useOrgTransfer_ops_def useOrgTransfer_preview_def useOrgTransfer_execute_def
  by (elim UnE CollectE exE conjE singletonE; simp add: blank_intros)

lemma useOrgTransfer_good: "c \<in> useOrgTransfer_ops E baseUrl \<Longrightarrow> good_op without_credentials c"
  unfolding useOrgTransfer_ops_def good_op_def useOrgTransfer_preview_def useOrgTransfer_execute_def
  by (elim UnE CollectE exE conjE singletonE; simp add: op_intros)

section \<open>\<open>useParConfig\<close>\<close>

definition useParConfig_init :: "hook_state" where
  "useParConfig_init = state_of [(''config'', JNull), (''loading'', JBool False), (''error'', JNull)]"

definition useParConfig_fetchConfig :: "'w env \<Rightarrow> string \<Rightarrow> 'w cmd" where
  "useParConfig_fetchConfig E baseUrl = setv ''loading'' (JBool True) (setv ''error'' JNull
     (try_catch E
     (send E (plain_request ''GET'' (baseUrl @ ''/api/v1/oauth/par-config'') [] None) (\<lambda>st body.
     unless_ok st (''HTTP '' @ show_int st) (read_json body (\<lambda>v. setv ''config'' v (ret JUndef)))))
     (\<lambda>m. setv ''error'' (JStr m) (ret JUndef)) [(''loading'', JBool False)]))"

definition useParConfig_saveConfig :: "'w env \<Rightarrow> string \<Rightarrow> jsv \<Rightarrow> 'w cmd" where
  "useParConfig_saveConfig E baseUrl cfg = setv ''loading'' (JBool True) (setv ''error'' JNull
     (try_catch E
     (send E (plain_request ''PUT'' (baseUrl @ ''/api/v1/oauth/par-config'') json_header (Some cfg)) (\<lambda>st body.
     unless_ok st (''HTTP '' @ show_int st) (setv ''config'' cfg (ret (JBool True)))))
     (\<lambda>m. setv ''error'' (JStr m) (ret (JBool False))) [(''loading'', JBool False)]))"

definition useParConfig_ops :: "'w env \<Rightarrow> string \<Rightarrow> 'w cmd set" where
  "useParConfig_ops E baseUrl = {useParConfig_fetchConfig E baseUrl} \<union> {useParConfig_saveConfig E baseUrl cfg |cfg. True}"

lemma useParConfig_blank: "c \<in> useParConfig_ops E baseUrl \<Longrightarrow> all_refused E \<Longrightarrow> blank c"
  unfolding useParConfig_ops_def useParConfig_fetchConfig_def useParConfig_saveConfig_def
  by (elim UnE CollectE exE conjE singletonE; simp add: blank_intros)

lemma useParConfig_good: "c \<in> useParConfig_ops E baseUrl \<Longrightarrow> good_op without_credentials c"
  unfolding useParConfig_ops_def good_op_def useParConfig_fetchConfig_def useParConfig_saveConfig_def
  by (elim UnE CollectE exE conjE singletonE; simp add: op_intros)

section \<open>\<open>usePasswordAgePolicy\<close>\<close>

definition usePasswordAgePolicy_init :: "hook_state" where
  "usePasswordAgePolicy_init = state_of [(''data'', JNull), (''loading'', JBool False), (''error'', JNull)]"

definition usePasswordAgePolicy_fetchPolicy :: "'w env \<Rightarrow> string \<Rightarrow> 'w cmd" where
  "usePasswordAgePolicy_fetchPolicy E baseUrl = setv ''loading'' (JBool True) (setv ''error'' JNull
     (try_catch E
     (send E (plain_request ''GET'' (baseUrl @ ''/api/v1/auth/password-age-policy'') [] None) (\<lambda>st body.
     unless_ok st (''HTTP '' @ show_int st) (read_json body (\<lambda>v. setv ''data'' v (ret JUndef)))))
     (\<lambda>m. setv ''error'' (JStr m) (ret JUndef)) [(''loading'', JBool False)]))"

definition usePasswordAgePolicy_savePolicy :: "'w env \<Rightarrow> string \<Rightarrow> jsv \<Rightarrow> 'w cmd" where
  "usePasswordAgePolicy_savePolicy E baseUrl policy' = setv ''loading'' (JBool True) (setv ''error'' JNull
     (try_catch E
     (send E (plain_request ''PUT'' (baseUrl @ ''/api/v1/auth/password-age-policy'') json_header (Some policy')) (\<lambda>st body.
     unless_ok st (''HTTP '' @ show_int st) (setv ''data'' policy' (ret (JBool True)))))
     (\<lambda>m. setv ''error'' (JStr m) (ret (JBool False))) [(''loading'', JBool False)]))"

definition usePasswordAgePolicy_ops :: "'w env \<Rightarrow> string \<Rightarrow> 'w cmd set" where
  "usePasswordAgePolicy_ops E baseUrl = {usePasswordAgePolicy_fetchPolicy E baseUrl} \<union> {usePasswordAgePolicy_savePolicy E baseUrl policy'
       |policy'. True}"

lemma usePasswordAgePolicy_blank: "c \<in> usePasswordAgePolicy_ops E baseUrl \<Longrightarrow> all_refused E \<Longrightarrow> blank c"
  unfolding usePasswordAgePolicy_ops_def usePasswordAgePolicy_fetchPolicy_def usePasswordAgePolicy_savePolicy_def
  by (elim UnE CollectE exE conjE singletonE; simp add: blank_intros)

lemma usePasswordAgePolicy_good: "c \<in> usePasswordAgePolicy_ops E baseUrl \<Longrightarrow> good_op without_credentials c"
  unfolding usePasswordAgePolicy_ops_def good_op_def usePasswordAgePolicy_fetchPolicy_def usePasswordAgePolicy_savePolicy_def
  by (elim UnE CollectE exE conjE singletonE; simp add: op_intros)

section \<open>\<open>usePasswordBreachCheck\<close>\<close>

definition usePasswordBreachCheck_init :: "hook_state" where
  "usePasswordBreachCheck_init = state_of [(''results'', JArr []), (''loading'', JBool False), (''error'', JNull)]"

definition usePasswordBreachCheck_fetchResults :: "'w env \<Rightarrow> string \<Rightarrow> 'w cmd" where
  "usePasswordBreachCheck_fetchResults E baseUrl = setv ''loading'' (JBool True) (setv ''error'' JNull
     (try_catch E
     (send E (plain_request ''GET'' (baseUrl @ ''/api/v1/auth/password-breach-check'') [] None) (\<lambda>st body.
     unless_ok st (''HTTP '' @ show_int st) (read_json body (\<lambda>data'. reads data' (setv ''results'' (js_or (js_or (js_opt_prop data'
       ''results'') data') (JArr [])) (ret JUndef))))))
     (\<lambda>m. setv ''error'' (JStr m) (ret JUndef)) [(''loading'', JBool False)]))"

definition usePasswordBreachCheck_scanNow :: "'w env \<Rightarrow> string \<Rightarrow> 'w cmd" where
  "usePasswordBreachCheck_scanNow E baseUrl = setv ''loading'' (JBool True) (setv ''error'' JNull
     (try_catch E
     (send E (plain_request ''POST'' (baseUrl @ ''/api/v1/auth/password-breach-check/scan'') [] None) (\<lambda>st body.
     unless_ok st (''HTTP '' @ show_int st) (ret (JBool True))))
     (\<lambda>m. setv ''error'' (JStr m) (ret (JBool False))) [(''loading'', JBool False)]))"

definition usePasswordBreachCheck_forceReset :: "'w env \<Rightarrow> string \<Rightarrow> string \<Rightarrow> 'w cmd" where
  "usePasswordBreachCheck_forceReset E baseUrl id' = try_catch E
     (send E (plain_request ''POST'' (baseUrl @ ''/api/v1/auth/password-breach-check/'' @ id' @ ''/force-reset'') [] None) (\<lambda>st body.
     ret (JBool True)))
     (\<lambda>m. ret (JBool False)) []"

definition usePasswordBreachCheck_ops :: "'w env \<Rightarrow> string \<Rightarrow> 'w cmd set" where
  "usePasswordBreachCheck_ops E baseUrl = {usePasswordBreachCheck_fetchResults E baseUrl} \<union> {usePasswordBreachCheck_scanNow E baseUrl} \<union>
       {usePasswordBreachCheck_forceReset E baseUrl id' |id'. True}"

lemma usePasswordBreachCheck_blank: "c \<in> usePasswordBreachCheck_ops E baseUrl \<Longrightarrow> all_refused E \<Longrightarrow> blank c"
  unfolding usePasswordBreachCheck_ops_def usePasswordBreachCheck_fetchResults_def usePasswordBreachCheck_scanNow_def usePasswordBreachCheck_forceReset_def
  by (elim UnE CollectE exE conjE singletonE; simp add: blank_intros)

lemma usePasswordBreachCheck_good: "c \<in> usePasswordBreachCheck_ops E baseUrl \<Longrightarrow> good_op without_credentials c"
  unfolding usePasswordBreachCheck_ops_def good_op_def usePasswordBreachCheck_fetchResults_def usePasswordBreachCheck_scanNow_def usePasswordBreachCheck_forceReset_def
  by (elim UnE CollectE exE conjE singletonE; simp add: op_intros)

section \<open>\<open>usePasswordPolicyConfig\<close>\<close>

definition usePasswordPolicyConfig_init :: "hook_state" where
  "usePasswordPolicyConfig_init = state_of [(''config'', JNull), (''loading'', JBool False), (''error'', JNull)]"

definition usePasswordPolicyConfig_fetchConfig :: "'w env \<Rightarrow> string \<Rightarrow> 'w cmd" where
  "usePasswordPolicyConfig_fetchConfig E baseUrl = setv ''loading'' (JBool True) (setv ''error'' JNull
     (try_catch E
     (send E (plain_request ''GET'' (baseUrl @ ''/api/v1/auth/password-policy-config'') [] None) (\<lambda>st body.
     unless_ok st (''HTTP '' @ show_int st) (read_json body (\<lambda>v. setv ''config'' v (ret JUndef)))))
     (\<lambda>m. setv ''error'' (JStr m) (ret JUndef)) [(''loading'', JBool False)]))"

definition usePasswordPolicyConfig_saveConfig :: "'w env \<Rightarrow> string \<Rightarrow> jsv \<Rightarrow> 'w cmd" where
  "usePasswordPolicyConfig_saveConfig E baseUrl cfg = setv ''loading'' (JBool True) (setv ''error'' JNull
     (try_catch E
     (send E (plain_request ''PUT'' (baseUrl @ ''/api/v1/auth/password-policy-config'') json_header (Some cfg)) (\<lambda>st body.
     unless_ok st (''HTTP '' @ show_int st) (setv ''config'' cfg (ret (JBool True)))))
     (\<lambda>m. setv ''error'' (JStr m) (ret (JBool False))) [(''loading'', JBool False)]))"

definition usePasswordPolicyConfig_ops :: "'w env \<Rightarrow> string \<Rightarrow> 'w cmd set" where
  "usePasswordPolicyConfig_ops E baseUrl = {usePasswordPolicyConfig_fetchConfig E baseUrl} \<union> {usePasswordPolicyConfig_saveConfig E baseUrl cfg
       |cfg. True}"

lemma usePasswordPolicyConfig_blank: "c \<in> usePasswordPolicyConfig_ops E baseUrl \<Longrightarrow> all_refused E \<Longrightarrow> blank c"
  unfolding usePasswordPolicyConfig_ops_def usePasswordPolicyConfig_fetchConfig_def usePasswordPolicyConfig_saveConfig_def
  by (elim UnE CollectE exE conjE singletonE; simp add: blank_intros)

lemma usePasswordPolicyConfig_good: "c \<in> usePasswordPolicyConfig_ops E baseUrl \<Longrightarrow> good_op without_credentials c"
  unfolding usePasswordPolicyConfig_ops_def good_op_def usePasswordPolicyConfig_fetchConfig_def usePasswordPolicyConfig_saveConfig_def
  by (elim UnE CollectE exE conjE singletonE; simp add: op_intros)

section \<open>\<open>usePasswordResetFlow\<close>\<close>

definition usePasswordResetFlow_init :: "hook_state" where
  "usePasswordResetFlow_init = state_of [(''config'', JNull), (''loading'', JBool False), (''error'', JNull)]"

definition usePasswordResetFlow_fetchConfig :: "'w env \<Rightarrow> string \<Rightarrow> 'w cmd" where
  "usePasswordResetFlow_fetchConfig E baseUrl = setv ''loading'' (JBool True) (setv ''error'' JNull
     (try_catch E
     (send E (plain_request ''GET'' (baseUrl @ ''/api/v1/auth/password-reset-config'') [] None) (\<lambda>st body.
     unless_ok st (''HTTP '' @ show_int st) (read_json body (\<lambda>d. reads d (setv ''config'' (js_or (js_opt_prop d ''config'') d) (ret
       JUndef))))))
     (\<lambda>m. setv ''error'' (JStr m) (ret JUndef)) [(''loading'', JBool False)]))"

definition usePasswordResetFlow_saveConfig :: "'w env \<Rightarrow> string \<Rightarrow> jsv \<Rightarrow> 'w cmd" where
  "usePasswordResetFlow_saveConfig E baseUrl cfg = setv ''loading'' (JBool True) (setv ''error'' JNull
     (try_catch E
     (send E (plain_request ''PUT'' (baseUrl @ ''/api/v1/auth/password-reset-config'') json_header (Some cfg)) (\<lambda>st body.
     unless_ok st (''HTTP '' @ show_int st) (ret (JBool True))))
     (\<lambda>m. setv ''error'' (JStr m) (ret (JBool False))) [(''loading'', JBool False)]))"

definition usePasswordResetFlow_ops :: "'w env \<Rightarrow> string \<Rightarrow> 'w cmd set" where
  "usePasswordResetFlow_ops E baseUrl = {usePasswordResetFlow_fetchConfig E baseUrl} \<union> {usePasswordResetFlow_saveConfig E baseUrl cfg |cfg.
       True}"

lemma usePasswordResetFlow_blank: "c \<in> usePasswordResetFlow_ops E baseUrl \<Longrightarrow> all_refused E \<Longrightarrow> blank c"
  unfolding usePasswordResetFlow_ops_def usePasswordResetFlow_fetchConfig_def usePasswordResetFlow_saveConfig_def
  by (elim UnE CollectE exE conjE singletonE; simp add: blank_intros)

lemma usePasswordResetFlow_good: "c \<in> usePasswordResetFlow_ops E baseUrl \<Longrightarrow> good_op without_credentials c"
  unfolding usePasswordResetFlow_ops_def good_op_def usePasswordResetFlow_fetchConfig_def usePasswordResetFlow_saveConfig_def
  by (elim UnE CollectE exE conjE singletonE; simp add: op_intros)

section \<open>\<open>usePasswordStrength\<close>\<close>

definition usePasswordStrength_init :: "hook_state" where
  "usePasswordStrength_init = state_of [(''data'', JNull), (''loading'', JBool False), (''error'', JNull)]"

definition usePasswordStrength_fetchStrength :: "'w env \<Rightarrow> string \<Rightarrow> 'w cmd" where
  "usePasswordStrength_fetchStrength E baseUrl = setv ''loading'' (JBool True) (setv ''error'' JNull
     (try_catch E
     (send E (plain_request ''GET'' (baseUrl @ ''/api/v1/auth/password-strength'') [] None) (\<lambda>st body.
     unless_ok st (''HTTP '' @ show_int st) (read_json body (\<lambda>json'. setv ''data'' json' (ret JUndef)))))
     (\<lambda>m. setv ''error'' (JStr m) (setv ''data'' JNull (ret JUndef))) [(''loading'', JBool False)]))"

definition usePasswordStrength_ops :: "'w env \<Rightarrow> string \<Rightarrow> 'w cmd set" where
  "usePasswordStrength_ops E baseUrl = {usePasswordStrength_fetchStrength E baseUrl}"

lemma usePasswordStrength_blank: "c \<in> usePasswordStrength_ops E baseUrl \<Longrightarrow> all_refused E \<Longrightarrow> blank c"
  unfolding usePasswordStrength_ops_def usePasswordStrength_fetchStrength_def
  by (elim UnE CollectE exE conjE singletonE; simp add: blank_intros)

lemma usePasswordStrength_good: "c \<in> usePasswordStrength_ops E baseUrl \<Longrightarrow> good_op without_credentials c"
  unfolding usePasswordStrength_ops_def good_op_def usePasswordStrength_fetchStrength_def
  by (elim UnE CollectE exE conjE singletonE; simp add: op_intros)

section \<open>\<open>usePermissionBoundaries\<close>\<close>

definition usePermissionBoundaries_init :: "hook_state" where
  "usePermissionBoundaries_init = state_of [(''boundaries'', JArr []), (''loading'', JBool False), (''error'', JNull)]"

definition usePermissionBoundaries_fetchBoundaries :: "'w env \<Rightarrow> string \<Rightarrow> 'w cmd" where
  "usePermissionBoundaries_fetchBoundaries E baseUrl = setv ''loading'' (JBool True) (setv ''error'' JNull
     (try_catch E
     (send E (plain_request ''GET'' (baseUrl @ ''/api/v1/policy/permission-boundaries'') [] None) (\<lambda>st body.
     unless_ok st (''HTTP '' @ show_int st) (read_json body (\<lambda>data'. reads data' (setv ''boundaries'' (js_or (js_or (js_opt_prop data'
       ''boundaries'') data') (JArr [])) (ret JUndef))))))
     (\<lambda>m. setv ''error'' (JStr m) (ret JUndef)) [(''loading'', JBool False)]))"

definition usePermissionBoundaries_updateBoundary :: "'w env \<Rightarrow> string \<Rightarrow> string \<Rightarrow> jsv \<Rightarrow> 'w cmd" where
  "usePermissionBoundaries_updateBoundary E baseUrl id' boundary = setv ''loading'' (JBool True) (setv ''error'' JNull
     (try_catch E
     (send E (plain_request ''PUT'' (baseUrl @ ''/api/v1/policy/permission-boundaries/'' @ id') json_header (Some boundary)) (\<lambda>st body.
     unless_ok st (''HTTP '' @ show_int st) (updv ''boundaries'' (map_items (\<lambda>b. if js_opt_prop b ''id'' = JStr id' then with_entries b
       (entries_of boundary) else b)) (ret (JBool True)))))
     (\<lambda>m. setv ''error'' (JStr m) (ret (JBool False))) [(''loading'', JBool False)]))"

definition usePermissionBoundaries_createBoundary :: "'w env \<Rightarrow> string \<Rightarrow> string \<Rightarrow> jsv \<Rightarrow> jsv \<Rightarrow> 'w cmd" where
  "usePermissionBoundaries_createBoundary E baseUrl role' maxScopes deniedActions = setv ''loading'' (JBool True) (setv ''error'' JNull
     (try_catch E
     (send E (plain_request ''POST'' (baseUrl @ ''/api/v1/policy/permission-boundaries'') json_header (Some (JObj [(''role'', JStr role'),
       (''max_scopes'', maxScopes), (''denied_actions'', deniedActions)]))) (\<lambda>st body.
     unless_ok st (''HTTP '' @ show_int st) (run (usePermissionBoundaries_fetchBoundaries E baseUrl) (\<lambda>_. ret (JBool True)))))
     (\<lambda>m. setv ''error'' (JStr m) (ret (JBool False))) [(''loading'', JBool False)]))"

definition usePermissionBoundaries_deleteBoundary :: "'w env \<Rightarrow> string \<Rightarrow> string \<Rightarrow> 'w cmd" where
  "usePermissionBoundaries_deleteBoundary E baseUrl id' = setv ''loading'' (JBool True) (setv ''error'' JNull
     (try_catch E
     (send E (plain_request ''DELETE'' (baseUrl @ ''/api/v1/policy/permission-boundaries/'' @ id') [] None) (\<lambda>st body.
     unless_ok st (''HTTP '' @ show_int st) (updv ''boundaries'' (filter_items (\<lambda>b. js_opt_prop b ''id'' \<noteq> JStr id')) (ret (JBool
       True)))))
     (\<lambda>m. setv ''error'' (JStr m) (ret (JBool False))) [(''loading'', JBool False)]))"

definition usePermissionBoundaries_ops :: "'w env \<Rightarrow> string \<Rightarrow> 'w cmd set" where
  "usePermissionBoundaries_ops E baseUrl = {usePermissionBoundaries_fetchBoundaries E baseUrl} \<union> {usePermissionBoundaries_updateBoundary E
       baseUrl id' boundary |id' boundary. True} \<union> {usePermissionBoundaries_createBoundary E baseUrl role' maxScopes deniedActions |role'
       maxScopes deniedActions. True} \<union> {usePermissionBoundaries_deleteBoundary E baseUrl id' |id'. True}"

lemma usePermissionBoundaries_blank: "c \<in> usePermissionBoundaries_ops E baseUrl \<Longrightarrow> all_refused E \<Longrightarrow> blank c"
  unfolding usePermissionBoundaries_ops_def usePermissionBoundaries_fetchBoundaries_def usePermissionBoundaries_updateBoundary_def usePermissionBoundaries_createBoundary_def usePermissionBoundaries_deleteBoundary_def
  by (elim UnE CollectE exE conjE singletonE; simp add: blank_intros)

lemma usePermissionBoundaries_good: "c \<in> usePermissionBoundaries_ops E baseUrl \<Longrightarrow> good_op without_credentials c"
  unfolding usePermissionBoundaries_ops_def good_op_def usePermissionBoundaries_fetchBoundaries_def usePermissionBoundaries_updateBoundary_def usePermissionBoundaries_createBoundary_def usePermissionBoundaries_deleteBoundary_def
  by (elim UnE CollectE exE conjE singletonE; simp add: op_intros)

section \<open>\<open>usePolicyApprovalWorkflow\<close>\<close>

definition usePolicyApprovalWorkflow_init :: "hook_state" where
  "usePolicyApprovalWorkflow_init = state_of [(''approvals'', JArr []), (''loading'', JBool False), (''error'', JNull)]"

definition usePolicyApprovalWorkflow_fetchApprovals :: "'w env \<Rightarrow> string \<Rightarrow> 'w cmd" where
  "usePolicyApprovalWorkflow_fetchApprovals E baseUrl = setv ''loading'' (JBool True) (setv ''error'' JNull
     (try_catch E
     (send E (plain_request ''GET'' (baseUrl @ ''/api/v1/policy/approval-workflow'') [] None) (\<lambda>st body.
     unless_ok st (''HTTP '' @ show_int st) (read_json body (\<lambda>data'. reads data' (setv ''approvals'' (js_or (js_or (js_opt_prop data'
       ''approvals'') data') (JArr [])) (ret JUndef))))))
     (\<lambda>m. setv ''error'' (JStr m) (ret JUndef)) [(''loading'', JBool False)]))"

definition usePolicyApprovalWorkflow_decide :: "'w env \<Rightarrow> string \<Rightarrow> string \<Rightarrow> string \<Rightarrow> string \<Rightarrow> 'w cmd" where
  "usePolicyApprovalWorkflow_decide E baseUrl id' decision comment = setv ''loading'' (JBool True) (setv ''error'' JNull
     (try_catch E
     (send E (plain_request ''POST'' (baseUrl @ ''/api/v1/policy/approval-workflow/'' @ id') json_header (Some (JObj [(''decision'', JStr decision),
       (''comment'', JStr comment)]))) (\<lambda>st body.
     unless_ok st (''HTTP '' @ show_int st) (ret (JBool True))))
     (\<lambda>m. setv ''error'' (JStr m) (ret (JBool False))) [(''loading'', JBool False)]))"

definition usePolicyApprovalWorkflow_ops :: "'w env \<Rightarrow> string \<Rightarrow> 'w cmd set" where
  "usePolicyApprovalWorkflow_ops E baseUrl = {usePolicyApprovalWorkflow_fetchApprovals E baseUrl} \<union> {usePolicyApprovalWorkflow_decide E baseUrl
       id' decision comment |id' decision comment. True}"

lemma usePolicyApprovalWorkflow_blank: "c \<in> usePolicyApprovalWorkflow_ops E baseUrl \<Longrightarrow> all_refused E \<Longrightarrow> blank c"
  unfolding usePolicyApprovalWorkflow_ops_def usePolicyApprovalWorkflow_fetchApprovals_def usePolicyApprovalWorkflow_decide_def
  by (elim UnE CollectE exE conjE singletonE; simp add: blank_intros)

lemma usePolicyApprovalWorkflow_good: "c \<in> usePolicyApprovalWorkflow_ops E baseUrl \<Longrightarrow> good_op without_credentials c"
  unfolding usePolicyApprovalWorkflow_ops_def good_op_def usePolicyApprovalWorkflow_fetchApprovals_def usePolicyApprovalWorkflow_decide_def
  by (elim UnE CollectE exE conjE singletonE; simp add: op_intros)

section \<open>\<open>usePolicyChangeHistory\<close>\<close>

definition usePolicyChangeHistory_init :: "hook_state" where
  "usePolicyChangeHistory_init = state_of [(''history'', JArr []), (''loading'', JBool False), (''error'', JNull)]"

definition usePolicyChangeHistory_fetchHistory :: "'w env \<Rightarrow> string \<Rightarrow> string \<Rightarrow> 'w cmd" where
  "usePolicyChangeHistory_fetchHistory E baseUrl policyId = setv ''loading'' (JBool True) (setv ''error'' JNull
     (try_catch E
     (send E (plain_request ''GET'' (baseUrl @ ''/api/v1/policy/'' @ policyId @ ''/change-history'') [] None) (\<lambda>st body.
     unless_ok st (''HTTP '' @ show_int st) (read_json body (\<lambda>data'. reads data' (setv ''history'' (js_or (js_or (js_opt_prop data'
       ''history'') data') (JArr [])) (ret JUndef))))))
     (\<lambda>m. setv ''error'' (JStr m) (ret JUndef)) [(''loading'', JBool False)]))"

definition usePolicyChangeHistory_rollback :: "'w env \<Rightarrow> string \<Rightarrow> string \<Rightarrow> string \<Rightarrow> 'w cmd" where
  "usePolicyChangeHistory_rollback E baseUrl policyId version = setv ''loading'' (JBool True) (setv ''error'' JNull
     (try_catch E
     (send E (plain_request ''POST'' (baseUrl @ ''/api/v1/policy/'' @ policyId @ ''/rollback'') json_header (Some (JObj [(''version'', JStr
       version)]))) (\<lambda>st body.
     unless_ok st (''HTTP '' @ show_int st) (ret (JBool True))))
     (\<lambda>m. setv ''error'' (JStr m) (ret (JBool False))) [(''loading'', JBool False)]))"

definition usePolicyChangeHistory_ops :: "'w env \<Rightarrow> string \<Rightarrow> 'w cmd set" where
  "usePolicyChangeHistory_ops E baseUrl = {usePolicyChangeHistory_fetchHistory E baseUrl policyId |policyId. True} \<union>
       {usePolicyChangeHistory_rollback E baseUrl policyId version |policyId version. True}"

lemma usePolicyChangeHistory_blank: "c \<in> usePolicyChangeHistory_ops E baseUrl \<Longrightarrow> all_refused E \<Longrightarrow> blank c"
  unfolding usePolicyChangeHistory_ops_def usePolicyChangeHistory_fetchHistory_def usePolicyChangeHistory_rollback_def
  by (elim UnE CollectE exE conjE singletonE; simp add: blank_intros)

lemma usePolicyChangeHistory_good: "c \<in> usePolicyChangeHistory_ops E baseUrl \<Longrightarrow> good_op without_credentials c"
  unfolding usePolicyChangeHistory_ops_def good_op_def usePolicyChangeHistory_fetchHistory_def usePolicyChangeHistory_rollback_def
  by (elim UnE CollectE exE conjE singletonE; simp add: op_intros)

section \<open>\<open>usePolicyConflicts\<close>\<close>

definition usePolicyConflicts_init :: "hook_state" where
  "usePolicyConflicts_init = state_of [(''conflicts'', JArr []), (''loading'', JBool False), (''error'', JNull)]"

definition usePolicyConflicts_fetchConflicts :: "'w env \<Rightarrow> string \<Rightarrow> 'w cmd" where
  "usePolicyConflicts_fetchConflicts E baseUrl = setv ''loading'' (JBool True) (setv ''error'' JNull
     (try_catch E
     (send E (plain_request ''GET'' (baseUrl @ ''/api/v1/policy/conflicts'') [] None) (\<lambda>st body.
     unless_ok st (''HTTP '' @ show_int st) (read_json body (\<lambda>data'. reads data' (setv ''conflicts'' (js_or (js_or (js_opt_prop data'
       ''conflicts'') data') (JArr [])) (ret JUndef))))))
     (\<lambda>m. setv ''error'' (JStr m) (ret JUndef)) [(''loading'', JBool False)]))"

definition usePolicyConflicts_ops :: "'w env \<Rightarrow> string \<Rightarrow> 'w cmd set" where
  "usePolicyConflicts_ops E baseUrl = {usePolicyConflicts_fetchConflicts E baseUrl}"

lemma usePolicyConflicts_blank: "c \<in> usePolicyConflicts_ops E baseUrl \<Longrightarrow> all_refused E \<Longrightarrow> blank c"
  unfolding usePolicyConflicts_ops_def usePolicyConflicts_fetchConflicts_def
  by (elim UnE CollectE exE conjE singletonE; simp add: blank_intros)

lemma usePolicyConflicts_good: "c \<in> usePolicyConflicts_ops E baseUrl \<Longrightarrow> good_op without_credentials c"
  unfolding usePolicyConflicts_ops_def good_op_def usePolicyConflicts_fetchConflicts_def
  by (elim UnE CollectE exE conjE singletonE; simp add: op_intros)

section \<open>\<open>usePolicyDecisionExplain\<close>\<close>

definition usePolicyDecisionExplain_init :: "hook_state" where
  "usePolicyDecisionExplain_init = state_of [(''result'', JNull), (''loading'', JBool False), (''error'', JNull)]"

definition usePolicyDecisionExplain_explain :: "'w env \<Rightarrow> string \<Rightarrow> string \<Rightarrow> string \<Rightarrow> string \<Rightarrow> 'w cmd" where
  "usePolicyDecisionExplain_explain E baseUrl subject resource' action' = setv ''loading'' (JBool True) (setv ''error'' JNull
     (try_catch E
     (send E (plain_request ''POST'' (baseUrl @ ''/api/v1/policy/decision-explain'') json_header (Some (JObj [(''subject'', JStr subject),
       (''resource'', JStr resource'), (''action'', JStr action')]))) (\<lambda>st body.
     unless_ok st (''HTTP '' @ show_int st) (read_json body (\<lambda>v. setv ''result'' v (ret JUndef)))))
     (\<lambda>m. setv ''error'' (JStr m) (ret JUndef)) [(''loading'', JBool False)]))"

definition usePolicyDecisionExplain_ops :: "'w env \<Rightarrow> string \<Rightarrow> 'w cmd set" where
  "usePolicyDecisionExplain_ops E baseUrl = {usePolicyDecisionExplain_explain E baseUrl subject resource' action' |subject resource' action'. True}"

lemma usePolicyDecisionExplain_blank: "c \<in> usePolicyDecisionExplain_ops E baseUrl \<Longrightarrow> all_refused E \<Longrightarrow> blank c"
  unfolding usePolicyDecisionExplain_ops_def usePolicyDecisionExplain_explain_def
  by (elim UnE CollectE exE conjE singletonE; simp add: blank_intros)

lemma usePolicyDecisionExplain_good: "c \<in> usePolicyDecisionExplain_ops E baseUrl \<Longrightarrow> good_op without_credentials c"
  unfolding usePolicyDecisionExplain_ops_def good_op_def usePolicyDecisionExplain_explain_def
  by (elim UnE CollectE exE conjE singletonE; simp add: op_intros)

section \<open>\<open>usePolicyDecisionLog\<close>\<close>

definition usePolicyDecisionLog_init :: "hook_state" where
  "usePolicyDecisionLog_init = state_of [(''decisions'', JArr []), (''loading'', JBool False), (''error'', JNull)]"

definition usePolicyDecisionLog_fetchDecisions :: "'w env \<Rightarrow> string \<Rightarrow> 'w cmd" where
  "usePolicyDecisionLog_fetchDecisions E baseUrl = setv ''loading'' (JBool True) (setv ''error'' JNull
     (try_catch E
     (send E (plain_request ''GET'' (baseUrl @ ''/api/v1/policy/decision-log'') [] None) (\<lambda>st body.
     unless_ok st (''HTTP '' @ show_int st) (read_json body (\<lambda>data'. reads data' (setv ''decisions'' (js_or (js_or (js_opt_prop data'
       ''decisions'') data') (JArr [])) (ret JUndef))))))
     (\<lambda>m. setv ''error'' (JStr m) (ret JUndef)) [(''loading'', JBool False)]))"

definition usePolicyDecisionLog_ops :: "'w env \<Rightarrow> string \<Rightarrow> 'w cmd set" where
  "usePolicyDecisionLog_ops E baseUrl = {usePolicyDecisionLog_fetchDecisions E baseUrl}"

lemma usePolicyDecisionLog_blank: "c \<in> usePolicyDecisionLog_ops E baseUrl \<Longrightarrow> all_refused E \<Longrightarrow> blank c"
  unfolding usePolicyDecisionLog_ops_def usePolicyDecisionLog_fetchDecisions_def
  by (elim UnE CollectE exE conjE singletonE; simp add: blank_intros)

lemma usePolicyDecisionLog_good: "c \<in> usePolicyDecisionLog_ops E baseUrl \<Longrightarrow> good_op without_credentials c"
  unfolding usePolicyDecisionLog_ops_def good_op_def usePolicyDecisionLog_fetchDecisions_def
  by (elim UnE CollectE exE conjE singletonE; simp add: op_intros)

section \<open>\<open>usePolicyDryRun\<close>\<close>

definition usePolicyDryRun_init :: "hook_state" where
  "usePolicyDryRun_init = state_of [(''result'', JNull), (''loading'', JBool False), (''error'', JNull)]"

definition usePolicyDryRun_evaluate :: "'w env \<Rightarrow> string \<Rightarrow> string \<Rightarrow> string \<Rightarrow> string \<Rightarrow> string \<Rightarrow> 'w cmd" where
  "usePolicyDryRun_evaluate E baseUrl policyId subject resource' action' = setv ''loading'' (JBool True) (setv ''error'' JNull
     (try_catch E
     (send E (plain_request ''POST'' (baseUrl @ ''/api/v1/policy/dry-run'') json_header (Some (JObj [(''policy_id'', JStr policyId), (''subject'',
       JStr subject), (''resource'', JStr resource'), (''action'', JStr action')]))) (\<lambda>st body.
     unless_ok st (''HTTP '' @ show_int st) (read_json body (\<lambda>v. setv ''result'' v (ret JUndef)))))
     (\<lambda>m. setv ''error'' (JStr m) (setv ''result'' JNull (ret JUndef))) [(''loading'', JBool False)]))"

definition usePolicyDryRun_ops :: "'w env \<Rightarrow> string \<Rightarrow> 'w cmd set" where
  "usePolicyDryRun_ops E baseUrl = {usePolicyDryRun_evaluate E baseUrl policyId subject resource' action' |policyId subject resource' action'. True}"

lemma usePolicyDryRun_blank: "c \<in> usePolicyDryRun_ops E baseUrl \<Longrightarrow> all_refused E \<Longrightarrow> blank c"
  unfolding usePolicyDryRun_ops_def usePolicyDryRun_evaluate_def
  by (elim UnE CollectE exE conjE singletonE; simp add: blank_intros)

lemma usePolicyDryRun_good: "c \<in> usePolicyDryRun_ops E baseUrl \<Longrightarrow> good_op without_credentials c"
  unfolding usePolicyDryRun_ops_def good_op_def usePolicyDryRun_evaluate_def
  by (elim UnE CollectE exE conjE singletonE; simp add: op_intros)

section \<open>\<open>usePolicyExceptions\<close>\<close>

definition usePolicyExceptions_init :: "hook_state" where
  "usePolicyExceptions_init = state_of [(''exceptions'', JArr []), (''loading'', JBool False), (''error'', JNull)]"

definition usePolicyExceptions_fetchExceptions :: "'w env \<Rightarrow> string \<Rightarrow> 'w cmd" where
  "usePolicyExceptions_fetchExceptions E baseUrl = setv ''loading'' (JBool True) (setv ''error'' JNull
     (try_catch E
     (send E (plain_request ''GET'' (baseUrl @ ''/api/v1/policy/exceptions'') [] None) (\<lambda>st body.
     unless_ok st (''HTTP '' @ show_int st) (read_json body (\<lambda>data'. reads data' (setv ''exceptions'' (js_or (js_or (js_opt_prop data'
       ''exceptions'') data') (JArr [])) (ret JUndef))))))
     (\<lambda>m. setv ''error'' (JStr m) (ret JUndef)) [(''loading'', JBool False)]))"

definition usePolicyExceptions_createException :: "'w env \<Rightarrow> string \<Rightarrow> jsv \<Rightarrow> 'w cmd" where
  "usePolicyExceptions_createException E baseUrl payload = setv ''loading'' (JBool True) (setv ''error'' JNull
     (try_catch E
     (send E (plain_request ''POST'' (baseUrl @ ''/api/v1/policy/exceptions'') json_header (Some payload)) (\<lambda>st body.
     unless_ok st (''HTTP '' @ show_int st) (ret (JBool True))))
     (\<lambda>m. setv ''error'' (JStr m) (ret (JBool False))) [(''loading'', JBool False)]))"

definition usePolicyExceptions_ops :: "'w env \<Rightarrow> string \<Rightarrow> 'w cmd set" where
  "usePolicyExceptions_ops E baseUrl = {usePolicyExceptions_fetchExceptions E baseUrl} \<union> {usePolicyExceptions_createException E baseUrl payload
       |payload. True}"

lemma usePolicyExceptions_blank: "c \<in> usePolicyExceptions_ops E baseUrl \<Longrightarrow> all_refused E \<Longrightarrow> blank c"
  unfolding usePolicyExceptions_ops_def usePolicyExceptions_fetchExceptions_def usePolicyExceptions_createException_def
  by (elim UnE CollectE exE conjE singletonE; simp add: blank_intros)

lemma usePolicyExceptions_good: "c \<in> usePolicyExceptions_ops E baseUrl \<Longrightarrow> good_op without_credentials c"
  unfolding usePolicyExceptions_ops_def good_op_def usePolicyExceptions_fetchExceptions_def usePolicyExceptions_createException_def
  by (elim UnE CollectE exE conjE singletonE; simp add: op_intros)

section \<open>\<open>usePolicyQuarantine\<close>\<close>

definition usePolicyQuarantine_init :: "hook_state" where
  "usePolicyQuarantine_init = state_of [(''data'', JNull), (''loading'', JBool False), (''error'', JNull)]"

definition usePolicyQuarantine_quarantine :: "'w env \<Rightarrow> string \<Rightarrow> string \<Rightarrow> string \<Rightarrow> int \<Rightarrow> 'w cmd" where
  "usePolicyQuarantine_quarantine E baseUrl policyId reason' durationHours = setv ''loading'' (JBool True) (setv ''error'' JNull
     (try_catch E
     (send E (plain_request ''POST'' (baseUrl @ ''/api/v1/policy/quarantine'') json_header (Some (JObj [(''policy_id'', JStr policyId), (''reason'',
       JStr reason'), (''duration_hours'', JNum durationHours)]))) (\<lambda>st body.
     unless_ok st (''HTTP '' @ show_int st) (read_json body (\<lambda>v. setv ''data'' v (ret (JBool True))))))
     (\<lambda>m. setv ''error'' (JStr m) (ret (JBool False))) [(''loading'', JBool False)]))"

definition usePolicyQuarantine_ops :: "'w env \<Rightarrow> string \<Rightarrow> 'w cmd set" where
  "usePolicyQuarantine_ops E baseUrl = {usePolicyQuarantine_quarantine E baseUrl policyId reason' durationHours |policyId reason' durationHours. True}"

lemma usePolicyQuarantine_blank: "c \<in> usePolicyQuarantine_ops E baseUrl \<Longrightarrow> all_refused E \<Longrightarrow> blank c"
  unfolding usePolicyQuarantine_ops_def usePolicyQuarantine_quarantine_def
  by (elim UnE CollectE exE conjE singletonE; simp add: blank_intros)

lemma usePolicyQuarantine_good: "c \<in> usePolicyQuarantine_ops E baseUrl \<Longrightarrow> good_op without_credentials c"
  unfolding usePolicyQuarantine_ops_def good_op_def usePolicyQuarantine_quarantine_def
  by (elim UnE CollectE exE conjE singletonE; simp add: op_intros)

section \<open>\<open>usePolicyRecommendation\<close>\<close>

definition usePolicyRecommendation_init :: "hook_state" where
  "usePolicyRecommendation_init = state_of [(''recs'', JArr []), (''loading'', JBool False), (''error'', JNull)]"

definition usePolicyRecommendation_fetchRecs :: "'w env \<Rightarrow> string \<Rightarrow> 'w cmd" where
  "usePolicyRecommendation_fetchRecs E baseUrl = setv ''loading'' (JBool True) (setv ''error'' JNull
     (try_catch E
     (send E (plain_request ''GET'' (baseUrl @ ''/api/v1/policy/recommendations'') [] None) (\<lambda>st body.
     unless_ok st (''HTTP '' @ show_int st) (read_json body (\<lambda>data'. reads data' (setv ''recs'' (js_or (js_or (js_opt_prop data'
       ''recommendations'') data') (JArr [])) (ret JUndef))))))
     (\<lambda>m. setv ''error'' (JStr m) (ret JUndef)) [(''loading'', JBool False)]))"

definition usePolicyRecommendation_apply :: "'w env \<Rightarrow> string \<Rightarrow> string \<Rightarrow> 'w cmd" where
  "usePolicyRecommendation_apply E baseUrl id' = setv ''loading'' (JBool True) (setv ''error'' JNull
     (try_catch E
     (send E (plain_request ''POST'' (baseUrl @ ''/api/v1/policy/recommendations/'' @ id' @ ''/apply'') [] None) (\<lambda>st body.
     unless_ok st (''HTTP '' @ show_int st) (ret (JBool True))))
     (\<lambda>m. setv ''error'' (JStr m) (ret (JBool False))) [(''loading'', JBool False)]))"

definition usePolicyRecommendation_dismiss :: "'w env \<Rightarrow> string \<Rightarrow> string \<Rightarrow> 'w cmd" where
  "usePolicyRecommendation_dismiss E baseUrl id' = setv ''loading'' (JBool True) (setv ''error'' JNull
     (try_catch E
     (send E (plain_request ''POST'' (baseUrl @ ''/api/v1/policy/recommendations/'' @ id' @ ''/dismiss'') [] None) (\<lambda>st body.
     unless_ok st (''HTTP '' @ show_int st) (ret (JBool True))))
     (\<lambda>m. setv ''error'' (JStr m) (ret (JBool False))) [(''loading'', JBool False)]))"

definition usePolicyRecommendation_ops :: "'w env \<Rightarrow> string \<Rightarrow> 'w cmd set" where
  "usePolicyRecommendation_ops E baseUrl = {usePolicyRecommendation_fetchRecs E baseUrl} \<union> {usePolicyRecommendation_apply E baseUrl id' |id'.
       True} \<union> {usePolicyRecommendation_dismiss E baseUrl id' |id'. True}"

lemma usePolicyRecommendation_blank: "c \<in> usePolicyRecommendation_ops E baseUrl \<Longrightarrow> all_refused E \<Longrightarrow> blank c"
  unfolding usePolicyRecommendation_ops_def usePolicyRecommendation_fetchRecs_def usePolicyRecommendation_apply_def usePolicyRecommendation_dismiss_def
  by (elim UnE CollectE exE conjE singletonE; simp add: blank_intros)

lemma usePolicyRecommendation_good: "c \<in> usePolicyRecommendation_ops E baseUrl \<Longrightarrow> good_op without_credentials c"
  unfolding usePolicyRecommendation_ops_def good_op_def usePolicyRecommendation_fetchRecs_def usePolicyRecommendation_apply_def usePolicyRecommendation_dismiss_def
  by (elim UnE CollectE exE conjE singletonE; simp add: op_intros)

section \<open>\<open>usePolicySetEval\<close>\<close>

definition usePolicySetEval_init :: "hook_state" where
  "usePolicySetEval_init = state_of [(''data'', JNull), (''loading'', JBool False), (''error'', JNull)]"

definition usePolicySetEval_evaluate :: "'w env \<Rightarrow> string \<Rightarrow> string \<Rightarrow> string \<Rightarrow> string \<Rightarrow> 'w cmd" where
  "usePolicySetEval_evaluate E baseUrl subject resource' action' = setv ''loading'' (JBool True) (setv ''error'' JNull
     (try_catch E
     (send E (plain_request ''POST'' (baseUrl @ ''/api/v1/policy/set-evaluate'') json_header (Some (JObj [(''subject'', JStr subject), (''resource'',
       JStr resource'), (''action'', JStr action')]))) (\<lambda>st body.
     unless_ok st (''HTTP '' @ show_int st) (read_json body (\<lambda>v. setv ''data'' v (ret JUndef)))))
     (\<lambda>m. setv ''error'' (JStr m) (setv ''data'' JNull (ret JUndef))) [(''loading'', JBool False)]))"

definition usePolicySetEval_ops :: "'w env \<Rightarrow> string \<Rightarrow> 'w cmd set" where
  "usePolicySetEval_ops E baseUrl = {usePolicySetEval_evaluate E baseUrl subject resource' action' |subject resource' action'. True}"

lemma usePolicySetEval_blank: "c \<in> usePolicySetEval_ops E baseUrl \<Longrightarrow> all_refused E \<Longrightarrow> blank c"
  unfolding usePolicySetEval_ops_def usePolicySetEval_evaluate_def
  by (elim UnE CollectE exE conjE singletonE; simp add: blank_intros)

lemma usePolicySetEval_good: "c \<in> usePolicySetEval_ops E baseUrl \<Longrightarrow> good_op without_credentials c"
  unfolding usePolicySetEval_ops_def good_op_def usePolicySetEval_evaluate_def
  by (elim UnE CollectE exE conjE singletonE; simp add: op_intros)

section \<open>\<open>usePolicySimulation\<close>\<close>

definition usePolicySimulation_init :: "hook_state" where
  "usePolicySimulation_init = state_of [(''results'', JArr []), (''loading'', JBool False), (''error'', JNull)]"

definition usePolicySimulation_simulate :: "'w env \<Rightarrow> string \<Rightarrow> jsv \<Rightarrow> 'w cmd" where
  "usePolicySimulation_simulate E baseUrl rules = setv ''loading'' (JBool True) (setv ''error'' JNull
     (try_catch E
     (send E (plain_request ''POST'' (baseUrl @ ''/api/v1/policy/simulate'') json_header (Some (JObj [(''rules'', rules)]))) (\<lambda>st body.
     unless_ok st (''HTTP '' @ show_int st) (read_json body (\<lambda>data'. reads data' (setv ''results'' (js_or (js_or (js_opt_prop data'
       ''results'') data') (JArr [])) (ret (JBool True)))))))
     (\<lambda>m. setv ''error'' (JStr m) (ret (JBool False))) [(''loading'', JBool False)]))"

definition usePolicySimulation_ops :: "'w env \<Rightarrow> string \<Rightarrow> 'w cmd set" where
  "usePolicySimulation_ops E baseUrl = {usePolicySimulation_simulate E baseUrl rules |rules. True}"

lemma usePolicySimulation_blank: "c \<in> usePolicySimulation_ops E baseUrl \<Longrightarrow> all_refused E \<Longrightarrow> blank c"
  unfolding usePolicySimulation_ops_def usePolicySimulation_simulate_def
  by (elim UnE CollectE exE conjE singletonE; simp add: blank_intros)

lemma usePolicySimulation_good: "c \<in> usePolicySimulation_ops E baseUrl \<Longrightarrow> good_op without_credentials c"
  unfolding usePolicySimulation_ops_def good_op_def usePolicySimulation_simulate_def
  by (elim UnE CollectE exE conjE singletonE; simp add: op_intros)

section \<open>\<open>usePolicySimulationLab\<close>\<close>

definition usePolicySimulationLab_init :: "hook_state" where
  "usePolicySimulationLab_init = state_of [(''results'', JArr []), (''loading'', JBool False), (''error'', JNull)]"

definition usePolicySimulationLab_simulate :: "'w env \<Rightarrow> string \<Rightarrow> string \<Rightarrow> string \<Rightarrow> string \<Rightarrow> 'w cmd" where
  "usePolicySimulationLab_simulate E baseUrl subject resource' action' = setv ''loading'' (JBool True) (setv ''error'' JNull
     (try_catch E
     (send E (plain_request ''POST'' (baseUrl @ ''/api/v1/policy/simulation-lab'') json_header (Some (JObj [(''subject'', JStr subject),
       (''resource'', JStr resource'), (''action'', JStr action')]))) (\<lambda>st body.
     unless_ok st (''HTTP '' @ show_int st) (read_json body (\<lambda>data'. reads data' (setv ''results'' (js_or (js_opt_prop data' ''results'')
       (JArr [])) (ret data'))))))
     (\<lambda>m. setv ''error'' (JStr m) (ret JNull)) [(''loading'', JBool False)]))"

definition usePolicySimulationLab_ops :: "'w env \<Rightarrow> string \<Rightarrow> 'w cmd set" where
  "usePolicySimulationLab_ops E baseUrl = {usePolicySimulationLab_simulate E baseUrl subject resource' action' |subject resource' action'. True}"

lemma usePolicySimulationLab_blank: "c \<in> usePolicySimulationLab_ops E baseUrl \<Longrightarrow> all_refused E \<Longrightarrow> blank c"
  unfolding usePolicySimulationLab_ops_def usePolicySimulationLab_simulate_def
  by (elim UnE CollectE exE conjE singletonE; simp add: blank_intros)

lemma usePolicySimulationLab_good: "c \<in> usePolicySimulationLab_ops E baseUrl \<Longrightarrow> good_op without_credentials c"
  unfolding usePolicySimulationLab_ops_def good_op_def usePolicySimulationLab_simulate_def
  by (elim UnE CollectE exE conjE singletonE; simp add: op_intros)

section \<open>\<open>usePolicySnapshots\<close>\<close>

definition usePolicySnapshots_init :: "hook_state" where
  "usePolicySnapshots_init = state_of [(''snapshots'', JArr []), (''loading'', JBool False), (''error'', JNull)]"

definition usePolicySnapshots_fetchSnapshots :: "'w env \<Rightarrow> string \<Rightarrow> 'w cmd" where
  "usePolicySnapshots_fetchSnapshots E baseUrl = setv ''loading'' (JBool True) (setv ''error'' JNull
     (try_catch E
     (send E (plain_request ''GET'' (baseUrl @ ''/api/v1/policy/snapshots'') [] None) (\<lambda>st body.
     unless_ok st (''HTTP '' @ show_int st) (read_json body (\<lambda>data'. reads data' (setv ''snapshots'' (js_or (js_or (js_opt_prop data'
       ''snapshots'') data') (JArr [])) (ret JUndef))))))
     (\<lambda>m. setv ''error'' (JStr m) (ret JUndef)) [(''loading'', JBool False)]))"

definition usePolicySnapshots_createSnapshot :: "'w env \<Rightarrow> string \<Rightarrow> string \<Rightarrow> jsv \<Rightarrow> 'w cmd" where
  "usePolicySnapshots_createSnapshot E baseUrl policyId description = setv ''loading'' (JBool True) (setv ''error'' JNull
     (try_catch E
     (send E (plain_request ''POST'' (baseUrl @ ''/api/v1/policy/snapshots'') json_header (Some (JObj [(''policy_id'', JStr policyId),
       (''description'', description)]))) (\<lambda>st body.
     unless_ok st (''HTTP '' @ show_int st) (run (usePolicySnapshots_fetchSnapshots E baseUrl) (\<lambda>_. ret (JBool True)))))
     (\<lambda>m. setv ''error'' (JStr m) (ret (JBool False))) [(''loading'', JBool False)]))"

definition usePolicySnapshots_rollback :: "'w env \<Rightarrow> string \<Rightarrow> string \<Rightarrow> 'w cmd" where
  "usePolicySnapshots_rollback E baseUrl snapshotId = setv ''loading'' (JBool True) (setv ''error'' JNull
     (try_catch E
     (send E (plain_request ''POST'' (baseUrl @ ''/api/v1/policy/snapshots/'' @ snapshotId @ ''/rollback'') [] None) (\<lambda>st body.
     unless_ok st (''HTTP '' @ show_int st) (run (usePolicySnapshots_fetchSnapshots E baseUrl) (\<lambda>_. ret (JBool True)))))
     (\<lambda>m. setv ''error'' (JStr m) (ret (JBool False))) [(''loading'', JBool False)]))"

definition usePolicySnapshots_effect :: "'w env \<Rightarrow> string \<Rightarrow> 'w cmd" where
  "usePolicySnapshots_effect E baseUrl = run (usePolicySnapshots_fetchSnapshots E baseUrl) (\<lambda>_. ret JUndef)"

definition usePolicySnapshots_ops :: "'w env \<Rightarrow> string \<Rightarrow> 'w cmd set" where
  "usePolicySnapshots_ops E baseUrl = {usePolicySnapshots_fetchSnapshots E baseUrl} \<union> {usePolicySnapshots_createSnapshot E baseUrl policyId
       description |policyId description. True} \<union> {usePolicySnapshots_rollback E baseUrl snapshotId |snapshotId. True} \<union>
       {usePolicySnapshots_effect E baseUrl}"

lemma usePolicySnapshots_blank: "c \<in> usePolicySnapshots_ops E baseUrl \<Longrightarrow> all_refused E \<Longrightarrow> blank c"
  unfolding usePolicySnapshots_ops_def usePolicySnapshots_fetchSnapshots_def usePolicySnapshots_createSnapshot_def usePolicySnapshots_rollback_def usePolicySnapshots_effect_def
  by (elim UnE CollectE exE conjE singletonE; simp add: blank_intros)

lemma usePolicySnapshots_good: "c \<in> usePolicySnapshots_ops E baseUrl \<Longrightarrow> good_op without_credentials c"
  unfolding usePolicySnapshots_ops_def good_op_def usePolicySnapshots_fetchSnapshots_def usePolicySnapshots_createSnapshot_def usePolicySnapshots_rollback_def usePolicySnapshots_effect_def
  by (elim UnE CollectE exE conjE singletonE; simp add: op_intros)

section \<open>\<open>usePolicyVersionDiff\<close>\<close>

definition usePolicyVersionDiff_init :: "hook_state" where
  "usePolicyVersionDiff_init = state_of [(''data'', JNull), (''loading'', JBool False), (''error'', JNull)]"

definition usePolicyVersionDiff_diff :: "'w env \<Rightarrow> string \<Rightarrow> string \<Rightarrow> string \<Rightarrow> string \<Rightarrow> 'w cmd" where
  "usePolicyVersionDiff_diff E baseUrl policyId versionA versionB = setv ''loading'' (JBool True) (setv ''error'' JNull
     (try_catch E
     (send E (plain_request ''GET'' (baseUrl @ ''/api/v1/policy/version-diff?id='' @ encodeURIComponent policyId @ ''&a='' @ encodeURIComponent
       versionA @ ''&b='' @ encodeURIComponent versionB) [] None) (\<lambda>st body.
     unless_ok st (''HTTP '' @ show_int st) (read_json body (\<lambda>v. setv ''data'' v (ret JUndef)))))
     (\<lambda>m. setv ''error'' (JStr m) (ret JUndef)) [(''loading'', JBool False)]))"

definition usePolicyVersionDiff_ops :: "'w env \<Rightarrow> string \<Rightarrow> 'w cmd set" where
  "usePolicyVersionDiff_ops E baseUrl = {usePolicyVersionDiff_diff E baseUrl policyId versionA versionB |policyId versionA versionB. True}"

lemma usePolicyVersionDiff_blank: "c \<in> usePolicyVersionDiff_ops E baseUrl \<Longrightarrow> all_refused E \<Longrightarrow> blank c"
  unfolding usePolicyVersionDiff_ops_def usePolicyVersionDiff_diff_def
  by (elim UnE CollectE exE conjE singletonE; simp add: blank_intros)

lemma usePolicyVersionDiff_good: "c \<in> usePolicyVersionDiff_ops E baseUrl \<Longrightarrow> good_op without_credentials c"
  unfolding usePolicyVersionDiff_ops_def good_op_def usePolicyVersionDiff_diff_def
  by (elim UnE CollectE exE conjE singletonE; simp add: op_intros)

section \<open>\<open>usePolicyVersioning\<close>\<close>

definition usePolicyVersioning_init :: "hook_state" where
  "usePolicyVersioning_init = state_of [(''versions'', JArr []), (''loading'', JBool False), (''error'', JNull)]"

definition usePolicyVersioning_fetchVersions :: "'w env \<Rightarrow> string \<Rightarrow> string \<Rightarrow> 'w cmd" where
  "usePolicyVersioning_fetchVersions E baseUrl policyId = setv ''loading'' (JBool True) (setv ''error'' JNull
     (try_catch E
     (send E (plain_request ''GET'' (baseUrl @ ''/api/v1/policy/'' @ policyId @ ''/versions'') [] None) (\<lambda>st body.
     unless_ok st (''HTTP '' @ show_int st) (read_json body (\<lambda>data'. reads data' (setv ''versions'' (js_or (js_or (js_opt_prop data'
       ''versions'') data') (JArr [])) (ret JUndef))))))
     (\<lambda>m. setv ''error'' (JStr m) (ret JUndef)) [(''loading'', JBool False)]))"

definition usePolicyVersioning_activate :: "'w env \<Rightarrow> string \<Rightarrow> string \<Rightarrow> int \<Rightarrow> 'w cmd" where
  "usePolicyVersioning_activate E baseUrl policyId versionNum = setv ''loading'' (JBool True) (setv ''error'' JNull
     (try_catch E
     (send E (plain_request ''POST'' (baseUrl @ ''/api/v1/policy/'' @ policyId @ ''/versions/'' @ show_int versionNum @ ''/activate'') [] None)
       (\<lambda>st body.
     unless_ok st (''HTTP '' @ show_int st) (ret (JBool True))))
     (\<lambda>m. setv ''error'' (JStr m) (ret (JBool False))) [(''loading'', JBool False)]))"

definition usePolicyVersioning_rollback :: "'w env \<Rightarrow> string \<Rightarrow> string \<Rightarrow> int \<Rightarrow> 'w cmd" where
  "usePolicyVersioning_rollback E baseUrl policyId versionNum = setv ''loading'' (JBool True) (setv ''error'' JNull
     (try_catch E
     (send E (plain_request ''POST'' (baseUrl @ ''/api/v1/policy/'' @ policyId @ ''/versions/'' @ show_int versionNum @ ''/rollback'') [] None)
       (\<lambda>st body.
     unless_ok st (''HTTP '' @ show_int st) (ret (JBool True))))
     (\<lambda>m. setv ''error'' (JStr m) (ret (JBool False))) [(''loading'', JBool False)]))"

definition usePolicyVersioning_ops :: "'w env \<Rightarrow> string \<Rightarrow> 'w cmd set" where
  "usePolicyVersioning_ops E baseUrl = {usePolicyVersioning_fetchVersions E baseUrl policyId |policyId. True} \<union> {usePolicyVersioning_activate E
       baseUrl policyId versionNum |policyId versionNum. True} \<union> {usePolicyVersioning_rollback E baseUrl policyId versionNum |policyId
       versionNum. True}"

lemma usePolicyVersioning_blank: "c \<in> usePolicyVersioning_ops E baseUrl \<Longrightarrow> all_refused E \<Longrightarrow> blank c"
  unfolding usePolicyVersioning_ops_def usePolicyVersioning_fetchVersions_def usePolicyVersioning_activate_def usePolicyVersioning_rollback_def
  by (elim UnE CollectE exE conjE singletonE; simp add: blank_intros)

lemma usePolicyVersioning_good: "c \<in> usePolicyVersioning_ops E baseUrl \<Longrightarrow> good_op without_credentials c"
  unfolding usePolicyVersioning_ops_def good_op_def usePolicyVersioning_fetchVersions_def usePolicyVersioning_activate_def usePolicyVersioning_rollback_def
  by (elim UnE CollectE exE conjE singletonE; simp add: op_intros)

section \<open>\<open>useProfileDiff\<close>\<close>

definition useProfileDiff_init :: "hook_state" where
  "useProfileDiff_init = state_of [(''result'', JNull), (''loading'', JBool False), (''error'', JNull)]"

definition useProfileDiff_diff :: "'w env \<Rightarrow> string \<Rightarrow> string \<Rightarrow> string \<Rightarrow> string \<Rightarrow> 'w cmd" where
  "useProfileDiff_diff E baseUrl userId versionA versionB = setv ''loading'' (JBool True) (setv ''error'' JNull
     (try_catch E
     (send E (plain_request ''GET'' (baseUrl @ ''/api/v1/identity/profile-diff?user_id='' @ encodeURIComponent userId @ ''&a='' @ encodeURIComponent
       versionA @ ''&b='' @ encodeURIComponent versionB) [] None) (\<lambda>st body.
     unless_ok st (''HTTP '' @ show_int st) (read_json body (\<lambda>v. setv ''result'' v (ret JUndef)))))
     (\<lambda>m. setv ''error'' (JStr m) (setv ''result'' JNull (ret JUndef))) [(''loading'', JBool False)]))"

definition useProfileDiff_ops :: "'w env \<Rightarrow> string \<Rightarrow> 'w cmd set" where
  "useProfileDiff_ops E baseUrl = {useProfileDiff_diff E baseUrl userId versionA versionB |userId versionA versionB. True}"

lemma useProfileDiff_blank: "c \<in> useProfileDiff_ops E baseUrl \<Longrightarrow> all_refused E \<Longrightarrow> blank c"
  unfolding useProfileDiff_ops_def useProfileDiff_diff_def
  by (elim UnE CollectE exE conjE singletonE; simp add: blank_intros)

lemma useProfileDiff_good: "c \<in> useProfileDiff_ops E baseUrl \<Longrightarrow> good_op without_credentials c"
  unfolding useProfileDiff_ops_def good_op_def useProfileDiff_diff_def
  by (elim UnE CollectE exE conjE singletonE; simp add: op_intros)

section \<open>\<open>useProvisioningLog\<close>\<close>

definition useProvisioningLog_init :: "hook_state" where
  "useProvisioningLog_init = state_of [(''events'', JArr []), (''loading'', JBool False), (''error'', JNull)]"

definition useProvisioningLog_fetchEvents :: "'w env \<Rightarrow> string \<Rightarrow> 'w cmd" where
  "useProvisioningLog_fetchEvents E baseUrl = setv ''loading'' (JBool True) (setv ''error'' JNull
     (try_catch E
     (send E (plain_request ''GET'' (baseUrl @ ''/api/v1/identity/provisioning-log'') [] None) (\<lambda>st body.
     unless_ok st (''HTTP '' @ show_int st) (read_json body (\<lambda>data'. reads data' (setv ''events'' (js_or (js_or (js_opt_prop data' ''events'')
       data') (JArr [])) (ret JUndef))))))
     (\<lambda>m. setv ''error'' (JStr m) (ret JUndef)) [(''loading'', JBool False)]))"

definition useProvisioningLog_retry :: "'w env \<Rightarrow> string \<Rightarrow> string \<Rightarrow> 'w cmd" where
  "useProvisioningLog_retry E baseUrl id' = setv ''loading'' (JBool True) (setv ''error'' JNull
     (try_catch E
     (send E (plain_request ''POST'' (baseUrl @ ''/api/v1/identity/provisioning-log/'' @ id' @ ''/retry'') [] None) (\<lambda>st body.
     unless_ok st (''HTTP '' @ show_int st) (ret (JBool True))))
     (\<lambda>m. setv ''error'' (JStr m) (ret (JBool False))) [(''loading'', JBool False)]))"

definition useProvisioningLog_ops :: "'w env \<Rightarrow> string \<Rightarrow> 'w cmd set" where
  "useProvisioningLog_ops E baseUrl = {useProvisioningLog_fetchEvents E baseUrl} \<union> {useProvisioningLog_retry E baseUrl id' |id'. True}"

lemma useProvisioningLog_blank: "c \<in> useProvisioningLog_ops E baseUrl \<Longrightarrow> all_refused E \<Longrightarrow> blank c"
  unfolding useProvisioningLog_ops_def useProvisioningLog_fetchEvents_def useProvisioningLog_retry_def
  by (elim UnE CollectE exE conjE singletonE; simp add: blank_intros)

lemma useProvisioningLog_good: "c \<in> useProvisioningLog_ops E baseUrl \<Longrightarrow> good_op without_credentials c"
  unfolding useProvisioningLog_ops_def good_op_def useProvisioningLog_fetchEvents_def useProvisioningLog_retry_def
  by (elim UnE CollectE exE conjE singletonE; simp add: op_intros)

section \<open>\<open>useQueryBuilder\<close>\<close>

definition useQueryBuilder_init :: "hook_state" where
  "useQueryBuilder_init = state_of [(''results'', JArr []), (''loading'', JBool False), (''error'', JNull)]"

definition useQueryBuilder_execute :: "'w env \<Rightarrow> string \<Rightarrow> jsv \<Rightarrow> 'w cmd" where
  "useQueryBuilder_execute E baseUrl query' = setv ''loading'' (JBool True) (setv ''error'' JNull
     (try_catch E
     (send E (plain_request ''POST'' (baseUrl @ ''/api/v1/audit/query'') json_header (Some query')) (\<lambda>st body.
     unless_ok st (''HTTP '' @ show_int st) (read_json body (\<lambda>data'. reads data' (setv ''results'' (js_or (js_or (js_opt_prop data'
       ''results'') data') (JArr [])) (ret JUndef))))))
     (\<lambda>m. setv ''error'' (JStr m) (ret JUndef)) [(''loading'', JBool False)]))"

definition useQueryBuilder_saveQuery :: "'w env \<Rightarrow> string \<Rightarrow> string \<Rightarrow> jsv \<Rightarrow> 'w cmd" where
  "useQueryBuilder_saveQuery E baseUrl name' query' = setv ''loading'' (JBool True) (setv ''error'' JNull
     (try_catch E
     (send E (plain_request ''POST'' (baseUrl @ ''/api/v1/audit/query/save'') json_header (Some (JObj [(''name'', JStr name'), (''query'', query')])))
       (\<lambda>st body.
     unless_ok st (''HTTP '' @ show_int st) (ret (JBool True))))
     (\<lambda>m. setv ''error'' (JStr m) (ret (JBool False))) [(''loading'', JBool False)]))"

definition useQueryBuilder_ops :: "'w env \<Rightarrow> string \<Rightarrow> 'w cmd set" where
  "useQueryBuilder_ops E baseUrl = {useQueryBuilder_execute E baseUrl query' |query'. True} \<union> {useQueryBuilder_saveQuery E baseUrl name' query'
       |name' query'. True}"

lemma useQueryBuilder_blank: "c \<in> useQueryBuilder_ops E baseUrl \<Longrightarrow> all_refused E \<Longrightarrow> blank c"
  unfolding useQueryBuilder_ops_def useQueryBuilder_execute_def useQueryBuilder_saveQuery_def
  by (elim UnE CollectE exE conjE singletonE; simp add: blank_intros)

lemma useQueryBuilder_good: "c \<in> useQueryBuilder_ops E baseUrl \<Longrightarrow> good_op without_credentials c"
  unfolding useQueryBuilder_ops_def good_op_def useQueryBuilder_execute_def useQueryBuilder_saveQuery_def
  by (elim UnE CollectE exE conjE singletonE; simp add: op_intros)

section \<open>\<open>useRecertification\<close>\<close>

definition useRecertification_init :: "hook_state" where
  "useRecertification_init = state_of [(''users'', JArr []), (''loading'', JBool False), (''error'', JNull)]"

definition useRecertification_fetchUsers :: "'w env \<Rightarrow> string \<Rightarrow> string \<Rightarrow> 'w cmd" where
  "useRecertification_fetchUsers E baseUrl teamId = branch (teamId = []) (ret JUndef) (setv ''loading'' (JBool True) (setv ''error'' JNull
     (try_catch E
     (send E (plain_request ''GET'' (baseUrl @ ''/api/v1/policy/recertification/teams/'' @ teamId @ ''/users'') [] None) (\<lambda>st body.
     unless_ok st (''HTTP '' @ show_int st) (read_json body (\<lambda>data'. reads data' (setv ''users'' (js_or (js_or (js_opt_prop data' ''users'')
       data') (JArr [])) (ret JUndef))))))
     (\<lambda>m. setv ''error'' (JStr m) (ret JUndef)) [(''loading'', JBool False)])))"

definition useRecertification_submitDecisions :: "'w env \<Rightarrow> string \<Rightarrow> string \<Rightarrow> jsv \<Rightarrow> 'w cmd" where
  "useRecertification_submitDecisions E baseUrl teamId decisions = setv ''loading'' (JBool True) (setv ''error'' JNull
     (try_catch E
     (send E (plain_request ''POST'' (baseUrl @ ''/api/v1/policy/recertification/teams/'' @ teamId @ ''/submit'') json_header (Some (JObj
       [(''decisions'', decisions)]))) (\<lambda>st body.
     unless_ok st (''HTTP '' @ show_int st) (updv ''users'' (map_items (\<lambda>u. if js_opt_prop u ''decision'' \<noteq> JStr ''pending'' then
       with_entries u [(''decision'', JStr ''pending''), (''comment'', JStr [])] else u)) (ret (JBool True)))))
     (\<lambda>m. setv ''error'' (JStr m) (ret (JBool False))) [(''loading'', JBool False)]))"

definition useRecertification_ops :: "'w env \<Rightarrow> string \<Rightarrow> 'w cmd set" where
  "useRecertification_ops E baseUrl = {useRecertification_fetchUsers E baseUrl teamId |teamId. True} \<union> {useRecertification_submitDecisions E
       baseUrl teamId decisions |teamId decisions. True}"

lemma useRecertification_blank: "c \<in> useRecertification_ops E baseUrl \<Longrightarrow> all_refused E \<Longrightarrow> blank c"
  unfolding useRecertification_ops_def useRecertification_fetchUsers_def useRecertification_submitDecisions_def
  by (elim UnE CollectE exE conjE singletonE; simp add: blank_intros)

lemma useRecertification_good: "c \<in> useRecertification_ops E baseUrl \<Longrightarrow> good_op without_credentials c"
  unfolding useRecertification_ops_def good_op_def useRecertification_fetchUsers_def useRecertification_submitDecisions_def
  by (elim UnE CollectE exE conjE singletonE; simp add: op_intros)

section \<open>\<open>useReportingStructure\<close>\<close>

definition useReportingStructure_init :: "hook_state" where
  "useReportingStructure_init = state_of [(''data'', JNull), (''loading'', JBool False), (''error'', JNull)]"

definition useReportingStructure_fetchTree :: "'w env \<Rightarrow> string \<Rightarrow> 'w cmd" where
  "useReportingStructure_fetchTree E baseUrl = setv ''loading'' (JBool True) (setv ''error'' JNull
     (try_catch E
     (send E (plain_request ''GET'' (baseUrl @ ''/api/v1/identity/reporting-structure'') [] None) (\<lambda>st body.
     unless_ok st (''HTTP '' @ show_int st) (read_json body (\<lambda>v. setv ''data'' v (ret JUndef)))))
     (\<lambda>m. setv ''error'' (JStr m) (ret JUndef)) [(''loading'', JBool False)]))"

definition useReportingStructure_ops :: "'w env \<Rightarrow> string \<Rightarrow> 'w cmd set" where
  "useReportingStructure_ops E baseUrl = {useReportingStructure_fetchTree E baseUrl}"

lemma useReportingStructure_blank: "c \<in> useReportingStructure_ops E baseUrl \<Longrightarrow> all_refused E \<Longrightarrow> blank c"
  unfolding useReportingStructure_ops_def useReportingStructure_fetchTree_def
  by (elim UnE CollectE exE conjE singletonE; simp add: blank_intros)

lemma useReportingStructure_good: "c \<in> useReportingStructure_ops E baseUrl \<Longrightarrow> good_op without_credentials c"
  unfolding useReportingStructure_ops_def good_op_def useReportingStructure_fetchTree_def
  by (elim UnE CollectE exE conjE singletonE; simp add: op_intros)

section \<open>\<open>useReviewExemptions\<close>\<close>

definition useReviewExemptions_init :: "hook_state" where
  "useReviewExemptions_init = state_of [(''exemptions'', JArr []), (''loading'', JBool False), (''error'', JNull)]"

definition useReviewExemptions_fetchExemptions :: "'w env \<Rightarrow> string \<Rightarrow> 'w cmd" where
  "useReviewExemptions_fetchExemptions E baseUrl = setv ''loading'' (JBool True) (setv ''error'' JNull
     (try_catch E
     (send E (plain_request ''GET'' (baseUrl @ ''/api/v1/policy/review-exemptions'') [] None) (\<lambda>st body.
     unless_ok st (''HTTP '' @ show_int st) (read_json body (\<lambda>data'. reads data' (setv ''exemptions'' (js_or (js_or (js_opt_prop data'
       ''exemptions'') data') (JArr [])) (ret JUndef))))))
     (\<lambda>m. setv ''error'' (JStr m) (ret JUndef)) [(''loading'', JBool False)]))"

definition useReviewExemptions_createExemption :: "'w env \<Rightarrow> string \<Rightarrow> string \<Rightarrow> string \<Rightarrow> string \<Rightarrow> 'w cmd" where
  "useReviewExemptions_createExemption E baseUrl role' reason' expiresAt = setv ''loading'' (JBool True) (setv ''error'' JNull
     (try_catch E
     (send E (plain_request ''POST'' (baseUrl @ ''/api/v1/policy/review-exemptions'') json_header (Some (JObj [(''role'', JStr role'), (''reason'',
       JStr reason'), (''expires_at'', JStr expiresAt)]))) (\<lambda>st body.
     unless_ok st (''HTTP '' @ show_int st) (run (useReviewExemptions_fetchExemptions E baseUrl) (\<lambda>_. ret (JBool True)))))
     (\<lambda>m. setv ''error'' (JStr m) (ret (JBool False))) [(''loading'', JBool False)]))"

definition useReviewExemptions_revokeExemption :: "'w env \<Rightarrow> string \<Rightarrow> string \<Rightarrow> 'w cmd" where
  "useReviewExemptions_revokeExemption E baseUrl id' = setv ''loading'' (JBool True) (setv ''error'' JNull
     (try_catch E
     (send E (plain_request ''DELETE'' (baseUrl @ ''/api/v1/policy/review-exemptions/'' @ id') [] None) (\<lambda>st body.
     unless_ok st (''HTTP '' @ show_int st) (updv ''exemptions'' (filter_items (\<lambda>e. js_opt_prop e ''id'' \<noteq> JStr id')) (ret (JBool
       True)))))
     (\<lambda>m. setv ''error'' (JStr m) (ret (JBool False))) [(''loading'', JBool False)]))"

definition useReviewExemptions_ops :: "'w env \<Rightarrow> string \<Rightarrow> 'w cmd set" where
  "useReviewExemptions_ops E baseUrl = {useReviewExemptions_fetchExemptions E baseUrl} \<union> {useReviewExemptions_createExemption E baseUrl role'
       reason' expiresAt |role' reason' expiresAt. True} \<union> {useReviewExemptions_revokeExemption E baseUrl id' |id'. True}"

lemma useReviewExemptions_blank: "c \<in> useReviewExemptions_ops E baseUrl \<Longrightarrow> all_refused E \<Longrightarrow> blank c"
  unfolding useReviewExemptions_ops_def useReviewExemptions_fetchExemptions_def useReviewExemptions_createExemption_def useReviewExemptions_revokeExemption_def
  by (elim UnE CollectE exE conjE singletonE; simp add: blank_intros)

lemma useReviewExemptions_good: "c \<in> useReviewExemptions_ops E baseUrl \<Longrightarrow> good_op without_credentials c"
  unfolding useReviewExemptions_ops_def good_op_def useReviewExemptions_fetchExemptions_def useReviewExemptions_createExemption_def useReviewExemptions_revokeExemption_def
  by (elim UnE CollectE exE conjE singletonE; simp add: op_intros)

section \<open>\<open>useRiskAggregate\<close>\<close>

definition useRiskAggregate_init :: "hook_state" where
  "useRiskAggregate_init = state_of [(''data'', JNull), (''loading'', JBool False), (''error'', JNull)]"

definition useRiskAggregate_fetchRisk :: "'w env \<Rightarrow> string \<Rightarrow> string \<Rightarrow> 'w cmd" where
  "useRiskAggregate_fetchRisk E baseUrl view = setv ''loading'' (JBool True) (setv ''error'' JNull
     (try_catch E
     (send E (plain_request ''GET'' (baseUrl @ ''/api/v1/audit/risk-aggregate?view='' @ view) [] None) (\<lambda>st body.
     unless_ok st (''HTTP '' @ show_int st) (read_json body (\<lambda>v. setv ''data'' v (ret JUndef)))))
     (\<lambda>m. setv ''error'' (JStr m) (setv ''data'' JNull (ret JUndef))) [(''loading'', JBool False)]))"

definition useRiskAggregate_ops :: "'w env \<Rightarrow> string \<Rightarrow> 'w cmd set" where
  "useRiskAggregate_ops E baseUrl = {useRiskAggregate_fetchRisk E baseUrl view |view. True}"

lemma useRiskAggregate_blank: "c \<in> useRiskAggregate_ops E baseUrl \<Longrightarrow> all_refused E \<Longrightarrow> blank c"
  unfolding useRiskAggregate_ops_def useRiskAggregate_fetchRisk_def
  by (elim UnE CollectE exE conjE singletonE; simp add: blank_intros)

lemma useRiskAggregate_good: "c \<in> useRiskAggregate_ops E baseUrl \<Longrightarrow> good_op without_credentials c"
  unfolding useRiskAggregate_ops_def good_op_def useRiskAggregate_fetchRisk_def
  by (elim UnE CollectE exE conjE singletonE; simp add: op_intros)

section \<open>\<open>useRiskPostureDashboard\<close>\<close>

definition useRiskPostureDashboard_init :: "hook_state" where
  "useRiskPostureDashboard_init = state_of [(''data'', JNull), (''loading'', JBool False), (''error'', JNull)]"

definition useRiskPostureDashboard_fetchData :: "'w env \<Rightarrow> string \<Rightarrow> 'w cmd" where
  "useRiskPostureDashboard_fetchData E baseUrl = setv ''loading'' (JBool True) (setv ''error'' JNull
     (try_catch E
     (send E (plain_request ''GET'' (baseUrl @ ''/api/v1/audit/risk-posture'') [] None) (\<lambda>st body.
     unless_ok st (''HTTP '' @ show_int st) (read_json body (\<lambda>v. setv ''data'' v (ret JUndef)))))
     (\<lambda>m. setv ''error'' (JStr m) (ret JUndef)) [(''loading'', JBool False)]))"

definition useRiskPostureDashboard_ops :: "'w env \<Rightarrow> string \<Rightarrow> 'w cmd set" where
  "useRiskPostureDashboard_ops E baseUrl = {useRiskPostureDashboard_fetchData E baseUrl}"

lemma useRiskPostureDashboard_blank: "c \<in> useRiskPostureDashboard_ops E baseUrl \<Longrightarrow> all_refused E \<Longrightarrow> blank c"
  unfolding useRiskPostureDashboard_ops_def useRiskPostureDashboard_fetchData_def
  by (elim UnE CollectE exE conjE singletonE; simp add: blank_intros)

lemma useRiskPostureDashboard_good: "c \<in> useRiskPostureDashboard_ops E baseUrl \<Longrightarrow> good_op without_credentials c"
  unfolding useRiskPostureDashboard_ops_def good_op_def useRiskPostureDashboard_fetchData_def
  by (elim UnE CollectE exE conjE singletonE; simp add: op_intros)

section \<open>\<open>useRiskProfile\<close>\<close>

definition useRiskProfile_init :: "hook_state" where
  "useRiskProfile_init = state_of [(''data'', JNull), (''loading'', JBool False), (''error'', JNull)]"

definition useRiskProfile_fetchRisk :: "'w env \<Rightarrow> string \<Rightarrow> string \<Rightarrow> 'w cmd" where
  "useRiskProfile_fetchRisk E baseUrl user' = branch (user' = []) (ret JUndef) (setv ''loading'' (JBool True) (setv ''error'' JNull
     (try_catch E
     (send E (plain_request ''GET'' (baseUrl @ ''/api/v1/auth/risk-profile?user='' @ encodeURIComponent user') [] None) (\<lambda>st body.
     unless_ok st (''HTTP '' @ show_int st) (read_json body (\<lambda>v. setv ''data'' v (ret JUndef)))))
     (\<lambda>m. setv ''error'' (JStr m) (setv ''data'' JNull (ret JUndef))) [(''loading'', JBool False)])))"

definition useRiskProfile_ops :: "'w env \<Rightarrow> string \<Rightarrow> 'w cmd set" where
  "useRiskProfile_ops E baseUrl = {useRiskProfile_fetchRisk E baseUrl user' |user'. True}"

lemma useRiskProfile_blank: "c \<in> useRiskProfile_ops E baseUrl \<Longrightarrow> all_refused E \<Longrightarrow> blank c"
  unfolding useRiskProfile_ops_def useRiskProfile_fetchRisk_def
  by (elim UnE CollectE exE conjE singletonE; simp add: blank_intros)

lemma useRiskProfile_good: "c \<in> useRiskProfile_ops E baseUrl \<Longrightarrow> good_op without_credentials c"
  unfolding useRiskProfile_ops_def good_op_def useRiskProfile_fetchRisk_def
  by (elim UnE CollectE exE conjE singletonE; simp add: op_intros)

section \<open>\<open>useRiskQuantification\<close>\<close>

definition useRiskQuantification_init :: "hook_state" where
  "useRiskQuantification_init = state_of [(''data'', JNull), (''loading'', JBool False), (''error'', JNull)]"

definition useRiskQuantification_fetchData :: "'w env \<Rightarrow> string \<Rightarrow> 'w cmd" where
  "useRiskQuantification_fetchData E baseUrl = setv ''loading'' (JBool True) (setv ''error'' JNull
     (try_catch E
     (send E (plain_request ''GET'' (baseUrl @ ''/api/v1/audit/risk-quantification'') [] None) (\<lambda>st body.
     unless_ok st (''HTTP '' @ show_int st) (read_json body (\<lambda>v. setv ''data'' v (ret JUndef)))))
     (\<lambda>m. setv ''error'' (JStr m) (ret JUndef)) [(''loading'', JBool False)]))"

definition useRiskQuantification_ops :: "'w env \<Rightarrow> string \<Rightarrow> 'w cmd set" where
  "useRiskQuantification_ops E baseUrl = {useRiskQuantification_fetchData E baseUrl}"

lemma useRiskQuantification_blank: "c \<in> useRiskQuantification_ops E baseUrl \<Longrightarrow> all_refused E \<Longrightarrow> blank c"
  unfolding useRiskQuantification_ops_def useRiskQuantification_fetchData_def
  by (elim UnE CollectE exE conjE singletonE; simp add: blank_intros)

lemma useRiskQuantification_good: "c \<in> useRiskQuantification_ops E baseUrl \<Longrightarrow> good_op without_credentials c"
  unfolding useRiskQuantification_ops_def good_op_def useRiskQuantification_fetchData_def
  by (elim UnE CollectE exE conjE singletonE; simp add: op_intros)

section \<open>\<open>useRolePermissionMatrix\<close>\<close>

definition useRolePermissionMatrix_init :: "hook_state" where
  "useRolePermissionMatrix_init = state_of [(''data'', JNull), (''loading'', JBool False), (''error'', JNull)]"

definition useRolePermissionMatrix_fetchMatrix :: "'w env \<Rightarrow> string \<Rightarrow> 'w cmd" where
  "useRolePermissionMatrix_fetchMatrix E baseUrl = setv ''loading'' (JBool True) (setv ''error'' JNull
     (try_catch E
     (send E (plain_request ''GET'' (baseUrl @ ''/api/v1/policy/role-permission-matrix'') [] None) (\<lambda>st body.
     unless_ok st (''HTTP '' @ show_int st) (read_json body (\<lambda>v. setv ''data'' v (ret JUndef)))))
     (\<lambda>m. setv ''error'' (JStr m) (ret JUndef)) [(''loading'', JBool False)]))"

definition useRolePermissionMatrix_ops :: "'w env \<Rightarrow> string \<Rightarrow> 'w cmd set" where
  "useRolePermissionMatrix_ops E baseUrl = {useRolePermissionMatrix_fetchMatrix E baseUrl}"

lemma useRolePermissionMatrix_blank: "c \<in> useRolePermissionMatrix_ops E baseUrl \<Longrightarrow> all_refused E \<Longrightarrow> blank c"
  unfolding useRolePermissionMatrix_ops_def useRolePermissionMatrix_fetchMatrix_def
  by (elim UnE CollectE exE conjE singletonE; simp add: blank_intros)

lemma useRolePermissionMatrix_good: "c \<in> useRolePermissionMatrix_ops E baseUrl \<Longrightarrow> good_op without_credentials c"
  unfolding useRolePermissionMatrix_ops_def good_op_def useRolePermissionMatrix_fetchMatrix_def
  by (elim UnE CollectE exE conjE singletonE; simp add: op_intros)

section \<open>\<open>useRoleRequests\<close>\<close>

definition useRoleRequests_init :: "hook_state" where
  "useRoleRequests_init = state_of [(''requests'', JArr []), (''loading'', JBool False), (''error'', JNull)]"

definition useRoleRequests_fetchRequests :: "'w env \<Rightarrow> string \<Rightarrow> 'w cmd" where
  "useRoleRequests_fetchRequests E baseUrl = setv ''loading'' (JBool True) (setv ''error'' JNull
     (try_catch E
     (send E (plain_request ''GET'' (baseUrl @ ''/api/v1/policy/role-requests'') [] None) (\<lambda>st body.
     unless_ok st (''HTTP '' @ show_int st) (read_json body (\<lambda>data'. reads data' (setv ''requests'' (js_or (js_or (js_opt_prop data'
       ''requests'') data') (JArr [])) (ret JUndef))))))
     (\<lambda>m. setv ''error'' (JStr m) (ret JUndef)) [(''loading'', JBool False)]))"

definition useRoleRequests_createRequest :: "'w env \<Rightarrow> string \<Rightarrow> string \<Rightarrow> string \<Rightarrow> 'w cmd" where
  "useRoleRequests_createRequest E baseUrl requestedRole justification = setv ''loading'' (JBool True) (setv ''error'' JNull
     (try_catch E
     (send E (plain_request ''POST'' (baseUrl @ ''/api/v1/policy/role-requests'') json_header (Some (JObj [(''requested_role'', JStr requestedRole),
       (''justification'', JStr justification)]))) (\<lambda>st body.
     unless_ok st (''HTTP '' @ show_int st) (run (useRoleRequests_fetchRequests E baseUrl) (\<lambda>_. ret (JBool True)))))
     (\<lambda>m. setv ''error'' (JStr m) (ret (JBool False))) [(''loading'', JBool False)]))"

definition useRoleRequests_approve :: "'w env \<Rightarrow> string \<Rightarrow> string \<Rightarrow> 'w cmd" where
  "useRoleRequests_approve E baseUrl id' = setv ''loading'' (JBool True) (setv ''error'' JNull
     (try_catch E
     (send E (plain_request ''POST'' (baseUrl @ ''/api/v1/policy/role-requests/'' @ id' @ ''/approve'') [] None) (\<lambda>st body.
     unless_ok st (''HTTP '' @ show_int st) (run (useRoleRequests_fetchRequests E baseUrl) (\<lambda>_. ret (JBool True)))))
     (\<lambda>m. setv ''error'' (JStr m) (ret (JBool False))) [(''loading'', JBool False)]))"

definition useRoleRequests_reject :: "'w env \<Rightarrow> string \<Rightarrow> string \<Rightarrow> 'w cmd" where
  "useRoleRequests_reject E baseUrl id' = setv ''loading'' (JBool True) (setv ''error'' JNull
     (try_catch E
     (send E (plain_request ''POST'' (baseUrl @ ''/api/v1/policy/role-requests/'' @ id' @ ''/reject'') [] None) (\<lambda>st body.
     unless_ok st (''HTTP '' @ show_int st) (run (useRoleRequests_fetchRequests E baseUrl) (\<lambda>_. ret (JBool True)))))
     (\<lambda>m. setv ''error'' (JStr m) (ret (JBool False))) [(''loading'', JBool False)]))"

definition useRoleRequests_ops :: "'w env \<Rightarrow> string \<Rightarrow> 'w cmd set" where
  "useRoleRequests_ops E baseUrl = {useRoleRequests_fetchRequests E baseUrl} \<union> {useRoleRequests_createRequest E baseUrl requestedRole
       justification |requestedRole justification. True} \<union> {useRoleRequests_approve E baseUrl id' |id'. True} \<union> {useRoleRequests_reject
       E baseUrl id' |id'. True}"

lemma useRoleRequests_blank: "c \<in> useRoleRequests_ops E baseUrl \<Longrightarrow> all_refused E \<Longrightarrow> blank c"
  unfolding useRoleRequests_ops_def useRoleRequests_fetchRequests_def useRoleRequests_createRequest_def useRoleRequests_approve_def useRoleRequests_reject_def
  by (elim UnE CollectE exE conjE singletonE; simp add: blank_intros)

lemma useRoleRequests_good: "c \<in> useRoleRequests_ops E baseUrl \<Longrightarrow> good_op without_credentials c"
  unfolding useRoleRequests_ops_def good_op_def useRoleRequests_fetchRequests_def useRoleRequests_createRequest_def useRoleRequests_approve_def useRoleRequests_reject_def
  by (elim UnE CollectE exE conjE singletonE; simp add: op_intros)

section \<open>\<open>useRotationReminders\<close>\<close>

definition useRotationReminders_init :: "hook_state" where
  "useRotationReminders_init = state_of [(''items'', JArr []), (''loading'', JBool False), (''error'', JNull)]"

definition useRotationReminders_fetchItems :: "'w env \<Rightarrow> string \<Rightarrow> 'w cmd" where
  "useRotationReminders_fetchItems E baseUrl = setv ''loading'' (JBool True) (setv ''error'' JNull
     (try_catch E
     (send E (plain_request ''GET'' (baseUrl @ ''/api/v1/auth/rotation-reminders'') [] None) (\<lambda>st body.
     unless_ok st (''HTTP '' @ show_int st) (read_json body (\<lambda>data'. reads data' (setv ''items'' (js_or (js_or (js_opt_prop data' ''items'')
       data') (JArr [])) (ret JUndef))))))
     (\<lambda>m. setv ''error'' (JStr m) (ret JUndef)) [(''loading'', JBool False)]))"

definition useRotationReminders_sendReminder :: "'w env \<Rightarrow> string \<Rightarrow> string \<Rightarrow> 'w cmd" where
  "useRotationReminders_sendReminder E baseUrl id' = setv ''loading'' (JBool True) (setv ''error'' JNull
     (try_catch E
     (send E (plain_request ''POST'' (baseUrl @ ''/api/v1/auth/rotation-reminders/'' @ id' @ ''/send'') [] None) (\<lambda>st body.
     unless_ok st (''HTTP '' @ show_int st) (ret (JBool True))))
     (\<lambda>m. setv ''error'' (JStr m) (ret (JBool False))) [(''loading'', JBool False)]))"

definition useRotationReminders_ops :: "'w env \<Rightarrow> string \<Rightarrow> 'w cmd set" where
  "useRotationReminders_ops E baseUrl = {useRotationReminders_fetchItems E baseUrl} \<union> {useRotationReminders_sendReminder E baseUrl id' |id'.
       True}"

lemma useRotationReminders_blank: "c \<in> useRotationReminders_ops E baseUrl \<Longrightarrow> all_refused E \<Longrightarrow> blank c"
  unfolding useRotationReminders_ops_def useRotationReminders_fetchItems_def useRotationReminders_sendReminder_def
  by (elim UnE CollectE exE conjE singletonE; simp add: blank_intros)

lemma useRotationReminders_good: "c \<in> useRotationReminders_ops E baseUrl \<Longrightarrow> good_op without_credentials c"
  unfolding useRotationReminders_ops_def good_op_def useRotationReminders_fetchItems_def useRotationReminders_sendReminder_def
  by (elim UnE CollectE exE conjE singletonE; simp add: op_intros)

section \<open>\<open>useSIEMHealth\<close>\<close>

definition useSIEMHealth_init :: "hook_state" where
  "useSIEMHealth_init = state_of [(''destinations'', JArr []), (''loading'', JBool False), (''error'', JNull)]"

definition useSIEMHealth_fetchHealth :: "'w env \<Rightarrow> string \<Rightarrow> 'w cmd" where
  "useSIEMHealth_fetchHealth E baseUrl = setv ''loading'' (JBool True) (setv ''error'' JNull
     (try_catch E
     (send E (plain_request ''GET'' (baseUrl @ ''/api/v1/audit/siem-health'') [] None) (\<lambda>st body.
     unless_ok st (''HTTP '' @ show_int st) (read_json body (\<lambda>data'. reads data' (setv ''destinations'' (js_or (js_or (js_opt_prop data'
       ''destinations'') data') (JArr [])) (ret JUndef))))))
     (\<lambda>m. setv ''error'' (JStr m) (ret JUndef)) [(''loading'', JBool False)]))"

definition useSIEMHealth_ops :: "'w env \<Rightarrow> string \<Rightarrow> 'w cmd set" where
  "useSIEMHealth_ops E baseUrl = {useSIEMHealth_fetchHealth E baseUrl}"

lemma useSIEMHealth_blank: "c \<in> useSIEMHealth_ops E baseUrl \<Longrightarrow> all_refused E \<Longrightarrow> blank c"
  unfolding useSIEMHealth_ops_def useSIEMHealth_fetchHealth_def
  by (elim UnE CollectE exE conjE singletonE; simp add: blank_intros)

lemma useSIEMHealth_good: "c \<in> useSIEMHealth_ops E baseUrl \<Longrightarrow> good_op without_credentials c"
  unfolding useSIEMHealth_ops_def good_op_def useSIEMHealth_fetchHealth_def
  by (elim UnE CollectE exE conjE singletonE; simp add: op_intros)

section \<open>\<open>useSamlAttributeMapping\<close>\<close>

definition useSamlAttributeMapping_init :: "hook_state" where
  "useSamlAttributeMapping_init = state_of [(''mappings'', JArr []), (''loading'', JBool False), (''error'', JNull)]"

definition useSamlAttributeMapping_fetchMappings :: "'w env \<Rightarrow> string \<Rightarrow> 'w cmd" where
  "useSamlAttributeMapping_fetchMappings E baseUrl = setv ''loading'' (JBool True) (setv ''error'' JNull
     (try_catch E
     (send E (plain_request ''GET'' (baseUrl @ ''/api/v1/auth/saml-attribute-mapping'') [] None) (\<lambda>st body.
     unless_ok st (''HTTP '' @ show_int st) (read_json body (\<lambda>d. reads d (setv ''mappings'' (js_or (js_opt_prop d ''mappings'') (JArr []))
       (ret JUndef))))))
     (\<lambda>m. setv ''error'' (JStr m) (ret JUndef)) [(''loading'', JBool False)]))"

definition useSamlAttributeMapping_addMapping :: "'w env \<Rightarrow> string \<Rightarrow> jsv \<Rightarrow> 'w cmd" where
  "useSamlAttributeMapping_addMapping E baseUrl m' = setv ''loading'' (JBool True) (setv ''error'' JNull
     (try_catch E
     (send E (plain_request ''POST'' (baseUrl @ ''/api/v1/auth/saml-attribute-mapping'') json_header (Some m')) (\<lambda>st body.
     unless_ok st (''HTTP '' @ show_int st) (ret (JBool True))))
     (\<lambda>m. setv ''error'' (JStr m) (ret (JBool False))) [(''loading'', JBool False)]))"

definition useSamlAttributeMapping_ops :: "'w env \<Rightarrow> string \<Rightarrow> 'w cmd set" where
  "useSamlAttributeMapping_ops E baseUrl = {useSamlAttributeMapping_fetchMappings E baseUrl} \<union> {useSamlAttributeMapping_addMapping E baseUrl m'
       |m'. True}"

lemma useSamlAttributeMapping_blank: "c \<in> useSamlAttributeMapping_ops E baseUrl \<Longrightarrow> all_refused E \<Longrightarrow> blank c"
  unfolding useSamlAttributeMapping_ops_def useSamlAttributeMapping_fetchMappings_def useSamlAttributeMapping_addMapping_def
  by (elim UnE CollectE exE conjE singletonE; simp add: blank_intros)

lemma useSamlAttributeMapping_good: "c \<in> useSamlAttributeMapping_ops E baseUrl \<Longrightarrow> good_op without_credentials c"
  unfolding useSamlAttributeMapping_ops_def good_op_def useSamlAttributeMapping_fetchMappings_def useSamlAttributeMapping_addMapping_def
  by (elim UnE CollectE exE conjE singletonE; simp add: op_intros)

section \<open>\<open>useSamlSpHealth\<close>\<close>

definition useSamlSpHealth_init :: "hook_state" where
  "useSamlSpHealth_init = state_of [(''data'', JNull), (''loading'', JBool False), (''error'', JNull)]"

definition useSamlSpHealth_fetchHealth :: "'w env \<Rightarrow> string \<Rightarrow> 'w cmd" where
  "useSamlSpHealth_fetchHealth E baseUrl = setv ''loading'' (JBool True) (setv ''error'' JNull
     (try_catch E
     (send E (plain_request ''GET'' (baseUrl @ ''/api/v1/oauth/saml-sp-health'') [] None) (\<lambda>st body.
     unless_ok st (''HTTP '' @ show_int st) (read_json body (\<lambda>v. setv ''data'' v (ret JUndef)))))
     (\<lambda>m. setv ''error'' (JStr m) (ret JUndef)) [(''loading'', JBool False)]))"

definition useSamlSpHealth_ops :: "'w env \<Rightarrow> string \<Rightarrow> 'w cmd set" where
  "useSamlSpHealth_ops E baseUrl = {useSamlSpHealth_fetchHealth E baseUrl}"

lemma useSamlSpHealth_blank: "c \<in> useSamlSpHealth_ops E baseUrl \<Longrightarrow> all_refused E \<Longrightarrow> blank c"
  unfolding useSamlSpHealth_ops_def useSamlSpHealth_fetchHealth_def
  by (elim UnE CollectE exE conjE singletonE; simp add: blank_intros)

lemma useSamlSpHealth_good: "c \<in> useSamlSpHealth_ops E baseUrl \<Longrightarrow> good_op without_credentials c"
  unfolding useSamlSpHealth_ops_def good_op_def useSamlSpHealth_fetchHealth_def
  by (elim UnE CollectE exE conjE singletonE; simp add: op_intros)

section \<open>\<open>useScimGroupMapping\<close>\<close>

definition useScimGroupMapping_init :: "hook_state" where
  "useScimGroupMapping_init = state_of [(''mappings'', JArr []), (''loading'', JBool False), (''error'', JNull)]"

definition useScimGroupMapping_fetchMappings :: "'w env \<Rightarrow> string \<Rightarrow> 'w cmd" where
  "useScimGroupMapping_fetchMappings E baseUrl = setv ''loading'' (JBool True) (setv ''error'' JNull
     (try_catch E
     (send E (plain_request ''GET'' (baseUrl @ ''/api/v1/identity/scim-group-mapping'') [] None) (\<lambda>st body.
     unless_ok st (''HTTP '' @ show_int st) (read_json body (\<lambda>d. reads d (setv ''mappings'' (js_or (js_or (js_opt_prop d ''mappings'') d)
       (JArr [])) (ret JUndef))))))
     (\<lambda>m. setv ''error'' (JStr m) (ret JUndef)) [(''loading'', JBool False)]))"

definition useScimGroupMapping_ops :: "'w env \<Rightarrow> string \<Rightarrow> 'w cmd set" where
  "useScimGroupMapping_ops E baseUrl = {useScimGroupMapping_fetchMappings E baseUrl}"

lemma useScimGroupMapping_blank: "c \<in> useScimGroupMapping_ops E baseUrl \<Longrightarrow> all_refused E \<Longrightarrow> blank c"
  unfolding useScimGroupMapping_ops_def useScimGroupMapping_fetchMappings_def
  by (elim UnE CollectE exE conjE singletonE; simp add: blank_intros)

lemma useScimGroupMapping_good: "c \<in> useScimGroupMapping_ops E baseUrl \<Longrightarrow> good_op without_credentials c"
  unfolding useScimGroupMapping_ops_def good_op_def useScimGroupMapping_fetchMappings_def
  by (elim UnE CollectE exE conjE singletonE; simp add: op_intros)

section \<open>\<open>useScimProvisioning\<close>\<close>

definition useScimProvisioning_init :: "hook_state" where
  "useScimProvisioning_init = state_of [(''data'', JNull), (''loading'', JBool False), (''error'', JNull)]"

definition useScimProvisioning_fetchData :: "'w env \<Rightarrow> string \<Rightarrow> 'w cmd" where
  "useScimProvisioning_fetchData E baseUrl = setv ''loading'' (JBool True) (setv ''error'' JNull
     (try_catch E
     (send E (plain_request ''GET'' (baseUrl @ ''/api/v1/identity/scim-provisioning'') [] None) (\<lambda>st body.
     unless_ok st (''HTTP '' @ show_int st) (read_json body (\<lambda>v. setv ''data'' v (ret JUndef)))))
     (\<lambda>m. setv ''error'' (JStr m) (ret JUndef)) [(''loading'', JBool False)]))"

definition useScimProvisioning_ops :: "'w env \<Rightarrow> string \<Rightarrow> 'w cmd set" where
  "useScimProvisioning_ops E baseUrl = {useScimProvisioning_fetchData E baseUrl}"

lemma useScimProvisioning_blank: "c \<in> useScimProvisioning_ops E baseUrl \<Longrightarrow> all_refused E \<Longrightarrow> blank c"
  unfolding useScimProvisioning_ops_def useScimProvisioning_fetchData_def
  by (elim UnE CollectE exE conjE singletonE; simp add: blank_intros)

lemma useScimProvisioning_good: "c \<in> useScimProvisioning_ops E baseUrl \<Longrightarrow> good_op without_credentials c"
  unfolding useScimProvisioning_ops_def good_op_def useScimProvisioning_fetchData_def
  by (elim UnE CollectE exE conjE singletonE; simp add: op_intros)

section \<open>\<open>useScimProvisioningConfig\<close>\<close>

definition useScimProvisioningConfig_init :: "hook_state" where
  "useScimProvisioningConfig_init = state_of [(''config'', JNull), (''loading'', JBool False), (''error'', JNull)]"

definition useScimProvisioningConfig_fetchConfig :: "'w env \<Rightarrow> string \<Rightarrow> 'w cmd" where
  "useScimProvisioningConfig_fetchConfig E baseUrl = setv ''loading'' (JBool True) (setv ''error'' JNull
     (try_catch E
     (send E (plain_request ''GET'' (baseUrl @ ''/api/v1/settings/scim-provisioning-config'') [] None) (\<lambda>st body.
     unless_ok st (''HTTP '' @ show_int st) (read_json body (\<lambda>v. setv ''config'' v (ret JUndef)))))
     (\<lambda>m. setv ''error'' (JStr m) (ret JUndef)) [(''loading'', JBool False)]))"

definition useScimProvisioningConfig_updateConfig :: "'w env \<Rightarrow> string \<Rightarrow> jsv \<Rightarrow> 'w cmd" where
  "useScimProvisioningConfig_updateConfig E baseUrl patch = setv ''loading'' (JBool True) (setv ''error'' JNull
     (try_catch E
     (send E (plain_request ''PUT'' (baseUrl @ ''/api/v1/settings/scim-provisioning-config'') json_header (Some patch)) (\<lambda>st body.
     unless_ok st (''HTTP '' @ show_int st) (read_json body (\<lambda>data'. setv ''config'' data' (ret data')))))
     (\<lambda>m. setv ''error'' (JStr m) (ret JNull)) [(''loading'', JBool False)]))"

definition useScimProvisioningConfig_testConnection :: "'w env \<Rightarrow> string \<Rightarrow> 'w cmd" where
  "useScimProvisioningConfig_testConnection E baseUrl = setv ''loading'' (JBool True) (setv ''error'' JNull
     (try_catch E
     (send E (plain_request ''POST'' (baseUrl @ ''/api/v1/settings/scim-provisioning-config/test'') [] None) (\<lambda>st body.
     unless_ok st (''HTTP '' @ show_int st) (read_json body (\<lambda>v. ret v))))
     (\<lambda>m. setv ''error'' (JStr m) (ret JNull)) [(''loading'', JBool False)]))"

definition useScimProvisioningConfig_ops :: "'w env \<Rightarrow> string \<Rightarrow> 'w cmd set" where
  "useScimProvisioningConfig_ops E baseUrl = {useScimProvisioningConfig_fetchConfig E baseUrl} \<union> {useScimProvisioningConfig_updateConfig E
       baseUrl patch |patch. True} \<union> {useScimProvisioningConfig_testConnection E baseUrl}"

lemma useScimProvisioningConfig_blank: "c \<in> useScimProvisioningConfig_ops E baseUrl \<Longrightarrow> all_refused E \<Longrightarrow> blank c"
  unfolding useScimProvisioningConfig_ops_def useScimProvisioningConfig_fetchConfig_def useScimProvisioningConfig_updateConfig_def useScimProvisioningConfig_testConnection_def
  by (elim UnE CollectE exE conjE singletonE; simp add: blank_intros)

lemma useScimProvisioningConfig_good: "c \<in> useScimProvisioningConfig_ops E baseUrl \<Longrightarrow> good_op without_credentials c"
  unfolding useScimProvisioningConfig_ops_def good_op_def useScimProvisioningConfig_fetchConfig_def useScimProvisioningConfig_updateConfig_def useScimProvisioningConfig_testConnection_def
  by (elim UnE CollectE exE conjE singletonE; simp add: op_intros)

section \<open>\<open>useScimSyncHealth\<close>\<close>

definition useScimSyncHealth_init :: "hook_state" where
  "useScimSyncHealth_init = state_of [(''data'', JNull), (''loading'', JBool False), (''error'', JNull)]"

definition useScimSyncHealth_fetchHealth :: "'w env \<Rightarrow> string \<Rightarrow> 'w cmd" where
  "useScimSyncHealth_fetchHealth E baseUrl = setv ''loading'' (JBool True) (setv ''error'' JNull
     (try_catch E
     (send E (plain_request ''GET'' (baseUrl @ ''/api/v1/identity/scim-sync-health'') [] None) (\<lambda>st body.
     unless_ok st (''HTTP '' @ show_int st) (read_json body (\<lambda>v. setv ''data'' v (ret JUndef)))))
     (\<lambda>m. setv ''error'' (JStr m) (ret JUndef)) [(''loading'', JBool False)]))"

definition useScimSyncHealth_ops :: "'w env \<Rightarrow> string \<Rightarrow> 'w cmd set" where
  "useScimSyncHealth_ops E baseUrl = {useScimSyncHealth_fetchHealth E baseUrl}"

lemma useScimSyncHealth_blank: "c \<in> useScimSyncHealth_ops E baseUrl \<Longrightarrow> all_refused E \<Longrightarrow> blank c"
  unfolding useScimSyncHealth_ops_def useScimSyncHealth_fetchHealth_def
  by (elim UnE CollectE exE conjE singletonE; simp add: blank_intros)

lemma useScimSyncHealth_good: "c \<in> useScimSyncHealth_ops E baseUrl \<Longrightarrow> good_op without_credentials c"
  unfolding useScimSyncHealth_ops_def good_op_def useScimSyncHealth_fetchHealth_def
  by (elim UnE CollectE exE conjE singletonE; simp add: op_intros)

section \<open>\<open>useScopeCatalog\<close>\<close>

definition useScopeCatalog_init :: "hook_state" where
  "useScopeCatalog_init = state_of [(''scopes'', JArr []), (''loading'', JBool False), (''error'', JNull)]"

definition useScopeCatalog_fetchScopes :: "'w env \<Rightarrow> string \<Rightarrow> 'w cmd" where
  "useScopeCatalog_fetchScopes E baseUrl = setv ''loading'' (JBool True) (setv ''error'' JNull
     (try_catch E
     (send E (plain_request ''GET'' (baseUrl @ ''/api/v1/oauth/scope-catalog'') [] None) (\<lambda>st body.
     unless_ok st (''HTTP '' @ show_int st) (read_json body (\<lambda>data'. reads data' (setv ''scopes'' (js_or (js_or (js_opt_prop data' ''scopes'')
       data') (JArr [])) (ret JUndef))))))
     (\<lambda>m. setv ''error'' (JStr m) (ret JUndef)) [(''loading'', JBool False)]))"

definition useScopeCatalog_addScope :: "'w env \<Rightarrow> string \<Rightarrow> jsv \<Rightarrow> 'w cmd" where
  "useScopeCatalog_addScope E baseUrl payload = setv ''loading'' (JBool True) (setv ''error'' JNull
     (try_catch E
     (send E (plain_request ''POST'' (baseUrl @ ''/api/v1/oauth/scope-catalog'') json_header (Some payload)) (\<lambda>st body.
     unless_ok st (''HTTP '' @ show_int st) (ret (JBool True))))
     (\<lambda>m. setv ''error'' (JStr m) (ret (JBool False))) [(''loading'', JBool False)]))"

definition useScopeCatalog_deprecateScope :: "'w env \<Rightarrow> string \<Rightarrow> string \<Rightarrow> 'w cmd" where
  "useScopeCatalog_deprecateScope E baseUrl name' = setv ''loading'' (JBool True) (setv ''error'' JNull
     (try_catch E
     (send E (plain_request ''POST'' (baseUrl @ ''/api/v1/oauth/scope-catalog/'' @ name' @ ''/deprecate'') [] None) (\<lambda>st body.
     unless_ok st (''HTTP '' @ show_int st) (ret (JBool True))))
     (\<lambda>m. setv ''error'' (JStr m) (ret (JBool False))) [(''loading'', JBool False)]))"

definition useScopeCatalog_ops :: "'w env \<Rightarrow> string \<Rightarrow> 'w cmd set" where
  "useScopeCatalog_ops E baseUrl = {useScopeCatalog_fetchScopes E baseUrl} \<union> {useScopeCatalog_addScope E baseUrl payload |payload. True}
       \<union> {useScopeCatalog_deprecateScope E baseUrl name' |name'. True}"

lemma useScopeCatalog_blank: "c \<in> useScopeCatalog_ops E baseUrl \<Longrightarrow> all_refused E \<Longrightarrow> blank c"
  unfolding useScopeCatalog_ops_def useScopeCatalog_fetchScopes_def useScopeCatalog_addScope_def useScopeCatalog_deprecateScope_def
  by (elim UnE CollectE exE conjE singletonE; simp add: blank_intros)

lemma useScopeCatalog_good: "c \<in> useScopeCatalog_ops E baseUrl \<Longrightarrow> good_op without_credentials c"
  unfolding useScopeCatalog_ops_def good_op_def useScopeCatalog_fetchScopes_def useScopeCatalog_addScope_def useScopeCatalog_deprecateScope_def
  by (elim UnE CollectE exE conjE singletonE; simp add: op_intros)

section \<open>\<open>useScopeDrift\<close>\<close>

definition useScopeDrift_init :: "hook_state" where
  "useScopeDrift_init = state_of [(''data'', JNull), (''loading'', JBool False), (''error'', JNull)]"

definition useScopeDrift_fetchDrift :: "'w env \<Rightarrow> string \<Rightarrow> string \<Rightarrow> 'w cmd" where
  "useScopeDrift_fetchDrift E baseUrl clientId = setv ''loading'' (JBool True) (setv ''error'' JNull
     (try_catch E
     (send E (plain_request ''GET'' (baseUrl @ ''/api/v1/oauth/scope-drift?client_id='' @ encodeURIComponent clientId) [] None) (\<lambda>st body.
     unless_ok st (''HTTP '' @ show_int st) (read_json body (\<lambda>v. setv ''data'' v (ret JUndef)))))
     (\<lambda>m. setv ''error'' (JStr m) (ret JUndef)) [(''loading'', JBool False)]))"

definition useScopeDrift_revokeUnused :: "'w env \<Rightarrow> string \<Rightarrow> string \<Rightarrow> 'w cmd" where
  "useScopeDrift_revokeUnused E baseUrl clientId = setv ''loading'' (JBool True) (setv ''error'' JNull
     (try_catch E
     (send E (plain_request ''POST'' (baseUrl @ ''/api/v1/oauth/scope-drift/revoke-unused'') json_header (Some (JObj [(''client_id'', JStr
       clientId)]))) (\<lambda>st body.
     unless_ok st (''HTTP '' @ show_int st) (ret (JBool True))))
     (\<lambda>m. setv ''error'' (JStr m) (ret (JBool False))) [(''loading'', JBool False)]))"

definition useScopeDrift_ops :: "'w env \<Rightarrow> string \<Rightarrow> 'w cmd set" where
  "useScopeDrift_ops E baseUrl = {useScopeDrift_fetchDrift E baseUrl clientId |clientId. True} \<union> {useScopeDrift_revokeUnused E baseUrl clientId
       |clientId. True}"

lemma useScopeDrift_blank: "c \<in> useScopeDrift_ops E baseUrl \<Longrightarrow> all_refused E \<Longrightarrow> blank c"
  unfolding useScopeDrift_ops_def useScopeDrift_fetchDrift_def useScopeDrift_revokeUnused_def
  by (elim UnE CollectE exE conjE singletonE; simp add: blank_intros)

lemma useScopeDrift_good: "c \<in> useScopeDrift_ops E baseUrl \<Longrightarrow> good_op without_credentials c"
  unfolding useScopeDrift_ops_def good_op_def useScopeDrift_fetchDrift_def useScopeDrift_revokeUnused_def
  by (elim UnE CollectE exE conjE singletonE; simp add: op_intros)

section \<open>\<open>useScopeLifecycle\<close>\<close>

definition useScopeLifecycle_init :: "hook_state" where
  "useScopeLifecycle_init = state_of [(''requests'', JArr []), (''loading'', JBool False), (''error'', JNull)]"

definition useScopeLifecycle_fetchRequests :: "'w env \<Rightarrow> string \<Rightarrow> 'w cmd" where
  "useScopeLifecycle_fetchRequests E baseUrl = setv ''loading'' (JBool True) (setv ''error'' JNull
     (try_catch E
     (send E (plain_request ''GET'' (baseUrl @ ''/api/v1/oauth/scope-lifecycle'') [] None) (\<lambda>st body.
     unless_ok st (''HTTP '' @ show_int st) (read_json body (\<lambda>data'. reads data' (setv ''requests'' (js_or (js_or (js_opt_prop data'
       ''requests'') data') (JArr [])) (ret JUndef))))))
     (\<lambda>m. setv ''error'' (JStr m) (ret JUndef)) [(''loading'', JBool False)]))"

definition useScopeLifecycle_ops :: "'w env \<Rightarrow> string \<Rightarrow> 'w cmd set" where
  "useScopeLifecycle_ops E baseUrl = {useScopeLifecycle_fetchRequests E baseUrl}"

lemma useScopeLifecycle_blank: "c \<in> useScopeLifecycle_ops E baseUrl \<Longrightarrow> all_refused E \<Longrightarrow> blank c"
  unfolding useScopeLifecycle_ops_def useScopeLifecycle_fetchRequests_def
  by (elim UnE CollectE exE conjE singletonE; simp add: blank_intros)

lemma useScopeLifecycle_good: "c \<in> useScopeLifecycle_ops E baseUrl \<Longrightarrow> good_op without_credentials c"
  unfolding useScopeLifecycle_ops_def good_op_def useScopeLifecycle_fetchRequests_def
  by (elim UnE CollectE exE conjE singletonE; simp add: op_intros)

section \<open>\<open>useScopeMatrix\<close>\<close>

definition useScopeMatrix_init :: "hook_state" where
  "useScopeMatrix_init = state_of [(''data'', JNull), (''loading'', JBool False), (''error'', JNull)]"

definition useScopeMatrix_fetchMatrix :: "'w env \<Rightarrow> string \<Rightarrow> 'w cmd" where
  "useScopeMatrix_fetchMatrix E baseUrl = setv ''loading'' (JBool True) (setv ''error'' JNull
     (try_catch E
     (send E (plain_request ''GET'' (baseUrl @ ''/api/v1/oauth/scope-matrix'') [] None) (\<lambda>st body.
     unless_ok st (''HTTP '' @ show_int st) (read_json body (\<lambda>json'. setv ''data'' json' (ret JUndef)))))
     (\<lambda>m. setv ''error'' (JStr m) (setv ''data'' JNull (ret JUndef))) [(''loading'', JBool False)]))"

definition useScopeMatrix_updateGrants :: "'w env \<Rightarrow> string \<Rightarrow> jsv \<Rightarrow> 'w cmd" where
  "useScopeMatrix_updateGrants E baseUrl grants = getv ''data'' (\<lambda>v_data. setv ''loading'' (JBool True) (setv ''error'' JNull
     (try_catch E
     (send E (plain_request ''PUT'' (baseUrl @ ''/api/v1/oauth/scope-matrix'') json_header (Some (JObj [(''grants'', grants)]))) (\<lambda>st body.
     unless_ok st (''HTTP '' @ show_int st) (branch (truthy v_data) (setv ''data'' (with_entries v_data [(''grants'', grants)]) (ret (JBool True)))
       (ret (JBool True)))))
     (\<lambda>m. setv ''error'' (JStr m) (ret (JBool False))) [(''loading'', JBool False)])))"

definition useScopeMatrix_ops :: "'w env \<Rightarrow> string \<Rightarrow> 'w cmd set" where
  "useScopeMatrix_ops E baseUrl = {useScopeMatrix_fetchMatrix E baseUrl} \<union> {useScopeMatrix_updateGrants E baseUrl grants |grants. True}"

lemma useScopeMatrix_blank: "c \<in> useScopeMatrix_ops E baseUrl \<Longrightarrow> all_refused E \<Longrightarrow> blank c"
  unfolding useScopeMatrix_ops_def useScopeMatrix_fetchMatrix_def useScopeMatrix_updateGrants_def
  by (elim UnE CollectE exE conjE singletonE; simp add: blank_intros)

lemma useScopeMatrix_good: "c \<in> useScopeMatrix_ops E baseUrl \<Longrightarrow> good_op without_credentials c"
  unfolding useScopeMatrix_ops_def good_op_def useScopeMatrix_fetchMatrix_def useScopeMatrix_updateGrants_def
  by (elim UnE CollectE exE conjE singletonE; simp add: op_intros)

section \<open>\<open>useSecretHistory\<close>\<close>

definition useSecretHistory_init :: "hook_state" where
  "useSecretHistory_init = state_of [(''data'', JNull), (''loading'', JBool False), (''error'', JNull)]"

definition useSecretHistory_fetchHistory :: "'w env \<Rightarrow> string \<Rightarrow> string \<Rightarrow> 'w cmd" where
  "useSecretHistory_fetchHistory E baseUrl clientId = setv ''loading'' (JBool True) (setv ''error'' JNull
     (try_catch E
     (send E (plain_request ''GET'' (baseUrl @ ''/api/v1/oauth/secret-history?client_id='' @ encodeURIComponent clientId) [] None) (\<lambda>st body.
     unless_ok st (''HTTP '' @ show_int st) (read_json body (\<lambda>v. setv ''data'' v (ret JUndef)))))
     (\<lambda>m. setv ''error'' (JStr m) (ret JUndef)) [(''loading'', JBool False)]))"

definition useSecretHistory_ops :: "'w env \<Rightarrow> string \<Rightarrow> 'w cmd set" where
  "useSecretHistory_ops E baseUrl = {useSecretHistory_fetchHistory E baseUrl clientId |clientId. True}"

lemma useSecretHistory_blank: "c \<in> useSecretHistory_ops E baseUrl \<Longrightarrow> all_refused E \<Longrightarrow> blank c"
  unfolding useSecretHistory_ops_def useSecretHistory_fetchHistory_def
  by (elim UnE CollectE exE conjE singletonE; simp add: blank_intros)

lemma useSecretHistory_good: "c \<in> useSecretHistory_ops E baseUrl \<Longrightarrow> good_op without_credentials c"
  unfolding useSecretHistory_ops_def good_op_def useSecretHistory_fetchHistory_def
  by (elim UnE CollectE exE conjE singletonE; simp add: op_intros)

section \<open>\<open>useSecurityAlerts\<close>\<close>

definition useSecurityAlerts_init :: "hook_state" where
  "useSecurityAlerts_init = state_of [(''alerts'', JArr []), (''loading'', JBool False), (''error'', JNull)]"

definition useSecurityAlerts_fetchAlerts :: "'w env \<Rightarrow> string \<Rightarrow> 'w cmd" where
  "useSecurityAlerts_fetchAlerts E baseUrl = setv ''loading'' (JBool True) (setv ''error'' JNull
     (try_catch E
     (send E (plain_request ''GET'' (baseUrl @ ''/api/v1/audit/security-alerts'') [] None) (\<lambda>st body.
     unless_ok st (''HTTP '' @ show_int st) (read_json body (\<lambda>data'. reads data' (setv ''alerts'' (js_or (js_or (js_opt_prop data' ''alerts'')
       data') (JArr [])) (ret JUndef))))))
     (\<lambda>m. setv ''error'' (JStr m) (ret JUndef)) [(''loading'', JBool False)]))"

definition useSecurityAlerts_updateStatus :: "'w env \<Rightarrow> string \<Rightarrow> string \<Rightarrow> string \<Rightarrow> 'w cmd" where
  "useSecurityAlerts_updateStatus E baseUrl id' status' = try_catch E
     (send E (plain_request ''PATCH'' (baseUrl @ ''/api/v1/audit/security-alerts/'' @ id') json_header (Some (JObj [(''status'', JStr status')])))
       (\<lambda>st body.
     ret JUndef))
     (\<lambda>m. ret JUndef) []"

definition useSecurityAlerts_ops :: "'w env \<Rightarrow> string \<Rightarrow> 'w cmd set" where
  "useSecurityAlerts_ops E baseUrl = {useSecurityAlerts_fetchAlerts E baseUrl} \<union> {useSecurityAlerts_updateStatus E baseUrl id' status' |id'
       status'. True}"

lemma useSecurityAlerts_blank: "c \<in> useSecurityAlerts_ops E baseUrl \<Longrightarrow> all_refused E \<Longrightarrow> blank c"
  unfolding useSecurityAlerts_ops_def useSecurityAlerts_fetchAlerts_def useSecurityAlerts_updateStatus_def
  by (elim UnE CollectE exE conjE singletonE; simp add: blank_intros)

lemma useSecurityAlerts_good: "c \<in> useSecurityAlerts_ops E baseUrl \<Longrightarrow> good_op without_credentials c"
  unfolding useSecurityAlerts_ops_def good_op_def useSecurityAlerts_fetchAlerts_def useSecurityAlerts_updateStatus_def
  by (elim UnE CollectE exE conjE singletonE; simp add: op_intros)

section \<open>\<open>useSessionAnalytics\<close>\<close>

definition useSessionAnalytics_init :: "hook_state" where
  "useSessionAnalytics_init = state_of [(''data'', JNull), (''loading'', JBool False), (''error'', JNull)]"

definition useSessionAnalytics_fetchData :: "'w env \<Rightarrow> string \<Rightarrow> 'w cmd" where
  "useSessionAnalytics_fetchData E baseUrl = setv ''loading'' (JBool True) (setv ''error'' JNull
     (try_catch E
     (send E (plain_request ''GET'' (baseUrl @ ''/api/v1/auth/session-analytics'') [] None) (\<lambda>st body.
     unless_ok st (''HTTP '' @ show_int st) (read_json body (\<lambda>v. setv ''data'' v (ret JUndef)))))
     (\<lambda>m. setv ''error'' (JStr m) (ret JUndef)) [(''loading'', JBool False)]))"

definition useSessionAnalytics_ops :: "'w env \<Rightarrow> string \<Rightarrow> 'w cmd set" where
  "useSessionAnalytics_ops E baseUrl = {useSessionAnalytics_fetchData E baseUrl}"

lemma useSessionAnalytics_blank: "c \<in> useSessionAnalytics_ops E baseUrl \<Longrightarrow> all_refused E \<Longrightarrow> blank c"
  unfolding useSessionAnalytics_ops_def useSessionAnalytics_fetchData_def
  by (elim UnE CollectE exE conjE singletonE; simp add: blank_intros)

lemma useSessionAnalytics_good: "c \<in> useSessionAnalytics_ops E baseUrl \<Longrightarrow> good_op without_credentials c"
  unfolding useSessionAnalytics_ops_def good_op_def useSessionAnalytics_fetchData_def
  by (elim UnE CollectE exE conjE singletonE; simp add: op_intros)

section \<open>\<open>useSessionGeoStats\<close>\<close>

definition useSessionGeoStats_init :: "hook_state" where
  "useSessionGeoStats_init = state_of [(''data'', JNull), (''loading'', JBool False), (''error'', JNull)]"

definition useSessionGeoStats_fetchGeo :: "'w env \<Rightarrow> string \<Rightarrow> 'w cmd" where
  "useSessionGeoStats_fetchGeo E baseUrl = setv ''loading'' (JBool True) (setv ''error'' JNull
     (try_catch E
     (send E (plain_request ''GET'' (baseUrl @ ''/api/v1/audit/session-geo-stats'') [] None) (\<lambda>st body.
     unless_ok st (''HTTP '' @ show_int st) (read_json body (\<lambda>v. setv ''data'' v (ret JUndef)))))
     (\<lambda>m. setv ''error'' (JStr m) (ret JUndef)) [(''loading'', JBool False)]))"

definition useSessionGeoStats_ops :: "'w env \<Rightarrow> string \<Rightarrow> 'w cmd set" where
  "useSessionGeoStats_ops E baseUrl = {useSessionGeoStats_fetchGeo E baseUrl}"

lemma useSessionGeoStats_blank: "c \<in> useSessionGeoStats_ops E baseUrl \<Longrightarrow> all_refused E \<Longrightarrow> blank c"
  unfolding useSessionGeoStats_ops_def useSessionGeoStats_fetchGeo_def
  by (elim UnE CollectE exE conjE singletonE; simp add: blank_intros)

lemma useSessionGeoStats_good: "c \<in> useSessionGeoStats_ops E baseUrl \<Longrightarrow> good_op without_credentials c"
  unfolding useSessionGeoStats_ops_def good_op_def useSessionGeoStats_fetchGeo_def
  by (elim UnE CollectE exE conjE singletonE; simp add: op_intros)

section \<open>\<open>useSessionInspector\<close>\<close>

definition useSessionInspector_init :: "hook_state" where
  "useSessionInspector_init = state_of [(''sessions'', JArr []), (''loading'', JBool False), (''error'', JNull)]"

definition useSessionInspector_searchUser :: "'w env \<Rightarrow> string \<Rightarrow> string \<Rightarrow> 'w cmd" where
  "useSessionInspector_searchUser E baseUrl user' = setv ''loading'' (JBool True) (setv ''error'' JNull
     (try_catch E
     (send E (plain_request ''GET'' (baseUrl @ ''/api/v1/auth/session-inspector?user='' @ encodeURIComponent user') [] None) (\<lambda>st body.
     unless_ok st (''HTTP '' @ show_int st) (read_json body (\<lambda>data'. reads data' (setv ''sessions'' (js_or (js_or (js_opt_prop data'
       ''sessions'') data') (JArr [])) (ret JUndef))))))
     (\<lambda>m. setv ''error'' (JStr m) (ret JUndef)) [(''loading'', JBool False)]))"

definition useSessionInspector_revoke :: "'w env \<Rightarrow> string \<Rightarrow> string \<Rightarrow> 'w cmd" where
  "useSessionInspector_revoke E baseUrl id' = setv ''loading'' (JBool True) (setv ''error'' JNull
     (try_catch E
     (send E (plain_request ''DELETE'' (baseUrl @ ''/api/v1/auth/session-inspector/'' @ id') [] None) (\<lambda>st body.
     unless_ok st (''HTTP '' @ show_int st) (ret (JBool True))))
     (\<lambda>m. setv ''error'' (JStr m) (ret (JBool False))) [(''loading'', JBool False)]))"

definition useSessionInspector_ops :: "'w env \<Rightarrow> string \<Rightarrow> 'w cmd set" where
  "useSessionInspector_ops E baseUrl = {useSessionInspector_searchUser E baseUrl user' |user'. True} \<union> {useSessionInspector_revoke E baseUrl id'
       |id'. True}"

lemma useSessionInspector_blank: "c \<in> useSessionInspector_ops E baseUrl \<Longrightarrow> all_refused E \<Longrightarrow> blank c"
  unfolding useSessionInspector_ops_def useSessionInspector_searchUser_def useSessionInspector_revoke_def
  by (elim UnE CollectE exE conjE singletonE; simp add: blank_intros)

lemma useSessionInspector_good: "c \<in> useSessionInspector_ops E baseUrl \<Longrightarrow> good_op without_credentials c"
  unfolding useSessionInspector_ops_def good_op_def useSessionInspector_searchUser_def useSessionInspector_revoke_def
  by (elim UnE CollectE exE conjE singletonE; simp add: op_intros)

section \<open>\<open>useSsoDebugger\<close>\<close>

definition useSsoDebugger_init :: "hook_state" where
  "useSsoDebugger_init = state_of [(''result'', JNull), (''loading'', JBool False), (''error'', JNull)]"

definition useSsoDebugger_trace :: "'w env \<Rightarrow> string \<Rightarrow> string \<Rightarrow> 'w cmd" where
  "useSsoDebugger_trace E baseUrl protocol = setv ''loading'' (JBool True) (setv ''error'' JNull
     (try_catch E
     (send E (plain_request ''POST'' (baseUrl @ ''/api/v1/auth/sso-debug?protocol='' @ protocol) [] None) (\<lambda>st body.
     unless_ok st (''HTTP '' @ show_int st) (read_json body (\<lambda>v. setv ''result'' v (ret JUndef)))))
     (\<lambda>m. setv ''error'' (JStr m) (ret JUndef)) [(''loading'', JBool False)]))"

definition useSsoDebugger_ops :: "'w env \<Rightarrow> string \<Rightarrow> 'w cmd set" where
  "useSsoDebugger_ops E baseUrl = {useSsoDebugger_trace E baseUrl protocol |protocol. True}"

lemma useSsoDebugger_blank: "c \<in> useSsoDebugger_ops E baseUrl \<Longrightarrow> all_refused E \<Longrightarrow> blank c"
  unfolding useSsoDebugger_ops_def useSsoDebugger_trace_def
  by (elim UnE CollectE exE conjE singletonE; simp add: blank_intros)

lemma useSsoDebugger_good: "c \<in> useSsoDebugger_ops E baseUrl \<Longrightarrow> good_op without_credentials c"
  unfolding useSsoDebugger_ops_def good_op_def useSsoDebugger_trace_def
  by (elim UnE CollectE exE conjE singletonE; simp add: op_intros)

section \<open>\<open>useStandingAccess\<close>\<close>

definition useStandingAccess_init :: "hook_state" where
  "useStandingAccess_init = state_of [(''entries'', JArr []), (''loading'', JBool False), (''error'', JNull)]"

definition useStandingAccess_fetchEntries :: "'w env \<Rightarrow> string \<Rightarrow> 'w cmd" where
  "useStandingAccess_fetchEntries E baseUrl = setv ''loading'' (JBool True) (setv ''error'' JNull
     (try_catch E
     (send E (plain_request ''GET'' (baseUrl @ ''/api/v1/policy/standing-access'') [] None) (\<lambda>st body.
     unless_ok st (''HTTP '' @ show_int st) (read_json body (\<lambda>data'. reads data' (setv ''entries'' (js_or (js_or (js_opt_prop data'
       ''entries'') data') (JArr [])) (ret JUndef))))))
     (\<lambda>m. setv ''error'' (JStr m) (ret JUndef)) [(''loading'', JBool False)]))"

definition useStandingAccess_convertJIT :: "'w env \<Rightarrow> string \<Rightarrow> string \<Rightarrow> 'w cmd" where
  "useStandingAccess_convertJIT E baseUrl id' = setv ''loading'' (JBool True) (setv ''error'' JNull
     (try_catch E
     (send E (plain_request ''POST'' (baseUrl @ ''/api/v1/policy/standing-access/'' @ id' @ ''/convert-jit'') [] None) (\<lambda>st body.
     unless_ok st (''HTTP '' @ show_int st) (updv ''entries'' (filter_items (\<lambda>e. js_opt_prop e ''id'' \<noteq> JStr id')) (ret (JBool
       True)))))
     (\<lambda>m. setv ''error'' (JStr m) (ret (JBool False))) [(''loading'', JBool False)]))"

definition useStandingAccess_ops :: "'w env \<Rightarrow> string \<Rightarrow> 'w cmd set" where
  "useStandingAccess_ops E baseUrl = {useStandingAccess_fetchEntries E baseUrl} \<union> {useStandingAccess_convertJIT E baseUrl id' |id'. True}"

lemma useStandingAccess_blank: "c \<in> useStandingAccess_ops E baseUrl \<Longrightarrow> all_refused E \<Longrightarrow> blank c"
  unfolding useStandingAccess_ops_def useStandingAccess_fetchEntries_def useStandingAccess_convertJIT_def
  by (elim UnE CollectE exE conjE singletonE; simp add: blank_intros)

lemma useStandingAccess_good: "c \<in> useStandingAccess_ops E baseUrl \<Longrightarrow> good_op without_credentials c"
  unfolding useStandingAccess_ops_def good_op_def useStandingAccess_fetchEntries_def useStandingAccess_convertJIT_def
  by (elim UnE CollectE exE conjE singletonE; simp add: op_intros)

section \<open>\<open>useTeamInsights\<close>\<close>

definition useTeamInsights_init :: "hook_state" where
  "useTeamInsights_init = state_of [(''data'', JNull), (''loading'', JBool False), (''error'', JNull)]"

definition useTeamInsights_fetchInsights :: "'w env \<Rightarrow> string \<Rightarrow> 'w cmd" where
  "useTeamInsights_fetchInsights E baseUrl = setv ''loading'' (JBool True) (setv ''error'' JNull
     (try_catch E
     (send E (plain_request ''GET'' (baseUrl @ ''/api/v1/identity/team-insights'') [] None) (\<lambda>st body.
     unless_ok st (''HTTP '' @ show_int st) (read_json body (\<lambda>v. setv ''data'' v (ret JUndef)))))
     (\<lambda>m. setv ''error'' (JStr m) (ret JUndef)) [(''loading'', JBool False)]))"

definition useTeamInsights_ops :: "'w env \<Rightarrow> string \<Rightarrow> 'w cmd set" where
  "useTeamInsights_ops E baseUrl = {useTeamInsights_fetchInsights E baseUrl}"

lemma useTeamInsights_blank: "c \<in> useTeamInsights_ops E baseUrl \<Longrightarrow> all_refused E \<Longrightarrow> blank c"
  unfolding useTeamInsights_ops_def useTeamInsights_fetchInsights_def
  by (elim UnE CollectE exE conjE singletonE; simp add: blank_intros)

lemma useTeamInsights_good: "c \<in> useTeamInsights_ops E baseUrl \<Longrightarrow> good_op without_credentials c"
  unfolding useTeamInsights_ops_def good_op_def useTeamInsights_fetchInsights_def
  by (elim UnE CollectE exE conjE singletonE; simp add: op_intros)

section \<open>\<open>useTenantBranding\<close>\<close>

definition useTenantBranding_init :: "hook_state" where
  "useTenantBranding_init = state_of [(''branding'', JNull), (''loading'', JBool False), (''error'', JNull)]"

definition useTenantBranding_fetchBranding :: "'w env \<Rightarrow> string \<Rightarrow> 'w cmd" where
  "useTenantBranding_fetchBranding E baseUrl = setv ''loading'' (JBool True) (setv ''error'' JNull
     (try_catch E
     (send E (plain_request ''GET'' (baseUrl @ ''/api/v1/admin/branding'') [] None) (\<lambda>st body.
     unless_ok st (''HTTP '' @ show_int st) (read_json body (\<lambda>v. setv ''branding'' v (ret JUndef)))))
     (\<lambda>m. setv ''error'' (JStr m) (ret JUndef)) [(''loading'', JBool False)]))"

definition useTenantBranding_saveBranding :: "'w env \<Rightarrow> string \<Rightarrow> jsv \<Rightarrow> 'w cmd" where
  "useTenantBranding_saveBranding E baseUrl b = setv ''loading'' (JBool True) (setv ''error'' JNull
     (try_catch E
     (send E (plain_request ''PUT'' (baseUrl @ ''/api/v1/admin/branding'') json_header (Some b)) (\<lambda>st body.
     unless_ok st (''HTTP '' @ show_int st) (setv ''branding'' b (ret (JBool True)))))
     (\<lambda>m. setv ''error'' (JStr m) (ret (JBool False))) [(''loading'', JBool False)]))"

definition useTenantBranding_ops :: "'w env \<Rightarrow> string \<Rightarrow> 'w cmd set" where
  "useTenantBranding_ops E baseUrl = {useTenantBranding_fetchBranding E baseUrl} \<union> {useTenantBranding_saveBranding E baseUrl b |b. True}"

lemma useTenantBranding_blank: "c \<in> useTenantBranding_ops E baseUrl \<Longrightarrow> all_refused E \<Longrightarrow> blank c"
  unfolding useTenantBranding_ops_def useTenantBranding_fetchBranding_def useTenantBranding_saveBranding_def
  by (elim UnE CollectE exE conjE singletonE; simp add: blank_intros)

lemma useTenantBranding_good: "c \<in> useTenantBranding_ops E baseUrl \<Longrightarrow> good_op without_credentials c"
  unfolding useTenantBranding_ops_def good_op_def useTenantBranding_fetchBranding_def useTenantBranding_saveBranding_def
  by (elim UnE CollectE exE conjE singletonE; simp add: op_intros)

section \<open>\<open>useTenantIsolationConfig\<close>\<close>

definition useTenantIsolationConfig_init :: "hook_state" where
  "useTenantIsolationConfig_init = state_of [(''config'', JNull), (''loading'', JBool False), (''error'', JNull)]"

definition useTenantIsolationConfig_fetchConfig :: "'w env \<Rightarrow> string \<Rightarrow> 'w cmd" where
  "useTenantIsolationConfig_fetchConfig E baseUrl = setv ''loading'' (JBool True) (setv ''error'' JNull
     (try_catch E
     (send E (plain_request ''GET'' (baseUrl @ ''/api/v1/settings/tenant-isolation-config'') [] None) (\<lambda>st body.
     unless_ok st (''HTTP '' @ show_int st) (read_json body (\<lambda>v. setv ''config'' v (ret JUndef)))))
     (\<lambda>m. setv ''error'' (JStr m) (ret JUndef)) [(''loading'', JBool False)]))"

definition useTenantIsolationConfig_updateConfig :: "'w env \<Rightarrow> string \<Rightarrow> jsv \<Rightarrow> 'w cmd" where
  "useTenantIsolationConfig_updateConfig E baseUrl patch = setv ''loading'' (JBool True) (setv ''error'' JNull
     (try_catch E
     (send E (plain_request ''PUT'' (baseUrl @ ''/api/v1/settings/tenant-isolation-config'') json_header (Some patch)) (\<lambda>st body.
     unless_ok st (''HTTP '' @ show_int st) (read_json body (\<lambda>data'. setv ''config'' data' (ret data')))))
     (\<lambda>m. setv ''error'' (JStr m) (ret JNull)) [(''loading'', JBool False)]))"

definition useTenantIsolationConfig_testIsolation :: "'w env \<Rightarrow> string \<Rightarrow> 'w cmd" where
  "useTenantIsolationConfig_testIsolation E baseUrl = setv ''loading'' (JBool True) (setv ''error'' JNull
     (try_catch E
     (send E (plain_request ''POST'' (baseUrl @ ''/api/v1/settings/tenant-isolation-config/test'') [] None) (\<lambda>st body.
     unless_ok st (''HTTP '' @ show_int st) (read_json body (\<lambda>data'. setv ''config'' data' (ret data')))))
     (\<lambda>m. setv ''error'' (JStr m) (ret JNull)) [(''loading'', JBool False)]))"

definition useTenantIsolationConfig_ops :: "'w env \<Rightarrow> string \<Rightarrow> 'w cmd set" where
  "useTenantIsolationConfig_ops E baseUrl = {useTenantIsolationConfig_fetchConfig E baseUrl} \<union> {useTenantIsolationConfig_updateConfig E baseUrl
       patch |patch. True} \<union> {useTenantIsolationConfig_testIsolation E baseUrl}"

lemma useTenantIsolationConfig_blank: "c \<in> useTenantIsolationConfig_ops E baseUrl \<Longrightarrow> all_refused E \<Longrightarrow> blank c"
  unfolding useTenantIsolationConfig_ops_def useTenantIsolationConfig_fetchConfig_def useTenantIsolationConfig_updateConfig_def useTenantIsolationConfig_testIsolation_def
  by (elim UnE CollectE exE conjE singletonE; simp add: blank_intros)

lemma useTenantIsolationConfig_good: "c \<in> useTenantIsolationConfig_ops E baseUrl \<Longrightarrow> good_op without_credentials c"
  unfolding useTenantIsolationConfig_ops_def good_op_def useTenantIsolationConfig_fetchConfig_def useTenantIsolationConfig_updateConfig_def useTenantIsolationConfig_testIsolation_def
  by (elim UnE CollectE exE conjE singletonE; simp add: op_intros)

section \<open>\<open>useTokenFamily\<close>\<close>

definition useTokenFamily_init :: "hook_state" where
  "useTokenFamily_init = state_of [(''families'', JArr []), (''loading'', JBool False), (''error'', JNull)]"

definition useTokenFamily_fetchFamilies :: "'w env \<Rightarrow> string \<Rightarrow> 'w cmd" where
  "useTokenFamily_fetchFamilies E baseUrl = setv ''loading'' (JBool True) (setv ''error'' JNull
     (try_catch E
     (send E (plain_request ''GET'' (baseUrl @ ''/api/v1/oauth/token-family'') [] None) (\<lambda>st body.
     unless_ok st (''HTTP '' @ show_int st) (read_json body (\<lambda>data'. reads data' (setv ''families'' (js_or (js_or (js_opt_prop data'
       ''families'') data') (JArr [])) (ret JUndef))))))
     (\<lambda>m. setv ''error'' (JStr m) (ret JUndef)) [(''loading'', JBool False)]))"

definition useTokenFamily_revokeFamily :: "'w env \<Rightarrow> string \<Rightarrow> string \<Rightarrow> 'w cmd" where
  "useTokenFamily_revokeFamily E baseUrl familyId = setv ''loading'' (JBool True) (setv ''error'' JNull
     (try_catch E
     (send E (plain_request ''POST'' (baseUrl @ ''/api/v1/oauth/token-family/'' @ familyId @ ''/revoke'') [] None) (\<lambda>st body.
     unless_ok st (''HTTP '' @ show_int st) (ret (JBool True))))
     (\<lambda>m. setv ''error'' (JStr m) (ret (JBool False))) [(''loading'', JBool False)]))"

definition useTokenFamily_ops :: "'w env \<Rightarrow> string \<Rightarrow> 'w cmd set" where
  "useTokenFamily_ops E baseUrl = {useTokenFamily_fetchFamilies E baseUrl} \<union> {useTokenFamily_revokeFamily E baseUrl familyId |familyId. True}"

lemma useTokenFamily_blank: "c \<in> useTokenFamily_ops E baseUrl \<Longrightarrow> all_refused E \<Longrightarrow> blank c"
  unfolding useTokenFamily_ops_def useTokenFamily_fetchFamilies_def useTokenFamily_revokeFamily_def
  by (elim UnE CollectE exE conjE singletonE; simp add: blank_intros)

lemma useTokenFamily_good: "c \<in> useTokenFamily_ops E baseUrl \<Longrightarrow> good_op without_credentials c"
  unfolding useTokenFamily_ops_def good_op_def useTokenFamily_fetchFamilies_def useTokenFamily_revokeFamily_def
  by (elim UnE CollectE exE conjE singletonE; simp add: op_intros)

section \<open>\<open>useTokenLifecycleDashboard\<close>\<close>

definition useTokenLifecycleDashboard_init :: "hook_state" where
  "useTokenLifecycleDashboard_init = state_of [(''data'', JNull), (''loading'', JBool False), (''error'', JNull)]"

definition useTokenLifecycleDashboard_fetchData :: "'w env \<Rightarrow> string \<Rightarrow> 'w cmd" where
  "useTokenLifecycleDashboard_fetchData E baseUrl = setv ''loading'' (JBool True) (setv ''error'' JNull
     (try_catch E
     (send E (plain_request ''GET'' (baseUrl @ ''/api/v1/oauth/token-lifecycle'') [] None) (\<lambda>st body.
     unless_ok st (''HTTP '' @ show_int st) (read_json body (\<lambda>v. setv ''data'' v (ret JUndef)))))
     (\<lambda>m. setv ''error'' (JStr m) (ret JUndef)) [(''loading'', JBool False)]))"

definition useTokenLifecycleDashboard_ops :: "'w env \<Rightarrow> string \<Rightarrow> 'w cmd set" where
  "useTokenLifecycleDashboard_ops E baseUrl = {useTokenLifecycleDashboard_fetchData E baseUrl}"

lemma useTokenLifecycleDashboard_blank: "c \<in> useTokenLifecycleDashboard_ops E baseUrl \<Longrightarrow> all_refused E \<Longrightarrow> blank c"
  unfolding useTokenLifecycleDashboard_ops_def useTokenLifecycleDashboard_fetchData_def
  by (elim UnE CollectE exE conjE singletonE; simp add: blank_intros)

lemma useTokenLifecycleDashboard_good: "c \<in> useTokenLifecycleDashboard_ops E baseUrl \<Longrightarrow> good_op without_credentials c"
  unfolding useTokenLifecycleDashboard_ops_def good_op_def useTokenLifecycleDashboard_fetchData_def
  by (elim UnE CollectE exE conjE singletonE; simp add: op_intros)

section \<open>\<open>useTokenLifetime\<close>\<close>

definition useTokenLifetime_init :: "hook_state" where
  "useTokenLifetime_init = state_of [(''data'', JNull), (''loading'', JBool False), (''error'', JNull)]"

definition useTokenLifetime_fetchLifetime :: "'w env \<Rightarrow> string \<Rightarrow> 'w cmd" where
  "useTokenLifetime_fetchLifetime E baseUrl = setv ''loading'' (JBool True) (setv ''error'' JNull
     (try_catch E
     (send E (plain_request ''GET'' (baseUrl @ ''/api/v1/oauth/token-lifetime'') [] None) (\<lambda>st body.
     unless_ok st (''HTTP '' @ show_int st) (read_json body (\<lambda>json'. setv ''data'' json' (ret JUndef)))))
     (\<lambda>m. setv ''error'' (JStr m) (setv ''data'' JNull (ret JUndef))) [(''loading'', JBool False)]))"

definition useTokenLifetime_ops :: "'w env \<Rightarrow> string \<Rightarrow> 'w cmd set" where
  "useTokenLifetime_ops E baseUrl = {useTokenLifetime_fetchLifetime E baseUrl}"

lemma useTokenLifetime_blank: "c \<in> useTokenLifetime_ops E baseUrl \<Longrightarrow> all_refused E \<Longrightarrow> blank c"
  unfolding useTokenLifetime_ops_def useTokenLifetime_fetchLifetime_def
  by (elim UnE CollectE exE conjE singletonE; simp add: blank_intros)

lemma useTokenLifetime_good: "c \<in> useTokenLifetime_ops E baseUrl \<Longrightarrow> good_op without_credentials c"
  unfolding useTokenLifetime_ops_def good_op_def useTokenLifetime_fetchLifetime_def
  by (elim UnE CollectE exE conjE singletonE; simp add: op_intros)

section \<open>\<open>useTokenReuse\<close>\<close>

definition useTokenReuse_init :: "hook_state" where
  "useTokenReuse_init = state_of [(''reuses'', JArr []), (''loading'', JBool False), (''error'', JNull)]"

definition useTokenReuse_fetchReuses :: "'w env \<Rightarrow> string \<Rightarrow> 'w cmd" where
  "useTokenReuse_fetchReuses E baseUrl = setv ''loading'' (JBool True) (setv ''error'' JNull
     (try_catch E
     (send E (plain_request ''GET'' (baseUrl @ ''/api/v1/auth/token-reuse'') [] None) (\<lambda>st body.
     unless_ok st (''HTTP '' @ show_int st) (read_json body (\<lambda>data'. reads data' (setv ''reuses'' (js_or (js_or (js_opt_prop data' ''reuses'')
       data') (JArr [])) (ret JUndef))))))
     (\<lambda>m. setv ''error'' (JStr m) (ret JUndef)) [(''loading'', JBool False)]))"

definition useTokenReuse_ops :: "'w env \<Rightarrow> string \<Rightarrow> 'w cmd set" where
  "useTokenReuse_ops E baseUrl = {useTokenReuse_fetchReuses E baseUrl}"

lemma useTokenReuse_blank: "c \<in> useTokenReuse_ops E baseUrl \<Longrightarrow> all_refused E \<Longrightarrow> blank c"
  unfolding useTokenReuse_ops_def useTokenReuse_fetchReuses_def
  by (elim UnE CollectE exE conjE singletonE; simp add: blank_intros)

lemma useTokenReuse_good: "c \<in> useTokenReuse_ops E baseUrl \<Longrightarrow> good_op without_credentials c"
  unfolding useTokenReuse_ops_def good_op_def useTokenReuse_fetchReuses_def
  by (elim UnE CollectE exE conjE singletonE; simp add: op_intros)

section \<open>\<open>useTokenRotation\<close>\<close>

definition useTokenRotation_init :: "hook_state" where
  "useTokenRotation_init = state_of [(''config'', JNull), (''loading'', JBool False), (''error'', JNull)]"

definition useTokenRotation_fetchConfig :: "'w env \<Rightarrow> string \<Rightarrow> string \<Rightarrow> 'w cmd" where
  "useTokenRotation_fetchConfig E baseUrl clientId = setv ''loading'' (JBool True) (setv ''error'' JNull
     (try_catch E
     (send E (plain_request ''GET'' (baseUrl @ ''/api/v1/oauth/token-rotation?client_id='' @ encodeURIComponent clientId) [] None) (\<lambda>st body.
     unless_ok st (''HTTP '' @ show_int st) (read_json body (\<lambda>v. setv ''config'' v (ret JUndef)))))
     (\<lambda>m. setv ''error'' (JStr m) (setv ''config'' JNull (ret JUndef))) [(''loading'', JBool False)]))"

definition useTokenRotation_saveConfig :: "'w env \<Rightarrow> string \<Rightarrow> jsv \<Rightarrow> 'w cmd" where
  "useTokenRotation_saveConfig E baseUrl cfg = setv ''loading'' (JBool True) (setv ''error'' JNull
     (try_catch E
     (send E (plain_request ''PUT'' (baseUrl @ ''/api/v1/oauth/token-rotation'') json_header (Some cfg)) (\<lambda>st body.
     unless_ok st (''HTTP '' @ show_int st) (setv ''config'' cfg (ret (JBool True)))))
     (\<lambda>m. setv ''error'' (JStr m) (ret (JBool False))) [(''loading'', JBool False)]))"

definition useTokenRotation_ops :: "'w env \<Rightarrow> string \<Rightarrow> 'w cmd set" where
  "useTokenRotation_ops E baseUrl = {useTokenRotation_fetchConfig E baseUrl clientId |clientId. True} \<union> {useTokenRotation_saveConfig E baseUrl
       cfg |cfg. True}"

lemma useTokenRotation_blank: "c \<in> useTokenRotation_ops E baseUrl \<Longrightarrow> all_refused E \<Longrightarrow> blank c"
  unfolding useTokenRotation_ops_def useTokenRotation_fetchConfig_def useTokenRotation_saveConfig_def
  by (elim UnE CollectE exE conjE singletonE; simp add: blank_intros)

lemma useTokenRotation_good: "c \<in> useTokenRotation_ops E baseUrl \<Longrightarrow> good_op without_credentials c"
  unfolding useTokenRotation_ops_def good_op_def useTokenRotation_fetchConfig_def useTokenRotation_saveConfig_def
  by (elim UnE CollectE exE conjE singletonE; simp add: op_intros)

section \<open>\<open>useTokenRotationConfig\<close>\<close>

definition useTokenRotationConfig_init :: "hook_state" where
  "useTokenRotationConfig_init = state_of [(''config'', JNull), (''loading'', JBool False), (''error'', JNull)]"

definition useTokenRotationConfig_fetchConfig :: "'w env \<Rightarrow> string \<Rightarrow> 'w cmd" where
  "useTokenRotationConfig_fetchConfig E baseUrl = setv ''loading'' (JBool True) (setv ''error'' JNull
     (try_catch E
     (send E (plain_request ''GET'' (baseUrl @ ''/api/v1/settings/token-rotation-config'') [] None) (\<lambda>st body.
     unless_ok st (''HTTP '' @ show_int st) (read_json body (\<lambda>v. setv ''config'' v (ret JUndef)))))
     (\<lambda>m. setv ''error'' (JStr m) (ret JUndef)) [(''loading'', JBool False)]))"

definition useTokenRotationConfig_updateConfig :: "'w env \<Rightarrow> string \<Rightarrow> jsv \<Rightarrow> 'w cmd" where
  "useTokenRotationConfig_updateConfig E baseUrl patch = setv ''loading'' (JBool True) (setv ''error'' JNull
     (try_catch E
     (send E (plain_request ''PUT'' (baseUrl @ ''/api/v1/settings/token-rotation-config'') json_header (Some patch)) (\<lambda>st body.
     unless_ok st (''HTTP '' @ show_int st) (read_json body (\<lambda>data'. setv ''config'' data' (ret data')))))
     (\<lambda>m. setv ''error'' (JStr m) (ret JNull)) [(''loading'', JBool False)]))"

definition useTokenRotationConfig_bulkUpdate :: "'w env \<Rightarrow> string \<Rightarrow> int \<Rightarrow> bool \<Rightarrow> 'w cmd" where
  "useTokenRotationConfig_bulkUpdate E baseUrl intervalDays autoRotate = setv ''loading'' (JBool True) (setv ''error'' JNull
     (try_catch E
     (send E (plain_request ''POST'' (baseUrl @ ''/api/v1/settings/token-rotation-config/bulk'') json_header (Some (JObj [(''rotation_interval_days'',
       JNum intervalDays), (''auto_rotate'', JBool autoRotate)]))) (\<lambda>st body.
     unless_ok st (''HTTP '' @ show_int st) (read_json body (\<lambda>data'. setv ''config'' data' (ret data')))))
     (\<lambda>m. setv ''error'' (JStr m) (ret JNull)) [(''loading'', JBool False)]))"

definition useTokenRotationConfig_ops :: "'w env \<Rightarrow> string \<Rightarrow> 'w cmd set" where
  "useTokenRotationConfig_ops E baseUrl = {useTokenRotationConfig_fetchConfig E baseUrl} \<union> {useTokenRotationConfig_updateConfig E baseUrl patch
       |patch. True} \<union> {useTokenRotationConfig_bulkUpdate E baseUrl intervalDays autoRotate |intervalDays autoRotate. True}"

lemma useTokenRotationConfig_blank: "c \<in> useTokenRotationConfig_ops E baseUrl \<Longrightarrow> all_refused E \<Longrightarrow> blank c"
  unfolding useTokenRotationConfig_ops_def useTokenRotationConfig_fetchConfig_def useTokenRotationConfig_updateConfig_def useTokenRotationConfig_bulkUpdate_def
  by (elim UnE CollectE exE conjE singletonE; simp add: blank_intros)

lemma useTokenRotationConfig_good: "c \<in> useTokenRotationConfig_ops E baseUrl \<Longrightarrow> good_op without_credentials c"
  unfolding useTokenRotationConfig_ops_def good_op_def useTokenRotationConfig_fetchConfig_def useTokenRotationConfig_updateConfig_def useTokenRotationConfig_bulkUpdate_def
  by (elim UnE CollectE exE conjE singletonE; simp add: op_intros)

section \<open>\<open>useTokenRotationPolicy\<close>\<close>

definition useTokenRotationPolicy_init :: "hook_state" where
  "useTokenRotationPolicy_init = state_of [(''data'', JNull), (''loading'', JBool False), (''error'', JNull)]"

definition useTokenRotationPolicy_fetchPolicy :: "'w env \<Rightarrow> string \<Rightarrow> 'w cmd" where
  "useTokenRotationPolicy_fetchPolicy E baseUrl = setv ''loading'' (JBool True) (setv ''error'' JNull
     (try_catch E
     (send E (plain_request ''GET'' (baseUrl @ ''/api/v1/oauth/token-rotation-policy'') [] None) (\<lambda>st body.
     unless_ok st (''HTTP '' @ show_int st) (read_json body (\<lambda>v. setv ''data'' v (ret JUndef)))))
     (\<lambda>m. setv ''error'' (JStr m) (ret JUndef)) [(''loading'', JBool False)]))"

definition useTokenRotationPolicy_savePolicy :: "'w env \<Rightarrow> string \<Rightarrow> jsv \<Rightarrow> 'w cmd" where
  "useTokenRotationPolicy_savePolicy E baseUrl clients = setv ''loading'' (JBool True) (setv ''error'' JNull
     (try_catch E
     (send E (plain_request ''PUT'' (baseUrl @ ''/api/v1/oauth/token-rotation-policy'') json_header (Some clients)) (\<lambda>st body.
     unless_ok st (''HTTP '' @ show_int st) (ret (JBool True))))
     (\<lambda>m. setv ''error'' (JStr m) (ret (JBool False))) [(''loading'', JBool False)]))"

definition useTokenRotationPolicy_ops :: "'w env \<Rightarrow> string \<Rightarrow> 'w cmd set" where
  "useTokenRotationPolicy_ops E baseUrl = {useTokenRotationPolicy_fetchPolicy E baseUrl} \<union> {useTokenRotationPolicy_savePolicy E baseUrl clients
       |clients. True}"

lemma useTokenRotationPolicy_blank: "c \<in> useTokenRotationPolicy_ops E baseUrl \<Longrightarrow> all_refused E \<Longrightarrow> blank c"
  unfolding useTokenRotationPolicy_ops_def useTokenRotationPolicy_fetchPolicy_def useTokenRotationPolicy_savePolicy_def
  by (elim UnE CollectE exE conjE singletonE; simp add: blank_intros)

lemma useTokenRotationPolicy_good: "c \<in> useTokenRotationPolicy_ops E baseUrl \<Longrightarrow> good_op without_credentials c"
  unfolding useTokenRotationPolicy_ops_def good_op_def useTokenRotationPolicy_fetchPolicy_def useTokenRotationPolicy_savePolicy_def
  by (elim UnE CollectE exE conjE singletonE; simp add: op_intros)

section \<open>\<open>useUsagePolicy\<close>\<close>

definition useUsagePolicy_init :: "hook_state" where
  "useUsagePolicy_init = state_of [(''policies'', JArr []), (''loading'', JBool False), (''error'', JNull)]"

definition useUsagePolicy_fetchPolicies :: "'w env \<Rightarrow> string \<Rightarrow> 'w cmd" where
  "useUsagePolicy_fetchPolicies E baseUrl = setv ''loading'' (JBool True) (setv ''error'' JNull
     (try_catch E
     (send E (plain_request ''GET'' (baseUrl @ ''/api/v1/oauth/usage-policy'') [] None) (\<lambda>st body.
     unless_ok st (''HTTP '' @ show_int st) (read_json body (\<lambda>data'. reads data' (setv ''policies'' (js_or (js_or (js_opt_prop data'
       ''policies'') data') (JArr [])) (ret JUndef))))))
     (\<lambda>m. setv ''error'' (JStr m) (ret JUndef)) [(''loading'', JBool False)]))"

definition useUsagePolicy_updatePolicy :: "'w env \<Rightarrow> string \<Rightarrow> string \<Rightarrow> jsv \<Rightarrow> 'w cmd" where
  "useUsagePolicy_updatePolicy E baseUrl clientId policy' = setv ''loading'' (JBool True) (setv ''error'' JNull
     (try_catch E
     (send E (plain_request ''PUT'' (baseUrl @ ''/api/v1/oauth/usage-policy/'' @ clientId) json_header (Some policy')) (\<lambda>st body.
     unless_ok st (''HTTP '' @ show_int st) (updv ''policies'' (map_items (\<lambda>p. if js_opt_prop p ''client_id'' = JStr clientId then
       with_entries p (entries_of policy') else p)) (ret (JBool True)))))
     (\<lambda>m. setv ''error'' (JStr m) (ret (JBool False))) [(''loading'', JBool False)]))"

definition useUsagePolicy_effect :: "'w env \<Rightarrow> string \<Rightarrow> 'w cmd" where
  "useUsagePolicy_effect E baseUrl = run (useUsagePolicy_fetchPolicies E baseUrl) (\<lambda>_. ret JUndef)"

definition useUsagePolicy_ops :: "'w env \<Rightarrow> string \<Rightarrow> 'w cmd set" where
  "useUsagePolicy_ops E baseUrl = {useUsagePolicy_fetchPolicies E baseUrl} \<union> {useUsagePolicy_updatePolicy E baseUrl clientId policy' |clientId
       policy'. True} \<union> {useUsagePolicy_effect E baseUrl}"

lemma useUsagePolicy_blank: "c \<in> useUsagePolicy_ops E baseUrl \<Longrightarrow> all_refused E \<Longrightarrow> blank c"
  unfolding useUsagePolicy_ops_def useUsagePolicy_fetchPolicies_def useUsagePolicy_updatePolicy_def useUsagePolicy_effect_def
  by (elim UnE CollectE exE conjE singletonE; simp add: blank_intros)

lemma useUsagePolicy_good: "c \<in> useUsagePolicy_ops E baseUrl \<Longrightarrow> good_op without_credentials c"
  unfolding useUsagePolicy_ops_def good_op_def useUsagePolicy_fetchPolicies_def useUsagePolicy_updatePolicy_def useUsagePolicy_effect_def
  by (elim UnE CollectE exE conjE singletonE; simp add: op_intros)

section \<open>\<open>useUserImport\<close>\<close>

definition useUserImport_init :: "hook_state" where
  "useUserImport_init = state_of [(''results'', JNull), (''loading'', JBool False), (''error'', JNull)]"

definition useUserImport_importUsers :: "'w env \<Rightarrow> string \<Rightarrow> string \<Rightarrow> jsv \<Rightarrow> bool \<Rightarrow> 'w cmd" where
  "useUserImport_importUsers E baseUrl file mappings dryRun = setv ''loading'' (JBool True) (setv ''error'' JNull
     (try_catch E
     (send E (plain_request ''POST'' (baseUrl @ ''/api/v1/identity/users/import'') json_header (Some (JObj [(''file'', JStr file), (''mappings'',
       mappings), (''dry_run'', JBool dryRun)]))) (\<lambda>st body.
     unless_ok st (''HTTP '' @ show_int st) (read_json body (\<lambda>data'. setv ''results'' data' (ret data')))))
     (\<lambda>m. setv ''error'' (JStr m) (ret JNull)) [(''loading'', JBool False)]))"

definition useUserImport_ops :: "'w env \<Rightarrow> string \<Rightarrow> 'w cmd set" where
  "useUserImport_ops E baseUrl = {useUserImport_importUsers E baseUrl file mappings dryRun |file mappings dryRun. True}"

lemma useUserImport_blank: "c \<in> useUserImport_ops E baseUrl \<Longrightarrow> all_refused E \<Longrightarrow> blank c"
  unfolding useUserImport_ops_def useUserImport_importUsers_def
  by (elim UnE CollectE exE conjE singletonE; simp add: blank_intros)

lemma useUserImport_good: "c \<in> useUserImport_ops E baseUrl \<Longrightarrow> good_op without_credentials c"
  unfolding useUserImport_ops_def good_op_def useUserImport_importUsers_def
  by (elim UnE CollectE exE conjE singletonE; simp add: op_intros)

section \<open>\<open>useUserLifecycle\<close>\<close>

definition useUserLifecycle_init :: "hook_state" where
  "useUserLifecycle_init = state_of [(''users'', JArr []), (''loading'', JBool False), (''error'', JNull)]"

definition useUserLifecycle_fetchUsers :: "'w env \<Rightarrow> string \<Rightarrow> string \<Rightarrow> 'w cmd" where
  "useUserLifecycle_fetchUsers E baseUrl stage = setv ''loading'' (JBool True) (setv ''error'' JNull
     (try_catch E
     (send E (plain_request ''GET'' (baseUrl @ ''/api/v1/identity/user-lifecycle?stage='' @ stage) [] None) (\<lambda>st body.
     unless_ok st (''HTTP '' @ show_int st) (read_json body (\<lambda>data'. reads data' (setv ''users'' (js_or (js_or (js_opt_prop data' ''users'')
       data') (JArr [])) (ret JUndef))))))
     (\<lambda>m. setv ''error'' (JStr m) (ret JUndef)) [(''loading'', JBool False)]))"

definition useUserLifecycle_bulkAction :: "'w env \<Rightarrow> string \<Rightarrow> string \<Rightarrow> string \<Rightarrow> jsv \<Rightarrow> 'w cmd" where
  "useUserLifecycle_bulkAction E baseUrl action' stage userIds = setv ''loading'' (JBool True) (setv ''error'' JNull
     (try_catch E
     (send E (plain_request ''POST'' (baseUrl @ ''/api/v1/identity/user-lifecycle/bulk'') json_header (Some (JObj [(''action'', JStr action'),
       (''stage'', JStr stage), (''user_ids'', userIds)]))) (\<lambda>st body.
     unless_ok st (''HTTP '' @ show_int st) (ret (JBool True))))
     (\<lambda>m. setv ''error'' (JStr m) (ret (JBool False))) [(''loading'', JBool False)]))"

definition useUserLifecycle_ops :: "'w env \<Rightarrow> string \<Rightarrow> 'w cmd set" where
  "useUserLifecycle_ops E baseUrl = {useUserLifecycle_fetchUsers E baseUrl stage |stage. True} \<union> {useUserLifecycle_bulkAction E baseUrl action'
       stage userIds |action' stage userIds. True}"

lemma useUserLifecycle_blank: "c \<in> useUserLifecycle_ops E baseUrl \<Longrightarrow> all_refused E \<Longrightarrow> blank c"
  unfolding useUserLifecycle_ops_def useUserLifecycle_fetchUsers_def useUserLifecycle_bulkAction_def
  by (elim UnE CollectE exE conjE singletonE; simp add: blank_intros)

lemma useUserLifecycle_good: "c \<in> useUserLifecycle_ops E baseUrl \<Longrightarrow> good_op without_credentials c"
  unfolding useUserLifecycle_ops_def good_op_def useUserLifecycle_fetchUsers_def useUserLifecycle_bulkAction_def
  by (elim UnE CollectE exE conjE singletonE; simp add: op_intros)

section \<open>\<open>useUserProvisioning\<close>\<close>

definition useUserProvisioning_init :: "hook_state" where
  "useUserProvisioning_init = state_of [(''rules'', JArr []), (''queue'', JArr []), (''loading'', JBool False), (''error'', JNull)]"

definition useUserProvisioning_fetchData :: "'w env \<Rightarrow> string \<Rightarrow> 'w cmd" where
  "useUserProvisioning_fetchData E baseUrl = setv ''loading'' (JBool True) (setv ''error'' JNull
     (try_catch E
     (send E (plain_request ''GET'' (baseUrl @ ''/api/v1/identity/provisioning'') [] None) (\<lambda>st body.
     unless_ok st (''HTTP '' @ show_int st) (read_json body (\<lambda>d. reads d (setv ''rules'' (js_or (js_opt_prop d ''rules'') (JArr [])) (reads d
       (setv ''queue'' (js_or (js_opt_prop d ''queue'') (JArr [])) (ret JUndef))))))))
     (\<lambda>m. setv ''error'' (JStr m) (ret JUndef)) [(''loading'', JBool False)]))"

definition useUserProvisioning_ops :: "'w env \<Rightarrow> string \<Rightarrow> 'w cmd set" where
  "useUserProvisioning_ops E baseUrl = {useUserProvisioning_fetchData E baseUrl}"

lemma useUserProvisioning_blank: "c \<in> useUserProvisioning_ops E baseUrl \<Longrightarrow> all_refused E \<Longrightarrow> blank c"
  unfolding useUserProvisioning_ops_def useUserProvisioning_fetchData_def
  by (elim UnE CollectE exE conjE singletonE; simp add: blank_intros)

lemma useUserProvisioning_good: "c \<in> useUserProvisioning_ops E baseUrl \<Longrightarrow> good_op without_credentials c"
  unfolding useUserProvisioning_ops_def good_op_def useUserProvisioning_fetchData_def
  by (elim UnE CollectE exE conjE singletonE; simp add: op_intros)

section \<open>\<open>useVendorManagement\<close>\<close>

definition useVendorManagement_init :: "hook_state" where
  "useVendorManagement_init = state_of [(''vendors'', JArr []), (''loading'', JBool False), (''error'', JNull)]"

definition useVendorManagement_fetchVendors :: "'w env \<Rightarrow> string \<Rightarrow> 'w cmd" where
  "useVendorManagement_fetchVendors E baseUrl = setv ''loading'' (JBool True) (setv ''error'' JNull
     (try_catch E
     (send E (plain_request ''GET'' (baseUrl @ ''/api/v1/identity/vendors'') [] None) (\<lambda>st body.
     unless_ok st (''HTTP '' @ show_int st) (read_json body (\<lambda>data'. reads data' (setv ''vendors'' (js_or (js_or (js_opt_prop data'
       ''vendors'') data') (JArr [])) (ret JUndef))))))
     (\<lambda>m. setv ''error'' (JStr m) (ret JUndef)) [(''loading'', JBool False)]))"

definition useVendorManagement_ops :: "'w env \<Rightarrow> string \<Rightarrow> 'w cmd set" where
  "useVendorManagement_ops E baseUrl = {useVendorManagement_fetchVendors E baseUrl}"

lemma useVendorManagement_blank: "c \<in> useVendorManagement_ops E baseUrl \<Longrightarrow> all_refused E \<Longrightarrow> blank c"
  unfolding useVendorManagement_ops_def useVendorManagement_fetchVendors_def
  by (elim UnE CollectE exE conjE singletonE; simp add: blank_intros)

lemma useVendorManagement_good: "c \<in> useVendorManagement_ops E baseUrl \<Longrightarrow> good_op without_credentials c"
  unfolding useVendorManagement_ops_def good_op_def useVendorManagement_fetchVendors_def
  by (elim UnE CollectE exE conjE singletonE; simp add: op_intros)

section \<open>\<open>useWebhookEventCatalogConfig\<close>\<close>

definition useWebhookEventCatalogConfig_init :: "hook_state" where
  "useWebhookEventCatalogConfig_init = state_of [(''config'', JNull), (''loading'', JBool False), (''error'', JNull)]"

definition useWebhookEventCatalogConfig_fetchConfig :: "'w env \<Rightarrow> string \<Rightarrow> 'w cmd" where
  "useWebhookEventCatalogConfig_fetchConfig E baseUrl = setv ''loading'' (JBool True) (setv ''error'' JNull
     (try_catch E
     (send E (plain_request ''GET'' (baseUrl @ ''/api/v1/settings/webhook-event-catalog-config'') [] None) (\<lambda>st body.
     unless_ok st (''HTTP '' @ show_int st) (read_json body (\<lambda>v. setv ''config'' v (ret JUndef)))))
     (\<lambda>m. setv ''error'' (JStr m) (ret JUndef)) [(''loading'', JBool False)]))"

definition useWebhookEventCatalogConfig_updateConfig :: "'w env \<Rightarrow> string \<Rightarrow> jsv \<Rightarrow> 'w cmd" where
  "useWebhookEventCatalogConfig_updateConfig E baseUrl patch = setv ''loading'' (JBool True) (setv ''error'' JNull
     (try_catch E
     (send E (plain_request ''PUT'' (baseUrl @ ''/api/v1/settings/webhook-event-catalog-config'') json_header (Some patch)) (\<lambda>st body.
     unless_ok st (''HTTP '' @ show_int st) (read_json body (\<lambda>data'. setv ''config'' data' (ret data')))))
     (\<lambda>m. setv ''error'' (JStr m) (ret JNull)) [(''loading'', JBool False)]))"

definition useWebhookEventCatalogConfig_testEvent :: "'w env \<Rightarrow> string \<Rightarrow> string \<Rightarrow> 'w cmd" where
  "useWebhookEventCatalogConfig_testEvent E baseUrl eventType = setv ''loading'' (JBool True) (setv ''error'' JNull
     (try_catch E
     (send E (plain_request ''POST'' (baseUrl @ ''/api/v1/settings/webhook-event-catalog-config/test'') json_header (Some (JObj [(''event_type'', JStr
       eventType)]))) (\<lambda>st body.
     unless_ok st (''HTTP '' @ show_int st) (read_json body (\<lambda>v. ret v))))
     (\<lambda>m. setv ''error'' (JStr m) (ret JNull)) [(''loading'', JBool False)]))"

definition useWebhookEventCatalogConfig_ops :: "'w env \<Rightarrow> string \<Rightarrow> 'w cmd set" where
  "useWebhookEventCatalogConfig_ops E baseUrl = {useWebhookEventCatalogConfig_fetchConfig E baseUrl} \<union>
       {useWebhookEventCatalogConfig_updateConfig E baseUrl patch |patch. True} \<union> {useWebhookEventCatalogConfig_testEvent E baseUrl eventType
       |eventType. True}"

lemma useWebhookEventCatalogConfig_blank: "c \<in> useWebhookEventCatalogConfig_ops E baseUrl \<Longrightarrow> all_refused E \<Longrightarrow> blank c"
  unfolding useWebhookEventCatalogConfig_ops_def useWebhookEventCatalogConfig_fetchConfig_def useWebhookEventCatalogConfig_updateConfig_def useWebhookEventCatalogConfig_testEvent_def
  by (elim UnE CollectE exE conjE singletonE; simp add: blank_intros)

lemma useWebhookEventCatalogConfig_good: "c \<in> useWebhookEventCatalogConfig_ops E baseUrl \<Longrightarrow> good_op without_credentials c"
  unfolding useWebhookEventCatalogConfig_ops_def good_op_def useWebhookEventCatalogConfig_fetchConfig_def useWebhookEventCatalogConfig_updateConfig_def useWebhookEventCatalogConfig_testEvent_def
  by (elim UnE CollectE exE conjE singletonE; simp add: op_intros)

section \<open>The table\<close>

definition PLAIN_HOOKS_B :: "(hook_state \<times> ('w env \<Rightarrow> string \<Rightarrow> 'w cmd set)) list" where
  "PLAIN_HOOKS_B = [(useMfaChallengeConfig_init, useMfaChallengeConfig_ops), (useNatsJetstream_init, useNatsJetstream_ops),
       (useNotificationPreferences_init, useNotificationPreferences_ops), (useOAuthClientMigration_init, useOAuthClientMigration_ops),
       (useOAuthDynamicClientReg_init, useOAuthDynamicClientReg_ops), (useOAuthHealthCheck_init, useOAuthHealthCheck_ops),
       (useOAuthJwksRotationConfig_init, useOAuthJwksRotationConfig_ops), (useOAuthScopeConsentMatrix_init, useOAuthScopeConsentMatrix_ops),
       (useOAuthTokenExchange_init, useOAuthTokenExchange_ops), (useOauthConsentFlow_init, useOauthConsentFlow_ops),
       (useOidcBackchannelLogoutConfig_init, useOidcBackchannelLogoutConfig_ops), (useOidcClaimConfig_init, useOidcClaimConfig_ops),
       (useOrgChart_init, useOrgChart_ops), (useOrgTransfer_init, useOrgTransfer_ops), (useParConfig_init, useParConfig_ops),
       (usePasswordAgePolicy_init, usePasswordAgePolicy_ops), (usePasswordBreachCheck_init, usePasswordBreachCheck_ops),
       (usePasswordPolicyConfig_init, usePasswordPolicyConfig_ops), (usePasswordResetFlow_init, usePasswordResetFlow_ops), (usePasswordStrength_init,
       usePasswordStrength_ops), (usePermissionBoundaries_init, usePermissionBoundaries_ops), (usePolicyApprovalWorkflow_init,
       usePolicyApprovalWorkflow_ops), (usePolicyChangeHistory_init, usePolicyChangeHistory_ops), (usePolicyConflicts_init, usePolicyConflicts_ops),
       (usePolicyDecisionExplain_init, usePolicyDecisionExplain_ops), (usePolicyDecisionLog_init, usePolicyDecisionLog_ops), (usePolicyDryRun_init,
       usePolicyDryRun_ops), (usePolicyExceptions_init, usePolicyExceptions_ops), (usePolicyQuarantine_init, usePolicyQuarantine_ops),
       (usePolicyRecommendation_init, usePolicyRecommendation_ops), (usePolicySetEval_init, usePolicySetEval_ops), (usePolicySimulation_init,
       usePolicySimulation_ops), (usePolicySimulationLab_init, usePolicySimulationLab_ops), (usePolicySnapshots_init, usePolicySnapshots_ops),
       (usePolicyVersionDiff_init, usePolicyVersionDiff_ops), (usePolicyVersioning_init, usePolicyVersioning_ops), (useProfileDiff_init,
       useProfileDiff_ops), (useProvisioningLog_init, useProvisioningLog_ops), (useQueryBuilder_init, useQueryBuilder_ops), (useRecertification_init,
       useRecertification_ops), (useReportingStructure_init, useReportingStructure_ops), (useReviewExemptions_init, useReviewExemptions_ops),
       (useRiskAggregate_init, useRiskAggregate_ops), (useRiskPostureDashboard_init, useRiskPostureDashboard_ops), (useRiskProfile_init,
       useRiskProfile_ops), (useRiskQuantification_init, useRiskQuantification_ops), (useRolePermissionMatrix_init, useRolePermissionMatrix_ops),
       (useRoleRequests_init, useRoleRequests_ops), (useRotationReminders_init, useRotationReminders_ops), (useSIEMHealth_init, useSIEMHealth_ops),
       (useSamlAttributeMapping_init, useSamlAttributeMapping_ops), (useSamlSpHealth_init, useSamlSpHealth_ops), (useScimGroupMapping_init,
       useScimGroupMapping_ops), (useScimProvisioning_init, useScimProvisioning_ops), (useScimProvisioningConfig_init, useScimProvisioningConfig_ops),
       (useScimSyncHealth_init, useScimSyncHealth_ops), (useScopeCatalog_init, useScopeCatalog_ops), (useScopeDrift_init, useScopeDrift_ops),
       (useScopeLifecycle_init, useScopeLifecycle_ops), (useScopeMatrix_init, useScopeMatrix_ops), (useSecretHistory_init, useSecretHistory_ops),
       (useSecurityAlerts_init, useSecurityAlerts_ops), (useSessionAnalytics_init, useSessionAnalytics_ops), (useSessionGeoStats_init,
       useSessionGeoStats_ops), (useSessionInspector_init, useSessionInspector_ops), (useSsoDebugger_init, useSsoDebugger_ops),
       (useStandingAccess_init, useStandingAccess_ops), (useTeamInsights_init, useTeamInsights_ops), (useTenantBranding_init, useTenantBranding_ops),
       (useTenantIsolationConfig_init, useTenantIsolationConfig_ops), (useTokenFamily_init, useTokenFamily_ops), (useTokenLifecycleDashboard_init,
       useTokenLifecycleDashboard_ops), (useTokenLifetime_init, useTokenLifetime_ops), (useTokenReuse_init, useTokenReuse_ops),
       (useTokenRotation_init, useTokenRotation_ops), (useTokenRotationConfig_init, useTokenRotationConfig_ops), (useTokenRotationPolicy_init,
       useTokenRotationPolicy_ops), (useUsagePolicy_init, useUsagePolicy_ops), (useUserImport_init, useUserImport_ops), (useUserLifecycle_init,
       useUserLifecycle_ops), (useUserProvisioning_init, useUserProvisioning_ops), (useVendorManagement_init, useVendorManagement_ops),
       (useWebhookEventCatalogConfig_init, useWebhookEventCatalogConfig_ops)]"

lemma PLAIN_HOOKS_B_start: "(s0, ops) \<in> set PLAIN_HOOKS_B \<Longrightarrow> hs_var s0 ''loading'' = JBool False \<and> hs_var s0 ''error'' = JNull"
  unfolding PLAIN_HOOKS_B_def by (auto simp: state_of_def useMfaChallengeConfig_init_def useNatsJetstream_init_def useNotificationPreferences_init_def useOAuthClientMigration_init_def useOAuthDynamicClientReg_init_def useOAuthHealthCheck_init_def useOAuthJwksRotationConfig_init_def useOAuthScopeConsentMatrix_init_def useOAuthTokenExchange_init_def useOauthConsentFlow_init_def useOidcBackchannelLogoutConfig_init_def useOidcClaimConfig_init_def useOrgChart_init_def useOrgTransfer_init_def useParConfig_init_def usePasswordAgePolicy_init_def usePasswordBreachCheck_init_def usePasswordPolicyConfig_init_def usePasswordResetFlow_init_def usePasswordStrength_init_def usePermissionBoundaries_init_def usePolicyApprovalWorkflow_init_def usePolicyChangeHistory_init_def usePolicyConflicts_init_def usePolicyDecisionExplain_init_def usePolicyDecisionLog_init_def usePolicyDryRun_init_def usePolicyExceptions_init_def usePolicyQuarantine_init_def usePolicyRecommendation_init_def usePolicySetEval_init_def usePolicySimulation_init_def usePolicySimulationLab_init_def usePolicySnapshots_init_def usePolicyVersionDiff_init_def usePolicyVersioning_init_def useProfileDiff_init_def useProvisioningLog_init_def useQueryBuilder_init_def useRecertification_init_def useReportingStructure_init_def useReviewExemptions_init_def useRiskAggregate_init_def useRiskPostureDashboard_init_def useRiskProfile_init_def useRiskQuantification_init_def useRolePermissionMatrix_init_def useRoleRequests_init_def useRotationReminders_init_def useSIEMHealth_init_def useSamlAttributeMapping_init_def useSamlSpHealth_init_def useScimGroupMapping_init_def useScimProvisioning_init_def useScimProvisioningConfig_init_def useScimSyncHealth_init_def useScopeCatalog_init_def useScopeDrift_init_def useScopeLifecycle_init_def useScopeMatrix_init_def useSecretHistory_init_def useSecurityAlerts_init_def useSessionAnalytics_init_def useSessionGeoStats_init_def useSessionInspector_init_def useSsoDebugger_init_def useStandingAccess_init_def useTeamInsights_init_def useTenantBranding_init_def useTenantIsolationConfig_init_def useTokenFamily_init_def useTokenLifecycleDashboard_init_def useTokenLifetime_init_def useTokenReuse_init_def useTokenRotation_init_def useTokenRotationConfig_init_def useTokenRotationPolicy_init_def useUsagePolicy_init_def useUserImport_init_def useUserLifecycle_init_def useUserProvisioning_init_def useVendorManagement_init_def useWebhookEventCatalogConfig_init_def)

lemma PLAIN_HOOKS_B_good: "(s0, ops) \<in> set PLAIN_HOOKS_B \<Longrightarrow> c \<in> ops E baseUrl \<Longrightarrow> good_op without_credentials c"
  unfolding PLAIN_HOOKS_B_def by (auto dest: useMfaChallengeConfig_good useNatsJetstream_good useNotificationPreferences_good useOAuthClientMigration_good useOAuthDynamicClientReg_good useOAuthHealthCheck_good useOAuthJwksRotationConfig_good useOAuthScopeConsentMatrix_good useOAuthTokenExchange_good useOauthConsentFlow_good useOidcBackchannelLogoutConfig_good useOidcClaimConfig_good useOrgChart_good useOrgTransfer_good useParConfig_good usePasswordAgePolicy_good usePasswordBreachCheck_good usePasswordPolicyConfig_good usePasswordResetFlow_good usePasswordStrength_good usePermissionBoundaries_good usePolicyApprovalWorkflow_good usePolicyChangeHistory_good usePolicyConflicts_good usePolicyDecisionExplain_good usePolicyDecisionLog_good usePolicyDryRun_good usePolicyExceptions_good usePolicyQuarantine_good usePolicyRecommendation_good usePolicySetEval_good usePolicySimulation_good usePolicySimulationLab_good usePolicySnapshots_good usePolicyVersionDiff_good usePolicyVersioning_good useProfileDiff_good useProvisioningLog_good useQueryBuilder_good useRecertification_good useReportingStructure_good useReviewExemptions_good useRiskAggregate_good useRiskPostureDashboard_good useRiskProfile_good useRiskQuantification_good useRolePermissionMatrix_good useRoleRequests_good useRotationReminders_good useSIEMHealth_good useSamlAttributeMapping_good useSamlSpHealth_good useScimGroupMapping_good useScimProvisioning_good useScimProvisioningConfig_good useScimSyncHealth_good useScopeCatalog_good useScopeDrift_good useScopeLifecycle_good useScopeMatrix_good useSecretHistory_good useSecurityAlerts_good useSessionAnalytics_good useSessionGeoStats_good useSessionInspector_good useSsoDebugger_good useStandingAccess_good useTeamInsights_good useTenantBranding_good useTenantIsolationConfig_good useTokenFamily_good useTokenLifecycleDashboard_good useTokenLifetime_good useTokenReuse_good useTokenRotation_good useTokenRotationConfig_good useTokenRotationPolicy_good useUsagePolicy_good useUserImport_good useUserLifecycle_good useUserProvisioning_good useVendorManagement_good useWebhookEventCatalogConfig_good)

lemma PLAIN_HOOKS_B_blank: "(s0, ops) \<in> set PLAIN_HOOKS_B \<Longrightarrow> c \<in> ops E baseUrl \<Longrightarrow> all_refused E \<Longrightarrow> blank c"
  unfolding PLAIN_HOOKS_B_def by (auto dest: useMfaChallengeConfig_blank useNatsJetstream_blank useNotificationPreferences_blank useOAuthClientMigration_blank useOAuthDynamicClientReg_blank useOAuthHealthCheck_blank useOAuthJwksRotationConfig_blank useOAuthScopeConsentMatrix_blank useOAuthTokenExchange_blank useOauthConsentFlow_blank useOidcBackchannelLogoutConfig_blank useOidcClaimConfig_blank useOrgChart_blank useOrgTransfer_blank useParConfig_blank usePasswordAgePolicy_blank usePasswordBreachCheck_blank usePasswordPolicyConfig_blank usePasswordResetFlow_blank usePasswordStrength_blank usePermissionBoundaries_blank usePolicyApprovalWorkflow_blank usePolicyChangeHistory_blank usePolicyConflicts_blank usePolicyDecisionExplain_blank usePolicyDecisionLog_blank usePolicyDryRun_blank usePolicyExceptions_blank usePolicyQuarantine_blank usePolicyRecommendation_blank usePolicySetEval_blank usePolicySimulation_blank usePolicySimulationLab_blank usePolicySnapshots_blank usePolicyVersionDiff_blank usePolicyVersioning_blank useProfileDiff_blank useProvisioningLog_blank useQueryBuilder_blank useRecertification_blank useReportingStructure_blank useReviewExemptions_blank useRiskAggregate_blank useRiskPostureDashboard_blank useRiskProfile_blank useRiskQuantification_blank useRolePermissionMatrix_blank useRoleRequests_blank useRotationReminders_blank useSIEMHealth_blank useSamlAttributeMapping_blank useSamlSpHealth_blank useScimGroupMapping_blank useScimProvisioning_blank useScimProvisioningConfig_blank useScimSyncHealth_blank useScopeCatalog_blank useScopeDrift_blank useScopeLifecycle_blank useScopeMatrix_blank useSecretHistory_blank useSecurityAlerts_blank useSessionAnalytics_blank useSessionGeoStats_blank useSessionInspector_blank useSsoDebugger_blank useStandingAccess_blank useTeamInsights_blank useTenantBranding_blank useTenantIsolationConfig_blank useTokenFamily_blank useTokenLifecycleDashboard_blank useTokenLifetime_blank useTokenReuse_blank useTokenRotation_blank useTokenRotationConfig_blank useTokenRotationPolicy_blank useUsagePolicy_blank useUserImport_blank useUserLifecycle_blank useUserProvisioning_blank useVendorManagement_blank useWebhookEventCatalogConfig_blank)

end
