(* ===== verification/Hooks_Contract.thy ===== *)
theory Hooks_Contract
  imports Hooks_Auth Hooks_Plain_B
begin

text \<open>
  What the operations of the 207 hooks of \<open>Hooks_Auth\<close>, \<open>Hooks_Plain_A\<close> and \<open>Hooks_Plain_B\<close> have in common, for every sequence of calls; and
  the operations that do not look at the status of the answer.
\<close>

definition PLAIN_HOOKS :: "(hook_state \<times> ('w env \<Rightarrow> string \<Rightarrow> 'w cmd set)) list" where
  "PLAIN_HOOKS = PLAIN_HOOKS_A @ PLAIN_HOOKS_B"

lemma PLAIN_HOOKS_good: "(s0, ops) \<in> set PLAIN_HOOKS \<Longrightarrow> c \<in> ops E b \<Longrightarrow> good_op without_credentials c"
  unfolding PLAIN_HOOKS_def using PLAIN_HOOKS_A_good PLAIN_HOOKS_B_good by fastforce

lemma PLAIN_HOOKS_start: "(s0, ops) \<in> set PLAIN_HOOKS \<Longrightarrow> hs_var s0 ''loading'' = JBool False \<and> hs_var s0 ''error'' = JNull"
  unfolding PLAIN_HOOKS_def using PLAIN_HOOKS_A_start PLAIN_HOOKS_B_start by fastforce

text \<open>An operation of one of the hooks.\<close>

definition sdk_op :: "'w env \<Rightarrow> hctx \<Rightarrow> string \<Rightarrow> 'w cmd \<Rightarrow> bool" where
  "sdk_op E x b c = ((\<exists>(s0, ops) \<in> set AUTH_HOOKS. c \<in> ops E x) \<or> (\<exists>(s0, ops) \<in> set PLAIN_HOOKS. c \<in> ops E b))"

lemma sdk_op_blank: "all_refused E \<Longrightarrow> sdk_op E x b c \<Longrightarrow> blank c"
  unfolding sdk_op_def PLAIN_HOOKS_def using AUTH_HOOKS_blank PLAIN_HOOKS_A_blank PLAIN_HOOKS_B_blank by fastforce

lemma run_all_blank: "list_all blank cs \<Longrightarrow> run_all cs s w = (rs, s', w') \<Longrightarrow> no_more s s'"
proof (induction cs arbitrary: s w rs s' w')
  case (Cons c cs)
  obtain r s1 w1 where c: "c s w = (r, s1, w1)" by (metis prod_cases3)
  obtain rs2 s2 w2 where cs: "run_all cs s1 w1 = (rs2, s2, w2)" by (metis prod_cases3)
  have "no_more s s1" using Cons.prems(1) c blankD by auto
  also have "no_more s1 s2" using Cons.IH[OF _ cs] Cons.prems(1) by simp
  finally show ?case using Cons.prems(2) c cs by simp
qed (simp add: no_more_def)

section \<open>Sequences of calls\<close>

text \<open>C38. In every sequence of calls of the operations of a hook that takes token and tenant from the provider, whatever the server answers and
  whatever the arguments are, no promise is rejected, the sign of loading is taken back after each call, the error is \<open>null\<close> or a text, and
  every request carries the token and the tenant.\<close>

theorem auth_hooks_contract:
  assumes "(s0, ops) \<in> set AUTH_HOOKS" "set cs \<subseteq> ops E x" "run_all cs s0 w = (rs, s, w')"
  shows "list_all (\<lambda>r. \<exists>v. r = Inr v) rs \<and> hs_var s ''isLoading'' = JBool False \<and> error_value (hs_var s ''error'') \<and>
    (\<exists>qs. sent w' = sent w @ qs \<and> list_all (with_credentials x) qs)"
proof -
  have "list_all (good_op (with_credentials x)) cs" using AUTH_HOOKS_good[OF assms(1)] assms(2) by (auto simp: list_all_iff)
  then show ?thesis using run_all_good[of "with_credentials x" cs "''isLoading''", OF _ _ _ _ assms(3)] AUTH_HOOKS_start[OF assms(1)] by simp
qed

theorem auth_hooks_contract_witness:
  "let E = always (Resp 500 []); q = run_all [useSessionRisk_fetchSessions E demo_ctx, useSessionRisk_reevaluate E demo_ctx ''s''] useSessionRisk_init blank_world in
   length (sent (snd (snd q))) = 2 \<and> list_all (with_credentials demo_ctx) (sent (snd (snd q))) \<and> hs_var (fst (snd q)) ''isLoading'' = JBool False"
proof -
  let ?E = "always (Resp 500 [])"
  let ?cs = "[useSessionRisk_fetchSessions ?E demo_ctx, useSessionRisk_reevaluate ?E demo_ctx ''s'']"
  let ?q = "run_all ?cs useSessionRisk_init blank_world"
  have t: "(useSessionRisk_init, useSessionRisk_ops) \<in> set AUTH_HOOKS" by (simp add: AUTH_HOOKS_def)
  have s: "set ?cs \<subseteq> useSessionRisk_ops ?E demo_ctx" by (auto simp: useSessionRisk_ops_def)
  have "hs_var (fst (snd ?q)) ''isLoading'' = JBool False \<and> (\<exists>qs. sent (snd (snd ?q)) = sent blank_world @ qs \<and> list_all (with_credentials demo_ctx) qs)"
    using auth_hooks_contract[OF t s, of blank_world "fst ?q" "fst (snd ?q)" "snd (snd ?q)"] by (simp del: run_all.simps)
  moreover have "length (sent (snd (snd ?q))) = 2"
    by (simp add: useSessionRisk_fetchSessions_def useSessionRisk_reevaluate_def branch_def setv_def try_catch_def send_def unless_ok_def throw_def ret_def
        fetch_def always_def resp_ok_def demo_ctx_def blank_world_def)
  ultimately show ?thesis by (simp add: Let_def blank_world_def)
qed

text \<open>C39. In every sequence of calls of the operations of a hook that takes only the address of the server, whatever the server answers and
  whatever the arguments are, no promise is rejected, the sign of loading is taken back after each call and the error is \<open>null\<close> or a text; and
  no request carries a token or a tenant, although all of them address the interface that demands both.\<close>

theorem plain_hooks_contract:
  assumes "(s0, ops) \<in> set PLAIN_HOOKS" "set cs \<subseteq> ops E b" "run_all cs s0 w = (rs, s, w')"
  shows "list_all (\<lambda>r. \<exists>v. r = Inr v) rs \<and> hs_var s ''loading'' = JBool False \<and> error_value (hs_var s ''error'') \<and>
    (\<exists>qs. sent w' = sent w @ qs \<and> list_all without_credentials qs)"
proof -
  have "list_all (good_op without_credentials) cs" using PLAIN_HOOKS_good[OF assms(1)] assms(2) by (auto simp: list_all_iff)
  then show ?thesis using run_all_good[of without_credentials cs "''loading''", OF _ _ _ _ assms(3)] PLAIN_HOOKS_start[OF assms(1)] by simp
qed

theorem plain_hooks_contract_witness:
  "let E = always (Resp 401 []); q = run_all [useDSR_fetchRequests E ''b'', useDSR_updateStatus E ''b'' ''r'' (JStr ''completed'')] useDSR_init blank_world in
   length (sent (snd (snd q))) = 2 \<and> list_all without_credentials (sent (snd (snd q))) \<and> hs_var (fst (snd q)) ''loading'' = JBool False"
proof -
  let ?E = "always (Resp 401 [])"
  let ?cs = "[useDSR_fetchRequests ?E ''b'', useDSR_updateStatus ?E ''b'' ''r'' (JStr ''completed'')]"
  let ?q = "run_all ?cs useDSR_init blank_world"
  have t: "(useDSR_init, useDSR_ops) \<in> set PLAIN_HOOKS" by (simp add: PLAIN_HOOKS_def PLAIN_HOOKS_A_def)
  have s: "set ?cs \<subseteq> useDSR_ops ?E ''b''" by (auto simp: useDSR_ops_def)
  have "hs_var (fst (snd ?q)) ''loading'' = JBool False \<and> (\<exists>qs. sent (snd (snd ?q)) = sent blank_world @ qs \<and> list_all without_credentials qs)"
    using plain_hooks_contract[OF t s, of blank_world "fst ?q" "fst (snd ?q)" "snd (snd ?q)"] by (simp del: run_all.simps)
  moreover have "length (sent (snd (snd ?q))) = 2"
    by (simp add: useDSR_fetchRequests_def useDSR_updateStatus_def setv_def try_catch_def send_def unless_ok_def throw_def ret_def
        fetch_def always_def resp_ok_def blank_world_def)
  ultimately show ?thesis by (simp add: Let_def blank_world_def)
qed

text \<open>C40. With a server that accepts nothing or cannot be reached, no sequence of calls of any of the operations shows anything new: each variable
  beside the error and the sign of loading holds what it held, or was emptied.\<close>

theorem refused_shows_nothing:
  assumes "all_refused E" "list_all (sdk_op E x b) cs" "run_all cs s w = (rs, s', w')" "y \<notin> status_vars"
  shows "hs_var s' y = hs_var s y \<or> hs_var s' y \<in> {JNull, JArr []}"
proof -
  have "list_all blank cs" using assms(2) by (auto simp: list_all_iff dest: sdk_op_blank[OF assms(1)])
  then have "no_more s s'" using assms(3) by (rule run_all_blank)
  then show ?thesis using assms(4) by (auto simp: no_more_def emptied_def)
qed

theorem refused_shows_nothing_witness:
  "hs_var (fst (snd (run_all [useBranding_fetchBranding (always NetError) demo_ctx] (state_of [(''branding'', JStr ''b'')]) blank_world))) ''branding'' = JNull"
proof -
  let ?c = "useBranding_fetchBranding (always NetError) demo_ctx" and ?s = "state_of [(''branding'', JStr ''b'')]"
  let ?q = "run_all [?c] ?s blank_world"
  have "sdk_op (always NetError) demo_ctx [] ?c"
    unfolding sdk_op_def by (rule disjI1, rule bexI[of _ "(useBranding_init, useBranding_ops)"]) (simp_all add: useBranding_ops_def AUTH_HOOKS_def)
  moreover have "all_refused (always NetError)" by (simp add: all_refused_def always_def)
  ultimately have "hs_var (fst (snd ?q)) ''branding'' = hs_var ?s ''branding'' \<or> hs_var (fst (snd ?q)) ''branding'' \<in> {JNull, JArr []}"
    using refused_shows_nothing[of "always NetError" demo_ctx "[]" "[?c]" ?s blank_world "fst ?q" "fst (snd ?q)" "snd (snd ?q)" "''branding''"]
    by (simp add: status_vars_def del: run_all.simps)
  then show ?thesis
    by (simp add: state_of_def useBranding_fetchBranding_def branch_def setv_def try_catch_def send_def finally_set_def ret_def fetch_def always_def demo_ctx_def)
qed

section \<open>Operations that do not look at the status\<close>

text \<open>The test of a connection and the forced reset of a password report success for every answer, an error included; a change of the status of an
  anomaly or an alert is silent about every failure.\<close>

lemma status_ignored:
  assumes "fst (net E (outside w) (plain_request ''POST'' (b @ ''/api/v1/identity/idp-federation/'' @ i @ ''/test'') [] None)) = Resp st body"
  shows "fst (useIdpFederation_testConnection E b i s w) = Inr (JBool True)"
  using assms by (simp add: useIdpFederation_testConnection_def try_catch_def send_def ret_def fetch_def case_prod_beta)

lemma reset_status_ignored:
  assumes "fst (net E (outside w) (plain_request ''POST'' (b @ ''/api/v1/auth/password-breach-check/'' @ i @ ''/force-reset'') [] None)) = Resp st body"
  shows "fst (usePasswordBreachCheck_forceReset E b i s w) = Inr (JBool True)"
  using assms by (simp add: usePasswordBreachCheck_forceReset_def try_catch_def send_def ret_def fetch_def case_prod_beta)

lemma failure_silent:
  "hs_var (fst (snd (useSecurityAlerts_updateStatus E b i st s w))) = hs_var s"
  "hs_var (fst (snd (useAnomalyDetection_updateStatus E b i st s w))) = hs_var s"
  by (simp_all add: useSecurityAlerts_updateStatus_def useAnomalyDetection_updateStatus_def try_catch_def send_def ret_def fetch_def finally_set_def
      case_prod_beta split: outcome.split)

end
