(* ===== verification/Onboarding.thy ===== *)
theory Onboarding
  imports Webhooks
begin

text \<open>
  Self-registration of an organization (\<open>console/src/app/onboarding/page.tsx\<close>): five steps, the checks between them, the strength of
  the password and the request.  The page stays usable while the request is under way (only the button that sends it is off), so
  the page is a step relation: what the user can do on the step shown, and the answer.  The texts of the dictionary and the
  messages of the platform's exceptions are arguments.
\<close>

section \<open>The form\<close>

record reg_form =
  rf_orgName :: string
  rf_orgSize :: string
  rf_industry :: string
  rf_adminName :: string
  rf_adminEmail :: string
  rf_adminPassword :: string
  rf_confirmPassword :: string
  rf_primaryColor :: string
  rf_logoUrl :: string
  rf_customDomain :: string

datatype reg_field = OrgName | OrgSize | Industry | AdminName | AdminEmail | AdminPassword | ConfirmPassword | PrimaryColor | LogoUrl | CustomDomain

definition ORG_SIZES :: "string list" where
  "ORG_SIZES = [''1-10'', ''11-50'', ''51-200'', ''201-1000'', ''1000+'']"

definition INDUSTRIES :: "string list" where
  "INDUSTRIES = [''Technology'', ''Finance'', ''Healthcare'', ''Education'', ''Retail'', ''Manufacturing'', ''Government'', ''Other'']"

definition DEFAULTS :: reg_form where
  "DEFAULTS = \<lparr>rf_orgName = [], rf_orgSize = ''1-10'', rf_industry = ''Technology'', rf_adminName = [], rf_adminEmail = [], rf_adminPassword = [],
     rf_confirmPassword = [], rf_primaryColor = ''#4f46e5'', rf_logoUrl = [], rf_customDomain = []\<rparr>"

fun set_reg_field :: "reg_field \<Rightarrow> string \<Rightarrow> reg_form \<Rightarrow> reg_form" where
  "set_reg_field OrgName v f = f\<lparr>rf_orgName := v\<rparr>"
| "set_reg_field OrgSize v f = f\<lparr>rf_orgSize := v\<rparr>"
| "set_reg_field Industry v f = f\<lparr>rf_industry := v\<rparr>"
| "set_reg_field AdminName v f = f\<lparr>rf_adminName := v\<rparr>"
| "set_reg_field AdminEmail v f = f\<lparr>rf_adminEmail := v\<rparr>"
| "set_reg_field AdminPassword v f = f\<lparr>rf_adminPassword := v\<rparr>"
| "set_reg_field ConfirmPassword v f = f\<lparr>rf_confirmPassword := v\<rparr>"
| "set_reg_field PrimaryColor v f = f\<lparr>rf_primaryColor := v\<rparr>"
| "set_reg_field LogoUrl v f = f\<lparr>rf_logoUrl := v\<rparr>"
| "set_reg_field CustomDomain v f = f\<lparr>rf_customDomain := v\<rparr>"

text \<open>The step on which a field is shown.\<close>

fun field_step :: "reg_field \<Rightarrow> nat" where
  "field_step OrgName = 1" | "field_step OrgSize = 1" | "field_step Industry = 1"
| "field_step AdminName = 2" | "field_step AdminEmail = 2"
| "field_step AdminPassword = 3" | "field_step ConfirmPassword = 3"
| "field_step PrimaryColor = 4" | "field_step LogoUrl = 4" | "field_step CustomDomain = 4"

section \<open>Checks\<close>

definition is_upper :: "char \<Rightarrow> bool" where
  "is_upper c = (65 \<le> (of_char c :: nat) \<and> (of_char c :: nat) \<le> 90)"

definition is_lower :: "char \<Rightarrow> bool" where
  "is_lower c = (97 \<le> (of_char c :: nat) \<and> (of_char c :: nat) \<le> 122)"

definition reg_strength :: "string \<Rightarrow> nat" where
  "reg_strength s = (if s = [] then 0 else
     (if 12 \<le> length s then 1 else 0) + (if list_ex is_upper s then 1 else 0) + (if list_ex is_digit s then 1 else 0) +
     (if list_ex (\<lambda>c. \<not> is_upper c \<and> \<not> is_lower c \<and> \<not> is_digit c) s then 1 else 0))"

text \<open>\<open>/^[^@]+@[^@]+\.[^@]+$/\<close>: one at sign with something before it, and a dot inside what is after it.\<close>

definition reg_email :: "string \<Rightarrow> bool" where
  "reg_email s = (case dropWhile (\<lambda>c. c \<noteq> CHR ''@'') s of [] \<Rightarrow> False
     | _ # d \<Rightarrow> takeWhile (\<lambda>c. c \<noteq> CHR ''@'') s \<noteq> [] \<and> CHR ''@'' \<notin> set d \<and> CHR ''.'' \<in> set (butlast (tl d)))"

text \<open>The state of the page, and what happened before: the requests sent and their answers.\<close>

record onboarding =
  ob_step :: nat
  ob_loading :: bool
  ob_error :: string
  ob_strength :: nat
  ob_result :: "jsv option"
  ob_form :: reg_form
  ob_sent :: "request list"
  ob_answers :: "outcome list"

definition onboarding_init :: onboarding where
  "onboarding_init = \<lparr>ob_step = 1, ob_loading = False, ob_error = [], ob_strength = 0, ob_result = None, ob_form = DEFAULTS, ob_sent = [],
     ob_answers = []\<rparr>"

text \<open>The effect on the password runs after the change is rendered, before the next event.\<close>

definition reg_update :: "reg_field \<Rightarrow> string \<Rightarrow> onboarding \<Rightarrow> onboarding" where
  "reg_update k v p = (let f = set_reg_field k v (ob_form p) in
     p\<lparr>ob_form := f, ob_strength := (if rf_adminPassword f \<noteq> rf_adminPassword (ob_form p) then reg_strength (rf_adminPassword f) else ob_strength p)\<rparr>)"

text \<open>The message of the first check that fails on the step shown.\<close>

definition step_fault :: "nat \<Rightarrow> nat \<Rightarrow> reg_form \<Rightarrow> string option" where
  "step_fault n strength f =
     (if n = 1 then (if trim (rf_orgName f) = [] then Some ''onboarding.error.orgName'' else None)
      else if n = 2 then
        (if trim (rf_adminName f) = [] then Some ''onboarding.error.adminName''
         else if trim (rf_adminEmail f) = [] then Some ''onboarding.error.adminEmail''
         else if \<not> reg_email (rf_adminEmail f) then Some ''onboarding.error.emailFormat'' else None)
      else if n = 3 then
        (if strength < 2 then Some ''onboarding.passwordWeak''
         else if rf_adminPassword f \<noteq> rf_confirmPassword f then Some ''onboarding.passwordMismatch'' else None)
      else None)"

definition validateStep :: "(string \<Rightarrow> string) \<Rightarrow> onboarding \<Rightarrow> onboarding \<times> bool" where
  "validateStep t p = (case step_fault (ob_step p) (ob_strength p) (ob_form p) of
     None \<Rightarrow> (p\<lparr>ob_error := []\<rparr>, True) | Some k \<Rightarrow> (p\<lparr>ob_error := t k\<rparr>, False))"

definition reg_next :: "(string \<Rightarrow> string) \<Rightarrow> onboarding \<Rightarrow> onboarding" where
  "reg_next t p = (case validateStep t p of (q, ok) \<Rightarrow> if ok \<and> ob_step p < 4 then q\<lparr>ob_step := ob_step p + 1\<rparr> else q)"

definition reg_back :: "onboarding \<Rightarrow> onboarding" where
  "reg_back p = (if 1 < ob_step p then p\<lparr>ob_step := ob_step p - 1\<rparr> else p)"

section \<open>The request\<close>

definition reg_body :: "reg_form \<Rightarrow> jsv" where
  "reg_body f = JObj [(''org_name'', JStr (rf_orgName f)), (''org_size'', JStr (rf_orgSize f)), (''industry'', JStr (rf_industry f)),
     (''admin'', JObj [(''email'', JStr (rf_adminEmail f)), (''password'', JStr (rf_adminPassword f)), (''name'', JStr (rf_adminName f))]),
     (''branding'', if rf_primaryColor f \<noteq> rf_primaryColor DEFAULTS \<or> rf_logoUrl f \<noteq> []
        then JObj [(''primary_color'', JStr (rf_primaryColor f)), (''logo_url'', JStr (rf_logoUrl f))] else JUndef),
     (''custom_domain'', if rf_customDomain f = [] then JUndef else JStr (rf_customDomain f))]"

definition reg_request :: "string \<Rightarrow> reg_form \<Rightarrow> request" where
  "reg_request base f = \<lparr>url = base @ ''/api/v1/identity/tenants/self-register'', meth = ''POST'',
     hdrs = [(''Content-Type'', ''application/json'')], rbody = Some (json_stringify (reg_body f))\<rparr>"

definition reg_submit :: "string \<Rightarrow> onboarding \<Rightarrow> onboarding" where
  "reg_submit base p = p\<lparr>ob_loading := True, ob_error := [], ob_sent := ob_sent p @ [reg_request base (ob_form p)]\<rparr>"

text \<open>\<open>data.error?.message || data.error || data.detail || "Registration failed"\<close>, made a text by the constructor of \<open>Error\<close>;
  reading a property of \<open>null\<close> throws.\<close>

definition refusal_text :: "jsv \<Rightarrow> string" where
  "refusal_text d = js_to_string (js_or (js_opt_prop (js_opt_prop d ''error'') ''message'') (js_or (js_opt_prop d ''error'')
     (js_or (js_opt_prop d ''detail'') (JStr ''Registration failed''))))"

definition reg_answer :: "'w env \<Rightarrow> outcome \<Rightarrow> onboarding \<Rightarrow> onboarding" where
  "reg_answer E out p0 = (let p = p0\<lparr>ob_answers := ob_answers p0 @ [out]\<rparr> in case out of
     NetError \<Rightarrow> p\<lparr>ob_error := net_message E, ob_loading := False\<rparr>
   | Resp st body \<Rightarrow> (case json_parse body of
        None \<Rightarrow> p\<lparr>ob_error := syntax_message E, ob_loading := False\<rparr>
      | Some d \<Rightarrow> if \<not> resp_ok st
          then p\<lparr>ob_error := (if nullish d then type_message E else refusal_text d), ob_loading := False\<rparr>
          else p\<lparr>ob_result := Some d, ob_step := 5, ob_loading := False\<rparr>))"

section \<open>Steps\<close>

text \<open>A field can be changed on its step; \<open>Back\<close> is shown on the steps 2 to 4, \<open>Continue\<close> on 1 to 3; the form is sent on step 4 while
  no request is under way.\<close>

inductive reg_step :: "'w env \<Rightarrow> (string \<Rightarrow> string) \<Rightarrow> string \<Rightarrow> onboarding \<Rightarrow> onboarding \<Rightarrow> bool" for E t base where
  type_field: "field_step k = ob_step p \<Longrightarrow> reg_step E t base p (reg_update k v p)"
| go_next: "ob_step p < 4 \<Longrightarrow> reg_step E t base p (reg_next t p)"
| go_back: "1 < ob_step p \<Longrightarrow> ob_step p < 5 \<Longrightarrow> reg_step E t base p (reg_back p)"
| submit: "ob_step p = 4 \<Longrightarrow> \<not> ob_loading p \<Longrightarrow> reg_step E t base p (reg_submit base p)"
| answer: "ob_loading p \<Longrightarrow> reg_step E t base p (reg_answer E out p)"

inductive_cases reg_stepE: "reg_step E t base p q"

definition reg_run :: "'w env \<Rightarrow> (string \<Rightarrow> string) \<Rightarrow> string \<Rightarrow> onboarding \<Rightarrow> bool" where
  "reg_run E t base p = (reg_step E t base)\<^sup>*\<^sup>* onboarding_init p"

section \<open>Invariant\<close>

text \<open>The checks of a form, by itself.\<close>

definition checked :: "nat \<Rightarrow> reg_form \<Rightarrow> bool" where
  "checked n f = (\<forall>i \<in> {1..<n}. step_fault i (reg_strength (rf_adminPassword f)) f = None)"

text \<open>What an accepted answer says.\<close>

definition granted_reg :: "outcome \<Rightarrow> jsv option" where
  "granted_reg out = (case out of NetError \<Rightarrow> None | Resp st body \<Rightarrow> if resp_ok st then json_parse body else None)"

lemma granted_reg_simps [simp]:
  "granted_reg NetError = None" "granted_reg (Resp st body) = (if resp_ok st then json_parse body else None)"
  by (simp_all add: granted_reg_def)

definition ob_ok :: "string \<Rightarrow> onboarding \<Rightarrow> bool" where
  "ob_ok base p = (1 \<le> ob_step p \<and> ob_step p \<le> 5 \<and> ob_strength p = reg_strength (rf_adminPassword (ob_form p)) \<and>
     (ob_step p < 5 \<longrightarrow> checked (ob_step p) (ob_form p)) \<and> 
     (ob_step p < 5 \<longrightarrow> ob_result p = None \<and> (\<forall>out \<in> set (ob_answers p). granted_reg out = None)) \<and>
     (ob_step p = 5 \<longrightarrow> \<not> ob_loading p \<and> ob_result p \<noteq> None \<and> ob_answers p \<noteq> [] \<and> ob_result p = granted_reg (last (ob_answers p)) \<and>
        (\<forall>out \<in> set (butlast (ob_answers p)). granted_reg out = None)) \<and>
     length (ob_sent p) = length (ob_answers p) + (if ob_loading p then 1 else 0) \<and>
     (\<forall>rq \<in> set (ob_sent p). \<exists>f. checked 4 f \<and> rq = reg_request base f))"

text \<open>A change on a step does not touch the checks of the steps before it.\<close>

lemma step_fault_other: "field_step k = n \<Longrightarrow> i < n \<Longrightarrow> step_fault i s (set_reg_field k v f) = step_fault i s f"
  by (cases k) (auto simp: step_fault_def)

lemma strength_other: "field_step k \<noteq> 3 \<Longrightarrow> rf_adminPassword (set_reg_field k v f) = rf_adminPassword f"
  by (cases k) auto

lemma fault_strength: "i \<noteq> 3 \<Longrightarrow> step_fault i s f = step_fault i s' f"
  by (simp add: step_fault_def)

lemma checked_set_reg_field: "checked (field_step k) f \<Longrightarrow> checked (field_step k) (set_reg_field k v f)"
proof -
  assume c: "checked (field_step k) f"
  have "step_fault i (reg_strength (rf_adminPassword (set_reg_field k v f))) (set_reg_field k v f) = None" if i: "i \<in> {1..<field_step k}" for i
  proof -
    have "step_fault i s (set_reg_field k v f) = step_fault i s f" for s using step_fault_other i by simp
    moreover have "i = 3 \<Longrightarrow> rf_adminPassword (set_reg_field k v f) = rf_adminPassword f" using strength_other i by fastforce
    ultimately show ?thesis using c i fault_strength[of i] unfolding checked_def by metis
  qed
  then show ?thesis by (simp add: checked_def)
qed

lemma checked_Suc: "1 \<le> n \<Longrightarrow> checked (Suc n) f = (checked n f \<and> step_fault n (reg_strength (rf_adminPassword f)) f = None)"
  by (auto simp: checked_def less_Suc_eq)

lemma checked_less: "checked n f \<Longrightarrow> m \<le> n \<Longrightarrow> checked m f"
  by (auto simp: checked_def)

lemma reg_step_ok: "reg_step E t base p q \<Longrightarrow> ob_ok base p \<Longrightarrow> ob_ok base q"
proof (induction rule: reg_step.induct)
  case (type_field k p v)
  moreover have "field_step k < 5" by (cases k) auto
  ultimately show ?case using checked_set_reg_field[of k "ob_form p" v]
    by (auto simp: ob_ok_def reg_update_def Let_def)
next
  case (go_next p)
  then show ?case
    by (auto simp: ob_ok_def reg_next_def validateStep_def checked_Suc split: option.splits)
next
  case (go_back p)
  then show ?case using checked_less[of "ob_step p" "ob_form p" "ob_step p - 1"]
    by (auto simp: ob_ok_def reg_back_def)
next
  case (submit p)
  then show ?case by (auto simp: ob_ok_def reg_submit_def)
next
  case (answer p out)
  then show ?case by (auto simp: ob_ok_def reg_answer_def Let_def split: outcome.splits option.splits)
qed

lemma init_ok: "ob_ok base onboarding_init"
  by (simp add: ob_ok_def onboarding_init_def checked_def reg_strength_def DEFAULTS_def)

lemma reg_run_ok: "reg_run E t base p \<Longrightarrow> ob_ok base p"
  unfolding reg_run_def
proof (induction rule: rtranclp_induct)
  case base
  show ?case by (rule init_ok)
next
  case (step p q)
  then show ?case using reg_step_ok by blast
qed

lemma checked_4: "checked 4 f = (trim (rf_orgName f) \<noteq> [] \<and> trim (rf_adminName f) \<noteq> [] \<and> trim (rf_adminEmail f) \<noteq> [] \<and> reg_email (rf_adminEmail f) \<and>
    2 \<le> reg_strength (rf_adminPassword f) \<and> rf_adminPassword f = rf_confirmPassword f)"
proof -
  have "{1..<4} = {1, 2, 3::nat}" by auto
  then show ?thesis by (auto simp: checked_def step_fault_def split: if_splits)
qed

lemma reg_body_read: "json_parse (json_stringify (reg_body f)) = Some (json_norm (reg_body f))"
  by (rule json_parse_stringify) (simp add: reg_body_def)

section \<open>Properties\<close>

text \<open>C12. Self-registration: whatever the user types, wherever he goes back to and whenever the answers arrive, every request that was sent
  comes from a form whose organization and name are not blank, whose address has the form of one, whose password has at least two of the four
  marks of strength and was repeated, and the server reads from it exactly the fields of that form.  Requests are answered one at a time.  The last
  page is shown exactly when an answer was accepted, that is, had a status from 200 to 299 and a JSON body, which is then what the page
  shows: it is the answer to the last request, no earlier one was accepted, and nothing can happen after it.\<close>

theorem registration_sends_checked:
  assumes "reg_run E t base p"
  shows "(\<forall>rq \<in> set (ob_sent p). \<exists>f. trim (rf_orgName f) \<noteq> [] \<and> trim (rf_adminName f) \<noteq> [] \<and> reg_email (rf_adminEmail f) \<and>
      2 \<le> reg_strength (rf_adminPassword f) \<and> rf_confirmPassword f = rf_adminPassword f \<and>
      url rq = base @ ''/api/v1/identity/tenants/self-register'' \<and> Option.bind (rbody rq) json_parse = Some (json_norm (reg_body f))) \<and>
    length (ob_sent p) = length (ob_answers p) + (if ob_loading p then 1 else 0) \<and>
    (ob_step p = 5 \<longleftrightarrow> (\<exists>st body d. Resp st body \<in> set (ob_answers p) \<and> resp_ok st \<and> json_parse body = Some d)) \<and>
    (ob_step p = 5 \<longrightarrow> \<not> reg_step E t base p q \<and> (\<exists>st body d. last (ob_answers p) = Resp st body \<and> resp_ok st \<and>
      json_parse body = Some d \<and> ob_result p = Some d \<and> (\<forall>out \<in> set (butlast (ob_answers p)). granted_reg out = None)))"
proof (intro conjI impI)
  have ok: "ob_ok base p" using assms by (rule reg_run_ok)
  then show "\<forall>rq \<in> set (ob_sent p). \<exists>f. trim (rf_orgName f) \<noteq> [] \<and> trim (rf_adminName f) \<noteq> [] \<and> reg_email (rf_adminEmail f) \<and>
      2 \<le> reg_strength (rf_adminPassword f) \<and> rf_confirmPassword f = rf_adminPassword f \<and>
      url rq = base @ ''/api/v1/identity/tenants/self-register'' \<and> Option.bind (rbody rq) json_parse = Some (json_norm (reg_body f))"
    by (fastforce simp: ob_ok_def checked_4 reg_request_def reg_body_read)
  show "length (ob_sent p) = length (ob_answers p) + (if ob_loading p then 1 else 0)" using ok by (simp add: ob_ok_def)
  have accepted: "(\<exists>st body d. out = Resp st body \<and> resp_ok st \<and> json_parse body = Some d \<and> r = Some d) \<longleftrightarrow> r \<noteq> None \<and> granted_reg out = r"
    for out r by (cases out) auto
  show "ob_step p = 5 \<longleftrightarrow> (\<exists>st body d. Resp st body \<in> set (ob_answers p) \<and> resp_ok st \<and> json_parse body = Some d)"
  proof
    assume "ob_step p = 5"
    then have "last (ob_answers p) \<in> set (ob_answers p)" "ob_result p \<noteq> None" "granted_reg (last (ob_answers p)) = ob_result p"
      using ok by (auto simp: ob_ok_def)
    then show "\<exists>st body d. Resp st body \<in> set (ob_answers p) \<and> resp_ok st \<and> json_parse body = Some d"
      using accepted[of "last (ob_answers p)" "ob_result p"] by metis
  next
    assume "\<exists>st body d. Resp st body \<in> set (ob_answers p) \<and> resp_ok st \<and> json_parse body = Some d"
    then have "\<exists>out \<in> set (ob_answers p). granted_reg out \<noteq> None" by force
    then have "\<not> ob_step p < 5" "ob_step p \<le> 5" using ok by (auto simp: ob_ok_def)
    then show "ob_step p = 5" by simp
  qed
  assume five: "ob_step p = 5"
  have "field_step k \<noteq> 5" for k by (cases k) auto
  then show "\<not> reg_step E t base p q" using five ok by (auto simp: ob_ok_def elim!: reg_stepE)
  have "ob_result p \<noteq> None" "granted_reg (last (ob_answers p)) = ob_result p" "\<forall>out \<in> set (butlast (ob_answers p)). granted_reg out = None"
    using five ok by (auto simp: ob_ok_def)
  then show "\<exists>st body d. last (ob_answers p) = Resp st body \<and> resp_ok st \<and> json_parse body = Some d \<and> ob_result p = Some d \<and>
      (\<forall>out \<in> set (butlast (ob_answers p)). granted_reg out = None)"
    using accepted[of "last (ob_answers p)" "ob_result p"] by metis
qed

text \<open>A run: the form of an organization is filled in and sent; before the answer the user goes back and changes the address.\<close>

definition filled :: "(reg_field \<times> string) list \<Rightarrow> onboarding \<Rightarrow> onboarding" where
  "filled kvs p = foldl (\<lambda>p (k, v). reg_update k v p) p kvs"

lemma run_step: "reg_run E t base p \<Longrightarrow> reg_step E t base p q \<Longrightarrow> reg_run E t base q"
  unfolding reg_run_def by (rule rtranclp.rtrancl_into_rtrancl)

lemmas run_next = run_step[OF _ go_next] and run_back = run_step[OF _ go_back]
  and run_submit = run_step[OF _ submit] and run_answer = run_step[OF _ answer]

lemma filled_run:
  "reg_run E t base p \<Longrightarrow> list_all (\<lambda>(k, v). field_step k = ob_step p) kvs \<Longrightarrow> reg_run E t base (filled kvs p)"
proof (induction kvs arbitrary: p)
  case (Cons kv kvs)
  obtain k v where kv: "kv = (k, v)" by fastforce
  have "reg_run E t base (reg_update k v p)"
    using Cons.prems kv by (auto intro: run_step type_field)
  moreover have "ob_step (reg_update k v p) = ob_step p" by (simp add: reg_update_def Let_def)
  ultimately show ?case using Cons.IH Cons.prems kv by (simp add: filled_def)
qed (simp add: filled_def)

definition at_org :: onboarding where
  "at_org = filled [(OrgName, ''Acme'')] onboarding_init"

definition at_admin :: onboarding where
  "at_admin = filled [(AdminName, ''Jo''), (AdminEmail, ''jo@acme.com'')] (reg_next id at_org)"

definition at_password :: onboarding where
  "at_password = filled [(AdminPassword, ''A1''), (ConfirmPassword, ''A1'')] (reg_next id at_admin)"

definition at_sent :: onboarding where
  "at_sent = reg_submit [] (reg_next id at_password)"

lemma at_sent_run: "reg_run (always NetError) id [] at_sent"
proof -
  have s: "ob_step at_org = 1" "ob_step (reg_next id at_org) = 2" "ob_step at_admin = 2" "ob_step (reg_next id at_admin) = 3" "ob_step at_password = 3"
    "ob_step (reg_next id at_password) = 4" "\<not> ob_loading (reg_next id at_password)" by code_simp+
  have "reg_run (always NetError) id [] at_org" unfolding at_org_def
    by (rule filled_run) (auto simp: reg_run_def onboarding_init_def)
  then have "reg_run (always NetError) id [] at_admin" unfolding at_admin_def
    by (intro filled_run run_next) (simp_all add: s)
  then have "reg_run (always NetError) id [] at_password" unfolding at_password_def
    by (intro filled_run run_next) (simp_all add: s)
  then show ?thesis unfolding at_sent_def by (intro run_submit run_next) (simp_all add: s)
qed

theorem registration_sends_checked_witness:
  "ob_sent at_sent \<noteq> [] \<and> (\<exists>f. reg_email (rf_adminEmail f) \<and> 2 \<le> reg_strength (rf_adminPassword f) \<and>
     Option.bind (rbody (hd (ob_sent at_sent))) json_parse = Some (json_norm (reg_body f))) \<and>
   ob_result (reg_answer (always NetError) (Resp 200 ''{}'') at_sent) = Some (JObj []) \<and>
   ob_step (reg_answer (always NetError) (Resp 403 ''{}'') at_sent) \<noteq> 5"
proof -
  let ?r = "\<lambda>out. reg_answer (always NetError :: unit env) out at_sent"
  have s: "ob_sent at_sent \<noteq> []" "ob_loading at_sent" "ob_answers at_sent = []" "json_parse ''{}'' = Some (JObj [])" by code_simp+
  have run: "reg_run (always NetError) id [] (?r out)" for out by (rule run_answer[OF at_sent_run s(2)])
  have o: "ob_answers (?r out) = [out]" for out
    using s(3) by (simp add: reg_answer_def Let_def split: outcome.split option.split)
  have "hd (ob_sent at_sent) \<in> set (ob_sent at_sent)" using s(1) by (rule hd_in_set)
  moreover have "ob_step (?r (Resp 200 ''{}'')) = 5"
    using registration_sends_checked[OF run[of "Resp 200 ''{}''"]] s(4) by (auto simp: o resp_ok_def)
  then have "ob_result (?r (Resp 200 ''{}'')) = Some (JObj [])"
    using registration_sends_checked[OF run[of "Resp 200 ''{}''"]] s(4) by (auto simp: o)
  moreover have "ob_step (?r (Resp 403 ''{}'')) \<noteq> 5"
    using registration_sends_checked[OF run[of "Resp 403 ''{}''"]] by (auto simp: o resp_ok_def)
  ultimately show ?thesis using registration_sends_checked[OF at_sent_run] s(1) by blast
qed

text \<open>The text that is shown for a refused password asks for twelve characters; a password of two characters passes.\<close>

lemma short_password_passes: "step_fault 3 (reg_strength ''A1'') (DEFAULTS\<lparr>rf_adminPassword := ''A1'', rf_confirmPassword := ''A1''\<rparr>) = None"
  by code_simp

text \<open>Going back while the request is under way: the last page can show an address that was never sent.\<close>

lemma shows_unregistered_address:
  "\<exists>p. reg_run (always NetError) id [] p \<and> ob_step p = 5 \<and> rf_adminEmail (ob_form p) = ''x'' \<and>
     ob_sent p = [reg_request [] (ob_form at_sent)] \<and> rf_adminEmail (ob_form at_sent) = ''jo@acme.com''"
proof -
  let ?b = "reg_back (reg_back at_sent)"
  let ?p = "reg_answer (always NetError) (Resp 200 ''{}'') (filled [(AdminEmail, ''x'')] ?b)"
  have s: "ob_step at_sent = 4" "ob_step (reg_back at_sent) = 3" "ob_step ?b = 2" "ob_loading (filled [(AdminEmail, ''x'')] ?b)"
    "ob_step ?p = 5" "rf_adminEmail (ob_form ?p) = ''x''" "rf_adminEmail (ob_form at_sent) = ''jo@acme.com''" by code_simp+
  have "ob_sent ?p = ob_sent at_sent"
    by (simp add: reg_answer_def Let_def filled_def reg_update_def reg_back_def split: outcome.splits option.splits)
  then have sent: "ob_sent ?p = [reg_request [] (ob_form at_sent)]"
    by (simp add: at_sent_def reg_submit_def) code_simp
  have "reg_run (always NetError) id [] ?b" by (intro run_back at_sent_run) (simp_all add: s)
  then have "reg_run (always NetError) id [] ?p" by (intro run_answer filled_run) (simp_all add: s)
  then show ?thesis using s sent by blast
qed

end
