(* ===== verification/Api_Keys.thy ===== *)
theory Api_Keys
  imports Onboarding
begin

text \<open>
  The page of API keys (\<open>console/src/app/api-keys/page.tsx\<close>): the list, the form with scopes and expiry, creating, the one-time display of
  a new key, revoking.  \<open>stamp n\<close> is the ISO text of the time \<open>n\<close> days from now and \<open>time_of\<close> the milliseconds of a date text, both
  parameters (\<^term>\<open>None\<close> for an invalid date, with which every comparison is false); the dictionary and the answer of the confirmation dialog are
  arguments.  The timers that hide a message are left out.
\<close>

section \<open>Data\<close>

record api_key =
  ak_id :: jsv
  ak_name :: string
  ak_prefix :: string
  ak_scopes :: "string list"
  ak_created :: string
  ak_lastUsed :: string
  ak_expires :: string
  ak_status :: string

definition SCOPE_OPTIONS :: "string list" where
  "SCOPE_OPTIONS = [''read'', ''write'', ''admin'', ''scim'', ''audit:read'']"

definition EXPIRY_OPTIONS :: "(string \<times> nat) list" where
  "EXPIRY_OPTIONS = [(''7d'', 7), (''30d'', 30), (''90d'', 90), (''1y'', 365), (''never'', 0)]"

text \<open>The texts of a record; a text that is absent or \<open>null\<close> is empty, which the page does not tell apart.\<close>

definition api_key_of :: "jsv \<Rightarrow> api_key" where
  "api_key_of v = \<lparr>ak_id = js_opt_prop v ''id'', ak_name = user_str v ''name'', ak_prefix = user_str v ''key_prefix'',
     ak_scopes = strings_in (js_opt_prop v ''scopes''), ak_created = user_str v ''created_at'', ak_lastUsed = user_str v ''last_used_at'',
     ak_expires = user_str v ''expires_at'', ak_status = user_str v ''status''\<rparr>"

record keys_page =
  kp_keys :: "api_key list"
  kp_loading :: bool
  kp_error :: "string option"
  kp_msg :: "string option"
  kp_showCreate :: bool
  kp_name :: string
  kp_scopes :: "string list"
  kp_expiry :: string
  kp_creating :: bool
  kp_newKey :: "string option"
  kp_copied :: bool
  kp_clipboard :: "string list"

definition keys_init :: keys_page where
  "keys_init = \<lparr>kp_keys = [], kp_loading = True, kp_error = None, kp_msg = None, kp_showCreate = False, kp_name = [], kp_scopes = [''read''],
     kp_expiry = ''30d'', kp_creating = False, kp_newKey = None, kp_copied = False, kp_clipboard = []\<rparr>"

section \<open>Operations\<close>

text \<open>A failed request counts as no answer.\<close>

definition loadKeys :: "'w env \<Rightarrow> string \<Rightarrow> string \<Rightarrow> keys_page \<times> 'w world \<Rightarrow> keys_page \<times> 'w world" where
  "loadKeys E base tenant pw = (case pw of (p, w) \<Rightarrow>
     (case apiFetch E base tenant ''/api/v1/api-keys'' no_options w of (r, w1) \<Rightarrow>
       (p\<lparr>kp_error := None, kp_loading := False,
          kp_keys := (case r of Inl _ \<Rightarrow> [] | Inr d \<Rightarrow> if \<not> truthy d then [] else map api_key_of (list_field ''keys'' d))\<rparr>, w1)))"

definition toggleScope :: "string \<Rightarrow> keys_page \<Rightarrow> keys_page" where
  "toggleScope s p = p\<lparr>kp_scopes := js_toggle s (kp_scopes p)\<rparr>"

definition expiry_days :: "string \<Rightarrow> nat" where
  "expiry_days v = (case assoc v EXPIRY_OPTIONS of None \<Rightarrow> 30 | Some n \<Rightarrow> n)"

definition key_body :: "(nat \<Rightarrow> string) \<Rightarrow> keys_page \<Rightarrow> (string \<times> jsv) list" where
  "key_body stamp p = [(''name'', JStr (kp_name p)), (''scopes'', JArr (map JStr (kp_scopes p)))] @
     (let n = expiry_days (kp_expiry p) in if 0 < n then [(''expires_at'', JStr (stamp n))] else [])"

definition reset_form :: "keys_page \<Rightarrow> keys_page" where
  "reset_form p = p\<lparr>kp_name := [], kp_scopes := [''read''], kp_expiry := ''30d'', kp_showCreate := False\<rparr>"

text \<open>The answer \<open>null\<close> throws where its key is read.\<close>

definition ak_handleCreate ::
  "(string \<Rightarrow> string) \<Rightarrow> (nat \<Rightarrow> string) \<Rightarrow> 'w env \<Rightarrow> string \<Rightarrow> string \<Rightarrow> keys_page \<times> 'w world \<Rightarrow> keys_page \<times> 'w world" where
  "ak_handleCreate t stamp E base tenant pw = (case pw of (p, w) \<Rightarrow>
     if trim (kp_name p) = [] then (p\<lparr>kp_error := Some (t ''apiKeys.enterKeyName'')\<rparr>, w)
     else if kp_scopes p = [] then (p\<lparr>kp_error := Some (t ''apiKeys.selectScope'')\<rparr>, w)
     else (let failed = (\<lambda>p. (reset_form p)\<lparr>kp_error := Some ''Failed to create key'', kp_msg := Some (t ''apiKeys.createdDemo''), kp_creating := False\<rparr>) in
       (case apiFetch E base tenant ''/api/v1/api-keys'' (json_options ''POST'' (key_body stamp p)) w of
          (Inl _, w1) \<Rightarrow> (failed p, w1)
        | (Inr d, w1) \<Rightarrow> (let k = js_opt_prop d ''key'' in
            if nullish d then (failed p, w1)
            else (case loadKeys E base tenant (reset_form (if truthy k then p\<lparr>kp_newKey := Some (js_to_string k), kp_error := None\<rparr>
                    else p\<lparr>kp_error := Some ''Failed to create key''\<rparr>), w1) of (q, w2) \<Rightarrow> (q\<lparr>kp_creating := False\<rparr>, w2))))))"

text \<open>Both ways of the code do the same.\<close>

definition ak_handleRevoke ::
  "(string \<Rightarrow> string) \<Rightarrow> bool \<Rightarrow> 'w env \<Rightarrow> string \<Rightarrow> string \<Rightarrow> string \<Rightarrow> keys_page \<times> 'w world \<Rightarrow> keys_page \<times> 'w world" where
  "ak_handleRevoke t confirmed E base tenant i pw = (case pw of (p, w) \<Rightarrow> if \<not> confirmed then (p, w) else
     (let gone = p\<lparr>kp_keys := filter (\<lambda>k. ak_id k \<noteq> JStr i) (kp_keys p), kp_msg := Some (t ''apiKeys.keyRevoked'')\<rparr> in
      (case apiFetch E base tenant (''/api/v1/api-keys/'' @ i) delete_opts w of
         (Inr _, w1) \<Rightarrow> (gone, w1)
       | (Inl _, w1) \<Rightarrow> (gone, w1))))"

definition copyNewKey :: "keys_page \<Rightarrow> keys_page" where
  "copyNewKey p = (case kp_newKey p of None \<Rightarrow> p
     | Some k \<Rightarrow> if k = [] then p else p\<lparr>kp_clipboard := kp_clipboard p @ [k], kp_copied := True\<rparr>)"

text \<open>The button of the dialog, and a click beside it, which does not take the sign of copying back.\<close>

definition close_new_key :: "keys_page \<Rightarrow> keys_page" where
  "close_new_key p = p\<lparr>kp_newKey := None, kp_copied := False\<rparr>"

definition click_beside :: "keys_page \<Rightarrow> keys_page" where
  "click_beside p = p\<lparr>kp_newKey := None\<rparr>"

definition ak_isExpired :: "(string \<Rightarrow> int option) \<Rightarrow> int \<Rightarrow> string \<Rightarrow> bool" where
  "ak_isExpired time_of now' e = (e \<noteq> [] \<and> (case time_of e of None \<Rightarrow> False | Some ms \<Rightarrow> ms < now'))"

definition ak_formatDate :: "(string \<Rightarrow> string) \<Rightarrow> (string \<Rightarrow> string) \<Rightarrow> string \<Rightarrow> string" where
  "ak_formatDate t shown ts = (if ts = [] then t ''apiKeys.never'' else shown ts)"

text \<open>The status of a row, and whether its key can be revoked.\<close>

definition status_label :: "(string \<Rightarrow> string) \<Rightarrow> bool \<Rightarrow> api_key \<Rightarrow> string" where
  "status_label t expired k = (if expired then t ''apiKeys.expired'' else or_else (ak_status k) (t ''apiKeys.activeStatus''))"

definition revocable :: "(string \<Rightarrow> int option) \<Rightarrow> int \<Rightarrow> api_key \<Rightarrow> bool" where
  "revocable time_of now' k = (\<not> ak_isExpired time_of now' (ak_expires k))"

section \<open>Properties\<close>

lemma loadKeys_keeps:
  "kp_newKey (fst (loadKeys E base tenant (p, w))) = kp_newKey p" "kp_msg (fst (loadKeys E base tenant (p, w))) = kp_msg p"
  "kp_error (fst (loadKeys E base tenant (p, w))) = None"
  by (simp_all add: loadKeys_def split: prod.splits)

lemma reset_form_keeps [simp]:
  "kp_newKey (reset_form p) = kp_newKey p" "kp_msg (reset_form p) = kp_msg p" "kp_error (reset_form p) = kp_error p"
  by (simp_all add: reset_form_def)

text \<open>What a user learns of his new key depends on the answer alone.\<close>

datatype key_report = KeyShown string | Announced | Silent

text \<open>A request that failed, or was answered by \<open>null\<close>, is announced as created; an answer without a key leaves no trace, since the message is
  cleared by the reload; any other answer has its key shown.\<close>

definition key_report_of :: "api_exn + jsv \<Rightarrow> key_report" where
  "key_report_of r = (case r of Inl _ \<Rightarrow> Announced
     | Inr d \<Rightarrow> if nullish d then Announced else if truthy (js_opt_prop d ''key'') then KeyShown (js_to_string (js_opt_prop d ''key'')) else Silent)"

definition reported :: "(string \<Rightarrow> string) \<Rightarrow> keys_page \<Rightarrow> keys_page \<Rightarrow> key_report \<Rightarrow> bool" where
  "reported t p q rep = (case rep of
     KeyShown k \<Rightarrow> kp_newKey q = Some k \<and> kp_msg q = kp_msg p \<and> kp_error q = None
   | Announced \<Rightarrow> kp_newKey q = kp_newKey p \<and> kp_msg q = Some (t ''apiKeys.createdDemo'') \<and> kp_error q = Some ''Failed to create key''
   | Silent \<Rightarrow> kp_newKey q = kp_newKey p \<and> kp_msg q = kp_msg p \<and> kp_error q = None)"

text \<open>Creating an API key with a name and at least one scope: the form is reset and the button released whatever happens, and what the user is told
  is: the key exactly as the server sent it; or, when the request fails, both that creating failed and that the key was created; or nothing at all
  when the answer has no key, because the reload clears the error.\<close>

lemma create_key_report:
  assumes "trim (kp_name p) \<noteq> []" "kp_scopes p \<noteq> []"
    and "apiFetch E base tenant ''/api/v1/api-keys'' (json_options ''POST'' (key_body stamp p)) w = (r, w1)"
    and "ak_handleCreate t stamp E base tenant (p, w) = (q, w')"
  shows "reported t p q (key_report_of r) \<and> \<not> kp_creating q \<and> \<not> kp_showCreate q \<and> kp_name q = [] \<and> kp_scopes q = [''read'']"
proof (cases r)
  case (Inl x)
  then show ?thesis using assms
    by (auto simp: ak_handleCreate_def Let_def key_report_of_def reported_def reset_form_def)
next
  case (Inr d)
  show ?thesis
  proof (cases "nullish d")
    case True
    then show ?thesis using assms Inr
      by (auto simp: ak_handleCreate_def Let_def key_report_of_def reported_def reset_form_def)
  next
    case False
    then show ?thesis using assms Inr
      by (auto simp: ak_handleCreate_def Let_def key_report_of_def reported_def loadKeys_def reset_form_def split: prod.splits if_splits)
  qed
qed

definition filled_keys :: keys_page where
  "filled_keys = keys_init\<lparr>kp_name := ''ci'', kp_showCreate := True\<rparr>"

lemma create_key_report_example:
  "\<exists>q w'. ak_handleCreate id (\<lambda>_. ''T'') (always (Resp 201 ''{}'')) [] [] (filled_keys, blank_world) = (q, w') \<and>
     reported id filled_keys q Silent \<and> \<not> kp_showCreate q"
proof -
  obtain r w1 where r: "apiFetch (always (Resp 201 ''{}'')) [] [] ''/api/v1/api-keys'' (json_options ''POST'' (key_body (\<lambda>_. ''T'') filled_keys)) blank_world = (r, w1)"
    by fastforce
  obtain q w' where q: "ak_handleCreate id (\<lambda>_. ''T'') (always (Resp 201 ''{}'')) [] [] (filled_keys, blank_world) = (q, w')" by fastforce
  have "key_report_of (fst (apiFetch (always (Resp 201 ''{}'')) [] [] ''/api/v1/api-keys'' (json_options ''POST'' (key_body (\<lambda>_. ''T'') filled_keys)) blank_world)) = Silent"
    "trim (kp_name filled_keys) \<noteq> []" "kp_scopes filled_keys \<noteq> []" by code_simp+
  then show ?thesis using create_key_report[OF _ _ r q] r q by simp
qed

text \<open>The scopes of the form stay without repetitions, and a request is sent only with a name and a scope.\<close>

lemma toggleScope_distinct: "distinct (kp_scopes p) \<Longrightarrow> distinct (kp_scopes (toggleScope s p))"
  by (simp add: toggleScope_def js_toggle_def js_delete_def js_add_def)

lemma create_needs_scope:
  "trim (kp_name p) = [] \<or> kp_scopes p = [] \<Longrightarrow> snd (ak_handleCreate t stamp E base tenant (p, w)) = w \<and>
     kp_error (fst (ak_handleCreate t stamp E base tenant (p, w))) \<noteq> None"
  by (auto simp: ak_handleCreate_def)

text \<open>Every expiry of the list but the last has a date in the request.\<close>

lemma expiry_in_body:
  "v \<in> set (map fst EXPIRY_OPTIONS) \<Longrightarrow> (''expires_at'' \<in> set (map fst (key_body stamp (p\<lparr>kp_expiry := v\<rparr>)))) = (v \<noteq> ''never'')"
  by (auto simp: EXPIRY_OPTIONS_def key_body_def expiry_days_def Let_def)

text \<open>A key is hidden and announced as revoked whatever the server answers; a reload brings back what the server still has.\<close>

lemma revoke_unchecked:
  "fst (ak_handleRevoke t True E base tenant i (p, w)) =
     p\<lparr>kp_keys := filter (\<lambda>k. ak_id k \<noteq> JStr i) (kp_keys p), kp_msg := Some (t ''apiKeys.keyRevoked'')\<rparr>"
  by (simp add: ak_handleRevoke_def Let_def split: prod.splits sum.splits)

definition keys_server :: "outcome list" where
  "keys_server = [Resp 500 ''{}'', Resp 200 (json_stringify (JObj [(''keys'', JArr [JObj [(''id'', JStr ''k1''), (''name'', JStr ''ci'')]])]))]"

lemma refused_revocation_returns:
  "let p = keys_init\<lparr>kp_keys := [api_key_of (JObj [(''id'', JStr ''k1''), (''name'', JStr ''ci'')])]\<rparr>;
       pw = ak_handleRevoke id True scripted [] [] ''k1'' (p, page Map.empty keys_server) in
     kp_keys (fst pw) = [] \<and> kp_msg (fst pw) = Some ''apiKeys.keyRevoked'' \<and> kp_keys (fst (loadKeys scripted [] [] pw)) = kp_keys p"
  by code_simp

text \<open>The key of the dialog reaches the clipboard unchanged.\<close>

lemma copy_new_key: "kp_newKey p = Some k \<Longrightarrow> k \<noteq> [] \<Longrightarrow> kp_clipboard (copyNewKey p) = kp_clipboard p @ [k]"
  by (simp add: copyNewKey_def)

end
