(* ===== verification/Access_Requests.thy ===== *)
theory Access_Requests
  imports Onboarding Roles_Page
begin

text \<open>
  The page of access requests (\<open>console/src/app/access-requests/page.tsx\<close>): the list of the chosen status, a new request, approving and
  denying.  Requests are JSON values.  A change of the status starts a load while others may be under way, so loading is also a step
  relation.  The answer of the prompt for a reason is an argument (\<^term>\<open>None\<close> when it is cancelled); the timer that hides a message is left out.
\<close>

section \<open>Data\<close>

definition RESOURCE_TYPES :: "string list" where
  "RESOURCE_TYPES = [''role'', ''permission'', ''organization'', ''project'', ''repository'', ''dataset'', ''vault_secret'']"

definition STATUS_TABS :: "string list" where
  "STATUS_TABS = [''pending'', ''approved'', ''denied'', ''expired'', ''all'']"

record access_form =
  af_requester :: string
  af_type :: string
  af_resource :: string
  af_reason :: string

definition empty_access_form :: access_form where
  "empty_access_form = \<lparr>af_requester = [], af_type = ''role'', af_resource = [], af_reason = []\<rparr>"

record access_page =
  ar_requests :: "jsv list"
  ar_loading :: bool
  ar_error :: string
  ar_msg :: string
  ar_filter :: string
  ar_showCreate :: bool
  ar_form :: access_form
  ar_creating :: bool

definition access_init :: access_page where
  "access_init = \<lparr>ar_requests = [], ar_loading = True, ar_error = [], ar_msg = [], ar_filter = ''pending'', ar_showCreate = False,
     ar_form = empty_access_form, ar_creating = False\<rparr>"

section \<open>Operations\<close>

definition requests_path :: "string \<Rightarrow> string" where
  "requests_path tab = ''/api/v1/access-requests'' @ (if tab \<noteq> ''all'' then ''?status='' @ tab else [])"

text \<open>What a load shows; any failure shows an empty list.\<close>

definition loaded_requests :: "api_exn + jsv \<Rightarrow> jsv list" where
  "loaded_requests r = (case list_or_empty [''requests'', ''items''] r of None \<Rightarrow> [] | Some vs \<Rightarrow> vs)"

definition loadRequests :: "'w env \<Rightarrow> string \<Rightarrow> string \<Rightarrow> access_page \<times> 'w world \<Rightarrow> access_page \<times> 'w world" where
  "loadRequests E base tenant pw = (case pw of (p, w) \<Rightarrow>
     (case apiFetch E base tenant (requests_path (ar_filter p)) no_options w of (r, w1) \<Rightarrow>
       (p\<lparr>ar_error := [], ar_requests := loaded_requests r, ar_loading := False\<rparr>, w1)))"

definition access_form_json :: "access_form \<Rightarrow> (string \<times> jsv) list" where
  "access_form_json f = [(''requester_id'', JStr (af_requester f)), (''resource_type'', JStr (af_type f)), (''resource_id'', JStr (af_resource f)),
     (''reason'', JStr (af_reason f))]"

definition ar_handleCreate :: "'w env \<Rightarrow> string \<Rightarrow> string \<Rightarrow> access_page \<times> 'w world \<Rightarrow> access_page \<times> 'w world" where
  "ar_handleCreate E base tenant pw = (case pw of (p, w) \<Rightarrow>
     if trim (af_requester (ar_form p)) = [] \<or> trim (af_resource (ar_form p)) = []
     then (p\<lparr>ar_error := ''Requester ID and Resource ID are required''\<rparr>, w)
     else (case apiFetch E base tenant ''/api/v1/access-requests'' (json_options ''POST'' (access_form_json (ar_form p))) w of
        (Inl x, w1) \<Rightarrow> (p\<lparr>ar_error := api_exn_message E x, ar_creating := False\<rparr>, w1)
      | (Inr _, w1) \<Rightarrow> (case loadRequests E base tenant
            (p\<lparr>ar_error := [], ar_msg := ''Access request created'', ar_showCreate := False, ar_form := empty_access_form\<rparr>, w1) of
          (q, w2) \<Rightarrow> (q\<lparr>ar_creating := False\<rparr>, w2))))"

text \<open>The button is off without the two identifiers.\<close>

definition create_off :: "access_page \<Rightarrow> bool" where
  "create_off p = (ar_creating p \<or> af_requester (ar_form p) = [] \<or> af_resource (ar_form p) = [])"

definition decision_path :: "jsv \<Rightarrow> string \<Rightarrow> string" where
  "decision_path req what = ''/api/v1/access-requests/'' @ js_to_string (js_opt_prop req ''id'') @ ''/'' @ what"

definition current_user :: "'w world \<Rightarrow> jsv" where
  "current_user w = JStr (item_or (local_store w ''ggid_user_id'') [])"

definition handleApprove :: "'w env \<Rightarrow> string \<Rightarrow> string \<Rightarrow> jsv \<Rightarrow> access_page \<times> 'w world \<Rightarrow> access_page \<times> 'w world" where
  "handleApprove E base tenant req pw = (case pw of (p, w) \<Rightarrow>
     (case apiFetch E base tenant (decision_path req ''approve'') (json_options ''POST'' [(''approver_id'', current_user w)]) w of
        (Inl _, w1) \<Rightarrow> (p\<lparr>ar_msg := ''Failed to approve request (API may not be available)''\<rparr>, w1)
      | (Inr _, w1) \<Rightarrow> loadRequests E base tenant (p\<lparr>ar_msg := ''Request approved''\<rparr>, w1)))"

definition handleDeny :: "'w env \<Rightarrow> string \<Rightarrow> string \<Rightarrow> string option \<Rightarrow> jsv \<Rightarrow> access_page \<times> 'w world \<Rightarrow> access_page \<times> 'w world" where
  "handleDeny E base tenant reason req pw = (case pw of (p, w) \<Rightarrow>
     (case apiFetch E base tenant (decision_path req ''deny'')
        (json_options ''POST'' [(''approver_id'', current_user w), (''denial_reason'', JStr (item_or reason []))]) w of
        (Inl _, w1) \<Rightarrow> (p\<lparr>ar_msg := ''Failed to deny request (API may not be available)''\<rparr>, w1)
      | (Inr _, w1) \<Rightarrow> loadRequests E base tenant (p\<lparr>ar_msg := ''Request denied''\<rparr>, w1)))"

definition pendingCount :: "access_page \<Rightarrow> nat" where
  "pendingCount p = length (filter (\<lambda>r. js_opt_prop r ''status'' = JStr ''pending'') (ar_requests p))"

definition statusBadge :: "string \<Rightarrow> string" where
  "statusBadge s = (if s = ''pending'' then ''Pending'' else if s = ''approved'' then ''Approved'' else if s = ''denied'' then ''Denied''
     else if s = ''expired'' then ''Expired'' else s)"

section \<open>Decisions\<close>

text \<open>Cancelling the prompt does not keep a request from being denied.\<close>

lemma cancelled_prompt_denies: "handleDeny E base tenant None req = handleDeny E base tenant (Some []) req"
  by (rule ext) (simp add: handleDeny_def item_or_def split: prod.splits)

text \<open>The first request of a decision names the request decided on and the user stored by the login, an empty name without one.\<close>

lemma loadRequests_extends: "\<exists>us. sent (snd (loadRequests E base tenant (p, w))) = sent w @ us"
  using apiFetch_extends[of E base tenant "requests_path (ar_filter p)" no_options w]
  by (auto simp: loadRequests_def split: prod.splits)

lemma approve_request:
  "\<exists>rq rs. sent (snd (handleApprove E base tenant req (p, w))) = sent w @ rq # rs \<and> meth rq = ''POST'' \<and>
     url rq = base @ decision_path req ''approve'' \<and> Option.bind (rbody rq) json_parse = Some (JObj [(''approver_id'', current_user w)])"
proof -
  let ?o = "json_options ''POST'' [(''approver_id'', current_user w)]"
  obtain r w1 where r: "apiFetch E base tenant (decision_path req ''approve'') ?o w = (r, w1)" by fastforce
  have "json_parse (json_stringify (JObj [(''approver_id'', current_user w)])) = Some (JObj [(''approver_id'', current_user w)])"
    by (rule json_stringify_clean) (simp add: current_user_def)
  then obtain rq us where us: "sent w1 = sent w @ rq # us" "meth rq = ''POST''" "url rq = base @ decision_path req ''approve''"
    "Option.bind (rbody rq) json_parse = Some (JObj [(''approver_id'', current_user w)])"
    using apiFetch_extends[of E base tenant "decision_path req ''approve''" ?o w] r by (auto simp: json_options_def neq_Nil_conv)
  have "\<exists>vs. sent (snd (handleApprove E base tenant req (p, w))) = sent w1 @ vs"
    using r loadRequests_extends[of E base tenant _ w1] by (cases r) (auto simp: handleApprove_def)
  then show ?thesis using us by auto
qed

section \<open>Loads under way\<close>

text \<open>The page with the loads of the list under way, oldest first, each with the status it asks for; \<open>serve\<close> is what the server has.\<close>

record access_live =
  al_page :: access_page
  al_loads :: "string list"

definition choose_tab :: "string \<Rightarrow> access_live \<Rightarrow> access_live" where
  "choose_tab tab s = (if ar_filter (al_page s) = tab then s
     else s\<lparr>al_page := (al_page s)\<lparr>ar_filter := tab, ar_loading := True, ar_error := []\<rparr>, al_loads := al_loads s @ [tab]\<rparr>)"

definition finish_load :: "(string \<Rightarrow> jsv list) \<Rightarrow> nat \<Rightarrow> access_live \<Rightarrow> access_live" where
  "finish_load serve n s = s\<lparr>al_page := (al_page s)\<lparr>ar_requests := serve (al_loads s ! n), ar_loading := False\<rparr>,
     al_loads := take n (al_loads s) @ drop (Suc n) (al_loads s)\<rparr>"

definition access_live_init :: access_live where
  "access_live_init = \<lparr>al_page = access_init, al_loads = [''pending'']\<rparr>"

text \<open>\<open>patient\<close>: answers arrive in the order of the requests.\<close>

inductive load_step :: "bool \<Rightarrow> (string \<Rightarrow> jsv list) \<Rightarrow> access_live \<Rightarrow> access_live \<Rightarrow> bool" for patient serve where
  choose: "tab \<in> set STATUS_TABS \<Longrightarrow> load_step patient serve s (choose_tab tab s)"
| finish: "n < length (al_loads s) \<Longrightarrow> patient \<longrightarrow> n = 0 \<Longrightarrow> load_step patient serve s (finish_load serve n s)"

definition load_run :: "bool \<Rightarrow> (string \<Rightarrow> jsv list) \<Rightarrow> access_live \<Rightarrow> bool" where
  "load_run patient serve s = (load_step patient serve)\<^sup>*\<^sup>* access_live_init s"

definition loads_ok :: "(string \<Rightarrow> jsv list) \<Rightarrow> access_live \<Rightarrow> bool" where
  "loads_ok serve s = (if al_loads s = [] then ar_requests (al_page s) = serve (ar_filter (al_page s)) else last (al_loads s) = ar_filter (al_page s))"

lemma load_step_ok: "load_step True serve s s' \<Longrightarrow> loads_ok serve s \<Longrightarrow> loads_ok serve s'"
proof (induction rule: load_step.induct)
  case (choose tab s)
  then show ?case by (auto simp: loads_ok_def choose_tab_def)
next
  case (finish n s)
  then show ?case by (cases "al_loads s") (auto simp: loads_ok_def finish_load_def split: if_splits)
qed

lemma patient_run_ok: "load_run True serve s \<Longrightarrow> loads_ok serve s"
  unfolding load_run_def
proof (induction rule: rtranclp_induct)
  case base
  show ?case by (simp add: loads_ok_def access_live_init_def access_init_def)
next
  case (step s s')
  then show ?case using load_step_ok by blast
qed

lemma run_choose: "load_run b serve s \<Longrightarrow> tab \<in> set STATUS_TABS \<Longrightarrow> load_run b serve (choose_tab tab s)"
  unfolding load_run_def by (blast intro: rtranclp.rtrancl_into_rtrancl choose)

lemma run_finish: "load_run b serve s \<Longrightarrow> n < length (al_loads s) \<Longrightarrow> b \<longrightarrow> n = 0 \<Longrightarrow> load_run b serve (finish_load serve n s)"
  unfolding load_run_def by (blast intro: rtranclp.rtrancl_into_rtrancl finish)

text \<open>If the answers arrive in the order of the requests, the access requests shown after the last answer are those of the chosen status; if they
  may overtake each other, there is a run after which, with no load under way, the requests of another status are shown, for any server and any other
  status.\<close>

lemma access_list_matches_tab:
  "(load_run True serve s \<longrightarrow> al_loads s = [] \<longrightarrow> ar_requests (al_page s) = serve (ar_filter (al_page s))) \<and>
   (tab \<in> set STATUS_TABS \<longrightarrow> tab \<noteq> ''pending'' \<longrightarrow>
     (\<exists>s. load_run False serve s \<and> al_loads s = [] \<and> ar_filter (al_page s) = tab \<and> ar_requests (al_page s) = serve ''pending''))"
proof (intro conjI impI)
  show "ar_requests (al_page s) = serve (ar_filter (al_page s))" if "load_run True serve s" "al_loads s = []"
    using patient_run_ok[OF that(1)] that(2) by (simp add: loads_ok_def)
next
  assume tab: "tab \<in> set STATUS_TABS" "tab \<noteq> ''pending''"
  let ?a = "choose_tab tab access_live_init"
  let ?b = "finish_load serve 0 (finish_load serve 1 ?a)"
  have a: "al_loads ?a = [''pending'', tab]" "ar_filter (al_page ?a) = tab"
    using tab(2) by (auto simp: choose_tab_def access_live_init_def access_init_def)
  have "load_run False serve access_live_init" by (simp add: load_run_def)
  then have "load_run False serve ?b" using tab(1) a by (intro run_finish run_choose) (auto simp: finish_load_def)
  moreover have "al_loads ?b = []" "ar_filter (al_page ?b) = tab" "ar_requests (al_page ?b) = serve ''pending''"
    using a by (simp_all add: finish_load_def)
  ultimately show "\<exists>s. load_run False serve s \<and> al_loads s = [] \<and> ar_filter (al_page s) = tab \<and> ar_requests (al_page s) = serve ''pending''" by blast
qed

lemma access_list_matches_tab_example:
  "\<exists>s. load_run False (\<lambda>tab. [JStr tab]) s \<and> al_loads s = [] \<and> ar_filter (al_page s) = ''denied'' \<and> ar_requests (al_page s) = [JStr ''pending'']"
  using access_list_matches_tab[of "\<lambda>tab. [JStr tab]" access_live_init "''denied''"] by (simp add: STATUS_TABS_def)

end
