(* ===== verification/Profile.thy ===== *)
theory Profile
  imports Onboarding Passwords Uri_Codec Webauthn Conditional_Access
begin

text \<open>
  The profile page (\<open>console/src/app/profile/page.tsx\<close>): loading, enrolling a TOTP application, removing second factors and linked accounts, passkeys,
  saving, the phone number, the password and the devices.  Values of the server that the page only shows are JSON values.  The authenticator
  (\<open>mint\<close>), the ISO text of the time (\<open>stamp\<close>), the default tenant and the confirmation dialogs are arguments.  Timers that hide a message are
  left out.
\<close>

section \<open>Data\<close>

datatype mfa_setup = MfaIdle | MfaQr | MfaBackup

record device =
  dv_id :: jsv
  dv_name :: jsv
  dv_os :: jsv
  dv_lastSeen :: jsv
  dv_trusted :: bool

record profile =
  pr_saving :: bool
  pr_name :: jsv
  pr_email :: jsv
  pr_phone :: jsv
  pr_phoneVerified :: bool
  pr_phoneVerifying :: bool
  pr_phoneOtp :: string
  pr_phoneOtpSent :: bool
  pr_loaded :: bool
  pr_creds :: jsv
  pr_registering :: bool
  pr_passkeyError :: string
  pr_passkeySuccess :: string
  pr_saved :: bool
  pr_showChangePw :: bool
  pr_curPw :: string
  pr_newPw :: string
  pr_confirmPw :: string
  pr_pwScore :: nat
  pr_pwError :: jsv
  pr_pwSuccess :: string
  pr_changingPw :: bool
  pr_methods :: "jsv list"
  pr_linked :: "jsv list"
  pr_devices :: "device list"
  pr_loading :: bool
  pr_setup :: mfa_setup
  pr_deviceId :: jsv
  pr_qrCodeUrl :: string
  pr_secret :: jsv
  pr_totpCode :: string
  pr_verifying :: bool
  pr_backupCodes :: jsv

definition profile_init :: profile where
  "profile_init = \<lparr>pr_saving = False, pr_name = JStr [], pr_email = JStr [], pr_phone = JStr [], pr_phoneVerified = False, pr_phoneVerifying = False,
     pr_phoneOtp = [], pr_phoneOtpSent = False, pr_loaded = False, pr_creds = JArr [], pr_registering = False, pr_passkeyError = [],
     pr_passkeySuccess = [], pr_saved = False, pr_showChangePw = False, pr_curPw = [], pr_newPw = [], pr_confirmPw = [], pr_pwScore = 0,
     pr_pwError = JStr [], pr_pwSuccess = [], pr_changingPw = False, pr_methods = [], pr_linked = [], pr_devices = [], pr_loading = True,
     pr_setup = MfaIdle, pr_deviceId = JStr [], pr_qrCodeUrl = [], pr_secret = JStr [], pr_totpCode = [], pr_verifying = False,
     pr_backupCodes = JArr []\<rparr>"

section \<open>Requests\<close>

definition pr_headers :: "'w world \<Rightarrow> headers" where
  "pr_headers w = spread [(''Content-Type'', ''application/json'')] (authHeader w)"

definition pr_get :: "string \<Rightarrow> string \<Rightarrow> 'w world \<Rightarrow> request" where
  "pr_get base path w = \<lparr>url = base @ path, meth = ''GET'', hdrs = authHeader w, rbody = None\<rparr>"

definition pr_send :: "string \<Rightarrow> string \<Rightarrow> string \<Rightarrow> (string \<times> jsv) list \<Rightarrow> 'w world \<Rightarrow> request" where
  "pr_send m base path kvs w = \<lparr>url = base @ path, meth = m, hdrs = pr_headers w, rbody = Some (json_stringify (JObj kvs))\<rparr>"

definition pr_delete :: "string \<Rightarrow> string \<Rightarrow> 'w world \<Rightarrow> request" where
  "pr_delete base path w = \<lparr>url = base @ path, meth = ''DELETE'', hdrs = authHeader w, rbody = None\<rparr>"

text \<open>\<open>const res = await fetch(...); if (res.ok) { const d = await res.json(); ... }\<close>: thrown, not accepted, or the value.\<close>

datatype reply = Threw | Refused | Data jsv

definition ask :: "'w env \<Rightarrow> request \<Rightarrow> 'w world \<Rightarrow> reply \<times> 'w world" where
  "ask E rq w = (case fetch E rq w of
     (NetError, w1) \<Rightarrow> (Threw, w1)
   | (Resp st body, w1) \<Rightarrow> if \<not> resp_ok st then (Refused, w1)
       else (case json_parse body of None \<Rightarrow> (Threw, w1) | Some d \<Rightarrow> (Data d, w1)))"

text \<open>Only whether it was accepted.\<close>

definition accepted :: "outcome \<Rightarrow> bool" where
  "accepted out = (case out of NetError \<Rightarrow> False | Resp st _ \<Rightarrow> resp_ok st)"

section \<open>TOTP\<close>

text \<open>\<open>rawUri.match(/secret=([^&]+)/)\<close>: the leftmost \<open>secret=\<close> with something after it.\<close>

fun secret_match :: "string \<Rightarrow> string option" where
  "secret_match [] = None"
| "secret_match (c # s) = (let r = drop 7 (c # s); v = takeWhile (\<lambda>x. x \<noteq> CHR ''&'') r in
     if starts_with (c # s) ''secret='' \<and> v \<noteq> [] then Some v else secret_match s)"

definition qr_service :: string where
  "qr_service = ''https://api.qrserver.com/v1/create-qr-code/?size=200x200&data=''"

definition qr_image :: "string \<Rightarrow> string" where
  "qr_image raw = (if starts_with raw ''data:'' then raw else if starts_with raw ''otpauth:'' then qr_service @ encodeURIComponent raw else raw)"

text \<open>The secret shown: that of the answer, or the one in the address, \<^term>\<open>None\<close> where decoding it throws.\<close>

definition shown_secret :: "jsv \<Rightarrow> string \<Rightarrow> jsv option" where
  "shown_secret d raw = map_option (\<lambda>s. js_or s (js_or (js_opt_prop d ''otpauth_secret'') (JStr [])))
     (let s = js_or (js_opt_prop d ''secret'') (JStr []) in
      if \<not> truthy s \<and> raw \<noteq> [] then (case secret_match raw of None \<Rightarrow> Some s | Some v \<Rightarrow> map_option JStr (decodeURIComponent v)) else Some s)"

definition raw_uri :: "jsv \<Rightarrow> jsv" where
  "raw_uri d = js_or (js_opt_prop d ''qr_code_uri'') (js_or (js_opt_prop d ''qr_code_url'') (js_or (js_opt_prop d ''qr_url'') (JStr [])))"

definition setupTotp :: "'w env \<Rightarrow> string \<Rightarrow> profile \<times> 'w world \<Rightarrow> profile \<times> 'w world" where
  "setupTotp E base pw = (case pw of (p, w) \<Rightarrow> (let p1 = p\<lparr>pr_setup := MfaQr, pr_totpCode := []\<rparr> in
     (case ask E (pr_send ''POST'' base ''/api/v1/auth/mfa/setup'' [(''method'', JStr ''totp'')] w) w of
        (Data d, w1) \<Rightarrow> (case raw_uri d of
            JStr raw \<Rightarrow> if nullish d then (p1, w1)
              else (case shown_secret d raw of None \<Rightarrow> (p1, w1)
                | Some s \<Rightarrow> (p1\<lparr>pr_qrCodeUrl := qr_image raw, pr_secret := s, pr_deviceId := js_or (js_opt_prop d ''device_id'') (JStr [])\<rparr>, w1))
          | _ \<Rightarrow> (p1, w1))
      | (_, w1) \<Rightarrow> (p1, w1))))"

text \<open>The image that is rendered, which the browser fetches.\<close>

definition qr_fetched :: "profile \<Rightarrow> string option" where
  "qr_fetched p = (if pr_setup p = MfaQr \<and> pr_qrCodeUrl p \<noteq> [] then Some (pr_qrCodeUrl p) else None)"

definition totp_method :: jsv where
  "totp_method = JObj [(''type'', JStr ''totp''), (''name'', JStr ''Authenticator App''), (''enabled'', JBool True)]"

definition pr_verifyTotp :: "'w env \<Rightarrow> string \<Rightarrow> profile \<times> 'w world \<Rightarrow> profile \<times> 'w world" where
  "pr_verifyTotp E base pw = (case pw of (p, w) \<Rightarrow>
     (case ask E (pr_send ''POST'' base ''/api/v1/auth/mfa/verify'' [(''device_id'', pr_deviceId p), (''code'', JStr (pr_totpCode p))] w) w of (r, w1) \<Rightarrow>
       ((case r of Data d \<Rightarrow> if nullish d then p
           else p\<lparr>pr_backupCodes := js_or (js_opt_prop d ''backup_codes'') (JArr []), pr_setup := MfaBackup, pr_methods := pr_methods p @ [totp_method]\<rparr>
         | _ \<Rightarrow> p)\<lparr>pr_verifying := False\<rparr>, w1)))"

definition cancel_setup :: "profile \<Rightarrow> profile" where
  "cancel_setup p = p\<lparr>pr_setup := MfaIdle, pr_qrCodeUrl := [], pr_totpCode := []\<rparr>"

definition close_backup :: "profile \<Rightarrow> profile" where
  "close_backup p = p\<lparr>pr_setup := MfaIdle\<rparr>"

text \<open>Any answer of the server removes the method from the list; only a request that fails keeps it.\<close>

definition disableMfa :: "bool \<Rightarrow> 'w env \<Rightarrow> string \<Rightarrow> string \<Rightarrow> profile \<times> 'w world \<Rightarrow> profile \<times> 'w world" where
  "disableMfa confirmed E base ty pw = (case pw of (p, w) \<Rightarrow> if \<not> confirmed then (p, w) else
     (case fetch E (pr_send ''POST'' base ''/api/v1/auth/mfa/disable'' [(''method'', JStr ty)] w) w of
        (NetError, w1) \<Rightarrow> (p, w1)
      | (Resp _ _, w1) \<Rightarrow> (p\<lparr>pr_methods := filter (\<lambda>m. js_opt_prop m ''type'' \<noteq> JStr ty) (pr_methods p)\<rparr>, w1)))"

definition unlinkAccount :: "bool \<Rightarrow> 'w env \<Rightarrow> string \<Rightarrow> string \<Rightarrow> profile \<times> 'w world \<Rightarrow> profile \<times> 'w world" where
  "unlinkAccount confirmed E base provider pw = (case pw of (p, w) \<Rightarrow> if \<not> confirmed then (p, w) else
     (case fetch E (pr_delete base (''/api/v1/auth/account-linking/'' @ to_lower provider) w) w of
        (NetError, w1) \<Rightarrow> (p, w1)
      | (Resp _ _, w1) \<Rightarrow> (p\<lparr>pr_linked := filter (\<lambda>a. js_opt_prop a ''provider'' \<noteq> JStr provider) (pr_linked p)\<rparr>, w1)))"

section \<open>Loading\<close>

text \<open>\<open>Array.isArray(v) ? v : []\<close>.\<close>

definition array_or_none :: "jsv \<Rightarrow> jsv list" where
  "array_or_none v = (case v of JArr vs \<Rightarrow> vs | _ \<Rightarrow> [])"

definition load_factors :: "'w env \<Rightarrow> string \<Rightarrow> profile \<times> 'w world \<Rightarrow> profile \<times> 'w world" where
  "load_factors E base pw = (case pw of (p, w) \<Rightarrow> (case ask E (pr_get base ''/api/v1/auth/mfa/status'' w) w of
     (Data d, w1) \<Rightarrow> if nullish d then (p, w1)
       else (p\<lparr>pr_methods := array_or_none (js_or (js_opt_prop d ''methods'') (js_or (js_opt_prop d ''factors'') (JArr [])))\<rparr>, w1)
   | (_, w1) \<Rightarrow> (p, w1)))"

definition load_linked :: "'w env \<Rightarrow> string \<Rightarrow> profile \<times> 'w world \<Rightarrow> profile \<times> 'w world" where
  "load_linked E base pw = (case pw of (p, w) \<Rightarrow> (case ask E (pr_get base ''/api/v1/auth/account-linking'' w) w of
     (Data d, w1) \<Rightarrow> if nullish d then (p, w1)
       else (p\<lparr>pr_linked := array_or_none (js_or (js_opt_prop d ''accounts'') (js_or d (JArr [])))\<rparr>, w1)
   | (_, w1) \<Rightarrow> (p, w1)))"

text \<open>\<open>s.user_agent?.split(' ').pop()\<close>; \<^term>\<open>None\<close> where it throws.\<close>

definition agent_tail :: "jsv \<Rightarrow> jsv option" where
  "agent_tail v = (case v of JStr s \<Rightarrow> Some (JStr (last (split_on (CHR '' '') s))) | _ \<Rightarrow> if nullish v then Some JUndef else None)"

definition device_of :: "string \<Rightarrow> jsv \<Rightarrow> device option" where
  "device_of stamp s = (if nullish s then None else
     (let d = js_opt_prop s ''device''; a = js_opt_prop s ''user_agent'' in
      map_option (\<lambda>n. \<lparr>dv_id = js_or (js_opt_prop s ''session_id'') (js_opt_prop s ''id''), dv_name = js_or n (JStr ''Unknown Device''),
          dv_os = js_or a (JStr ''Unknown''), dv_lastSeen = js_or (js_opt_prop s ''last_active'') (js_or (js_opt_prop s ''created_at'') (JStr stamp)),
          dv_trusted = (js_to_string (js_opt_prop s ''trusted'') = ''true'')\<rparr>)
        (if truthy d then Some d else agent_tail a)))"

text \<open>The second component is whether the load goes on: an answer without a list ends the whole load.\<close>

definition load_devices :: "string \<Rightarrow> 'w env \<Rightarrow> string \<Rightarrow> profile \<times> 'w world \<Rightarrow> (profile \<times> bool) \<times> 'w world" where
  "load_devices stamp E base pw = (case pw of (p, w) \<Rightarrow> (case ask E (pr_get base ''/api/v1/auth/sessions'' w) w of
     (Data d, w1) \<Rightarrow> if nullish d then ((p, True), w1)
       else (case js_or (js_opt_prop d ''sessions'') (js_or d (JArr [])) of
          JArr vs \<Rightarrow> (case those (map (device_of stamp) vs) of None \<Rightarrow> ((p, True), w1) | Some ds \<Rightarrow> ((p\<lparr>pr_devices := ds\<rparr>, True), w1))
        | _ \<Rightarrow> ((p\<lparr>pr_devices := []\<rparr>, False), w1))
   | (_, w1) \<Rightarrow> ((p, True), w1)))"

definition me_request :: "string \<Rightarrow> string \<Rightarrow> 'w world \<Rightarrow> request" where
  "me_request dflt base w = \<lparr>url = base @ ''/api/v1/users/me'', meth = ''GET'',
     hdrs = spread (authHeader w) [(''X-Tenant-ID'', item_or (local_store w ''ggid_tenant_id'') dflt)], rbody = None\<rparr>"

definition from_token :: "'w world \<Rightarrow> profile \<Rightarrow> profile" where
  "from_token w p = (let token = item_or (local_store w ''ggid_access_token'') [] in if token = [] then p else
     (case jwt_payload (JStr token) of None \<Rightarrow> p
      | Some d \<Rightarrow> if nullish d then p
          else p\<lparr>pr_name := js_or (js_opt_prop d ''name'') (js_or (js_opt_prop d ''username'') (JStr [])), pr_email := js_or (js_opt_prop d ''email'') (JStr [])\<rparr>))"

definition load_me :: "string \<Rightarrow> 'w env \<Rightarrow> string \<Rightarrow> profile \<times> 'w world \<Rightarrow> profile \<times> 'w world" where
  "load_me dflt E base pw = (case pw of (p, w) \<Rightarrow> (case ask E (me_request dflt base w) w of
     (Threw, w1) \<Rightarrow> (from_token w1 p, w1)
   | (Refused, w1) \<Rightarrow> (p, w1)
   | (Data d, w1) \<Rightarrow> if nullish d then (from_token w1 p, w1)
       else (p\<lparr>pr_name := js_or (js_opt_prop d ''display_name'') (js_or (js_opt_prop d ''name'') (js_or (js_opt_prop d ''username'') (JStr []))),
               pr_email := js_or (js_opt_prop d ''email'') (JStr []), pr_phone := js_or (js_opt_prop d ''phone'') (JStr []),
               pr_phoneVerified := truthy (js_opt_prop d ''phone_verified'')\<rparr>, w1)))"

definition loadProfile :: "string \<Rightarrow> string \<Rightarrow> 'w env \<Rightarrow> string \<Rightarrow> profile \<times> 'w world \<Rightarrow> profile \<times> 'w world" where
  "loadProfile stamp dflt E base pw =
     (case load_devices stamp E base (load_linked E base (load_factors E base ((fst pw)\<lparr>pr_loading := True\<rparr>, snd pw))) of ((p, go_on), w) \<Rightarrow>
       if \<not> go_on then (p, w)
       else (case load_me dflt E base (p, w) of (q, w1) \<Rightarrow> (q\<lparr>pr_loaded := True, pr_loading := False\<rparr>, w1)))"

definition save_off :: "profile \<Rightarrow> bool" where
  "save_off p = (pr_saving p \<or> \<not> pr_loaded p)"

section \<open>Passkeys\<close>

definition loadPasskeys :: "'w env \<Rightarrow> string \<Rightarrow> profile \<times> 'w world \<Rightarrow> profile \<times> 'w world" where
  "loadPasskeys E base pw = (case pw of (p, w) \<Rightarrow> (case ask E (pr_get base ''/api/v1/auth/webauthn/credentials'' w) w of
     (Data d, w1) \<Rightarrow> if nullish d then (p, w1)
       else (p\<lparr>pr_creds := js_or (js_opt_prop d ''credentials'') (js_or (js_opt_prop d ''data'') (if is_array d then d else JArr []))\<rparr>, w1)
   | (_, w1) \<Rightarrow> (p, w1)))"

text \<open>\<open>b64urlToBuf\<close> of the page adds no padding, which \<open>atob\<close> does not need.\<close>

definition pr_b64urlToBuf :: "jsv \<Rightarrow> u8 list option" where
  "pr_b64urlToBuf v = (case v of JStr s \<Rightarrow> map_option bytes_of (atob (replace_all (CHR ''_'') ''/'' (replace_all (CHR ''-'') ''+'' s))) | _ \<Rightarrow> None)"

text \<open>The options with their decoded members, and what is decoded of them.\<close>

record pk_options =
  po_options :: jsv
  po_challenge :: "u8 list"
  po_user :: "u8 list option"
  po_exclude :: "(jsv \<times> u8 list) list option"

definition pk_excluded :: "jsv \<Rightarrow> (jsv \<times> u8 list) option" where
  "pk_excluded c = (if nullish c then None else map_option (\<lambda>b. (c, b)) (pr_b64urlToBuf (js_opt_prop c ''id'')))"

definition pk_decode :: "jsv \<Rightarrow> pk_options option" where
  "pk_decode pk = (let u = js_opt_prop (js_opt_prop pk ''user'') ''id''; x = js_opt_prop pk ''excludeCredentials'' in
     case pr_b64urlToBuf (js_opt_prop pk ''challenge'') of None \<Rightarrow> None
     | Some ch \<Rightarrow> (case (if truthy u then map_option Some (pr_b64urlToBuf u) else Some None) of None \<Rightarrow> None
       | Some uid \<Rightarrow> map_option (\<lambda>ex. \<lparr>po_options = pk, po_challenge = ch, po_user = uid, po_exclude = ex\<rparr>)
           (if \<not> truthy x then Some None else (case x of JArr cs \<Rightarrow> map_option Some (those (map pk_excluded cs)) | _ \<Rightarrow> None))))"

text \<open>\<open>e.error?.message || e.error || m\<close> of an answer that was not accepted, an object without members where it is not JSON; the constructor of
  \<open>Error\<close> makes it a text.\<close>

definition pr_error_value :: "string \<Rightarrow> string \<Rightarrow> jsv option" where
  "pr_error_value body m = (let e = (case json_parse body of None \<Rightarrow> JObj [] | Some v \<Rightarrow> v) in
     if nullish e then None else Some (js_or (js_opt_prop (js_opt_prop e ''error'') ''message'') (js_or (js_opt_prop e ''error'') (JStr m))))"

definition pr_error :: "string \<Rightarrow> string \<Rightarrow> exn" where
  "pr_error body m = (case pr_error_value body m of None \<Rightarrow> ExnType | Some v \<Rightarrow> ExnError (js_to_string v))"

definition pk_payload :: "credential \<Rightarrow> (string \<times> jsv) list" where
  "pk_payload c = [(''id'', JStr (cr_id c)), (''rawId'', JStr (bufferToB64url (cr_rawId c))), (''type'', JStr (cr_type c)),
     (''response'', JObj [(''attestationObject'', JStr (bufferToB64url (cr_attestationObject c))), (''clientDataJSON'', JStr (bufferToB64url (cr_clientDataJSON c)))])]"

text \<open>The \<open>try\<close> block; \<open>mint\<close> is the authenticator.\<close>

definition pk_register :: "('w \<Rightarrow> pk_options \<Rightarrow> credential prompt \<times> 'w) \<Rightarrow> 'w env \<Rightarrow> string \<Rightarrow> 'w world \<Rightarrow> (exn + unit) \<times> 'w world" where
  "pk_register mint E base w = (case fetch E (pr_send ''POST'' base ''/api/v1/auth/webauthn/register/begin'' [] w) w of
     (NetError, w1) \<Rightarrow> (Inl ExnNet, w1)
   | (Resp st body, w1) \<Rightarrow> if \<not> resp_ok st then (Inl (pr_error body ''Failed to start registration''), w1)
       else (case json_parse body of None \<Rightarrow> (Inl ExnSyntax, w1)
         | Some d \<Rightarrow> if nullish d then (Inl ExnType, w1) else
           (case pk_decode (js_or (js_opt_prop d ''publicKey'') (js_or (js_opt_prop d ''response'') d)) of None \<Rightarrow> (Inl ExnType, w1)
            | Some opts \<Rightarrow> (case mint (outside w1) opts of (a, o') \<Rightarrow> (let w2 = w1\<lparr>outside := o'\<rparr> in
                (case a of
                   Rejected m \<Rightarrow> (Inl (ExnError m), w2)
                 | Dismissed \<Rightarrow> (Inl (ExnError ''No credential returned''), w2)
                 | Answered c \<Rightarrow> (case fetch E (pr_send ''POST'' base ''/api/v1/auth/webauthn/register/finish'' (pk_payload c) w2) w2 of
                      (NetError, w3) \<Rightarrow> (Inl ExnNet, w3)
                    | (Resp st2 body2, w3) \<Rightarrow> if resp_ok st2 then (Inr (), w3) else (Inl (pr_error body2 ''Failed to finish registration''), w3))))))))"

definition pr_registerPasskey :: "('w \<Rightarrow> pk_options \<Rightarrow> credential prompt \<times> 'w) \<Rightarrow> 'w env \<Rightarrow> string \<Rightarrow> profile \<times> 'w world \<Rightarrow> profile \<times> 'w world" where
  "pr_registerPasskey mint E base pw = (case pw of (p, w) \<Rightarrow> (let p1 = p\<lparr>pr_passkeyError := [], pr_passkeySuccess := [], pr_registering := False\<rparr> in
     (case pk_register mint E base w of
        (Inl x, w1) \<Rightarrow> (let m = exn_message E x in
          (p1\<lparr>pr_passkeyError := (if str_includes m ''cancelled'' \<or> str_includes m ''aborted'' then ''Registration cancelled.'' else m)\<rparr>, w1))
      | (Inr _, w1) \<Rightarrow> loadPasskeys E base (p1\<lparr>pr_passkeySuccess := ''Passkey registered! You can now use it to log in.''\<rparr>, w1))))"

definition removePasskey :: "bool \<Rightarrow> 'w env \<Rightarrow> string \<Rightarrow> string \<Rightarrow> profile \<times> 'w world \<Rightarrow> profile \<times> 'w world" where
  "removePasskey confirmed E base i pw = (case pw of (p, w) \<Rightarrow> if \<not> confirmed then (p, w) else
     (case fetch E (pr_delete base (''/api/v1/auth/webauthn/credentials/'' @ i) w) w of
        (NetError, w1) \<Rightarrow> (p\<lparr>pr_passkeyError := ''Failed to remove passkey.''\<rparr>, w1)
      | (Resp _ _, w1) \<Rightarrow> loadPasskeys E base (p\<lparr>pr_passkeySuccess := ''Passkey removed.''\<rparr>, w1)))"

section \<open>Saving, phone, password, devices\<close>

definition saveProfile :: "'w env \<Rightarrow> string \<Rightarrow> profile \<times> 'w world \<Rightarrow> profile \<times> 'w world" where
  "saveProfile E base pw = (case pw of (p, w) \<Rightarrow>
     (case fetch E (pr_send ''PATCH'' base ''/api/v1/users/me'' [(''display_name'', pr_name p), (''phone'', pr_phone p)] w) w of (out, w1) \<Rightarrow>
       (p\<lparr>pr_saved := (accepted out \<or> pr_saved p), pr_saving := False\<rparr>, w1)))"

definition sendPhoneOtp :: "'w env \<Rightarrow> string \<Rightarrow> profile \<times> 'w world \<Rightarrow> profile \<times> 'w world" where
  "sendPhoneOtp E base pw = (case pw of (p, w) \<Rightarrow> if \<not> truthy (pr_phone p) then (p, w) else
     (case fetch E (pr_send ''POST'' base ''/api/v1/auth/sms-otp/send'' [(''phone'', pr_phone p)] w) w of (out, w1) \<Rightarrow>
       (p\<lparr>pr_phoneOtpSent := (accepted out \<or> pr_phoneOtpSent p), pr_phoneVerifying := False\<rparr>, w1)))"

definition verifyPhoneOtp :: "'w env \<Rightarrow> string \<Rightarrow> profile \<times> 'w world \<Rightarrow> profile \<times> 'w world" where
  "verifyPhoneOtp E base pw = (case pw of (p, w) \<Rightarrow> if pr_phoneOtp p = [] then (p, w) else
     (case fetch E (pr_send ''POST'' base ''/api/v1/auth/sms-otp/verify'' [(''phone'', pr_phone p), (''code'', JStr (pr_phoneOtp p))] w) w of (out, w1) \<Rightarrow>
       ((if accepted out then p\<lparr>pr_phoneVerified := True, pr_phoneOtpSent := False, pr_phoneOtp := []\<rparr> else p)\<lparr>pr_phoneVerifying := False\<rparr>, w1)))"

definition checkPwStrength :: "string \<Rightarrow> profile \<Rightarrow> profile" where
  "checkPwStrength s p = p\<lparr>pr_pwScore := (if s = [] then 0 else min 5
     ((if length s < 8 then 1 else 2) + (if list_ex is_upper s then 1 else 0) + (if list_ex is_digit s then 1 else 0) +
      (if list_ex (\<lambda>c. \<not> is_upper c \<and> \<not> is_lower c \<and> \<not> is_digit c) s then 1 else 0)))\<rparr>"

text \<open>The message of the code has a dash.\<close>

definition pr_handleChangePassword :: "'w env \<Rightarrow> string \<Rightarrow> profile \<times> 'w world \<Rightarrow> profile \<times> 'w world" where
  "pr_handleChangePassword E base pw = (case pw of (p0, w) \<Rightarrow> (let p = p0\<lparr>pr_pwError := JStr [], pr_pwSuccess := []\<rparr>;
       failed = ''Network error '' @ dash @ '' please try again'' in
     if length (pr_newPw p) < 12 then (p\<lparr>pr_pwError := JStr ''New password must be at least 12 characters''\<rparr>, w)
     else if pr_newPw p \<noteq> pr_confirmPw p then (p\<lparr>pr_pwError := JStr ''Passwords do not match''\<rparr>, w)
     else if pr_newPw p = pr_curPw p then (p\<lparr>pr_pwError := JStr ''New password must be different''\<rparr>, w)
     else (case fetch E (pr_send ''POST'' base ''/api/v1/auth/change-password''
         [(''current_password'', JStr (pr_curPw p)), (''new_password'', JStr (pr_newPw p))] w) w of
        (NetError, w1) \<Rightarrow> (p\<lparr>pr_pwError := JStr failed, pr_changingPw := False\<rparr>, w1)
      | (Resp st body, w1) \<Rightarrow>
          if resp_ok st then (p\<lparr>pr_pwSuccess := ''Password changed successfully.'', pr_curPw := [], pr_newPw := [], pr_confirmPw := [],
            pr_showChangePw := False, pr_changingPw := False\<rparr>, w1)
          else (p\<lparr>pr_pwError := (case pr_error_value body ''Failed to change password'' of None \<Rightarrow> JStr failed | Some v \<Rightarrow> v), pr_changingPw := False\<rparr>, w1))))"

definition cancel_change :: "profile \<Rightarrow> profile" where
  "cancel_change p = p\<lparr>pr_showChangePw := False, pr_curPw := [], pr_newPw := [], pr_confirmPw := [], pr_pwError := JStr []\<rparr>"

definition revokeDevice :: "'w env \<Rightarrow> string \<Rightarrow> string \<Rightarrow> profile \<times> 'w world \<Rightarrow> profile \<times> 'w world" where
  "revokeDevice E base i pw = (case pw of (p, w) \<Rightarrow>
     (case fetch E (pr_delete base (''/api/v1/auth/sessions/'' @ i) w) w of (_, w1) \<Rightarrow>
       (p\<lparr>pr_devices := filter (\<lambda>d. dv_id d \<noteq> JStr i) (pr_devices p)\<rparr>, w1)))"

text \<open>The providers offered beside the linked accounts.\<close>

definition offered_providers :: "profile \<Rightarrow> string list" where
  "offered_providers p = filter (\<lambda>q. \<not> list_ex (\<lambda>a. js_opt_prop a ''provider'' = JStr q) (pr_linked p)) [''Google'', ''GitHub'']"

section \<open>Properties\<close>

text \<open>C11. Enrolling a TOTP application sends its secret to a foreign server: whenever the server answers with the address of the account (\<open>otpauth:\<close>, which
  contains the secret), the picture the profile page shows is fetched from a third party under an address from which the whole address of the account,
  secret included, is read back by decoding.\<close>

theorem totp_address_leaves_page:
  assumes "fetch E (pr_send ''POST'' base ''/api/v1/auth/mfa/setup'' [(''method'', JStr ''totp'')] w) w = (Resp st body, w1)" "resp_ok st"
    and "json_parse body = Some d" "raw_uri d = JStr raw" "starts_with raw ''otpauth:''" "shown_secret d raw \<noteq> None"
  shows "\<exists>u. qr_fetched (fst (setupTotp E base (p, w))) = Some u \<and> starts_with u ''https://api.qrserver.com/'' \<and>
    decodeURIComponent (drop (length qr_service) u) = Some raw"
proof -
  have nd: "\<not> nullish d"
    using assms(4,5) by (cases d) (auto simp: raw_uri_def js_or_def js_opt_prop_def starts_with_def)
  have "\<not> starts_with raw ''data:''" using assms(5) by (auto simp: starts_with_def prefix_def)
  then have img: "qr_image raw = qr_service @ encodeURIComponent raw" using assms(5) by (simp add: qr_image_def)
  have "qr_fetched (fst (setupTotp E base (p, w))) = Some (qr_image raw)"
    using assms nd img by (auto simp: setupTotp_def ask_def qr_fetched_def qr_service_def Let_def)
  moreover have "starts_with (qr_image raw) ''https://api.qrserver.com/''" by (simp add: img qr_service_def starts_with_def)
  moreover have "decodeURIComponent (drop (length qr_service) (qr_image raw)) = Some raw" by (simp add: img uri_decode_encode)
  ultimately show ?thesis by blast
qed

definition totp_answer :: jsv where
  "totp_answer = JObj [(''device_id'', JStr ''d1''), (''qr_code_uri'', JStr ''otpauth://totp/GGID:jo?secret=JBSWY3DP&issuer=GGID'')]"

theorem totp_address_leaves_page_witness:
  "\<exists>u. qr_fetched (fst (setupTotp (always (Resp 200 (json_stringify totp_answer))) [] (profile_init, blank_world))) = Some u \<and>
     starts_with u ''https://api.qrserver.com/'' \<and> decodeURIComponent (drop (length qr_service) u) = Some ''otpauth://totp/GGID:jo?secret=JBSWY3DP&issuer=GGID''"
proof -
  let ?E = "always (Resp 200 (json_stringify totp_answer))"
  let ?rq = "pr_send ''POST'' [] ''/api/v1/auth/mfa/setup'' [(''method'', JStr ''totp'')] blank_world"
  let ?raw = "''otpauth://totp/GGID:jo?secret=JBSWY3DP&issuer=GGID''"
  have f: "fetch ?E ?rq blank_world = (Resp 200 (json_stringify totp_answer), snd (fetch ?E ?rq blank_world))" by (simp add: fetch_def always_def)
  have ok: "resp_ok 200" "raw_uri totp_answer = JStr ?raw" "starts_with ?raw ''otpauth:''" "shown_secret totp_answer ?raw \<noteq> None" by code_simp+
  have j: "json_parse (json_stringify totp_answer) = Some totp_answer" by (rule json_stringify_clean) (simp add: totp_answer_def)
  show ?thesis by (rule totp_address_leaves_page[OF f ok(1) j ok(2-4)])
qed

text \<open>The secret in the address is the one the page shows when the answer has none of its own.\<close>

lemma totp_secret_shown: "shown_secret totp_answer ''otpauth://totp/GGID:jo?secret=JBSWY3DP&issuer=GGID'' = Some (JStr ''JBSWY3DP'')"
  by code_simp

text \<open>The codec of the page reads what it writes.\<close>

lemma unpadded_codec: "pr_b64urlToBuf (JStr (bufferToB64url bs)) = Some bs"
proof -
  have "map from_url (map ((!) chars_url) (enc_ix bs)) = map ((!) chars_std) (enc_ix bs)" using enc_ix_bound by (simp add: chars_translate)
  then show ?thesis by (simp add: pr_b64urlToBuf_def bufferToB64url_ix replace_from_url atob_unpadded del: map_map)
qed

interpretation profile_codec: byte_codec bufferToB64url "\<lambda>s. pr_b64urlToBuf (JStr s)"
  by unfold_locales (rule unpadded_codec)

text \<open>A passkey is reported as registered only after the server accepted, as the last request, the encoding of a credential that the authenticator made for
  options the server began with.\<close>

lemma pk_register_done:
  assumes "pk_register mint E base w = (Inr u, w')"
  shows "\<exists>st body d opts o1 c rq. fst (fetch E (pr_send ''POST'' base ''/api/v1/auth/webauthn/register/begin'' [] w) w) = Resp st body \<and> resp_ok st \<and>
    json_parse body = Some d \<and> pk_decode (js_or (js_opt_prop d ''publicKey'') (js_or (js_opt_prop d ''response'') d)) = Some opts \<and>
    fst (mint o1 opts) = Answered c \<and> last (sent w') = rq \<and> url rq = base @ ''/api/v1/auth/webauthn/register/finish'' \<and>
    rbody rq = Some (json_stringify (JObj (pk_payload c)))"
proof -
  obtain st body w1 where b: "fetch E (pr_send ''POST'' base ''/api/v1/auth/webauthn/register/begin'' [] w) w = (Resp st body, w1)" "resp_ok st"
    using assms by (auto simp: pk_register_def split: prod.splits outcome.splits if_splits)
  obtain d opts where d: "json_parse body = Some d" "pk_decode (js_or (js_opt_prop d ''publicKey'') (js_or (js_opt_prop d ''response'') d)) = Some opts"
    using assms b by (auto simp: pk_register_def split: if_splits option.splits)
  obtain c o2 where c: "mint (outside w1) opts = (Answered c, o2)"
    using assms b d by (auto simp: pk_register_def Let_def split: if_splits prod.splits prompt.splits)
  let ?w2 = "w1\<lparr>outside := o2\<rparr>"
  obtain out w3 where f: "fetch E (pr_send ''POST'' base ''/api/v1/auth/webauthn/register/finish'' (pk_payload c) ?w2) ?w2 = (out, w3)" by fastforce
  then have "w' = w3" using assms b d c by (auto simp: pk_register_def Let_def split: if_splits outcome.splits)
  then have "last (sent w') = pr_send ''POST'' base ''/api/v1/auth/webauthn/register/finish'' (pk_payload c) ?w2" using fetch_frame(5)[OF f] by simp
  then have l: "url (last (sent w')) = base @ ''/api/v1/auth/webauthn/register/finish''" "rbody (last (sent w')) = Some (json_stringify (JObj (pk_payload c)))"
    by (simp_all add: pr_send_def)
  have "fst (mint (outside w1) opts) = Answered c" "fst (fetch E (pr_send ''POST'' base ''/api/v1/auth/webauthn/register/begin'' [] w) w) = Resp st body"
    using b c by simp_all
  then show ?thesis using b(2) d l by blast
qed

text \<open>An answer of the session list that holds no list ends the load: the profile is never marked as loaded, and saving stays off.\<close>

lemma loads_keep_loaded:
  "pr_loaded (fst (load_factors E base (p, w))) = pr_loaded p" "pr_loaded (fst (load_linked E base (p, w))) = pr_loaded p"
  "pr_loaded (fst (fst (load_devices stamp E base (p, w)))) = pr_loaded p"
  by (simp_all add: load_factors_def load_linked_def load_devices_def split: prod.split reply.split jsv.split option.split)

lemma odd_sessions_block_saving:
  assumes "load_devices stamp E base (load_linked E base (load_factors E base (p\<lparr>pr_loading := True\<rparr>, w))) = ((q, False), w')" "\<not> pr_loaded p"
  shows "save_off (fst (loadProfile stamp dflt E base (p, w)))"
proof -
  obtain p1 w1 where 1: "load_factors E base (p\<lparr>pr_loading := True\<rparr>, w) = (p1, w1)" by fastforce
  obtain p2 w2 where 2: "load_linked E base (p1, w1) = (p2, w2)" by fastforce
  have "pr_loaded p1 = pr_loaded p" using loads_keep_loaded(1)[of E base "p\<lparr>pr_loading := True\<rparr>" w] 1 by simp
  moreover have "pr_loaded p2 = pr_loaded p1" using loads_keep_loaded(2)[of E base p1 w1] 2 by simp
  moreover have "pr_loaded q = pr_loaded p2" using loads_keep_loaded(3)[of stamp E base p2 w2] assms(1) 1 2 by simp
  ultimately have "pr_loaded q = pr_loaded p" by simp
  then show ?thesis using assms by (simp add: loadProfile_def save_off_def)
qed

lemma odd_sessions_example: "save_off (fst (loadProfile [] [] (always (Resp 200 ''{}'')) [] (profile_init, blank_world)))"
  by code_simp

text \<open>A second factor disappears from the list although the server refused to remove it.\<close>

lemma refused_disable_hides_factor:
  "fst (fetch E (pr_send ''POST'' base ''/api/v1/auth/mfa/disable'' [(''method'', JStr ty)] w) w) = Resp 403 body \<Longrightarrow>
   m \<in> set (pr_methods (fst (disableMfa True E base ty (p, w)))) \<Longrightarrow> js_opt_prop m ''type'' \<noteq> JStr ty"
  by (auto simp: disableMfa_def split: prod.splits outcome.splits)

text \<open>A password is sent only if it has twelve characters, was repeated and is new; the fields are emptied exactly when the server accepts it.\<close>

lemma change_password_guard:
  assumes "sent (snd (pr_handleChangePassword E base (p, w))) \<noteq> sent w"
  shows "12 \<le> length (pr_newPw p) \<and> pr_newPw p = pr_confirmPw p \<and> pr_newPw p \<noteq> pr_curPw p"
  using assms by (auto simp: pr_handleChangePassword_def Let_def split: if_splits)

lemma change_password_cleared:
  assumes "pr_newPw p \<noteq> []"
  shows "pr_newPw (fst (pr_handleChangePassword E base (p, w))) = [] \<longleftrightarrow> 12 \<le> length (pr_newPw p) \<and> pr_newPw p = pr_confirmPw p \<and> pr_newPw p \<noteq> pr_curPw p \<and>
    accepted (fst (fetch E (pr_send ''POST'' base ''/api/v1/auth/change-password'' [(''current_password'', JStr (pr_curPw p)), (''new_password'', JStr (pr_newPw p))] w) w))"
  using assms by (auto simp: pr_handleChangePassword_def accepted_def Let_def split: if_splits prod.splits outcome.splits)

lemma pw_score_bounds: "pr_pwScore (checkPwStrength s p) \<le> 5" "s \<noteq> [] \<Longrightarrow> 1 \<le> pr_pwScore (checkPwStrength s p)"
  by (simp_all add: checkPwStrength_def)

end
