(* ===== verification/Mfa_Page.thy ===== *)
theory Mfa_Page
  imports Profile
begin

text \<open>
  The page of second factors (\<open>console/src/app/settings/mfa/page.tsx\<close>): TOTP with recovery codes, SecurID and YubiKey, passkeys and the backup factors.
  What \<open>navigator.credentials.create\<close> does with the options (\<open>mint\<close>: \<^term>\<open>None\<close> where it throws or the interface is missing, otherwise the JSON of the
  credential), the random identifier and the ISO text of the time are arguments; timers that hide a message are left out.
\<close>

section \<open>Data\<close>

record mfa_cred =
  mc_id :: string
  mc_name :: string
  mc_created :: string

record mfa_page =
  mf_msg :: "string option"
  mf_error :: "string option"
  mf_secret :: jsv
  mf_qrUrl :: string
  mf_totpEnrolled :: bool
  mf_code :: string
  mf_verifying :: bool
  mf_showSecret :: bool
  mf_recovery :: "string list"
  mf_copied :: bool
  mf_name :: string
  mf_webauthnLoading :: bool
  mf_creds :: "mfa_cred list"
  mf_backupSms :: bool
  mf_backupEmail :: bool
  mf_radiusAvailable :: bool
  mf_passcode :: string
  mf_securIdVerifying :: bool
  mf_securIdEnrolled :: bool
  mf_yubikeyAvailable :: bool
  mf_otp :: string
  mf_yubikeyVerifying :: bool
  mf_yubikeyEnrolled :: bool
  mf_radiusTest :: bool
  mf_yubikeyTest :: bool

definition mfa_init :: mfa_page where
  "mfa_init = \<lparr>mf_msg = None, mf_error = None, mf_secret = JStr [], mf_qrUrl = [], mf_totpEnrolled = False, mf_code = [], mf_verifying = False,
     mf_showSecret = False, mf_recovery = [], mf_copied = False, mf_name = [], mf_webauthnLoading = False, mf_creds = [], mf_backupSms = False,
     mf_backupEmail = False, mf_radiusAvailable = False, mf_passcode = [], mf_securIdVerifying = False, mf_securIdEnrolled = False,
     mf_yubikeyAvailable = False, mf_otp = [], mf_yubikeyVerifying = False, mf_yubikeyEnrolled = False, mf_radiusTest = False, mf_yubikeyTest = False\<rparr>"

section \<open>Operations\<close>

definition load_mfa_methods :: "'w env \<Rightarrow> string \<Rightarrow> string \<Rightarrow> mfa_page \<times> 'w world \<Rightarrow> mfa_page \<times> 'w world" where
  "load_mfa_methods E base tenant pw = (case pw of (p, w) \<Rightarrow> if \<not> has_window w then (p, w) else
     (case apiFetch E base tenant ''/api/v1/auth/mfa/methods'' no_options w of
        (Inl _, w1) \<Rightarrow> (p, w1)
      | (Inr d, w1) \<Rightarrow> if nullish d then (p, w1)
          else (p\<lparr>mf_radiusAvailable := truthy (js_opt_prop d ''radius_enabled''), mf_yubikeyAvailable := truthy (js_opt_prop d ''yubikey_enabled''),
                  mf_radiusTest := truthy (js_opt_prop d ''radius_test_mode''), mf_yubikeyTest := truthy (js_opt_prop d ''yubikey_test_mode'')\<rparr>, w1)))"

text \<open>An answer that does not confirm the code is passed over in silence.\<close>

definition verifySecurId :: "'w env \<Rightarrow> string \<Rightarrow> string \<Rightarrow> mfa_page \<times> 'w world \<Rightarrow> mfa_page \<times> 'w world" where
  "verifySecurId E base tenant pw = (case pw of (p, w) \<Rightarrow>
     if length (mf_passcode p) < 4 then (p\<lparr>mf_error := Some ''Enter a valid passcode''\<rparr>, w)
     else (case apiFetch E base tenant ''/api/v1/auth/mfa/radius/verify'' (json_options ''POST'' [(''passcode'', JStr (mf_passcode p))]) w of
        (Inl x, w1) \<Rightarrow> (p\<lparr>mf_error := Some (api_exn_message E x), mf_securIdVerifying := False\<rparr>, w1)
      | (Inr d, w1) \<Rightarrow> if nullish d then (p\<lparr>mf_error := Some (type_message E), mf_securIdVerifying := False\<rparr>, w1)
          else if truthy (js_opt_prop d ''verified'')
          then (p\<lparr>mf_error := None, mf_securIdEnrolled := True, mf_msg := Some ''SecurID verified successfully.'', mf_passcode := [], mf_securIdVerifying := False\<rparr>, w1)
          else (p\<lparr>mf_error := None, mf_securIdVerifying := False\<rparr>, w1)))"

definition verifyYubikey :: "'w env \<Rightarrow> string \<Rightarrow> string \<Rightarrow> mfa_page \<times> 'w world \<Rightarrow> mfa_page \<times> 'w world" where
  "verifyYubikey E base tenant pw = (case pw of (p, w) \<Rightarrow>
     if length (mf_otp p) < 32 then (p\<lparr>mf_error := Some ''Insert YubiKey and tap to generate OTP''\<rparr>, w)
     else (case apiFetch E base tenant ''/api/v1/auth/mfa/yubikey/verify'' (json_options ''POST'' [(''otp'', JStr (mf_otp p))]) w of
        (Inl x, w1) \<Rightarrow> (p\<lparr>mf_error := Some (api_exn_message E x), mf_yubikeyVerifying := False\<rparr>, w1)
      | (Inr d, w1) \<Rightarrow> if nullish d then (p\<lparr>mf_error := Some (type_message E), mf_yubikeyVerifying := False\<rparr>, w1)
          else if truthy (js_opt_prop d ''verified'')
          then (p\<lparr>mf_error := None, mf_yubikeyEnrolled := True, mf_msg := Some ''YubiKey enrolled successfully.'', mf_otp := [], mf_yubikeyVerifying := False\<rparr>, w1)
          else (p\<lparr>mf_error := None, mf_yubikeyVerifying := False\<rparr>, w1)))"

text \<open>An address that is no text has no \<open>startsWith\<close>; the secret is shown before it is read.\<close>

definition startTotpEnrollment :: "(string \<Rightarrow> string) \<Rightarrow> 'w env \<Rightarrow> string \<Rightarrow> string \<Rightarrow> mfa_page \<times> 'w world \<Rightarrow> mfa_page \<times> 'w world" where
  "startTotpEnrollment t E base tenant pw = (case pw of (p, w) \<Rightarrow>
     (case apiFetch E base tenant ''/api/v1/auth/mfa/setup''
        \<lparr>o_method = Some ''POST'', o_headers = [(''Content-Type'', ''application/json'')], o_body = Some (json_stringify (JObj []))\<rparr> w of
        (Inl x, w1) \<Rightarrow> (p\<lparr>mf_error := Some (api_exn_message E x)\<rparr>, w1)
      | (Inr d, w1) \<Rightarrow> if nullish d then (p\<lparr>mf_error := Some (type_message E)\<rparr>, w1)
          else (let p1 = p\<lparr>mf_error := None, mf_secret := js_or (js_opt_prop d ''secret'') (JStr [])\<rparr> in
            (case raw_uri d of
               JStr u \<Rightarrow> (p1\<lparr>mf_qrUrl := (if starts_with u ''otpauth:'' then qr_service @ encodeURIComponent u else u), mf_msg := Some (t ''mfa.scanQrPrompt'')\<rparr>, w1)
             | _ \<Rightarrow> (p1\<lparr>mf_error := Some (type_message E)\<rparr>, w1)))))"

text \<open>The picture of the code: 64 squares, drawn by their position, whatever the address is.\<close>

definition qr_squares :: "mfa_page \<Rightarrow> bool list option" where
  "qr_squares p = (if mf_qrUrl p \<noteq> [] then Some (map (\<lambda>i. (i * 7 + 3) mod 3 = 0) [0..<64]) else None)"

definition type_code :: "string \<Rightarrow> mfa_page \<Rightarrow> mfa_page" where
  "type_code s p = p\<lparr>mf_code := filter is_digit s\<rparr>"

text \<open>The factor counts as enrolled before the recovery codes are read.\<close>

definition mf_verifyTotp :: "(string \<Rightarrow> string) \<Rightarrow> 'w env \<Rightarrow> string \<Rightarrow> string \<Rightarrow> mfa_page \<times> 'w world \<Rightarrow> mfa_page \<times> 'w world" where
  "mf_verifyTotp t E base tenant pw = (case pw of (p, w) \<Rightarrow>
     if length (mf_code p) \<noteq> 6 then (p\<lparr>mf_error := Some (t ''settings.enterCode'')\<rparr>, w)
     else (case apiFetch E base tenant ''/api/v1/auth/mfa/verify'' (json_options ''POST'' [(''code'', JStr (mf_code p))]) w of
        (Inl x, w1) \<Rightarrow> (p\<lparr>mf_error := Some (api_exn_message E x), mf_verifying := False\<rparr>, w1)
      | (Inr d, w1) \<Rightarrow> (let p1 = p\<lparr>mf_error := None, mf_totpEnrolled := True, mf_verifying := False\<rparr>; cs = strings_in (js_opt_prop d ''recovery_codes'') in
          if nullish d then (p1\<lparr>mf_error := Some (type_message E)\<rparr>, w1)
          else (p1\<lparr>mf_recovery := (if cs \<noteq> [] then cs else mf_recovery p), mf_msg := Some (t ''mfa.totpEnrolledSuccess'')\<rparr>, w1))))"

definition copied_codes :: "mfa_page \<Rightarrow> string" where
  "copied_codes p = join_on (CHR 0x0A) (mf_recovery p)"

definition numbered :: "nat \<Rightarrow> string list \<Rightarrow> string list" where
  "numbered n cs = map (\<lambda>(i, c). show_nat i @ ''. '' @ c) (zip [n..<n + length cs] cs)"

definition codes_file :: "mfa_page \<Rightarrow> string" where
  "codes_file p = ''GGID Recovery Codes'' @ [CHR 0x0A, CHR 0x0A] @ join_on (CHR 0x0A) (numbered 1 (mf_recovery p)) @ [CHR 0x0A, CHR 0x0A] @
     ''Store these in a safe place.''"

text \<open>The inner \<open>try\<close>: the prompt and the second request, if the first answer has options.\<close>

definition mf_ceremony ::
  "('w \<Rightarrow> jsv \<Rightarrow> jsv option \<times> 'w) \<Rightarrow> string \<Rightarrow> 'w env \<Rightarrow> string \<Rightarrow> string \<Rightarrow> jsv \<Rightarrow> 'w world \<Rightarrow> 'w world" where
  "mf_ceremony mint name E base tenant d w = (let k = js_opt_prop d ''publicKey'' in if \<not> truthy k then w else
     (case mint (outside w) k of
        (None, o') \<Rightarrow> w\<lparr>outside := o'\<rparr>
      | (Some c, o') \<Rightarrow> snd (apiFetch E base tenant ''/api/v1/webauthn/register/finish''
          (json_options ''POST'' [(''credential'', c), (''name'', JStr name)]) (w\<lparr>outside := o'\<rparr>))))"

text \<open>An answer \<open>null\<close> throws in the inner \<open>try\<close>; both ways end in the same entry and message.\<close>

definition mf_registerPasskey ::
  "(string \<Rightarrow> string) \<Rightarrow> ('w \<Rightarrow> jsv \<Rightarrow> jsv option \<times> 'w) \<Rightarrow> string \<Rightarrow> string \<Rightarrow> 'w env \<Rightarrow> string \<Rightarrow> string \<Rightarrow> mfa_page \<times> 'w world \<Rightarrow> mfa_page \<times> 'w world" where
  "mf_registerPasskey t mint uuid stamp E base tenant pw = (case pw of (p, w) \<Rightarrow>
     if trim (mf_name p) = [] then (p\<lparr>mf_error := Some (t ''settings.enterPasskeyName'')\<rparr>, w)
     else (let q = p\<lparr>mf_error := None, mf_creds := mf_creds p @ [\<lparr>mc_id = uuid, mc_name = mf_name p, mc_created = stamp\<rparr>], mf_name := [],
             mf_msg := Some (t ''mfa.passkeyRegistered''), mf_webauthnLoading := False\<rparr> in
       (case apiFetch E base tenant ''/api/v1/webauthn/register/begin'' (json_options ''POST'' [(''name'', JStr (mf_name p))]) w of
          (Inl _, w1) \<Rightarrow> (q, w1)
        | (Inr d, w1) \<Rightarrow> (q, mf_ceremony mint (mf_name p) E base tenant d w1))))"

definition backup_message :: "bool \<Rightarrow> bool \<Rightarrow> string" where
  "backup_message sms on = (if sms then ''SMS'' else ''Email'') @ '' backup MFA '' @ (if on then ''enabled'' else ''disabled'')"

definition toggleBackupMfa :: "'w env \<Rightarrow> string \<Rightarrow> string \<Rightarrow> bool \<Rightarrow> bool \<Rightarrow> mfa_page \<times> 'w world \<Rightarrow> mfa_page \<times> 'w world" where
  "toggleBackupMfa E base tenant sms on pw = (case pw of (p, w) \<Rightarrow>
     (let q = (if sms then p\<lparr>mf_backupSms := on\<rparr> else p\<lparr>mf_backupEmail := on\<rparr>)\<lparr>mf_msg := Some (backup_message sms on)\<rparr> in
      (case apiFetch E base tenant ''/api/v1/auth/mfa/backup''
          (json_options ''POST'' [(''method'', JStr (if sms then ''sms'' else ''email'')), (''enabled'', JBool on)]) w of
         (Inr _, w1) \<Rightarrow> (q, w1) | (Inl _, w1) \<Rightarrow> (q, w1))))"

section \<open>Properties\<close>

text \<open>Whether the server answered a request with success, and whether its answer confirms the code.\<close>

definition mfa_accepted :: "'w env \<Rightarrow> string \<Rightarrow> string \<Rightarrow> string \<Rightarrow> (string \<times> jsv) list \<Rightarrow> 'w world \<Rightarrow> bool" where
  "mfa_accepted E base tenant path kvs w = (case fst (apiFetch E base tenant path (json_options ''POST'' kvs) w) of Inl _ \<Rightarrow> False | Inr _ \<Rightarrow> True)"

definition mfa_confirmed :: "'w env \<Rightarrow> string \<Rightarrow> string \<Rightarrow> string \<Rightarrow> (string \<times> jsv) list \<Rightarrow> 'w world \<Rightarrow> bool" where
  "mfa_confirmed E base tenant path kvs w =
     (case fst (apiFetch E base tenant path (json_options ''POST'' kvs) w) of Inl _ \<Rightarrow> False | Inr d \<Rightarrow> truthy (js_opt_prop d ''verified''))"

lemma not_confirmed_null: "nullish d \<Longrightarrow> \<not> truthy (js_opt_prop d k)"
  by (cases d) (simp_all add: js_opt_prop_def)

text \<open>C21. What the page of second factors claims: TOTP is shown as enrolled exactly if it was or six digits were accepted by the server, SecurID and YubiKey exactly
  if they were or the answer confirms the code.  But whatever the server and the authenticator do, a passkey for which a name was given is added to
  the list and announced as registered (without a name nothing is sent and nothing added), and a backup factor is shown and
  announced as switched, the other one left as it is.\<close>

theorem mfa_claims:
  "(mf_totpEnrolled (fst (mf_verifyTotp t E base tenant (p, w))) \<longleftrightarrow> mf_totpEnrolled p \<or>
      length (mf_code p) = 6 \<and> mfa_accepted E base tenant ''/api/v1/auth/mfa/verify'' [(''code'', JStr (mf_code p))] w) \<and>
   (mf_securIdEnrolled (fst (verifySecurId E base tenant (p, w))) \<longleftrightarrow> mf_securIdEnrolled p \<or>
      4 \<le> length (mf_passcode p) \<and> mfa_confirmed E base tenant ''/api/v1/auth/mfa/radius/verify'' [(''passcode'', JStr (mf_passcode p))] w) \<and>
   (mf_yubikeyEnrolled (fst (verifyYubikey E base tenant (p, w))) \<longleftrightarrow> mf_yubikeyEnrolled p \<or>
      32 \<le> length (mf_otp p) \<and> mfa_confirmed E base tenant ''/api/v1/auth/mfa/yubikey/verify'' [(''otp'', JStr (mf_otp p))] w) \<and>
   (let r = mf_registerPasskey t mint uuid stamp E base tenant (p, w); p' = fst r in
      if trim (mf_name p) = [] then snd r = w \<and> mf_creds p' = mf_creds p \<and> mf_msg p' = mf_msg p \<and> mf_error p' = Some (t ''settings.enterPasskeyName'')
      else map mc_name (mf_creds p') = map mc_name (mf_creds p) @ [mf_name p] \<and> mf_msg p' = Some (t ''mfa.passkeyRegistered'') \<and> mf_error p' = None) \<and>
   (let p' = fst (toggleBackupMfa E base tenant sms on (p, w)) in
      (mf_backupSms p', mf_backupEmail p', mf_msg p') =
        (if sms then (on, mf_backupEmail p, Some (''SMS backup MFA '' @ (if on then ''enabled'' else ''disabled'')))
         else (mf_backupSms p, on, Some (''Email backup MFA '' @ (if on then ''enabled'' else ''disabled'')))))"
proof (intro conjI)
  show "mf_totpEnrolled (fst (mf_verifyTotp t E base tenant (p, w))) \<longleftrightarrow> mf_totpEnrolled p \<or>
      length (mf_code p) = 6 \<and> mfa_accepted E base tenant ''/api/v1/auth/mfa/verify'' [(''code'', JStr (mf_code p))] w"
    by (auto simp: mf_verifyTotp_def mfa_accepted_def Let_def split: prod.splits sum.splits)
  show "mf_securIdEnrolled (fst (verifySecurId E base tenant (p, w))) \<longleftrightarrow> mf_securIdEnrolled p \<or>
      4 \<le> length (mf_passcode p) \<and> mfa_confirmed E base tenant ''/api/v1/auth/mfa/radius/verify'' [(''passcode'', JStr (mf_passcode p))] w"
    by (auto simp: verifySecurId_def mfa_confirmed_def not_confirmed_null split: prod.splits sum.splits)
  show "mf_yubikeyEnrolled (fst (verifyYubikey E base tenant (p, w))) \<longleftrightarrow> mf_yubikeyEnrolled p \<or>
      32 \<le> length (mf_otp p) \<and> mfa_confirmed E base tenant ''/api/v1/auth/mfa/yubikey/verify'' [(''otp'', JStr (mf_otp p))] w"
    by (auto simp: verifyYubikey_def mfa_confirmed_def not_confirmed_null split: prod.splits sum.splits)
  show "let r = mf_registerPasskey t mint uuid stamp E base tenant (p, w); p' = fst r in
      if trim (mf_name p) = [] then snd r = w \<and> mf_creds p' = mf_creds p \<and> mf_msg p' = mf_msg p \<and> mf_error p' = Some (t ''settings.enterPasskeyName'')
      else map mc_name (mf_creds p') = map mc_name (mf_creds p) @ [mf_name p] \<and> mf_msg p' = Some (t ''mfa.passkeyRegistered'') \<and> mf_error p' = None"
    by (simp add: mf_registerPasskey_def Let_def split: prod.splits sum.splits)
  show "let p' = fst (toggleBackupMfa E base tenant sms on (p, w)) in (mf_backupSms p', mf_backupEmail p', mf_msg p') =
        (if sms then (on, mf_backupEmail p, Some (''SMS backup MFA '' @ (if on then ''enabled'' else ''disabled'')))
         else (mf_backupSms p, on, Some (''Email backup MFA '' @ (if on then ''enabled'' else ''disabled''))))"
    by (simp add: toggleBackupMfa_def backup_message_def Let_def split: prod.splits sum.splits)
qed

text \<open>The squares drawn for scanning do not depend on the address.\<close>

lemma qr_squares_fixed: "mf_qrUrl p \<noteq> [] \<Longrightarrow> mf_qrUrl q \<noteq> [] \<Longrightarrow> qr_squares p = qr_squares q"
  by (simp add: qr_squares_def)

text \<open>A code the page sends has six digits.\<close>

lemma typed_code_digits: "list_all is_digit (mf_code (type_code s p))"
  by (simp add: type_code_def list_all_iff)

text \<open>The recovery codes can be read back from the clipboard, and the file has one numbered line for each.\<close>

lemma recovery_copied: "mf_recovery p \<noteq> [] \<Longrightarrow> (\<And>c. c \<in> set (mf_recovery p) \<Longrightarrow> CHR 0x0A \<notin> set c) \<Longrightarrow> split_on (CHR 0x0A) (copied_codes p) = mf_recovery p"
  by (simp add: copied_codes_def split_on_join)

lemma recovery_file: "codes_file (mfa_init\<lparr>mf_recovery := [''ab'', ''cd'']\<rparr>) =
    ''GGID Recovery Codes'' @ [CHR 0x0A, CHR 0x0A] @ ''1. ab'' @ [CHR 0x0A] @ ''2. cd'' @ [CHR 0x0A, CHR 0x0A] @ ''Store these in a safe place.''"
  by code_simp

end
