(* ===== verification/Passkey_Pages.thy ===== *)
theory Passkey_Pages
  imports Profile
begin

text \<open>
  The two other pages that register passkeys: the passkey management of the settings (\<open>console/src/app/settings/passkey-management/page.tsx\<close>) and the security
  page of the profile (\<open>console/src/app/profile/security/page.tsx\<close>).  The authenticator \<open>mint\<close> and the confirmation dialog are arguments.
\<close>

section \<open>Passkey management\<close>

record pk_page =
  pm_passkeys :: jsv
  pm_loading :: bool
  pm_error :: "string option"
  pm_showEnroll :: bool
  pm_device :: string
  pm_target :: jsv

definition pk_page_init :: pk_page where
  "pk_page_init = \<lparr>pm_passkeys = JArr [], pm_loading = True, pm_error = None, pm_showEnroll = False, pm_device = [], pm_target = JNull\<rparr>"

definition stored :: "string \<Rightarrow> 'w world \<Rightarrow> string" where
  "stored k w = item_or (local_store w k) []"

definition pm_post :: "string \<Rightarrow> string option \<Rightarrow> 'w world \<Rightarrow> request" where
  "pm_post path body w = \<lparr>url = ''/api/v1/webauthn/register/'' @ path @ ''?user_id='' @ stored ''ggid_user_id'' w, meth = ''POST'',
     hdrs = spread (spread [(''Content-Type'', ''application/json'')] (authHeader w)) [(''X-Tenant-ID'', stored ''ggid_tenant_id'' w)], rbody = body\<rparr>"

definition pm_list :: "'w world \<Rightarrow> request" where
  "pm_list w = \<lparr>url = ''/api/v1/webauthn/credentials?user_id='' @ stored ''ggid_user_id'' w, meth = ''GET'',
     hdrs = spread (authHeader w) [(''Content-Type'', ''application/json''), (''X-Tenant-ID'', stored ''ggid_tenant_id'' w)], rbody = None\<rparr>"

text \<open>\<open>b64urlToBuf\<close>: what is no text becomes an empty buffer.\<close>

definition pm_buffer :: "jsv \<Rightarrow> u8 list option" where
  "pm_buffer v = (case v of
     JStr s \<Rightarrow> (let b64 = replace_all (CHR ''_'') ''/'' (replace_all (CHR ''-'') ''+'' s) in
       map_option bytes_of (atob (b64 @ replicate ((4 - length b64 mod 4) mod 4) (CHR ''=''))))
   | _ \<Rightarrow> Some [])"

definition pm_excluded :: "jsv \<Rightarrow> (jsv \<times> u8 list) option" where
  "pm_excluded c = (if nullish c then None else map_option (\<lambda>b. (c, b)) (pm_buffer (js_opt_prop c ''id'')))"

definition pm_decode :: "jsv \<Rightarrow> pk_options option" where
  "pm_decode opts = (let u = js_opt_prop opts ''user'' in
     case pm_buffer (js_opt_prop opts ''challenge'') of None \<Rightarrow> None
     | Some ch \<Rightarrow> (case (if truthy u then map_option Some (pm_buffer (js_opt_prop u ''id'')) else Some None) of None \<Rightarrow> None
       | Some uid \<Rightarrow> map_option (\<lambda>ex. \<lparr>po_options = opts, po_challenge = ch, po_user = uid, po_exclude = Some ex\<rparr>)
           (case js_opt_prop opts ''excludeCredentials'' of JArr cs \<Rightarrow> those (map pm_excluded cs) | _ \<Rightarrow> Some [])))"

definition pm_payload :: "credential \<Rightarrow> (string \<times> jsv) list" where
  "pm_payload c = pk_payload c @ [(''clientExtensionResults'', JObj [])]"

text \<open>The list of an answer: \<open>data.passkeys || (Array.isArray(data) ? data : [])\<close>.\<close>

definition pm_answer :: "jsv \<Rightarrow> jsv" where
  "pm_answer d = js_or (js_opt_prop d ''passkeys'') (if is_array d then d else JArr [])"

text \<open>The \<open>try\<close> block: the page so far, and the exception that ended it.\<close>

definition pm_enroll ::
  "('w \<Rightarrow> pk_options \<Rightarrow> credential prompt \<times> 'w) \<Rightarrow> 'w env \<Rightarrow> pk_page \<Rightarrow> 'w world \<Rightarrow> (pk_page \<times> exn option) \<times> 'w world" where
  "pm_enroll mint E p w = (case fetch E (pm_post ''begin'' None w) w of
     (NetError, w1) \<Rightarrow> ((p, Some ExnNet), w1)
   | (Resp st body, w1) \<Rightarrow> if \<not> resp_ok st then ((p, Some (ExnError (''Registration begin failed: '' @ show_int st))), w1)
       else (case json_parse body of None \<Rightarrow> ((p, Some ExnSyntax), w1)
         | Some d \<Rightarrow> if nullish d then ((p, Some ExnType), w1) else
           (case pm_decode (js_or (js_opt_prop d ''publicKey'') d) of None \<Rightarrow> ((p, Some ExnType), w1)
            | Some opts \<Rightarrow> (case mint (outside w1) opts of (a, o') \<Rightarrow> (let w2 = w1\<lparr>outside := o'\<rparr> in
                (case a of
                   Rejected m \<Rightarrow> ((p, Some (ExnError m)), w2)
                 | Dismissed \<Rightarrow> ((p, Some (ExnError ''No credential returned'')), w2)
                 | Answered c \<Rightarrow> (case fetch E (pm_post ''finish'' (Some (json_stringify (JObj (pm_payload c)))) w2) w2 of
                      (NetError, w3) \<Rightarrow> ((p, Some ExnNet), w3)
                    | (Resp st2 body2, w3) \<Rightarrow>
                        if \<not> resp_ok st2 then ((p, Some (ExnError (''Registration finish failed: '' @ show_int st2 @ '' '' @ body2))), w3)
                        else (let q = p\<lparr>pm_showEnroll := False, pm_device := []\<rparr> in
                          (case fetch E (pm_list w3) w3 of
                             (NetError, w4) \<Rightarrow> ((q, Some ExnNet), w4)
                           | (Resp st3 body3, w4) \<Rightarrow> if \<not> resp_ok st3 then ((q, None), w4)
                               else (case json_parse body3 of None \<Rightarrow> ((q, Some ExnSyntax), w4)
                                 | Some v \<Rightarrow> if nullish v then ((q, Some ExnType), w4) else ((q\<lparr>pm_passkeys := pm_answer v\<rparr>, None), w4)))))))))))"

definition enrollPasskey :: "('w \<Rightarrow> pk_options \<Rightarrow> credential prompt \<times> 'w) \<Rightarrow> 'w env \<Rightarrow> pk_page \<times> 'w world \<Rightarrow> pk_page \<times> 'w world" where
  "enrollPasskey mint E pw = (case pm_enroll mint E (fst pw) (snd pw) of ((p, x), w) \<Rightarrow>
     (case x of None \<Rightarrow> (p, w) | Some e \<Rightarrow> (p\<lparr>pm_error := Some (exn_message E e)\<rparr>, w)))"

text \<open>The effect; an answer without \<open>passkeys\<close> that is no list leaves the list as it is.\<close>

definition pm_load :: "'w env \<Rightarrow> pk_page \<times> 'w world \<Rightarrow> pk_page \<times> 'w world" where
  "pm_load E pw = (case pw of (p, w) \<Rightarrow> (case fetch E (pm_list w) w of
     (NetError, w1) \<Rightarrow> (p\<lparr>pm_error := Some (net_message E), pm_loading := False\<rparr>, w1)
   | (Resp st body, w1) \<Rightarrow> if \<not> resp_ok st then (p\<lparr>pm_error := Some (''HTTP '' @ show_int st), pm_loading := False\<rparr>, w1)
       else (case json_parse body of None \<Rightarrow> (p\<lparr>pm_error := Some (syntax_message E), pm_loading := False\<rparr>, w1)
         | Some d \<Rightarrow> (let l = js_opt_prop d ''passkeys'' in
             ((if truthy l then p\<lparr>pm_passkeys := l\<rparr> else if is_array d then p\<lparr>pm_passkeys := d\<rparr> else p)\<lparr>pm_loading := False\<rparr>, w1)))))"

definition pm_revoke_request :: "jsv \<Rightarrow> 'w world \<Rightarrow> request" where
  "pm_revoke_request target w = \<lparr>url = ''/api/v1/webauthn/credentials/'' @ js_to_string (js_opt_prop target ''id'') @ ''?user_id='' @ stored ''ggid_user_id'' w,
     meth = ''DELETE'', hdrs = spread (authHeader w) [(''X-Tenant-ID'', stored ''ggid_tenant_id'' w)], rbody = None\<rparr>"

definition without_id :: "jsv \<Rightarrow> jsv \<Rightarrow> jsv" where
  "without_id i v = (case v of JArr ps \<Rightarrow> JArr (filter (\<lambda>q. js_opt_prop q ''id'' \<noteq> i) ps) | _ \<Rightarrow> v)"

text \<open>Both ways of the code do the same.\<close>

definition confirmRevoke :: "'w env \<Rightarrow> pk_page \<times> 'w world \<Rightarrow> pk_page \<times> 'w world" where
  "confirmRevoke E pw = (case pw of (p, w) \<Rightarrow> if \<not> truthy (pm_target p) then (p\<lparr>pm_target := JNull\<rparr>, w) else
     (let q = p\<lparr>pm_passkeys := without_id (js_opt_prop (pm_target p) ''id'') (pm_passkeys p), pm_target := JNull\<rparr> in
      (case fetch E (pm_revoke_request (pm_target p) w) w of (Resp _ _, w1) \<Rightarrow> (q, w1) | (NetError, w1) \<Rightarrow> (q, w1))))"

text \<open>What is rendered: the sign of loading, the error alone, or the list.\<close>

datatype pm_view = PmLoading | PmError string | PmList jsv

definition pm_render :: "pk_page \<Rightarrow> pm_view" where
  "pm_render p = (if pm_loading p then PmLoading
     else (case pm_error p of Some m \<Rightarrow> if m = [] then PmList (pm_passkeys p) else PmError m | None \<Rightarrow> PmList (pm_passkeys p)))"

section \<open>The security page of the profile\<close>

text \<open>Its own \<open>authHeader\<close>.\<close>

definition sec_authHeader :: "'w world \<Rightarrow> headers" where
  "sec_authHeader w = (let token = getAuthToken w in if present token
     then [(''Authorization'', ''Bearer '' @ the token), (''X-Tenant-ID'', stored ''ggid_tenant_id'' w)] else [])"

record security_page =
  se_credentials :: jsv
  se_loading :: bool
  se_registering :: bool
  se_error :: string
  se_success :: string

definition security_init :: security_page where
  "security_init = \<lparr>se_credentials = JArr [], se_loading = True, se_registering = False, se_error = [], se_success = []\<rparr>"

definition se_request :: "string \<Rightarrow> string \<Rightarrow> string \<Rightarrow> string option \<Rightarrow> 'w world \<Rightarrow> request" where
  "se_request m base path body w = \<lparr>url = base @ ''/api/v1/auth/webauthn/'' @ path, meth = m,
     hdrs = (case body of None \<Rightarrow> sec_authHeader w | Some _ \<Rightarrow> spread [(''Content-Type'', ''application/json'')] (sec_authHeader w)), rbody = body\<rparr>"

definition loadCredentials :: "'w env \<Rightarrow> string \<Rightarrow> security_page \<times> 'w world \<Rightarrow> security_page \<times> 'w world" where
  "loadCredentials E base pw = (case pw of (p, w) \<Rightarrow> (case ask E (se_request ''GET'' base ''credentials'' None w) w of (r, w1) \<Rightarrow>
     ((case r of Data d \<Rightarrow> if nullish d then p
         else p\<lparr>se_credentials := js_or (js_opt_prop d ''credentials'') (js_or (js_opt_prop d ''data'') (if is_array d then d else JArr []))\<rparr>
       | _ \<Rightarrow> p)\<lparr>se_loading := False\<rparr>, w1)))"

text \<open>The options must have a user with an identifier here.\<close>

definition se_decode :: "jsv \<Rightarrow> pk_options option" where
  "se_decode o' = (let x = js_opt_prop o' ''excludeCredentials'' in
     case pr_b64urlToBuf (js_opt_prop o' ''challenge'') of None \<Rightarrow> None
     | Some ch \<Rightarrow> (case pr_b64urlToBuf (js_opt_prop (js_opt_prop o' ''user'') ''id'') of None \<Rightarrow> None
       | Some uid \<Rightarrow> map_option (\<lambda>ex. \<lparr>po_options = o', po_challenge = ch, po_user = Some uid, po_exclude = ex\<rparr>)
           (if \<not> truthy x then Some None else (case x of JArr cs \<Rightarrow> map_option Some (those (map pk_excluded cs)) | _ \<Rightarrow> None))))"

definition se_register :: "('w \<Rightarrow> pk_options \<Rightarrow> credential prompt \<times> 'w) \<Rightarrow> 'w env \<Rightarrow> string \<Rightarrow> 'w world \<Rightarrow> (exn + unit) \<times> 'w world" where
  "se_register mint E base w = (case fetch E (se_request ''POST'' base ''register/begin'' (Some (json_stringify (JObj []))) w) w of
     (NetError, w1) \<Rightarrow> (Inl ExnNet, w1)
   | (Resp st body, w1) \<Rightarrow> if \<not> resp_ok st then (Inl (pr_error body ''Failed to start passkey registration''), w1)
       else (case json_parse body of None \<Rightarrow> (Inl ExnSyntax, w1)
         | Some d \<Rightarrow> if nullish d then (Inl ExnType, w1) else
           (case se_decode (js_or (js_opt_prop d ''response'') (js_or (js_opt_prop d ''publicKey'') d)) of None \<Rightarrow> (Inl ExnType, w1)
            | Some opts \<Rightarrow> (case mint (outside w1) opts of (a, o') \<Rightarrow> (let w2 = w1\<lparr>outside := o'\<rparr> in
                (case a of
                   Rejected m \<Rightarrow> (Inl (ExnError m), w2)
                 | Dismissed \<Rightarrow> (Inl (ExnError ''No credential returned''), w2)
                 | Answered c \<Rightarrow> (case fetch E (se_request ''POST'' base ''register/finish'' (Some (json_stringify (JObj (pk_payload c)))) w2) w2 of
                      (NetError, w3) \<Rightarrow> (Inl ExnNet, w3)
                    | (Resp st2 body2, w3) \<Rightarrow> if resp_ok st2 then (Inr (), w3) else (Inl (pr_error body2 ''Failed to complete registration''), w3))))))))"

definition se_message :: "string \<Rightarrow> string" where
  "se_message m = (if str_includes m ''not supported'' \<or> str_includes m ''PublicKeyCredential''
     then ''Your browser does not support passkeys. Please use a modern browser like Chrome, Firefox, or Safari.''
     else if str_includes m ''cancelled'' \<or> str_includes m ''aborted'' then ''Passkey registration was cancelled.'' else m)"

definition se_registerPasskey :: "('w \<Rightarrow> pk_options \<Rightarrow> credential prompt \<times> 'w) \<Rightarrow> 'w env \<Rightarrow> string \<Rightarrow> security_page \<times> 'w world \<Rightarrow> security_page \<times> 'w world" where
  "se_registerPasskey mint E base pw = (case pw of (p, w) \<Rightarrow> (let p1 = p\<lparr>se_error := [], se_success := [], se_registering := False\<rparr> in
     (case se_register mint E base w of
        (Inl x, w1) \<Rightarrow> (p1\<lparr>se_error := se_message (exn_message E x)\<rparr>, w1)
      | (Inr _, w1) \<Rightarrow> loadCredentials E base (p1\<lparr>se_success := ''Passkey registered successfully! You can now use it to log in.''\<rparr>, w1))))"

definition deleteCredential :: "bool \<Rightarrow> 'w env \<Rightarrow> string \<Rightarrow> string \<Rightarrow> security_page \<times> 'w world \<Rightarrow> security_page \<times> 'w world" where
  "deleteCredential confirmed E base i pw = (case pw of (p, w) \<Rightarrow> if \<not> confirmed then (p, w) else
     (case fetch E (se_request ''DELETE'' base (''credentials/'' @ i) None w) w of
        (NetError, w1) \<Rightarrow> (p\<lparr>se_error := ''Network error.''\<rparr>, w1)
      | (Resp st _, w1) \<Rightarrow> if resp_ok st then loadCredentials E base (p\<lparr>se_success := ''Passkey removed.''\<rparr>, w1)
          else (p\<lparr>se_error := ''Failed to remove passkey.''\<rparr>, w1)))"

section \<open>Properties\<close>

lemma pm_enroll_world: "snd (pm_enroll mint E p w) = snd (pm_enroll mint E p' w)"
  by (simp add: pm_enroll_def Let_def split: prod.split outcome.split option.split prompt.split)

lemma pm_enroll_error: "pm_error (fst (fst (pm_enroll mint E p w))) = pm_error p"
  by (simp add: pm_enroll_def Let_def split: prod.split outcome.split option.split prompt.split)

text \<open>The members of the answer that the service gives for the list: \<open>{"credentials": [...]}\<close>.\<close>

definition service_list :: "jsv list \<Rightarrow> jsv" where
  "service_list cs = JObj [(''credentials'', JArr cs)]"

text \<open>C22. The passkey management page shows none of the passkeys that the service lists under \<open>credentials\<close>, neither when it is opened nor after a registration; and what a
  registration sends does not depend on the page, so the device name the user is asked for never reaches the server.\<close>

theorem passkey_page_blind:
  assumes "fetch E (pm_list w) w = (Resp st body, w1)" "resp_ok st" "json_parse body = Some (service_list cs)"
  shows "pm_render (fst (pm_load E (pk_page_init, w))) = PmList (JArr []) \<and> pm_answer (service_list cs) = JArr [] \<and>
    snd (enrollPasskey mint E (p\<lparr>pm_device := n\<rparr>, w')) = snd (enrollPasskey mint E (p, w'))"
proof (intro conjI)
  show "pm_render (fst (pm_load E (pk_page_init, w))) = PmList (JArr [])"
    using assms by (simp add: pm_load_def pm_render_def pk_page_init_def service_list_def js_opt_prop_def is_array_def Let_def)
  show "pm_answer (service_list cs) = JArr []"
    by (simp add: pm_answer_def service_list_def js_opt_prop_def js_or_def is_array_def)
  have "snd (enrollPasskey mint E (q, w')) = snd (pm_enroll mint E q w')" for q
    by (simp add: enrollPasskey_def split: prod.split option.split)
  then show "snd (enrollPasskey mint E (p\<lparr>pm_device := n\<rparr>, w')) = snd (enrollPasskey mint E (p, w'))"
    using pm_enroll_world by metis
qed

definition service_body :: string where
  "service_body = json_stringify (service_list [JObj [(''id'', JStr ''c1''), (''name'', JStr ''laptop'')]])"

theorem passkey_page_blind_witness:
  "pm_render (fst (pm_load (always (Resp 200 service_body)) (pk_page_init, blank_world))) = PmList (JArr [])"
proof -
  let ?E = "always (Resp 200 service_body)"
  have f: "fetch ?E (pm_list blank_world) blank_world = (Resp 200 service_body, snd (fetch ?E (pm_list blank_world) blank_world))"
    by (simp add: fetch_def always_def)
  have ok: "resp_ok 200" by (simp add: resp_ok_def)
  have j: "json_parse service_body = Some (service_list [JObj [(''id'', JStr ''c1''), (''name'', JStr ''laptop'')]])"
    unfolding service_body_def by (rule json_stringify_clean) (simp add: service_list_def)
  show ?thesis using passkey_page_blind[OF f ok j] by blast
qed

text \<open>An error replaces the page and no operation takes it back.\<close>

lemma pk_error_stays:
  assumes "pm_error p = Some m"
  shows "pm_error (fst (enrollPasskey mint E (p, w))) \<noteq> None" "pm_error (fst (confirmRevoke E (p, w))) = Some m" "pm_error (fst (pm_load E (p, w))) \<noteq> None"
proof -
  show "pm_error (fst (enrollPasskey mint E (p, w))) \<noteq> None"
    using assms pm_enroll_error[of mint E p w] by (auto simp: enrollPasskey_def split: prod.split option.split)
  show "pm_error (fst (confirmRevoke E (p, w))) = Some m" "pm_error (fst (pm_load E (p, w))) \<noteq> None"
    using assms by (simp_all add: confirmRevoke_def pm_load_def Let_def split: prod.split outcome.split option.split)
qed

text \<open>Revoking hides the passkey whatever the server answers; the security page keeps it when the server refuses.\<close>

lemma management_revoke_unchecked: "fst (confirmRevoke E (p, w)) = fst (confirmRevoke E' (p, w'))"
  by (simp add: confirmRevoke_def Let_def split: prod.split outcome.split)

lemma security_delete_refused:
  "fst (fetch E (se_request ''DELETE'' base (''credentials/'' @ i) None w) w) = Resp st body \<Longrightarrow> \<not> resp_ok st \<Longrightarrow>
   fst (deleteCredential True E base i (p, w)) = p\<lparr>se_error := ''Failed to remove passkey.''\<rparr>"
  by (auto simp: deleteCredential_def split: prod.splits)

text \<open>The decoders of the three pages agree on what the encoder of any of them writes.\<close>

lemma buffer_encoded: "pm_buffer (JStr (bufferToB64url bs)) = Some bs" "pr_b64urlToBuf (JStr (bufferToB64url bs)) = Some bs"
proof -
  have "length (replace_all (CHR ''_'') ''/'' (replace_all (CHR ''-'') ''+'' (map ((!) chars_url) (enc_ix bs)))) = length (enc_ix bs)"
    "replace_all (CHR ''_'') ''/'' (replace_all (CHR ''-'') ''+'' (map ((!) chars_url) (enc_ix bs))) = map ((!) chars_std) (enc_ix bs)"
    using enc_ix_bound by (simp_all add: replace_from_url chars_translate)
  then show "pm_buffer (JStr (bufferToB64url bs)) = Some bs" by (simp add: pm_buffer_def bufferToB64url_ix Let_def atob_padded)
qed (rule unpadded_codec)

interpretation management_codec: byte_codec bufferToB64url "\<lambda>s. pm_buffer (JStr s)"
  by unfold_locales (rule buffer_encoded(1))

end
