(* ===== verification/Hash_Chain.thy ===== *)
theory Hash_Chain
  imports Onboarding
begin

text \<open>
  The page of the audit hash chain (\<open>console/src/app/audit/hash-chain/page.tsx\<close>): loading, verifying again, the verdict and the drawing of the blocks.
  Coordinates and colours are left out; the state of the chain is the JSON value of the server.
\<close>

section \<open>State and operations\<close>

record chain_page =
  hc_status :: jsv
  hc_loading :: bool
  hc_error :: "string option"
  hc_verifying :: bool

definition chain_init :: chain_page where
  "chain_init = \<lparr>hc_status = JNull, hc_loading = True, hc_error = None, hc_verifying = False\<rparr>"

text \<open>A failed request counts as no answer, so the message of the code for a failed load is never shown.\<close>

definition chain_load :: "'w env \<Rightarrow> string \<Rightarrow> string \<Rightarrow> chain_page \<times> 'w world \<Rightarrow> chain_page \<times> 'w world" where
  "chain_load E base tenant pw = (case pw of (p, w) \<Rightarrow> (case apiFetch E base tenant ''/api/v1/audit/hash-chain'' no_options w of (r, w1) \<Rightarrow>
     ((case r of Inl _ \<Rightarrow> p | Inr d \<Rightarrow> if truthy d then p\<lparr>hc_status := d\<rparr> else p)\<lparr>hc_error := None, hc_loading := False\<rparr>, w1)))"

definition handleReverify :: "'w env \<Rightarrow> string \<Rightarrow> string \<Rightarrow> chain_page \<times> 'w world \<Rightarrow> chain_page \<times> 'w world" where
  "handleReverify E base tenant pw = (case pw of (p, w) \<Rightarrow> (case apiFetch E base tenant ''/api/v1/audit/verify-integrity'' bare_post w of
     (Inl _, w1) \<Rightarrow> (p\<lparr>hc_error := Some ''Verification failed'', hc_verifying := False\<rparr>, w1)
   | (Inr _, w1) \<Rightarrow> (case chain_load E base tenant (p, w1) of (q, w2) \<Rightarrow> (q\<lparr>hc_verifying := False\<rparr>, w2))))"

definition dismiss_chain_error :: "chain_page \<Rightarrow> chain_page" where
  "dismiss_chain_error p = p\<lparr>hc_error := None\<rparr>"

text \<open>\<open>status?.valid ?? false\<close> and \<open>status?.blocks ?? []\<close>.\<close>

definition chain_valid :: "chain_page \<Rightarrow> bool" where
  "chain_valid p = truthy (js_nullish (js_opt_prop (hc_status p) ''valid'') (JBool False))"

definition chain_blocks :: "chain_page \<Rightarrow> jsv list" where
  "chain_blocks p = arr_items (js_nullish (js_opt_prop (hc_status p) ''blocks'') (JArr []))"

definition chain_banner :: "chain_page \<Rightarrow> string \<times> string" where
  "chain_banner p = (if chain_valid p then (''Chain Valid'', ''All audit event blocks are cryptographically linked and verified.'')
     else (''Chain Broken'', ''Chain integrity compromised. One or more blocks failed verification.''))"

definition block_verified :: "jsv \<Rightarrow> bool" where
  "block_verified b = truthy (js_opt_prop b ''verified'')"

text \<open>The lines between neighbouring blocks: green if both are verified.\<close>

definition chain_lines :: "chain_page \<Rightarrow> bool list" where
  "chain_lines p = (let bs = chain_blocks p in map (\<lambda>i. block_verified (bs ! (i - 1)) \<and> block_verified (bs ! i)) [1..<length bs])"

definition chain_drawn :: "chain_page \<Rightarrow> bool" where
  "chain_drawn p = (chain_blocks p \<noteq> [] \<and> length (chain_blocks p) \<le> 20)"

definition genesis :: string where
  "genesis = replicate 64 (CHR ''0'')"

definition prev_label :: "string \<Rightarrow> string" where
  "prev_label h = (if h = genesis then ''genesis'' else take 20 h @ ''...'')"

section \<open>Properties\<close>

text \<open>What the page shows after a load that brought nothing is what it showed before, without an error.\<close>

definition chain_answer :: "'w env \<Rightarrow> string \<Rightarrow> string \<Rightarrow> 'w world \<Rightarrow> jsv option" where
  "chain_answer E base tenant w = (case fst (apiFetch E base tenant ''/api/v1/audit/hash-chain'' no_options w) of
     Inl _ \<Rightarrow> None | Inr d \<Rightarrow> if truthy d then Some d else None)"

lemma chain_load_status:
  "hc_status (fst (chain_load E base tenant (p, w))) = (case chain_answer E base tenant w of None \<Rightarrow> hc_status p | Some d \<Rightarrow> d)"
  "hc_error (fst (chain_load E base tenant (p, w))) = None" "\<not> hc_loading (fst (chain_load E base tenant (p, w)))"
  by (auto simp: chain_load_def chain_answer_def split: prod.splits sum.splits)

text \<open>The verdict on the audit chain: an opened page whose request fails in any way says, without an error, that the chain is compromised; and a chain
  once shown as valid is still shown as valid, without an error, after a verification whose result cannot be read.\<close>

lemma unread_chain_verdict:
  assumes "chain_answer E base tenant w = None"
  shows "chain_banner (fst (chain_load E base tenant (chain_init, w))) =
      (''Chain Broken'', ''Chain integrity compromised. One or more blocks failed verification.'') \<and>
    hc_error (fst (chain_load E base tenant (chain_init, w))) = None \<and>
    (\<forall>w0 r. apiFetch E base tenant ''/api/v1/audit/verify-integrity'' bare_post w0 = (Inr r, w) \<longrightarrow> chain_valid p \<longrightarrow>
      chain_valid (fst (handleReverify E base tenant (p, w0))) \<and> hc_error (fst (handleReverify E base tenant (p, w0))) = None)"
proof (intro conjI allI impI)
  have st: "hc_status (fst (chain_load E base tenant (q, w))) = hc_status q" for q using assms by (simp add: chain_load_status)
  have "\<not> chain_valid (fst (chain_load E base tenant (chain_init, w)))"
    unfolding chain_valid_def st by (simp add: chain_init_def js_opt_prop_def js_nullish_def)
  then show "chain_banner (fst (chain_load E base tenant (chain_init, w))) =
      (''Chain Broken'', ''Chain integrity compromised. One or more blocks failed verification.'')" by (simp add: chain_banner_def)
  show "hc_error (fst (chain_load E base tenant (chain_init, w))) = None" by (simp add: chain_load_status)
  fix w0 r assume a: "apiFetch E base tenant ''/api/v1/audit/verify-integrity'' bare_post w0 = (Inr r, w)" and v: "chain_valid p"
  obtain q w2 where q: "chain_load E base tenant (p, w) = (q, w2)" by fastforce
  then have "hc_status q = hc_status p" "hc_error q = None" using st[of p] chain_load_status(2)[of E base tenant p w] by simp_all
  then show "chain_valid (fst (handleReverify E base tenant (p, w0)))" "hc_error (fst (handleReverify E base tenant (p, w0))) = None"
    using a q v by (simp_all add: handleReverify_def chain_valid_def)
qed

lemma unread_chain_verdict_example:
  "chain_banner (fst (chain_load (always (Resp 503 [])) [] [] (chain_init, blank_world))) =
     (''Chain Broken'', ''Chain integrity compromised. One or more blocks failed verification.'')"
proof -
  have "chain_answer (always (Resp 503 [])) [] [] blank_world = None" by code_simp
  then show ?thesis using unread_chain_verdict by blast
qed

text \<open>A chain of \<open>n + 1\<close> blocks is drawn with \<open>n\<close> lines, all green exactly if all blocks are verified.\<close>

lemma chain_lines_length: "length (chain_lines p) = length (chain_blocks p) - 1"
  by (simp add: chain_lines_def Let_def)

lemma chain_lines_green:
  assumes "2 \<le> length (chain_blocks p)"
  shows "list_all id (chain_lines p) \<longleftrightarrow> list_all block_verified (chain_blocks p)"
proof
  let ?b = "chain_blocks p"
  assume a: "list_all id (chain_lines p)"
  have l: "block_verified (?b ! (i - 1)) \<and> block_verified (?b ! i)" if "1 \<le> i" "i < length ?b" for i
    using a that by (auto simp: chain_lines_def list_all_iff Let_def)
  have "block_verified (?b ! i)" if "i < length ?b" for i
    using l[of i] l[of 1] that assms by (cases i) auto
  then show "list_all block_verified ?b" by (simp add: list_all_length)
qed (auto simp: chain_lines_def list_all_length Let_def)

text \<open>The verdict is that of the server, not of the blocks.\<close>

lemma verdict_ignores_blocks: "chain_valid (p\<lparr>hc_status := JObj [(''valid'', JBool True), (''blocks'', JArr [JObj [(''verified'', JBool False)]])]\<rparr>)"
  by (simp add: chain_valid_def js_opt_prop_def js_nullish_def)

end
