(* ===== verification/Tenants_Page.thy ===== *)
theory Tenants_Page
  imports Profile
begin

text \<open>
  The tenants of the platform (\<open>console/src/app/admin/tenants/page.tsx\<close>): the list, deleting, and creating a tenant with the subdomain
  that follows its name until it is typed.  The addresses the page announces are those the middleware and the console of \<open>Tenant\<close> read the tenant
  from.  The timer after a creation is the operation \<open>created_later\<close>; the dictionary is an argument.
\<close>

section \<open>The list\<close>

record tenants_page =
  tp_create :: bool
  tp_tenants :: jsv
  tp_loading :: bool
  tp_target :: jsv
  tp_error :: string

definition tenants_init :: tenants_page where
  "tenants_init = \<lparr>tp_create = False, tp_tenants = JArr [], tp_loading = True, tp_target = JNull, tp_error = []\<rparr>"

definition tp_load :: "'w env \<Rightarrow> string \<Rightarrow> tenants_page \<times> 'w world \<Rightarrow> tenants_page \<times> 'w world" where
  "tp_load E base pw = (case pw of (p, w) \<Rightarrow> (case ask E (pr_get base ''/api/v1/tenants'' w) w of (r, w1) \<Rightarrow>
     ((case r of
         Threw \<Rightarrow> p\<lparr>tp_error := ''Network error''\<rparr>
       | Refused \<Rightarrow> p\<lparr>tp_error := ''Failed to load tenants''\<rparr>
       | Data d \<Rightarrow> if nullish d then p\<lparr>tp_error := ''Network error''\<rparr>
           else p\<lparr>tp_error := [], tp_tenants := js_or (js_opt_prop d ''tenants'') (js_or (js_opt_prop d ''items'') (if is_array d then d else JArr []))\<rparr>)\<lparr>tp_loading := False\<rparr>, w1)))"

definition tp_handleDelete :: "'w env \<Rightarrow> string \<Rightarrow> jsv \<Rightarrow> tenants_page \<times> 'w world \<Rightarrow> tenants_page \<times> 'w world" where
  "tp_handleDelete E base tenant pw = (case pw of (p, w) \<Rightarrow> (let i = js_opt_prop tenant ''id'' in
     (case fetch E (pr_delete base (''/api/v1/tenants/'' @ js_to_string i) w) w of
        (NetError, w1) \<Rightarrow> (p\<lparr>tp_error := ''Network error''\<rparr>, w1)
      | (Resp st _, w1) \<Rightarrow> if \<not> resp_ok st then (p\<lparr>tp_error := ''Failed to delete tenant''\<rparr>, w1)
          else (p\<lparr>tp_tenants := JArr (filter (\<lambda>x. js_opt_prop x ''id'' \<noteq> i) (arr_items (tp_tenants p))), tp_target := JNull\<rparr>, w1))))"

section \<open>The form\<close>

definition slug_char :: "char \<Rightarrow> bool" where
  "slug_char c = (is_lower c \<or> is_digit c)"

text \<open>\<open>s.replace(/[^a-z0-9]+/g, "-")\<close>.\<close>

function slug_runs :: "string \<Rightarrow> string" where
  "slug_runs [] = []"
| "slug_runs (c # s) = (if slug_char c then c # slug_runs s else CHR ''-'' # slug_runs (dropWhile (\<lambda>x. \<not> slug_char x) s))"
  by pat_completeness auto
termination
  by (relation "measure length") (auto simp: le_imp_less_Suc length_dropWhile_le)

text \<open>\<open>s.replace(/^-|-$/g, "")\<close>.\<close>

definition strip_hyphens :: "string \<Rightarrow> string" where
  "strip_hyphens s = (let r = (if s \<noteq> [] \<and> hd s = CHR ''-'' then tl s else s) in if r \<noteq> [] \<and> last r = CHR ''-'' then butlast r else r)"

definition slugFromName :: "string \<Rightarrow> string" where
  "slugFromName s = strip_hyphens (slug_runs (to_lower s))"

record tenant_form =
  tf_name :: string
  tf_slug :: string
  tf_plan :: string
  tf_email :: string
  tf_submitting :: bool
  tf_error :: jsv
  tf_msg :: "string option"

definition tenant_form_init :: tenant_form where
  "tenant_form_init = \<lparr>tf_name = [], tf_slug = [], tf_plan = ''free'', tf_email = [], tf_submitting = False, tf_error = JStr [], tf_msg = None\<rparr>"

definition handleNameChange :: "string \<Rightarrow> tenant_form \<Rightarrow> tenant_form" where
  "handleNameChange v f = f\<lparr>tf_name := v,
     tf_slug := (if tf_slug f = [] \<or> tf_slug f = slugFromName (tf_name f) then slugFromName v else tf_slug f)\<rparr>"

definition type_slug :: "string \<Rightarrow> tenant_form \<Rightarrow> tenant_form" where
  "type_slug v f = f\<lparr>tf_slug := filter (\<lambda>c. slug_char c \<or> c = CHR ''-'') (to_lower v)\<rparr>"

definition tenant_body :: "tenant_form \<Rightarrow> (string \<times> jsv) list" where
  "tenant_body f = [(''name'', JStr (tf_name f)), (''slug'', if tf_slug f = [] then JUndef else JStr (tf_slug f)), (''plan'', JStr (tf_plan f)), (''admin_email'', JStr (tf_email f))]"

text \<open>The message of the code has a dash.  After a success the button stays off until the timer.\<close>

definition tenant_submit :: "(string \<Rightarrow> string) \<Rightarrow> 'w env \<Rightarrow> string \<Rightarrow> tenant_form \<times> 'w world \<Rightarrow> tenant_form \<times> 'w world" where
  "tenant_submit t E base fw = (case fw of (f, w) \<Rightarrow> (let failed = JStr (''Network error '' @ dash @ '' failed to create tenant'') in
     if tf_name f = [] then (f\<lparr>tf_error := JStr (t ''tenants.create.name'')\<rparr>, w)
     else (case fetch E (pr_send ''POST'' base ''/api/v1/tenants'' (tenant_body f) w) w of
        (NetError, w1) \<Rightarrow> (f\<lparr>tf_error := failed, tf_msg := None, tf_submitting := False\<rparr>, w1)
      | (Resp st body, w1) \<Rightarrow>
          if resp_ok st then (f\<lparr>tf_error := JStr [], tf_submitting := True, tf_msg := Some (t ''tenants.create.created'')\<rparr>, w1)
          else (let d = (case json_parse body of None \<Rightarrow> JObj [] | Some v \<Rightarrow> v) in
            (f\<lparr>tf_error := (if nullish d then failed
                 else js_or (js_opt_prop (js_opt_prop d ''error'') ''message'') (js_or (js_opt_prop d ''error'') (js_or (js_opt_prop d ''detail'')
                   (JStr (''Failed to create tenant (HTTP '' @ show_int st @ '')''))))), tf_msg := None, tf_submitting := False\<rparr>, w1)))))"

definition created_later :: "'w env \<Rightarrow> string \<Rightarrow> tenant_form \<Rightarrow> tenants_page \<times> 'w world \<Rightarrow> tenant_form \<times> (tenants_page \<times> 'w world)" where
  "created_later E base f pw = (f\<lparr>tf_name := [], tf_slug := [], tf_email := [], tf_msg := None\<rparr>, tp_load E base ((fst pw)\<lparr>tp_create := False\<rparr>, snd pw))"

text \<open>The address announced below the field and linked from the list.\<close>

definition tenant_address :: "string \<Rightarrow> string" where
  "tenant_address s = s @ ''.ggid-console.iot2.win''"

section \<open>Subdomains\<close>

definition slug_text :: "string \<Rightarrow> bool" where
  "slug_text s = list_all (\<lambda>c. slug_char c \<or> c = CHR ''-'') s"

lemma slug_text_runs: "slug_text (slug_runs s)"
  by (induction s rule: slug_runs.induct) (simp_all add: slug_text_def)

lemma slug_text_strip: "slug_text s \<Longrightarrow> slug_text (strip_hyphens s)"
  by (auto simp: slug_text_def strip_hyphens_def Let_def list_all_iff dest: in_set_butlastD list.set_sel(2))

lemma slugFromName_text: "slug_text (slugFromName s)"
  by (simp add: slugFromName_def slug_text_strip slug_text_runs)

text \<open>No two hyphens are neighbours in the text of the first replacement, so what is left has none at its ends.\<close>

definition single_hyphens :: "string \<Rightarrow> bool" where
  "single_hyphens s = (\<forall>u v. s \<noteq> u @ ''--'' @ v)"

lemma slug_runs_after: "slug_runs (dropWhile (\<lambda>x. \<not> slug_char x) s) = [] \<or> slug_char (hd (slug_runs (dropWhile (\<lambda>x. \<not> slug_char x) s)))"
proof (cases "dropWhile (\<lambda>x. \<not> slug_char x) s")
  case (Cons c t)
  then have "slug_char c" using hd_dropWhile[of "\<lambda>x. \<not> slug_char x" s] by simp
  then show ?thesis using Cons by simp
next
  case Nil
  show ?thesis unfolding Nil by simp
qed

lemma hyphen_no_slug: "\<not> slug_char (CHR ''-'')"
  by code_simp

lemma single_hyphens_Cons: "single_hyphens s \<Longrightarrow> c \<noteq> CHR ''-'' \<or> s = [] \<or> hd s \<noteq> CHR ''-'' \<Longrightarrow> single_hyphens (c # s)"
proof -
  assume s: "single_hyphens s" and c: "c \<noteq> CHR ''-'' \<or> s = [] \<or> hd s \<noteq> CHR ''-''"
  have "c # s \<noteq> u @ ''--'' @ v" for u v
  proof (cases u)
    case Nil
    then show ?thesis using c by (cases s) auto
  next
    case (Cons x u')
    then show ?thesis using s by (simp add: single_hyphens_def)
  qed
  then show ?thesis by (simp add: single_hyphens_def)
qed

lemma slug_runs_single: "single_hyphens (slug_runs s)"
proof (induction s rule: slug_runs.induct)
  case 1
  then show ?case by (simp add: single_hyphens_def)
next
  case (2 c s)
  show ?case
  proof (cases "slug_char c")
    case True
    then have "c \<noteq> CHR ''-''" using hyphen_no_slug by auto
    then show ?thesis using True 2 single_hyphens_Cons by simp
  next
    case False
    let ?r = "slug_runs (dropWhile (\<lambda>x. \<not> slug_char x) s)"
    have "?r = [] \<or> hd ?r \<noteq> CHR ''-''" using slug_runs_after[of s] hyphen_no_slug by metis
    then show ?thesis using False 2 single_hyphens_Cons[of ?r "CHR ''-''"] by simp
  qed
qed

lemma strip_ends:
  assumes "single_hyphens s" "strip_hyphens s \<noteq> []"
  shows "hd (strip_hyphens s) \<noteq> CHR ''-''" "last (strip_hyphens s) \<noteq> CHR ''-''"
proof -
  define r where "r = (if s \<noteq> [] \<and> hd s = CHR ''-'' then tl s else s)"
  have no: "s \<noteq> u @ CHR ''-'' # CHR ''-'' # v" for u v using assms(1) by (simp add: single_hyphens_def)
  have r: "strip_hyphens s = (if r \<noteq> [] \<and> last r = CHR ''-'' then butlast r else r)" by (simp add: strip_hyphens_def r_def Let_def)
  have suf: "\<exists>u. s = u @ r" by (cases s) (auto simp: r_def)
  have hdr: "r \<noteq> [] \<Longrightarrow> hd r \<noteq> CHR ''-''"
  proof (cases "s \<noteq> [] \<and> hd s = CHR ''-''")
    case True
    then obtain t where t: "s = CHR ''-'' # t" by (cases s) auto
    then show "r \<noteq> [] \<Longrightarrow> hd r \<noteq> CHR ''-''" using no[of "[]"] by (cases t) (auto simp: r_def)
  next
    case False
    then show "r \<noteq> [] \<Longrightarrow> hd r \<noteq> CHR ''-''" by (simp add: r_def)
  qed
  show "hd (strip_hyphens s) \<noteq> CHR ''-''"
    using hdr assms(2) unfolding r by (cases r) (auto split: if_splits)
  show "last (strip_hyphens s) \<noteq> CHR ''-''"
  proof (cases "r \<noteq> [] \<and> last r = CHR ''-''")
    case True
    then have b: "strip_hyphens s = butlast r" "r = butlast r @ ''-''" unfolding r using append_butlast_last_id[of r] by auto
    show ?thesis
    proof
      assume "last (strip_hyphens s) = CHR ''-''"
      then have "butlast r = butlast (butlast r) @ ''-''" using b(1) assms(2) append_butlast_last_id[of "butlast r"] by simp
      then have "r = butlast (butlast r) @ ''--''" using b(2) by (metis append.assoc append_Cons append_Nil)
      then show False using suf no by (metis append.assoc append_Cons append_Nil)
    qed
  qed (use assms(2) r in auto)
qed

lemma slugFromName_ends:
  "slugFromName s \<noteq> [] \<Longrightarrow> hd (slugFromName s) \<noteq> CHR ''-'' \<and> last (slugFromName s) \<noteq> CHR ''-''"
  unfolding slugFromName_def using strip_ends[OF slug_runs_single] by blast

text \<open>Every text the form can hold as a subdomain.\<close>

datatype form_act = ChangeName string | TypeSlug string

fun form_act_apply :: "form_act \<Rightarrow> tenant_form \<Rightarrow> tenant_form" where
  "form_act_apply (ChangeName v) f = handleNameChange v f"
| "form_act_apply (TypeSlug v) f = type_slug v f"

lemma form_slug_text: "slug_text (tf_slug f) \<Longrightarrow> slug_text (tf_slug (fold form_act_apply acts f))"
proof (induction acts arbitrary: f)
  case (Cons a acts)
  then have "slug_text (tf_slug (form_act_apply a f))"
    by (cases a) (auto simp: handleNameChange_def type_slug_def slugFromName_text, simp add: slug_text_def list_all_iff)
  then show ?case using Cons.IH by simp
qed simp

section \<open>The announced address\<close>

lemma includes_host: "CHR ''.'' \<notin> set q \<Longrightarrow> str_includes (s @ CHR ''.'' # t) q \<longleftrightarrow> str_includes s q \<or> str_includes t q"
proof
  assume q: "CHR ''.'' \<notin> set q" and "str_includes (s @ CHR ''.'' # t) q"
  then obtain u v where e: "s @ CHR ''.'' # t = u @ q @ v" by (auto simp: str_includes_iff)
  then consider us where "s = u @ us" "us @ CHR ''.'' # t = q @ v" | us where "u = s @ us" "CHR ''.'' # t = us @ q @ v"
    by (auto simp: append_eq_append_conv2)
  then show "str_includes s q \<or> str_includes t q"
  proof cases
    case 1
    then consider vs where "us = q @ vs" | vs where "q = us @ vs" "vs @ v = CHR ''.'' # t"
      by (auto simp: append_eq_append_conv2)
    then show ?thesis
    proof cases
      case 1
      then show ?thesis using \<open>s = u @ us\<close> by (auto simp: str_includes_iff)
    next
      case 2
      then have "vs = []" using q by (cases vs) auto
      then show ?thesis using 2 \<open>s = u @ us\<close> by (auto simp: str_includes_iff) (metis append_Nil2)
    qed
  next
    case 2
    then show ?thesis
    proof (cases us)
      case Nil
      then have "q = []" using 2 q by (cases q) auto
      then have "str_includes s q" unfolding str_includes_iff by (metis append_Nil)
      then show ?thesis by simp
    next
      case (Cons x us')
      then have "t = us' @ q @ v" using 2 by simp
      then show ?thesis by (auto simp: str_includes_iff)
    qed
  qed
next
  assume "str_includes s q \<or> str_includes t q"
  then show "str_includes (s @ CHR ''.'' # t) q"
    by (auto simp: str_includes_iff) (metis append_Cons append.assoc)+
qed

text \<open>C18. The address the page announces for a new tenant leads to that tenant: whatever is typed into name and subdomain, from the address below the
  field the middleware reads back the subdomain, and so does the console in the browser, except for exactly these: the middleware knows no tenant whose
  subdomain contains \<open>localhost\<close>, the console none called \<open>www\<close>, and both none called \<open>ggid-console\<close>.\<close>

theorem announced_address_resolves:
  assumes "s = tf_slug (fold form_act_apply acts tenant_form_init)" "s \<noteq> []"
  shows "getTenantSlugFromHost (tenant_address s) = (if str_includes s ''localhost'' \<or> s = ''ggid-console'' then None else Some s) \<and>
    getTenantSlugFromSubdomain True (tenant_address s) = (if s = ''www'' \<or> s = ''ggid-console'' then [] else s)"
proof -
  have "slug_text s" using form_slug_text[of tenant_form_init acts] assms(1) by (simp add: tenant_form_init_def slug_text_def)
  moreover have "\<not> slug_char (CHR ''.'')" by code_simp
  ultimately have dot: "CHR ''.'' \<notin> set s" by (auto simp: slug_text_def list_all_iff)
  have parts: "split_on (CHR ''.'') (tenant_address s) = [s, ''ggid-console'', ''iot2'', ''win'']"
    using split_on_sep[OF dot, of "''ggid-console.iot2.win''"] by (simp add: tenant_address_def)
  have no: "\<not> digits ''ggid-console''" "\<not> str_includes ''ggid-console.iot2.win'' ''localhost''" by code_simp+
  have "str_includes (tenant_address s) ''localhost'' \<longleftrightarrow> str_includes s ''localhost''"
    using includes_host[of "''localhost''" s "''ggid-console.iot2.win''"] no(2) by (simp add: tenant_address_def)
  moreover have "\<not> ipv4_prefix (tenant_address s)" "\<not> is_ipv4 (tenant_address s)" using parts no(1) by (simp_all add: ipv4_prefix_def is_ipv4_def)
  moreover have "tenant_address s \<noteq> ''localhost''" "tenant_address s \<noteq> []" using dot by (auto simp: tenant_address_def dest: arg_cong[where f = "\<lambda>x. CHR ''.'' \<in> set x"])
  ultimately show ?thesis unfolding getTenantSlugFromHost_def getTenantSlugFromSubdomain_def Let_def parts by simp
qed

theorem announced_address_resolves_witness:
  "getTenantSlugFromHost (tenant_address ''acme-corp'') = Some ''acme-corp'' \<and> getTenantSlugFromSubdomain True (tenant_address ''acme-corp'') = ''acme-corp''"
proof -
  have s: "''acme-corp'' = tf_slug (fold form_act_apply [ChangeName '' Acme & Corp.''] tenant_form_init)" by code_simp
  have "\<not> str_includes ''acme-corp'' ''localhost''" by code_simp
  then show ?thesis using announced_address_resolves[OF s] by simp
qed

text \<open>The generated subdomain: only lower-case letters, digits and single hyphens, none at an end; and the three that do not lead back.\<close>

lemma slugFromName_wf:
  "slug_text (slugFromName s) \<and> (slugFromName s \<noteq> [] \<longrightarrow> hd (slugFromName s) \<noteq> CHR ''-'' \<and> last (slugFromName s) \<noteq> CHR ''-'')"
  using slugFromName_text slugFromName_ends by blast

lemma lost_addresses:
  "getTenantSlugFromHost (tenant_address (slugFromName ''Localhost GmbH'')) = None"
  "getTenantSlugFromSubdomain True (tenant_address (slugFromName ''WWW'')) = []"
  "getTenantSlugFromHost (tenant_address (slugFromName ''GGID Console'')) = None"
  by code_simp+

text \<open>The subdomain follows the name until it is typed differently.\<close>

lemma slug_follows_name: "tf_slug (fold (\<lambda>v. handleNameChange v) (vs @ [v]) tenant_form_init) = slugFromName v"
proof -
  have "tf_slug f = slugFromName (tf_name f) \<Longrightarrow> tf_slug (handleNameChange v f) = slugFromName (tf_name (handleNameChange v f))" for v f
    by (simp add: handleNameChange_def)
  then have "tf_slug f = slugFromName (tf_name f) \<Longrightarrow> tf_slug (fold (\<lambda>v. handleNameChange v) vs f) = slugFromName (tf_name (fold (\<lambda>v. handleNameChange v) vs f))" for f
    by (induction vs arbitrary: f) simp_all
  moreover have "tf_slug tenant_form_init = slugFromName (tf_name tenant_form_init)" by code_simp
  ultimately show ?thesis by (simp add: handleNameChange_def)
qed

text \<open>A tenant leaves the list exactly when the server deleted it.\<close>

lemma delete_needs_server:
  "tp_tenants (fst (tp_handleDelete E base tenant (p, w))) \<noteq> tp_tenants p \<Longrightarrow>
   accepted (fst (fetch E (pr_delete base (''/api/v1/tenants/'' @ js_to_string (js_opt_prop tenant ''id'')) w) w))"
  by (auto simp: tp_handleDelete_def accepted_def Let_def split: prod.splits outcome.splits if_splits)

end
