(* ===== verification/Admin_Pages.thy ===== *)
theory Admin_Pages
  imports Profile
begin

text \<open>
  Three pages of administration: feature flags (\<open>console/src/app/admin/feature-flags/page.tsx\<close>), reassignment of users
  (\<open>console/src/app/users/reassignment/page.tsx\<close>) and the access of the platform to a tenant (\<open>console/src/app/settings/platform-access/page.tsx\<close>).
  The clock is an argument (\<open>stamp ms\<close>: the ISO text of the time \<open>ms\<close> milliseconds from now); timers that hide a message are left out.
\<close>

section \<open>Feature flags\<close>

record flag =
  fl_key :: jsv
  fl_name :: jsv
  fl_desc :: jsv
  fl_enabled :: bool
  fl_rollout :: jsv
  fl_tenants :: jsv

definition mk_flag :: "string \<Rightarrow> string \<Rightarrow> string \<Rightarrow> bool \<Rightarrow> int \<Rightarrow> (string \<times> jsv) list \<Rightarrow> flag" where
  "mk_flag k n d e r ts = \<lparr>fl_key = JStr k, fl_name = JStr n, fl_desc = JStr d, fl_enabled = e, fl_rollout = JNum r, fl_tenants = JObj ts\<rparr>"

definition DEFAULT_FLAGS :: "flag list" where
  "DEFAULT_FLAGS = [
     mk_flag ''graphql_api'' ''GraphQL API'' ''Enable /graphql endpoint'' False 0 [(''default'', JBool False)],
     mk_flag ''dlp_egress'' ''DLP Egress Control'' ''Gateway PII detection middleware'' True 100 [(''default'', JBool True)],
     mk_flag ''ueba_scoring'' ''UEBA Scoring'' ''Isolation forest anomaly detection'' True 100 [(''default'', JBool True)],
     mk_flag ''soar_engine'' ''SOAR Engine'' ''Automated threat response playbooks'' True 75 [(''default'', JBool True), (''enterprise'', JBool False)],
     mk_flag ''pqc_signing'' ''PQC Signing'' ''Post-quantum audit chain signatures'' False 0 [(''default'', JBool False)],
     mk_flag ''consent_cascade'' ''Consent Cascade'' ''GDPR Art.17 token revocation on consent withdrawal'' True 100 [(''default'', JBool True)],
     mk_flag ''adaptive_mfa'' ''Adaptive MFA'' ''Risk-based step-up authentication'' True 90 [(''default'', JBool True)]]"

record flags_page =
  ff_create :: bool
  ff_flags :: "flag list"
  ff_loading :: bool
  ff_error :: "string option"
  ff_editing :: jsv
  ff_name :: jsv
  ff_key :: jsv
  ff_desc :: jsv
  ff_default :: bool
  ff_rollout :: jsv
  ff_saving :: bool

definition flags_init :: flags_page where
  "flags_init = \<lparr>ff_create = False, ff_flags = DEFAULT_FLAGS, ff_loading = True, ff_error = None, ff_editing = JNull, ff_name = JStr [], ff_key = JStr [],
     ff_desc = JStr [], ff_default = False, ff_rollout = JNum 0, ff_saving = False\<rparr>"

definition flags_request :: "string \<Rightarrow> (string \<times> jsv) list option \<Rightarrow> request" where
  "flags_request m body = \<lparr>url = ''/api/v1/admin/feature-flags'', meth = m, hdrs = [(''Content-Type'', ''application/json'')],
     rbody = map_option (\<lambda>kvs. json_stringify (JObj kvs)) body\<rparr>"

text \<open>The page's own \<open>api\<close>.\<close>

definition flags_api :: "'w env \<Rightarrow> request \<Rightarrow> 'w world \<Rightarrow> (exn + jsv) \<times> 'w world" where
  "flags_api E rq w = (case fetch E rq w of
     (NetError, w1) \<Rightarrow> (Inl ExnNet, w1)
   | (Resp st body, w1) \<Rightarrow> if \<not> resp_ok st then (Inl (ExnError (''API '' @ show_int st)), w1)
       else (case json_parse body of None \<Rightarrow> (Inl ExnSyntax, w1) | Some d \<Rightarrow> (Inr d, w1)))"

definition flag_of :: "jsv \<Rightarrow> flag option" where
  "flag_of f = (if nullish f then None else (let e = js_opt_prop f ''enabled'' in Some
     \<lparr>fl_key = js_or (js_opt_prop f ''key'') (js_opt_prop f ''id''), fl_name = js_or (js_opt_prop f ''name'') (js_opt_prop f ''key''),
      fl_desc = js_or (js_opt_prop f ''description'') (JStr []), fl_enabled = truthy e,
      fl_rollout = js_nullish (js_opt_prop f ''rollout_percentage'') (JNum (if truthy e then 100 else 0)),
      fl_tenants = js_or (js_opt_prop f ''tenants'') (JObj [(''default'', e)])\<rparr>))"

text \<open>\<open>v?.length\<close>.\<close>

definition flags_length :: "jsv \<Rightarrow> jsv" where
  "flags_length v = (case v of JArr vs \<Rightarrow> JNum (int (length vs)) | JStr s \<Rightarrow> JNum (int (length s)) | _ \<Rightarrow> js_opt_prop v ''length'')"

definition load_flags :: "'w env \<Rightarrow> flags_page \<times> 'w world \<Rightarrow> flags_page \<times> 'w world" where
  "load_flags E pw = (case pw of (p, w) \<Rightarrow> (case flags_api E (flags_request ''GET'' None) w of
     (Inl x, w1) \<Rightarrow> (p\<lparr>ff_error := Some (exn_message E x), ff_loading := False\<rparr>, w1)
   | (Inr d, w1) \<Rightarrow> (let v = js_opt_prop d ''flags'' in
       if \<not> truthy (flags_length v) then (p\<lparr>ff_loading := False\<rparr>, w1)
       else (case (if is_array v then those (map flag_of (arr_items v)) else None) of
            None \<Rightarrow> (p\<lparr>ff_error := Some (type_message E), ff_loading := False\<rparr>, w1)
          | Some xs \<Rightarrow> (p\<lparr>ff_flags := xs, ff_loading := False\<rparr>, w1)))))"

text \<open>The exception of the request is dropped.\<close>

definition ff_toggleFlag :: "'w env \<Rightarrow> jsv \<Rightarrow> flags_page \<times> 'w world \<Rightarrow> flags_page \<times> 'w world" where
  "ff_toggleFlag E key pw = (case pw of (p, w) \<Rightarrow> (case find (\<lambda>f. fl_key f = key) (ff_flags p) of None \<Rightarrow> (p, w)
     | Some f0 \<Rightarrow> (case flags_api E (flags_request ''POST'' (Some [(''key'', key), (''enabled'', JBool (\<not> fl_enabled f0))])) w of (_, w1) \<Rightarrow>
         (p\<lparr>ff_flags := map (\<lambda>f. if fl_key f = key then f\<lparr>fl_enabled := \<not> fl_enabled f\<rparr> else f) (ff_flags p)\<rparr>, w1))))"

definition startEdit :: "flag \<Rightarrow> flags_page \<Rightarrow> flags_page" where
  "startEdit f p = p\<lparr>ff_editing := fl_key f, ff_name := fl_name f, ff_key := fl_key f, ff_desc := fl_desc f, ff_default := fl_enabled f,
     ff_rollout := fl_rollout f, ff_create := True\<rparr>"

definition startNew :: "flags_page \<Rightarrow> flags_page" where
  "startNew p = p\<lparr>ff_editing := JNull, ff_name := JStr [], ff_key := JStr [], ff_desc := JStr [], ff_default := False, ff_rollout := JNum 0, ff_create := True\<rparr>"

definition saveFlag :: "'w env \<Rightarrow> flags_page \<times> 'w world \<Rightarrow> flags_page \<times> 'w world" where
  "saveFlag E pw = (case pw of (p, w) \<Rightarrow> if \<not> truthy (ff_name p) \<or> \<not> truthy (ff_key p) then (p, w) else
     (case flags_api E (flags_request ''POST'' (Some [(''key'', ff_key p), (''name'', ff_name p), (''description'', ff_desc p), (''enabled'', JBool (ff_default p)),
          (''rollout_percentage'', ff_rollout p)])) w of (_, w1) \<Rightarrow>
       (p\<lparr>ff_flags := (if truthy (ff_editing p)
            then map (\<lambda>f. if fl_key f = ff_editing p then f\<lparr>fl_name := ff_name p, fl_desc := ff_desc p, fl_enabled := ff_default p, fl_rollout := ff_rollout p\<rparr> else f) (ff_flags p)
            else ff_flags p @ [\<lparr>fl_key = ff_key p, fl_name = ff_name p, fl_desc = ff_desc p, fl_enabled = ff_default p, fl_rollout = ff_rollout p,
              fl_tenants = JObj [(''default'', JBool (ff_default p))]\<rparr>]),
          ff_saving := False, ff_create := False\<rparr>, w1)))"

text \<open>A switch is not taken back when the server refuses it, although a comment of the code says so; switching twice restores the list.\<close>

lemma toggle_not_rolled_back: "ff_flags (fst (ff_toggleFlag E key (p, w))) = ff_flags (fst (ff_toggleFlag E' key (p, w')))"
  by (simp add: ff_toggleFlag_def split: prod.split option.split)

lemma toggle_flips:
  "find (\<lambda>f. fl_key f = key) (ff_flags p) = Some f0 \<Longrightarrow>
   find (\<lambda>f. fl_key f = key) (ff_flags (fst (ff_toggleFlag E key (p, w)))) = Some (f0\<lparr>fl_enabled := \<not> fl_enabled f0\<rparr>)"
proof -
  assume a: "find (\<lambda>f. fl_key f = key) (ff_flags p) = Some f0"
  have "find (\<lambda>f. fl_key f = key) xs = Some f0 \<Longrightarrow>
      find (\<lambda>f. fl_key f = key) (map (\<lambda>f. if fl_key f = key then f\<lparr>fl_enabled := \<not> fl_enabled f\<rparr> else f) xs) = Some (f0\<lparr>fl_enabled := \<not> fl_enabled f0\<rparr>)" for xs
    by (induction xs) (auto split: if_splits)
  then show ?thesis using a by (simp add: ff_toggleFlag_def split: prod.split)
qed

text \<open>Without an answer the page shows its seven examples as the flags of the platform, and no request carries a token.\<close>

lemma examples_shown: "fst (fetch E (flags_request ''GET'' None) w) = NetError \<Longrightarrow> ff_flags (fst (load_flags E (flags_init, w))) = DEFAULT_FLAGS"
  by (auto simp: load_flags_def flags_api_def flags_init_def split: prod.splits)

lemma flags_without_token: "assoc ''Authorization'' (hdrs (flags_request m body)) = None"
  by (simp add: flags_request_def)

section \<open>Reassignment\<close>

record reassign_page =
  ra_users :: jsv
  ra_search :: string
  ra_selected :: jsv
  ra_org :: jsv
  ra_role :: jsv
  ra_manager :: jsv
  ra_impact :: jsv
  ra_previewing :: bool
  ra_executing :: bool
  ra_showConfirm :: bool
  ra_loading :: bool
  ra_error :: string

definition reassign_init :: reassign_page where
  "reassign_init = \<lparr>ra_users = JArr [], ra_search = [], ra_selected = JNull, ra_org = JStr [], ra_role = JStr [], ra_manager = JStr [], ra_impact = JNull,
     ra_previewing = False, ra_executing = False, ra_showConfirm = False, ra_loading = True, ra_error = []\<rparr>"

definition ra_request :: "string \<Rightarrow> string \<Rightarrow> jsv option \<Rightarrow> 'w world \<Rightarrow> request" where
  "ra_request m path body w = \<lparr>url = ''/api/v1/identity/'' @ path, meth = m,
     hdrs = spread (authHeader w) ((if body = None then [] else [(''Content-Type'', ''application/json'')]) @ [(''X-Tenant-ID'', item_or (local_store w ''ggid_tenant_id'') [])]),
     rbody = map_option json_stringify body\<rparr>"

definition ra_fetchUsers :: "'w env \<Rightarrow> reassign_page \<times> 'w world \<Rightarrow> reassign_page \<times> 'w world" where
  "ra_fetchUsers E pw = (case pw of (p, w) \<Rightarrow> (case fetch E (ra_request ''GET'' ''users'' None w) w of
     (NetError, w1) \<Rightarrow> (p\<lparr>ra_error := net_message E, ra_loading := False\<rparr>, w1)
   | (Resp st body, w1) \<Rightarrow> if \<not> resp_ok st then (p\<lparr>ra_error := ''Failed to load users: HTTP '' @ show_int st, ra_loading := False\<rparr>, w1)
       else (case json_parse body of None \<Rightarrow> (p\<lparr>ra_error := syntax_message E, ra_loading := False\<rparr>, w1)
         | Some d \<Rightarrow> if nullish d then (p\<lparr>ra_error := type_message E, ra_loading := False\<rparr>, w1)
             else (p\<lparr>ra_error := [], ra_users := js_or (js_opt_prop d ''users'') (js_or d (JArr [])), ra_loading := False\<rparr>, w1))))"

definition ra_selectUser :: "jsv \<Rightarrow> reassign_page \<Rightarrow> reassign_page" where
  "ra_selectUser u p = p\<lparr>ra_selected := u, ra_org := js_opt_prop u ''org_id'', ra_role := js_opt_prop u ''role'', ra_manager := js_opt_prop u ''manager'', ra_impact := JNull\<rparr>"

definition type_org :: "string \<Rightarrow> reassign_page \<Rightarrow> reassign_page" where
  "type_org v p = p\<lparr>ra_org := JStr v\<rparr>"

definition type_role :: "string \<Rightarrow> reassign_page \<Rightarrow> reassign_page" where
  "type_role v p = p\<lparr>ra_role := JStr v\<rparr>"

definition type_manager :: "string \<Rightarrow> reassign_page \<Rightarrow> reassign_page" where
  "type_manager v p = p\<lparr>ra_manager := JStr v\<rparr>"

definition ra_body :: "reassign_page \<Rightarrow> jsv" where
  "ra_body p = JObj [(''user_id'', js_opt_prop (ra_selected p) ''user_id''), (''new_org'', ra_org p), (''new_role'', ra_role p), (''new_manager'', ra_manager p)]"

definition invented_impact :: jsv where
  "invented_impact = JObj [(''sessions_revoked'', JNum 3), (''active_tokens'', JNum 2), (''access_review_triggered'', JBool True), (''policies_affected'', JNum 5),
     (''warnings'', JArr [JStr ''Role change crosses department boundary''])]"

definition previewImpact :: "'w env \<Rightarrow> reassign_page \<times> 'w world \<Rightarrow> reassign_page \<times> 'w world" where
  "previewImpact E pw = (case pw of (p, w) \<Rightarrow> if \<not> truthy (ra_selected p) then (p, w) else
     (case ask E (ra_request ''POST'' ''reassignment/preview'' (Some (ra_body p)) w) w of (r, w1) \<Rightarrow>
       (p\<lparr>ra_impact := (case r of Data d \<Rightarrow> d | _ \<Rightarrow> invented_impact), ra_previewing := False\<rparr>, w1)))"

text \<open>A refused request ends in silence.\<close>

definition ra_execute :: "'w env \<Rightarrow> reassign_page \<times> 'w world \<Rightarrow> reassign_page \<times> 'w world" where
  "ra_execute E pw = (case pw of (p, w) \<Rightarrow> if \<not> truthy (ra_selected p) then (p, w) else
     (case fetch E (ra_request ''POST'' ''reassignment/execute'' (Some (ra_body p)) w) w of
        (NetError, w1) \<Rightarrow> (p\<lparr>ra_error := net_message E, ra_executing := False\<rparr>, w1)
      | (Resp st _, w1) \<Rightarrow> if \<not> resp_ok st then (p\<lparr>ra_error := [], ra_executing := False\<rparr>, w1)
          else (p\<lparr>ra_error := [], ra_showConfirm := False, ra_selected := JNull, ra_impact := JNull, ra_executing := False\<rparr>, w1)))"

text \<open>Of users whose two fields are texts; any other value throws.\<close>

definition ra_filtered :: "reassign_page \<Rightarrow> jsv list" where
  "ra_filtered p = filter (\<lambda>u. ra_search p = [] \<or> str_includes (to_lower (js_to_string (js_opt_prop u ''username''))) (to_lower (ra_search p)) \<or>
     str_includes (to_lower (js_to_string (js_opt_prop u ''email''))) (to_lower (ra_search p))) (arr_items (ra_users p))"

definition hasChanges :: "reassign_page \<Rightarrow> bool" where
  "hasChanges p = (truthy (ra_selected p) \<and> (ra_org p \<noteq> js_opt_prop (ra_selected p) ''org_id'' \<or> ra_role p \<noteq> js_opt_prop (ra_selected p) ''role'' \<or>
     ra_manager p \<noteq> js_opt_prop (ra_selected p) ''manager''))"

text \<open>The button of the dialog needs a preview.\<close>

definition execute_offered :: "reassign_page \<Rightarrow> bool" where
  "execute_offered p = truthy (ra_impact p)"

text \<open>A preview that failed shows invented numbers and lets the reassignment go on; and a preview is not discarded when the target is changed after it, so what is
  carried out need not be what was previewed.\<close>

lemma failed_preview_offers:
  "truthy (ra_selected p) \<Longrightarrow> accepted (fst (fetch E (ra_request ''POST'' ''reassignment/preview'' (Some (ra_body p)) w) w)) = False \<Longrightarrow>
   ra_impact (fst (previewImpact E (p, w))) = invented_impact \<and> execute_offered (fst (previewImpact E (p, w)))"
  by (auto simp: previewImpact_def ask_def accepted_def execute_offered_def invented_impact_def split: prod.splits outcome.splits)

lemma preview_kept_after_change:
  "execute_offered (type_org v p) = execute_offered p" "execute_offered (type_role v p) = execute_offered p" "execute_offered (type_manager v p) = execute_offered p"
  by (simp_all add: execute_offered_def type_org_def type_role_def type_manager_def)

lemma preview_discarded_on_select: "\<not> execute_offered (ra_selectUser u p)"
  by (simp add: execute_offered_def ra_selectUser_def)

lemma refused_execution_silent:
  "truthy (ra_selected p) \<Longrightarrow> fst (fetch E (ra_request ''POST'' ''reassignment/execute'' (Some (ra_body p)) w) w) = Resp st b \<Longrightarrow> \<not> resp_ok st \<Longrightarrow>
   fst (ra_execute E (p, w)) = p\<lparr>ra_error := [], ra_executing := False\<rparr>"
  by (auto simp: ra_execute_def split: prod.splits)

section \<open>Access of the platform\<close>

record access_grant_page =
  pa_consents :: jsv
  pa_logs :: jsv
  pa_loading :: bool
  pa_error :: jsv
  pa_showGrant :: bool
  pa_granting :: bool
  pa_scope :: string
  pa_expiresIn :: string
  pa_reason :: string
  pa_success :: string

definition access_grant_init :: access_grant_page where
  "access_grant_init = \<lparr>pa_consents = JArr [], pa_logs = JArr [], pa_loading = True, pa_error = JStr [], pa_showGrant = False, pa_granting = False, pa_scope = ''support'',
     pa_expiresIn = ''24h'', pa_reason = [], pa_success = []\<rparr>"

definition pa_tenantId :: "string \<Rightarrow> 'w world \<Rightarrow> string" where
  "pa_tenantId dflt w = (if has_window w then item_or (local_store w ''ggid_tenant_id'') dflt else dflt)"

definition pa_path :: "string \<Rightarrow> string \<Rightarrow> 'w world \<Rightarrow> string" where
  "pa_path dflt rest w = ''/api/v1/tenants/'' @ pa_tenantId dflt w @ ''/access'' @ rest"

text \<open>Milliseconds; anything that is no number with a unit counts as a day.\<close>

definition parseDuration :: "string \<Rightarrow> int" where
  "parseDuration d = (if d = [] then 86400000 else
     (let ds = butlast d; u = last d in
      if digits ds \<and> (u = CHR ''h'' \<or> u = CHR ''d'' \<or> u = CHR ''m'')
      then int (nat_of_digits 0 ds) * (if u = CHR ''h'' then 3600000 else if u = CHR ''d'' then 86400000 else 60000) else 86400000))"

definition either_list :: "string list \<Rightarrow> jsv \<Rightarrow> jsv" where
  "either_list ks d = foldr (\<lambda>k v. js_or (js_opt_prop d k) v) ks (if is_array d then d else JArr [])"

text \<open>\<^term>\<open>None\<close>: the body is no JSON, or \<open>null\<close>.\<close>

definition list_answer :: "string list \<Rightarrow> string \<Rightarrow> jsv option" where
  "list_answer ks body = (case json_parse body of None \<Rightarrow> None | Some d \<Rightarrow> if nullish d then None else Some (either_list ks d))"

text \<open>Both requests are sent before an answer is read; a network failure of the second counts as no answer, of the first ends the load.\<close>

definition pa_load :: "string \<Rightarrow> 'w env \<Rightarrow> string \<Rightarrow> access_grant_page \<times> 'w world \<Rightarrow> access_grant_page \<times> 'w world" where
  "pa_load dflt E base pw = (case pw of (p, w) \<Rightarrow> (let failed = JStr ''Failed to load platform access data''; p0 = p\<lparr>pa_error := JStr [], pa_loading := False\<rparr> in
     (case fetch E (pr_get base (pa_path dflt [] w) w) w of (r1, w1) \<Rightarrow>
     (case fetch E (pr_get base (pa_path dflt ''/logs'' w) w1) w1 of (r2, w2) \<Rightarrow>
       ((case r1 of NetError \<Rightarrow> p0\<lparr>pa_error := failed\<rparr>
         | Resp st body \<Rightarrow> (case (if resp_ok st then map_option (\<lambda>v. p0\<lparr>pa_consents := v\<rparr>) (list_answer [''consents'', ''items''] body) else Some p0) of
              None \<Rightarrow> p0\<lparr>pa_error := failed\<rparr>
            | Some q \<Rightarrow> (case r2 of NetError \<Rightarrow> q
                | Resp st' body' \<Rightarrow> if \<not> resp_ok st' then q else (case list_answer [''logs'', ''sessions'', ''items''] body' of
                     None \<Rightarrow> q\<lparr>pa_error := failed\<rparr> | Some v \<Rightarrow> q\<lparr>pa_logs := v\<rparr>)))), w2)))))"

definition pa_handleGrant :: "(int \<Rightarrow> string) \<Rightarrow> string \<Rightarrow> 'w env \<Rightarrow> string \<Rightarrow> access_grant_page \<times> 'w world \<Rightarrow> access_grant_page \<times> 'w world" where
  "pa_handleGrant stamp dflt E base pw = (case pw of (p, w) \<Rightarrow>
     if trim (pa_reason p) = [] then (p\<lparr>pa_error := JStr ''Reason is required''\<rparr>, w)
     else (case fetch E (pr_send ''POST'' base (pa_path dflt ''/grant'' w) [(''scope'', JStr (pa_scope p)),
           (''expires_at'', if pa_expiresIn p \<noteq> ''never'' then JStr (stamp (parseDuration (pa_expiresIn p))) else JNull), (''reason'', JStr (pa_reason p))] w) w of
        (NetError, w1) \<Rightarrow> (p\<lparr>pa_error := JStr ''Network error'', pa_granting := False\<rparr>, w1)
      | (Resp st body, w1) \<Rightarrow>
          if resp_ok st then (case pa_load dflt E base (p\<lparr>pa_success := ''Platform access granted successfully.'', pa_showGrant := False, pa_reason := []\<rparr>, w1) of
            (q, w2) \<Rightarrow> (q\<lparr>pa_granting := False\<rparr>, w2))
          else (let d = (case json_parse body of None \<Rightarrow> JObj [] | Some v \<Rightarrow> v) in
            (p\<lparr>pa_error := (if nullish d then JStr ''Network error'' else js_or (js_opt_prop (js_opt_prop d ''error'') ''message'') (JStr ''Failed to grant access'')),
               pa_granting := False\<rparr>, w1))))"

definition pa_handleRevoke :: "string \<Rightarrow> 'w env \<Rightarrow> string \<Rightarrow> string \<Rightarrow> access_grant_page \<times> 'w world \<Rightarrow> access_grant_page \<times> 'w world" where
  "pa_handleRevoke dflt E base i pw = (case pw of (p, w) \<Rightarrow> (case fetch E (pr_delete base (pa_path dflt (''/'' @ i) w) w) w of
     (NetError, w1) \<Rightarrow> (p\<lparr>pa_error := JStr ''Network error''\<rparr>, w1)
   | (Resp st _, w1) \<Rightarrow> if resp_ok st then pa_load dflt E base (p, w1) else (p\<lparr>pa_error := JStr ''Failed to revoke access''\<rparr>, w1)))"

definition copyRequestLink :: "string \<Rightarrow> string \<Rightarrow> access_grant_page \<times> 'w world \<Rightarrow> string \<times> access_grant_page" where
  "copyRequestLink origin dflt pw = (case pw of (p, w) \<Rightarrow>
     (origin @ ''/admin/impersonate?tenant='' @ pa_tenantId dflt w, p\<lparr>pa_success := ''Request link copied to clipboard.''\<rparr>))"

text \<open>The durations of the form, and that a grant needs a reason.\<close>

lemma durations: "map parseDuration [''1h'', ''4h'', ''24h'', ''7d'', ''90m''] = [3600000, 14400000, 86400000, 604800000, 5400000]"
  by code_simp

lemma duration_text: "parseDuration (show_nat n @ ''h'') = int n * 3600000"
proof -
  have "digits (show_nat n)" by (auto simp: digits_def list_all_iff dest: show_nat_digits)
  moreover have "nat_of_digits 0 (show_nat n) = n" by (rule nat_of_digits_show)
  ultimately show ?thesis by (simp add: parseDuration_def Let_def)
qed

text \<open>A load that is refused is not reported: the lists of before stay.\<close>

lemma refused_access_load_silent:
  assumes "\<And>rq v. fst (fetch E rq v) = Resp 403 []"
  shows "fst (pa_load dflt E base (p, w)) = p\<lparr>pa_error := JStr [], pa_loading := False\<rparr>"
proof -
  have r: "r = Resp 403 []" if "fetch E rq v = (r, v')" for rq v r v' using assms[of rq v] that by simp
  show ?thesis by (auto simp: pa_load_def Let_def resp_ok_def split: prod.split dest!: r)
qed

lemma grant_needs_reason: "trim (pa_reason p) = [] \<Longrightarrow> sent (snd (pa_handleGrant stamp dflt E base (p, w))) = sent w"
  by (simp add: pa_handleGrant_def)

end
