(* ===== verification/Client_List.thy ===== *)
theory Client_List
  imports OAuth_Clients
begin

text \<open>
  The list of OAuth clients (\<open>console/src/app/oauth-clients/page.tsx\<close>): loading, creating, editing the addresses, deleting, search and pages of ten.
  The dictionary is an argument; timers that hide a mark are left out.
\<close>

section \<open>Data\<close>

definition GRANT_TYPES :: "string list" where
  "GRANT_TYPES = [''authorization_code'', ''client_credentials'', ''refresh_token'', ''implicit'']"

definition DEFAULT_SCOPES :: "string list" where
  "DEFAULT_SCOPES = [''openid'', ''profile'', ''email'', ''offline_access'']"

definition cl_PAGE_SIZE :: nat where
  "cl_PAGE_SIZE = 10"

record list_client =
  lc_id :: jsv
  lc_client_id :: jsv
  lc_name :: jsv
  lc_uris :: jsv
  lc_grants :: jsv
  lc_scopes :: jsv
  lc_created :: jsv
  lc_lastUsed :: jsv
  lc_status :: jsv

record list_form =
  lf_name :: string
  lf_uris :: string
  lf_grants :: "string list"
  lf_scopes :: "string list"

definition list_form_init :: list_form where
  "list_form_init = \<lparr>lf_name = [], lf_uris = [], lf_grants = [''authorization_code'', ''refresh_token''], lf_scopes = [''openid'', ''profile'', ''email'']\<rparr>"

record client_list =
  cl_clients :: "list_client list"
  cl_loading :: bool
  cl_error :: "string option"
  cl_showCreate :: bool
  cl_newSecret :: "(jsv \<times> jsv) option"
  cl_confirm :: "list_client option"
  cl_edit :: "list_client option"
  cl_search :: string
  cl_page :: nat
  cl_form :: list_form
  cl_creating :: bool
  cl_editUris :: string

definition client_list_init :: client_list where
  "client_list_init = \<lparr>cl_clients = [], cl_loading = True, cl_error = None, cl_showCreate = False, cl_newSecret = None, cl_confirm = None, cl_edit = None,
     cl_search = [], cl_page = 0, cl_form = list_form_init, cl_creating = False, cl_editUris = []\<rparr>"

section \<open>Loading and changing\<close>

text \<open>\<^term>\<open>None\<close> for an element that is \<open>null\<close>, which throws.\<close>

definition list_client_of :: "jsv \<Rightarrow> list_client option" where
  "list_client_of c = (if nullish c then None else (let g = (\<lambda>k d. js_nullish (js_opt_prop c k) d) in Some
     \<lparr>lc_id = g ''id'' (JStr []), lc_client_id = g ''client_id'' (JStr []), lc_name = g ''name'' (g ''client_name'' (JStr ''Untitled'')),
      lc_uris = g ''redirect_uris'' (JArr []), lc_grants = g ''grant_types'' (JArr []), lc_scopes = g ''scopes'' (JArr []), lc_created = g ''created_at'' (JStr []),
      lc_lastUsed = js_opt_prop c ''last_used'', lc_status = g ''status'' (JStr ''active'')\<rparr>))"

text \<open>A failed request counts as no answer; what is no list has no \<open>map\<close>.\<close>

definition clients_of :: "api_exn + jsv \<Rightarrow> list_client list option" where
  "clients_of r = (let d = (case r of Inl _ \<Rightarrow> JNull | Inr v \<Rightarrow> v) in
     case js_nullish (js_opt_prop d ''clients'') (js_nullish (js_opt_prop d ''items'') (JArr [])) of JArr vs \<Rightarrow> those (map list_client_of vs) | _ \<Rightarrow> None)"

definition cl_load :: "(string \<Rightarrow> string) \<Rightarrow> 'w env \<Rightarrow> string \<Rightarrow> string \<Rightarrow> client_list \<times> 'w world \<Rightarrow> client_list \<times> 'w world" where
  "cl_load t E base tenant pw = (case pw of (p, w) \<Rightarrow> (case apiFetch E base tenant ''/api/v1/oauth/clients'' no_options w of (r, w1) \<Rightarrow>
     ((case clients_of r of None \<Rightarrow> p\<lparr>cl_error := Some (t ''oauth.failedLoadClients'')\<rparr> | Some cs \<Rightarrow> p\<lparr>cl_error := None, cl_clients := cs\<rparr>)\<lparr>cl_loading := False\<rparr>, w1)))"

definition list_body :: "list_form \<Rightarrow> (string \<times> jsv) list" where
  "list_body f = [(''client_name'', JStr (lf_name f)), (''redirect_uris'', jstrs (clean_parts (CHR 0x0A) (lf_uris f))), (''grant_types'', jstrs (lf_grants f)),
     (''scopes'', jstrs (lf_scopes f))]"

definition cl_handleCreate :: "(string \<Rightarrow> string) \<Rightarrow> 'w env \<Rightarrow> string \<Rightarrow> string \<Rightarrow> client_list \<times> 'w world \<Rightarrow> client_list \<times> 'w world" where
  "cl_handleCreate t E base tenant pw = (case pw of (p, w) \<Rightarrow> if trim (lf_name (cl_form p)) = [] then (p, w) else
     (case apiFetch E base tenant ''/api/v1/oauth/clients'' (json_options ''POST'' (list_body (cl_form p))) w of
        (Inl _, w1) \<Rightarrow> (p\<lparr>cl_error := Some (t ''oauth.failedCreateClient''), cl_creating := False\<rparr>, w1)
      | (Inr d, w1) \<Rightarrow> (let s = js_opt_prop d ''client_secret'' in
          if nullish d then (p\<lparr>cl_error := Some (t ''oauth.failedCreateClient''), cl_creating := False\<rparr>, w1)
          else (case cl_load t E base tenant ((if truthy s then p\<lparr>cl_newSecret := Some (js_nullish (js_opt_prop (js_opt_prop d ''client'') ''client_id'') (JStr []), s)\<rparr> else p)
                  \<lparr>cl_form := list_form_init, cl_showCreate := False\<rparr>, w1) of (q, w2) \<Rightarrow> (q\<lparr>cl_creating := False\<rparr>, w2)))))"

definition cl_open_edit :: "list_client \<Rightarrow> client_list \<Rightarrow> client_list" where
  "cl_open_edit c p = p\<lparr>cl_edit := Some c, cl_editUris := join_on (CHR 0x0A) (strings_in (lc_uris c))\<rparr>"

definition cl_handleSaveEdit :: "(string \<Rightarrow> string) \<Rightarrow> 'w env \<Rightarrow> string \<Rightarrow> string \<Rightarrow> client_list \<times> 'w world \<Rightarrow> client_list \<times> 'w world" where
  "cl_handleSaveEdit t E base tenant pw = (case pw of (p, w) \<Rightarrow> (case cl_edit p of None \<Rightarrow> (p, w)
     | Some c \<Rightarrow> (case apiFetch E base tenant (clients_path (js_to_string (lc_client_id c)))
          (json_options ''PATCH'' [(''redirect_uris'', jstrs (clean_parts (CHR 0x0A) (cl_editUris p)))]) w of
          (Inl _, w1) \<Rightarrow> (p\<lparr>cl_error := Some (t ''oauth.failedUpdateClient'')\<rparr>, w1)
        | (Inr _, w1) \<Rightarrow> cl_load t E base tenant (p\<lparr>cl_edit := None\<rparr>, w1))))"

definition cl_handleDelete :: "(string \<Rightarrow> string) \<Rightarrow> 'w env \<Rightarrow> string \<Rightarrow> string \<Rightarrow> jsv \<Rightarrow> client_list \<times> 'w world \<Rightarrow> client_list \<times> 'w world" where
  "cl_handleDelete t E base tenant i pw = (case pw of (p, w) \<Rightarrow>
     (case apiFetch E base tenant (clients_path (js_to_string (js_or i (JStr [])))) delete_opts w of
        (Inl _, w1) \<Rightarrow> (p\<lparr>cl_error := Some (t ''oauth.failedDeleteClient'')\<rparr>, w1)
      | (Inr _, w1) \<Rightarrow> cl_load t E base tenant (p\<lparr>cl_confirm := None\<rparr>, w1)))"

definition toggleGrant :: "string \<Rightarrow> list_form \<Rightarrow> list_form" where
  "toggleGrant g f = f\<lparr>lf_grants := (if g \<in> set (lf_grants f) then filter (\<lambda>x. x \<noteq> g) (lf_grants f) else lf_grants f @ [g])\<rparr>"

definition cl_toggleScope :: "string \<Rightarrow> list_form \<Rightarrow> list_form" where
  "cl_toggleScope s f = f\<lparr>lf_scopes := (if s \<in> set (lf_scopes f) then filter (\<lambda>x. x \<noteq> s) (lf_scopes f) else lf_scopes f @ [s])\<rparr>"

section \<open>Search and pages\<close>

text \<open>\<open>v?.toLowerCase().includes(q)\<close> of a text or a missing value.  The service lists texts; for another value, such as a number, the call throws
  while the page is drawn, which is not followed here.\<close>

definition text_has :: "string \<Rightarrow> jsv \<Rightarrow> bool" where
  "text_has q v = (case v of JStr s \<Rightarrow> str_includes (to_lower s) q | _ \<Rightarrow> False)"

definition client_shown :: "string \<Rightarrow> list_client \<Rightarrow> bool" where
  "client_shown search c = (trim search = [] \<or> (let q = to_lower search in
     text_has q (lc_name c) \<or> text_has q (lc_client_id c) \<or> list_ex (text_has q) (arr_items (lc_uris c))))"

definition cl_filtered :: "client_list \<Rightarrow> list_client list" where
  "cl_filtered p = filter (client_shown (cl_search p)) (cl_clients p)"

text \<open>\<open>filtered.slice(page * PAGE_SIZE, (page + 1) * PAGE_SIZE)\<close>.\<close>

definition page_rows :: "nat \<Rightarrow> client_list \<Rightarrow> list_client list" where
  "page_rows n p = take cl_PAGE_SIZE (drop (n * cl_PAGE_SIZE) (cl_filtered p))"

definition cl_totalPages :: "client_list \<Rightarrow> nat" where
  "cl_totalPages p = (length (cl_filtered p) + cl_PAGE_SIZE - 1) div cl_PAGE_SIZE"

definition controls_shown :: "client_list \<Rightarrow> bool" where
  "controls_shown p = (1 < cl_totalPages p)"

definition cl_prev :: "client_list \<Rightarrow> client_list" where
  "cl_prev p = p\<lparr>cl_page := cl_page p - 1\<rparr>"

text \<open>\<open>Math.min(totalPages - 1, page + 1)\<close>, off on the last page.\<close>

definition cl_next :: "client_list \<Rightarrow> client_list" where
  "cl_next p = (if cl_totalPages p - 1 \<le> cl_page p then p else p\<lparr>cl_page := min (cl_totalPages p - 1) (cl_page p + 1)\<rparr>)"

text \<open>The page is kept.\<close>

definition cl_type_search :: "string \<Rightarrow> client_list \<Rightarrow> client_list" where
  "cl_type_search q p = p\<lparr>cl_search := q\<rparr>"

section \<open>Properties\<close>

lemma pages_of: "0 < k \<Longrightarrow> concat (map (\<lambda>n. take k (drop (n * k) xs)) [0..<m]) = take (m * k) xs" for xs :: "'a list"
proof (induction m)
  case (Suc m)
  have "take (Suc m * k) xs = take (m * k) xs @ take k (drop (m * k) xs)"
    using take_add[of "m * k" k xs] by (simp only: mult_Suc add.commute[of k])
  then show ?case using Suc by simp
qed simp

lemma enough_pages: "length (cl_filtered p) \<le> cl_totalPages p * cl_PAGE_SIZE"
proof -
  define n where "n = length (cl_filtered p)"
  have "(n + 9) mod 10 < 10" "(n + 9) div 10 * 10 + (n + 9) mod 10 = n + 9" by simp_all
  then have "n \<le> (n + 9) div 10 * 10" by linarith
  then show ?thesis by (simp add: cl_totalPages_def cl_PAGE_SIZE_def n_def)
qed

text \<open>C23. The pages of the list of OAuth clients: one after the other they show exactly the clients found, in order, and the two buttons stay within them; but
  search and reload keep the page, so a page other than the first shows no row, and no button to go back, as soon as at most ten clients are found.\<close>

theorem client_pages:
  "concat (map (\<lambda>n. page_rows n p) [0..<cl_totalPages p]) = cl_filtered p \<and>
   (cl_page p < cl_totalPages p \<longrightarrow> cl_page (cl_next p) < cl_totalPages p \<and> cl_page (cl_prev p) < cl_totalPages p) \<and>
   (length (cl_filtered (cl_type_search q p)) \<le> 10 \<longrightarrow> 0 < cl_page p \<longrightarrow>
      page_rows (cl_page (cl_type_search q p)) (cl_type_search q p) = [] \<and> \<not> controls_shown (cl_type_search q p)) \<and>
   (\<forall>w w' p'. cl_load t E base tenant (p, w) = (p', w') \<longrightarrow> length (cl_filtered p') \<le> 10 \<longrightarrow> 0 < cl_page p \<longrightarrow>
      page_rows (cl_page p') p' = [] \<and> \<not> controls_shown p')"
proof (intro conjI allI impI)
  show "concat (map (\<lambda>n. page_rows n p) [0..<cl_totalPages p]) = cl_filtered p"
    using pages_of[of cl_PAGE_SIZE "cl_filtered p" "cl_totalPages p"] enough_pages[of p] by (simp add: page_rows_def cl_PAGE_SIZE_def)
next
  assume "cl_page p < cl_totalPages p"
  then show "cl_page (cl_next p) < cl_totalPages p" "cl_page (cl_prev p) < cl_totalPages p" by (auto simp: cl_next_def cl_prev_def)
next
  have few: "page_rows n s = [] \<and> \<not> controls_shown s" if "length (cl_filtered s) \<le> 10" "0 < n" for n s
  proof -
    have "10 \<le> n * cl_PAGE_SIZE" using that(2) by (simp add: cl_PAGE_SIZE_def)
    moreover have "cl_totalPages s \<le> 1" using that(1) by (simp add: cl_totalPages_def cl_PAGE_SIZE_def)
    ultimately show ?thesis using that(1) by (simp add: page_rows_def controls_shown_def)
  qed
  { assume a: "length (cl_filtered (cl_type_search q p)) \<le> 10" "0 < cl_page p"
    then show "page_rows (cl_page (cl_type_search q p)) (cl_type_search q p) = []" "\<not> controls_shown (cl_type_search q p)"
      using few[OF a(1), of "cl_page p"] by (simp_all add: cl_type_search_def) }
  fix w w' p' assume l: "cl_load t E base tenant (p, w) = (p', w')" and a: "length (cl_filtered p') \<le> 10" "0 < cl_page p"
  have "cl_page p' = cl_page p" using l by (auto simp: cl_load_def split: prod.splits option.splits)
  then show "page_rows (cl_page p') p' = []" "\<not> controls_shown p'" using few[OF a(1), of "cl_page p"] a(2) by simp_all
qed

text \<open>Eleven clients, the second page: searching for the name of the first finds it and shows nothing.\<close>

definition eleven :: client_list where
  "eleven = client_list_init\<lparr>cl_clients := map (\<lambda>n. the (list_client_of (JObj [(''name'', JStr (''c'' @ show_nat n))]))) [0..<11], cl_page := 1\<rparr>"

theorem client_pages_witness:
  "length (cl_filtered (cl_type_search ''c0'' eleven)) = 1 \<and> page_rows (cl_page (cl_type_search ''c0'' eleven)) (cl_type_search ''c0'' eleven) = [] \<and>
   cl_page (cl_prev eleven) < cl_totalPages eleven"
proof -
  have n: "length (cl_filtered (cl_type_search ''c0'' eleven)) = 1" "cl_page eleven = 1" "cl_totalPages eleven = 2" by code_simp+
  then have "length (cl_filtered (cl_type_search ''c0'' eleven)) \<le> 10" "0 < cl_page eleven" "cl_page eleven < cl_totalPages eleven" by simp_all
  then show ?thesis using client_pages[of eleven "''c0''"] n(1) by blast
qed

text \<open>A failed load is shown as an empty list, without an error. What is sent for a new client are the lines of the field without blanks; an edit that changes nothing sends back the addresses.\<close>

lemma failed_load_shows_none:
  "fst (apiFetch E base tenant ''/api/v1/oauth/clients'' no_options w) = Inl x \<Longrightarrow>
   cl_clients (fst (cl_load t E base tenant (p, w))) = [] \<and> cl_error (fst (cl_load t E base tenant (p, w))) = None"
  by (auto simp: cl_load_def clients_of_def Let_def js_opt_prop_def js_nullish_def split: prod.splits)

lemma create_needs_name: "trim (lf_name (cl_form p)) = [] \<Longrightarrow> cl_handleCreate t E base tenant (p, w) = (p, w)"
  by (simp add: cl_handleCreate_def)

lemma edit_keeps_uris: "lc_uris c = jstrs us \<Longrightarrow> tidy (CHR 0x0A) us \<Longrightarrow> clean_parts (CHR 0x0A) (cl_editUris (cl_open_edit c p)) = us"
  by (simp add: cl_open_edit_def strings_in_def jstrs_def clean_parts_join o_def)

lemma toggles_distinct: "distinct (lf_grants f) \<Longrightarrow> distinct (lf_grants (toggleGrant g f))" "distinct (lf_scopes f) \<Longrightarrow> distinct (lf_scopes (cl_toggleScope s f))"
  by (simp_all add: toggleGrant_def cl_toggleScope_def)

end
