(* ===== verification/Spec2Isabelle.thy ===== *)
theory Spec2Isabelle
  imports Auth_Guard Webauthn Rn_Client Audit_Stream Sdk_Admin_Hooks User_Import Role_Matrix Saml
    Org_Tree Audit_Analysis Login I18n Widgets Passwords Import_Wizard Shell Sdk_Demo_Hooks
    Sessions Policy_Builder Perm_Matrix Roles_Page Organizations
    Conditional_Access User_Detail Bulk_Import Api_Explorer Hooks_Contract
    Api_Keys Access_Requests Mfa_Page Passkey_Pages Hash_Chain Tenants_Page
    Admin_Pages Client_List
begin

text \<open>
  A verification library for the TypeScript clients of GGID, an identity and access management
  suite.  The servers are Go services behind a gateway; the code modelled here is what talks to
  them: the admin console (\<open>src/console\<close>, Next.js), the React SDK (\<open>src/sdk/react\<close>) and the
  React Native SDK (\<open>src/sdk/react-native\<close>).

  \<^bold>\<open>How the parts interact.\<close>  The console keeps its session in \<open>localStorage\<close>.  A request passes
  the server-side middleware, which asks whether the tenant of the host exists; in the browser the
  auth guard decides whether a page may be shown; pages call \<open>apiFetch\<close>, which refreshes an
  expired token once and otherwise dispatches the event \<open>ggid:unauthorized\<close>, to which the guard
  reacts by ending the session; the sidebar and the permission tests decide from the stored scopes
  and permissions what is offered.  The login page, the passwordless component and the callback page
  write the session that the guard and \<open>apiFetch\<close> read; the callback completes a flow that the
  passwordless component or the PKCE module started, and a login may offer a passkey.  The pages
  for organizations, roles, audit, import, passwords and impersonation keep their own state and
  reach the server through \<open>apiFetch\<close>; the palette offers pages that the guard then decides about.
  The React SDK has its own provider (a state machine with requests in flight), passkey hook,
  SAML helpers, audit stream and resource hooks; the React Native client keeps its session in a
  secure store.

  \<^bold>\<open>The theories\<close>, in the order of their dependencies, and the files they model:
  \<^item> \<open>Prelude\<close>: values of the language (\<open>jsv\<close>), truthiness, property access, string functions.
  \<^item> \<open>Json\<close>: \<open>JSON.stringify\<close> and \<open>JSON.parse\<close>, with the round trip; \<open>Json_Pretty\<close>: the same for the indented
    text; \<open>Js_Sort\<close>: \<open>Array.sort\<close> as a stable sort, with the interface of a comparison.
  \<^item> \<open>Browser\<close>: requests, responses, storage, events, time; the environment is a function of an
    abstract outside state, so every property holds for all servers and all networks.  Also
    \<open>console/src/lib/auth-helpers.ts\<close> and the interface \<open>kv_store\<close> of the storages.
  \<^item> \<open>Base64\<close>: the three base64url codecs, \<open>btoa\<close> and \<open>atob\<close> on bytes (8-bit words), and the
    interface \<open>byte_codec\<close> they implement.
  \<^item> \<open>Access\<close>: scopes, roles, permission tests and navigation (\<open>console/src/lib/api.ts\<close>,
    \<open>components/sidebar.tsx\<close>, \<open>components/PermissionGuard.tsx\<close>), with the interface of a monotone
    permission checker.
  \<^item> \<open>OAuth_Pkce\<close>: \<open>console/src/lib/oauth-pkce.ts\<close>; SHA-256 and random bytes are arguments.
  \<^item> \<open>Tenant\<close>: \<open>console/src/lib/api-config.ts\<close> and \<open>console/src/middleware.ts\<close>, with the interface of
    a cache with a time to live.
  \<^item> \<open>Api_Client\<close>: \<open>apiFetch\<close>, error parsing, user list, permission loading, logout of
    \<open>console/src/lib/api.ts\<close>.
  \<^item> \<open>Auth_Guard\<close>: \<open>console/src/components/auth-guard.tsx\<close> and its agreement with the sidebar.
  \<^item> \<open>Webauthn\<close>: \<open>console/src/lib/webauthn-conditional.ts\<close> and \<open>sdk/react/src/passkey.ts\<close>; the
    authenticator is an argument.
  \<^item> \<open>User_Import\<close> and \<open>Role_Matrix\<close>: the logic of the pages \<open>console/src/app/users/import\<close> and
    \<open>console/src/app/roles/matrix\<close>; \<open>Import_Wizard\<close>: the state of the import page, whose loop is shown to be the
    one of \<open>User_Import\<close>.
  \<^item> \<open>Shell\<close>: the health probe, the monitor and the sign-out of the sidebar, \<open>console/src/lib/performance.ts\<close>,
    \<open>a11y.ts\<close>, the page title, and \<open>useGGIDAuth.ts\<close>, \<open>useTokenRefresh.ts\<close>, \<open>ErrorBoundary.tsx\<close>, \<open>LogoutButton.tsx\<close> of the React SDK.
  \<^item> \<open>Parents\<close>: sets in insertion order and the loop from a record to its parents, with the interface
    \<open>parent_chain\<close> that says when it ends; used by \<open>Role_Matrix\<close> and \<open>Org_Tree\<close>.
  \<^item> \<open>Org_Tree\<close>: \<open>console/src/app/organizations/tree\<close>; \<open>buildTree\<close> is shown to implement the forest of
    the parent relation.
  \<^item> \<open>Audit_Query\<close>: the condition trees of \<open>console/src/app/audit/advanced\<close>; \<open>Audit_Analysis\<close>: alerts,
    groups, export and reports of \<open>console/src/app/audit\<close> and its pages \<open>visualization\<close>, \<open>reports\<close>,
    \<open>timeline\<close> and \<open>user-timeline\<close>.
  \<^item> \<open>Login\<close>: \<open>console/src/app/login\<close>, \<open>console/src/app/auth/callback\<close>, \<open>console/src/app/setup\<close> and
    \<open>console/src/components/auth/passwordless-login.tsx\<close>.
  \<^item> \<open>I18n\<close>: \<open>console/src/lib/i18n.tsx\<close>, \<open>console/src/lib/i18n/index.ts\<close> and \<open>console/src/lib/theme.tsx\<close>.
  \<^item> \<open>Impersonation\<close>: \<open>console/src/app/admin/impersonate\<close> and \<open>components/impersonation-banner.tsx\<close>.
  \<^item> \<open>Widgets\<close>: notifications, confirmation dialog, page numbers, command palette, tenant switcher and
    passkey prompt of \<open>console/src/components\<close>, and \<open>lib/safe-array.ts\<close>.
  \<^item> \<open>Passwords\<close>: \<open>console/src/app/settings/password-strength\<close> and \<open>console/src/app/settings/password\<close>.
  \<^item> \<open>Sessions\<close>, \<open>Users_Page\<close>, \<open>Roles_Page\<close>, \<open>Perm_Matrix\<close>, \<open>Policy_Editor\<close>, \<open>Policy_Builder\<close>, \<open>Organizations\<close>: the
    pages \<open>sessions\<close>, \<open>users\<close>, \<open>roles\<close> with \<open>roles/[id]\<close>, \<open>roles/permission-matrix\<close>, \<open>policies\<close>, \<open>policies/builder\<close> and
    \<open>organizations\<close> of \<open>console/src/app\<close>: their state, loading, handlers, tables and trees.
  \<^item> \<open>Conditional_Access\<close>, \<open>Webhooks\<close>, \<open>User_Detail\<close>, \<open>OAuth_Clients\<close>, \<open>Bulk_Import\<close>, \<open>Api_Explorer\<close>: the pages
    \<open>settings/conditional-access\<close> with its policy tester, \<open>webhooks\<close>, \<open>users/[id]\<close>, \<open>settings/oauth-clients\<close>,
    \<open>settings/import-wizard\<close> and \<open>api-explorer\<close>.
  \<^item> \<open>Onboarding\<close>, \<open>Api_Keys\<close>, \<open>Access_Requests\<close>, \<open>Hash_Chain\<close>, \<open>Tenants_Page\<close>: the pages \<open>onboarding\<close> (a step relation with the
    registration under way), \<open>api-keys\<close>, \<open>access-requests\<close> (with loads that overtake each other), \<open>audit/hash-chain\<close> and
    \<open>admin/tenants\<close>, whose addresses \<open>Tenant\<close> reads back.
  \<^item> \<open>Admin_Pages\<close>, \<open>Client_List\<close>: the pages \<open>admin/feature-flags\<close>, \<open>users/reassignment\<close>, \<open>settings/platform-access\<close> and
    \<open>oauth-clients\<close> with its search and pages.
  \<^item> \<open>Uri_Codec\<close>, \<open>Profile\<close>, \<open>Mfa_Page\<close>, \<open>Passkey_Pages\<close>: \<open>decodeURIComponent\<close> with its round trip, and the pages \<open>profile\<close>,
    \<open>settings/mfa\<close>, \<open>settings/passkey-management\<close> and \<open>profile/security\<close>; their codecs are further interpretations of \<open>byte_codec\<close>.
  \<^item> \<open>Saml\<close>: \<open>sdk/react/src/saml.ts\<close>.
  \<^item> \<open>Sdk_Provider\<close>: \<open>sdk/react/src/GGIDProvider.tsx\<close> as a step relation, the permission hooks
    and the route components.
  \<^item> \<open>Sdk_Hooks\<close>, \<open>Sdk_Local_Hooks\<close>, \<open>Sdk_Admin_Hooks\<close>: 22 resource hooks \<open>sdk/react/src/use*.ts\<close>, by
    the pattern each follows; the interfaces \<open>refetching\<close> and \<open>keyed_list\<close> state what a change with
    a reload and what a local update promise.
  \<^item> \<open>Sdk_Config_Hooks\<close>: 74 hooks \<open>sdk/react/src/use*.ts\<close> that read and write one configuration or read
    one statistics object, and the pattern of the hooks with demonstration data with one instance;
    \<open>Sdk_Demo_Hooks\<close>: 97 more of these, 29 of them with actions.
  \<^item> \<open>Hook_Ops\<close>: the statements of which the operations of the other resource hooks are made, and the interface \<open>op_rule\<close> of a property that
    can be proved along them; \<open>Hooks_Auth\<close>, \<open>Hooks_Plain_A\<close>, \<open>Hooks_Plain_B\<close>: the operations of 207 hooks \<open>sdk/react/src/use*.ts\<close>, written with
    these statements; \<open>Hooks_Contract\<close>: what holds of every sequence of calls of them.
  \<^item> \<open>Audit_Stream\<close>: \<open>sdk/react/src/useAuditStream.ts\<close> as a step relation.
  \<^item> \<open>Rn_Client\<close>: \<open>sdk/react-native/src/client.ts\<close>; the secure store and the auth-session package
    are arguments, the store with the laws of \<open>kv_store\<close>.

  \<^bold>\<open>How code becomes definitions.\<close>  A function that awaits requests is a function from the world
  (storage, sent requests, dispatched events, outside state) to a result and a new world; an
  exception is a value (\<open>Inl\<close>, or \<open>None\<close> where the code only catches it).  React state is a record,
  a handler a function on it; a state setter followed by a render is an update.  Where operations
  of one component can overlap (the SDK provider, the audit stream, loading a language, notifications and
  their timers, the confirmation dialog, the import wizard, self-registration, the health monitor, the switches of webhooks) each part between two awaits is
  one step of a relation and the properties quantify over all interleavings; elsewhere a handler
  runs to its end.  Requests started together by \<open>Promise.all\<close> are sent in order before an answer is
  read, or, when each is followed by its own handler, one after the other.  Clocks and random values are arguments; the
  identifiers of audit queries are built from them and may coincide.  The addresses of the API explorer pass the part of the URL parser that
  resolves dot segments; other addresses have fixed paths or are kept as the texts given to \<open>fetch\<close>.  Characters are the code
  units below 256 and numbers are integers.

  \<^bold>\<open>What the properties show.\<close>  Safety of the guard and of the sign-in flows (a protected page needs
  a verified token, a form stores only what the server granted, a passkey login or upgrade is reported only
  after the whole ceremony, a logout is final, a registration is sent only from a checked form, what the operations of the SDK hooks send and leave behind); the number and order of requests (\<open>apiFetch\<close>
  never loops, the provider refreshes once at a time, one revocation per session); agreement of
  components (the codecs, the slug readers, sidebar, palette and guard, announced and resolved tenant addresses); refinement (the organization tree, the hierarchy of roles, the verdicts of the middleware as the last answers of the API);
  where the identifiers of audit queries come from under every sequence of edits; liveness (a chosen language is
  shown or, after a failed load, English; a notification goes away, the health of the server is asked for again); round trips (encoders, JSON bodies,
  sessions, CSV lines, metadata, the password policy); termination, where the code ends and where it does not; and, as
  theorems about the code as it is, the defects that the findings of the manifest list.

  \<^bold>\<open>Fuel and termination.\<close>  The JSON parser takes the length of its input as fuel, which its round
  trip shows to be enough for every printed value.  \<open>getSession\<close> and \<open>logout\<close> of the React Native
  client call each other and take the recursion depth as an argument: depth one or two is enough
  for a live session, no depth is enough for an expired one that cannot be refreshed.  The loops over
  the parents of a role and of an organization are partial functions with the result \<open>None\<close> where they
  do not end.  The recursion of \<open>buildTree\<close> over linked nodes takes its depth as fuel, and the number of organizations is
  shown to be enough; the same holds for the hierarchy of the roles page.  All
  other recursions are structural or have a measure.

  \<^bold>\<open>Not modelled\<close>: the Go services and the other SDKs (other languages), the message dictionaries
  (data, a parameter of \<open>I18n\<close>), the markup of pages and components, the remaining pages of the console, the
  remaining SDK hooks, timers that only dismiss
  messages on pages, static types beyond what the code tests.  The hooks left out have
  demonstration data that are not plain literals (fractions, computed lists), or downloads, forms, dates or parallel requests.
\<close>

section \<open>Token refresh and the guard\<close>

text \<open>C4. A refreshed token takes effect in the guard exactly when its payload happens to be plain base64:
  after \<open>apiFetch\<close> stored a refreshed token whose payload grants the scopes \<open>ss\<close>, the guard decides
  by \<open>ss\<close> if the base64url encoding of the payload contains neither \<open>-\<close> nor \<open>_\<close>; otherwise the payload
  is not decoded, the scopes of the old token stay in force, and the guard decides as before,
  although the new token is stored and used.\<close>

theorem refresh_reaches_guard:
  assumes "has_window w" "CHR ''.'' \<notin> set h"
    and "js_opt_prop tokens ''access_token'' = JStr (h @ CHR ''.'' # bufferToB64url bs @ CHR ''.'' # sig)"
    and "json_parse (bin_of bs) = Some (JObj kvs)" "js_opt_prop (JObj kvs) ''scopes'' = JArr (map JStr ss)"
  shows "getAuthToken (store_tokens tokens w) = Some (h @ CHR ''.'' # bufferToB64url bs @ CHR ''.'' # sig) \<and>
    route_check p (store_tokens tokens w) =
      (if CHR ''-'' \<in> set (bufferToB64url bs) \<or> CHR ''_'' \<in> set (bufferToB64url bs) then route_check p w
       else Some (route_allowed p (\<exists>s \<in> set ss. platform_name s) (\<exists>s \<in> set ss. guard_tenant_name s)))"
proof -
  let ?enc = "bufferToB64url bs" and ?at = "h @ CHR ''.'' # bufferToB64url bs @ CHR ''.'' # sig"
  have "split_on (CHR ''.'') ?at = h # ?enc # split_on (CHR ''.'') sig"
    using assms(2) bufferToB64url_no_dot[of bs] by (simp add: split_on_sep)
  then have payload: "jwt_payload (JStr ?at) =
      (if CHR ''-'' \<in> set ?enc \<or> CHR ''_'' \<in> set ?enc then None else Some (JObj kvs))"
    using assms(4) by (simp add: jwt_payload_def atob_b64url)
  have token: "getAuthToken (store_tokens tokens w) = Some ?at"
    using assms(1,3) store_tokens_access[of tokens w] by (simp add: getAuthToken_def)
  show ?thesis
  proof (cases "CHR ''-'' \<in> set ?enc \<or> CHR ''_'' \<in> set ?enc")
    case True
    then have "local_store (store_tokens tokens w) ''ggid_user_scopes'' = local_store w ''ggid_user_scopes''"
      using assms(3) payload by (simp add: store_tokens_def store_scopes_def Let_def)
    then show ?thesis using True token by (simp add: route_check_def guard_scopes_def)
  next
    case False
    then have "stores_scopes (store_tokens tokens w) ss"
      using assms(1,3,5) payload by (simp add: store_tokens_def store_scopes_def Let_def stores_scopes_def js_or_def is_array_def)
    then show ?thesis using False token by (simp add: route_check_stored list_ex_iff)
  qed
qed

text \<open>A demoted administrator: the refreshed token grants only \<open>user\<close>, but its payload contains a
  question mark whose encoding has an underscore, so the guard still opens the users page.\<close>

theorem refresh_reaches_guard_witness:
  "let payload = ''{\"scopes\":[\"user\"],\"abc\":\"?\"}'';
       at = ''h'' @ CHR ''.'' # bufferToB64url (bytes_of payload) @ CHR ''.'' # ''s'';
       w = page [''ggid_user_scopes'' \<mapsto> json_stringify (JArr [JStr ''manager''])] ();
       tokens = JObj [(''access_token'', JStr at)] in
   getAuthToken (store_tokens tokens w) = Some at \<and>
   route_check ''/users'' (store_tokens tokens w) =
      (if CHR ''-'' \<in> set (bufferToB64url (bytes_of payload)) \<or> CHR ''_'' \<in> set (bufferToB64url (bytes_of payload))
       then route_check ''/users'' w
       else Some (route_allowed ''/users'' (\<exists>s \<in> set [''user'']. platform_name s) (\<exists>s \<in> set [''user'']. guard_tenant_name s))) \<and>
   CHR ''_'' \<in> set (bufferToB64url (bytes_of payload)) \<and> route_check ''/users'' w = Some True"
proof -
  let ?b = "bytes_of ''{\"scopes\":[\"user\"],\"abc\":\"?\"}''"
  let ?w = "page [''ggid_user_scopes'' \<mapsto> json_stringify (JArr [JStr ''manager''])] ()"
  have tok: "js_opt_prop (JObj [(''access_token'', JStr (''h'' @ CHR ''.'' # bufferToB64url ?b @ CHR ''.'' # ''s''))]) ''access_token'' =
      JStr (''h'' @ CHR ''.'' # bufferToB64url ?b @ CHR ''.'' # ''s'')" by simp
  have parse: "json_parse (bin_of ?b) = Some (JObj [(''scopes'', JArr (map JStr [''user''])), (''abc'', JStr ''?'')])"
    by code_simp
  have u: "CHR ''_'' \<in> set (bufferToB64url ?b)" by code_simp
  have "list_ex guard_tenant_name [''manager'']" "route_allowed ''/users'' (list_ex platform_name [''manager'']) True"
    by code_simp+
  then have r: "route_check ''/users'' ?w = Some True"
    using route_check_stored[of ?w "[''manager'']" "''/users''"] by (simp add: stores_scopes_def)
  have "has_window ?w" "CHR ''.'' \<notin> set ''h''"
    "js_opt_prop (JObj [(''scopes'', JArr (map JStr [''user''])), (''abc'', JStr ''?'')]) ''scopes'' = JArr (map JStr [''user''])"
    by simp_all
  from refresh_reaches_guard[OF this(1,2) tok parse this(3)] u r show ?thesis unfolding Let_def by blast
qed

section \<open>Impersonation from the page of a user\<close>

text \<open>C5. Impersonation from the page of a user replaces the access token and nothing else: requests are sent with the token of the user, but
  the guard decides every route by the scopes that were stored before, and the refresh token is still the one stored before.  When the
  borrowed token is answered with 401 and the refresh is accepted, the stored token is the one issued for that refresh token: the
  impersonation has ended without notice.\<close>

theorem impersonation_borrows_token:
  assumes "apiFetch E base tenant (user_path i ''/impersonate'') bare_post w = (Inr resp, w1)" "has_window w1"
    and "js_or (js_opt_prop resp ''token'') (js_opt_prop resp ''access_token'') = JStr tok" "tok \<noteq> []"
    and "w' = snd (ud_handleImpersonate E base tenant i (p, w))"
  shows "getAuthToken w' = Some tok \<and> (\<forall>path. route_check path w' = route_check path w1) \<and>
    local_store w' ''ggid_refresh_token'' = local_store w1 ''ggid_refresh_token'' \<and>
    (\<forall>rt path opts b1 w2 st tbody w3 tokens.
       local_store w1 ''ggid_refresh_token'' = Some rt \<and> rt \<noteq> [] \<and> \<not> str_includes path ''/auth/'' \<and>
       fetch E (api_request base path opts (api_headers tenant opts w')) w' = (Resp 401 b1, w2) \<and>
       fetch E (refresh_request base rt) w2 = (Resp st tbody, w3) \<and> resp_ok st \<and>
       json_parse tbody = Some tokens \<and> truthy (js_opt_prop tokens ''access_token'') \<longrightarrow>
       getAuthToken (snd (apiFetch E base tenant path opts w')) = Some (js_to_string (js_opt_prop tokens ''access_token'')))"
proof -
  have w': "w' = set_item ''ggid_access_token'' tok w1" using impersonate_store[OF assms(1,3,4)] assms(5) by simp
  have "route_check path w' = route_check path w1" for path by (simp add: w' route_check_def guard_scopes_def set_item_def)
  moreover have "getAuthToken w' = Some tok" "has_window w'" "local_store w' ''ggid_refresh_token'' = local_store w1 ''ggid_refresh_token''"
    using assms(2) by (simp_all add: w' getAuthToken_def set_item_def)
  ultimately show ?thesis using apiFetch_401_stored by metis
qed

theorem impersonation_borrows_token_witness:
  "let st = [''ggid_user_scopes'' \<mapsto> json_stringify (JArr [JStr ''platform:admin'']), ''ggid_refresh_token'' \<mapsto> ''r''];
       w' = snd (ud_handleImpersonate scripted [] [] ''7'' (user_detail_init, page st [Resp 200 ''{\"token\":\"t\"}'', Resp 401 [], Resp 200 ''{\"access_token\":\"a\"}''])) in
   getAuthToken w' = Some ''t'' \<and> route_check ''/admin/tenants'' w' = Some True \<and>
   getAuthToken (snd (apiFetch scripted [] [] ''/api/v1/users'' no_options w')) = Some ''a''"
proof -
  let ?st = "[''ggid_user_scopes'' \<mapsto> json_stringify (JArr [JStr ''platform:admin'']), ''ggid_refresh_token'' \<mapsto> ''r'']"
  let ?w = "page ?st [Resp 200 ''{\"token\":\"t\"}'', Resp 401 [], Resp 200 ''{\"access_token\":\"a\"}'']"
  let ?v = "JObj [(''token'', JStr ''t'')]" and ?w' = "snd (ud_handleImpersonate scripted [] [] ''7'' (user_detail_init, ?w))"
  have "json_parse ''{\"token\":\"t\"}'' = Some ?v" by code_simp
  then obtain w1 where a: "apiFetch scripted [] [] (user_path ''7'' ''/impersonate'') bare_post ?w = (Inr ?v, w1)"
    and w1: "local_store w1 = ?st" "has_window w1" "outside w1 = [Resp 401 [], Resp 200 ''{\"access_token\":\"a\"}'']"
    by (simp add: apiFetch_def Let_def fetch_scripted resp_ok_def)
  have t: "js_or (js_opt_prop ?v ''token'') (js_opt_prop ?v ''access_token'') = JStr ''t''" by (simp add: js_opt_prop_def js_or_def)
  note i = impersonation_borrows_token[OF a w1(2) t _ refl, of user_detail_init, simplified]
  have "route_allowed ''/admin/tenants'' (list_ex platform_name [''platform:admin'']) (list_ex guard_tenant_name [''platform:admin''])" by code_simp
  then have "route_check ''/admin/tenants'' w1 = Some True"
    using route_check_stored[of w1 "[''platform:admin'']" "''/admin/tenants''"] w1(1,2) by (simp add: stores_scopes_def)
  moreover have "outside ?w' = outside w1" "has_window ?w'"
    using impersonate_store[OF a t] w1(2) by (simp_all add: set_item_def)
  moreover have "\<not> str_includes ''/api/v1/users'' ''/auth/''" by code_simp
  ultimately show ?thesis unfolding Let_def using i w1 json_parse_access_token fetch_scripted
    by (simp add: resp_ok_def)
qed

end
